(* ===== verification/Go_Base.thy ===== *)
theory Go_Base
  imports Main
begin

text \<open>
  What every component of the model shares: Go errors as values, instants and durations,
  and the state-passing operations in which a service calls its interfaces.

  \<^item> An error is a value of type \<open>go_error\<close>: \<open>Errorf\<close> keeps the format string and the
    arguments of a \<open>fmt.Errorf\<close> call, \<open>Wrapf\<close> the format string and the error behind \<open>%w\<close>,
    and \<open>Sentinel\<close> a package-level \<open>errors.New\<close> value. \<open>errors_Is\<close> follows the chain of
    wrapped errors as \<open>errors.Is\<close> does.
  \<^item> An instant is the number of nanoseconds since Go's zero time; \<open>UTC()\<close> changes only the
    location an instant is shown in, so it is the identity on instants.
  \<^item> An operation of type \<open>('w, 'a) op\<close> takes the world its interfaces live in and returns an
    error or a value together with the new world. The world of an operation that returned an
    error is kept: what was written before the error stays written.
  \<^item> \<open>wp m Q E w\<close> says that \<open>m\<close>, started in \<open>w\<close>, ends in \<open>Q\<close> with its value or in \<open>E\<close>
    with its error. The equations in \<open>wp_simps\<close> compute it over the combinators.
\<close>

named_theorems wp_simps \<open>equations that push wp through the combinators\<close>

section \<open>Errors\<close>

datatype go_error =
    Errorf string "string list"
  | Wrapf string go_error
  | Sentinel string

fun errors_Is :: "go_error \<Rightarrow> go_error \<Rightarrow> bool" where
  "errors_Is (Wrapf m e) target = (Wrapf m e = target \<or> errors_Is e target)"
| "errors_Is e target = (e = target)"

lemma errors_Is_refl [simp]: "errors_Is e e"
  by (cases e) auto

lemma errors_Is_wrapped [simp]: "errors_Is (Wrapf m (Sentinel s)) (Sentinel s)"
  by simp

section \<open>Instants and durations\<close>

type_synonym time = int
type_synonym duration = int

definition zero_time :: time where
  "zero_time = 0"

definition IsZero :: "time \<Rightarrow> bool" where
  "IsZero t = (t = zero_time)"

definition UTC :: "time \<Rightarrow> time" where
  "UTC t = t"

declare UTC_def [simp]

abbreviation After :: "time \<Rightarrow> time \<Rightarrow> bool" where
  "After t u \<equiv> u < t"

abbreviation Before :: "time \<Rightarrow> time \<Rightarrow> bool" where
  "Before t u \<equiv> t < u"

definition Second :: duration where
  "Second = 1000000000"

definition Minute :: duration where
  "Minute = 60 * Second"

definition Hour :: duration where
  "Hour = 60 * Minute"

lemmas duration_defs = Second_def Minute_def Hour_def

lemma durations_positive [simp]: "0 < Second" "0 < Minute" "0 < Hour"
  by (simp_all add: duration_defs)

lemma IsZero_iff [simp]: "IsZero t \<longleftrightarrow> t = 0"
  by (simp add: IsZero_def zero_time_def)

section \<open>State-passing operations with errors\<close>

type_synonym ('w, 'a) op = "'w \<Rightarrow> (go_error + 'a) \<times> 'w"
type_synonym ('w, 'a) effect = "'w \<Rightarrow> 'a \<times> 'w"

definition ret :: "'a \<Rightarrow> ('w, 'a) op" where
  "ret a w = (Inr a, w)"

definition fail :: "go_error \<Rightarrow> ('w, 'a) op" where
  "fail e w = (Inl e, w)"

definition bindE :: "('w, 'a) op \<Rightarrow> ('a \<Rightarrow> ('w, 'b) op) \<Rightarrow> ('w, 'b) op" where
  "bindE m f w = (case m w of (Inl e, w') \<Rightarrow> (Inl e, w') | (Inr a, w') \<Rightarrow> f a w')"

text \<open>\<open>if err := m; err != nil { return fmt.Errorf(msg + ": %w", err) }\<close>.\<close>

definition wrapE :: "string \<Rightarrow> ('w, 'a) op \<Rightarrow> ('w, 'a) op" where
  "wrapE msg m w = (case m w of (Inl e, w') \<Rightarrow> (Inl (Wrapf msg e), w') | (Inr a, w') \<Rightarrow> (Inr a, w'))"

text \<open>An effect that cannot fail (a clock, an identifier generator).\<close>

definition liftE :: "('w, 'a) effect \<Rightarrow> ('w, 'a) op" where
  "liftE f w = (case f w of (a, w') \<Rightarrow> (Inr a, w'))"

text \<open>\<open>_ = m\<close>: the error is dropped, the world is kept.\<close>

definition ignoreE :: "('w, 'a) op \<Rightarrow> ('w, unit) op" where
  "ignoreE m w = (case m w of (_, w') \<Rightarrow> (Inr (), w'))"

text \<open>\<open>if guard { return err }\<close>.\<close>

definition failIf :: "bool \<Rightarrow> go_error \<Rightarrow> ('w, unit) op" where
  "failIf b e = (if b then fail e else ret ())"

text \<open>A pure check that returned an error value, or nil.\<close>

definition check :: "go_error option \<Rightarrow> ('w, unit) op" where
  "check r = (case r of None \<Rightarrow> ret () | Some e \<Rightarrow> fail e)"

text \<open>A pure computation that returned a value or an error.\<close>

definition pureE :: "go_error + 'a \<Rightarrow> ('w, 'a) op" where
  "pureE r = (case r of Inl e \<Rightarrow> fail e | Inr a \<Rightarrow> ret a)"

text \<open>\<open>x, err := m\<close> where the code goes on in both cases.\<close>

definition attemptE :: "('w, 'a) op \<Rightarrow> ('w, go_error + 'a) op" where
  "attemptE m w = (case m w of (r, w') \<Rightarrow> (Inr r, w'))"

text \<open>A nil interface or function value is an absent option.\<close>

definition required :: "'a option \<Rightarrow> go_error \<Rightarrow> ('w, 'a) op" where
  "required x e = (case x of None \<Rightarrow> fail e | Some a \<Rightarrow> ret a)"

text \<open>The first error of a list of guarded checks, in order: \<open>if c1 { return e1 } if c2 ...\<close>.\<close>

fun first_error :: "(bool \<times> go_error) list \<Rightarrow> go_error option" where
  "first_error [] = None"
| "first_error ((b, e) # rest) = (if b then Some e else first_error rest)"

lemma first_error_None: "first_error cs = None \<longleftrightarrow> (\<forall>(b, e) \<in> set cs. \<not> b)"
  by (induction cs rule: first_error.induct) auto

section \<open>Weakest preconditions\<close>

definition wp :: "('w, 'a) op \<Rightarrow> ('a \<Rightarrow> 'w \<Rightarrow> bool) \<Rightarrow> (go_error \<Rightarrow> 'w \<Rightarrow> bool) \<Rightarrow> 'w \<Rightarrow> bool" where
  "wp m Q E w = (case m w of (Inl e, w') \<Rightarrow> E e w' | (Inr a, w') \<Rightarrow> Q a w')"

lemma wp_ret [wp_simps]: "wp (ret a) Q E w = Q a w"
  by (simp add: wp_def ret_def)

lemma wp_fail [wp_simps]: "wp (fail e) Q E w = E e w"
  by (simp add: wp_def fail_def)

lemma wp_bindE [wp_simps]: "wp (bindE m f) Q E w = wp m (\<lambda>a. wp (f a) Q E) E w"
  by (simp add: wp_def bindE_def split: prod.split sum.split)

lemma wp_wrapE [wp_simps]: "wp (wrapE s m) Q E w = wp m Q (\<lambda>e. E (Wrapf s e)) w"
  by (simp add: wp_def wrapE_def split: prod.split sum.split)

lemma wp_liftE [wp_simps]: "wp (liftE f) Q E w = (case f w of (a, w') \<Rightarrow> Q a w')"
  by (simp add: wp_def liftE_def split: prod.split)

lemma wp_ignoreE [wp_simps]: "wp (ignoreE m) Q E w = wp m (\<lambda>_. Q ()) (\<lambda>_. Q ()) w"
  by (simp add: wp_def ignoreE_def split: prod.split sum.split)

lemma wp_failIf [wp_simps]: "wp (failIf b e) Q E w = (if b then E e w else Q () w)"
  by (simp add: failIf_def wp_simps)

lemma wp_check [wp_simps]: "wp (check r) Q E w = (case r of None \<Rightarrow> Q () w | Some e \<Rightarrow> E e w)"
  by (simp add: check_def wp_simps split: option.split)

lemma wp_pureE [wp_simps]: "wp (pureE r) Q E w = (case r of Inl e \<Rightarrow> E e w | Inr a \<Rightarrow> Q a w)"
  by (simp add: pureE_def wp_simps split: sum.split)

lemma wp_attemptE [wp_simps]:
  "wp (attemptE m) Q E w = wp m (\<lambda>a. Q (Inr a)) (\<lambda>e. Q (Inl e)) w"
  by (simp add: wp_def attemptE_def split: prod.split sum.split)

lemma wp_required [wp_simps]:
  "wp (required x e) Q E w = (case x of None \<Rightarrow> E e w | Some a \<Rightarrow> Q a w)"
  by (simp add: required_def wp_simps split: option.split)

lemma wp_if [wp_simps]:
  "wp (if b then m else m') Q E w = (if b then wp m Q E w else wp m' Q E w)"
  by simp

lemma wp_case_option [wp_simps]:
  "wp (case x of None \<Rightarrow> m | Some a \<Rightarrow> f a) Q E w =
   (case x of None \<Rightarrow> wp m Q E w | Some a \<Rightarrow> wp (f a) Q E w)"
  by (simp split: option.split)

lemma wp_case_sum [wp_simps]:
  "wp (case x of Inl e \<Rightarrow> g e | Inr a \<Rightarrow> f a) Q E w =
   (case x of Inl e \<Rightarrow> wp (g e) Q E w | Inr a \<Rightarrow> wp (f a) Q E w)"
  by (simp split: sum.split)

lemma wp_case_prod [wp_simps]:
  "wp (case p of (a, b) \<Rightarrow> f a b) Q E w = (case p of (a, b) \<Rightarrow> wp (f a b) Q E w)"
  by (simp split: prod.split)

lemma wp_let [wp_simps]: "wp (let x = t in m x) Q E w = wp (m t) Q E w"
  by (simp add: Let_def)

lemma wp_mono:
  assumes "wp m Q E w"
    and "\<And>a w'. Q a w' \<Longrightarrow> Q' a w'"
    and "\<And>e w'. E e w' \<Longrightarrow> E' e w'"
  shows "wp m Q' E' w"
  using assms by (auto simp: wp_def split: prod.splits sum.splits)

lemma wpI:
  assumes "\<And>e w'. m w = (Inl e, w') \<Longrightarrow> E e w'"
    and "\<And>a w'. m w = (Inr a, w') \<Longrightarrow> Q a w'"
  shows "wp m Q E w"
  using assms by (auto simp: wp_def split: prod.splits sum.splits)

lemma wp_InrD: "wp m Q E w \<Longrightarrow> m w = (Inr a, w') \<Longrightarrow> Q a w'"
  by (simp add: wp_def)

lemma wp_InlD: "wp m Q E w \<Longrightarrow> m w = (Inl e, w') \<Longrightarrow> E e w'"
  by (simp add: wp_def)

lemma wp_worldD: "wp m (\<lambda>_. P) (\<lambda>_. P) w \<Longrightarrow> P (snd (m w))"
  by (auto simp: wp_def split: prod.splits sum.splits)

section \<open>Evaluating operations\<close>

lemmas op_defs = ret_def fail_def bindE_def wrapE_def liftE_def ignoreE_def failIf_def
  check_def pureE_def attemptE_def required_def

lemma bindE_assoc: "bindE (bindE m f) g = bindE m (\<lambda>a. bindE (f a) g)"
  by (rule ext) (simp add: bindE_def split: prod.split sum.split)

lemma bindE_ret [simp]: "bindE (ret a) f = f a" "bindE m ret = m"
  by (auto simp: bindE_def ret_def fun_eq_iff split: prod.split sum.split)

lemma bindE_fail [simp]: "bindE (fail e) f = fail e"
  by (rule ext) (simp add: bindE_def fail_def)

section \<open>Clocks, identifier generators and a world with faults\<close>

text \<open>
  \<open>if s.Clock != nil { return s.Clock().UTC() }; return time.Now().UTC()\<close>: every service has
  this method. The runtime's own clock is the second argument.
\<close>

definition clock_now :: "('w, time) effect option \<Rightarrow> ('w, time) effect \<Rightarrow> ('w, time) op" where
  "clock_now clock system =
     bindE (liftE (case clock of Some c \<Rightarrow> c | None \<Rightarrow> system)) (\<lambda>t. ret (UTC t))"

text \<open>
  The environment of an in-memory provider: a schedule that says of each interface call whether
  it fails before it does anything, a clock that moves forward by the scheduled amount after
  each reading, and the identifiers a generator hands out.
\<close>

record env =
  env_faults :: "bool list"
  env_clock :: time
  env_ticks :: "nat list"
  env_ids :: "string list"

definition injected_fault :: go_error where
  "injected_fault = Errorf ''injected fault'' []"

definition with_fault :: "('x env_scheme, 'a) op \<Rightarrow> ('x env_scheme, 'a) op" where
  "with_fault m w =
     (case env_faults w of
        [] \<Rightarrow> m w
      | b # fs \<Rightarrow> if b then (Inl injected_fault, w\<lparr>env_faults := fs\<rparr>) else m (w\<lparr>env_faults := fs\<rparr>))"

definition read_clock :: "('x env_scheme, time) effect" where
  "read_clock w =
     (env_clock w,
      (case env_ticks w of
         [] \<Rightarrow> w
       | n # ns \<Rightarrow> w\<lparr>env_clock := env_clock w + int n, env_ticks := ns\<rparr>))"

definition next_id :: "('x env_scheme, string) effect" where
  "next_id w =
     (case env_ids w of
        [] \<Rightarrow> ([], w)
      | i # ids \<Rightarrow> (i, w\<lparr>env_ids := ids\<rparr>))"

lemma wp_clock_now [wp_simps]:
  "wp (clock_now clock system) Q E w =
     (case (case clock of Some c \<Rightarrow> c | None \<Rightarrow> system) w of (t, w') \<Rightarrow> Q t w')"
  by (simp add: clock_now_def wp_simps split: prod.split)

lemma with_fault_wp:
  assumes "\<And>fs. E injected_fault (w\<lparr>env_faults := fs\<rparr>)"
    and "wp m Q E w"
    and "\<And>fs. wp m Q E (w\<lparr>env_faults := fs\<rparr>)"
  shows "wp (with_fault m) Q E w"
  using assms by (auto simp: wp_def with_fault_def split: list.split)

lemma wp_with_fault:
  "wp (with_fault m) Q E w =
     (case env_faults w of
        [] \<Rightarrow> wp m Q E w
      | b # fs \<Rightarrow> if b then E injected_fault (w\<lparr>env_faults := fs\<rparr>)
                  else wp m Q E (w\<lparr>env_faults := fs\<rparr>))"
  by (simp add: wp_def with_fault_def split: list.split)

lemma with_fault_none [simp]: "env_faults w = [] \<Longrightarrow> with_fault m w = m w"
  by (simp add: with_fault_def)

section \<open>Maps\<close>

lemma map_upd_eq_Some: "(m(k \<mapsto> v)) j = Some x \<longleftrightarrow> (if j = k then x = v else m j = Some x)"
  by auto

end
