(* ===== verification/Go_Strings.thy ===== *)
theory Go_Strings
  imports Go_Base "HOL-Library.Sublist"
begin

text \<open>
  Go strings are byte sequences; here they are Isabelle's \<open>string\<close>, whose characters are bytes.
  The theory models the functions of the packages \<open>strings\<close> and \<open>bytes\<close> the code calls.

  \<^item> \<open>TrimSpace\<close> removes the white space of \<open>unicode.IsSpace\<close> at both ends; \<open>space_runes\<close> lists
    those runes in UTF-8. No rune's encoding is a proper part of another's, so matching the
    encodings at an end of the byte string is what decoding a rune there does.
  \<^item> \<open>ToLower\<close> and \<open>EqualFold\<close> are exact where their result is compared with ASCII text, the only
    use the code makes of them besides storing a lower-cased e-mail address: ASCII letters are
    mapped, and so are the runes outside ASCII that map to an ASCII letter; the bytes of every
    other rune are left as they are (Go maps them to bytes outside ASCII).
\<close>

section \<open>Trimming\<close>

function strip_front :: "string list \<Rightarrow> string \<Rightarrow> string" where
  "strip_front pats s =
     (case find (\<lambda>p. p \<noteq> [] \<and> take (length p) s = p) pats of
        None \<Rightarrow> s
      | Some p \<Rightarrow> strip_front pats (drop (length p) s))"
  by pat_completeness auto
termination
proof (relation "measure (\<lambda>(pats, s). length s)")
  fix pats :: "string list" and s p :: string
  assume "find (\<lambda>p. p \<noteq> [] \<and> take (length p) s = p) pats = Some p"
  then have "p \<noteq> []" "take (length p) s = p"
    by (auto simp: find_Some_iff)
  then have "length p > 0" "s \<noteq> []" by auto
  then show "((pats, drop (length p) s), (pats, s)) \<in> measure (\<lambda>(pats, s). length s)"
    by simp
qed simp

declare strip_front.simps [simp del]

definition strip_back :: "string list \<Rightarrow> string \<Rightarrow> string" where
  "strip_back pats s = rev (strip_front (map rev pats) (rev s))"

definition space_runes :: "string list" where
  "space_runes =
     [[CHR 0x20], [CHR 0x09], [CHR 0x0A], [CHR 0x0B], [CHR 0x0C], [CHR 0x0D],
      [CHR 0xC2, CHR 0x85], [CHR 0xC2, CHR 0xA0], [CHR 0xE1, CHR 0x9A, CHR 0x80],
      [CHR 0xE2, CHR 0x80, CHR 0x80], [CHR 0xE2, CHR 0x80, CHR 0x81],
      [CHR 0xE2, CHR 0x80, CHR 0x82], [CHR 0xE2, CHR 0x80, CHR 0x83],
      [CHR 0xE2, CHR 0x80, CHR 0x84], [CHR 0xE2, CHR 0x80, CHR 0x85],
      [CHR 0xE2, CHR 0x80, CHR 0x86], [CHR 0xE2, CHR 0x80, CHR 0x87],
      [CHR 0xE2, CHR 0x80, CHR 0x88], [CHR 0xE2, CHR 0x80, CHR 0x89],
      [CHR 0xE2, CHR 0x80, CHR 0x8A], [CHR 0xE2, CHR 0x80, CHR 0xA8],
      [CHR 0xE2, CHR 0x80, CHR 0xA9], [CHR 0xE2, CHR 0x80, CHR 0xAF],
      [CHR 0xE2, CHR 0x81, CHR 0x9F], [CHR 0xE3, CHR 0x80, CHR 0x80]]"

definition TrimSpace :: "string \<Rightarrow> string" where
  "TrimSpace s = strip_back space_runes (strip_front space_runes s)"

text \<open>\<open>strings.Trim\<close>, \<open>TrimRight\<close> with a cutset of one ASCII character.\<close>

definition TrimChar :: "char \<Rightarrow> string \<Rightarrow> string" where
  "TrimChar c s = strip_back [[c]] (strip_front [[c]] s)"

definition TrimRightChar :: "char \<Rightarrow> string \<Rightarrow> string" where
  "TrimRightChar c s = strip_back [[c]] s"

definition TrimPrefix :: "string \<Rightarrow> string \<Rightarrow> string" where
  "TrimPrefix s p = (if take (length p) s = p then drop (length p) s else s)"

lemma strip_front_suffix: "suffix (strip_front pats s) s"
proof (induction pats s rule: strip_front.induct)
  case (1 pats s)
  show ?case
  proof (cases "find (\<lambda>p. p \<noteq> [] \<and> take (length p) s = p) pats")
    case None
    then show ?thesis by (simp add: strip_front.simps [of pats s])
  next
    case (Some p)
    then have "suffix (strip_front pats (drop (length p) s)) (drop (length p) s)"
      by (rule "1.IH")
    then show ?thesis
      using Some by (simp add: strip_front.simps [of pats s] suffix_drop suffix_order.trans [OF _ suffix_drop])
  qed
qed

text \<open>\<open>clean pats s\<close>: no pattern is at the front of \<open>s\<close>.\<close>

definition clean :: "string list \<Rightarrow> string \<Rightarrow> bool" where
  "clean pats s = (\<forall>p \<in> set pats. p \<noteq> [] \<longrightarrow> take (length p) s \<noteq> p)"

lemma clean_iff_find:
  "clean pats s \<longleftrightarrow> find (\<lambda>p. p \<noteq> [] \<and> take (length p) s = p) pats = None"
  by (auto simp: clean_def find_None_iff)

lemma strip_front_clean: "clean pats (strip_front pats s)"
proof (induction pats s rule: strip_front.induct)
  case (1 pats s)
  then show ?case
    by (cases "find (\<lambda>p. p \<noteq> [] \<and> take (length p) s = p) pats")
      (simp_all add: strip_front.simps [of pats s] clean_iff_find)
qed

lemma strip_front_id: "clean pats s \<Longrightarrow> strip_front pats s = s"
  by (simp add: strip_front.simps clean_iff_find)

lemma clean_prefix:
  assumes "clean pats s" and "prefix t s"
  shows "clean pats t"
  unfolding clean_def
proof (intro ballI impI notI)
  fix p
  assume p: "p \<in> set pats" "p \<noteq> []" and t: "take (length p) t = p"
  from \<open>prefix t s\<close> obtain u where s: "s = t @ u" by (auto simp: prefix_def)
  from t have "length p \<le> length t" by (metis length_take min.cobounded1)
  with s t have "take (length p) s = p" by simp
  with p \<open>clean pats s\<close> show False by (auto simp: clean_def)
qed

lemma strip_back_prefix: "prefix (strip_back pats s) s"
  using strip_front_suffix [of "map rev pats" "rev s"]
  by (simp add: strip_back_def suffix_to_prefix)

lemma strip_back_id: "clean (map rev pats) (rev s) \<Longrightarrow> strip_back pats s = s"
  by (simp add: strip_back_def strip_front_id)

lemma strip_back_clean: "clean (map rev pats) (rev (strip_back pats s))"
  by (simp add: strip_back_def strip_front_clean)

lemma strip_twice:
  "strip_back pats (strip_front pats (strip_back pats (strip_front pats s)))
     = strip_back pats (strip_front pats s)"
proof -
  have "clean pats (strip_back pats (strip_front pats s))"
    using strip_front_clean strip_back_prefix by (rule clean_prefix)
  then show ?thesis
    by (simp add: strip_front_id strip_back_id strip_back_clean)
qed

lemma TrimSpace_idem [simp]: "TrimSpace (TrimSpace s) = TrimSpace s"
  by (simp add: TrimSpace_def strip_twice)

lemma TrimChar_idem [simp]: "TrimChar c (TrimChar c s) = TrimChar c s"
  by (simp add: TrimChar_def strip_twice)

lemma TrimSpace_set: "set (TrimSpace s) \<subseteq> set s"
proof -
  have "set (TrimSpace s) \<subseteq> set (strip_front space_runes s)"
    unfolding TrimSpace_def using strip_back_prefix by (rule set_mono_prefix)
  also have "\<dots> \<subseteq> set s"
    using strip_front_suffix by (rule set_mono_suffix)
  finally show ?thesis .
qed

lemma TrimSpace_length: "length (TrimSpace s) \<le> length s"
  unfolding TrimSpace_def
  using strip_back_prefix [of space_runes "strip_front space_runes s"]
    strip_front_suffix [of space_runes s]
  by (meson le_trans prefix_length_le suffix_length_le)

lemma TrimSpace_Nil [simp]: "TrimSpace [] = []"
  using TrimSpace_length [of "[]"] by simp

text \<open>A string whose first and last bytes are visible ASCII characters has nothing to trim.\<close>

definition visible :: "char \<Rightarrow> bool" where
  "visible c = (of_char c > (32::nat) \<and> of_char c < (127::nat))"

lemma visible_not_space:
  assumes "visible c"
  shows "p \<in> set space_runes \<Longrightarrow> p \<noteq> [] \<and> hd p \<noteq> c \<and> last p \<noteq> c"
  using assms by (auto simp: space_runes_def visible_def)

lemma clean_visible:
  assumes "s \<noteq> []" and "\<forall>p \<in> set pats. p \<noteq> [] \<and> hd p \<noteq> hd s"
  shows "clean pats s"
  unfolding clean_def
proof (intro ballI impI notI)
  fix p
  assume "p \<in> set pats" and "take (length p) s = p" and "p \<noteq> []"
  then have "hd p = hd s" by (metis hd_take length_greater_0_conv)
  with assms \<open>p \<in> set pats\<close> show False by auto
qed

lemma TrimSpace_visible:
  assumes "s \<noteq> []" and "visible (hd s)" and "visible (last s)"
  shows "TrimSpace s = s"
proof -
  have "clean space_runes s"
    using assms visible_not_space by (intro clean_visible) auto
  moreover have "clean (map rev space_runes) (rev s)"
    using assms visible_not_space by (intro clean_visible) (auto simp: hd_rev)
  ultimately show ?thesis
    by (simp add: TrimSpace_def strip_front_id strip_back_id)
qed

section \<open>Case mapping\<close>

definition lower_char :: "char \<Rightarrow> char" where
  "lower_char c = (if 65 \<le> (of_char c :: nat) \<and> (of_char c :: nat) \<le> 90
     then char_of ((of_char c :: nat) + 32) else c)"

text \<open>The Kelvin sign (U+212A) and the dotted capital I (U+0130) have ASCII lower-case letters.\<close>

fun ToLower :: "string \<Rightarrow> string" where
  "ToLower [] = []"
| "ToLower (c # s) =
     (if c = CHR 0xC4 \<and> take 1 s = [CHR 0xB0] then CHR ''i'' # ToLower (drop 1 s)
      else if c = CHR 0xE2 \<and> take 2 s = [CHR 0x84, CHR 0xAA] then CHR ''k'' # ToLower (drop 2 s)
      else lower_char c # ToLower s)"

text \<open>Simple folding: the Kelvin sign folds to \<open>k\<close> and the long s (U+017F) to \<open>s\<close>.\<close>

fun fold_case :: "string \<Rightarrow> string" where
  "fold_case [] = []"
| "fold_case (c # s) =
     (if c = CHR 0xC5 \<and> take 1 s = [CHR 0xBF] then CHR ''s'' # fold_case (drop 1 s)
      else if c = CHR 0xE2 \<and> take 2 s = [CHR 0x84, CHR 0xAA] then CHR ''k'' # fold_case (drop 2 s)
      else lower_char c # fold_case s)"

definition EqualFold :: "string \<Rightarrow> string \<Rightarrow> bool" where
  "EqualFold s t = (fold_case s = fold_case t)"

lemma EqualFold_refl [simp]: "EqualFold s s"
  by (simp add: EqualFold_def)

lemma EqualFold_sym: "EqualFold s t \<Longrightarrow> EqualFold t s"
  by (simp add: EqualFold_def)

section \<open>Searching and splitting\<close>

definition HasPrefix :: "string \<Rightarrow> string \<Rightarrow> bool" where
  "HasPrefix s p = (take (length p) s = p)"

definition HasSuffix :: "string \<Rightarrow> string \<Rightarrow> bool" where
  "HasSuffix s p = (length p \<le> length s \<and> drop (length s - length p) s = p)"

fun Contains :: "string \<Rightarrow> string \<Rightarrow> bool" where
  "Contains [] p = (p = [])"
| "Contains (c # s) p = (take (length p) (c # s) = p \<or> Contains s p)"

text \<open>\<open>strings.ContainsAny\<close> with ASCII characters.\<close>

definition ContainsAny :: "string \<Rightarrow> string \<Rightarrow> bool" where
  "ContainsAny s chars = list_ex (\<lambda>c. c \<in> set chars) s"

text \<open>\<open>strings.Split\<close> at one character: never empty.\<close>

fun Split :: "string \<Rightarrow> char \<Rightarrow> string list" where
  "Split [] c = [[]]"
| "Split (x # s) c =
     (if x = c then [] # Split s c
      else (case Split s c of [] \<Rightarrow> [[x]] | p # ps \<Rightarrow> (x # p) # ps))"

text \<open>\<open>strings.Cut\<close> at one character.\<close>

fun Cut :: "string \<Rightarrow> char \<Rightarrow> string \<times> string \<times> bool" where
  "Cut [] c = ([], [], False)"
| "Cut (x # s) c =
     (if x = c then ([], s, True) else (case Cut s c of (a, b, f) \<Rightarrow> (x # a, b, f)))"

fun Join :: "string list \<Rightarrow> string \<Rightarrow> string" where
  "Join [] sep = []"
| "Join [s] sep = s"
| "Join (s # t # ss) sep = s @ sep @ Join (t # ss) sep"

lemma Contains_iff: "Contains s p \<longleftrightarrow> (\<exists>u v. s = u @ p @ v)"
proof (induction s p rule: Contains.induct)
  case (1 p)
  then show ?case by auto
next
  case (2 c s p)
  show ?case
  proof
    assume "Contains (c # s) p"
    then consider "take (length p) (c # s) = p" | "Contains s p" by auto
    then show "\<exists>u v. c # s = u @ p @ v"
    proof cases
      case 1
      then have "c # s = [] @ p @ drop (length p) (c # s)" by (metis append_Nil append_take_drop_id)
      then show ?thesis by blast
    next
      case 2
      then obtain u v where "s = u @ p @ v" using "2.IH" by auto
      then have "c # s = (c # u) @ p @ v" by simp
      then show ?thesis by blast
    qed
  next
    assume "\<exists>u v. c # s = u @ p @ v"
    then obtain u v where uv: "c # s = u @ p @ v" by blast
    show "Contains (c # s) p"
    proof (cases u)
      case Nil
      with uv have "take (length p) (c # s) = p" by simp
      then show ?thesis by simp
    next
      case (Cons a u')
      with uv have "s = u' @ p @ v" by simp
      then show ?thesis using "2.IH" by auto
    qed
  qed
qed

lemma Split_not_Nil [simp]: "Split s c \<noteq> []"
  by (cases s) (auto split: list.split)

lemma Split_single: "c \<notin> set s \<Longrightarrow> Split s c = [s]"
  by (induction s) auto

lemma Split_append: "c \<notin> set s \<Longrightarrow> Split (s @ c # t) c = s # Split t c"
  by (induction s) auto

lemma Split_parts: "p \<in> set (Split s c) \<Longrightarrow> c \<notin> set p"
  by (induction s arbitrary: p) (auto split: if_splits list.splits)

lemma Join_Cons_hd: "Join ((x # p) # ps) sep = x # Join (p # ps) sep"
  by (cases ps) auto

lemma Join_Nil_hd: "ps \<noteq> [] \<Longrightarrow> Join ([] # ps) sep = sep @ Join ps sep"
  by (cases ps) auto

lemma Join_Split: "Join (Split s c) [c] = s"
proof (induction s)
  case (Cons x s)
  then show ?case
    by (cases "Split s c") (auto simp: Join_Cons_hd Join_Nil_hd)
qed simp

lemma ContainsAny_iff: "ContainsAny s chars \<longleftrightarrow> (\<exists>c \<in> set s. c \<in> set chars)"
  by (simp add: ContainsAny_def list_ex_iff)

lemma ContainsAny_TrimSpace: "\<not> ContainsAny s chars \<Longrightarrow> \<not> ContainsAny (TrimSpace s) chars"
  using TrimSpace_set by (auto simp: ContainsAny_iff)

end
