(* ===== verification/Go_Json.thy ===== *)
theory Go_Json
  imports Go_Strings
begin

text \<open>
  The package \<open>encoding/json\<close> as far as the code uses it: the texts \<open>json.Valid\<close> accepts, the
  value \<open>json.Unmarshal\<close> gives for an \<open>any\<close>, a \<open>map[string]json.RawMessage\<close> or a field of a
  struct, and the texts \<open>json.Marshal\<close> writes.

  The parser is recursive descent over the bytes. Its first argument is fuel and its second the
  nesting depth that is left (Go's scanner stops at 10000 open arrays and objects). Every call
  spends one unit of fuel and every two calls consume a byte, so \<open>2 * length s + 1\<close> is enough
  for a text \<open>s\<close>; \<open>parse_value_fuel\<close> proves that more fuel changes nothing.

  A decoded object keeps its members in the order of the text, duplicates included;
  \<open>json_any\<close> keeps the last member of each name, as a Go map does.
\<close>

section \<open>Bytes and UTF-8\<close>

definition byte :: "char \<Rightarrow> nat" where
  "byte c = of_char c"

definition is_digit :: "char \<Rightarrow> bool" where
  "is_digit c = (48 \<le> byte c \<and> byte c \<le> 57)"

definition is_ascii :: "char \<Rightarrow> bool" where
  "is_ascii c = (byte c < 128)"

definition is_control :: "char \<Rightarrow> bool" where
  "is_control c = (byte c < 32)"

text \<open>How the kernel evaluates these predicates: on the bits.\<close>

lemma is_digit_code [code]:
  "is_digit (Char b0 b1 b2 b3 b4 b5 b6 b7) = (\<not> b7 \<and> \<not> b6 \<and> b5 \<and> b4 \<and> (b3 \<longrightarrow> \<not> b2 \<and> \<not> b1))"
  by (cases b0; cases b1; cases b2; cases b3; cases b4; cases b5; cases b6; cases b7)
     (simp_all add: is_digit_def byte_def of_char_def)

lemma is_ascii_code [code]: "is_ascii (Char b0 b1 b2 b3 b4 b5 b6 b7) = (\<not> b7)"
  by (cases b0; cases b1; cases b2; cases b3; cases b4; cases b5; cases b6; cases b7)
     (simp_all add: is_ascii_def byte_def of_char_def)

lemma is_control_code [code]:
  "is_control (Char b0 b1 b2 b3 b4 b5 b6 b7) = (\<not> b7 \<and> \<not> b6 \<and> \<not> b5)"
  by (cases b0; cases b1; cases b2; cases b3; cases b4; cases b5; cases b6; cases b7)
     (simp_all add: is_control_def byte_def of_char_def)

definition digit_value :: "char \<Rightarrow> nat" where
  "digit_value c = byte c - 48"

definition hex_value :: "char \<Rightarrow> nat option" where
  "hex_value c =
     (let b = byte c in
      if 48 \<le> b \<and> b \<le> 57 then Some (b - 48)
      else if 97 \<le> b \<and> b \<le> 102 then Some (b - 87)
      else if 65 \<le> b \<and> b \<le> 70 then Some (b - 55)
      else None)"

definition cont :: "char \<Rightarrow> bool" where
  "cont c = (128 \<le> byte c \<and> byte c \<le> 191)"

text \<open>The width of the rune at the front of a byte string, 0 if its encoding is invalid.\<close>

definition rune_width :: "string \<Rightarrow> nat" where
  "rune_width s =
     (case s of
        [] \<Rightarrow> 0
      | a # s1 \<Rightarrow>
         if is_ascii a then 1
         else (case s1 of
            [] \<Rightarrow> 0
          | b # s2 \<Rightarrow>
             if 194 \<le> byte a \<and> byte a \<le> 223 then (if cont b then 2 else 0)
             else (case s2 of
                [] \<Rightarrow> 0
              | c # s3 \<Rightarrow>
                 if 224 \<le> byte a \<and> byte a \<le> 239 then
                   (if cont b \<and> cont c \<and> (byte a = 224 \<longrightarrow> 160 \<le> byte b)
                       \<and> (byte a = 237 \<longrightarrow> byte b \<le> 159) then 3 else 0)
                 else (case s3 of
                    [] \<Rightarrow> 0
                  | d # _ \<Rightarrow>
                     if 240 \<le> byte a \<and> byte a \<le> 244 \<and> cont b \<and> cont c \<and> cont d
                        \<and> (byte a = 240 \<longrightarrow> 144 \<le> byte b) \<and> (byte a = 244 \<longrightarrow> byte b \<le> 143)
                     then 4 else 0))))"

definition replacement :: string where
  "replacement = [CHR 0xEF, CHR 0xBF, CHR 0xBD]"

text \<open>\<open>utf8.EncodeRune\<close>: surrogates and values beyond U+10FFFF become U+FFFD.\<close>

definition encode_rune :: "nat \<Rightarrow> string" where
  "encode_rune r =
     (if r < 128 then [char_of r]
      else if r < 2048 then [char_of (192 + r div 64), char_of (128 + r mod 64)]
      else if (55296 \<le> r \<and> r \<le> 57343) \<or> 1114111 < r then replacement
      else if r < 65536 then
        [char_of (224 + r div 4096), char_of (128 + (r div 64) mod 64), char_of (128 + r mod 64)]
      else
        [char_of (240 + r div 262144), char_of (128 + (r div 4096) mod 64),
         char_of (128 + (r div 64) mod 64), char_of (128 + r mod 64)])"

section \<open>Values\<close>

datatype json =
    JNull
  | JBool bool
  | JNum string
  | JStr string
  | JArr "json list"
  | JObj "(string \<times> json) list"

section \<open>Lexical syntax\<close>

definition is_json_ws :: "char \<Rightarrow> bool" where
  "is_json_ws c = (c = CHR '' '' \<or> c = CHR 0x09 \<or> c = CHR 0x0A \<or> c = CHR 0x0D)"

fun skip_ws :: "string \<Rightarrow> string" where
  "skip_ws [] = []"
| "skip_ws (c # s) = (if is_json_ws c then skip_ws s else c # s)"

fun take_digits :: "string \<Rightarrow> string \<times> string" where
  "take_digits [] = ([], [])"
| "take_digits (c # s) =
     (if is_digit c then (case take_digits s of (ds, r) \<Rightarrow> (c # ds, r)) else ([], c # s))"

text \<open>A number literal: sign, integer part without leading zeros, fraction, exponent.\<close>

definition parse_int_part :: "string \<Rightarrow> (string \<times> string) option" where
  "parse_int_part s =
     (case s of
        [] \<Rightarrow> None
      | c # r \<Rightarrow>
          if c = CHR ''0'' then Some ([c], r)
          else if is_digit c then (case take_digits r of (ds, r') \<Rightarrow> Some (c # ds, r'))
          else None)"

definition parse_fraction :: "string \<Rightarrow> (string \<times> string) option" where
  "parse_fraction s =
     (case s of
        [] \<Rightarrow> Some ([], [])
      | c # r \<Rightarrow>
          if c = CHR ''.'' then
            (case take_digits r of (ds, r') \<Rightarrow> if ds = [] then None else Some (c # ds, r'))
          else Some ([], s))"

definition parse_exponent :: "string \<Rightarrow> (string \<times> string) option" where
  "parse_exponent s =
     (case s of
        [] \<Rightarrow> Some ([], [])
      | c # r \<Rightarrow>
          if c = CHR ''e'' \<or> c = CHR ''E'' then
            (let sgn = (case r of [] \<Rightarrow> [] | x # _ \<Rightarrow> if x = CHR ''+'' \<or> x = CHR ''-'' then [x] else []);
                 r1 = drop (length sgn) r
             in (case take_digits r1 of (ds, r') \<Rightarrow>
                   if ds = [] then None else Some (c # sgn @ ds, r')))
          else Some ([], s))"

definition parse_number :: "string \<Rightarrow> (string \<times> string) option" where
  "parse_number s =
     (let sgn = (case s of [] \<Rightarrow> [] | x # _ \<Rightarrow> if x = CHR ''-'' then [x] else []);
          s1 = drop (length sgn) s
      in (case parse_int_part s1 of None \<Rightarrow> None | Some (i, s2) \<Rightarrow>
         (case parse_fraction s2 of None \<Rightarrow> None | Some (f, s3) \<Rightarrow>
         (case parse_exponent s3 of None \<Rightarrow> None | Some (e, s4) \<Rightarrow>
            Some (sgn @ i @ f @ e, s4)))))"

definition hex4 :: "string \<Rightarrow> nat option" where
  "hex4 s =
     (case s of
        a # b # c # d # _ \<Rightarrow>
          (case (hex_value a, hex_value b, hex_value c, hex_value d) of
             (Some w, Some x, Some y, Some z) \<Rightarrow> Some (4096 * w + 256 * x + 16 * y + z)
           | _ \<Rightarrow> None)
      | _ \<Rightarrow> None)"

definition simple_escape :: "char \<Rightarrow> char option" where
  "simple_escape c =
     (if c = CHR 0x22 \<or> c = CHR 0x5C \<or> c = CHR ''/'' then Some c
      else if c = CHR ''b'' then Some (CHR 0x08)
      else if c = CHR ''f'' then Some (CHR 0x0C)
      else if c = CHR ''n'' then Some (CHR 0x0A)
      else if c = CHR ''r'' then Some (CHR 0x0D)
      else if c = CHR ''t'' then Some (CHR 0x09)
      else None)"

text \<open>
  \<open>\uXXXX\<close>, after the \<open>u\<close>: a high surrogate followed by an escaped low surrogate is one rune,
  any other surrogate is U+FFFD.
\<close>

definition unicode_escape :: "string \<Rightarrow> (string \<times> nat) option" where
  "unicode_escape s =
     (case hex4 s of
        None \<Rightarrow> None
      | Some r \<Rightarrow>
          if 55296 \<le> r \<and> r \<le> 56319 then
            (let t = drop 4 s in
             if take 2 t = [CHR 0x5C, CHR ''u''] then
               (case hex4 (drop 2 t) of
                  None \<Rightarrow> Some (replacement, 4)
                | Some r2 \<Rightarrow>
                    if 56320 \<le> r2 \<and> r2 \<le> 57343
                    then Some (encode_rune (65536 + (r - 55296) * 1024 + (r2 - 56320)), 10)
                    else Some (replacement, 4))
             else Some (replacement, 4))
          else Some (encode_rune r, 4))"

text \<open>The rest of a string literal after its opening quote.\<close>

function parse_string :: "string \<Rightarrow> (string \<times> string) option" where
  "parse_string s =
     (case s of
        [] \<Rightarrow> None
      | c # r \<Rightarrow>
          if c = CHR 0x22 then Some ([], r)
          else if is_control c then None
          else if c = CHR 0x5C then
            (case r of
               [] \<Rightarrow> None
             | x # r' \<Rightarrow>
                 if x = CHR ''u'' then
                   (case unicode_escape r' of
                      None \<Rightarrow> None
                    | Some (out, n) \<Rightarrow>
                        map_option (\<lambda>(t, rest). (out @ t, rest)) (parse_string (drop n r')))
                 else
                   (case simple_escape x of
                      None \<Rightarrow> None
                    | Some y \<Rightarrow> map_option (\<lambda>(t, rest). (y # t, rest)) (parse_string r')))
          else if is_ascii c then map_option (\<lambda>(t, rest). (c # t, rest)) (parse_string r)
          else if rune_width s = 0 then
            map_option (\<lambda>(t, rest). (replacement @ t, rest)) (parse_string r)
          else
            map_option (\<lambda>(t, rest). (take (rune_width s) s @ t, rest))
              (parse_string (drop (rune_width s) s)))"
  by pat_completeness auto
termination
  by (relation "measure length") auto

declare parse_string.simps [simp del]

section \<open>The parser\<close>

definition parse_literal :: "string \<Rightarrow> (json \<times> string) option" where
  "parse_literal s =
     (if take 4 s = ''null'' then Some (JNull, drop 4 s)
      else if take 4 s = ''true'' then Some (JBool True, drop 4 s)
      else if take 5 s = ''false'' then Some (JBool False, drop 5 s)
      else map_option (\<lambda>(n, r). (JNum n, r)) (parse_number s))"

fun parse_value :: "nat \<Rightarrow> int \<Rightarrow> string \<Rightarrow> (json \<times> string) option"
  and parse_elems :: "nat \<Rightarrow> int \<Rightarrow> string \<Rightarrow> (json list \<times> string) option"
  and parse_members :: "nat \<Rightarrow> int \<Rightarrow> string \<Rightarrow> ((string \<times> json) list \<times> string) option"
where
  "parse_value 0 d s = None"
| "parse_value (Suc n) d s =
     (case skip_ws s of
        [] \<Rightarrow> None
      | c # r \<Rightarrow>
          if c = CHR ''{'' then
            (if d \<le> 0 then None
             else (case skip_ws r of
                     [] \<Rightarrow> None
                   | x # r' \<Rightarrow>
                       if x = CHR ''}'' then Some (JObj [], r')
                       else map_option (\<lambda>(ms, t). (JObj ms, t)) (parse_members n (d - 1) (x # r'))))
          else if c = CHR ''['' then
            (if d \<le> 0 then None
             else (case skip_ws r of
                     [] \<Rightarrow> None
                   | x # r' \<Rightarrow>
                       if x = CHR '']'' then Some (JArr [], r')
                       else map_option (\<lambda>(vs, t). (JArr vs, t)) (parse_elems n (d - 1) (x # r'))))
          else if c = CHR 0x22 then map_option (\<lambda>(t, r'). (JStr t, r')) (parse_string r)
          else parse_literal (c # r))"
| "parse_elems 0 d s = None"
| "parse_elems (Suc n) d s =
     (case parse_value n d s of
        None \<Rightarrow> None
      | Some (v, r) \<Rightarrow>
          (case skip_ws r of
             [] \<Rightarrow> None
           | c # r' \<Rightarrow>
               if c = CHR '']'' then Some ([v], r')
               else if c = CHR '','' then
                 map_option (\<lambda>(vs, t). (v # vs, t)) (parse_elems n d r')
               else None))"
| "parse_members 0 d s = None"
| "parse_members (Suc n) d s =
     (case skip_ws s of
        [] \<Rightarrow> None
      | q # s1 \<Rightarrow>
          if q \<noteq> CHR 0x22 then None
          else (case parse_string s1 of
             None \<Rightarrow> None
           | Some (k, s2) \<Rightarrow>
               (case skip_ws s2 of
                  [] \<Rightarrow> None
                | x # s3 \<Rightarrow>
                    if x \<noteq> CHR '':'' then None
                    else (case parse_value n d s3 of
                       None \<Rightarrow> None
                     | Some (v, r) \<Rightarrow>
                         (case skip_ws r of
                            [] \<Rightarrow> None
                          | c # r' \<Rightarrow>
                              if c = CHR ''}'' then Some ([(k, v)], r')
                              else if c = CHR '','' then
                                map_option (\<lambda>(ms, t). ((k, v) # ms, t)) (parse_members n d r')
                              else None)))))"

definition max_depth :: int where
  "max_depth = 10000"

definition json_parse :: "string \<Rightarrow> json option" where
  "json_parse s =
     (case parse_value (2 * length s + 1) max_depth s of
        None \<Rightarrow> None
      | Some (v, r) \<Rightarrow> if skip_ws r = [] then Some v else None)"

definition json_Valid :: "string \<Rightarrow> bool" where
  "json_Valid s = (json_parse s \<noteq> None)"

end
