(* ===== verification/Commands.thy ===== *)
theory Commands
  imports Go_Json
begin

text \<open>
  The command service of the control plane (\<open>backend/internal/domain/commands/service.go\<close>): the
  records of a command, its progress events and its terminal result, the repository interface,
  and the service's operations over it.

  A Go string type used as an enumeration is a datatype with the declared constants and one
  constructor for every other string. A Go \<open>*time.Time\<close> is an option. The service is a record of
  its interface values; an operation runs in the world those interfaces live in.
\<close>

section \<open>Data\<close>

datatype CommandStatus =
    StatusQueued | StatusSent | StatusAckAccepted | StatusAckRejected | StatusAckTimedOut
  | StatusRunning | StatusSucceeded | StatusFailed | StatusTimedOut | StatusCanceled
  | OtherStatus string

fun status_text :: "CommandStatus \<Rightarrow> string" where
  "status_text StatusQueued = ''queued''"
| "status_text StatusSent = ''sent''"
| "status_text StatusAckAccepted = ''ack_accepted''"
| "status_text StatusAckRejected = ''ack_rejected''"
| "status_text StatusAckTimedOut = ''ack_timed_out''"
| "status_text StatusRunning = ''running''"
| "status_text StatusSucceeded = ''succeeded''"
| "status_text StatusFailed = ''failed''"
| "status_text StatusTimedOut = ''timed_out''"
| "status_text StatusCanceled = ''canceled''"
| "status_text (OtherStatus s) = s"

datatype CommandType =
    TypeRefreshPublishPolicy | TypeTriggerBackup | TypeUploadArtifact | TypeEnableDebugCapture
  | TypeDisableDebugCapture | TypeCollectDebugSnapshot | TypeRequestDebugBundle
  | TypeCheckUpdateStatus | TypeRepairUpdateState | OtherCommandType string

fun command_type_text :: "CommandType \<Rightarrow> string" where
  "command_type_text TypeRefreshPublishPolicy = ''refresh_publish_policy''"
| "command_type_text TypeTriggerBackup = ''trigger_backup''"
| "command_type_text TypeUploadArtifact = ''upload_artifact''"
| "command_type_text TypeEnableDebugCapture = ''enable_debug_capture''"
| "command_type_text TypeDisableDebugCapture = ''disable_debug_capture''"
| "command_type_text TypeCollectDebugSnapshot = ''collect_debug_snapshot''"
| "command_type_text TypeRequestDebugBundle = ''request_debug_bundle''"
| "command_type_text TypeCheckUpdateStatus = ''check_update_status''"
| "command_type_text TypeRepairUpdateState = ''repair_update_state''"
| "command_type_text (OtherCommandType s) = s"

record CommandDefinition =
  AckWindow :: duration
  ResultWindow :: duration
  Idempotent :: bool

record Command =
  cmd_CommandID :: string
  cmd_AccountID :: string
  cmd_SiteID :: string
  cmd_DeviceID :: string
  cmd_CommandType :: CommandType
  cmd_Status :: CommandStatus
  cmd_IdempotencyKey :: string
  cmd_RequestedByUserID :: string
  cmd_Payload :: string
  cmd_AckDeadlineAt :: time
  cmd_ResultDeadlineAt :: time
  cmd_QueuedAt :: time
  cmd_SentAt :: "time option"
  cmd_AckedAt :: "time option"
  cmd_TerminalAt :: "time option"
  cmd_CreatedAt :: time
  cmd_UpdatedAt :: time

record ProgressEvent =
  pe_CommandID :: string
  pe_Phase :: string
  pe_ReasonCode :: string
  pe_Payload :: string
  pe_ReportedAt :: time
  pe_ReceivedAt :: time

record Result =
  res_CommandID :: string
  res_Status :: CommandStatus
  res_ResultType :: string
  res_ReasonCode :: string
  res_Payload :: string
  res_StartedAt :: "time option"
  res_FinishedAt :: time
  res_ReceivedAt :: time

record 'w CommandRepository =
  repo_CreateCommand :: "Command \<Rightarrow> ('w, unit) op"
  repo_GetCommand :: "string \<Rightarrow> ('w, Command) op"
  repo_SaveCommand :: "Command \<Rightarrow> ('w, unit) op"
  repo_AppendProgressEvent :: "ProgressEvent \<Rightarrow> ('w, unit) op"
  repo_RecordResult :: "Result \<Rightarrow> ('w, unit) op"

text \<open>\<open>svc_TimeNow\<close> is the runtime's \<open>time.Now\<close>, used where the service has no clock.\<close>

record 'w CommandService =
  svc_Repository :: "'w CommandRepository option"
  svc_Definitions :: "(CommandType \<Rightarrow> CommandDefinition option) option"
  svc_IDGenerator :: "('w, string) effect option"
  svc_Clock :: "('w, time) effect option"
  svc_TimeNow :: "('w, time) effect"

record CreateRequest =
  cr_CommandID :: string
  cr_AccountID :: string
  cr_SiteID :: string
  cr_DeviceID :: string
  cr_CommandType :: CommandType
  cr_IdempotencyKey :: string
  cr_RequestedByUserID :: string
  cr_Payload :: string

record AckRequest =
  ack_CommandID :: string
  ack_Accepted :: bool
  ack_ReasonCode :: string
  ack_ReportedAt :: time

record ProgressRequest =
  pr_CommandID :: string
  pr_Phase :: string
  pr_ReasonCode :: string
  pr_Payload :: string
  pr_ReportedAt :: time

record ResultRequest =
  rr_CommandID :: string
  rr_Status :: CommandStatus
  rr_ResultType :: string
  rr_ReasonCode :: string
  rr_Payload :: string
  rr_StartedAt :: "time option"
  rr_FinishedAt :: time

section \<open>Definitions of the command types\<close>

fun DefaultDefinitions :: "CommandType \<Rightarrow> CommandDefinition option" where
  "DefaultDefinitions TypeRefreshPublishPolicy =
     Some \<lparr>AckWindow = 15 * Second, ResultWindow = Minute, Idempotent = True\<rparr>"
| "DefaultDefinitions TypeTriggerBackup =
     Some \<lparr>AckWindow = 15 * Second, ResultWindow = 30 * Minute, Idempotent = False\<rparr>"
| "DefaultDefinitions TypeUploadArtifact =
     Some \<lparr>AckWindow = 15 * Second, ResultWindow = 30 * Minute, Idempotent = False\<rparr>"
| "DefaultDefinitions TypeEnableDebugCapture =
     Some \<lparr>AckWindow = 15 * Second, ResultWindow = 5 * Minute, Idempotent = True\<rparr>"
| "DefaultDefinitions TypeDisableDebugCapture =
     Some \<lparr>AckWindow = 15 * Second, ResultWindow = 5 * Minute, Idempotent = True\<rparr>"
| "DefaultDefinitions TypeCollectDebugSnapshot =
     Some \<lparr>AckWindow = 15 * Second, ResultWindow = 10 * Minute, Idempotent = True\<rparr>"
| "DefaultDefinitions TypeRequestDebugBundle =
     Some \<lparr>AckWindow = 15 * Second, ResultWindow = 30 * Minute, Idempotent = False\<rparr>"
| "DefaultDefinitions TypeCheckUpdateStatus =
     Some \<lparr>AckWindow = 15 * Second, ResultWindow = 2 * Minute, Idempotent = True\<rparr>"
| "DefaultDefinitions TypeRepairUpdateState =
     Some \<lparr>AckWindow = 15 * Second, ResultWindow = 5 * Minute, Idempotent = True\<rparr>"
| "DefaultDefinitions (OtherCommandType s) = None"

definition commands_definitionFor :: "'w CommandService \<Rightarrow> CommandType \<Rightarrow> go_error + CommandDefinition" where
  "commands_definitionFor s commandType =
     (let definitions = (case svc_Definitions s of None \<Rightarrow> DefaultDefinitions | Some ds \<Rightarrow> ds) in
      case definitions commandType of
        None \<Rightarrow> Inl (Errorf ''unsupported command type %q'' [command_type_text commandType])
      | Some d \<Rightarrow>
          if AckWindow d \<le> 0
          then Inl (Errorf ''ack window is required for %q'' [command_type_text commandType])
          else if ResultWindow d \<le> AckWindow d
          then Inl (Errorf ''result window must exceed ack window for %q''
                      [command_type_text commandType])
          else Inr d)"

definition commands_now :: "'w CommandService \<Rightarrow> ('w, time) op" where
  "commands_now s = clock_now (svc_Clock s) (svc_TimeNow s)"

definition validateCommand :: "Command \<Rightarrow> go_error option" where
  "validateCommand c = first_error
     [(TrimSpace (cmd_CommandID c) = [], Errorf ''command_id is required'' []),
      (TrimSpace (cmd_AccountID c) = [], Errorf ''account_id is required'' []),
      (TrimSpace (cmd_SiteID c) = [], Errorf ''site_id is required'' []),
      (TrimSpace (cmd_DeviceID c) = [], Errorf ''device_id is required'' []),
      (cmd_CommandType c = OtherCommandType [], Errorf ''command_type is required'' []),
      (cmd_Status c \<noteq> StatusQueued, Errorf ''new command must start queued'' []),
      (IsZero (cmd_AckDeadlineAt c), Errorf ''ack_deadline_at is required'' []),
      (IsZero (cmd_ResultDeadlineAt c) \<or> \<not> After (cmd_ResultDeadlineAt c) (cmd_AckDeadlineAt c),
       Errorf ''result_deadline_at must be after ack_deadline_at'' [])]"

definition normalizePayload :: "string \<Rightarrow> string" where
  "normalizePayload payload = (if payload = [] then ''{}'' else payload)"

definition isTerminalResultStatus :: "CommandStatus \<Rightarrow> bool" where
  "isTerminalResultStatus st =
     (case st of StatusSucceeded \<Rightarrow> True | StatusFailed \<Rightarrow> True | StatusTimedOut \<Rightarrow> True
      | StatusCanceled \<Rightarrow> True | _ \<Rightarrow> False)"

definition isTerminalCommandStatus :: "CommandStatus \<Rightarrow> bool" where
  "isTerminalCommandStatus st =
     (case st of StatusSucceeded \<Rightarrow> True | StatusFailed \<Rightarrow> True | StatusTimedOut \<Rightarrow> True
      | StatusCanceled \<Rightarrow> True | _ \<Rightarrow> False)"

section \<open>Operations\<close>

definition commands_load :: "'w CommandService \<Rightarrow> string \<Rightarrow> ('w, Command) op" where
  "commands_load s commandID =
     bindE (required (svc_Repository s) (Errorf ''command repository is required'' [])) (\<lambda>repo.
     bindE (failIf (TrimSpace commandID = []) (Errorf ''command_id is required'' [])) (\<lambda>_.
     wrapE ''load command'' (repo_GetCommand repo (TrimSpace commandID))))"

definition commands_newID :: "'w CommandService \<Rightarrow> string \<Rightarrow> ('w, string) op" where
  "commands_newID s requested =
     (if TrimSpace requested \<noteq> [] then ret (TrimSpace requested)
      else bindE (required (svc_IDGenerator s) (Errorf ''command id is required'' [])) (\<lambda>gen.
           bindE (liftE gen) (\<lambda>i.
           bindE (failIf (TrimSpace i = []) (Errorf ''command id is required'' [])) (\<lambda>_.
           ret (TrimSpace i)))))"

definition new_command ::
  "CreateRequest \<Rightarrow> CommandDefinition \<Rightarrow> string \<Rightarrow> string \<Rightarrow> time \<Rightarrow> Command" where
  "new_command req d commandID payload now =
     \<lparr>cmd_CommandID = commandID,
      cmd_AccountID = TrimSpace (cr_AccountID req),
      cmd_SiteID = TrimSpace (cr_SiteID req),
      cmd_DeviceID = TrimSpace (cr_DeviceID req),
      cmd_CommandType = cr_CommandType req,
      cmd_Status = StatusQueued,
      cmd_IdempotencyKey = TrimSpace (cr_IdempotencyKey req),
      cmd_RequestedByUserID = TrimSpace (cr_RequestedByUserID req),
      cmd_Payload = payload,
      cmd_AckDeadlineAt = now + AckWindow d,
      cmd_ResultDeadlineAt = now + ResultWindow d,
      cmd_QueuedAt = now,
      cmd_SentAt = None,
      cmd_AckedAt = None,
      cmd_TerminalAt = None,
      cmd_CreatedAt = now,
      cmd_UpdatedAt = now\<rparr>"

definition commands_Create :: "'w CommandService \<Rightarrow> CreateRequest \<Rightarrow> ('w, Command) op" where
  "commands_Create s req =
     bindE (required (svc_Repository s) (Errorf ''command repository is required'' [])) (\<lambda>repo.
     bindE (pureE (commands_definitionFor s (cr_CommandType req))) (\<lambda>d.
     bindE (commands_now s) (\<lambda>now.
     bindE (commands_newID s (cr_CommandID req)) (\<lambda>commandID.
     let payload = normalizePayload (cr_Payload req) in
     bindE (failIf (\<not> json_Valid payload) (Errorf ''payload must be valid JSON'' [])) (\<lambda>_.
     let command = new_command req d commandID payload now in
     bindE (check (validateCommand command)) (\<lambda>_.
     bindE (wrapE ''create command'' (repo_CreateCommand repo command)) (\<lambda>_.
     ret command)))))))"

definition save_command :: "'w CommandService \<Rightarrow> string \<Rightarrow> Command \<Rightarrow> ('w, unit) op" where
  "save_command s msg command =
     bindE (required (svc_Repository s) (Errorf ''command repository is required'' [])) (\<lambda>repo.
     wrapE msg (repo_SaveCommand repo command))"

definition record_result :: "'w CommandService \<Rightarrow> string \<Rightarrow> Result \<Rightarrow> ('w, unit) op" where
  "record_result s msg result =
     bindE (required (svc_Repository s) (Errorf ''command repository is required'' [])) (\<lambda>repo.
     wrapE msg (repo_RecordResult repo result))"

definition append_progress :: "'w CommandService \<Rightarrow> string \<Rightarrow> ProgressEvent \<Rightarrow> ('w, unit) op" where
  "append_progress s msg event =
     bindE (required (svc_Repository s) (Errorf ''command repository is required'' [])) (\<lambda>repo.
     wrapE msg (repo_AppendProgressEvent repo event))"

definition commands_MarkSent :: "'w CommandService \<Rightarrow> string \<Rightarrow> ('w, Command) op" where
  "commands_MarkSent s commandID =
     bindE (commands_load s commandID) (\<lambda>command.
     bindE (failIf (cmd_Status command \<noteq> StatusQueued)
              (Errorf ''cannot mark %s command as sent'' [status_text (cmd_Status command)])) (\<lambda>_.
     bindE (pureE (commands_definitionFor s (cmd_CommandType command))) (\<lambda>d.
     bindE (commands_now s) (\<lambda>now.
     let command' = command\<lparr>cmd_Status := StatusSent, cmd_SentAt := Some now,
                            cmd_AckDeadlineAt := now + AckWindow d, cmd_UpdatedAt := now\<rparr> in
     bindE (save_command s ''mark command sent'' command') (\<lambda>_.
     ret command')))))"

definition commands_RecordAck :: "'w CommandService \<Rightarrow> AckRequest \<Rightarrow> ('w, Command) op" where
  "commands_RecordAck s req =
     bindE (commands_load s (ack_CommandID req)) (\<lambda>command.
     bindE (failIf (cmd_Status command \<noteq> StatusSent)
              (Errorf ''cannot record ack for %s command'' [status_text (cmd_Status command)])) (\<lambda>_.
     bindE (commands_now s) (\<lambda>now.
     let reportedAt = (if IsZero (ack_ReportedAt req) then now else ack_ReportedAt req) in
     if After now (cmd_AckDeadlineAt command) then
       (let command' = command\<lparr>cmd_Status := StatusAckTimedOut, cmd_UpdatedAt := now\<rparr> in
        bindE (save_command s ''mark command ack timed out'' command') (\<lambda>_.
        fail (Errorf ''command ack deadline passed'' [])))
     else
       (let command' = command\<lparr>cmd_AckedAt := Some reportedAt,
                              cmd_Status := (if ack_Accepted req then StatusAckAccepted
                                             else StatusAckRejected),
                              cmd_UpdatedAt := now\<rparr> in
        bindE (save_command s ''record command ack'' command') (\<lambda>_.
        ret command')))))"

definition commands_ExpireMissingAck :: "'w CommandService \<Rightarrow> string \<Rightarrow> ('w, Command \<times> bool) op" where
  "commands_ExpireMissingAck s commandID =
     bindE (commands_load s commandID) (\<lambda>command.
     if cmd_Status command \<noteq> StatusSent then ret (command, False)
     else
       bindE (commands_now s) (\<lambda>now.
       if Before now (cmd_AckDeadlineAt command) \<or> now = cmd_AckDeadlineAt command
       then ret (command, False)
       else
         (let command' = command\<lparr>cmd_Status := StatusAckTimedOut, cmd_UpdatedAt := now\<rparr> in
          bindE (save_command s ''expire missing ack'' command') (\<lambda>_.
          ret (command', True)))))"

definition commands_RecordProgress :: "'w CommandService \<Rightarrow> ProgressRequest \<Rightarrow> ('w, Command) op" where
  "commands_RecordProgress s req =
     bindE (commands_load s (pr_CommandID req)) (\<lambda>command.
     bindE (failIf (cmd_Status command \<noteq> StatusAckAccepted \<and> cmd_Status command \<noteq> StatusRunning)
              (Errorf ''cannot record progress for %s command'' [status_text (cmd_Status command)])) (\<lambda>_.
     bindE (commands_now s) (\<lambda>now.
     let payload = normalizePayload (pr_Payload req) in
     bindE (failIf (\<not> json_Valid payload) (Errorf ''progress payload must be valid JSON'' [])) (\<lambda>_.
     let phase = TrimSpace (pr_Phase req) in
     bindE (failIf (phase = []) (Errorf ''progress phase is required'' [])) (\<lambda>_.
     let reportedAt = (if IsZero (pr_ReportedAt req) then now else pr_ReportedAt req);
         event = \<lparr>pe_CommandID = cmd_CommandID command, pe_Phase = phase,
                  pe_ReasonCode = TrimSpace (pr_ReasonCode req), pe_Payload = payload,
                  pe_ReportedAt = reportedAt, pe_ReceivedAt = now\<rparr> in
     bindE (append_progress s ''record command progress'' event) (\<lambda>_.
     let command' = command\<lparr>cmd_Status := StatusRunning, cmd_UpdatedAt := now\<rparr> in
     bindE (save_command s ''mark command running'' command') (\<lambda>_.
     ret command')))))))"

definition commands_RecordResult :: "'w CommandService \<Rightarrow> ResultRequest \<Rightarrow> ('w, Command) op" where
  "commands_RecordResult s req =
     bindE (commands_load s (rr_CommandID req)) (\<lambda>command.
     bindE (failIf (cmd_Status command \<noteq> StatusAckAccepted \<and> cmd_Status command \<noteq> StatusRunning)
              (Errorf ''cannot record result for %s command'' [status_text (cmd_Status command)])) (\<lambda>_.
     bindE (failIf (\<not> isTerminalResultStatus (rr_Status req))
              (Errorf ''invalid terminal result status %q'' [status_text (rr_Status req)])) (\<lambda>_.
     let resultType = TrimSpace (rr_ResultType req) in
     bindE (failIf (resultType = []) (Errorf ''result_type is required'' [])) (\<lambda>_.
     bindE (commands_now s) (\<lambda>now.
     let finishedAt = (if IsZero (rr_FinishedAt req) then now else rr_FinishedAt req);
         payload = normalizePayload (rr_Payload req) in
     bindE (failIf (\<not> json_Valid payload) (Errorf ''result payload must be valid JSON'' [])) (\<lambda>_.
     let result = \<lparr>res_CommandID = cmd_CommandID command, res_Status = rr_Status req,
                   res_ResultType = resultType, res_ReasonCode = TrimSpace (rr_ReasonCode req),
                   res_Payload = payload, res_StartedAt = rr_StartedAt req,
                   res_FinishedAt = finishedAt, res_ReceivedAt = now\<rparr> in
     bindE (record_result s ''record command result'' result) (\<lambda>_.
     let command' = command\<lparr>cmd_Status := rr_Status req, cmd_TerminalAt := Some now,
                            cmd_UpdatedAt := now\<rparr> in
     bindE (save_command s ''mark command terminal'' command') (\<lambda>_.
     ret command'))))))))"

definition service_result :: "Command \<Rightarrow> CommandStatus \<Rightarrow> string \<Rightarrow> time \<Rightarrow> Result" where
  "service_result command st reason now =
     \<lparr>res_CommandID = cmd_CommandID command, res_Status = st,
      res_ResultType = command_type_text (cmd_CommandType command), res_ReasonCode = reason,
      res_Payload = ''{}'', res_StartedAt = None, res_FinishedAt = now, res_ReceivedAt = now\<rparr>"

definition commands_ExpireResult :: "'w CommandService \<Rightarrow> string \<Rightarrow> ('w, Command \<times> bool) op" where
  "commands_ExpireResult s commandID =
     bindE (commands_load s commandID) (\<lambda>command.
     if cmd_Status command \<noteq> StatusAckAccepted \<and> cmd_Status command \<noteq> StatusRunning
     then ret (command, False)
     else
       bindE (commands_now s) (\<lambda>now.
       if Before now (cmd_ResultDeadlineAt command) \<or> now = cmd_ResultDeadlineAt command
       then ret (command, False)
       else
         (let result = service_result command StatusTimedOut ''result_deadline_exceeded'' now in
          bindE (record_result s ''record command timeout result'' result) (\<lambda>_.
          let command' = command\<lparr>cmd_Status := StatusTimedOut, cmd_TerminalAt := Some now,
                                 cmd_UpdatedAt := now\<rparr> in
          bindE (save_command s ''mark command result timed out'' command') (\<lambda>_.
          ret (command', True))))))"

definition commands_Cancel :: "'w CommandService \<Rightarrow> string \<Rightarrow> ('w, Command) op" where
  "commands_Cancel s commandID =
     bindE (commands_load s commandID) (\<lambda>command.
     bindE (failIf (isTerminalCommandStatus (cmd_Status command))
              (Errorf ''cannot cancel terminal %s command'' [status_text (cmd_Status command)])) (\<lambda>_.
     bindE (commands_now s) (\<lambda>now.
     let command' = command\<lparr>cmd_Status := StatusCanceled, cmd_TerminalAt := Some now,
                            cmd_UpdatedAt := now\<rparr>;
         result = service_result command' StatusCanceled ''canceled'' now in
     bindE (record_result s ''record command cancellation result'' result) (\<lambda>_.
     bindE (save_command s ''cancel command'' command') (\<lambda>_.
     ret command')))))"

end
