(* ===== verification/Command_Lifecycle.thy ===== *)
theory Command_Lifecycle
  imports Commands
begin

text \<open>
  What the command service promises, as an abstract machine over the stored data, and the proof
  that the service implements it over every repository that keeps its contract.

  \<^item> \<open>command_view\<close> is what a repository stores. \<open>lifecycle_step\<close> is the abstract machine: its
    status edges are those of \<open>design-docs/command-lifecycle.md\<close> and the cancellations the code
    allows, and a command becomes terminal only with its recorded result.
  \<^item> \<open>command_contract\<close> is the interface \<open>Repository\<close> with the laws of an implementation; a call may
    fail at any time, and then has stored nothing. Inside it, every service operation is shown to
    be a sequence of abstract steps, whatever fails on the way.
  \<^item> \<open>stuck\<close> is what a failing write can leave behind: a result without the terminal command.
    No operation of the service leaves it again.
\<close>

section \<open>The abstract machine\<close>

record command_view =
  cv_commands :: "string \<Rightarrow> Command option"
  cv_progress :: "ProgressEvent list"
  cv_results :: "Result list"

definition put_command :: "Command \<Rightarrow> command_view \<Rightarrow> command_view" where
  "put_command c v = v\<lparr>cv_commands := (cv_commands v)(cmd_CommandID c \<mapsto> c)\<rparr>"

lemma put_command_fields [simp]:
  "cv_commands (put_command c v) = (cv_commands v)(cmd_CommandID c \<mapsto> c)"
  "cv_progress (put_command c v) = cv_progress v"
  "cv_results (put_command c v) = cv_results v"
  by (simp_all add: put_command_def)

definition status_edge :: "CommandStatus \<Rightarrow> CommandStatus \<Rightarrow> bool" where
  "status_edge a b =
     (case a of
        StatusQueued \<Rightarrow> b = StatusSent \<or> b = StatusCanceled
      | StatusSent \<Rightarrow> b \<in> {StatusAckAccepted, StatusAckRejected, StatusAckTimedOut, StatusCanceled}
      | StatusAckAccepted \<Rightarrow> b = StatusRunning \<or> isTerminalResultStatus b
      | StatusRunning \<Rightarrow> b = StatusRunning \<or> isTerminalResultStatus b
      | StatusAckRejected \<Rightarrow> b = StatusCanceled
      | StatusAckTimedOut \<Rightarrow> b = StatusCanceled
      | OtherStatus s \<Rightarrow> b = StatusCanceled
      | _ \<Rightarrow> False)"

text \<open>The fields no operation writes after the command was created.\<close>

definition same_command :: "Command \<Rightarrow> Command \<Rightarrow> bool" where
  "same_command c c' \<longleftrightarrow>
     cmd_CommandID c' = cmd_CommandID c \<and> cmd_AccountID c' = cmd_AccountID c \<and>
     cmd_SiteID c' = cmd_SiteID c \<and> cmd_DeviceID c' = cmd_DeviceID c \<and>
     cmd_CommandType c' = cmd_CommandType c \<and> cmd_IdempotencyKey c' = cmd_IdempotencyKey c \<and>
     cmd_RequestedByUserID c' = cmd_RequestedByUserID c \<and> cmd_Payload c' = cmd_Payload c \<and>
     cmd_ResultDeadlineAt c' = cmd_ResultDeadlineAt c \<and> cmd_QueuedAt c' = cmd_QueuedAt c \<and>
     cmd_CreatedAt c' = cmd_CreatedAt c"

text \<open>Which timestamps a command carries in which status.\<close>

definition stamps_ok :: "Command \<Rightarrow> bool" where
  "stamps_ok c \<longleftrightarrow>
     (isTerminalCommandStatus (cmd_Status c) \<longleftrightarrow> cmd_TerminalAt c \<noteq> None) \<and>
     (cmd_SentAt c = None \<longrightarrow> cmd_Status c = StatusQueued \<or> cmd_Status c = StatusCanceled) \<and>
     (cmd_Status c = StatusQueued \<longrightarrow> cmd_SentAt c = None) \<and>
     (cmd_AckedAt c = None \<longrightarrow>
        cmd_Status c \<in> {StatusQueued, StatusSent, StatusAckTimedOut, StatusCanceled}) \<and>
     (cmd_Status c \<in> {StatusQueued, StatusSent, StatusAckTimedOut} \<longrightarrow> cmd_AckedAt c = None)"

definition result_for :: "command_view \<Rightarrow> string \<Rightarrow> CommandStatus \<Rightarrow> bool" where
  "result_for v i st \<longleftrightarrow> (\<exists>r \<in> set (cv_results v). res_CommandID r = i \<and> res_Status r = st)"

definition result_ids :: "command_view \<Rightarrow> string set" where
  "result_ids v = res_CommandID ` set (cv_results v)"

lemma result_ids_simps [simp]:
  "result_ids (put_command c v) = result_ids v"
  "result_ids (v\<lparr>cv_progress := ps\<rparr>) = result_ids v"
  "result_ids (v\<lparr>cv_results := cv_results v @ [r]\<rparr>) = insert (res_CommandID r) (result_ids v)"
  by (auto simp: result_ids_def)

inductive lifecycle_step :: "command_view \<Rightarrow> command_view \<Rightarrow> bool" where
  created: "cv_commands v (cmd_CommandID c) = None \<Longrightarrow> validateCommand c = None \<Longrightarrow>
     stamps_ok c \<Longrightarrow> lifecycle_step v (put_command c v)"
| moved: "cv_commands v (cmd_CommandID c) = Some c \<Longrightarrow> status_edge (cmd_Status c) (cmd_Status c') \<Longrightarrow>
     same_command c c' \<Longrightarrow> (stamps_ok c \<Longrightarrow> stamps_ok c') \<Longrightarrow>
     (isTerminalCommandStatus (cmd_Status c') \<Longrightarrow> result_for v (cmd_CommandID c) (cmd_Status c')) \<Longrightarrow>
     lifecycle_step v (put_command c' v)"
| progressed: "cv_commands v (pe_CommandID e) = Some c \<Longrightarrow>
     cmd_Status c = StatusAckAccepted \<or> cmd_Status c = StatusRunning \<Longrightarrow>
     lifecycle_step v (v\<lparr>cv_progress := cv_progress v @ [e]\<rparr>)"
| resulted: "cv_commands v (res_CommandID r) = Some c \<Longrightarrow> \<not> isTerminalCommandStatus (cmd_Status c) \<Longrightarrow>
     isTerminalResultStatus (res_Status r) \<Longrightarrow>
     res_CommandID r \<notin> result_ids v \<Longrightarrow>
     lifecycle_step v (v\<lparr>cv_results := cv_results v @ [r]\<rparr>)"

inductive_cases lifecycle_stepE: "lifecycle_step v v'"

abbreviation lifecycle_steps :: "command_view \<Rightarrow> command_view \<Rightarrow> bool" where
  "lifecycle_steps \<equiv> lifecycle_step\<^sup>*\<^sup>*"

lemma terminal_same [simp]: "isTerminalResultStatus = isTerminalCommandStatus"
  by (rule ext) (simp add: isTerminalResultStatus_def isTerminalCommandStatus_def
      split: CommandStatus.split)

lemma terminal_simps [simp]:
  "isTerminalCommandStatus StatusSucceeded" "isTerminalCommandStatus StatusFailed"
  "isTerminalCommandStatus StatusTimedOut" "isTerminalCommandStatus StatusCanceled"
  "\<not> isTerminalCommandStatus StatusQueued" "\<not> isTerminalCommandStatus StatusSent"
  "\<not> isTerminalCommandStatus StatusAckAccepted" "\<not> isTerminalCommandStatus StatusAckRejected"
  "\<not> isTerminalCommandStatus StatusAckTimedOut" "\<not> isTerminalCommandStatus StatusRunning"
  "\<not> isTerminalCommandStatus (OtherStatus t)"
  by (simp_all add: isTerminalCommandStatus_def)

lemma terminal_iff:
  "isTerminalCommandStatus st \<longleftrightarrow>
     st \<in> {StatusSucceeded, StatusFailed, StatusTimedOut, StatusCanceled}"
  by (cases st) auto

lemma status_edge_not_terminal: "status_edge a b \<Longrightarrow> \<not> isTerminalCommandStatus a"
  by (cases a) (auto simp: status_edge_def)

lemma status_edge_cancel: "\<not> isTerminalCommandStatus a \<Longrightarrow> status_edge a StatusCanceled"
  by (cases a) (auto simp: status_edge_def)

lemma validateCommand_queued: "validateCommand c = None \<Longrightarrow> cmd_Status c = StatusQueued"
  by (auto simp: validateCommand_def split: if_splits)

section \<open>The invariant of the stored data\<close>

definition keys_ok :: "command_view \<Rightarrow> bool" where
  "keys_ok v \<longleftrightarrow> (\<forall>i c. cv_commands v i = Some c \<longrightarrow> cmd_CommandID c = i)"

definition lifecycle_inv :: "command_view \<Rightarrow> bool" where
  "lifecycle_inv v \<longleftrightarrow>
     keys_ok v \<and>
     (\<forall>i c. cv_commands v i = Some c \<longrightarrow> stamps_ok c) \<and>
     (\<forall>i c. cv_commands v i = Some c \<and> isTerminalCommandStatus (cmd_Status c) \<longrightarrow>
        result_for v i (cmd_Status c)) \<and>
     distinct (map res_CommandID (cv_results v)) \<and>
     (\<forall>r \<in> set (cv_results v). isTerminalCommandStatus (res_Status r) \<and>
        cv_commands v (res_CommandID r) \<noteq> None) \<and>
     (\<forall>e \<in> set (cv_progress v). cv_commands v (pe_CommandID e) \<noteq> None)"

lemma lifecycle_inv_keys [intro]: "lifecycle_inv v \<Longrightarrow> keys_ok v"
  by (simp add: lifecycle_inv_def)

lemma result_for_append [simp]:
  "result_for (v\<lparr>cv_results := cv_results v @ rs\<rparr>) i st \<longleftrightarrow>
     result_for v i st \<or> (\<exists>r \<in> set rs. res_CommandID r = i \<and> res_Status r = st)"
  by (auto simp: result_for_def)

lemma result_for_frame [simp]:
  "result_for (put_command c v) i st = result_for v i st"
  "result_for (v\<lparr>cv_progress := ps\<rparr>) i st = result_for v i st"
  by (simp_all add: result_for_def)

lemma stamps_new: "validateCommand c = None \<Longrightarrow> stamps_ok c \<Longrightarrow> cmd_TerminalAt c = None"
  by (auto simp: stamps_ok_def dest: validateCommand_queued)

lemma keys_okD: "keys_ok v \<Longrightarrow> cv_commands v i = Some c \<Longrightarrow> cmd_CommandID c = i"
  by (simp add: keys_ok_def)

lemma keys_ok_frame [simp]:
  "keys_ok (v\<lparr>cv_progress := ps\<rparr>) = keys_ok v" "keys_ok (v\<lparr>cv_results := rs\<rparr>) = keys_ok v"
  by (simp_all add: keys_ok_def)

lemma keys_ok_put [simp]: "keys_ok v \<Longrightarrow> keys_ok (put_command c v)"
  by (simp add: keys_ok_def)

lemma lifecycle_inv_put:
  assumes "lifecycle_inv v" and "stamps_ok c"
    and "isTerminalCommandStatus (cmd_Status c) \<Longrightarrow> result_for v (cmd_CommandID c) (cmd_Status c)"
  shows "lifecycle_inv (put_command c v)"
  using assms unfolding lifecycle_inv_def by (auto simp: result_for_def)

lemma lifecycle_inv_progress:
  assumes "lifecycle_inv v" and "cv_commands v (pe_CommandID e) = Some c"
  shows "lifecycle_inv (v\<lparr>cv_progress := cv_progress v @ [e]\<rparr>)"
  using assms unfolding lifecycle_inv_def by auto

lemma lifecycle_inv_result:
  assumes "lifecycle_inv v" and "cv_commands v (res_CommandID r) = Some c"
    and "isTerminalCommandStatus (res_Status r)"
    and "res_CommandID r \<notin> result_ids v"
  shows "lifecycle_inv (v\<lparr>cv_results := cv_results v @ [r]\<rparr>)"
  using assms unfolding lifecycle_inv_def result_ids_def by auto

lemma lifecycle_step_inv:
  assumes "lifecycle_step v v'" and "lifecycle_inv v"
  shows "lifecycle_inv v'"
  using assms
proof (induction rule: lifecycle_step.induct)
  case (created v c)
  then show ?case by (intro lifecycle_inv_put) (auto dest: validateCommand_queued)
next
  case (moved v c c')
  then have "stamps_ok c" "cmd_CommandID c' = cmd_CommandID c"
    by (auto simp: lifecycle_inv_def same_command_def)
  with moved show ?case by (intro lifecycle_inv_put) auto
next
  case (progressed v e c)
  then show ?case by (simp add: lifecycle_inv_progress)
next
  case (resulted v r c)
  then show ?case by (simp add: lifecycle_inv_result)
qed

lemma lifecycle_steps_inv: "lifecycle_steps v v' \<Longrightarrow> lifecycle_inv v \<Longrightarrow> lifecycle_inv v'"
  by (induction rule: rtranclp_induct) (auto intro: lifecycle_step_inv)

text \<open>Nothing is ever deleted, and a command only moves along the status edges.\<close>

lemma same_command_refl [simp]: "same_command c c"
  by (simp add: same_command_def)

lemma same_command_trans: "same_command a b \<Longrightarrow> same_command b c \<Longrightarrow> same_command a c"
  by (simp add: same_command_def)

lemma lifecycle_step_same:
  assumes "lifecycle_step v v'" and "cv_commands v i = Some c"
  shows "\<exists>c'. cv_commands v' i = Some c' \<and> same_command c c' \<and>
           (c' = c \<or> status_edge (cmd_Status c) (cmd_Status c'))"
  using assms
proof (induction rule: lifecycle_step.induct)
  case (moved v d d')
  then have "cmd_CommandID d' = cmd_CommandID d" by (simp add: same_command_def)
  with moved show ?case by (cases "i = cmd_CommandID d") simp_all
qed auto

lemma lifecycle_step_terminal:
  assumes "lifecycle_step v v'" and "cv_commands v i = Some c"
    and "isTerminalCommandStatus (cmd_Status c)"
  shows "cv_commands v' i = Some c"
  using lifecycle_step_same [OF assms(1,2)] assms(3) by (auto dest: status_edge_not_terminal)

lemma lifecycle_steps_terminal:
  "lifecycle_steps v v' \<Longrightarrow> cv_commands v i = Some c \<Longrightarrow> isTerminalCommandStatus (cmd_Status c) \<Longrightarrow>
   cv_commands v' i = Some c"
  by (induction rule: rtranclp_induct) (auto intro: lifecycle_step_terminal)

lemma lifecycle_steps_same:
  assumes "lifecycle_steps v v'" and "cv_commands v i = Some c"
  shows "\<exists>c'. cv_commands v' i = Some c' \<and> same_command c c' \<and>
           status_edge\<^sup>*\<^sup>* (cmd_Status c) (cmd_Status c')"
  using assms
proof (induction rule: rtranclp_induct)
  case (step u w)
  then obtain c1 where c1: "cv_commands u i = Some c1" "same_command c c1"
    "status_edge\<^sup>*\<^sup>* (cmd_Status c) (cmd_Status c1)" by auto
  from lifecycle_step_same [OF step(2) c1(1)] obtain c2 where
    c2: "cv_commands w i = Some c2" "same_command c1 c2"
    "c2 = c1 \<or> status_edge (cmd_Status c1) (cmd_Status c2)" by auto
  have "status_edge\<^sup>*\<^sup>* (cmd_Status c) (cmd_Status c2)"
    using c1(3) c2(3) by (auto intro: rtranclp.rtrancl_into_rtrancl)
  with c1 c2 show ?case by (blast intro: same_command_trans)
qed auto

lemma lifecycle_steps_results: "lifecycle_steps v v' \<Longrightarrow> set (cv_results v) \<subseteq> set (cv_results v')"
proof (induction rule: rtranclp_induct)
  case (step u w)
  from step(2) have "set (cv_results u) \<subseteq> set (cv_results w)" by (auto elim!: lifecycle_stepE)
  with step show ?case by blast
qed simp

section \<open>Steps of the service's writes\<close>

lemma edge_simps [simp]:
  "status_edge StatusQueued StatusSent" "status_edge StatusSent StatusAckTimedOut"
  "status_edge StatusSent StatusAckAccepted" "status_edge StatusSent StatusAckRejected"
  "status_edge StatusAckAccepted StatusRunning" "status_edge StatusRunning StatusRunning"
  "status_edge StatusAckAccepted b = (b = StatusRunning \<or> isTerminalCommandStatus b)"
  "status_edge StatusRunning b = (b = StatusRunning \<or> isTerminalCommandStatus b)"
  by (auto simp: status_edge_def)

lemma stamps_moves:
  "stamps_ok c \<Longrightarrow> cmd_Status c = StatusQueued \<Longrightarrow>
     stamps_ok (c\<lparr>cmd_Status := StatusSent, cmd_SentAt := Some t, cmd_AckDeadlineAt := d,
                   cmd_UpdatedAt := u\<rparr>)"
  "stamps_ok c \<Longrightarrow> cmd_Status c = StatusSent \<Longrightarrow>
     stamps_ok (c\<lparr>cmd_Status := StatusAckTimedOut, cmd_UpdatedAt := u\<rparr>)"
  "stamps_ok c \<Longrightarrow> cmd_Status c = StatusSent \<Longrightarrow> st = StatusAckAccepted \<or> st = StatusAckRejected \<Longrightarrow>
     stamps_ok (c\<lparr>cmd_AckedAt := Some t, cmd_Status := st, cmd_UpdatedAt := u\<rparr>)"
  "stamps_ok c \<Longrightarrow> cmd_Status c = StatusAckAccepted \<or> cmd_Status c = StatusRunning \<Longrightarrow>
     stamps_ok (c\<lparr>cmd_Status := StatusRunning, cmd_UpdatedAt := u\<rparr>)"
  "stamps_ok c \<Longrightarrow> cmd_Status c = StatusAckAccepted \<or> cmd_Status c = StatusRunning \<Longrightarrow>
     isTerminalCommandStatus st \<Longrightarrow>
     stamps_ok (c\<lparr>cmd_Status := st, cmd_TerminalAt := Some t, cmd_UpdatedAt := u\<rparr>)"
  "stamps_ok c \<Longrightarrow>
     stamps_ok (c\<lparr>cmd_Status := StatusCanceled, cmd_TerminalAt := Some t, cmd_UpdatedAt := u\<rparr>)"
  by (simp_all add: stamps_ok_def) (elim disjE conjE; simp add: terminal_iff)+

lemma moved_step:
  assumes "cv_commands v (cmd_CommandID c) = Some c" and "same_command c c'"
    and "status_edge (cmd_Status c) (cmd_Status c')" and "stamps_ok c \<Longrightarrow> stamps_ok c'"
    and "isTerminalCommandStatus (cmd_Status c') \<Longrightarrow> result_for v (cmd_CommandID c) (cmd_Status c')"
  shows "lifecycle_steps v (put_command c' v)"
  using assms by (intro r_into_rtranclp lifecycle_step.moved) auto

lemma progress_steps:
  assumes "\<exists>c. cv_commands v (pe_CommandID e) = Some c \<and>
      (cmd_Status c = StatusAckAccepted \<or> cmd_Status c = StatusRunning)"
  shows "lifecycle_steps v (v\<lparr>cv_progress := cv_progress v @ [e]\<rparr>)"
  using assms by (auto intro: lifecycle_step.progressed)

lemma result_steps:
  assumes "\<exists>c. cv_commands v (res_CommandID r) = Some c \<and> \<not> isTerminalCommandStatus (cmd_Status c)"
    and "isTerminalCommandStatus (res_Status r)"
    and "res_CommandID r \<notin> result_ids v"
  shows "lifecycle_steps v (v\<lparr>cv_results := cv_results v @ [r]\<rparr>)"
proof -
  from assms(1) obtain c where "cv_commands v (res_CommandID r) = Some c"
    "\<not> isTerminalCommandStatus (cmd_Status c)" by blast
  then have "lifecycle_step v (v\<lparr>cv_results := cv_results v @ [r]\<rparr>)"
    using assms(2,3) by (intro lifecycle_step.resulted) auto
  then show ?thesis ..
qed

lemma terminal_steps:
  assumes "cv_commands v (cmd_CommandID c) = Some c" and "same_command c c'"
    and "status_edge (cmd_Status c) (cmd_Status c')" and "stamps_ok c \<Longrightarrow> stamps_ok c'"
    and "isTerminalCommandStatus (cmd_Status c')"
    and "res_CommandID r = cmd_CommandID c" and "res_Status r = cmd_Status c'"
    and "res_CommandID r \<notin> result_ids v"
  shows "lifecycle_steps v (put_command c' (v\<lparr>cv_results := cv_results v @ [r]\<rparr>))"
proof -
  have "lifecycle_steps v (v\<lparr>cv_results := cv_results v @ [r]\<rparr>)"
    using assms by (intro result_steps) (auto dest: status_edge_not_terminal)
  also have "lifecycle_steps \<dots> (put_command c' (v\<lparr>cv_results := cv_results v @ [r]\<rparr>))"
    using assms by (intro moved_step [where c = c]) auto
  finally show ?thesis .
qed

lemma running_steps:
  assumes "cv_commands v (cmd_CommandID c) = Some c"
    and "cmd_Status c = StatusAckAccepted \<or> cmd_Status c = StatusRunning"
    and "pe_CommandID e = cmd_CommandID c"
  shows "lifecycle_steps v (put_command (c\<lparr>cmd_Status := StatusRunning, cmd_UpdatedAt := t\<rparr>)
           (v\<lparr>cv_progress := cv_progress v @ [e]\<rparr>))"
proof -
  have "lifecycle_steps v (v\<lparr>cv_progress := cv_progress v @ [e]\<rparr>)"
    using assms by (intro progress_steps) auto
  also have "lifecycle_steps \<dots> (put_command (c\<lparr>cmd_Status := StatusRunning, cmd_UpdatedAt := t\<rparr>)
      (v\<lparr>cv_progress := cv_progress v @ [e]\<rparr>))"
    using assms by (intro moved_step [where c = c]) (auto simp: same_command_def stamps_moves)
  finally show ?thesis .
qed

lemma sent_steps:
  assumes "cv_commands v (cmd_CommandID c) = Some c" and "cmd_Status c = StatusQueued"
  shows "lifecycle_steps v (put_command (c\<lparr>cmd_Status := StatusSent, cmd_SentAt := Some t,
           cmd_AckDeadlineAt := d, cmd_UpdatedAt := u\<rparr>) v)"
  using assms by (intro moved_step [where c = c]) (auto simp: same_command_def stamps_moves)

lemma ack_timed_out_steps:
  assumes "cv_commands v (cmd_CommandID c) = Some c" and "cmd_Status c = StatusSent"
  shows "lifecycle_steps v (put_command (c\<lparr>cmd_Status := StatusAckTimedOut, cmd_UpdatedAt := u\<rparr>) v)"
  using assms by (intro moved_step [where c = c]) (auto simp: same_command_def stamps_moves)

lemma acked_steps:
  assumes "cv_commands v (cmd_CommandID c) = Some c" and "cmd_Status c = StatusSent"
    and "st = StatusAckAccepted \<or> st = StatusAckRejected"
  shows "lifecycle_steps v (put_command (c\<lparr>cmd_AckedAt := Some t, cmd_Status := st,
           cmd_UpdatedAt := u\<rparr>) v)"
  using assms by (intro moved_step [where c = c]) (auto simp: same_command_def stamps_moves)

lemma finished_steps:
  assumes "cv_commands v (cmd_CommandID c) = Some c"
    and "cmd_Status c = StatusAckAccepted \<or> cmd_Status c = StatusRunning"
    and "isTerminalCommandStatus st" and "res_CommandID r = cmd_CommandID c" and "res_Status r = st"
    and "res_CommandID r \<notin> result_ids v"
  shows "lifecycle_steps v (put_command (c\<lparr>cmd_Status := st, cmd_TerminalAt := Some t,
           cmd_UpdatedAt := u\<rparr>) (v\<lparr>cv_results := cv_results v @ [r]\<rparr>))"
  using assms by (intro terminal_steps [where c = c]) (auto simp: same_command_def stamps_moves)

lemma canceled_steps:
  assumes "cv_commands v (cmd_CommandID c) = Some c" and "\<not> isTerminalCommandStatus (cmd_Status c)"
    and "res_CommandID r = cmd_CommandID c" and "res_Status r = StatusCanceled"
    and "res_CommandID r \<notin> result_ids v"
  shows "lifecycle_steps v (put_command (c\<lparr>cmd_Status := StatusCanceled, cmd_TerminalAt := Some t,
           cmd_UpdatedAt := u\<rparr>) (v\<lparr>cv_results := cv_results v @ [r]\<rparr>))"
  using assms by (intro terminal_steps [where c = c])
    (auto simp: same_command_def stamps_moves status_edge_cancel)

lemma created_steps:
  assumes "cv_commands v (cmd_CommandID c) = None" and "validateCommand c = None" and "stamps_ok c"
  shows "lifecycle_steps v (put_command c v)"
  using assms by (intro r_into_rtranclp lifecycle_step.created)

lemma stamps_new_command [simp]: "stamps_ok (new_command req d i payload now)"
  by (simp add: stamps_ok_def new_command_def)

lemmas service_steps = sent_steps ack_timed_out_steps acked_steps progress_steps
  running_steps result_steps finished_steps canceled_steps

text \<open>A command whose result is recorded but that is not terminal.\<close>

definition stuck :: "string \<Rightarrow> command_view \<Rightarrow> bool" where
  "stuck i v \<longleftrightarrow> i \<in> result_ids v \<and>
     (\<exists>c. cv_commands v i = Some c \<and> \<not> isTerminalCommandStatus (cmd_Status c))"

section \<open>The repository's contract\<close>

text \<open>
  A call that returns an error has stored nothing; a call that returns nil has stored exactly
  what it was asked to. \<open>CreateCommand\<close> refuses a known identifier and \<open>RecordResult\<close> a second
  result of a command (the unique indexes of the schema). The clock and the identifier generator
  write nothing.
\<close>

locale command_contract =
  fixes svc :: "'w CommandService" and repo :: "'w CommandRepository" and view :: "'w \<Rightarrow> command_view"
  assumes wired: "svc_Repository svc = Some repo"
    and GetCommand_law: "repo_GetCommand repo i w = (got, w') \<Longrightarrow>
      view w' = view w \<and> (case got of Inl e \<Rightarrow> True | Inr c \<Rightarrow> cv_commands (view w) i = Some c)"
    and CreateCommand_law: "repo_CreateCommand repo c w = (r, w') \<Longrightarrow>
      (case r of Inl e \<Rightarrow> view w' = view w
       | Inr u \<Rightarrow> cv_commands (view w) (cmd_CommandID c) = None \<and> view w' = put_command c (view w))"
    and SaveCommand_law: "repo_SaveCommand repo c w = (r, w') \<Longrightarrow>
      (case r of Inl e \<Rightarrow> view w' = view w | Inr u \<Rightarrow> view w' = put_command c (view w))"
    and AppendProgressEvent_law: "repo_AppendProgressEvent repo ev w = (r, w') \<Longrightarrow>
      (case r of Inl e \<Rightarrow> view w' = view w
       | Inr u \<Rightarrow> view w' = (view w)\<lparr>cv_progress := cv_progress (view w) @ [ev]\<rparr>)"
    and RecordResult_law: "repo_RecordResult repo res w = (r, w') \<Longrightarrow>
      (case r of Inl e \<Rightarrow> view w' = view w
       | Inr u \<Rightarrow> res_CommandID res \<notin> result_ids (view w) \<and>
                 view w' = (view w)\<lparr>cv_results := cv_results (view w) @ [res]\<rparr>)"
    and clock_law: "svc_Clock svc = Some f \<Longrightarrow> f w = (t, w') \<Longrightarrow> view w' = view w"
    and TimeNow_law: "svc_TimeNow svc w = (t, w') \<Longrightarrow> view w' = view w"
    and IDGenerator_law: "svc_IDGenerator svc = Some g \<Longrightarrow> g w = (i, w') \<Longrightarrow> view w' = view w"
begin

lemma wp_GetCommand:
  assumes "\<And>e w'. view w' = view w \<Longrightarrow> E e w'"
    and "\<And>c w'. view w' = view w \<Longrightarrow> cv_commands (view w) i = Some c \<Longrightarrow> Q c w'"
  shows "wp (repo_GetCommand repo i) Q E w"
  by (rule wpI) (auto dest!: GetCommand_law intro: assms)

lemma wp_CreateCommand:
  assumes "\<And>e w'. view w' = view w \<Longrightarrow> E e w'"
    and "\<And>w'. cv_commands (view w) (cmd_CommandID c) = None \<Longrightarrow>
           view w' = put_command c (view w) \<Longrightarrow> Q () w'"
  shows "wp (repo_CreateCommand repo c) Q E w"
  by (rule wpI) (auto dest!: CreateCommand_law intro: assms)

lemma wp_SaveCommand:
  assumes "\<And>e w'. view w' = view w \<Longrightarrow> E e w'"
    and "\<And>w'. view w' = put_command c (view w) \<Longrightarrow> Q () w'"
  shows "wp (repo_SaveCommand repo c) Q E w"
  by (rule wpI) (auto dest!: SaveCommand_law intro: assms)

lemma wp_AppendProgressEvent:
  assumes "\<And>e w'. view w' = view w \<Longrightarrow> E e w'"
    and "\<And>w'. view w' = (view w)\<lparr>cv_progress := cv_progress (view w) @ [ev]\<rparr> \<Longrightarrow> Q () w'"
  shows "wp (repo_AppendProgressEvent repo ev) Q E w"
  by (rule wpI) (auto dest!: AppendProgressEvent_law intro: assms)

lemma wp_RecordResult:
  assumes "\<And>e w'. view w' = view w \<Longrightarrow> E e w'"
    and "\<And>w'. res_CommandID res \<notin> result_ids (view w) \<Longrightarrow>
           view w' = (view w)\<lparr>cv_results := cv_results (view w) @ [res]\<rparr> \<Longrightarrow> Q () w'"
  shows "wp (repo_RecordResult repo res) Q E w"
  by (rule wpI) (auto dest!: RecordResult_law intro: assms)

lemma wp_now:
  assumes "\<And>t w'. view w' = view w \<Longrightarrow> Q t w'"
  shows "wp (commands_now svc) Q E w"
  using assms by (auto simp: commands_now_def wp_simps split: option.split prod.split
      dest: clock_law TimeNow_law)

lemma wp_newID:
  assumes "\<And>e w'. view w' = view w \<Longrightarrow> E e w'" and "\<And>i w'. view w' = view w \<Longrightarrow> Q i w'"
  shows "wp (commands_newID svc requested) Q E w"
  using assms by (auto simp: commands_newID_def wp_simps split: option.split prod.split
      dest: IDGenerator_law)

lemma wp_load:
  assumes "keys_ok (view w)" and "\<And>e w'. view w' = view w \<Longrightarrow> E e w'"
    and "\<And>c w'. view w' = view w \<Longrightarrow> cv_commands (view w) (cmd_CommandID c) = Some c \<Longrightarrow> Q c w'"
  shows "wp (commands_load svc i) Q E w"
  using assms
  by (auto simp: commands_load_def wired wp_simps intro!: wp_GetCommand dest: keys_okD)

lemmas wp_calls = wp_load wp_now wp_newID wp_CreateCommand wp_SaveCommand
  wp_AppendProgressEvent wp_RecordResult

abbreviation implements :: "('w, 'a) op \<Rightarrow> 'w \<Rightarrow> bool" where
  "implements m w \<equiv> wp m (\<lambda>_ w'. lifecycle_steps (view w) (view w'))
                          (\<lambda>_ w'. lifecycle_steps (view w) (view w')) w"

lemma implements_Create: "implements (commands_Create svc req) w"
  by (auto simp: commands_Create_def wired wp_simps intro!: wp_calls created_steps
      split: sum.split option.split)

lemma implements_MarkSent: "keys_ok (view w) \<Longrightarrow> implements (commands_MarkSent svc i) w"
  by (auto simp: commands_MarkSent_def save_command_def wired wp_simps intro!: wp_calls service_steps split: sum.split)

lemma implements_RecordAck: "keys_ok (view w) \<Longrightarrow> implements (commands_RecordAck svc req) w"
  by (auto simp: commands_RecordAck_def save_command_def wired wp_simps intro!: wp_calls service_steps)

lemma implements_ExpireMissingAck: "keys_ok (view w) \<Longrightarrow> implements (commands_ExpireMissingAck svc i) w"
  by (auto simp: commands_ExpireMissingAck_def save_command_def wired wp_simps intro!: wp_calls service_steps)

lemma implements_RecordProgress: "keys_ok (view w) \<Longrightarrow> implements (commands_RecordProgress svc req) w"
  by (auto simp: commands_RecordProgress_def append_progress_def save_command_def wired wp_simps
      intro!: wp_calls service_steps)

lemma implements_RecordResult: "keys_ok (view w) \<Longrightarrow> implements (commands_RecordResult svc req) w"
  by (auto simp: commands_RecordResult_def record_result_def save_command_def wired wp_simps
       intro!: wp_calls service_steps)

lemma implements_ExpireResult: "keys_ok (view w) \<Longrightarrow> implements (commands_ExpireResult svc i) w"
  by (auto simp: commands_ExpireResult_def record_result_def save_command_def service_result_def
      wired wp_simps  intro!: wp_calls service_steps)

lemma implements_Cancel: "keys_ok (view w) \<Longrightarrow> implements (commands_Cancel svc i) w"
  by (auto simp: commands_Cancel_def record_result_def save_command_def service_result_def
      wired wp_simps
      intro!: wp_calls service_steps)

lemma stuck_Create: "stuck i (view w) \<Longrightarrow>
    wp (commands_Create svc req) (\<lambda>_ w'. stuck i (view w')) (\<lambda>_ w'. stuck i (view w')) w"
  by (auto simp: commands_Create_def wired wp_simps stuck_def intro!: wp_calls
      split: sum.split option.split)

lemma stuck_MarkSent: "stuck i (view w) \<Longrightarrow> keys_ok (view w) \<Longrightarrow>
    wp (commands_MarkSent svc j) (\<lambda>_ w'. stuck i (view w')) (\<lambda>_ w'. stuck i (view w')) w"
  by (auto simp: commands_MarkSent_def save_command_def wired wp_simps stuck_def intro!: wp_calls
      split: sum.split)

lemma stuck_RecordAck: "stuck i (view w) \<Longrightarrow> keys_ok (view w) \<Longrightarrow>
    wp (commands_RecordAck svc ack) (\<lambda>_ w'. stuck i (view w')) (\<lambda>_ w'. stuck i (view w')) w"
  by (auto simp: commands_RecordAck_def save_command_def wired wp_simps stuck_def intro!: wp_calls)

lemma stuck_ExpireMissingAck: "stuck i (view w) \<Longrightarrow> keys_ok (view w) \<Longrightarrow>
    wp (commands_ExpireMissingAck svc j) (\<lambda>_ w'. stuck i (view w')) (\<lambda>_ w'. stuck i (view w')) w"
  by (auto simp: commands_ExpireMissingAck_def save_command_def wired wp_simps stuck_def
      intro!: wp_calls)

lemma stuck_RecordProgress: "stuck i (view w) \<Longrightarrow> keys_ok (view w) \<Longrightarrow>
    wp (commands_RecordProgress svc pr) (\<lambda>_ w'. stuck i (view w')) (\<lambda>_ w'. stuck i (view w')) w"
  by (auto simp: commands_RecordProgress_def append_progress_def save_command_def wired wp_simps
      stuck_def intro!: wp_calls)

lemma stuck_RecordResult: "stuck i (view w) \<Longrightarrow> keys_ok (view w) \<Longrightarrow>
    wp (commands_RecordResult svc rr) (\<lambda>_ w'. stuck i (view w')) (\<lambda>_ w'. stuck i (view w')) w"
  by (auto simp: commands_RecordResult_def record_result_def save_command_def wired wp_simps
      stuck_def intro!: wp_calls)

lemma stuck_ExpireResult: "stuck i (view w) \<Longrightarrow> keys_ok (view w) \<Longrightarrow>
    wp (commands_ExpireResult svc j) (\<lambda>_ w'. stuck i (view w')) (\<lambda>_ w'. stuck i (view w')) w"
  by (auto simp: commands_ExpireResult_def record_result_def save_command_def service_result_def
      wired wp_simps stuck_def intro!: wp_calls)

lemma stuck_Cancel: "stuck i (view w) \<Longrightarrow> keys_ok (view w) \<Longrightarrow>
    wp (commands_Cancel svc j) (\<lambda>_ w'. stuck i (view w')) (\<lambda>_ w'. stuck i (view w')) w"
  by (auto simp: commands_Cancel_def record_result_def save_command_def service_result_def
      wired wp_simps stuck_def intro!: wp_calls)

end

end
