(* ===== verification/Command_Store.thy ===== *)
theory Command_Store
  imports Command_Lifecycle
begin

text \<open>
  The in-memory repository of the command service (\<open>fakeRepository\<close> in
  \<open>backend/internal/domain/commands/service_test.go\<close>), with a schedule of failing calls, a clock
  and an identifier generator; it interprets \<open>command_contract\<close>. \<open>run_call\<close> is one call of the
  service and \<open>command_reachable\<close> the stores that sequences of calls reach from an empty one,
  whichever repository calls fail on the way.
\<close>

section \<open>The repository\<close>

record command_store = env +
  st_commands :: "string \<Rightarrow> Command option"
  st_progress :: "ProgressEvent list"
  st_results :: "Result list"
  st_createCalls :: nat

definition fake_CreateCommand :: "Command \<Rightarrow> (command_store, unit) op" where
  "fake_CreateCommand c w =
     (case st_commands w (cmd_CommandID c) of
        Some _ \<Rightarrow> (Inl (Errorf ''command already exists'' []), w)
      | None \<Rightarrow> (Inr (), w\<lparr>st_createCalls := st_createCalls w + 1,
                         st_commands := (st_commands w)(cmd_CommandID c \<mapsto> c)\<rparr>))"

definition fake_GetCommand :: "string \<Rightarrow> (command_store, Command) op" where
  "fake_GetCommand i w =
     (case st_commands w i of
        None \<Rightarrow> (Inl (Errorf ''command not found'' []), w)
      | Some c \<Rightarrow> (Inr c, w))"

definition fake_SaveCommand :: "Command \<Rightarrow> (command_store, unit) op" where
  "fake_SaveCommand c w =
     (case st_commands w (cmd_CommandID c) of
        None \<Rightarrow> (Inl (Errorf ''command not found'' []), w)
      | Some _ \<Rightarrow> (Inr (), w\<lparr>st_commands := (st_commands w)(cmd_CommandID c \<mapsto> c)\<rparr>))"

definition fake_AppendProgressEvent :: "ProgressEvent \<Rightarrow> (command_store, unit) op" where
  "fake_AppendProgressEvent e w = (Inr (), w\<lparr>st_progress := st_progress w @ [e]\<rparr>)"

definition fake_RecordResult :: "Result \<Rightarrow> (command_store, unit) op" where
  "fake_RecordResult r w =
     (if \<exists>existing \<in> set (st_results w). res_CommandID existing = res_CommandID r
      then (Inl (Errorf ''terminal result already exists'' []), w)
      else (Inr (), w\<lparr>st_results := st_results w @ [r]\<rparr>))"

definition memory_repository :: "command_store CommandRepository" where
  "memory_repository =
     \<lparr>repo_CreateCommand = \<lambda>c. with_fault (fake_CreateCommand c),
      repo_GetCommand = \<lambda>i. with_fault (fake_GetCommand i),
      repo_SaveCommand = \<lambda>c. with_fault (fake_SaveCommand c),
      repo_AppendProgressEvent = \<lambda>e. with_fault (fake_AppendProgressEvent e),
      repo_RecordResult = \<lambda>r. with_fault (fake_RecordResult r)\<rparr>"

definition memory_service ::
  "(CommandType \<Rightarrow> CommandDefinition option) option \<Rightarrow> command_store CommandService" where
  "memory_service definitions =
     \<lparr>svc_Repository = Some memory_repository, svc_Definitions = definitions,
      svc_IDGenerator = Some next_id, svc_Clock = Some read_clock, svc_TimeNow = read_clock\<rparr>"

definition store_view :: "command_store \<Rightarrow> command_view" where
  "store_view w = \<lparr>cv_commands = st_commands w, cv_progress = st_progress w,
                   cv_results = st_results w\<rparr>"

lemma store_view_fields [simp]:
  "cv_commands (store_view w) = st_commands w" "cv_progress (store_view w) = st_progress w"
  "cv_results (store_view w) = st_results w"
  by (simp_all add: store_view_def)

lemma store_view_env [simp]:
  "store_view (w\<lparr>env_faults := fs\<rparr>) = store_view w"
  "store_view (w\<lparr>env_clock := t\<rparr>) = store_view w"
  "store_view (w\<lparr>env_ticks := ns\<rparr>) = store_view w"
  "store_view (w\<lparr>env_ids := ids\<rparr>) = store_view w"
  by (simp_all add: store_view_def)

lemmas memory_defs = memory_repository_def memory_service_def fake_CreateCommand_def
  fake_GetCommand_def fake_SaveCommand_def fake_AppendProgressEvent_def fake_RecordResult_def

interpretation memory: command_contract "memory_service ds" memory_repository store_view for ds
proof (unfold_locales, goal_cases)
  case (2 i w got w') then show ?case
    by (auto simp: memory_defs with_fault_def split: list.splits if_splits option.splits)
next
  case (3 c w r w') then show ?case
    by (auto simp: memory_defs with_fault_def store_view_def put_command_def
        split: list.splits if_splits option.splits)
next
  case (4 c w r w') then show ?case
    by (auto simp: memory_defs with_fault_def store_view_def put_command_def
        split: list.splits if_splits option.splits)
next
  case (5 e w r w') then show ?case
    by (auto simp: memory_defs with_fault_def store_view_def split: list.splits if_splits)
next
  case (6 res w r w') then show ?case
    by (auto simp: memory_defs with_fault_def store_view_def result_ids_def
        split: list.splits if_splits) blast+
qed (auto simp: memory_service_def read_clock_def next_id_def split: list.splits)

lemma wp_fakes:
  "wp (fake_CreateCommand c) Q E w =
     (case st_commands w (cmd_CommandID c) of
        Some _ \<Rightarrow> E (Errorf ''command already exists'' []) w
      | None \<Rightarrow> Q () (w\<lparr>st_createCalls := st_createCalls w + 1,
                        st_commands := (st_commands w)(cmd_CommandID c \<mapsto> c)\<rparr>))"
  "wp (fake_GetCommand i) Qc E w =
     (case st_commands w i of None \<Rightarrow> E (Errorf ''command not found'' []) w | Some d \<Rightarrow> Qc d w)"
  "wp (fake_SaveCommand c) Q E w =
     (case st_commands w (cmd_CommandID c) of
        None \<Rightarrow> E (Errorf ''command not found'' []) w
      | Some _ \<Rightarrow> Q () (w\<lparr>st_commands := (st_commands w)(cmd_CommandID c \<mapsto> c)\<rparr>))"
  "wp (fake_AppendProgressEvent e) Q E w = Q () (w\<lparr>st_progress := st_progress w @ [e]\<rparr>)"
  "wp (fake_RecordResult r) Q E w =
     (if \<exists>existing \<in> set (st_results w). res_CommandID existing = res_CommandID r
      then E (Errorf ''terminal result already exists'' []) w
      else Q () (w\<lparr>st_results := st_results w @ [r]\<rparr>))"
  by (simp_all add: wp_def memory_defs split: option.split)

lemma memory_fields [simp]:
  "svc_Repository (memory_service ds) = Some memory_repository"
  "svc_Clock (memory_service ds) = Some read_clock"
  "svc_IDGenerator (memory_service ds) = Some next_id"
  "repo_CreateCommand memory_repository c = with_fault (fake_CreateCommand c)"
  "repo_GetCommand memory_repository i = with_fault (fake_GetCommand i)"
  "repo_SaveCommand memory_repository c = with_fault (fake_SaveCommand c)"
  "repo_AppendProgressEvent memory_repository e = with_fault (fake_AppendProgressEvent e)"
  "repo_RecordResult memory_repository r = with_fault (fake_RecordResult r)"
  by (simp_all add: memory_service_def memory_repository_def)

lemma definitionFor_ok:
  "commands_definitionFor s t = Inr d \<Longrightarrow> 0 < AckWindow d \<and> AckWindow d < ResultWindow d"
  by (auto simp: commands_definitionFor_def Let_def split: option.splits if_splits)

lemma new_command_fields [simp]:
  "cmd_CommandID (new_command req d i p t) = i"
  "cmd_AccountID (new_command req d i p t) = TrimSpace (cr_AccountID req)"
  "cmd_DeviceID (new_command req d i p t) = TrimSpace (cr_DeviceID req)"
  "cmd_CommandType (new_command req d i p t) = cr_CommandType req"
  "cmd_Status (new_command req d i p t) = StatusQueued"
  "cmd_Payload (new_command req d i p t) = p"
  "cmd_AckDeadlineAt (new_command req d i p t) = t + AckWindow d"
  "cmd_ResultDeadlineAt (new_command req d i p t) = t + ResultWindow d"
  by (simp_all add: new_command_def)

lemma validateCommand_None:
  "validateCommand c = None \<Longrightarrow>
     TrimSpace (cmd_CommandID c) \<noteq> [] \<and> TrimSpace (cmd_AccountID c) \<noteq> []"
  by (auto simp: validateCommand_def split: if_splits)

section \<open>Calls and reachable stores\<close>

datatype command_call =
    CallCreate CreateRequest
  | CallMarkSent string
  | CallRecordAck AckRequest
  | CallExpireMissingAck string
  | CallRecordProgress ProgressRequest
  | CallRecordResult ResultRequest
  | CallExpireResult string
  | CallCancel string

definition fst_op :: "('w, 'a \<times> 'b) op \<Rightarrow> ('w, 'a) op" where
  "fst_op m = bindE m (\<lambda>(a, _). ret a)"

fun run_call :: "'w CommandService \<Rightarrow> command_call \<Rightarrow> ('w, Command) op" where
  "run_call s (CallCreate req) = commands_Create s req"
| "run_call s (CallMarkSent i) = commands_MarkSent s i"
| "run_call s (CallRecordAck req) = commands_RecordAck s req"
| "run_call s (CallExpireMissingAck i) = fst_op (commands_ExpireMissingAck s i)"
| "run_call s (CallRecordProgress req) = commands_RecordProgress s req"
| "run_call s (CallRecordResult req) = commands_RecordResult s req"
| "run_call s (CallExpireResult i) = fst_op (commands_ExpireResult s i)"
| "run_call s (CallCancel i) = commands_Cancel s i"

fun run_calls :: "'w CommandService \<Rightarrow> command_call list \<Rightarrow> 'w \<Rightarrow> 'w" where
  "run_calls s [] w = w"
| "run_calls s (c # cs) w = run_calls s cs (snd (run_call s c w))"

definition empty_store :: "command_store \<Rightarrow> bool" where
  "empty_store w \<longleftrightarrow> st_commands w = Map.empty \<and> st_progress w = [] \<and> st_results w = []"

inductive command_reachable ::
  "(CommandType \<Rightarrow> CommandDefinition option) option \<Rightarrow> command_store \<Rightarrow> bool" for ds where
  start: "empty_store w \<Longrightarrow> command_reachable ds w"
| called: "command_reachable ds w \<Longrightarrow> command_reachable ds (snd (run_call (memory_service ds) c w))"

lemma snd_fst_op [simp]: "snd (fst_op m w) = snd (m w)"
  by (simp add: fst_op_def op_defs split: prod.split sum.split)

lemma run_call_steps:
  assumes "keys_ok (store_view w)"
  shows "lifecycle_steps (store_view w) (store_view (snd (run_call (memory_service ds) c w)))"
  by (cases c) (simp_all, insert assms, (rule wp_worldD, simp add: memory.implements_Create
      memory.implements_MarkSent memory.implements_RecordAck memory.implements_ExpireMissingAck
      memory.implements_RecordProgress memory.implements_RecordResult memory.implements_ExpireResult
      memory.implements_Cancel)+)

lemma run_call_stuck:
  assumes "keys_ok (store_view w)" and "stuck i (store_view w)"
  shows "stuck i (store_view (snd (run_call (memory_service ds) c w)))"
  by (cases c) (simp_all, insert assms, (rule wp_worldD, simp add: memory.stuck_Create
      memory.stuck_MarkSent memory.stuck_RecordAck memory.stuck_ExpireMissingAck
      memory.stuck_RecordProgress memory.stuck_RecordResult memory.stuck_ExpireResult
      memory.stuck_Cancel)+)

lemma reachable_inv: "command_reachable ds w \<Longrightarrow> lifecycle_inv (store_view w)"
proof (induction rule: command_reachable.induct)
  case (start w)
  then show ?case
    by (simp add: lifecycle_inv_def keys_ok_def empty_store_def)
next
  case (called w c)
  then show ?case
    by (blast intro: lifecycle_steps_inv run_call_steps lifecycle_inv_keys)
qed

lemma reachable_keys [simp]: "command_reachable ds w \<Longrightarrow> keys_ok (store_view w)"
  using reachable_inv by blast

lemma run_calls_reachable:
  "command_reachable ds w \<Longrightarrow> command_reachable ds (run_calls (memory_service ds) cs w)"
  by (induction cs arbitrary: w) (auto intro: command_reachable.called)

lemma run_calls_steps:
  "command_reachable ds w \<Longrightarrow>
   lifecycle_steps (store_view w) (store_view (run_calls (memory_service ds) cs w))"
proof (induction cs arbitrary: w)
  case (Cons c cs)
  then show ?case
    using run_call_steps [of w ds c] command_reachable.called [of ds w c] by fastforce
qed simp

lemma run_calls_stuck:
  "command_reachable ds w \<Longrightarrow> stuck i (store_view w) \<Longrightarrow>
   stuck i (store_view (run_calls (memory_service ds) cs w))"
proof (induction cs arbitrary: w)
  case (Cons c cs)
  then show ?case
    using run_call_stuck [of w i ds c] command_reachable.called [of ds w c] by simp
qed simp

section \<open>Properties\<close>

text \<open>C1: Every call of the command service, whichever repository calls fail on the way, is a
  sequence of steps of the abstract lifecycle machine.\<close>

theorem command_calls_refine_lifecycle:
  assumes "command_reachable ds w"
  shows "lifecycle_steps (store_view w) (store_view (snd (run_call (memory_service ds) c w)))"
  using assms by (simp add: run_call_steps)

text \<open>C7: In every reachable store a terminal command has its recorded result, of the same
  status; a command has at most one result; and the timestamps fit the status.\<close>

theorem command_store_invariant:
  assumes "command_reachable ds w"
  shows "distinct (map res_CommandID (st_results w)) \<and>
    (\<forall>i c. st_commands w i = Some c \<longrightarrow> cmd_CommandID c = i \<and> stamps_ok c \<and>
       (isTerminalCommandStatus (cmd_Status c) \<longrightarrow>
          (\<exists>r \<in> set (st_results w). res_CommandID r = i \<and> res_Status r = cmd_Status c)))"
proof -
  have "lifecycle_inv (store_view w)" using assms by (rule reachable_inv)
  then show ?thesis unfolding lifecycle_inv_def result_for_def keys_ok_def by simp
qed

text \<open>C18: A terminal command is never written again, whatever is called afterwards.\<close>

theorem terminal_command_final:
  assumes "command_reachable ds w" and "st_commands w i = Some c"
    and "isTerminalCommandStatus (cmd_Status c)"
  shows "st_commands (run_calls (memory_service ds) cs w) i = Some c"
  using lifecycle_steps_terminal [OF run_calls_steps [OF assms(1)], of i c cs] assms(2,3) by simp

text \<open>A command keeps its identity, owner, payload and result deadline for ever, and its status
  only moves along the lifecycle's edges.\<close>

theorem command_identity_kept:
  assumes "command_reachable ds w" and "st_commands w i = Some c"
  shows "\<exists>c'. st_commands (run_calls (memory_service ds) cs w) i = Some c' \<and> same_command c c' \<and>
           status_edge\<^sup>*\<^sup>* (cmd_Status c) (cmd_Status c')"
  using lifecycle_steps_same [OF run_calls_steps [OF assms(1)], of i c cs] assms(2) by simp

text \<open>A command whose result was recorded while the write of its terminal status failed never
  becomes terminal: no later call can record a second result.\<close>

theorem recorded_result_can_be_stranded:
  assumes "command_reachable ds w" and "r \<in> set (st_results w)"
    and "st_commands w (res_CommandID r) = Some c" and "\<not> isTerminalCommandStatus (cmd_Status c)"
  shows "\<exists>c'. st_commands (run_calls (memory_service ds) cs w) (res_CommandID r) = Some c' \<and>
           \<not> isTerminalCommandStatus (cmd_Status c')"
  using run_calls_stuck [OF assms(1), of "res_CommandID r" cs] assms(2-4)
  by (simp add: stuck_def result_ids_def)

lemma memory_Create_wp:
  "wp (commands_Create (memory_service ds) req)
     (\<lambda>c w'. st_commands w (cmd_CommandID c) = None \<and>
       st_commands w' = (st_commands w)(cmd_CommandID c \<mapsto> c) \<and>
       st_results w' = st_results w \<and> st_progress w' = st_progress w \<and>
       cmd_Status c = StatusQueued \<and> cmd_CommandType c = cr_CommandType req \<and>
       env_clock w < cmd_AckDeadlineAt c \<and> cmd_AckDeadlineAt c < cmd_ResultDeadlineAt c \<and>
       json_Valid (cmd_Payload c) \<and> TrimSpace (cmd_CommandID c) \<noteq> [] \<and>
       cmd_AccountID c = TrimSpace (cr_AccountID req) \<and> cmd_AccountID c \<noteq> [] \<and>
       cmd_DeviceID c = TrimSpace (cr_DeviceID req))
     (\<lambda>_ w'. st_commands w' = st_commands w) w"
  unfolding commands_Create_def
  by (auto simp: wp_simps wp_with_fault wp_fakes commands_now_def commands_newID_def
      read_clock_def next_id_def TrimSpace_idem
      split: sum.split list.split option.split
      dest!: definitionFor_ok validateCommand_None)

lemmas memory_Create_post = wp_InrD [OF memory_Create_wp]

text \<open>A successful Create stores exactly one new queued command, with trimmed and non-blank
  identity, a valid payload, and both deadlines in order after the creation time.\<close>

theorem create_command_post:
  assumes "commands_Create (memory_service ds) req w = (Inr c, w')"
  shows "st_commands w (cmd_CommandID c) = None \<and>
    st_commands w' = (st_commands w)(cmd_CommandID c \<mapsto> c) \<and>
    st_results w' = st_results w \<and> st_progress w' = st_progress w \<and>
    cmd_Status c = StatusQueued \<and> cmd_CommandType c = cr_CommandType req \<and>
    env_clock w < cmd_AckDeadlineAt c \<and> cmd_AckDeadlineAt c < cmd_ResultDeadlineAt c \<and>
    json_Valid (cmd_Payload c) \<and> TrimSpace (cmd_CommandID c) \<noteq> [] \<and>
    cmd_AccountID c = TrimSpace (cr_AccountID req) \<and> cmd_AccountID c \<noteq> []"
  using memory_Create_post [OF assms] by blast

text \<open>At one instant, RecordAck and ExpireMissingAck agree on a sent command: after its
  acknowledgement deadline both leave it timed out, before it or at it RecordAck stores the
  answer and ExpireMissingAck changes nothing.\<close>

theorem ack_deadline_dichotomy:
  assumes "env_faults w = []" and "i \<noteq> []" and "TrimSpace i = i" and "ack_CommandID req = i"
    and "st_commands w i = Some c" and "cmd_CommandID c = i" and "cmd_Status c = StatusSent"
  shows
    "map_option cmd_Status (st_commands (snd (commands_RecordAck (memory_service ds) req w)) i) =
       Some (if cmd_AckDeadlineAt c < env_clock w then StatusAckTimedOut
             else if ack_Accepted req then StatusAckAccepted else StatusAckRejected) \<and>
     map_option cmd_Status
         (st_commands (snd (commands_ExpireMissingAck (memory_service ds) i w)) i) =
       Some (if cmd_AckDeadlineAt c < env_clock w then StatusAckTimedOut else StatusSent)"
proof -
  have "env_faults (snd (read_clock w)) = []" "st_commands (snd (read_clock w)) = st_commands w"
    using assms by (auto simp: read_clock_def split: list.split)
  with assms show ?thesis
    by (auto simp: commands_RecordAck_def commands_ExpireMissingAck_def commands_load_def
        save_command_def commands_now_def clock_now_def memory_service_def memory_repository_def
        op_defs fake_GetCommand_def fake_SaveCommand_def read_clock_def Let_def split: list.splits)
qed

text \<open>Without faults, an acknowledged command takes any valid terminal result: it becomes
  terminal with the reported status and the result is recorded.\<close>

theorem result_recorded:
  assumes "env_faults w = []" and "i \<noteq> []" and "TrimSpace i = i" and "rr_CommandID req = i"
    and "st_commands w i = Some c" and "cmd_CommandID c = i"
    and "cmd_Status c = StatusAckAccepted \<or> cmd_Status c = StatusRunning"
    and "isTerminalResultStatus (rr_Status req)" and "TrimSpace (rr_ResultType req) \<noteq> []"
    and "json_Valid (normalizePayload (rr_Payload req))"
    and "\<forall>r \<in> set (st_results w). res_CommandID r \<noteq> i"
  shows "\<exists>c' w' r. commands_RecordResult (memory_service ds) req w = (Inr c', w') \<and>
    cmd_Status c' = rr_Status req \<and> cmd_TerminalAt c' = Some (env_clock w) \<and>
    st_commands w' = (st_commands w)(i \<mapsto> c') \<and> st_results w' = st_results w @ [r] \<and>
    res_CommandID r = i \<and> res_Status r = rr_Status req"
  using assms
  by (auto simp: commands_RecordResult_def commands_load_def save_command_def record_result_def
      commands_now_def clock_now_def memory_service_def memory_repository_def op_defs
      fake_GetCommand_def fake_SaveCommand_def fake_RecordResult_def read_clock_def Let_def
      split: list.splits)

text \<open>MarkSent moves only the acknowledgement deadline, so a command that waited in the queue for
  longer than the difference of its windows is sent with a result deadline before its
  acknowledgement deadline.\<close>

theorem mark_sent_keeps_result_deadline:
  assumes "commands_MarkSent (memory_service ds) i w = (Inr c', w')"
    and "st_commands w (TrimSpace i) = Some c"
    and "commands_definitionFor (memory_service ds) (cmd_CommandType c) = Inr d"
  shows "cmd_Status c = StatusQueued \<and> cmd_Status c' = StatusSent \<and>
    cmd_AckDeadlineAt c' = env_clock w + AckWindow d \<and>
    cmd_ResultDeadlineAt c' = cmd_ResultDeadlineAt c \<and>
    (cmd_ResultDeadlineAt c - AckWindow d < env_clock w \<longleftrightarrow>
       cmd_ResultDeadlineAt c' < cmd_AckDeadlineAt c')"
proof -
  have "wp (commands_MarkSent (memory_service ds) i)
     (\<lambda>c' w'. cmd_Status c = StatusQueued \<and> cmd_Status c' = StatusSent \<and>
       cmd_AckDeadlineAt c' = env_clock w + AckWindow d \<and>
       cmd_ResultDeadlineAt c' = cmd_ResultDeadlineAt c) (\<lambda>_ _. True) w"
    unfolding commands_MarkSent_def commands_load_def save_command_def
    using assms(2,3)
    by (auto simp: wp_simps wp_with_fault wp_fakes commands_now_def read_clock_def
        split: sum.split list.split option.split)
  from wp_InrD [OF this assms(1)] show ?thesis by auto
qed

section \<open>Witnesses\<close>

text \<open>A fault-free store whose clock stands still, and the same store with a fault at its
  seventh repository call.\<close>

definition demo_store :: command_store where
  "demo_store = \<lparr>env_faults = [], env_clock = 5, env_ticks = [], env_ids = [''c9''],
     st_commands = Map.empty, st_progress = [], st_results = [], st_createCalls = 0\<rparr>"

definition demo_create :: CreateRequest where
  "demo_create = \<lparr>cr_CommandID = ''c1'', cr_AccountID = ''a1'', cr_SiteID = ''s1'',
     cr_DeviceID = ''d1'', cr_CommandType = TypeTriggerBackup, cr_IdempotencyKey = [],
     cr_RequestedByUserID = [], cr_Payload = []\<rparr>"

definition demo_ack :: AckRequest where
  "demo_ack = \<lparr>ack_CommandID = ''c1'', ack_Accepted = True, ack_ReasonCode = [], ack_ReportedAt = 0\<rparr>"

definition demo_result :: ResultRequest where
  "demo_result = \<lparr>rr_CommandID = ''c1'', rr_Status = StatusSucceeded, rr_ResultType = ''backup'',
     rr_ReasonCode = [], rr_Payload = [], rr_StartedAt = None, rr_FinishedAt = 0\<rparr>"

abbreviation demo_calls :: "command_call list" where
  "demo_calls \<equiv> [CallCreate demo_create, CallMarkSent ''c1'', CallRecordAck demo_ack,
     CallRecordResult demo_result]"

definition demo_run :: "command_call list \<Rightarrow> command_store" where
  "demo_run cs = run_calls (memory_service None) cs demo_store"

lemma demo_reachable: "command_reachable None (demo_run cs)"
  unfolding demo_run_def
  by (rule run_calls_reachable, rule command_reachable.start)
     (simp add: empty_store_def demo_store_def)

lemma demo_done: "map_option cmd_Status (st_commands (demo_run demo_calls) ''c1'') = Some StatusSucceeded"
  by code_simp

lemma demo_sent: "map_option (\<lambda>c. (cmd_CommandID c, cmd_Status c))
    (st_commands (demo_run [CallCreate demo_create, CallMarkSent ''c1'']) ''c1'') =
    Some (''c1'', StatusSent) \<and> env_faults (demo_run [CallCreate demo_create, CallMarkSent ''c1'']) = []"
  by code_simp

lemma demo_accepted: "map_option (\<lambda>c. (cmd_CommandID c, cmd_Status c))
    (st_commands (demo_run [CallCreate demo_create, CallMarkSent ''c1'', CallRecordAck demo_ack]) ''c1'') =
    Some (''c1'', StatusAckAccepted) \<and>
    st_results (demo_run [CallCreate demo_create, CallMarkSent ''c1'', CallRecordAck demo_ack]) = [] \<and>
    env_faults (demo_run [CallCreate demo_create, CallMarkSent ''c1'', CallRecordAck demo_ack]) = []"
  by code_simp

theorem command_calls_refine_lifecycle_witness:
  "lifecycle_steps (store_view (demo_run []))
     (store_view (snd (run_call (memory_service None) (CallCreate demo_create) (demo_run []))))"
  by (rule command_calls_refine_lifecycle [OF demo_reachable])

theorem command_store_invariant_witness:
  "\<exists>c. st_commands (demo_run demo_calls) ''c1'' = Some c \<and>
     (\<exists>r \<in> set (st_results (demo_run demo_calls)).
        res_CommandID r = ''c1'' \<and> res_Status r = cmd_Status c)"
proof -
  from demo_done obtain c where c: "st_commands (demo_run demo_calls) ''c1'' = Some c"
    "cmd_Status c = StatusSucceeded" by auto
  then have "isTerminalCommandStatus (cmd_Status c)" by simp
  with c command_store_invariant [OF demo_reachable, of demo_calls] show ?thesis by blast
qed

theorem terminal_command_final_witness:
  "\<exists>c. st_commands (demo_run demo_calls) ''c1'' = Some c \<and> cmd_Status c = StatusSucceeded \<and>
     st_commands (run_calls (memory_service None) [CallCancel ''c1''] (demo_run demo_calls)) ''c1'' = Some c"
proof -
  from demo_done obtain c where c: "st_commands (demo_run demo_calls) ''c1'' = Some c"
    "cmd_Status c = StatusSucceeded" by auto
  then have "isTerminalCommandStatus (cmd_Status c)" by simp
  with c terminal_command_final [OF demo_reachable] show ?thesis by blast
qed

theorem command_identity_kept_witness:
  "\<exists>c c'. st_commands (demo_run [CallCreate demo_create, CallMarkSent ''c1'']) ''c1'' = Some c \<and>
     st_commands (run_calls (memory_service None) [CallRecordAck demo_ack]
       (demo_run [CallCreate demo_create, CallMarkSent ''c1''])) ''c1'' = Some c' \<and> same_command c c'"
proof -
  from demo_sent obtain c where
    c: "st_commands (demo_run [CallCreate demo_create, CallMarkSent ''c1'']) ''c1'' = Some c" by auto
  from command_identity_kept [OF demo_reachable this, of "[CallRecordAck demo_ack]"] c
  show ?thesis by blast
qed

definition demo_faulty :: command_store where
  "demo_faulty = run_calls (memory_service None) demo_calls
     (demo_store\<lparr>env_faults := replicate 7 False @ [True]\<rparr>)"

lemma demo_faulty_eval:
  "map_option (\<lambda>c. (cmd_CommandID c, cmd_Status c)) (st_commands demo_faulty ''c1'') =
     Some (''c1'', StatusAckAccepted) \<and> map res_CommandID (st_results demo_faulty) = [''c1'']"
  by code_simp

theorem recorded_result_can_be_stranded_witness:
  "\<exists>c'. st_commands (run_calls (memory_service None) [CallRecordResult demo_result, CallCancel ''c1'']
       demo_faulty) ''c1'' = Some c' \<and> \<not> isTerminalCommandStatus (cmd_Status c')"
proof -
  have reach: "command_reachable None demo_faulty"
    unfolding demo_faulty_def by (rule run_calls_reachable, rule command_reachable.start)
      (simp add: empty_store_def demo_store_def)
  from demo_faulty_eval obtain r c where "r \<in> set (st_results demo_faulty)" "res_CommandID r = ''c1''"
    "st_commands demo_faulty ''c1'' = Some c" "cmd_Status c = StatusAckAccepted"
    by (auto simp: map_eq_Cons_conv)
  then show ?thesis using recorded_result_can_be_stranded [OF reach, of r c]
    by (simp del: run_calls.simps)
qed

theorem create_command_post_witness:
  "\<exists>c w'. commands_Create (memory_service None) demo_create demo_store = (Inr c, w') \<and>
     st_commands w' (cmd_CommandID c) = Some c \<and> cmd_AckDeadlineAt c < cmd_ResultDeadlineAt c"
proof -
  have "\<not> isl (fst (commands_Create (memory_service None) demo_create demo_store))" by code_simp
  then obtain c w' where
    e: "commands_Create (memory_service None) demo_create demo_store = (Inr c, w')"
    by (metis isl_def prod.collapse sum.exhaust)
  from create_command_post [OF e] e show ?thesis by auto
qed

theorem ack_deadline_dichotomy_witness:
  "\<exists>w c. st_commands w ''c1'' = Some c \<and> env_clock w \<le> cmd_AckDeadlineAt c \<and>
     map_option cmd_Status (st_commands (snd (commands_RecordAck (memory_service None) demo_ack w)) ''c1'') =
       Some StatusAckAccepted"
proof -
  let ?w = "demo_run [CallCreate demo_create, CallMarkSent ''c1'']"
  from demo_sent obtain c where c: "st_commands ?w ''c1'' = Some c" "cmd_CommandID c = ''c1''"
    "cmd_Status c = StatusSent" "env_faults ?w = []" by auto
  have late: "map_option (\<lambda>c. cmd_AckDeadlineAt c < env_clock ?w) (st_commands ?w ''c1'') = Some False"
    by code_simp
  have trim: "TrimSpace ''c1'' = ''c1''" by code_simp
  have ack: "ack_CommandID demo_ack = ''c1''" "ack_Accepted demo_ack" by (simp_all add: demo_ack_def)
  from ack_deadline_dichotomy [OF c(4) _ trim ack(1) c(1,2,3), of None] c late ack
  show ?thesis by (intro exI [of _ ?w] exI [of _ c]) auto
qed

theorem result_recorded_witness:
  "\<exists>w c' w' r. commands_RecordResult (memory_service None) demo_result w = (Inr c', w') \<and>
     cmd_Status c' = StatusSucceeded \<and> st_results w' = st_results w @ [r]"
proof -
  let ?w = "demo_run [CallCreate demo_create, CallMarkSent ''c1'', CallRecordAck demo_ack]"
  from demo_accepted obtain c where c: "st_commands ?w ''c1'' = Some c" "cmd_CommandID c = ''c1''"
    "cmd_Status c = StatusAckAccepted" "env_faults ?w = []" "st_results ?w = []" by auto
  have "TrimSpace ''c1'' = ''c1''" "rr_CommandID demo_result = ''c1''"
    "isTerminalResultStatus (rr_Status demo_result)" "TrimSpace (rr_ResultType demo_result) \<noteq> []"
    "json_Valid (normalizePayload (rr_Payload demo_result))" "rr_Status demo_result = StatusSucceeded"
    by code_simp+
  with result_recorded [OF c(4) _ _ _ c(1,2), of demo_result None] c(3,5) show ?thesis by force
qed

theorem mark_sent_keeps_result_deadline_witness:
  "\<exists>w c c' w'. st_commands w ''c1'' = Some c \<and>
     commands_MarkSent (memory_service None) ''c1'' w = (Inr c', w') \<and>
     cmd_ResultDeadlineAt c' < cmd_AckDeadlineAt c'"
proof -
  let ?w = "(demo_run [CallCreate demo_create])\<lparr>env_clock := 30 * Minute\<rparr>"
  have ev: "map_option (\<lambda>c. cmd_CommandType c = TypeTriggerBackup \<and>
       cmd_ResultDeadlineAt c - 15 * Second < 30 * Minute) (st_commands ?w ''c1'') = Some True"
    "TrimSpace ''c1'' = ''c1''" "\<not> isl (fst (commands_MarkSent (memory_service None) ''c1'' ?w))"
    by code_simp+
  from ev(1) obtain c where c: "st_commands ?w ''c1'' = Some c" "cmd_CommandType c = TypeTriggerBackup"
    "cmd_ResultDeadlineAt c - 15 * Second < 30 * Minute" by auto
  from ev(3) obtain c' w' where m: "commands_MarkSent (memory_service None) ''c1'' ?w = (Inr c', w')"
    by (metis isl_def prod.collapse sum.exhaust)
  have d: "commands_definitionFor (memory_service None) (cmd_CommandType c) =
      Inr \<lparr>AckWindow = 15 * Second, ResultWindow = 30 * Minute, Idempotent = False\<rparr>"
    using c(2) by (simp add: commands_definitionFor_def memory_service_def duration_defs)
  from mark_sent_keeps_result_deadline [OF m _ d] c ev(2) m show ?thesis
    by (intro exI [of _ ?w] exI [of _ c] exI [of _ c'] exI [of _ w']) simp
qed

end
