(* ===== verification/Go_Json_Values.thy ===== *)
theory Go_Json_Values
  imports Go_Json
begin

text \<open>
  What \<open>json.Unmarshal\<close> stores for the targets the code decodes into, what \<open>json.Marshal\<close> writes,
  and the adequacy of the parser's fuel.

  A struct field takes the last member whose name is the field's, or is equal to it under case
  folding when no field has exactly that name; \<open>null\<close> leaves it unchanged. A
  \<open>json.RawMessage\<close> is the text of the member's value; marshalled, it is compacted.
\<close>

section \<open>The parser's fuel\<close>

lemma skip_ws_length: "length (skip_ws s) \<le> length s"
  by (induction s) auto

lemma take_digits_length: "take_digits s = (ds, r) \<Longrightarrow> length ds + length r = length s"
  by (induction s arbitrary: ds r) (auto split: if_splits prod.splits)

lemma parse_int_part_length: "parse_int_part s = Some (i, r) \<Longrightarrow> length r < length s"
  by (auto simp: parse_int_part_def dest: take_digits_length split: list.splits if_splits prod.splits)

lemma parse_fraction_length: "parse_fraction s = Some (f, r) \<Longrightarrow> length r \<le> length s"
  by (auto simp: parse_fraction_def dest: take_digits_length split: list.splits if_splits prod.splits)

lemma parse_exponent_length: "parse_exponent s = Some (f, r) \<Longrightarrow> length r \<le> length s"
  by (auto simp: parse_exponent_def Let_def dest!: take_digits_length
      split: list.splits if_splits prod.splits)

lemma parse_number_length: "parse_number s = Some (n, r) \<Longrightarrow> length r < length s"
  by (auto simp: parse_number_def Let_def split: option.splits prod.splits
      dest!: parse_int_part_length parse_fraction_length parse_exponent_length)

lemma parse_literal_length: "parse_literal s = Some (v, r) \<Longrightarrow> length r < length s"
  by (cases s) (auto simp: parse_literal_def dest!: parse_number_length split: if_splits)

lemma skip_ws_Cons: "skip_ws s = c # u \<Longrightarrow> length u < length s"
  using skip_ws_length [of s] by simp

lemma parse_string_length: "parse_string s = Some (t, r) \<Longrightarrow> length r < length s"
proof (induction s arbitrary: t r rule: measure_induct_rule [of length])
  case (less s)
  show ?case
  proof (cases s)
    case Nil
    with less.prems show ?thesis by (simp add: parse_string.simps)
  next
    case (Cons c u)
    have shorter: "length s' \<le> length u \<Longrightarrow> parse_string s' = Some (t', r') \<Longrightarrow> length r' < length s'"
      for s' t' r' using less.IH [of s'] Cons by simp
    show ?thesis
    proof (cases "c = CHR 0x22 \<or> is_control c")
      case True
      with less.prems Cons show ?thesis by (auto simp: parse_string.simps [of "c # u"] split: if_splits)
    next
      case False
      note pl = this
      show ?thesis
      proof (cases "c = CHR 0x5C")
        case True
        with less.prems Cons False show ?thesis
          by (auto simp: parse_string.simps [of "CHR 0x5C # u"]
              split: list.splits if_splits option.splits dest!: shorter [rotated])
      next
        case False
        with less.prems Cons pl show ?thesis
          by (auto simp: parse_string.simps [of "c # u"] split: if_splits dest!: shorter [rotated])
      qed
    qed
  qed
qed

lemma parse_length_all:
  "(\<forall>d s v r. parse_value n d s = Some (v, r) \<longrightarrow> length r < length s) \<and>
   (\<forall>d s vs r. parse_elems n d s = Some (vs, r) \<longrightarrow> length r < length s) \<and>
   (\<forall>d s ms r. parse_members n d s = Some (ms, r) \<longrightarrow> length r < length s)"
proof (induction n)
  case (Suc n)
  then have V: "\<And>d s v r. parse_value n d s = Some (v, r) \<Longrightarrow> length r < length s"
    and E: "\<And>d s vs r. parse_elems n d s = Some (vs, r) \<Longrightarrow> length r < length s"
    and M: "\<And>d s ms r. parse_members n d s = Some (ms, r) \<Longrightarrow> length r < length s"
    by blast+
  show ?case
  proof (intro conjI allI impI)
    fix d s v r assume "parse_value (Suc n) d s = Some (v, r)"
    then show "length r < length s"
      by (auto split: list.splits if_splits dest!: skip_ws_Cons E M parse_string_length
          parse_literal_length)
  next
    fix d s vs r assume "parse_elems (Suc n) d s = Some (vs, r)"
    then show "length r < length s"
      by (auto split: list.splits if_splits option.splits dest!: skip_ws_Cons V E)
  next
    fix d s ms r assume "parse_members (Suc n) d s = Some (ms, r)"
    then show "length r < length s"
      by (auto split: list.splits if_splits option.splits dest!: skip_ws_Cons V M parse_string_length)
  qed
qed simp

lemmas parse_length = parse_length_all [THEN conjunct1, rule_format]
  parse_length_all [THEN conjunct2, THEN conjunct1, rule_format]
  parse_length_all [THEN conjunct2, THEN conjunct2, rule_format]

text \<open>One more unit of fuel changes nothing once there are two for every byte.\<close>

lemma parse_fuel_step:
  "(\<forall>d s. 2 * length s < n \<longrightarrow> parse_value (Suc n) d s = parse_value n d s) \<and>
   (\<forall>d s. 2 * length s + 1 < n \<longrightarrow> parse_elems (Suc n) d s = parse_elems n d s) \<and>
   (\<forall>d s. 2 * length s + 1 < n \<longrightarrow> parse_members (Suc n) d s = parse_members n d s)"
proof (induction n)
  case (Suc n)
  then have V: "\<And>d s. 2 * length s < n \<Longrightarrow> parse_value (Suc n) d s = parse_value n d s"
    and E: "\<And>d s. 2 * length s + 1 < n \<Longrightarrow> parse_elems (Suc n) d s = parse_elems n d s"
    and M: "\<And>d s. 2 * length s + 1 < n \<Longrightarrow> parse_members (Suc n) d s = parse_members n d s"
    by blast+
  show ?case
  proof (intro conjI allI impI)
    fix d and s :: string assume l: "2 * length s < Suc n"
    show "parse_value (Suc (Suc n)) d s = parse_value (Suc n) d s"
      unfolding parse_value.simps(2) [of "Suc n" d s] parse_value.simps(2) [of n d s]
      using l by (auto split: list.split dest!: skip_ws_Cons simp: E M simp del: parse_value.simps
          parse_elems.simps parse_members.simps)
  next
    fix d and s :: string assume l: "2 * length s + 1 < Suc n"
    then show "parse_elems (Suc (Suc n)) d s = parse_elems (Suc n) d s"
      unfolding parse_elems.simps(2) [of "Suc n" d s] parse_elems.simps(2) [of n d s]
      by (auto simp: V E split: option.split list.split dest!: skip_ws_Cons parse_length(1)
          simp del: parse_value.simps parse_elems.simps parse_members.simps)
  next
    fix d and s :: string assume l: "2 * length s + 1 < Suc n"
    have V': "parse_value (Suc n) d s3 = parse_value n d s3"
      if "skip_ws s = q # s1" "parse_string s1 = Some (k, s2)" "skip_ws s2 = x # s3" for q s1 k s2 x s3
      using l that by (intro V) (auto dest!: skip_ws_Cons parse_string_length)
    have M': "parse_members (Suc n) d t = parse_members n d t"
      if "skip_ws s = q # s1" "parse_string s1 = Some (k, s2)" "skip_ws s2 = x # s3"
        "parse_value n d s3 = Some (v, r)" "skip_ws r = c # t" for q s1 k s2 x s3 v r c t
      using l that by (intro M) (auto dest!: skip_ws_Cons parse_string_length parse_length(1))
    show "parse_members (Suc (Suc n)) d s = parse_members (Suc n) d s"
      unfolding parse_members.simps(2) [of "Suc n" d s] parse_members.simps(2) [of n d s]
      by (intro list.case_cong option.case_cong prod.case_cong if_cong refl map_option_cong)
         (auto simp: V' M' simp del: parse_value.simps parse_elems.simps parse_members.simps)
  qed
qed simp

lemma parse_value_fuel:
  assumes "2 * length s < n"
  shows "parse_value n d s = parse_value (2 * length s + 1) d s"
proof -
  have "parse_value (2 * length s + 1 + k) d s = parse_value (2 * length s + 1) d s" for k
  proof (induction k)
    case (Suc k)
    have "parse_value (Suc (2 * length s + 1 + k)) d s = parse_value (2 * length s + 1 + k) d s"
      using parse_fuel_step by (meson less_add_Suc1 less_le_trans le_add1 less_add_one)
    with Suc show ?case by simp
  qed simp
  from this [of "n - (2 * length s + 1)"] assms show ?thesis by simp
qed

section \<open>Decoding\<close>

fun last_members :: "(string \<times> 'a) list \<Rightarrow> (string \<times> 'a) list" where
  "last_members [] = []"
| "last_members ((k, v) # ms) =
     (if k \<in> fst ` set ms then last_members ms else (k, v) # last_members ms)"

text \<open>The value decoded for an \<open>any\<close>: of the members with one name the last is kept.\<close>

fun json_any :: "json \<Rightarrow> json" where
  "json_any (JArr vs) = JArr (map json_any vs)"
| "json_any (JObj ms) = JObj (last_members (map (\<lambda>(k, v). (k, json_any v)) ms))"
| "json_any v = v"

definition match_field :: "string list \<Rightarrow> string \<Rightarrow> string option" where
  "match_field names k = (if k \<in> set names then Some k else find (\<lambda>n. EqualFold n k) names)"

definition field_values :: "string list \<Rightarrow> (string \<times> 'a) list \<Rightarrow> string \<Rightarrow> 'a list" where
  "field_values names ms n = map snd (filter (\<lambda>(k, v). match_field names k = Some n) ms)"

text \<open>The values a field is assigned in turn; a value of another type is an error.\<close>

fun dec_string :: "string \<Rightarrow> json list \<Rightarrow> string option" where
  "dec_string cur [] = Some cur"
| "dec_string cur (JNull # vs) = dec_string cur vs"
| "dec_string cur (JStr s # vs) = dec_string s vs"
| "dec_string cur (_ # vs) = None"

fun dec_bool :: "bool \<Rightarrow> json list \<Rightarrow> bool option" where
  "dec_bool cur [] = Some cur"
| "dec_bool cur (JNull # vs) = dec_bool cur vs"
| "dec_bool cur (JBool b # vs) = dec_bool b vs"
| "dec_bool cur (_ # vs) = None"

text \<open>\<open>json.Unmarshal\<close> of a text into a struct or a map: the members it has, none for \<open>null\<close>.\<close>

definition struct_members :: "string \<Rightarrow> (string \<times> json) list option" where
  "struct_members text =
     (case json_parse text of
        Some (JObj ms) \<Rightarrow> Some ms
      | Some JNull \<Rightarrow> Some []
      | _ \<Rightarrow> None)"

fun raw_members :: "nat \<Rightarrow> string \<Rightarrow> (string \<times> string) list" where
  "raw_members 0 s = []"
| "raw_members (Suc n) s =
     (case skip_ws s of
        [] \<Rightarrow> []
      | _ # s1 \<Rightarrow>
         (case parse_string s1 of
            None \<Rightarrow> []
          | Some (k, s2) \<Rightarrow>
             (let t = skip_ws (drop 1 (skip_ws s2)) in
              case parse_value (2 * length t + 1) max_depth t of
                None \<Rightarrow> []
              | Some (_, r) \<Rightarrow>
                  (k, take (length t - length r) t) #
                  (case skip_ws r of
                     [] \<Rightarrow> []
                   | c # r' \<Rightarrow> if c = CHR '','' then raw_members n r' else []))))"

text \<open>The members of an object with the texts of their values, as a \<open>map[string]json.RawMessage\<close>
  or a field of type \<open>json.RawMessage\<close> has them.\<close>

definition json_raw_members :: "string \<Rightarrow> (string \<times> string) list option" where
  "json_raw_members text =
     (case json_parse text of
        Some (JObj ms) \<Rightarrow>
          Some (if ms = [] then [] else raw_members (length text) (drop 1 (skip_ws text)))
      | Some JNull \<Rightarrow> Some []
      | _ \<Rightarrow> None)"

lemma last_members_lookup:
  "map_of (last_members ms) k = map_of (rev ms) k"
proof (induction ms)
  case (Cons p ms)
  obtain j v where p: "p = (j, v)" by (cases p)
  show ?case
  proof (cases "j \<in> fst ` set ms")
    case True
    then have "map_of (rev ms) j \<noteq> None" by (simp add: map_of_eq_None_iff)
    with True Cons p show ?thesis
      by (cases "k = j") (auto simp: map_add_def split: option.split)
  next
    case False
    then have "map_of (rev ms) j = None" by (simp add: map_of_eq_None_iff)
    with False Cons p show ?thesis
      by (auto simp: map_add_def split: option.split)
  qed
qed simp

lemma last_members_subset: "set (last_members ms) \<subseteq> set ms"
  by (induction ms rule: last_members.induct) auto

lemma last_members_keys: "fst ` set (last_members ms) = fst ` set ms"
  by (induction ms rule: last_members.induct) auto

section \<open>Encoding\<close>

definition hex_digit :: "nat \<Rightarrow> char" where
  "hex_digit n = (if n < 10 then char_of (48 + n) else char_of (87 + n))"

definition escape_u00 :: "char \<Rightarrow> string" where
  "escape_u00 c = [CHR 0x5C] @ ''u00'' @ [hex_digit (byte c div 16), hex_digit (byte c mod 16)]"

text \<open>How \<open>json.Marshal\<close> writes an ASCII character of a string, with HTML escaping.\<close>

definition quote_char :: "char \<Rightarrow> string" where
  "quote_char c =
     (if c = CHR 0x22 \<or> c = CHR 0x5C then [CHR 0x5C, c]
      else if c = CHR 0x08 then [CHR 0x5C, CHR ''b'']
      else if c = CHR 0x0C then [CHR 0x5C, CHR ''f'']
      else if c = CHR 0x0A then [CHR 0x5C, CHR ''n'']
      else if c = CHR 0x0D then [CHR 0x5C, CHR ''r'']
      else if c = CHR 0x09 then [CHR 0x5C, CHR ''t'']
      else if is_control c \<or> c = CHR ''<'' \<or> c = CHR ''>'' \<or> c = CHR ''&'' then escape_u00 c
      else [c])"

definition line_separator :: "string \<Rightarrow> string option" where
  "line_separator s =
     (if take 3 s = [CHR 0xE2, CHR 0x80, CHR 0xA8] then Some ([CHR 0x5C] @ ''u2028'')
      else if take 3 s = [CHR 0xE2, CHR 0x80, CHR 0xA9] then Some ([CHR 0x5C] @ ''u2029'')
      else None)"

function quote_body :: "string \<Rightarrow> string" where
  "quote_body [] = []"
| "quote_body (c # s) =
     (if is_ascii c then quote_char c @ quote_body s
      else if rune_width (c # s) = 0 then ([CHR 0x5C] @ ''ufffd'') @ quote_body s
      else (case line_separator (c # s) of
              Some out \<Rightarrow> out
            | None \<Rightarrow> take (rune_width (c # s)) (c # s))
           @ quote_body (drop (rune_width (c # s)) (c # s)))"
  by pat_completeness auto
termination
  by (relation "measure length") auto

definition quote :: "string \<Rightarrow> string" where
  "quote s = [CHR 0x22] @ quote_body s @ [CHR 0x22]"

datatype compact_state = Outside | Inside | Escaped

text \<open>A valid text without the blanks outside of strings, HTML characters escaped.\<close>

fun compact :: "compact_state \<Rightarrow> string \<Rightarrow> string" where
  "compact st [] = []"
| "compact Outside (c # s) =
     (if is_json_ws c then compact Outside s
      else if c = CHR 0x22 then c # compact Inside s
      else c # compact Outside s)"
| "compact Escaped (c # s) = c # compact Inside s"
| "compact Inside (c # s) =
     (if c = CHR 0x22 then c # compact Outside s
      else if c = CHR 0x5C then c # compact Escaped s
      else if c = CHR ''<'' \<or> c = CHR ''>'' \<or> c = CHR ''&'' then escape_u00 c @ compact Inside s
      else (case line_separator (c # s) of
              Some out \<Rightarrow> out @ compact Inside (drop 2 s)
            | None \<Rightarrow> c # compact Inside s))"

definition json_compact :: "string \<Rightarrow> string" where
  "json_compact s = compact Outside s"

text \<open>The text of a struct or of a map whose names are sorted: the members in order.\<close>

definition member_text :: "string \<times> string \<Rightarrow> string" where
  "member_text m = (case m of (k, v) \<Rightarrow> quote k @ '':'' @ v)"

definition object_text :: "(string \<times> string) list \<Rightarrow> string" where
  "object_text ms = ''{'' @ Join (map member_text ms) '','' @ ''}''"

end
