(* ===== verification/Go_Time.thy ===== *)
theory Go_Time
  imports Go_Json_Values
begin

text \<open>
  The package \<open>time\<close> as far as the code uses it: the calendar, the text of an instant in the
  layout \<open>RFC3339Nano\<close> (which \<open>json.Marshal\<close> writes for a \<open>time.Time\<close>), and \<open>time.Parse\<close> with
  the layout \<open>RFC3339\<close> (which \<open>json.Unmarshal\<close> uses too), lenient as it is: an hour of one
  digit, a comma before the fraction, and zone offsets up to 24:60 are accepted.

  Instants are nanoseconds since the first of January of the year 1. \<open>parse_format\<close> shows that
  a formatted instant is parsed back to itself, for the years 1 to 9999.
\<close>

section \<open>The calendar\<close>

definition leap :: "int \<Rightarrow> bool" where
  "leap y = (4 dvd y \<and> (\<not> 100 dvd y \<or> 400 dvd y))"

definition days_before_year :: "int \<Rightarrow> int" where
  "days_before_year y = 365 * (y - 1) + (y - 1) div 4 - (y - 1) div 100 + (y - 1) div 400"

definition month_lengths :: "int \<Rightarrow> int list" where
  "month_lengths y = [31, if leap y then 29 else 28, 31, 30, 31, 30, 31, 31, 30, 31, 30, 31]"

definition days_in :: "int \<Rightarrow> nat \<Rightarrow> int" where
  "days_in y m = month_lengths y ! (m - 1)"

definition days_of_civil :: "int \<Rightarrow> nat \<Rightarrow> int \<Rightarrow> int" where
  "days_of_civil y m d = days_before_year y + sum_list (take (m - 1) (month_lengths y)) + (d - 1)"

lemma div_pred:
  assumes "0 < k"
  shows "(y::int) div k = (y - 1) div k + (if k dvd y then 1 else 0)"
proof -
  have y: "y = y div k * k + y mod k" and m: "0 \<le> y mod k" "y mod k < k"
    using assms by simp_all
  show ?thesis
  proof (cases "k dvd y")
    case True
    with y have "y - 1 = (k - 1) + (y div k - 1) * k" by (simp add: algebra_simps)
    then have "(y - 1) div k = ((k - 1) + (y div k - 1) * k) div k" by (rule arg_cong)
    also have "\<dots> = (y div k - 1) + (k - 1) div k"
      using assms by (intro div_mult_self1) simp
    finally show ?thesis using True assms by simp
  next
    case False
    then have "y mod k \<noteq> 0" by (simp add: dvd_eq_mod_eq_0)
    with y m have e: "y - 1 = (y mod k - 1) + y div k * k" and r: "0 \<le> y mod k - 1" "y mod k - 1 < k"
      by simp_all
    from e have "(y - 1) div k = ((y mod k - 1) + y div k * k) div k" by (rule arg_cong)
    also have "\<dots> = y div k + (y mod k - 1) div k"
      using assms by (intro div_mult_self1) simp
    finally show ?thesis using False r by simp
  qed
qed

lemma days_before_year_Suc:
  "days_before_year (y + 1) = days_before_year y + (if leap y then 366 else 365)"
proof -
  define a b c where "a = (y - 1) div 4" and "b = (y - 1) div 100" and "c = (y - 1) div 400"
  have d: "(400::int) dvd y \<Longrightarrow> 100 dvd y" "(100::int) dvd y \<Longrightarrow> 4 dvd y"
    by (auto intro: dvd_trans [of _ 400] dvd_trans [of _ 100])
  have "y div 4 = a + (if 4 dvd y then 1 else 0)" "y div 100 = b + (if 100 dvd y then 1 else 0)"
    "y div 400 = c + (if 400 dvd y then 1 else 0)"
    unfolding a_def b_def c_def by (rule div_pred, simp)+
  moreover have "days_before_year y = 365 * (y - 1) + a - b + c"
    "days_before_year (y + 1) = 365 * y + y div 4 - y div 100 + y div 400"
    by (simp_all add: days_before_year_def a_def b_def c_def)
  ultimately show ?thesis
    using d by (cases "400 dvd y"; cases "100 dvd y"; cases "4 dvd y") (simp_all add: leap_def)
qed

lemma sum_month_lengths: "sum_list (month_lengths y) = (if leap y then 366 else 365)"
  by (simp add: month_lengths_def)

function year_from :: "int \<Rightarrow> int \<Rightarrow> int" where
  "year_from y n = (if days_before_year (y + 1) \<le> n then year_from (y + 1) n else y)"
  by pat_completeness auto
termination
  by (relation "measure (\<lambda>(y, n). nat (n - days_before_year y))")
     (auto simp: days_before_year_Suc split: if_splits)

declare year_from.simps [simp del]

definition year_of :: "int \<Rightarrow> int" where
  "year_of n = year_from ((if n < 0 then n div 365 else n div 366) + 1) n"

fun split_months :: "int list \<Rightarrow> nat \<Rightarrow> int \<Rightarrow> nat \<times> int" where
  "split_months [] m d = (m, d)"
| "split_months (l # ls) m d = (if d < l \<or> ls = [] then (m, d) else split_months ls (m + 1) (d - l))"

definition civil_of_days :: "int \<Rightarrow> int \<times> nat \<times> int" where
  "civil_of_days n =
     (let y = year_of n in
      case split_months (month_lengths y) 1 (n - days_before_year y) of (m, d) \<Rightarrow> (y, m, d + 1))"

lemma year_from_bounds:
  "days_before_year y \<le> n \<Longrightarrow>
   days_before_year (year_from y n) \<le> n \<and> n < days_before_year (year_from y n + 1)"
proof (induction y n rule: year_from.induct)
  case (1 y n)
  then show ?case by (cases "days_before_year (y + 1) \<le> n") (simp_all add: year_from.simps [of y n])
qed

lemma days_before_year_guess:
  "days_before_year ((if n < 0 then n div 365 else n div 366) + 1) \<le> n"
proof (cases "n < 0")
  case True
  define k where "k = n div 365"
  have "k < 0" "365 * k \<le> n" using True by (simp_all add: k_def div_neg_pos_less0)
  moreover have "k div 4 \<le> k div 100" "k div 400 \<le> 0"
    using \<open>k < 0\<close> by (simp_all add: zdiv_mono2_neg div_neg_pos_less0 order_less_imp_le)
  ultimately show ?thesis using True by (simp add: days_before_year_def flip: k_def)
next
  case False
  define k where "k = n div 366"
  have "0 \<le> k" "366 * k \<le> n" using False by (simp_all add: k_def)
  moreover have "k div 400 \<le> k div 100" "k div 4 \<le> k"
    using \<open>0 \<le> k\<close> by (simp_all add: zdiv_mono2 int_div_le_self)
  ultimately show ?thesis using False by (simp add: days_before_year_def flip: k_def)
qed

lemma year_of_bounds: "days_before_year (year_of n) \<le> n \<and> n < days_before_year (year_of n + 1)"
  unfolding year_of_def by (rule year_from_bounds [OF days_before_year_guess])

lemma split_months_sum:
  assumes "split_months ls m d = (m', d')" and "0 \<le> d" and "d < sum_list ls" and "\<forall>l \<in> set ls. 0 < l"
  shows "m \<le> m' \<and> m' < m + length ls \<and> 0 \<le> d' \<and> d' < ls ! (m' - m) \<and>
    sum_list (take (m' - m) ls) + d' = d"
  using assms
proof (induction ls m d rule: split_months.induct)
  case (2 l ls m d)
  show ?case
  proof (cases "d < l \<or> ls = []")
    case True
    with 2 show ?thesis by auto
  next
    case False
    with 2 have "m + 1 \<le> m' \<and> m' < m + 1 + length ls \<and> 0 \<le> d' \<and> d' < ls ! (m' - (m + 1)) \<and>
        sum_list (take (m' - (m + 1)) ls) + d' = d - l" by auto
    moreover from this have "m' - m = Suc (m' - (m + 1))" by linarith
    ultimately show ?thesis by simp
  qed
qed simp

lemma month_lengths_props [simp]:
  "length (month_lengths y) = 12" "\<forall>l \<in> set (month_lengths y). 0 < l"
  by (simp_all add: month_lengths_def)

lemma civil_of_days_correct:
  assumes "civil_of_days n = (y, m, d)"
  shows "days_of_civil y m d = n \<and> 1 \<le> m \<and> m \<le> 12 \<and> 1 \<le> d \<and> d \<le> days_in y m"
proof -
  define r where "r = n - days_before_year (year_of n)"
  obtain m' d' where sm: "split_months (month_lengths (year_of n)) 1 r = (m', d')"
    by (cases "split_months (month_lengths (year_of n)) 1 r")
  have "0 \<le> r" "r < sum_list (month_lengths (year_of n))"
    using year_of_bounds [of n] by (auto simp: r_def sum_month_lengths days_before_year_Suc)
  from split_months_sum [OF sm this month_lengths_props(2)]
  have "1 \<le> m' \<and> m' < 13 \<and> 0 \<le> d' \<and> d' < month_lengths (year_of n) ! (m' - 1) \<and>
      sum_list (take (m' - 1) (month_lengths (year_of n))) + d' = r" by simp
  with sm assms show ?thesis
    by (auto simp: civil_of_days_def r_def days_of_civil_def days_in_def Let_def)
qed

section \<open>Decimal digits\<close>

definition digit_char :: "nat \<Rightarrow> char" where
  "digit_char d = char_of (48 + d)"

fun dec :: "nat \<Rightarrow> nat \<Rightarrow> string" where
  "dec 0 n = []"
| "dec (Suc w) n = dec w (n div 10) @ [digit_char (n mod 10)]"

definition digits_value :: "string \<Rightarrow> nat" where
  "digits_value s = foldl (\<lambda>a c. 10 * a + digit_value c) 0 s"

definition undec :: "string \<Rightarrow> nat option" where
  "undec s = (if list_all is_digit s then Some (digits_value s) else None)"

text \<open>\<open>strconv.Itoa\<close> of a natural number.\<close>

fun Itoa :: "nat \<Rightarrow> string" where
  "Itoa n = (if n < 10 then [digit_char n] else Itoa (n div 10) @ [digit_char (n mod 10)])"

declare Itoa.simps [simp del]

text \<open>A JSON number decoded into an \<open>int64\<close>: an integer literal in its range.\<close>

definition int64_value :: "string \<Rightarrow> int option" where
  "int64_value lit =
     (let neg = HasPrefix lit ''-''; ds = (if neg then drop 1 lit else lit) in
      case undec ds of
        None \<Rightarrow> None
      | Some n \<Rightarrow>
          let v = (if neg then - int n else int n) in
          if ds \<noteq> [] \<and> - (2 ^ 63) \<le> v \<and> v < 2 ^ 63 then Some v else None)"

fun dec_int64 :: "int \<Rightarrow> json list \<Rightarrow> int option" where
  "dec_int64 cur [] = Some cur"
| "dec_int64 cur (JNull # vs) = dec_int64 cur vs"
| "dec_int64 cur (JNum n # vs) = (case int64_value n of None \<Rightarrow> None | Some v \<Rightarrow> dec_int64 v vs)"
| "dec_int64 cur (_ # vs) = None"

lemma digit_char [simp]:
  "d < 10 \<Longrightarrow> byte (digit_char d) = 48 + d"
  by (simp add: byte_def digit_char_def)

lemma digit_char_props [simp]:
  "d < 10 \<Longrightarrow> is_digit (digit_char d)" "d < 10 \<Longrightarrow> digit_value (digit_char d) = d"
  by (simp_all add: is_digit_def digit_value_def)

lemma dec_length [simp]: "length (dec w n) = w"
  by (induction w arbitrary: n) auto

lemma dec_digits [simp]: "list_all is_digit (dec w n)"
  by (induction w arbitrary: n) auto

lemma digits_value_append [simp]:
  "digits_value (s @ [c]) = 10 * digits_value s + digit_value c"
  by (simp add: digits_value_def)

lemma digits_value_dec [simp]: "n < 10 ^ w \<Longrightarrow> digits_value (dec w n) = n"
proof (induction w arbitrary: n)
  case (Suc w)
  then have "n div 10 < 10 ^ w" by (simp add: less_mult_imp_div_less mult.commute)
  with Suc show ?case by simp
qed (simp add: digits_value_def)

lemma undec_dec [simp]: "n < 10 ^ w \<Longrightarrow> undec (dec w n) = Some n"
  by (simp add: undec_def)

definition strip_zeros :: "string \<Rightarrow> string" where
  "strip_zeros s = rev (dropWhile (\<lambda>c. c = CHR ''0'') (rev s))"

lemma strip_zeros_pad: "strip_zeros s @ replicate (length s - length (strip_zeros s)) (CHR ''0'') = s"
proof -
  have t: "takeWhile (\<lambda>c. c = CHR ''0'') (rev s) =
      replicate (length (takeWhile (\<lambda>c. c = CHR ''0'') (rev s))) (CHR ''0'')"
    by (intro replicate_eqI) (auto dest: set_takeWhileD)
  have s: "s = strip_zeros s @ rev (takeWhile (\<lambda>c. c = CHR ''0'') (rev s))"
    unfolding strip_zeros_def
    by (metis rev_append rev_rev_ident takeWhile_dropWhile_id)
  then have "length s - length (strip_zeros s) = length (takeWhile (\<lambda>c. c = CHR ''0'') (rev s))"
    by (metis add_diff_cancel_left' length_append length_rev)
  with s t show ?thesis by (metis rev_replicate)
qed

lemma digits_value_zeros: "digits_value (s @ replicate k (CHR ''0'')) = digits_value s * 10 ^ k"
proof (induction k)
  case (Suc k)
  have "digits_value (s @ replicate (Suc k) (CHR ''0'')) =
      digits_value ((s @ replicate k (CHR ''0'')) @ [CHR ''0''])"
    by (simp add: replicate_append_same)
  also have "\<dots> = 10 * digits_value (s @ replicate k (CHR ''0'')) + digit_value (CHR ''0'')"
    by (rule digits_value_append)
  finally show ?case using Suc by (simp add: digit_value_def byte_def)
qed simp

section \<open>Formatting\<close>

definition format_fraction :: "nat \<Rightarrow> string" where
  "format_fraction ns = (if ns = 0 then [] else CHR ''.'' # strip_zeros (dec 9 ns))"

text \<open>\<open>t.UTC().Format(time.RFC3339Nano)\<close>.\<close>

definition format_rfc3339 :: "time \<Rightarrow> string" where
  "format_rfc3339 t =
     (let secs = t div 1000000000; ns = nat (t mod 1000000000);
          days = secs div 86400; rest = nat (secs mod 86400)
      in case civil_of_days days of (y, m, d) \<Rightarrow>
           dec 4 (nat y) @ ''-'' @ dec 2 m @ ''-'' @ dec 2 (nat d) @ ''T'' @
           dec 2 (rest div 3600) @ '':'' @ dec 2 (rest div 60 mod 60) @ '':'' @ dec 2 (rest mod 60) @
           format_fraction ns @ ''Z'')"

text \<open>\<open>json.Marshal\<close> fails for an instant outside of the years 0 to 9999.\<close>

definition marshal_time :: "time \<Rightarrow> go_error + string" where
  "marshal_time t =
     (let y = year_of (t div 1000000000 div 86400) in
      if y < 0 \<or> 9999 < y
      then Inl (Errorf ''Time.MarshalJSON: year outside of range [0,9999]'' [])
      else Inr (quote (format_rfc3339 t)))"

section \<open>Parsing\<close>

definition p_num :: "nat \<Rightarrow> string \<Rightarrow> (nat \<times> string) option" where
  "p_num w s = (if w \<le> length s then map_option (\<lambda>n. (n, drop w s)) (undec (take w s)) else None)"

definition p_char :: "char \<Rightarrow> string \<Rightarrow> string option" where
  "p_char c s = (case s of [] \<Rightarrow> None | x # r \<Rightarrow> if x = c then Some r else None)"

text \<open>The hour may have one digit.\<close>

definition p_hour :: "string \<Rightarrow> (nat \<times> string) option" where
  "p_hour s = (case p_num 2 s of Some r \<Rightarrow> Some r | None \<Rightarrow> p_num 1 s)"

text \<open>The fraction: a period or comma before at least one digit; nine digits count.\<close>

definition p_fraction :: "string \<Rightarrow> nat \<times> string" where
  "p_fraction s =
     (case s of
        c # x # r \<Rightarrow>
          if (c = CHR ''.'' \<or> c = CHR '','') \<and> is_digit x then
            (case take_digits (x # r) of (ds, rest) \<Rightarrow>
               (digits_value (take 9 ds) * 10 ^ (9 - length (take 9 ds)), rest))
          else (0, s)
      | _ \<Rightarrow> (0, s))"

text \<open>The zone: \<open>Z\<close>, or a sign, hours up to 24 and minutes up to 60; in seconds.\<close>

definition p_zone :: "string \<Rightarrow> (int \<times> string) option" where
  "p_zone s =
     (case s of
        [] \<Rightarrow> None
      | c # r \<Rightarrow>
          if c = CHR ''Z'' then Some (0, r)
          else if c \<noteq> CHR ''+'' \<and> c \<noteq> CHR ''-'' then None
          else (case p_num 2 r of None \<Rightarrow> None | Some (h, r1) \<Rightarrow>
               (case p_char (CHR '':'') r1 of None \<Rightarrow> None | Some r2 \<Rightarrow>
               (case p_num 2 r2 of None \<Rightarrow> None | Some (m, r3) \<Rightarrow>
                  if 24 < h \<or> 60 < m then None
                  else Some ((if c = CHR ''-'' then - 1 else 1) * (int (h * 60 + m) * 60), r3)))))"

definition instant :: "nat \<Rightarrow> nat \<Rightarrow> nat \<Rightarrow> nat \<Rightarrow> nat \<Rightarrow> nat \<Rightarrow> nat \<Rightarrow> int \<Rightarrow> time" where
  "instant y mo d h mi se ns zone =
     (days_of_civil (int y) mo (int d) * 86400 + int (h * 3600 + mi * 60 + se) - zone) * 1000000000
       + int ns"

definition ParseRFC3339 :: "string \<Rightarrow> time option" where
  "ParseRFC3339 s0 =
     (case p_num 4 s0 of None \<Rightarrow> None | Some (y, s1) \<Rightarrow>
     (case p_char (CHR ''-'') s1 of None \<Rightarrow> None | Some s2 \<Rightarrow>
     (case p_num 2 s2 of None \<Rightarrow> None | Some (mo, s3) \<Rightarrow>
     (case p_char (CHR ''-'') s3 of None \<Rightarrow> None | Some s4 \<Rightarrow>
     (case p_num 2 s4 of None \<Rightarrow> None | Some (d, s5) \<Rightarrow>
     (case p_char (CHR ''T'') s5 of None \<Rightarrow> None | Some s6 \<Rightarrow>
     (case p_hour s6 of None \<Rightarrow> None | Some (h, s7) \<Rightarrow>
     (case p_char (CHR '':'') s7 of None \<Rightarrow> None | Some s8 \<Rightarrow>
     (case p_num 2 s8 of None \<Rightarrow> None | Some (mi, s9) \<Rightarrow>
     (case p_char (CHR '':'') s9 of None \<Rightarrow> None | Some s10 \<Rightarrow>
     (case p_num 2 s10 of None \<Rightarrow> None | Some (se, s11) \<Rightarrow>
     (case p_fraction s11 of (ns, s12) \<Rightarrow>
     (case p_zone s12 of None \<Rightarrow> None | Some (zone, s13) \<Rightarrow>
        if mo < 1 \<or> 12 < mo \<or> 23 < h \<or> 59 < mi \<or> 59 < se \<or> s13 \<noteq> [] then None
        else if d < 1 \<or> days_in (int y) mo < int d then None
        else Some (instant y mo d h mi se ns zone))))))))))))))"

text \<open>A struct field of type \<open>time.Time\<close>.\<close>

fun dec_time :: "time \<Rightarrow> json list \<Rightarrow> time option" where
  "dec_time cur [] = Some cur"
| "dec_time cur (JNull # vs) = dec_time cur vs"
| "dec_time cur (JStr s # vs) =
     (case ParseRFC3339 s of None \<Rightarrow> None | Some t \<Rightarrow> dec_time t vs)"
| "dec_time cur (_ # vs) = None"

lemma p_num_dec [simp]: "n < 10 ^ w \<Longrightarrow> p_num w (dec w n @ r) = Some (n, r)"
  by (simp add: p_num_def)

lemma p_char_same [simp]: "p_char c (c # r) = Some r"
  by (simp add: p_char_def)

lemma p_hour_dec [simp]: "n < 100 \<Longrightarrow> p_hour (dec 2 n @ r) = Some (n, r)"
  by (simp add: p_hour_def)

lemma take_digits_append:
  "list_all is_digit ds \<Longrightarrow> \<not> is_digit x \<Longrightarrow> take_digits (ds @ x # r) = (ds, x # r)"
  by (induction ds) auto

lemma p_fraction_format:
  assumes "ns < 10 ^ 9"
  shows "p_fraction (format_fraction ns @ CHR ''Z'' # r) = (ns, CHR ''Z'' # r)"
proof (cases "ns = 0")
  case True
  then show ?thesis by (cases r) (simp_all add: p_fraction_def format_fraction_def)
next
  case False
  define ds where "ds = strip_zeros (dec 9 ns)"
  have pad: "ds @ replicate (9 - length ds) (CHR ''0'') = dec 9 ns"
    using strip_zeros_pad [of "dec 9 ns"] by (simp add: ds_def)
  have v: "digits_value ds * 10 ^ (9 - length ds) = ns"
    using digits_value_zeros [of ds "9 - length ds"] assms by (simp add: pad)
  have dig: "list_all is_digit ds"
    using dec_digits [of 9 ns] unfolding pad [symmetric] by simp
  have len: "length ds \<le> 9" using pad by (metis dec_length le_add1 length_append)
  have "ds \<noteq> []" using v False by (auto simp: digits_value_def)
  then obtain x t where ds: "ds = x # t" by (cases ds) auto
  have "take_digits (x # t @ CHR ''Z'' # r) = (x # t, CHR ''Z'' # r)"
    using take_digits_append [OF dig, of "CHR ''Z''" r] ds by (simp add: is_digit_def byte_def)
  with ds dig v len False show ?thesis
    by (simp add: p_fraction_def format_fraction_def ds_def [symmetric])
qed

section \<open>A formatted instant is parsed back\<close>

definition max_time :: time where
  "max_time = days_before_year 10000 * 86400 * 1000000000"

lemma days_before_year_mono: "y \<le> y' \<Longrightarrow> days_before_year y \<le> days_before_year y'"
proof (induction y' rule: int_ge_induct)
  case (step i)
  then show ?case by (simp add: days_before_year_Suc)
qed simp

lemma year_range:
  assumes "0 \<le> n" and "n < days_before_year 10000"
  shows "1 \<le> year_of n" and "year_of n \<le> 9999"
proof -
  have "\<not> year_of n + 1 \<le> 1"
    using year_of_bounds [of n] days_before_year_mono [of "year_of n + 1" 1] assms
    by (auto simp: days_before_year_def)
  then show "1 \<le> year_of n" by simp
  have "\<not> 10000 \<le> year_of n"
    using year_of_bounds [of n] days_before_year_mono [of 10000 "year_of n"] assms by auto
  then show "year_of n \<le> 9999" by simp
qed

lemma days_in_le: "1 \<le> m \<Longrightarrow> m \<le> 12 \<Longrightarrow> days_in y m \<le> 31"
proof -
  assume "1 \<le> m" "m \<le> 12"
  then have "days_in y m \<in> set (month_lengths y)"
    unfolding days_in_def by (intro nth_mem) simp
  then show ?thesis by (auto simp: month_lengths_def split: if_splits)
qed

lemma seconds_of_day:
  assumes "r < (86400::nat)"
  shows "r div 3600 < 24" and "r div 60 mod 60 < 60" and "r mod 60 < 60"
    and "r div 3600 * 3600 + r div 60 mod 60 * 60 + r mod 60 = r"
proof -
  show "r div 3600 < 24" using assms by (simp add: less_mult_imp_div_less)
  have "r div 3600 = r div 60 div 60" by (simp add: div_mult2_eq [symmetric])
  moreover have "r div 60 div 60 * 60 + r div 60 mod 60 = r div 60" by simp
  moreover have "r div 60 * 60 + r mod 60 = r" by simp
  ultimately show "r div 3600 * 3600 + r div 60 mod 60 * 60 + r mod 60 = r" by linarith
qed simp_all

lemma parse_format:
  assumes "0 \<le> t" and "t < max_time"
  shows "ParseRFC3339 (format_rfc3339 t) = Some t"
proof -
  define secs where "secs = t div 1000000000"
  define ns where "ns = nat (t mod 1000000000)"
  define rest where "rest = nat (secs mod 86400)"
  obtain y m d where civ: "civil_of_days (secs div 86400) = (y, m, d)"
    by (cases "civil_of_days (secs div 86400)")
  have days: "0 \<le> secs div 86400" "secs div 86400 < days_before_year 10000"
    using assms by (simp_all add: secs_def max_time_def div_less_iff_less_mult
        zdiv_zmult2_eq [symmetric] mult.assoc days_before_year_def)
  have y: "1 \<le> y" "y \<le> 9999"
    using year_range [OF days] civ by (auto simp: civil_of_days_def Let_def split: prod.splits)
  note c = civil_of_days_correct [OF civ]
  have d: "1 \<le> d" "d \<le> 31" using c days_in_le [of m y] by auto
  have ns: "ns < 1000000000" by (simp add: ns_def nat_less_iff)
  have rest: "rest < 86400" by (simp add: rest_def nat_less_iff)
  note r = seconds_of_day [OF rest]
  have t: "t = (secs div 86400 * 86400 + int rest) * 1000000000 + int ns"
    by (simp add: secs_def rest_def ns_def)
  have inst: "instant (nat y) m (nat d) (rest div 3600) (rest div 60 mod 60) (rest mod 60) ns 0 = t"
    using c y d r(4) by (simp add: instant_def t)
  have fmt: "format_rfc3339 t = dec 4 (nat y) @ ''-'' @ dec 2 m @ ''-'' @ dec 2 (nat d) @ ''T'' @
      dec 2 (rest div 3600) @ '':'' @ dec 2 (rest div 60 mod 60) @ '':'' @ dec 2 (rest mod 60) @
      format_fraction ns @ ''Z''"
    using civ by (simp add: format_rfc3339_def Let_def secs_def ns_def rest_def)
  show ?thesis
    unfolding ParseRFC3339_def fmt
    using y c d r(1-3) ns p_fraction_format [of ns "[]"] inst
    by (simp add: p_zone_def del: dec.simps) (insert r(2,3), linarith)
qed

end
