(* ===== verification/Command_Notice.thy ===== *)
theory Command_Notice
  imports Commands Go_Time
begin

text \<open>
  The MQTT notices of the control plane: \<open>mqtt_notice.go\<close> (command notices) and
  \<open>notification.go\<close> (device notifications) of \<open>backend/internal/domain/commands\<close>.

  The iteration order of the Go map in \<open>findForbiddenPayloadKey\<close> is the order of the members in
  the text; whether a key is found does not depend on it (\<open>findForbidden_iff\<close>).
\<close>

section \<open>Messages and topics\<close>

definition CommandTopicPrefix :: string where
  "CommandTopicPrefix = ''homesignal/devices''"

definition DefaultNoticeMaxBytes :: int where
  "DefaultNoticeMaxBytes = 8 * 1024"

definition DefaultNoticePayloadMax :: int where
  "DefaultNoticePayloadMax = 4 * 1024"

record MQTTMessage =
  mq_Topic :: string
  mq_Payload :: string
  mq_QoS :: int
  mq_ContentType :: string

type_synonym 'w MQTTMessagePublisher = "MQTTMessage \<Rightarrow> ('w, unit) op"

record 'w CommandNoticePublisher =
  cnp_Publisher :: "'w MQTTMessagePublisher option"
  cnp_MaxNoticeBytes :: int
  cnp_MaxPayloadBytes :: int

record CommandNotice =
  cn_CommandID :: string
  cn_CommandType :: CommandType
  cn_DeviceID :: string
  cn_IssuedAt :: time
  cn_ExpiresAt :: time
  cn_Payload :: string

definition device_topic :: "string \<Rightarrow> string \<Rightarrow> go_error + string" where
  "device_topic leaf deviceID =
     (let deviceID = TrimSpace deviceID in
      if deviceID = [] then Inl (Errorf ''device_id is required'' [])
      else if ContainsAny deviceID ''/#+''
      then Inl (Errorf ''device_id contains MQTT topic separators or wildcards'' [])
      else Inr (CommandTopicPrefix @ ''/'' @ deviceID @ leaf))"

definition CommandTopic :: "string \<Rightarrow> go_error + string" where
  "CommandTopic deviceID = device_topic ''/commands'' deviceID"

definition NotificationTopic :: "string \<Rightarrow> go_error + string" where
  "NotificationTopic deviceID = device_topic ''/notifications'' deviceID"

section \<open>Payload checks\<close>

definition forbiddenPayloadKeys :: "string list" where
  "forbiddenPayloadKeys =
     [''commandid'', ''password'', ''privatekey'', ''privatekeypem'', ''secret'', ''signedurl'',
      ''signedurls'', ''token'', ''certificatepem'']"

definition key_char :: "char \<Rightarrow> bool" where
  "key_char c = ((97 \<le> byte c \<and> byte c \<le> 122) \<or> (48 \<le> byte c \<and> byte c \<le> 57))"

definition normalizePayloadKey :: "string \<Rightarrow> string" where
  "normalizePayloadKey key = filter key_char (ToLower (TrimSpace key))"

definition forbidden_key :: "string \<Rightarrow> bool" where
  "forbidden_key key = (normalizePayloadKey key \<in> set forbiddenPayloadKeys)"

fun findForbiddenPayloadKey :: "json \<Rightarrow> string option"
  and forbidden_in_members :: "(string \<times> json) list \<Rightarrow> string option"
  and forbidden_in_elems :: "json list \<Rightarrow> string option" where
  "findForbiddenPayloadKey (JObj ms) = forbidden_in_members ms"
| "findForbiddenPayloadKey (JArr vs) = forbidden_in_elems vs"
| "findForbiddenPayloadKey JNull = None"
| "findForbiddenPayloadKey (JBool b) = None"
| "findForbiddenPayloadKey (JNum n) = None"
| "findForbiddenPayloadKey (JStr s) = None"
| "forbidden_in_members [] = None"
| "forbidden_in_members ((key, child) # ms) =
     (if forbidden_key key then Some key
      else (case findForbiddenPayloadKey child of
              Some k \<Rightarrow> Some k
            | None \<Rightarrow> forbidden_in_members ms))"
| "forbidden_in_elems [] = None"
| "forbidden_in_elems (child # vs) =
     (case findForbiddenPayloadKey child of
        Some k \<Rightarrow> Some k
      | None \<Rightarrow> forbidden_in_elems vs)"

definition validateNoticePayload :: "string \<Rightarrow> int \<Rightarrow> go_error option" where
  "validateNoticePayload payload maxPayloadBytes =
     (let maxPayloadBytes =
            (if maxPayloadBytes \<le> 0 then DefaultNoticePayloadMax else maxPayloadBytes) in
      if maxPayloadBytes < int (length payload)
      then Some (Errorf ''command notice payload exceeds %d bytes'' [])
      else (case json_parse payload of
              None \<Rightarrow> Some (Errorf ''command notice payload must be valid JSON'' [])
            | Some v \<Rightarrow>
                (case findForbiddenPayloadKey (json_any v) of
                   Some forbidden \<Rightarrow>
                     Some (Errorf ''command notice payload contains forbidden key %q'' [forbidden])
                 | None \<Rightarrow> None)))"

section \<open>Command notices\<close>

definition BuildCommandNotice :: "Command \<Rightarrow> int \<Rightarrow> go_error + CommandNotice" where
  "BuildCommandNotice command maxPayloadBytes =
     (let issuedAt = (case cmd_SentAt command of None \<Rightarrow> cmd_UpdatedAt command | Some t \<Rightarrow> t);
          payload = normalizePayload (cmd_Payload command) in
      case first_error
        [(TrimSpace (cmd_CommandID command) = [], Errorf ''command_id is required'' []),
         (TrimSpace (cmd_DeviceID command) = [], Errorf ''device_id is required'' []),
         (cmd_CommandType command = OtherCommandType [], Errorf ''command_type is required'' []),
         (IsZero (cmd_AckDeadlineAt command), Errorf ''ack_deadline_at is required'' []),
         (IsZero issuedAt, Errorf ''issued_at is required'' [])] of
        Some e \<Rightarrow> Inl e
      | None \<Rightarrow>
          (case validateNoticePayload payload maxPayloadBytes of
             Some e \<Rightarrow> Inl e
           | None \<Rightarrow>
               Inr \<lparr>cn_CommandID = TrimSpace (cmd_CommandID command),
                    cn_CommandType = cmd_CommandType command,
                    cn_DeviceID = TrimSpace (cmd_DeviceID command),
                    cn_IssuedAt = UTC issuedAt,
                    cn_ExpiresAt = UTC (cmd_AckDeadlineAt command),
                    cn_Payload = payload\<rparr>))"

definition marshal_notice :: "CommandNotice \<Rightarrow> go_error + string" where
  "marshal_notice n =
     (case marshal_time (cn_IssuedAt n) of Inl e \<Rightarrow> Inl e | Inr issued \<Rightarrow>
     (case marshal_time (cn_ExpiresAt n) of Inl e \<Rightarrow> Inl e | Inr expires \<Rightarrow>
        Inr (object_text
          ([(''command_id'', quote (cn_CommandID n)),
            (''command_type'', quote (command_type_text (cn_CommandType n))),
            (''device_id'', quote (cn_DeviceID n)),
            (''issued_at'', issued),
            (''expires_at'', expires)] @
           (if cn_Payload n = [] then [] else [(''payload'', json_compact (cn_Payload n))])))))"

definition BuildCommandNoticeMessage :: "Command \<Rightarrow> int \<Rightarrow> int \<Rightarrow> go_error + MQTTMessage" where
  "BuildCommandNoticeMessage command maxNoticeBytes maxPayloadBytes =
     (let maxNoticeBytes = (if maxNoticeBytes \<le> 0 then DefaultNoticeMaxBytes else maxNoticeBytes);
          maxPayloadBytes =
            (if maxPayloadBytes \<le> 0 then DefaultNoticePayloadMax else maxPayloadBytes) in
      case BuildCommandNotice command maxPayloadBytes of
        Inl e \<Rightarrow> Inl e
      | Inr notice \<Rightarrow>
         (case marshal_notice notice of
            Inl e \<Rightarrow> Inl (Wrapf ''marshal command notice'' e)
          | Inr payload \<Rightarrow>
             if maxNoticeBytes < int (length payload)
             then Inl (Errorf ''command notice exceeds %d bytes'' [])
             else (case CommandTopic (cmd_DeviceID command) of
                     Inl e \<Rightarrow> Inl e
                   | Inr topic \<Rightarrow>
                       Inr \<lparr>mq_Topic = topic, mq_Payload = payload, mq_QoS = 1,
                            mq_ContentType = ''application/json''\<rparr>)))"

definition CommandNoticePublisher_Publish ::
  "'w CommandNoticePublisher \<Rightarrow> Command \<Rightarrow> ('w, unit) op" where
  "CommandNoticePublisher_Publish p command =
     bindE (required (cnp_Publisher p) (Errorf ''mqtt publisher is required'' [])) (\<lambda>pub.
     bindE (pureE (BuildCommandNoticeMessage command
              (if 0 < cnp_MaxNoticeBytes p then cnp_MaxNoticeBytes p else DefaultNoticeMaxBytes)
              (if 0 < cnp_MaxPayloadBytes p then cnp_MaxPayloadBytes p
               else DefaultNoticePayloadMax))) (\<lambda>message.
     wrapE ''publish command notice'' (pub message)))"

section \<open>Device notifications\<close>

datatype NotificationType = NotificationTypePublishPolicyChanged | OtherNotificationType string

fun notification_type_text :: "NotificationType \<Rightarrow> string" where
  "notification_type_text NotificationTypePublishPolicyChanged = ''publish_policy_changed''"
| "notification_type_text (OtherNotificationType s) = s"

record DeviceNotification =
  dn_NotificationID :: string
  dn_NotificationType :: NotificationType
  dn_DeviceID :: string
  dn_IssuedAt :: time
  dn_ExpiresAt :: "time option"
  dn_Payload :: string

record NotificationRequest =
  nr_NotificationID :: string
  nr_NotificationType :: NotificationType
  nr_DeviceID :: string
  nr_IssuedAt :: time
  nr_ExpiresAt :: "time option"
  nr_Payload :: string

record 'w DeviceNotificationPublisher =
  dnp_Publisher :: "'w MQTTMessagePublisher option"
  dnp_NotificationTypes :: "(NotificationType \<Rightarrow> bool) option"
  dnp_MaxNoticeBytes :: int
  dnp_MaxPayloadBytes :: int

definition DefaultNotificationTypes :: "NotificationType \<Rightarrow> bool" where
  "DefaultNotificationTypes t = (t = NotificationTypePublishPolicyChanged)"

definition notificationTypeAllowed ::
  "'w DeviceNotificationPublisher \<Rightarrow> NotificationType \<Rightarrow> bool" where
  "notificationTypeAllowed p t =
     (case dnp_NotificationTypes p of None \<Rightarrow> DefaultNotificationTypes t | Some ts \<Rightarrow> ts t)"

definition BuildNotification ::
  "'w DeviceNotificationPublisher \<Rightarrow> NotificationRequest \<Rightarrow> go_error + DeviceNotification" where
  "BuildNotification p req =
     (let payload = normalizePayload (nr_Payload req);
          maxPayloadBytes = (if dnp_MaxPayloadBytes p \<le> 0 then DefaultNoticePayloadMax
                             else dnp_MaxPayloadBytes p) in
      case first_error
        [(TrimSpace (nr_NotificationID req) = [], Errorf ''notification_id is required'' []),
         (TrimSpace (nr_DeviceID req) = [], Errorf ''device_id is required'' []),
         (\<not> notificationTypeAllowed p (nr_NotificationType req),
          Errorf ''unsupported notification type %q''
            [notification_type_text (nr_NotificationType req)]),
         (IsZero (nr_IssuedAt req), Errorf ''issued_at is required'' []),
         ((case nr_ExpiresAt req of None \<Rightarrow> False | Some t \<Rightarrow> \<not> After t (nr_IssuedAt req)),
          Errorf ''expires_at must be after issued_at'' [])] of
        Some e \<Rightarrow> Inl e
      | None \<Rightarrow>
          (case validateNoticePayload payload maxPayloadBytes of
             Some e \<Rightarrow> Inl e
           | None \<Rightarrow>
               Inr \<lparr>dn_NotificationID = TrimSpace (nr_NotificationID req),
                    dn_NotificationType = nr_NotificationType req,
                    dn_DeviceID = TrimSpace (nr_DeviceID req),
                    dn_IssuedAt = UTC (nr_IssuedAt req),
                    dn_ExpiresAt = map_option UTC (nr_ExpiresAt req),
                    dn_Payload = payload\<rparr>))"

definition marshal_notification :: "DeviceNotification \<Rightarrow> go_error + string" where
  "marshal_notification n =
     (case marshal_time (dn_IssuedAt n) of Inl e \<Rightarrow> Inl e | Inr issued \<Rightarrow>
     (case (case dn_ExpiresAt n of
              None \<Rightarrow> Inr []
            | Some t \<Rightarrow> map_sum id (\<lambda>x. [(''expires_at'', x)]) (marshal_time t)) of
        Inl e \<Rightarrow> Inl e
      | Inr expires \<Rightarrow>
        Inr (object_text
          ([(''notification_id'', quote (dn_NotificationID n)),
            (''notification_type'', quote (notification_type_text (dn_NotificationType n))),
            (''device_id'', quote (dn_DeviceID n)),
            (''issued_at'', issued)] @ expires @
           (if dn_Payload n = [] then [] else [(''payload'', json_compact (dn_Payload n))])))))"

definition DeviceNotificationPublisher_BuildMessage ::
  "'w DeviceNotificationPublisher \<Rightarrow> NotificationRequest \<Rightarrow> go_error + MQTTMessage" where
  "DeviceNotificationPublisher_BuildMessage p req =
     (case BuildNotification p req of
        Inl e \<Rightarrow> Inl e
      | Inr notification \<Rightarrow>
         (case marshal_notification notification of
            Inl e \<Rightarrow> Inl (Wrapf ''marshal device notification'' e)
          | Inr payload \<Rightarrow>
             let maxNoticeBytes = (if dnp_MaxNoticeBytes p \<le> 0 then DefaultNoticeMaxBytes
                                   else dnp_MaxNoticeBytes p) in
             if maxNoticeBytes < int (length payload)
             then Inl (Errorf ''device notification exceeds %d bytes'' [])
             else (case NotificationTopic (nr_DeviceID req) of
                     Inl e \<Rightarrow> Inl e
                   | Inr topic \<Rightarrow>
                       Inr \<lparr>mq_Topic = topic, mq_Payload = payload, mq_QoS = 1,
                            mq_ContentType = ''application/json''\<rparr>)))"

definition DeviceNotificationPublisher_Publish ::
  "'w DeviceNotificationPublisher \<Rightarrow> NotificationRequest \<Rightarrow> ('w, unit) op" where
  "DeviceNotificationPublisher_Publish p req =
     bindE (required (dnp_Publisher p) (Errorf ''mqtt publisher is required'' [])) (\<lambda>pub.
     bindE (pureE (DeviceNotificationPublisher_BuildMessage p req)) (\<lambda>message.
     wrapE ''publish device notification'' (pub message)))"

section \<open>Forbidden keys\<close>

text \<open>Every member name at any depth of a value.\<close>

fun json_keys :: "json \<Rightarrow> string set" where
  "json_keys (JObj ms) = (\<Union>(k, v) \<in> set ms. insert k (json_keys v))"
| "json_keys (JArr vs) = (\<Union>v \<in> set vs. json_keys v)"
| "json_keys _ = {}"

lemma findForbidden_iff:
  "findForbiddenPayloadKey v = None \<longleftrightarrow> (\<forall>k \<in> json_keys v. \<not> forbidden_key k)"
  "forbidden_in_members ms = None \<longleftrightarrow> (\<forall>k \<in> json_keys (JObj ms). \<not> forbidden_key k)"
  "forbidden_in_elems vs = None \<longleftrightarrow> (\<forall>k \<in> json_keys (JArr vs). \<not> forbidden_key k)"
  by (induction v and ms and vs rule: findForbiddenPayloadKey_forbidden_in_members_forbidden_in_elems.induct)
     (auto split: option.split)

lemma validateNoticePayload_ok:
  "validateNoticePayload payload maxb = None \<Longrightarrow>
     int (length payload) \<le> (if maxb \<le> 0 then DefaultNoticePayloadMax else maxb) \<and>
     (\<exists>v. json_parse payload = Some v \<and> (\<forall>k \<in> json_keys (json_any v). \<not> forbidden_key k))"
  by (auto simp: validateNoticePayload_def Let_def findForbidden_iff split: if_splits option.splits)

lemma BuildCommandNotice_ok:
  "BuildCommandNotice c maxb = Inr n \<Longrightarrow>
     cn_CommandID n = TrimSpace (cmd_CommandID c) \<and> cn_CommandID n \<noteq> [] \<and>
     cn_DeviceID n = TrimSpace (cmd_DeviceID c) \<and> cn_DeviceID n \<noteq> [] \<and>
     cn_CommandType n = cmd_CommandType c \<and> cn_ExpiresAt n = cmd_AckDeadlineAt c \<and>
     cn_Payload n = normalizePayload (cmd_Payload c) \<and>
     validateNoticePayload (cn_Payload n) maxb = None"
  by (auto simp: BuildCommandNotice_def Let_def split: if_splits option.splits)

text \<open>A command notice that is built goes to the topic of its device alone, within the size
  limits, and its decoded payload has no forbidden key at any depth.\<close>

theorem command_notice_message:
  assumes "BuildCommandNoticeMessage c maxNotice maxPayload = Inr m"
  shows "mq_Topic m = ''homesignal/devices/'' @ TrimSpace (cmd_DeviceID c) @ ''/commands'' \<and>
    Split (mq_Topic m) (CHR ''/'') =
      [''homesignal'', ''devices'', TrimSpace (cmd_DeviceID c), ''commands''] \<and>
    (\<forall>x \<in> set (TrimSpace (cmd_DeviceID c)). x \<notin> set ''/#+'') \<and>
    int (length (mq_Payload m)) \<le> (if maxNotice \<le> 0 then 8192 else maxNotice) \<and>
    int (length (normalizePayload (cmd_Payload c))) \<le> (if maxPayload \<le> 0 then 4096 else maxPayload) \<and>
    (\<exists>v. json_parse (normalizePayload (cmd_Payload c)) = Some v \<and>
       (\<forall>k \<in> json_keys (json_any v). normalizePayloadKey k \<notin> set forbiddenPayloadKeys))"
proof -
  obtain n where n: "BuildCommandNotice c (if maxPayload \<le> 0 then DefaultNoticePayloadMax else maxPayload) = Inr n"
    and sz: "int (length (mq_Payload m)) \<le> (if maxNotice \<le> 0 then DefaultNoticeMaxBytes else maxNotice)"
    and t: "CommandTopic (cmd_DeviceID c) = Inr (mq_Topic m)"
    using assms by (auto simp: BuildCommandNoticeMessage_def Let_def split: sum.splits if_splits)
  have topic: "mq_Topic m = ''homesignal/devices/'' @ TrimSpace (cmd_DeviceID c) @ ''/commands''"
    and chars: "\<forall>x \<in> set (TrimSpace (cmd_DeviceID c)). x \<notin> set ''/#+''"
    using t by (auto simp: CommandTopic_def device_topic_def Let_def CommandTopicPrefix_def
        ContainsAny_iff split: if_splits)
  from chars have "CHR ''/'' \<notin> set (TrimSpace (cmd_DeviceID c))" by auto
  then have "Split (mq_Topic m) (CHR ''/'') =
      [''homesignal'', ''devices'', TrimSpace (cmd_DeviceID c), ''commands'']"
    using topic by (simp add: Split_append)
  moreover have "validateNoticePayload (normalizePayload (cmd_Payload c))
      (if maxPayload \<le> 0 then DefaultNoticePayloadMax else maxPayload) = None"
    using BuildCommandNotice_ok [OF n] by auto
  note ok = validateNoticePayload_ok [OF this]
  have "int (length (normalizePayload (cmd_Payload c))) \<le> (if maxPayload \<le> 0 then 4096 else maxPayload)"
    using ok by (simp add: DefaultNoticePayloadMax_def split: if_splits)
  moreover have "int (length (mq_Payload m)) \<le> (if maxNotice \<le> 0 then 8192 else maxNotice)"
    using sz by (simp add: DefaultNoticeMaxBytes_def split: if_splits)
  ultimately show ?thesis
    using topic chars ok [THEN conjunct2] unfolding forbidden_key_def by blast
qed

text \<open>The check of the payload sees only the last of the members with one name, while the notice
  forwards the text: a forbidden key can be hidden behind a duplicate member.\<close>

theorem forbidden_key_behind_duplicate:
  "\<exists>payload v. validateNoticePayload payload 0 = None \<and> json_parse payload = Some v \<and>
     (\<exists>k \<in> json_keys v. normalizePayloadKey k \<in> set forbiddenPayloadKeys)"
proof -
  let ?p = "[CHR ''{'', CHR 0x22, CHR ''a'', CHR 0x22, CHR '':'', CHR ''{'', CHR 0x22] @ ''password''
    @ [CHR 0x22, CHR '':'', CHR ''1'', CHR ''}'', CHR '','', CHR 0x22, CHR ''a'', CHR 0x22, CHR '':'',
       CHR ''1'', CHR ''}'']"
  let ?v = "JObj [(''a'', JObj [(''password'', JNum ''1'')]), (''a'', JNum ''1'')]"
  have "validateNoticePayload ?p 0 = None" by code_simp
  moreover have "json_parse ?p = Some ?v" by code_simp
  moreover have "''password'' \<in> json_keys ?v" by simp
  moreover have "normalizePayloadKey ''password'' \<in> set forbiddenPayloadKeys" by code_simp
  ultimately show ?thesis by blast
qed

text \<open>A device notification that is built is of an allowed type, goes to the notification topic
  of its device, is not longer than the limit, and does not expire before it is issued.\<close>

theorem device_notification_message:
  assumes "DeviceNotificationPublisher_BuildMessage p req = Inr m"
  shows "mq_Topic m = ''homesignal/devices/'' @ TrimSpace (nr_DeviceID req) @ ''/notifications'' \<and>
    (dnp_NotificationTypes p = None \<longrightarrow>
       nr_NotificationType req = NotificationTypePublishPolicyChanged) \<and>
    int (length (mq_Payload m)) \<le> (if dnp_MaxNoticeBytes p \<le> 0 then 8192 else dnp_MaxNoticeBytes p) \<and>
    (\<forall>t. nr_ExpiresAt req = Some t \<longrightarrow> nr_IssuedAt req < t) \<and>
    (\<exists>v. json_parse (normalizePayload (nr_Payload req)) = Some v \<and>
       (\<forall>k \<in> json_keys (json_any v). normalizePayloadKey k \<notin> set forbiddenPayloadKeys))"
proof -
  obtain n where n: "BuildNotification p req = Inr n"
    and sz: "int (length (mq_Payload m)) \<le> (if dnp_MaxNoticeBytes p \<le> 0 then DefaultNoticeMaxBytes else dnp_MaxNoticeBytes p)"
    and t: "NotificationTopic (nr_DeviceID req) = Inr (mq_Topic m)"
    using assms by (auto simp: DeviceNotificationPublisher_BuildMessage_def Let_def split: sum.splits if_splits)
  have b: "notificationTypeAllowed p (nr_NotificationType req)"
    "\<forall>t. nr_ExpiresAt req = Some t \<longrightarrow> nr_IssuedAt req < t"
    "\<exists>b. validateNoticePayload (normalizePayload (nr_Payload req)) b = None"
    using n by (auto simp: BuildNotification_def Let_def split: if_splits option.splits)
  from b(3) validateNoticePayload_ok obtain v where "json_parse (normalizePayload (nr_Payload req)) = Some v"
    "\<forall>k \<in> json_keys (json_any v). \<not> forbidden_key k" by blast
  moreover have "mq_Topic m = ''homesignal/devices/'' @ TrimSpace (nr_DeviceID req) @ ''/notifications''"
    using t by (auto simp: NotificationTopic_def device_topic_def Let_def CommandTopicPrefix_def
        split: if_splits)
  ultimately show ?thesis
    using sz b(1,2)
    by (auto simp: DefaultNoticeMaxBytes_def forbidden_key_def notificationTypeAllowed_def
        DefaultNotificationTypes_def split: if_splits option.splits)
qed

section \<open>Witnesses\<close>

definition demo_command :: Command where
  "demo_command = \<lparr>cmd_CommandID = ''c1'', cmd_AccountID = ''a1'', cmd_SiteID = ''s1'',
     cmd_DeviceID = ''d1'', cmd_CommandType = TypeTriggerBackup, cmd_Status = StatusSent,
     cmd_IdempotencyKey = [], cmd_RequestedByUserID = [], cmd_Payload = [], cmd_AckDeadlineAt = 20,
     cmd_ResultDeadlineAt = 40, cmd_QueuedAt = 5, cmd_SentAt = Some 5, cmd_AckedAt = None,
     cmd_TerminalAt = None, cmd_CreatedAt = 5, cmd_UpdatedAt = 5\<rparr>"

definition demo_notification :: NotificationRequest where
  "demo_notification = \<lparr>nr_NotificationID = ''n1'',
     nr_NotificationType = NotificationTypePublishPolicyChanged, nr_DeviceID = ''d1'',
     nr_IssuedAt = 5, nr_ExpiresAt = Some 9, nr_Payload = []\<rparr>"

theorem command_notice_message_witness:
  "\<exists>m. BuildCommandNoticeMessage demo_command 0 0 = Inr m \<and>
     mq_Topic m = ''homesignal/devices/d1/commands''"
proof -
  have "\<not> isl (BuildCommandNoticeMessage demo_command 0 0)" "TrimSpace (cmd_DeviceID demo_command) = ''d1''"
    by code_simp+
  then obtain m where m: "BuildCommandNoticeMessage demo_command 0 0 = Inr m"
    by (metis isl_def sum.exhaust)
  from command_notice_message [OF m] m \<open>TrimSpace (cmd_DeviceID demo_command) = ''d1''\<close>
  show ?thesis by simp
qed

theorem device_notification_message_witness:
  "\<exists>m. DeviceNotificationPublisher_BuildMessage
      (\<lparr>dnp_Publisher = None, dnp_NotificationTypes = None, dnp_MaxNoticeBytes = 0,
        dnp_MaxPayloadBytes = 0\<rparr> :: unit DeviceNotificationPublisher) demo_notification = Inr m \<and>
     mq_Topic m = ''homesignal/devices/d1/notifications''"
proof -
  let ?p = "\<lparr>dnp_Publisher = None, dnp_NotificationTypes = None, dnp_MaxNoticeBytes = 0,
       dnp_MaxPayloadBytes = 0\<rparr> :: unit DeviceNotificationPublisher"
  have ev: "\<not> isl (DeviceNotificationPublisher_BuildMessage ?p demo_notification)"
    "TrimSpace (nr_DeviceID demo_notification) = ''d1''"
    by code_simp+
  then obtain m where m: "DeviceNotificationPublisher_BuildMessage ?p demo_notification = Inr m"
    by (metis isl_def sum.exhaust)
  from device_notification_message [OF m] ev(2) m show ?thesis by force
qed

end
