(* ===== verification/Agent_Commands.thy ===== *)
theory Agent_Commands
  imports Command_Notice
begin

text \<open>
  The command receiver of the Home Assistant agent (\<open>homesignal/cmd/agent/command_receiver.go\<close>):
  decoding and checking a command notice, the local policy, and the acknowledgement it sends.

  \<open>agent_contract\<close> is the agent's command client with what it promises about the stored
  acknowledgements; \<open>agent_receiver\<close> is the receiver over the client of
  \<open>command_receiver_test.go\<close>, with a schedule of failing calls.
\<close>

section \<open>Data\<close>

record AgentCommandDetail =
  acd_CommandID :: string
  acd_CommandType :: string
  acd_DeviceID :: string
  acd_Payload :: string

record CommandACKRequest =
  car_CommandID :: string
  car_Status :: string
  car_DeviceID :: string
  car_CommandType :: string
  car_ReasonCode :: string
  car_ReportedAt :: time

record MQTTCommandNotice =
  mcn_CommandID :: string
  mcn_CommandType :: string
  mcn_DeviceID :: string
  mcn_IssuedAt :: time
  mcn_ExpiresAt :: time
  mcn_Payload :: string

record CommandDecision =
  dec_CommandID :: string
  dec_Status :: string
  dec_ReasonCode :: string

record 'w AgentCommandClient =
  acc_FetchCommandDetail :: "string \<Rightarrow> ('w, AgentCommandDetail) op"
  acc_RecordCommandACK :: "CommandACKRequest \<Rightarrow> ('w, unit) op"

record 'w CommandReceiver =
  rcv_Client :: "'w AgentCommandClient option"
  rcv_AllowedTypes :: "(string \<Rightarrow> bool) option"
  rcv_Now :: "('w, time) effect option"
  rcv_TimeNow :: "('w, time) effect"

definition agent_command_types :: "string list" where
  "agent_command_types =
     [''refresh_publish_policy'', ''trigger_backup'', ''upload_artifact'', ''check_update_status'',
      ''repair_update_state'']"

definition commandACKAccepted :: string where
  "commandACKAccepted = ''accepted''"

definition commandACKRejected :: string where
  "commandACKRejected = ''rejected''"

section \<open>Operations\<close>

definition knownLocalCommandType :: "string \<Rightarrow> bool" where
  "knownLocalCommandType t = (t \<in> set agent_command_types)"

definition policy_Allows :: "(string \<Rightarrow> bool) option \<Rightarrow> string \<Rightarrow> bool" where
  "policy_Allows allowed t = (case allowed of None \<Rightarrow> False | Some f \<Rightarrow> f t)"

definition validateCommandDetailMatchesNotice ::
  "AgentCommandDetail \<Rightarrow> MQTTCommandNotice \<Rightarrow> go_error option" where
  "validateCommandDetailMatchesNotice detail notice = first_error
     [(TrimSpace (acd_CommandID detail) \<noteq> mcn_CommandID notice, Errorf ''command_id mismatch'' []),
      (TrimSpace (acd_CommandType detail) \<noteq> mcn_CommandType notice,
       Errorf ''command_type mismatch'' []),
      (TrimSpace (acd_DeviceID detail) \<noteq> mcn_DeviceID notice, Errorf ''device_id mismatch'' [])]"

definition deviceIDFromCommandTopic :: "string \<Rightarrow> go_error + string" where
  "deviceIDFromCommandTopic topic =
     (let parts = Split (TrimSpace topic) (CHR ''/'') in
      if length parts \<noteq> 4 \<or> parts ! 0 \<noteq> ''homesignal'' \<or> parts ! 1 \<noteq> ''devices'' \<or>
         parts ! 3 \<noteq> ''commands''
      then Inl (Errorf ''unexpected command topic'' [])
      else if TrimSpace (parts ! 2) = []
      then Inl (Errorf ''command topic device_id is required'' [])
      else Inr (parts ! 2))"

definition notice_fields :: "string list" where
  "notice_fields = [''command_id'', ''command_type'', ''device_id'', ''issued_at'', ''expires_at'',
     ''payload'']"

text \<open>\<open>json.Unmarshal(payload, &notice)\<close>.\<close>

definition decode_notice :: "string \<Rightarrow> MQTTCommandNotice option" where
  "decode_notice payload =
     (case (struct_members payload, json_raw_members payload) of
        (Some ms, Some raw) \<Rightarrow>
          (let fld = field_values notice_fields ms in
           case (dec_string [] (fld ''command_id''), dec_string [] (fld ''command_type''),
                 dec_string [] (fld ''device_id''), dec_time 0 (fld ''issued_at''),
                 dec_time 0 (fld ''expires_at'')) of
             (Some i, Some t, Some d, Some issued, Some expires) \<Rightarrow>
               Some \<lparr>mcn_CommandID = i, mcn_CommandType = t, mcn_DeviceID = d,
                     mcn_IssuedAt = issued, mcn_ExpiresAt = expires,
                     mcn_Payload = foldl (\<lambda>_ x. x) [] (field_values notice_fields raw ''payload'')\<rparr>
           | _ \<Rightarrow> None)
      | _ \<Rightarrow> None)"

text \<open>The checks of \<open>parseMQTTCommandNotice\<close> after decoding; the local identifier is trimmed.\<close>

definition check_notice ::
  "MQTTCommandNotice \<Rightarrow> string \<Rightarrow> time \<Rightarrow> go_error + MQTTCommandNotice" where
  "check_notice notice0 localDeviceID now =
     (let notice = notice0\<lparr>mcn_CommandID := TrimSpace (mcn_CommandID notice0),
                           mcn_CommandType := TrimSpace (mcn_CommandType notice0),
                           mcn_DeviceID := TrimSpace (mcn_DeviceID notice0)\<rparr> in
      case first_error
        [(mcn_CommandID notice = [], Errorf ''command_id is required'' []),
         (mcn_CommandType notice = [], Errorf ''command_type is required'' []),
         (mcn_DeviceID notice \<noteq> localDeviceID, Errorf ''command notice device_id mismatch'' []),
         (IsZero (mcn_IssuedAt notice), Errorf ''issued_at is required'' []),
         (IsZero (mcn_ExpiresAt notice) \<or> \<not> After (mcn_ExpiresAt notice) now,
          Errorf ''command notice expired'' [])] of
        Some e \<Rightarrow> Inl e
      | None \<Rightarrow> Inr notice)"

definition parseMQTTCommandNotice ::
  "string \<Rightarrow> string \<Rightarrow> string \<Rightarrow> time \<Rightarrow> go_error + MQTTCommandNotice" where
  "parseMQTTCommandNotice topic payload localDeviceID0 now =
     (let localDeviceID = TrimSpace localDeviceID0 in
      if localDeviceID = [] then Inl (Errorf ''local device_id is required'' [])
      else (case deviceIDFromCommandTopic topic of
              Inl e \<Rightarrow> Inl e
            | Inr topicDeviceID \<Rightarrow>
                if topicDeviceID \<noteq> localDeviceID
                then Inl (Errorf ''command topic device_id mismatch'' [])
                else (case decode_notice payload of
                        None \<Rightarrow> Inl (Errorf ''decode command notice: %w'' [])
                      | Some notice \<Rightarrow> check_notice notice localDeviceID now)))"

definition receiver_now :: "'w CommandReceiver \<Rightarrow> ('w, time) op" where
  "receiver_now r = clock_now (rcv_Now r) (rcv_TimeNow r)"

definition receiver_reject ::
  "'w AgentCommandClient \<Rightarrow> MQTTCommandNotice \<Rightarrow> string \<Rightarrow> time \<Rightarrow> ('w, CommandDecision) op" where
  "receiver_reject client notice reasonCode reportedAt =
     bindE (wrapE ''record command rejection'' (acc_RecordCommandACK client
       \<lparr>car_CommandID = mcn_CommandID notice, car_Status = commandACKRejected,
        car_DeviceID = mcn_DeviceID notice, car_CommandType = mcn_CommandType notice,
        car_ReasonCode = reasonCode, car_ReportedAt = reportedAt\<rparr>)) (\<lambda>_.
     ret \<lparr>dec_CommandID = mcn_CommandID notice, dec_Status = commandACKRejected,
          dec_ReasonCode = reasonCode\<rparr>)"

definition HandleMQTTCommandNotice ::
  "'w CommandReceiver \<Rightarrow> string \<Rightarrow> string \<Rightarrow> string \<Rightarrow> ('w, CommandDecision) op" where
  "HandleMQTTCommandNotice r topic payload localDeviceID =
     bindE (required (rcv_Client r) (Errorf ''agent command client is required'' [])) (\<lambda>client.
     bindE (receiver_now r) (\<lambda>now.
     bindE (pureE (parseMQTTCommandNotice topic payload localDeviceID now)) (\<lambda>notice.
     if \<not> knownLocalCommandType (mcn_CommandType notice)
     then receiver_reject client notice ''unknown_command_type'' now
     else if \<not> policy_Allows (rcv_AllowedTypes r) (mcn_CommandType notice)
     then receiver_reject client notice ''local_policy_denied'' now
     else
       bindE (wrapE ''fetch command detail'' (acc_FetchCommandDetail client (mcn_CommandID notice)))
         (\<lambda>detail.
       case validateCommandDetailMatchesNotice detail notice of
         Some _ \<Rightarrow> receiver_reject client notice ''command_detail_mismatch'' now
       | None \<Rightarrow>
           bindE (wrapE ''record command ack'' (acc_RecordCommandACK client
             \<lparr>car_CommandID = mcn_CommandID notice, car_Status = commandACKAccepted,
              car_DeviceID = localDeviceID, car_CommandType = mcn_CommandType notice,
              car_ReasonCode = [], car_ReportedAt = now\<rparr>)) (\<lambda>_.
           ret \<lparr>dec_CommandID = mcn_CommandID notice, dec_Status = commandACKAccepted,
                dec_ReasonCode = []\<rparr>)))))"

section \<open>What a notice must satisfy\<close>

lemma check_notice_ok:
  "check_notice n0 d now = Inr n \<Longrightarrow>
     mcn_CommandID n = TrimSpace (mcn_CommandID n0) \<and> mcn_CommandID n \<noteq> [] \<and>
     mcn_CommandType n = TrimSpace (mcn_CommandType n0) \<and> mcn_CommandType n \<noteq> [] \<and>
     mcn_DeviceID n = d \<and> now < mcn_ExpiresAt n \<and> mcn_ExpiresAt n = mcn_ExpiresAt n0"
  by (auto simp: check_notice_def Let_def split: if_splits)

lemma parse_notice_ok:
  "parseMQTTCommandNotice topic payload d0 now = Inr n \<Longrightarrow>
     deviceIDFromCommandTopic topic = Inr (TrimSpace d0) \<and> mcn_DeviceID n = TrimSpace d0 \<and>
     TrimSpace d0 \<noteq> [] \<and> mcn_CommandID n \<noteq> [] \<and> now < mcn_ExpiresAt n"
  by (auto simp: parseMQTTCommandNotice_def Let_def dest!: check_notice_ok
      split: if_splits sum.splits option.splits)

lemma validateDetail_None:
  "validateCommandDetailMatchesNotice detail n = None \<longleftrightarrow>
     TrimSpace (acd_CommandID detail) = mcn_CommandID n \<and>
     TrimSpace (acd_CommandType detail) = mcn_CommandType n \<and>
     TrimSpace (acd_DeviceID detail) = mcn_DeviceID n"
  by (auto simp: validateCommandDetailMatchesNotice_def)

lemma CommandTopic_device:
  assumes "CommandTopic device = Inr topic"
  shows "deviceIDFromCommandTopic topic = Inr (TrimSpace device)"
proof -
  have t: "topic = ''homesignal/devices/'' @ TrimSpace device @ ''/commands''"
    and ne: "TrimSpace device \<noteq> []" and c: "CHR ''/'' \<notin> set (TrimSpace device)"
    using assms by (auto simp: CommandTopic_def device_topic_def Let_def CommandTopicPrefix_def
        ContainsAny_iff split: if_splits)
  have "TrimSpace topic = topic"
    using t by (intro TrimSpace_visible) (simp_all add: visible_def)
  moreover have "Split topic (CHR ''/'') = [''homesignal'', ''devices'', TrimSpace device, ''commands'']"
    using t c by (simp add: Split_append)
  ultimately show ?thesis
    using ne by (simp add: deviceIDFromCommandTopic_def Let_def)
qed

section \<open>The client's contract\<close>

text \<open>
  \<open>acks\<close> is what the control plane has stored. Fetching a detail stores nothing; a recorded
  acknowledgement is appended; after an error it may have been stored or not.
\<close>

locale agent_contract =
  fixes rcv :: "'w CommandReceiver" and client :: "'w AgentCommandClient"
    and acks :: "'w \<Rightarrow> CommandACKRequest list" and details :: "'w \<Rightarrow> string \<Rightarrow> AgentCommandDetail option"
  assumes client: "rcv_Client rcv = Some client"
    and Fetch_law: "acc_FetchCommandDetail client i w = (got, w') \<Longrightarrow>
      acks w' = acks w \<and> (case got of Inl e \<Rightarrow> True | Inr d \<Rightarrow> details w i = Some d)"
    and RecordACK_law: "acc_RecordCommandACK client a w = (r, w') \<Longrightarrow>
      (case r of Inl e \<Rightarrow> acks w' = acks w \<or> acks w' = acks w @ [a]
       | Inr u \<Rightarrow> acks w' = acks w @ [a])"
    and Now_law: "rcv_Now rcv = Some f \<Longrightarrow> f w = (t, w') \<Longrightarrow> acks w' = acks w \<and> details w' = details w"
    and TimeNow_law: "rcv_TimeNow rcv w = (t, w') \<Longrightarrow> acks w' = acks w \<and> details w' = details w"
begin

lemma wp_Fetch:
  assumes "\<And>e w'. acks w' = acks w \<Longrightarrow> E e w'"
    and "\<And>d w'. acks w' = acks w \<Longrightarrow> details w i = Some d \<Longrightarrow> Q d w'"
  shows "wp (acc_FetchCommandDetail client i) Q E w"
  by (rule wpI) (auto dest!: Fetch_law intro: assms)

lemma wp_RecordACK:
  assumes "\<And>e w'. acks w' = acks w \<or> acks w' = acks w @ [a] \<Longrightarrow> E e w'"
    and "\<And>w'. acks w' = acks w @ [a] \<Longrightarrow> Q () w'"
  shows "wp (acc_RecordCommandACK client a) Q E w"
  by (rule wpI) (auto dest!: RecordACK_law intro: assms)

lemma wp_now:
  assumes "\<And>t w'. acks w' = acks w \<Longrightarrow> details w' = details w \<Longrightarrow> Q t w'"
  shows "wp (receiver_now rcv) Q E w"
  using assms by (auto simp: receiver_now_def wp_simps split: option.split prod.split
      dest: Now_law TimeNow_law)

lemma handle_notice:
  "wp (HandleMQTTCommandNotice rcv topic payload device)
     (\<lambda>d w'. \<exists>a. acks w' = acks w @ [a] \<and> car_CommandID a = dec_CommandID d \<and>
        car_Status a = dec_Status d \<and> car_ReasonCode a = dec_ReasonCode d \<and>
        TrimSpace (car_DeviceID a) = TrimSpace device \<and>
        deviceIDFromCommandTopic topic = Inr (TrimSpace device) \<and>
        (dec_Status d = commandACKAccepted \<longrightarrow>
           knownLocalCommandType (car_CommandType a) \<and>
           policy_Allows (rcv_AllowedTypes rcv) (car_CommandType a) \<and>
           (\<exists>c. details w (dec_CommandID d) = Some c \<and>
              TrimSpace (acd_CommandID c) = dec_CommandID d \<and>
              TrimSpace (acd_CommandType c) = car_CommandType a \<and>
              TrimSpace (acd_DeviceID c) = TrimSpace device)))
     (\<lambda>_ w'. acks w' = acks w \<or> (\<exists>a. acks w' = acks w @ [a])) w"
  by (auto simp: HandleMQTTCommandNotice_def receiver_reject_def client wp_simps
      commandACKAccepted_def commandACKRejected_def validateDetail_None
      intro!: wp_Fetch wp_RecordACK wp_now dest!: parse_notice_ok split: sum.split option.split)

end

section \<open>The client of the tests\<close>

record agent_store = env +
  ag_details :: "string \<Rightarrow> AgentCommandDetail option"
  ag_fetches :: "string list"
  ag_acks :: "CommandACKRequest list"

definition fake_FetchCommandDetail :: "string \<Rightarrow> (agent_store, AgentCommandDetail) op" where
  "fake_FetchCommandDetail i w =
     (let w = w\<lparr>ag_fetches := ag_fetches w @ [i]\<rparr> in
      case ag_details w i of
        None \<Rightarrow> (Inl (Sentinel ''command not found''), w)
      | Some d \<Rightarrow> (Inr d, w))"

definition fake_RecordCommandACK :: "CommandACKRequest \<Rightarrow> (agent_store, unit) op" where
  "fake_RecordCommandACK a w = (Inr (), w\<lparr>ag_acks := ag_acks w @ [a]\<rparr>)"

definition agent_client :: "agent_store AgentCommandClient" where
  "agent_client =
     \<lparr>acc_FetchCommandDetail = \<lambda>i. with_fault (fake_FetchCommandDetail i),
      acc_RecordCommandACK = \<lambda>a. with_fault (fake_RecordCommandACK a)\<rparr>"

definition agent_receiver :: "(string \<Rightarrow> bool) option \<Rightarrow> agent_store CommandReceiver" where
  "agent_receiver allowed =
     \<lparr>rcv_Client = Some agent_client, rcv_AllowedTypes = allowed, rcv_Now = Some read_clock,
      rcv_TimeNow = read_clock\<rparr>"

interpretation agent: agent_contract "agent_receiver allowed" agent_client ag_acks ag_details
  for allowed
  by unfold_locales
     (auto simp: agent_receiver_def agent_client_def fake_FetchCommandDetail_def
       fake_RecordCommandACK_def with_fault_def read_clock_def Let_def
       split: list.splits if_splits option.splits)

section \<open>Properties\<close>

text \<open>C13: A decision of the agent is what it told the control plane: exactly one acknowledgement is
  stored, for the topic of this device; it is an acceptance only of a type that is known and
  allowed and whose fetched detail has the notice's command, type and device.\<close>

theorem agent_decision_acknowledged:
  assumes "HandleMQTTCommandNotice (agent_receiver allowed) topic payload device w = (Inr d, w')"
  shows "deviceIDFromCommandTopic topic = Inr (TrimSpace device) \<and>
    (\<exists>a. ag_acks w' = ag_acks w @ [a] \<and> car_CommandID a = dec_CommandID d \<and>
       car_Status a = dec_Status d \<and> car_ReasonCode a = dec_ReasonCode d \<and>
       TrimSpace (car_DeviceID a) = TrimSpace device \<and>
       (dec_Status d = commandACKAccepted \<longrightarrow>
          knownLocalCommandType (car_CommandType a) \<and> policy_Allows allowed (car_CommandType a) \<and>
          (\<exists>c. ag_details w (dec_CommandID d) = Some c \<and>
             TrimSpace (acd_CommandID c) = dec_CommandID d \<and>
             TrimSpace (acd_CommandType c) = car_CommandType a \<and>
             TrimSpace (acd_DeviceID c) = TrimSpace device)))"
  using wp_InrD [OF agent.handle_notice assms] by (auto simp: agent_receiver_def)

text \<open>Whatever fails, one notice leads to at most one acknowledgement, and a notice that is
  expired or meant for another device to none.\<close>

theorem agent_at_most_one_ack:
  "(\<exists>as. length as \<le> 1 \<and>
      ag_acks (snd (HandleMQTTCommandNotice (agent_receiver allowed) topic payload device w)) =
        ag_acks w @ as) \<and>
   (parseMQTTCommandNotice topic payload device (env_clock w) = Inl e \<longrightarrow>
      fst (HandleMQTTCommandNotice (agent_receiver allowed) topic payload device w) = Inl e \<and>
      ag_acks (snd (HandleMQTTCommandNotice (agent_receiver allowed) topic payload device w)) =
        ag_acks w)"
proof -
  have "wp (HandleMQTTCommandNotice (agent_receiver allowed) topic payload device)
      (\<lambda>_ w'. \<exists>as. length as \<le> 1 \<and> ag_acks w' = ag_acks w @ as)
      (\<lambda>_ w'. \<exists>as. length as \<le> 1 \<and> ag_acks w' = ag_acks w @ as) w"
    by (rule wp_mono [OF agent.handle_notice]) (auto intro: exI [of _ "[]"] exI [of _ "[_]"])
  then show ?thesis
    by (auto dest!: wp_worldD simp: HandleMQTTCommandNotice_def receiver_now_def clock_now_def
        agent_receiver_def op_defs read_clock_def split: list.split)
qed

text \<open>C28: The agent reads from a command topic the device the control plane addressed.\<close>

theorem command_topic_roundtrip:
  assumes "CommandTopic device = Inr topic"
  shows "deviceIDFromCommandTopic topic = Inr (TrimSpace device)"
  using assms by (rule CommandTopic_device)

text \<open>A command notice the control plane builds passes the checks of the device it is for, and of
  no other device, as long as the acknowledgement deadline has not come.\<close>

theorem built_notice_checked:
  assumes "BuildCommandNotice c maxb = Inr n" and "CommandTopic (cmd_DeviceID c) = Inr topic"
    and "decode_notice payload = Some \<lparr>mcn_CommandID = cn_CommandID n,
           mcn_CommandType = command_type_text (cn_CommandType n), mcn_DeviceID = cn_DeviceID n,
           mcn_IssuedAt = cn_IssuedAt n, mcn_ExpiresAt = cn_ExpiresAt n, mcn_Payload = text\<rparr>"
    and "TrimSpace (command_type_text (cn_CommandType n)) \<noteq> []"
  shows "\<not> isl (parseMQTTCommandNotice topic payload device now) \<longleftrightarrow>
    TrimSpace device = TrimSpace (cmd_DeviceID c) \<and> now < cmd_AckDeadlineAt c"
proof -
  have n: "cn_CommandID n = TrimSpace (cmd_CommandID c)" "cn_CommandID n \<noteq> []"
    "cn_DeviceID n = TrimSpace (cmd_DeviceID c)" "cn_DeviceID n \<noteq> []"
    "cn_ExpiresAt n = cmd_AckDeadlineAt c" "cmd_AckDeadlineAt c \<noteq> 0" "cn_IssuedAt n \<noteq> 0"
    using assms(1) by (auto simp: BuildCommandNotice_def Let_def split: if_splits option.splits)
  have top: "deviceIDFromCommandTopic topic = Inr (TrimSpace (cmd_DeviceID c))"
    using assms(2) by (rule CommandTopic_device)
  show ?thesis
    using n top assms(3,4)
    by (auto simp: parseMQTTCommandNotice_def check_notice_def Let_def)
qed

section \<open>Witnesses\<close>

definition demo_agent :: agent_store where
  "demo_agent = \<lparr>env_faults = [], env_clock = 10, env_ticks = [], env_ids = [],
     ag_details = [''c1'' \<mapsto> \<lparr>acd_CommandID = ''c1'', acd_CommandType = ''trigger_backup'',
        acd_DeviceID = ''d1'', acd_Payload = []\<rparr>],
     ag_fetches = [], ag_acks = []\<rparr>"

definition demo_allowed :: "string \<Rightarrow> bool" where
  "demo_allowed t = (t = ''trigger_backup'')"

definition demo_payload :: string where
  "demo_payload = object_text [(''command_id'', quote ''c1''),
     (''command_type'', quote ''trigger_backup''), (''device_id'', quote ''d1''),
     (''issued_at'', quote ''0001-01-01T00:00:00.000000005Z''),
     (''expires_at'', quote ''0001-01-01T00:00:00.00000002Z'')]"

definition demo_topic :: string where
  "demo_topic = ''homesignal/devices/d1/commands''"

lemma demo_agent_run:
  "case HandleMQTTCommandNotice (agent_receiver (Some demo_allowed)) demo_topic demo_payload ''d1'' demo_agent of
     (Inl e, _) \<Rightarrow> False
   | (Inr d, w') \<Rightarrow> dec_Status d = ''accepted''"
  by code_simp

theorem agent_decision_acknowledged_witness:
  "\<exists>d w' a. HandleMQTTCommandNotice (agent_receiver (Some demo_allowed)) demo_topic demo_payload
       ''d1'' demo_agent = (Inr d, w') \<and> ag_acks w' = [a] \<and> car_Status a = ''accepted'' \<and>
     demo_allowed (car_CommandType a)"
proof -
  obtain d w' where r: "HandleMQTTCommandNotice (agent_receiver (Some demo_allowed)) demo_topic
      demo_payload ''d1'' demo_agent = (Inr d, w')" "dec_Status d = ''accepted''"
    using demo_agent_run by (auto split: prod.splits sum.splits)
  from agent_decision_acknowledged [OF r(1)] r show ?thesis
    by (auto simp: demo_agent_def commandACKAccepted_def policy_Allows_def)
qed

theorem agent_at_most_one_ack_witness:
  "ag_acks (snd (HandleMQTTCommandNotice (agent_receiver (Some demo_allowed)) demo_topic demo_payload
      ''d2'' demo_agent)) = ag_acks demo_agent"
proof -
  have "isl (parseMQTTCommandNotice demo_topic demo_payload ''d2'' (env_clock demo_agent))"
    by code_simp
  then obtain e where "parseMQTTCommandNotice demo_topic demo_payload ''d2'' (env_clock demo_agent) = Inl e"
    by (auto simp: isl_def)
  with agent_at_most_one_ack [of "Some demo_allowed" demo_topic demo_payload "''d2''" demo_agent e]
  show ?thesis by simp
qed

theorem command_topic_roundtrip_witness:
  "\<exists>topic. CommandTopic '' d1 '' = Inr topic \<and> deviceIDFromCommandTopic topic = Inr (TrimSpace '' d1 '')"
proof -
  have "\<not> isl (CommandTopic '' d1 '')" by code_simp
  then obtain topic where "CommandTopic '' d1 '' = Inr topic" by (metis isl_def sum.exhaust)
  with command_topic_roundtrip [OF this] show ?thesis by blast
qed

theorem built_notice_checked_witness:
  "\<not> isl (parseMQTTCommandNotice demo_topic demo_payload ''d1'' 10) \<and>
   isl (parseMQTTCommandNotice demo_topic demo_payload ''d1'' 20)"
proof -
  let ?n = "\<lparr>cn_CommandID = ''c1'', cn_CommandType = TypeTriggerBackup, cn_DeviceID = ''d1'',
    cn_IssuedAt = 5, cn_ExpiresAt = 20, cn_Payload = ''{}''\<rparr>"
  have "BuildCommandNotice demo_command 0 = Inr ?n" by code_simp
  moreover have "CommandTopic (cmd_DeviceID demo_command) = Inr demo_topic" by code_simp
  moreover have "decode_notice demo_payload = Some \<lparr>mcn_CommandID = cn_CommandID ?n,
      mcn_CommandType = command_type_text (cn_CommandType ?n), mcn_DeviceID = cn_DeviceID ?n,
      mcn_IssuedAt = cn_IssuedAt ?n, mcn_ExpiresAt = cn_ExpiresAt ?n, mcn_Payload = []\<rparr>"
    by code_simp
  moreover have "TrimSpace (command_type_text (cn_CommandType ?n)) \<noteq> []"
    "TrimSpace ''d1'' = TrimSpace (cmd_DeviceID demo_command)" "cmd_AckDeadlineAt demo_command = 20"
    by code_simp+
  ultimately show ?thesis
    using built_notice_checked [of demo_command 0 ?n demo_topic demo_payload "[]" "''d1''" 10]
      built_notice_checked [of demo_command 0 ?n demo_topic demo_payload "[]" "''d1''" 20] by simp
qed

end
