(* ===== verification/Go_Crypto_Url.thy ===== *)
theory Go_Crypto_Url
  imports Go_Time "HOL-Library.Word"
begin

text \<open>
  Three more packages of the standard library, as far as the code uses them:
  \<open>crypto/sha256\<close> with \<open>encoding/hex\<close> (\<open>sha256_hex\<close>), and the scheme and host that
  \<open>net/url.Parse\<close> finds (\<open>url_parse\<close>), with the errors it reports.

  \<open>url_parse\<close> covers a host that is a name or an IPv4 address; a host in square brackets is
  accepted when it has its closing bracket and a valid port.
\<close>

unbundle bit_operations_syntax

section \<open>SHA-256\<close>

definition rotr :: "nat \<Rightarrow> 32 word \<Rightarrow> 32 word" where
  "rotr n w = (drop_bit n w OR push_bit (32 - n) w)"

definition sha_k :: "32 word list" where
  "sha_k =
    [1116352408, 1899447441, 3049323471, 3921009573, 961987163, 1508970993, 2453635748,
     2870763221, 3624381080, 310598401, 607225278, 1426881987, 1925078388, 2162078206,
     2614888103, 3248222580, 3835390401, 4022224774, 264347078, 604807628, 770255983,
     1249150122, 1555081692, 1996064986, 2554220882, 2821834349, 2952996808, 3210313671,
     3336571891, 3584528711, 113926993, 338241895, 666307205, 773529912, 1294757372,
     1396182291, 1695183700, 1986661051, 2177026350, 2456956037, 2730485921, 2820302411,
     3259730800, 3345764771, 3516065817, 3600352804, 4094571909, 275423344, 430227734,
     506948616, 659060556, 883997877, 958139571, 1322822218, 1537002063, 1747873779,
     1955562222, 2024104815, 2227730452, 2361852424, 2428436474, 2756734187, 3204031479,
     3329325298]"

definition sha_init :: "32 word list" where
  "sha_init = [1779033703, 3144134277, 1013904242, 2773480762, 1359893119, 2600822924, 528734635,
     1541459225]"

text \<open>The message schedule: the last sixteen words are kept, newest first.\<close>

fun sha_schedule :: "nat \<Rightarrow> 32 word list \<Rightarrow> 32 word list" where
  "sha_schedule 0 ws = ws"
| "sha_schedule (Suc n) ws =
     (let a = ws ! 14; b = ws ! 1;
          s0 = rotr 7 a XOR rotr 18 a XOR drop_bit 3 a;
          s1 = rotr 17 b XOR rotr 19 b XOR drop_bit 10 b
      in sha_schedule n ((ws ! 15 + s0 + ws ! 6 + s1) # ws))"

fun sha_round :: "32 word list \<Rightarrow> 32 word \<times> 32 word \<Rightarrow> 32 word list" where
  "sha_round [a, b, c, d, e, f, g, h] (k, w) =
     (let s1 = rotr 6 e XOR rotr 11 e XOR rotr 25 e;
          ch = (e AND f) XOR (NOT e AND g);
          t1 = h + s1 + ch + k + w;
          s0 = rotr 2 a XOR rotr 13 a XOR rotr 22 a;
          maj = (a AND b) XOR (a AND c) XOR (b AND c)
      in [t1 + s0 + maj, a, b, c, d + t1, e, f, g])"
| "sha_round st kw = st"

definition sha_block :: "32 word list \<Rightarrow> 32 word list \<Rightarrow> 32 word list" where
  "sha_block st block =
     map2 (+) st (foldl sha_round st (zip sha_k (rev (sha_schedule 48 (rev block)))))"

definition be_word :: "nat list \<Rightarrow> 32 word" where
  "be_word bs = foldl (\<lambda>a b. push_bit 8 a OR word_of_nat b) 0 bs"

fun chunks :: "nat \<Rightarrow> nat \<Rightarrow> 'a list \<Rightarrow> 'a list list" where
  "chunks 0 k xs = []"
| "chunks (Suc n) k xs = (if xs = [] then [] else take k xs # chunks n k (drop k xs))"

fun be_bytes :: "nat \<Rightarrow> nat \<Rightarrow> nat list" where
  "be_bytes 0 n = []"
| "be_bytes (Suc w) n = be_bytes w (n div 256) @ [n mod 256]"

definition sha_pad :: "nat list \<Rightarrow> nat list" where
  "sha_pad bs =
     (let l = length bs in
      bs @ [128] @ replicate ((119 - l mod 64) mod 64) 0 @ be_bytes 8 (8 * l))"

definition sha256_words :: "string \<Rightarrow> 32 word list" where
  "sha256_words s =
     (let bytes = sha_pad (map byte s); n = length bytes in
      foldl (\<lambda>st block. sha_block st (map be_word (chunks n 4 block))) sha_init (chunks n 64 bytes))"

definition hex_word :: "32 word \<Rightarrow> string" where
  "hex_word w = map (\<lambda>i. hex_digit (unat (drop_bit (4 * (7 - i)) w AND 15))) [0..<8]"

text \<open>\<open>hex.EncodeToString(sha256.Sum256(s))\<close>.\<close>

definition sha256_hex :: "string \<Rightarrow> string" where
  "sha256_hex s = concat (map hex_word (sha256_words s))"

section \<open>URLs\<close>

definition is_alpha :: "char \<Rightarrow> bool" where
  "is_alpha c = ((97 \<le> byte c \<and> byte c \<le> 122) \<or> (65 \<le> byte c \<and> byte c \<le> 90))"

text \<open>\<open>getScheme\<close>: the scheme and the rest; None for a missing scheme before a colon.\<close>

fun url_scheme :: "string \<Rightarrow> string \<Rightarrow> (string \<times> string) option" where
  "url_scheme whole [] = Some ([], whole)"
| "url_scheme whole (c # s) =
     (let i = length whole - length (c # s) in
      if is_alpha c then url_scheme whole s
      else if is_digit c \<or> c \<in> set ''+-.'' then
        (if i = 0 then Some ([], whole) else url_scheme whole s)
      else if c = CHR '':'' then (if i = 0 then None else Some (take i whole, s))
      else Some ([], whole))"

text \<open>Percent escapes of a path, a user or a fragment: two hexadecimal digits each.\<close>

fun escapes_ok :: "string \<Rightarrow> bool" where
  "escapes_ok [] = True"
| "escapes_ok (c # s) =
     (if c = CHR ''%'' then
        (case s of
           a # b # r \<Rightarrow> hex_value a \<noteq> None \<and> hex_value b \<noteq> None \<and> escapes_ok r
         | _ \<Rightarrow> False)
      else escapes_ok s)"

text \<open>\<open>unescape(host, encodeHost)\<close>: only bytes from \<open>%80\<close> on may be escaped.\<close>

definition host_char :: "char \<Rightarrow> bool" where
  "host_char c = (128 \<le> byte c \<or> is_alpha c \<or> is_digit c \<or>
     c \<in> set ''-_.~!$&()*+,;=:[]<>'' \<or> c = CHR 0x27 \<or> c = CHR 0x22)"

fun unescape_host :: "string \<Rightarrow> string option" where
  "unescape_host [] = Some []"
| "unescape_host (c # s) =
     (if c = CHR ''%'' then
        (case s of
           a # b # r \<Rightarrow>
             (case (hex_value a, hex_value b) of
                (Some x, Some y) \<Rightarrow>
                  if x < 8 then None
                  else map_option (\<lambda>t. char_of (16 * x + y) # t) (unescape_host r)
              | _ \<Rightarrow> None)
         | _ \<Rightarrow> None)
      else if host_char c then map_option (\<lambda>t. c # t) (unescape_host s) else None)"

text \<open>\<open>strings.LastIndex\<close> of one character: the text before it and from it on.\<close>

definition last_index :: "string \<Rightarrow> char \<Rightarrow> nat option" where
  "last_index s c =
     (if c \<in> set s then Some (length s - 1 - length (takeWhile (\<lambda>x. x \<noteq> c) (rev s))) else None)"

definition valid_port :: "string \<Rightarrow> bool" where
  "valid_port p = (p = [] \<or> (hd p = CHR '':'' \<and> list_all is_digit (tl p)))"

definition parse_host :: "string \<Rightarrow> string option" where
  "parse_host host =
     (if HasPrefix host ''['' then
        (case last_index host (CHR '']'') of
           None \<Rightarrow> None
         | Some i \<Rightarrow> if valid_port (drop (i + 1) host) then unescape_host host else None)
      else (case last_index host (CHR '':'') of
              None \<Rightarrow> unescape_host host
            | Some i \<Rightarrow> if valid_port (drop i host) then unescape_host host else None))"

definition userinfo_char :: "char \<Rightarrow> bool" where
  "userinfo_char c = (is_alpha c \<or> is_digit c \<or> c \<in> set ''-._:~!$&()*+,;=%@'' \<or> c = CHR 0x27)"

definition parse_authority :: "string \<Rightarrow> string option" where
  "parse_authority authority =
     (case last_index authority (CHR ''@'') of
        None \<Rightarrow> parse_host authority
      | Some i \<Rightarrow>
          (case parse_host (drop (i + 1) authority) of
             None \<Rightarrow> None
           | Some h \<Rightarrow>
               if list_all userinfo_char (take i authority) \<and> escapes_ok (take i authority)
               then Some h else None))"

definition control_byte :: "char \<Rightarrow> bool" where
  "control_byte c = (byte c < 32 \<or> byte c = 127)"

text \<open>\<open>url.Parse\<close>: the scheme and the host, or None for an error.\<close>

definition url_parse :: "string \<Rightarrow> (string \<times> string) option" where
  "url_parse raw =
     (case Cut raw (CHR ''#'') of (u, frag, _) \<Rightarrow>
      if list_ex control_byte u \<or> \<not> escapes_ok frag then None
      else if u = ''*'' then Some ([], [])
      else (case url_scheme u u of
         None \<Rightarrow> None
       | Some (scheme0, rest0) \<Rightarrow>
           let scheme = map lower_char scheme0; rest = fst (Cut rest0 (CHR ''?'')) in
           if \<not> HasPrefix rest ''/'' \<and> scheme \<noteq> [] then Some (scheme, [])
           else if \<not> HasPrefix rest ''/'' \<and> CHR '':'' \<in> set (fst (Cut rest (CHR ''/''))) then None
           else if HasPrefix rest ''//'' \<and> (scheme \<noteq> [] \<or> \<not> HasPrefix rest ''///'') then
             (let auth = takeWhile (\<lambda>c. c \<noteq> CHR ''/'') (drop 2 rest);
                  path = dropWhile (\<lambda>c. c \<noteq> CHR ''/'') (drop 2 rest) in
              case parse_authority auth of
                None \<Rightarrow> None
              | Some h \<Rightarrow> if escapes_ok path then Some (scheme, h) else None)
           else if escapes_ok rest then Some (scheme, []) else None))"

definition url_is_https :: "string \<Rightarrow> bool" where
  "url_is_https raw = (case url_parse raw of None \<Rightarrow> False | Some (sch, h) \<Rightarrow> sch = ''https'' \<and> h \<noteq> [])"

end

