(* ===== verification/Agent_Artifacts.thy ===== *)
theory Agent_Artifacts
  imports Agent_Commands Go_Crypto_Url
begin

text \<open>
  The agent's handler of \<open>upload_artifact\<close> commands
  (\<open>homesignal/cmd/agent/artifact_upload_handler.go\<close>): it generates the artifact, asks for an upload
  session, uploads, completes, and reports one result for the command.

  \<open>artifact_contract\<close> states what the client, the uploader and the alarm sink promise about what
  they store; \<open>artifact_handler\<close> is the handler over the fakes of
  \<open>artifact_upload_handler_test.go\<close>, with a schedule of failing calls.
\<close>

section \<open>Data\<close>

record ArtifactCommandPayload =
  acp_Purpose :: string
  acp_LocalArtifactRef :: string
  acp_ContentType :: string
  acp_MaxBytes :: int
  acp_RedactionProfile :: string

record GenerateArtifactRequest =
  gar_Purpose :: string
  gar_LocalArtifactRef :: string
  gar_RedactionProfile :: string

record GeneratedArtifact =
  ga_Purpose :: string
  ga_LocalArtifactRef :: string
  ga_ContentType :: string
  ga_Bytes :: string
  ga_SHA256 :: string
  ga_GeneratedAt :: time

record ArtifactUploadRequest =
  aur_CommandID :: string
  aur_Purpose :: string
  aur_LocalArtifactRef :: string
  aur_ContentType :: string
  aur_SizeBytes :: int
  aur_SHA256 :: string

record ArtifactUploadSession =
  aus_UploadID :: string
  aus_Method :: string
  aus_URL :: string
  aus_ContentType :: string
  aus_MaxBytes :: int
  aus_ExpiresAt :: time

record ArtifactUploadCompleteRequest =
  auc_UploadID :: string
  auc_CommandID :: string
  auc_SizeBytes :: int
  auc_SHA256 :: string

record CommandResultRequest =
  crr_CommandID :: string
  crr_Status :: string
  crr_ResultType :: string
  crr_ReasonCode :: string
  crr_Payload :: string
  crr_FinishedAt :: time

record AgentAlarm =
  aa_AlarmType :: string
  aa_Severity :: string
  aa_CommandID :: string
  aa_ArtifactPurpose :: string
  aa_ReasonCode :: string
  aa_MoreLogsAvailable :: bool
  aa_EmittedAt :: time

record 'w AgentArtifactClient =
  aac_RequestArtifactUpload :: "ArtifactUploadRequest \<Rightarrow> ('w, ArtifactUploadSession) op"
  aac_CompleteArtifactUpload :: "ArtifactUploadCompleteRequest \<Rightarrow> ('w, unit) op"
  aac_RecordCommandResult :: "CommandResultRequest \<Rightarrow> ('w, unit) op"

record 'w ArtifactUploadHandler =
  auh_Client :: "'w AgentArtifactClient option"
  auh_Generator :: "(GenerateArtifactRequest \<Rightarrow> ('w, GeneratedArtifact) op) option"
  auh_Uploader :: "(ArtifactUploadSession \<Rightarrow> GeneratedArtifact \<Rightarrow> ('w, unit) op) option"
  auh_AlarmSink :: "(AgentAlarm \<Rightarrow> ('w, unit) op) option"
  auh_Now :: "('w, time) effect option"
  auh_TimeNow :: "('w, time) effect"

section \<open>Checks\<close>

definition allowedLocalArtifactPurpose :: "string \<Rightarrow> bool" where
  "allowedLocalArtifactPurpose p =
     (p \<in> set [''diagnostic_bundle'', ''debug_bundle'', ''error_log_bundle'', ''backup_artifact''])"

definition artifact_fields :: "string list" where
  "artifact_fields = [''purpose'', ''local_artifact_ref'', ''content_type'', ''max_bytes'',
     ''redaction_profile'']"

definition parseArtifactCommandPayload :: "string \<Rightarrow> ArtifactCommandPayload option" where
  "parseArtifactCommandPayload raw =
     (case struct_members raw of
        None \<Rightarrow> None
      | Some ms \<Rightarrow>
          (let fld = field_values artifact_fields ms in
           case (dec_string [] (fld ''purpose''), dec_string [] (fld ''local_artifact_ref''),
                 dec_string [] (fld ''content_type''), dec_int64 0 (fld ''max_bytes''),
                 dec_string [] (fld ''redaction_profile'')) of
             (Some p, Some l, Some c, Some m, Some r) \<Rightarrow>
               if TrimSpace p = [] \<or> TrimSpace l = [] \<or> TrimSpace c = [] \<or>
                  \<not> allowedLocalArtifactPurpose (TrimSpace p)
               then None
               else Some \<lparr>acp_Purpose = TrimSpace p, acp_LocalArtifactRef = TrimSpace l,
                          acp_ContentType = TrimSpace c, acp_MaxBytes = m,
                          acp_RedactionProfile = TrimSpace r\<rparr>
           | _ \<Rightarrow> None))"

definition validateUploadSession ::
  "ArtifactUploadSession \<Rightarrow> GeneratedArtifact \<Rightarrow> time \<Rightarrow> go_error option" where
  "validateUploadSession session artifact now = first_error
     [(TrimSpace (aus_UploadID session) = [], Errorf ''upload_id is required'' []),
      (aus_Method session \<noteq> ''PUT'', Errorf ''upload method must be PUT'' []),
      (url_parse (aus_URL session) = None, Errorf ''parse upload URL: %w'' []),
      (\<not> url_is_https (aus_URL session), Errorf ''upload URL must be https'' []),
      (\<not> After (aus_ExpiresAt session) now, Errorf ''upload session expired'' []),
      (aus_ContentType session \<noteq> ga_ContentType artifact, Errorf ''upload content type mismatch'' []),
      (0 < aus_MaxBytes session \<and> aus_MaxBytes session < int (length (ga_Bytes artifact)),
       Errorf ''artifact exceeds upload session limit'' [])]"

section \<open>The handler\<close>

definition handler_now :: "'w ArtifactUploadHandler \<Rightarrow> ('w, time) op" where
  "handler_now h = clock_now (auh_Now h) (auh_TimeNow h)"

definition failCommand ::
  "'w ArtifactUploadHandler \<Rightarrow> 'w AgentArtifactClient \<Rightarrow> string \<Rightarrow> string \<Rightarrow> go_error option \<Rightarrow>
   ('w, unit) op" where
  "failCommand h client commandID reasonCode prior =
     bindE (handler_now h) (\<lambda>now.
     bindE (attemptE (aac_RecordCommandResult client
       \<lparr>crr_CommandID = commandID, crr_Status = ''failed'', crr_ResultType = ''artifact_upload'',
        crr_ReasonCode = reasonCode,
        crr_Payload = ''{'' @ quote ''more_logs_available'' @ '':false}'', crr_FinishedAt = now\<rparr>)) (\<lambda>err.
     case (prior, err) of
       (Some p, Inl e) \<Rightarrow> fail (Wrapf ''%v; record command failure'' e)
     | (Some p, Inr _) \<Rightarrow> fail p
     | (None, Inl e) \<Rightarrow> fail e
     | (None, Inr _) \<Rightarrow> ret ()))"

definition emitUploadFailureAlarm ::
  "'w ArtifactUploadHandler \<Rightarrow> string \<Rightarrow> string \<Rightarrow> ('w, unit) op" where
  "emitUploadFailureAlarm h commandID purpose =
     (case auh_AlarmSink h of
        None \<Rightarrow> ret ()
      | Some emit \<Rightarrow>
          bindE (handler_now h) (\<lambda>now.
          emit \<lparr>aa_AlarmType = ''artifact_upload_failed'', aa_Severity = ''warning'',
                aa_CommandID = commandID, aa_ArtifactPurpose = purpose,
                aa_ReasonCode = ''artifact_upload_failed'', aa_MoreLogsAvailable = False,
                aa_EmittedAt = now\<rparr>))"

text \<open>\<open>json.Marshal\<close> of the result map: its names are sorted.\<close>

definition artifact_result_payload ::
  "ArtifactUploadSession \<Rightarrow> ArtifactCommandPayload \<Rightarrow> GeneratedArtifact \<Rightarrow> string" where
  "artifact_result_payload session payload artifact = object_text
     [(''content_type'', quote (ga_ContentType artifact)),
      (''local_artifact_ref'', quote (acp_LocalArtifactRef payload)),
      (''more_logs_available'', ''false''),
      (''purpose'', quote (acp_Purpose payload)),
      (''redaction_profile'', quote (acp_RedactionProfile payload)),
      (''sha256'', quote (ga_SHA256 artifact)),
      (''size_bytes'', Itoa (length (ga_Bytes artifact))),
      (''upload_id'', quote (aus_UploadID session))]"

definition upload_and_complete ::
  "'w ArtifactUploadHandler \<Rightarrow> 'w AgentArtifactClient \<Rightarrow>
   (ArtifactUploadSession \<Rightarrow> GeneratedArtifact \<Rightarrow> ('w, unit) op) \<Rightarrow> string \<Rightarrow>
   ArtifactCommandPayload \<Rightarrow> ArtifactUploadSession \<Rightarrow> GeneratedArtifact \<Rightarrow> ('w, unit) op" where
  "upload_and_complete h client upload commandID payload session artifact =
     bindE (attemptE (upload session artifact)) (\<lambda>uploaded.
     case uploaded of
       Inl _ \<Rightarrow>
         bindE (attemptE (emitUploadFailureAlarm h commandID (acp_Purpose payload))) (\<lambda>alarm.
         failCommand h client commandID ''artifact_upload_failed''
           (case alarm of Inl e \<Rightarrow> Some e | Inr _ \<Rightarrow> None))
     | Inr _ \<Rightarrow>
         bindE (wrapE ''complete artifact upload'' (aac_CompleteArtifactUpload client
           \<lparr>auc_UploadID = aus_UploadID session, auc_CommandID = commandID,
            auc_SizeBytes = int (length (ga_Bytes artifact)), auc_SHA256 = ga_SHA256 artifact\<rparr>)) (\<lambda>_.
         bindE (handler_now h) (\<lambda>now.
         aac_RecordCommandResult client
           \<lparr>crr_CommandID = commandID, crr_Status = ''succeeded'',
            crr_ResultType = ''artifact_upload'', crr_ReasonCode = [],
            crr_Payload = artifact_result_payload session payload artifact,
            crr_FinishedAt = now\<rparr>)))"

definition HandleArtifactCommand ::
  "'w ArtifactUploadHandler \<Rightarrow> AgentCommandDetail \<Rightarrow> ('w, unit) op" where
  "HandleArtifactCommand h detail =
     bindE (required (auh_Client h) (Errorf ''agent artifact client is required'' [])) (\<lambda>client.
     bindE (required (auh_Generator h) (Errorf ''local artifact generator is required'' [])) (\<lambda>generate.
     bindE (required (auh_Uploader h) (Errorf ''signed URL uploader is required'' [])) (\<lambda>upload.
     bindE (failIf (acd_CommandType detail \<noteq> ''upload_artifact'')
              (Errorf ''unsupported artifact command type %q'' [acd_CommandType detail])) (\<lambda>_.
     case parseArtifactCommandPayload (acd_Payload detail) of
       None \<Rightarrow> failCommand h client (acd_CommandID detail) ''invalid_artifact_command'' None
     | Some payload \<Rightarrow>
         bindE (attemptE (generate \<lparr>gar_Purpose = acp_Purpose payload,
             gar_LocalArtifactRef = acp_LocalArtifactRef payload,
             gar_RedactionProfile = acp_RedactionProfile payload\<rparr>)) (\<lambda>generated.
         case generated of
           Inl _ \<Rightarrow> failCommand h client (acd_CommandID detail) ''unknown_local_artifact_ref'' None
         | Inr artifact0 \<Rightarrow>
             (let artifact = (if ga_SHA256 artifact0 = []
                              then artifact0\<lparr>ga_SHA256 := sha256_hex (ga_Bytes artifact0)\<rparr>
                              else artifact0) in
              if ga_ContentType artifact \<noteq> acp_ContentType payload
              then failCommand h client (acd_CommandID detail) ''artifact_content_type_mismatch'' None
              else if 0 < acp_MaxBytes payload \<and>
                      acp_MaxBytes payload < int (length (ga_Bytes artifact))
              then failCommand h client (acd_CommandID detail) ''artifact_exceeds_command_limit'' None
              else
                bindE (wrapE ''request artifact upload'' (aac_RequestArtifactUpload client
                  \<lparr>aur_CommandID = acd_CommandID detail, aur_Purpose = acp_Purpose payload,
                   aur_LocalArtifactRef = acp_LocalArtifactRef payload,
                   aur_ContentType = ga_ContentType artifact,
                   aur_SizeBytes = int (length (ga_Bytes artifact)),
                   aur_SHA256 = ga_SHA256 artifact\<rparr>)) (\<lambda>session.
                bindE (handler_now h) (\<lambda>now.
                case validateUploadSession session artifact now of
                  Some _ \<Rightarrow>
                    failCommand h client (acd_CommandID detail) ''invalid_upload_session'' None
                | None \<Rightarrow>
                    upload_and_complete h client upload (acd_CommandID detail) payload session
                      artifact))))))))"

section \<open>What the handler may store\<close>

text \<open>
  \<open>results\<close>, \<open>uploads\<close> and \<open>completions\<close> are what the control plane and the object store have
  seen. A call that returns nil has been seen; a call that returns an error may have been. \<open>clock\<close> is the
  time of the handler's clock, which no call sets back.
\<close>

locale artifact_contract =
  fixes h :: "'w ArtifactUploadHandler" and client :: "'w AgentArtifactClient"
    and generate :: "GenerateArtifactRequest \<Rightarrow> ('w, GeneratedArtifact) op"
    and upload :: "ArtifactUploadSession \<Rightarrow> GeneratedArtifact \<Rightarrow> ('w, unit) op"
    and results :: "'w \<Rightarrow> CommandResultRequest list"
    and uploads :: "'w \<Rightarrow> (ArtifactUploadSession \<times> GeneratedArtifact) list"
    and completions :: "'w \<Rightarrow> ArtifactUploadCompleteRequest list" and clock :: "'w \<Rightarrow> time"
  assumes wired: "auh_Client h = Some client" "auh_Generator h = Some generate"
      "auh_Uploader h = Some upload"
    and generate_law: "generate g w = (gr, w') \<Longrightarrow> clock w \<le> clock w' \<and>
      results w' = results w \<and> uploads w' = uploads w \<and> completions w' = completions w"
    and request_law: "aac_RequestArtifactUpload client q w = (qr, w') \<Longrightarrow> clock w \<le> clock w' \<and>
      results w' = results w \<and> uploads w' = uploads w \<and> completions w' = completions w"
    and upload_law: "upload session artifact w = (ur, w') \<Longrightarrow> clock w \<le> clock w' \<and>
      results w' = results w \<and> completions w' = completions w \<and>
      (case ur of Inl e \<Rightarrow> True | Inr x \<Rightarrow> uploads w' = uploads w @ [(session, artifact)])"
    and complete_law: "aac_CompleteArtifactUpload client c w = (cr, w') \<Longrightarrow> clock w \<le> clock w' \<and>
      results w' = results w \<and> uploads w' = uploads w \<and>
      (case cr of Inl e \<Rightarrow> True | Inr x \<Rightarrow> completions w' = completions w @ [c])"
    and result_law: "aac_RecordCommandResult client res w = (rr, w') \<Longrightarrow>
      uploads w' = uploads w \<and> completions w' = completions w \<and>
      (case rr of Inl e \<Rightarrow> results w' = results w \<or> results w' = results w @ [res]
       | Inr x \<Rightarrow> results w' = results w @ [res])"
    and alarm_law: "auh_AlarmSink h = Some emit \<Longrightarrow> emit a w = (ar, w') \<Longrightarrow> clock w \<le> clock w' \<and>
      results w' = results w \<and> uploads w' = uploads w \<and> completions w' = completions w"
    and now_law: "auh_Now h = Some f \<Longrightarrow> f w = (t, w') \<Longrightarrow> clock w \<le> t \<and> t \<le> clock w' \<and>
      results w' = results w \<and> uploads w' = uploads w \<and> completions w' = completions w"
    and timenow_law: "auh_TimeNow h w = (t, w') \<Longrightarrow> clock w \<le> t \<and> t \<le> clock w' \<and>
      results w' = results w \<and> uploads w' = uploads w \<and> completions w' = completions w"
begin

definition same :: "'w \<Rightarrow> 'w \<Rightarrow> bool" where
  "same w w' \<longleftrightarrow> clock w \<le> clock w' \<and> results w' = results w \<and> uploads w' = uploads w \<and>
     completions w' = completions w"

lemma same_refl: "same w w" and same_trans: "same u v \<Longrightarrow> same v w \<Longrightarrow> same u w"
  by (auto simp: same_def)

lemma wp_handler_now:
  assumes "\<And>t w'. same w w' \<Longrightarrow> clock w \<le> t \<Longrightarrow> t \<le> clock w' \<Longrightarrow> Q t w'"
  shows "wp (handler_now h) Q E w"
proof -
  have "wp (liftE (case auh_Now h of Some c \<Rightarrow> c | None \<Rightarrow> auh_TimeNow h))
      (\<lambda>t w'. same w w' \<and> clock w \<le> t \<and> t \<le> clock w') (\<lambda>_ _. False) w"
    by (auto simp: wp_simps same_def split: option.split prod.split dest!: now_law timenow_law)
  from wp_mono [OF this] assms show ?thesis
    by (simp add: handler_now_def clock_now_def wp_simps)
qed

lemma wp_generate:
  assumes "\<And>e w'. same w w' \<Longrightarrow> E e w'" and "\<And>g w'. same w w' \<Longrightarrow> Q g w'"
  shows "wp (generate req) Q E w"
  by (rule wpI) (auto dest!: generate_law intro: assms simp: same_def)

lemma wp_request:
  assumes "\<And>e w'. same w w' \<Longrightarrow> E e w'" and "\<And>g w'. same w w' \<Longrightarrow> Q g w'"
  shows "wp (aac_RequestArtifactUpload client req) Q E w"
  by (rule wpI) (auto dest!: request_law intro: assms simp: same_def)

lemma wp_upload:
  assumes "\<And>e w'. results w' = results w \<Longrightarrow> completions w' = completions w \<Longrightarrow> E e w'"
    and "\<And>w'. results w' = results w \<Longrightarrow> completions w' = completions w \<Longrightarrow>
           uploads w' = uploads w @ [(session, artifact)] \<Longrightarrow> clock w \<le> clock w' \<Longrightarrow> Q () w'"
  shows "wp (upload session artifact) Q E w"
  by (rule wpI) (auto dest!: upload_law intro: assms)

lemma wp_complete:
  assumes "\<And>e w'. results w' = results w \<Longrightarrow> E e w'"
    and "\<And>w'. results w' = results w \<Longrightarrow> uploads w' = uploads w \<Longrightarrow>
           completions w' = completions w @ [c] \<Longrightarrow> clock w \<le> clock w' \<Longrightarrow> Q () w'"
  shows "wp (aac_CompleteArtifactUpload client c) Q E w"
  by (rule wpI) (auto dest!: complete_law intro: assms)

lemma wp_result:
  assumes "\<And>e w'. uploads w' = uploads w \<Longrightarrow> completions w' = completions w \<Longrightarrow>
           results w' = results w \<or> results w' = results w @ [res] \<Longrightarrow> E e w'"
    and "\<And>w'. uploads w' = uploads w \<Longrightarrow> completions w' = completions w \<Longrightarrow>
           results w' = results w @ [res] \<Longrightarrow> Q () w'"
  shows "wp (aac_RecordCommandResult client res) Q E w"
  by (rule wpI) (auto dest!: result_law intro: assms)

lemma wp_alarm:
  assumes "\<And>e w'. same w w' \<Longrightarrow> E e w'" and "\<And>w'. same w w' \<Longrightarrow> Q () w'"
  shows "wp (emitUploadFailureAlarm h i p) Q E w"
proof (cases "auh_AlarmSink h")
  case None
  then show ?thesis using assms(2) same_refl by (simp add: emitUploadFailureAlarm_def wp_simps)
next
  case (Some emit)
  have e: "wp (emit a) Q E v" if "same w v" for a v
    by (rule wpI) (use that in \<open>auto dest!: alarm_law [OF Some] simp: same_def intro!: assms\<close>)
  show ?thesis
    by (simp add: emitUploadFailureAlarm_def Some wp_simps) (rule wp_handler_now, rule e)
qed

text \<open>
  What a handled command leaves: one result. It is a success only after the artifact that the command
  asks for went to a session that was valid at a time \<open>now\<close> during the call, and was completed; a
  failure before the upload uploads nothing, and no failure completes anything.
\<close>

definition fits_command :: "AgentCommandDetail \<Rightarrow> ArtifactCommandPayload \<Rightarrow> GeneratedArtifact \<Rightarrow> bool" where
  "fits_command detail payload artifact \<longleftrightarrow>
     parseArtifactCommandPayload (acd_Payload detail) = Some payload \<and>
     ga_ContentType artifact = acp_ContentType payload \<and>
     \<not> (0 < acp_MaxBytes payload \<and> acp_MaxBytes payload < int (length (ga_Bytes artifact)))"

definition outcome :: "'w \<Rightarrow> AgentCommandDetail \<Rightarrow> CommandResultRequest \<Rightarrow> 'w \<Rightarrow> bool" where
  "outcome w detail r w' \<longleftrightarrow> results w' = results w @ [r] \<and> crr_CommandID r = acd_CommandID detail \<and>
     (crr_Status r = ''failed'' \<and> completions w' = completions w \<and>
        (crr_ReasonCode r = ''artifact_upload_failed'' \<or> uploads w' = uploads w) \<or>
      crr_Status r = ''succeeded'' \<and>
        (\<exists>payload session artifact now. fits_command detail payload artifact \<and>
           uploads w' = uploads w @ [(session, artifact)] \<and>
           clock w \<le> now \<and> now \<le> crr_FinishedAt r \<and>
           validateUploadSession session artifact now = None \<and>
           crr_Payload r = artifact_result_payload session payload artifact \<and>
           completions w' = completions w @
             [\<lparr>auc_UploadID = aus_UploadID session, auc_CommandID = acd_CommandID detail,
               auc_SizeBytes = int (length (ga_Bytes artifact)), auc_SHA256 = ga_SHA256 artifact\<rparr>]))"

abbreviation stored :: "'w \<Rightarrow> string \<Rightarrow> 'w \<Rightarrow> bool" where
  "stored w i w' \<equiv> results w' = results w \<or> (\<exists>r. results w' = results w @ [r] \<and> crr_CommandID r = i)"

lemma wp_failCommand:
  assumes "results v = results w" and "completions v = completions w"
    and "reason = ''artifact_upload_failed'' \<or> uploads v = uploads w"
  shows "wp (failCommand h client (acd_CommandID detail) reason prior)
    (\<lambda>_ w'. \<exists>r. outcome w detail r w') (\<lambda>_ w'. stored w (acd_CommandID detail) w') v"
  using assms
  by (auto simp: failCommand_def wp_simps same_def outcome_def intro!: wp_handler_now wp_result
      split: option.split)

lemma outcome_succeeded:
  assumes "results w' = results w @ [r]" and "crr_CommandID r = acd_CommandID detail"
    and "crr_Status r = ''succeeded''" and "fits_command detail payload artifact"
    and "uploads w' = uploads w @ [(session, artifact)]" and "clock w \<le> now" and "now \<le> crr_FinishedAt r"
    and "validateUploadSession session artifact now = None"
    and "crr_Payload r = artifact_result_payload session payload artifact"
    and "completions w' = completions w @
             [\<lparr>auc_UploadID = aus_UploadID session, auc_CommandID = acd_CommandID detail,
               auc_SizeBytes = int (length (ga_Bytes artifact)), auc_SHA256 = ga_SHA256 artifact\<rparr>]"
  shows "\<exists>r. outcome w detail r w'"
  using assms unfolding outcome_def by blast

lemma wp_upload_and_complete:
  assumes "same w v" and "validateUploadSession session artifact now = None"
    and "clock w \<le> now" and "now \<le> clock v" and "fits_command detail payload artifact"
  shows "wp (upload_and_complete h client upload (acd_CommandID detail) payload session artifact)
    (\<lambda>_ w'. \<exists>r. outcome w detail r w') (\<lambda>_ w'. stored w (acd_CommandID detail) w') v"
  using assms
  by (auto simp: upload_and_complete_def wp_simps same_def
      intro!: wp_upload wp_alarm wp_complete wp_handler_now wp_result wp_failCommand)
    (rule outcome_succeeded [OF _ _ _ assms(5) _ assms(3) _ assms(2)], assumption, simp_all)

lemma handle_artifact:
  "wp (HandleArtifactCommand h detail)
     (\<lambda>_ w'. \<exists>r. outcome w detail r w') (\<lambda>_ w'. stored w (acd_CommandID detail) w') w"
  by (auto simp: HandleArtifactCommand_def wired wp_simps Let_def same_def fits_command_def
      intro!: wp_generate wp_request wp_handler_now wp_failCommand wp_upload_and_complete
      split: option.split)
    (assumption | linarith)+

end

section \<open>The fakes of the tests\<close>

record artifact_store = env +
  as_session :: ArtifactUploadSession
  as_artifacts :: "string \<Rightarrow> GeneratedArtifact option"
  as_uploadRequests :: "ArtifactUploadRequest list"
  as_uploads :: "(ArtifactUploadSession \<times> GeneratedArtifact) list"
  as_completions :: "ArtifactUploadCompleteRequest list"
  as_results :: "CommandResultRequest list"
  as_alarms :: "AgentAlarm list"

definition fake_generate :: "GenerateArtifactRequest \<Rightarrow> (artifact_store, GeneratedArtifact) op" where
  "fake_generate g w =
     (case as_artifacts w (gar_LocalArtifactRef g) of
        None \<Rightarrow> (Inl (Errorf ''not found'' []), w)
      | Some a \<Rightarrow> (Inr a, w))"

definition fake_artifact_client :: "artifact_store AgentArtifactClient" where
  "fake_artifact_client =
     \<lparr>aac_RequestArtifactUpload = \<lambda>q. with_fault
        (\<lambda>w. (Inr (as_session w), w\<lparr>as_uploadRequests := as_uploadRequests w @ [q]\<rparr>)),
      aac_CompleteArtifactUpload = \<lambda>c. with_fault
        (\<lambda>w. (Inr (), w\<lparr>as_completions := as_completions w @ [c]\<rparr>)),
      aac_RecordCommandResult = \<lambda>r. with_fault
        (\<lambda>w. (Inr (), w\<lparr>as_results := as_results w @ [r]\<rparr>))\<rparr>"

definition fake_upload ::
  "ArtifactUploadSession \<Rightarrow> GeneratedArtifact \<Rightarrow> (artifact_store, unit) op" where
  "fake_upload session artifact =
     with_fault (\<lambda>w. (Inr (), w\<lparr>as_uploads := as_uploads w @ [(session, artifact)]\<rparr>))"

definition fake_alarm :: "AgentAlarm \<Rightarrow> (artifact_store, unit) op" where
  "fake_alarm a = with_fault (\<lambda>w. (Inr (), w\<lparr>as_alarms := as_alarms w @ [a]\<rparr>))"

definition artifact_handler :: "artifact_store ArtifactUploadHandler" where
  "artifact_handler =
     \<lparr>auh_Client = Some fake_artifact_client, auh_Generator = Some fake_generate,
      auh_Uploader = Some fake_upload, auh_AlarmSink = Some fake_alarm,
      auh_Now = Some read_clock, auh_TimeNow = read_clock\<rparr>"

interpretation artifacts: artifact_contract artifact_handler fake_artifact_client fake_generate
  fake_upload as_results as_uploads as_completions env_clock
  by unfold_locales
     (auto simp: artifact_handler_def fake_artifact_client_def fake_upload_def fake_alarm_def
       fake_generate_def with_fault_def read_clock_def split: list.splits if_splits option.splits)

section \<open>Properties\<close>


text \<open>Even when the handler returns an error, at most one result was stored, for this command.\<close>

theorem artifact_command_error:
  assumes "HandleArtifactCommand artifact_handler detail w = (Inl e, w')"
  shows "as_results w' = as_results w \<or>
    (\<exists>r. as_results w' = as_results w @ [r] \<and> crr_CommandID r = acd_CommandID detail)"
  using wp_InlD [OF artifacts.handle_artifact assms] .

section \<open>Witnesses\<close>

definition demo_artifact_store :: artifact_store where
  "demo_artifact_store = \<lparr>env_faults = [], env_clock = 10, env_ticks = [], env_ids = [],
     as_session = \<lparr>aus_UploadID = ''u1'', aus_Method = ''PUT'', aus_URL = ''https://s/x'',
       aus_ContentType = ''t'', aus_MaxBytes = 9, aus_ExpiresAt = 20\<rparr>,
     as_artifacts = [''r'' \<mapsto> \<lparr>ga_Purpose = ''debug_bundle'', ga_LocalArtifactRef = ''r'',
       ga_ContentType = ''t'', ga_Bytes = ''ab'', ga_SHA256 = ''00'', ga_GeneratedAt = 5\<rparr>],
     as_uploadRequests = [], as_uploads = [], as_completions = [], as_results = [], as_alarms = []\<rparr>"

definition demo_detail :: AgentCommandDetail where
  "demo_detail = \<lparr>acd_CommandID = ''c1'', acd_CommandType = ''upload_artifact'', acd_DeviceID = ''d1'',
     acd_Payload = object_text [(''purpose'', quote ''debug_bundle''),
       (''local_artifact_ref'', quote ''r''), (''content_type'', quote ''t'')]\<rparr>"

lemma demo_artifact_eval:
  "case HandleArtifactCommand artifact_handler demo_detail demo_artifact_store of
     (r, w') \<Rightarrow> \<not> isl r \<and> map crr_Status (as_results w') = [''succeeded'']"
  "case HandleArtifactCommand artifact_handler demo_detail
     (demo_artifact_store\<lparr>env_faults := [False, False, True]\<rparr>) of
     (r, w') \<Rightarrow> isl r"
  by code_simp+


theorem artifact_command_error_witness:
  "\<exists>e w'. HandleArtifactCommand artifact_handler demo_detail
       (demo_artifact_store\<lparr>env_faults := [False, False, True]\<rparr>) = (Inl e, w') \<and>
     length (as_results w') \<le> 1"
proof -
  let ?w = "demo_artifact_store\<lparr>env_faults := [False, False, True]\<rparr>"
  obtain e w' where e: "HandleArtifactCommand artifact_handler demo_detail ?w = (Inl e, w')"
  proof -
    obtain x w' where x: "HandleArtifactCommand artifact_handler demo_detail ?w = (x, w')"
      by (rule prod.exhaust)
    with demo_artifact_eval(2) show ?thesis by (cases x) (auto intro!: that)
  qed
  from artifact_command_error [OF e] e show ?thesis by (auto simp: demo_artifact_store_def)
qed

end
