(* ===== verification/Alerting.thy ===== *)
theory Alerting
  imports Go_Time
begin

text \<open>
  The alert service of the control plane (\<open>backend/internal/domain/alerting/service.go\<close>): intake of
  alert candidates with verification, deduplication by alert key, and the operator's actions.

  The event metadata is built with \<open>json.Marshal\<close>; \<open>format_rfc3339\<close> of a whole second is the layout
  \<open>time.RFC3339\<close> of \<open>SnoozeAlert\<close>, for the years 1 to 9999.
\<close>

section \<open>Data\<close>

definition ErrAlertNotFound :: go_error where
  "ErrAlertNotFound = Sentinel ''alert record not found''"

datatype Family =
    FamilyDeviceDisconnected | FamilyBackupFailed | FamilyBackupOverdue | FamilyAppUpdateAttention
  | OtherFamily string

datatype Severity = SeverityCritical | SeverityWarning | SeverityInfo | OtherSeverity string

datatype AlertStatus = AlertActive | AlertResolved | OtherAlertStatus string

datatype AlertEventType =
    EventCreated | EventUpdated | EventResolved | EventAcknowledged | EventSnoozed
  | OtherEventType string

fun family_text :: "Family \<Rightarrow> string" where
  "family_text FamilyDeviceDisconnected = ''device_disconnected''"
| "family_text FamilyBackupFailed = ''backup_failed''"
| "family_text FamilyBackupOverdue = ''backup_overdue''"
| "family_text FamilyAppUpdateAttention = ''app_update_attention''"
| "family_text (OtherFamily s) = s"

fun severity_text :: "Severity \<Rightarrow> string" where
  "severity_text SeverityCritical = ''critical''"
| "severity_text SeverityWarning = ''warning''"
| "severity_text SeverityInfo = ''info''"
| "severity_text (OtherSeverity s) = s"

fun alert_status_text :: "AlertStatus \<Rightarrow> string" where
  "alert_status_text AlertActive = ''active''"
| "alert_status_text AlertResolved = ''resolved''"
| "alert_status_text (OtherAlertStatus s) = s"

fun event_type_text :: "AlertEventType \<Rightarrow> string" where
  "event_type_text EventCreated = ''created''"
| "event_type_text EventUpdated = ''updated''"
| "event_type_text EventResolved = ''resolved''"
| "event_type_text EventAcknowledged = ''acknowledged''"
| "event_type_text EventSnoozed = ''snoozed''"
| "event_type_text (OtherEventType s) = s"

record Candidate =
  can_CandidateID :: string
  can_EventType :: string
  can_AccountID :: string
  can_SiteID :: string
  can_DeviceID :: string
  can_Source :: string
  can_PreviousState :: string
  can_NewState :: string
  can_Metadata :: string
  can_OccurredAt :: time
  can_ReceivedAt :: time

record Alert =
  al_AlertID :: string
  al_AlertKey :: string
  al_AccountID :: string
  al_SiteID :: string
  al_DeviceID :: string
  al_Family :: Family
  al_Severity :: Severity
  al_Status :: AlertStatus
  al_Title :: string
  al_Detail :: string
  al_ReasonCode :: string
  al_FirstCandidateID :: string
  al_LastCandidateID :: string
  al_OccurrenceCount :: int
  al_AcknowledgedByUserID :: string
  al_AcknowledgedAt :: "time option"
  al_SnoozedUntil :: "time option"
  al_ResolvedAt :: "time option"
  al_CreatedAt :: time
  al_UpdatedAt :: time

record AlertEvent =
  ae_AlertID :: string
  ae_CandidateID :: string
  ae_EventType :: AlertEventType
  ae_ActorSubjectType :: string
  ae_ActorSubjectID :: string
  ae_Metadata :: string
  ae_OccurredAt :: time

record CandidateVerification =
  ver_Healthy :: bool
  ver_AlertKey :: string
  ver_Family :: Family
  ver_Severity :: Severity
  ver_Title :: string
  ver_Detail :: string
  ver_ReasonCode :: string
  ver_Metadata :: string

record CandidateResult =
  cdr_Duplicate :: bool
  cdr_Ignored :: bool
  cdr_Resolved :: bool
  cdr_Alert :: "Alert option"

record AlertActionRequest =
  aar_AlertID :: string
  aar_ActorSubjectID :: string
  aar_ActorType :: string
  aar_ReasonCode :: string
  aar_SnoozedUntil :: time

record 'w AlertRepository =
  arp_TryRecordCandidate :: "Candidate \<Rightarrow> ('w, bool) op"
  arp_GetActiveAlertByKey :: "string \<Rightarrow> ('w, Alert) op"
  arp_GetAlert :: "string \<Rightarrow> ('w, Alert) op"
  arp_CreateAlert :: "Alert \<Rightarrow> ('w, unit) op"
  arp_SaveAlert :: "Alert \<Rightarrow> ('w, unit) op"
  arp_RecordAlertEvent :: "AlertEvent \<Rightarrow> ('w, unit) op"

record 'w AlertService =
  asv_Repository :: "'w AlertRepository option"
  asv_Verifier :: "(Candidate \<Rightarrow> ('w, CandidateVerification) op) option"
  asv_IDGenerator :: "('w, string) effect option"
  asv_Clock :: "('w, time) effect option"
  asv_TimeNow :: "('w, time) effect"

section \<open>Normalization and validation\<close>

definition alerting_normalizeJSON :: "string \<Rightarrow> string" where
  "alerting_normalizeJSON v = (if v = [] then ''{}'' else v)"

definition reasonMetadata :: "string \<Rightarrow> string" where
  "reasonMetadata reasonCode = object_text [(''reason_code'', quote (TrimSpace reasonCode))]"

definition actorType :: "string \<Rightarrow> string" where
  "actorType v = (if TrimSpace v = [] then ''system'' else TrimSpace v)"

definition actorID :: "string \<Rightarrow> string" where
  "actorID v = (if TrimSpace v = [] then ''system'' else TrimSpace v)"

definition normalizeCandidate :: "Candidate \<Rightarrow> time \<Rightarrow> Candidate" where
  "normalizeCandidate c now =
     \<lparr>can_CandidateID = TrimSpace (can_CandidateID c), can_EventType = TrimSpace (can_EventType c),
      can_AccountID = TrimSpace (can_AccountID c), can_SiteID = TrimSpace (can_SiteID c),
      can_DeviceID = TrimSpace (can_DeviceID c), can_Source = TrimSpace (can_Source c),
      can_PreviousState = alerting_normalizeJSON (can_PreviousState c),
      can_NewState = alerting_normalizeJSON (can_NewState c),
      can_Metadata = alerting_normalizeJSON (can_Metadata c),
      can_OccurredAt = can_OccurredAt c,
      can_ReceivedAt = (if IsZero (can_ReceivedAt c) then now else can_ReceivedAt c)\<rparr>"

definition validateCandidate :: "Candidate \<Rightarrow> go_error option" where
  "validateCandidate c = first_error
     [(can_CandidateID c = [] \<or> can_EventType c = [],
       Errorf ''candidate_id and event_type are required'' []),
      (can_AccountID c = [] \<or> can_SiteID c = [], Errorf ''account_id and site_id are required'' []),
      (can_Source c = [], Errorf ''candidate source is required'' []),
      (IsZero (can_OccurredAt c), Errorf ''occurred_at is required'' []),
      (\<not> json_Valid (can_PreviousState c) \<or> \<not> json_Valid (can_NewState c) \<or>
       \<not> json_Valid (can_Metadata c), Errorf ''candidate JSON fields must be valid'' [])]"

definition validateVerification :: "CandidateVerification \<Rightarrow> go_error option" where
  "validateVerification v =
     (if TrimSpace (ver_AlertKey v) = [] then Some (Errorf ''alert_key is required'' [])
      else if ver_Healthy v then None
      else first_error
        [(ver_Family v = OtherFamily [] \<or> ver_Severity v = OtherSeverity [] \<or>
          TrimSpace (ver_Title v) = [] \<or> TrimSpace (ver_Detail v) = [],
          Errorf ''unhealthy alert verification requires family, severity, title, and detail'' []),
         (\<not> json_Valid (alerting_normalizeJSON (ver_Metadata v)),
          Errorf ''verification metadata must be valid JSON'' [])])"

definition validateAlert :: "Alert \<Rightarrow> go_error option" where
  "validateAlert a = first_error
     [(al_AlertID a = [] \<or> al_AlertKey a = [], Errorf ''alert_id and alert_key are required'' []),
      (al_AccountID a = [] \<or> al_SiteID a = [], Errorf ''account_id and site_id are required'' []),
      ((case al_Family a of OtherFamily _ \<Rightarrow> True | _ \<Rightarrow> False),
       Errorf ''unsupported alert family %q'' [family_text (al_Family a)]),
      ((case al_Severity a of OtherSeverity _ \<Rightarrow> True | _ \<Rightarrow> False),
       Errorf ''unsupported alert severity %q'' [severity_text (al_Severity a)]),
      (al_Status a \<noteq> AlertActive \<and> al_Status a \<noteq> AlertResolved,
       Errorf ''unsupported alert status %q'' [alert_status_text (al_Status a)]),
      (al_Title a = [] \<or> al_Detail a = [] \<or> al_ReasonCode a = [],
       Errorf ''title, detail, and reason_code are required'' []),
      (al_OccurrenceCount a \<le> 0, Errorf ''occurrence_count must be positive'' [])]"

definition validateAlertEvent :: "AlertEvent \<Rightarrow> go_error option" where
  "validateAlertEvent e = first_error
     [(ae_AlertID e = [], Errorf ''alert_id is required'' []),
      ((case ae_EventType e of OtherEventType _ \<Rightarrow> True | _ \<Rightarrow> False),
       Errorf ''unsupported alert event type %q'' [event_type_text (ae_EventType e)]),
      (ae_ActorSubjectType e = [] \<or> ae_ActorSubjectID e = [],
       Errorf ''alert event actor is required'' []),
      (\<not> json_Valid (ae_Metadata e), Errorf ''alert event metadata must be valid JSON'' [])]"

section \<open>Operations\<close>

definition alerting_now :: "'w AlertService \<Rightarrow> ('w, time) op" where
  "alerting_now s = clock_now (asv_Clock s) (asv_TimeNow s)"

definition loadAlert :: "'w AlertService \<Rightarrow> string \<Rightarrow> ('w, Alert) op" where
  "loadAlert s alertID =
     bindE (required (asv_Repository s) (Errorf ''alert repository is required'' [])) (\<lambda>repo.
     bindE (failIf (TrimSpace alertID = []) (Errorf ''alert_id is required'' [])) (\<lambda>_.
     wrapE ''load alert'' (arp_GetAlert repo (TrimSpace alertID))))"

definition alerting_recordEvent ::
  "'w AlertService \<Rightarrow> 'w AlertRepository \<Rightarrow> Alert \<Rightarrow> string \<Rightarrow> AlertEventType \<Rightarrow> string \<Rightarrow> string \<Rightarrow>
   string \<Rightarrow> ('w, unit) op" where
  "alerting_recordEvent s repo alert candidateID eventType actorSubjectType actorSubjectID metadata =
     bindE (alerting_now s) (\<lambda>now.
     let event = \<lparr>ae_AlertID = al_AlertID alert, ae_CandidateID = TrimSpace candidateID,
                  ae_EventType = eventType, ae_ActorSubjectType = actorType actorSubjectType,
                  ae_ActorSubjectID = actorID actorSubjectID,
                  ae_Metadata = alerting_normalizeJSON metadata, ae_OccurredAt = now\<rparr> in
     bindE (check (validateAlertEvent event)) (\<lambda>_.
     wrapE ''record alert event'' (arp_RecordAlertEvent repo event)))"

definition resolved_alert :: "Alert \<Rightarrow> string \<Rightarrow> string \<Rightarrow> time \<Rightarrow> Alert" where
  "resolved_alert alert candidateID reasonCode now =
     alert\<lparr>al_Status := AlertResolved, al_ResolvedAt := Some now, al_UpdatedAt := now,
           al_LastCandidateID := (if TrimSpace candidateID \<noteq> [] then TrimSpace candidateID
                                  else al_LastCandidateID alert),
           al_ReasonCode := (if TrimSpace reasonCode \<noteq> [] then TrimSpace reasonCode
                             else al_ReasonCode alert)\<rparr>"

definition resolveAlert ::
  "'w AlertService \<Rightarrow> 'w AlertRepository \<Rightarrow> Alert \<Rightarrow> string \<Rightarrow> string \<Rightarrow> string \<Rightarrow> string \<Rightarrow>
   ('w, Alert) op" where
  "resolveAlert s repo alert candidateID reasonCode actorSubjectType actorSubjectID =
     (if al_Status alert = AlertResolved then ret alert
      else
        bindE (alerting_now s) (\<lambda>now.
        let alert' = resolved_alert alert candidateID reasonCode now in
        bindE (wrapE ''resolve alert'' (arp_SaveAlert repo alert')) (\<lambda>_.
        bindE (alerting_recordEvent s repo alert' (TrimSpace candidateID) EventResolved
                 actorSubjectType actorSubjectID (reasonMetadata reasonCode)) (\<lambda>_.
        ret alert'))))"

definition new_alert :: "Candidate \<Rightarrow> CandidateVerification \<Rightarrow> string \<Rightarrow> time \<Rightarrow> Alert" where
  "new_alert candidate v alertID now =
     \<lparr>al_AlertID = alertID, al_AlertKey = ver_AlertKey v, al_AccountID = can_AccountID candidate,
      al_SiteID = can_SiteID candidate, al_DeviceID = can_DeviceID candidate,
      al_Family = ver_Family v, al_Severity = ver_Severity v, al_Status = AlertActive,
      al_Title = ver_Title v, al_Detail = ver_Detail v, al_ReasonCode = ver_ReasonCode v,
      al_FirstCandidateID = can_CandidateID candidate,
      al_LastCandidateID = can_CandidateID candidate, al_OccurrenceCount = 1,
      al_AcknowledgedByUserID = [], al_AcknowledgedAt = None, al_SnoozedUntil = None,
      al_ResolvedAt = None, al_CreatedAt = now, al_UpdatedAt = now\<rparr>"

definition alerting_newID :: "'w AlertService \<Rightarrow> ('w, string) op" where
  "alerting_newID s =
     (case asv_IDGenerator s of
        None \<Rightarrow> fail (Errorf ''alert id is required'' [])
      | Some gen \<Rightarrow>
          bindE (liftE gen) (\<lambda>i.
          bindE (failIf (TrimSpace i = []) (Errorf ''alert id is required'' [])) (\<lambda>_.
          ret (TrimSpace i))))"

definition createAlert ::
  "'w AlertService \<Rightarrow> 'w AlertRepository \<Rightarrow> Candidate \<Rightarrow> CandidateVerification \<Rightarrow> ('w, Alert) op" where
  "createAlert s repo candidate v =
     bindE (alerting_newID s) (\<lambda>alertID.
     bindE (alerting_now s) (\<lambda>now.
     let alert = new_alert candidate v alertID now in
     bindE (check (validateAlert alert)) (\<lambda>_.
     bindE (wrapE ''create alert'' (arp_CreateAlert repo alert)) (\<lambda>_.
     bindE (alerting_recordEvent s repo alert (can_CandidateID candidate) EventCreated ''system''
              ''system'' (ver_Metadata v)) (\<lambda>_.
     ret alert)))))"

definition updated_alert :: "Alert \<Rightarrow> Candidate \<Rightarrow> CandidateVerification \<Rightarrow> time \<Rightarrow> Alert" where
  "updated_alert active candidate v now =
     active\<lparr>al_Severity := ver_Severity v, al_Title := ver_Title v, al_Detail := ver_Detail v,
            al_ReasonCode := ver_ReasonCode v, al_LastCandidateID := can_CandidateID candidate,
            al_OccurrenceCount := al_OccurrenceCount active + 1, al_UpdatedAt := now\<rparr>"

definition updateAlert ::
  "'w AlertService \<Rightarrow> 'w AlertRepository \<Rightarrow> Alert \<Rightarrow> Candidate \<Rightarrow> CandidateVerification \<Rightarrow>
   ('w, Alert) op" where
  "updateAlert s repo active candidate v =
     bindE (alerting_now s) (\<lambda>now.
     let alert = updated_alert active candidate v now in
     bindE (wrapE ''update alert'' (arp_SaveAlert repo alert)) (\<lambda>_.
     bindE (alerting_recordEvent s repo alert (can_CandidateID candidate) EventUpdated ''system''
              ''system'' (ver_Metadata v)) (\<lambda>_.
     ret alert)))"

abbreviation candidate_result :: "bool \<Rightarrow> bool \<Rightarrow> bool \<Rightarrow> Alert option \<Rightarrow> CandidateResult" where
  "candidate_result d i r a \<equiv>
     \<lparr>cdr_Duplicate = d, cdr_Ignored = i, cdr_Resolved = r, cdr_Alert = a\<rparr>"

definition alerting_IntakeCandidate :: "'w AlertService \<Rightarrow> Candidate \<Rightarrow> ('w, CandidateResult) op" where
  "alerting_IntakeCandidate s candidate0 =
     bindE (required (asv_Repository s) (Errorf ''alert repository is required'' [])) (\<lambda>repo.
     bindE (required (asv_Verifier s) (Errorf ''alert candidate verifier is required'' [])) (\<lambda>verify.
     bindE (alerting_now s) (\<lambda>now.
     let candidate = normalizeCandidate candidate0 now in
     bindE (check (validateCandidate candidate)) (\<lambda>_.
     bindE (wrapE ''record alert candidate'' (arp_TryRecordCandidate repo candidate)) (\<lambda>recorded.
     if \<not> recorded then ret (candidate_result True True False None)
     else
       bindE (wrapE ''verify alert candidate'' (verify candidate)) (\<lambda>v.
       bindE (check (validateVerification v)) (\<lambda>_.
       bindE (attemptE (arp_GetActiveAlertByKey repo (ver_AlertKey v))) (\<lambda>found.
       case found of
         Inl e \<Rightarrow>
           if \<not> errors_Is e ErrAlertNotFound then fail (Wrapf ''load active alert'' e)
           else if ver_Healthy v then ret (candidate_result False True False None)
           else bindE (createAlert s repo candidate v) (\<lambda>a.
                ret (candidate_result False False False (Some a)))
       | Inr active \<Rightarrow>
           if ver_Healthy v
           then bindE (resolveAlert s repo active (can_CandidateID candidate) ''candidate_recovered''
                         ''system'' ''system'') (\<lambda>a.
                ret (candidate_result False False True (Some a)))
           else bindE (updateAlert s repo active candidate v) (\<lambda>a.
                ret (candidate_result False False False (Some a)))))))))))"

definition alerting_AcknowledgeAlert :: "'w AlertService \<Rightarrow> AlertActionRequest \<Rightarrow> ('w, Alert) op" where
  "alerting_AcknowledgeAlert s req =
     bindE (loadAlert s (aar_AlertID req)) (\<lambda>alert.
     bindE (required (asv_Repository s) (Errorf ''alert repository is required'' [])) (\<lambda>repo.
     bindE (alerting_now s) (\<lambda>now.
     let alert' = alert\<lparr>al_AcknowledgedAt := Some now,
                        al_AcknowledgedByUserID := TrimSpace (aar_ActorSubjectID req),
                        al_UpdatedAt := now\<rparr> in
     bindE (wrapE ''acknowledge alert'' (arp_SaveAlert repo alert')) (\<lambda>_.
     bindE (alerting_recordEvent s repo alert' [] EventAcknowledged (actorType (aar_ActorType req))
              (actorID (aar_ActorSubjectID req)) (reasonMetadata (aar_ReasonCode req))) (\<lambda>_.
     ret alert')))))"

definition snooze_metadata :: "string \<Rightarrow> time \<Rightarrow> string" where
  "snooze_metadata reasonCode until = object_text
     [(''reason_code'', quote (TrimSpace reasonCode)),
      (''snoozed_until'', quote (format_rfc3339 (until - until mod 1000000000)))]"

definition alerting_SnoozeAlert :: "'w AlertService \<Rightarrow> AlertActionRequest \<Rightarrow> ('w, Alert) op" where
  "alerting_SnoozeAlert s req =
     bindE (loadAlert s (aar_AlertID req)) (\<lambda>alert.
     bindE (required (asv_Repository s) (Errorf ''alert repository is required'' [])) (\<lambda>repo.
     bindE (alerting_now s) (\<lambda>now.
     bindE (failIf (\<not> After (aar_SnoozedUntil req) now)
              (Errorf ''snoozed_until must be in the future'' [])) (\<lambda>_.
     bindE (alerting_now s) (\<lambda>now'.
     let snoozedUntil = UTC (aar_SnoozedUntil req);
         alert' = alert\<lparr>al_SnoozedUntil := Some snoozedUntil, al_UpdatedAt := now'\<rparr> in
     bindE (wrapE ''snooze alert'' (arp_SaveAlert repo alert')) (\<lambda>_.
     bindE (alerting_recordEvent s repo alert' [] EventSnoozed (actorType (aar_ActorType req))
              (actorID (aar_ActorSubjectID req))
              (snooze_metadata (aar_ReasonCode req) snoozedUntil)) (\<lambda>_.
     ret alert')))))))"

definition alerting_ResolveAlert :: "'w AlertService \<Rightarrow> AlertActionRequest \<Rightarrow> ('w, Alert) op" where
  "alerting_ResolveAlert s req =
     bindE (loadAlert s (aar_AlertID req)) (\<lambda>alert.
     bindE (required (asv_Repository s) (Errorf ''alert repository is required'' [])) (\<lambda>repo.
     resolveAlert s repo alert [] (TrimSpace (aar_ReasonCode req)) (actorType (aar_ActorType req))
       (actorID (aar_ActorSubjectID req))))"

end

