(* ===== verification/Alert_Store.thy ===== *)
theory Alert_Store
  imports Alerting
begin

text \<open>
  What the alert service promises, as an abstract machine over the stored candidates, alerts and
  events, and the proof that the service implements it over every repository that keeps
  \<open>alert_contract\<close>; \<open>Alert_Tables\<close> interprets the contract.

  The fake of \<open>service_test.go\<close> does not keep the contract: acknowledging a resolved alert removes
  the active alert of the same key from its index.
\<close>

section \<open>The abstract machine\<close>

record alert_view =
  av_alerts :: "string \<Rightarrow> Alert option"
  av_candidates :: "string set"
  av_events :: "AlertEvent list"

definition put_alert :: "Alert \<Rightarrow> alert_view \<Rightarrow> alert_view" where
  "put_alert a v = v\<lparr>av_alerts := (av_alerts v)(al_AlertID a \<mapsto> a)\<rparr>"

lemma put_alert_fields [simp]:
  "av_alerts (put_alert a v) = (av_alerts v)(al_AlertID a \<mapsto> a)"
  "av_candidates (put_alert a v) = av_candidates v"
  "av_events (put_alert a v) = av_events v"
  by (simp_all add: put_alert_def)

text \<open>What no write to an alert changes.\<close>

definition same_alert :: "Alert \<Rightarrow> Alert \<Rightarrow> bool" where
  "same_alert a b \<longleftrightarrow> al_AlertID b = al_AlertID a \<and> al_AlertKey b = al_AlertKey a \<and>
     al_AccountID b = al_AccountID a \<and> al_SiteID b = al_SiteID a \<and> al_DeviceID b = al_DeviceID a \<and>
     al_Family b = al_Family a \<and> al_FirstCandidateID b = al_FirstCandidateID a \<and>
     al_CreatedAt b = al_CreatedAt a"

definition key_free :: "alert_view \<Rightarrow> string \<Rightarrow> bool" where
  "key_free v k \<longleftrightarrow>
     (\<forall>i b. av_alerts v i = Some b \<and> al_Status b = AlertActive \<longrightarrow> al_AlertKey b \<noteq> k)"

inductive alert_step :: "alert_view \<Rightarrow> alert_view \<Rightarrow> bool" where
  seen: "i \<notin> av_candidates v \<Longrightarrow> alert_step v (v\<lparr>av_candidates := insert i (av_candidates v)\<rparr>)"
| created: "av_alerts v (al_AlertID a) = None \<Longrightarrow> al_Status a = AlertActive \<Longrightarrow>
     key_free v (al_AlertKey a) \<Longrightarrow> al_OccurrenceCount a = 1 \<Longrightarrow> al_ResolvedAt a = None \<Longrightarrow>
     al_FirstCandidateID a \<in> av_candidates v \<Longrightarrow> al_LastCandidateID a = al_FirstCandidateID a \<Longrightarrow>
     alert_step v (put_alert a v)"
| counted: "av_alerts v (al_AlertID a) = Some a \<Longrightarrow> al_Status a = AlertActive \<Longrightarrow> same_alert a b \<Longrightarrow>
     al_Status b = AlertActive \<Longrightarrow> al_ResolvedAt b = al_ResolvedAt a \<Longrightarrow>
     al_OccurrenceCount b = al_OccurrenceCount a + 1 \<Longrightarrow>
     al_LastCandidateID b \<in> av_candidates v \<Longrightarrow> alert_step v (put_alert b v)"
| annotated: "av_alerts v (al_AlertID a) = Some a \<Longrightarrow> same_alert a b \<Longrightarrow>
     al_Status b = al_Status a \<Longrightarrow> al_ResolvedAt b = al_ResolvedAt a \<Longrightarrow>
     al_OccurrenceCount b = al_OccurrenceCount a \<Longrightarrow>
     al_LastCandidateID b = al_LastCandidateID a \<Longrightarrow> alert_step v (put_alert b v)"
| resolved: "av_alerts v (al_AlertID a) = Some a \<Longrightarrow> al_Status a \<noteq> AlertResolved \<Longrightarrow>
     same_alert a b \<Longrightarrow> al_Status b = AlertResolved \<Longrightarrow> al_ResolvedAt b \<noteq> None \<Longrightarrow>
     al_OccurrenceCount b = al_OccurrenceCount a \<Longrightarrow>
     al_LastCandidateID b = al_LastCandidateID a \<or> al_LastCandidateID b \<in> av_candidates v \<Longrightarrow>
     alert_step v (put_alert b v)"
| logged: "av_alerts v (ae_AlertID e) \<noteq> None \<Longrightarrow>
     alert_step v (v\<lparr>av_events := av_events v @ [e]\<rparr>)"

abbreviation alert_steps :: "alert_view \<Rightarrow> alert_view \<Rightarrow> bool" where
  "alert_steps \<equiv> alert_step\<^sup>*\<^sup>*"

section \<open>The invariant\<close>

definition alert_keys_ok :: "alert_view \<Rightarrow> bool" where
  "alert_keys_ok v \<longleftrightarrow> (\<forall>i a. av_alerts v i = Some a \<longrightarrow> al_AlertID a = i)"

definition one_active :: "alert_view \<Rightarrow> bool" where
  "one_active v \<longleftrightarrow> (\<forall>i j a b. av_alerts v i = Some a \<and> av_alerts v j = Some b \<and>
     al_Status a = AlertActive \<and> al_Status b = AlertActive \<and> al_AlertKey a = al_AlertKey b \<longrightarrow> i = j)"

definition alert_ok :: "string set \<Rightarrow> Alert \<Rightarrow> bool" where
  "alert_ok cs a \<longleftrightarrow>
     (al_Status a = AlertActive \<and> al_ResolvedAt a = None \<or>
      al_Status a = AlertResolved \<and> al_ResolvedAt a \<noteq> None) \<and>
     1 \<le> al_OccurrenceCount a \<and> al_FirstCandidateID a \<in> cs \<and> al_LastCandidateID a \<in> cs"

definition alert_inv :: "alert_view \<Rightarrow> bool" where
  "alert_inv v \<longleftrightarrow> alert_keys_ok v \<and> one_active v \<and>
     (\<forall>i a. av_alerts v i = Some a \<longrightarrow> alert_ok (av_candidates v) a) \<and>
     (\<forall>e \<in> set (av_events v). av_alerts v (ae_AlertID e) \<noteq> None)"

lemma alert_keys_ok_candidates [simp]:
  "alert_keys_ok (v\<lparr>av_candidates := cs\<rparr>) = alert_keys_ok v"
  by (simp add: alert_keys_ok_def)

lemma alert_keysD: "alert_keys_ok v \<Longrightarrow> av_alerts v i = Some a \<Longrightarrow> al_AlertID a = i"
  by (simp add: alert_keys_ok_def)

lemma alert_inv_keys [intro]: "alert_inv v \<Longrightarrow> alert_keys_ok v"
  by (simp add: alert_inv_def)

lemma alert_inv_frame:
  "alert_inv v \<Longrightarrow> alert_inv (v\<lparr>av_candidates := insert i (av_candidates v)\<rparr>)"
  "alert_inv v \<Longrightarrow> av_alerts v (ae_AlertID e) \<noteq> None \<Longrightarrow>
     alert_inv (v\<lparr>av_events := av_events v @ [e]\<rparr>)"
  unfolding alert_inv_def alert_keys_ok_def one_active_def alert_ok_def by auto

lemma one_active_put:
  assumes "one_active v"
    and "al_Status b = AlertActive \<Longrightarrow> \<forall>i a. av_alerts v i = Some a \<and> al_Status a = AlertActive \<and>
           al_AlertKey a = al_AlertKey b \<longrightarrow> i = al_AlertID b"
  shows "one_active (put_alert b v)"
  using assms unfolding one_active_def by (auto split: if_splits)

lemma alert_inv_put:
  assumes "alert_inv v" and "alert_ok (av_candidates v) b"
    and "al_Status b = AlertActive \<Longrightarrow> \<forall>i a. av_alerts v i = Some a \<and> al_Status a = AlertActive \<and>
           al_AlertKey a = al_AlertKey b \<longrightarrow> i = al_AlertID b"
  shows "alert_inv (put_alert b v)"
proof -
  have "one_active (put_alert b v)" using assms by (intro one_active_put) (auto simp: alert_inv_def)
  then show ?thesis
    using assms(1,2) unfolding alert_inv_def alert_keys_ok_def by auto
qed

lemma one_activeD:
  "one_active v \<Longrightarrow> av_alerts v i = Some a \<Longrightarrow> av_alerts v j = Some b \<Longrightarrow> al_Status a = AlertActive \<Longrightarrow>
   al_Status b = AlertActive \<Longrightarrow> al_AlertKey a = al_AlertKey b \<Longrightarrow> i = j"
  unfolding one_active_def by blast

lemma alert_inv_parts:
  "alert_inv v \<Longrightarrow> one_active v"
  "alert_inv v \<Longrightarrow> av_alerts v i = Some a \<Longrightarrow> alert_ok (av_candidates v) a"
  by (simp_all add: alert_inv_def)

lemma alert_inv_rewrite:
  assumes "alert_inv v" and "av_alerts v (al_AlertID a) = Some a" and "same_alert a b"
    and "alert_ok (av_candidates v) b" and "al_Status b = AlertActive \<Longrightarrow> al_Status a = AlertActive"
  shows "alert_inv (put_alert b v)"
proof (rule alert_inv_put [OF assms(1,4)], intro allI impI)
  fix i c
  assume "al_Status b = AlertActive"
    and "av_alerts v i = Some c \<and> al_Status c = AlertActive \<and> al_AlertKey c = al_AlertKey b"
  then show "i = al_AlertID b"
    using one_activeD [OF alert_inv_parts(1) [OF assms(1)] _ assms(2), of i c] assms(3,5)
    unfolding same_alert_def by metis
qed

lemma alert_step_inv: "alert_step v v' \<Longrightarrow> alert_inv v \<Longrightarrow> alert_inv v'"
proof (induction rule: alert_step.induct)
  case (created v a)
  then show ?case by (intro alert_inv_put) (auto simp: alert_ok_def key_free_def)
next
  case (counted v a b)
  then have "alert_ok (av_candidates v) a" by (blast intro: alert_inv_parts)
  with counted show ?case by (intro alert_inv_rewrite [of v a b]) (simp_all add: alert_ok_def same_alert_def)
next
  case (annotated v a b)
  then have "alert_ok (av_candidates v) a" by (blast intro: alert_inv_parts)
  with annotated show ?case by (intro alert_inv_rewrite [of v a b]) (simp_all add: alert_ok_def same_alert_def)
next
  case (resolved v a b)
  then have "alert_ok (av_candidates v) a" by (blast intro: alert_inv_parts)
  with resolved show ?case by (intro alert_inv_rewrite [of v a b]) (auto simp: alert_ok_def same_alert_def)
qed (simp_all add: alert_inv_frame)

lemma alert_steps_inv: "alert_steps v v' \<Longrightarrow> alert_inv v \<Longrightarrow> alert_inv v'"
  by (induction rule: rtranclp_induct) (auto intro: alert_step_inv)

text \<open>A resolved alert stays resolved, and the count of an alert never falls.\<close>

definition evolves :: "Alert \<Rightarrow> Alert \<Rightarrow> bool" where
  "evolves a b \<longleftrightarrow> same_alert a b \<and> al_OccurrenceCount a \<le> al_OccurrenceCount b \<and>
     (al_Status a = AlertResolved \<longrightarrow> al_Status b = AlertResolved \<and>
        al_OccurrenceCount b = al_OccurrenceCount a \<and> al_ResolvedAt b = al_ResolvedAt a)"

lemma same_alert_refl [simp]: "same_alert a a"
  by (simp add: same_alert_def)

lemma evolves_refl [simp]: "evolves a a"
  by (simp add: evolves_def)

lemma evolves_trans: "evolves a b \<Longrightarrow> evolves b c \<Longrightarrow> evolves a c"
  by (auto simp: evolves_def same_alert_def)

lemma alert_step_evolves:
  assumes "alert_step v v'" and "av_alerts v i = Some a"
  shows "\<exists>b. av_alerts v' i = Some b \<and> evolves a b"
  using assms
proof (induction rule: alert_step.induct)
  case (counted v c b)
  then have "al_AlertID b = al_AlertID c" by (simp add: same_alert_def)
  with counted show ?case by (cases "i = al_AlertID c") (simp_all add: evolves_def)
next
  case (annotated v c b)
  then have "al_AlertID b = al_AlertID c" by (simp add: same_alert_def)
  with annotated show ?case by (cases "i = al_AlertID c") (simp_all add: evolves_def)
next
  case (resolved v c b)
  then have "al_AlertID b = al_AlertID c" by (simp add: same_alert_def)
  with resolved show ?case by (cases "i = al_AlertID c") (simp_all add: evolves_def)
qed auto

lemma alert_steps_evolves:
  assumes "alert_steps v v'" and "av_alerts v i = Some a"
  shows "\<exists>b. av_alerts v' i = Some b \<and> evolves a b"
  using assms
proof (induction rule: rtranclp_induct)
  case (step u w)
  then obtain b where b: "av_alerts u i = Some b" "evolves a b" by auto
  from alert_step_evolves [OF step(2) b(1)] b(2) show ?case by (blast intro: evolves_trans)
qed auto

section \<open>Steps of the service's writes\<close>

lemma seen_steps: "i \<notin> av_candidates v \<Longrightarrow>
    alert_steps v (v\<lparr>av_candidates := insert i (av_candidates v)\<rparr>)"
  by (rule r_into_rtranclp) (rule alert_step.seen)

lemma logged_after:
  assumes "alert_steps v u" and "av_alerts u (ae_AlertID e) \<noteq> None"
  shows "alert_steps v (u\<lparr>av_events := av_events u @ [e]\<rparr>)"
  using assms by (auto intro: rtranclp.rtrancl_into_rtrancl alert_step.logged)

lemma created_after:
  assumes "alert_steps v u" and "av_alerts u i = None"
    and "key_free u (ver_AlertKey ver)"
    and "can_CandidateID c \<in> av_candidates u"
  shows "alert_steps v (put_alert (new_alert c ver i t) u)"
  using assms(1)
  by (rule rtranclp.rtrancl_into_rtrancl, intro alert_step.created)
     (use assms(2-4) in \<open>simp_all add: new_alert_def\<close>)

lemma counted_after:
  assumes "alert_steps v u" and "av_alerts u (al_AlertID a) = Some a" and "al_Status a = AlertActive"
    and "can_CandidateID c \<in> av_candidates u"
  shows "alert_steps v (put_alert (updated_alert a c ver t) u)"
  using assms(1)
  by (rule rtranclp.rtrancl_into_rtrancl, intro alert_step.counted [of u a])
     (use assms(2-4) in \<open>simp_all add: updated_alert_def same_alert_def\<close>)

lemma resolved_after:
  assumes "alert_steps v u" and "av_alerts u (al_AlertID a) = Some a" and "al_Status a \<noteq> AlertResolved"
    and "TrimSpace k \<noteq> [] \<Longrightarrow> TrimSpace k \<in> av_candidates u"
  shows "alert_steps v (put_alert (resolved_alert a k r t) u)"
  using assms(1)
  by (rule rtranclp.rtrancl_into_rtrancl, intro alert_step.resolved [of u a])
     (use assms(2-4) in \<open>simp_all add: resolved_alert_def same_alert_def\<close>)

lemma acknowledged_after:
  assumes "alert_steps v u" and "av_alerts u (al_AlertID a) = Some a"
  shows "alert_steps v (put_alert (a\<lparr>al_AcknowledgedAt := x, al_AcknowledgedByUserID := y,
           al_UpdatedAt := t\<rparr>) u)"
  using assms(1)
  by (rule rtranclp.rtrancl_into_rtrancl, intro alert_step.annotated [of u a])
     (use assms(2) in \<open>simp_all add: same_alert_def\<close>)

lemma snoozed_after:
  assumes "alert_steps v u" and "av_alerts u (al_AlertID a) = Some a"
  shows "alert_steps v (put_alert (a\<lparr>al_SnoozedUntil := x, al_UpdatedAt := t\<rparr>) u)"
  using assms(1)
  by (rule rtranclp.rtrancl_into_rtrancl, intro alert_step.annotated [of u a])
     (use assms(2) in \<open>simp_all add: same_alert_def\<close>)

lemma written_fields [simp]:
  "al_AlertID (new_alert c ver i t) = i" "al_AlertID (updated_alert a c ver t) = al_AlertID a"
  "al_AlertID (resolved_alert a k r t) = al_AlertID a"
  by (simp_all add: new_alert_def updated_alert_def resolved_alert_def)

section \<open>The repository's contract\<close>

text \<open>
  A call that returns an error has stored nothing. A lookup by key that finds nothing means that no
  alert with the key is active.
\<close>

locale alert_contract =
  fixes svc :: "'w AlertService" and repo :: "'w AlertRepository"
    and verify :: "Candidate \<Rightarrow> ('w, CandidateVerification) op" and view :: "'w \<Rightarrow> alert_view"
  assumes wired: "asv_Repository svc = Some repo" "asv_Verifier svc = Some verify"
    and TryRecord_law: "arp_TryRecordCandidate repo c w = (recorded, w') \<Longrightarrow>
      (case recorded of Inl e \<Rightarrow> view w' = view w
       | Inr b \<Rightarrow> b = (can_CandidateID c \<notin> av_candidates (view w)) \<and>
           view w' = (view w)\<lparr>av_candidates := insert (can_CandidateID c) (av_candidates (view w))\<rparr>)"
    and GetActive_law: "alert_keys_ok (view w) \<Longrightarrow> arp_GetActiveAlertByKey repo k w = (active, w') \<Longrightarrow>
      view w' = view w \<and>
      (case active of
         Inl e \<Rightarrow> errors_Is e ErrAlertNotFound \<longrightarrow> key_free (view w) k
       | Inr a \<Rightarrow> av_alerts (view w) (al_AlertID a) = Some a \<and> al_Status a = AlertActive \<and>
           al_AlertKey a = k)"
    and GetAlert_law: "arp_GetAlert repo i w = (got, w') \<Longrightarrow>
      view w' = view w \<and> (case got of Inl e \<Rightarrow> True | Inr a \<Rightarrow> av_alerts (view w) i = Some a)"
    and CreateAlert_law: "arp_CreateAlert repo a w = (r, w') \<Longrightarrow>
      (case r of Inl e \<Rightarrow> view w' = view w
       | Inr u \<Rightarrow> av_alerts (view w) (al_AlertID a) = None \<and> view w' = put_alert a (view w))"
    and SaveAlert_law: "arp_SaveAlert repo a w = (r, w') \<Longrightarrow>
      (case r of Inl e \<Rightarrow> view w' = view w | Inr u \<Rightarrow> view w' = put_alert a (view w))"
    and RecordEvent_law: "arp_RecordAlertEvent repo ev w = (r, w') \<Longrightarrow>
      (case r of Inl e \<Rightarrow> view w' = view w
       | Inr u \<Rightarrow> view w' = (view w)\<lparr>av_events := av_events (view w) @ [ev]\<rparr>)"
    and verify_law: "verify c w = (vr, w') \<Longrightarrow> view w' = view w"
    and Clock_law: "asv_Clock svc = Some f \<Longrightarrow> f w = (t, w') \<Longrightarrow> view w' = view w"
    and TimeNow_law: "asv_TimeNow svc w = (t, w') \<Longrightarrow> view w' = view w"
    and IDGenerator_law: "asv_IDGenerator svc = Some g \<Longrightarrow> g w = (x, w') \<Longrightarrow> view w' = view w"
begin

lemma wp_TryRecord:
  assumes "\<And>e w'. view w' = view w \<Longrightarrow> E e w'"
    and "\<And>w'. can_CandidateID c \<in> av_candidates (view w) \<Longrightarrow> view w' = view w \<Longrightarrow> Q False w'"
    and "\<And>w'. can_CandidateID c \<notin> av_candidates (view w) \<Longrightarrow>
           view w' = (view w)\<lparr>av_candidates := insert (can_CandidateID c) (av_candidates (view w))\<rparr> \<Longrightarrow>
           Q True w'"
  shows "wp (arp_TryRecordCandidate repo c) Q E w"
proof (rule wpI)
  fix a w' assume "arp_TryRecordCandidate repo c w = (Inr a, w')"
  from TryRecord_law [OF this] show "Q a w'"
    by (cases "can_CandidateID c \<in> av_candidates (view w)") (simp_all add: assms insert_absorb)
qed (auto dest!: TryRecord_law intro: assms)

lemma wp_GetActive:
  assumes "alert_keys_ok (view w)"
    and "\<And>e w'. view w' = view w \<Longrightarrow> (errors_Is e ErrAlertNotFound \<Longrightarrow>
           key_free (view w) k) \<Longrightarrow> E e w'"
    and "\<And>a w'. view w' = view w \<Longrightarrow> av_alerts (view w) (al_AlertID a) = Some a \<Longrightarrow>
           al_Status a = AlertActive \<Longrightarrow> Q a w'"
  shows "wp (arp_GetActiveAlertByKey repo k) Q E w"
proof (rule wpI)
  fix e w' assume "arp_GetActiveAlertByKey repo k w = (Inl e, w')"
  from GetActive_law [OF assms(1) this] show "E e w'" by (intro assms(2)) simp_all
next
  fix a w' assume "arp_GetActiveAlertByKey repo k w = (Inr a, w')"
  from GetActive_law [OF assms(1) this] show "Q a w'" by (intro assms(3)) simp_all
qed

lemma wp_GetAlert:
  assumes "\<And>e w'. view w' = view w \<Longrightarrow> E e w'"
    and "\<And>a w'. view w' = view w \<Longrightarrow> av_alerts (view w) i = Some a \<Longrightarrow> Q a w'"
  shows "wp (arp_GetAlert repo i) Q E w"
  by (rule wpI) (auto dest!: GetAlert_law intro: assms)

lemma wp_CreateAlert:
  assumes "\<And>e w'. view w' = view w \<Longrightarrow> E e w'"
    and "\<And>w'. av_alerts (view w) (al_AlertID a) = None \<Longrightarrow> view w' = put_alert a (view w) \<Longrightarrow> Q () w'"
  shows "wp (arp_CreateAlert repo a) Q E w"
  by (rule wpI) (auto dest!: CreateAlert_law intro: assms)

lemma wp_SaveAlert:
  assumes "\<And>e w'. view w' = view w \<Longrightarrow> E e w'" and "\<And>w'. view w' = put_alert a (view w) \<Longrightarrow> Q () w'"
  shows "wp (arp_SaveAlert repo a) Q E w"
  by (rule wpI) (auto dest!: SaveAlert_law intro: assms)

lemma wp_RecordAlertEvent:
  assumes "\<And>e w'. view w' = view w \<Longrightarrow> E e w'"
    and "\<And>w'. view w' = (view w)\<lparr>av_events := av_events (view w) @ [ev]\<rparr> \<Longrightarrow> Q () w'"
  shows "wp (arp_RecordAlertEvent repo ev) Q E w"
  by (rule wpI) (auto dest!: RecordEvent_law intro: assms)

lemma wp_verify:
  assumes "\<And>e w'. view w' = view w \<Longrightarrow> E e w'" and "\<And>v w'. view w' = view w \<Longrightarrow> Q v w'"
  shows "wp (verify c) Q E w"
  by (rule wpI) (auto dest!: verify_law intro: assms)

lemma wp_now:
  assumes "\<And>t w'. view w' = view w \<Longrightarrow> Q t w'"
  shows "wp (alerting_now svc) Q E w"
  using assms by (auto simp: alerting_now_def wp_simps split: option.split prod.split
      dest: Clock_law TimeNow_law)

lemma wp_newID:
  assumes "\<And>e w'. view w' = view w \<Longrightarrow> E e w'" and "\<And>i w'. view w' = view w \<Longrightarrow> Q i w'"
  shows "wp (alerting_newID svc) Q E w"
  using assms by (auto simp: alerting_newID_def wp_simps split: option.split prod.split
      dest: IDGenerator_law)

abbreviation reaches :: "alert_view \<Rightarrow> ('w, 'a) op \<Rightarrow> 'w \<Rightarrow> bool" where
  "reaches v m w \<equiv> wp m (\<lambda>_ w'. alert_steps v (view w')) (\<lambda>_ w'. alert_steps v (view w')) w"

lemma wp_recordEvent:
  assumes "alert_steps v (view w)" and "av_alerts (view w) (al_AlertID a) \<noteq> None"
    and "\<And>w'. alert_steps v (view w') \<Longrightarrow> Q () w'"
  shows "wp (alerting_recordEvent svc repo a c ty at ai md) Q (\<lambda>_ w'. alert_steps v (view w')) w"
  using assms(1,2)
  by (auto simp: alerting_recordEvent_def wp_simps intro!: wp_now wp_RecordAlertEvent assms(3)
      logged_after split: option.split)

lemma wp_loadAlert:
  assumes "alert_keys_ok (view w)" and "\<And>e w'. view w' = view w \<Longrightarrow> E e w'"
    and "\<And>a w'. view w' = view w \<Longrightarrow> av_alerts (view w) (al_AlertID a) = Some a \<Longrightarrow> Q a w'"
  shows "wp (loadAlert svc i) Q E w"
  using assms by (auto simp: loadAlert_def wired wp_simps intro!: wp_GetAlert dest: alert_keysD)

lemma reaches_resolveAlert:
  assumes "alert_steps v (view w)" and "av_alerts (view w) (al_AlertID a) = Some a"
    and "TrimSpace k \<noteq> [] \<Longrightarrow> TrimSpace k \<in> av_candidates (view w)"
  shows "reaches v (resolveAlert svc repo a k r ty ai) w"
  using assms
  by (auto simp: resolveAlert_def wp_simps Let_def
      intro!: wp_now wp_SaveAlert wp_recordEvent resolved_after)

lemma reaches_createAlert:
  assumes "alert_steps v (view w)" and "can_CandidateID c \<in> av_candidates (view w)"
    and "key_free (view w) (ver_AlertKey ver)"
  shows "reaches v (createAlert svc repo c ver) w"
  using assms
  by (auto simp: createAlert_def wp_simps Let_def
      intro!: wp_newID wp_now wp_CreateAlert wp_recordEvent created_after split: option.split)

lemma reaches_updateAlert:
  assumes "alert_steps v (view w)" and "av_alerts (view w) (al_AlertID a) = Some a"
    and "al_Status a = AlertActive" and "can_CandidateID c \<in> av_candidates (view w)"
  shows "reaches v (updateAlert svc repo a c ver) w"
  using assms
  by (auto simp: updateAlert_def wp_simps Let_def
      intro!: wp_now wp_SaveAlert wp_recordEvent counted_after)

lemma implements_Acknowledge:
  "alert_keys_ok (view w) \<Longrightarrow> reaches (view w) (alerting_AcknowledgeAlert svc req) w"
  by (auto simp: alerting_AcknowledgeAlert_def wired wp_simps Let_def
      intro!: wp_loadAlert wp_now wp_SaveAlert wp_recordEvent acknowledged_after)

lemma implements_Snooze:
  "alert_keys_ok (view w) \<Longrightarrow> reaches (view w) (alerting_SnoozeAlert svc req) w"
  by (auto simp: alerting_SnoozeAlert_def wired wp_simps Let_def
      intro!: wp_loadAlert wp_now wp_SaveAlert wp_recordEvent snoozed_after)

lemma implements_Resolve:
  "alert_keys_ok (view w) \<Longrightarrow> reaches (view w) (alerting_ResolveAlert svc req) w"
  by (auto simp: alerting_ResolveAlert_def wired wp_simps Let_def
      intro!: wp_loadAlert reaches_resolveAlert)

lemma reaches_ret: "reaches v m w \<Longrightarrow>
    wp m (\<lambda>a. reaches v (ret (f a))) (\<lambda>_ w'. alert_steps v (view w')) w"
  by (erule wp_mono) (simp_all add: wp_ret)

lemma normalized_id [simp]:
  "TrimSpace (can_CandidateID (normalizeCandidate c t)) = can_CandidateID (normalizeCandidate c t)"
  by (simp add: normalizeCandidate_def)

lemma implements_IntakeCandidate:
  "alert_keys_ok (view w) \<Longrightarrow> reaches (view w) (alerting_IntakeCandidate svc c) w"
  by (auto simp: alerting_IntakeCandidate_def wired wp_simps Let_def
      intro!: wp_now wp_TryRecord wp_verify wp_GetActive reaches_ret
        reaches_createAlert reaches_updateAlert reaches_resolveAlert seen_steps split: option.split)

end

end
