(* ===== verification/Alert_Tables.thy ===== *)
theory Alert_Tables
  imports Alert_Store
begin

text \<open>
  A repository for the alert service with the constraints of
  \<open>backend/migrations/000011_alerting_core.sql\<close>: primary keys, one active alert per key, references
  to recorded candidates and existing alerts, and the check constraints of \<open>alerts\<close>. Every call may
  fail by the schedule of \<open>env\<close>. It interprets \<open>alert_contract\<close>, and \<open>alert_reachable\<close> are the
  tables that sequences of service calls reach from empty ones.
\<close>

section \<open>Tables\<close>

record alert_tables = env +
  at_alerts :: "Alert list"
  at_candidates :: "Candidate list"
  at_events :: "AlertEvent list"
  at_verification :: "Candidate \<Rightarrow> CandidateVerification"

definition alert_row :: "Alert list \<Rightarrow> string \<Rightarrow> Alert option" where
  "alert_row rows i = find (\<lambda>a. al_AlertID a = i) rows"

definition active_row :: "Alert list \<Rightarrow> string \<Rightarrow> Alert option" where
  "active_row rows k = find (\<lambda>a. al_Status a = AlertActive \<and> al_AlertKey a = k \<and>
     alert_row rows (al_AlertID a) = Some a) rows"

definition recorded_candidates :: "alert_tables \<Rightarrow> string list" where
  "recorded_candidates w = map can_CandidateID (at_candidates w)"

definition candidate_reference :: "alert_tables \<Rightarrow> string \<Rightarrow> bool" where
  "candidate_reference w i \<longleftrightarrow> i \<in> set (recorded_candidates w)"

definition alert_row_valid :: "alert_tables \<Rightarrow> Alert \<Rightarrow> bool" where
  "alert_row_valid w a \<longleftrightarrow>
     family_text (al_Family a) \<in> set [''device_disconnected'', ''backup_failed'', ''backup_overdue'',
       ''app_update_attention''] \<and>
     severity_text (al_Severity a) \<in> set [''critical'', ''warning'', ''info''] \<and>
     (al_Status a = AlertActive \<or> al_Status a = AlertResolved) \<and> 0 < al_OccurrenceCount a \<and>
     candidate_reference w (al_FirstCandidateID a) \<and> candidate_reference w (al_LastCandidateID a)"

definition active_key_clash :: "Alert list \<Rightarrow> Alert \<Rightarrow> bool" where
  "active_key_clash rows a \<longleftrightarrow> al_Status a = AlertActive \<and>
     (case active_row rows (al_AlertKey a) of None \<Rightarrow> False | Some b \<Rightarrow> al_AlertID b \<noteq> al_AlertID a)"

definition sql_TryRecordCandidate :: "Candidate \<Rightarrow> (alert_tables, bool) op" where
  "sql_TryRecordCandidate c w =
     (if candidate_reference w (can_CandidateID c) then (Inr False, w)
      else (Inr True, w\<lparr>at_candidates := c # at_candidates w\<rparr>))"

definition sql_GetActiveAlertByKey :: "string \<Rightarrow> (alert_tables, Alert) op" where
  "sql_GetActiveAlertByKey k w =
     (case active_row (at_alerts w) k of None \<Rightarrow> (Inl ErrAlertNotFound, w) | Some a \<Rightarrow> (Inr a, w))"

definition sql_GetAlert :: "string \<Rightarrow> (alert_tables, Alert) op" where
  "sql_GetAlert i w =
     (case alert_row (at_alerts w) i of None \<Rightarrow> (Inl ErrAlertNotFound, w) | Some a \<Rightarrow> (Inr a, w))"

definition sql_CreateAlert :: "Alert \<Rightarrow> (alert_tables, unit) op" where
  "sql_CreateAlert a w =
     (if alert_row (at_alerts w) (al_AlertID a) \<noteq> None \<or> active_key_clash (at_alerts w) a \<or>
         \<not> alert_row_valid w a
      then (Inl (Errorf ''constraint violation'' []), w)
      else (Inr (), w\<lparr>at_alerts := a # at_alerts w\<rparr>))"

definition sql_SaveAlert :: "Alert \<Rightarrow> (alert_tables, unit) op" where
  "sql_SaveAlert a w =
     (if alert_row (at_alerts w) (al_AlertID a) = None then (Inl ErrAlertNotFound, w)
      else if active_key_clash (at_alerts w) a \<or> \<not> alert_row_valid w a
      then (Inl (Errorf ''constraint violation'' []), w)
      else (Inr (), w\<lparr>at_alerts := map (\<lambda>b. if al_AlertID b = al_AlertID a then a else b) (at_alerts w)\<rparr>))"

definition sql_RecordAlertEvent :: "AlertEvent \<Rightarrow> (alert_tables, unit) op" where
  "sql_RecordAlertEvent e w =
     (if alert_row (at_alerts w) (ae_AlertID e) = None
      then (Inl (Errorf ''constraint violation'' []), w)
      else (Inr (), w\<lparr>at_events := at_events w @ [e]\<rparr>))"

definition fake_VerifyCandidate :: "Candidate \<Rightarrow> (alert_tables, CandidateVerification) op" where
  "fake_VerifyCandidate c = with_fault (\<lambda>w. (Inr (at_verification w c), w))"

definition alert_repository :: "alert_tables AlertRepository" where
  "alert_repository =
     \<lparr>arp_TryRecordCandidate = (\<lambda>c. with_fault (sql_TryRecordCandidate c)),
      arp_GetActiveAlertByKey = (\<lambda>k. with_fault (sql_GetActiveAlertByKey k)),
      arp_GetAlert = (\<lambda>i. with_fault (sql_GetAlert i)),
      arp_CreateAlert = (\<lambda>a. with_fault (sql_CreateAlert a)),
      arp_SaveAlert = (\<lambda>a. with_fault (sql_SaveAlert a)),
      arp_RecordAlertEvent = (\<lambda>e. with_fault (sql_RecordAlertEvent e))\<rparr>"

definition alert_service :: "alert_tables AlertService" where
  "alert_service =
     \<lparr>asv_Repository = Some alert_repository, asv_Verifier = Some fake_VerifyCandidate,
      asv_IDGenerator = Some next_id, asv_Clock = Some read_clock, asv_TimeNow = read_clock\<rparr>"

definition tables_view :: "alert_tables \<Rightarrow> alert_view" where
  "tables_view w = \<lparr>av_alerts = alert_row (at_alerts w), av_candidates = set (recorded_candidates w),
     av_events = at_events w\<rparr>"

lemma tables_view_fields [simp]:
  "av_alerts (tables_view w) = alert_row (at_alerts w)"
  "av_candidates (tables_view w) = set (recorded_candidates w)"
  "av_events (tables_view w) = at_events w"
  by (simp_all add: tables_view_def)

lemma tables_view_env [simp]:
  "tables_view (w\<lparr>env_faults := fs\<rparr>) = tables_view w"
  "tables_view (w\<lparr>env_clock := t\<rparr>) = tables_view w"
  "tables_view (w\<lparr>env_ticks := ns\<rparr>) = tables_view w"
  "tables_view (w\<lparr>env_ids := ids\<rparr>) = tables_view w"
  by (simp_all add: tables_view_def recorded_candidates_def)

section \<open>The tables keep the contract\<close>

lemma alert_row_id: "alert_row rows i = Some a \<Longrightarrow> al_AlertID a = i"
  by (auto simp: alert_row_def find_Some_iff)

lemma alert_row_Cons: "alert_row (a # rows) = (alert_row rows)(al_AlertID a \<mapsto> a)"
  by (rule ext) (simp add: alert_row_def)

lemma alert_row_update_other:
  "i \<noteq> al_AlertID a \<Longrightarrow>
   alert_row (map (\<lambda>b. if al_AlertID b = al_AlertID a then a else b) rows) i = alert_row rows i"
  by (induction rows) (auto simp: alert_row_def)

lemma alert_row_update_same:
  "alert_row rows (al_AlertID a) \<noteq> None \<Longrightarrow>
   alert_row (map (\<lambda>b. if al_AlertID b = al_AlertID a then a else b) rows) (al_AlertID a) = Some a"
  by (induction rows) (auto simp: alert_row_def split: if_splits)

lemma alert_row_update:
  "alert_row rows (al_AlertID a) \<noteq> None \<Longrightarrow>
   alert_row (map (\<lambda>b. if al_AlertID b = al_AlertID a then a else b) rows) =
     (alert_row rows)(al_AlertID a \<mapsto> a)"
  by (rule ext) (simp add: alert_row_update_same alert_row_update_other del: not_None_eq)

lemma active_row_Some:
  "active_row rows k = Some a \<Longrightarrow>
     alert_row rows (al_AlertID a) = Some a \<and> al_Status a = AlertActive \<and> al_AlertKey a = k"
  by (auto simp: active_row_def find_Some_iff)

lemma active_row_None:
  assumes "active_row rows k = None" and "alert_row rows i = Some a" and "al_Status a = AlertActive"
  shows "al_AlertKey a \<noteq> k"
proof -
  have "a \<in> set rows" using assms(2) unfolding alert_row_def find_Some_iff by auto
  then show ?thesis
    using assms alert_row_id [OF assms(2)] by (auto simp: active_row_def find_None_iff)
qed

lemmas sql_defs = sql_TryRecordCandidate_def sql_GetActiveAlertByKey_def sql_GetAlert_def
  sql_CreateAlert_def sql_SaveAlert_def sql_RecordAlertEvent_def

lemma with_faultE:
  assumes "with_fault m w = (r, w')"
    and "\<And>fs. r = Inl injected_fault \<Longrightarrow> w' = w\<lparr>env_faults := fs\<rparr> \<Longrightarrow> P"
    and "m w = (r, w') \<Longrightarrow> P" and "\<And>fs. m (w\<lparr>env_faults := fs\<rparr>) = (r, w') \<Longrightarrow> P"
  shows P
  using assms by (auto simp: with_fault_def split: list.splits if_splits)

lemma alert_service_simps [simp]:
  "asv_Repository alert_service = Some alert_repository"
  "asv_Verifier alert_service = Some fake_VerifyCandidate"
  "asv_IDGenerator alert_service = Some next_id" "asv_Clock alert_service = Some read_clock"
  "asv_TimeNow alert_service = read_clock"
  by (simp_all add: alert_service_def)

lemma recorded_candidates_env [simp]: "recorded_candidates (w\<lparr>env_faults := fs\<rparr>) = recorded_candidates w"
  by (simp add: recorded_candidates_def)

interpretation alerts: alert_contract alert_service alert_repository fake_VerifyCandidate tables_view
proof unfold_locales
  fix c w recorded w'
  assume "arp_TryRecordCandidate alert_repository c w = (recorded, w')"
  then show "case recorded of Inl e \<Rightarrow> tables_view w' = tables_view w
    | Inr b \<Rightarrow> b = (can_CandidateID c \<notin> av_candidates (tables_view w)) \<and> tables_view w' =
        (tables_view w)\<lparr>av_candidates := insert (can_CandidateID c) (av_candidates (tables_view w))\<rparr>"
    unfolding alert_repository_def AlertRepository.simps
    by (elim with_faultE) (auto simp: sql_defs candidate_reference_def tables_view_def
        recorded_candidates_def split: if_splits)
next
  fix w k active w'
  assume "arp_GetActiveAlertByKey alert_repository k w = (active, w')"
  then show "tables_view w' = tables_view w \<and> (case active of
      Inl e \<Rightarrow> errors_Is e ErrAlertNotFound \<longrightarrow> key_free (tables_view w) k
    | Inr a \<Rightarrow> av_alerts (tables_view w) (al_AlertID a) = Some a \<and> al_Status a = AlertActive \<and>
        al_AlertKey a = k)"
    unfolding alert_repository_def AlertRepository.simps
    by (elim with_faultE) (auto simp: sql_defs key_free_def injected_fault_def ErrAlertNotFound_def
        dest: active_row_Some active_row_None split: option.splits)
next
  fix i w got w'
  assume "arp_GetAlert alert_repository i w = (got, w')"
  then show "tables_view w' = tables_view w \<and>
    (case got of Inl e \<Rightarrow> True | Inr a \<Rightarrow> av_alerts (tables_view w) i = Some a)"
    unfolding alert_repository_def AlertRepository.simps
    by (elim with_faultE) (auto simp: sql_defs split: option.splits)
next
  fix a w r w'
  assume "arp_CreateAlert alert_repository a w = (r, w')"
  then show "case r of Inl e \<Rightarrow> tables_view w' = tables_view w
    | Inr u \<Rightarrow> av_alerts (tables_view w) (al_AlertID a) = None \<and>
        tables_view w' = put_alert a (tables_view w)"
    unfolding alert_repository_def AlertRepository.simps
    by (elim with_faultE) (auto simp: sql_defs alert_row_Cons put_alert_def tables_view_def
        recorded_candidates_def split: if_splits)
next
  fix a w r w'
  assume "arp_SaveAlert alert_repository a w = (r, w')"
  then show "case r of Inl e \<Rightarrow> tables_view w' = tables_view w
    | Inr u \<Rightarrow> tables_view w' = put_alert a (tables_view w)"
    unfolding alert_repository_def AlertRepository.simps
    by (elim with_faultE) (auto simp: sql_defs alert_row_update put_alert_def tables_view_def
        recorded_candidates_def split: if_splits)
next
  fix ev w r w'
  assume "arp_RecordAlertEvent alert_repository ev w = (r, w')"
  then show "case r of Inl e \<Rightarrow> tables_view w' = tables_view w
    | Inr u \<Rightarrow> tables_view w' = (tables_view w)\<lparr>av_events := av_events (tables_view w) @ [ev]\<rparr>"
    unfolding alert_repository_def AlertRepository.simps
    by (elim with_faultE) (auto simp: sql_defs tables_view_def recorded_candidates_def split: if_splits)
next
  fix c w vr w'
  assume "fake_VerifyCandidate c w = (vr, w')"
  then show "tables_view w' = tables_view w"
    unfolding fake_VerifyCandidate_def by (elim with_faultE) auto
next
  fix f w t w'
  assume "asv_Clock alert_service = Some f" and "f w = (t, w')"
  then show "tables_view w' = tables_view w" by (auto simp: read_clock_def split: list.splits)
next
  fix w t w'
  assume "asv_TimeNow alert_service w = (t, w')"
  then show "tables_view w' = tables_view w" by (auto simp: read_clock_def split: list.splits)
next
  fix g w x w'
  assume "asv_IDGenerator alert_service = Some g" and "g w = (x, w')"
  then show "tables_view w' = tables_view w" by (auto simp: next_id_def split: list.splits)
qed simp_all

section \<open>Sequences of calls\<close>

datatype alert_call =
    CallIntake Candidate
  | CallAcknowledge AlertActionRequest
  | CallSnooze AlertActionRequest
  | CallResolve AlertActionRequest

fun run_alert_call :: "'w AlertService \<Rightarrow> alert_call \<Rightarrow> 'w \<Rightarrow> 'w" where
  "run_alert_call s (CallIntake c) w = snd (alerting_IntakeCandidate s c w)"
| "run_alert_call s (CallAcknowledge req) w = snd (alerting_AcknowledgeAlert s req w)"
| "run_alert_call s (CallSnooze req) w = snd (alerting_SnoozeAlert s req w)"
| "run_alert_call s (CallResolve req) w = snd (alerting_ResolveAlert s req w)"

fun run_alert_calls :: "'w AlertService \<Rightarrow> alert_call list \<Rightarrow> 'w \<Rightarrow> 'w" where
  "run_alert_calls s [] w = w"
| "run_alert_calls s (c # cs) w = run_alert_calls s cs (run_alert_call s c w)"

definition empty_tables :: "alert_tables \<Rightarrow> bool" where
  "empty_tables w \<longleftrightarrow> at_alerts w = [] \<and> at_candidates w = [] \<and> at_events w = []"

inductive alert_reachable :: "alert_tables \<Rightarrow> bool" where
  start: "empty_tables w \<Longrightarrow> alert_reachable w"
| call: "alert_reachable w \<Longrightarrow> alert_reachable (run_alert_call alert_service c w)"

lemma tables_keys_ok [simp]: "alert_keys_ok (tables_view w)"
  by (auto simp: alert_keys_ok_def dest: alert_row_id)

lemma run_alert_call_steps:
  "alert_steps (tables_view w) (tables_view (run_alert_call alert_service c w))"
  by (cases c) (auto intro!: wp_worldD [where P = "\<lambda>w'. alert_steps (tables_view w) (tables_view w')"]
      alerts.implements_IntakeCandidate
      alerts.implements_Acknowledge alerts.implements_Snooze alerts.implements_Resolve)

lemma run_alert_calls_steps:
  "alert_steps (tables_view w) (tables_view (run_alert_calls alert_service cs w))"
  by (induction cs arbitrary: w) (auto intro: rtranclp_trans [OF run_alert_call_steps])

lemma run_alert_calls_reachable:
  "alert_reachable w \<Longrightarrow> alert_reachable (run_alert_calls alert_service cs w)"
  by (induction cs arbitrary: w) (auto intro: alert_reachable.call)

lemma reachable_alert_inv: "alert_reachable w \<Longrightarrow> alert_inv (tables_view w)"
proof (induction rule: alert_reachable.induct)
  case (start w)
  then show ?case
    by (simp add: empty_tables_def alert_inv_def alert_keys_ok_def one_active_def alert_row_def)
next
  case (call w c)
  then show ?case using alert_steps_inv [OF run_alert_call_steps] by blast
qed

lemma candidate_reference_view: "candidate_reference w i \<longleftrightarrow> i \<in> av_candidates (tables_view w)"
  by (simp add: candidate_reference_def)

lemma alert_step_candidates: "alert_step v v' \<Longrightarrow> av_candidates v \<subseteq> av_candidates v'"
  by (induction rule: alert_step.induct) auto

lemma alert_steps_candidates: "alert_steps v v' \<Longrightarrow> av_candidates v \<subseteq> av_candidates v'"
  by (induction rule: rtranclp_induct) (auto dest: alert_step_candidates)

lemma run_alert_calls_candidates:
  "i \<in> av_candidates (tables_view w) \<Longrightarrow>
   i \<in> av_candidates (tables_view (run_alert_calls alert_service cs w))"
  using alert_steps_candidates [OF run_alert_calls_steps] by blast

lemma alerting_now_tables: "alerting_now alert_service w = (Inr (env_clock w), snd (read_clock w))"
  by (simp add: alerting_now_def clock_now_def op_defs read_clock_def split: prod.split)

lemma read_clock_tables [simp]:
  "at_alerts (snd (read_clock w)) = at_alerts w" "at_candidates (snd (read_clock w)) = at_candidates w"
  "at_events (snd (read_clock w)) = at_events w"
  "at_verification (snd (read_clock w)) = at_verification w"
  "env_faults (snd (read_clock w)) = env_faults w"
  "candidate_reference (snd (read_clock w)) i = candidate_reference w i"
  "tables_view (snd (read_clock w)) = tables_view w"
  by (auto simp: read_clock_def candidate_reference_def recorded_candidates_def tables_view_def
      split: list.split)

lemma validateCandidate_time:
  "validateCandidate (normalizeCandidate c t) = validateCandidate (normalizeCandidate c u)"
  by (simp add: validateCandidate_def normalizeCandidate_def)

lemma normalized_candidate_id: "can_CandidateID (normalizeCandidate c t) = TrimSpace (can_CandidateID c)"
  by (simp add: normalizeCandidate_def)

lemma invalid_intake:
  "validateCandidate (normalizeCandidate c (env_clock w)) \<noteq> None \<Longrightarrow>
   tables_view (snd (alerting_IntakeCandidate alert_service c w)) = tables_view w"
  by (auto simp: alerting_IntakeCandidate_def op_defs alerting_now_tables Let_def)

lemma recorded_intake:
  "validateCandidate (normalizeCandidate c t) = None \<Longrightarrow>
   candidate_reference w (TrimSpace (can_CandidateID c)) \<Longrightarrow> env_faults w = [] \<Longrightarrow>
   \<exists>u. alerting_IntakeCandidate alert_service c w = (Inr (candidate_result True True False None), u) \<and>
     tables_view u = tables_view w"
  using validateCandidate_time [of c t "env_clock w"]
  by (simp add: alerting_IntakeCandidate_def op_defs alerting_now_tables Let_def
      alert_repository_def sql_TryRecordCandidate_def normalized_candidate_id)

lemma event_stored:
  assumes "env_faults w = []" and "alert_row (at_alerts w) (al_AlertID a) = Some b"
    and "al_AlertID a \<noteq> []" and "json_Valid (alerting_normalizeJSON md)"
    and "ty = EventResolved \<or> ty = EventUpdated"
  shows "\<exists>w'. alerting_recordEvent alert_service alert_repository a c ty ''system'' ''system'' md w =
    (Inr (), w') \<and> at_alerts w' = at_alerts w"
proof -
  have "TrimSpace ''system'' = ''system''" by code_simp
  then show ?thesis
    using assms by (auto simp: alerting_recordEvent_def op_defs alerting_now_tables Let_def
        alert_repository_def sql_RecordAlertEvent_def validateAlertEvent_def actorType_def actorID_def)
qed

lemma save_stored:
  assumes "env_faults w = []" and "active_row (at_alerts w) (al_AlertKey a) = Some a"
    and "al_AlertID b = al_AlertID a" and "al_AlertKey b = al_AlertKey a" and "alert_row_valid w b"
  shows "\<exists>w'. arp_SaveAlert alert_repository b w = (Inr (), w') \<and> env_faults w' = [] \<and>
    alert_row (at_alerts w') = (alert_row (at_alerts w))(al_AlertID a \<mapsto> b)"
proof -
  have "alert_row (at_alerts w) (al_AlertID b) = Some a" using active_row_Some [OF assms(2)] assms(3) by simp
  then show ?thesis
    using assms by (auto simp: alert_repository_def sql_SaveAlert_def active_key_clash_def
        alert_row_update [of _ b, unfolded assms(3)] split: option.split)
qed

lemma alert_row_valid_clock [simp]: "alert_row_valid (snd (read_clock w)) a = alert_row_valid w a"
  by (simp add: alert_row_valid_def)

lemma resolve_active:
  assumes "env_faults w = []" and "active_row (at_alerts w) (al_AlertKey a) = Some a"
    and "al_AlertID a \<noteq> []" and "alert_row_valid w a" and "candidate_reference w (TrimSpace k)"
    and "TrimSpace k \<noteq> []"
  shows "\<exists>w'. resolveAlert alert_service alert_repository a k ''candidate_recovered'' ''system''
      ''system'' w = (Inr (resolved_alert a k ''candidate_recovered'' (env_clock w)), w') \<and>
    alert_row (at_alerts w') = (alert_row (at_alerts w))(al_AlertID a \<mapsto>
      resolved_alert a k ''candidate_recovered'' (env_clock w))"
proof -
  let ?b = "resolved_alert a k ''candidate_recovered'' (env_clock w)"
  have "alert_row_valid w ?b" using assms(4,5) by (simp add: alert_row_valid_def resolved_alert_def)
  then obtain w1 where save: "arp_SaveAlert alert_repository ?b (snd (read_clock w)) = (Inr (), w1)"
      "env_faults w1 = []" "alert_row (at_alerts w1) = (alert_row (at_alerts w))(al_AlertID a \<mapsto> ?b)"
    using save_stored [of "snd (read_clock w)" a ?b] assms(1,2) by (auto simp: resolved_alert_def)
  have "json_Valid (alerting_normalizeJSON (reasonMetadata ''candidate_recovered''))" by code_simp
  then obtain w2 where "alerting_recordEvent alert_service alert_repository ?b (TrimSpace k)
      EventResolved ''system'' ''system'' (reasonMetadata ''candidate_recovered'') w1 = (Inr (), w2)"
      "at_alerts w2 = at_alerts w1"
    using event_stored [of w1 ?b ?b] save(2,3) assms(3) by force
  with save active_row_Some [OF assms(2)] show ?thesis
    by (simp add: resolveAlert_def op_defs alerting_now_tables Let_def)
qed

lemma update_active:
  assumes "env_faults w = []" and "active_row (at_alerts w) (al_AlertKey a) = Some a"
    and "al_AlertID a \<noteq> []" and "alert_row_valid w a" and "candidate_reference w (can_CandidateID c)"
    and "ver_Severity v \<in> {SeverityCritical, SeverityWarning, SeverityInfo}"
    and "json_Valid (alerting_normalizeJSON (ver_Metadata v))"
  shows "\<exists>w'. updateAlert alert_service alert_repository a c v w =
      (Inr (updated_alert a c v (env_clock w)), w') \<and>
    alert_row (at_alerts w') = (alert_row (at_alerts w))(al_AlertID a \<mapsto> updated_alert a c v (env_clock w))"
proof -
  let ?b = "updated_alert a c v (env_clock w)"
  have "alert_row_valid w ?b"
    using assms(4,5,6) by (auto simp: alert_row_valid_def updated_alert_def)
  then obtain w1 where save: "arp_SaveAlert alert_repository ?b (snd (read_clock w)) = (Inr (), w1)"
      "env_faults w1 = []" "alert_row (at_alerts w1) = (alert_row (at_alerts w))(al_AlertID a \<mapsto> ?b)"
    using save_stored [of "snd (read_clock w)" a ?b] assms(1,2) by (auto simp: updated_alert_def)
  obtain w2 where "alerting_recordEvent alert_service alert_repository ?b (can_CandidateID c)
      EventUpdated ''system'' ''system'' (ver_Metadata v) w1 = (Inr (), w2)"
      "at_alerts w2 = at_alerts w1"
    using event_stored [of w1 ?b ?b] save(2,3) assms(3,7) by force
  with save show ?thesis by (simp add: updateAlert_def op_defs alerting_now_tables Let_def)
qed

lemma intake_active:
  assumes "env_faults w = []"
    and "validateCandidate (normalizeCandidate c (env_clock w)) = None"
    and "\<not> candidate_reference w (can_CandidateID (normalizeCandidate c (env_clock w)))"
    and "v = at_verification w (normalizeCandidate c (env_clock w))" and "validateVerification v = None"
    and "active_row (at_alerts w) (ver_AlertKey v) = Some a" and "alert_row_valid w a"
    and "al_AlertID a \<noteq> []"
    and "ver_Healthy v \<or> ver_Severity v \<in> {SeverityCritical, SeverityWarning, SeverityInfo}"
  shows "\<exists>b w'. alerting_IntakeCandidate alert_service c w =
      (Inr (candidate_result False False (ver_Healthy v) (Some b)), w') \<and>
    alert_row (at_alerts w') = (alert_row (at_alerts w))(al_AlertID a \<mapsto> b) \<and> same_alert a b \<and>
    al_LastCandidateID b = can_CandidateID (normalizeCandidate c (env_clock w)) \<and>
    (if ver_Healthy v
     then al_Status b = AlertResolved \<and> al_ResolvedAt b \<noteq> None \<and>
       al_OccurrenceCount b = al_OccurrenceCount a
     else al_Status b = AlertActive \<and> al_Severity b = ver_Severity v \<and>
       al_OccurrenceCount b = al_OccurrenceCount a + 1)"
proof -
  define cand where "cand = normalizeCandidate c (env_clock w)"
  define u where "u = (snd (read_clock w))\<lparr>at_candidates := cand # at_candidates w\<rparr>"
  have id: "TrimSpace (can_CandidateID cand) = can_CandidateID cand" "can_CandidateID cand \<noteq> []"
    using assms(2) by (auto simp: cand_def validateCandidate_def split: if_splits)
  have u: "env_faults u = []" "at_alerts u = at_alerts w" "candidate_reference u (can_CandidateID cand)"
      "alert_row_valid u a" "active_row (at_alerts u) (al_AlertKey a) = Some a"
    using assms(1,6,7,8) active_row_Some [OF assms(6)]
    by (auto simp: u_def candidate_reference_def recorded_candidates_def alert_row_valid_def)
  have run: "alerting_IntakeCandidate alert_service c w =
    (if ver_Healthy v
     then bindE (resolveAlert alert_service alert_repository a (can_CandidateID cand)
            ''candidate_recovered'' ''system'' ''system'') (\<lambda>b. ret (candidate_result False False True (Some b))) u
     else bindE (updateAlert alert_service alert_repository a cand v)
            (\<lambda>b. ret (candidate_result False False False (Some b))) u)"
    using assms unfolding u_def cand_def
    by (simp add: alerting_IntakeCandidate_def op_defs alerting_now_tables Let_def
        alert_repository_def sql_TryRecordCandidate_def sql_GetActiveAlertByKey_def
        fake_VerifyCandidate_def)
  show ?thesis
  proof (cases "ver_Healthy v")
    case True
    then show ?thesis
      using run resolve_active [OF u(1,5) assms(8) u(4), of "can_CandidateID cand"] u(2,3) id
      by (auto simp: op_defs resolved_alert_def same_alert_def cand_def)
  next
    case False
    moreover from this assms(5) have "json_Valid (alerting_normalizeJSON (ver_Metadata v))"
      by (auto simp: validateVerification_def split: if_splits)
    ultimately show ?thesis
      using run update_active [OF u(1,5) assms(8) u(4,3), of v] u(2) assms(9) active_row_Some [OF assms(6)]
      by (auto simp: op_defs updated_alert_def same_alert_def cand_def)
  qed
qed

section \<open>Properties\<close>

text \<open>C3: Every sequence of calls of the alert service, whichever repository or verifier calls fail,
  is a sequence of steps of the abstract alert machine.\<close>

theorem alert_calls_refine_machine:
  "alert_steps (tables_view w) (tables_view (run_alert_calls alert_service cs w))"
  by (rule run_alert_calls_steps)

text \<open>C14: In every reachable store at most one alert per key is active, an alert is resolved exactly
  if it has a resolution time, its occurrence count is positive, the candidates it names are
  recorded, and every event belongs to an alert.\<close>

theorem alert_store_invariant:
  assumes "alert_reachable w" and "alert_row (at_alerts w) i = Some a"
  shows "al_AlertID a = i \<and> (al_Status a = AlertActive \<or> al_Status a = AlertResolved) \<and>
    (al_Status a = AlertResolved \<longleftrightarrow> al_ResolvedAt a \<noteq> None) \<and> 1 \<le> al_OccurrenceCount a \<and>
    candidate_reference w (al_FirstCandidateID a) \<and> candidate_reference w (al_LastCandidateID a) \<and>
    (\<forall>j b. alert_row (at_alerts w) j = Some b \<and> al_Status a = AlertActive \<and>
       al_Status b = AlertActive \<and> al_AlertKey b = al_AlertKey a \<longrightarrow> j = i) \<and>
    (\<forall>e \<in> set (at_events w). alert_row (at_alerts w) (ae_AlertID e) \<noteq> None)"
proof -
  from reachable_alert_inv [OF assms(1)] have inv: "alert_inv (tables_view w)" .
  have ok: "alert_ok (set (recorded_candidates w)) a"
    using alert_inv_parts(2) [OF inv, of i a] assms(2) by simp
  have one: "j = i" if "alert_row (at_alerts w) j = Some b" "al_Status a = AlertActive"
      "al_Status b = AlertActive" "al_AlertKey b = al_AlertKey a" for j b
    using one_activeD [OF alert_inv_parts(1) [OF inv], of j b i a] that assms(2) by simp
  have "\<forall>e \<in> set (at_events w). alert_row (at_alerts w) (ae_AlertID e) \<noteq> None"
    using inv by (simp add: alert_inv_def)
  with ok one alert_row_id [OF assms(2)] show ?thesis
    by (auto simp: alert_ok_def candidate_reference_def)
qed

text \<open>No later call changes whose alert an alert is, lowers its occurrence count or reopens it:
  a resolved alert keeps its status, resolution time and count.\<close>

theorem resolved_alert_stays_resolved:
  assumes "alert_row (at_alerts w) i = Some a"
  shows "\<exists>b. alert_row (at_alerts (run_alert_calls alert_service cs w)) i = Some b \<and> same_alert a b \<and>
    al_OccurrenceCount a \<le> al_OccurrenceCount b \<and>
    (al_Status a = AlertResolved \<longrightarrow> al_Status b = AlertResolved \<and>
       al_ResolvedAt b = al_ResolvedAt a \<and> al_OccurrenceCount b = al_OccurrenceCount a)"
  using alert_steps_evolves [OF run_alert_calls_steps, of w i a cs] assms by (auto simp: evolves_def)

text \<open>Without faults, a new valid candidate whose key has an active alert either resolves exactly
  that alert (the source has recovered) or counts one more occurrence of it.\<close>

theorem intake_with_active_alert:
  assumes "env_faults w = []"
    and "validateCandidate (normalizeCandidate c (env_clock w)) = None"
    and "\<not> candidate_reference w (can_CandidateID (normalizeCandidate c (env_clock w)))"
    and "v = at_verification w (normalizeCandidate c (env_clock w))" and "validateVerification v = None"
    and "active_row (at_alerts w) (ver_AlertKey v) = Some a" and "alert_row_valid w a"
    and "al_AlertID a \<noteq> []"
    and "ver_Healthy v \<or> ver_Severity v \<in> {SeverityCritical, SeverityWarning, SeverityInfo}"
  shows "\<exists>b w'. alerting_IntakeCandidate alert_service c w =
      (Inr (candidate_result False False (ver_Healthy v) (Some b)), w') \<and>
    alert_row (at_alerts w') = (alert_row (at_alerts w))(al_AlertID a \<mapsto> b) \<and> same_alert a b \<and>
    al_LastCandidateID b = can_CandidateID (normalizeCandidate c (env_clock w)) \<and>
    (if ver_Healthy v
     then al_Status b = AlertResolved \<and> al_ResolvedAt b \<noteq> None \<and>
       al_OccurrenceCount b = al_OccurrenceCount a
     else al_Status b = AlertActive \<and> al_Severity b = ver_Severity v \<and>
       al_OccurrenceCount b = al_OccurrenceCount a + 1)"
  using assms by (rule intake_active)

text \<open>A candidate is recorded before it is verified, so an intake that fails after the recording
  is lost: every later delivery of the candidate is taken for a duplicate and leaves candidates,
  alerts and events as they are.\<close>

theorem failed_candidate_is_dropped:
  assumes "alerting_IntakeCandidate alert_service c w = (Inl e, w')"
    and "\<not> candidate_reference w (TrimSpace (can_CandidateID c))"
    and "candidate_reference w' (TrimSpace (can_CandidateID c))"
    and "env_faults (run_alert_calls alert_service cs w') = []"
  shows "\<exists>u. alerting_IntakeCandidate alert_service c (run_alert_calls alert_service cs w') =
      (Inr (candidate_result True True False None), u) \<and>
    tables_view u = tables_view (run_alert_calls alert_service cs w')"
proof -
  have "validateCandidate (normalizeCandidate c (env_clock w)) = None"
    using invalid_intake [of c w] assms(1-3) by (metis candidate_reference_view snd_conv)
  moreover have "candidate_reference (run_alert_calls alert_service cs w') (TrimSpace (can_CandidateID c))"
    using assms(3) run_alert_calls_candidates by (auto simp: candidate_reference_view)
  ultimately show ?thesis using recorded_intake assms(4) by blast
qed

section \<open>Witnesses\<close>

definition demo_verification :: "Candidate \<Rightarrow> CandidateVerification" where
  "demo_verification c =
     \<lparr>ver_Healthy = (can_CandidateID c = ''k3''), ver_AlertKey = ''key'',
      ver_Family = FamilyBackupFailed, ver_Severity = SeverityWarning, ver_Title = ''t'',
      ver_Detail = ''d'', ver_ReasonCode = ''r'', ver_Metadata = []\<rparr>"

definition demo_tables :: alert_tables where
  "demo_tables = \<lparr>env_faults = [], env_clock = 5, env_ticks = [], env_ids = [''a1'', ''a2''],
     at_alerts = [], at_candidates = [], at_events = [], at_verification = demo_verification\<rparr>"

definition demo_candidate :: "string \<Rightarrow> Candidate" where
  "demo_candidate i = \<lparr>can_CandidateID = i, can_EventType = ''e'', can_AccountID = ''acc'',
     can_SiteID = ''s'', can_DeviceID = [], can_Source = ''src'', can_PreviousState = [],
     can_NewState = [], can_Metadata = [], can_OccurredAt = 3, can_ReceivedAt = 0\<rparr>"

definition demo_alerted :: alert_tables where
  "demo_alerted = run_alert_calls alert_service [CallIntake (demo_candidate ''k1'')] demo_tables"

definition demo_resolved :: alert_tables where
  "demo_resolved = run_alert_calls alert_service [CallIntake (demo_candidate ''k3'')] demo_alerted"

lemma demo_alerted_eval:
  "env_faults demo_alerted = []" "candidate_reference demo_alerted ''k2'' = False"
  "map_option (\<lambda>a. (al_AlertID a, al_Status a, al_OccurrenceCount a)) (alert_row (at_alerts demo_alerted) ''a1'') =
     Some (''a1'', AlertActive, 1)"
  by code_simp+

lemma demo_reachable_alerted: "alert_reachable demo_alerted"
  unfolding demo_alerted_def
  by (rule run_alert_calls_reachable, rule alert_reachable.start)
     (simp add: empty_tables_def demo_tables_def)

theorem alert_store_invariant_witness:
  "\<exists>a. alert_row (at_alerts demo_alerted) ''a1'' = Some a \<and> al_ResolvedAt a = None"
proof -
  from demo_alerted_eval(3) obtain a where a: "alert_row (at_alerts demo_alerted) ''a1'' = Some a"
    "al_Status a = AlertActive" by auto
  from alert_store_invariant [OF demo_reachable_alerted a(1)] a show ?thesis by auto
qed

theorem resolved_alert_stays_resolved_witness:
  "\<exists>b. alert_row (at_alerts (run_alert_calls alert_service [CallIntake (demo_candidate ''k2'')]
       demo_resolved)) ''a1'' = Some b \<and> al_Status b = AlertResolved"
proof -
  have "map_option al_Status (alert_row (at_alerts demo_resolved) ''a1'') = Some AlertResolved"
    by code_simp
  then obtain a where "alert_row (at_alerts demo_resolved) ''a1'' = Some a" "al_Status a = AlertResolved"
    by auto
  from resolved_alert_stays_resolved [OF this(1), of "[CallIntake (demo_candidate ''k2'')]"] this(2)
  show ?thesis by blast
qed

theorem intake_with_active_alert_witness:
  "\<exists>b w'. alerting_IntakeCandidate alert_service (demo_candidate ''k2'') demo_alerted =
      (Inr (candidate_result False False False (Some b)), w') \<and> al_Status b = AlertActive"
proof -
  let ?c = "normalizeCandidate (demo_candidate ''k2'') (env_clock demo_alerted)"
  let ?v = "at_verification demo_alerted ?c"
  have ev: "validateCandidate ?c = None" "candidate_reference demo_alerted (can_CandidateID ?c) = False"
    "validateVerification ?v = None" "ver_Healthy ?v = False" "ver_Severity ?v = SeverityWarning"
    "map_option (\<lambda>a. (alert_row_valid demo_alerted a, al_AlertID a))
       (active_row (at_alerts demo_alerted) (ver_AlertKey ?v)) = Some (True, ''a1'')"
    by code_simp+
  from ev(6) obtain a where a: "active_row (at_alerts demo_alerted) (ver_AlertKey ?v) = Some a"
    "alert_row_valid demo_alerted a" "al_AlertID a \<noteq> []" by auto
  from intake_with_active_alert [OF demo_alerted_eval(1) ev(1) _ refl ev(3) a] ev(2,4,5)
  show ?thesis by auto
qed

definition demo_failing :: alert_tables where
  "demo_failing = demo_tables\<lparr>env_faults := [False, True]\<rparr>"

theorem failed_candidate_is_dropped_witness:
  "\<exists>e w' u. alerting_IntakeCandidate alert_service (demo_candidate ''k1'') demo_failing = (Inl e, w') \<and>
     at_alerts w' = [] \<and>
     alerting_IntakeCandidate alert_service (demo_candidate ''k1'') w' =
       (Inr (candidate_result True True False None), u) \<and> tables_view u = tables_view w'"
proof -
  have ev: "case alerting_IntakeCandidate alert_service (demo_candidate ''k1'') demo_failing of
      (r, w') \<Rightarrow> isl r \<and> candidate_reference w' ''k1'' \<and> env_faults w' = [] \<and> at_alerts w' = []"
    "candidate_reference demo_failing ''k1'' = False"
    "TrimSpace (can_CandidateID (demo_candidate ''k1'')) = ''k1''"
    by code_simp+
  obtain r w' where run: "alerting_IntakeCandidate alert_service (demo_candidate ''k1'') demo_failing = (r, w')"
    by (cases "alerting_IntakeCandidate alert_service (demo_candidate ''k1'') demo_failing")
  with ev(1) obtain e where r: "r = Inl e" and w': "candidate_reference w' ''k1''" "env_faults w' = []"
    "at_alerts w' = []" by (auto simp: isl_def)
  from failed_candidate_is_dropped [OF run [unfolded r], of "[]"] ev(2,3) w' run r
  show ?thesis by auto
qed

end
