(* ===== verification/Alert_Recipients.thy ===== *)
theory Alert_Recipients
  imports Alerting
begin

text \<open>
  The alert recipient service (\<open>backend/internal/domain/alerting/recipients.go\<close>): who may be mailed
  about an alert.

  \<open>parse\<close> stands for the address of \<open>mail.ParseAddress\<close> (absent when it returns an error); nothing is
  assumed of it. \<open>recipient_contract\<close> states what the repository, the authorization and the clock
  promise; \<open>recipient_service\<close> is the service over the fakes of \<open>recipients_test.go\<close>, with a
  schedule of failing calls, and interprets the contract.
\<close>

section \<open>Data\<close>

datatype RecipientStatus =
    RecipientPending | RecipientVerified | RecipientDisabled | RecipientDeleted
  | OtherRecipientStatus string

fun recipient_status_text :: "RecipientStatus \<Rightarrow> string" where
  "recipient_status_text RecipientPending = ''pending_verification''"
| "recipient_status_text RecipientVerified = ''verified''"
| "recipient_status_text RecipientDisabled = ''disabled''"
| "recipient_status_text RecipientDeleted = ''deleted''"
| "recipient_status_text (OtherRecipientStatus s) = s"

type_synonym SubscriptionFamily = string

definition SubscriptionDeviceDisconnected :: SubscriptionFamily where
  "SubscriptionDeviceDisconnected = ''device_disconnected''"

definition SubscriptionBackupFailedOrOverdue :: SubscriptionFamily where
  "SubscriptionBackupFailedOrOverdue = ''backup_failed_or_overdue''"

definition SubscriptionAppUpdateAttention :: SubscriptionFamily where
  "SubscriptionAppUpdateAttention = ''app_update_attention''"

record AlertSubscription =
  sub_Family :: SubscriptionFamily
  sub_Enabled :: bool

record AlertRecipient =
  rec_AlertRecipientID :: string
  rec_AccountID :: string
  rec_SiteID :: string
  rec_Email :: string
  rec_EmailNormalized :: string
  rec_DisplayLabel :: string
  rec_Channel :: string
  rec_Status :: RecipientStatus
  rec_CreatedByUserID :: string
  rec_VerifiedAt :: "time option"
  rec_DisabledAt :: "time option"
  rec_DeletedAt :: "time option"
  rec_Subscriptions :: "AlertSubscription list"
  rec_CreatedAt :: time
  rec_UpdatedAt :: time

record CreateRecipientRequest =
  crq_AccountID :: string
  crq_SiteID :: string
  crq_Email :: string
  crq_DisplayLabel :: string
  crq_ActorUserID :: string
  crq_ActorEmail :: string
  crq_ActorEmailVerified :: bool
  crq_SubscribedFamilies :: "SubscriptionFamily list"

record UpdateRecipientRequest =
  urq_AlertRecipientID :: string
  urq_AccountID :: string
  urq_SiteID :: string
  urq_DisplayLabel :: string
  urq_Status :: RecipientStatus
  urq_ActorUserID :: string
  urq_SubscribedFamilies :: "SubscriptionFamily list"

record DeleteRecipientRequest =
  drq_AlertRecipientID :: string
  drq_AccountID :: string
  drq_SiteID :: string
  drq_ActorUserID :: string

record 'w RecipientRepository =
  rrp_SaveRecipient :: "AlertRecipient \<Rightarrow> ('w, unit) op"
  rrp_GetRecipient :: "string \<Rightarrow> ('w, AlertRecipient) op"
  rrp_ListRecipientsForAccount :: "string \<Rightarrow> ('w, AlertRecipient list) op"

record 'w RecipientService =
  rsv_Repository :: "'w RecipientRepository option"
  rsv_Authorization :: "(string \<Rightarrow> string \<Rightarrow> string \<Rightarrow> ('w, bool) op) option"
  rsv_IDGenerator :: "('w, string) effect option"
  rsv_Clock :: "('w, time) effect option"
  rsv_TimeNow :: "('w, time) effect"

section \<open>Normalization and validation\<close>

definition validSubscriptionFamilies :: "SubscriptionFamily list" where
  "validSubscriptionFamilies =
     [SubscriptionDeviceDisconnected, SubscriptionBackupFailedOrOverdue, SubscriptionAppUpdateAttention]"

fun add_subscriptions :: "SubscriptionFamily list \<Rightarrow> SubscriptionFamily list \<Rightarrow> AlertSubscription list" where
  "add_subscriptions seen [] = []"
| "add_subscriptions seen (family # rest) =
     (if TrimSpace family \<notin> set validSubscriptionFamilies \<or> TrimSpace family \<in> set seen
      then add_subscriptions seen rest
      else \<lparr>sub_Family = TrimSpace family, sub_Enabled = True\<rparr> #
             add_subscriptions (TrimSpace family # seen) rest)"

definition normalizeSubscriptions :: "SubscriptionFamily list \<Rightarrow> AlertSubscription list" where
  "normalizeSubscriptions families =
     add_subscriptions []
       (if families = []
        then [SubscriptionDeviceDisconnected, SubscriptionBackupFailedOrOverdue,
              SubscriptionAppUpdateAttention]
        else families)"

definition subscriptionFamilyForAlert :: "Family \<Rightarrow> SubscriptionFamily option" where
  "subscriptionFamilyForAlert family =
     (case family of
        FamilyDeviceDisconnected \<Rightarrow> Some SubscriptionDeviceDisconnected
      | FamilyBackupFailed \<Rightarrow> Some SubscriptionBackupFailedOrOverdue
      | FamilyBackupOverdue \<Rightarrow> Some SubscriptionBackupFailedOrOverdue
      | FamilyAppUpdateAttention \<Rightarrow> Some SubscriptionAppUpdateAttention
      | OtherFamily _ \<Rightarrow> None)"

fun subscriptionEnabled :: "AlertSubscription list \<Rightarrow> SubscriptionFamily \<Rightarrow> bool" where
  "subscriptionEnabled [] family = False"
| "subscriptionEnabled (s # rest) family =
     (if sub_Family s = family \<and> sub_Enabled s then True else subscriptionEnabled rest family)"

definition normalizeEmail :: "(string \<Rightarrow> string option) \<Rightarrow> string \<Rightarrow> go_error + string \<times> string" where
  "normalizeEmail parse v =
     (case parse (TrimSpace v) of
        None \<Rightarrow> Inl (Errorf ''recipient email must be valid'' [])
      | Some address \<Rightarrow>
          (if ToLower (TrimSpace address) = [] then Inl (Errorf ''recipient email is required'' [])
           else Inr (TrimSpace address, ToLower (TrimSpace address))))"

definition validateRecipient :: "AlertRecipient \<Rightarrow> go_error option" where
  "validateRecipient r =
     (case first_error
        [(rec_AlertRecipientID r = [] \<or> rec_AccountID r = [],
          Errorf ''alert_recipient_id and account_id are required'' []),
         (rec_Channel r \<noteq> ''email'', Errorf ''unsupported alert recipient channel %q'' [rec_Channel r]),
         (rec_Email r = [] \<or> rec_EmailNormalized r = [], Errorf ''recipient email is required'' []),
         ((case rec_Status r of OtherRecipientStatus _ \<Rightarrow> True | _ \<Rightarrow> False),
          Errorf ''unsupported recipient status %q'' [recipient_status_text (rec_Status r)]),
         (rec_Subscriptions r = [], Errorf ''at least one alert subscription is required'' [])] of
        Some e \<Rightarrow> Some e
      | None \<Rightarrow>
          (case find (\<lambda>s. sub_Family s \<notin> set validSubscriptionFamilies) (rec_Subscriptions r) of
             Some s \<Rightarrow> Some (Errorf ''unsupported subscription family %q'' [sub_Family s])
           | None \<Rightarrow> None))"

section \<open>Operations\<close>

definition recipients_now :: "'w RecipientService \<Rightarrow> ('w, time) op" where
  "recipients_now s = clock_now (rsv_Clock s) (rsv_TimeNow s)"

definition newRecipientID :: "'w RecipientService \<Rightarrow> ('w, string) op" where
  "newRecipientID s =
     bindE (required (rsv_IDGenerator s) (Errorf ''alert recipient id generator is required'' [])) (\<lambda>gen.
     bindE (liftE gen) (\<lambda>i.
     bindE (failIf (TrimSpace i = []) (Errorf ''alert recipient id is required'' [])) (\<lambda>_.
     ret (TrimSpace i))))"

definition recipients_authorize ::
  "'w RecipientService \<Rightarrow> string \<Rightarrow> string \<Rightarrow> string \<Rightarrow> ('w, unit) op" where
  "recipients_authorize s actorUserID accountID siteID =
     bindE (failIf (TrimSpace actorUserID = [] \<or> TrimSpace accountID = [])
              (Errorf ''actor_user_id and account_id are required'' [])) (\<lambda>_.
     case rsv_Authorization s of
       None \<Rightarrow> ret ()
     | Some allow \<Rightarrow>
         bindE (wrapE ''authorize alert recipient management''
                  (allow (TrimSpace actorUserID) (TrimSpace accountID) (TrimSpace siteID))) (\<lambda>allowed.
         failIf (\<not> allowed) (Errorf ''actor is not authorized to manage alert recipients'' [])))"

definition actor_owns_email :: "(string \<Rightarrow> string option) \<Rightarrow> CreateRecipientRequest \<Rightarrow> string \<Rightarrow> bool" where
  "actor_owns_email parse req normalized \<longleftrightarrow> crq_ActorEmailVerified req \<and>
     (case normalizeEmail parse (crq_ActorEmail req) of
        Inl _ \<Rightarrow> False
      | Inr (_, actorEmail) \<Rightarrow> actorEmail = normalized)"

definition new_recipient ::
  "(string \<Rightarrow> string option) \<Rightarrow> CreateRecipientRequest \<Rightarrow> string \<Rightarrow> string \<Rightarrow> string \<Rightarrow> time \<Rightarrow>
   AlertRecipient" where
  "new_recipient parse req recipientID email normalized now =
     (let verified = actor_owns_email parse req normalized in
      \<lparr>rec_AlertRecipientID = recipientID, rec_AccountID = TrimSpace (crq_AccountID req),
       rec_SiteID = TrimSpace (crq_SiteID req), rec_Email = email, rec_EmailNormalized = normalized,
       rec_DisplayLabel = TrimSpace (crq_DisplayLabel req), rec_Channel = ''email'',
       rec_Status = (if verified then RecipientVerified else RecipientPending),
       rec_CreatedByUserID = TrimSpace (crq_ActorUserID req),
       rec_VerifiedAt = (if verified then Some now else None), rec_DisabledAt = None,
       rec_DeletedAt = None, rec_Subscriptions = normalizeSubscriptions (crq_SubscribedFamilies req),
       rec_CreatedAt = now, rec_UpdatedAt = now\<rparr>)"

definition CreateRecipient ::
  "(string \<Rightarrow> string option) \<Rightarrow> 'w RecipientService \<Rightarrow> CreateRecipientRequest \<Rightarrow>
   ('w, AlertRecipient) op" where
  "CreateRecipient parse s req =
     bindE (required (rsv_Repository s) (Errorf ''alert recipient repository is required'' [])) (\<lambda>repo.
     bindE (recipients_authorize s (crq_ActorUserID req) (crq_AccountID req) (crq_SiteID req)) (\<lambda>_.
     bindE (recipients_now s) (\<lambda>now.
     bindE (newRecipientID s) (\<lambda>recipientID.
     bindE (pureE (normalizeEmail parse (crq_Email req))) (\<lambda>(email, normalized).
     let recipient = new_recipient parse req recipientID email normalized now in
     bindE (check (validateRecipient recipient)) (\<lambda>_.
     bindE (wrapE ''save alert recipient'' (rrp_SaveRecipient repo recipient)) (\<lambda>_.
     ret recipient)))))))"

definition updated_recipient :: "AlertRecipient \<Rightarrow> UpdateRecipientRequest \<Rightarrow> time \<Rightarrow> AlertRecipient" where
  "updated_recipient existing req now =
     existing\<lparr>rec_DisplayLabel := (if TrimSpace (urq_DisplayLabel req) \<noteq> []
                                  then TrimSpace (urq_DisplayLabel req) else rec_DisplayLabel existing),
              rec_Status := (if urq_Status req \<noteq> OtherRecipientStatus [] then urq_Status req
                             else rec_Status existing),
              rec_Subscriptions := (if urq_SubscribedFamilies req \<noteq> []
                                    then normalizeSubscriptions (urq_SubscribedFamilies req)
                                    else rec_Subscriptions existing),
              rec_UpdatedAt := now\<rparr>"

definition UpdateRecipient ::
  "'w RecipientService \<Rightarrow> UpdateRecipientRequest \<Rightarrow> ('w, AlertRecipient) op" where
  "UpdateRecipient s req =
     bindE (required (rsv_Repository s) (Errorf ''alert recipient repository is required'' [])) (\<lambda>repo.
     bindE (wrapE ''load alert recipient''
              (rrp_GetRecipient repo (TrimSpace (urq_AlertRecipientID req)))) (\<lambda>existing.
     bindE (recipients_authorize s (urq_ActorUserID req) (rec_AccountID existing)
              (rec_SiteID existing)) (\<lambda>_.
     bindE (failIf (TrimSpace (urq_AccountID req) \<noteq> [] \<and>
                    TrimSpace (urq_AccountID req) \<noteq> rec_AccountID existing)
              (Errorf ''account_id cannot be changed'' [])) (\<lambda>_.
     bindE (failIf (TrimSpace (urq_SiteID req) \<noteq> [] \<and> TrimSpace (urq_SiteID req) \<noteq> rec_SiteID existing)
              (Errorf ''site_id cannot be changed'' [])) (\<lambda>_.
     bindE (failIf (urq_Status req \<notin> {OtherRecipientStatus [], RecipientPending, RecipientVerified,
                                      RecipientDisabled})
              (Errorf ''unsupported recipient status %q''
                 [recipient_status_text (urq_Status req)])) (\<lambda>_.
     bindE (recipients_now s) (\<lambda>now.
     let recipient = updated_recipient existing req now in
     bindE (check (validateRecipient recipient)) (\<lambda>_.
     bindE (wrapE ''save alert recipient'' (rrp_SaveRecipient repo recipient)) (\<lambda>_.
     ret recipient)))))))))"

definition deleted_recipient :: "AlertRecipient \<Rightarrow> time \<Rightarrow> AlertRecipient" where
  "deleted_recipient existing now =
     existing\<lparr>rec_Status := RecipientDeleted, rec_DeletedAt := Some now, rec_UpdatedAt := now\<rparr>"

definition DeleteRecipient ::
  "'w RecipientService \<Rightarrow> DeleteRecipientRequest \<Rightarrow> ('w, AlertRecipient) op" where
  "DeleteRecipient s req =
     bindE (required (rsv_Repository s) (Errorf ''alert recipient repository is required'' [])) (\<lambda>repo.
     bindE (wrapE ''load alert recipient''
              (rrp_GetRecipient repo (TrimSpace (drq_AlertRecipientID req)))) (\<lambda>existing.
     bindE (recipients_authorize s (drq_ActorUserID req) (rec_AccountID existing)
              (rec_SiteID existing)) (\<lambda>_.
     bindE (recipients_now s) (\<lambda>now.
     bindE (wrapE ''delete alert recipient''
              (rrp_SaveRecipient repo (deleted_recipient existing now))) (\<lambda>_.
     ret (deleted_recipient existing now))))))"

definition recipient_eligible :: "Alert \<Rightarrow> SubscriptionFamily \<Rightarrow> AlertRecipient \<Rightarrow> bool" where
  "recipient_eligible alert family r \<longleftrightarrow>
     rec_Status r = RecipientVerified \<and> rec_Channel r = ''email'' \<and>
     (rec_SiteID r = [] \<or> rec_SiteID r = al_SiteID alert) \<and>
     subscriptionEnabled (rec_Subscriptions r) family"

definition EligibleRecipients :: "'w RecipientService \<Rightarrow> Alert \<Rightarrow> ('w, AlertRecipient list) op" where
  "EligibleRecipients s alert =
     bindE (required (rsv_Repository s) (Errorf ''alert recipient repository is required'' [])) (\<lambda>repo.
     case subscriptionFamilyForAlert (al_Family alert) of
       None \<Rightarrow> ret []
     | Some family \<Rightarrow>
         bindE (wrapE ''list alert recipients''
                  (rrp_ListRecipientsForAccount repo (al_AccountID alert))) (\<lambda>recipients.
         ret (filter (recipient_eligible alert family) recipients)))"

end
