(* ===== verification/Recipient_Store.thy ===== *)
theory Recipient_Store
  imports Alert_Recipients
begin

text \<open>
  What the recipient service keeps of every stored recipient, over every repository that keeps
  \<open>recipient_contract\<close>, and the repository of \<open>recipients_test.go\<close> that interprets it.
  \<open>recipient_step\<close> is the abstract machine: a recipient is created, changed or deleted.
\<close>

section \<open>The abstract machine\<close>

type_synonym recipient_view = "string \<Rightarrow> AlertRecipient option"

definition put_recipient :: "AlertRecipient \<Rightarrow> recipient_view \<Rightarrow> recipient_view" where
  "put_recipient r v = v(rec_AlertRecipientID r \<mapsto> r)"

definition same_recipient :: "AlertRecipient \<Rightarrow> AlertRecipient \<Rightarrow> bool" where
  "same_recipient r r' \<longleftrightarrow> rec_AlertRecipientID r' = rec_AlertRecipientID r \<and>
     rec_AccountID r' = rec_AccountID r \<and> rec_SiteID r' = rec_SiteID r \<and> rec_Email r' = rec_Email r \<and>
     rec_EmailNormalized r' = rec_EmailNormalized r \<and> rec_Channel r' = rec_Channel r \<and>
     rec_CreatedByUserID r' = rec_CreatedByUserID r \<and> rec_VerifiedAt r' = rec_VerifiedAt r \<and>
     rec_CreatedAt r' = rec_CreatedAt r"

definition subscriptions_ok :: "AlertSubscription list \<Rightarrow> bool" where
  "subscriptions_ok ss \<longleftrightarrow> distinct (map sub_Family ss) \<and>
     (\<forall>s \<in> set ss. sub_Enabled s \<and> sub_Family s \<in> set validSubscriptionFamilies)"

inductive recipient_step :: "recipient_view \<Rightarrow> recipient_view \<Rightarrow> bool" where
  created: "validateRecipient r = None \<Longrightarrow> subscriptions_ok (rec_Subscriptions r) \<Longrightarrow>
     rec_Status r = (if rec_VerifiedAt r = None then RecipientPending else RecipientVerified) \<Longrightarrow>
     rec_DeletedAt r = None \<Longrightarrow> recipient_step v (put_recipient r v)"
| updated: "v (rec_AlertRecipientID r) = Some r \<Longrightarrow> same_recipient r r' \<Longrightarrow> validateRecipient r' = None \<Longrightarrow>
     rec_DeletedAt r' = rec_DeletedAt r \<Longrightarrow>
     rec_Status r' = rec_Status r \<or> rec_Status r' \<noteq> RecipientDeleted \<Longrightarrow>
     rec_Subscriptions r' = rec_Subscriptions r \<or> subscriptions_ok (rec_Subscriptions r') \<Longrightarrow>
     recipient_step v (put_recipient r' v)"
| deleted: "v (rec_AlertRecipientID r) = Some r \<Longrightarrow> same_recipient r r' \<Longrightarrow>
     rec_Status r' = RecipientDeleted \<Longrightarrow> rec_DeletedAt r' \<noteq> None \<Longrightarrow>
     rec_Subscriptions r' = rec_Subscriptions r \<Longrightarrow> recipient_step v (put_recipient r' v)"

definition recipient_ok :: "AlertRecipient \<Rightarrow> bool" where
  "recipient_ok r \<longleftrightarrow> validateRecipient r = None \<and> subscriptions_ok (rec_Subscriptions r) \<and>
     (rec_Status r = RecipientDeleted \<longrightarrow> rec_DeletedAt r \<noteq> None)"

definition recipient_inv :: "recipient_view \<Rightarrow> bool" where
  "recipient_inv v \<longleftrightarrow> (\<forall>i r. v i = Some r \<longrightarrow> rec_AlertRecipientID r = i \<and> recipient_ok r)"

lemma recipient_invD: "recipient_inv v \<Longrightarrow> v i = Some r \<Longrightarrow> rec_AlertRecipientID r = i \<and> recipient_ok r"
  by (simp add: recipient_inv_def)

lemma recipient_inv_put: "recipient_inv v \<Longrightarrow> recipient_ok r \<Longrightarrow> recipient_inv (put_recipient r v)"
  by (simp add: recipient_inv_def put_recipient_def)

lemma validateRecipient_None:
  "validateRecipient r = None \<longleftrightarrow> rec_AlertRecipientID r \<noteq> [] \<and> rec_AccountID r \<noteq> [] \<and>
     rec_Channel r = ''email'' \<and> rec_Email r \<noteq> [] \<and> rec_EmailNormalized r \<noteq> [] \<and>
     rec_Status r \<in> {RecipientPending, RecipientVerified, RecipientDisabled, RecipientDeleted} \<and>
     rec_Subscriptions r \<noteq> [] \<and>
     list_all (\<lambda>s. sub_Family s \<in> set validSubscriptionFamilies) (rec_Subscriptions r)"
proof -
  have "find (\<lambda>s. sub_Family s \<notin> set validSubscriptionFamilies) ss = None \<longleftrightarrow>
      list_all (\<lambda>s. sub_Family s \<in> set validSubscriptionFamilies) ss" for ss
    by (auto simp: find_None_iff list_all_iff)
  from this [of "rec_Subscriptions r"] show ?thesis
    by (cases "rec_Status r"; cases "find (\<lambda>s. sub_Family s \<notin> set validSubscriptionFamilies)
          (rec_Subscriptions r)") (auto simp: validateRecipient_def)
qed

lemma validate_deleted:
  "validateRecipient r = None \<Longrightarrow> same_recipient r r' \<Longrightarrow> rec_Status r' = RecipientDeleted \<Longrightarrow>
   rec_Subscriptions r' = rec_Subscriptions r \<Longrightarrow> validateRecipient r' = None"
  by (simp add: validateRecipient_None same_recipient_def)

lemma recipient_step_inv: "recipient_step v v' \<Longrightarrow> recipient_inv v \<Longrightarrow> recipient_inv v'"
proof (induction rule: recipient_step.induct)
  case (created r v)
  then show ?case by (intro recipient_inv_put) (simp_all add: recipient_ok_def)
next
  case (updated v r r')
  then have "recipient_ok r" by (blast dest: recipient_invD)
  with updated show ?case by (intro recipient_inv_put) (auto simp: recipient_ok_def)
next
  case (deleted v r r')
  then have "recipient_ok r" by (blast dest: recipient_invD)
  with deleted validate_deleted [of r r'] show ?case
    by (intro recipient_inv_put) (simp_all add: recipient_ok_def)
qed

section \<open>Normalized subscriptions\<close>

lemma add_subscriptions_ok:
  "distinct (map sub_Family (add_subscriptions seen fs)) \<and>
   (\<forall>s \<in> set (add_subscriptions seen fs). sub_Enabled s \<and>
      sub_Family s \<in> set validSubscriptionFamilies \<and> sub_Family s \<notin> set seen)"
proof (induction fs arbitrary: seen)
  case (Cons f fs)
  show ?case using Cons [of seen] Cons [of "TrimSpace f # seen"] by auto
qed simp

lemma normalized_subscriptions_ok [simp]: "subscriptions_ok (normalizeSubscriptions fs)"
  unfolding subscriptions_ok_def normalizeSubscriptions_def using add_subscriptions_ok by blast

lemma subscriptionEnabled_iff:
  "subscriptionEnabled ss f \<longleftrightarrow> (\<exists>s \<in> set ss. sub_Family s = f \<and> sub_Enabled s)"
  by (induction ss) auto

section \<open>The repository's contract\<close>

locale recipient_contract =
  fixes svc :: "'w RecipientService" and repo :: "'w RecipientRepository"
    and view :: "'w \<Rightarrow> recipient_view"
  assumes wired: "rsv_Repository svc = Some repo"
    and Save_law: "rrp_SaveRecipient repo r w = (x, w') \<Longrightarrow>
      (case x of Inl e \<Rightarrow> view w' = view w | Inr u \<Rightarrow> view w' = put_recipient r (view w))"
    and Get_law: "recipient_inv (view w) \<Longrightarrow> rrp_GetRecipient repo i w = (got, w') \<Longrightarrow>
      view w' = view w \<and>
      (case got of Inl e \<Rightarrow> True | Inr r \<Rightarrow> view w (rec_AlertRecipientID r) = Some r)"
    and List_law: "rrp_ListRecipientsForAccount repo a w = (rs, w') \<Longrightarrow> view w' = view w"
    and Authorize_law: "rsv_Authorization svc = Some allow \<Longrightarrow> allow u a i w = (al, w') \<Longrightarrow>
      view w' = view w"
    and Clock_law: "rsv_Clock svc = Some f \<Longrightarrow> f w = (t, w') \<Longrightarrow> view w' = view w"
    and TimeNow_law: "rsv_TimeNow svc w = (t, w') \<Longrightarrow> view w' = view w"
    and IDGenerator_law: "rsv_IDGenerator svc = Some g \<Longrightarrow> g w = (y, w') \<Longrightarrow> view w' = view w"
begin

abbreviation keeps_or_steps :: "recipient_view \<Rightarrow> 'w \<Rightarrow> bool" where
  "keeps_or_steps v w \<equiv> view w = v \<or> recipient_step v (view w)"

lemma wp_now:
  assumes "\<And>t w'. view w' = view w \<Longrightarrow> Q t w'"
  shows "wp (recipients_now svc) Q E w"
  using assms by (auto simp: recipients_now_def wp_simps split: option.split prod.split
      dest: Clock_law TimeNow_law)

lemma wp_newRecipientID:
  assumes "\<And>e w'. view w' = view w \<Longrightarrow> E e w'" and "\<And>i w'. view w' = view w \<Longrightarrow> Q i w'"
  shows "wp (newRecipientID svc) Q E w"
  using assms by (auto simp: newRecipientID_def wp_simps split: option.split prod.split
      dest: IDGenerator_law)

lemma wp_allow:
  assumes "rsv_Authorization svc = Some allow"
    and "\<And>e w'. view w' = view w \<Longrightarrow> E e w'" and "\<And>b w'. view w' = view w \<Longrightarrow> Q b w'"
  shows "wp (allow u a i) Q E w"
  by (rule wpI) (auto dest!: Authorize_law [OF assms(1)] intro: assms)

lemma wp_authorize:
  assumes "\<And>e w'. view w' = view w \<Longrightarrow> E e w'" and "\<And>w'. view w' = view w \<Longrightarrow> Q () w'"
  shows "wp (recipients_authorize svc u a i) Q E w"
  using assms by (auto simp: recipients_authorize_def wp_simps intro!: wp_allow split: option.split)

lemma wp_Get:
  assumes "recipient_inv (view w)" and "\<And>e w'. view w' = view w \<Longrightarrow> E e w'"
    and "\<And>r w'. view w' = view w \<Longrightarrow> view w (rec_AlertRecipientID r) = Some r \<Longrightarrow> Q r w'"
  shows "wp (rrp_GetRecipient repo i) Q E w"
  by (rule wpI) (auto dest!: Get_law [OF assms(1)] intro: assms)

lemma wp_Save:
  assumes "\<And>e w'. view w' = view w \<Longrightarrow> E e w'" and "\<And>w'. view w' = put_recipient r (view w) \<Longrightarrow> Q () w'"
  shows "wp (rrp_SaveRecipient repo r) Q E w"
  by (rule wpI) (auto dest!: Save_law intro: assms)

lemma created_step:
  "validateRecipient (new_recipient parse req i email norm t) = None \<Longrightarrow>
   recipient_step v (put_recipient (new_recipient parse req i email norm t) v)"
  by (rule recipient_step.created) (simp_all add: new_recipient_def Let_def)

lemma updated_step:
  "v (rec_AlertRecipientID r) = Some r \<Longrightarrow> validateRecipient (updated_recipient r req t) = None \<Longrightarrow>
   urq_Status req \<noteq> RecipientDeleted \<Longrightarrow> recipient_step v (put_recipient (updated_recipient r req t) v)"
  by (rule recipient_step.updated [of v r]) (simp_all add: updated_recipient_def same_recipient_def)

lemma deleted_step:
  "v (rec_AlertRecipientID r) = Some r \<Longrightarrow> recipient_step v (put_recipient (deleted_recipient r t) v)"
  by (rule recipient_step.deleted [of v r]) (simp_all add: deleted_recipient_def same_recipient_def)

lemma wp_CreateRecipient:
  "wp (CreateRecipient parse svc req) (\<lambda>r w'. recipient_step (view w) (view w') \<and>
       view w' (rec_AlertRecipientID r) = Some r \<and>
       (rec_Status r = RecipientVerified \<longleftrightarrow> actor_owns_email parse req (rec_EmailNormalized r)))
     (\<lambda>e w'. view w' = view w) w"
  by (auto simp: CreateRecipient_def wired wp_simps Let_def created_step
      intro!: wp_now wp_newRecipientID wp_authorize wp_Save split: option.split sum.split)
     (auto simp: put_recipient_def new_recipient_def Let_def split: if_splits)

lemma wp_UpdateRecipient:
  "recipient_inv (view w) \<Longrightarrow>
   wp (UpdateRecipient svc req) (\<lambda>r w'. recipient_step (view w) (view w')) (\<lambda>e w'. view w' = view w) w"
  by (auto simp: UpdateRecipient_def wired wp_simps Let_def
      intro!: wp_now wp_authorize wp_Get wp_Save updated_step split: option.split)

lemma wp_DeleteRecipient:
  "recipient_inv (view w) \<Longrightarrow>
   wp (DeleteRecipient svc req) (\<lambda>r w'. recipient_step (view w) (view w')) (\<lambda>e w'. view w' = view w) w"
  by (auto simp: DeleteRecipient_def wired wp_simps Let_def deleted_step
      intro!: wp_now wp_authorize wp_Get wp_Save)

end

text \<open>What every call of the repository and of the other parts keeps, every operation of the service keeps.\<close>

locale recipient_frame =
  fixes svc :: "'w RecipientService" and repo :: "'w RecipientRepository" and kept :: "'w \<Rightarrow> bool"
  assumes wired: "rsv_Repository svc = Some repo"
    and Save_law: "rrp_SaveRecipient repo r w = (x, w') \<Longrightarrow> kept w \<Longrightarrow> kept w'"
    and Get_law: "rrp_GetRecipient repo i w = (got, w') \<Longrightarrow> kept w \<Longrightarrow> kept w'"
    and Authorize_law: "rsv_Authorization svc = Some allow \<Longrightarrow> allow u a i w = (al, w') \<Longrightarrow> kept w \<Longrightarrow> kept w'"
    and Clock_law: "rsv_Clock svc = Some f \<Longrightarrow> f w = (t, w') \<Longrightarrow> kept w \<Longrightarrow> kept w'"
    and TimeNow_law: "rsv_TimeNow svc w = (t, w') \<Longrightarrow> kept w \<Longrightarrow> kept w'"
    and IDGenerator_law: "rsv_IDGenerator svc = Some g \<Longrightarrow> g w = (y, w') \<Longrightarrow> kept w \<Longrightarrow> kept w'"
begin

lemma kept_now: "kept w \<Longrightarrow> (\<And>t w'. kept w' \<Longrightarrow> Q t w') \<Longrightarrow> wp (recipients_now svc) Q E w"
  by (auto simp: recipients_now_def wp_simps split: option.split prod.split dest: Clock_law TimeNow_law)

lemma kept_newRecipientID:
  "kept w \<Longrightarrow> (\<And>e w'. kept w' \<Longrightarrow> E e w') \<Longrightarrow> (\<And>i w'. kept w' \<Longrightarrow> Q i w') \<Longrightarrow> wp (newRecipientID svc) Q E w"
  by (auto simp: newRecipientID_def wp_simps split: option.split prod.split dest: IDGenerator_law)

lemma kept_allow:
  "rsv_Authorization svc = Some allow \<Longrightarrow> kept w \<Longrightarrow> (\<And>e w'. kept w' \<Longrightarrow> E e w') \<Longrightarrow>
   (\<And>b w'. kept w' \<Longrightarrow> Q b w') \<Longrightarrow> wp (allow u a i) Q E w"
  by (rule wpI) (auto dest: Authorize_law)

lemma kept_authorize:
  "kept w \<Longrightarrow> (\<And>e w'. kept w' \<Longrightarrow> E e w') \<Longrightarrow> (\<And>w'. kept w' \<Longrightarrow> Q () w') \<Longrightarrow>
   wp (recipients_authorize svc u a i) Q E w"
  by (auto simp: recipients_authorize_def wp_simps intro!: kept_allow split: option.split)

lemma kept_Get:
  "kept w \<Longrightarrow> (\<And>e w'. kept w' \<Longrightarrow> E e w') \<Longrightarrow> (\<And>r w'. kept w' \<Longrightarrow> Q r w') \<Longrightarrow>
   wp (rrp_GetRecipient repo i) Q E w"
  by (rule wpI) (auto dest: Get_law)

lemma kept_Save:
  "kept w \<Longrightarrow> (\<And>e w'. kept w' \<Longrightarrow> E e w') \<Longrightarrow> (\<And>w'. kept w' \<Longrightarrow> Q () w') \<Longrightarrow>
   wp (rrp_SaveRecipient repo r) Q E w"
  by (rule wpI) (auto dest: Save_law)

lemma kept_CreateRecipient: "kept w \<Longrightarrow> wp (CreateRecipient parse svc req) (\<lambda>_. kept) (\<lambda>_. kept) w"
  by (auto simp: CreateRecipient_def wired wp_simps Let_def
      intro!: kept_now kept_newRecipientID kept_authorize kept_Save split: option.split sum.split)

lemma kept_UpdateRecipient: "kept w \<Longrightarrow> wp (UpdateRecipient svc req) (\<lambda>_. kept) (\<lambda>_. kept) w"
  by (auto simp: UpdateRecipient_def wired wp_simps Let_def
      intro!: kept_now kept_authorize kept_Get kept_Save split: option.split)

lemma kept_DeleteRecipient: "kept w \<Longrightarrow> wp (DeleteRecipient svc req) (\<lambda>_. kept) (\<lambda>_. kept) w"
  by (auto simp: DeleteRecipient_def wired wp_simps Let_def
      intro!: kept_now kept_authorize kept_Get kept_Save)

end

section \<open>The repository of the tests\<close>

record recipient_store = env +
  rs_rows :: "AlertRecipient list"
  rs_allowed :: "string \<Rightarrow> string \<Rightarrow> string \<Rightarrow> bool"

definition recipient_row :: "AlertRecipient list \<Rightarrow> string \<Rightarrow> AlertRecipient option" where
  "recipient_row rows i = find (\<lambda>r. rec_AlertRecipientID r = i) rows"

definition fake_SaveRecipient :: "AlertRecipient \<Rightarrow> (recipient_store, unit) op" where
  "fake_SaveRecipient r w = (Inr (), w\<lparr>rs_rows :=
     r # filter (\<lambda>x. rec_AlertRecipientID x \<noteq> rec_AlertRecipientID r) (rs_rows w)\<rparr>)"

definition fake_GetRecipient :: "string \<Rightarrow> (recipient_store, AlertRecipient) op" where
  "fake_GetRecipient i w =
     (case recipient_row (rs_rows w) i of None \<Rightarrow> (Inl ErrAlertNotFound, w) | Some r \<Rightarrow> (Inr r, w))"

definition fake_ListRecipientsForAccount :: "string \<Rightarrow> (recipient_store, AlertRecipient list) op" where
  "fake_ListRecipientsForAccount a w = (Inr (filter (\<lambda>r. rec_AccountID r = a) (rs_rows w)), w)"

definition fake_CanManage :: "string \<Rightarrow> string \<Rightarrow> string \<Rightarrow> (recipient_store, bool) op" where
  "fake_CanManage u a i = with_fault (\<lambda>w. (Inr (rs_allowed w u a i), w))"

definition recipient_repository :: "recipient_store RecipientRepository" where
  "recipient_repository =
     \<lparr>rrp_SaveRecipient = (\<lambda>r. with_fault (fake_SaveRecipient r)),
      rrp_GetRecipient = (\<lambda>i. with_fault (fake_GetRecipient i)),
      rrp_ListRecipientsForAccount = (\<lambda>a. with_fault (fake_ListRecipientsForAccount a))\<rparr>"

definition recipient_service :: "recipient_store RecipientService" where
  "recipient_service =
     \<lparr>rsv_Repository = Some recipient_repository, rsv_Authorization = Some fake_CanManage,
      rsv_IDGenerator = Some next_id, rsv_Clock = Some read_clock, rsv_TimeNow = read_clock\<rparr>"

abbreviation rows_view :: "recipient_store \<Rightarrow> recipient_view" where
  "rows_view w \<equiv> recipient_row (rs_rows w)"

lemma recipient_row_save:
  "recipient_row (r # filter (\<lambda>x. rec_AlertRecipientID x \<noteq> rec_AlertRecipientID r) rows) =
   (recipient_row rows)(rec_AlertRecipientID r \<mapsto> r)"
proof
  fix i
  have "find (\<lambda>x. rec_AlertRecipientID x = i) (filter (\<lambda>x. rec_AlertRecipientID x \<noteq> rec_AlertRecipientID r) rows) =
      find (\<lambda>x. rec_AlertRecipientID x = i) rows" if "i \<noteq> rec_AlertRecipientID r"
    using that by (induction rows) auto
  then show "recipient_row (r # filter (\<lambda>x. rec_AlertRecipientID x \<noteq> rec_AlertRecipientID r) rows) i =
      ((recipient_row rows)(rec_AlertRecipientID r \<mapsto> r)) i"
    by (simp add: recipient_row_def)
qed

lemma recipient_row_id: "recipient_row rows i = Some r \<Longrightarrow> rec_AlertRecipientID r = i"
  by (auto simp: recipient_row_def find_Some_iff)

lemma recipient_row_self:
  "recipient_row rows i = Some r \<Longrightarrow> recipient_row rows (rec_AlertRecipientID r) = Some r"
  by (simp add: recipient_row_id)

interpretation recipients: recipient_contract recipient_service recipient_repository rows_view
  by unfold_locales
    (auto simp: recipient_service_def recipient_repository_def with_fault_def fake_SaveRecipient_def
      fake_GetRecipient_def fake_ListRecipientsForAccount_def fake_CanManage_def recipient_row_save
      put_recipient_def read_clock_def next_id_def dest: recipient_row_self
      split: list.splits if_splits option.splits)

abbreviation distinct_rows :: "recipient_store \<Rightarrow> bool" where
  "distinct_rows w \<equiv> distinct (map rec_AlertRecipientID (rs_rows w))"

interpretation recipient_ids: recipient_frame recipient_service recipient_repository distinct_rows
  by unfold_locales
    (auto simp: recipient_service_def recipient_repository_def with_fault_def fake_SaveRecipient_def
      fake_GetRecipient_def fake_CanManage_def read_clock_def next_id_def distinct_map_filter
      split: list.splits if_splits option.splits)

lemma distinct_row_member:
  "distinct (map rec_AlertRecipientID rows) \<Longrightarrow>
   recipient_row rows i = Some r \<longleftrightarrow> r \<in> set rows \<and> rec_AlertRecipientID r = i"
  unfolding recipient_row_def by (induction rows) auto

section \<open>Sequences of calls\<close>

datatype recipient_call =
    CallCreateRecipient CreateRecipientRequest
  | CallUpdateRecipient UpdateRecipientRequest
  | CallDeleteRecipient DeleteRecipientRequest

fun run_recipient_call ::
  "(string \<Rightarrow> string option) \<Rightarrow> 'w RecipientService \<Rightarrow> recipient_call \<Rightarrow> ('w, AlertRecipient) op" where
  "run_recipient_call parse s (CallCreateRecipient req) = CreateRecipient parse s req"
| "run_recipient_call parse s (CallUpdateRecipient req) = UpdateRecipient s req"
| "run_recipient_call parse s (CallDeleteRecipient req) = DeleteRecipient s req"

inductive recipient_reachable :: "(string \<Rightarrow> string option) \<Rightarrow> recipient_store \<Rightarrow> bool" for parse where
  start: "rs_rows w = [] \<Longrightarrow> recipient_reachable parse w"
| call: "recipient_reachable parse w \<Longrightarrow>
     recipient_reachable parse (snd (run_recipient_call parse recipient_service c w))"

lemma recipient_call_step:
  assumes "recipient_inv (rows_view w)"
  shows "wp (run_recipient_call parse recipient_service c)
    (\<lambda>r w'. recipient_step (rows_view w) (rows_view w')) (\<lambda>e w'. rows_view w' = rows_view w) w"
  using assms by (cases c)
    (auto intro: recipients.wp_UpdateRecipient recipients.wp_DeleteRecipient
      wp_mono [OF recipients.wp_CreateRecipient])

lemma reachable_recipient_inv: "recipient_reachable parse w \<Longrightarrow> recipient_inv (rows_view w)"
proof (induction rule: recipient_reachable.induct)
  case (call w c)
  from recipient_call_step [OF call(2), of parse c] call(2) show ?case
    by (auto simp: wp_def intro: recipient_step_inv split: prod.splits sum.splits)
qed (simp add: recipient_inv_def recipient_row_def)

lemma reachable_distinct_rows: "recipient_reachable parse w \<Longrightarrow> distinct_rows w"
proof (induction rule: recipient_reachable.induct)
  case (call w c)
  then show ?case
    by (cases c) (simp_all add: wp_worldD [OF recipient_ids.kept_CreateRecipient]
        wp_worldD [OF recipient_ids.kept_UpdateRecipient] wp_worldD [OF recipient_ids.kept_DeleteRecipient])
qed simp

text \<open>In a reachable store the check of the service says no more than status, site and subscription.\<close>

lemma reachable_eligible:
  assumes "recipient_reachable parse w" and "recipient_row (rs_rows w) i = Some r"
  shows "recipient_eligible alert family r \<longleftrightarrow> rec_Status r = RecipientVerified \<and>
    rec_SiteID r \<in> {[], al_SiteID alert} \<and> (\<exists>s \<in> set (rec_Subscriptions r). sub_Family s = family)"
  using recipient_invD [OF reachable_recipient_inv [OF assms(1)] assms(2)]
  by (auto simp: recipient_eligible_def subscriptionEnabled_iff recipient_ok_def subscriptions_ok_def
      validateRecipient_None)

lemma wp_EligibleRecipients:
  "wp (EligibleRecipients recipient_service alert)
    (\<lambda>rs w'. rs_rows w' = rs_rows w \<and>
       rs = (case subscriptionFamilyForAlert (al_Family alert) of None \<Rightarrow> []
             | Some family \<Rightarrow> filter (recipient_eligible alert family)
                 (filter (\<lambda>r. rec_AccountID r = al_AccountID alert) (rs_rows w))))
    (\<lambda>e w'. rs_rows w' = rs_rows w \<and> (\<exists>fs. env_faults w = True # fs)) w"
proof -
  have listed: "wp (rrp_ListRecipientsForAccount recipient_repository a)
      (\<lambda>rs w'. rs_rows w' = rs_rows w \<and> rs = filter (\<lambda>r. rec_AccountID r = a) (rs_rows w))
      (\<lambda>e w'. rs_rows w' = rs_rows w \<and> (\<exists>fs. env_faults w = True # fs)) w" for a
    by (auto simp: recipient_repository_def with_fault_def fake_ListRecipientsForAccount_def wp_def
        split: list.split)
  show ?thesis
    by (auto simp: EligibleRecipients_def recipients.wired wp_simps split: option.split
        intro!: wp_mono [OF listed])
qed

section \<open>Properties\<close>

text \<open>C30: In every reachable store a recipient has the id it is stored under, an account, an e-mail
  address, the e-mail channel, a known status, at least one subscription, every subscription enabled,
  of a known family and of no family twice; a deleted one has its deletion time.\<close>

theorem recipient_store_invariant:
  assumes "recipient_reachable parse w" and "recipient_row (rs_rows w) i = Some r"
  shows "rec_AlertRecipientID r = i \<and> validateRecipient r = None \<and> rec_Subscriptions r \<noteq> [] \<and>
    distinct (map sub_Family (rec_Subscriptions r)) \<and>
    (\<forall>s \<in> set (rec_Subscriptions r). sub_Enabled s \<and> sub_Family s \<in> set validSubscriptionFamilies) \<and>
    (rec_Status r = RecipientDeleted \<longrightarrow> rec_DeletedAt r \<noteq> None)"
  using recipient_invD [OF reachable_recipient_inv [OF assms(1)] assms(2)]
  by (auto simp: recipient_ok_def subscriptions_ok_def validateRecipient_None)

text \<open>A recipient is created verified exactly if the creating actor's own verified address is, up
  to case, the recipient's; every other recipient starts pending, and either is stored under its id.
  A creation that fails stores nothing.\<close>

theorem created_recipient_verification:
  "case CreateRecipient parse recipient_service req w of
     (Inr r, w') \<Rightarrow> recipient_row (rs_rows w') (rec_AlertRecipientID r) = Some r \<and>
       (rec_Status r = RecipientVerified \<longleftrightarrow> crq_ActorEmailVerified req \<and>
          (\<exists>address. parse (TrimSpace (crq_ActorEmail req)) = Some address \<and>
             ToLower (TrimSpace address) = rec_EmailNormalized r \<and> rec_EmailNormalized r \<noteq> []))
   | (Inl e, w') \<Rightarrow> recipient_row (rs_rows w') = recipient_row (rs_rows w)"
  using recipients.wp_CreateRecipient [of parse req w]
  by (auto simp: wp_def actor_owns_email_def normalizeEmail_def
      split: prod.splits sum.splits option.splits if_splits)

text \<open>C31: After any calls of the service, whichever calls fail, the recipients of an alert are read without a
  change, each once: a stored recipient is one of them exactly if it is verified, of the alert's account,
  of the alert's site or of no particular site, and subscribed to the kind of the alert, where a device
  that disconnected, a backup that failed or is overdue and an app that needs an update have their
  subscriptions and every other alert has none. Only a failing repository gives an error.\<close>

theorem eligible_recipients_exact:
  assumes "recipient_reachable parse w"
  shows "case EligibleRecipients recipient_service alert w of
     (Inr rs, w') \<Rightarrow> rs_rows w' = rs_rows w \<and> distinct (map rec_AlertRecipientID rs) \<and>
       (\<forall>r. r \<in> set rs \<longleftrightarrow> recipient_row (rs_rows w) (rec_AlertRecipientID r) = Some r \<and>
          rec_Status r = RecipientVerified \<and> rec_AccountID r = al_AccountID alert \<and>
          rec_SiteID r \<in> {[], al_SiteID alert} \<and>
          (\<exists>s \<in> set (rec_Subscriptions r). (al_Family alert, sub_Family s) \<in>
             {(FamilyDeviceDisconnected, ''device_disconnected''), (FamilyBackupFailed, ''backup_failed_or_overdue''),
              (FamilyBackupOverdue, ''backup_failed_or_overdue''), (FamilyAppUpdateAttention, ''app_update_attention'')}))
   | (Inl e, w') \<Rightarrow> rs_rows w' = rs_rows w \<and> (\<exists>fs. env_faults w = True # fs)"
proof -
  note ids = reachable_distinct_rows [OF assms]
  note member = distinct_row_member [OF ids]
  have "distinct (map rec_AlertRecipientID (filter P (rs_rows w)))" for P
    using ids by (rule distinct_map_filter)
  then show ?thesis
    using wp_EligibleRecipients [of alert w]
    by (cases "al_Family alert")
      (auto simp: wp_def subscriptionFamilyForAlert_def reachable_eligible [OF assms] member
        SubscriptionDeviceDisconnected_def SubscriptionBackupFailedOrOverdue_def
        SubscriptionAppUpdateAttention_def split: prod.splits sum.splits)
qed

text \<open>An authorized update can declare any stored recipient verified: no verification is asked
  for, the verification time stays absent and a deletion time stays set, and the recipient is mailed
  from then on.\<close>

theorem update_verifies_without_proof:
  assumes "env_faults w = []" and "recipient_row (rs_rows w) i = Some r" and "TrimSpace i = i"
    and "recipient_ok r" and "TrimSpace (urq_ActorUserID req) \<noteq> []" and "TrimSpace (rec_AccountID r) \<noteq> []"
    and "rs_allowed w (TrimSpace (urq_ActorUserID req)) (TrimSpace (rec_AccountID r)) (TrimSpace (rec_SiteID r))"
    and "urq_AlertRecipientID req = i" and "urq_Status req = RecipientVerified"
    and "urq_AccountID req = []" and "urq_SiteID req = []" and "urq_SubscribedFamilies req = []"
    and "al_AccountID alert = rec_AccountID r" and "al_SiteID alert = rec_SiteID r"
    and "subscriptionFamilyForAlert (al_Family alert) = Some family"
    and "subscriptionEnabled (rec_Subscriptions r) family"
  shows "\<exists>r' w' rs. UpdateRecipient recipient_service req w = (Inr r', w') \<and>
    rec_VerifiedAt r' = rec_VerifiedAt r \<and> rec_DeletedAt r' = rec_DeletedAt r \<and>
    EligibleRecipients recipient_service alert w' = (Inr rs, w') \<and> r' \<in> set rs"
proof -
  define t where "t = env_clock w"
  have valid: "validateRecipient (updated_recipient r req t) = None" "rec_Channel r = ''email''"
    using assms(4,9,12) by (simp_all add: updated_recipient_def recipient_ok_def validateRecipient_None)
  have clock: "recipients_now recipient_service w = (Inr t, snd (read_clock w))"
    by (simp add: recipients_now_def recipient_service_def clock_now_def op_defs read_clock_def t_def
        split: prod.split)
  have keep: "env_faults (snd (read_clock w)) = []" "rs_rows (snd (read_clock w)) = rs_rows w"
    using assms(1) by (auto simp: read_clock_def split: list.split)
  define w' where "w' = (snd (read_clock w))\<lparr>rs_rows := updated_recipient r req t #
      filter (\<lambda>x. rec_AlertRecipientID x \<noteq> rec_AlertRecipientID r) (rs_rows w)\<rparr>"
  have "UpdateRecipient recipient_service req w = (Inr (updated_recipient r req t), w')"
    using assms(1-12) valid keep clock unfolding w'_def
    by (simp add: UpdateRecipient_def recipient_repository_def op_defs Let_def
        recipients_authorize_def fake_GetRecipient_def fake_SaveRecipient_def fake_CanManage_def)
      (simp add: recipient_service_def recipient_repository_def fake_GetRecipient_def
        fake_SaveRecipient_def fake_CanManage_def op_defs updated_recipient_def)
  then show ?thesis
    using assms(9,12-16) valid(2) keep
    by (auto simp: w'_def EligibleRecipients_def recipient_service_def recipient_repository_def
        op_defs fake_ListRecipientsForAccount_def recipient_eligible_def updated_recipient_def)
qed

section \<open>Witnesses\<close>

definition demo_recipient_store :: recipient_store where
  "demo_recipient_store = \<lparr>env_faults = [], env_clock = 5, env_ticks = [], env_ids = [''r1''],
     rs_rows = [], rs_allowed = (\<lambda>u a i. u = ''admin'')\<rparr>"

definition demo_create_recipient :: CreateRecipientRequest where
  "demo_create_recipient = \<lparr>crq_AccountID = ''acc'', crq_SiteID = [], crq_Email = ''Ann@example.org'',
     crq_DisplayLabel = [], crq_ActorUserID = ''admin'', crq_ActorEmail = ''bob@example.org'',
     crq_ActorEmailVerified = True, crq_SubscribedFamilies = [''backup_failed_or_overdue'']\<rparr>"

definition demo_verify :: UpdateRecipientRequest where
  "demo_verify = \<lparr>urq_AlertRecipientID = ''r1'', urq_AccountID = [], urq_SiteID = [],
     urq_DisplayLabel = [], urq_Status = RecipientVerified, urq_ActorUserID = ''admin'',
     urq_SubscribedFamilies = []\<rparr>"

definition demo_backup_alert :: Alert where
  "demo_backup_alert = \<lparr>al_AlertID = ''a1'', al_AlertKey = ''k'', al_AccountID = ''acc'', al_SiteID = [],
     al_DeviceID = [], al_Family = FamilyBackupFailed, al_Severity = SeverityWarning,
     al_Status = AlertActive, al_Title = ''Backup failed'', al_Detail = ''No backup'',
     al_ReasonCode = ''r'', al_FirstCandidateID = ''k1'', al_LastCandidateID = ''k1'',
     al_OccurrenceCount = 1, al_AcknowledgedByUserID = [], al_AcknowledgedAt = None,
     al_SnoozedUntil = None, al_ResolvedAt = None, al_CreatedAt = 1, al_UpdatedAt = 1\<rparr>"

definition demo_recipients :: recipient_store where
  "demo_recipients =
     snd (run_recipient_call Some recipient_service (CallCreateRecipient demo_create_recipient)
            demo_recipient_store)"

lemma demo_recipients_reachable: "recipient_reachable Some demo_recipients"
  unfolding demo_recipients_def
  by (rule recipient_reachable.call, rule recipient_reachable.start) (simp add: demo_recipient_store_def)

lemma demo_recipients_eval:
  "map_option (\<lambda>r. (rec_Status r, rec_AccountID r, rec_SiteID r, rec_VerifiedAt r,
       subscriptionEnabled (rec_Subscriptions r) SubscriptionBackupFailedOrOverdue))
     (recipient_row (rs_rows demo_recipients) ''r1'') =
   Some (RecipientPending, ''acc'', [], None, True)"
  "env_faults demo_recipients = []" "rs_allowed demo_recipients ''admin'' ''acc'' [] = True"
  by code_simp+

theorem recipient_store_invariant_witness:
  "\<exists>r. recipient_row (rs_rows demo_recipients) ''r1'' = Some r \<and> rec_Subscriptions r \<noteq> []"
proof -
  from demo_recipients_eval(1) obtain r where "recipient_row (rs_rows demo_recipients) ''r1'' = Some r"
    by auto
  with recipient_store_invariant [OF demo_recipients_reachable this] show ?thesis by blast
qed

lemma demo_family: "subscriptionFamilyForAlert (al_Family demo_backup_alert) =
    Some SubscriptionBackupFailedOrOverdue"
  by (simp add: subscriptionFamilyForAlert_def demo_backup_alert_def)

text \<open>The actor of this request has verified the address it names.\<close>

definition demo_own_address :: CreateRecipientRequest where
  "demo_own_address = demo_create_recipient\<lparr>crq_ActorEmail := ''ann@example.org''\<rparr>"

definition demo_own_recipients :: recipient_store where
  "demo_own_recipients =
     snd (run_recipient_call Some recipient_service (CallCreateRecipient demo_own_address) demo_recipient_store)"

lemma demo_own_recipients_reachable: "recipient_reachable Some demo_own_recipients"
  unfolding demo_own_recipients_def
  by (rule recipient_reachable.call, rule recipient_reachable.start) (simp add: demo_recipient_store_def)

lemma demo_own_recipients_eval:
  "map_option (\<lambda>r. (rec_AlertRecipientID r, rec_Status r, rec_AccountID r, rec_SiteID r,
       map sub_Family (rec_Subscriptions r)))
     (recipient_row (rs_rows demo_own_recipients) ''r1'') =
   Some (''r1'', RecipientVerified, ''acc'', [], [''backup_failed_or_overdue''])"
  "env_faults demo_own_recipients = []"
  by code_simp+

theorem eligible_recipients_exact_witness:
  "\<exists>rs r w'. EligibleRecipients recipient_service demo_backup_alert demo_own_recipients = (Inr rs, w') \<and>
     recipient_row (rs_rows demo_own_recipients) ''r1'' = Some r \<and> r \<in> set rs"
proof -
  from demo_own_recipients_eval(1) obtain r where r: "recipient_row (rs_rows demo_own_recipients) ''r1'' = Some r"
    "rec_AlertRecipientID r = ''r1''" "rec_Status r = RecipientVerified" "rec_AccountID r = ''acc''"
    "rec_SiteID r = []" "map sub_Family (rec_Subscriptions r) = [''backup_failed_or_overdue'']"
    by auto
  obtain x w' where run: "EligibleRecipients recipient_service demo_backup_alert demo_own_recipients = (x, w')"
    by fastforce
  note exact = eligible_recipients_exact [OF demo_own_recipients_reachable, of demo_backup_alert,
      unfolded run prod.case]
  have alert: "al_AccountID demo_backup_alert = ''acc''" "al_Family demo_backup_alert = FamilyBackupFailed"
    by (simp_all add: demo_backup_alert_def)
  from exact demo_own_recipients_eval(2) obtain rs where rs: "x = Inr rs" by (cases x) auto
  from r(6) obtain s where "s \<in> set (rec_Subscriptions r)" "sub_Family s = ''backup_failed_or_overdue''" by auto
  with exact [unfolded rs] r alert have "r \<in> set rs" by auto
  with run rs r(1) show ?thesis by blast
qed

theorem update_verifies_without_proof_witness:
  "\<exists>r' w' rs. UpdateRecipient recipient_service demo_verify demo_recipients = (Inr r', w') \<and>
     rec_VerifiedAt r' = None \<and>
     EligibleRecipients recipient_service demo_backup_alert w' = (Inr rs, w') \<and> r' \<in> set rs"
proof -
  from demo_recipients_eval(1) obtain r where r: "recipient_row (rs_rows demo_recipients) ''r1'' = Some r"
    "rec_AccountID r = ''acc''" "rec_SiteID r = []" "rec_VerifiedAt r = None"
    "subscriptionEnabled (rec_Subscriptions r) SubscriptionBackupFailedOrOverdue" by auto
  have ok: "recipient_ok r"
    using recipient_invD [OF reachable_recipient_inv [OF demo_recipients_reachable] r(1)] by simp
  have trim: "TrimSpace ''r1'' = ''r1''" "TrimSpace ''admin'' = ''admin''" "TrimSpace ''acc'' = ''acc''"
    by code_simp+
  have req: "urq_AlertRecipientID demo_verify = ''r1''" "urq_Status demo_verify = RecipientVerified"
    "urq_AccountID demo_verify = []" "urq_SiteID demo_verify = []" "urq_SubscribedFamilies demo_verify = []"
    "urq_ActorUserID demo_verify = ''admin''"
    by (simp_all add: demo_verify_def)
  have alert: "al_AccountID demo_backup_alert = rec_AccountID r" "al_SiteID demo_backup_alert = rec_SiteID r"
    using r by (simp_all add: demo_backup_alert_def)
  from update_verifies_without_proof [OF demo_recipients_eval(2) r(1) trim(1) ok _ _ _ req(1-5) alert
      demo_family r(5)] r(2-4) req(6) trim demo_recipients_eval(3)
  show ?thesis by force
qed

end
