(* ===== verification/Notifications.thy ===== *)
theory Notifications
  imports Alert_Recipients Go_Json_Values
begin

text \<open>
  The notification service (\<open>backend/internal/domain/notifications/service.go\<close>): queueing an alert
  e-mail for a recipient, and claiming, rendering, sending and saving the queued attempts.

  \<open>LastError\<close> keeps the error itself where the code stores its text. \<open>notification_store\<close> joins the
  fakes of \<open>service_test.go\<close> and \<open>fake_provider.go\<close>: the attempts, whether everything is
  suppressed, and the messages the provider has been given, with a schedule of failing calls.
\<close>

section \<open>Data\<close>

datatype NotificationStatus =
    NotificationPending | NotificationClaimed | NotificationSent | NotificationFailed
  | NotificationSuppressed | NotificationCanceled | OtherNotificationStatus string

definition ChannelEmail :: string where
  "ChannelEmail = ''email''"

definition TemplateAlertEmail :: string where
  "TemplateAlertEmail = ''alert_email_v0''"

record NotificationAttempt =
  na_NotificationAttemptID :: string
  na_AlertID :: string
  na_AlertRecipientID :: string
  na_AccountID :: string
  na_SiteID :: string
  na_DeviceID :: string
  na_Family :: SubscriptionFamily
  na_Channel :: string
  na_Status :: NotificationStatus
  na_TemplateKey :: string
  na_RecipientEmail :: string
  na_RecipientEmailNormalized :: string
  na_Subject :: string
  na_BodyText :: string
  na_BodyHTML :: string
  na_Provider :: string
  na_ProviderMessageID :: string
  na_IdempotencyKey :: string
  na_AttemptCount :: int
  na_LastError :: "go_error option"
  na_TemplateData :: string
  na_NotBefore :: "time option"
  na_ClaimedAt :: "time option"
  na_SentAt :: "time option"
  na_FailedAt :: "time option"
  na_CreatedAt :: time
  na_UpdatedAt :: time

record EmailMessage =
  em_From :: string
  em_To :: string
  em_Subject :: string
  em_Text :: string
  em_HTML :: string
  em_IdempotencyKey :: string

record ProviderResult =
  prs_Provider :: string
  prs_ProviderMessageID :: string
  prs_Metadata :: string

record 'w NotificationRepository =
  nrp_CreateAttempt :: "NotificationAttempt \<Rightarrow> ('w, unit) op"
  nrp_ClaimPendingAttempts :: "time \<Rightarrow> int \<Rightarrow> ('w, NotificationAttempt list) op"
  nrp_SaveAttempt :: "NotificationAttempt \<Rightarrow> ('w, unit) op"
  nrp_IsSuppressed :: "string \<Rightarrow> string \<Rightarrow> SubscriptionFamily \<Rightarrow> time \<Rightarrow> ('w, bool) op"

record 'w NotificationService =
  nsv_Repository :: "'w NotificationRepository option"
  nsv_Provider :: "(EmailMessage \<Rightarrow> ('w, ProviderResult) op) option"
  nsv_Renderer :: "(NotificationAttempt \<Rightarrow> ('w, EmailMessage) op) option"
  nsv_FromAddress :: string
  nsv_IDGenerator :: "('w, string) effect option"
  nsv_Clock :: "('w, time) effect option"
  nsv_TimeNow :: "('w, time) effect"

section \<open>Checks and texts\<close>

definition notifications_normalizeJSON :: "string \<Rightarrow> string" where
  "notifications_normalizeJSON v = (if v = [] then ''{}'' else v)"

definition validateAttempt :: "NotificationAttempt \<Rightarrow> go_error option" where
  "validateAttempt a = first_error
     [(na_NotificationAttemptID a = [] \<or> na_AccountID a = [],
       Errorf ''notification_attempt_id and account_id are required'' []),
      (na_Channel a \<noteq> ChannelEmail, Errorf ''unsupported notification channel %q'' [na_Channel a]),
      ((case na_Status a of OtherNotificationStatus _ \<Rightarrow> True | _ \<Rightarrow> False),
       Errorf ''unsupported notification status %q''
         [case na_Status a of OtherNotificationStatus s \<Rightarrow> s | _ \<Rightarrow> []]),
      (na_TemplateKey a = [] \<or> na_RecipientEmail a = [] \<or> na_RecipientEmailNormalized a = [],
       Errorf ''template_key and recipient email are required'' []),
      (na_IdempotencyKey a = [], Errorf ''idempotency_key is required'' []),
      (\<not> json_Valid (notifications_normalizeJSON (na_TemplateData a)),
       Errorf ''template data must be valid JSON'' [])]"

definition alertingSubscriptionFamily :: "Family \<Rightarrow> SubscriptionFamily option" where
  "alertingSubscriptionFamily family =
     (case family of
        FamilyDeviceDisconnected \<Rightarrow> Some SubscriptionDeviceDisconnected
      | FamilyBackupFailed \<Rightarrow> Some SubscriptionBackupFailedOrOverdue
      | FamilyBackupOverdue \<Rightarrow> Some SubscriptionBackupFailedOrOverdue
      | FamilyAppUpdateAttention \<Rightarrow> Some SubscriptionAppUpdateAttention
      | OtherFamily _ \<Rightarrow> None)"

definition alertScopeKey :: "Alert \<Rightarrow> string" where
  "alertScopeKey alert =
     (if TrimSpace (al_DeviceID alert) \<noteq> [] then ''device:'' @ TrimSpace (al_DeviceID alert)
      else if TrimSpace (al_SiteID alert) \<noteq> [] then ''site:'' @ TrimSpace (al_SiteID alert)
      else ''account:'' @ TrimSpace (al_AccountID alert))"

text \<open>\<open>json.Marshal\<close> of the template map: its names are sorted.\<close>

definition template_data :: "Alert \<Rightarrow> string" where
  "template_data alert = object_text
     [(''alert_id'', quote (al_AlertID alert)),
      (''detail'', quote (al_Detail alert)),
      (''family'', quote (family_text (al_Family alert))),
      (''reason_code'', quote (al_ReasonCode alert)),
      (''severity'', quote (severity_text (al_Severity alert))),
      (''title'', quote (al_Title alert))]"

text \<open>\<open>html.EscapeString\<close>.\<close>

definition html_char :: "char \<Rightarrow> string" where
  "html_char c =
     (if c = CHR ''&'' then ''&amp;'' else if c = CHR 0x27 then ''&#39;''
      else if c = CHR ''<'' then ''&lt;'' else if c = CHR ''>'' then ''&gt;''
      else if c = CHR 0x22 then ''&#34;'' else [c])"

definition html_EscapeString :: "string \<Rightarrow> string" where
  "html_EscapeString s = concat (map html_char s)"

definition DefaultRenderer_Render :: "string \<Rightarrow> NotificationAttempt \<Rightarrow> go_error + EmailMessage" where
  "DefaultRenderer_Render fromAddress attempt =
     (if TrimSpace fromAddress = [] then Inl (Errorf ''EMAIL_FROM is required'' [])
      else if TrimSpace (na_RecipientEmail attempt) = [] then
        Inl (Errorf ''recipient email is required'' [])
      else
        (case struct_members (na_TemplateData attempt) of
           None \<Rightarrow> Inl (Errorf ''render alert email: %w'' [])
         | Some ms \<Rightarrow>
             (let fld = field_values [''title'', ''detail'', ''severity'', ''reason_code''] ms in
              case (dec_string [] (fld ''title''), dec_string [] (fld ''detail''),
                    dec_string [] (fld ''severity''), dec_string [] (fld ''reason_code'')) of
                (Some title, Some detail, Some _, Some _) \<Rightarrow>
                  (let body = (if TrimSpace detail = [] then ''A HomeSignal alert needs attention.''
                               else TrimSpace detail) in
                   Inr \<lparr>em_From = TrimSpace fromAddress, em_To = na_RecipientEmail attempt,
                        em_Subject = ''HomeSignal alert: '' @ TrimSpace title, em_Text = body,
                        em_HTML = ''<p>'' @ html_EscapeString body @ ''</p>'',
                        em_IdempotencyKey = na_IdempotencyKey attempt\<rparr>)
              | _ \<Rightarrow> Inl (Errorf ''render alert email: %w'' []))))"

section \<open>Operations\<close>

definition notifications_now :: "'w NotificationService \<Rightarrow> ('w, time) op" where
  "notifications_now s = clock_now (nsv_Clock s) (nsv_TimeNow s)"

definition newAttemptID :: "'w NotificationService \<Rightarrow> ('w, string) op" where
  "newAttemptID s =
     bindE (required (nsv_IDGenerator s)
              (Errorf ''notification attempt id generator is required'' [])) (\<lambda>gen.
     bindE (liftE gen) (\<lambda>i.
     bindE (failIf (TrimSpace i = []) (Errorf ''notification attempt id is required'' [])) (\<lambda>_.
     ret (TrimSpace i))))"

definition new_attempt ::
  "Alert \<Rightarrow> AlertRecipient \<Rightarrow> SubscriptionFamily \<Rightarrow> string \<Rightarrow> bool \<Rightarrow> time \<Rightarrow> NotificationAttempt" where
  "new_attempt alert recipient family attemptID suppressed now =
     \<lparr>na_NotificationAttemptID = attemptID, na_AlertID = al_AlertID alert,
      na_AlertRecipientID = rec_AlertRecipientID recipient, na_AccountID = al_AccountID alert,
      na_SiteID = al_SiteID alert, na_DeviceID = al_DeviceID alert, na_Family = family,
      na_Channel = ChannelEmail,
      na_Status = (if suppressed then NotificationSuppressed else NotificationPending),
      na_TemplateKey = TemplateAlertEmail, na_RecipientEmail = rec_Email recipient,
      na_RecipientEmailNormalized = rec_EmailNormalized recipient, na_Subject = [],
      na_BodyText = [], na_BodyHTML = [], na_Provider = [], na_ProviderMessageID = [],
      na_IdempotencyKey = ''alert:'' @ al_AlertID alert @ '':recipient:'' @
        rec_AlertRecipientID recipient,
      na_AttemptCount = 0, na_LastError = None, na_TemplateData = template_data alert,
      na_NotBefore = None, na_ClaimedAt = None, na_SentAt = None, na_FailedAt = None,
      na_CreatedAt = now, na_UpdatedAt = now\<rparr>"

definition EnqueueAlertEmail ::
  "'w NotificationService \<Rightarrow> Alert \<Rightarrow> AlertRecipient \<Rightarrow> ('w, NotificationAttempt) op" where
  "EnqueueAlertEmail s alert recipient =
     bindE (required (nsv_Repository s) (Errorf ''notification repository is required'' [])) (\<lambda>repo.
     bindE (failIf (rec_Status recipient \<noteq> RecipientVerified \<or> rec_Channel recipient \<noteq> ChannelEmail)
              (Errorf ''recipient is not eligible for product alert email'' [])) (\<lambda>_.
     bindE (required (alertingSubscriptionFamily (al_Family alert))
              (Errorf ''alert family is not email-notifiable'' [])) (\<lambda>family.
     bindE (notifications_now s) (\<lambda>now.
     bindE (newAttemptID s) (\<lambda>attemptID.
     bindE (wrapE ''check notification suppression''
              (nrp_IsSuppressed repo (rec_AlertRecipientID recipient) (alertScopeKey alert) family now))
       (\<lambda>suppressed.
     let attempt = new_attempt alert recipient family attemptID suppressed now in
     bindE (check (validateAttempt attempt)) (\<lambda>_.
     bindE (wrapE ''create notification attempt'' (nrp_CreateAttempt repo attempt)) (\<lambda>_.
     ret attempt))))))))"

definition failAttempt ::
  "'w NotificationRepository \<Rightarrow> NotificationAttempt \<Rightarrow> time \<Rightarrow> go_error \<Rightarrow> ('w, NotificationAttempt) op" where
  "failAttempt repo attempt now e =
     (let failed = attempt\<lparr>na_Status := NotificationFailed, na_LastError := Some e,
                           na_FailedAt := Some now, na_UpdatedAt := now\<rparr> in
      bindE (ignoreE (nrp_SaveAttempt repo failed)) (\<lambda>_. ret failed))"

definition sent_attempt :: "NotificationAttempt \<Rightarrow> EmailMessage \<Rightarrow> ProviderResult \<Rightarrow> time \<Rightarrow> NotificationAttempt" where
  "sent_attempt attempt message res now =
     attempt\<lparr>na_Status := NotificationSent, na_Provider := TrimSpace (prs_Provider res),
             na_ProviderMessageID := TrimSpace (prs_ProviderMessageID res),
             na_Subject := em_Subject message, na_BodyText := em_Text message,
             na_BodyHTML := em_HTML message, na_SentAt := Some now, na_LastError := None,
             na_UpdatedAt := now\<rparr>"

text \<open>The renderer of the service, or the default one.\<close>

definition render_attempt :: "'w NotificationService \<Rightarrow> NotificationAttempt \<Rightarrow> ('w, EmailMessage) op" where
  "render_attempt s attempt =
     (case nsv_Renderer s of
        Some render \<Rightarrow> render attempt
      | None \<Rightarrow> pureE (DefaultRenderer_Render (nsv_FromAddress s) attempt))"

definition processAttempt ::
  "'w NotificationService \<Rightarrow> 'w NotificationRepository \<Rightarrow> (EmailMessage \<Rightarrow> ('w, ProviderResult) op) \<Rightarrow>
   NotificationAttempt \<Rightarrow> time \<Rightarrow> ('w, NotificationAttempt) op" where
  "processAttempt s repo send attempt0 now =
     (let attempt = attempt0\<lparr>na_AttemptCount := na_AttemptCount attempt0 + 1\<rparr> in
      bindE (attemptE (render_attempt s attempt)) (\<lambda>rendered.
      case rendered of
        Inl e \<Rightarrow> failAttempt repo attempt now e
      | Inr message \<Rightarrow>
          bindE (attemptE (send message)) (\<lambda>result.
          case result of
            Inl e \<Rightarrow> failAttempt repo attempt now e
          | Inr res \<Rightarrow>
              (let sent = sent_attempt attempt message res now in
               bindE (attemptE (nrp_SaveAttempt repo sent)) (\<lambda>saved.
               case saved of
                 Inl e \<Rightarrow> ret (sent\<lparr>na_Status := NotificationFailed, na_LastError := Some e\<rparr>)
               | Inr _ \<Rightarrow> ret sent)))))"

fun processAttempts ::
  "'w NotificationService \<Rightarrow> 'w NotificationRepository \<Rightarrow> (EmailMessage \<Rightarrow> ('w, ProviderResult) op) \<Rightarrow>
   NotificationAttempt list \<Rightarrow> time \<Rightarrow> ('w, NotificationAttempt list) op" where
  "processAttempts s repo send [] now = ret []"
| "processAttempts s repo send (a # rest) now =
     bindE (processAttempt s repo send a now) (\<lambda>processed.
     bindE (processAttempts s repo send rest now) (\<lambda>others. ret (processed # others)))"

definition ProcessPending :: "'w NotificationService \<Rightarrow> int \<Rightarrow> ('w, NotificationAttempt list) op" where
  "ProcessPending s limit =
     bindE (required (nsv_Repository s) (Errorf ''notification repository is required'' [])) (\<lambda>repo.
     bindE (required (nsv_Provider s) (Errorf ''email provider is required'' [])) (\<lambda>send.
     bindE (failIf (limit \<le> 0) (Errorf ''limit must be positive'' [])) (\<lambda>_.
     bindE (notifications_now s) (\<lambda>now.
     bindE (wrapE ''claim pending notification attempts''
              (nrp_ClaimPendingAttempts repo now limit)) (\<lambda>attempts.
     processAttempts s repo send attempts now)))))"

end
