(* ===== verification/Notification_Store.thy ===== *)
theory Notification_Store
  imports Notifications
begin

text \<open>
  What the notification service guarantees over every repository, provider and renderer that keep
  \<open>notification_contract\<close>: which attempts are created, that of each claimed attempt at most its own
  message is given to the provider, and how the outcome is recorded, with and without failing calls.
  \<open>notification_store\<close> interprets the contract.
\<close>

section \<open>The contract\<close>

record notification_view =
  nv_attempts :: "string \<Rightarrow> NotificationAttempt option"
  nv_given :: "EmailMessage list"

definition put_attempt :: "NotificationAttempt \<Rightarrow> notification_view \<Rightarrow> notification_view" where
  "put_attempt a v = v\<lparr>nv_attempts := (nv_attempts v)(na_NotificationAttemptID a \<mapsto> a)\<rparr>"

lemma put_attempt_fields [simp]:
  "nv_attempts (put_attempt a v) = (nv_attempts v)(na_NotificationAttemptID a \<mapsto> a)"
  "nv_given (put_attempt a v) = nv_given v"
  by (simp_all add: put_attempt_def)

definition attempt_ids :: "NotificationAttempt list \<Rightarrow> string list" where
  "attempt_ids as = map na_NotificationAttemptID as"

text \<open>\<open>claims v as v'\<close>: the attempts \<open>as\<close>, pending before, are claimed now, and no other one changed.\<close>

definition claims :: "notification_view \<Rightarrow> NotificationAttempt list \<Rightarrow> notification_view \<Rightarrow> bool" where
  "claims v as v' \<longleftrightarrow> nv_given v' = nv_given v \<and> distinct (attempt_ids as) \<and>
     (\<forall>a \<in> set as. na_Status a = NotificationClaimed \<and>
        (\<exists>b. nv_attempts v (na_NotificationAttemptID a) = Some b \<and> na_Status b = NotificationPending) \<and>
        nv_attempts v' (na_NotificationAttemptID a) = Some a) \<and>
     (\<forall>i. i \<notin> set (attempt_ids as) \<longrightarrow> nv_attempts v' i = nv_attempts v i)"

text \<open>
  What processing one claimed attempt \<open>a\<close> leaves, reported as \<open>p\<close>: the provider got the messages \<open>ms\<close>, none
  or the one rendered from the attempt, and got it if the attempt is reported sent; the attempt is stored
  as reported, or, reported failed while calls fail, left as it was claimed.
\<close>

definition attempt_outcome ::
  "(NotificationAttempt \<Rightarrow> EmailMessage \<Rightarrow> bool) \<Rightarrow> bool \<Rightarrow> NotificationAttempt \<Rightarrow> NotificationAttempt \<Rightarrow>
   EmailMessage list \<Rightarrow> NotificationAttempt \<Rightarrow> bool" where
  "attempt_outcome rendered h a p ms stored \<longleftrightarrow>
     na_NotificationAttemptID p = na_NotificationAttemptID a \<and> na_AttemptCount p = na_AttemptCount a + 1 \<and>
     na_IdempotencyKey p = na_IdempotencyKey a \<and> na_RecipientEmail p = na_RecipientEmail a \<and>
     na_TemplateData p = na_TemplateData a \<and>
     (ms = [] \<or> (\<exists>m. ms = [m] \<and> rendered (a\<lparr>na_AttemptCount := na_AttemptCount a + 1\<rparr>) m)) \<and>
     (na_Status p = NotificationSent \<and> ms \<noteq> [] \<and> na_SentAt p \<noteq> None \<and> na_LastError p = None \<and> stored = p \<or>
      na_Status p = NotificationFailed \<and> na_LastError p \<noteq> None \<and> (stored = p \<or> \<not> h \<and> stored = a))"

definition processed_ok ::
  "(NotificationAttempt \<Rightarrow> EmailMessage \<Rightarrow> bool) \<Rightarrow> bool \<Rightarrow> notification_view \<Rightarrow> NotificationAttempt \<Rightarrow>
   NotificationAttempt \<Rightarrow> EmailMessage list \<Rightarrow> notification_view \<Rightarrow> bool" where
  "processed_ok rendered h v a p ms v' \<longleftrightarrow> nv_given v' = nv_given v @ ms \<and>
     (\<exists>stored. attempt_outcome rendered h a p ms stored \<and>
        nv_attempts v' = (nv_attempts v)(na_NotificationAttemptID a \<mapsto> stored))"

text \<open>The same of a batch of attempts, with the messages of each.\<close>

fun batch_ok ::
  "(NotificationAttempt \<Rightarrow> EmailMessage \<Rightarrow> bool) \<Rightarrow> bool \<Rightarrow> notification_view \<Rightarrow> NotificationAttempt list \<Rightarrow>
   NotificationAttempt list \<Rightarrow> EmailMessage list list \<Rightarrow> notification_view \<Rightarrow> bool" where
  "batch_ok rendered h v [] ps mss v' = (ps = [] \<and> mss = [] \<and> v' = v)"
| "batch_ok rendered h v (a # as) ps mss v' =
     (\<exists>p ps' ms mss' u. ps = p # ps' \<and> mss = ms # mss' \<and> processed_ok rendered h v a p ms u \<and>
        batch_ok rendered h u as ps' mss' v')"

lemma outcome_id: "attempt_outcome rendered h a p ms stored \<Longrightarrow>
    na_NotificationAttemptID p = na_NotificationAttemptID a"
  by (simp add: attempt_outcome_def)

lemma processed_other: "processed_ok rendered h v a p ms u \<Longrightarrow> i \<noteq> na_NotificationAttemptID a \<Longrightarrow>
    nv_attempts u i = nv_attempts v i"
  by (auto simp: processed_ok_def)

lemma batch_other: "batch_ok rendered h v as ps mss v' \<Longrightarrow> i \<notin> set (attempt_ids as) \<Longrightarrow>
    nv_attempts v' i = nv_attempts v i"
  by (induction rendered h v as ps mss v' rule: batch_ok.induct) (auto simp: attempt_ids_def processed_other)

lemma batch_ids: "batch_ok rendered h v as ps mss v' \<Longrightarrow> attempt_ids ps = attempt_ids as"
  by (induction rendered h v as ps mss v' rule: batch_ok.induct)
    (auto simp: attempt_ids_def processed_ok_def dest: outcome_id)

lemma batch_given: "batch_ok rendered h v as ps mss v' \<Longrightarrow> nv_given v' = nv_given v @ concat mss"
  by (induction rendered h v as ps mss v' rule: batch_ok.induct) (auto simp: processed_ok_def)

text \<open>What a processed batch leaves of each of its attempts, when the claimed attempts are distinct.\<close>

lemma batch_outcomes:
  "batch_ok rendered h v as ps mss v' \<Longrightarrow> distinct (attempt_ids as) \<Longrightarrow>
   list_all2 (\<lambda>p ms. \<exists>a \<in> set as. \<exists>stored. attempt_outcome rendered h a p ms stored \<and>
     nv_attempts v' (na_NotificationAttemptID p) = Some stored) ps mss"
proof (induction rendered h v as ps mss v' rule: batch_ok.induct)
  case (2 rendered h v a as ps mss v')
  then obtain p ps' ms mss' u stored where u: "ps = p # ps'" "mss = ms # mss'"
    "attempt_outcome rendered h a p ms stored"
    "nv_attempts u = (nv_attempts v)(na_NotificationAttemptID a \<mapsto> stored)"
    "batch_ok rendered h u as ps' mss' v'"
    by (auto simp: processed_ok_def)
  from "2.prems"(2) have d: "na_NotificationAttemptID a \<notin> set (attempt_ids as)" "distinct (attempt_ids as)"
    by (auto simp: attempt_ids_def)
  have "nv_attempts v' (na_NotificationAttemptID p) = Some stored"
    using batch_other [OF u(5) d(1)] u(4) outcome_id [OF u(3)] by simp
  moreover have "list_all2 (\<lambda>p ms. \<exists>b \<in> set (a # as). \<exists>stored. attempt_outcome rendered h b p ms stored \<and>
      nv_attempts v' (na_NotificationAttemptID p) = Some stored) ps' mss'"
    by (rule list_all2_mono [OF "2.IH" [OF u(5) d(2)]]) auto
  ultimately show ?case using u(3) by (auto simp: u(1,2))
qed simp

locale notification_contract =
  fixes svc :: "'w NotificationService" and repo :: "'w NotificationRepository"
    and send :: "EmailMessage \<Rightarrow> ('w, ProviderResult) op" and view :: "'w \<Rightarrow> notification_view"
    and healthy :: "'w \<Rightarrow> bool" and rendered :: "NotificationAttempt \<Rightarrow> EmailMessage \<Rightarrow> bool"
  assumes wired: "nsv_Repository svc = Some repo" "nsv_Provider svc = Some send"
    and Create_law: "nrp_CreateAttempt repo a w = (x, w') \<Longrightarrow>
      (case x of Inl e \<Rightarrow> view w' = view w | Inr u \<Rightarrow> view w' = put_attempt a (view w))"
    and Claim_law: "nrp_ClaimPendingAttempts repo now limit w = (got, w') \<Longrightarrow> (healthy w \<longrightarrow> healthy w') \<and>
      (case got of Inl e \<Rightarrow> view w' = view w
       | Inr as \<Rightarrow> claims (view w) as (view w') \<and> length as \<le> nat limit)"
    and Save_law: "nrp_SaveAttempt repo a w = (x, w') \<Longrightarrow> (healthy w \<longrightarrow> healthy w') \<and>
      (case x of Inl e \<Rightarrow> view w' = view w \<and> \<not> healthy w | Inr u \<Rightarrow> view w' = put_attempt a (view w))"
    and Suppressed_law: "nrp_IsSuppressed repo i k fam t w = (sx, w') \<Longrightarrow> view w' = view w"
    and send_law: "send m w = (sr, w') \<Longrightarrow> (healthy w \<longrightarrow> healthy w') \<and> nv_attempts (view w') = nv_attempts (view w) \<and>
      (case sr of Inl e \<Rightarrow> nv_given (view w') \<in> {nv_given (view w), nv_given (view w) @ [m]}
       | Inr r \<Rightarrow> nv_given (view w') = nv_given (view w) @ [m])"
    and Render_law: "nsv_Renderer svc = Some render \<Longrightarrow> render a w = (rr, w') \<Longrightarrow> view w' = view w \<and>
      (healthy w \<longrightarrow> healthy w') \<and> (case rr of Inl e \<Rightarrow> True | Inr m \<Rightarrow> rendered a m)"
    and Default_law: "nsv_Renderer svc = None \<Longrightarrow> DefaultRenderer_Render (nsv_FromAddress svc) a = Inr m \<Longrightarrow>
      rendered a m"
    and Clock_law: "nsv_Clock svc = Some f \<Longrightarrow> f w = (t, w') \<Longrightarrow> view w' = view w \<and> (healthy w \<longrightarrow> healthy w')"
    and TimeNow_law: "nsv_TimeNow svc w = (t, w') \<Longrightarrow> view w' = view w \<and> (healthy w \<longrightarrow> healthy w')"
    and IDGenerator_law: "nsv_IDGenerator svc = Some g \<Longrightarrow> g w = (y, w') \<Longrightarrow> view w' = view w"
begin

text \<open>From a healthy world on every world is healthy.\<close>

definition onward :: "'w \<Rightarrow> 'w \<Rightarrow> bool" where
  "onward w w' \<longleftrightarrow> (healthy w \<longrightarrow> healthy w')"

definition fits :: "bool \<Rightarrow> 'w \<Rightarrow> bool" where
  "fits h w \<longleftrightarrow> (h \<longrightarrow> healthy w)"

lemma fits_onward [elim]: "fits h w \<Longrightarrow> onward w w' \<Longrightarrow> fits h w'"
  by (simp add: fits_def onward_def)

lemma fits_False [simp]: "fits False w"
  by (simp add: fits_def)

lemma onward_refl [simp]: "onward w w"
  by (simp add: onward_def)

lemma fits_healthy: "onward w u \<Longrightarrow> fits (healthy w) u"
  by (simp add: fits_def onward_def)

lemmas unsplit_laws = onward_def [symmetric]
lemmas Claim_law' = Claim_law [unfolded unsplit_laws]
lemmas Save_law' = Save_law [unfolded unsplit_laws]
lemmas send_law' = send_law [unfolded unsplit_laws]
lemmas Render_law' = Render_law [unfolded unsplit_laws]
lemmas Clock_law' = Clock_law [unfolded unsplit_laws]
lemmas TimeNow_law' = TimeNow_law [unfolded unsplit_laws]

lemma wp_now:
  assumes "\<And>t w'. view w' = view w \<Longrightarrow> onward w w' \<Longrightarrow> Q t w'"
  shows "wp (notifications_now svc) Q E w"
  using assms by (auto simp: notifications_now_def wp_simps split: option.split prod.split
      dest: Clock_law' TimeNow_law')

lemma wp_newAttemptID:
  assumes "\<And>e w'. view w' = view w \<Longrightarrow> E e w'" and "\<And>i w'. view w' = view w \<Longrightarrow> Q i w'"
  shows "wp (newAttemptID svc) Q E w"
  using assms by (auto simp: newAttemptID_def wp_simps split: option.split prod.split
      dest: IDGenerator_law)

lemma wp_IsSuppressed:
  assumes "\<And>e w'. view w' = view w \<Longrightarrow> E e w'" and "\<And>b w'. view w' = view w \<Longrightarrow> Q b w'"
  shows "wp (nrp_IsSuppressed repo i k f t) Q E w"
  by (rule wpI) (auto dest!: Suppressed_law intro: assms)

lemma wp_Create:
  assumes "\<And>e w'. view w' = view w \<Longrightarrow> E e w'" and "\<And>w'. view w' = put_attempt a (view w) \<Longrightarrow> Q () w'"
  shows "wp (nrp_CreateAttempt repo a) Q E w"
  by (rule wpI) (auto dest!: Create_law intro: assms)

lemma wp_Save:
  assumes "\<And>e w'. view w' = view w \<Longrightarrow> \<not> healthy w \<Longrightarrow> E e w'"
    and "\<And>w'. view w' = put_attempt a (view w) \<Longrightarrow> onward w w' \<Longrightarrow> Q () w'"
  shows "wp (nrp_SaveAttempt repo a) Q E w"
  by (rule wpI) (auto dest!: Save_law' intro: assms)

lemma wp_render:
  assumes "\<And>e w'. view w' = view w \<Longrightarrow> onward w w' \<Longrightarrow> E e w'"
    and "\<And>m w'. view w' = view w \<Longrightarrow> onward w w' \<Longrightarrow> rendered a m \<Longrightarrow> Q m w'"
  shows "wp (render_attempt svc a) Q E w"
proof (cases "nsv_Renderer svc")
  case None
  then show ?thesis using assms Default_law [OF None, of a]
    by (auto simp: render_attempt_def wp_simps split: sum.split)
next
  case (Some render)
  then show ?thesis
    by (simp add: render_attempt_def) (rule wpI; auto dest!: Render_law' [OF Some] intro: assms)
qed

lemma wp_send:
  assumes "\<And>e w' ms. ms \<in> {[], [m]} \<Longrightarrow> nv_attempts (view w') = nv_attempts (view w) \<Longrightarrow>
             nv_given (view w') = nv_given (view w) @ ms \<Longrightarrow> onward w w' \<Longrightarrow> E e w'"
    and "\<And>r w'. nv_attempts (view w') = nv_attempts (view w) \<Longrightarrow>
             nv_given (view w') = nv_given (view w) @ [m] \<Longrightarrow> onward w w' \<Longrightarrow> Q r w'"
  shows "wp (send m) Q E w"
  by (rule wpI) (auto dest!: send_law' intro: assms(2),
    (rule assms(1) [of "[]"]; simp), (rule assms(1) [of "[m]"]; simp))

text \<open>\<open>done_with h a w p w'\<close>: the attempt \<open>a\<close>, stored as it is in \<open>w\<close>, has been processed.\<close>

definition done_with :: "bool \<Rightarrow> NotificationAttempt \<Rightarrow> 'w \<Rightarrow> NotificationAttempt \<Rightarrow> 'w \<Rightarrow> bool" where
  "done_with h a w p w' \<longleftrightarrow> fits h w' \<and> (\<exists>ms. processed_ok rendered h (view w) a p ms (view w'))"

lemma done_withI:
  assumes "fits h w'" and "nv_given (view w') = nv_given (view w) @ ms"
    and "attempt_outcome rendered h a p ms stored"
    and "nv_attempts (view w') = (nv_attempts (view w))(na_NotificationAttemptID a \<mapsto> stored)"
  shows "done_with h a w p w'"
  using assms unfolding done_with_def processed_ok_def by blast

lemma unchanged_row: "nv_attempts v i = Some a \<Longrightarrow> nv_attempts v = (nv_attempts v)(i \<mapsto> a)"
  by (rule ext) simp

lemma wp_failAttempt:
  assumes "nv_attempts (view u) = nv_attempts (view w)" and "nv_given (view u) = nv_given (view w) @ ms"
    and "ms = [] \<or> (\<exists>m. ms = [m] \<and> rendered (a\<lparr>na_AttemptCount := na_AttemptCount a + 1\<rparr>) m)"
    and "fits h u" and "nv_attempts (view w) (na_NotificationAttemptID a) = Some a"
  shows "wp (failAttempt repo (a\<lparr>na_AttemptCount := na_AttemptCount a + 1\<rparr>) now e) (done_with h a w) E u"
proof -
  let ?p = "a\<lparr>na_AttemptCount := na_AttemptCount a + 1, na_Status := NotificationFailed, na_LastError := Some e,
      na_FailedAt := Some now, na_UpdatedAt := now\<rparr>"
  have out: "attempt_outcome rendered h a ?p ms ?p" "\<not> h \<Longrightarrow> attempt_outcome rendered h a ?p ms a"
    using assms(3) by (auto simp: attempt_outcome_def)
  have stored: "done_with h a w ?p w'" if "view w' = put_attempt ?p (view u)" "onward u w'" for w'
    by (rule done_withI [OF _ _ out(1)]) (use that assms(1,2,4) in auto)
  have kept: "done_with h a w ?p w'" if "view w' = view u" "\<not> healthy u" for w'
  proof -
    have "\<not> h" using that(2) assms(4) by (simp add: fits_def)
    then show ?thesis
      using that(1) assms(1,2) unchanged_row [OF assms(5)] by (intro done_withI [OF _ _ out(2)]) auto
  qed
  show ?thesis
    by (auto simp: failAttempt_def wp_simps Let_def intro!: wp_Save intro: stored kept)
qed

lemma sent_outcome:
  assumes "rendered (a\<lparr>na_AttemptCount := na_AttemptCount a + 1\<rparr>) m"
    and "q = sent_attempt (a\<lparr>na_AttemptCount := na_AttemptCount a + 1\<rparr>) m r now"
  shows "attempt_outcome rendered h a q [m] q"
    and "\<not> h \<Longrightarrow> attempt_outcome rendered h a (q\<lparr>na_Status := NotificationFailed, na_LastError := Some e\<rparr>) [m] a"
  using assms by (simp_all add: attempt_outcome_def sent_attempt_def)

lemma wp_sent:
  assumes "nv_attempts (view u) = nv_attempts (view w)" and "nv_given (view u) = nv_given (view w) @ [m]"
    and "rendered (a\<lparr>na_AttemptCount := na_AttemptCount a + 1\<rparr>) m"
    and "q = sent_attempt (a\<lparr>na_AttemptCount := na_AttemptCount a + 1\<rparr>) m r now"
    and "fits h u" and "nv_attempts (view w) (na_NotificationAttemptID a) = Some a"
  shows "wp (nrp_SaveAttempt repo q) (\<lambda>_. done_with h a w q)
    (\<lambda>e. done_with h a w (q\<lparr>na_Status := NotificationFailed, na_LastError := Some e\<rparr>)) u"
proof (rule wp_Save)
  have i: "na_NotificationAttemptID q = na_NotificationAttemptID a" by (simp add: assms(4) sent_attempt_def)
  note out = sent_outcome [OF assms(3,4)]
  fix w' assume "view w' = put_attempt q (view u)" "onward u w'"
  with assms(1,2,5) i show "done_with h a w q w'"
    by (intro done_withI [OF _ _ out(1)]) auto
next
  note out = sent_outcome [OF assms(3,4)]
  fix e w' assume v: "view w' = view u" and "\<not> healthy u"
  with assms(5) have h: "\<not> h" by (simp add: fits_def)
  show "done_with h a w (q\<lparr>na_Status := NotificationFailed, na_LastError := Some e\<rparr>) w'"
    using v h assms(1,2) unchanged_row [OF assms(6)]
    by (auto intro!: done_withI [OF _ _ out(2)])
qed

lemma render_fits:
  "fits h w \<Longrightarrow> wp (render_attempt svc b) (\<lambda>m u. view u = view w \<and> fits h u \<and> rendered b m)
     (\<lambda>e u. view u = view w \<and> fits h u) w"
  by (rule wp_render) auto

lemma send_fits:
  "fits h w \<Longrightarrow> wp (send m)
     (\<lambda>r u. nv_attempts (view u) = nv_attempts (view w) \<and> nv_given (view u) = nv_given (view w) @ [m] \<and> fits h u)
     (\<lambda>e u. nv_attempts (view u) = nv_attempts (view w) \<and> fits h u \<and>
        (\<exists>ms. (ms = [] \<or> ms = [m]) \<and> nv_given (view u) = nv_given (view w) @ ms)) w"
  by (rule wp_send) auto

lemma wp_processAttempt:
  assumes "fits h w" and "nv_attempts (view w) (na_NotificationAttemptID a) = Some a"
  shows "wp (processAttempt svc repo send a now) (done_with h a w) E w"
proof -
  let ?a = "a\<lparr>na_AttemptCount := na_AttemptCount a + 1\<rparr>"
  note saved = wp_sent [OF _ _ _ refl _ assms(2)]
  have failed: "wp (failAttempt repo ?a now e) (done_with h a w) E u"
    if "nv_attempts (view u) = nv_attempts (view w)" "fits h u"
      "nv_given (view u) = nv_given (view w) \<or> (\<exists>m. rendered ?a m \<and> nv_given (view u) = nv_given (view w) @ [m])" for e E u
    using that(3)
  proof
    assume "nv_given (view u) = nv_given (view w)"
    then show ?thesis by (intro wp_failAttempt [where ms = "[]", OF that(1) _ _ that(2) assms(2)]) auto
  next
    assume "\<exists>m. rendered ?a m \<and> nv_given (view u) = nv_given (view w) @ [m]"
    then obtain m where "rendered ?a m" "nv_given (view u) = nv_given (view w) @ [m]" by blast
    then show ?thesis by (intro wp_failAttempt [where ms = "[m]", OF that(1) _ _ that(2) assms(2)]) auto
  qed
  show ?thesis
    unfolding processAttempt_def Let_def
    by (auto simp: wp_simps intro!: wp_mono [OF render_fits [OF assms(1)]] wp_mono [OF send_fits]
        wp_mono [OF saved] failed)
qed

lemma wp_EnqueueAlertEmail:
  "wp (EnqueueAlertEmail svc alert recipient)
     (\<lambda>a w'. view w' = put_attempt a (view w) \<and> rec_Status recipient = RecipientVerified \<and>
        na_Status a \<in> {NotificationPending, NotificationSuppressed} \<and>
        na_RecipientEmail a = rec_Email recipient \<and> na_AlertID a = al_AlertID alert \<and>
        validateAttempt a = None \<and>
        alertingSubscriptionFamily (al_Family alert) = Some (na_Family a))
     (\<lambda>e w'. view w' = view w) w"
  by (auto simp: EnqueueAlertEmail_def wired wp_simps Let_def
      intro!: wp_now wp_newAttemptID wp_IsSuppressed wp_Create split: option.split)
     (auto simp: new_attempt_def split: if_splits)

lemma wp_processAttempts:
  "fits h w \<Longrightarrow> distinct (attempt_ids as) \<Longrightarrow>
   \<forall>a \<in> set as. nv_attempts (view w) (na_NotificationAttemptID a) = Some a \<Longrightarrow>
   wp (processAttempts svc repo send as now) (\<lambda>ps w'. \<exists>mss. batch_ok rendered h (view w) as ps mss (view w')) E w"
proof (induction as arbitrary: w E)
  case (Cons a as)
  have rest: "wp (bindE (processAttempts svc repo send as now) (\<lambda>others. ret (p # others)))
      (\<lambda>ps w'. \<exists>mss. batch_ok rendered h (view w) (a # as) ps mss (view w')) E u"
    if d: "done_with h a w p u" for p u
  proof -
    from d obtain ms where ms: "fits h u" "processed_ok rendered h (view w) a p ms (view u)"
      by (auto simp: done_with_def)
    have "nv_attempts (view u) (na_NotificationAttemptID b) = Some b" if "b \<in> set as" for b
    proof -
      have "na_NotificationAttemptID b \<noteq> na_NotificationAttemptID a"
        using that Cons.prems(2) by (simp add: attempt_ids_def) (metis imageI)
      then show ?thesis using processed_other [OF ms(2)] Cons.prems(3) that by simp
    qed
    with ms(1) Cons.prems(2) show ?thesis
      by (simp add: wp_simps, intro wp_mono [OF Cons.IH]) (use ms(2) in \<open>auto simp: attempt_ids_def wp_simps\<close>)
  qed
  show ?case
    by (simp add: wp_simps del: batch_ok.simps, rule wp_mono [OF wp_processAttempt [OF Cons.prems(1)]])
      (use Cons.prems(3) in \<open>auto intro!: rest simp del: batch_ok.simps\<close>)
qed (simp add: wp_simps)

lemma wp_ProcessPending:
  "wp (ProcessPending svc limit)
     (\<lambda>ps w'. \<exists>as u mss. claims (view w) as u \<and> length as \<le> nat limit \<and>
        batch_ok rendered (healthy w) u as ps mss (view w'))
     (\<lambda>e w'. view w' = view w) w"
proof -
  have claim: "wp (nrp_ClaimPendingAttempts repo now limit) Q E u"
    if "fits (healthy w) u" "\<And>e w'. view w' = view u \<Longrightarrow> E e w'"
      "\<And>as w'. claims (view u) as (view w') \<Longrightarrow> length as \<le> nat limit \<Longrightarrow> fits (healthy w) w' \<Longrightarrow> Q as w'"
    for Q E u now
    by (rule wpI) (auto dest!: Claim_law' intro: that fits_onward [OF that(1)])
  have batch: "wp (processAttempts svc repo send as now)
     (\<lambda>ps w'. \<exists>as u mss. claims (view w) as u \<and> length as \<le> nat limit \<and>
        batch_ok rendered (healthy w) u as ps mss (view w')) E u"
    if "claims (view w) as (view u)" "length as \<le> nat limit" "fits (healthy w) u" for as u now E
    by (rule wp_mono [OF wp_processAttempts [OF that(3)]]) (use that in \<open>auto simp: claims_def\<close>)
  show ?thesis
    by (auto simp: ProcessPending_def wired wp_simps intro!: wp_now claim fits_healthy)
      (rule wp_mono [OF batch [where E = "\<lambda>_ _. False"]]; auto)
qed

end

section \<open>The fakes of the tests\<close>

record notification_store = env +
  ns_rows :: "NotificationAttempt list"
  ns_suppressed :: bool
  ns_given :: "EmailMessage list"
  ns_providerName :: string
  ns_messageID :: string
  ns_providerErr :: "go_error option"

definition attempt_row :: "NotificationAttempt list \<Rightarrow> string \<Rightarrow> NotificationAttempt option" where
  "attempt_row rows i = find (\<lambda>a. na_NotificationAttemptID a = i) rows"

definition save_attempt_rows :: "NotificationAttempt list \<Rightarrow> NotificationAttempt list \<Rightarrow> NotificationAttempt list" where
  "save_attempt_rows as rows =
     as @ filter (\<lambda>x. na_NotificationAttemptID x \<notin> set (attempt_ids as)) rows"

definition claimable_rows :: "time \<Rightarrow> NotificationAttempt list \<Rightarrow> NotificationAttempt list" where
  "claimable_rows now rows =
     filter (\<lambda>a. na_Status a = NotificationPending \<and>
        (case na_NotBefore a of None \<Rightarrow> True | Some t \<Rightarrow> \<not> After t now))
      (List.map_filter (attempt_row rows) (remdups (attempt_ids rows)))"

definition claim_attempt :: "time \<Rightarrow> NotificationAttempt \<Rightarrow> NotificationAttempt" where
  "claim_attempt now a = a\<lparr>na_Status := NotificationClaimed, na_ClaimedAt := Some now\<rparr>"

definition fake_ClaimPendingAttempts ::
  "time \<Rightarrow> int \<Rightarrow> (notification_store, NotificationAttempt list) op" where
  "fake_ClaimPendingAttempts now limit w =
     (let claimed = map (claim_attempt now) (take (nat limit) (claimable_rows now (ns_rows w))) in
      (Inr claimed, w\<lparr>ns_rows := save_attempt_rows claimed (ns_rows w)\<rparr>))"

definition fake_SaveAttempt :: "NotificationAttempt \<Rightarrow> (notification_store, unit) op" where
  "fake_SaveAttempt a w = (Inr (), w\<lparr>ns_rows := save_attempt_rows [a] (ns_rows w)\<rparr>)"

definition fake_IsSuppressed ::
  "string \<Rightarrow> string \<Rightarrow> SubscriptionFamily \<Rightarrow> time \<Rightarrow> (notification_store, bool) op" where
  "fake_IsSuppressed i k f t w = (Inr (ns_suppressed w), w)"

definition FakeProvider_SendEmail :: "EmailMessage \<Rightarrow> (notification_store, ProviderResult) op" where
  "FakeProvider_SendEmail m w =
     (let w' = w\<lparr>ns_given := ns_given w @ [m]\<rparr> in
      case ns_providerErr w of
        Some e \<Rightarrow> (Inl e, w')
      | None \<Rightarrow>
          (Inr \<lparr>prs_Provider = (if ns_providerName w = [] then ''fake'' else ns_providerName w),
                prs_ProviderMessageID = (if ns_messageID w = [] then ''fake_'' @ Itoa (length (ns_given w'))
                                         else ns_messageID w),
                prs_Metadata = []\<rparr>, w'))"

definition notification_repository :: "notification_store NotificationRepository" where
  "notification_repository =
     \<lparr>nrp_CreateAttempt = (\<lambda>a. with_fault (fake_SaveAttempt a)),
      nrp_ClaimPendingAttempts = (\<lambda>t n. with_fault (fake_ClaimPendingAttempts t n)),
      nrp_SaveAttempt = (\<lambda>a. with_fault (fake_SaveAttempt a)),
      nrp_IsSuppressed = (\<lambda>i k f t. with_fault (fake_IsSuppressed i k f t))\<rparr>"

definition fake_send :: "EmailMessage \<Rightarrow> (notification_store, ProviderResult) op" where
  "fake_send m = with_fault (FakeProvider_SendEmail m)"

definition notification_service :: "notification_store NotificationService" where
  "notification_service =
     \<lparr>nsv_Repository = Some notification_repository, nsv_Provider = Some fake_send,
      nsv_Renderer = None, nsv_FromAddress = ''alerts@homesignal.example'',
      nsv_IDGenerator = Some next_id, nsv_Clock = Some read_clock, nsv_TimeNow = read_clock\<rparr>"

definition notifications_view :: "notification_store \<Rightarrow> notification_view" where
  "notifications_view w = \<lparr>nv_attempts = attempt_row (ns_rows w), nv_given = ns_given w\<rparr>"

lemma find_append: "find P (xs @ ys) = (case find P xs of None \<Rightarrow> find P ys | Some x \<Rightarrow> Some x)"
  by (induction xs) auto

lemma find_filter_other: "(\<And>x. P x \<Longrightarrow> Q x) \<Longrightarrow> find P (filter Q xs) = find P xs"
  by (induction xs) auto

lemma attempt_row_id: "attempt_row rows i = Some a \<Longrightarrow> na_NotificationAttemptID a = i"
  by (auto simp: attempt_row_def find_Some_iff)

lemma attempt_row_save_other:
  "i \<notin> set (attempt_ids as) \<Longrightarrow> attempt_row (save_attempt_rows as rows) i = attempt_row rows i"
  using find_filter_other [of "\<lambda>a. na_NotificationAttemptID a = i"
      "\<lambda>x. na_NotificationAttemptID x \<notin> set (attempt_ids as)" rows]
  by (auto simp: attempt_row_def save_attempt_rows_def find_append attempt_ids_def
      find_None_iff split: option.split dest: find_Some_iff [THEN iffD1])

lemma attempt_row_member:
  "distinct (attempt_ids as) \<Longrightarrow> a \<in> set as \<Longrightarrow> attempt_row as (na_NotificationAttemptID a) = Some a"
  by (induction as) (auto simp: attempt_row_def attempt_ids_def)

lemma attempt_row_save_same:
  "distinct (attempt_ids as) \<Longrightarrow> a \<in> set as \<Longrightarrow>
   attempt_row (save_attempt_rows as rows) (na_NotificationAttemptID a) = Some a"
  using attempt_row_member [of as a] by (simp add: attempt_row_def save_attempt_rows_def find_append)

lemma attempt_row_save_one:
  "attempt_row (save_attempt_rows [a] rows) = (attempt_row rows)(na_NotificationAttemptID a \<mapsto> a)"
proof
  fix i
  show "attempt_row (save_attempt_rows [a] rows) i =
      ((attempt_row rows)(na_NotificationAttemptID a \<mapsto> a)) i"
    using attempt_row_save_same [of "[a]" a rows] attempt_row_save_other [of i "[a]" rows]
    by (cases "i = na_NotificationAttemptID a") (simp_all add: attempt_ids_def)
qed

lemma found_ids: "attempt_ids (List.map_filter (attempt_row rows) is) = filter (\<lambda>i. attempt_row rows i \<noteq> None) is"
  by (induction "is") (auto simp: attempt_ids_def map_filter_simps attempt_row_id split: option.split)

lemma claimable_rows_ok:
  "distinct (attempt_ids (claimable_rows now rows))"
  "a \<in> set (claimable_rows now rows) \<Longrightarrow>
     attempt_row rows (na_NotificationAttemptID a) = Some a \<and> na_Status a = NotificationPending \<and>
     (\<forall>t. na_NotBefore a = Some t \<longrightarrow> t \<le> now)"
proof -
  have "distinct (attempt_ids (List.map_filter (attempt_row rows) (remdups (attempt_ids rows))))"
    by (simp add: found_ids)
  then show "distinct (attempt_ids (claimable_rows now rows))"
    unfolding attempt_ids_def claimable_rows_def by (rule distinct_map_filter)
  assume a: "a \<in> set (claimable_rows now rows)"
  then obtain i where "attempt_row rows i = Some a"
    by (auto simp: claimable_rows_def List.map_filter_def)
  with a attempt_row_id [OF this] show "attempt_row rows (na_NotificationAttemptID a) = Some a \<and>
      na_Status a = NotificationPending \<and> (\<forall>t. na_NotBefore a = Some t \<longrightarrow> t \<le> now)"
    by (auto simp: claimable_rows_def)
qed

lemma claimed_ids: "attempt_ids (map (claim_attempt now) as) = attempt_ids as"
  by (simp add: attempt_ids_def claim_attempt_def)

lemma notifications_view_env [simp]:
  "notifications_view (w\<lparr>env_faults := fs\<rparr>) = notifications_view w"
  "notifications_view (w\<lparr>env_clock := t\<rparr>) = notifications_view w"
  "notifications_view (w\<lparr>env_ticks := ns\<rparr>) = notifications_view w"
  "notifications_view (w\<lparr>env_ids := ids\<rparr>) = notifications_view w"
  by (simp_all add: notifications_view_def)

lemma fake_claims:
  assumes "fake_ClaimPendingAttempts now limit w = (got, w')"
  shows "env_faults w' = env_faults w \<and> (case got of Inl e \<Rightarrow> notifications_view w' = notifications_view w
    | Inr as \<Rightarrow> claims (notifications_view w) as (notifications_view w') \<and>
        length as \<le> nat limit)"
proof -
  define picked where "picked = take (nat limit) (claimable_rows now (ns_rows w))"
  define cs where "cs = map (claim_attempt now) picked"
  have res: "got = Inr cs" "w' = w\<lparr>ns_rows := save_attempt_rows cs (ns_rows w)\<rparr>"
    using assms by (simp_all add: fake_ClaimPendingAttempts_def Let_def cs_def picked_def)
  have "attempt_ids picked = take (nat limit) (attempt_ids (claimable_rows now (ns_rows w)))"
    by (simp add: picked_def attempt_ids_def take_map)
  then have dist: "distinct (attempt_ids cs)"
    using claimable_rows_ok(1) by (simp add: cs_def claimed_ids)
  have pend: "\<exists>b. attempt_row (ns_rows w) (na_NotificationAttemptID a) = Some b \<and>
      na_Status b = NotificationPending \<and> na_Status a = NotificationClaimed" if "a \<in> set cs" for a
    using that claimable_rows_ok(2) by (auto simp: cs_def picked_def claim_attempt_def dest!: in_set_takeD)
  have "length cs \<le> nat limit" by (simp add: cs_def picked_def)
  with dist pend show ?thesis
    by (auto simp: res claims_def notifications_view_def attempt_row_save_same attempt_row_save_other)
qed

interpretation notifications: notification_contract notification_service notification_repository
  fake_send notifications_view "\<lambda>w. env_faults w = []"
  "\<lambda>a m. DefaultRenderer_Render (nsv_FromAddress notification_service) a = Inr m"
proof unfold_locales
  show "nsv_Repository notification_service = Some notification_repository"
    "nsv_Provider notification_service = Some fake_send"
    by (simp_all add: notification_service_def)
next
  fix a w x w'
  assume "nrp_CreateAttempt notification_repository a w = (x, w')"
  then show "case x of Inl e \<Rightarrow> notifications_view w' = notifications_view w
    | Inr u \<Rightarrow> notifications_view w' = put_attempt a (notifications_view w)"
    by (auto simp: notification_repository_def with_fault_def fake_SaveAttempt_def notifications_view_def
        attempt_row_save_one put_attempt_def split: list.splits if_splits)
next
  fix a w x w'
  assume "nrp_SaveAttempt notification_repository a w = (x, w')"
  then show "(env_faults w = [] \<longrightarrow> env_faults w' = []) \<and>
    (case x of Inl e \<Rightarrow> notifications_view w' = notifications_view w \<and> \<not> env_faults w = []
     | Inr u \<Rightarrow> notifications_view w' = put_attempt a (notifications_view w))"
    by (auto simp: notification_repository_def with_fault_def fake_SaveAttempt_def notifications_view_def
        attempt_row_save_one put_attempt_def split: list.splits if_splits)
next
  fix now limit w got w'
  assume "nrp_ClaimPendingAttempts notification_repository now limit w = (got, w')"
  then show "(env_faults w = [] \<longrightarrow> env_faults w' = []) \<and>
    (case got of Inl e \<Rightarrow> notifications_view w' = notifications_view w
     | Inr as \<Rightarrow> claims (notifications_view w) as (notifications_view w') \<and> length as \<le> nat limit)"
    by (cases got) (auto simp: notification_repository_def with_fault_def split: list.splits if_splits
        dest!: fake_claims)
next
  fix i k fam t w sx w'
  assume "nrp_IsSuppressed notification_repository i k fam t w = (sx, w')"
  then show "notifications_view w' = notifications_view w"
    by (auto simp: notification_repository_def with_fault_def fake_IsSuppressed_def
        split: list.splits if_splits)
next
  fix m w sr w'
  assume "fake_send m w = (sr, w')"
  then show "(env_faults w = [] \<longrightarrow> env_faults w' = []) \<and>
    nv_attempts (notifications_view w') = nv_attempts (notifications_view w) \<and>
    (case sr of Inl e \<Rightarrow> nv_given (notifications_view w') \<in>
        {nv_given (notifications_view w), nv_given (notifications_view w) @ [m]}
     | Inr r \<Rightarrow> nv_given (notifications_view w') = nv_given (notifications_view w) @ [m])"
    by (auto simp: fake_send_def FakeProvider_SendEmail_def with_fault_def Let_def notifications_view_def
        split: list.splits if_splits option.splits)
qed (auto simp: notification_service_def read_clock_def next_id_def split: list.splits)

text \<open>The counted attempt and the processed one render alike.\<close>

lemma render_alike:
  "na_RecipientEmail a = na_RecipientEmail b \<Longrightarrow> na_TemplateData a = na_TemplateData b \<Longrightarrow>
   na_IdempotencyKey a = na_IdempotencyKey b \<Longrightarrow> DefaultRenderer_Render sender a = DefaultRenderer_Render sender b"
  by (auto simp: DefaultRenderer_Render_def Let_def split: option.split prod.split)

lemma outcome_rendered:
  assumes "attempt_outcome (\<lambda>a m. DefaultRenderer_Render sender a = Inr m) h a p ms stored"
  shows "na_NotificationAttemptID p = na_NotificationAttemptID a \<and>
    (ms = [] \<or> (\<exists>m. ms = [m] \<and> DefaultRenderer_Render sender p = Inr m)) \<and>
    (na_Status p = NotificationSent \<and> ms \<noteq> [] \<and> stored = p \<or>
     na_Status p = NotificationFailed \<and> (stored = p \<or> \<not> h \<and> stored = a))"
  using assms render_alike [of p "a\<lparr>na_AttemptCount := na_AttemptCount a + 1\<rparr>" sender]
  by (auto simp: attempt_outcome_def)

section \<open>Properties\<close>

text \<open>Queueing an alert e-mail stores one attempt, for a verified e-mail recipient and a family
  that is mailed, pending unless the repository says it is suppressed; a queueing that fails stores
  nothing; neither gives a message to the provider.\<close>

theorem enqueued_alert_email:
  "case EnqueueAlertEmail notification_service alert recipient w of
     (Inr a, w') \<Rightarrow> attempt_row (ns_rows w') = (attempt_row (ns_rows w))(na_NotificationAttemptID a \<mapsto> a) \<and>
       rec_Status recipient = RecipientVerified \<and>
       na_Status a \<in> {NotificationPending, NotificationSuppressed} \<and>
       na_RecipientEmail a = rec_Email recipient \<and> na_AlertID a = al_AlertID alert \<and>
       validateAttempt a = None \<and>
       subscriptionFamilyForAlert (al_Family alert) = Some (na_Family a) \<and> ns_given w' = ns_given w
   | (Inl e, w') \<Rightarrow> attempt_row (ns_rows w') = attempt_row (ns_rows w) \<and> ns_given w' = ns_given w"
  using notifications.wp_EnqueueAlertEmail [of alert recipient w]
  by (auto simp: wp_def notifications_view_def put_attempt_def alertingSubscriptionFamily_def
      subscriptionFamilyForAlert_def split: prod.splits sum.splits Family.splits)

text \<open>C32: A run over the pending attempts takes at most the given number of them, each once and each pending
  before, and reports each as sent or failed. The provider gets the messages of the attempts in order: of
  each attempt none or the one message that the renderer makes of it, and that one if it is reported sent.
  The stored attempt is the reported one, except that, if some call fails, an attempt reported failed may
  be left as claimed. No other stored attempt changes.\<close>

theorem processed_attempts:
  assumes "ProcessPending notification_service limit w = (Inr ps, w')"
  shows "length ps \<le> nat limit \<and> distinct (attempt_ids ps) \<and>
    (\<exists>mss. ns_given w' = ns_given w @ concat mss \<and>
       list_all2 (\<lambda>p ms.
         (\<exists>b. attempt_row (ns_rows w) (na_NotificationAttemptID p) = Some b \<and> na_Status b = NotificationPending) \<and>
         (ms = [] \<or> (\<exists>m. ms = [m] \<and>
            DefaultRenderer_Render (nsv_FromAddress notification_service) p = Inr m)) \<and>
         (\<exists>c. attempt_row (ns_rows w') (na_NotificationAttemptID p) = Some c \<and>
            (na_Status p = NotificationSent \<and> ms \<noteq> [] \<and> c = p \<or>
             na_Status p = NotificationFailed \<and>
               (c = p \<or> env_faults w \<noteq> [] \<and> na_Status c = NotificationClaimed)))) ps mss) \<and>
    (\<forall>i. i \<notin> set (attempt_ids ps) \<longrightarrow> attempt_row (ns_rows w') i = attempt_row (ns_rows w) i)"
proof -
  from wp_InrD [OF notifications.wp_ProcessPending assms] obtain as u mss where
    c: "claims (notifications_view w) as u" "length as \<le> nat limit"
       "batch_ok (\<lambda>a m. DefaultRenderer_Render (nsv_FromAddress notification_service) a = Inr m)
          (env_faults w = []) u as ps mss (notifications_view w')" by auto
  then have dist: "distinct (attempt_ids as)" by (simp add: claims_def)
  have ids: "attempt_ids ps = attempt_ids as" by (rule batch_ids [OF c(3)])
  then have len: "length ps = length as" by (metis attempt_ids_def length_map)
  have other: "attempt_row (ns_rows w') i = attempt_row (ns_rows w) i" if "i \<notin> set (attempt_ids ps)" for i
    using that batch_other [OF c(3), of i] c(1) by (simp add: ids claims_def notifications_view_def)
  have given: "ns_given w' = ns_given w @ concat mss"
    using batch_given [OF c(3)] c(1) by (simp add: claims_def notifications_view_def)
  show ?thesis
    using c(2) dist other given
    by (intro conjI exI [of _ mss] list_all2_mono [OF batch_outcomes [OF c(3) dist]])
      (use c(1) in \<open>auto simp: len ids claims_def notifications_view_def dest!: outcome_rendered\<close>)
qed

text \<open>When the save after a delivered message fails, the attempt is reported failed although its
  message was sent, and the stored attempt stays as it was claimed, without a sent time.\<close>

theorem sent_but_reported_failed:
  assumes "env_faults w = [False, True]" and "ns_providerErr w = None"
    and "DefaultRenderer_Render (nsv_FromAddress notification_service)
           (a\<lparr>na_AttemptCount := na_AttemptCount a + 1\<rparr>) = Inr m"
  shows "\<exists>p w'. processAttempt notification_service notification_repository fake_send a now w = (Inr p, w') \<and>
    na_Status p = NotificationFailed \<and> ns_given w' = ns_given w @ [m] \<and> ns_rows w' = ns_rows w"
  using assms
  by (simp add: processAttempt_def render_attempt_def notification_service_def op_defs Let_def
      fake_send_def FakeProvider_SendEmail_def with_fault_def notification_repository_def
      injected_fault_def)

text \<open>A rendered e-mail goes from the configured sender to the recipient of the attempt, under the
  attempt's idempotency key, and its HTML is one paragraph of text without markup: neither angle
  brackets nor quotes of the alert's detail survive.\<close>

theorem rendered_email:
  assumes "DefaultRenderer_Render sender a = Inr m"
  shows "em_From m = TrimSpace sender \<and> em_From m \<noteq> [] \<and> em_To m = na_RecipientEmail a \<and>
    em_Text m \<noteq> [] \<and> em_IdempotencyKey m = na_IdempotencyKey a \<and>
    (\<exists>body. em_HTML m = ''<p>'' @ body @ ''</p>'' \<and>
       set body \<inter> {CHR ''<'', CHR ''>'', CHR 0x22, CHR 0x27} = {})"
proof -
  have esc: "set (html_EscapeString s) \<inter> {CHR ''<'', CHR ''>'', CHR 0x22, CHR 0x27} = {}" for s
    by (auto simp: html_EscapeString_def html_char_def)
  show ?thesis
    using assms esc unfolding DefaultRenderer_Render_def Let_def
    by (auto split: if_splits option.splits)
qed

section \<open>Witnesses\<close>

definition demo_notification_store :: notification_store where
  "demo_notification_store = \<lparr>env_faults = [], env_clock = 5, env_ticks = [], env_ids = [''n1''],
     ns_rows = [], ns_suppressed = False, ns_given = [], ns_providerName = [], ns_messageID = [],
     ns_providerErr = None\<rparr>"

definition demo_verified_recipient :: AlertRecipient where
  "demo_verified_recipient = \<lparr>rec_AlertRecipientID = ''r1'', rec_AccountID = ''acc'', rec_SiteID = [],
     rec_Email = ''ann@example.org'', rec_EmailNormalized = ''ann@example.org'', rec_DisplayLabel = [],
     rec_Channel = ''email'', rec_Status = RecipientVerified, rec_CreatedByUserID = ''admin'',
     rec_VerifiedAt = Some 3, rec_DisabledAt = None, rec_DeletedAt = None,
     rec_Subscriptions = normalizeSubscriptions [], rec_CreatedAt = 1, rec_UpdatedAt = 1\<rparr>"

definition demo_alert_mail :: Alert where
  "demo_alert_mail = \<lparr>al_AlertID = ''a1'', al_AlertKey = ''k'', al_AccountID = ''acc'', al_SiteID = [],
     al_DeviceID = [], al_Family = FamilyBackupFailed, al_Severity = SeverityWarning,
     al_Status = AlertActive, al_Title = ''Backup'', al_Detail = ''Can'' @ [CHR 0x27] @ ''t'',
     al_ReasonCode = ''r'', al_FirstCandidateID = ''k1'', al_LastCandidateID = ''k1'',
     al_OccurrenceCount = 1, al_AcknowledgedByUserID = [], al_AcknowledgedAt = None,
     al_SnoozedUntil = None, al_ResolvedAt = None, al_CreatedAt = 1, al_UpdatedAt = 1\<rparr>"

definition demo_queued :: notification_store where
  "demo_queued = snd (EnqueueAlertEmail notification_service demo_alert_mail demo_verified_recipient
     demo_notification_store)"

definition demo_attempt :: NotificationAttempt where
  "demo_attempt = new_attempt demo_alert_mail demo_verified_recipient
     SubscriptionBackupFailedOrOverdue ''n1'' False 5"

lemma sum_cases_Inr:
  assumes "case x of Inl e \<Rightarrow> False | Inr m \<Rightarrow> P m"
  obtains m where "x = Inr m" "P m"
  using assms by (cases x) auto

lemma demo_processed:
  "case ProcessPending notification_service 10 demo_queued of
     (Inl e, w') \<Rightarrow> False
   | (Inr ps, w') \<Rightarrow> map na_Status ps = [NotificationSent] \<and> length (ns_given w') = 1 \<and>
       ns_given demo_queued = []"
  by code_simp

theorem processed_attempts_witness:
  "\<exists>p m w'. ProcessPending notification_service 10 demo_queued = (Inr [p], w') \<and> na_Status p = NotificationSent \<and>
     ns_given w' = ns_given demo_queued @ [m] \<and> attempt_row (ns_rows w') (na_NotificationAttemptID p) = Some p"
proof -
  obtain r w' where run: "ProcessPending notification_service 10 demo_queued = (r, w')"
    by (cases "ProcessPending notification_service 10 demo_queued")
  with demo_processed obtain p where r: "r = Inr [p]" "na_Status p = NotificationSent"
    by (cases r) auto
  note run = run [unfolded r(1)]
  from processed_attempts [OF run] r(2) obtain m where "ns_given w' = ns_given demo_queued @ [m]"
    "attempt_row (ns_rows w') (na_NotificationAttemptID p) = Some p"
    by (auto simp: list_all2_Cons1)
  with run r(2) show ?thesis by blast
qed

lemma demo_rendered:
  "case DefaultRenderer_Render (nsv_FromAddress notification_service)
      (demo_attempt\<lparr>na_AttemptCount := na_AttemptCount demo_attempt + 1\<rparr>) of
     Inl e \<Rightarrow> False
   | Inr m \<Rightarrow> em_HTML m = ''<p>Can&#39;t</p>'' \<and> em_Subject m = ''HomeSignal alert: Backup''"
  by code_simp

theorem sent_but_reported_failed_witness:
  "\<exists>p w' m. processAttempt notification_service notification_repository fake_send demo_attempt 5
      (demo_queued\<lparr>env_faults := [False, True]\<rparr>) = (Inr p, w') \<and>
     na_Status p = NotificationFailed \<and> ns_given w' = ns_given demo_queued @ [m] \<and>
     ns_rows w' = ns_rows demo_queued"
proof -
  from demo_rendered obtain m where m: "DefaultRenderer_Render (nsv_FromAddress notification_service)
      (demo_attempt\<lparr>na_AttemptCount := na_AttemptCount demo_attempt + 1\<rparr>) = Inr m"
    by (rule sum_cases_Inr) simp
  have "ns_providerErr demo_queued = None" by code_simp
  with sent_but_reported_failed [OF _ _ m, of "demo_queued\<lparr>env_faults := [False, True]\<rparr>" 5]
  show ?thesis by auto
qed

theorem rendered_email_witness:
  "\<exists>m. DefaultRenderer_Render (nsv_FromAddress notification_service)
      (demo_attempt\<lparr>na_AttemptCount := na_AttemptCount demo_attempt + 1\<rparr>) = Inr m \<and>
     em_HTML m = ''<p>Can&#39;t</p>'' \<and> em_Text m \<noteq> []"
proof -
  from demo_rendered obtain m where m: "DefaultRenderer_Render (nsv_FromAddress notification_service)
      (demo_attempt\<lparr>na_AttemptCount := na_AttemptCount demo_attempt + 1\<rparr>) = Inr m"
    and html: "em_HTML m = ''<p>Can&#39;t</p>'' \<and> em_Subject m = ''HomeSignal alert: Backup''"
    by (rule sum_cases_Inr)
  from rendered_email [OF m] have "em_Text m \<noteq> []" by blast
  with m html show ?thesis by blast
qed

end
