(* ===== verification/Go_Decode.thy ===== *)
theory Go_Decode
  imports Go_Time
begin

text \<open>
  \<open>encoding/json\<close> decoding of struct fields that are structs, pointers, slices or floats: each decoder
  takes the values its field is assigned in turn.
\<close>

text \<open>The members a struct field gets from the values it is assigned in turn.\<close>

fun dec_struct :: "json list \<Rightarrow> (string \<times> json) list option" where
  "dec_struct [] = Some []"
| "dec_struct (JNull # vs) = dec_struct vs"
| "dec_struct (JObj ms # vs) = map_option (\<lambda>rest. ms @ rest) (dec_struct vs)"
| "dec_struct (_ # vs) = None"

text \<open>A pointer field: \<open>null\<close> makes it nil, another value is decoded into what it points to.\<close>

fun dec_pointer :: "('a \<Rightarrow> json list \<Rightarrow> 'a option) \<Rightarrow> 'a \<Rightarrow> 'a option \<Rightarrow> json list \<Rightarrow> 'a option option" where
  "dec_pointer f zero cur [] = Some cur"
| "dec_pointer f zero cur (JNull # vs) = dec_pointer f zero None vs"
| "dec_pointer f zero cur (v # vs) =
     (case f (case cur of None \<Rightarrow> zero | Some x \<Rightarrow> x) [v] of
        None \<Rightarrow> None
      | Some y \<Rightarrow> dec_pointer f zero (Some y) vs)"

text \<open>A slice field: every value must be an array of decodable elements or \<open>null\<close>, the last stays.\<close>

fun dec_all :: "(json \<Rightarrow> 'a option) \<Rightarrow> json list \<Rightarrow> 'a list option" where
  "dec_all f [] = Some []"
| "dec_all f (v # vs) =
     (case f v of None \<Rightarrow> None | Some x \<Rightarrow> map_option (\<lambda>xs. x # xs) (dec_all f vs))"

fun dec_slice :: "(json \<Rightarrow> 'a option) \<Rightarrow> 'a list \<Rightarrow> json list \<Rightarrow> 'a list option" where
  "dec_slice f cur [] = Some cur"
| "dec_slice f cur (JNull # vs) = dec_slice f [] vs"
| "dec_slice f cur (JArr es # vs) =
     (case dec_all f es of None \<Rightarrow> None | Some xs \<Rightarrow> dec_slice f xs vs)"
| "dec_slice f cur (_ # vs) = None"

text \<open>
  A JSON number decoded into a \<open>float64\<close>: an error exactly if its value rounds beyond the largest
  one. The numbers themselves are not used, so the literal is kept.
\<close>

definition float64_in_range :: "string \<Rightarrow> bool" where
  "float64_in_range lit =
     (let (mant, ex, _) = Cut (map (\<lambda>c. if c = CHR ''E'' then CHR ''e'' else c) lit) (CHR ''e'');
          (ip, fr, _) = Cut mant (CHR ''.'');
          m = int (digits_value (filter is_digit (ip @ fr)));
          eabs = digits_value (filter is_digit ex);
          e = (if CHR ''-'' \<in> set ex then - int eabs else int eabs) - int (length fr);
          bound = (2 ^ 54 - 1) * 2 ^ 970 in
      m = 0 \<or> (if 0 \<le> e then m * 10 ^ nat e < bound else m < bound * 10 ^ nat (- e)))"

fun dec_float64 :: "string \<Rightarrow> json list \<Rightarrow> string option" where
  "dec_float64 cur [] = Some cur"
| "dec_float64 cur (JNull # vs) = dec_float64 cur vs"
| "dec_float64 cur (JNum n # vs) = (if float64_in_range n then dec_float64 n vs else None)"
| "dec_float64 cur (_ # vs) = None"

abbreviation dec_time_pointer :: "json list \<Rightarrow> time option option" where
  "dec_time_pointer \<equiv> dec_pointer dec_time zero_time None"

abbreviation dec_string_pointer :: "json list \<Rightarrow> string option option" where
  "dec_string_pointer \<equiv> dec_pointer dec_string [] None"

abbreviation dec_int_pointer :: "json list \<Rightarrow> int option option" where
  "dec_int_pointer \<equiv> dec_pointer dec_int64 0 None"

definition dec_fields :: "string list \<Rightarrow> json list \<Rightarrow> (string \<Rightarrow> json list) option" where
  "dec_fields names vs = map_option (field_values names) (dec_struct vs)"

end
