(* ===== verification/Telemetry_Types.thy ===== *)
theory Telemetry_Types
  imports Go_Crypto_Url Go_Decode "HOL-Library.Char_ord" "HOL-Library.List_Lexorder"
begin

text \<open>
  The data of the telemetry ingest service (\<open>telemetry-ingest/internal/pipeline/types.go\<close>), its
  interfaces and the hash of the material state (\<open>hash.go\<close>).

  Routes, message types and schema types are the strings they are in the code. A
  \<open>map[string]string\<close> is an association list with one entry per key. Interfaces the pipeline never
  calls are left out.
\<close>

section \<open>Data\<close>

type_synonym RuntimeRoute = string
type_synonym MessageType = string

definition RouteTelemetry :: RuntimeRoute where
  "RouteTelemetry = ''telemetry''"

definition RouteEvents :: RuntimeRoute where
  "RouteEvents = ''events''"

definition MessageTypeTelemetry :: MessageType where
  "MessageTypeTelemetry = ''telemetry''"

definition MessageTypeEvent :: MessageType where
  "MessageTypeEvent = ''event''"

definition MessageTypeCommandACK :: MessageType where
  "MessageTypeCommandACK = ''command_ack''"

definition MessageTypeCommandResult :: MessageType where
  "MessageTypeCommandResult = ''command_result''"

definition SchemaTypeDeviceHealthSnapshot :: string where
  "SchemaTypeDeviceHealthSnapshot = ''device.health_snapshot''"

definition SchemaTypeAgentAlarm :: string where
  "SchemaTypeAgentAlarm = ''agent_alarm''"

definition RuntimeSchemaVersionV1 :: int where
  "RuntimeSchemaVersionV1 = 1"

lemmas telemetry_names = RouteTelemetry_def RouteEvents_def MessageTypeTelemetry_def
  MessageTypeEvent_def MessageTypeCommandACK_def MessageTypeCommandResult_def
  SchemaTypeDeviceHealthSnapshot_def SchemaTypeAgentAlarm_def RuntimeSchemaVersionV1_def

definition ErrIdentityDrift :: go_error where
  "ErrIdentityDrift = Sentinel ''identity_drift''"

definition ErrMissingTransportCredential :: go_error where
  "ErrMissingTransportCredential = Sentinel ''missing_transport_credential''"

record SchemaKey =
  sk_MessageType :: MessageType
  sk_SchemaType :: string
  sk_Version :: int

record RuntimeEnvelope =
  re_MessageType :: MessageType
  re_SchemaType :: string
  re_SchemaVersion :: int
  re_MessageID :: string
  re_AppliedPublishPolicyVersion :: string
  re_ObservedAt :: time
  re_Payload :: string

definition RuntimeEnvelope_Key :: "RuntimeEnvelope \<Rightarrow> SchemaKey" where
  "RuntimeEnvelope_Key e =
     \<lparr>sk_MessageType = re_MessageType e, sk_SchemaType = re_SchemaType e,
      sk_Version = re_SchemaVersion e\<rparr>"

definition empty_envelope :: RuntimeEnvelope where
  "empty_envelope =
     \<lparr>re_MessageType = [], re_SchemaType = [], re_SchemaVersion = 0, re_MessageID = [],
      re_AppliedPublishPolicyVersion = [], re_ObservedAt = zero_time, re_Payload = []\<rparr>"

record AuthenticatedDeviceContext =
  adc_DeviceID :: string
  adc_SiteID :: string
  adc_OrgID :: string
  adc_CertificateFingerprint :: string
  adc_CertificateSerial :: string

record TransportCredential =
  tcr_CertificateFingerprint :: string
  tcr_CertificateSerial :: string
  tcr_CertificateIssuer :: string

record IngestRequest =
  irq_Route :: RuntimeRoute
  irq_Device :: AuthenticatedDeviceContext
  irq_Credential :: TransportCredential
  irq_Body :: string
  irq_ReceivedAt :: time

record IngestResult =
  irs_Accepted :: bool
  irs_Written :: bool
  irs_Suppressed :: bool
  irs_SuppressionReason :: string
  irs_MessageID :: string
  irs_SchemaType :: string
  irs_MaterialHash :: string
  irs_ReceivedAt :: time

record Projection =
  prj_Material :: "(string \<times> string) list"
  prj_Sidecar :: "(string \<times> string) list"

record ValidatedMessage =
  vm_Device :: AuthenticatedDeviceContext
  vm_Envelope :: RuntimeEnvelope
  vm_Projection :: Projection
  vm_ReceivedAt :: time

text \<open>The reason of a failure: the text of an error, kept as the error, or a code.\<close>

datatype FailureReason = ErrorText go_error | ReasonCode string

record IngestFailure =
  ifl_Device :: AuthenticatedDeviceContext
  ifl_MessageID :: string
  ifl_SchemaType :: string
  ifl_Stage :: string
  ifl_Reason :: FailureReason
  ifl_ReceivedAt :: time

record MessageDedupeKey =
  mdk_DeviceID :: string
  mdk_MessageID :: string

record StateDedupeKey =
  sdk_DeviceID :: string
  sdk_SchemaType :: string
  sdk_SchemaVersion :: int

record 'w DedupeStore =
  dds_SeenMessage :: "MessageDedupeKey \<Rightarrow> ('w, bool) op"
  dds_RecordMessage :: "MessageDedupeKey \<Rightarrow> ('w, unit) op"
  dds_LastMaterialHash :: "StateDedupeKey \<Rightarrow> ('w, string option) op"
  dds_RecordMaterialHash :: "StateDedupeKey \<Rightarrow> string \<Rightarrow> ('w, unit) op"

type_synonym EnvelopeParser = "RuntimeRoute \<Rightarrow> string \<Rightarrow> go_error + RuntimeEnvelope"

record SchemaHandler =
  shd_Key :: SchemaKey
  shd_Validate :: "RuntimeEnvelope \<Rightarrow> go_error + Projection"

section \<open>The material hash\<close>

definition material_line :: "string \<times> string \<Rightarrow> string" where
  "material_line kv = fst kv @ ''='' @ snd kv @ [CHR 0x0A]"

definition material_text :: "(string \<times> string) list \<Rightarrow> string" where
  "material_text material = concat (map material_line (sort_key fst material))"

definition MaterialHash :: "(string \<times> string) list \<Rightarrow> string" where
  "MaterialHash material = sha256_hex (material_text material)"

end
