(* ===== verification/Telemetry_Envelope.thy ===== *)
theory Telemetry_Envelope
  imports Telemetry_Types
begin

text \<open>
  The strict reading of a runtime envelope (\<open>strict_json.go\<close>, \<open>envelope.go\<close>) and the catalog of
  schema handlers (\<open>catalog.go\<close>).

  \<open>rejectDuplicateJSONKeys\<close> reads the tokens of one JSON value. The decoder that runs after it
  accepts exactly the texts of one JSON value, so an invalid text is an error either way; the model
  gives it here, with one error for every such text.
\<close>

section \<open>Duplicate keys\<close>

fun duplicate_key :: "json \<Rightarrow> string option"
  and duplicate_in_elems :: "json list \<Rightarrow> string option"
  and duplicate_in_members :: "string list \<Rightarrow> (string \<times> json) list \<Rightarrow> string option"
where
  "duplicate_key (JObj ms) = duplicate_in_members [] ms"
| "duplicate_key (JArr vs) = duplicate_in_elems vs"
| "duplicate_key v = None"
| "duplicate_in_elems [] = None"
| "duplicate_in_elems (v # vs) =
     (case duplicate_key v of Some k \<Rightarrow> Some k | None \<Rightarrow> duplicate_in_elems vs)"
| "duplicate_in_members seen [] = None"
| "duplicate_in_members seen ((k, v) # ms) =
     (if k \<in> set seen then Some k
      else (case duplicate_key v of
              Some k' \<Rightarrow> Some k'
            | None \<Rightarrow> duplicate_in_members (k # seen) ms))"

definition rejectDuplicateJSONKeys :: "string \<Rightarrow> go_error option" where
  "rejectDuplicateJSONKeys payload =
     (case json_parse payload of
        None \<Rightarrow> Some (Errorf ''invalid json'' [])
      | Some v \<Rightarrow>
          (case duplicate_key v of
             Some k \<Rightarrow> Some (Errorf ''duplicate json key %q'' [k])
           | None \<Rightarrow> None))"

section \<open>The envelope\<close>

definition validMessageType :: "MessageType \<Rightarrow> bool" where
  "validMessageType v = (v \<in> set [MessageTypeTelemetry, MessageTypeEvent, MessageTypeCommandACK,
     MessageTypeCommandResult])"

definition validateEnvelopeRoute :: "RuntimeRoute \<Rightarrow> MessageType \<Rightarrow> go_error option" where
  "validateEnvelopeRoute route messageType =
     (if route = RouteTelemetry then
        (if messageType \<noteq> MessageTypeTelemetry
         then Some (Errorf ''route telemetry requires message_type telemetry'' []) else None)
      else if route = RouteEvents then
        (if messageType \<noteq> MessageTypeEvent
         then Some (Errorf ''route events requires message_type event'' []) else None)
      else if route = [] then None
      else Some (Errorf ''unsupported runtime route %q'' [route]))"

definition validateRuntimePayload :: "string \<Rightarrow> go_error option" where
  "validateRuntimePayload payload =
     (let trimmed = TrimSpace payload in
      if trimmed = [] \<or> trimmed = ''null'' then Some (Errorf ''payload is required'' [])
      else if hd trimmed \<noteq> CHR ''{'' then Some (Errorf ''payload must be a json object'' [])
      else None)"

definition forbiddenRuntimePayloadTokens :: "string list" where
  "forbiddenRuntimePayloadTokens =
     [''-----begin rsa private key-----'', ''-----begin private key-----'', ''authorization:'',
      ''bearer '', ''pairing_code'', ''poll_token'', ''signed_url'', ''client_secret'',
      ''set-cookie:'']"

definition forbiddenRuntimePayloadToken :: "string \<Rightarrow> string" where
  "forbiddenRuntimePayloadToken payload =
     (case find (\<lambda>token. Contains (ToLower payload) token) forbiddenRuntimePayloadTokens of
        Some token \<Rightarrow> token
      | None \<Rightarrow> [])"

definition validateEnvelope :: "RuntimeEnvelope \<Rightarrow> go_error option" where
  "validateEnvelope e =
     (if \<not> validMessageType (re_MessageType e) then
        Some (Errorf ''invalid message_type %q'' [re_MessageType e])
      else if TrimSpace (re_SchemaType e) = [] then Some (Errorf ''schema_type is required'' [])
      else if re_SchemaVersion e \<le> 0 then Some (Errorf ''schema_version must be positive'' [])
      else if TrimSpace (re_MessageID e) = [] then Some (Errorf ''message_id is required'' [])
      else if IsZero (re_ObservedAt e) then Some (Errorf ''observed_at is required'' [])
      else
        (case validateRuntimePayload (re_Payload e) of
           Some err \<Rightarrow> Some err
         | None \<Rightarrow>
             if TrimSpace (re_AppliedPublishPolicyVersion e) = [] then
               (if re_MessageType e = MessageTypeEvent \<and> re_SchemaType e = SchemaTypeAgentAlarm
                then None
                else Some (Errorf ''applied_publish_policy_version is required'' []))
             else if forbiddenRuntimePayloadToken (re_Payload e) \<noteq> [] then
               Some (Errorf ''payload contains forbidden token %q''
                       [forbiddenRuntimePayloadToken (re_Payload e)])
             else None))"

definition envelope_fields :: "string list" where
  "envelope_fields = [''message_type'', ''schema_type'', ''schema_version'', ''message_id'',
     ''applied_publish_policy_version'', ''observed_at'', ''payload'']"

text \<open>
  \<open>decoder.Decode(&envelope)\<close> with unknown fields disallowed. The payload is a \<open>json.RawMessage\<close>:
  the text of the last member that matches it.
\<close>

definition decode_envelope :: "string \<Rightarrow> RuntimeEnvelope option" where
  "decode_envelope body =
     (case (struct_members body, json_raw_members body) of
        (Some ms, Some raws) \<Rightarrow>
          if \<not> list_all (\<lambda>(k, v). match_field envelope_fields k \<noteq> None) ms then None
          else
            (let fld = field_values envelope_fields ms in
             case (dec_string [] (fld ''message_type''), dec_string [] (fld ''schema_type''),
                   dec_int64 0 (fld ''schema_version''), dec_string [] (fld ''message_id''),
                   dec_string [] (fld ''applied_publish_policy_version''),
                   dec_time zero_time (fld ''observed_at'')) of
               (Some mt, Some st, Some sv, Some mi, Some pv, Some obs) \<Rightarrow>
                 Some \<lparr>re_MessageType = mt, re_SchemaType = st, re_SchemaVersion = sv,
                       re_MessageID = mi, re_AppliedPublishPolicyVersion = pv,
                       re_ObservedAt = obs,
                       re_Payload =
                         (case rev (field_values envelope_fields raws ''payload'') of
                            [] \<Rightarrow> []
                          | text # _ \<Rightarrow> text)\<rparr>
             | _ \<Rightarrow> None)
      | _ \<Rightarrow> None)"

definition RuntimeEnvelopeParser_Parse :: EnvelopeParser where
  "RuntimeEnvelopeParser_Parse route body =
     (case rejectDuplicateJSONKeys body of
        Some e \<Rightarrow> Inl (Wrapf ''runtime envelope json: %w'' e)
      | None \<Rightarrow>
          (case decode_envelope body of
             None \<Rightarrow> Inl (Errorf ''decode runtime envelope: %w'' [])
           | Some envelope \<Rightarrow>
               (case validateEnvelopeRoute route (re_MessageType envelope) of
                  Some e \<Rightarrow> Inl e
                | None \<Rightarrow>
                    (case validateEnvelope envelope of
                       Some e \<Rightarrow> Inl e
                     | None \<Rightarrow> Inr envelope))))"

section \<open>The catalog\<close>

type_synonym Catalog = "(SchemaKey \<times> SchemaHandler) list"

definition Catalog_Register :: "SchemaHandler \<Rightarrow> Catalog \<Rightarrow> Catalog" where
  "Catalog_Register handler c =
     (shd_Key handler, handler) # filter (\<lambda>(k, h). k \<noteq> shd_Key handler) c"

definition Catalog_Validate :: "Catalog \<Rightarrow> RuntimeEnvelope \<Rightarrow> go_error + Projection" where
  "Catalog_Validate c envelope =
     (case map_of c (RuntimeEnvelope_Key envelope) of
        None \<Rightarrow> Inl (Errorf ''unsupported runtime schema %s/%s/v%d''
                       [re_MessageType envelope, re_SchemaType envelope])
      | Some handler \<Rightarrow> shd_Validate handler envelope)"

definition schema_key_less :: "SchemaKey \<Rightarrow> SchemaKey \<Rightarrow> bool" where
  "schema_key_less a b =
     (if sk_MessageType a \<noteq> sk_MessageType b then sk_MessageType a < sk_MessageType b
      else if sk_SchemaType a \<noteq> sk_SchemaType b then sk_SchemaType a < sk_SchemaType b
      else sk_Version a < sk_Version b)"

fun insert_schema_key :: "SchemaKey \<Rightarrow> SchemaKey list \<Rightarrow> SchemaKey list" where
  "insert_schema_key k [] = [k]"
| "insert_schema_key k (x # xs) =
     (if schema_key_less k x then k # x # xs else x # insert_schema_key k xs)"

text \<open>The keys are distinct and totally ordered, so every sort gives the same list.\<close>

definition Catalog_Supported :: "Catalog \<Rightarrow> SchemaKey list" where
  "Catalog_Supported c = foldr insert_schema_key (map fst c) []"

end
