(* ===== verification/Health_Snapshot.thy ===== *)
theory Health_Snapshot
  imports Telemetry_Envelope "HOL-Library.Monad_Syntax"
begin

text \<open>
  The handlers of the two runtime schemas: \<open>device.health_snapshot\<close> (\<open>health_snapshot.go\<close>) and
  \<open>agent_alarm\<close> (\<open>agent_alarm.go\<close>). Every field of the payload structs is decoded, since a value of
  a wrong type in any of them rejects the message; then the payload is validated and projected.

  \<open>dec_X vs\<close> is the value of a field of struct type \<open>X\<close> that is assigned the values \<open>vs\<close> in turn.
\<close>

section \<open>The health snapshot payload\<close>

record CloudConnectionStatus =
  ccs_AgentHTTPSReachable :: bool
  ccs_AWSIoTConnected :: bool
  ccs_LastSuccessAt :: "time option"
  ccs_LastFailureAt :: "time option"

record PublishPolicyStatus =
  pps_AppliedVersion :: string
  pps_IssuedAt :: time
  pps_RefreshAfter :: time
  pps_ExpiresAt :: time
  pps_Status :: string

record UpdateStatus =
  ups_Status :: string
  ups_CurrentVersion :: string
  ups_DesiredVersion :: string
  ups_LatestVersion :: string
  ups_Channel :: string
  ups_LastCheckedAt :: "time option"
  ups_LastFailureReason :: "string option"

record SuppressionCount =
  spc_Signal :: string
  spc_Reason :: string
  spc_Count :: int
  spc_WindowStartedAt :: time
  spc_WindowEndedAt :: time

record AgentSnapshot =
  ags_Status :: string
  ags_Version :: string
  ags_UptimeSeconds :: int
  ags_CloudConnection :: CloudConnectionStatus
  ags_PublishPolicy :: PublishPolicyStatus
  ags_Update :: UpdateStatus
  ags_SuppressionCounts :: "SuppressionCount list"

record HAComponentStatus =
  hcs_Status :: string
  hcs_Version :: string
  hcs_LastSeenAt :: "time option"

record HABackupStatus =
  hbs_Status :: string
  hbs_LastSuccessAt :: "time option"
  hbs_LastFailureAt :: "time option"
  hbs_LastFailureReason :: "string option"
  hbs_InProgress :: bool

record HAStorageStatus =
  hss_Status :: string
  hss_UsedPercent :: "string option"
  hss_FreeBytes :: "int option"
  hss_LastCheckedAt :: "time option"

record HomeAssistantSnapshot =
  has_Core :: HAComponentStatus
  has_Supervisor :: HAComponentStatus
  has_Backup :: HABackupStatus
  has_Storage :: HAStorageStatus

record HAAppHealth =
  hah_State :: string
  hah_Reasons :: "string list"

record HAAppActivity =
  haa_EventsProcessedLastHour :: "int option"
  haa_LastEventAt :: "time option"

record HAAppSnapshot =
  hap_HAAppID :: "string option"
  hap_Slug :: string
  hap_DisplayName :: string
  hap_Repository :: string
  hap_Status :: string
  hap_Version :: string
  hap_Enabled :: bool
  hap_LastSeenAt :: "time option"
  hap_Update :: UpdateStatus
  hap_Health :: HAAppHealth
  hap_Activity :: HAAppActivity

record RuntimeLogSummaryEntry =
  rls_Level :: string
  rls_Source :: string
  rls_Component :: string
  rls_ReasonCode :: string
  rls_OccurrenceCount :: int
  rls_FirstSeenAt :: time
  rls_LastSeenAt :: time
  rls_SampleMessage :: string
  rls_DiagnosticExcerpt :: "string option"
  rls_DiagnosticExcerptTruncated :: bool
  rls_MoreLogsAvailable :: bool
  rls_LocalArtifactRef :: string
  rls_SuppressedCount :: int

record DeviceHealthSnapshotPayload =
  dhs_Agent :: AgentSnapshot
  dhs_HomeAssistant :: HomeAssistantSnapshot
  dhs_HAApps :: "HAAppSnapshot list"
  dhs_RuntimeLogSummary :: "RuntimeLogSummaryEntry list"

section \<open>Decoding\<close>

definition dec_CloudConnectionStatus :: "json list \<Rightarrow> CloudConnectionStatus option" where
  "dec_CloudConnectionStatus vs = do {
     fld \<leftarrow> dec_fields [''agent_https_reachable'', ''aws_iot_connected'', ''last_success_at'',
                       ''last_failure_at''] vs;
     reachable \<leftarrow> dec_bool False (fld ''agent_https_reachable'');
     connected \<leftarrow> dec_bool False (fld ''aws_iot_connected'');
     success \<leftarrow> dec_time_pointer (fld ''last_success_at'');
     failure \<leftarrow> dec_time_pointer (fld ''last_failure_at'');
     Some \<lparr>ccs_AgentHTTPSReachable = reachable, ccs_AWSIoTConnected = connected,
           ccs_LastSuccessAt = success, ccs_LastFailureAt = failure\<rparr> }"

definition dec_PublishPolicyStatus :: "json list \<Rightarrow> PublishPolicyStatus option" where
  "dec_PublishPolicyStatus vs = do {
     fld \<leftarrow> dec_fields [''applied_version'', ''issued_at'', ''refresh_after'', ''expires_at'', ''status''] vs;
     applied \<leftarrow> dec_string [] (fld ''applied_version'');
     issued \<leftarrow> dec_time zero_time (fld ''issued_at'');
     refresh \<leftarrow> dec_time zero_time (fld ''refresh_after'');
     expires \<leftarrow> dec_time zero_time (fld ''expires_at'');
     status \<leftarrow> dec_string [] (fld ''status'');
     Some \<lparr>pps_AppliedVersion = applied, pps_IssuedAt = issued, pps_RefreshAfter = refresh,
           pps_ExpiresAt = expires, pps_Status = status\<rparr> }"

definition dec_UpdateStatus :: "json list \<Rightarrow> UpdateStatus option" where
  "dec_UpdateStatus vs = do {
     fld \<leftarrow> dec_fields [''status'', ''current_version'', ''desired_version'', ''latest_version'',
                       ''channel'', ''last_checked_at'', ''last_failure_reason''] vs;
     status \<leftarrow> dec_string [] (fld ''status'');
     current \<leftarrow> dec_string [] (fld ''current_version'');
     desired \<leftarrow> dec_string [] (fld ''desired_version'');
     latest \<leftarrow> dec_string [] (fld ''latest_version'');
     channel \<leftarrow> dec_string [] (fld ''channel'');
     checked \<leftarrow> dec_time_pointer (fld ''last_checked_at'');
     reason \<leftarrow> dec_string_pointer (fld ''last_failure_reason'');
     Some \<lparr>ups_Status = status, ups_CurrentVersion = current, ups_DesiredVersion = desired,
           ups_LatestVersion = latest, ups_Channel = channel, ups_LastCheckedAt = checked,
           ups_LastFailureReason = reason\<rparr> }"

definition dec_SuppressionCount :: "json \<Rightarrow> SuppressionCount option" where
  "dec_SuppressionCount v = do {
     fld \<leftarrow> dec_fields [''signal'', ''reason'', ''count'', ''window_started_at'', ''window_ended_at''] [v];
     signal \<leftarrow> dec_string [] (fld ''signal'');
     reason \<leftarrow> dec_string [] (fld ''reason'');
     count \<leftarrow> dec_int64 0 (fld ''count'');
     started \<leftarrow> dec_time zero_time (fld ''window_started_at'');
     ended \<leftarrow> dec_time zero_time (fld ''window_ended_at'');
     Some \<lparr>spc_Signal = signal, spc_Reason = reason, spc_Count = count,
           spc_WindowStartedAt = started, spc_WindowEndedAt = ended\<rparr> }"

definition dec_AgentSnapshot :: "json list \<Rightarrow> AgentSnapshot option" where
  "dec_AgentSnapshot vs = do {
     fld \<leftarrow> dec_fields [''status'', ''version'', ''uptime_seconds'', ''cloud_connection'',
                       ''publish_policy'', ''update'', ''suppression_counts''] vs;
     status \<leftarrow> dec_string [] (fld ''status'');
     version \<leftarrow> dec_string [] (fld ''version'');
     uptime \<leftarrow> dec_int64 0 (fld ''uptime_seconds'');
     cloud \<leftarrow> dec_CloudConnectionStatus (fld ''cloud_connection'');
     policy \<leftarrow> dec_PublishPolicyStatus (fld ''publish_policy'');
     update \<leftarrow> dec_UpdateStatus (fld ''update'');
     counts \<leftarrow> dec_slice dec_SuppressionCount [] (fld ''suppression_counts'');
     Some \<lparr>ags_Status = status, ags_Version = version, ags_UptimeSeconds = uptime,
           ags_CloudConnection = cloud, ags_PublishPolicy = policy, ags_Update = update,
           ags_SuppressionCounts = counts\<rparr> }"

definition dec_HAComponentStatus :: "json list \<Rightarrow> HAComponentStatus option" where
  "dec_HAComponentStatus vs = do {
     fld \<leftarrow> dec_fields [''status'', ''version'', ''last_seen_at''] vs;
     status \<leftarrow> dec_string [] (fld ''status'');
     version \<leftarrow> dec_string [] (fld ''version'');
     seen \<leftarrow> dec_time_pointer (fld ''last_seen_at'');
     Some \<lparr>hcs_Status = status, hcs_Version = version, hcs_LastSeenAt = seen\<rparr> }"

definition dec_HABackupStatus :: "json list \<Rightarrow> HABackupStatus option" where
  "dec_HABackupStatus vs = do {
     fld \<leftarrow> dec_fields [''status'', ''last_success_at'', ''last_failure_at'', ''last_failure_reason'',
                       ''in_progress''] vs;
     status \<leftarrow> dec_string [] (fld ''status'');
     success \<leftarrow> dec_time_pointer (fld ''last_success_at'');
     failure \<leftarrow> dec_time_pointer (fld ''last_failure_at'');
     reason \<leftarrow> dec_string_pointer (fld ''last_failure_reason'');
     progress \<leftarrow> dec_bool False (fld ''in_progress'');
     Some \<lparr>hbs_Status = status, hbs_LastSuccessAt = success, hbs_LastFailureAt = failure,
           hbs_LastFailureReason = reason, hbs_InProgress = progress\<rparr> }"

definition dec_HAStorageStatus :: "json list \<Rightarrow> HAStorageStatus option" where
  "dec_HAStorageStatus vs = do {
     fld \<leftarrow> dec_fields [''status'', ''used_percent'', ''free_bytes'', ''last_checked_at''] vs;
     status \<leftarrow> dec_string [] (fld ''status'');
     used \<leftarrow> dec_pointer dec_float64 [] None (fld ''used_percent'');
     free \<leftarrow> dec_int_pointer (fld ''free_bytes'');
     checked \<leftarrow> dec_time_pointer (fld ''last_checked_at'');
     Some \<lparr>hss_Status = status, hss_UsedPercent = used, hss_FreeBytes = free,
           hss_LastCheckedAt = checked\<rparr> }"

definition dec_HomeAssistantSnapshot :: "json list \<Rightarrow> HomeAssistantSnapshot option" where
  "dec_HomeAssistantSnapshot vs = do {
     fld \<leftarrow> dec_fields [''core'', ''supervisor'', ''backup'', ''storage''] vs;
     core \<leftarrow> dec_HAComponentStatus (fld ''core'');
     supervisor \<leftarrow> dec_HAComponentStatus (fld ''supervisor'');
     backup \<leftarrow> dec_HABackupStatus (fld ''backup'');
     storage \<leftarrow> dec_HAStorageStatus (fld ''storage'');
     Some \<lparr>has_Core = core, has_Supervisor = supervisor, has_Backup = backup,
           has_Storage = storage\<rparr> }"

definition dec_HAAppHealth :: "json list \<Rightarrow> HAAppHealth option" where
  "dec_HAAppHealth vs = do {
     fld \<leftarrow> dec_fields [''state'', ''reasons''] vs;
     state \<leftarrow> dec_string [] (fld ''state'');
     reasons \<leftarrow> dec_slice (\<lambda>v. dec_string [] [v]) [] (fld ''reasons'');
     Some \<lparr>hah_State = state, hah_Reasons = reasons\<rparr> }"

definition dec_HAAppActivity :: "json list \<Rightarrow> HAAppActivity option" where
  "dec_HAAppActivity vs = do {
     fld \<leftarrow> dec_fields [''events_processed_last_hour'', ''last_event_at''] vs;
     events \<leftarrow> dec_int_pointer (fld ''events_processed_last_hour'');
     last_at \<leftarrow> dec_time_pointer (fld ''last_event_at'');
     Some \<lparr>haa_EventsProcessedLastHour = events, haa_LastEventAt = last_at\<rparr> }"

definition dec_HAAppSnapshot :: "json \<Rightarrow> HAAppSnapshot option" where
  "dec_HAAppSnapshot v = do {
     fld \<leftarrow> dec_fields [''ha_app_id'', ''slug'', ''display_name'', ''repository'', ''status'',
                       ''version'', ''enabled'', ''last_seen_at'', ''update'', ''health'',
                       ''activity''] [v];
     app_id \<leftarrow> dec_string_pointer (fld ''ha_app_id'');
     slug \<leftarrow> dec_string [] (fld ''slug'');
     display \<leftarrow> dec_string [] (fld ''display_name'');
     repository \<leftarrow> dec_string [] (fld ''repository'');
     status \<leftarrow> dec_string [] (fld ''status'');
     version \<leftarrow> dec_string [] (fld ''version'');
     enabled \<leftarrow> dec_bool False (fld ''enabled'');
     seen \<leftarrow> dec_time_pointer (fld ''last_seen_at'');
     update \<leftarrow> dec_UpdateStatus (fld ''update'');
     health \<leftarrow> dec_HAAppHealth (fld ''health'');
     activity \<leftarrow> dec_HAAppActivity (fld ''activity'');
     Some \<lparr>hap_HAAppID = app_id, hap_Slug = slug, hap_DisplayName = display,
           hap_Repository = repository, hap_Status = status, hap_Version = version,
           hap_Enabled = enabled, hap_LastSeenAt = seen, hap_Update = update,
           hap_Health = health, hap_Activity = activity\<rparr> }"

definition dec_RuntimeLogSummaryEntry :: "json \<Rightarrow> RuntimeLogSummaryEntry option" where
  "dec_RuntimeLogSummaryEntry v = do {
     fld \<leftarrow> dec_fields [''level'', ''source'', ''component'', ''reason_code'', ''occurrence_count'',
                       ''first_seen_at'', ''last_seen_at'', ''sample_message'', ''diagnostic_excerpt'',
                       ''diagnostic_excerpt_truncated'', ''more_logs_available'',
                       ''local_artifact_ref'', ''suppressed_count''] [v];
     level \<leftarrow> dec_string [] (fld ''level'');
     source \<leftarrow> dec_string [] (fld ''source'');
     component \<leftarrow> dec_string [] (fld ''component'');
     reason \<leftarrow> dec_string [] (fld ''reason_code'');
     occurrences \<leftarrow> dec_int64 0 (fld ''occurrence_count'');
     first \<leftarrow> dec_time zero_time (fld ''first_seen_at'');
     last_at \<leftarrow> dec_time zero_time (fld ''last_seen_at'');
     sample \<leftarrow> dec_string [] (fld ''sample_message'');
     excerpt \<leftarrow> dec_string_pointer (fld ''diagnostic_excerpt'');
     truncated \<leftarrow> dec_bool False (fld ''diagnostic_excerpt_truncated'');
     more \<leftarrow> dec_bool False (fld ''more_logs_available'');
     artifact \<leftarrow> dec_string [] (fld ''local_artifact_ref'');
     suppressed \<leftarrow> dec_int64 0 (fld ''suppressed_count'');
     Some \<lparr>rls_Level = level, rls_Source = source, rls_Component = component,
           rls_ReasonCode = reason, rls_OccurrenceCount = occurrences, rls_FirstSeenAt = first,
           rls_LastSeenAt = last_at, rls_SampleMessage = sample, rls_DiagnosticExcerpt = excerpt,
           rls_DiagnosticExcerptTruncated = truncated, rls_MoreLogsAvailable = more,
           rls_LocalArtifactRef = artifact, rls_SuppressedCount = suppressed\<rparr> }"

definition dec_DeviceHealthSnapshotPayload :: "string \<Rightarrow> DeviceHealthSnapshotPayload option" where
  "dec_DeviceHealthSnapshotPayload text = do {
     ms \<leftarrow> struct_members text;
     fld \<leftarrow> Some (field_values [''agent'', ''home_assistant'', ''ha_apps'', ''runtime_log_summary''] ms);
     agent \<leftarrow> dec_AgentSnapshot (fld ''agent'');
     ha \<leftarrow> dec_HomeAssistantSnapshot (fld ''home_assistant'');
     apps \<leftarrow> dec_slice dec_HAAppSnapshot [] (fld ''ha_apps'');
     logs \<leftarrow> dec_slice dec_RuntimeLogSummaryEntry [] (fld ''runtime_log_summary'');
     Some \<lparr>dhs_Agent = agent, dhs_HomeAssistant = ha, dhs_HAApps = apps,
           dhs_RuntimeLogSummary = logs\<rparr> }"

section \<open>Validation\<close>

definition maxDiagnosticExcerptBytes :: nat where
  "maxDiagnosticExcerptBytes = 5 * 1024"

definition validRuntimeLogLevel :: "string \<Rightarrow> bool" where
  "validRuntimeLogLevel v = (v \<in> set [''info'', ''warning'', ''error'', ''critical''])"

definition excerpt_too_long :: "string option \<Rightarrow> bool" where
  "excerpt_too_long x =
     (case x of None \<Rightarrow> False | Some s \<Rightarrow> maxDiagnosticExcerptBytes < length s)"

definition RuntimeLogSummaryEntry_Validate :: "RuntimeLogSummaryEntry \<Rightarrow> nat \<Rightarrow> go_error option" where
  "RuntimeLogSummaryEntry_Validate e index = first_error
     [(\<not> validRuntimeLogLevel (rls_Level e),
       Errorf ''payload.runtime_log_summary[%d].level is invalid'' [Itoa index]),
      (TrimSpace (rls_Source e) = [],
       Errorf ''payload.runtime_log_summary[%d].source is required'' [Itoa index]),
      (TrimSpace (rls_Component e) = [],
       Errorf ''payload.runtime_log_summary[%d].component is required'' [Itoa index]),
      (TrimSpace (rls_ReasonCode e) = [],
       Errorf ''payload.runtime_log_summary[%d].reason_code is required'' [Itoa index]),
      (rls_OccurrenceCount e \<le> 0,
       Errorf ''payload.runtime_log_summary[%d].occurrence_count must be positive'' [Itoa index]),
      (IsZero (rls_FirstSeenAt e) \<or> IsZero (rls_LastSeenAt e),
       Errorf ''payload.runtime_log_summary[%d] first_seen_at and last_seen_at are required'' [Itoa index]),
      (Before (rls_LastSeenAt e) (rls_FirstSeenAt e),
       Errorf ''payload.runtime_log_summary[%d].last_seen_at cannot be before first_seen_at'' [Itoa index]),
      (excerpt_too_long (rls_DiagnosticExcerpt e),
       Errorf ''payload.runtime_log_summary[%d].diagnostic_excerpt exceeds %d bytes''
         [Itoa index, Itoa maxDiagnosticExcerptBytes]),
      (rls_MoreLogsAvailable e \<and> TrimSpace (rls_LocalArtifactRef e) = [],
       Errorf ''payload.runtime_log_summary[%d].local_artifact_ref is required when more_logs_available is true''
         [Itoa index]),
      (rls_SuppressedCount e < 0,
       Errorf ''payload.runtime_log_summary[%d].suppressed_count cannot be negative'' [Itoa index])]"

fun validate_apps :: "nat \<Rightarrow> HAAppSnapshot list \<Rightarrow> go_error option" where
  "validate_apps index [] = None"
| "validate_apps index (app # apps) =
     (if TrimSpace (hap_Slug app) = [] \<and>
         (case hap_HAAppID app of None \<Rightarrow> True | Some i \<Rightarrow> TrimSpace i = [])
      then Some (Errorf ''payload.ha_apps[%d] requires slug or ha_app_id'' [Itoa index])
      else if TrimSpace (hap_Status app) = []
      then Some (Errorf ''payload.ha_apps[%d].status is required'' [Itoa index])
      else validate_apps (Suc index) apps)"

fun validate_logs :: "nat \<Rightarrow> RuntimeLogSummaryEntry list \<Rightarrow> go_error option" where
  "validate_logs index [] = None"
| "validate_logs index (e # es) =
     (case RuntimeLogSummaryEntry_Validate e index of
        Some err \<Rightarrow> Some err
      | None \<Rightarrow> validate_logs (Suc index) es)"

definition DeviceHealthSnapshotPayload_Validate ::
  "DeviceHealthSnapshotPayload \<Rightarrow> string \<Rightarrow> go_error option" where
  "DeviceHealthSnapshotPayload_Validate p appliedPolicyVersion =
     (let agent = dhs_Agent p; ha = dhs_HomeAssistant p in
      case first_error
        [(TrimSpace (ags_Status agent) = [], Errorf ''payload.agent.status is required'' []),
         (TrimSpace (ags_Version agent) = [], Errorf ''payload.agent.version is required'' []),
         (TrimSpace (pps_AppliedVersion (ags_PublishPolicy agent)) = [],
          Errorf ''payload.agent.publish_policy.applied_version is required'' []),
         (pps_AppliedVersion (ags_PublishPolicy agent) \<noteq> appliedPolicyVersion,
          Errorf ''payload.agent.publish_policy.applied_version must match envelope applied_publish_policy_version'' []),
         (TrimSpace (hcs_Status (has_Core ha)) = [],
          Errorf ''payload.home_assistant.core.status is required'' []),
         (TrimSpace (hcs_Status (has_Supervisor ha)) = [],
          Errorf ''payload.home_assistant.supervisor.status is required'' []),
         (TrimSpace (hbs_Status (has_Backup ha)) = [],
          Errorf ''payload.home_assistant.backup.status is required'' []),
         (TrimSpace (hss_Status (has_Storage ha)) = [],
          Errorf ''payload.home_assistant.storage.status is required'' [])] of
        Some e \<Rightarrow> Some e
      | None \<Rightarrow>
          (case validate_apps 0 (dhs_HAApps p) of
             Some e \<Rightarrow> Some e
           | None \<Rightarrow> validate_logs 0 (dhs_RuntimeLogSummary p)))"

definition DeviceHealthSnapshotHandler_Validate :: "RuntimeEnvelope \<Rightarrow> go_error + Projection" where
  "DeviceHealthSnapshotHandler_Validate envelope =
     (case dec_DeviceHealthSnapshotPayload (re_Payload envelope) of
        None \<Rightarrow> Inl (Errorf ''decode device.health_snapshot payload: %w'' [])
      | Some payload \<Rightarrow>
          (case DeviceHealthSnapshotPayload_Validate payload (re_AppliedPublishPolicyVersion envelope) of
             Some e \<Rightarrow> Inl e
           | None \<Rightarrow> Inr
               \<lparr>prj_Material =
                  [(''agent.status'', ags_Status (dhs_Agent payload)),
                   (''home_assistant.core.status'', hcs_Status (has_Core (dhs_HomeAssistant payload))),
                   (''home_assistant.backup.status'',
                    hbs_Status (has_Backup (dhs_HomeAssistant payload)))],
                prj_Sidecar =
                  [(''runtime_log_summary.count'', Itoa (length (dhs_RuntimeLogSummary payload))),
                   (''ha_apps.count'', Itoa (length (dhs_HAApps payload)))]\<rparr>))"

definition DeviceHealthSnapshotHandler :: SchemaHandler where
  "DeviceHealthSnapshotHandler =
     \<lparr>shd_Key = \<lparr>sk_MessageType = MessageTypeTelemetry,
                 sk_SchemaType = SchemaTypeDeviceHealthSnapshot,
                 sk_Version = RuntimeSchemaVersionV1\<rparr>,
      shd_Validate = DeviceHealthSnapshotHandler_Validate\<rparr>"

section \<open>The agent alarm\<close>

record AgentAlarmPayload =
  aap_AlarmType :: string
  aap_Severity :: string
  aap_ReasonCode :: string
  aap_OccurrenceCount :: int
  aap_FirstSeenAt :: time
  aap_LastSeenAt :: time
  aap_AttemptedPolicyVersion :: string
  aap_ActivePolicyVersion :: string
  aap_CommandID :: string
  aap_ArtifactPurpose :: string
  aap_DiagnosticExcerpt :: "string option"
  aap_DiagnosticExcerptTruncated :: bool
  aap_MoreLogsAvailable :: bool
  aap_LocalArtifactRef :: string
  aap_SuppressedCount :: int

definition dec_AgentAlarmPayload :: "string \<Rightarrow> AgentAlarmPayload option" where
  "dec_AgentAlarmPayload text = do {
     ms \<leftarrow> struct_members text;
     fld \<leftarrow> Some (field_values [''alarm_type'', ''severity'', ''reason_code'', ''occurrence_count'',
        ''first_seen_at'', ''last_seen_at'', ''attempted_policy_version'', ''active_policy_version'',
        ''command_id'', ''artifact_purpose'', ''diagnostic_excerpt'', ''diagnostic_excerpt_truncated'',
        ''more_logs_available'', ''local_artifact_ref'', ''suppressed_count''] ms);
     alarm \<leftarrow> dec_string [] (fld ''alarm_type'');
     severity \<leftarrow> dec_string [] (fld ''severity'');
     reason \<leftarrow> dec_string [] (fld ''reason_code'');
     occurrences \<leftarrow> dec_int64 0 (fld ''occurrence_count'');
     first \<leftarrow> dec_time zero_time (fld ''first_seen_at'');
     last_at \<leftarrow> dec_time zero_time (fld ''last_seen_at'');
     attempted \<leftarrow> dec_string [] (fld ''attempted_policy_version'');
     active \<leftarrow> dec_string [] (fld ''active_policy_version'');
     command \<leftarrow> dec_string [] (fld ''command_id'');
     purpose \<leftarrow> dec_string [] (fld ''artifact_purpose'');
     excerpt \<leftarrow> dec_string_pointer (fld ''diagnostic_excerpt'');
     truncated \<leftarrow> dec_bool False (fld ''diagnostic_excerpt_truncated'');
     more \<leftarrow> dec_bool False (fld ''more_logs_available'');
     artifact \<leftarrow> dec_string [] (fld ''local_artifact_ref'');
     suppressed \<leftarrow> dec_int64 0 (fld ''suppressed_count'');
     Some \<lparr>aap_AlarmType = alarm, aap_Severity = severity, aap_ReasonCode = reason,
           aap_OccurrenceCount = occurrences, aap_FirstSeenAt = first, aap_LastSeenAt = last_at,
           aap_AttemptedPolicyVersion = attempted, aap_ActivePolicyVersion = active,
           aap_CommandID = command, aap_ArtifactPurpose = purpose,
           aap_DiagnosticExcerpt = excerpt, aap_DiagnosticExcerptTruncated = truncated,
           aap_MoreLogsAvailable = more, aap_LocalArtifactRef = artifact,
           aap_SuppressedCount = suppressed\<rparr> }"

definition validAgentAlarmType :: "string \<Rightarrow> bool" where
  "validAgentAlarmType v = (v \<in> set [''potential_abuse_detected'', ''publish_policy_apply_failed'',
     ''publish_policy_rejected_suspicious'', ''artifact_upload_failed''])"

definition validAgentAlarmSeverity :: "string \<Rightarrow> bool" where
  "validAgentAlarmSeverity v = (v \<in> set [''info'', ''warning'', ''critical''])"

definition AgentAlarmPayload_Validate :: "AgentAlarmPayload \<Rightarrow> go_error option" where
  "AgentAlarmPayload_Validate p = first_error
     [(\<not> validAgentAlarmType (aap_AlarmType p), Errorf ''payload.alarm_type is invalid'' []),
      (\<not> validAgentAlarmSeverity (aap_Severity p), Errorf ''payload.severity is invalid'' []),
      (TrimSpace (aap_ReasonCode p) = [], Errorf ''payload.reason_code is required'' []),
      (aap_OccurrenceCount p \<le> 0, Errorf ''payload.occurrence_count must be positive'' []),
      (IsZero (aap_FirstSeenAt p) \<or> IsZero (aap_LastSeenAt p),
       Errorf ''payload first_seen_at and last_seen_at are required'' []),
      (Before (aap_LastSeenAt p) (aap_FirstSeenAt p),
       Errorf ''payload.last_seen_at cannot be before first_seen_at'' []),
      (excerpt_too_long (aap_DiagnosticExcerpt p),
       Errorf ''payload.diagnostic_excerpt exceeds %d bytes'' [Itoa maxDiagnosticExcerptBytes]),
      (aap_MoreLogsAvailable p \<and> TrimSpace (aap_LocalArtifactRef p) = [],
       Errorf ''payload.local_artifact_ref is required when more_logs_available is true'' []),
      (aap_AlarmType p = ''artifact_upload_failed'' \<and> aap_MoreLogsAvailable p,
       Errorf ''payload.more_logs_available must be false for artifact_upload_failed'' []),
      (aap_SuppressedCount p < 0, Errorf ''payload.suppressed_count cannot be negative'' [])]"

definition AgentAlarmHandler_Validate :: "RuntimeEnvelope \<Rightarrow> go_error + Projection" where
  "AgentAlarmHandler_Validate envelope =
     (case dec_AgentAlarmPayload (re_Payload envelope) of
        None \<Rightarrow> Inl (Errorf ''decode agent_alarm payload: %w'' [])
      | Some payload \<Rightarrow>
          (case AgentAlarmPayload_Validate payload of
             Some e \<Rightarrow> Inl e
           | None \<Rightarrow> Inr
               \<lparr>prj_Material = [(''alarm_type'', aap_AlarmType payload),
                                (''severity'', aap_Severity payload)],
                prj_Sidecar = [(''reason_code'', aap_ReasonCode payload)]\<rparr>))"

definition AgentAlarmHandler :: SchemaHandler where
  "AgentAlarmHandler =
     \<lparr>shd_Key = \<lparr>sk_MessageType = MessageTypeEvent, sk_SchemaType = SchemaTypeAgentAlarm,
                 sk_Version = RuntimeSchemaVersionV1\<rparr>,
      shd_Validate = AgentAlarmHandler_Validate\<rparr>"

definition NewDefaultCatalog :: Catalog where
  "NewDefaultCatalog = Catalog_Register AgentAlarmHandler
     (Catalog_Register DeviceHealthSnapshotHandler [])"

end
