(* ===== verification/Telemetry_Pipeline.thy ===== *)
theory Telemetry_Pipeline
  imports Health_Snapshot
begin

text \<open>
  The ingest pipeline (\<open>telemetry-ingest/internal/pipeline/pipeline.go\<close>): parse, validate, resolve
  the device, check the payload's identity, drop duplicates, suppress unchanged telemetry, write.

  \<open>Ingest\<close> returns its result together with the error, as the method does. \<open>withDefaults\<close> creates
  the memory dedupe store on first use and keeps it; \<open>rpl_NewDedupeStore\<close> is that store. A nil
  pipeline is not modelled.
\<close>

record 'w RuntimePipeline =
  rpl_Parser :: "EnvelopeParser option"
  rpl_Catalog :: "Catalog option"
  rpl_AuthorityResolver :: "(TransportCredential \<Rightarrow> ('w, AuthenticatedDeviceContext) op) option"
  rpl_DedupeStore :: "'w DedupeStore option"
  rpl_NewDedupeStore :: "'w DedupeStore"
  rpl_Writer :: "(ValidatedMessage \<Rightarrow> ('w, unit) op) option"
  rpl_FailureSink :: "(IngestFailure \<Rightarrow> ('w, unit) op) option"
  rpl_Clock :: "('w, time) effect option"
  rpl_TimeNow :: "('w, time) effect"

section \<open>Defaults\<close>

definition pipeline_parser :: "'w RuntimePipeline \<Rightarrow> EnvelopeParser" where
  "pipeline_parser p = (case rpl_Parser p of Some f \<Rightarrow> f | None \<Rightarrow> RuntimeEnvelopeParser_Parse)"

definition pipeline_catalog :: "'w RuntimePipeline \<Rightarrow> Catalog" where
  "pipeline_catalog p = (case rpl_Catalog p of Some c \<Rightarrow> c | None \<Rightarrow> NewDefaultCatalog)"

definition pipeline_dedupe :: "'w RuntimePipeline \<Rightarrow> 'w DedupeStore" where
  "pipeline_dedupe p = (case rpl_DedupeStore p of Some d \<Rightarrow> d | None \<Rightarrow> rpl_NewDedupeStore p)"

definition pipeline_now :: "'w RuntimePipeline \<Rightarrow> ('w, time) op" where
  "pipeline_now p = clock_now (rpl_Clock p) (rpl_TimeNow p)"

section \<open>Identity\<close>

text \<open>\<open>json.Unmarshal(payload, &value)\<close> of one member into a string: absent when it is an error.\<close>

definition string_member :: "(string \<times> json) list \<Rightarrow> string \<Rightarrow> string list" where
  "string_member raw field =
     (case map_of (last_members raw) field of
        None \<Rightarrow> []
      | Some v \<Rightarrow> (case dec_string [] [v] of None \<Rightarrow> [] | Some s \<Rightarrow> [TrimSpace s]))"

definition payloadDeviceIDs :: "(string \<times> json) list \<Rightarrow> string list" where
  "payloadDeviceIDs raw =
     string_member raw ''device_id'' @ string_member raw ''homesignal_device_id'' @
     (case map_of (last_members raw) ''device'' of
        Some v \<Rightarrow>
          (case dec_struct [v] of
             Some device \<Rightarrow> string_member device ''homesignal_device_id'' @ string_member device ''device_id''
           | None \<Rightarrow> [])
      | None \<Rightarrow> [])"

definition ensurePayloadIdentityMatches :: "string \<Rightarrow> string \<Rightarrow> go_error option" where
  "ensurePayloadIdentityMatches payload resolvedDeviceID =
     (if payload = [] \<or> TrimSpace resolvedDeviceID = [] then None
      else
        (case struct_members payload of
           None \<Rightarrow> Some (Errorf ''decode payload identity annotations: %w'' [])
         | Some raw \<Rightarrow>
             (case find (\<lambda>i. i \<noteq> [] \<and> i \<noteq> resolvedDeviceID) (payloadDeviceIDs raw) of
                Some i \<Rightarrow>
                  Some (Wrapf ''%w: payload device id %q does not match resolved device id %q'' ErrIdentityDrift)
              | None \<Rightarrow> None)))"

definition request_credential :: "IngestRequest \<Rightarrow> TransportCredential" where
  "request_credential request =
     (let credential = irq_Credential request; device = irq_Device request in
      credential
        \<lparr>tcr_CertificateFingerprint :=
           (if tcr_CertificateFingerprint credential = [] then adc_CertificateFingerprint device
            else tcr_CertificateFingerprint credential),
         tcr_CertificateSerial :=
           (if tcr_CertificateSerial credential = [] then adc_CertificateSerial device
            else tcr_CertificateSerial credential)\<rparr>)"

definition resolved_context ::
  "AuthenticatedDeviceContext \<Rightarrow> TransportCredential \<Rightarrow> AuthenticatedDeviceContext" where
  "resolved_context device credential =
     device
       \<lparr>adc_CertificateFingerprint :=
          (if adc_CertificateFingerprint device = [] then tcr_CertificateFingerprint credential
           else adc_CertificateFingerprint device),
        adc_CertificateSerial :=
          (if adc_CertificateSerial device = [] then tcr_CertificateSerial credential
           else adc_CertificateSerial device)\<rparr>"

definition resolveAuthority ::
  "'w RuntimePipeline \<Rightarrow> IngestRequest \<Rightarrow> RuntimeEnvelope \<Rightarrow> ('w, AuthenticatedDeviceContext) op" where
  "resolveAuthority p request envelope =
     (case rpl_AuthorityResolver p of
        None \<Rightarrow> ret (irq_Device request)
      | Some resolve \<Rightarrow>
          let credential = request_credential request in
          bindE (failIf (TrimSpace (tcr_CertificateFingerprint credential) = [])
                   (Wrapf ''%w: certificate fingerprint is required'' ErrMissingTransportCredential)) (\<lambda>_.
          bindE (wrapE ''resolve device authority'' (resolve credential)) (\<lambda>device.
          bindE (failIf (TrimSpace (adc_DeviceID device) = [])
                   (Wrapf ''%w: resolver returned no device_id for message %s'' ErrIdentityDrift)) (\<lambda>_.
          ret (resolved_context device credential)))))"

definition failureDeviceContext :: "IngestRequest \<Rightarrow> AuthenticatedDeviceContext" where
  "failureDeviceContext request = resolved_context (irq_Device request) (irq_Credential request)"

definition authorityFailureReason :: "go_error \<Rightarrow> FailureReason" where
  "authorityFailureReason e =
     (if errors_Is e ErrIdentityDrift then ReasonCode ''identity_drift''
      else if errors_Is e ErrMissingTransportCredential then ReasonCode ''missing_transport_credential''
      else ReasonCode ''authority_resolution_failed'')"

definition recordFailure ::
  "'w RuntimePipeline \<Rightarrow> AuthenticatedDeviceContext \<Rightarrow> RuntimeEnvelope \<Rightarrow> string \<Rightarrow> FailureReason \<Rightarrow>
   time \<Rightarrow> ('w, unit) op" where
  "recordFailure p device envelope stage reason receivedAt =
     (case rpl_FailureSink p of
        None \<Rightarrow> ret ()
      | Some record_failure \<Rightarrow> ignoreE (record_failure
          \<lparr>ifl_Device = device, ifl_MessageID = re_MessageID envelope,
           ifl_SchemaType = re_SchemaType envelope, ifl_Stage = stage, ifl_Reason = reason,
           ifl_ReceivedAt = receivedAt\<rparr>))"

section \<open>Duplicates and unchanged state\<close>

definition stateDedupeKey :: "ValidatedMessage \<Rightarrow> StateDedupeKey" where
  "stateDedupeKey m =
     \<lparr>sdk_DeviceID = adc_DeviceID (vm_Device m), sdk_SchemaType = re_SchemaType (vm_Envelope m),
      sdk_SchemaVersion = re_SchemaVersion (vm_Envelope m)\<rparr>"

definition messageDedupeKey :: "ValidatedMessage \<Rightarrow> MessageDedupeKey" where
  "messageDedupeKey m =
     \<lparr>mdk_DeviceID = adc_DeviceID (vm_Device m), mdk_MessageID = re_MessageID (vm_Envelope m)\<rparr>"

definition messageHash :: "ValidatedMessage \<Rightarrow> string" where
  "messageHash m = MaterialHash (prj_Material (vm_Projection m))"

definition shouldSuppressUnchangedTelemetry ::
  "'w RuntimePipeline \<Rightarrow> ValidatedMessage \<Rightarrow> string \<Rightarrow> ('w, bool) op" where
  "shouldSuppressUnchangedTelemetry p m materialHash =
     (if re_MessageType (vm_Envelope m) \<noteq> MessageTypeTelemetry then ret False
      else bindE (attemptE (dds_LastMaterialHash (pipeline_dedupe p) (stateDedupeKey m))) (\<lambda>previous.
           ret (case previous of Inl e \<Rightarrow> False | Inr h \<Rightarrow> h = Some materialHash)))"

section \<open>Ingest\<close>

definition rejected :: "RuntimeEnvelope \<Rightarrow> string \<Rightarrow> time \<Rightarrow> IngestResult" where
  "rejected envelope materialHash receivedAt =
     \<lparr>irs_Accepted = False, irs_Written = False, irs_Suppressed = False, irs_SuppressionReason = [],
      irs_MessageID = re_MessageID envelope, irs_SchemaType = re_SchemaType envelope,
      irs_MaterialHash = materialHash, irs_ReceivedAt = receivedAt\<rparr>"

definition accepted :: "ValidatedMessage \<Rightarrow> bool \<Rightarrow> bool \<Rightarrow> string \<Rightarrow> IngestResult" where
  "accepted m written suppressed reason =
     \<lparr>irs_Accepted = True, irs_Written = written, irs_Suppressed = suppressed,
      irs_SuppressionReason = reason, irs_MessageID = re_MessageID (vm_Envelope m),
      irs_SchemaType = re_SchemaType (vm_Envelope m), irs_MaterialHash = messageHash m,
      irs_ReceivedAt = vm_ReceivedAt m\<rparr>"

text \<open>\<open>recordFailure\<close> and the return of a rejection.\<close>

definition reject ::
  "'w RuntimePipeline \<Rightarrow> ValidatedMessage \<Rightarrow> string \<Rightarrow> go_error \<Rightarrow> string \<Rightarrow> string \<Rightarrow>
   ('w, IngestResult \<times> go_error option) op" where
  "reject p m stage e materialHash msg =
     bindE (recordFailure p (vm_Device m) (vm_Envelope m) stage (ErrorText e) (vm_ReceivedAt m)) (\<lambda>_.
     ret (rejected (vm_Envelope m) materialHash (vm_ReceivedAt m), Some (Wrapf msg e)))"

definition record_message ::
  "'w RuntimePipeline \<Rightarrow> ValidatedMessage \<Rightarrow> bool \<Rightarrow> bool \<Rightarrow> string \<Rightarrow>
   ('w, IngestResult \<times> go_error option) op" where
  "record_message p m written suppressed reason =
     bindE (attemptE (dds_RecordMessage (pipeline_dedupe p) (messageDedupeKey m))) (\<lambda>recorded.
     case recorded of
       Inl e \<Rightarrow> reject p m ''dedupe'' e (messageHash m) ''record message dedupe''
     | Inr _ \<Rightarrow> ret (accepted m written suppressed reason, None))"

definition write_message ::
  "'w RuntimePipeline \<Rightarrow> ValidatedMessage \<Rightarrow> (ValidatedMessage \<Rightarrow> ('w, unit) op) \<Rightarrow>
   ('w, IngestResult \<times> go_error option) op" where
  "write_message p m write =
     bindE (attemptE (write m)) (\<lambda>written.
     case written of
       Inl e \<Rightarrow> reject p m ''persistence'' e [] ''write latest state''
     | Inr _ \<Rightarrow>
         if re_MessageType (vm_Envelope m) = MessageTypeTelemetry then
           bindE (attemptE (dds_RecordMaterialHash (pipeline_dedupe p) (stateDedupeKey m)
                              (messageHash m))) (\<lambda>hashed.
           case hashed of
             Inl e \<Rightarrow> reject p m ''dedupe'' e (messageHash m) ''record material hash''
           | Inr _ \<Rightarrow> record_message p m True False [])
         else record_message p m True False [])"

definition store_message ::
  "'w RuntimePipeline \<Rightarrow> ValidatedMessage \<Rightarrow> ('w, IngestResult \<times> go_error option) op" where
  "store_message p m =
     bindE (attemptE (dds_SeenMessage (pipeline_dedupe p) (messageDedupeKey m))) (\<lambda>seen.
     case seen of
       Inl e \<Rightarrow> reject p m ''dedupe'' e (messageHash m) ''check message dedupe''
     | Inr True \<Rightarrow> ret (accepted m False True ''duplicate_message'', None)
     | Inr False \<Rightarrow>
         bindE (shouldSuppressUnchangedTelemetry p m (messageHash m)) (\<lambda>unchanged.
         if unchanged then record_message p m False True ''unchanged_material''
         else (case rpl_Writer p of
                 None \<Rightarrow> record_message p m False False []
               | Some write \<Rightarrow> write_message p m write)))"

definition pipeline_received :: "'w RuntimePipeline \<Rightarrow> IngestRequest \<Rightarrow> ('w, time) op" where
  "pipeline_received p request =
     (if IsZero (irq_ReceivedAt request) then pipeline_now p else ret (irq_ReceivedAt request))"

definition Ingest :: "'w RuntimePipeline \<Rightarrow> IngestRequest \<Rightarrow> ('w, IngestResult \<times> go_error option) op" where
  "Ingest p request =
     bindE (pipeline_received p request) (\<lambda>receivedAt.
     case pipeline_parser p (irq_Route request) (irq_Body request) of
       Inl e \<Rightarrow>
         bindE (recordFailure p (irq_Device request) empty_envelope ''parse'' (ErrorText e) receivedAt) (\<lambda>_.
         ret (rejected empty_envelope [] receivedAt, Some e))
     | Inr envelope \<Rightarrow>
         (case Catalog_Validate (pipeline_catalog p) envelope of
            Inl e \<Rightarrow>
              bindE (recordFailure p (irq_Device request) envelope ''schema'' (ErrorText e) receivedAt) (\<lambda>_.
              ret (rejected envelope [] receivedAt, Some e))
          | Inr projection \<Rightarrow>
              bindE (attemptE (resolveAuthority p request envelope)) (\<lambda>resolved.
              case resolved of
                Inl e \<Rightarrow>
                  bindE (recordFailure p (failureDeviceContext request) envelope ''authority''
                           (authorityFailureReason e) receivedAt) (\<lambda>_.
                  ret (rejected envelope [] receivedAt, Some e))
              | Inr device \<Rightarrow>
                  (case ensurePayloadIdentityMatches (re_Payload envelope) (adc_DeviceID device) of
                     Some e \<Rightarrow>
                       bindE (recordFailure p device envelope ''authority'' (authorityFailureReason e)
                                receivedAt) (\<lambda>_.
                       ret (rejected envelope [] receivedAt, Some e))
                   | None \<Rightarrow>
                       store_message p
                         \<lparr>vm_Device = device, vm_Envelope = envelope, vm_Projection = projection,
                          vm_ReceivedAt = receivedAt\<rparr>))))"

end
