(* ===== verification/Telemetry_Store.thy ===== *)
theory Telemetry_Store
  imports Telemetry_Pipeline
begin

text \<open>
  What an ingest may store, over every dedupe store, writer, resolver and failure sink that keep
  \<open>ingest_contract\<close>, and the memory stores of \<open>memory.go\<close> that interpret it, with a schedule of
  failing calls.
\<close>

section \<open>What an ingest may store\<close>

record ingest_view =
  iv_seen :: "MessageDedupeKey set"
  iv_hashes :: "StateDedupeKey \<Rightarrow> string option"
  iv_written :: "ValidatedMessage list"

definition view_seen :: "ValidatedMessage \<Rightarrow> ingest_view \<Rightarrow> ingest_view" where
  "view_seen m v = v\<lparr>iv_seen := insert (messageDedupeKey m) (iv_seen v)\<rparr>"

definition view_hash :: "ValidatedMessage \<Rightarrow> ingest_view \<Rightarrow> ingest_view" where
  "view_hash m v = (if re_MessageType (vm_Envelope m) = MessageTypeTelemetry
     then v\<lparr>iv_hashes := (iv_hashes v)(stateDedupeKey m \<mapsto> messageHash m)\<rparr> else v)"

definition view_write :: "ValidatedMessage \<Rightarrow> ingest_view \<Rightarrow> ingest_view" where
  "view_write m v = v\<lparr>iv_written := iv_written v @ [m]\<rparr>"

lemma view_fields [simp]:
  "iv_seen (view_seen m v) = insert (messageDedupeKey m) (iv_seen v)"
  "iv_hashes (view_seen m v) = iv_hashes v" "iv_written (view_seen m v) = iv_written v"
  "iv_seen (view_hash m v) = iv_seen v" "iv_written (view_hash m v) = iv_written v"
  "iv_seen (view_write m v) = iv_seen v" "iv_hashes (view_write m v) = iv_hashes v"
  "iv_written (view_write m v) = iv_written v @ [m]"
  by (simp_all add: view_seen_def view_hash_def view_write_def)

lemma view_hash_other [simp]:
  "re_MessageType (vm_Envelope m) \<noteq> MessageTypeTelemetry \<Longrightarrow> view_hash m v = v"
  by (simp add: view_hash_def)

definition unchanged_telemetry :: "ingest_view \<Rightarrow> ValidatedMessage \<Rightarrow> bool" where
  "unchanged_telemetry v m \<longleftrightarrow> re_MessageType (vm_Envelope m) = MessageTypeTelemetry \<and>
     iv_hashes v (stateDedupeKey m) = Some (messageHash m)"

text \<open>The ways an ingest of the validated message \<open>m\<close> ends, with the stored state before and after.\<close>

inductive stored :: "ingest_view \<Rightarrow> ValidatedMessage \<Rightarrow> IngestResult \<times> go_error option \<Rightarrow> ingest_view \<Rightarrow> bool"
  for v m where
  duplicate: "messageDedupeKey m \<in> iv_seen v \<Longrightarrow>
    stored v m (accepted m False True ''duplicate_message'', None) v"
| suppressed: "messageDedupeKey m \<notin> iv_seen v \<Longrightarrow> unchanged_telemetry v m \<Longrightarrow>
    stored v m (accepted m False True ''unchanged_material'', None) (view_seen m v)"
| written: "messageDedupeKey m \<notin> iv_seen v \<Longrightarrow>
    stored v m (accepted m True False [], None) (view_seen m (view_hash m (view_write m v)))"
| refused: "\<not> irs_Accepted r \<Longrightarrow> stored v m (r, Some e) v"
| unhashed: "\<not> irs_Accepted r \<Longrightarrow> messageDedupeKey m \<notin> iv_seen v \<Longrightarrow>
    stored v m (r, Some e) (view_write m v)"
| unrecorded: "\<not> irs_Accepted r \<Longrightarrow> messageDedupeKey m \<notin> iv_seen v \<Longrightarrow>
    stored v m (r, Some e) (view_hash m (view_write m v))"

lemma not_accepted [simp]: "\<not> irs_Accepted (rejected envelope h t)"
  by (simp add: rejected_def)

locale ingest_contract =
  fixes p :: "'w RuntimePipeline" and writer :: "ValidatedMessage \<Rightarrow> ('w, unit) op"
    and view :: "'w \<Rightarrow> ingest_view"
  assumes wired: "rpl_Writer p = Some writer"
    and Seen_law: "dds_SeenMessage (pipeline_dedupe p) k w = (sr, w') \<Longrightarrow>
      view w' = view w \<and> (case sr of Inl e \<Rightarrow> True | Inr b \<Rightarrow> b = (k \<in> iv_seen (view w)))"
    and Record_law: "dds_RecordMessage (pipeline_dedupe p) k w = (rr, w') \<Longrightarrow>
      (case rr of Inl e \<Rightarrow> view w' = view w
       | Inr u \<Rightarrow> view w' = (view w)\<lparr>iv_seen := insert k (iv_seen (view w))\<rparr>)"
    and Last_law: "dds_LastMaterialHash (pipeline_dedupe p) sk w = (lr, w') \<Longrightarrow>
      view w' = view w \<and> (case lr of Inl e \<Rightarrow> True | Inr h \<Rightarrow> h = iv_hashes (view w) sk)"
    and Hash_law: "dds_RecordMaterialHash (pipeline_dedupe p) sk h w = (hr, w') \<Longrightarrow>
      (case hr of Inl e \<Rightarrow> view w' = view w
       | Inr u \<Rightarrow> view w' = (view w)\<lparr>iv_hashes := (iv_hashes (view w))(sk \<mapsto> h)\<rparr>)"
    and Write_law: "writer m w = (wr, w') \<Longrightarrow>
      (case wr of Inl e \<Rightarrow> view w' = view w | Inr u \<Rightarrow> view w' = view_write m (view w))"
    and Resolve_law: "rpl_AuthorityResolver p = Some resolve \<Longrightarrow> resolve c w = (dr, w') \<Longrightarrow>
      view w' = view w"
    and Failure_law: "rpl_FailureSink p = Some sink \<Longrightarrow> sink f w = (fr, w') \<Longrightarrow> view w' = view w"
    and Clock_law: "rpl_Clock p = Some clk \<Longrightarrow> clk w = (t, w') \<Longrightarrow> view w' = view w"
    and TimeNow_law: "rpl_TimeNow p w = (t, w') \<Longrightarrow> view w' = view w"
begin

lemma wp_Seen:
  assumes "\<And>e w'. view w' = view w \<Longrightarrow> E e w'"
    and "\<And>w'. view w' = view w \<Longrightarrow> Q (k \<in> iv_seen (view w)) w'"
  shows "wp (dds_SeenMessage (pipeline_dedupe p) k) Q E w"
  by (rule wpI) (auto dest!: Seen_law intro: assms)

lemma wp_Record:
  assumes "\<And>e w'. view w' = view w \<Longrightarrow> E e w'" and "\<And>w'. view w' = view_seen m (view w) \<Longrightarrow> Q () w'"
  shows "wp (dds_RecordMessage (pipeline_dedupe p) (messageDedupeKey m)) Q E w"
  by (rule wpI) (auto dest!: Record_law intro: assms simp: view_seen_def)

lemma wp_Last:
  assumes "\<And>e w'. view w' = view w \<Longrightarrow> E e w'"
    and "\<And>w'. view w' = view w \<Longrightarrow> Q (iv_hashes (view w) sk) w'"
  shows "wp (dds_LastMaterialHash (pipeline_dedupe p) sk) Q E w"
  by (rule wpI) (auto dest!: Last_law intro: assms)

lemma wp_Hash:
  assumes "re_MessageType (vm_Envelope m) = MessageTypeTelemetry"
    and "\<And>e w'. view w' = view w \<Longrightarrow> E e w'" and "\<And>w'. view w' = view_hash m (view w) \<Longrightarrow> Q () w'"
  shows "wp (dds_RecordMaterialHash (pipeline_dedupe p) (stateDedupeKey m) (messageHash m)) Q E w"
  by (rule wpI) (auto dest!: Hash_law intro: assms(2,3) simp: view_hash_def assms(1))

lemma wp_Write:
  assumes "\<And>e w'. view w' = view w \<Longrightarrow> E e w'" and "\<And>w'. view w' = view_write m (view w) \<Longrightarrow> Q () w'"
  shows "wp (writer m) Q E w"
  by (rule wpI) (auto dest!: Write_law intro: assms)

lemma wp_received:
  assumes "\<And>t w'. view w' = view w \<Longrightarrow> Q t w'"
  shows "wp (pipeline_received p request) Q E w"
  using assms by (auto simp: pipeline_received_def pipeline_now_def wp_simps
      split: option.split prod.split dest: Clock_law TimeNow_law)

lemma wp_recordFailure:
  assumes "\<And>w'. view w' = view w \<Longrightarrow> Q () w'"
  shows "wp (recordFailure p device envelope stage reason t) Q E w"
proof (cases "rpl_FailureSink p")
  case None
  then show ?thesis using assms by (simp add: recordFailure_def wp_simps)
next
  case (Some sink)
  then show ?thesis
    by (simp add: recordFailure_def wp_simps) (rule wpI; auto dest!: Failure_law [OF Some] intro: assms)
qed

lemma wp_resolve:
  assumes "\<And>e w'. view w' = view w \<Longrightarrow> E e w'" and "\<And>d w'. view w' = view w \<Longrightarrow> Q d w'"
  shows "wp (resolveAuthority p request envelope) Q E w"
proof (cases "rpl_AuthorityResolver p")
  case None
  then show ?thesis using assms by (simp add: resolveAuthority_def wp_simps)
next
  case (Some resolve)
  have "wp (resolve c) Q' E' u" if "\<And>e w'. view w' = view u \<Longrightarrow> E' e w'" "\<And>d w'. view w' = view u \<Longrightarrow> Q' d w'"
    for c Q' E' u
    by (rule wpI) (auto dest!: Resolve_law [OF Some] intro: that)
  with Some assms show ?thesis by (auto simp: resolveAuthority_def wp_simps Let_def)
qed

abbreviation ends :: "ingest_view \<Rightarrow> ValidatedMessage \<Rightarrow> IngestResult \<times> go_error option \<Rightarrow> 'w \<Rightarrow> bool" where
  "ends v m r w \<equiv> stored v m r (view w)"

lemma wp_reject:
  assumes "\<And>r e. \<not> irs_Accepted r \<Longrightarrow> stored v m (r, Some e) (view w)"
  shows "wp (reject p m stage e h msg) (ends v m) E w"
  by (auto simp: reject_def wp_simps assms intro!: wp_recordFailure)

lemma wp_record_written:
  assumes "messageDedupeKey m \<notin> iv_seen v" and "view w = view_hash m (view_write m v)"
  shows "wp (record_message p m True False []) (ends v m) E w"
  using assms by (auto simp: record_message_def wp_simps intro!: wp_Record wp_reject
      stored.written stored.unhashed stored.unrecorded)

lemma wp_record_suppressed:
  assumes "messageDedupeKey m \<notin> iv_seen v" and "unchanged_telemetry v m" and "view w = v"
  shows "wp (record_message p m False True ''unchanged_material'') (ends v m) E w"
  using assms by (auto simp: record_message_def wp_simps intro!: wp_Record wp_reject
      stored.suppressed stored.refused)

lemma wp_write_message:
  assumes "messageDedupeKey m \<notin> iv_seen v" and "view w = v"
  shows "wp (write_message p m writer) (ends v m) E w"
  using assms by (auto simp: write_message_def wp_simps intro!: wp_Write wp_Hash wp_reject
      wp_record_written intro: stored.refused stored.unrecorded)
    (rule stored.unhashed; simp)

lemma wp_store_message: "wp (store_message p m) (ends (view w) m) E w"
  by (auto simp: store_message_def shouldSuppressUnchangedTelemetry_def wired wp_simps
      unchanged_telemetry_def intro!: wp_Seen wp_Last wp_reject wp_record_suppressed wp_write_message
      stored.duplicate stored.refused split: bool.split)

definition ingest_ends ::
  "ingest_view \<Rightarrow> IngestRequest \<Rightarrow> IngestResult \<times> go_error option \<Rightarrow> ingest_view \<Rightarrow> bool" where
  "ingest_ends v request r v' \<longleftrightarrow>
     (\<exists>m. pipeline_parser p (irq_Route request) (irq_Body request) = Inr (vm_Envelope m) \<and>
        Catalog_Validate (pipeline_catalog p) (vm_Envelope m) = Inr (vm_Projection m) \<and>
        ensurePayloadIdentityMatches (re_Payload (vm_Envelope m)) (adc_DeviceID (vm_Device m)) = None \<and>
        stored v m r v') \<or>
     \<not> irs_Accepted (fst r) \<and> snd r \<noteq> None \<and> v' = v"

lemma ingest_ends_rejected: "\<not> irs_Accepted r \<Longrightarrow> ingest_ends v request (r, Some e) v"
  by (simp add: ingest_ends_def)

lemma wp_stored:
  assumes "pipeline_parser p (irq_Route request) (irq_Body request) = Inr (vm_Envelope m)"
    and "Catalog_Validate (pipeline_catalog p) (vm_Envelope m) = Inr (vm_Projection m)"
    and "ensurePayloadIdentityMatches (re_Payload (vm_Envelope m)) (adc_DeviceID (vm_Device m)) = None"
    and "view w = v"
  shows "wp (store_message p m) (\<lambda>r w'. ingest_ends v request r (view w')) E w"
  using wp_store_message [of m w E] by (rule wp_mono) (use assms in \<open>auto simp: ingest_ends_def\<close>)

lemma wp_Ingest: "wp (Ingest p request) (\<lambda>r w'. ingest_ends (view w) request r (view w')) E w"
  by (auto simp: Ingest_def wp_simps intro!: wp_received wp_recordFailure wp_resolve wp_stored
      ingest_ends_rejected split: sum.split option.split)

end

text \<open>The same when no store call fails: an ingest then stores all of its message or nothing.\<close>

locale healthy_ingest = ingest_contract p writer view
  for p :: "'w RuntimePipeline" and writer view +
  fixes ok :: "'w \<Rightarrow> bool"
  assumes Seen_ok: "ok w \<Longrightarrow> dds_SeenMessage (pipeline_dedupe p) k w = (sr, w') \<Longrightarrow> \<not> isl sr \<and> ok w'"
    and Record_ok: "ok w \<Longrightarrow> dds_RecordMessage (pipeline_dedupe p) k w = (rr, w') \<Longrightarrow> \<not> isl rr \<and> ok w'"
    and Last_ok: "ok w \<Longrightarrow> dds_LastMaterialHash (pipeline_dedupe p) sk w = (lr, w') \<Longrightarrow> \<not> isl lr \<and> ok w'"
    and Hash_ok: "ok w \<Longrightarrow> dds_RecordMaterialHash (pipeline_dedupe p) sk h w = (hr, w') \<Longrightarrow>
      \<not> isl hr \<and> ok w'"
    and Write_ok: "ok w \<Longrightarrow> writer m w = (wr, w') \<Longrightarrow> \<not> isl wr \<and> ok w'"
    and Resolve_ok: "ok w \<Longrightarrow> rpl_AuthorityResolver p = Some resolve \<Longrightarrow> resolve c w = (dr, w') \<Longrightarrow> ok w'"
    and Failure_ok: "ok w \<Longrightarrow> rpl_FailureSink p = Some sink \<Longrightarrow> sink f w = (fr, w') \<Longrightarrow> ok w'"
    and Clock_ok: "ok w \<Longrightarrow> rpl_Clock p = Some clk \<Longrightarrow> clk w = (t, w') \<Longrightarrow> ok w'"
    and TimeNow_ok: "ok w \<Longrightarrow> rpl_TimeNow p w = (t, w') \<Longrightarrow> ok w'"
begin

lemma wp_ok:
  assumes "\<And>r w'. m w = (r, w') \<Longrightarrow> \<not> isl r \<and> ok w'" and "\<And>a w'. ok w' \<Longrightarrow> Q a w'"
  shows "wp m Q E w"
proof (rule wpI)
  fix e w' assume "m w = (Inl e, w')"
  then show "E e w'" using assms(1) by fastforce
next
  fix a w' assume "m w = (Inr a, w')"
  then show "Q a w'" using assms by fastforce
qed

lemma ok_Seen: "ok w \<Longrightarrow> (\<And>b w'. ok w' \<Longrightarrow> Q b w') \<Longrightarrow> wp (dds_SeenMessage (pipeline_dedupe p) k) Q E w"
  by (rule wp_ok) (auto dest: Seen_ok)

lemma ok_Record: "ok w \<Longrightarrow> (\<And>w'. ok w' \<Longrightarrow> Q () w') \<Longrightarrow> wp (dds_RecordMessage (pipeline_dedupe p) k) Q E w"
  by (rule wp_ok) (auto dest: Record_ok)

lemma ok_Last: "ok w \<Longrightarrow> (\<And>h w'. ok w' \<Longrightarrow> Q h w') \<Longrightarrow>
    wp (dds_LastMaterialHash (pipeline_dedupe p) sk) Q E w"
  by (rule wp_ok) (auto dest: Last_ok)

lemma ok_Hash: "ok w \<Longrightarrow> (\<And>w'. ok w' \<Longrightarrow> Q () w') \<Longrightarrow>
    wp (dds_RecordMaterialHash (pipeline_dedupe p) sk h) Q E w"
  by (rule wp_ok) (auto dest: Hash_ok)

lemma ok_Write: "ok w \<Longrightarrow> (\<And>w'. ok w' \<Longrightarrow> Q () w') \<Longrightarrow> wp (writer m) Q E w"
  by (rule wp_ok) (auto dest: Write_ok)

lemma ok_recordFailure:
  assumes "ok w" and "\<And>w'. ok w' \<Longrightarrow> Q () w'"
  shows "wp (recordFailure p device envelope stage reason t) Q E w"
proof (cases "rpl_FailureSink p")
  case None
  then show ?thesis using assms by (simp add: recordFailure_def wp_simps)
next
  case (Some sink)
  then show ?thesis
    by (simp add: recordFailure_def wp_simps)
      (rule wpI; auto dest!: Failure_ok [OF assms(1) Some] intro: assms(2))
qed

lemma ok_received: "ok w \<Longrightarrow> (\<And>t w'. ok w' \<Longrightarrow> Q t w') \<Longrightarrow> wp (pipeline_received p request) Q E w"
  by (auto simp: pipeline_received_def pipeline_now_def wp_simps dest: Clock_ok TimeNow_ok
      split: option.split prod.split)

lemma ok_resolve:
  assumes "ok w" and "\<And>e w'. ok w' \<Longrightarrow> E e w'" and "\<And>d w'. ok w' \<Longrightarrow> Q d w'"
  shows "wp (resolveAuthority p request envelope) Q E w"
proof (cases "rpl_AuthorityResolver p")
  case None
  then show ?thesis using assms by (simp add: resolveAuthority_def wp_simps)
next
  case (Some resolve)
  have "wp (resolve c) Q' E' w" if "\<And>e w'. ok w' \<Longrightarrow> E' e w'" "\<And>d w'. ok w' \<Longrightarrow> Q' d w'" for c Q' E'
    by (rule wpI) (auto dest!: Resolve_ok [OF assms(1) Some] intro: that)
  with Some assms show ?thesis by (auto simp: resolveAuthority_def wp_simps Let_def)
qed

abbreviation done_ok :: "IngestResult \<times> go_error option \<Rightarrow> 'w \<Rightarrow> bool" where
  "done_ok r w \<equiv> snd r = None \<and> ok w"

lemma ok_record_message: "ok w \<Longrightarrow> wp (record_message p m b c reason) done_ok E w"
  by (auto simp: record_message_def wp_simps intro!: ok_Record)

lemma ok_write_message: "ok w \<Longrightarrow> wp (write_message p m writer) done_ok E w"
  by (auto simp: write_message_def wp_simps intro!: ok_Write ok_Hash ok_record_message)

lemma ok_store_message: "ok w \<Longrightarrow> wp (store_message p m) done_ok E w"
  by (auto simp: store_message_def shouldSuppressUnchangedTelemetry_def wired wp_simps
      intro!: ok_Seen ok_Last ok_record_message ok_write_message split: bool.split)

text \<open>A message is written only if it is not unchanged telemetry: reading the last hash did not fail.\<close>

lemma ok_Seen_view:
  assumes "ok w" and "\<And>b w'. ok w' \<Longrightarrow> view w' = view w \<Longrightarrow> Q b w'"
  shows "wp (dds_SeenMessage (pipeline_dedupe p) k) Q E w"
proof (rule wpI)
  fix e w' assume "dds_SeenMessage (pipeline_dedupe p) k w = (Inl e, w')"
  then show "E e w'" using Seen_ok [OF assms(1)] by fastforce
next
  fix b w' assume "dds_SeenMessage (pipeline_dedupe p) k w = (Inr b, w')"
  then show "Q b w'" using Seen_ok [OF assms(1)] Seen_law assms(2) by blast
qed

lemma ok_Last_view:
  assumes "ok w" and "\<And>w'. ok w' \<Longrightarrow> Q (iv_hashes (view w) sk) w'"
  shows "wp (dds_LastMaterialHash (pipeline_dedupe p) sk) Q E w"
proof (rule wpI)
  fix e w' assume "dds_LastMaterialHash (pipeline_dedupe p) sk w = (Inl e, w')"
  then show "E e w'" using Last_ok [OF assms(1)] by fastforce
next
  fix h w' assume "dds_LastMaterialHash (pipeline_dedupe p) sk w = (Inr h, w')"
  then show "Q h w'" using Last_ok [OF assms(1)] Last_law assms(2) by fastforce
qed

lemma ok_unwritten: "ok w \<Longrightarrow> wp (record_message p m False c reason) (\<lambda>r w'. \<not> irs_Written (fst r)) E w"
  by (auto simp: record_message_def accepted_def wp_simps intro!: ok_Record)

lemma ok_any: "ok w \<Longrightarrow> wp (write_message p m writer) (\<lambda>r w'. True) E w"
  by (rule wp_mono [OF ok_write_message]) simp_all

lemma ok_written:
  "ok w \<Longrightarrow> view w = v \<Longrightarrow>
   wp (store_message p m) (\<lambda>r w'. irs_Written (fst r) \<longrightarrow> \<not> unchanged_telemetry v m) E w"
  by (auto simp: store_message_def shouldSuppressUnchangedTelemetry_def wired wp_simps accepted_def
      unchanged_telemetry_def intro!: ok_Seen_view ok_Last_view ok_unwritten ok_any split: bool.split)

text \<open>When no store call fails, an ingest that ends in an error has stored nothing.\<close>

definition healthy_ends ::
  "ingest_view \<Rightarrow> IngestRequest \<Rightarrow> IngestResult \<times> go_error option \<Rightarrow> ingest_view \<Rightarrow> bool" where
  "healthy_ends v request r v' \<longleftrightarrow>
     (\<exists>m. pipeline_parser p (irq_Route request) (irq_Body request) = Inr (vm_Envelope m) \<and>
        Catalog_Validate (pipeline_catalog p) (vm_Envelope m) = Inr (vm_Projection m) \<and>
        snd r = None \<and> stored v m r v' \<and> (irs_Written (fst r) \<longrightarrow> \<not> unchanged_telemetry v m)) \<or>
     \<not> irs_Accepted (fst r) \<and> snd r \<noteq> None \<and> v' = v"

lemma healthy_ends_rejected: "\<not> irs_Accepted r \<Longrightarrow> healthy_ends v request (r, Some e) v"
  by (simp add: healthy_ends_def)

lemma wp_and:
  "wp m Q E w \<Longrightarrow> wp m Q' E' w \<Longrightarrow> wp m (\<lambda>a w'. Q a w' \<and> Q' a w') (\<lambda>e w'. E e w' \<and> E' e w') w"
  by (auto simp: wp_def split: prod.splits sum.splits)

lemma healthy_store:
  assumes "ok w" and "view w = v"
    and "pipeline_parser p (irq_Route request) (irq_Body request) = Inr (vm_Envelope m)"
    and "Catalog_Validate (pipeline_catalog p) (vm_Envelope m) = Inr (vm_Projection m)"
  shows "wp (store_message p m) (\<lambda>r w'. healthy_ends v request r (view w') \<and> ok w') E w"
  by (rule wp_mono [OF wp_and [OF wp_and [OF ok_store_message [OF assms(1)] wp_store_message, of _ E E]
        ok_written [OF assms(1,2)], of _ E]])
     (use assms(2-4) in \<open>auto simp: healthy_ends_def\<close>)

lemma healthy_recordFailure:
  assumes "ok w" and "\<And>w'. view w' = view w \<Longrightarrow> ok w' \<Longrightarrow> Q () w'"
  shows "wp (recordFailure p device envelope stage reason t) Q E w"
  by (rule wp_mono [OF wp_and [OF
        wp_recordFailure [where Q = "\<lambda>_ w'. view w' = view w" and E = E]
        ok_recordFailure [OF assms(1), where Q = "\<lambda>_. ok" and E = E]]])
     (simp_all add: assms(2))

lemma healthy_received:
  assumes "ok w" and "\<And>t w'. view w' = view w \<Longrightarrow> ok w' \<Longrightarrow> Q t w'"
  shows "wp (pipeline_received p request) Q E w"
  by (rule wp_mono [OF wp_and [OF
        wp_received [where Q = "\<lambda>_ w'. view w' = view w" and E = E]
        ok_received [OF assms(1), where Q = "\<lambda>_. ok" and E = E]]])
     (simp_all add: assms(2))

lemma healthy_resolve:
  assumes "ok w" and "\<And>e w'. view w' = view w \<Longrightarrow> ok w' \<Longrightarrow> E e w'"
    and "\<And>d w'. view w' = view w \<Longrightarrow> ok w' \<Longrightarrow> Q d w'"
  shows "wp (resolveAuthority p request envelope) Q E w"
  by (rule wp_mono [OF wp_and [OF
        wp_resolve [where Q = "\<lambda>_ w'. view w' = view w" and E = "\<lambda>_ w'. view w' = view w"]
        ok_resolve [OF assms(1), where Q = "\<lambda>_. ok" and E = "\<lambda>_. ok"]]])
     (simp_all add: assms(2,3))

lemma healthy_Ingest:
  "ok w \<Longrightarrow> wp (Ingest p request) (\<lambda>r w'. healthy_ends (view w) request r (view w') \<and> ok w') E w"
  by (auto simp: Ingest_def wp_simps intro!: healthy_received healthy_recordFailure healthy_resolve
      healthy_store healthy_ends_rejected split: sum.split option.split)

end

section \<open>The memory stores\<close>

record telemetry_store = env +
  ts_messages :: "MessageDedupeKey list"
  ts_materialHashes :: "(StateDedupeKey \<times> string) list"
  ts_written :: "ValidatedMessage list"
  ts_failures :: "IngestFailure list"
  ts_devices :: "TransportCredential \<Rightarrow> AuthenticatedDeviceContext option"

definition memory_SeenMessage :: "MessageDedupeKey \<Rightarrow> (telemetry_store, bool) op" where
  "memory_SeenMessage k w = (Inr (k \<in> set (ts_messages w)), w)"

definition memory_RecordMessage :: "MessageDedupeKey \<Rightarrow> (telemetry_store, unit) op" where
  "memory_RecordMessage k w = (Inr (), w\<lparr>ts_messages := k # ts_messages w\<rparr>)"

definition memory_LastMaterialHash :: "StateDedupeKey \<Rightarrow> (telemetry_store, string option) op" where
  "memory_LastMaterialHash k w = (Inr (map_of (ts_materialHashes w) k), w)"

definition memory_RecordMaterialHash :: "StateDedupeKey \<Rightarrow> string \<Rightarrow> (telemetry_store, unit) op" where
  "memory_RecordMaterialHash k h w = (Inr (), w\<lparr>ts_materialHashes := (k, h) # ts_materialHashes w\<rparr>)"

definition memory_WriteLatest :: "ValidatedMessage \<Rightarrow> (telemetry_store, unit) op" where
  "memory_WriteLatest m w = (Inr (), w\<lparr>ts_written := ts_written w @ [m]\<rparr>)"

definition memory_RecordFailure :: "IngestFailure \<Rightarrow> (telemetry_store, unit) op" where
  "memory_RecordFailure f w = (Inr (), w\<lparr>ts_failures := ts_failures w @ [f]\<rparr>)"

definition table_ResolveDevice ::
  "TransportCredential \<Rightarrow> (telemetry_store, AuthenticatedDeviceContext) op" where
  "table_ResolveDevice c w =
     (case ts_devices w c of
        None \<Rightarrow> (Inl (Wrapf ''%w: unknown credential'' ErrIdentityDrift), w)
      | Some d \<Rightarrow> (Inr d, w))"

definition NewMemoryDedupeStore :: "telemetry_store DedupeStore" where
  "NewMemoryDedupeStore =
     \<lparr>dds_SeenMessage = (\<lambda>k. with_fault (memory_SeenMessage k)),
      dds_RecordMessage = (\<lambda>k. with_fault (memory_RecordMessage k)),
      dds_LastMaterialHash = (\<lambda>k. with_fault (memory_LastMaterialHash k)),
      dds_RecordMaterialHash = (\<lambda>k h. with_fault (memory_RecordMaterialHash k h))\<rparr>"

definition memory_write :: "ValidatedMessage \<Rightarrow> (telemetry_store, unit) op" where
  "memory_write m = with_fault (memory_WriteLatest m)"

text \<open>\<open>NewRuntimePipeline\<close> over the memory stores, with a resolver that looks the credential up.\<close>

definition telemetry_pipeline :: "telemetry_store RuntimePipeline" where
  "telemetry_pipeline =
     \<lparr>rpl_Parser = Some RuntimeEnvelopeParser_Parse, rpl_Catalog = Some NewDefaultCatalog,
      rpl_AuthorityResolver = Some table_ResolveDevice, rpl_DedupeStore = Some NewMemoryDedupeStore,
      rpl_NewDedupeStore = NewMemoryDedupeStore, rpl_Writer = Some memory_write,
      rpl_FailureSink = Some memory_RecordFailure, rpl_Clock = Some read_clock,
      rpl_TimeNow = read_clock\<rparr>"

definition telemetry_view :: "telemetry_store \<Rightarrow> ingest_view" where
  "telemetry_view w = \<lparr>iv_seen = set (ts_messages w), iv_hashes = map_of (ts_materialHashes w),
     iv_written = ts_written w\<rparr>"

lemma telemetry_view_fields [simp]:
  "iv_seen (telemetry_view w) = set (ts_messages w)"
  "iv_hashes (telemetry_view w) = map_of (ts_materialHashes w)"
  "iv_written (telemetry_view w) = ts_written w"
  by (simp_all add: telemetry_view_def)

lemmas telemetry_defs = telemetry_pipeline_def pipeline_dedupe_def NewMemoryDedupeStore_def
  memory_SeenMessage_def memory_RecordMessage_def memory_LastMaterialHash_def
  memory_RecordMaterialHash_def memory_WriteLatest_def memory_write_def memory_RecordFailure_def
  table_ResolveDevice_def read_clock_def

interpretation telemetry: ingest_contract telemetry_pipeline memory_write telemetry_view
  by unfold_locales
    (auto simp: telemetry_defs with_fault_def telemetry_view_def view_write_def
      split: list.splits if_splits option.splits)

interpretation telemetry: healthy_ingest telemetry_pipeline memory_write telemetry_view
    "\<lambda>w. env_faults w = []"
  by unfold_locales
    (auto simp: telemetry_defs with_fault_def isl_def split: list.splits if_splits option.splits)

end
