(* ===== verification/Telemetry_Ingest.thy ===== *)
theory Telemetry_Ingest
  imports Telemetry_Store
begin

text \<open>
  Sequences of ingests over the memory stores of \<open>Telemetry_Store\<close>. \<open>ingest_reachable\<close> are the stores
  they reach from an empty one under any schedule of failing calls, \<open>healthy_reachable\<close> those they
  reach when no call fails. The properties say what the envelope parser accepts, that a recorded
  message is never stored again, and when a message is stored, suppressed or dropped.
\<close>

section \<open>Sequences of ingests\<close>

definition run_ingest :: "'w RuntimePipeline \<Rightarrow> IngestRequest \<Rightarrow> 'w \<Rightarrow> 'w" where
  "run_ingest p request w = snd (Ingest p request w)"

fun run_ingests :: "'w RuntimePipeline \<Rightarrow> IngestRequest list \<Rightarrow> 'w \<Rightarrow> 'w" where
  "run_ingests p [] w = w"
| "run_ingests p (request # requests) w = run_ingests p requests (run_ingest p request w)"

definition empty_telemetry :: "telemetry_store \<Rightarrow> bool" where
  "empty_telemetry w \<longleftrightarrow> ts_messages w = [] \<and> ts_materialHashes w = [] \<and> ts_written w = []"

inductive ingest_reachable :: "telemetry_store \<Rightarrow> bool" where
  start: "empty_telemetry w \<Longrightarrow> ingest_reachable w"
| ingest: "ingest_reachable w \<Longrightarrow> ingest_reachable (run_ingest telemetry_pipeline request w)"

inductive healthy_reachable :: "telemetry_store \<Rightarrow> bool" where
  start: "empty_telemetry w \<Longrightarrow> env_faults w = [] \<Longrightarrow> healthy_reachable w"
| ingest: "healthy_reachable w \<Longrightarrow> healthy_reachable (run_ingest telemetry_pipeline request w)"

lemma run_ingests_reachable:
  "ingest_reachable w \<Longrightarrow> ingest_reachable (run_ingests telemetry_pipeline requests w)"
  by (induction requests arbitrary: w) (auto intro: ingest_reachable.ingest)

lemma run_ingests_healthy:
  "healthy_reachable w \<Longrightarrow> healthy_reachable (run_ingests telemetry_pipeline requests w)"
  by (induction requests arbitrary: w) (auto intro: healthy_reachable.ingest)

lemma ingest_result:
  obtains r w' where "Ingest telemetry_pipeline request w = (Inr r, w')"
    and "telemetry.ingest_ends (telemetry_view w) request r (telemetry_view w')"
  using telemetry.wp_Ingest [of request w "\<lambda>_ _. False"]
  by (cases "Ingest telemetry_pipeline request w"; cases "fst (Ingest telemetry_pipeline request w)")
    (auto simp: wp_def)

lemma healthy_ingest_result:
  assumes "env_faults w = []"
  obtains r w' where "Ingest telemetry_pipeline request w = (Inr r, w')" and "env_faults w' = []"
    and "telemetry.healthy_ends (telemetry_view w) request r (telemetry_view w')"
  using telemetry.healthy_Ingest [OF assms, of request "\<lambda>_ _. False"]
  by (cases "Ingest telemetry_pipeline request w"; cases "fst (Ingest telemetry_pipeline request w)")
    (auto simp: wp_def)

lemma telemetry_pipeline_fields [simp]:
  "rpl_AuthorityResolver telemetry_pipeline = Some table_ResolveDevice"
  "rpl_Writer telemetry_pipeline = Some memory_write"
  "pipeline_dedupe telemetry_pipeline = NewMemoryDedupeStore"
  "pipeline_parser telemetry_pipeline = RuntimeEnvelopeParser_Parse"
  "pipeline_catalog telemetry_pipeline = NewDefaultCatalog"
  by (simp_all add: telemetry_pipeline_def pipeline_dedupe_def pipeline_parser_def pipeline_catalog_def)

text \<open>What one ingest may do to the stored state.\<close>

lemma ingest_step:
  "telemetry_view (run_ingest telemetry_pipeline request w) = telemetry_view w \<or>
   (\<exists>m r. pipeline_parser telemetry_pipeline (irq_Route request) (irq_Body request) = Inr (vm_Envelope m) \<and>
      Catalog_Validate (pipeline_catalog telemetry_pipeline) (vm_Envelope m) = Inr (vm_Projection m) \<and>
      ensurePayloadIdentityMatches (re_Payload (vm_Envelope m)) (adc_DeviceID (vm_Device m)) = None \<and>
      stored (telemetry_view w) m r (telemetry_view (run_ingest telemetry_pipeline request w)))"
  by (rule ingest_result [of request w]) (auto simp: run_ingest_def telemetry.ingest_ends_def)

inductive_cases storedE: "stored v m r v'"

lemma stored_written:
  assumes "stored v m r v'"
  shows "iv_written v' = iv_written v \<or>
    iv_written v' = iv_written v @ [m] \<and> messageDedupeKey m \<notin> iv_seen v"
  using assms by cases auto

lemma stored_seen: "stored v m r v' \<Longrightarrow> iv_seen v \<subseteq> iv_seen v'"
  by (erule storedE) auto

lemma ingest_keeps_recorded:
  assumes "k \<in> set (ts_messages w)" and "w' = run_ingest telemetry_pipeline request w"
  shows "k \<in> set (ts_messages w') \<and>
    filter (\<lambda>m. messageDedupeKey m = k) (ts_written w') = filter (\<lambda>m. messageDedupeKey m = k) (ts_written w)"
proof -
  consider "telemetry_view w' = telemetry_view w"
    | m r where "stored (telemetry_view w) m r (telemetry_view w')"
    using ingest_step [of request w] by (auto simp: assms(2))
  then show ?thesis
  proof cases
    case 1
    then show ?thesis using assms(1) by (metis telemetry_view_fields(1,3))
  next
    case (2 m r)
    then show ?thesis using stored_seen [OF 2] stored_written [OF 2] assms(1) by auto
  qed
qed

text \<open>What is written: the parser, the catalog and the identity check accepted it.\<close>

definition message_checked :: "ValidatedMessage \<Rightarrow> bool" where
  "message_checked m \<longleftrightarrow>
     (\<exists>route body. RuntimeEnvelopeParser_Parse route body = Inr (vm_Envelope m)) \<and>
     Catalog_Validate NewDefaultCatalog (vm_Envelope m) = Inr (vm_Projection m) \<and>
     ensurePayloadIdentityMatches (re_Payload (vm_Envelope m)) (adc_DeviceID (vm_Device m)) = None"

lemma reachable_checked: "ingest_reachable w \<Longrightarrow> m \<in> set (ts_written w) \<Longrightarrow> message_checked m"
proof (induction rule: ingest_reachable.induct)
  case (start w)
  then show ?case by (simp add: empty_telemetry_def)
next
  case (ingest w request)
  let ?w = "run_ingest telemetry_pipeline request w"
  consider "ts_written ?w = ts_written w"
    | m' where "message_checked m'" "ts_written ?w = ts_written w @ [m']"
    using ingest_step [of request w] stored_written [of "telemetry_view w" _ _ "telemetry_view ?w"]
    by (auto simp: message_checked_def) (metis telemetry_view_fields(3))
  then show ?case using ingest by cases auto
qed

section \<open>The store when no call fails\<close>

definition is_telemetry :: "ValidatedMessage \<Rightarrow> bool" where
  "is_telemetry m \<longleftrightarrow> re_MessageType (vm_Envelope m) = MessageTypeTelemetry"

text \<open>The material hash of the last telemetry message written for a state.\<close>

definition last_hash :: "ValidatedMessage list \<Rightarrow> StateDedupeKey \<Rightarrow> string option" where
  "last_hash ms k =
     (let ms' = filter (\<lambda>m. is_telemetry m \<and> stateDedupeKey m = k) ms in
      if ms' = [] then None else Some (messageHash (last ms')))"

lemma last_hash_Nil [simp]: "last_hash [] = (\<lambda>_. None)"
  by (rule ext) (simp add: last_hash_def)

lemma last_hash_snoc:
  "last_hash (ms @ [m]) = (if is_telemetry m then (last_hash ms)(stateDedupeKey m \<mapsto> messageHash m)
     else last_hash ms)"
  by (rule ext) (auto simp: last_hash_def Let_def)

definition healthy_view :: "ingest_view \<Rightarrow> bool" where
  "healthy_view v \<longleftrightarrow> distinct (map messageDedupeKey (iv_written v)) \<and>
     messageDedupeKey ` set (iv_written v) \<subseteq> iv_seen v \<and> iv_hashes v = last_hash (iv_written v)"

lemma view_hash_hashes:
  "iv_hashes (view_hash m v) =
     (if is_telemetry m then (iv_hashes v)(stateDedupeKey m \<mapsto> messageHash m) else iv_hashes v)"
  by (simp add: view_hash_def is_telemetry_def)

lemma stored_healthy: "stored v m (r, None) v' \<Longrightarrow> healthy_view v \<Longrightarrow> healthy_view v'"
  by (erule storedE) (auto simp: healthy_view_def view_hash_hashes last_hash_snoc)

lemma healthy_reachable_inv:
  "healthy_reachable w \<Longrightarrow> env_faults w = [] \<and> healthy_view (telemetry_view w)"
proof (induction rule: healthy_reachable.induct)
  case (start w)
  then show ?case by (auto simp: empty_telemetry_def healthy_view_def)
next
  case (ingest w request)
  obtain r w' where "Ingest telemetry_pipeline request w = (Inr r, w')" and "env_faults w' = []"
    and *: "telemetry.healthy_ends (telemetry_view w) request r (telemetry_view w')"
    using healthy_ingest_result ingest.IH by blast
  moreover have "healthy_view (telemetry_view w')"
    using * ingest.IH stored_healthy by (cases r) (auto simp: telemetry.healthy_ends_def)
  ultimately show ?case by (simp add: run_ingest_def)
qed

section \<open>The message of a request\<close>

text \<open>The validated message an ingest stores, when the request gives its time of receipt.\<close>

definition request_message :: "telemetry_store \<Rightarrow> IngestRequest \<Rightarrow> ValidatedMessage option" where
  "request_message w request =
     (case RuntimeEnvelopeParser_Parse (irq_Route request) (irq_Body request) of
        Inl e \<Rightarrow> None
      | Inr envelope \<Rightarrow>
          (case Catalog_Validate NewDefaultCatalog envelope of
             Inl e \<Rightarrow> None
           | Inr projection \<Rightarrow>
               (case fst (resolveAuthority telemetry_pipeline request envelope w) of
                  Inl e \<Rightarrow> None
                | Inr device \<Rightarrow>
                    if ensurePayloadIdentityMatches (re_Payload envelope) (adc_DeviceID device) = None
                    then Some \<lparr>vm_Device = device, vm_Envelope = envelope, vm_Projection = projection,
                               vm_ReceivedAt = irq_ReceivedAt request\<rparr>
                    else None)))"

lemma resolveAuthority_devices:
  "ts_devices w' = ts_devices w \<Longrightarrow>
   resolveAuthority telemetry_pipeline request envelope w' =
   (fst (resolveAuthority telemetry_pipeline request envelope w), w')"
  by (cases "ts_devices w (request_credential request)")
    (simp_all add: resolveAuthority_def Let_def table_ResolveDevice_def op_defs)

lemma request_message_devices:
  assumes "ts_devices w' = ts_devices w"
  shows "request_message w' request = request_message w request"
  unfolding request_message_def by (simp only: resolveAuthority_devices [OF assms] fst_conv)

lemma Ingest_message:
  assumes "request_message w request = Some m" and "\<not> IsZero (irq_ReceivedAt request)"
  shows "Ingest telemetry_pipeline request w = store_message telemetry_pipeline m w"
proof -
  obtain envelope where e: "RuntimeEnvelopeParser_Parse (irq_Route request) (irq_Body request) = Inr envelope"
    using assms(1) by (auto simp: request_message_def split: sum.splits)
  obtain projection where pr: "Catalog_Validate NewDefaultCatalog envelope = Inr projection"
    using assms(1) by (auto simp: request_message_def e split: sum.splits)
  obtain device where d: "resolveAuthority telemetry_pipeline request envelope w = (Inr device, w)"
    using assms(1) resolveAuthority_devices [of w w request envelope]
    by (auto simp: request_message_def e pr split: sum.splits)
  have m: "ensurePayloadIdentityMatches (re_Payload envelope) (adc_DeviceID device) = None"
    "m = \<lparr>vm_Device = device, vm_Envelope = envelope, vm_Projection = projection,
          vm_ReceivedAt = irq_ReceivedAt request\<rparr>"
    using assms(1) by (auto simp: request_message_def e pr d split: if_splits)
  show ?thesis
    using assms(2) by (simp add: Ingest_def pipeline_received_def e pr d m bindE_def attemptE_def ret_def)
qed

text \<open>Two stores of one event, the first of which fails to record the message.\<close>

lemma store_event_unrecorded:
  assumes "messageDedupeKey m \<notin> set (ts_messages w)" and "\<not> is_telemetry m"
    and "env_faults w = [False, False, True]"
  shows "\<exists>r e fs. store_message telemetry_pipeline m w =
    (Inr (r, Some e), w\<lparr>env_faults := [], ts_written := ts_written w @ [m], ts_failures := fs\<rparr>)"
  using assms by (cases w) (auto simp: store_message_def shouldSuppressUnchangedTelemetry_def write_message_def
      record_message_def reject_def recordFailure_def NewMemoryDedupeStore_def memory_write_def
      memory_SeenMessage_def memory_RecordMessage_def memory_WriteLatest_def memory_RecordFailure_def
      telemetry_pipeline_def pipeline_dedupe_def is_telemetry_def with_fault_def op_defs)

lemma store_event:
  assumes "messageDedupeKey m \<notin> set (ts_messages w)" and "\<not> is_telemetry m" and "env_faults w = []"
  shows "store_message telemetry_pipeline m w = (Inr (accepted m True False [], None),
    w\<lparr>ts_written := ts_written w @ [m], ts_messages := messageDedupeKey m # ts_messages w\<rparr>)"
  using assms by (simp add: store_message_def shouldSuppressUnchangedTelemetry_def write_message_def
      record_message_def NewMemoryDedupeStore_def memory_write_def
      memory_SeenMessage_def memory_RecordMessage_def memory_WriteLatest_def
      telemetry_pipeline_def pipeline_dedupe_def is_telemetry_def op_defs)

section \<open>What the parser accepts\<close>

lemma forbidden_token_none:
  "forbiddenRuntimePayloadToken payload = [] \<longleftrightarrow>
   (\<forall>t \<in> set forbiddenRuntimePayloadTokens. \<not> Contains (ToLower payload) t)"
proof -
  have "[] \<notin> set forbiddenRuntimePayloadTokens" by (simp add: forbiddenRuntimePayloadTokens_def)
  then show ?thesis
    by (auto simp: forbiddenRuntimePayloadToken_def find_None_iff find_Some_iff split: option.splits)
      (metis nth_mem)
qed

lemma trimmed_values [simp]: "TrimSpace [] = []" "TrimSpace SchemaTypeAgentAlarm \<noteq> []"
  by code_simp+

lemma validRuntimePayload_empty [simp]: "validateRuntimePayload [] \<noteq> None"
  by (simp add: validateRuntimePayload_def)

lemma validRuntimePayload:
  "validateRuntimePayload payload = None \<Longrightarrow> \<exists>rest. TrimSpace payload = CHR ''{'' # rest"
  by (cases "TrimSpace payload") (auto simp: validateRuntimePayload_def Let_def split: if_splits)

lemma default_catalog_supported:
  "Catalog_Validate NewDefaultCatalog e = Inr projection \<Longrightarrow>
   RuntimeEnvelope_Key e \<in> set (Catalog_Supported NewDefaultCatalog)"
  by (auto simp: Catalog_Validate_def NewDefaultCatalog_def Catalog_Register_def Catalog_Supported_def
      AgentAlarmHandler_def DeviceHealthSnapshotHandler_def telemetry_names schema_key_less_def
      split: option.splits if_splits)

lemma Catalog_Validate_alarm:
  "re_MessageType e = MessageTypeEvent \<Longrightarrow> re_SchemaType e = SchemaTypeAgentAlarm \<Longrightarrow>
   re_SchemaVersion e = RuntimeSchemaVersionV1 \<Longrightarrow>
   Catalog_Validate NewDefaultCatalog e = AgentAlarmHandler_Validate e"
  by (simp add: Catalog_Validate_def NewDefaultCatalog_def Catalog_Register_def AgentAlarmHandler_def
      RuntimeEnvelope_Key_def)

lemma line_unique:
  assumes "CHR ''='' \<notin> set k" and "CHR ''='' \<notin> set k'"
    and "CHR 0x0A \<notin> set v" and "CHR 0x0A \<notin> set v'"
    and "material_line (k, v) @ xs = material_line (k', v') @ ys"
  shows "k = k' \<and> v = v' \<and> xs = ys"
proof -
  have split: "a = a' \<and> b = b'" if "a @ c # b = a' @ c # b'" "c \<notin> set a" "c \<notin> set a'"
    for a a' b b' and c :: char
    using that by (induction a arbitrary: a') (auto simp: Cons_eq_append_conv)
  from assms(5) have e: "k @ CHR ''='' # (v @ CHR 0x0A # xs) = k' @ CHR ''='' # (v' @ CHR 0x0A # ys)"
    by (simp add: material_line_def)
  from split [OF e assms(1,2)] have "k = k'" and "v @ CHR 0x0A # xs = v' @ CHR 0x0A # ys" by auto
  with split [OF this(2) assms(3,4)] show ?thesis by simp
qed

definition single_line :: "(string \<times> string) list \<Rightarrow> bool" where
  "single_line material \<longleftrightarrow>
     distinct (map fst material) \<and>
     (\<forall>(k, v) \<in> set material. CHR ''='' \<notin> set k \<and> CHR 0x0A \<notin> set v)"

lemma lines_unique:
  assumes "\<forall>(k, v) \<in> set xs \<union> set ys. CHR ''='' \<notin> set k \<and> CHR 0x0A \<notin> set v"
    and "concat (map material_line xs) = concat (map material_line ys)"
  shows "xs = ys"
  using assms
proof (induction xs arbitrary: ys)
  case Nil
  then show ?case by (cases ys) (auto simp: material_line_def)
next
  case (Cons x xs)
  obtain y ys' where ys: "ys = y # ys'"
    using Cons.prems(2) by (cases ys) (auto simp: material_line_def)
  have "fst x = fst y \<and> snd x = snd y \<and> concat (map material_line xs) = concat (map material_line ys')"
    by (rule line_unique) (use Cons.prems in \<open>auto simp: ys split: prod.splits\<close>)
  moreover from this have "xs = ys'" using Cons.prems(1) by (intro Cons.IH) (auto simp: ys)
  ultimately show ?case by (simp add: ys prod_eq_iff)
qed

section \<open>Properties\<close>

text \<open>An accepted envelope is one JSON value without duplicate keys at any depth, read without
  unknown members; its message type is known and fits the route; schema, version, id, observation
  time and an object payload are present; and its payload holds none of the forbidden tokens, unless
  it is an agent alarm without a policy version.\<close>

theorem parsed_envelope:
  assumes "RuntimeEnvelopeParser_Parse route body = Inr e"
  shows "(\<exists>v. json_parse body = Some v \<and> duplicate_key v = None) \<and> decode_envelope body = Some e \<and>
    validMessageType (re_MessageType e) \<and>
    (route = RouteTelemetry \<and> re_MessageType e = MessageTypeTelemetry \<or>
     route = RouteEvents \<and> re_MessageType e = MessageTypeEvent \<or> route = []) \<and>
    TrimSpace (re_SchemaType e) \<noteq> [] \<and> 0 < re_SchemaVersion e \<and> TrimSpace (re_MessageID e) \<noteq> [] \<and>
    \<not> IsZero (re_ObservedAt e) \<and> (\<exists>rest. TrimSpace (re_Payload e) = CHR ''{'' # rest) \<and>
    (if TrimSpace (re_AppliedPublishPolicyVersion e) = []
     then re_MessageType e = MessageTypeEvent \<and> re_SchemaType e = SchemaTypeAgentAlarm
     else (\<forall>t \<in> set forbiddenRuntimePayloadTokens. \<not> Contains (ToLower (re_Payload e)) t))"
  using assms validRuntimePayload
  by (auto simp: RuntimeEnvelopeParser_Parse_def rejectDuplicateJSONKeys_def validateEnvelopeRoute_def
      validateEnvelope_def forbidden_token_none split: option.splits if_splits)

text \<open>The forbidden tokens are looked for only in envelopes with a policy version: an agent alarm
  whose payload holds one is refused with any policy version and accepted without.\<close>

theorem alarm_without_policy_not_scanned:
  assumes "re_MessageType e = MessageTypeEvent" and "re_SchemaType e = SchemaTypeAgentAlarm"
    and "0 < re_SchemaVersion e" and "TrimSpace (re_MessageID e) \<noteq> []" and "\<not> IsZero (re_ObservedAt e)"
    and "validateRuntimePayload (re_Payload e) = None"
    and "t \<in> set forbiddenRuntimePayloadTokens" and "Contains (ToLower (re_Payload e)) t"
  shows "validateEnvelope (e\<lparr>re_AppliedPublishPolicyVersion := []\<rparr>) = None \<and>
    (TrimSpace v = [] \<or> validateEnvelope (e\<lparr>re_AppliedPublishPolicyVersion := v\<rparr>) \<noteq> None)"
proof -
  have "forbiddenRuntimePayloadToken (re_Payload e) \<noteq> []"
    using assms(7,8) forbidden_token_none by blast
  with assms(1-6) show ?thesis
    by (auto simp: validateEnvelope_def validMessageType_def)
qed

text \<open>C27: Whatever calls fail, only messages are written that the strict parser, the schema catalog and
  the identity check accepted: no device id the payload names differs from the resolved device.\<close>

theorem written_messages_checked:
  assumes "ingest_reachable w" and "m \<in> set (ts_written w)"
  shows "validateEnvelope (vm_Envelope m) = None \<and>
    RuntimeEnvelope_Key (vm_Envelope m) \<in> set (Catalog_Supported NewDefaultCatalog) \<and>
    Catalog_Validate NewDefaultCatalog (vm_Envelope m) = Inr (vm_Projection m) \<and>
    (TrimSpace (adc_DeviceID (vm_Device m)) = [] \<or>
     (\<exists>raw. struct_members (re_Payload (vm_Envelope m)) = Some raw \<and>
       set (payloadDeviceIDs raw) \<subseteq> {[], adc_DeviceID (vm_Device m)}))"
proof -
  have m: "message_checked m" using assms by (rule reachable_checked)
  then obtain route body where p: "RuntimeEnvelopeParser_Parse route body = Inr (vm_Envelope m)"
    by (auto simp: message_checked_def)
  then have v: "validateEnvelope (vm_Envelope m) = None"
    by (auto simp: RuntimeEnvelopeParser_Parse_def split: option.splits)
  then have "re_Payload (vm_Envelope m) \<noteq> []"
    using validRuntimePayload_empty by (auto simp: validateEnvelope_def split: if_splits option.splits)
  with m v show ?thesis
    by (auto simp: message_checked_def default_catalog_supported ensurePayloadIdentityMatches_def
        find_None_iff split: option.splits if_splits)
qed

text \<open>C20: A recorded message is stored at most once: whatever requests follow and whatever calls fail,
  it stays recorded and nothing more is written under its key.\<close>

theorem recorded_message_never_rewritten:
  assumes "k \<in> set (ts_messages w)"
  shows "k \<in> set (ts_messages (run_ingests telemetry_pipeline requests w)) \<and>
    filter (\<lambda>m. messageDedupeKey m = k) (ts_written (run_ingests telemetry_pipeline requests w)) =
    filter (\<lambda>m. messageDedupeKey m = k) (ts_written w)"
  using assms
  by (induction requests arbitrary: w) (use ingest_keeps_recorded in \<open>fastforce+\<close>)

text \<open>While no call fails, every message key is written at most once, written messages are recorded,
  and the stored hash of a state is the material hash of the last telemetry written for it.\<close>

theorem healthy_store_invariant:
  assumes "healthy_reachable w"
  shows "distinct (map messageDedupeKey (ts_written w)) \<and>
    messageDedupeKey ` set (ts_written w) \<subseteq> set (ts_messages w) \<and>
    map_of (ts_materialHashes w) = last_hash (ts_written w)"
  using healthy_reachable_inv [OF assms] by (simp add: healthy_view_def)

text \<open>While no call fails, an ingest either ends in an error and stores nothing, or records its
  checked message and, unless the message was recorded before, writes it exactly if it is no
  telemetry or the last telemetry written for its state has another material hash.\<close>

theorem healthy_ingest_outcome:
  assumes "healthy_reachable w"
  shows "\<exists>r e w'. Ingest telemetry_pipeline request w = (Inr (r, e), w') \<and>
    (case e of
       Some _ \<Rightarrow> \<not> irs_Accepted r \<and> telemetry_view w' = telemetry_view w
     | None \<Rightarrow> \<exists>m.
         RuntimeEnvelopeParser_Parse (irq_Route request) (irq_Body request) = Inr (vm_Envelope m) \<and>
         Catalog_Validate NewDefaultCatalog (vm_Envelope m) = Inr (vm_Projection m) \<and>
         set (ts_messages w') = insert (messageDedupeKey m) (set (ts_messages w)) \<and>
         (if messageDedupeKey m \<in> set (ts_messages w)
          then r = accepted m False True ''duplicate_message'' \<and> ts_written w' = ts_written w
          else if is_telemetry m \<and> last_hash (ts_written w) (stateDedupeKey m) = Some (messageHash m)
          then r = accepted m False True ''unchanged_material'' \<and> ts_written w' = ts_written w
          else r = accepted m True False [] \<and> ts_written w' = ts_written w @ [m]))"
proof -
  have inv: "env_faults w = []" "map_of (ts_materialHashes w) = last_hash (ts_written w)"
    using healthy_reachable_inv [OF assms] by (simp_all add: healthy_view_def)
  obtain r e w' where run: "Ingest telemetry_pipeline request w = (Inr (r, e), w')"
    and "telemetry.healthy_ends (telemetry_view w) request (r, e) (telemetry_view w')"
    using healthy_ingest_result [OF inv(1)] by (metis surj_pair)
  then consider (error) e' where "e = Some e'" "\<not> irs_Accepted r" "telemetry_view w' = telemetry_view w"
    | (stored) m where "e = None"
      "RuntimeEnvelopeParser_Parse (irq_Route request) (irq_Body request) = Inr (vm_Envelope m)"
      "Catalog_Validate NewDefaultCatalog (vm_Envelope m) = Inr (vm_Projection m)"
      "stored (telemetry_view w) m (r, None) (telemetry_view w')"
      "irs_Written r \<longrightarrow> \<not> unchanged_telemetry (telemetry_view w) m"
    by (auto simp: telemetry.healthy_ends_def)
  then show ?thesis
  proof cases
    case error
    then show ?thesis using run by simp
  next
    case (stored m)
    have unchanged: "unchanged_telemetry (telemetry_view w) m \<longleftrightarrow>
        is_telemetry m \<and> last_hash (ts_written w) (stateDedupeKey m) = Some (messageHash m)"
      by (simp add: unchanged_telemetry_def is_telemetry_def inv(2))
    have "set (ts_messages w') = iv_seen (telemetry_view w')" "ts_written w' = iv_written (telemetry_view w')"
      by simp_all
    with stored(4,5) have "set (ts_messages w') = insert (messageDedupeKey m) (set (ts_messages w)) \<and>
         (if messageDedupeKey m \<in> set (ts_messages w)
          then r = accepted m False True ''duplicate_message'' \<and> ts_written w' = ts_written w
          else if unchanged_telemetry (telemetry_view w) m
          then r = accepted m False True ''unchanged_material'' \<and> ts_written w' = ts_written w
          else r = accepted m True False [] \<and> ts_written w' = ts_written w @ [m])"
      by (elim storedE) (auto simp: accepted_def)
    with stored(1-3) run show ?thesis unfolding unchanged by auto
  qed
qed

text \<open>A message that was written but could not be recorded is written again when it is retried:
  the events of the store then hold it twice.\<close>

theorem unrecorded_event_written_twice:
  assumes "request_message w request = Some m" and "\<not> IsZero (irq_ReceivedAt request)"
    and "\<not> is_telemetry m" and "messageDedupeKey m \<notin> set (ts_messages w)"
    and "env_faults w = [False, False, True]"
  shows "ts_written (run_ingests telemetry_pipeline [request, request] w) = ts_written w @ [m, m]"
proof -
  obtain r e fs where first: "store_message telemetry_pipeline m w =
      (Inr (r, Some e), w\<lparr>env_faults := [], ts_written := ts_written w @ [m], ts_failures := fs\<rparr>)"
    using store_event_unrecorded [OF assms(4,3,5)] by blast
  let ?w = "w\<lparr>env_faults := [], ts_written := ts_written w @ [m], ts_failures := fs\<rparr>"
  from first have "run_ingest telemetry_pipeline request w = ?w"
    using Ingest_message [OF assms(1,2)] by (simp add: run_ingest_def)
  moreover have "request_message ?w request = Some m"
    using assms(1) request_message_devices [of ?w w request] by simp
  moreover have "store_message telemetry_pipeline m ?w = (Inr (accepted m True False [], None),
      ?w\<lparr>ts_written := ts_written ?w @ [m], ts_messages := messageDedupeKey m # ts_messages ?w\<rparr>)"
    by (rule store_event) (use assms in simp_all)
  ultimately show ?thesis
    using Ingest_message [OF _ assms(2), of ?w m] by (simp add: run_ingest_def)
qed

text \<open>Equal hashed texts mean equal material, when no key holds an equals sign and no value a
  newline.\<close>

theorem material_text_injective:
  assumes "single_line xs" and "single_line ys" and "material_text xs = material_text ys"
  shows "map_of xs = map_of ys"
proof -
  have "sort_key fst xs = sort_key fst ys"
    by (rule lines_unique) (use assms in \<open>auto simp: single_line_def material_text_def\<close>)
  then have "set xs = set ys" by (metis set_sort)
  then show ?thesis using assms(1,2) by (intro map_of_inject_set [THEN iffD2]) (auto simp: single_line_def)
qed

text \<open>The statuses of a health snapshot may hold newlines, and then different statuses have the same
  material hash: a snapshot whose agent and backup statuses changed is taken for an unchanged one.\<close>

theorem multiline_statuses_collide:
  "MaterialHash [(''agent.status'', a @ [CHR 0x0A] @ ''home_assistant.backup.status='' @ b),
     (''home_assistant.core.status'', c), (''home_assistant.backup.status'', d)] =
   MaterialHash [(''agent.status'', a), (''home_assistant.core.status'', c),
     (''home_assistant.backup.status'', b @ [CHR 0x0A] @ ''home_assistant.backup.status='' @ d)]"
  by (simp add: MaterialHash_def material_text_def material_line_def)

section \<open>Witnesses\<close>

definition demo_alarm :: string where
  "demo_alarm = ''{\"alarm_type\":\"artifact_upload_failed\",\"severity\":\"info\",\"reason_code\":\"r\",\"occurrence_count\":1,\"first_seen_at\":\"2026-01-01T00:00:00Z\",\"last_seen_at\":\"2026-01-01T00:00:00Z\"}''"

definition demo_event :: string where
  "demo_event = ''{\"message_type\":\"event\",\"schema_type\":\"agent_alarm\",\"schema_version\":1,\"message_id\":\"m1\",\"observed_at\":\"2026-01-01T00:00:00Z\",\"payload\":'' @ demo_alarm @ ''}''"

definition demo_envelope :: RuntimeEnvelope where
  "demo_envelope = \<lparr>re_MessageType = ''event'', re_SchemaType = ''agent_alarm'', re_SchemaVersion = 1,
     re_MessageID = ''m1'', re_AppliedPublishPolicyVersion = [],
     re_ObservedAt = 63902822400000000000, re_Payload = demo_alarm\<rparr>"

definition demo_device :: AuthenticatedDeviceContext where
  "demo_device = \<lparr>adc_DeviceID = ''d1'', adc_SiteID = ''s1'', adc_OrgID = ''o1'',
     adc_CertificateFingerprint = ''f1'', adc_CertificateSerial = []\<rparr>"

definition demo_message :: ValidatedMessage where
  "demo_message = \<lparr>vm_Device = demo_device, vm_Envelope = demo_envelope,
     vm_Projection = \<lparr>prj_Material = [(''alarm_type'', ''artifact_upload_failed''), (''severity'', ''info'')],
                      prj_Sidecar = [(''reason_code'', ''r'')]\<rparr>,
     vm_ReceivedAt = 1\<rparr>"

definition demo_request :: IngestRequest where
  "demo_request = \<lparr>irq_Route = RouteEvents, irq_Device = demo_device,
     irq_Credential = \<lparr>tcr_CertificateFingerprint = ''f1'', tcr_CertificateSerial = [],
       tcr_CertificateIssuer = []\<rparr>,
     irq_Body = demo_event, irq_ReceivedAt = 1\<rparr>"

definition demo_telemetry :: telemetry_store where
  "demo_telemetry = \<lparr>env_faults = [], env_clock = 10, env_ticks = [], env_ids = [],
     ts_messages = [], ts_materialHashes = [], ts_written = [], ts_failures = [],
     ts_devices = (\<lambda>c. Some demo_device)\<rparr>"

lemma demo_parsed: "RuntimeEnvelopeParser_Parse RouteEvents demo_event = Inr demo_envelope"
  by code_simp

definition demo_alarm_payload :: AgentAlarmPayload where
  "demo_alarm_payload = \<lparr>aap_AlarmType = ''artifact_upload_failed'', aap_Severity = ''info'',
     aap_ReasonCode = ''r'', aap_OccurrenceCount = 1, aap_FirstSeenAt = 63902822400000000000,
     aap_LastSeenAt = 63902822400000000000, aap_AttemptedPolicyVersion = [],
     aap_ActivePolicyVersion = [], aap_CommandID = [], aap_ArtifactPurpose = [],
     aap_DiagnosticExcerpt = None, aap_DiagnosticExcerptTruncated = False,
     aap_MoreLogsAvailable = False, aap_LocalArtifactRef = [], aap_SuppressedCount = 0\<rparr>"

lemma demo_payload_decoded: "dec_AgentAlarmPayload demo_alarm = Some demo_alarm_payload"
  by code_simp

lemma demo_reason: "TrimSpace ''r'' \<noteq> []"
  by code_simp

lemma demo_decoded: "AgentAlarmHandler_Validate demo_envelope = Inr (vm_Projection demo_message)"
  using demo_payload_decoded demo_reason
  by (simp add: AgentAlarmHandler_Validate_def demo_envelope_def demo_message_def
      AgentAlarmPayload_Validate_def demo_alarm_payload_def validAgentAlarmType_def
      validAgentAlarmSeverity_def excerpt_too_long_def)

lemma demo_validated:
  "Catalog_Validate NewDefaultCatalog demo_envelope = Inr (vm_Projection demo_message)"
  using demo_decoded
  by (subst Catalog_Validate_alarm) (simp_all add: demo_envelope_def telemetry_names)

lemma demo_resolved:
  "fst (resolveAuthority telemetry_pipeline demo_request demo_envelope demo_telemetry) = Inr demo_device"
  by code_simp

lemma demo_identity: "ensurePayloadIdentityMatches demo_alarm ''d1'' = None"
  by code_simp

lemma demo_message: "request_message demo_telemetry demo_request = Some demo_message"
  using demo_parsed demo_validated demo_resolved demo_identity
  by (simp add: request_message_def demo_request_def demo_message_def)
    (simp add: demo_envelope_def demo_device_def)

lemma demo_event_facts:
  "\<not> is_telemetry demo_message" "\<not> IsZero (irq_ReceivedAt demo_request)"
  by (simp_all add: is_telemetry_def demo_message_def demo_envelope_def demo_request_def telemetry_names)

lemma demo_stored:
  "Ingest telemetry_pipeline demo_request demo_telemetry =
   (Inr (accepted demo_message True False [], None),
    demo_telemetry\<lparr>ts_written := [demo_message], ts_messages := [messageDedupeKey demo_message]\<rparr>)"
  using Ingest_message [OF demo_message demo_event_facts(2)]
    store_event [of demo_message demo_telemetry] demo_event_facts(1)
  by (simp add: demo_telemetry_def)

theorem parsed_envelope_witness:
  "validMessageType (re_MessageType demo_envelope) \<and> TrimSpace (re_MessageID demo_envelope) \<noteq> [] \<and>
   (\<exists>v. json_parse demo_event = Some v \<and> duplicate_key v = None)"
  using parsed_envelope [OF demo_parsed] by blast

theorem alarm_without_policy_not_scanned_witness:
  "validateEnvelope (demo_envelope\<lparr>re_Payload := ''{bearer }'', re_AppliedPublishPolicyVersion := []\<rparr>) = None \<and>
   validateEnvelope (demo_envelope\<lparr>re_Payload := ''{bearer }'', re_AppliedPublishPolicyVersion := ''v''\<rparr>) \<noteq> None"
proof -
  let ?e = "demo_envelope\<lparr>re_Payload := ''{bearer }''\<rparr>"
  have "TrimSpace ''v'' \<noteq> []" "TrimSpace ''m1'' \<noteq> []" "validateRuntimePayload ''{bearer }'' = None"
    "Contains (ToLower ''{bearer }'') ''bearer ''"
    by code_simp+
  then show ?thesis
    using alarm_without_policy_not_scanned [of ?e "''bearer ''" "''v''"]
    by (simp add: demo_envelope_def telemetry_names forbiddenRuntimePayloadTokens_def)
qed

definition demo_stored_telemetry :: telemetry_store where
  "demo_stored_telemetry = run_ingest telemetry_pipeline demo_request demo_telemetry"

lemma demo_stored_written:
  "ts_written demo_stored_telemetry = [demo_message]"
  "ts_messages demo_stored_telemetry = [messageDedupeKey demo_message]"
  "env_faults demo_stored_telemetry = []"
  by (simp_all add: demo_stored_telemetry_def run_ingest_def demo_stored)
    (simp add: demo_telemetry_def)

lemma demo_healthy: "healthy_reachable demo_stored_telemetry"
  unfolding demo_stored_telemetry_def
  by (intro healthy_reachable.intros) (simp_all add: empty_telemetry_def demo_telemetry_def)

lemma demo_ingest_reachable: "ingest_reachable demo_stored_telemetry"
  unfolding demo_stored_telemetry_def
  by (intro ingest_reachable.intros) (simp add: empty_telemetry_def demo_telemetry_def)

theorem written_messages_checked_witness:
  "validateEnvelope (vm_Envelope demo_message) = None \<and>
   RuntimeEnvelope_Key (vm_Envelope demo_message) \<in> set (Catalog_Supported NewDefaultCatalog)"
  using written_messages_checked [OF demo_ingest_reachable, of demo_message] demo_stored_written by simp

theorem recorded_message_never_rewritten_witness:
  "filter (\<lambda>m. messageDedupeKey m = messageDedupeKey demo_message)
     (ts_written (run_ingests telemetry_pipeline [demo_request, demo_request] demo_stored_telemetry)) =
   [demo_message]"
  using recorded_message_never_rewritten [of "messageDedupeKey demo_message" demo_stored_telemetry
      "[demo_request, demo_request]"] demo_stored_written
  by simp

theorem healthy_store_invariant_witness:
  "messageDedupeKey demo_message \<in> set (ts_messages demo_stored_telemetry) \<and>
   map_of (ts_materialHashes demo_stored_telemetry) = last_hash [demo_message]"
  using healthy_store_invariant [OF demo_healthy] demo_stored_written by simp

theorem healthy_ingest_outcome_witness:
  "\<exists>r e w'. Ingest telemetry_pipeline demo_request demo_stored_telemetry = (Inr (r, e), w') \<and>
     ts_written w' = [demo_message] \<and> \<not> irs_Written r"
proof -
  obtain r e w' where run: "Ingest telemetry_pipeline demo_request demo_stored_telemetry = (Inr (r, e), w')"
    using healthy_ingest_outcome [OF demo_healthy, of demo_request] by blast
  moreover have "request_message demo_stored_telemetry demo_request = Some demo_message"
    using demo_message request_message_devices [of demo_stored_telemetry demo_telemetry demo_request]
    by (simp add: demo_stored_telemetry_def run_ingest_def demo_stored)
  moreover have "store_message telemetry_pipeline demo_message demo_stored_telemetry =
      (Inr (accepted demo_message False True ''duplicate_message'', None), demo_stored_telemetry)"
    by (simp add: store_message_def NewMemoryDedupeStore_def memory_SeenMessage_def op_defs
        demo_stored_written)
  ultimately show ?thesis
    using Ingest_message [OF _ demo_event_facts(2)] demo_stored_written by (auto simp: accepted_def)
qed

theorem unrecorded_event_written_twice_witness:
  "ts_written (run_ingests telemetry_pipeline [demo_request, demo_request]
     (demo_telemetry\<lparr>env_faults := [False, False, True]\<rparr>)) = [demo_message, demo_message]"
proof -
  let ?w = "demo_telemetry\<lparr>env_faults := [False, False, True]\<rparr>"
  have "request_message ?w demo_request = Some demo_message"
    using demo_message request_message_devices [of ?w demo_telemetry demo_request] by simp
  from unrecorded_event_written_twice [OF this demo_event_facts(2,1)] show ?thesis
    by (simp add: demo_telemetry_def)
qed

theorem material_text_injective_witness:
  "map_of [(''a'', ''1''), (''b'', ''2'')] = map_of [(''b'', ''2''), (''a'', ''1'')]"
proof -
  have "material_text [(''a'', ''1''), (''b'', ''2'')] = material_text [(''b'', ''2''), (''a'', ''1'')]"
    by code_simp
  then show ?thesis by (intro material_text_injective) (simp_all add: single_line_def)
qed

end
