(* ===== verification/Go_Files.thy ===== *)
theory Go_Files
  imports Go_Strings
begin

text \<open>
  Paths and files as the agent uses them: \<open>filepath.Clean\<close>, \<open>Join\<close> and \<open>Dir\<close> on Unix, the functions of
  \<open>os\<close> behind an interface, the contract of that interface and a disk that keeps it.

  The contents of the files are the state; directories and permissions are not modelled. A write that
  fails may leave any content in its own file, since \<open>os.WriteFile\<close> truncates the file first. The disk
  follows a schedule of faults: a call is refused, or a write is torn after some bytes.
\<close>

section \<open>Paths\<close>

fun clean_parts :: "bool \<Rightarrow> string list \<Rightarrow> string list \<Rightarrow> string list" where
  "clean_parts rooted out [] = rev out"
| "clean_parts rooted out (p # ps) =
     (if p = [] \<or> p = ''.'' then clean_parts rooted out ps
      else if p = ''..'' then
        (case out of
           [] \<Rightarrow> clean_parts rooted (if rooted then [] else [p]) ps
         | q # qs \<Rightarrow> clean_parts rooted (if q = ''..'' then p # out else qs) ps)
      else clean_parts rooted (p # out) ps)"

definition filepath_Clean :: "string \<Rightarrow> string" where
  "filepath_Clean path =
     (let rooted = HasPrefix path ''/'';
          text = (if rooted then ''/'' else []) @ Join (clean_parts rooted [] (Split path (CHR ''/''))) ''/''
      in if text = [] then ''.'' else text)"

definition filepath_Join :: "string list \<Rightarrow> string" where
  "filepath_Join elems =
     (let rest = dropWhile (\<lambda>e. e = []) elems in
      if rest = [] then [] else filepath_Clean (Join rest ''/''))"

definition filepath_Dir :: "string \<Rightarrow> string" where
  "filepath_Dir path = filepath_Clean (rev (dropWhile (\<lambda>c. c \<noteq> CHR ''/'') (rev path)))"

lemma filepath_examples:
  "filepath_Join [''/config'', ''iot'', ''device.key''] = ''/config/iot/device.key''"
  "filepath_Join [''/config/'', ''device.json''] = ''/config/device.json''"
  "filepath_Dir ''/config/device.json'' = ''/config''"
  by code_simp+

section \<open>Files\<close>

definition ErrNotExist :: go_error where
  "ErrNotExist = Sentinel ''file does not exist''"

record 'w FileSystem =
  fsy_MkdirAll :: "string \<Rightarrow> ('w, unit) op"
  fsy_WriteFile :: "string \<Rightarrow> string \<Rightarrow> ('w, unit) op"
  fsy_Chmod :: "string \<Rightarrow> ('w, unit) op"
  fsy_ReadFile :: "string \<Rightarrow> ('w, string) op"
  fsy_Remove :: "string \<Rightarrow> ('w, unit) op"
  fsy_Stat :: "string \<Rightarrow> ('w, unit) op"

locale file_system =
  fixes fs :: "'w FileSystem" and content :: "'w \<Rightarrow> string \<Rightarrow> string option"
  assumes Mkdir_law: "fsy_MkdirAll fs p w = (mr, w') \<Longrightarrow> content w' = content w"
    and Write_law: "fsy_WriteFile fs p t w = (wr, w') \<Longrightarrow>
      (case wr of Inl e \<Rightarrow> \<forall>q. q \<noteq> p \<longrightarrow> content w' q = content w q
       | Inr u \<Rightarrow> content w' = (content w)(p \<mapsto> t))"
    and Chmod_law: "fsy_Chmod fs p w = (cr, w') \<Longrightarrow> content w' = content w"
    and Read_law: "fsy_ReadFile fs p w = (rr, w') \<Longrightarrow> content w' = content w \<and>
      (case rr of Inl e \<Rightarrow> errors_Is e ErrNotExist \<longrightarrow> content w p = None
       | Inr t \<Rightarrow> content w p = Some t)"
    and Remove_law: "fsy_Remove fs p w = (dr, w') \<Longrightarrow>
      (case dr of Inl e \<Rightarrow> content w' = content w \<and> (errors_Is e ErrNotExist \<longrightarrow> content w p = None)
       | Inr u \<Rightarrow> content w' = (content w)(p := None))"
    and Stat_law: "fsy_Stat fs p w = (sr, w') \<Longrightarrow> content w' = content w \<and>
      (case sr of Inl e \<Rightarrow> True | Inr u \<Rightarrow> content w p \<noteq> None)"
begin

lemma wp_Mkdir:
  assumes "\<And>r w'. content w' = content w \<Longrightarrow> E r w'" and "\<And>w'. content w' = content w \<Longrightarrow> Q () w'"
  shows "wp (fsy_MkdirAll fs p) Q E w"
  by (rule wpI) (auto dest: Mkdir_law intro: assms)

lemma wp_Chmod:
  assumes "\<And>r w'. content w' = content w \<Longrightarrow> E r w'" and "\<And>w'. content w' = content w \<Longrightarrow> Q () w'"
  shows "wp (fsy_Chmod fs p) Q E w"
  by (rule wpI) (auto dest: Chmod_law intro: assms)

lemma wp_WriteFile:
  assumes "\<And>e w'. \<forall>q. q \<noteq> p \<longrightarrow> content w' q = content w q \<Longrightarrow> E e w'"
    and "\<And>w'. content w' = (content w)(p \<mapsto> t) \<Longrightarrow> Q () w'"
  shows "wp (fsy_WriteFile fs p t) Q E w"
  by (rule wpI) (auto dest!: Write_law intro: assms)

lemma wp_ReadFile:
  assumes "\<And>e w'. content w' = content w \<Longrightarrow> (errors_Is e ErrNotExist \<Longrightarrow> content w p = None) \<Longrightarrow> E e w'"
    and "\<And>t w'. content w' = content w \<Longrightarrow> content w p = Some t \<Longrightarrow> Q t w'"
  shows "wp (fsy_ReadFile fs p) Q E w"
  by (rule wpI) (auto dest!: Read_law intro: assms)

lemma wp_Remove:
  assumes "\<And>e w'. content w' = content w \<Longrightarrow> (errors_Is e ErrNotExist \<Longrightarrow> content w p = None) \<Longrightarrow> E e w'"
    and "\<And>w'. content w' = (content w)(p := None) \<Longrightarrow> Q () w'"
  shows "wp (fsy_Remove fs p) Q E w"
  by (rule wpI) (auto dest!: Remove_law intro: assms)

lemma wp_Stat:
  assumes "\<And>e w'. content w' = content w \<Longrightarrow> E e w'"
    and "\<And>w'. content w' = content w \<Longrightarrow> content w p \<noteq> None \<Longrightarrow> Q () w'"
  shows "wp (fsy_Stat fs p) Q E w"
  by (rule wpI) (auto dest!: Stat_law intro: assms)

end

section \<open>A disk with faults\<close>

datatype file_fault = NoFault | Refused | Torn nat

record disk = env +
  dk_files :: "string \<Rightarrow> string option"
  dk_faults :: "file_fault list"

definition disk_fault :: "('x disk_scheme, file_fault) effect" where
  "disk_fault w =
     (case dk_faults w of [] \<Rightarrow> (NoFault, w) | f # fs \<Rightarrow> (f, w\<lparr>dk_faults := fs\<rparr>))"

definition disk_call :: "('x disk_scheme, 'a) op \<Rightarrow> ('x disk_scheme, 'a) op" where
  "disk_call m = bindE (liftE disk_fault) (\<lambda>f. if f = NoFault then m else fail injected_fault)"

definition disk_WriteFile :: "string \<Rightarrow> string \<Rightarrow> ('x disk_scheme, unit) op" where
  "disk_WriteFile p t = bindE (liftE disk_fault) (\<lambda>f w.
     case f of
       NoFault \<Rightarrow> (Inr (), w\<lparr>dk_files := (dk_files w)(p \<mapsto> t)\<rparr>)
     | Refused \<Rightarrow> (Inl injected_fault, w)
     | Torn n \<Rightarrow> (Inl injected_fault, w\<lparr>dk_files := (dk_files w)(p \<mapsto> take n t)\<rparr>))"

definition disk_ReadFile :: "string \<Rightarrow> ('x disk_scheme, string) op" where
  "disk_ReadFile p = disk_call (\<lambda>w.
     (case dk_files w p of None \<Rightarrow> Inl (Wrapf ''open'' ErrNotExist) | Some t \<Rightarrow> Inr t, w))"

definition disk_Remove :: "string \<Rightarrow> ('x disk_scheme, unit) op" where
  "disk_Remove p = disk_call (\<lambda>w.
     case dk_files w p of
       None \<Rightarrow> (Inl (Wrapf ''remove'' ErrNotExist), w)
     | Some t \<Rightarrow> (Inr (), w\<lparr>dk_files := (dk_files w)(p := None)\<rparr>))"

definition disk_Stat :: "string \<Rightarrow> ('x disk_scheme, unit) op" where
  "disk_Stat p = disk_call (\<lambda>w.
     (case dk_files w p of None \<Rightarrow> Inl (Wrapf ''stat'' ErrNotExist) | Some t \<Rightarrow> Inr (), w))"

definition disk_files :: "'x disk_scheme FileSystem" where
  "disk_files = \<lparr>fsy_MkdirAll = (\<lambda>p. disk_call (ret ())), fsy_WriteFile = disk_WriteFile,
     fsy_Chmod = (\<lambda>p. disk_call (ret ())), fsy_ReadFile = disk_ReadFile,
     fsy_Remove = disk_Remove, fsy_Stat = disk_Stat\<rparr>"

lemmas disk_defs = disk_files_def disk_WriteFile_def disk_ReadFile_def disk_Remove_def disk_Stat_def
  disk_call_def disk_fault_def

interpretation disk: file_system disk_files dk_files
  by unfold_locales
    (auto simp: disk_defs op_defs injected_fault_def ErrNotExist_def
      split: list.splits file_fault.splits option.splits if_splits)

end
