(* ===== verification/Enrollment_Types.thy ===== *)
theory Enrollment_Types
  imports Go_Files Go_Decode "HOL-Library.Monad_Syntax"
begin

text \<open>
  The data of the agent's enrollment (\<open>enrollment_types.go\<close>, the messages of
  \<open>enrollment_clients.go\<close>), the endpoint configuration (\<open>enrollment_config.go\<close>) and the files it keeps
  (\<open>enrollment_storage.go\<close>).

  Claim states are the strings they are in the code, since a record is read from a file. RSA keys and
  certificate requests are operations of an interface; a key is a value of the type variable \<open>'k\<close>.
\<close>

section \<open>The device record\<close>

type_synonym ClaimState = string

definition ClaimStateUnclaimed :: ClaimState where
  "ClaimStateUnclaimed = ''UNCLAIMED''"

definition ClaimStatePairingPending :: ClaimState where
  "ClaimStatePairingPending = ''PAIRING_PENDING''"

definition ClaimStateClaimed :: ClaimState where
  "ClaimStateClaimed = ''CLAIMED''"

definition ClaimStateRevoked :: ClaimState where
  "ClaimStateRevoked = ''REVOKED''"

lemmas claim_states = ClaimStateUnclaimed_def ClaimStatePairingPending_def ClaimStateClaimed_def
  ClaimStateRevoked_def

definition deviceRecordSchemaVersion :: int where
  "deviceRecordSchemaVersion = 2"

definition defaultPairingPollSeconds :: int where
  "defaultPairingPollSeconds = 10"

record DeviceRecord =
  dvr_SchemaVersion :: int
  dvr_InstallationID :: string
  dvr_CreatedAt :: time
  dvr_ClaimState :: ClaimState
  dvr_DeviceID :: string
  dvr_IoTThingName :: string
  dvr_CertificatePath :: string
  dvr_PrivateKeyPath :: string
  dvr_ClaimedAt :: "time option"
  dvr_RevokedAt :: "time option"
  dvr_PairingSessionID :: string
  dvr_PairingCodeExpiry :: "time option"
  dvr_PollTokenPath :: string
  dvr_PollTokenExpiry :: "time option"
  dvr_PollIntervalSeconds :: int
  dvr_PendingDeviceID :: string
  dvr_PendingIoTThingName :: string
  dvr_PendingCertificateID :: string
  dvr_PendingCertificateARN :: string

definition empty_device_record :: DeviceRecord where
  "empty_device_record =
     \<lparr>dvr_SchemaVersion = 0, dvr_InstallationID = [], dvr_CreatedAt = zero_time, dvr_ClaimState = [],
      dvr_DeviceID = [], dvr_IoTThingName = [], dvr_CertificatePath = [], dvr_PrivateKeyPath = [],
      dvr_ClaimedAt = None, dvr_RevokedAt = None, dvr_PairingSessionID = [],
      dvr_PairingCodeExpiry = None, dvr_PollTokenPath = [], dvr_PollTokenExpiry = None,
      dvr_PollIntervalSeconds = 0, dvr_PendingDeviceID = [], dvr_PendingIoTThingName = [],
      dvr_PendingCertificateID = [], dvr_PendingCertificateARN = []\<rparr>"

section \<open>Configuration\<close>

record EnrollmentConfig =
  enc_HomeSignalAPIBaseURL :: string
  enc_AWSIoTEndpoint :: string
  enc_AWSRegion :: string
  enc_FleetProvisioningTemplateName :: string
  enc_HomeSignalAPISource :: string
  enc_AWSIoTEndpointSource :: string

definition homeSignalConfigured :: "EnrollmentConfig \<Rightarrow> bool" where
  "homeSignalConfigured c = (enc_HomeSignalAPIBaseURL c \<noteq> [])"

definition awsIoTConfigured :: "EnrollmentConfig \<Rightarrow> bool" where
  "awsIoTConfigured c = (enc_AWSIoTEndpoint c \<noteq> [] \<and> enc_AWSRegion c \<noteq> [] \<and>
     enc_FleetProvisioningTemplateName c \<noteq> [])"

text \<open>The options file as decoded JSON members; a nil map is the empty one.\<close>

record OptionsState =
  ops_Present :: bool
  ops_Options :: "(string \<times> json) list"

definition optionString :: "OptionsState \<Rightarrow> string \<Rightarrow> string \<Rightarrow> string \<Rightarrow> string \<times> string" where
  "optionString options key fallback source =
     (case map_of (ops_Options options) key of
        Some (JStr text) \<Rightarrow>
          if TrimSpace text = [] then (fallback, source) else (TrimSpace text, ''option'')
      | _ \<Rightarrow> (fallback, source))"

definition envString :: "(string \<Rightarrow> string) \<Rightarrow> string \<Rightarrow> string \<Rightarrow> string \<Rightarrow> string \<times> string" where
  "envString getenv key fallback source =
     (if TrimSpace (getenv key) = [] then (fallback, source) else (TrimSpace (getenv key), ''env''))"

definition loadEnrollmentConfig :: "OptionsState \<Rightarrow> (string \<Rightarrow> string) \<Rightarrow> EnrollmentConfig" where
  "loadEnrollmentConfig options getenv =
     (let (base, baseSource) = optionString options ''cloud_base_url'' ''https://api.homesignal.io'' ''default'';
          (endpoint, endpointSource) = optionString options ''aws_iot_endpoint'' [] ''unset'';
          region = fst (optionString options ''aws_region'' ''us-east-1'' ''default'');
          template = fst (optionString options ''fleet_provisioning_template''
                            ''homesignal-device-enrollment'' ''default'');
          (base, baseSource) = envString getenv ''HOMESIGNAL_API_BASE_URL'' base baseSource;
          (endpoint, endpointSource) = envString getenv ''AWS_IOT_ENDPOINT'' endpoint endpointSource
      in \<lparr>enc_HomeSignalAPIBaseURL = base, enc_AWSIoTEndpoint = endpoint,
          enc_AWSRegion = fst (envString getenv ''AWS_REGION'' region ''default''),
          enc_FleetProvisioningTemplateName =
            fst (envString getenv ''AWS_IOT_FLEET_PROVISIONING_TEMPLATE'' template ''default''),
          enc_HomeSignalAPISource = baseSource, enc_AWSIoTEndpointSource = endpointSource\<rparr>)"

section \<open>Messages\<close>

record CreatePairingSessionRequest =
  cpr_InstallationID :: string
  cpr_AgentVersion :: string
  cpr_CSRPEM :: string
  cpr_AWSRegion :: string
  cpr_AWSIoTEndpoint :: string
  cpr_FleetProvisioningTemplateName :: string
  cpr_RequiresPreProvisioningHook :: bool
  cpr_RequiresHomeSignalFinalization :: bool
  cpr_SupportsCSRBasedFleetProvisioning :: bool

record CreatePairingSessionResponse =
  cps_PairingSessionID :: string
  cps_PairingCode :: string
  cps_ExpiresAt :: time
  cps_PollIntervalSeconds :: int
  cps_PollToken :: string
  cps_PollTokenExpiresAt :: time

record PollPairingSessionRequest =
  ppr_PairingSessionID :: string
  ppr_PollToken :: string

record PollPairingSessionResponse =
  plr_Status :: string
  plr_PairingCode :: string
  plr_ExpiresAt :: time
  plr_DeviceID :: string
  plr_IoTThingName :: string
  plr_AWSClaimCertificatePEM :: string
  plr_AWSClaimPrivateKeyPEM :: string
  plr_AWSClaimExpiresAt :: time
  plr_FleetProvisioningTemplate :: string
  plr_FleetProvisioningParameters :: "(string \<times> string) list"

record FinalizeClaimRequest =
  fcr_PairingSessionID :: string
  fcr_PollToken :: string
  fcr_InstallationID :: string
  fcr_DeviceID :: string
  fcr_IoTThingName :: string
  fcr_CertificateID :: string
  fcr_CertificateARN :: string
  fcr_CertificatePath :: string
  fcr_PrivateKeyPath :: string

record FinalizeClaimResponse =
  fcs_Status :: string
  fcs_DeviceID :: string
  fcs_IoTThingName :: string
  fcs_ClaimedAt :: time
  fcs_Reason :: string

record DeviceStatusResponse =
  dss_Status :: string
  dss_Reason :: string

record FleetProvisioningRequest =
  fpr_AWSIoTEndpoint :: string
  fpr_AWSRegion :: string
  fpr_FleetProvisioningTemplateName :: string
  fpr_ClaimCertificatePath :: string
  fpr_ClaimPrivateKeyPath :: string
  fpr_DevicePrivateKeyPath :: string
  fpr_CSRPEM :: string
  fpr_InstallationID :: string
  fpr_PairingSessionID :: string
  fpr_DeviceID :: string
  fpr_IoTThingName :: string
  fpr_TemplateParameters :: "(string \<times> string) list"

record FleetProvisioningResponse =
  fps_DeviceID :: string
  fps_IoTThingName :: string
  fps_CertificateID :: string
  fps_CertificateARN :: string
  fps_CertificatePEM :: string

record 'w HomeSignalEnrollmentClient =
  hec_CreatePairingSession :: "CreatePairingSessionRequest \<Rightarrow> ('w, CreatePairingSessionResponse) op"
  hec_PollPairingSession :: "PollPairingSessionRequest \<Rightarrow> ('w, PollPairingSessionResponse) op"
  hec_FinalizeClaim :: "FinalizeClaimRequest \<Rightarrow> ('w, FinalizeClaimResponse) op"
  hec_DeviceStatus :: "string \<Rightarrow> ('w, DeviceStatusResponse) op"

type_synonym 'w FleetProvisioningClient =
  "FleetProvisioningRequest \<Rightarrow> ('w, FleetProvisioningResponse) op"

definition UnsupportedFleetProvisioningClient :: "'w FleetProvisioningClient" where
  "UnsupportedFleetProvisioningClient request =
     fail (Errorf ''aws_fleet_provisioning_client_not_configured'' [])"

text \<open>
  \<open>pem\<close>, \<open>rsa\<close> and \<open>x509\<close>: \<open>dcr_ParseKey\<close> is \<open>pem.Decode\<close> of an RSA private key block and
  \<open>ParsePKCS1PrivateKey\<close>, \<open>dcr_EncodeKey\<close> its inverse, \<open>dcr_CreateRequest\<close> the PEM text of a
  certificate request for a common name.
\<close>

record ('w, 'k) DeviceCrypto =
  dcr_ParseKey :: "string \<Rightarrow> go_error + 'k"
  dcr_EncodeKey :: "'k \<Rightarrow> string"
  dcr_GenerateKey :: "('w, 'k) op"
  dcr_CreateRequest :: "'k \<Rightarrow> string \<Rightarrow> ('w, string) op"

section \<open>Files\<close>

definition writeSecretFile :: "'w FileSystem \<Rightarrow> string \<Rightarrow> string \<Rightarrow> ('w, unit) op" where
  "writeSecretFile fs path payload =
     bindE (wrapE ''create secret directory'' (fsy_MkdirAll fs (filepath_Dir path))) (\<lambda>_.
     bindE (wrapE ''write secret file'' (fsy_WriteFile fs path payload)) (\<lambda>_.
     wrapE ''set secret file permissions'' (fsy_Chmod fs path)))"

definition readSecretFile :: "'w FileSystem \<Rightarrow> string \<Rightarrow> ('w, string) op" where
  "readSecretFile fs path = wrapE ''read secret file'' (fsy_ReadFile fs path)"

definition removeIfExists :: "'w FileSystem \<Rightarrow> string \<Rightarrow> ('w, unit) op" where
  "removeIfExists fs path =
     (if path = [] then ret ()
      else bindE (attemptE (fsy_Remove fs path)) (\<lambda>r.
           case r of
             Inl e \<Rightarrow> if errors_Is e ErrNotExist then ret () else fail e
           | Inr _ \<Rightarrow> ret ()))"

definition fileExists :: "'w FileSystem \<Rightarrow> string \<Rightarrow> ('w, bool) op" where
  "fileExists fs path =
     (if path = [] then ret False
      else bindE (attemptE (fsy_Stat fs path)) (\<lambda>r. ret (\<not> isl r)))"

definition ensureDevicePrivateKey ::
  "'w FileSystem \<Rightarrow> ('w, 'k) DeviceCrypto \<Rightarrow> string \<Rightarrow> ('w, 'k) op" where
  "ensureDevicePrivateKey fs crypto path =
     bindE (attemptE (fsy_ReadFile fs path)) (\<lambda>r.
     case r of
       Inr payload \<Rightarrow> pureE (dcr_ParseKey crypto payload)
     | Inl e \<Rightarrow>
         bindE (failIf (\<not> errors_Is e ErrNotExist) (Wrapf ''read device private key'' e)) (\<lambda>_.
         bindE (wrapE ''generate device private key'' (dcr_GenerateKey crypto)) (\<lambda>key.
         bindE (writeSecretFile fs path (dcr_EncodeKey crypto key)) (\<lambda>_.
         ret key))))"

definition newCSRPEM :: "('w, 'k) DeviceCrypto \<Rightarrow> 'k \<Rightarrow> string \<Rightarrow> ('w, string) op" where
  "newCSRPEM crypto key installationID = wrapE ''create csr'' (dcr_CreateRequest crypto key installationID)"

text \<open>\<open>json.MarshalIndent(record, "", "  ")\<close>: members without value are left out where the tag says so.\<close>

definition string_field :: "string \<Rightarrow> string \<Rightarrow> (string \<times> string) list" where
  "string_field name v = (if v = [] then [] else [(name, quote v)])"

definition int_text :: "int \<Rightarrow> string" where
  "int_text i = (if i < 0 then ''-'' @ Itoa (nat (- i)) else Itoa (nat i))"

definition time_field :: "string \<Rightarrow> time option \<Rightarrow> go_error + (string \<times> string) list" where
  "time_field name t =
     (case t of
        None \<Rightarrow> Inr []
      | Some u \<Rightarrow> (case marshal_time u of Inl e \<Rightarrow> Inl e | Inr text \<Rightarrow> Inr [(name, text)]))"

definition indented_object :: "(string \<times> string) list \<Rightarrow> string" where
  "indented_object ms =
     ''{'' @ [CHR 0x0A] @
     Join (map (\<lambda>(k, v). ''  '' @ quote k @ '': '' @ v) ms) ('','' @ [CHR 0x0A]) @ [CHR 0x0A] @ ''}''"

definition marshal_device_record :: "DeviceRecord \<Rightarrow> go_error + string" where
  "marshal_device_record r =
     (case (marshal_time (dvr_CreatedAt r), time_field ''claimed_at'' (dvr_ClaimedAt r),
            time_field ''revoked_at'' (dvr_RevokedAt r),
            time_field ''pairing_code_expiry'' (dvr_PairingCodeExpiry r),
            time_field ''poll_token_expiry'' (dvr_PollTokenExpiry r)) of
        (Inr created, Inr claimed, Inr revoked, Inr code, Inr token) \<Rightarrow>
          Inr (indented_object
            ([(''schema_version'', int_text (dvr_SchemaVersion r)),
              (''installation_id'', quote (dvr_InstallationID r)),
              (''created_at'', created),
              (''claim_state'', quote (dvr_ClaimState r))] @
             string_field ''device_id'' (dvr_DeviceID r) @
             string_field ''iot_thing_name'' (dvr_IoTThingName r) @
             string_field ''certificate_path'' (dvr_CertificatePath r) @
             string_field ''private_key_path'' (dvr_PrivateKeyPath r) @
             claimed @ revoked @
             string_field ''pairing_session_id'' (dvr_PairingSessionID r) @ code @
             string_field ''poll_token_path'' (dvr_PollTokenPath r) @ token @
             (if dvr_PollIntervalSeconds r = 0 then []
              else [(''poll_interval_seconds'', int_text (dvr_PollIntervalSeconds r))]) @
             string_field ''pending_device_id'' (dvr_PendingDeviceID r) @
             string_field ''pending_iot_thing_name'' (dvr_PendingIoTThingName r) @
             string_field ''pending_certificate_id'' (dvr_PendingCertificateID r) @
             string_field ''pending_certificate_arn'' (dvr_PendingCertificateARN r)))
      | _ \<Rightarrow> Inl (Errorf ''Time.MarshalJSON: year outside of range [0,9999]'' []))"

definition saveDeviceRecord :: "'w FileSystem \<Rightarrow> string \<Rightarrow> DeviceRecord \<Rightarrow> ('w, unit) op" where
  "saveDeviceRecord fs path r =
     bindE (wrapE ''create device record directory'' (fsy_MkdirAll fs (filepath_Dir path))) (\<lambda>_.
     bindE (wrapE ''encode device record'' (pureE (marshal_device_record r))) (\<lambda>payload.
     bindE (wrapE ''write device record'' (fsy_WriteFile fs path (payload @ [CHR 0x0A]))) (\<lambda>_.
     wrapE ''set device record permissions'' (fsy_Chmod fs path))))"

text \<open>\<open>json.Unmarshal\<close> of the device record.\<close>

definition device_record_fields :: "string list" where
  "device_record_fields = [''schema_version'', ''installation_id'', ''created_at'', ''claim_state'',
     ''device_id'', ''iot_thing_name'', ''certificate_path'', ''private_key_path'', ''claimed_at'',
     ''revoked_at'', ''pairing_session_id'', ''pairing_code_expiry'', ''poll_token_path'',
     ''poll_token_expiry'', ''poll_interval_seconds'', ''pending_device_id'',
     ''pending_iot_thing_name'', ''pending_certificate_id'', ''pending_certificate_arn'']"

definition dec_DeviceRecord :: "string \<Rightarrow> DeviceRecord option" where
  "dec_DeviceRecord text = do {
     ms \<leftarrow> struct_members text;
     fld \<leftarrow> Some (field_values device_record_fields ms);
     version \<leftarrow> dec_int64 0 (fld ''schema_version'');
     installation \<leftarrow> dec_string [] (fld ''installation_id'');
     created \<leftarrow> dec_time zero_time (fld ''created_at'');
     state \<leftarrow> dec_string [] (fld ''claim_state'');
     device \<leftarrow> dec_string [] (fld ''device_id'');
     thing \<leftarrow> dec_string [] (fld ''iot_thing_name'');
     certificate \<leftarrow> dec_string [] (fld ''certificate_path'');
     key \<leftarrow> dec_string [] (fld ''private_key_path'');
     claimed \<leftarrow> dec_time_pointer (fld ''claimed_at'');
     revoked \<leftarrow> dec_time_pointer (fld ''revoked_at'');
     session \<leftarrow> dec_string [] (fld ''pairing_session_id'');
     code \<leftarrow> dec_time_pointer (fld ''pairing_code_expiry'');
     token \<leftarrow> dec_string [] (fld ''poll_token_path'');
     token_expiry \<leftarrow> dec_time_pointer (fld ''poll_token_expiry'');
     poll \<leftarrow> dec_int64 0 (fld ''poll_interval_seconds'');
     pending_device \<leftarrow> dec_string [] (fld ''pending_device_id'');
     pending_thing \<leftarrow> dec_string [] (fld ''pending_iot_thing_name'');
     pending_certificate \<leftarrow> dec_string [] (fld ''pending_certificate_id'');
     pending_arn \<leftarrow> dec_string [] (fld ''pending_certificate_arn'');
     Some \<lparr>dvr_SchemaVersion = version, dvr_InstallationID = installation, dvr_CreatedAt = created,
           dvr_ClaimState = state, dvr_DeviceID = device, dvr_IoTThingName = thing,
           dvr_CertificatePath = certificate, dvr_PrivateKeyPath = key, dvr_ClaimedAt = claimed,
           dvr_RevokedAt = revoked, dvr_PairingSessionID = session, dvr_PairingCodeExpiry = code,
           dvr_PollTokenPath = token, dvr_PollTokenExpiry = token_expiry,
           dvr_PollIntervalSeconds = poll, dvr_PendingDeviceID = pending_device,
           dvr_PendingIoTThingName = pending_thing, dvr_PendingCertificateID = pending_certificate,
           dvr_PendingCertificateARN = pending_arn\<rparr> }"

text \<open>\<open>newInstallationID\<close> reads random bytes; the identifier is the effect \<open>newID\<close>.\<close>

definition new_device_record :: "string \<Rightarrow> time \<Rightarrow> DeviceRecord" where
  "new_device_record installationID now = empty_device_record
     \<lparr>dvr_SchemaVersion := deviceRecordSchemaVersion, dvr_InstallationID := installationID,
      dvr_CreatedAt := UTC now, dvr_ClaimState := ClaimStateUnclaimed\<rparr>"

definition upgraded_record :: "DeviceRecord \<Rightarrow> time \<Rightarrow> DeviceRecord" where
  "upgraded_record r now =
     (let r = (if dvr_SchemaVersion r = 0
               then r\<lparr>dvr_SchemaVersion := deviceRecordSchemaVersion,
                      dvr_ClaimState := ClaimStateUnclaimed,
                      dvr_CreatedAt := (if IsZero (dvr_CreatedAt r) then UTC now else dvr_CreatedAt r)\<rparr>
               else r)
      in if dvr_ClaimState r = [] then r\<lparr>dvr_ClaimState := ClaimStateUnclaimed\<rparr> else r)"

definition loadDeviceRecord ::
  "'w FileSystem \<Rightarrow> ('w, string) effect \<Rightarrow> string \<Rightarrow> time \<Rightarrow> ('w, DeviceRecord) op" where
  "loadDeviceRecord fs newID path now =
     bindE (attemptE (fsy_ReadFile fs path)) (\<lambda>r.
     case r of
       Inl e \<Rightarrow>
         bindE (failIf (\<not> errors_Is e ErrNotExist) (Wrapf ''read device record'' e)) (\<lambda>_.
         bindE (liftE newID) (\<lambda>i.
         let record = new_device_record i now in
         bindE (saveDeviceRecord fs path record) (\<lambda>_. ret record)))
     | Inr payload \<Rightarrow>
         (case dec_DeviceRecord payload of
            None \<Rightarrow> fail (Errorf ''parse device record: %w'' [])
          | Some record \<Rightarrow>
              bindE (failIf (dvr_InstallationID record = [])
                       (Errorf ''read device record: installation_id is empty'' [])) (\<lambda>_.
              let upgraded = upgraded_record record now in
              bindE (failIf (dvr_SchemaVersion upgraded \<noteq> deviceRecordSchemaVersion)
                       (Errorf ''unsupported device record schema_version %d'' [])) (\<lambda>_.
              bindE (if dvr_SchemaVersion record = 0 \<or> dvr_ClaimState record = []
                     then saveDeviceRecord fs path upgraded else ret ()) (\<lambda>_.
              ret upgraded)))))"

end
