(* ===== verification/Enrollment.thy ===== *)
theory Enrollment
  imports Enrollment_Types
begin

text \<open>
  The enrollment manager of the agent (\<open>enrollment_manager.go\<close>): \<open>RunOnce\<close> takes the device from
  unclaimed through pairing and provisioning to claimed or revoked.

  The mutable fields of the manager are the record \<open>'w EnrollmentManager\<close> around the world \<open>'w\<close> of its
  interfaces; the fields that \<open>NewEnrollmentManager\<close> sets once are \<open>EnrollmentManagerConfig\<close>, with the
  file system and the cryptography the code calls directly. The mutex is not modelled: every operation
  runs to its end. Contexts and logging are left out.
\<close>

section \<open>The manager\<close>

record ('w, 'k) EnrollmentManagerConfig =
  emc_ConfigDir :: string
  emc_DeviceRecordPath :: string
  emc_Config :: EnrollmentConfig
  emc_Client :: "'w HomeSignalEnrollmentClient option"
  emc_Provisioner :: "'w FleetProvisioningClient"
  emc_Now :: "('w, time) effect"
  emc_Version :: string
  emc_Files :: "'w FileSystem"
  emc_Crypto :: "('w, 'k) DeviceCrypto"

record 'w EnrollmentManager =
  emg_record :: DeviceRecord
  emg_pairingCode :: string
  emg_degradedReasons :: "string list"
  emg_world :: 'w

type_synonym ('w, 'a) manager_op = "('w EnrollmentManager, 'a) op"

definition in_world :: "('w, 'a) op \<Rightarrow> ('w, 'a) manager_op" where
  "in_world m s = (case m (emg_world s) of (r, w) \<Rightarrow> (r, s\<lparr>emg_world := w\<rparr>))"

definition manager_record :: "('w, DeviceRecord) manager_op" where
  "manager_record s = (Inr (emg_record s), s)"

definition set_record :: "(DeviceRecord \<Rightarrow> DeviceRecord) \<Rightarrow> ('w, unit) manager_op" where
  "set_record f s = (Inr (), s\<lparr>emg_record := f (emg_record s)\<rparr>)"

definition set_pairing_code :: "string \<Rightarrow> ('w, unit) manager_op" where
  "set_pairing_code code s = (Inr (), s\<lparr>emg_pairingCode := code\<rparr>)"

definition reset_degraded :: "('w, unit) manager_op" where
  "reset_degraded s = (Inr (), s\<lparr>emg_degradedReasons := []\<rparr>)"

definition addDegraded :: "string \<Rightarrow> ('w, unit) manager_op" where
  "addDegraded reason s =
     (Inr (), if reason = [] \<or> reason \<in> set (emg_degradedReasons s) then s
              else s\<lparr>emg_degradedReasons := emg_degradedReasons s @ [reason]\<rparr>)"

definition save_record :: "('w, 'k) EnrollmentManagerConfig \<Rightarrow> ('w, unit) manager_op" where
  "save_record c = bindE manager_record (\<lambda>r.
     in_world (saveDeviceRecord (emc_Files c) (emc_DeviceRecordPath c) r))"

definition manager_now :: "('w, 'k) EnrollmentManagerConfig \<Rightarrow> ('w, time) manager_op" where
  "manager_now c = bindE (in_world (liftE (emc_Now c))) (\<lambda>t. ret (UTC t))"

text \<open>\<open>m.addDegradedLocked(reason); return err\<close>, for an error of a call and for a new one.\<close>

definition degrade :: "string \<Rightarrow> ('w, 'a) manager_op \<Rightarrow> ('w, 'a) manager_op" where
  "degrade reason m = bindE (attemptE m) (\<lambda>r.
     case r of Inl e \<Rightarrow> bindE (addDegraded reason) (\<lambda>_. fail e) | Inr a \<Rightarrow> ret a)"

definition fail_degraded :: "string \<Rightarrow> ('w, 'a) manager_op" where
  "fail_degraded reason = bindE (addDegraded reason) (\<lambda>_. fail (Errorf reason []))"

definition unless_degraded :: "bool \<Rightarrow> string \<Rightarrow> ('w, unit) manager_op" where
  "unless_degraded b reason = (if b then fail_degraded reason else ret ())"

text \<open>\<open>defer\<close> of an operation whose errors are dropped.\<close>

definition deferE :: "('w, unit) manager_op \<Rightarrow> ('w, 'a) manager_op \<Rightarrow> ('w, 'a) manager_op" where
  "deferE cleanup m = bindE (attemptE m) (\<lambda>r. bindE (ignoreE cleanup) (\<lambda>_. pureE r))"

section \<open>Records\<close>

definition fillDefaultPaths :: "string \<Rightarrow> DeviceRecord \<Rightarrow> DeviceRecord" where
  "fillDefaultPaths configDir r = r
     \<lparr>dvr_PrivateKeyPath := (if dvr_PrivateKeyPath r = []
        then filepath_Join [configDir, ''iot'', ''device.key''] else dvr_PrivateKeyPath r),
      dvr_CertificatePath := (if dvr_CertificatePath r = []
        then filepath_Join [configDir, ''iot'', ''device.crt''] else dvr_CertificatePath r),
      dvr_PollTokenPath := (if dvr_PollTokenPath r = []
        then filepath_Join [configDir, ''secrets'', ''poll_token''] else dvr_PollTokenPath r)\<rparr>"

definition normalized :: "time \<Rightarrow> DeviceRecord \<Rightarrow> DeviceRecord" where
  "normalized now r = r
     \<lparr>dvr_SchemaVersion := (if dvr_SchemaVersion r = 0 then deviceRecordSchemaVersion
        else dvr_SchemaVersion r),
      dvr_CreatedAt := (if IsZero (dvr_CreatedAt r) then now else dvr_CreatedAt r),
      dvr_ClaimState := (if dvr_ClaimState r = [] then ClaimStateUnclaimed else dvr_ClaimState r)\<rparr>"

definition pendingExpired :: "DeviceRecord \<Rightarrow> time \<Rightarrow> bool" where
  "pendingExpired r now =
     ((case dvr_PairingCodeExpiry r of None \<Rightarrow> False | Some t \<Rightarrow> \<not> After t now) \<or>
      (case dvr_PollTokenExpiry r of None \<Rightarrow> False | Some t \<Rightarrow> \<not> After t now))"

definition cleared :: "DeviceRecord \<Rightarrow> DeviceRecord" where
  "cleared r = r
     \<lparr>dvr_PairingSessionID := [], dvr_PairingCodeExpiry := None, dvr_PollTokenExpiry := None,
      dvr_PollIntervalSeconds := 0, dvr_PendingDeviceID := [], dvr_PendingIoTThingName := [],
      dvr_PendingCertificateID := [], dvr_PendingCertificateARN := []\<rparr>"

definition clearPending :: "('w, unit) manager_op" where
  "clearPending = bindE (set_record cleared) (\<lambda>_. set_pairing_code [])"

definition unclaimed :: "DeviceRecord \<Rightarrow> DeviceRecord" where
  "unclaimed r = r\<lparr>dvr_ClaimState := ClaimStateUnclaimed\<rparr>"

definition revoked :: "time \<Rightarrow> DeviceRecord \<Rightarrow> DeviceRecord" where
  "revoked now r = r\<lparr>dvr_ClaimState := ClaimStateRevoked, dvr_RevokedAt := Some (UTC now)\<rparr>"

definition files_lost :: "DeviceRecord \<Rightarrow> DeviceRecord" where
  "files_lost r = r\<lparr>dvr_ClaimState := ClaimStateUnclaimed, dvr_ClaimedAt := None\<rparr>"

definition firstNonEmpty :: "string list \<Rightarrow> string" where
  "firstNonEmpty values = (case filter (\<lambda>v. v \<noteq> []) values of [] \<Rightarrow> [] | v # _ \<Rightarrow> v)"

definition session_record :: "CreatePairingSessionResponse \<Rightarrow> DeviceRecord \<Rightarrow> DeviceRecord" where
  "session_record response r = r
     \<lparr>dvr_ClaimState := ClaimStatePairingPending,
      dvr_PairingSessionID := cps_PairingSessionID response,
      dvr_PairingCodeExpiry := Some (UTC (cps_ExpiresAt response)),
      dvr_PollTokenExpiry := Some
        (if IsZero (UTC (cps_PollTokenExpiresAt response)) then UTC (cps_ExpiresAt response)
         else UTC (cps_PollTokenExpiresAt response)),
      dvr_PollIntervalSeconds :=
        (if cps_PollIntervalSeconds response \<le> 0 then defaultPairingPollSeconds
         else cps_PollIntervalSeconds response)\<rparr>"

definition polled_record :: "PollPairingSessionResponse \<Rightarrow> DeviceRecord \<Rightarrow> DeviceRecord" where
  "polled_record response r =
     (if IsZero (plr_ExpiresAt response) then r
      else r\<lparr>dvr_PairingCodeExpiry := Some (UTC (plr_ExpiresAt response))\<rparr>)"

definition provisioned_record ::
  "FleetProvisioningResponse \<Rightarrow> PollPairingSessionResponse \<Rightarrow> DeviceRecord \<Rightarrow> DeviceRecord" where
  "provisioned_record provisioned response r = r
     \<lparr>dvr_PendingDeviceID := (if fps_DeviceID provisioned = [] then plr_DeviceID response
        else fps_DeviceID provisioned),
      dvr_PendingIoTThingName := (if fps_IoTThingName provisioned = [] then plr_IoTThingName response
        else fps_IoTThingName provisioned),
      dvr_PendingCertificateID := fps_CertificateID provisioned,
      dvr_PendingCertificateARN := fps_CertificateARN provisioned\<rparr>"

definition claimed_record :: "FinalizeClaimResponse \<Rightarrow> time \<Rightarrow> DeviceRecord \<Rightarrow> DeviceRecord" where
  "claimed_record response now r = r
     \<lparr>dvr_ClaimState := ClaimStateClaimed,
      dvr_DeviceID := firstNonEmpty [fcs_DeviceID response, dvr_PendingDeviceID r],
      dvr_IoTThingName := firstNonEmpty [fcs_IoTThingName response, dvr_PendingIoTThingName r],
      dvr_ClaimedAt := Some (if IsZero (UTC (fcs_ClaimedAt response)) then UTC now
        else UTC (fcs_ClaimedAt response))\<rparr>"

section \<open>Steps of an enrollment\<close>

definition when_client ::
  "('w, 'k) EnrollmentManagerConfig \<Rightarrow> string \<Rightarrow> ('w HomeSignalEnrollmentClient \<Rightarrow> ('w, 'a) manager_op) \<Rightarrow>
   ('w, 'a) manager_op" where
  "when_client c reason k =
     (if \<not> homeSignalConfigured (emc_Config c) then fail_degraded reason
      else (case emc_Client c of None \<Rightarrow> fail_degraded reason | Some client \<Rightarrow> k client))"

definition pollToken :: "('w, 'k) EnrollmentManagerConfig \<Rightarrow> ('w, string) manager_op" where
  "pollToken c = bindE manager_record (\<lambda>r.
     degrade ''poll_token_unavailable'' (in_world (readSecretFile (emc_Files c) (dvr_PollTokenPath r))))"

definition device_csr :: "('w, 'k) EnrollmentManagerConfig \<Rightarrow> ('w, string) manager_op" where
  "device_csr c = bindE manager_record (\<lambda>r.
     bindE (degrade ''device_private_key_unavailable''
              (in_world (ensureDevicePrivateKey (emc_Files c) (emc_Crypto c) (dvr_PrivateKeyPath r)))) (\<lambda>key.
     degrade ''device_csr_unavailable''
       (in_world (newCSRPEM (emc_Crypto c) key (dvr_InstallationID r)))))"

definition session_request ::
  "('w, 'k) EnrollmentManagerConfig \<Rightarrow> DeviceRecord \<Rightarrow> string \<Rightarrow> CreatePairingSessionRequest" where
  "session_request c r csr =
     \<lparr>cpr_InstallationID = dvr_InstallationID r, cpr_AgentVersion = emc_Version c, cpr_CSRPEM = csr,
      cpr_AWSRegion = enc_AWSRegion (emc_Config c),
      cpr_AWSIoTEndpoint = enc_AWSIoTEndpoint (emc_Config c),
      cpr_FleetProvisioningTemplateName = enc_FleetProvisioningTemplateName (emc_Config c),
      cpr_RequiresPreProvisioningHook = True, cpr_RequiresHomeSignalFinalization = True,
      cpr_SupportsCSRBasedFleetProvisioning = True\<rparr>"

definition createPairingSession :: "('w, 'k) EnrollmentManagerConfig \<Rightarrow> time \<Rightarrow> ('w, unit) manager_op" where
  "createPairingSession c now = when_client c ''homesignal_enrollment_unconfigured'' (\<lambda>client.
     bindE (device_csr c) (\<lambda>csr.
     bindE manager_record (\<lambda>r.
     bindE (degrade ''homesignal_enrollment_unavailable''
              (in_world (hec_CreatePairingSession client (session_request c r csr)))) (\<lambda>response.
     bindE (unless_degraded (cps_PairingSessionID response = [] \<or> cps_PairingCode response = [] \<or>
              cps_PollToken response = []) ''homesignal_pairing_session_invalid'') (\<lambda>_.
     bindE (degrade ''poll_token_storage_failed''
              (in_world (writeSecretFile (emc_Files c) (dvr_PollTokenPath r) (cps_PollToken response)))) (\<lambda>_.
     bindE (set_record (session_record response)) (\<lambda>_.
     bindE (set_pairing_code (cps_PairingCode response)) (\<lambda>_.
     bindE (unless_degraded (Before (UTC (cps_ExpiresAt response)) now)
              ''homesignal_pairing_session_expired'') (\<lambda>_.
     save_record c)))))))))"

definition finalize_request :: "DeviceRecord \<Rightarrow> string \<Rightarrow> FinalizeClaimRequest" where
  "finalize_request r token =
     \<lparr>fcr_PairingSessionID = dvr_PairingSessionID r, fcr_PollToken = token,
      fcr_InstallationID = dvr_InstallationID r, fcr_DeviceID = dvr_PendingDeviceID r,
      fcr_IoTThingName = dvr_PendingIoTThingName r, fcr_CertificateID = dvr_PendingCertificateID r,
      fcr_CertificateARN = dvr_PendingCertificateARN r,
      fcr_CertificatePath = dvr_CertificatePath r, fcr_PrivateKeyPath = dvr_PrivateKeyPath r\<rparr>"

definition claim_confirmed ::
  "('w, 'k) EnrollmentManagerConfig \<Rightarrow> FinalizeClaimResponse \<Rightarrow> time \<Rightarrow> ('w, unit) manager_op" where
  "claim_confirmed c response now =
     bindE (set_record (claimed_record response now)) (\<lambda>_.
     bindE clearPending (\<lambda>_.
     bindE manager_record (\<lambda>r.
     bindE (degrade ''poll_token_cleanup_failed''
              (in_world (removeIfExists (emc_Files c) (dvr_PollTokenPath r)))) (\<lambda>_.
     save_record c))))"

definition finalizeClaimWithPollToken ::
  "('w, 'k) EnrollmentManagerConfig \<Rightarrow> string \<Rightarrow> time \<Rightarrow> ('w, unit) manager_op" where
  "finalizeClaimWithPollToken c token now =
     when_client c ''homesignal_enrollment_unconfigured'' (\<lambda>client.
     bindE manager_record (\<lambda>r.
     bindE (attemptE (in_world (hec_FinalizeClaim client (finalize_request r token)))) (\<lambda>finalized.
     case finalized of
       Inl e \<Rightarrow>
         bindE (addDegraded ''iot_provisioned_awaiting_homesignal_confirmation'') (\<lambda>_.
         bindE (ignoreE (save_record c)) (\<lambda>_. fail e))
     | Inr response \<Rightarrow>
         if fcs_Status response \<in> set [''claimed'', ''CLAIMED''] then claim_confirmed c response now
         else if fcs_Status response \<in> set [''revoked'', ''REVOKED'', ''rejected'', ''REJECTED''] then
           bindE (set_record (revoked now)) (\<lambda>_.
           bindE clearPending (\<lambda>_. save_record c))
         else
           bindE (addDegraded ''iot_provisioned_awaiting_homesignal_confirmation'') (\<lambda>_.
           fail (Errorf ''homesignal_finalization_not_confirmed'' [])))))"

definition finalizeClaim :: "('w, 'k) EnrollmentManagerConfig \<Rightarrow> time \<Rightarrow> ('w, unit) manager_op" where
  "finalizeClaim c now = bindE (pollToken c) (\<lambda>token. finalizeClaimWithPollToken c token now)"

definition claim_cert_path :: "('w, 'k) EnrollmentManagerConfig \<Rightarrow> string" where
  "claim_cert_path c = filepath_Join [emc_ConfigDir c, ''secrets'', ''aws_claim.crt'']"

definition claim_key_path :: "('w, 'k) EnrollmentManagerConfig \<Rightarrow> string" where
  "claim_key_path c = filepath_Join [emc_ConfigDir c, ''secrets'', ''aws_claim.key'']"

definition remove_claim_material :: "('w, 'k) EnrollmentManagerConfig \<Rightarrow> ('w, unit) manager_op" where
  "remove_claim_material c =
     bindE (ignoreE (in_world (removeIfExists (emc_Files c) (claim_cert_path c)))) (\<lambda>_.
     ignoreE (in_world (removeIfExists (emc_Files c) (claim_key_path c))))"

definition provisioning_request ::
  "('w, 'k) EnrollmentManagerConfig \<Rightarrow> DeviceRecord \<Rightarrow> PollPairingSessionResponse \<Rightarrow> string \<Rightarrow>
   FleetProvisioningRequest" where
  "provisioning_request c r response csr =
     \<lparr>fpr_AWSIoTEndpoint = enc_AWSIoTEndpoint (emc_Config c),
      fpr_AWSRegion = enc_AWSRegion (emc_Config c),
      fpr_FleetProvisioningTemplateName =
        (if plr_FleetProvisioningTemplate response = []
         then enc_FleetProvisioningTemplateName (emc_Config c)
         else plr_FleetProvisioningTemplate response),
      fpr_ClaimCertificatePath = claim_cert_path c, fpr_ClaimPrivateKeyPath = claim_key_path c,
      fpr_DevicePrivateKeyPath = dvr_PrivateKeyPath r, fpr_CSRPEM = csr,
      fpr_InstallationID = dvr_InstallationID r, fpr_PairingSessionID = dvr_PairingSessionID r,
      fpr_DeviceID = plr_DeviceID response, fpr_IoTThingName = plr_IoTThingName response,
      fpr_TemplateParameters = plr_FleetProvisioningParameters response\<rparr>"

definition provision_device ::
  "('w, 'k) EnrollmentManagerConfig \<Rightarrow> PollPairingSessionResponse \<Rightarrow> string \<Rightarrow> time \<Rightarrow> ('w, unit) manager_op" where
  "provision_device c response token now =
     bindE (device_csr c) (\<lambda>csr.
     bindE manager_record (\<lambda>r.
     bindE (degrade ''aws_fleet_provisioning_failed''
              (in_world (emc_Provisioner c (provisioning_request c r response csr)))) (\<lambda>provisioned.
     bindE (unless_degraded (fps_CertificatePEM provisioned = [] \<or> fps_CertificateID provisioned = [])
              ''aws_fleet_provisioning_response_invalid'') (\<lambda>_.
     bindE (degrade ''device_certificate_storage_failed''
              (in_world (writeSecretFile (emc_Files c) (dvr_CertificatePath r)
                 (fps_CertificatePEM provisioned)))) (\<lambda>_.
     bindE (set_record (provisioned_record provisioned response)) (\<lambda>_.
     bindE (save_record c) (\<lambda>_.
     finalizeClaimWithPollToken c token now)))))))"

definition handleApprovedClaim ::
  "('w, 'k) EnrollmentManagerConfig \<Rightarrow> PollPairingSessionResponse \<Rightarrow> string \<Rightarrow> time \<Rightarrow> ('w, unit) manager_op" where
  "handleApprovedClaim c response token now =
     bindE (unless_degraded (plr_DeviceID response = []) ''homesignal_claim_missing_device_id'') (\<lambda>_.
     bindE (unless_degraded (plr_AWSClaimCertificatePEM response = [] \<or>
              plr_AWSClaimPrivateKeyPEM response = []) ''homesignal_claim_missing_aws_material'') (\<lambda>_.
     bindE (unless_degraded (\<not> IsZero (plr_AWSClaimExpiresAt response) \<and>
              \<not> After (plr_AWSClaimExpiresAt response) now) ''aws_claim_material_expired'') (\<lambda>_.
     bindE (unless_degraded (\<not> awsIoTConfigured (emc_Config c)) ''aws_iot_endpoint_unconfigured'') (\<lambda>_.
     bindE (degrade ''aws_claim_certificate_storage_failed''
              (in_world (writeSecretFile (emc_Files c) (claim_cert_path c)
                 (plr_AWSClaimCertificatePEM response)))) (\<lambda>_.
     bindE (degrade ''aws_claim_key_storage_failed''
              (in_world (writeSecretFile (emc_Files c) (claim_key_path c)
                 (plr_AWSClaimPrivateKeyPEM response)))) (\<lambda>_.
     deferE (remove_claim_material c) (provision_device c response token now)))))))"

definition pollPairingSession :: "('w, 'k) EnrollmentManagerConfig \<Rightarrow> time \<Rightarrow> ('w, unit) manager_op" where
  "pollPairingSession c now = when_client c ''homesignal_enrollment_unconfigured'' (\<lambda>client.
     bindE (pollToken c) (\<lambda>token.
     bindE manager_record (\<lambda>r.
     bindE (degrade ''homesignal_pairing_poll_failed''
              (in_world (hec_PollPairingSession client
                 \<lparr>ppr_PairingSessionID = dvr_PairingSessionID r, ppr_PollToken = token\<rparr>))) (\<lambda>response.
     bindE (if plr_PairingCode response = [] then ret () else set_pairing_code (plr_PairingCode response)) (\<lambda>_.
     bindE (set_record (polled_record response)) (\<lambda>_.
     if plr_Status response \<in> set [''pending'', ''PAIRING_PENDING'', []] then
       bindE manager_record (\<lambda>r.
       bindE (if pendingExpired r now then bindE clearPending (\<lambda>_. set_record unclaimed) else ret ()) (\<lambda>_.
       save_record c))
     else if plr_Status response \<in> set [''approved'', ''APPROVED''] then
       handleApprovedClaim c response token now
     else if plr_Status response \<in> set [''claimed'', ''CLAIMED''] then
       fail_degraded ''homesignal_pairing_claimed_without_local_finalization''
     else if plr_Status response \<in> set [''revoked'', ''REVOKED''] then
       bindE (set_record (revoked now)) (\<lambda>_. save_record c)
     else if plr_Status response \<in> set [''expired'', ''EXPIRED''] then
       bindE clearPending (\<lambda>_.
       bindE (set_record unclaimed) (\<lambda>_. save_record c))
     else fail_degraded ''homesignal_pairing_status_unknown''))))))"

definition checkClaimedStatus :: "('w, 'k) EnrollmentManagerConfig \<Rightarrow> time \<Rightarrow> ('w, unit) manager_op" where
  "checkClaimedStatus c now = when_client c ''homesignal_status_unavailable'' (\<lambda>client.
     bindE manager_record (\<lambda>r.
     bindE (degrade ''homesignal_status_unavailable''
              (in_world (hec_DeviceStatus client (dvr_DeviceID r)))) (\<lambda>response.
     if dss_Status response \<in> set [''claimed'', ''CLAIMED'', ''ok'', ''OK''] then ret ()
     else if dss_Status response \<in> set [''revoked'', ''REVOKED''] then
       bindE (set_record (revoked now)) (\<lambda>_. save_record c)
     else fail_degraded ''homesignal_device_status_unknown'')))"

definition credential_files :: "('w, 'k) EnrollmentManagerConfig \<Rightarrow> DeviceRecord \<Rightarrow> ('w, bool) manager_op" where
  "credential_files c r =
     bindE (in_world (fileExists (emc_Files c) (dvr_PrivateKeyPath r))) (\<lambda>key.
     if key then in_world (fileExists (emc_Files c) (dvr_CertificatePath r)) else ret False)"

definition claimed_run :: "('w, 'k) EnrollmentManagerConfig \<Rightarrow> DeviceRecord \<Rightarrow> time \<Rightarrow> ('w, unit) manager_op" where
  "claimed_run c r now =
     bindE (credential_files c r) (\<lambda>present.
     if present then checkClaimedStatus c now
     else
       bindE (set_record files_lost) (\<lambda>_.
       bindE (addDegraded ''claimed_credential_files_missing'') (\<lambda>_.
       bindE (ignoreE (save_record c)) (\<lambda>_.
       fail (Errorf ''claimed_credential_files_missing'' [])))))"

definition expire_pending :: "('w, 'k) EnrollmentManagerConfig \<Rightarrow> DeviceRecord \<Rightarrow> time \<Rightarrow> ('w, unit) manager_op" where
  "expire_pending c r now =
     (if dvr_ClaimState r = ClaimStatePairingPending \<and> dvr_PendingCertificateID r = [] \<and>
         pendingExpired r now
      then bindE clearPending (\<lambda>_. bindE (set_record unclaimed) (\<lambda>_. ignoreE (save_record c)))
      else ret ())"

definition dispatch :: "('w, 'k) EnrollmentManagerConfig \<Rightarrow> DeviceRecord \<Rightarrow> time \<Rightarrow> ('w, unit) manager_op" where
  "dispatch c r now =
     (if dvr_ClaimState r = ClaimStateUnclaimed then createPairingSession c now
      else if dvr_ClaimState r = ClaimStatePairingPending then
        (if dvr_PendingCertificateID r \<noteq> [] then finalizeClaim c now else pollPairingSession c now)
      else if dvr_ClaimState r = ClaimStateRevoked then ret ()
      else
        bindE (set_record unclaimed) (\<lambda>_.
        bindE (ignoreE (save_record c)) (\<lambda>_. createPairingSession c now)))"

definition RunOnce :: "('w, 'k) EnrollmentManagerConfig \<Rightarrow> ('w, unit) manager_op" where
  "RunOnce c =
     bindE reset_degraded (\<lambda>_.
     bindE (manager_now c) (\<lambda>now.
     bindE (set_record (fillDefaultPaths (emc_ConfigDir c))) (\<lambda>_.
     bindE (set_record (normalized now)) (\<lambda>_.
     bindE manager_record (\<lambda>r.
     if dvr_ClaimState r = ClaimStateClaimed then claimed_run c r now
     else
       bindE (expire_pending c r now) (\<lambda>_.
       bindE manager_record (\<lambda>r. dispatch c r now)))))))"

text \<open>\<open>NewEnrollmentManager\<close> for a loaded record.\<close>

definition NewEnrollmentManager ::
  "('w, 'k) EnrollmentManagerConfig \<Rightarrow> DeviceRecord \<Rightarrow> 'w \<Rightarrow> 'w EnrollmentManager" where
  "NewEnrollmentManager c r w =
     \<lparr>emg_record = fillDefaultPaths (emc_ConfigDir c) r, emg_pairingCode = [],
      emg_degradedReasons = [], emg_world = w\<rparr>"

section \<open>What the manager shows\<close>

definition statusMessage :: "'w EnrollmentManager \<Rightarrow> string" where
  "statusMessage m =
     (let state = dvr_ClaimState (emg_record m) in
      if state = ClaimStateUnclaimed then
        (if emg_degradedReasons m \<noteq> [] then ''Enrollment is unavailable.''
         else ''Waiting to create a pairing session.'')
      else if state = ClaimStatePairingPending then
        (if dvr_PendingCertificateID (emg_record m) \<noteq> []
         then ''AWS IoT provisioned; waiting for HomeSignal confirmation.''
         else ''Waiting for SaaS claim approval.'')
      else if state = ClaimStateClaimed then ''Device is claimed.''
      else if state = ClaimStateRevoked then ''Device credential is revoked.''
      else ''Enrollment state is unknown.'')"

record EnrollmentSnapshot =
  ess_InstallationID :: string
  ess_ClaimState :: ClaimState
  ess_PairingCode :: string
  ess_PairingCodeExpiry :: "time option"
  ess_Version :: string
  ess_DeviceID :: string
  ess_IoTThingName :: string
  ess_CertificatePath :: string
  ess_PrivateKeyPath :: string
  ess_EndpointConfig :: EnrollmentConfig
  ess_HomeSignalConfigured :: bool
  ess_AWSIoTConfigured :: bool
  ess_DegradedReasons :: "string list"
  ess_EnrollmentStatusMessage :: string

definition Snapshot :: "('w, 'k) EnrollmentManagerConfig \<Rightarrow> 'w EnrollmentManager \<Rightarrow> EnrollmentSnapshot" where
  "Snapshot c m =
     (let r = emg_record m in
      \<lparr>ess_InstallationID = dvr_InstallationID r, ess_ClaimState = dvr_ClaimState r,
       ess_PairingCode = emg_pairingCode m, ess_PairingCodeExpiry = dvr_PairingCodeExpiry r,
       ess_Version = emc_Version c, ess_DeviceID = dvr_DeviceID r,
       ess_IoTThingName = dvr_IoTThingName r, ess_CertificatePath = dvr_CertificatePath r,
       ess_PrivateKeyPath = dvr_PrivateKeyPath r, ess_EndpointConfig = emc_Config c,
       ess_HomeSignalConfigured = homeSignalConfigured (emc_Config c),
       ess_AWSIoTConfigured = awsIoTConfigured (emc_Config c),
       ess_DegradedReasons = emg_degradedReasons m,
       ess_EnrollmentStatusMessage = statusMessage m\<rparr>)"

end
