(* ===== verification/Enrollment_Machine.thy ===== *)
theory Enrollment_Machine
  imports Enrollment
begin

text \<open>
  The claim of a device as an abstract machine over its record: \<open>claim_step\<close> has one rule per change
  \<open>RunOnce\<close> may make, with the guard under which it makes it. Every \<open>RunOnce\<close> is a sequence of steps,
  whatever the cloud, the provisioner and the file system answer; \<open>claim_inv\<close> is the invariant of
  the machine from a new record on.
\<close>

section \<open>The machine\<close>

inductive claim_step :: "DeviceRecord \<Rightarrow> DeviceRecord \<Rightarrow> bool" where
  prepared: "claim_step r (normalized now (fillDefaultPaths dir r))"
| expired: "dvr_ClaimState r = ClaimStatePairingPending \<Longrightarrow> dvr_PendingCertificateID r = [] \<Longrightarrow>
    claim_step r (unclaimed (cleared r))"
| unknown: "dvr_ClaimState r \<notin> {ClaimStateUnclaimed, ClaimStatePairingPending, ClaimStateClaimed,
      ClaimStateRevoked} \<Longrightarrow> claim_step r (unclaimed r)"
| session: "dvr_ClaimState r = ClaimStateUnclaimed \<Longrightarrow> cps_PairingSessionID response \<noteq> [] \<Longrightarrow>
    claim_step r (session_record response r)"
| polled: "dvr_ClaimState r = ClaimStatePairingPending \<Longrightarrow> dvr_PendingCertificateID r = [] \<Longrightarrow>
    claim_step r (polled_record polled r)"
| provisioned: "dvr_ClaimState r = ClaimStatePairingPending \<Longrightarrow> dvr_PendingCertificateID r = [] \<Longrightarrow>
    fps_CertificateID p \<noteq> [] \<Longrightarrow> plr_DeviceID polled \<noteq> [] \<Longrightarrow>
    claim_step r (provisioned_record p polled r)"
| claimed: "dvr_ClaimState r = ClaimStatePairingPending \<Longrightarrow> dvr_PendingCertificateID r \<noteq> [] \<Longrightarrow>
    claim_step r (cleared (claimed_record confirmed now r))"
| rejected: "dvr_ClaimState r = ClaimStatePairingPending \<Longrightarrow> dvr_PendingCertificateID r \<noteq> [] \<Longrightarrow>
    claim_step r (cleared (revoked now r))"
| revoked: "dvr_ClaimState r = ClaimStatePairingPending \<and> dvr_PendingCertificateID r = [] \<or>
    dvr_ClaimState r = ClaimStateClaimed \<Longrightarrow> claim_step r (revoked now r)"
| lost: "dvr_ClaimState r = ClaimStateClaimed \<Longrightarrow> claim_step r (files_lost r)"

abbreviation claim_steps :: "DeviceRecord \<Rightarrow> DeviceRecord \<Rightarrow> bool" where
  "claim_steps \<equiv> claim_step\<^sup>*\<^sup>*"

lemma claim_states_distinct [simp]:
  "ClaimStateUnclaimed \<noteq> ClaimStatePairingPending" "ClaimStateUnclaimed \<noteq> ClaimStateClaimed"
  "ClaimStateUnclaimed \<noteq> ClaimStateRevoked" "ClaimStatePairingPending \<noteq> ClaimStateUnclaimed"
  "ClaimStatePairingPending \<noteq> ClaimStateClaimed" "ClaimStatePairingPending \<noteq> ClaimStateRevoked"
  "ClaimStateClaimed \<noteq> ClaimStateUnclaimed" "ClaimStateClaimed \<noteq> ClaimStatePairingPending"
  "ClaimStateClaimed \<noteq> ClaimStateRevoked" "ClaimStateRevoked \<noteq> ClaimStateUnclaimed"
  "ClaimStateRevoked \<noteq> ClaimStatePairingPending" "ClaimStateRevoked \<noteq> ClaimStateClaimed"
  "ClaimStateUnclaimed \<noteq> []" "ClaimStatePairingPending \<noteq> []" "ClaimStateClaimed \<noteq> []"
  "ClaimStateRevoked \<noteq> []" "[] \<noteq> ClaimStateUnclaimed" "[] \<noteq> ClaimStatePairingPending"
  "[] \<noteq> ClaimStateClaimed" "[] \<noteq> ClaimStateRevoked"
  by (simp_all add: claim_states)

lemmas record_defs = normalized_def fillDefaultPaths_def unclaimed_def cleared_def session_record_def
  polled_record_def provisioned_record_def claimed_record_def revoked_def files_lost_def

section \<open>Invariant\<close>

definition no_certificate :: "DeviceRecord \<Rightarrow> bool" where
  "no_certificate r \<longleftrightarrow> dvr_PendingDeviceID r = [] \<and> dvr_PendingIoTThingName r = [] \<and>
     dvr_PendingCertificateID r = [] \<and> dvr_PendingCertificateARN r = []"

definition nothing_pending :: "DeviceRecord \<Rightarrow> bool" where
  "nothing_pending r \<longleftrightarrow> dvr_PairingSessionID r = [] \<and> dvr_PairingCodeExpiry r = None \<and>
     dvr_PollTokenExpiry r = None \<and> dvr_PollIntervalSeconds r = 0 \<and> no_certificate r"

text \<open>A session the device polls: its id, both expiries and the interval, and either no certificate
  data at all or a certificate and the device it is for.\<close>

definition pending_session :: "DeviceRecord \<Rightarrow> bool" where
  "pending_session r \<longleftrightarrow> dvr_PairingSessionID r \<noteq> [] \<and> dvr_PairingCodeExpiry r \<noteq> None \<and>
     dvr_PollTokenExpiry r \<noteq> None \<and> 0 < dvr_PollIntervalSeconds r \<and>
     (no_certificate r \<or> dvr_PendingCertificateID r \<noteq> [] \<and> dvr_PendingDeviceID r \<noteq> [])"

definition claim_inv :: "DeviceRecord \<Rightarrow> bool" where
  "claim_inv r \<longleftrightarrow>
     (if dvr_ClaimState r = ClaimStateUnclaimed then
        nothing_pending r \<and> dvr_ClaimedAt r = None \<and> dvr_RevokedAt r = None
      else if dvr_ClaimState r = ClaimStatePairingPending then
        pending_session r \<and> dvr_ClaimedAt r = None \<and> dvr_RevokedAt r = None
      else if dvr_ClaimState r = ClaimStateClaimed then
        nothing_pending r \<and> dvr_DeviceID r \<noteq> [] \<and> dvr_ClaimedAt r \<noteq> None \<and> dvr_RevokedAt r = None
      else dvr_ClaimState r = ClaimStateRevoked \<and> dvr_RevokedAt r \<noteq> None \<and> no_certificate r)"

lemmas claim_inv_defs = claim_inv_def nothing_pending_def pending_session_def no_certificate_def

lemma claim_step_inv: "claim_step r r' \<Longrightarrow> claim_inv r \<Longrightarrow> claim_inv r'"
  by (erule claim_step.cases)
    (auto simp: claim_inv_defs record_defs firstNonEmpty_def defaultPairingPollSeconds_def split: if_splits)

lemma claim_steps_inv: "claim_steps r r' \<Longrightarrow> claim_inv r \<Longrightarrow> claim_inv r'"
  by (induction rule: rtranclp_induct) (auto intro: claim_step_inv)

lemma new_device_record_inv: "claim_inv (new_device_record i now)"
  by (simp add: new_device_record_def claim_inv_defs empty_device_record_def)

lemma claim_step_revoked:
  "claim_step r r' \<Longrightarrow> dvr_ClaimState r = ClaimStateRevoked \<Longrightarrow>
   dvr_ClaimState r' = ClaimStateRevoked \<and> dvr_RevokedAt r' = dvr_RevokedAt r \<and>
   dvr_DeviceID r' = dvr_DeviceID r"
  by (erule claim_step.cases) (auto simp: record_defs)

lemma claim_steps_revoked:
  "claim_steps r r' \<Longrightarrow> dvr_ClaimState r = ClaimStateRevoked \<Longrightarrow>
   dvr_ClaimState r' = ClaimStateRevoked \<and> dvr_RevokedAt r' = dvr_RevokedAt r \<and>
   dvr_DeviceID r' = dvr_DeviceID r"
  by (induction rule: rtranclp_induct) (auto dest: claim_step_revoked)

text \<open>What no step changes.\<close>

lemma claim_step_identity:
  "claim_step r r' \<Longrightarrow> dvr_InstallationID r' = dvr_InstallationID r"
  by (erule claim_step.cases) (auto simp: record_defs)

lemma claim_steps_identity:
  "claim_steps r r' \<Longrightarrow> dvr_InstallationID r' = dvr_InstallationID r"
  by (induction rule: rtranclp_induct) (auto dest: claim_step_identity)

section \<open>Rules for the operations of the manager\<close>

definition degraded :: "string \<Rightarrow> 'w EnrollmentManager \<Rightarrow> 'w EnrollmentManager" where
  "degraded reason s = snd (addDegraded reason s)"

lemma degraded_fields [simp]:
  "emg_record (degraded reason s) = emg_record s" "emg_world (degraded reason s) = emg_world s"
  "emg_pairingCode (degraded reason s) = emg_pairingCode s"
  by (simp_all add: degraded_def addDegraded_def)

lemma wp_manager [wp_simps]:
  "wp manager_record Q E s = Q (emg_record s) s"
  "wp (set_record f) Q' E s = Q' () (s\<lparr>emg_record := f (emg_record s)\<rparr>)"
  "wp (set_pairing_code code) Q' E s = Q' () (s\<lparr>emg_pairingCode := code\<rparr>)"
  "wp reset_degraded Q' E s = Q' () (s\<lparr>emg_degradedReasons := []\<rparr>)"
  "wp (addDegraded reason) Q' E s = Q' () (degraded reason s)"
  by (simp_all add: wp_def manager_record_def set_record_def set_pairing_code_def reset_degraded_def
      addDegraded_def degraded_def)

lemma wp_degrade [wp_simps]: "wp (degrade reason m) Q E s = wp m Q (\<lambda>e s'. E e (degraded reason s')) s"
  by (auto simp: degrade_def wp_def bindE_def attemptE_def fail_def ret_def addDegraded_def degraded_def
      split: prod.split sum.split)

lemma wp_fail_degraded [wp_simps]: "wp (fail_degraded reason) Q E s = E (Errorf reason []) (degraded reason s)"
  by (simp add: fail_degraded_def wp_simps)

lemma wp_unless_degraded [wp_simps]:
  "wp (unless_degraded b reason) Q E s =
   (if b then E (Errorf reason []) (degraded reason s) else Q () s)"
  by (simp add: unless_degraded_def wp_simps)

lemma wp_deferE [wp_simps]:
  "wp (deferE cleanup m) Q E s =
   wp m (\<lambda>a. wp cleanup (\<lambda>_. Q a) (\<lambda>_. Q a)) (\<lambda>e. wp cleanup (\<lambda>_. E e) (\<lambda>_. E e)) s"
  by (simp add: deferE_def wp_def bindE_def attemptE_def ignoreE_def pureE_def fail_def ret_def
      split: prod.split sum.split)

lemma wp_in_world:
  assumes "\<And>a w. Q a (s\<lparr>emg_world := w\<rparr>)" and "\<And>e w. E e (s\<lparr>emg_world := w\<rparr>)"
  shows "wp (in_world m) Q E s"
  using assms by (auto simp: wp_def in_world_def split: prod.split sum.split)

lemma wp_when_client:
  assumes "E (Errorf reason []) (degraded reason s)" and "\<And>client. wp (k client) Q E s"
  shows "wp (when_client c reason k) Q E s"
  using assms by (simp add: when_client_def wp_simps split: option.split)

lemma wp_save_record:
  assumes "\<And>w. Q () (s\<lparr>emg_world := w\<rparr>)" and "\<And>e w. E e (s\<lparr>emg_world := w\<rparr>)"
  shows "wp (save_record c) Q E s"
  using assms by (auto simp: save_record_def wp_simps intro!: wp_in_world)

lemma wp_device_csr:
  assumes "\<And>csr w. Q csr (s\<lparr>emg_world := w\<rparr>)"
    and "\<And>e reason w. E e (degraded reason (s\<lparr>emg_world := w\<rparr>))"
  shows "wp (device_csr c) Q E s"
  using assms by (auto simp: device_csr_def wp_simps intro!: wp_in_world)

lemma wp_pollToken:
  assumes "\<And>token w. Q token (s\<lparr>emg_world := w\<rparr>)"
    and "\<And>e reason w. E e (degraded reason (s\<lparr>emg_world := w\<rparr>))"
  shows "wp (pollToken c) Q E s"
  using assms by (auto simp: pollToken_def wp_simps intro!: wp_in_world)

lemmas wp_manager_intros = wp_in_world wp_when_client wp_save_record wp_device_csr wp_pollToken

section \<open>Operations that keep a property of the manager\<close>

definition keeps :: "('w EnrollmentManager \<Rightarrow> bool) \<Rightarrow> ('w, 'a) manager_op \<Rightarrow> bool" where
  "keeps P m \<longleftrightarrow> (\<forall>s. P s \<longrightarrow> wp m (\<lambda>_. P) (\<lambda>_. P) s)"

named_theorems keeps_rules \<open>keeps of the combinators and operations\<close>

lemma keepsI: "(\<And>s. P s \<Longrightarrow> wp m (\<lambda>_. P) (\<lambda>_. P) s) \<Longrightarrow> keeps P m"
  by (simp add: keeps_def)

lemma keepsD: "keeps P m \<Longrightarrow> P s \<Longrightarrow> wp m (\<lambda>_. P) (\<lambda>_. P) s"
  by (simp add: keeps_def)

lemma keeps_ret [keeps_rules]: "keeps P (ret a)" "keeps P (fail e)"
  by (simp_all add: keeps_def wp_simps)

lemma keeps_record [keeps_rules]:
  assumes "\<And>s. P s \<Longrightarrow> keeps P (f (emg_record s))"
  shows "keeps P (bindE manager_record f)"
  using assms by (simp add: keeps_def wp_simps)

lemma keeps_bindE [keeps_rules]:
  assumes "keeps P m" and "\<And>a. keeps P (f a)"
  shows "keeps P (bindE m f)"
proof (rule keepsI)
  fix s assume "P s"
  then show "wp (bindE m f) (\<lambda>_. P) (\<lambda>_. P) s"
    unfolding wp_bindE using assms by (auto simp: keeps_def intro: wp_mono [of m "\<lambda>_. P" "\<lambda>_. P"])
qed

lemma keeps_attempts [keeps_rules]:
  "keeps P m \<Longrightarrow> keeps P (attemptE m)" "keeps P m \<Longrightarrow> keeps P (ignoreE m)"
  by (auto simp: keeps_def wp_simps)

lemma keeps_branches [keeps_rules]:
  "(b \<Longrightarrow> keeps P m) \<Longrightarrow> (\<not> b \<Longrightarrow> keeps P m') \<Longrightarrow> keeps P (if b then m else m')"
  "(\<And>e. x = Inl e \<Longrightarrow> keeps P (g e)) \<Longrightarrow> (\<And>a. x = Inr a \<Longrightarrow> keeps P (f a)) \<Longrightarrow>
   keeps P (case x of Inl e \<Rightarrow> g e | Inr a \<Rightarrow> f a)"
  "(y = None \<Longrightarrow> keeps P n) \<Longrightarrow> (\<And>a. y = Some a \<Longrightarrow> keeps P (h a)) \<Longrightarrow>
   keeps P (case y of None \<Rightarrow> n | Some a \<Rightarrow> h a)"
  by (auto split: sum.split option.split)

lemma keeps_addDegraded:
  "(\<And>s. P s \<Longrightarrow> P (degraded reason s)) \<Longrightarrow> keeps P (addDegraded reason)"
  by (simp add: keeps_def wp_simps)

lemma keeps_set_record:
  "(\<And>s. P s \<Longrightarrow> P (s\<lparr>emg_record := f (emg_record s)\<rparr>)) \<Longrightarrow> keeps P (set_record f)"
  by (simp add: keeps_def wp_simps)

lemma keeps_degrade [keeps_rules]:
  "keeps P (addDegraded reason) \<Longrightarrow> keeps P m \<Longrightarrow> keeps P (degrade reason m)"
  "keeps P (addDegraded reason) \<Longrightarrow> keeps P (fail_degraded reason)"
  "keeps P (addDegraded reason) \<Longrightarrow> keeps P (unless_degraded b reason)"
  by (auto simp: degrade_def fail_degraded_def unless_degraded_def intro!: keeps_rules)

lemma keeps_deferE [keeps_rules]: "keeps P n \<Longrightarrow> keeps P m \<Longrightarrow> keeps P (deferE n m)"
  by (auto simp: deferE_def pureE_def intro!: keeps_rules)

lemma keeps_when_client [keeps_rules]:
  "keeps P (addDegraded reason) \<Longrightarrow> (\<And>client. emc_Client c = Some client \<Longrightarrow> keeps P (k client)) \<Longrightarrow>
   keeps P (when_client c reason k)"
  by (auto simp: when_client_def intro!: keeps_rules)

section \<open>Every run is a sequence of steps\<close>

abbreviation steps_from :: "DeviceRecord \<Rightarrow> 'a \<Rightarrow> 'w EnrollmentManager \<Rightarrow> bool" where
  "steps_from r0 a s \<equiv> claim_steps r0 (emg_record s)"

lemma steps_into: "claim_steps r0 r \<Longrightarrow> claim_step r r' \<Longrightarrow> claim_steps r0 r'"
  by (rule rtranclp.rtrancl_into_rtrancl)

lemmas step_rules = steps_into [OF _ claim_step.expired] steps_into [OF _ claim_step.session]
  steps_into [OF _ claim_step.polled] steps_into [OF _ claim_step.provisioned]
  steps_into [OF _ claim_step.claimed] steps_into [OF _ claim_step.rejected]
  steps_into [OF _ claim_step.revoked] steps_into [OF _ claim_step.lost]

lemma wp_createPairingSession:
  assumes "claim_steps r0 (emg_record s)" and "dvr_ClaimState (emg_record s) = ClaimStateUnclaimed"
  shows "wp (createPairingSession c now) (steps_from r0) (steps_from r0) s"
  using assms by (auto simp: createPairingSession_def wp_simps intro!: wp_manager_intros step_rules)

lemma wp_finalizeClaimWithPollToken:
  assumes "claim_steps r0 (emg_record s)" and "dvr_ClaimState (emg_record s) = ClaimStatePairingPending"
    and "dvr_PendingCertificateID (emg_record s) \<noteq> []"
  shows "wp (finalizeClaimWithPollToken c token now) (steps_from r0) (steps_from r0) s"
  using assms by (auto simp: finalizeClaimWithPollToken_def claim_confirmed_def clearPending_def wp_simps
      intro!: wp_manager_intros step_rules)

lemma wp_provision_device:
  assumes "claim_steps r0 (emg_record s)" and "dvr_ClaimState (emg_record s) = ClaimStatePairingPending"
    and "dvr_PendingCertificateID (emg_record s) = []" and "plr_DeviceID response \<noteq> []"
  shows "wp (provision_device c response token now) (steps_from r0) (steps_from r0) s"
  using assms by (auto simp: provision_device_def wp_simps intro!: wp_manager_intros
      wp_finalizeClaimWithPollToken step_rules)
    (auto simp: provisioned_record_def)

lemma wp_remove_claim_material:
  assumes "\<And>w. Q () (s\<lparr>emg_world := w\<rparr>)"
  shows "wp (remove_claim_material c) Q E s"
  using assms by (auto simp: remove_claim_material_def wp_simps intro!: wp_in_world)

lemma wp_handleApprovedClaim:
  assumes "claim_steps r0 (emg_record s)" and "dvr_ClaimState (emg_record s) = ClaimStatePairingPending"
    and "dvr_PendingCertificateID (emg_record s) = []"
  shows "wp (handleApprovedClaim c response token now) (steps_from r0) (steps_from r0) s"
  using assms by (auto simp: handleApprovedClaim_def wp_simps intro!: wp_in_world
      wp_mono [OF wp_provision_device] wp_remove_claim_material)

lemma wp_pollPairingSession:
  assumes "claim_steps r0 (emg_record s)" and "dvr_ClaimState (emg_record s) = ClaimStatePairingPending"
    and "dvr_PendingCertificateID (emg_record s) = []"
  shows "wp (pollPairingSession c now) (steps_from r0) (steps_from r0) s"
proof -
  have polled: "dvr_ClaimState (polled_record response r) = dvr_ClaimState r"
    "dvr_PendingCertificateID (polled_record response r) = dvr_PendingCertificateID r" for response r
    by (simp_all add: polled_record_def)
  note assms [simp] polled [simp]
  show ?thesis
    by (auto simp: pollPairingSession_def clearPending_def wp_simps intro!: wp_manager_intros
        wp_handleApprovedClaim step_rules)
qed

lemma wp_checkClaimedStatus:
  assumes "claim_steps r0 (emg_record s)" and "dvr_ClaimState (emg_record s) = ClaimStateClaimed"
  shows "wp (checkClaimedStatus c now) (steps_from r0) (steps_from r0) s"
  using assms by (auto simp: checkClaimedStatus_def wp_simps intro!: wp_manager_intros step_rules)

lemma wp_claimed_run:
  assumes "emg_record s = r" and "claim_steps r0 r" and "dvr_ClaimState r = ClaimStateClaimed"
  shows "wp (claimed_run c r now) (steps_from r0) (steps_from r0) s"
  using assms by (auto simp: claimed_run_def credential_files_def wp_simps intro!: wp_manager_intros
      wp_checkClaimedStatus step_rules)

lemma wp_dispatch:
  assumes "emg_record s = r" and "claim_steps r0 r" and "dvr_ClaimState r \<noteq> ClaimStateClaimed"
  shows "wp (dispatch c r now) (steps_from r0) (steps_from r0) s"
  using assms by (auto simp: dispatch_def finalizeClaim_def wp_simps intro!: wp_manager_intros
      wp_createPairingSession wp_pollPairingSession wp_finalizeClaimWithPollToken step_rules steps_into [OF _ claim_step.unknown])
    (auto simp: unclaimed_def)

lemma wp_expire_pending:
  assumes "emg_record s = r" and "claim_steps r0 r" and "dvr_ClaimState r \<noteq> ClaimStateClaimed"
    and "\<And>s'. claim_steps r0 (emg_record s') \<Longrightarrow> dvr_ClaimState (emg_record s') \<noteq> ClaimStateClaimed \<Longrightarrow> Q () s'"
  shows "wp (expire_pending c r now) Q E s"
  using assms by (auto simp: expire_pending_def clearPending_def wp_simps intro!: wp_manager_intros
      step_rules assms(4)) (auto simp: unclaimed_def)

lemma wp_RunOnce: "wp (RunOnce c) (steps_from (emg_record s)) (steps_from (emg_record s)) s"
proof -
  have now: "wp (manager_now c) Q E s'" if "\<And>t w. Q t (s'\<lparr>emg_world := w\<rparr>)"
      "\<And>e w. E e (s'\<lparr>emg_world := w\<rparr>)" for Q E s'
    using that by (auto simp: manager_now_def wp_simps intro!: wp_in_world)
  show ?thesis
    by (auto simp: RunOnce_def wp_simps intro!: now wp_claimed_run wp_expire_pending wp_dispatch
        r_into_rtranclp [of claim_step, OF claim_step.prepared])
qed

section \<open>A device is claimed by a confirmation only\<close>

definition not_claimed :: "'w EnrollmentManager \<Rightarrow> bool" where
  "not_claimed s \<longleftrightarrow> dvr_ClaimState (emg_record s) \<noteq> ClaimStateClaimed"

lemma not_claimed_fields [simp]:
  "not_claimed (s\<lparr>emg_world := w\<rparr>) = not_claimed s" "not_claimed (degraded reason s) = not_claimed s"
  "not_claimed (s\<lparr>emg_pairingCode := code\<rparr>) = not_claimed s"
  "not_claimed (s\<lparr>emg_degradedReasons := ds\<rparr>) = not_claimed s"
  by (simp_all add: not_claimed_def)

lemma not_claimed_set_record:
  "(\<And>r. dvr_ClaimState r \<noteq> ClaimStateClaimed \<Longrightarrow> dvr_ClaimState (f r) \<noteq> ClaimStateClaimed) \<Longrightarrow>
   keeps not_claimed (set_record f)"
  by (rule keeps_set_record) (simp add: not_claimed_def)

lemma not_claimed_ops:
  "keeps not_claimed (in_world m)" "keeps not_claimed (set_pairing_code code)"
  "keeps not_claimed (addDegraded reason)" "keeps not_claimed reset_degraded"
  by (auto simp: keeps_def wp_simps intro!: wp_in_world)

lemma not_claimed_composed:
  "keeps not_claimed (save_record c)" "keeps not_claimed (device_csr c)" "keeps not_claimed (pollToken c)"
  "keeps not_claimed (manager_now c)" "keeps not_claimed (remove_claim_material c)"
  unfolding save_record_def device_csr_def pollToken_def manager_now_def remove_claim_material_def
  by (intro keeps_rules not_claimed_ops)+

lemma not_claimed_clearPending: "keeps not_claimed clearPending"
  unfolding clearPending_def
  by (intro keeps_rules not_claimed_ops not_claimed_set_record) (simp add: record_defs)

lemmas not_claimed_rules = not_claimed_ops not_claimed_composed not_claimed_clearPending
  not_claimed_set_record

lemma unconfirmed_finalize:
  assumes "\<And>cl q w confirmed w'. emc_Client c = Some cl \<Longrightarrow> hec_FinalizeClaim cl q w = (Inr confirmed, w') \<Longrightarrow>
    fcs_Status confirmed \<notin> set [''claimed'', ''CLAIMED'']"
  shows "keeps not_claimed (finalizeClaimWithPollToken c token now)"
proof -
  have answer: "keeps not_claimed (bindE (attemptE (in_world (hec_FinalizeClaim cl q))) f)"
    if cl: "emc_Client c = Some cl" and "\<And>e. keeps not_claimed (f (Inl e))"
      and "\<And>confirmed. fcs_Status confirmed \<notin> set [''claimed'', ''CLAIMED''] \<Longrightarrow> keeps not_claimed (f (Inr confirmed))"
    for cl q f
  proof (rule keepsI, goal_cases)
    case (1 s)
    obtain r w' where run: "hec_FinalizeClaim cl q (emg_world s) = (r, w')" by fastforce
    then have "wp (bindE (attemptE (in_world (hec_FinalizeClaim cl q))) f) Q E s =
        wp (f r) Q E (s\<lparr>emg_world := w'\<rparr>)" for Q E
      by (simp add: wp_def bindE_def attemptE_def in_world_def)
    moreover have "keeps not_claimed (f r)"
      using that(2,3) assms [OF cl] run by (cases r) auto
    ultimately show ?case using 1 by (simp add: keepsD)
  qed
  show ?thesis
    unfolding finalizeClaimWithPollToken_def
    by (rule keeps_when_client [OF not_claimed_ops(3)], rule keeps_record, rule answer, assumption)
      (auto intro!: keeps_rules not_claimed_rules simp: record_defs)
qed

lemma unconfirmed_RunOnce:
  assumes "\<And>cl q w confirmed w'. emc_Client c = Some cl \<Longrightarrow> hec_FinalizeClaim cl q w = (Inr confirmed, w') \<Longrightarrow>
    fcs_Status confirmed \<notin> set [''claimed'', ''CLAIMED'']"
  shows "keeps not_claimed (RunOnce c)"
proof -
  have finalize: "keeps not_claimed (finalizeClaimWithPollToken c token now)" for token now
    by (rule unconfirmed_finalize) (rule assms)
  have create: "keeps not_claimed (createPairingSession c now)" for now
    unfolding createPairingSession_def
    by (intro keeps_rules not_claimed_rules) (auto simp: record_defs)
  have provision: "keeps not_claimed (provision_device c response token now)" for response token now
    unfolding provision_device_def
    by (intro keeps_rules not_claimed_rules finalize) (auto simp: record_defs)
  have approved: "keeps not_claimed (handleApprovedClaim c response token now)" for response token now
    unfolding handleApprovedClaim_def by (intro keeps_rules not_claimed_rules provision)
  have poll: "keeps not_claimed (pollPairingSession c now)" for now
    unfolding pollPairingSession_def
    by (intro keeps_rules not_claimed_rules approved) (auto simp: record_defs split: if_splits)
  have dispatch: "keeps not_claimed (dispatch c r now)" for r now
    unfolding dispatch_def finalizeClaim_def
    by (intro keeps_rules not_claimed_rules finalize create poll) (auto simp: record_defs)
  have expire: "keeps not_claimed (expire_pending c r now)" for r now
    unfolding expire_pending_def by (intro keeps_rules not_claimed_rules) (auto simp: record_defs)
  show ?thesis
    unfolding RunOnce_def
    by (intro keeps_rules not_claimed_rules dispatch expire)
      (auto simp: record_defs not_claimed_def)
qed

end
