(* ===== verification/Enrollment_Store.thy ===== *)
theory Enrollment_Store
  imports Enrollment_Machine
begin

text \<open>
  What a \<open>RunOnce\<close> does to the files of the agent, over every file system that keeps \<open>file_system\<close> and
  every cloud, provisioner and cryptography that leave the files alone (\<open>agent_files\<close>); and a model
  of them on a disk with faults, on which \<open>agent_files\<close> is interpreted.
\<close>

section \<open>The files of an enrollment\<close>

definition paths_filled :: "DeviceRecord \<Rightarrow> bool" where
  "paths_filled r \<longleftrightarrow> dvr_PrivateKeyPath r \<noteq> [] \<and> dvr_CertificatePath r \<noteq> [] \<and> dvr_PollTokenPath r \<noteq> []"

definition same_paths :: "DeviceRecord \<Rightarrow> DeviceRecord \<Rightarrow> bool" where
  "same_paths r r' \<longleftrightarrow> dvr_PrivateKeyPath r' = dvr_PrivateKeyPath r \<and>
     dvr_CertificatePath r' = dvr_CertificatePath r \<and> dvr_PollTokenPath r' = dvr_PollTokenPath r"

lemma same_paths_refl [simp]: "same_paths r r"
  by (simp add: same_paths_def)

lemma same_paths_records [simp]:
  "same_paths r (cleared r') = same_paths r r'" "same_paths r (unclaimed r') = same_paths r r'"
  "same_paths r (revoked now r') = same_paths r r'" "same_paths r (files_lost r') = same_paths r r'"
  "same_paths r (session_record a r') = same_paths r r'"
  "same_paths r (polled_record b r') = same_paths r r'"
  "same_paths r (provisioned_record p b r') = same_paths r r'"
  "same_paths r (claimed_record d now r') = same_paths r r'"
  by (simp_all add: same_paths_def record_defs)

lemma same_paths_fill:
  "paths_filled r0 \<Longrightarrow> same_paths r0 r \<Longrightarrow> same_paths r (fillDefaultPaths dir r)"
  by (simp add: same_paths_def paths_filled_def record_defs)

lemma same_paths_normalized [simp]: "same_paths r (normalized now r') = same_paths r r'"
  by (simp add: same_paths_def record_defs)

locale agent_files = file_system "emc_Files c" content
  for c :: "('w, 'k) EnrollmentManagerConfig" and content +
  assumes Create_law: "emc_Client c = Some cl \<Longrightarrow> hec_CreatePairingSession cl a w = (cr1, w') \<Longrightarrow>
      content w' = content w"
    and Poll_law: "emc_Client c = Some cl \<Longrightarrow> hec_PollPairingSession cl b w = (pr, w') \<Longrightarrow>
      content w' = content w"
    and Finalize_law: "emc_Client c = Some cl \<Longrightarrow> hec_FinalizeClaim cl f w = (fr, w') \<Longrightarrow>
      content w' = content w"
    and Status_law: "emc_Client c = Some cl \<Longrightarrow> hec_DeviceStatus cl i w = (sr1, w') \<Longrightarrow>
      content w' = content w"
    and Provision_law: "emc_Provisioner c g w = (vr, w') \<Longrightarrow> content w' = content w"
    and Generate_law: "dcr_GenerateKey (emc_Crypto c) w = (gr, w') \<Longrightarrow> content w' = content w"
    and Request_law: "dcr_CreateRequest (emc_Crypto c) k i w = (qr, w') \<Longrightarrow> content w' = content w"
    and Now_law: "emc_Now c w = (t, w') \<Longrightarrow> content w' = content w"
begin

text \<open>An operation of the world that leaves the files alone.\<close>

lemma wp_in_world_frame:
  assumes "\<And>r w'. m (emg_world s) = (r, w') \<Longrightarrow> content w' = content (emg_world s)"
    and "\<And>a w'. content w' = content (emg_world s) \<Longrightarrow> Q a (s\<lparr>emg_world := w'\<rparr>)"
    and "\<And>e w'. content w' = content (emg_world s) \<Longrightarrow> E e (s\<lparr>emg_world := w'\<rparr>)"
  shows "wp (in_world m) Q E s"
  using assms by (auto simp: wp_def in_world_def split: prod.split sum.split)

lemma wp_in_world_wp:
  "wp (in_world m) Q E s =
   wp m (\<lambda>a w. Q a (s\<lparr>emg_world := w\<rparr>)) (\<lambda>e w. E e (s\<lparr>emg_world := w\<rparr>)) (emg_world s)"
  by (auto simp: wp_def in_world_def split: prod.split sum.split)

lemma wp_writeSecretFile:
  assumes "\<And>e w'. \<forall>q. q \<noteq> p \<longrightarrow> content w' q = content w q \<Longrightarrow> E e w'"
    and "\<And>w'. content w' = (content w)(p \<mapsto> t) \<Longrightarrow> Q () w'"
  shows "wp (writeSecretFile (emc_Files c) p t) Q E w"
  by (auto simp: writeSecretFile_def wp_simps intro!: wp_Mkdir wp_WriteFile wp_Chmod assms)

lemma wp_removeIfExists:
  assumes "\<And>e w'. content w' = content w \<Longrightarrow> E e w'"
    and "\<And>w'. content w' = (content w)(p := None) \<or> p = [] \<and> content w' = content w \<Longrightarrow> Q () w'"
  shows "wp (removeIfExists (emc_Files c) p) Q E w"
  by (auto simp: removeIfExists_def wp_simps fun_upd_idem intro!: wp_Remove assms)

lemma wp_saveDeviceRecord:
  assumes "\<And>e w'. \<forall>q. q \<noteq> p \<longrightarrow> content w' q = content w q \<Longrightarrow> E e w'"
    and "\<And>text w'. marshal_device_record r = Inr text \<Longrightarrow>
      content w' = (content w)(p \<mapsto> text @ [CHR 0x0A]) \<Longrightarrow> Q () w'"
  shows "wp (saveDeviceRecord (emc_Files c) p r) Q E w"
proof (cases "marshal_device_record r")
  case (Inl e)
  then show ?thesis by (auto simp: saveDeviceRecord_def wp_simps intro!: wp_Mkdir assms(1))
next
  case (Inr t)
  then show ?thesis
    by (auto simp: saveDeviceRecord_def wp_simps
        intro!: wp_Mkdir wp_WriteFile wp_Chmod assms(1) assms(2) [OF Inr])
qed

lemma wp_readSecretFile:
  assumes "\<And>e w'. content w' = content w \<Longrightarrow> E e w'"
    and "\<And>t w'. content w' = content w \<Longrightarrow> content w p = Some t \<Longrightarrow> Q t w'"
  shows "wp (readSecretFile (emc_Files c) p) Q E w"
  by (auto simp: readSecretFile_def wp_simps intro!: wp_ReadFile assms)

lemma wp_fileExists:
  assumes "\<And>b w'. content w' = content w \<Longrightarrow> (b \<Longrightarrow> content w p \<noteq> None) \<Longrightarrow> Q b w'"
  shows "wp (fileExists (emc_Files c) p) Q E w"
  by (auto simp: fileExists_def wp_simps intro!: wp_Stat assms)

lemma wp_ensureDevicePrivateKey:
  assumes "\<And>e w'. \<forall>q. (q \<noteq> p \<or> content w p \<noteq> None) \<longrightarrow> content w' q = content w q \<Longrightarrow> E e w'"
    and "\<And>k w'. \<forall>q. (q \<noteq> p \<or> content w p \<noteq> None) \<longrightarrow> content w' q = content w q \<Longrightarrow>
      content w' p \<noteq> None \<Longrightarrow> Q k w'"
  shows "wp (ensureDevicePrivateKey (emc_Files c) (emc_Crypto c) p) Q E w"
proof -
  have gen: "wp (dcr_GenerateKey (emc_Crypto c)) Q' E' u"
    if "\<And>e w'. content w' = content u \<Longrightarrow> E' e w'" "\<And>k w'. content w' = content u \<Longrightarrow> Q' k w'" for Q' E' u
    by (rule wpI) (auto dest!: Generate_law intro: that)
  show ?thesis
    by (auto simp: ensureDevicePrivateKey_def wp_simps split: sum.split
        intro!: wp_ReadFile gen wp_writeSecretFile assms)
qed

text \<open>Every file but the ones a run writes stays as it was, and so does an existing private key.\<close>

definition written_paths :: "DeviceRecord \<Rightarrow> string set" where
  "written_paths r = {emc_DeviceRecordPath c, dvr_CertificatePath r, dvr_PollTokenPath r,
     claim_cert_path c, claim_key_path c}"

definition framed :: "DeviceRecord \<Rightarrow> 'w \<Rightarrow> 'w EnrollmentManager \<Rightarrow> bool" where
  "framed r0 w0 s \<longleftrightarrow> same_paths r0 (emg_record s) \<and>
     (\<forall>q. q \<notin> written_paths r0 \<and> (q \<noteq> dvr_PrivateKeyPath r0 \<or> content w0 q \<noteq> None) \<longrightarrow>
        content (emg_world s) q = content w0 q)"

lemma framed_paths: "framed r0 w0 s \<Longrightarrow> same_paths r0 (emg_record s)"
  by (simp add: framed_def)

lemma framed_same:
  "framed r0 w0 s \<Longrightarrow> content w' = content (emg_world s) \<Longrightarrow> framed r0 w0 (s\<lparr>emg_world := w'\<rparr>)"
  by (simp add: framed_def)

lemma framed_write:
  "framed r0 w0 s \<Longrightarrow> p \<in> written_paths r0 \<Longrightarrow>
   \<forall>q. q \<noteq> p \<longrightarrow> content w' q = content (emg_world s) q \<Longrightarrow> framed r0 w0 (s\<lparr>emg_world := w'\<rparr>)"
  unfolding framed_def by (metis EnrollmentManager.select_convs(1,4) EnrollmentManager.surjective
      EnrollmentManager.update_convs(4))

lemma framed_key:
  assumes "framed r0 w0 s" and "p = dvr_PrivateKeyPath r0"
    and "\<forall>q. (q \<noteq> p \<or> content (emg_world s) p \<noteq> None) \<longrightarrow> content w' q = content (emg_world s) q"
  shows "framed r0 w0 (s\<lparr>emg_world := w'\<rparr>)"
proof -
  have "content w' q = content w0 q" if "q \<notin> written_paths r0" "q \<noteq> p \<or> content w0 q \<noteq> None" for q
  proof -
    have "content (emg_world s) q = content w0 q" using assms(1,2) that by (simp add: framed_def)
    with that assms(3) show ?thesis by metis
  qed
  with assms(1,2) show ?thesis by (simp add: framed_def)
qed

lemma framed_record:
  "framed r0 w0 s \<Longrightarrow> same_paths (emg_record s) r' \<Longrightarrow> framed r0 w0 (s\<lparr>emg_record := r'\<rparr>)"
  by (auto simp: framed_def same_paths_def)

text \<open>The operations of a run keep \<open>framed\<close>.\<close>

lemma framed_degraded [simp]: "framed r0 w0 (degraded reason s) = framed r0 w0 s"
  by (simp add: framed_def)

lemma framed_manager [simp]:
  "framed r0 w0 (s\<lparr>emg_pairingCode := code\<rparr>) = framed r0 w0 s"
  "framed r0 w0 (s\<lparr>emg_degradedReasons := ds\<rparr>) = framed r0 w0 s"
  by (simp_all add: framed_def)

lemma framed_set_record [keeps_rules]:
  "(\<And>r. same_paths r0 r \<Longrightarrow> same_paths r (f r)) \<Longrightarrow> keeps (framed r0 w0) (set_record f)"
  by (rule keeps_set_record) (auto intro: framed_record dest: framed_paths)

lemma framed_sets [keeps_rules]:
  "keeps (framed r0 w0) (set_pairing_code code)" "keeps (framed r0 w0) (addDegraded reason)"
  "keeps (framed r0 w0) reset_degraded"
  by (simp_all add: keeps_def wp_simps)

lemma framed_in_world:
  "(\<And>w r w'. m w = (r, w') \<Longrightarrow> content w' = content w) \<Longrightarrow> keeps (framed r0 w0) (in_world m)"
  by (rule keepsI) (auto intro!: wp_in_world_frame framed_same)

lemma framed_save [keeps_rules]: "keeps (framed r0 w0) (save_record c)"
  by (rule keepsI) (auto simp: save_record_def wp_simps wp_in_world_wp written_paths_def
      intro!: wp_saveDeviceRecord elim!: framed_write)

lemma framed_writeSecret:
  "p \<in> written_paths r0 \<Longrightarrow> keeps (framed r0 w0) (in_world (writeSecretFile (emc_Files c) p t))"
  by (rule keepsI) (auto simp: wp_in_world_wp intro!: wp_writeSecretFile elim!: framed_write)

lemma framed_remove:
  "p \<in> written_paths r0 \<Longrightarrow> keeps (framed r0 w0) (in_world (removeIfExists (emc_Files c) p))"
  by (rule keepsI) (auto simp: wp_in_world_wp intro!: wp_removeIfExists elim!: framed_write)

lemma framed_read [keeps_rules]: "keeps (framed r0 w0) (in_world (readSecretFile (emc_Files c) p))"
  by (rule keepsI) (auto simp: wp_in_world_wp intro!: wp_readSecretFile framed_same)

lemma framed_exists [keeps_rules]: "keeps (framed r0 w0) (in_world (fileExists (emc_Files c) p))"
  by (rule keepsI) (auto simp: wp_in_world_wp intro!: wp_fileExists framed_same)

lemma framed_client [keeps_rules]:
  "emc_Client c = Some cl \<Longrightarrow> keeps (framed r0 w0) (in_world (hec_CreatePairingSession cl a))"
  "emc_Client c = Some cl \<Longrightarrow> keeps (framed r0 w0) (in_world (hec_PollPairingSession cl b))"
  "emc_Client c = Some cl \<Longrightarrow> keeps (framed r0 w0) (in_world (hec_FinalizeClaim cl f))"
  "emc_Client c = Some cl \<Longrightarrow> keeps (framed r0 w0) (in_world (hec_DeviceStatus cl i))"
  "keeps (framed r0 w0) (in_world (emc_Provisioner c g))"
  by (auto intro!: framed_in_world dest: Create_law Poll_law Finalize_law Status_law Provision_law)

lemma framed_now [keeps_rules]: "keeps (framed r0 w0) (manager_now c)"
  unfolding manager_now_def
  by (intro keeps_rules framed_in_world) (auto simp: liftE_def dest: Now_law split: prod.splits)

lemma framed_csr [keeps_rules]: "keeps (framed r0 w0) (device_csr c)"
proof -
  have "keeps (framed r0 w0) (in_world (ensureDevicePrivateKey (emc_Files c) (emc_Crypto c) p))"
    if "p = dvr_PrivateKeyPath r0" for p
    by (rule keepsI) (auto simp: wp_in_world_wp that intro!: wp_ensureDevicePrivateKey elim!: framed_key)
  moreover have "keeps (framed r0 w0) (in_world (newCSRPEM (emc_Crypto c) key i))" for key i
    by (rule framed_in_world) (auto simp: newCSRPEM_def wrapE_def dest: Request_law split: prod.splits sum.splits)
  ultimately show ?thesis
    unfolding device_csr_def by (intro keeps_rules) (auto simp: same_paths_def dest: framed_paths)
qed

lemma framed_pollToken [keeps_rules]: "keeps (framed r0 w0) (pollToken c)"
  unfolding pollToken_def by (intro keeps_rules)

lemma framed_written [intro]:
  "framed r0 w0 s \<Longrightarrow> dvr_PollTokenPath (emg_record s) \<in> written_paths r0"
  "framed r0 w0 s \<Longrightarrow> dvr_CertificatePath (emg_record s) \<in> written_paths r0"
  "claim_cert_path c \<in> written_paths r0" "claim_key_path c \<in> written_paths r0"
  by (auto simp: written_paths_def same_paths_def dest: framed_paths)

lemma framed_createPairingSession [keeps_rules]: "keeps (framed r0 w0) (createPairingSession c now)"
  unfolding createPairingSession_def by (intro keeps_rules framed_writeSecret framed_remove) auto

lemma framed_clearPending [keeps_rules]: "keeps (framed r0 w0) clearPending"
  unfolding clearPending_def by (intro keeps_rules framed_writeSecret framed_remove) auto

lemma framed_finalize [keeps_rules]: "keeps (framed r0 w0) (finalizeClaimWithPollToken c token now)"
  unfolding finalizeClaimWithPollToken_def claim_confirmed_def by (intro keeps_rules framed_writeSecret framed_remove) auto

lemma framed_remove_claim_material [keeps_rules]: "keeps (framed r0 w0) (remove_claim_material c)"
  unfolding remove_claim_material_def by (intro keeps_rules framed_writeSecret framed_remove) auto

lemma framed_provision [keeps_rules]: "keeps (framed r0 w0) (provision_device c response token now)"
  unfolding provision_device_def by (intro keeps_rules framed_writeSecret framed_remove) auto

lemma framed_approved [keeps_rules]: "keeps (framed r0 w0) (handleApprovedClaim c response token now)"
  unfolding handleApprovedClaim_def by (intro keeps_rules framed_writeSecret framed_remove) auto

lemma framed_poll [keeps_rules]: "keeps (framed r0 w0) (pollPairingSession c now)"
  unfolding pollPairingSession_def by (intro keeps_rules framed_writeSecret framed_remove) auto

lemma framed_claimed_run [keeps_rules]: "keeps (framed r0 w0) (claimed_run c r now)"
  unfolding claimed_run_def credential_files_def checkClaimedStatus_def by (intro keeps_rules framed_writeSecret framed_remove) auto

lemma framed_dispatch [keeps_rules]: "keeps (framed r0 w0) (dispatch c r now)"
  unfolding dispatch_def finalizeClaim_def by (intro keeps_rules framed_writeSecret framed_remove) auto

lemma framed_expire [keeps_rules]: "keeps (framed r0 w0) (expire_pending c r now)"
  unfolding expire_pending_def by (intro keeps_rules framed_writeSecret framed_remove) auto

lemma framed_RunOnce:
  assumes "paths_filled r0"
  shows "keeps (framed r0 w0) (RunOnce c)"
  unfolding RunOnce_def by (intro keeps_rules framed_writeSecret framed_remove)
    (auto intro: same_paths_fill [OF assms])

text \<open>
  A claim that is provisioned but whose poll token is gone: every run fails to read the token and
  leaves the record and the files as they are.
\<close>

definition stranded :: "'w EnrollmentManager \<Rightarrow> bool" where
  "stranded s \<longleftrightarrow> (let r = emg_record s in
     paths_filled r \<and> dvr_SchemaVersion r \<noteq> 0 \<and> \<not> IsZero (dvr_CreatedAt r) \<and>
     dvr_ClaimState r = ClaimStatePairingPending \<and> dvr_PendingCertificateID r \<noteq> [] \<and>
     content (emg_world s) (dvr_PollTokenPath r) = None)"

lemma prepared_same:
  "paths_filled r \<Longrightarrow> fillDefaultPaths dir r = r"
  "dvr_SchemaVersion r \<noteq> 0 \<Longrightarrow> \<not> IsZero (dvr_CreatedAt r) \<Longrightarrow> dvr_ClaimState r \<noteq> [] \<Longrightarrow> normalized now r = r"
  by (simp_all add: paths_filled_def fillDefaultPaths_def normalized_def)

lemma wp_manager_now:
  assumes "\<And>t w'. content w' = content (emg_world s) \<Longrightarrow> Q t (s\<lparr>emg_world := w'\<rparr>)"
  shows "wp (manager_now c) Q E s"
  by (auto simp: manager_now_def wp_simps wp_in_world_wp split: prod.split
      dest: Now_law intro!: assms)

lemma stranded_run:
  assumes "stranded s"
  shows "wp (RunOnce c) (\<lambda>_ _. False)
    (\<lambda>e s'. emg_record s' = emg_record s \<and> content (emg_world s') = content (emg_world s)) s"
  using assms
  by (auto simp: stranded_def Let_def RunOnce_def dispatch_def expire_pending_def finalizeClaim_def
      pollToken_def wp_simps wp_in_world_wp prepared_same intro!: wp_manager_now wp_readSecretFile)

lemma stranded_RunOnce:
  assumes "stranded s"
  obtains e s' where "RunOnce c s = (Inl e, s')" and "emg_record s' = emg_record s"
    and "content (emg_world s') = content (emg_world s)" and "stranded s'"
proof -
  obtain r s' where run: "RunOnce c s = (r, s')" by fastforce
  with stranded_run [OF assms] obtain e where "r = Inl e" "emg_record s' = emg_record s"
    "content (emg_world s') = content (emg_world s)"
    by (cases r) (auto simp: wp_def)
  with that run assms show thesis by (simp add: stranded_def)
qed

end

section \<open>A cloud and a disk\<close>

text \<open>
  Every answer is a function of its request, and a call may fail by the schedule of \<open>env\<close>. Keys are
  texts, encoded with a prefix; a certificate request names the key and the installation.
\<close>

record enrollment_world = disk +
  enw_session :: "CreatePairingSessionRequest \<Rightarrow> CreatePairingSessionResponse"
  enw_poll :: "PollPairingSessionRequest \<Rightarrow> PollPairingSessionResponse"
  enw_finalize :: "FinalizeClaimRequest \<Rightarrow> FinalizeClaimResponse"
  enw_status :: "string \<Rightarrow> DeviceStatusResponse"
  enw_provision :: "FleetProvisioningRequest \<Rightarrow> FleetProvisioningResponse"

definition cloud_client :: "enrollment_world HomeSignalEnrollmentClient" where
  "cloud_client =
     \<lparr>hec_CreatePairingSession = (\<lambda>q. with_fault (\<lambda>w. (Inr (enw_session w q), w))),
      hec_PollPairingSession = (\<lambda>q. with_fault (\<lambda>w. (Inr (enw_poll w q), w))),
      hec_FinalizeClaim = (\<lambda>q. with_fault (\<lambda>w. (Inr (enw_finalize w q), w))),
      hec_DeviceStatus = (\<lambda>i. with_fault (\<lambda>w. (Inr (enw_status w i), w)))\<rparr>"

definition text_crypto :: "(enrollment_world, string) DeviceCrypto" where
  "text_crypto =
     \<lparr>dcr_ParseKey = (\<lambda>t. if HasPrefix t ''key:'' then Inr (drop 4 t)
        else Inl (Errorf ''parse device private key: invalid PEM'' [])),
      dcr_EncodeKey = (\<lambda>k. ''key:'' @ k),
      dcr_GenerateKey = with_fault (liftE next_id),
      dcr_CreateRequest = (\<lambda>k i. with_fault (ret (''csr:'' @ k @ '':'' @ i)))\<rparr>"

definition enrollment_manager ::
  "string \<Rightarrow> EnrollmentConfig \<Rightarrow> (enrollment_world, string) EnrollmentManagerConfig" where
  "enrollment_manager dir config =
     \<lparr>emc_ConfigDir = dir, emc_DeviceRecordPath = filepath_Join [dir, ''device.json''],
      emc_Config = config, emc_Client = Some cloud_client,
      emc_Provisioner = (\<lambda>q. with_fault (\<lambda>w. (Inr (enw_provision w q), w))),
      emc_Now = read_clock, emc_Version = ''dev'', emc_Files = disk_files,
      emc_Crypto = text_crypto\<rparr>"

lemmas enrollment_manager_defs = enrollment_manager_def cloud_client_def text_crypto_def

interpretation enrollment: agent_files "enrollment_manager dir config" dk_files
  by unfold_locales
    (auto simp: enrollment_manager_defs with_fault_def disk_defs op_defs injected_fault_def
      ErrNotExist_def read_clock_def next_id_def
      split: list.splits if_splits file_fault.splits option.splits)

end
