(* ===== verification/Enrollment_Claims.thy ===== *)
theory Enrollment_Claims
  imports Enrollment_Store
begin

text \<open>
  Sequences of runs of the enrollment manager. \<open>run_worlds\<close> lets the world change in any way before each
  run, so that the cloud may answer anything and files may come and go; the properties that speak of
  files are about the disk of \<open>Enrollment_Store\<close>.
\<close>

section \<open>Sequences of runs\<close>

definition run_once :: "('w, 'k) EnrollmentManagerConfig \<Rightarrow> 'w EnrollmentManager \<Rightarrow> 'w EnrollmentManager" where
  "run_once c s = snd (RunOnce c s)"

fun run_times :: "('w, 'k) EnrollmentManagerConfig \<Rightarrow> nat \<Rightarrow> 'w EnrollmentManager \<Rightarrow> 'w EnrollmentManager" where
  "run_times c 0 s = s"
| "run_times c (Suc n) s = run_times c n (run_once c s)"

fun run_worlds :: "('w, 'k) EnrollmentManagerConfig \<Rightarrow> 'w list \<Rightarrow> 'w EnrollmentManager \<Rightarrow> 'w EnrollmentManager" where
  "run_worlds c [] s = s"
| "run_worlds c (w # ws) s = run_worlds c ws (run_once c (s\<lparr>emg_world := w\<rparr>))"

lemma run_once_steps: "claim_steps (emg_record s) (emg_record (run_once c s))"
  using wp_RunOnce [of c s] unfolding run_once_def by (rule wp_worldD)

lemma run_worlds_steps: "claim_steps (emg_record s) (emg_record (run_worlds c ws s))"
proof (induction ws arbitrary: s)
  case (Cons w ws)
  have "claim_steps (emg_record s) (emg_record (run_once c (s\<lparr>emg_world := w\<rparr>)))"
    using run_once_steps [of "s\<lparr>emg_world := w\<rparr>"] by simp
  also note Cons.IH
  finally show ?case by simp
qed simp

lemma keeps_run_worlds:
  assumes "keeps P (RunOnce c)" and "\<And>s w. P s \<Longrightarrow> P (s\<lparr>emg_world := w\<rparr>)"
  shows "P s \<Longrightarrow> P (run_worlds c ws s)"
proof (induction ws arbitrary: s)
  case (Cons w ws)
  have "P (run_once c (s\<lparr>emg_world := w\<rparr>))"
    using keepsD [OF assms(1) assms(2) [OF Cons.prems]] unfolding run_once_def by (rule wp_worldD)
  then show ?case using Cons.IH by simp
qed simp

section \<open>A disk without faults\<close>

lemma filepath_Clean_not_Nil [simp]: "filepath_Clean p \<noteq> []"
  by (simp add: filepath_Clean_def Let_def)

lemma claim_path_not_Nil [simp]: "claim_cert_path c \<noteq> []" "claim_key_path c \<noteq> []"
  by (simp_all add: claim_cert_path_def claim_key_path_def filepath_Join_def Let_def)

lemma healthy_write:
  "dk_faults w = [] \<Longrightarrow> writeSecretFile disk_files p t w = (Inr (), w\<lparr>dk_files := (dk_files w)(p \<mapsto> t)\<rparr>)"
  by (simp add: writeSecretFile_def disk_defs op_defs)

lemma healthy_remove:
  "dk_faults w = [] \<Longrightarrow> p \<noteq> [] \<Longrightarrow>
   removeIfExists disk_files p w = (Inr (), w\<lparr>dk_files := (dk_files w)(p := None)\<rparr>)"
  by (auto simp: removeIfExists_def disk_defs op_defs ErrNotExist_def fun_upd_idem split: option.split)

lemma healthy_read:
  "dk_faults w = [] \<Longrightarrow> dk_files w p = Some t \<Longrightarrow> readSecretFile disk_files p w = (Inr t, w)"
  by (simp add: readSecretFile_def disk_defs op_defs)

lemma healthy_save:
  "dk_faults w = [] \<Longrightarrow> saveDeviceRecord disk_files p r w =
   (case marshal_device_record r of
      Inl e \<Rightarrow> (Inl (Wrapf ''encode device record'' e), w)
    | Inr t \<Rightarrow> (Inr (), w\<lparr>dk_files := (dk_files w)(p \<mapsto> t @ [CHR 0x0A])\<rparr>))"
  by (simp add: saveDeviceRecord_def disk_defs op_defs split: sum.split)

text \<open>
  \<open>settled\<close>: the disk has no faults and, if \<open>absent\<close>, holds no temporary claim material.
\<close>

definition settled :: "bool \<Rightarrow> ('w, 'k) EnrollmentManagerConfig \<Rightarrow> DeviceRecord \<Rightarrow>
    'x disk_scheme EnrollmentManager \<Rightarrow> bool" where
  "settled absent c r0 s \<longleftrightarrow> same_paths r0 (emg_record s) \<and> dk_faults (emg_world s) = [] \<and>
     (absent \<longrightarrow> dk_files (emg_world s) (claim_cert_path c) = None \<and>
        dk_files (emg_world s) (claim_key_path c) = None)"

definition own_claim_paths :: "('w, 'k) EnrollmentManagerConfig \<Rightarrow> DeviceRecord \<Rightarrow> bool" where
  "own_claim_paths c r \<longleftrightarrow> claim_cert_path c \<noteq> claim_key_path c \<and>
     {claim_cert_path c, claim_key_path c} \<inter>
     {emc_DeviceRecordPath c, dvr_PrivateKeyPath r, dvr_CertificatePath r, dvr_PollTokenPath r} = {}"

text \<open>An operation that, without faults, changes at most the files \<open>S\<close>.\<close>

definition touches :: "string set \<Rightarrow> ('x disk_scheme, 'a) op \<Rightarrow> bool" where
  "touches S m \<longleftrightarrow> (\<forall>w. dk_faults w = [] \<longrightarrow> dk_faults (snd (m w)) = [] \<and>
     (\<forall>q. q \<notin> S \<longrightarrow> dk_files (snd (m w)) q = dk_files w q))"

named_theorems touches_rules \<open>touches of the combinators and operations\<close>

lemma touchesI:
  assumes "\<And>w r w'. dk_faults w = [] \<Longrightarrow> m w = (r, w') \<Longrightarrow>
    dk_faults w' = [] \<and> (\<forall>q. q \<notin> S \<longrightarrow> dk_files w' q = dk_files w q)"
  shows "touches S m"
  unfolding touches_def using assms [OF _ prod.collapse [symmetric]] by blast

lemma touches_pure [touches_rules]:
  "touches S (ret a)" "touches S (fail e)" "touches S (pureE r)" "touches S (failIf b e)"
  by (auto simp: touches_def ret_def fail_def pureE_def failIf_def split: sum.split)

lemma touches_bindE [touches_rules]:
  assumes "touches S m" and "\<And>a. touches S (f a)"
  shows "touches S (bindE m f)"
proof (rule touchesI)
  fix w r w' assume w: "dk_faults w = []" "bindE m f w = (r, w')"
  obtain x u where m: "m w = (x, u)" by fastforce
  have u: "dk_faults u = []" "\<And>q. q \<notin> S \<Longrightarrow> dk_files u q = dk_files w q"
    using assms(1) w(1) m unfolding touches_def by (metis snd_conv)+
  show "dk_faults w' = [] \<and> (\<forall>q. q \<notin> S \<longrightarrow> dk_files w' q = dk_files w q)"
  proof (cases x)
    case (Inl e)
    then show ?thesis using w m u by (simp add: bindE_def)
  next
    case (Inr a)
    then have "f a u = (r, w')" using w m by (simp add: bindE_def)
    then show ?thesis using assms(2) [of a] u unfolding touches_def by (metis snd_conv)
  qed
qed

lemma touches_wrapped [touches_rules]:
  "touches S m \<Longrightarrow> touches S (attemptE m)" "touches S m \<Longrightarrow> touches S (ignoreE m)"
  "touches S m \<Longrightarrow> touches S (wrapE msg m)"
  by (auto simp: touches_def attemptE_def ignoreE_def wrapE_def split: prod.split sum.split)

lemma touches_branches [touches_rules]:
  "touches S m \<Longrightarrow> touches S m' \<Longrightarrow> touches S (if b then m else m')"
  "(\<And>e. touches S (g e)) \<Longrightarrow> (\<And>a. touches S (f a)) \<Longrightarrow>
   touches S (case x of Inl e \<Rightarrow> g e | Inr a \<Rightarrow> f a)"
  by (auto split: sum.split)

lemma touches_disk [touches_rules]:
  "touches S (fsy_MkdirAll disk_files p)" "touches S (fsy_Chmod disk_files p)"
  "touches S (fsy_ReadFile disk_files p)" "touches S (fsy_Stat disk_files p)"
  "p \<in> S \<Longrightarrow> touches S (fsy_WriteFile disk_files p t)" "p \<in> S \<Longrightarrow> touches S (fsy_Remove disk_files p)"
  by (auto simp: touches_def disk_defs op_defs split: option.split)

lemma touches_storage [touches_rules]:
  "p \<in> S \<Longrightarrow> touches S (writeSecretFile disk_files p t)" "touches S (readSecretFile disk_files p)"
  "p \<in> S \<Longrightarrow> touches S (removeIfExists disk_files p)" "touches S (fileExists disk_files p)"
  "p \<in> S \<Longrightarrow> touches S (saveDeviceRecord disk_files p r)"
  unfolding writeSecretFile_def readSecretFile_def removeIfExists_def fileExists_def saveDeviceRecord_def
  by (intro touches_rules; assumption)+

lemma touches_env [touches_rules]:
  "touches S m \<Longrightarrow> touches S (with_fault m)" "touches S (liftE next_id)" "touches S (liftE read_clock)"
  "touches S (\<lambda>w. (Inr (f w), w))"
  by (auto simp: touches_def with_fault_def next_id_def read_clock_def liftE_def split: list.split)

lemma touches_cloud:
  assumes "c = enrollment_manager dir config"
  shows "emc_Client c = Some cl \<Longrightarrow> touches S (hec_CreatePairingSession cl q1)"
    and "emc_Client c = Some cl \<Longrightarrow> touches S (hec_PollPairingSession cl q2)"
    and "emc_Client c = Some cl \<Longrightarrow> touches S (hec_FinalizeClaim cl q3)"
    and "emc_Client c = Some cl \<Longrightarrow> touches S (hec_DeviceStatus cl i)"
    and "touches S (emc_Provisioner c q4)" and "touches S (liftE (emc_Now c))"
    and "touches S (newCSRPEM (emc_Crypto c) k i)"
    and "p \<in> S \<Longrightarrow> touches S (ensureDevicePrivateKey disk_files (emc_Crypto c) p)"
  unfolding newCSRPEM_def ensureDevicePrivateKey_def assms enrollment_manager_defs
  by (auto intro!: touches_rules)

lemma settled_in_world:
  assumes "touches S m" and "S \<inter> {claim_cert_path c, claim_key_path c} = {}"
  shows "keeps (settled a c r0) (in_world m)"
proof (rule keepsI, goal_cases)
  case s: (1 s)
  obtain r w' where m: "m (emg_world s) = (r, w')" by fastforce
  have "dk_faults w' = []" "\<And>q. q \<notin> S \<Longrightarrow> dk_files w' q = dk_files (emg_world s) q"
    using assms(1) s m unfolding touches_def settled_def by (metis snd_conv)+
  then have "settled a c r0 (s\<lparr>emg_world := w'\<rparr>)" using s assms(2) by (auto simp: settled_def)
  then show ?case
    using m by (simp add: wp_def in_world_def split: sum.split)
qed

lemma settled_fields [simp]:
  "settled a c r0 (degraded reason s) = settled a c r0 s"
  "settled a c r0 (s\<lparr>emg_pairingCode := code\<rparr>) = settled a c r0 s"
  "settled a c r0 (s\<lparr>emg_degradedReasons := ds\<rparr>) = settled a c r0 s"
  by (simp_all add: settled_def)

lemma settled_sets [keeps_rules]:
  "keeps (settled a c r0) (set_pairing_code code)" "keeps (settled a c r0) (addDegraded reason)"
  "keeps (settled a c r0) reset_degraded"
  "(\<And>r. same_paths r0 r \<Longrightarrow> same_paths r (f r)) \<Longrightarrow> keeps (settled a c r0) (set_record f)"
  by (auto simp: keeps_def wp_simps) (auto simp: settled_def same_paths_def)

lemma settled_paths: "settled a c r0 s \<Longrightarrow> same_paths r0 (emg_record s)"
  by (simp add: settled_def)

lemma keeps_settled:
  assumes c: "c = enrollment_manager dir config" and own: "own_claim_paths c r0" and "paths_filled r0"
  shows "keeps (settled a c r0) (finalizeClaimWithPollToken c token now)"
    and "keeps (settled a c r0) (provision_device c response token now)"
    and "keeps (settled a c r0) (createPairingSession c now)"
    and "keeps (settled a c r0) (checkClaimedStatus c now)"
    and "keeps (settled a c r0) (manager_now c)" and "keeps (settled a c r0) (pollToken c)"
    and "keeps (settled a c r0) (save_record c)"
    and "keeps (settled a c r0) (in_world (fileExists (emc_Files c) p))"
    and "emc_Client c = Some cl \<Longrightarrow> keeps (settled a c r0) (in_world (hec_PollPairingSession cl q))"
    and "keeps (settled a c r0) clearPending"
    and "keeps (settled a c r0) (set_record (fillDefaultPaths dir))"
proof -
  have files: "emc_Files c = disk_files" by (simp add: c enrollment_manager_def)
  have quiet: "touches {} m \<Longrightarrow> keeps (settled a c r0) (in_world m)" for m :: "(enrollment_world, 'z) op"
    by (rule settled_in_world [of "{}"]) auto
  have one: "touches {p} m \<Longrightarrow> p \<noteq> claim_cert_path c \<Longrightarrow> p \<noteq> claim_key_path c \<Longrightarrow>
      keeps (settled a c r0) (in_world m)" for p and m :: "(enrollment_world, 'z) op"
    by (rule settled_in_world [of "{p}"]) auto
  have own_paths: "dvr_PrivateKeyPath r \<notin> {claim_cert_path c, claim_key_path c}"
    "dvr_CertificatePath r \<notin> {claim_cert_path c, claim_key_path c}"
    "dvr_PollTokenPath r \<notin> {claim_cert_path c, claim_key_path c}"
    if "same_paths r0 r" for r
    using own that by (auto simp: own_claim_paths_def same_paths_def)
  note cloud = touches_cloud [OF c]
  show save: "keeps (settled a c r0) (save_record c)"
    unfolding save_record_def files
    by (intro keeps_rules one [of "emc_DeviceRecordPath c"] touches_rules)
      (use own in \<open>auto simp: own_claim_paths_def\<close>)
  show token: "keeps (settled a c r0) (pollToken c)"
    unfolding pollToken_def files by (intro keeps_rules quiet touches_rules)
  show now: "keeps (settled a c r0) (manager_now c)"
    unfolding manager_now_def by (intro keeps_rules quiet cloud)
  show clear: "keeps (settled a c r0) clearPending"
    unfolding clearPending_def by (intro keeps_rules) auto
  show "keeps (settled a c r0) (in_world (fileExists (emc_Files c) p))"
    unfolding files by (intro quiet touches_rules)
  show "emc_Client c = Some cl \<Longrightarrow> keeps (settled a c r0) (in_world (hec_PollPairingSession cl q))"
    by (intro quiet cloud)
  show "keeps (settled a c r0) (set_record (fillDefaultPaths dir))"
    by (intro keeps_rules same_paths_fill [OF assms(3)])
  have csr: "keeps (settled a c r0) (device_csr c)"
    unfolding device_csr_def files
  proof (intro keeps_rules)
    fix s and key :: string assume "settled a c r0 s"
    then have "dvr_PrivateKeyPath (emg_record s) \<notin> {claim_cert_path c, claim_key_path c}"
      by (intro own_paths settled_paths)
    then show "keeps (settled a c r0) (in_world (ensureDevicePrivateKey disk_files (emc_Crypto c)
        (dvr_PrivateKeyPath (emg_record s))))"
      by (intro one [of "dvr_PrivateKeyPath (emg_record s)"] cloud) auto
    show "keeps (settled a c r0) (in_world (newCSRPEM (emc_Crypto c) key (dvr_InstallationID (emg_record s))))"
      by (intro quiet cloud)
  qed
  have remove: "keeps (settled a c r0) (in_world (removeIfExists (emc_Files c) p))"
    if "p \<notin> {claim_cert_path c, claim_key_path c}" for p
    unfolding files using that by (intro one [of p] touches_rules) auto
  have secret: "keeps (settled a c r0) (in_world (writeSecretFile (emc_Files c) p t))"
    if "p \<notin> {claim_cert_path c, claim_key_path c}" for p t
    unfolding files using that by (intro one [of p] touches_rules) auto
  show finalize: "keeps (settled a c r0) (finalizeClaimWithPollToken c token now)"
    unfolding finalizeClaimWithPollToken_def claim_confirmed_def
    by (intro keeps_rules quiet cloud save clear remove own_paths settled_paths) auto
  show "keeps (settled a c r0) (provision_device c response token now)"
    unfolding provision_device_def
    by (intro keeps_rules csr quiet cloud save secret finalize own_paths settled_paths) auto
  show "keeps (settled a c r0) (createPairingSession c now)"
    unfolding createPairingSession_def
    by (intro keeps_rules csr quiet cloud save secret own_paths settled_paths) auto
  show "keeps (settled a c r0) (checkClaimedStatus c now)"
    unfolding checkClaimedStatus_def by (intro keeps_rules quiet cloud save) auto
qed

lemma wp_healthy_write:
  "dk_faults (emg_world s) = [] \<Longrightarrow>
   wp (in_world (writeSecretFile disk_files p t)) Q E s =
   Q () (s\<lparr>emg_world := (emg_world s)\<lparr>dk_files := (dk_files (emg_world s))(p \<mapsto> t)\<rparr>\<rparr>)"
  by (simp add: wp_def in_world_def healthy_write)

lemma wp_healthy_remove:
  "dk_faults (emg_world s) = [] \<Longrightarrow> p \<noteq> [] \<Longrightarrow>
   wp (in_world (removeIfExists disk_files p)) Q E s =
   Q () (s\<lparr>emg_world := (emg_world s)\<lparr>dk_files := (dk_files (emg_world s))(p := None)\<rparr>\<rparr>)"
  by (simp add: wp_def in_world_def healthy_remove)

lemma settled_cleanup:
  assumes "emc_Files c = disk_files" and "settled False c r0 s"
  shows "wp (remove_claim_material c) (\<lambda>_. settled True c r0) E s"
  using assms by (simp add: remove_claim_material_def wp_simps settled_def wp_healthy_remove)

lemma settled_approved:
  assumes "emc_Files c = disk_files"
    and "\<And>token now. keeps (settled False c r0) (provision_device c response token now)"
  shows "keeps (settled True c r0) (handleApprovedClaim c response token now)"
proof (rule keepsI, goal_cases)
  case (1 s)
  have "wp (deferE (remove_claim_material c) (provision_device c response token now))
      (\<lambda>_. settled True c r0) (\<lambda>_. settled True c r0) s'" if "settled False c r0 s'" for s'
    unfolding wp_deferE
    by (rule wp_mono [OF keepsD [OF assms(2) that]]) (auto intro: settled_cleanup [OF assms(1)])
  with 1 show ?case
    by (auto simp: handleApprovedClaim_def wp_simps assms(1) settled_def wp_healthy_write)
qed

lemma settled_RunOnce:
  assumes c: "c = enrollment_manager dir config" and "own_claim_paths c r0" and "paths_filled r0"
  shows "keeps (settled True c r0) (RunOnce c)"
proof -
  note rules = keeps_settled [OF assms]
  have "emc_Files c = disk_files" "emc_ConfigDir c = dir" by (simp_all add: c enrollment_manager_def)
  note approved = settled_approved [OF this(1) rules(2)] and dir = this(2)
  have poll: "keeps (settled True c r0) (pollPairingSession c now)" for now
    unfolding pollPairingSession_def by (intro keeps_rules rules approved) auto
  have dispatch: "keeps (settled True c r0) (dispatch c r now)" for r now
    unfolding dispatch_def finalizeClaim_def by (intro keeps_rules rules poll) auto
  have expire: "keeps (settled True c r0) (expire_pending c r now)" for r now
    unfolding expire_pending_def by (intro keeps_rules rules) auto
  have claimed: "keeps (settled True c r0) (claimed_run c r now)" for r now
    unfolding claimed_run_def credential_files_def by (intro keeps_rules rules) auto
  show ?thesis
    unfolding RunOnce_def dir
    by (intro keeps_rules rules dispatch expire claimed)
      (auto intro: same_paths_fill [OF assms(3)])
qed

section \<open>Runs without faults\<close>

lemma manager_world_same [simp]: "s\<lparr>emg_world := emg_world s\<rparr> = s"
  by (cases s) simp

lemma wp_quiet_call:
  "env_faults (emg_world s) = [] \<Longrightarrow>
   wp (in_world (with_fault (\<lambda>w. (Inr (f w), w)))) Q E s = Q (f (emg_world s)) s"
  by (simp add: wp_def in_world_def)

lemma wp_healthy_read:
  "dk_faults (emg_world s) = [] \<Longrightarrow> dk_files (emg_world s) p = Some t \<Longrightarrow>
   wp (in_world (readSecretFile disk_files p)) Q E s = Q t s"
  by (simp add: wp_def in_world_def healthy_read)

lemma wp_healthy_save:
  "dk_faults (emg_world s) = [] \<Longrightarrow> marshal_device_record (emg_record s) = Inr t \<Longrightarrow>
   emc_Files c = disk_files \<Longrightarrow>
   wp (save_record c) Q E s =
   Q () (s\<lparr>emg_world := (emg_world s)\<lparr>dk_files :=
     (dk_files (emg_world s))(emc_DeviceRecordPath c \<mapsto> t @ [CHR 0x0A])\<rparr>\<rparr>)"
  by (simp add: save_record_def wp_simps) (simp add: wp_def in_world_def healthy_save)

lemma wp_healthy_csr:
  assumes "env_faults (emg_world s) = []" and "dk_faults (emg_world s) = []"
    and "dk_files (emg_world s) (dvr_PrivateKeyPath (emg_record s)) = Some (''key:'' @ k)"
  shows "wp (device_csr (enrollment_manager dir config)) Q E s =
    Q (''csr:'' @ k @ '':'' @ dvr_InstallationID (emg_record s)) s"
proof -
  have "wp (in_world (ensureDevicePrivateKey disk_files text_crypto (dvr_PrivateKeyPath (emg_record s)))) Q' E' s =
      Q' k s" for Q' E'
    using assms by (simp add: wp_def in_world_def ensureDevicePrivateKey_def disk_defs op_defs
        text_crypto_def HasPrefix_def)
  moreover have "wp (in_world (newCSRPEM text_crypto k i)) Q' E' s = Q' (''csr:'' @ k @ '':'' @ i) s" for i Q' E'
    using assms(1) by (simp add: wp_def in_world_def newCSRPEM_def text_crypto_def op_defs)
  ultimately show ?thesis
    by (simp add: device_csr_def wp_simps enrollment_manager_def)
qed

lemma manager_config [simp]:
  "emc_Files (enrollment_manager dir config) = disk_files"
  "emc_Client (enrollment_manager dir config) = Some cloud_client"
  "emc_Config (enrollment_manager dir config) = config"
  "emc_ConfigDir (enrollment_manager dir config) = dir"
  "emc_Now (enrollment_manager dir config) = read_clock"
  "emc_Provisioner (enrollment_manager dir config) = (\<lambda>q. with_fault (\<lambda>w. (Inr (enw_provision w q), w)))"
  by (simp_all add: enrollment_manager_def)

lemma cloud_calls [simp]:
  "hec_CreatePairingSession cloud_client = (\<lambda>q. with_fault (\<lambda>w. (Inr (enw_session w q), w)))"
  "hec_PollPairingSession cloud_client = (\<lambda>q. with_fault (\<lambda>w. (Inr (enw_poll w q), w)))"
  "hec_FinalizeClaim cloud_client = (\<lambda>q. with_fault (\<lambda>w. (Inr (enw_finalize w q), w)))"
  by (simp_all add: cloud_client_def)

definition encodable :: "time \<Rightarrow> bool" where
  "encodable t \<longleftrightarrow> \<not> isl (marshal_time t)"

definition record_encodable :: "DeviceRecord \<Rightarrow> bool" where
  "record_encodable r \<longleftrightarrow> encodable (dvr_CreatedAt r) \<and> pred_option encodable (dvr_ClaimedAt r) \<and>
     pred_option encodable (dvr_RevokedAt r) \<and> pred_option encodable (dvr_PairingCodeExpiry r) \<and>
     pred_option encodable (dvr_PollTokenExpiry r)"

text \<open>The answers that take a pending device to claimed.\<close>

definition approving :: "DeviceRecord \<Rightarrow> string \<Rightarrow> time \<Rightarrow> enrollment_world \<Rightarrow> bool" where
  "approving r token now w \<longleftrightarrow>
     (let a = enw_poll w \<lparr>ppr_PairingSessionID = dvr_PairingSessionID r, ppr_PollToken = token\<rparr> in
      plr_Status a = ''approved'' \<and> plr_DeviceID a \<noteq> [] \<and> plr_AWSClaimCertificatePEM a \<noteq> [] \<and>
      plr_AWSClaimPrivateKeyPEM a \<noteq> [] \<and> encodable (plr_ExpiresAt a) \<and>
      (IsZero (plr_AWSClaimExpiresAt a) \<or> After (plr_AWSClaimExpiresAt a) now)) \<and>
     (\<forall>q. fps_CertificatePEM (enw_provision w q) \<noteq> [] \<and> fps_CertificateID (enw_provision w q) \<noteq> []) \<and>
     (\<forall>q. fcs_Status (enw_finalize w q) = ''claimed'' \<and> encodable (fcs_ClaimedAt (enw_finalize w q)))"

lemma marshal_encodable:
  assumes "record_encodable r"
  shows "\<exists>t. marshal_device_record r = Inr t"
proof -
  have field: "\<exists>x. time_field n t = Inr x" if "pred_option encodable t" for n t
    using that by (auto simp: time_field_def encodable_def isl_def split: option.split sum.split)
  obtain created where "marshal_time (dvr_CreatedAt r) = Inr created"
    using assms by (auto simp: record_encodable_def encodable_def isl_def) (metis sum.exhaust)
  moreover obtain a b d e where "time_field ''claimed_at'' (dvr_ClaimedAt r) = Inr a"
    "time_field ''revoked_at'' (dvr_RevokedAt r) = Inr b"
    "time_field ''pairing_code_expiry'' (dvr_PairingCodeExpiry r) = Inr d"
    "time_field ''poll_token_expiry'' (dvr_PollTokenExpiry r) = Inr e"
    using field assms unfolding record_encodable_def by metis
  ultimately show ?thesis by (simp add: marshal_device_record_def)
qed

lemma encodable_records:
  "record_encodable r \<Longrightarrow> encodable (plr_ExpiresAt a) \<Longrightarrow> record_encodable (polled_record a r)"
  "record_encodable (provisioned_record p a r) = record_encodable r"
  "record_encodable r \<Longrightarrow> encodable now \<Longrightarrow> encodable (fcs_ClaimedAt d) \<Longrightarrow>
   record_encodable (cleared (claimed_record d now r))"
  by (simp_all add: record_encodable_def record_defs)

text \<open>The state a confirmation leaves.\<close>

definition confirmed_state ::
  "('w, 'k) EnrollmentManagerConfig \<Rightarrow> string \<Rightarrow> FinalizeClaimResponse \<Rightarrow> time \<Rightarrow>
   enrollment_world EnrollmentManager \<Rightarrow> enrollment_world EnrollmentManager" where
  "confirmed_state c t d now s =
     s\<lparr>emg_record := cleared (claimed_record d now (emg_record s)), emg_pairingCode := [],
       emg_world := (emg_world s)\<lparr>dk_files := (dk_files (emg_world s))
         (dvr_PollTokenPath (emg_record s) := None, emc_DeviceRecordPath c \<mapsto> t @ [CHR 0x0A])\<rparr>\<rparr>"

lemma claimed_paths [simp]:
  "dvr_PollTokenPath (cleared (claimed_record d now r)) = dvr_PollTokenPath r"
  by (simp add: record_defs)

lemma wp_confirmed:
  assumes "c = enrollment_manager dir config" and "homeSignalConfigured config"
    and "env_faults (emg_world s) = []" and "dk_faults (emg_world s) = []"
    and "dvr_PollTokenPath (emg_record s) \<noteq> []"
    and "enw_finalize (emg_world s) (finalize_request (emg_record s) token) = d"
    and "fcs_Status d = ''claimed''"
    and "marshal_device_record (cleared (claimed_record d now (emg_record s))) = Inr t"
  shows "wp (finalizeClaimWithPollToken c token now) Q E s = Q () (confirmed_state c t d now s)"
  using assms by (simp add: finalizeClaimWithPollToken_def when_client_def wp_simps wp_quiet_call
      claim_confirmed_def clearPending_def wp_healthy_remove wp_healthy_save confirmed_state_def)

definition own_files :: "('w, 'k) EnrollmentManagerConfig \<Rightarrow> DeviceRecord \<Rightarrow> bool" where
  "own_files c r \<longleftrightarrow> distinct [emc_DeviceRecordPath c, dvr_PrivateKeyPath r, dvr_CertificatePath r,
     dvr_PollTokenPath r, claim_cert_path c, claim_key_path c]"

text \<open>What a completed claim leaves in the record and on the disk.\<close>

definition claim_completed :: "('w, 'k) EnrollmentManagerConfig \<Rightarrow> enrollment_world EnrollmentManager \<Rightarrow> bool" where
  "claim_completed c s \<longleftrightarrow> (let r = emg_record s; files = dk_files (emg_world s) in
     dvr_ClaimState r = ClaimStateClaimed \<and> dvr_DeviceID r \<noteq> [] \<and> dvr_ClaimedAt r \<noteq> None \<and>
     (\<exists>t. marshal_device_record r = Inr t \<and> files (emc_DeviceRecordPath c) = Some (t @ [CHR 0x0A])) \<and>
     files (dvr_CertificatePath r) \<noteq> None \<and> files (dvr_PrivateKeyPath r) \<noteq> None \<and>
     files (dvr_PollTokenPath r) = None \<and>
     files (claim_cert_path c) = None \<and> files (claim_key_path c) = None)"

lemma provisioned_paths [simp]:
  "dvr_PollTokenPath (provisioned_record p a r) = dvr_PollTokenPath r"
  "dvr_PrivateKeyPath (provisioned_record p a r) = dvr_PrivateKeyPath r"
  "dvr_CertificatePath (provisioned_record p a r) = dvr_CertificatePath r"
  "dvr_PollTokenPath (polled_record a r) = dvr_PollTokenPath r"
  "dvr_PrivateKeyPath (polled_record a r) = dvr_PrivateKeyPath r"
  "dvr_CertificatePath (polled_record a r) = dvr_CertificatePath r"
  "dvr_PrivateKeyPath (cleared (claimed_record d now r)) = dvr_PrivateKeyPath r"
  "dvr_CertificatePath (cleared (claimed_record d now r)) = dvr_CertificatePath r"
  "dvr_ClaimState (cleared (claimed_record d now r)) = ClaimStateClaimed"
  "dvr_ClaimedAt (cleared (claimed_record d now r)) =
     Some (if IsZero (UTC (fcs_ClaimedAt d)) then UTC now else UTC (fcs_ClaimedAt d))"
  by (simp_all add: record_defs)

lemma claimed_device:
  "plr_DeviceID a \<noteq> [] \<Longrightarrow> dvr_DeviceID (cleared (claimed_record d now (provisioned_record p a r))) \<noteq> []"
  by (simp add: record_defs firstNonEmpty_def)

lemma wp_provisioned:
  assumes c: "c = enrollment_manager dir config" and config: "homeSignalConfigured config"
    and env: "env_faults (emg_world s) = []" "dk_faults (emg_world s) = []"
    and key: "dk_files (emg_world s) (dvr_PrivateKeyPath (emg_record s)) = Some (''key:'' @ k)"
    and paths: "own_files c (emg_record s)" "dvr_PollTokenPath (emg_record s) \<noteq> []"
    and provision: "\<forall>q. fps_CertificatePEM (enw_provision (emg_world s) q) \<noteq> [] \<and>
      fps_CertificateID (enw_provision (emg_world s) q) \<noteq> []"
    and finalize: "\<forall>q. fcs_Status (enw_finalize (emg_world s) q) = ''claimed'' \<and>
      encodable (fcs_ClaimedAt (enw_finalize (emg_world s) q))"
    and encodable: "record_encodable (emg_record s)" "encodable now" and device: "plr_DeviceID a \<noteq> []"
  shows "wp (deferE (remove_claim_material c) (provision_device c a token now))
    (\<lambda>_. claim_completed c) (\<lambda>_ _. False) s"
proof -
  let ?r = "emg_record s" and ?w = "emg_world s"
  let ?p = "enw_provision ?w (provisioning_request c ?r a (''csr:'' @ k @ '':'' @ dvr_InstallationID ?r))"
  let ?r' = "provisioned_record ?p a ?r"
  let ?d = "enw_finalize ?w (finalize_request ?r' token)"
  obtain t1 where t1: "marshal_device_record ?r' = Inr t1"
    using marshal_encodable encodable(1) encodable_records(2) by blast
  obtain t2 where t2: "marshal_device_record (cleared (claimed_record ?d now ?r')) = Inr t2"
    using marshal_encodable encodable_records(2,3) encodable finalize by metis
  have confirmed: "wp (finalizeClaimWithPollToken c token now) Q E s' = Q () (confirmed_state c t2 ?d now s')"
    if "emg_record s' = ?r'" "env_faults (emg_world s') = []" "dk_faults (emg_world s') = []"
      "enw_finalize (emg_world s') = enw_finalize ?w" for s' Q E
    by (rule wp_confirmed [OF c config]) (use that t2 finalize paths(2) in simp_all)
  show ?thesis
    using paths env key provision t1 t2 device
    by (simp add: wp_deferE provision_device_def wp_simps c wp_healthy_csr [OF env key] wp_quiet_call
        wp_healthy_write wp_healthy_save confirmed [unfolded c] confirmed_state_def
        remove_claim_material_def wp_healthy_remove claim_completed_def claimed_device own_files_def) auto
qed

lemma wp_claimed_from_pending:
  assumes c: "c = enrollment_manager dir config" and r: "emg_record s = r" "dvr_PollTokenPath r \<noteq> []"
    and config: "homeSignalConfigured config" "awsIoTConfigured config"
    and env: "env_faults (emg_world s) = []" "dk_faults (emg_world s) = []"
    and key: "dk_files (emg_world s) (dvr_PrivateKeyPath r) = Some (''key:'' @ k)"
    and token: "dk_files (emg_world s) (dvr_PollTokenPath r) = Some token"
    and own: "own_files c r" and answers: "approving r token now (emg_world s)"
    and encodable: "record_encodable r" "encodable now"
  shows "wp (pollPairingSession c now) (\<lambda>_. claim_completed c) (\<lambda>_ _. False) s"
proof -
  let ?a = "enw_poll (emg_world s) \<lparr>ppr_PairingSessionID = dvr_PairingSessionID r, ppr_PollToken = token\<rparr>"
  have a: "plr_Status ?a = ''approved''" "plr_DeviceID ?a \<noteq> []" "plr_AWSClaimCertificatePEM ?a \<noteq> []"
    "plr_AWSClaimPrivateKeyPEM ?a \<noteq> []" "encodable (plr_ExpiresAt ?a)"
    "IsZero (plr_AWSClaimExpiresAt ?a) \<or> After (plr_AWSClaimExpiresAt ?a) now"
    using answers by (simp_all add: approving_def Let_def)
  have provisioned: "wp (deferE (remove_claim_material c) (provision_device c ?a token now))
      (\<lambda>_. claim_completed c) (\<lambda>_ _. False) s'"
    if "emg_record s' = polled_record ?a r" "env_faults (emg_world s') = []" "dk_faults (emg_world s') = []"
      "dk_files (emg_world s') (dvr_PrivateKeyPath r) = Some (''key:'' @ k)"
      "enw_provision (emg_world s') = enw_provision (emg_world s)"
      "enw_finalize (emg_world s') = enw_finalize (emg_world s)" for s'
    by (rule wp_provisioned [OF c config(1)])
      (use that r(2) own answers a encodable in \<open>simp_all add: approving_def own_files_def encodable_records\<close>)
  have tok: "wp (pollToken c) Q E s = Q token s" for Q E
    using env(2) token r(1) by (simp add: pollToken_def wp_simps c wp_healthy_read)
  show ?thesis
    using a env key token config own r
    by (simp add: pollPairingSession_def when_client_def wp_simps c tok [unfolded c] wp_quiet_call
        handleApprovedClaim_def wp_healthy_write provisioned [unfolded c] own_files_def del: wp_deferE) auto
qed

definition prepared_record :: "DeviceRecord \<Rightarrow> bool" where
  "prepared_record r \<longleftrightarrow> paths_filled r \<and> dvr_SchemaVersion r \<noteq> 0 \<and> \<not> IsZero (dvr_CreatedAt r)"

definition ticked :: "'x env_scheme EnrollmentManager \<Rightarrow> 'x env_scheme EnrollmentManager" where
  "ticked s = s\<lparr>emg_degradedReasons := [], emg_world := snd (read_clock (emg_world s))\<rparr>"

lemma ticked_fields [simp]:
  "emg_record (ticked s) = emg_record s" "env_faults (emg_world (ticked s)) = env_faults (emg_world s)"
  by (simp_all add: ticked_def read_clock_def split: list.split)

lemma ticked_world [simp]:
  fixes s :: "enrollment_world EnrollmentManager"
  shows "dk_files (emg_world (ticked s)) = dk_files (emg_world s)"
    and "dk_faults (emg_world (ticked s)) = dk_faults (emg_world s)"
    and "enw_poll (emg_world (ticked s)) = enw_poll (emg_world s)"
    and "enw_provision (emg_world (ticked s)) = enw_provision (emg_world s)"
    and "enw_finalize (emg_world (ticked s)) = enw_finalize (emg_world s)"
  by (simp_all add: ticked_def read_clock_def split: list.split)

lemma wp_RunOnce_pending:
  assumes "emg_record s = r" and "prepared_record r" and "dvr_ClaimState r = ClaimStatePairingPending"
    and "dvr_PendingCertificateID r \<noteq> [] \<or> \<not> pendingExpired r (env_clock (emg_world s))"
  shows "wp (RunOnce (enrollment_manager dir config)) Q E s =
    wp (if dvr_PendingCertificateID r \<noteq> []
        then finalizeClaim (enrollment_manager dir config) (env_clock (emg_world s))
        else pollPairingSession (enrollment_manager dir config) (env_clock (emg_world s))) Q E (ticked s)"
proof -
  have now: "wp (manager_now (enrollment_manager dir config)) Q' E' u =
      Q' (env_clock (emg_world u)) (u\<lparr>emg_world := snd (read_clock (emg_world u))\<rparr>)" for Q' E' u
    by (simp add: manager_now_def wp_simps) (simp add: wp_def in_world_def read_clock_def liftE_def)
  have same: "normalized t (fillDefaultPaths d r) = r" for t d
    using assms(2,3) by (simp add: prepared_record_def enrollment.prepared_same)
  have r: "s\<lparr>emg_degradedReasons := [], emg_world := w', emg_record := r\<rparr> =
      s\<lparr>emg_degradedReasons := [], emg_world := w'\<rparr>" for w'
    using assms(1) by (cases s) simp
  show ?thesis
    using assms by (auto simp: RunOnce_def wp_simps now same r ticked_def expire_pending_def dispatch_def)
qed

lemma stranded_times:
  assumes "enrollment.stranded s"
  shows "enrollment.stranded (run_times (enrollment_manager dir config) n s) \<and>
    emg_record (run_times (enrollment_manager dir config) n s) = emg_record s"
  using assms
proof (induction n arbitrary: s)
  case (Suc n)
  obtain e s' where "RunOnce (enrollment_manager dir config) s = (Inl e, s')"
    "emg_record s' = emg_record s" "enrollment.stranded s'"
    using enrollment.stranded_RunOnce [OF Suc.prems] by blast
  then show ?case using Suc.IH [of s'] by (simp add: run_once_def)
qed simp

end
