(* ===== verification/Enrollment_Properties.thy ===== *)
theory Enrollment_Properties
  imports Enrollment_Claims
begin

text \<open>
  The properties of the enrollment, over sequences of runs, each with a witness at a concrete agent.
\<close>

section \<open>A concrete agent\<close>

definition demo_config :: EnrollmentConfig where
  "demo_config = \<lparr>enc_HomeSignalAPIBaseURL = ''https://api'', enc_AWSIoTEndpoint = ''iot'',
     enc_AWSRegion = ''us-east-1'', enc_FleetProvisioningTemplateName = ''t'',
     enc_HomeSignalAPISource = ''default'', enc_AWSIoTEndpointSource = ''option''\<rparr>"

definition demo_agent :: "(enrollment_world, string) EnrollmentManagerConfig" where
  "demo_agent = enrollment_manager ''/config'' demo_config"

definition pending_record :: DeviceRecord where
  "pending_record = empty_device_record
     \<lparr>dvr_SchemaVersion := 2, dvr_InstallationID := ''i'', dvr_CreatedAt := 5,
      dvr_ClaimState := ClaimStatePairingPending, dvr_CertificatePath := ''/c'',
      dvr_PrivateKeyPath := ''/k'', dvr_PairingSessionID := ''p'', dvr_PairingCodeExpiry := Some 100,
      dvr_PollTokenPath := ''/t'', dvr_PollTokenExpiry := Some 100\<rparr>"

definition demo_files :: "string \<Rightarrow> string option" where
  "demo_files = [''/k'' \<mapsto> ''key:k'', ''/t'' \<mapsto> ''token'']"

definition demo_world :: enrollment_world where
  "demo_world = \<lparr>env_faults = [], env_clock = 10, env_ticks = [], env_ids = [],
     dk_files = demo_files, dk_faults = [],
     enw_session = (\<lambda>q. \<lparr>cps_PairingSessionID = ''p'', cps_PairingCode = ''code'', cps_ExpiresAt = 100,
       cps_PollIntervalSeconds = 10, cps_PollToken = ''token'', cps_PollTokenExpiresAt = 100\<rparr>),
     enw_poll = (\<lambda>q. \<lparr>plr_Status = ''approved'', plr_PairingCode = [], plr_ExpiresAt = 100,
       plr_DeviceID = ''d'', plr_IoTThingName = ''thing'', plr_AWSClaimCertificatePEM = ''cert'',
       plr_AWSClaimPrivateKeyPEM = ''claimkey'', plr_AWSClaimExpiresAt = 100,
       plr_FleetProvisioningTemplate = [], plr_FleetProvisioningParameters = []\<rparr>),
     enw_finalize = (\<lambda>q. \<lparr>fcs_Status = ''claimed'', fcs_DeviceID = ''d'', fcs_IoTThingName = ''thing'',
       fcs_ClaimedAt = 20, fcs_Reason = []\<rparr>),
     enw_status = (\<lambda>i. \<lparr>dss_Status = ''ok'', dss_Reason = []\<rparr>),
     enw_provision = (\<lambda>q. \<lparr>fps_DeviceID = [], fps_IoTThingName = [], fps_CertificateID = ''certificate'',
       fps_CertificateARN = ''arn'', fps_CertificatePEM = ''pem''\<rparr>)\<rparr>"

definition demo_manager :: "DeviceRecord \<Rightarrow> enrollment_world \<Rightarrow> enrollment_world EnrollmentManager" where
  "demo_manager r w = \<lparr>emg_record = r, emg_pairingCode = [], emg_degradedReasons = [], emg_world = w\<rparr>"

lemma demo_manager_fields [simp]:
  "emg_record (demo_manager r w) = r" "emg_world (demo_manager r w) = w"
  by (simp_all add: demo_manager_def)

lemma demo_world_fields [simp]:
  "env_faults demo_world = []" "dk_faults demo_world = []" "env_clock demo_world = 10"
  "dk_files demo_world ''/k'' = Some ''key:k''" "dk_files demo_world ''/t'' = Some ''token''"
  by (simp_all add: demo_world_def demo_files_def)

lemma demo_paths:
  "filepath_Join [''/config'', ''device.json''] = ''/config/device.json''"
  "claim_cert_path (enrollment_manager ''/config'' config) = ''/config/secrets/aws_claim.crt''"
  "claim_key_path (enrollment_manager ''/config'' config) = ''/config/secrets/aws_claim.key''"
  unfolding claim_cert_path_def claim_key_path_def enrollment_manager_def
    EnrollmentManagerConfig.select_convs by code_simp+

lemma demo_record_path:
  "emc_DeviceRecordPath (enrollment_manager ''/config'' config) = ''/config/device.json''"
  by (simp add: enrollment_manager_def demo_paths)

lemma demo_encodable: "encodable 5" "encodable 10" "encodable 20" "encodable 100"
  by code_simp+

lemma demo_approving: "approving pending_record ''token'' 10 demo_world"
  using demo_encodable by (simp add: approving_def demo_world_def)

lemma demo_prepared: "prepared_record pending_record" "record_encodable pending_record"
  "own_files (enrollment_manager ''/config'' config) pending_record"
  "own_claim_paths (enrollment_manager ''/config'' config) pending_record"
  using demo_encodable
  by (simp_all add: prepared_record_def paths_filled_def pending_record_def IsZero_def zero_time_def
      record_encodable_def empty_device_record_def own_files_def own_claim_paths_def demo_paths demo_record_path)

lemma demo_pending:
  "dvr_ClaimState pending_record = ClaimStatePairingPending" "dvr_PendingCertificateID pending_record = []"
  "dvr_PrivateKeyPath pending_record = ''/k''" "dvr_PollTokenPath pending_record = ''/t''"
  "\<not> pendingExpired pending_record 10" "paths_filled pending_record"
  by (simp_all add: pending_record_def empty_device_record_def pendingExpired_def paths_filled_def)

lemma demo_configured: "homeSignalConfigured demo_config" "awsIoTConfigured demo_config"
  by (simp_all add: demo_config_def homeSignalConfigured_def awsIoTConfigured_def)

section \<open>Properties\<close>

text \<open>C4: Every run of the enrollment manager, whatever the cloud, the provisioner, the cryptography and
  the file system do, changes the device record by steps of the abstract claim machine only.\<close>

theorem enrollment_refines_machine:
  "claim_steps (emg_record s) (emg_record (run_worlds c ws s))"
  by (rule run_worlds_steps)

text \<open>C8: From a new record on, whatever world each run meets, the record is of one of four shapes. An
  unclaimed device has no pairing session, no pending data and neither a claim nor a revocation time. A
  pending one has the id, the code expiry, the poll token expiry and the poll interval of its session,
  and of the certificate it waits to have confirmed nothing, or its id and the device id; it too has
  neither time. A claimed one has its device id and claim time, no pending data and no revocation time.
  A revoked one has its revocation time and no certificate that waits. The installation id stays.\<close>

theorem enrollment_record_invariant:
  "let r = emg_record (run_worlds c ws (NewEnrollmentManager c (new_device_record i now) w));
       uncertified = (dvr_PendingDeviceID r = [] \<and> dvr_PendingIoTThingName r = [] \<and>
         dvr_PendingCertificateID r = [] \<and> dvr_PendingCertificateARN r = []);
       no_session = (dvr_PairingSessionID r = [] \<and> dvr_PairingCodeExpiry r = None \<and>
         dvr_PollTokenExpiry r = None \<and> dvr_PollIntervalSeconds r = 0)
   in dvr_InstallationID r = i \<and>
    (dvr_ClaimState r = ClaimStateUnclaimed \<and> no_session \<and> uncertified \<and>
       dvr_ClaimedAt r = None \<and> dvr_RevokedAt r = None \<or>
     dvr_ClaimState r = ClaimStatePairingPending \<and> dvr_PairingSessionID r \<noteq> [] \<and>
       dvr_PairingCodeExpiry r \<noteq> None \<and> dvr_PollTokenExpiry r \<noteq> None \<and> 0 < dvr_PollIntervalSeconds r \<and>
       (uncertified \<or> dvr_PendingCertificateID r \<noteq> [] \<and> dvr_PendingDeviceID r \<noteq> []) \<and>
       dvr_ClaimedAt r = None \<and> dvr_RevokedAt r = None \<or>
     dvr_ClaimState r = ClaimStateClaimed \<and> no_session \<and> uncertified \<and>
       dvr_DeviceID r \<noteq> [] \<and> dvr_ClaimedAt r \<noteq> None \<and> dvr_RevokedAt r = None \<or>
     dvr_ClaimState r = ClaimStateRevoked \<and> dvr_RevokedAt r \<noteq> None \<and> uncertified)"
proof -
  let ?s = "run_worlds c ws (NewEnrollmentManager c (new_device_record i now) w)"
  let ?r0 = "fillDefaultPaths (emc_ConfigDir c) (new_device_record i now)"
  have "claim_inv ?r0" "dvr_InstallationID ?r0 = i"
    using new_device_record_inv [of i now]
    by (simp_all add: claim_inv_defs fillDefaultPaths_def new_device_record_def)
  moreover have "claim_steps ?r0 (emg_record ?s)"
    using run_worlds_steps [of "NewEnrollmentManager c (new_device_record i now) w" c ws]
    by (simp add: NewEnrollmentManager_def)
  ultimately show ?thesis
    using claim_steps_inv [of ?r0 "emg_record ?s"] claim_steps_identity [of ?r0 "emg_record ?s"]
    unfolding claim_inv_defs Let_def by argo
qed

text \<open>A revoked device stays revoked, with its revocation time and its device id, in all later runs.\<close>

theorem revoked_device_stays_revoked:
  assumes "dvr_ClaimState (emg_record s) = ClaimStateRevoked"
  shows "dvr_ClaimState (emg_record (run_worlds c ws s)) = ClaimStateRevoked \<and>
    dvr_RevokedAt (emg_record (run_worlds c ws s)) = dvr_RevokedAt (emg_record s) \<and>
    dvr_DeviceID (emg_record (run_worlds c ws s)) = dvr_DeviceID (emg_record s)"
  by (rule claim_steps_revoked [OF run_worlds_steps assms])

theorem revoked_device_stays_revoked_witness:
  "dvr_ClaimState (emg_record (run_worlds demo_agent [demo_world, demo_world]
     (demo_manager (revoked 7 pending_record) demo_world))) = ClaimStateRevoked"
  using revoked_device_stays_revoked [of "demo_manager (revoked 7 pending_record) demo_world" demo_agent
      "[demo_world, demo_world]"]
  by (simp add: revoked_def)

text \<open>A device that is not claimed is claimed only by a confirmed finalization: while the cloud
  confirms none, it never becomes claimed, whatever else is answered.\<close>

theorem claimed_only_by_confirmation:
  assumes "\<And>client q w confirmed w'. emc_Client c = Some client \<Longrightarrow>
      hec_FinalizeClaim client q w = (Inr confirmed, w') \<Longrightarrow>
      fcs_Status confirmed \<notin> set [''claimed'', ''CLAIMED'']"
    and "dvr_ClaimState (emg_record s) \<noteq> ClaimStateClaimed"
  shows "dvr_ClaimState (emg_record (run_worlds c ws s)) \<noteq> ClaimStateClaimed"
proof -
  have "keeps not_claimed (RunOnce c)" by (rule unconfirmed_RunOnce) (rule assms(1))
  then have "not_claimed (run_worlds c ws s)"
    by (rule keeps_run_worlds) (use assms(2) in \<open>simp_all add: not_claimed_def\<close>)
  then show ?thesis by (simp add: not_claimed_def)
qed

theorem claimed_only_by_confirmation_witness:
  "dvr_ClaimState (emg_record (run_worlds
     (demo_agent\<lparr>emc_Client := Some (cloud_client\<lparr>hec_FinalizeClaim := \<lambda>q.
        ret \<lparr>fcs_Status = ''pending'', fcs_DeviceID = [], fcs_IoTThingName = [], fcs_ClaimedAt = 0,
             fcs_Reason = []\<rparr>\<rparr>)\<rparr>)
     [demo_world, demo_world] (demo_manager pending_record demo_world))) \<noteq> ClaimStateClaimed"
  by (rule claimed_only_by_confirmation)
    (auto simp: ret_def demo_pending claim_states)

text \<open>A run writes the device record, the certificate, the poll token and the temporary claim
  material only: every other file stays as it is, and so does a private key that exists.\<close>

theorem enrollment_writes_only_its_files:
  assumes "paths_filled (emg_record s)"
    and "q \<notin> {emc_DeviceRecordPath (enrollment_manager dir config), dvr_CertificatePath (emg_record s),
      dvr_PollTokenPath (emg_record s), claim_cert_path (enrollment_manager dir config),
      claim_key_path (enrollment_manager dir config)}"
    and "q \<noteq> dvr_PrivateKeyPath (emg_record s) \<or> dk_files (emg_world s) q \<noteq> None"
  shows "dk_files (emg_world (run_once (enrollment_manager dir config) s)) q = dk_files (emg_world s) q"
proof -
  let ?framed = "enrollment.framed dir config (emg_record s) (emg_world s)"
  have "?framed s" by (simp add: enrollment.framed_def)
  then have "?framed (run_once (enrollment_manager dir config) s)"
    using keepsD [OF enrollment.framed_RunOnce [OF assms(1)]] unfolding run_once_def by (blast intro: wp_worldD)
  then show ?thesis using assms(2,3) by (simp add: enrollment.framed_def enrollment.written_paths_def)
qed

theorem enrollment_writes_only_its_files_witness:
  "dk_files (emg_world (run_once (enrollment_manager ''/config'' demo_config)
     (demo_manager pending_record demo_world))) ''/k'' = Some ''key:k''"
  using enrollment_writes_only_its_files [of "demo_manager pending_record demo_world" "''/k''" "''/config''" demo_config]
  by (simp add: demo_pending demo_record_path demo_paths) (simp add: pending_record_def)

text \<open>C19: While the disk has no faults, no temporary claim material is left on it after a run.\<close>

theorem claim_material_removed:
  assumes "own_claim_paths (enrollment_manager dir config) (emg_record s)"
    and "paths_filled (emg_record s)" and "dk_faults (emg_world s) = []"
    and "dk_files (emg_world s) (claim_cert_path (enrollment_manager dir config)) = None"
    and "dk_files (emg_world s) (claim_key_path (enrollment_manager dir config)) = None"
    and "s' = run_times (enrollment_manager dir config) n s"
  shows "dk_files (emg_world s') (claim_cert_path (enrollment_manager dir config)) = None \<and>
    dk_files (emg_world s') (claim_key_path (enrollment_manager dir config)) = None"
proof -
  let ?c = "enrollment_manager dir config"
  let ?settled = "settled True ?c (emg_record s)"
  have "?settled (run_times ?c n u)" if "?settled u" for u
    using that
  proof (induction n arbitrary: u)
    case (Suc n)
    have "?settled (run_once ?c u)"
      using keepsD [OF settled_RunOnce [OF refl assms(1,2)] Suc.prems] unfolding run_once_def
      by (rule wp_worldD)
    then show ?case using Suc.IH by simp
  qed simp
  moreover have "?settled s" using assms(3-5) by (simp add: settled_def)
  ultimately show ?thesis by (simp add: assms(6) settled_def)
qed

theorem claim_material_removed_witness:
  "dk_files (emg_world (run_times (enrollment_manager ''/config'' demo_config) 2
     (demo_manager pending_record demo_world))) ''/config/secrets/aws_claim.key'' = None"
  using claim_material_removed [of "''/config''" demo_config "demo_manager pending_record demo_world"
      "run_times (enrollment_manager ''/config'' demo_config) 2 (demo_manager pending_record demo_world)" 2]
  by (simp add: demo_prepared demo_pending demo_paths) (simp add: demo_world_def demo_files_def)

text \<open>C33: Without faults, a pending device whose claim the cloud approves, provisions and confirms is
  claimed by its next run: the record is on the disk, the certificate and the key are, and the poll
  token and the claim material are gone.\<close>

theorem approved_claim_completes:
  assumes "emg_record s = r" and "prepared_record r" and "dvr_ClaimState r = ClaimStatePairingPending"
    and "dvr_PendingCertificateID r = []" and "\<not> pendingExpired r (env_clock (emg_world s))"
    and "homeSignalConfigured config" and "awsIoTConfigured config"
    and "own_files (enrollment_manager dir config) r"
    and "env_faults (emg_world s) = []" and "dk_faults (emg_world s) = []"
    and "dk_files (emg_world s) (dvr_PrivateKeyPath r) = Some (''key:'' @ k)"
    and "dk_files (emg_world s) (dvr_PollTokenPath r) = Some token"
    and "approving r token (env_clock (emg_world s)) (emg_world s)"
    and "record_encodable r" and "encodable (env_clock (emg_world s))"
  shows "\<exists>s'. RunOnce (enrollment_manager dir config) s = (Inr (), s') \<and>
    claim_completed (enrollment_manager dir config) s'"
proof -
  have "approving r token (env_clock (emg_world s)) (emg_world (ticked s))"
    using assms(13) by (simp add: approving_def)
  then have "wp (RunOnce (enrollment_manager dir config))
      (\<lambda>_. claim_completed (enrollment_manager dir config)) (\<lambda>_ _. False) s"
    using assms
    by (subst wp_RunOnce_pending [of s r])
      (auto intro!: wp_claimed_from_pending simp: prepared_record_def paths_filled_def)
  then show ?thesis by (auto simp: wp_def split: prod.splits sum.splits)
qed

theorem approved_claim_completes_witness:
  "\<exists>s'. RunOnce (enrollment_manager ''/config'' demo_config) (demo_manager pending_record demo_world) = (Inr (), s') \<and>
    claim_completed (enrollment_manager ''/config'' demo_config) s'"
  by (rule approved_claim_completes [where r = pending_record and k = "''k''" and token = "''token''"])
    (simp_all add: demo_prepared demo_pending demo_configured demo_approving demo_encodable)

text \<open>The removal of the claim material is deferred only after both files are written: when the
  claim key cannot be stored the run fails and leaves the claim certificate on the disk.\<close>

theorem claim_certificate_left_behind:
  assumes "emg_record s = r" and "prepared_record r" and "dvr_ClaimState r = ClaimStatePairingPending"
    and "dvr_PendingCertificateID r = []" and "\<not> pendingExpired r (env_clock (emg_world s))"
    and "homeSignalConfigured config" and "awsIoTConfigured config"
    and "env_faults (emg_world s) = []"
    and "dk_faults (emg_world s) = [NoFault, NoFault, NoFault, NoFault, Refused]"
    and "dk_files (emg_world s) (dvr_PollTokenPath r) = Some token"
    and "approving r token (env_clock (emg_world s)) (emg_world s)"
  shows "\<exists>e s' pem. RunOnce (enrollment_manager dir config) s = (Inl e, s') \<and>
    dk_files (emg_world s') (claim_cert_path (enrollment_manager dir config)) = Some pem \<and> pem \<noteq> [] \<and>
    dvr_ClaimState (emg_record s') = ClaimStatePairingPending"
proof -
  let ?c = "enrollment_manager dir config"
  let ?a = "enw_poll (emg_world s) \<lparr>ppr_PairingSessionID = dvr_PairingSessionID r, ppr_PollToken = token\<rparr>"
  have a: "plr_Status ?a = ''approved''" "plr_DeviceID ?a \<noteq> []" "plr_AWSClaimCertificatePEM ?a \<noteq> []"
    "plr_AWSClaimPrivateKeyPEM ?a \<noteq> []"
    "IsZero (plr_AWSClaimExpiresAt ?a) \<or> After (plr_AWSClaimExpiresAt ?a) (env_clock (emg_world s))"
    using assms(11) by (simp_all add: approving_def Let_def)
  have tok: "wp (pollToken ?c) Q E u = Q token (u\<lparr>emg_world := (emg_world u)\<lparr>dk_faults := fs\<rparr>\<rparr>)"
    if "emg_record u = r" "dk_files (emg_world u) (dvr_PollTokenPath r) = Some token"
      "dk_faults (emg_world u) = NoFault # fs" for Q E u fs
    using that by (simp add: pollToken_def wp_simps)
      (simp add: wp_def in_world_def readSecretFile_def disk_defs op_defs)
  have cert: "wp (in_world (writeSecretFile disk_files p t)) Q E u =
      Q () (u\<lparr>emg_world := (emg_world u)\<lparr>dk_files := (dk_files (emg_world u))(p \<mapsto> t), dk_faults := fs\<rparr>\<rparr>)"
    if "dk_faults (emg_world u) = NoFault # NoFault # NoFault # fs" for p t Q E u fs
    using that by (simp add: wp_def in_world_def writeSecretFile_def disk_defs op_defs)
  have key: "wp (in_world (writeSecretFile disk_files p t)) Q E u =
      E (Wrapf ''create secret directory'' injected_fault)
        (u\<lparr>emg_world := (emg_world u)\<lparr>dk_faults := fs\<rparr>\<rparr>)"
    if "dk_faults (emg_world u) = Refused # fs" for p t Q E u fs
    using that by (simp add: wp_def in_world_def writeSecretFile_def disk_defs op_defs)
  have "wp (pollPairingSession ?c (env_clock (emg_world s))) (\<lambda>_ _. False)
      (\<lambda>e s'. \<exists>pem. dk_files (emg_world s') (claim_cert_path ?c) = Some pem \<and> pem \<noteq> [] \<and>
        dvr_ClaimState (emg_record s') = ClaimStatePairingPending) (ticked s)"
    using a assms(1,3,6-10)
    by (auto simp: pollPairingSession_def when_client_def wp_simps tok wp_quiet_call
        handleApprovedClaim_def cert key polled_record_def)
  then have "wp (RunOnce ?c) (\<lambda>_ _. False)
      (\<lambda>e s'. \<exists>pem. dk_files (emg_world s') (claim_cert_path ?c) = Some pem \<and> pem \<noteq> [] \<and>
        dvr_ClaimState (emg_record s') = ClaimStatePairingPending) s"
    using assms(1-5) by (subst wp_RunOnce_pending [of s r]) simp_all
  then show ?thesis by (auto simp: wp_def split: prod.splits sum.splits)
qed

theorem claim_certificate_left_behind_witness:
  "\<exists>e s' pem. RunOnce (enrollment_manager ''/config'' demo_config)
      (demo_manager pending_record (demo_world\<lparr>dk_faults := [NoFault, NoFault, NoFault, NoFault, Refused]\<rparr>)) = (Inl e, s') \<and>
    dk_files (emg_world s') (claim_cert_path (enrollment_manager ''/config'' demo_config)) = Some pem \<and> pem \<noteq> [] \<and>
    dvr_ClaimState (emg_record s') = ClaimStatePairingPending"
  by (rule claim_certificate_left_behind [where r = pending_record and token = "''token''"])
    (use demo_approving in \<open>simp_all add: demo_prepared demo_pending demo_configured approving_def\<close>)

text \<open>A confirmed claim removes the poll token before it saves the record. When the save fails and
  the agent restarts, it finds a provisioned but unclaimed record without a token: it stays pending
  for ever and every run fails.\<close>

theorem unsaved_claim_strands_device:
  assumes "emg_record s = r" and "prepared_record r" and "dvr_ClaimState r = ClaimStatePairingPending"
    and "dvr_PendingCertificateID r \<noteq> []" and "dvr_InstallationID r \<noteq> []"
    and "dvr_SchemaVersion r = deviceRecordSchemaVersion" and "homeSignalConfigured config"
    and "env_faults (emg_world s) = []" and "dk_faults (emg_world s) = [NoFault, NoFault, Refused]"
    and "dk_files (emg_world s) (dvr_PollTokenPath r) = Some token"
    and "dvr_PollTokenPath r \<noteq> emc_DeviceRecordPath (enrollment_manager dir config)"
    and "dk_files (emg_world s) (emc_DeviceRecordPath (enrollment_manager dir config)) = Some saved"
    and "dec_DeviceRecord saved = Some r"
    and "\<forall>q. fcs_Status (enw_finalize (emg_world s) q) = ''claimed''"
  shows "\<exists>e s' w. RunOnce (enrollment_manager dir config) s = (Inl e, s') \<and>
    dvr_ClaimState (emg_record s') = ClaimStateClaimed \<and>
    loadDeviceRecord disk_files next_id (emc_DeviceRecordPath (enrollment_manager dir config)) now
      (emg_world s') = (Inr r, w) \<and>
    (\<forall>n. let u = run_times (enrollment_manager dir config) n
                   (NewEnrollmentManager (enrollment_manager dir config) r w) in
       isl (fst (RunOnce (enrollment_manager dir config) u)) \<and>
       dvr_ClaimState (emg_record u) = ClaimStatePairingPending)"
proof -
  let ?c = "enrollment_manager dir config"
  have tok: "wp (pollToken ?c) Q E u = Q token (u\<lparr>emg_world := (emg_world u)\<lparr>dk_faults := fs\<rparr>\<rparr>)"
    if "emg_record u = r" "dk_files (emg_world u) (dvr_PollTokenPath r) = Some token"
      "dk_faults (emg_world u) = NoFault # fs" for Q E u fs
    using that by (simp add: pollToken_def wp_simps)
      (simp add: wp_def in_world_def readSecretFile_def disk_defs op_defs)
  have removed: "wp (in_world (removeIfExists disk_files p)) Q E u =
      Q () (u\<lparr>emg_world := (emg_world u)\<lparr>dk_faults := fs, dk_files := (dk_files (emg_world u))(p := None)\<rparr>\<rparr>)"
    if "dk_faults (emg_world u) = NoFault # fs" "dk_files (emg_world u) p = Some t" "p \<noteq> []" for p t Q E u fs
    using that by (simp add: wp_def in_world_def removeIfExists_def disk_defs op_defs)
  have unsaved: "wp (save_record ?c) Q E u =
      E (Wrapf ''create device record directory'' injected_fault)
        (u\<lparr>emg_world := (emg_world u)\<lparr>dk_faults := fs\<rparr>\<rparr>)"
    if "dk_faults (emg_world u) = Refused # fs" for Q E u fs
    using that by (simp add: save_record_def wp_simps)
      (simp add: wp_def in_world_def saveDeviceRecord_def disk_defs op_defs)
  let ?post = "\<lambda>s'. dvr_ClaimState (emg_record s') = ClaimStateClaimed \<and> dk_faults (emg_world s') = [] \<and>
    dk_files (emg_world s') = (dk_files (emg_world s))(dvr_PollTokenPath r := None)"
  have "dvr_PollTokenPath r \<noteq> []" using assms(2) by (simp add: prepared_record_def paths_filled_def)
  then have "wp (finalizeClaim ?c (env_clock (emg_world s))) (\<lambda>_ _. False) (\<lambda>_. ?post) (ticked s)"
    using assms(1,7-10,14)
    by (simp add: finalizeClaim_def finalizeClaimWithPollToken_def when_client_def wp_simps tok
        wp_quiet_call claim_confirmed_def clearPending_def removed unsaved)
  then have "wp (RunOnce ?c) (\<lambda>_ _. False) (\<lambda>_. ?post) s"
    using assms(1-4) by (subst wp_RunOnce_pending [of s r]) simp_all
  then obtain e s' where run: "RunOnce ?c s = (Inl e, s')" and s': "?post s'"
    by (auto simp: wp_def split: prod.splits sum.splits)
  have load: "loadDeviceRecord disk_files next_id (emc_DeviceRecordPath ?c) now (emg_world s') = (Inr r, emg_world s')"
    using s' assms(3,5,6,11-13) by (simp add: loadDeviceRecord_def disk_defs op_defs upgraded_record_def
        deviceRecordSchemaVersion_def)
  have "enrollment.stranded (NewEnrollmentManager ?c r (emg_world s'))"
    using assms(2-4) s' by (simp add: enrollment.stranded_def NewEnrollmentManager_def prepared_record_def
        enrollment.prepared_same Let_def)
  note stuck = conjunct1 [OF stranded_times [OF this]]
  have "isl (fst (RunOnce ?c u)) \<and> dvr_ClaimState (emg_record u) = ClaimStatePairingPending"
    if "u = run_times ?c n (NewEnrollmentManager ?c r (emg_world s'))" for u n
  proof -
    have "enrollment.stranded u" using stuck that by simp
    moreover from this obtain e' u' where "RunOnce ?c u = (Inl e', u')" by (rule enrollment.stranded_RunOnce)
    ultimately show ?thesis by (simp add: enrollment.stranded_def Let_def)
  qed
  then have "\<forall>n. let u = run_times ?c n (NewEnrollmentManager ?c r (emg_world s')) in
      isl (fst (RunOnce ?c u)) \<and> dvr_ClaimState (emg_record u) = ClaimStatePairingPending"
    unfolding Let_def by blast
  with run s' load show ?thesis by blast
qed

definition saved_record :: string where
  "saved_record = ''{\"schema_version\":2,\"installation_id\":\"i\",\"created_at\":\"2026-01-01T00:00:00Z\",\"claim_state\":\"PAIRING_PENDING\",\"certificate_path\":\"/c\",\"private_key_path\":\"/k\",\"pairing_session_id\":\"p\",\"poll_token_path\":\"/t\",\"pending_certificate_id\":\"c\"}''"

definition provisioned_pending :: DeviceRecord where
  "provisioned_pending = pending_record
     \<lparr>dvr_CreatedAt := 63902822400000000000, dvr_PairingCodeExpiry := None, dvr_PollTokenExpiry := None,
      dvr_PendingCertificateID := ''c''\<rparr>"

lemma saved_record_decoded: "dec_DeviceRecord saved_record = Some provisioned_pending"
  by code_simp

theorem unsaved_claim_strands_device_witness:
  "\<exists>e s' w. RunOnce (enrollment_manager ''/config'' demo_config)
      (demo_manager provisioned_pending (demo_world
        \<lparr>dk_faults := [NoFault, NoFault, Refused],
         dk_files := demo_files(''/config/device.json'' \<mapsto> saved_record)\<rparr>)) = (Inl e, s') \<and>
    dvr_ClaimState (emg_record s') = ClaimStateClaimed \<and>
    loadDeviceRecord disk_files next_id
      (emc_DeviceRecordPath (enrollment_manager ''/config'' demo_config)) 30 (emg_world s') = (Inr provisioned_pending, w) \<and>
    (\<forall>n. let u = run_times (enrollment_manager ''/config'' demo_config) n
                   (NewEnrollmentManager (enrollment_manager ''/config'' demo_config) provisioned_pending w) in
       isl (fst (RunOnce (enrollment_manager ''/config'' demo_config) u)) \<and>
       dvr_ClaimState (emg_record u) = ClaimStatePairingPending)"
  by (rule unsaved_claim_strands_device [where token = "''token''" and saved = saved_record, OF _ _ _ _ _ _ _ _ _ _ _ _ saved_record_decoded])
    (simp_all add: demo_configured demo_record_path provisioned_pending_def pending_record_def empty_device_record_def
      prepared_record_def paths_filled_def IsZero_def zero_time_def deviceRecordSchemaVersion_def demo_files_def
      demo_world_def)

end
