(* ===== verification/Release_Versions.thy ===== *)
theory Release_Versions
  imports Go_Time "HOL-Library.List_Lexorder"
begin

text \<open>
  Dotted versions (\<open>parseDottedVersion\<close>, \<open>compareDottedVersion\<close>, \<open>versionWithin\<close> and the version
  checks of \<open>backend/internal/domain/releases/service.go\<close>).

  The loop of \<open>compareDottedVersion\<close> is \<open>compare_from\<close>, a recursion over its index. It is proved equal
  to the lexicographic order on \<open>version_key\<close>, the parts without trailing zeros.
\<close>

section \<open>Parsing\<close>

text \<open>\<open>strconv.Atoi\<close> of a 64-bit \<open>int\<close>.\<close>

definition Atoi :: "string \<Rightarrow> int option" where
  "Atoi s =
     (let neg = HasPrefix s ''-''; ds = (if neg \<or> HasPrefix s ''+'' then drop 1 s else s) in
      case undec ds of
        None \<Rightarrow> None
      | Some n \<Rightarrow>
          let v = (if neg then - int n else int n) in
          if ds \<noteq> [] \<and> - (2 ^ 63) \<le> v \<and> v < 2 ^ 63 then Some v else None)"

text \<open>\<open>strings.IndexAny(version, "-+")\<close> and the cut at it.\<close>

definition version_core :: "string \<Rightarrow> string" where
  "version_core version = takeWhile (\<lambda>c. c \<notin> set ''-+'') (TrimPrefix (TrimSpace version) ''v'')"

fun parse_parts :: "string \<Rightarrow> string list \<Rightarrow> go_error + int list" where
  "parse_parts version [] = Inr []"
| "parse_parts version (part # parts) =
     (if part = [] then Inl (Errorf ''invalid version %q'' [version])
      else (case Atoi part of
              None \<Rightarrow> Inl (Errorf ''invalid version %q'' [version])
            | Some v \<Rightarrow> (case parse_parts version parts of Inl e \<Rightarrow> Inl e | Inr vs \<Rightarrow> Inr (v # vs))))"

definition parseDottedVersion :: "string \<Rightarrow> go_error + int list" where
  "parseDottedVersion version =
     (let v = version_core version in
      if v = [] then Inl (Errorf ''empty version'' []) else parse_parts v (Split v (CHR ''.'')))"

section \<open>Comparing\<close>

definition part_at :: "int list \<Rightarrow> nat \<Rightarrow> int" where
  "part_at parts i = (if i < length parts then parts ! i else 0)"

function compare_from :: "int list \<Rightarrow> int list \<Rightarrow> nat \<Rightarrow> nat \<Rightarrow> int" where
  "compare_from l r n i =
     (if n \<le> i then 0
      else if part_at l i < part_at r i then -1
      else if part_at r i < part_at l i then 1
      else compare_from l r n (i + 1))"
  by pat_completeness auto
termination by (relation "measure (\<lambda>(l, r, n, i). n - i)") auto

declare compare_from.simps [simp del]

definition compareDottedVersion :: "string \<Rightarrow> string \<Rightarrow> go_error + int" where
  "compareDottedVersion left right =
     (case parseDottedVersion left of
        Inl e \<Rightarrow> Inl e
      | Inr l \<Rightarrow>
          (case parseDottedVersion right of
             Inl e \<Rightarrow> Inl e
           | Inr r \<Rightarrow> Inr (compare_from l r (max (length l) (length r)) 0)))"

definition versionWithin :: "string \<Rightarrow> string \<Rightarrow> string \<Rightarrow> go_error + bool" where
  "versionWithin value0 minVersion maxVersion =
     (let v = TrimSpace value0 in
      if v = [] then Inr (minVersion = [] \<and> maxVersion = [])
      else
        (case (if minVersion = [] then Inr True
               else case compareDottedVersion v minVersion of Inl e \<Rightarrow> Inl e | Inr c \<Rightarrow> Inr (0 \<le> c)) of
           Inl e \<Rightarrow> Inl e
         | Inr False \<Rightarrow> Inr False
         | Inr True \<Rightarrow>
             (if maxVersion = [] then Inr True
              else case compareDottedVersion v maxVersion of Inl e \<Rightarrow> Inl e | Inr c \<Rightarrow> Inr (c \<le> 0))))"

definition validateWindowBound :: "string \<Rightarrow> string \<Rightarrow> string \<Rightarrow> go_error option" where
  "validateWindowBound label minVersion maxVersion =
     (if minVersion = [] \<or> maxVersion = [] then None
      else (case compareDottedVersion minVersion maxVersion of
              Inl e \<Rightarrow> Some (Wrapf (''invalid '' @ label @ '' window'') e)
            | Inr c \<Rightarrow> if 0 < c then Some (Errorf ''invalid %s window: min exceeds max'' [label]) else None))"

definition validateImmutableVersion :: "string \<Rightarrow> go_error option" where
  "validateImmutableVersion version =
     (if version = [] then Some (Errorf ''version is required'' [])
      else if ToLower version \<in> set [''latest'', ''edge'', ''main'', ''master''] then
        Some (Errorf ''release version must be immutable, got %q'' [version])
      else if ContainsAny version [CHR '' '', CHR 0x09, CHR 0x0A, CHR 0x0D, CHR ''/'', CHR 0x5C] then
        Some (Errorf ''release version contains unsupported characters'' [])
      else None)"

section \<open>The order of versions\<close>

fun version_key :: "int list \<Rightarrow> int list" where
  "version_key [] = []"
| "version_key (n # ns) = (if n = 0 \<and> version_key ns = [] then [] else n # version_key ns)"

text \<open>The comparison as a recursion over the parts, the shorter version padded with zeros.\<close>

fun compare_parts :: "int list \<Rightarrow> int list \<Rightarrow> int" where
  "compare_parts [] [] = 0"
| "compare_parts [] (y # ys) = (if 0 < y then -1 else if y < 0 then 1 else compare_parts [] ys)"
| "compare_parts (x # xs) [] = (if x < 0 then -1 else if 0 < x then 1 else compare_parts xs [])"
| "compare_parts (x # xs) (y # ys) =
     (if x < y then -1 else if y < x then 1 else compare_parts xs ys)"

lemma part_at_Cons [simp]: "part_at (x # xs) 0 = x" "part_at (x # xs) (Suc i) = part_at xs i"
  "part_at [] i = 0"
  by (simp_all add: part_at_def)

lemma part_at_drop: "part_at (drop 1 xs) i = part_at xs (Suc i)"
  by (cases xs) simp_all

lemma compare_from_Suc: "compare_from l r (Suc n) (Suc i) = compare_from (drop 1 l) (drop 1 r) n i"
proof (induction "n - i" arbitrary: i)
  case 0
  then show ?case by (subst (1 2) compare_from.simps) simp
next
  case (Suc k)
  from Suc.hyps(2) have "k = n - (i + 1)" by simp
  note Suc.hyps(1) [OF this]
  then show ?case
    by (subst (1 2) compare_from.simps) (simp add: part_at_drop [unfolded One_nat_def])
qed

lemma compare_from_parts: "compare_from l r (max (length l) (length r)) 0 = compare_parts l r"
proof (induction l r rule: compare_parts.induct)
  case 1
  then show ?case by (simp add: compare_from.simps)
next
  case (2 y ys)
  then show ?case by (subst compare_from.simps) (simp add: compare_from_Suc)
next
  case (3 x xs)
  then show ?case by (subst compare_from.simps) (simp add: compare_from_Suc)
next
  case (4 x xs y ys)
  then show ?case by (subst compare_from.simps) (simp add: compare_from_Suc)
qed

lemma Nil_less [simp]: "[] < (xs :: int list) \<longleftrightarrow> xs \<noteq> []"
  by (cases xs) simp_all

lemma compare_parts_key:
  assumes "\<forall>n \<in> set l. 0 \<le> n" and "\<forall>n \<in> set r. 0 \<le> n"
  shows "compare_parts l r =
    (if version_key l < version_key r then -1 else if version_key l = version_key r then 0 else 1)"
  using assms by (induction l r rule: compare_parts.induct) auto

lemma undec_None: "\<not> list_all is_digit s \<Longrightarrow> undec s = None"
  by (simp add: undec_def)

lemma Atoi_nonneg: "CHR ''-'' \<notin> set s \<Longrightarrow> Atoi s = Some v \<Longrightarrow> 0 \<le> v"
  by (cases s) (auto simp: Atoi_def HasPrefix_def Let_def split: option.splits if_splits)

lemma parse_parts_nonneg:
  "\<forall>p \<in> set ps. CHR ''-'' \<notin> set p \<Longrightarrow> parse_parts version ps = Inr vs \<Longrightarrow> \<forall>v \<in> set vs. 0 \<le> v"
  by (induction ps arbitrary: vs) (auto split: if_splits option.splits sum.splits dest: Atoi_nonneg)

lemma Split_subset: "p \<in> set (Split s c) \<Longrightarrow> x \<in> set p \<Longrightarrow> x \<in> set s"
  by (induction s arbitrary: p) (fastforce split: if_splits list.splits)+

lemma parsed_nonneg:
  assumes "parseDottedVersion version = Inr vs"
  shows "\<forall>v \<in> set vs. 0 \<le> v"
proof -
  have "CHR ''-'' \<notin> set (version_core version)"
    by (auto simp: version_core_def dest: set_takeWhileD)
  then have "\<forall>p \<in> set (Split (version_core version) (CHR ''.'')). CHR ''-'' \<notin> set p"
    using Split_subset by blast
  then show ?thesis
    using assms by (auto simp: parseDottedVersion_def Let_def split: if_splits dest: parse_parts_nonneg)
qed

text \<open>The key of a version text; versions with equal keys are the same version.\<close>

definition dotted_key :: "string \<Rightarrow> int list option" where
  "dotted_key version =
     (case parseDottedVersion version of Inl e \<Rightarrow> None | Inr vs \<Rightarrow> Some (version_key vs))"

lemma compareDottedVersion_key:
  "compareDottedVersion v w = Inr c \<longleftrightarrow>
   (\<exists>k l. dotted_key v = Some k \<and> dotted_key w = Some l \<and> c = (if k < l then -1 else if k = l then 0 else 1))"
  using parsed_nonneg [of v] parsed_nonneg [of w]
  by (auto simp: compareDottedVersion_def dotted_key_def compare_from_parts compare_parts_key split: sum.splits)

lemma compareDottedVersion_error: "isl (compareDottedVersion v w) \<longleftrightarrow> dotted_key v = None \<or> dotted_key w = None"
  by (auto simp: compareDottedVersion_def dotted_key_def split: sum.splits)

end
