(* ===== verification/Releases.thy ===== *)
theory Releases
  imports Release_Versions Go_Json Go_Crypto_Url
begin

text \<open>
  The release catalog (\<open>backend/internal/domain/releases/service.go\<close>): channels, artifacts with their
  compatibility windows, and what a device with an installed version is told.

  Channel keys, environments and statuses are strings in the code and in the model. The compatibility
  windows are a list; the code normalizes the caller's slice in place.
\<close>

section \<open>Channels and artifacts\<close>

definition ErrReleaseNotFound :: go_error where
  "ErrReleaseNotFound = Sentinel ''release record not found''"

type_synonym ChannelKey = string
type_synonym CloudEnvironment = string
type_synonym ChannelStatus = string
type_synonym ArtifactStatus = string
type_synonym SupportStatus = string

definition ChannelStable :: ChannelKey where "ChannelStable = ''stable''"
definition ChannelCandidate :: ChannelKey where "ChannelCandidate = ''candidate''"
definition ChannelStaging :: ChannelKey where "ChannelStaging = ''staging''"
definition ChannelDev :: ChannelKey where "ChannelDev = ''dev''"

definition EnvironmentProduction :: CloudEnvironment where "EnvironmentProduction = ''production''"
definition EnvironmentStaging :: CloudEnvironment where "EnvironmentStaging = ''staging''"

definition ChannelStatusActive :: ChannelStatus where "ChannelStatusActive = ''active''"
definition ChannelStatusDisabled :: ChannelStatus where "ChannelStatusDisabled = ''disabled''"

definition ArtifactStatusDraft :: ArtifactStatus where "ArtifactStatusDraft = ''draft''"
definition ArtifactStatusPublished :: ArtifactStatus where "ArtifactStatusPublished = ''published''"
definition ArtifactStatusRetired :: ArtifactStatus where "ArtifactStatusRetired = ''retired''"
definition ArtifactStatusUnsupported :: ArtifactStatus where "ArtifactStatusUnsupported = ''unsupported''"

definition SupportStatusSupported :: SupportStatus where "SupportStatusSupported = ''supported''"
definition SupportStatusUnsupported :: SupportStatus where "SupportStatusUnsupported = ''unsupported''"

lemmas channel_names = ChannelStable_def ChannelCandidate_def ChannelStaging_def ChannelDev_def
  EnvironmentProduction_def EnvironmentStaging_def ChannelStatusActive_def ChannelStatusDisabled_def

lemmas artifact_names = ArtifactStatusDraft_def ArtifactStatusPublished_def ArtifactStatusRetired_def
  ArtifactStatusUnsupported_def SupportStatusSupported_def SupportStatusUnsupported_def

record ReleaseChannel =
  rch_ChannelKey :: ChannelKey
  rch_CloudEnvironment :: CloudEnvironment
  rch_ReleaseTrack :: string
  rch_HAAppSlug :: string
  rch_RepositoryURL :: string
  rch_Status :: ChannelStatus
  rch_InternalOnly :: bool
  rch_Metadata :: string
  rch_CreatedAt :: time
  rch_UpdatedAt :: time

record CompatibilityWindow =
  cwn_MinAgentProtocol :: string
  cwn_MaxAgentProtocol :: string
  cwn_MinHAVersion :: string
  cwn_MaxHAVersion :: string
  cwn_SupportStatus :: SupportStatus
  cwn_ReasonCode :: string
  cwn_Metadata :: string

record ReleaseArtifact =
  rar_ReleaseArtifactID :: string
  rar_ChannelKey :: ChannelKey
  rar_Version :: string
  rar_CloudEnvironment :: CloudEnvironment
  rar_ReleaseTrack :: string
  rar_HAAppSlug :: string
  rar_SourceCommitSHA :: string
  rar_ImageRef :: string
  rar_ImageDigest :: string
  rar_PackageDigest :: string
  rar_ConfigDigest :: string
  rar_Status :: ArtifactStatus
  rar_Compatibility :: "CompatibilityWindow list"
  rar_Metadata :: string
  rar_PublishedAt :: "time option"
  rar_RetiredAt :: "time option"
  rar_CreatedAt :: time
  rar_UpdatedAt :: time

record CompatibilityRequest =
  cbr_ChannelKey :: ChannelKey
  cbr_InstalledVersion :: string
  cbr_AgentProtocol :: string
  cbr_HAVersion :: string

record CompatibilityResult =
  cbs_ChannelKey :: ChannelKey
  cbs_InstalledVersion :: string
  cbs_Visible :: bool
  cbs_Supported :: bool
  cbs_ReasonCode :: string
  cbs_Artifact :: "ReleaseArtifact option"

record 'w ReleaseRepository =
  rlr_SaveChannel :: "ReleaseChannel \<Rightarrow> ('w, unit) op"
  rlr_GetChannel :: "ChannelKey \<Rightarrow> ('w, ReleaseChannel) op"
  rlr_SaveArtifact :: "ReleaseArtifact \<Rightarrow> ('w, unit) op"
  rlr_GetArtifactByVersion :: "ChannelKey \<Rightarrow> string \<Rightarrow> ('w, ReleaseArtifact) op"

record 'w ReleaseService =
  rls_Repository :: "'w ReleaseRepository option"
  rls_Clock :: "('w, time) effect option"
  rls_TimeNow :: "('w, time) effect"

definition releases_now :: "'w ReleaseService \<Rightarrow> ('w, time) op" where
  "releases_now s = clock_now (rls_Clock s) (rls_TimeNow s)"

section \<open>Normalization\<close>

definition releases_normalizeJSON :: "string \<Rightarrow> string" where
  "releases_normalizeJSON v = (if v = [] then ''{}'' else v)"

definition normalizeChannel :: "ReleaseChannel \<Rightarrow> time \<Rightarrow> ReleaseChannel" where
  "normalizeChannel c now = c
     \<lparr>rch_ChannelKey := TrimSpace (rch_ChannelKey c),
      rch_CloudEnvironment := TrimSpace (rch_CloudEnvironment c),
      rch_ReleaseTrack := TrimSpace (rch_ReleaseTrack c),
      rch_HAAppSlug := TrimSpace (rch_HAAppSlug c),
      rch_RepositoryURL := TrimSpace (rch_RepositoryURL c),
      rch_Status := (if rch_Status c = [] then ChannelStatusActive else rch_Status c),
      rch_Metadata := releases_normalizeJSON (rch_Metadata c),
      rch_CreatedAt := (if IsZero (rch_CreatedAt c) then now else rch_CreatedAt c),
      rch_UpdatedAt := (if IsZero (rch_UpdatedAt c) then now else rch_UpdatedAt c)\<rparr>"

definition normalizeCompatibilityWindow :: "CompatibilityWindow \<Rightarrow> CompatibilityWindow" where
  "normalizeCompatibilityWindow v = v
     \<lparr>cwn_MinAgentProtocol := TrimSpace (cwn_MinAgentProtocol v),
      cwn_MaxAgentProtocol := TrimSpace (cwn_MaxAgentProtocol v),
      cwn_MinHAVersion := TrimSpace (cwn_MinHAVersion v),
      cwn_MaxHAVersion := TrimSpace (cwn_MaxHAVersion v),
      cwn_SupportStatus := (if cwn_SupportStatus v = [] then SupportStatusSupported else cwn_SupportStatus v),
      cwn_ReasonCode := TrimSpace (cwn_ReasonCode v),
      cwn_Metadata := releases_normalizeJSON (cwn_Metadata v)\<rparr>"

definition normalizeArtifact :: "ReleaseArtifact \<Rightarrow> ReleaseChannel \<Rightarrow> time \<Rightarrow> ReleaseArtifact" where
  "normalizeArtifact a channel now = a
     \<lparr>rar_ReleaseArtifactID := TrimSpace (rar_ReleaseArtifactID a),
      rar_ChannelKey := TrimSpace (rar_ChannelKey a),
      rar_Version := TrimSpace (rar_Version a),
      rar_CloudEnvironment := (if rar_CloudEnvironment a = [] then rch_CloudEnvironment channel
        else rar_CloudEnvironment a),
      rar_ReleaseTrack := (if rar_ReleaseTrack a = [] then rch_ReleaseTrack channel else rar_ReleaseTrack a),
      rar_HAAppSlug := (if rar_HAAppSlug a = [] then rch_HAAppSlug channel else rar_HAAppSlug a),
      rar_SourceCommitSHA := TrimSpace (rar_SourceCommitSHA a),
      rar_ImageRef := TrimSpace (rar_ImageRef a),
      rar_ImageDigest := TrimSpace (rar_ImageDigest a),
      rar_PackageDigest := TrimSpace (rar_PackageDigest a),
      rar_ConfigDigest := TrimSpace (rar_ConfigDigest a),
      rar_Status := (if rar_Status a = [] then ArtifactStatusDraft else rar_Status a),
      rar_Metadata := releases_normalizeJSON (rar_Metadata a),
      rar_Compatibility := map normalizeCompatibilityWindow (rar_Compatibility a),
      rar_CreatedAt := (if IsZero (rar_CreatedAt a) then now else rar_CreatedAt a),
      rar_UpdatedAt := (if IsZero (rar_UpdatedAt a) then now else rar_UpdatedAt a)\<rparr>"

section \<open>Validation\<close>

text \<open>\<open>parsed.RawQuery\<close> and \<open>parsed.Fragment\<close>: the text after the first \<open>?\<close> and after the first \<open>#\<close>.\<close>

definition url_query :: "string \<Rightarrow> string" where
  "url_query raw = fst (snd (Cut (fst (Cut raw (CHR ''#''))) (CHR ''?'')))"

definition url_fragment :: "string \<Rightarrow> string" where
  "url_fragment raw = fst (snd (Cut raw (CHR ''#'')))"

definition validateRepositoryURL :: "string \<Rightarrow> go_error option" where
  "validateRepositoryURL rawURL =
     (case url_parse rawURL of
        None \<Rightarrow> Some (Errorf ''repository_url must be a valid URL'' [])
      | Some (scheme, host) \<Rightarrow>
          if scheme \<noteq> ''https'' \<or> host = [] then Some (Errorf ''repository_url must be an HTTPS URL'' [])
          else if url_query rawURL \<noteq> [] \<or> url_fragment rawURL \<noteq> [] then
            Some (Errorf ''repository_url must not include query or fragment data'' [])
          else None)"

definition channel_assignment :: "ReleaseChannel \<Rightarrow> go_error option" where
  "channel_assignment c =
     (let key = rch_ChannelKey c; environment = rch_CloudEnvironment c; track = rch_ReleaseTrack c in
      if key = ChannelStable \<or> key = ChannelCandidate then
        (if environment \<noteq> EnvironmentProduction \<or> track \<noteq> key \<or> rch_InternalOnly c
         then Some (Errorf ''%s channel must be a public production %s track'' [key, key]) else None)
      else if key = ChannelStaging then
        (if environment \<noteq> EnvironmentStaging \<or> track \<noteq> ChannelStaging
         then Some (Errorf ''staging channel must use the staging cloud environment and staging track'' [])
         else None)
      else if key = ChannelDev then
        (if environment \<noteq> EnvironmentStaging \<or> track \<noteq> ChannelDev \<or> \<not> rch_InternalOnly c
         then Some (Errorf ''dev channel must be internal-only in the staging cloud environment'' [])
         else None)
      else Some (Errorf ''unsupported release channel %q'' [key]))"

definition validateChannel :: "ReleaseChannel \<Rightarrow> go_error option" where
  "validateChannel c =
     (if rch_ChannelKey c = [] \<or> rch_CloudEnvironment c = [] \<or> rch_ReleaseTrack c = [] then
        Some (Errorf ''channel_key, cloud_environment, and release_track are required'' [])
      else if rch_HAAppSlug c = [] \<or> rch_RepositoryURL c = [] then
        Some (Errorf ''ha_app_slug and repository_url are required'' [])
      else if \<not> json_Valid (rch_Metadata c) then Some (Errorf ''channel metadata must be valid JSON'' [])
      else (case validateRepositoryURL (rch_RepositoryURL c) of
              Some e \<Rightarrow> Some e
            | None \<Rightarrow>
                if rch_Status c \<notin> set [ChannelStatusActive, ChannelStatusDisabled] then
                  Some (Errorf ''unsupported channel status %q'' [rch_Status c])
                else channel_assignment c))"

definition validateCompatibilityWindow :: "CompatibilityWindow \<Rightarrow> go_error option" where
  "validateCompatibilityWindow v =
     (if \<not> json_Valid (cwn_Metadata v) then Some (Errorf ''compatibility metadata must be valid JSON'' [])
      else if cwn_SupportStatus v \<notin> set [SupportStatusSupported, SupportStatusUnsupported] then
        Some (Errorf ''unsupported compatibility status %q'' [cwn_SupportStatus v])
      else (case validateWindowBound ''agent protocol'' (cwn_MinAgentProtocol v) (cwn_MaxAgentProtocol v) of
              Some e \<Rightarrow> Some e
            | None \<Rightarrow>
                validateWindowBound ''Home Assistant version'' (cwn_MinHAVersion v) (cwn_MaxHAVersion v)))"

fun first_window_error :: "CompatibilityWindow list \<Rightarrow> go_error option" where
  "first_window_error [] = None"
| "first_window_error (v # vs) =
     (case validateCompatibilityWindow v of Some e \<Rightarrow> Some e | None \<Rightarrow> first_window_error vs)"

definition validateArtifact :: "ReleaseArtifact \<Rightarrow> ReleaseChannel \<Rightarrow> go_error option" where
  "validateArtifact a channel =
     (if rar_ReleaseArtifactID a = [] \<or> rar_ChannelKey a = [] \<or> rar_Version a = [] then
        Some (Errorf ''release_artifact_id, channel_key, and version are required'' [])
      else if rar_ChannelKey a \<noteq> rch_ChannelKey channel then
        Some (Errorf ''artifact channel does not match loaded channel'' [])
      else if rar_CloudEnvironment a \<noteq> rch_CloudEnvironment channel \<or>
              rar_ReleaseTrack a \<noteq> rch_ReleaseTrack channel \<or> rar_HAAppSlug a \<noteq> rch_HAAppSlug channel then
        Some (Errorf ''artifact metadata must match release channel assignment'' [])
      else (case validateImmutableVersion (rar_Version a) of
        Some e \<Rightarrow> Some e
      | None \<Rightarrow>
          if rar_SourceCommitSHA a = [] \<or> rar_ImageRef a = [] \<or> rar_ImageDigest a = [] then
            Some (Errorf ''source_commit_sha, image_ref, and image_digest are required'' [])
          else if HasSuffix (rar_ImageRef a) '':latest'' \<or> Contains (rar_ImageRef a) '':latest@'' then
            Some (Errorf ''release artifact image_ref must not use latest'' [])
          else if \<not> HasPrefix (rar_ImageDigest a) ''sha256:'' then
            Some (Errorf ''release artifact image_digest must be content-addressed'' [])
          else if \<not> json_Valid (rar_Metadata a) then
            Some (Errorf ''artifact metadata must be valid JSON'' [])
          else if rar_Status a \<notin> set [ArtifactStatusDraft, ArtifactStatusPublished, ArtifactStatusRetired,
                                        ArtifactStatusUnsupported] then
            Some (Errorf ''unsupported artifact status %q'' [rar_Status a])
          else if rar_Compatibility a = [] then
            Some (Errorf ''release artifact requires at least one compatibility window'' [])
          else first_window_error (rar_Compatibility a)))"

section \<open>Operations\<close>

definition RegisterChannel :: "'w ReleaseService \<Rightarrow> ReleaseChannel \<Rightarrow> ('w, ReleaseChannel) op" where
  "RegisterChannel s channel =
     bindE (required (rls_Repository s) (Errorf ''release repository is required'' [])) (\<lambda>repo.
     bindE (releases_now s) (\<lambda>now.
     let c = normalizeChannel channel now in
     bindE (check (validateChannel c)) (\<lambda>_.
     bindE (wrapE ''save release channel'' (rlr_SaveChannel repo c)) (\<lambda>_.
     ret c))))"

definition RegisterArtifact :: "'w ReleaseService \<Rightarrow> ReleaseArtifact \<Rightarrow> ('w, ReleaseArtifact) op" where
  "RegisterArtifact s artifact =
     bindE (required (rls_Repository s) (Errorf ''release repository is required'' [])) (\<lambda>repo.
     bindE (wrapE ''load release channel'' (rlr_GetChannel repo (rar_ChannelKey artifact))) (\<lambda>channel.
     bindE (releases_now s) (\<lambda>now.
     let a = normalizeArtifact artifact channel now in
     bindE (check (validateArtifact a channel)) (\<lambda>_.
     bindE (wrapE ''save release artifact'' (rlr_SaveArtifact repo a)) (\<lambda>_.
     ret a)))))"

definition matchesCompatibilityWindow :: "CompatibilityWindow \<Rightarrow> CompatibilityRequest \<Rightarrow> go_error + bool" where
  "matchesCompatibilityWindow v req =
     (case versionWithin (cbr_AgentProtocol req) (cwn_MinAgentProtocol v) (cwn_MaxAgentProtocol v) of
        Inr True \<Rightarrow> versionWithin (cbr_HAVersion req) (cwn_MinHAVersion v) (cwn_MaxHAVersion v)
      | r \<Rightarrow> r)"

fun find_window ::
  "CompatibilityWindow list \<Rightarrow> CompatibilityRequest \<Rightarrow> go_error + CompatibilityWindow option" where
  "find_window [] req = Inr None"
| "find_window (v # vs) req =
     (case matchesCompatibilityWindow v req of
        Inl e \<Rightarrow> Inl e
      | Inr m \<Rightarrow> if m then Inr (Some v) else find_window vs req)"

definition reasonForArtifactStatus :: "ArtifactStatus \<Rightarrow> string" where
  "reasonForArtifactStatus status =
     (if status = ArtifactStatusDraft then ''release_not_published''
      else if status = ArtifactStatusRetired then ''release_retired''
      else if status = ArtifactStatusUnsupported then ''unsupported_version''
      else ''release_unavailable'')"

definition defaultReason :: "string \<Rightarrow> string \<Rightarrow> string" where
  "defaultReason reason fallback = (if TrimSpace reason = [] then fallback else TrimSpace reason)"

definition compatibility_result ::
  "ChannelKey \<Rightarrow> string \<Rightarrow> bool \<Rightarrow> string \<Rightarrow> ReleaseArtifact option \<Rightarrow> CompatibilityResult" where
  "compatibility_result channelKey version supported reason artifact =
     \<lparr>cbs_ChannelKey = channelKey, cbs_InstalledVersion = version, cbs_Visible = True,
      cbs_Supported = supported, cbs_ReasonCode = reason, cbs_Artifact = artifact\<rparr>"

definition window_result ::
  "ChannelKey \<Rightarrow> string \<Rightarrow> ReleaseArtifact \<Rightarrow> CompatibilityWindow option \<Rightarrow> CompatibilityResult" where
  "window_result channelKey version artifact found =
     (case found of
        None \<Rightarrow> compatibility_result channelKey version False ''outside_compatibility_window'' (Some artifact)
      | Some v \<Rightarrow>
          if cwn_SupportStatus v = SupportStatusUnsupported then
            compatibility_result channelKey version False
              (defaultReason (cwn_ReasonCode v) ''unsupported_compatibility_window'') (Some artifact)
          else compatibility_result channelKey version True ''supported'' (Some artifact))"

definition CompatibilityForVersion ::
  "'w ReleaseService \<Rightarrow> CompatibilityRequest \<Rightarrow> ('w, CompatibilityResult) op" where
  "CompatibilityForVersion s req =
     bindE (required (rls_Repository s) (Errorf ''release repository is required'' [])) (\<lambda>repo.
     let channelKey = TrimSpace (cbr_ChannelKey req); version = TrimSpace (cbr_InstalledVersion req) in
     bindE (failIf (channelKey = [] \<or> version = [])
              (Errorf ''channel_key and installed_version are required'' [])) (\<lambda>_.
     bindE (attemptE (rlr_GetArtifactByVersion repo channelKey version)) (\<lambda>found.
     case found of
       Inl e \<Rightarrow>
         if errors_Is e ErrReleaseNotFound
         then ret (compatibility_result channelKey version False ''unsupported_version'' None)
         else fail (Wrapf ''load release artifact'' e)
     | Inr artifact \<Rightarrow>
         if rar_Status artifact \<noteq> ArtifactStatusPublished then
           ret (compatibility_result channelKey version False
                  (reasonForArtifactStatus (rar_Status artifact)) (Some artifact))
         else bindE (pureE (find_window (rar_Compatibility artifact) req)) (\<lambda>window.
              ret (window_result channelKey version artifact window)))))"

end
