(* ===== verification/HA_Versions.thy ===== *)
theory HA_Versions
  imports Releases
begin

text \<open>
  The catalog of Home Assistant versions and the update advisories
  (\<open>backend/internal/domain/releases/ha_versions.go\<close>).

  \<open>RefreshLatestStable\<close> returns the catalog it stored also when the provider failed, so its value is a
  pair of a catalog and an optional error.
\<close>

section \<open>Data\<close>

definition HACatalogStable :: string where "HACatalogStable = ''stable''"

type_synonym HACatalogStatus = string
type_synonym HAAdvisoryStatus = string

definition HACatalogStatusActive :: HACatalogStatus where "HACatalogStatusActive = ''active''"
definition HACatalogStatusStale :: HACatalogStatus where "HACatalogStatusStale = ''stale''"
definition HACatalogStatusUnavailable :: HACatalogStatus where "HACatalogStatusUnavailable = ''unavailable''"

definition HAAdvisoryCurrent :: HAAdvisoryStatus where "HAAdvisoryCurrent = ''current''"
definition HAAdvisoryUpdateAvailable :: HAAdvisoryStatus where "HAAdvisoryUpdateAvailable = ''update_available''"
definition HAAdvisoryHidden :: HAAdvisoryStatus where "HAAdvisoryHidden = ''hidden''"

lemmas ha_names = HACatalogStable_def HACatalogStatusActive_def HACatalogStatusStale_def
  HACatalogStatusUnavailable_def HAAdvisoryCurrent_def HAAdvisoryUpdateAvailable_def HAAdvisoryHidden_def

definition DefaultHACatalogTTL :: duration where
  "DefaultHACatalogTTL = 24 * Hour"

record HACoreVersionCatalog =
  hvc_CatalogKey :: string
  hvc_LatestVersion :: string
  hvc_SourceURL :: string
  hvc_Status :: HACatalogStatus
  hvc_Metadata :: string
  hvc_FetchedAt :: time
  hvc_ExpiresAt :: time

record HAUpdateAdvisory =
  hua_AccountID :: string
  hua_SiteID :: string
  hua_DeviceID :: string
  hua_InstalledVersion :: string
  hua_LatestVersion :: string
  hua_AdvisoryStatus :: HAAdvisoryStatus
  hua_ReasonCode :: string
  hua_CatalogFetchedAt :: "time option"
  hua_ObservedAt :: time

record HAAdvisoryRequest =
  har_AccountID :: string
  har_SiteID :: string
  har_DeviceID :: string
  har_InstalledVersion :: string
  har_ObservedAt :: time

record 'w HAVersionRepository =
  hvr_SaveHACoreCatalog :: "HACoreVersionCatalog \<Rightarrow> ('w, unit) op"
  hvr_GetHACoreCatalog :: "string \<Rightarrow> ('w, HACoreVersionCatalog) op"
  hvr_UpsertHAUpdateAdvisory :: "HAUpdateAdvisory \<Rightarrow> ('w, unit) op"

record 'w HAVersionService =
  hvs_Repository :: "'w HAVersionRepository option"
  hvs_Provider :: "('w, HACoreVersionCatalog) op option"
  hvs_Clock :: "('w, time) effect option"
  hvs_TimeNow :: "('w, time) effect"
  hvs_TTL :: duration

definition ha_now :: "'w HAVersionService \<Rightarrow> ('w, time) op" where
  "ha_now s = clock_now (hvs_Clock s) (hvs_TimeNow s)"

definition ha_ttl :: "'w HAVersionService \<Rightarrow> duration" where
  "ha_ttl s = (if 0 < hvs_TTL s then hvs_TTL s else DefaultHACatalogTTL)"

section \<open>Refreshing the catalog\<close>

definition validateHACatalog :: "HACoreVersionCatalog \<Rightarrow> go_error option" where
  "validateHACatalog c =
     (if hvc_CatalogKey c \<noteq> HACatalogStable then
        Some (Errorf ''unsupported Home Assistant version catalog %q'' [hvc_CatalogKey c])
      else
        (case (if hvc_Status c = HACatalogStatusActive then
                 (if TrimSpace (hvc_LatestVersion c) = [] then
                    Some (Errorf ''latest Home Assistant version is required for active catalog'' [])
                  else (case parseDottedVersion (hvc_LatestVersion c) of
                          Inl e \<Rightarrow> Some (Wrapf ''latest Home Assistant version is ambiguous'' e)
                        | Inr _ \<Rightarrow> None))
               else if hvc_Status c \<in> set [HACatalogStatusStale, HACatalogStatusUnavailable] then None
               else Some (Errorf ''unsupported Home Assistant catalog status %q'' [hvc_Status c])) of
           Some e \<Rightarrow> Some e
         | None \<Rightarrow>
             if \<not> json_Valid (hvc_Metadata c)
             then Some (Errorf ''Home Assistant catalog metadata must be valid JSON'' []) else None))"

definition unavailable_catalog :: "'w HAVersionService \<Rightarrow> time \<Rightarrow> HACoreVersionCatalog" where
  "unavailable_catalog s now =
     \<lparr>hvc_CatalogKey = HACatalogStable, hvc_LatestVersion = [], hvc_SourceURL = [],
      hvc_Status = HACatalogStatusUnavailable,
      hvc_Metadata = ''{'' @ [CHR 0x22] @ ''reason_code'' @ [CHR 0x22] @ '':'' @ [CHR 0x22] @
        ''provider_unavailable'' @ [CHR 0x22] @ ''}'',
      hvc_FetchedAt = now, hvc_ExpiresAt = now + ha_ttl s\<rparr>"

definition refreshed_catalog ::
  "'w HAVersionService \<Rightarrow> time \<Rightarrow> HACoreVersionCatalog \<Rightarrow> HACoreVersionCatalog" where
  "refreshed_catalog s now c0 =
     (let fetched = (if IsZero (hvc_FetchedAt c0) then now else hvc_FetchedAt c0) in
      c0\<lparr>hvc_CatalogKey := (if TrimSpace (hvc_CatalogKey c0) = [] then HACatalogStable
           else TrimSpace (hvc_CatalogKey c0)),
         hvc_Status := HACatalogStatusActive,
         hvc_LatestVersion := TrimSpace (hvc_LatestVersion c0),
         hvc_SourceURL := TrimSpace (hvc_SourceURL c0),
         hvc_Metadata := releases_normalizeJSON (hvc_Metadata c0),
         hvc_FetchedAt := fetched,
         hvc_ExpiresAt := (if IsZero (hvc_ExpiresAt c0) then fetched + ha_ttl s else hvc_ExpiresAt c0)\<rparr>)"

definition RefreshLatestStable ::
  "'w HAVersionService \<Rightarrow> ('w, HACoreVersionCatalog \<times> go_error option) op" where
  "RefreshLatestStable s =
     bindE (required (hvs_Repository s) (Errorf ''Home Assistant version repository is required'' [])) (\<lambda>repo.
     bindE (required (hvs_Provider s) (Errorf ''Home Assistant version provider is required'' [])) (\<lambda>fetch.
     bindE (ha_now s) (\<lambda>now.
     bindE (attemptE fetch) (\<lambda>fetched.
     case fetched of
       Inl e \<Rightarrow>
         bindE (attemptE (hvr_SaveHACoreCatalog repo (unavailable_catalog s now))) (\<lambda>saved.
         case saved of
           Inl saveErr \<Rightarrow> fail (Wrapf ''fetch latest Home Assistant version'' e)
         | Inr _ \<Rightarrow> ret (unavailable_catalog s now,
                        Some (Wrapf ''fetch latest Home Assistant version'' e)))
     | Inr c0 \<Rightarrow>
         (let c = refreshed_catalog s now c0 in
          bindE (check (validateHACatalog c)) (\<lambda>_.
          bindE (wrapE ''save Home Assistant version catalog'' (hvr_SaveHACoreCatalog repo c)) (\<lambda>_.
          ret (c, None))))))))"

section \<open>Advisories\<close>

definition validateHAAdvisoryBase :: "HAUpdateAdvisory \<Rightarrow> go_error option" where
  "validateHAAdvisoryBase a =
     (if hua_AccountID a = [] \<or> hua_SiteID a = [] \<or> hua_DeviceID a = []
      then Some (Errorf ''account_id, site_id, and device_id are required'' []) else None)"

definition catalogUsable :: "HACoreVersionCatalog \<Rightarrow> time \<Rightarrow> bool" where
  "catalogUsable c now =
     (hvc_Status c = HACatalogStatusActive \<and> TrimSpace (hvc_LatestVersion c) \<noteq> [] \<and>
      (IsZero (hvc_ExpiresAt c) \<or> Before now (hvc_ExpiresAt c) \<or> now = hvc_ExpiresAt c))"

definition base_advisory :: "HAAdvisoryRequest \<Rightarrow> time \<Rightarrow> HAUpdateAdvisory" where
  "base_advisory req now =
     \<lparr>hua_AccountID = TrimSpace (har_AccountID req), hua_SiteID = TrimSpace (har_SiteID req),
      hua_DeviceID = TrimSpace (har_DeviceID req),
      hua_InstalledVersion = TrimSpace (har_InstalledVersion req), hua_LatestVersion = [],
      hua_AdvisoryStatus = HAAdvisoryHidden, hua_ReasonCode = ''no_advisory'',
      hua_CatalogFetchedAt = None,
      hua_ObservedAt = UTC (if IsZero (har_ObservedAt req) then now else har_ObservedAt req)\<rparr>"

definition unusable_advisory :: "HAUpdateAdvisory \<Rightarrow> HACoreVersionCatalog \<Rightarrow> time \<Rightarrow> HAUpdateAdvisory" where
  "unusable_advisory base c now = base
     \<lparr>hua_LatestVersion := TrimSpace (hvc_LatestVersion c),
      hua_ReasonCode := (if hvc_Status c = HACatalogStatusActive \<and> After now (hvc_ExpiresAt c)
        then ''catalog_stale'' else ''catalog_unavailable''),
      hua_CatalogFetchedAt := (if IsZero (hvc_FetchedAt c) then None else Some (hvc_FetchedAt c))\<rparr>"

definition compared_advisory :: "HAUpdateAdvisory \<Rightarrow> HACoreVersionCatalog \<Rightarrow> HAUpdateAdvisory" where
  "compared_advisory base0 c =
     (let base = base0\<lparr>hua_LatestVersion := hvc_LatestVersion c, hua_CatalogFetchedAt := Some (hvc_FetchedAt c)\<rparr> in
      if hua_InstalledVersion base = [] then base\<lparr>hua_ReasonCode := ''installed_version_missing''\<rparr>
      else (case compareDottedVersion (hua_InstalledVersion base) (hvc_LatestVersion c) of
              Inl e \<Rightarrow> base\<lparr>hua_ReasonCode := ''installed_version_ambiguous''\<rparr>
            | Inr comparison \<Rightarrow>
                if comparison < 0
                then base\<lparr>hua_AdvisoryStatus := HAAdvisoryUpdateAvailable,
                          hua_ReasonCode := ''ha_core_update_available''\<rparr>
                else base\<lparr>hua_AdvisoryStatus := HAAdvisoryCurrent, hua_ReasonCode := ''ha_core_current''\<rparr>))"

definition saveAdvisory :: "'w HAVersionRepository \<Rightarrow> HAUpdateAdvisory \<Rightarrow> ('w, HAUpdateAdvisory) op" where
  "saveAdvisory repo a =
     bindE (wrapE ''save Home Assistant update advisory'' (hvr_UpsertHAUpdateAdvisory repo a)) (\<lambda>_. ret a)"

definition AdvisoryForInstalled :: "'w HAVersionService \<Rightarrow> HAAdvisoryRequest \<Rightarrow> ('w, HAUpdateAdvisory) op" where
  "AdvisoryForInstalled s req =
     bindE (required (hvs_Repository s) (Errorf ''Home Assistant version repository is required'' [])) (\<lambda>repo.
     bindE (ha_now s) (\<lambda>now.
     let base = base_advisory req now in
     bindE (check (validateHAAdvisoryBase base)) (\<lambda>_.
     bindE (attemptE (hvr_GetHACoreCatalog repo HACatalogStable)) (\<lambda>got.
     case got of
       Inl e \<Rightarrow> saveAdvisory repo (base\<lparr>hua_ReasonCode := ''catalog_missing''\<rparr>)
     | Inr c \<Rightarrow>
         if \<not> catalogUsable c now then saveAdvisory repo (unusable_advisory base c now)
         else saveAdvisory repo (compared_advisory base c)))))"

end
