(* ===== verification/Release_Store.thy ===== *)
theory Release_Store
  imports Releases
begin

text \<open>
  What the release service promises over every repository that keeps \<open>release_contract\<close>: the catalog
  stays well formed, and compatibility is decided by the first window that covers the versions of the
  device. \<open>release_store\<close> is the repository of \<open>service_test.go\<close> with calls that may fail.
\<close>

section \<open>Version ranges\<close>

text \<open>A bound that is absent or a version, and the range between two of them.\<close>

definition bound_ok :: "string \<Rightarrow> bool" where
  "bound_ok b \<longleftrightarrow> b = [] \<or> dotted_key b \<noteq> None"

definition in_range :: "string \<Rightarrow> string \<Rightarrow> string \<Rightarrow> bool" where
  "in_range v minVersion maxVersion \<longleftrightarrow>
     (if TrimSpace v = [] then minVersion = [] \<and> maxVersion = []
      else (minVersion = [] \<or> the (dotted_key minVersion) \<le> the (dotted_key v)) \<and>
           (maxVersion = [] \<or> the (dotted_key v) \<le> the (dotted_key maxVersion)))"

lemma dotted_key_TrimSpace [simp]: "dotted_key (TrimSpace v) = dotted_key v"
  by (simp add: dotted_key_def parseDottedVersion_def version_core_def)

lemma compare_keys:
  assumes "dotted_key v = Some k" and "dotted_key w = Some l"
  shows "compareDottedVersion v w = Inr (if k < l then -1 else if k = l then 0 else 1)"
  using assms by (simp add: compareDottedVersion_key)

lemma versionWithin_range:
  assumes "TrimSpace v = [] \<or> dotted_key v \<noteq> None" and "bound_ok lo" and "bound_ok hi"
  shows "versionWithin v lo hi = Inr (in_range v lo hi)"
proof (cases "TrimSpace v = []")
  case True
  then show ?thesis by (simp add: versionWithin_def in_range_def)
next
  case False
  with assms(1) obtain k where "dotted_key v = Some k" by auto
  with False assms(2,3) show ?thesis
    by (auto simp: versionWithin_def in_range_def bound_ok_def compare_keys Let_def)
qed

definition window_covers :: "CompatibilityRequest \<Rightarrow> CompatibilityWindow \<Rightarrow> bool" where
  "window_covers req v \<longleftrightarrow> in_range (cbr_AgentProtocol req) (cwn_MinAgentProtocol v) (cwn_MaxAgentProtocol v) \<and>
     in_range (cbr_HAVersion req) (cwn_MinHAVersion v) (cwn_MaxHAVersion v)"

definition readable_window :: "CompatibilityWindow \<Rightarrow> bool" where
  "readable_window v \<longleftrightarrow> bound_ok (cwn_MinAgentProtocol v) \<and> bound_ok (cwn_MaxAgentProtocol v) \<and>
     bound_ok (cwn_MinHAVersion v) \<and> bound_ok (cwn_MaxHAVersion v)"

definition readable_request :: "CompatibilityRequest \<Rightarrow> bool" where
  "readable_request req \<longleftrightarrow>
     (TrimSpace (cbr_AgentProtocol req) = [] \<or> dotted_key (cbr_AgentProtocol req) \<noteq> None) \<and>
     (TrimSpace (cbr_HAVersion req) = [] \<or> dotted_key (cbr_HAVersion req) \<noteq> None)"

lemma matches_covers:
  "readable_request req \<Longrightarrow> readable_window v \<Longrightarrow> matchesCompatibilityWindow v req = Inr (window_covers req v)"
  by (auto simp: matchesCompatibilityWindow_def readable_request_def readable_window_def
      versionWithin_range window_covers_def split: bool.split)

lemma find_window_find:
  "readable_request req \<Longrightarrow> \<forall>v \<in> set vs. readable_window v \<Longrightarrow>
   find_window vs req = Inr (find (window_covers req) vs)"
  by (induction vs) (simp_all add: matches_covers)

section \<open>A well-formed catalog\<close>

definition channel_keys :: "ChannelKey list" where
  "channel_keys = [ChannelStable, ChannelCandidate, ChannelStaging, ChannelDev]"

definition key_environment :: "ChannelKey \<Rightarrow> CloudEnvironment" where
  "key_environment k = (if k = ChannelStable \<or> k = ChannelCandidate then EnvironmentProduction else EnvironmentStaging)"

definition channel_ok :: "ReleaseChannel \<Rightarrow> bool" where
  "channel_ok c \<longleftrightarrow> rch_ChannelKey c \<in> set channel_keys \<and>
     rch_CloudEnvironment c = key_environment (rch_ChannelKey c) \<and> rch_ReleaseTrack c = rch_ChannelKey c \<and>
     (rch_ChannelKey c = ChannelDev \<longrightarrow> rch_InternalOnly c) \<and>
     (rch_ChannelKey c \<in> {ChannelStable, ChannelCandidate} \<longrightarrow> \<not> rch_InternalOnly c) \<and>
     rch_Status c \<in> {ChannelStatusActive, ChannelStatusDisabled} \<and> json_Valid (rch_Metadata c)"

definition window_ok :: "CompatibilityWindow \<Rightarrow> bool" where
  "window_ok v \<longleftrightarrow> cwn_SupportStatus v \<in> {SupportStatusSupported, SupportStatusUnsupported} \<and>
     (\<forall>lo hi. (lo, hi) \<in> {(cwn_MinAgentProtocol v, cwn_MaxAgentProtocol v),
                          (cwn_MinHAVersion v, cwn_MaxHAVersion v)} \<and> lo \<noteq> [] \<and> hi \<noteq> [] \<longrightarrow>
        (\<exists>k l. dotted_key lo = Some k \<and> dotted_key hi = Some l \<and> k \<le> l))"

text \<open>A version that names one release: no floating name in any case, no blank and no path separator.\<close>

definition fixed_version :: "string \<Rightarrow> bool" where
  "fixed_version v \<longleftrightarrow> v \<noteq> [] \<and> ToLower v \<notin> {''latest'', ''edge'', ''main'', ''master''} \<and>
     set v \<inter> {CHR '' '', CHR 0x09, CHR 0x0A, CHR 0x0D, CHR ''/'', CHR 0x5C} = {}"

definition artifact_ok :: "ReleaseArtifact \<Rightarrow> bool" where
  "artifact_ok a \<longleftrightarrow> rar_ReleaseArtifactID a \<noteq> [] \<and> rar_ChannelKey a \<in> set channel_keys \<and>
     rar_CloudEnvironment a = key_environment (rar_ChannelKey a) \<and> rar_ReleaseTrack a = rar_ChannelKey a \<and>
     fixed_version (rar_Version a) \<and>
     HasPrefix (rar_ImageDigest a) ''sha256:'' \<and> \<not> HasSuffix (rar_ImageRef a) '':latest'' \<and>
     rar_Status a \<in> {ArtifactStatusDraft, ArtifactStatusPublished, ArtifactStatusRetired,
       ArtifactStatusUnsupported} \<and>
     rar_Compatibility a \<noteq> [] \<and> (\<forall>v \<in> set (rar_Compatibility a). window_ok v)"

lemma channel_keys_distinct [simp]:
  "ChannelStable \<noteq> ChannelCandidate" "ChannelStable \<noteq> ChannelStaging" "ChannelStable \<noteq> ChannelDev"
  "ChannelCandidate \<noteq> ChannelStaging" "ChannelCandidate \<noteq> ChannelDev" "ChannelStaging \<noteq> ChannelDev"
  by (simp_all add: channel_names)

lemmas channel_keys_distinct' [simp] = channel_keys_distinct [symmetric]

lemma validateChannel_ok:
  assumes "validateChannel c = None"
  shows "channel_ok c"
  using assms
  by (auto simp: validateChannel_def channel_assignment_def channel_ok_def channel_keys_def
      key_environment_def Let_def split: if_splits option.splits)

lemma validateWindowBound_ok:
  "validateWindowBound label lo hi = None \<longleftrightarrow>
   (lo \<noteq> [] \<and> hi \<noteq> [] \<longrightarrow> (\<exists>k l. dotted_key lo = Some k \<and> dotted_key hi = Some l \<and> k \<le> l))"
proof (cases "dotted_key lo = None \<or> dotted_key hi = None")
  case True
  then have "isl (compareDottedVersion lo hi)" by (simp add: compareDottedVersion_error)
  with True show ?thesis by (auto simp: validateWindowBound_def isl_def)
next
  case False
  then obtain k l where "dotted_key lo = Some k" "dotted_key hi = Some l" by auto
  then show ?thesis by (auto simp: validateWindowBound_def compare_keys)
qed

lemma validateWindow_ok: "validateCompatibilityWindow v = None \<Longrightarrow> window_ok v"
  by (auto simp: validateCompatibilityWindow_def window_ok_def validateWindowBound_ok
      split: if_splits option.splits)

lemma first_window_error_None:
  "first_window_error vs = None \<longleftrightarrow> (\<forall>v \<in> set vs. validateCompatibilityWindow v = None)"
  by (induction vs) (auto split: option.splits)

lemma validateImmutableVersion_fixed: "validateImmutableVersion v = None \<Longrightarrow> fixed_version v"
  by (auto simp: validateImmutableVersion_def fixed_version_def ContainsAny_def list_ex_iff split: if_splits)

lemma validateArtifact_ok:
  assumes "validateArtifact a c = None" and "channel_ok c"
  shows "artifact_ok a \<and> rar_ChannelKey a = rch_ChannelKey c"
  using assms
  by (auto simp: validateArtifact_def artifact_ok_def channel_ok_def first_window_error_None
      intro: validateWindow_ok validateImmutableVersion_fixed split: if_splits option.splits)

lemma normalizeArtifact_digest [simp]:
  "rar_ImageDigest (normalizeArtifact a c now) = TrimSpace (rar_ImageDigest a)"
  by (simp add: normalizeArtifact_def)

section \<open>The repository\<close>

text \<open>
  \<open>slot k v\<close> is the place the repository keeps the artifact of a channel and version in; different
  versions of the four channels have different places.
\<close>

locale release_contract =
  fixes svc :: "'w ReleaseService" and repo :: "'w ReleaseRepository"
    and channels :: "'w \<Rightarrow> ChannelKey \<Rightarrow> ReleaseChannel option"
    and artifacts :: "'w \<Rightarrow> 'k \<Rightarrow> ReleaseArtifact option" and slot :: "ChannelKey \<Rightarrow> string \<Rightarrow> 'k"
  assumes wired: "rls_Repository svc = Some repo"
    and slot_inj: "k \<in> set channel_keys \<Longrightarrow> k' \<in> set channel_keys \<Longrightarrow> slot k v = slot k' v' \<Longrightarrow> k = k' \<and> v = v'"
    and SaveChannel_law: "rlr_SaveChannel repo c w = (r, w') \<Longrightarrow> artifacts w' = artifacts w \<and>
      (case r of Inl e \<Rightarrow> channels w' = channels w
       | Inr u \<Rightarrow> channels w' = (channels w)(rch_ChannelKey c \<mapsto> c))"
    and GetChannel_law: "rlr_GetChannel repo k w = (rc, w') \<Longrightarrow> artifacts w' = artifacts w \<and>
      channels w' = channels w \<and> (case rc of Inl e \<Rightarrow> True | Inr c \<Rightarrow> channels w k = Some c)"
    and SaveArtifact_law: "rlr_SaveArtifact repo a w = (r, w') \<Longrightarrow> channels w' = channels w \<and>
      (case r of Inl e \<Rightarrow> artifacts w' = artifacts w
       | Inr u \<Rightarrow> artifacts w' = (artifacts w)(slot (rar_ChannelKey a) (rar_Version a) \<mapsto> a))"
    and GetArtifact_law: "rlr_GetArtifactByVersion repo k v w = (ra, w') \<Longrightarrow> artifacts w' = artifacts w \<and>
      channels w' = channels w \<and>
      (case ra of Inl e \<Rightarrow> errors_Is e ErrReleaseNotFound \<longrightarrow> artifacts w (slot k v) = None
       | Inr a \<Rightarrow> artifacts w (slot k v) = Some a)"
    and Clock_law: "rls_Clock svc = Some f \<Longrightarrow> f w = (t, w') \<Longrightarrow> artifacts w' = artifacts w \<and> channels w' = channels w"
    and TimeNow_law: "rls_TimeNow svc w = (t, w') \<Longrightarrow> artifacts w' = artifacts w \<and> channels w' = channels w"
begin

lemma wp_SaveChannel:
  assumes "\<And>e w'. artifacts w' = artifacts w \<Longrightarrow> channels w' = channels w \<Longrightarrow> E e w'"
    and "\<And>w'. artifacts w' = artifacts w \<Longrightarrow> channels w' = (channels w)(rch_ChannelKey c \<mapsto> c) \<Longrightarrow> Q () w'"
  shows "wp (rlr_SaveChannel repo c) Q E w"
  by (rule wpI) (auto dest!: SaveChannel_law intro: assms)

lemma wp_GetChannel:
  assumes "\<And>e w'. artifacts w' = artifacts w \<Longrightarrow> channels w' = channels w \<Longrightarrow> E e w'"
    and "\<And>c w'. artifacts w' = artifacts w \<Longrightarrow> channels w' = channels w \<Longrightarrow> channels w k = Some c \<Longrightarrow> Q c w'"
  shows "wp (rlr_GetChannel repo k) Q E w"
  by (rule wpI) (auto dest!: GetChannel_law intro: assms)

lemma wp_SaveArtifact:
  assumes "\<And>e w'. artifacts w' = artifacts w \<Longrightarrow> channels w' = channels w \<Longrightarrow> E e w'"
    and "\<And>w'. artifacts w' = (artifacts w)(slot (rar_ChannelKey a) (rar_Version a) \<mapsto> a) \<Longrightarrow>
      channels w' = channels w \<Longrightarrow> Q () w'"
  shows "wp (rlr_SaveArtifact repo a) Q E w"
  by (rule wpI) (auto dest!: SaveArtifact_law intro: assms)

lemma wp_GetArtifact:
  assumes "\<And>e w'. artifacts w' = artifacts w \<Longrightarrow> channels w' = channels w \<Longrightarrow>
      (errors_Is e ErrReleaseNotFound \<Longrightarrow> artifacts w (slot k v) = None) \<Longrightarrow> E e w'"
    and "\<And>a w'. artifacts w' = artifacts w \<Longrightarrow> channels w' = channels w \<Longrightarrow>
      artifacts w (slot k v) = Some a \<Longrightarrow> Q a w'"
  shows "wp (rlr_GetArtifactByVersion repo k v) Q E w"
  by (rule wpI) (auto dest!: GetArtifact_law intro: assms)

lemma wp_releases_now:
  assumes "\<And>t w'. artifacts w' = artifacts w \<Longrightarrow> channels w' = channels w \<Longrightarrow> Q t w'"
  shows "wp (releases_now svc) Q E w"
  by (auto simp: releases_now_def wp_simps split: prod.split option.split
      dest: Clock_law TimeNow_law intro!: assms)

definition catalog_ok :: "'w \<Rightarrow> bool" where
  "catalog_ok w \<longleftrightarrow> (\<forall>k c. channels w k = Some c \<longrightarrow> channel_ok c \<and> rch_ChannelKey c = k) \<and>
     (\<forall>p a. artifacts w p = Some a \<longrightarrow> artifact_ok a \<and> p = slot (rar_ChannelKey a) (rar_Version a))"

lemma catalog_ok_same:
  "catalog_ok w \<Longrightarrow> artifacts w' = artifacts w \<Longrightarrow> channels w' = channels w \<Longrightarrow> catalog_ok w'"
  by (simp add: catalog_ok_def)

lemma catalog_ok_channel:
  assumes "catalog_ok w" and "validateChannel c = None" and "artifacts w' = artifacts w"
    and "channels w' = (channels w)(rch_ChannelKey c \<mapsto> c)"
  shows "catalog_ok w'"
  using assms(1,3,4) validateChannel_ok [OF assms(2)] by (auto simp: catalog_ok_def)

lemma catalog_ok_artifact:
  assumes "catalog_ok w" and "channels w k = Some c" and "validateArtifact a c = None"
    and "channels w' = channels w"
    and "artifacts w' = (artifacts w)(slot (rar_ChannelKey a) (rar_Version a) \<mapsto> a)"
  shows "catalog_ok w'"
  using assms validateArtifact_ok [OF assms(3)] by (auto simp: catalog_ok_def)

lemma RegisterChannel_ok:
  assumes "catalog_ok w"
  shows "wp (RegisterChannel svc c) (\<lambda>_. catalog_ok) (\<lambda>_. catalog_ok) w"
  unfolding RegisterChannel_def
  by (auto simp: wired wp_simps split: option.split intro!: wp_releases_now wp_SaveChannel)
    (blast intro: catalog_ok_same [OF assms] catalog_ok_channel [OF assms])+

lemma RegisterArtifact_ok:
  assumes "catalog_ok w"
  shows "wp (RegisterArtifact svc a) (\<lambda>_. catalog_ok) (\<lambda>_. catalog_ok) w"
  unfolding RegisterArtifact_def
  by (auto simp: wired wp_simps split: option.split intro!: wp_GetChannel wp_releases_now wp_SaveArtifact)
    (blast intro: catalog_ok_same [OF assms] catalog_ok_artifact [OF assms])+

lemma RegisterChannel_artifacts:
  "wp (RegisterChannel svc c) (\<lambda>_ w'. artifacts w' = artifacts w) (\<lambda>_ w'. artifacts w' = artifacts w) w"
  unfolding RegisterChannel_def
  by (auto simp: wired wp_simps split: option.split intro!: wp_releases_now wp_SaveChannel)

lemma RegisterArtifact_stores:
  "wp (RegisterArtifact svc a)
    (\<lambda>b w'. artifacts w' = (artifacts w)(slot (rar_ChannelKey b) (rar_Version b) \<mapsto> b) \<and>
       rar_ImageDigest b = TrimSpace (rar_ImageDigest a))
    (\<lambda>_ w'. artifacts w' = artifacts w) w"
  unfolding RegisterArtifact_def
  by (auto simp: wired wp_simps split: option.split
      intro!: wp_GetChannel wp_releases_now wp_SaveArtifact)

lemma found_artifact:
  assumes "catalog_ok w" and "artifacts w (slot k v) = Some a" and "k \<in> set channel_keys"
  shows "artifact_ok a \<and> rar_ChannelKey a = k \<and> rar_Version a = v"
proof -
  have "artifact_ok a" "slot k v = slot (rar_ChannelKey a) (rar_Version a)"
    using assms(1,2) by (auto simp: catalog_ok_def)
  then show ?thesis using slot_inj [OF assms(3), of "rar_ChannelKey a" v "rar_Version a"]
    by (auto simp: artifact_ok_def)
qed

text \<open>What the service answers for an installed version, whichever calls fail.\<close>

lemma CompatibilityForVersion_answer:
  assumes "k = TrimSpace (cbr_ChannelKey req)" and "v = TrimSpace (cbr_InstalledVersion req)"
  shows "wp (CompatibilityForVersion svc req)
    (\<lambda>res w'. channels w' = channels w \<and> artifacts w' = artifacts w \<and>
       (case artifacts w (slot k v) of
          None \<Rightarrow> res = compatibility_result k v False ''unsupported_version'' None
        | Some a \<Rightarrow>
            if rar_Status a \<noteq> ArtifactStatusPublished
            then res = compatibility_result k v False (reasonForArtifactStatus (rar_Status a)) (Some a)
            else \<exists>found. find_window (rar_Compatibility a) req = Inr found \<and> res = window_result k v a found))
    (\<lambda>e w'. channels w' = channels w \<and> artifacts w' = artifacts w) w"
  by (auto simp: CompatibilityForVersion_def wired wp_simps assms split: option.split sum.split
      intro!: wp_GetArtifact)

end

section \<open>The repository of the tests\<close>

record release_store = env +
  rs_channels :: "ChannelKey \<Rightarrow> ReleaseChannel option"
  rs_artifacts :: "string \<Rightarrow> ReleaseArtifact option"

definition artifactKey :: "ChannelKey \<Rightarrow> string \<Rightarrow> string" where
  "artifactKey channelKey version = channelKey @ '':'' @ version"

definition fake_SaveChannel :: "ReleaseChannel \<Rightarrow> (release_store, unit) op" where
  "fake_SaveChannel c w = (Inr (), w\<lparr>rs_channels := (rs_channels w)(rch_ChannelKey c \<mapsto> c)\<rparr>)"

definition fake_GetChannel :: "ChannelKey \<Rightarrow> (release_store, ReleaseChannel) op" where
  "fake_GetChannel k w =
     (case rs_channels w k of None \<Rightarrow> (Inl ErrReleaseNotFound, w) | Some c \<Rightarrow> (Inr c, w))"

definition fake_SaveArtifact :: "ReleaseArtifact \<Rightarrow> (release_store, unit) op" where
  "fake_SaveArtifact a w =
     (Inr (), w\<lparr>rs_artifacts := (rs_artifacts w)(artifactKey (rar_ChannelKey a) (rar_Version a) \<mapsto> a)\<rparr>)"

definition fake_GetArtifactByVersion :: "ChannelKey \<Rightarrow> string \<Rightarrow> (release_store, ReleaseArtifact) op" where
  "fake_GetArtifactByVersion k v w =
     (case rs_artifacts w (artifactKey k v) of
        None \<Rightarrow> (Inl ErrReleaseNotFound, w)
      | Some a \<Rightarrow>
          if rar_ReleaseArtifactID a = ''explode'' then (Inl (Errorf ''boom'' []), w) else (Inr a, w))"

definition release_repository :: "release_store ReleaseRepository" where
  "release_repository =
     \<lparr>rlr_SaveChannel = (\<lambda>c. with_fault (fake_SaveChannel c)),
      rlr_GetChannel = (\<lambda>k. with_fault (fake_GetChannel k)),
      rlr_SaveArtifact = (\<lambda>a. with_fault (fake_SaveArtifact a)),
      rlr_GetArtifactByVersion = (\<lambda>k v. with_fault (fake_GetArtifactByVersion k v))\<rparr>"

definition release_service :: "release_store ReleaseService" where
  "release_service =
     \<lparr>rls_Repository = Some release_repository, rls_Clock = Some read_clock, rls_TimeNow = read_clock\<rparr>"

lemmas release_repository_defs = release_service_def release_repository_def fake_SaveChannel_def
  fake_GetChannel_def fake_SaveArtifact_def fake_GetArtifactByVersion_def with_fault_def read_clock_def
  injected_fault_def ErrReleaseNotFound_def

lemma artifactKey_inj:
  assumes "k \<in> set channel_keys" and "k' \<in> set channel_keys" and "artifactKey k v = artifactKey k' v'"
  shows "k = k' \<and> v = v'"
  using assms by (auto simp: channel_keys_def artifactKey_def channel_names)

interpretation releases: release_contract release_service release_repository rs_channels rs_artifacts artifactKey
  by unfold_locales
    (auto simp: release_repository_defs dest: artifactKey_inj split: list.splits if_splits option.splits)

end
