(* ===== verification/HA_Store.thy ===== *)
theory HA_Store
  imports HA_Versions Release_Store
begin

text \<open>
  What the Home Assistant version service promises over every repository that keeps \<open>ha_contract\<close>, and
  the repository of \<open>ha_versions_test.go\<close> with calls that may fail.
\<close>

section \<open>Catalogs and advisories\<close>

text \<open>The catalogs the service stores: an active one names a version that can be compared.\<close>

definition ha_catalog_ok :: "HACoreVersionCatalog \<Rightarrow> bool" where
  "ha_catalog_ok c \<longleftrightarrow> hvc_CatalogKey c = HACatalogStable \<and> json_Valid (hvc_Metadata c) \<and>
     (hvc_Status c = HACatalogStatusActive \<and> dotted_key (hvc_LatestVersion c) \<noteq> None \<or>
      hvc_Status c = HACatalogStatusUnavailable \<and> hvc_LatestVersion c = [])"

lemma ha_statuses [simp]:
  "HACatalogStatusActive \<noteq> HACatalogStatusUnavailable" "HACatalogStatusActive \<noteq> HACatalogStatusStale"
  "HAAdvisoryUpdateAvailable \<noteq> HAAdvisoryHidden" "HAAdvisoryCurrent \<noteq> HAAdvisoryHidden"
  "HAAdvisoryUpdateAvailable \<noteq> HAAdvisoryCurrent"
  by (simp_all add: ha_names)

lemmas ha_statuses' [simp] = ha_statuses [symmetric]

lemma unavailable_metadata_valid: "json_Valid (hvc_Metadata (unavailable_catalog s now))"
  by (simp add: unavailable_catalog_def) code_simp

lemma unavailable_catalog_ok: "ha_catalog_ok (unavailable_catalog s now)"
  using unavailable_metadata_valid [of s now]
  by (simp add: ha_catalog_ok_def unavailable_catalog_def)

lemma catalog_status [simp]:
  "hvc_Status (refreshed_catalog s now c) = HACatalogStatusActive"
  "hvc_Status (unavailable_catalog s now) = HACatalogStatusUnavailable"
  by (simp_all add: refreshed_catalog_def unavailable_catalog_def Let_def)

lemma refreshed_catalog_ok:
  assumes "validateHACatalog (refreshed_catalog s now c) = None"
  shows "ha_catalog_ok (refreshed_catalog s now c)"
  using assms by (auto simp: validateHACatalog_def ha_catalog_ok_def dotted_key_def split: if_splits sum.splits)

text \<open>What an advisory says, given the catalog that was read.\<close>

definition advises_update :: "HACoreVersionCatalog \<Rightarrow> string \<Rightarrow> time \<Rightarrow> bool" where
  "advises_update c installed now \<longleftrightarrow> hvc_Status c = HACatalogStatusActive \<and>
     (IsZero (hvc_ExpiresAt c) \<or> now \<le> hvc_ExpiresAt c) \<and>
     (\<exists>k l. dotted_key installed = Some k \<and> dotted_key (hvc_LatestVersion c) = Some l \<and> k < l)"

definition advises_current :: "HACoreVersionCatalog \<Rightarrow> string \<Rightarrow> time \<Rightarrow> bool" where
  "advises_current c installed now \<longleftrightarrow> hvc_Status c = HACatalogStatusActive \<and>
     (IsZero (hvc_ExpiresAt c) \<or> now \<le> hvc_ExpiresAt c) \<and>
     (\<exists>k l. dotted_key installed = Some k \<and> dotted_key (hvc_LatestVersion c) = Some l \<and> l \<le> k)"

definition advisory_status :: "HACoreVersionCatalog option \<Rightarrow> string \<Rightarrow> time \<Rightarrow> HAAdvisoryStatus" where
  "advisory_status c installed now =
     (case c of
        None \<Rightarrow> HAAdvisoryHidden
      | Some c \<Rightarrow> if advises_update c installed now then HAAdvisoryUpdateAvailable
                  else if advises_current c installed now then HAAdvisoryCurrent else HAAdvisoryHidden)"

lemma dotted_key_blank: "TrimSpace v = [] \<Longrightarrow> dotted_key v = None"
  by (simp add: dotted_key_def parseDottedVersion_def version_core_def TrimPrefix_def HasPrefix_def)

lemma usable_iff:
  "ha_catalog_ok c \<Longrightarrow> catalogUsable c now \<longleftrightarrow>
   hvc_Status c = HACatalogStatusActive \<and> (IsZero (hvc_ExpiresAt c) \<or> now \<le> hvc_ExpiresAt c)"
  by (auto simp: catalogUsable_def ha_catalog_ok_def dest: dotted_key_blank)

lemma compared_advisory_status:
  assumes "ha_catalog_ok c" and "catalogUsable c now" and "hua_InstalledVersion base = TrimSpace v"
    and "hua_AdvisoryStatus base = HAAdvisoryHidden"
  shows "hua_AdvisoryStatus (compared_advisory base c) = advisory_status (Some c) v now"
proof -
  from assms(1,2) obtain l where l: "dotted_key (hvc_LatestVersion c) = Some l"
    "hvc_Status c = HACatalogStatusActive" "IsZero (hvc_ExpiresAt c) \<or> now \<le> hvc_ExpiresAt c"
    by (auto simp: usable_iff ha_catalog_ok_def)
  show ?thesis
  proof (cases "dotted_key v")
    case None
    then have "isl (compareDottedVersion (TrimSpace v) (hvc_LatestVersion c))"
      by (simp add: compareDottedVersion_error)
    then show ?thesis using None assms(3,4)
      by (auto simp: compared_advisory_def advisory_status_def advises_update_def advises_current_def
          Let_def isl_def)
  next
    case (Some k)
    then have "TrimSpace v \<noteq> []" using dotted_key_blank by fastforce
    moreover have "compareDottedVersion (TrimSpace v) (hvc_LatestVersion c) =
        Inr (if k < l then -1 else if k = l then 0 else 1)"
      using Some l(1) by (simp add: compare_keys)
    ultimately show ?thesis using Some l assms(3)
      by (auto simp: compared_advisory_def advisory_status_def advises_update_def advises_current_def Let_def)
  qed
qed

text \<open>The advisory of a device at a time, from the stored catalog, or hidden since none could be read.\<close>

definition advised :: "HACoreVersionCatalog option \<Rightarrow> time \<Rightarrow> HAAdvisoryRequest \<Rightarrow> HAUpdateAdvisory \<Rightarrow> bool" where
  "advised stored now req a \<longleftrightarrow> hua_DeviceID a = TrimSpace (har_DeviceID req) \<and>
     (if hua_ReasonCode a = ''catalog_missing'' then hua_AdvisoryStatus a = HAAdvisoryHidden
      else hua_AdvisoryStatus a = advisory_status stored (har_InstalledVersion req) now)"

lemma base_advisory_fields [simp]:
  "hua_DeviceID (base_advisory req now) = TrimSpace (har_DeviceID req)"
  "hua_InstalledVersion (base_advisory req now) = TrimSpace (har_InstalledVersion req)"
  "hua_AdvisoryStatus (base_advisory req now) = HAAdvisoryHidden"
  by (simp_all add: base_advisory_def)

lemma advised_missing: "advised stored now req (base_advisory req now'\<lparr>hua_ReasonCode := ''catalog_missing''\<rparr>)"
  by (simp add: advised_def)

lemma advised_unusable:
  assumes "stored = Some c" and "ha_catalog_ok c" and "\<not> catalogUsable c now"
  shows "advised stored now req (unusable_advisory (base_advisory req now) c now)"
proof -
  have "advisory_status (Some c) v now = HAAdvisoryHidden" for v
    using assms by (auto simp: advisory_status_def advises_update_def advises_current_def usable_iff)
  then show ?thesis using assms(1) by (simp add: advised_def unusable_advisory_def)
qed

lemma compared_advisory_device [simp]:
  "hua_DeviceID (unusable_advisory base c now) = hua_DeviceID base"
  "hua_DeviceID (compared_advisory base c) = hua_DeviceID base"
  "hua_ReasonCode (compared_advisory base c) \<noteq> ''catalog_missing''"
  by (simp_all add: compared_advisory_def unusable_advisory_def Let_def split: sum.split)

lemma advised_compared:
  assumes "stored = Some c" and "ha_catalog_ok c" and "catalogUsable c now"
  shows "advised stored now req (compared_advisory (base_advisory req now) c)"
  using compared_advisory_status [OF assms(2,3), of "base_advisory req now" "har_InstalledVersion req"] assms(1)
  by (simp add: advised_def)

section \<open>The repository\<close>

locale ha_contract =
  fixes svc :: "'w HAVersionService" and repo :: "'w HAVersionRepository"
    and catalog :: "'w \<Rightarrow> HACoreVersionCatalog option"
    and advisories :: "'w \<Rightarrow> string \<Rightarrow> HAUpdateAdvisory option" and clock :: "'w \<Rightarrow> time"
  assumes wired: "hvs_Repository svc = Some repo"
    and SaveCatalog_law: "hvr_SaveHACoreCatalog repo c w = (r, w') \<Longrightarrow> advisories w' = advisories w \<and>
      (case r of Inl e \<Rightarrow> catalog w' = catalog w | Inr u \<Rightarrow> catalog w' = Some c)"
    and GetCatalog_law: "hvr_GetHACoreCatalog repo k w = (rc, w') \<Longrightarrow> advisories w' = advisories w \<and>
      catalog w' = catalog w \<and> (case rc of Inl e \<Rightarrow> True | Inr c \<Rightarrow> catalog w = Some c)"
    and UpsertAdvisory_law: "hvr_UpsertHAUpdateAdvisory repo a w = (r, w') \<Longrightarrow> catalog w' = catalog w \<and>
      (case r of Inl e \<Rightarrow> advisories w' = advisories w
       | Inr u \<Rightarrow> advisories w' = (advisories w)(hua_DeviceID a \<mapsto> a))"
    and Provider_law: "hvs_Provider svc = Some fetch \<Longrightarrow> fetch w = (rf, w') \<Longrightarrow>
      advisories w' = advisories w \<and> catalog w' = catalog w"
    and Clock_law: "hvs_Clock svc = Some f \<Longrightarrow> f w = (t, w') \<Longrightarrow> t = clock w \<and> advisories w' = advisories w \<and> catalog w' = catalog w"
    and TimeNow_law: "hvs_TimeNow svc w = (t, w') \<Longrightarrow>
      t = clock w \<and> advisories w' = advisories w \<and> catalog w' = catalog w"
begin

lemma wp_SaveCatalog:
  assumes "\<And>e w'. advisories w' = advisories w \<Longrightarrow> catalog w' = catalog w \<Longrightarrow> E e w'"
    and "\<And>w'. advisories w' = advisories w \<Longrightarrow> catalog w' = Some c \<Longrightarrow> Q () w'"
  shows "wp (hvr_SaveHACoreCatalog repo c) Q E w"
  by (rule wpI) (auto dest!: SaveCatalog_law intro: assms)

lemma wp_GetCatalog:
  assumes "\<And>e w'. advisories w' = advisories w \<Longrightarrow> catalog w' = catalog w \<Longrightarrow> E e w'"
    and "\<And>c w'. advisories w' = advisories w \<Longrightarrow> catalog w' = catalog w \<Longrightarrow> catalog w = Some c \<Longrightarrow> Q c w'"
  shows "wp (hvr_GetHACoreCatalog repo k) Q E w"
  by (rule wpI) (auto dest!: GetCatalog_law intro: assms)

lemma wp_UpsertAdvisory:
  assumes "\<And>e w'. advisories w' = advisories w \<Longrightarrow> catalog w' = catalog w \<Longrightarrow> E e w'"
    and "\<And>w'. advisories w' = (advisories w)(hua_DeviceID a \<mapsto> a) \<Longrightarrow> catalog w' = catalog w \<Longrightarrow> Q () w'"
  shows "wp (hvr_UpsertHAUpdateAdvisory repo a) Q E w"
  by (rule wpI) (auto dest!: UpsertAdvisory_law intro: assms)

lemma wp_fetch:
  assumes "hvs_Provider svc = Some fetch"
    and "\<And>e w'. advisories w' = advisories w \<Longrightarrow> catalog w' = catalog w \<Longrightarrow> E e w'"
    and "\<And>c w'. advisories w' = advisories w \<Longrightarrow> catalog w' = catalog w \<Longrightarrow> Q c w'"
  shows "wp fetch Q E w"
  by (rule wpI) (auto dest!: Provider_law [OF assms(1)] intro: assms)

lemma wp_ha_now:
  assumes "\<And>w'. advisories w' = advisories w \<Longrightarrow> catalog w' = catalog w \<Longrightarrow> Q (clock w) w'"
  shows "wp (ha_now svc) Q E w"
  using assms
  by (auto simp: ha_now_def wp_simps split: prod.split option.split dest: Clock_law TimeNow_law)

definition stored_ok :: "'w \<Rightarrow> bool" where
  "stored_ok w \<longleftrightarrow> (case catalog w of None \<Rightarrow> True | Some c \<Rightarrow> ha_catalog_ok c)"

lemma RefreshLatestStable_ok:
  assumes "stored_ok w"
  shows "wp (RefreshLatestStable svc)
    (\<lambda>(c, e) w'. stored_ok w' \<and> catalog w' = Some c \<and> advisories w' = advisories w \<and>
       (e = None \<longleftrightarrow> hvc_Status c = HACatalogStatusActive))
    (\<lambda>_ w'. stored_ok w' \<and> catalog w' = catalog w \<and> advisories w' = advisories w) w"
  using assms
  by (auto simp: RefreshLatestStable_def wired wp_simps stored_ok_def Let_def unavailable_catalog_ok
      split: option.split sum.split intro!: wp_ha_now wp_fetch wp_SaveCatalog
      dest: refreshed_catalog_ok)
    (auto dest: refreshed_catalog_ok split: option.splits)

lemma wp_saveAdvisory:
  assumes "\<And>e w'. advisories w' = advisories w \<Longrightarrow> catalog w' = catalog w \<Longrightarrow> E e w'"
    and "\<And>w'. advisories w' = (advisories w)(hua_DeviceID a \<mapsto> a) \<Longrightarrow> catalog w' = catalog w \<Longrightarrow> Q a w'"
  shows "wp (saveAdvisory repo a) Q E w"
  by (auto simp: saveAdvisory_def wp_simps intro!: wp_UpsertAdvisory assms)

lemma AdvisoryForInstalled_post:
  assumes "stored_ok w"
  shows "wp (AdvisoryForInstalled svc req)
    (\<lambda>a w'. catalog w' = catalog w \<and> advisories w' = (advisories w)(hua_DeviceID a \<mapsto> a) \<and>
       advised (catalog w) (clock w) req a)
    (\<lambda>_ w'. catalog w' = catalog w \<and> advisories w' = advisories w) w"
  using assms
  by (auto simp: AdvisoryForInstalled_def wired wp_simps stored_ok_def Let_def
      advised_missing
      split: option.split sum.split intro!: wp_ha_now wp_GetCatalog wp_saveAdvisory)
    (auto split: option.splits intro!: advised_unusable advised_compared)

end

section \<open>The repository of the tests\<close>

text \<open>A missing catalog is \<open>None\<close>; the provider answers from a list.\<close>

record ha_store = env +
  hs_catalog :: "HACoreVersionCatalog option"
  hs_advisories :: "string \<Rightarrow> HAUpdateAdvisory option"
  hs_published :: "HACoreVersionCatalog list"

definition fake_SaveHACoreCatalog :: "HACoreVersionCatalog \<Rightarrow> (ha_store, unit) op" where
  "fake_SaveHACoreCatalog c w = (Inr (), w\<lparr>hs_catalog := Some c\<rparr>)"

definition fake_GetHACoreCatalog :: "string \<Rightarrow> (ha_store, HACoreVersionCatalog) op" where
  "fake_GetHACoreCatalog k w =
     (case hs_catalog w of None \<Rightarrow> (Inl ErrReleaseNotFound, w) | Some c \<Rightarrow> (Inr c, w))"

definition fake_UpsertHAUpdateAdvisory :: "HAUpdateAdvisory \<Rightarrow> (ha_store, unit) op" where
  "fake_UpsertHAUpdateAdvisory a w =
     (Inr (), w\<lparr>hs_advisories := (hs_advisories w)(hua_DeviceID a \<mapsto> a)\<rparr>)"

definition fake_FetchLatestStable :: "(ha_store, HACoreVersionCatalog) op" where
  "fake_FetchLatestStable w =
     (case hs_published w of
        [] \<Rightarrow> (Inl (Errorf ''provider failed'' []), w)
      | c # cs \<Rightarrow> if hvc_LatestVersion c = ''error'' then (Inl (Errorf ''provider failed'' []), w\<lparr>hs_published := cs\<rparr>)
                 else (Inr c, w\<lparr>hs_published := cs\<rparr>))"

definition ha_repository :: "ha_store HAVersionRepository" where
  "ha_repository =
     \<lparr>hvr_SaveHACoreCatalog = (\<lambda>c. with_fault (fake_SaveHACoreCatalog c)),
      hvr_GetHACoreCatalog = (\<lambda>k. with_fault (fake_GetHACoreCatalog k)),
      hvr_UpsertHAUpdateAdvisory = (\<lambda>a. with_fault (fake_UpsertHAUpdateAdvisory a))\<rparr>"

definition ha_service :: "ha_store HAVersionService" where
  "ha_service =
     \<lparr>hvs_Repository = Some ha_repository, hvs_Provider = Some (with_fault fake_FetchLatestStable),
      hvs_Clock = Some read_clock, hvs_TimeNow = read_clock, hvs_TTL = 0\<rparr>"

lemmas ha_repository_defs = ha_service_def ha_repository_def fake_SaveHACoreCatalog_def
  fake_GetHACoreCatalog_def fake_UpsertHAUpdateAdvisory_def fake_FetchLatestStable_def
  with_fault_def read_clock_def

interpretation ha_versions: ha_contract ha_service ha_repository hs_catalog hs_advisories env_clock
  by unfold_locales (auto simp: ha_repository_defs split: list.splits if_splits option.splits)

end
