(* ===== verification/Release_Properties.thy ===== *)
theory Release_Properties
  imports HA_Store
begin

text \<open>
  Sequences of calls of the release service and of the Home Assistant version service, and what holds
  after them; the order of versions.
\<close>

section \<open>Sequences of calls\<close>

datatype release_call = CallRegisterChannel ReleaseChannel | CallRegisterArtifact ReleaseArtifact

fun run_release_call :: "release_call \<Rightarrow> release_store \<Rightarrow> release_store" where
  "run_release_call (CallRegisterChannel c) w = snd (RegisterChannel release_service c w)"
| "run_release_call (CallRegisterArtifact a) w = snd (RegisterArtifact release_service a w)"

fun run_release_calls :: "release_call list \<Rightarrow> release_store \<Rightarrow> release_store" where
  "run_release_calls [] w = w"
| "run_release_calls (c # cs) w = run_release_calls cs (run_release_call c w)"

text \<open>The artifacts that a sequence of calls accepts, in order.\<close>

fun accepted_artifacts :: "release_call list \<Rightarrow> release_store \<Rightarrow> ReleaseArtifact list" where
  "accepted_artifacts [] w = []"
| "accepted_artifacts (CallRegisterChannel c # cs) w =
     accepted_artifacts cs (run_release_call (CallRegisterChannel c) w)"
| "accepted_artifacts (CallRegisterArtifact a # cs) w =
     (case RegisterArtifact release_service a w of
        (Inl e, w') \<Rightarrow> accepted_artifacts cs w'
      | (Inr b, w') \<Rightarrow> b # accepted_artifacts cs w')"

definition artifact_at :: "string \<Rightarrow> ReleaseArtifact \<Rightarrow> bool" where
  "artifact_at p a \<longleftrightarrow> artifactKey (rar_ChannelKey a) (rar_Version a) = p"

lemma find_snoc: "find P (xs @ [x]) = (case find P xs of None \<Rightarrow> if P x then Some x else None | Some y \<Rightarrow> Some y)"
  by (induction xs) auto

lemma run_release_calls_artifacts:
  "rs_artifacts (run_release_calls cs w) p =
    (case find (artifact_at p) (rev (accepted_artifacts cs w)) of None \<Rightarrow> rs_artifacts w p | Some a \<Rightarrow> Some a)"
proof (induction cs w rule: accepted_artifacts.induct)
  case (2 c cs w)
  have "rs_artifacts (run_release_call (CallRegisterChannel c) w) = rs_artifacts w"
    using wp_worldD [OF releases.RegisterChannel_artifacts [of c w]] by simp
  with 2 show ?case by (simp split: option.split)
next
  case (3 a cs w)
  show ?case
  proof (cases "RegisterArtifact release_service a w")
    case (Pair r w')
    note stored = releases.RegisterArtifact_stores [of a w]
    show ?thesis
    proof (cases r)
      case (Inl e)
      with Pair stored have "rs_artifacts w' = rs_artifacts w" by (simp add: wp_def)
      with "3.IH"(1) [OF Pair [symmetric] Inl] Pair Inl show ?thesis
        by (simp split: option.split)
    next
      case (Inr b)
      with Pair stored have "rs_artifacts w' = (rs_artifacts w)(artifactKey (rar_ChannelKey b) (rar_Version b) \<mapsto> b)"
        by (simp add: wp_def)
      with "3.IH"(2) [OF Pair [symmetric] Inr] Pair Inr show ?thesis
        by (auto simp: find_snoc artifact_at_def split: option.split)
    qed
  qed
qed simp

lemma run_release_calls_ok:
  "releases.catalog_ok w \<Longrightarrow> releases.catalog_ok (run_release_calls cs w)"
proof (induction cs arbitrary: w)
  case (Cons c cs)
  have "releases.catalog_ok (run_release_call c w)"
    by (cases c) (simp_all add: wp_worldD [OF releases.RegisterChannel_ok [OF Cons.prems]]
        wp_worldD [OF releases.RegisterArtifact_ok [OF Cons.prems]])
  then show ?case by (simp add: Cons.IH)
qed simp

lemma empty_catalog_ok:
  "rs_channels w = Map.empty \<Longrightarrow> rs_artifacts w = Map.empty \<Longrightarrow> releases.catalog_ok w"
  by (simp add: releases.catalog_ok_def)

datatype ha_call = CallRefresh | CallAdvisory HAAdvisoryRequest

fun run_ha_call :: "ha_call \<Rightarrow> ha_store \<Rightarrow> ha_store" where
  "run_ha_call CallRefresh w = snd (RefreshLatestStable ha_service w)"
| "run_ha_call (CallAdvisory r) w = snd (AdvisoryForInstalled ha_service r w)"

fun run_ha_calls :: "ha_call list \<Rightarrow> ha_store \<Rightarrow> ha_store" where
  "run_ha_calls [] w = w"
| "run_ha_calls (c # cs) w = run_ha_calls cs (run_ha_call c w)"

lemma run_ha_call_ok: "ha_versions.stored_ok w \<Longrightarrow> ha_versions.stored_ok (run_ha_call c w)"
proof (cases c)
  case CallRefresh
  assume ok: "ha_versions.stored_ok w"
  have "wp (RefreshLatestStable ha_service) (\<lambda>_. ha_versions.stored_ok) (\<lambda>_. ha_versions.stored_ok) w"
    by (rule wp_mono [OF ha_versions.RefreshLatestStable_ok [OF ok]]) auto
  from wp_worldD [OF this] CallRefresh show ?thesis by simp
next
  case (CallAdvisory r)
  assume ok: "ha_versions.stored_ok w"
  have "wp (AdvisoryForInstalled ha_service r) (\<lambda>_. ha_versions.stored_ok) (\<lambda>_. ha_versions.stored_ok) w"
    by (rule wp_mono [OF ha_versions.AdvisoryForInstalled_post [OF ok]])
      (use ok in \<open>simp_all add: ha_versions.stored_ok_def\<close>)
  from wp_worldD [OF this] CallAdvisory show ?thesis by simp
qed

lemma run_ha_calls_ok: "ha_versions.stored_ok w \<Longrightarrow> ha_versions.stored_ok (run_ha_calls cs w)"
  by (induction cs arbitrary: w) (simp_all add: run_ha_call_ok)

lemma ha_service_fields [simp]:
  "hvs_Repository ha_service = Some ha_repository"
  "hvs_Provider ha_service = Some (with_fault fake_FetchLatestStable)"
  "hvs_Clock ha_service = Some read_clock"
  "hvr_SaveHACoreCatalog ha_repository c = with_fault (fake_SaveHACoreCatalog c)"
  by (simp_all add: ha_service_def ha_repository_def)

lemma wp_fake_catalog:
  "wp (fake_SaveHACoreCatalog c) Q E w = Q () (w\<lparr>hs_catalog := Some c\<rparr>)"
  "hs_published w = [] \<Longrightarrow> wp fake_FetchLatestStable R E w = E (Errorf ''provider failed'' []) w"
  by (simp_all add: wp_def fake_SaveHACoreCatalog_def fake_FetchLatestStable_def)

section \<open>Properties\<close>

text \<open>C34: compareDottedVersion is the lexicographic order of the parsed parts without trailing zeros, and
  fails exactly with the first of its versions that cannot be parsed.\<close>

theorem compare_versions_reference:
  "compareDottedVersion v w =
     (case parseDottedVersion v of
        Inl e \<Rightarrow> Inl e
      | Inr a \<Rightarrow>
          (case parseDottedVersion w of
             Inl e \<Rightarrow> Inl e
           | Inr b \<Rightarrow> Inr (if version_key a < version_key b then -1
                         else if version_key a = version_key b then 0 else 1)))"
  using parsed_nonneg [of v] parsed_nonneg [of w]
  by (auto simp: compareDottedVersion_def compare_from_parts compare_parts_key split: sum.splits)

text \<open>C35: After any registrations on an empty catalog, whichever repository calls fail, every channel has the
  environment and track of its key; an artifact is stored exactly if it is the last accepted registration
  of its channel and version, it lies under them, its version is no floating name (such as latest) and
  has no blank or path separator, its image digest is content-addressed, and its windows are not empty
  and have their two bounds in order.\<close>

theorem release_catalog_invariant:
  assumes "rs_channels w = Map.empty" and "rs_artifacts w = Map.empty" and "w' = run_release_calls cs w"
  shows "(\<forall>k c. rs_channels w' k = Some c \<longrightarrow> rch_ChannelKey c = k \<and> channel_ok c) \<and>
    (\<forall>p. rs_artifacts w' p = find (artifact_at p) (rev (accepted_artifacts cs w))) \<and>
    (\<forall>p a. rs_artifacts w' p = Some a \<longrightarrow>
       p = artifactKey (rar_ChannelKey a) (rar_Version a) \<and> artifact_ok a)"
proof -
  have "releases.catalog_ok w'"
    using run_release_calls_ok [OF empty_catalog_ok [OF assms(1,2)]] assms(3) by simp
  moreover have "rs_artifacts w' p = find (artifact_at p) (rev (accepted_artifacts cs w))" for p
    using run_release_calls_artifacts [of cs w p] assms(2,3) by (simp split: option.split)
  ultimately show ?thesis by (simp add: releases.catalog_ok_def)
qed

text \<open>A stored release is not immutable: an accepted registration of its channel and version, with another
  image digest, say, replaces it.\<close>

theorem registration_replaces_release:
  assumes "RegisterArtifact release_service a w = (Inr b, w')"
    and "rs_artifacts w (artifactKey (rar_ChannelKey b) (rar_Version b)) = Some old"
    and "TrimSpace (rar_ImageDigest a) \<noteq> rar_ImageDigest old"
  shows "rs_artifacts w' (artifactKey (rar_ChannelKey b) (rar_Version b)) = Some b \<and>
    rar_ImageDigest b \<noteq> rar_ImageDigest old"
  using wp_InrD [OF releases.RegisterArtifact_stores assms(1)] assms(3) by simp

text \<open>C24: Where the versions of the device and the window bounds of the artifact can be read, an installed version
  is reported supported exactly if it is the version of a published artifact of the channel and the first
  of its windows that covers the device supports it.\<close>

theorem compatibility_decided:
  assumes "rs_channels w0 = Map.empty" and "rs_artifacts w0 = Map.empty" and "w = run_release_calls cs w0"
    and "CompatibilityForVersion release_service req w = (Inr res, w')"
    and "TrimSpace (cbr_ChannelKey req) \<in> set channel_keys" and "readable_request req"
    and "\<And>a. rs_artifacts w (artifactKey (TrimSpace (cbr_ChannelKey req)) (TrimSpace (cbr_InstalledVersion req))) =
      Some a \<Longrightarrow> list_all readable_window (rar_Compatibility a)"
  shows "cbs_Supported res \<longleftrightarrow>
    (\<exists>p a v. rs_artifacts w p = Some a \<and> rar_ChannelKey a = TrimSpace (cbr_ChannelKey req) \<and>
       rar_Version a = TrimSpace (cbr_InstalledVersion req) \<and> rar_Status a = ArtifactStatusPublished \<and>
       find (window_covers req) (rar_Compatibility a) = Some v \<and> cwn_SupportStatus v = SupportStatusSupported)"
proof -
  let ?k = "TrimSpace (cbr_ChannelKey req)" and ?v = "TrimSpace (cbr_InstalledVersion req)"
  have ok: "releases.catalog_ok w"
    using run_release_calls_ok [OF empty_catalog_ok [OF assms(1,2)]] assms(3) by simp
  note answer = wp_InrD [OF releases.CompatibilityForVersion_answer [where req = req, OF refl refl] assms(4)]
  show ?thesis
  proof (cases "rs_artifacts w (artifactKey ?k ?v)")
    case None
    have "p = artifactKey ?k ?v" if "rs_artifacts w p = Some a" "rar_ChannelKey a = ?k" "rar_Version a = ?v" for p a
      using ok that unfolding releases.catalog_ok_def by metis
    with None answer show ?thesis by (fastforce simp: compatibility_result_def)
  next
    case (Some a)
    have a: "artifact_ok a \<and> rar_ChannelKey a = ?k \<and> rar_Version a = ?v"
      by (rule releases.found_artifact [OF ok Some assms(5)])
    have "find_window (rar_Compatibility a) req = Inr (find (window_covers req) (rar_Compatibility a))"
      using assms(6) assms(7) [OF Some] by (intro find_window_find) (auto simp: list_all_iff)
    moreover have "cwn_SupportStatus v = SupportStatusSupported \<longleftrightarrow> cwn_SupportStatus v \<noteq> SupportStatusUnsupported"
      if "find (window_covers req) (rar_Compatibility a) = Some v" for v
      using a that by (auto simp: artifact_ok_def window_ok_def find_Some_iff artifact_names)
    ultimately have "cbs_Supported res \<longleftrightarrow> rar_Status a = ArtifactStatusPublished \<and>
        (\<exists>v. find (window_covers req) (rar_Compatibility a) = Some v \<and> cwn_SupportStatus v = SupportStatusSupported)"
      using answer Some
      by (cases "find (window_covers req) (rar_Compatibility a)")
        (auto simp: compatibility_result_def window_result_def split: if_splits)
    moreover have "b = a" if "rs_artifacts w p = Some b" "rar_ChannelKey b = ?k" "rar_Version b = ?v" for p b
      using ok that Some unfolding releases.catalog_ok_def by (metis option.inject)
    ultimately show ?thesis using Some a by metis
  qed
qed

text \<open>A window with one bound alone is registered without reading it. If the bound is no version, every
  compatibility check of that artifact fails for a device that reports its protocol.\<close>

theorem unreadable_bound_registered:
  assumes "RegisterArtifact release_service a w = (Inr b, w')" and "rar_Compatibility b = v # vs"
    and "rar_Status b = ArtifactStatusPublished" and "rar_ReleaseArtifactID b \<noteq> ''explode''"
    and "cwn_MinAgentProtocol v \<noteq> []" and "dotted_key (cwn_MinAgentProtocol v) = None"
    and "TrimSpace (cbr_ChannelKey req) = rar_ChannelKey b"
    and "TrimSpace (cbr_InstalledVersion req) = rar_Version b" and "TrimSpace (cbr_AgentProtocol req) \<noteq> []"
  shows "\<exists>e w''. CompatibilityForVersion release_service req w' = (Inl e, w'')"
proof -
  have "wp (RegisterArtifact release_service a)
      (\<lambda>b w'. rs_artifacts w' (artifactKey (rar_ChannelKey b) (rar_Version b)) = Some b) (\<lambda>_ _. True) w"
    unfolding RegisterArtifact_def
    by (auto simp: releases.wired wp_simps split: option.split
        intro!: releases.wp_GetChannel releases.wp_releases_now releases.wp_SaveArtifact)
  from wp_InrD [OF this assms(1)]
  have stored: "rs_artifacts w' (artifactKey (rar_ChannelKey b) (rar_Version b)) = Some b" .
  have "isl (compareDottedVersion (TrimSpace (cbr_AgentProtocol req)) (cwn_MinAgentProtocol v))"
    using assms(6) by (simp add: compareDottedVersion_error)
  then have "isl (find_window (rar_Compatibility b) req)"
    using assms(2,5,9) by (auto simp: matchesCompatibilityWindow_def versionWithin_def Let_def isl_def)
  then have none: "find_window (rar_Compatibility b) req \<noteq> Inr f" for f by (auto simp: isl_def)
  show ?thesis
  proof (cases "CompatibilityForVersion release_service req w'")
    case (Pair r w'')
    show ?thesis
    proof (cases r)
      case (Inr res)
      then have "CompatibilityForVersion release_service req w' = (Inr res, w'')" using Pair by simp
      from wp_InrD [OF releases.CompatibilityForVersion_answer [where req = req, OF refl refl] this]
      show ?thesis using stored assms(3,7,8) none by simp
    qed (use Pair in simp)
  qed
qed

text \<open>The advisory of an installed Home Assistant version, after any refreshes and advisories and
  whichever calls fail: an update is advised exactly if the stored catalog is active, not expired and
  names a later version; the advisory is hidden when the catalog cannot be read or compared.\<close>

theorem ha_advisory_exact:
  assumes "hs_catalog w0 = None" and "w = run_ha_calls cs w0"
    and "AdvisoryForInstalled ha_service req w = (Inr a, w')"
  shows "hs_advisories w' (TrimSpace (har_DeviceID req)) = Some a \<and> hs_catalog w' = hs_catalog w \<and>
    (if hua_ReasonCode a = ''catalog_missing'' then hua_AdvisoryStatus a = HAAdvisoryHidden
     else hua_AdvisoryStatus a = advisory_status (hs_catalog w) (har_InstalledVersion req) (env_clock w))"
proof -
  have "ha_versions.stored_ok w"
    using run_ha_calls_ok [of w0 cs] assms(1,2) by (simp add: ha_versions.stored_ok_def)
  from wp_InrD [OF ha_versions.AdvisoryForInstalled_post [OF this] assms(3)]
  show ?thesis by (simp add: advised_def)
qed

text \<open>A failed fetch replaces the stored catalog, also one that has not expired: until a refresh
  succeeds every advisory is hidden.\<close>

theorem failed_refresh_hides_advisories:
  assumes "env_faults w = []" and "hs_published w = []"
    and "AdvisoryForInstalled ha_service req (snd (RefreshLatestStable ha_service w)) = (Inr a, w')"
  shows "hua_AdvisoryStatus a = HAAdvisoryHidden"
proof -
  let ?w = "snd (RefreshLatestStable ha_service w)"
  have "wp (RefreshLatestStable ha_service) (\<lambda>_ w'. hs_catalog w' = Some (unavailable_catalog ha_service (env_clock w)))
      (\<lambda>_ _. False) w"
    using assms(1,2)
    by (auto simp: RefreshLatestStable_def ha_now_def wp_simps wp_with_fault wp_fake_catalog
        read_clock_def split: list.split)
  then have c: "hs_catalog ?w = Some (unavailable_catalog ha_service (env_clock w))"
    by (auto simp: wp_def split: prod.splits sum.splits)
  then have "ha_versions.stored_ok ?w" by (simp add: ha_versions.stored_ok_def unavailable_catalog_ok)
  from wp_InrD [OF ha_versions.AdvisoryForInstalled_post [OF this] assms(3)] c
  show ?thesis
    by (auto simp: advised_def advisory_status_def advises_update_def advises_current_def split: if_splits)
qed

section \<open>Witnesses\<close>

text \<open>The channel and artifact of \<open>service_test.go\<close>, with the windows as a parameter.\<close>

definition demo_channel :: ReleaseChannel where
  "demo_channel = \<lparr>rch_ChannelKey = ChannelStable, rch_CloudEnvironment = EnvironmentProduction,
     rch_ReleaseTrack = ''stable'', rch_HAAppSlug = ''manager'', rch_RepositoryURL = ''https://github.com/app'',
     rch_Status = ChannelStatusActive, rch_InternalOnly = False, rch_Metadata = [],
     rch_CreatedAt = 0, rch_UpdatedAt = 0\<rparr>"

definition demo_window :: "string \<Rightarrow> string \<Rightarrow> CompatibilityWindow" where
  "demo_window lo hi = \<lparr>cwn_MinAgentProtocol = lo, cwn_MaxAgentProtocol = hi, cwn_MinHAVersion = ''2026.5.0'',
     cwn_MaxHAVersion = ''2026.6.99'', cwn_SupportStatus = SupportStatusSupported, cwn_ReasonCode = [],
     cwn_Metadata = []\<rparr>"

definition demo_artifact :: "CompatibilityWindow list \<Rightarrow> ReleaseArtifact" where
  "demo_artifact vs = \<lparr>rar_ReleaseArtifactID = ''a1'', rar_ChannelKey = ChannelStable, rar_Version = ''0.1.4'',
     rar_CloudEnvironment = EnvironmentProduction, rar_ReleaseTrack = ''stable'', rar_HAAppSlug = ''manager'',
     rar_SourceCommitSHA = ''abcdef'', rar_ImageRef = ''ghcr.io/m@sha256:aa'', rar_ImageDigest = ''sha256:aa'',
     rar_PackageDigest = [], rar_ConfigDigest = [], rar_Status = ArtifactStatusPublished,
     rar_Compatibility = vs, rar_Metadata = [], rar_PublishedAt = None, rar_RetiredAt = None,
     rar_CreatedAt = 0, rar_UpdatedAt = 0\<rparr>"

definition demo_release_store :: release_store where
  "demo_release_store = \<lparr>env_faults = [], env_clock = Second, env_ticks = [], env_ids = [],
     rs_channels = Map.empty, rs_artifacts = Map.empty\<rparr>"

definition demo_catalog :: release_store where
  "demo_catalog = run_release_calls [CallRegisterChannel demo_channel,
     CallRegisterArtifact (demo_artifact [demo_window ''1'' ''1''])] demo_release_store"

definition demo_request :: CompatibilityRequest where
  "demo_request = \<lparr>cbr_ChannelKey = ''stable'', cbr_InstalledVersion = ''0.1.4'',
     cbr_AgentProtocol = ''1'', cbr_HAVersion = ''2026.5.1''\<rparr>"

lemma demo_empty: "rs_channels demo_release_store = Map.empty" "rs_artifacts demo_release_store = Map.empty"
  by (simp_all add: demo_release_store_def)

lemma demo_catalog_eval:
  "map_option rar_Version (rs_artifacts demo_catalog (artifactKey ChannelStable ''0.1.4'')) = Some ''0.1.4''"
  "map_option cbs_Supported (case fst (CompatibilityForVersion release_service demo_request demo_catalog) of
     Inl _ \<Rightarrow> None | Inr r \<Rightarrow> Some r) = Some True"
  by code_simp+

theorem release_catalog_invariant_witness:
  "\<exists>a. rs_artifacts demo_catalog (artifactKey ChannelStable ''0.1.4'') = Some a \<and> artifact_ok a \<and>
     rar_Version a = ''0.1.4''"
proof -
  from demo_catalog_eval(1) obtain a where
    "rs_artifacts demo_catalog (artifactKey ChannelStable ''0.1.4'') = Some a" "rar_Version a = ''0.1.4''" by auto
  with release_catalog_invariant [OF demo_empty, of demo_catalog] show ?thesis
    unfolding demo_catalog_def by blast
qed

theorem compatibility_decided_witness:
  "\<exists>p a v. rs_artifacts demo_catalog p = Some a \<and> rar_ChannelKey a = TrimSpace (cbr_ChannelKey demo_request) \<and>
     rar_Version a = TrimSpace (cbr_InstalledVersion demo_request) \<and> rar_Status a = ArtifactStatusPublished \<and>
     find (window_covers demo_request) (rar_Compatibility a) = Some v \<and> cwn_SupportStatus v = SupportStatusSupported"
proof -
  from demo_catalog_eval(2) obtain res w' where res:
    "CompatibilityForVersion release_service demo_request demo_catalog = (Inr res, w')" "cbs_Supported res"
    by (cases "CompatibilityForVersion release_service demo_request demo_catalog") (auto split: sum.splits)
  let ?p = "artifactKey (TrimSpace (cbr_ChannelKey demo_request)) (TrimSpace (cbr_InstalledVersion demo_request))"
  have c: "TrimSpace (cbr_ChannelKey demo_request) \<in> set channel_keys" "readable_request demo_request"
    "map_option (\<lambda>a. list_all readable_window (rar_Compatibility a)) (rs_artifacts demo_catalog ?p) = Some True"
    by code_simp+
  have r: "list_all readable_window (rar_Compatibility a)" if "rs_artifacts demo_catalog ?p = Some a" for a
    using c(3) that by simp
  show ?thesis
    by (rule iffD1 [OF compatibility_decided [OF demo_empty demo_catalog_def res(1) c(1,2)]]) (use r res(2) in auto)
qed

theorem unreadable_bound_registered_witness:
  "\<exists>b w e w'. RegisterArtifact release_service (demo_artifact [demo_window ''one'' []]) demo_catalog = (Inr b, w) \<and>
     CompatibilityForVersion release_service demo_request w = (Inl e, w')"
proof -
  let ?a = "demo_artifact [demo_window ''one'' []]"
  have "map_option (\<lambda>b. (map (\<lambda>v. (cwn_MinAgentProtocol v, dotted_key (cwn_MinAgentProtocol v))) (rar_Compatibility b),
        rar_Status b, rar_ReleaseArtifactID b, rar_ChannelKey b, rar_Version b))
      (case fst (RegisterArtifact release_service ?a demo_catalog) of Inl _ \<Rightarrow> None | Inr b \<Rightarrow> Some b) =
    Some ([(''one'', None)], ArtifactStatusPublished, ''a1'', ''stable'', ''0.1.4'')"
    by code_simp
  then obtain b w v where b: "RegisterArtifact release_service ?a demo_catalog = (Inr b, w)"
    "rar_Compatibility b = [v]" "cwn_MinAgentProtocol v = ''one''" "dotted_key ''one'' = None"
    "rar_Status b = ArtifactStatusPublished" "rar_ReleaseArtifactID b = ''a1''"
    "rar_ChannelKey b = ''stable''" "rar_Version b = ''0.1.4''"
    by (cases "RegisterArtifact release_service ?a demo_catalog") (auto split: sum.splits)
  have "TrimSpace (cbr_ChannelKey demo_request) = ''stable''"
    "TrimSpace (cbr_InstalledVersion demo_request) = ''0.1.4''"
    "TrimSpace (cbr_AgentProtocol demo_request) \<noteq> []" by code_simp+
  with unreadable_bound_registered [OF b(1,2), of demo_request] b show ?thesis by auto
qed

definition demo_published :: HACoreVersionCatalog where
  "demo_published = \<lparr>hvc_CatalogKey = [], hvc_LatestVersion = ''2026.5.2'', hvc_SourceURL = [],
     hvc_Status = [], hvc_Metadata = [], hvc_FetchedAt = 0, hvc_ExpiresAt = 0\<rparr>"

definition demo_ha :: "HACoreVersionCatalog list \<Rightarrow> ha_store" where
  "demo_ha cs = \<lparr>env_faults = [], env_clock = Second, env_ticks = [], env_ids = [], hs_catalog = None,
     hs_advisories = Map.empty, hs_published = cs\<rparr>"

definition demo_advisory :: HAAdvisoryRequest where
  "demo_advisory = \<lparr>har_AccountID = ''acc'', har_SiteID = ''s'', har_DeviceID = ''d1'',
     har_InstalledVersion = ''2026.5.1'', har_ObservedAt = 0\<rparr>"

lemma demo_ha_eval:
  "map_option (\<lambda>a. (hua_ReasonCode a, hua_AdvisoryStatus a))
     (case fst (AdvisoryForInstalled ha_service demo_advisory (run_ha_calls [CallRefresh] (demo_ha [demo_published]))) of
        Inl _ \<Rightarrow> None | Inr a \<Rightarrow> Some a) = Some (''ha_core_update_available'', HAAdvisoryUpdateAvailable)"
  "\<not> isl (fst (AdvisoryForInstalled ha_service demo_advisory (snd (RefreshLatestStable ha_service (demo_ha [])))))"
  "env_faults (demo_ha []) = []" "hs_published (demo_ha []) = []"
  by code_simp+

theorem ha_advisory_exact_witness:
  "\<exists>c. hs_catalog (run_ha_calls [CallRefresh] (demo_ha [demo_published])) = Some c \<and>
     advises_update c ''2026.5.1'' (env_clock (run_ha_calls [CallRefresh] (demo_ha [demo_published])))"
proof -
  let ?w = "run_ha_calls [CallRefresh] (demo_ha [demo_published])"
  from demo_ha_eval(1) obtain a w' where a: "AdvisoryForInstalled ha_service demo_advisory ?w = (Inr a, w')"
    "hua_ReasonCode a = ''ha_core_update_available''" "hua_AdvisoryStatus a = HAAdvisoryUpdateAvailable"
    by (cases "AdvisoryForInstalled ha_service demo_advisory ?w") (auto split: sum.splits)
  have "hs_catalog (demo_ha [demo_published]) = None" "har_InstalledVersion demo_advisory = ''2026.5.1''"
    by (simp_all add: demo_ha_def demo_advisory_def)
  with ha_advisory_exact [OF _ refl a(1)] a show ?thesis
    by (auto simp: advisory_status_def split: option.splits if_splits simp del: run_ha_calls.simps)
qed

theorem failed_refresh_hides_advisories_witness:
  "\<exists>a w'. AdvisoryForInstalled ha_service demo_advisory (snd (RefreshLatestStable ha_service (demo_ha []))) =
       (Inr a, w') \<and> hua_AdvisoryStatus a = HAAdvisoryHidden"
proof -
  from demo_ha_eval(2) obtain a w' where a: "AdvisoryForInstalled ha_service demo_advisory
      (snd (RefreshLatestStable ha_service (demo_ha []))) = (Inr a, w')"
    by (metis isl_def prod.collapse sum.exhaust)
  from failed_refresh_hides_advisories [OF demo_ha_eval(3,4) a] a show ?thesis by blast
qed

end
