(* ===== verification/Rollouts.thy ===== *)
theory Rollouts
  imports Releases Commands Go_Json_Values
begin

text \<open>
  Rollouts of app versions: the desired state of a device (\<open>edgestate/service.go\<close>), rollouts and device
  assignments (\<open>releases/updates.go\<close>), and reported update status and update commands
  (\<open>releases/status.go\<close>).

  \<open>AssignDevice\<close> returns the assignment also beside an error, so its value is a pair. Marshalling a map of
  strings cannot fail; the members are in the order of their names.
\<close>

section \<open>Desired state of a device\<close>

type_synonym StateKey = string

definition StateKeyPublishPolicy :: StateKey where "StateKeyPublishPolicy = ''publish_policy''"
definition StateKeyUpdate :: StateKey where "StateKeyUpdate = ''update''"

record DesiredState =
  dst_DeviceID :: string
  dst_StateKey :: StateKey
  dst_DesiredVersion :: string
  dst_Desired :: string
  dst_ConvergenceDeadlineAt :: "time option"

record EdgeProjection =
  epr_DeviceID :: string
  epr_ProjectionKey :: StateKey
  epr_DesiredVersion :: string
  epr_ReportedVersion :: string
  epr_Projection :: string
  epr_ConvergenceStatus :: string
  epr_LastReportedAt :: "time option"

record 'w EdgeStateService =
  ess_UpsertDesiredState :: "(DesiredState \<Rightarrow> ('w, unit) op) option"
  ess_AdapterPutDesired :: "(DesiredState \<Rightarrow> ('w, unit) op) option"

definition validateDesiredState :: "DesiredState \<Rightarrow> go_error option" where
  "validateDesiredState d = first_error
     [(TrimSpace (dst_DeviceID d) = [], Errorf ''device_id is required'' []),
      (dst_StateKey d \<notin> set [StateKeyPublishPolicy, StateKeyUpdate],
       Errorf ''unsupported edge state key %q'' [dst_StateKey d]),
      (TrimSpace (dst_DesiredVersion d) = [], Errorf ''desired_version is required'' []),
      (dst_Desired d = [] \<or> \<not> json_Valid (dst_Desired d), Errorf ''desired_json must be valid JSON'' [])]"

definition edgestate_PutDesired :: "'w EdgeStateService \<Rightarrow> DesiredState \<Rightarrow> ('w, unit) op" where
  "edgestate_PutDesired s d =
     bindE (check (validateDesiredState d)) (\<lambda>_.
     bindE (required (ess_UpsertDesiredState s) (Errorf ''edge state repository is required'' [])) (\<lambda>upsert.
     bindE (wrapE ''store desired edge state'' (upsert d)) (\<lambda>_.
     case ess_AdapterPutDesired s of
       None \<Rightarrow> ret ()
     | Some put \<Rightarrow> wrapE ''publish desired edge state'' (put d))))"

section \<open>Rollouts and assignments\<close>

type_synonym RolloutTargetType = string
type_synonym RolloutStatus = string
type_synonym AssignmentStatus = string

definition RolloutTargetDevice :: RolloutTargetType where "RolloutTargetDevice = ''device''"
definition RolloutTargetCohort :: RolloutTargetType where "RolloutTargetCohort = ''cohort''"

definition RolloutStatusDraft :: RolloutStatus where "RolloutStatusDraft = ''draft''"
definition RolloutStatusActive :: RolloutStatus where "RolloutStatusActive = ''active''"
definition RolloutStatusPaused :: RolloutStatus where "RolloutStatusPaused = ''paused''"
definition RolloutStatusCompleted :: RolloutStatus where "RolloutStatusCompleted = ''completed''"
definition RolloutStatusCanceled :: RolloutStatus where "RolloutStatusCanceled = ''canceled''"

definition AssignmentStatusAssigned :: AssignmentStatus where "AssignmentStatusAssigned = ''assigned''"
definition AssignmentStatusProjected :: AssignmentStatus where "AssignmentStatusProjected = ''projected''"
definition AssignmentStatusProjectionFailed :: AssignmentStatus where
  "AssignmentStatusProjectionFailed = ''projection_failed''"
definition AssignmentStatusConverged :: AssignmentStatus where "AssignmentStatusConverged = ''converged''"
definition AssignmentStatusFailed :: AssignmentStatus where "AssignmentStatusFailed = ''failed''"
definition AssignmentStatusCanceled :: AssignmentStatus where "AssignmentStatusCanceled = ''canceled''"

lemmas rollout_names = RolloutTargetDevice_def RolloutTargetCohort_def RolloutStatusDraft_def
  RolloutStatusActive_def RolloutStatusPaused_def RolloutStatusCompleted_def RolloutStatusCanceled_def

lemmas assignment_names = AssignmentStatusAssigned_def AssignmentStatusProjected_def
  AssignmentStatusProjectionFailed_def AssignmentStatusConverged_def AssignmentStatusFailed_def
  AssignmentStatusCanceled_def

record Rollout =
  rlo_RolloutID :: string
  rlo_ChannelKey :: ChannelKey
  rlo_TargetReleaseArtifactID :: string
  rlo_TargetVersion :: string
  rlo_TargetType :: RolloutTargetType
  rlo_CohortKey :: string
  rlo_Status :: RolloutStatus
  rlo_CreatedByUserID :: string
  rlo_ReasonCode :: string
  rlo_Metadata :: string
  rlo_ActivatedAt :: "time option"
  rlo_CompletedAt :: "time option"
  rlo_CanceledAt :: "time option"
  rlo_CreatedAt :: time
  rlo_UpdatedAt :: time

record DeviceUpdateAssignment =
  dua_DeviceUpdateAssignmentID :: string
  dua_RolloutID :: string
  dua_AccountID :: string
  dua_SiteID :: string
  dua_DeviceID :: string
  dua_ChannelKey :: ChannelKey
  dua_DesiredVersion :: string
  dua_EdgeDesiredVersion :: string
  dua_Status :: AssignmentStatus
  dua_ReasonCode :: string
  dua_AssignedByUserID :: string
  dua_Metadata :: string
  dua_AssignedAt :: time
  dua_ProjectedAt :: "time option"
  dua_ConvergedAt :: "time option"
  dua_FailedAt :: "time option"
  dua_UpdatedAt :: time

record RolloutAuditEvent =
  rae_RolloutID :: string
  rae_DeviceUpdateAssignmentID :: string
  rae_ActorSubjectType :: string
  rae_ActorSubjectID :: string
  rae_Action :: string
  rae_Result :: string
  rae_Metadata :: string
  rae_CreatedAt :: time

record CreateRolloutRequest =
  crr_RolloutID :: string
  crr_ChannelKey :: ChannelKey
  crr_TargetReleaseArtifactID :: string
  crr_TargetVersion :: string
  crr_TargetType :: RolloutTargetType
  crr_CohortKey :: string
  crr_Status :: RolloutStatus
  crr_CreatedByUserID :: string
  crr_ReasonCode :: string
  crr_Metadata :: string

record AssignDeviceRequest =
  adr_DeviceUpdateAssignmentID :: string
  adr_RolloutID :: string
  adr_AccountID :: string
  adr_SiteID :: string
  adr_DeviceID :: string
  adr_AssignedByUserID :: string
  adr_Metadata :: string

record ChangeRolloutStatusRequest =
  crs_RolloutID :: string
  crs_Status :: RolloutStatus
  crs_ActorSubjectType :: string
  crs_ActorSubjectID :: string
  crs_ReasonCode :: string

type_synonym UpdateStatus = string

definition UpdateStatusCurrent :: UpdateStatus where "UpdateStatusCurrent = ''current''"
definition UpdateStatusPending :: UpdateStatus where "UpdateStatusPending = ''pending''"
definition UpdateStatusBlocked :: UpdateStatus where "UpdateStatusBlocked = ''blocked''"
definition UpdateStatusFailed :: UpdateStatus where "UpdateStatusFailed = ''failed''"
definition UpdateStatusRolledBack :: UpdateStatus where "UpdateStatusRolledBack = ''rolled_back''"
definition UpdateStatusUnknown :: UpdateStatus where "UpdateStatusUnknown = ''unknown''"

lemmas update_names = UpdateStatusCurrent_def UpdateStatusPending_def UpdateStatusBlocked_def
  UpdateStatusFailed_def UpdateStatusRolledBack_def UpdateStatusUnknown_def

record DeviceUpdateStatus =
  dus_AccountID :: string
  dus_SiteID :: string
  dus_DeviceID :: string
  dus_ChannelKey :: ChannelKey
  dus_HAAppSlug :: string
  dus_HAAppRepositorySource :: string
  dus_CloudEnvironment :: CloudEnvironment
  dus_ReleaseTrack :: string
  dus_InstalledVersion :: string
  dus_DesiredVersion :: string
  dus_LatestAvailableVersion :: string
  dus_UpdateAvailable :: "bool option"
  dus_AutoUpdateEnabled :: "bool option"
  dus_Status :: UpdateStatus
  dus_ReasonCode :: string
  dus_Metadata :: string
  dus_ReportedAt :: time
  dus_ReceivedAt :: time

text \<open>An \<open>UpdateStatusReport\<close> has the fields of a \<open>DeviceUpdateStatus\<close> without its receipt time.\<close>

record UpdateStatusReport =
  usr_AccountID :: string
  usr_SiteID :: string
  usr_DeviceID :: string
  usr_ChannelKey :: ChannelKey
  usr_HAAppSlug :: string
  usr_HAAppRepositorySource :: string
  usr_CloudEnvironment :: CloudEnvironment
  usr_ReleaseTrack :: string
  usr_InstalledVersion :: string
  usr_DesiredVersion :: string
  usr_LatestAvailableVersion :: string
  usr_UpdateAvailable :: "bool option"
  usr_AutoUpdateEnabled :: "bool option"
  usr_Status :: UpdateStatus
  usr_ReasonCode :: string
  usr_Metadata :: string
  usr_ReportedAt :: time

record UpdateCommandRequest =
  ucr_AccountID :: string
  ucr_SiteID :: string
  ucr_DeviceID :: string
  ucr_RequestedByUserID :: string
  ucr_IdempotencyKey :: string
  ucr_ReasonCode :: string
  ucr_DesiredVersion :: string
  ucr_ChannelKey :: ChannelKey
  ucr_RolloutID :: string

record 'w UpdateRepository =
  upr_CreateRollout :: "Rollout \<Rightarrow> ('w, unit) op"
  upr_GetRollout :: "string \<Rightarrow> ('w, Rollout) op"
  upr_SaveRolloutStatus :: "string \<Rightarrow> RolloutStatus \<Rightarrow> time \<Rightarrow> string \<Rightarrow> ('w, unit) op"
  upr_CreateDeviceAssignment :: "DeviceUpdateAssignment \<Rightarrow> ('w, unit) op"
  upr_SaveDeviceAssignmentProjection ::
    "string \<Rightarrow> AssignmentStatus \<Rightarrow> time option \<Rightarrow> string \<Rightarrow> ('w, unit) op"
  upr_UpsertDeviceUpdateStatus :: "DeviceUpdateStatus \<Rightarrow> ('w, unit) op"
  upr_UpsertUpdateProjection :: "EdgeProjection \<Rightarrow> ('w, unit) op"
  upr_RecordRolloutAudit :: "RolloutAuditEvent \<Rightarrow> ('w, unit) op"

record 'w UpdateService =
  ups_Repository :: "'w UpdateRepository option"
  ups_EdgeState :: "(DesiredState \<Rightarrow> ('w, unit) op) option"
  ups_CommandCreator :: "(CreateRequest \<Rightarrow> ('w, Command) op) option"
  ups_IDGenerator :: "('w, string) effect option"
  ups_Clock :: "('w, time) effect option"
  ups_TimeNow :: "('w, time) effect"

definition updates_now :: "'w UpdateService \<Rightarrow> ('w, time) op" where
  "updates_now s = clock_now (ups_Clock s) (ups_TimeNow s)"

definition resolveID :: "'w UpdateService \<Rightarrow> string \<Rightarrow> string \<Rightarrow> ('w, string) op" where
  "resolveID s candidate label =
     (if TrimSpace candidate \<noteq> [] then ret (TrimSpace candidate)
      else bindE (required (ups_IDGenerator s) (Errorf ''%s is required'' [label])) (\<lambda>generate.
           bindE (liftE generate) (\<lambda>i.
           bindE (failIf (TrimSpace i = []) (Errorf ''%s is required'' [label])) (\<lambda>_.
           ret (TrimSpace i)))))"

definition actorTypeForUser :: "string \<Rightarrow> string" where
  "actorTypeForUser userID = (if TrimSpace userID = [] then ''system'' else ''user'')"

definition actorIDForUser :: "string \<Rightarrow> string" where
  "actorIDForUser userID = (if TrimSpace userID = [] then ''system'' else TrimSpace userID)"

definition validRolloutStatus :: "RolloutStatus \<Rightarrow> bool" where
  "validRolloutStatus status = (status \<in> set [RolloutStatusDraft, RolloutStatusActive, RolloutStatusPaused,
     RolloutStatusCompleted, RolloutStatusCanceled])"

definition validateRollout :: "Rollout \<Rightarrow> go_error option" where
  "validateRollout r =
     (if rlo_RolloutID r = [] \<or> rlo_ChannelKey r = [] \<or> rlo_TargetVersion r = [] then
        Some (Errorf ''rollout_id, channel_key, and target_version are required'' [])
      else (case validateImmutableVersion (rlo_TargetVersion r) of
        Some e \<Rightarrow> Some e
      | None \<Rightarrow> first_error
          [(rlo_TargetType r = RolloutTargetCohort \<and> rlo_CohortKey r = [],
            Errorf ''cohort_key is required for cohort rollouts'' []),
           (rlo_TargetType r \<notin> set [RolloutTargetDevice, RolloutTargetCohort],
            Errorf ''unsupported rollout target type %q'' [rlo_TargetType r]),
           (\<not> validRolloutStatus (rlo_Status r), Errorf ''unsupported rollout status %q'' [rlo_Status r]),
           (\<not> json_Valid (rlo_Metadata r), Errorf ''rollout metadata must be valid JSON'' [])]))"

definition validateAssignment :: "DeviceUpdateAssignment \<Rightarrow> go_error option" where
  "validateAssignment a =
     (if dua_DeviceUpdateAssignmentID a = [] \<or> dua_RolloutID a = [] then
        Some (Errorf ''device_update_assignment_id and rollout_id are required'' [])
      else if dua_AccountID a = [] \<or> dua_SiteID a = [] \<or> dua_DeviceID a = [] then
        Some (Errorf ''account_id, site_id, and device_id are required'' [])
      else if dua_ChannelKey a = [] \<or> dua_DesiredVersion a = [] \<or> dua_EdgeDesiredVersion a = [] then
        Some (Errorf ''channel_key, desired_version, and edge_desired_version are required'' [])
      else (case validateImmutableVersion (dua_DesiredVersion a) of
        Some e \<Rightarrow> Some e
      | None \<Rightarrow> first_error
          [(dua_Status a \<noteq> AssignmentStatusAssigned, Errorf ''new assignments must start assigned'' []),
           (\<not> json_Valid (dua_Metadata a), Errorf ''assignment metadata must be valid JSON'' [])]))"

definition rollout_audit :: "'w UpdateService \<Rightarrow> RolloutAuditEvent \<Rightarrow> ('w, unit) op" where
  "rollout_audit s event0 =
     bindE (required (ups_Repository s) (Errorf ''update repository is required'' [])) (\<lambda>repo.
     bindE (failIf (rae_ActorSubjectType event0 = [] \<or> rae_ActorSubjectID event0 = [])
              (Errorf ''audit actor is required'' [])) (\<lambda>_.
     let event = event0\<lparr>rae_Metadata := releases_normalizeJSON (rae_Metadata event0)\<rparr> in
     bindE (failIf (\<not> json_Valid (rae_Metadata event)) (Errorf ''audit metadata must be valid JSON'' [])) (\<lambda>_.
     wrapE ''record rollout audit'' (upr_RecordRolloutAudit repo event))))"

definition new_rollout :: "CreateRolloutRequest \<Rightarrow> string \<Rightarrow> time \<Rightarrow> Rollout" where
  "new_rollout req rolloutID now =
     (let status = (if crr_Status req = [] then RolloutStatusDraft else crr_Status req) in
      \<lparr>rlo_RolloutID = rolloutID, rlo_ChannelKey = TrimSpace (crr_ChannelKey req),
       rlo_TargetReleaseArtifactID = TrimSpace (crr_TargetReleaseArtifactID req),
       rlo_TargetVersion = TrimSpace (crr_TargetVersion req), rlo_TargetType = crr_TargetType req,
       rlo_CohortKey = TrimSpace (crr_CohortKey req), rlo_Status = status,
       rlo_CreatedByUserID = TrimSpace (crr_CreatedByUserID req),
       rlo_ReasonCode = TrimSpace (crr_ReasonCode req),
       rlo_Metadata = releases_normalizeJSON (crr_Metadata req),
       rlo_ActivatedAt = (if status = RolloutStatusActive then Some now else None),
       rlo_CompletedAt = None, rlo_CanceledAt = None, rlo_CreatedAt = now, rlo_UpdatedAt = now\<rparr>)"

definition CreateRollout :: "'w UpdateService \<Rightarrow> CreateRolloutRequest \<Rightarrow> ('w, Rollout) op" where
  "CreateRollout s req =
     bindE (required (ups_Repository s) (Errorf ''update repository is required'' [])) (\<lambda>repo.
     bindE (updates_now s) (\<lambda>now.
     bindE (resolveID s (crr_RolloutID req) ''rollout id'') (\<lambda>rolloutID.
     let rollout = new_rollout req rolloutID now in
     bindE (check (validateRollout rollout)) (\<lambda>_.
     bindE (wrapE ''create rollout'' (upr_CreateRollout repo rollout)) (\<lambda>_.
     bindE (rollout_audit s
       \<lparr>rae_RolloutID = rlo_RolloutID rollout, rae_DeviceUpdateAssignmentID = [],
        rae_ActorSubjectType = actorTypeForUser (rlo_CreatedByUserID rollout),
        rae_ActorSubjectID = actorIDForUser (rlo_CreatedByUserID rollout),
        rae_Action = ''rollout.create'', rae_Result = ''success'',
        rae_Metadata = rlo_Metadata rollout, rae_CreatedAt = now\<rparr>) (\<lambda>_.
     ret rollout))))))"

definition new_assignment :: "AssignDeviceRequest \<Rightarrow> Rollout \<Rightarrow> string \<Rightarrow> time \<Rightarrow> DeviceUpdateAssignment" where
  "new_assignment req rollout assignmentID now =
     \<lparr>dua_DeviceUpdateAssignmentID = assignmentID, dua_RolloutID = rlo_RolloutID rollout,
      dua_AccountID = TrimSpace (adr_AccountID req), dua_SiteID = TrimSpace (adr_SiteID req),
      dua_DeviceID = TrimSpace (adr_DeviceID req), dua_ChannelKey = rlo_ChannelKey rollout,
      dua_DesiredVersion = rlo_TargetVersion rollout, dua_EdgeDesiredVersion = rlo_TargetVersion rollout,
      dua_Status = AssignmentStatusAssigned, dua_ReasonCode = [],
      dua_AssignedByUserID = TrimSpace (adr_AssignedByUserID req),
      dua_Metadata = releases_normalizeJSON (adr_Metadata req),
      dua_AssignedAt = now, dua_ProjectedAt = None, dua_ConvergedAt = None, dua_FailedAt = None,
      dua_UpdatedAt = now\<rparr>"

definition marshalUpdateDesired :: "Rollout \<Rightarrow> string" where
  "marshalUpdateDesired rollout = object_text
     [(''update'', object_text
        [(''channel'', quote (rlo_ChannelKey rollout)),
         (''desired_version'', quote (rlo_TargetVersion rollout)),
         (''rollout_id'', quote (rlo_RolloutID rollout))])]"

definition assignment_audit :: "DeviceUpdateAssignment \<Rightarrow> string \<Rightarrow> string \<Rightarrow> time \<Rightarrow> RolloutAuditEvent" where
  "assignment_audit a result metadata now =
     \<lparr>rae_RolloutID = dua_RolloutID a,
      rae_DeviceUpdateAssignmentID = dua_DeviceUpdateAssignmentID a,
      rae_ActorSubjectType = actorTypeForUser (dua_AssignedByUserID a),
      rae_ActorSubjectID = actorIDForUser (dua_AssignedByUserID a),
      rae_Action = ''device_update_assignment.project'', rae_Result = result,
      rae_Metadata = metadata, rae_CreatedAt = now\<rparr>"

definition projection_failed ::
  "'w UpdateService \<Rightarrow> 'w UpdateRepository \<Rightarrow> DeviceUpdateAssignment \<Rightarrow> go_error \<Rightarrow> time \<Rightarrow>
   ('w, DeviceUpdateAssignment \<times> go_error option) op" where
  "projection_failed s repo assignment e now =
     (let reasonCode = ''edge_projection_failed'' in
      bindE (attemptE (upr_SaveDeviceAssignmentProjection repo (dua_DeviceUpdateAssignmentID assignment)
               AssignmentStatusProjectionFailed None reasonCode)) (\<lambda>saved.
      case saved of
        Inl saveErr \<Rightarrow> ret (assignment, Some (Wrapf ''publish update desired state'' e))
      | Inr _ \<Rightarrow>
          (let failed = assignment\<lparr>dua_Status := AssignmentStatusProjectionFailed,
                                   dua_ReasonCode := reasonCode\<rparr> in
           bindE (ignoreE (rollout_audit s (assignment_audit failed ''failed''
             (object_text [(''reason_code'', quote reasonCode)]) now))) (\<lambda>_.
           ret (failed, Some (Wrapf ''publish update desired state'' e))))))"

definition projected_assignment ::
  "'w UpdateService \<Rightarrow> 'w UpdateRepository \<Rightarrow> DeviceUpdateAssignment \<Rightarrow> time \<Rightarrow>
   ('w, DeviceUpdateAssignment \<times> go_error option) op" where
  "projected_assignment s repo assignment now =
     bindE (attemptE (upr_SaveDeviceAssignmentProjection repo (dua_DeviceUpdateAssignmentID assignment)
              AssignmentStatusProjected (Some now) [])) (\<lambda>saved.
     case saved of
       Inl e \<Rightarrow> ret (assignment, Some (Wrapf ''mark update assignment projected'' e))
     | Inr _ \<Rightarrow>
         (let projected = assignment\<lparr>dua_Status := AssignmentStatusProjected, dua_ProjectedAt := Some now\<rparr> in
          bindE (attemptE (rollout_audit s
                   (assignment_audit projected ''success'' (dua_Metadata projected) now))) (\<lambda>audited.
          case audited of
            Inl e \<Rightarrow> ret (projected, Some e)
          | Inr _ \<Rightarrow> ret (projected, None))))"

definition AssignDevice ::
  "'w UpdateService \<Rightarrow> AssignDeviceRequest \<Rightarrow> ('w, DeviceUpdateAssignment \<times> go_error option) op" where
  "AssignDevice s req =
     bindE (required (ups_Repository s) (Errorf ''update repository is required'' [])) (\<lambda>repo.
     bindE (required (ups_EdgeState s) (Errorf ''edge state writer is required'' [])) (\<lambda>put.
     bindE (updates_now s) (\<lambda>now.
     bindE (wrapE ''load rollout'' (upr_GetRollout repo (TrimSpace (adr_RolloutID req)))) (\<lambda>rollout.
     bindE (failIf (rlo_Status rollout \<noteq> RolloutStatusActive)
              (Errorf ''cannot assign device from %s rollout'' [rlo_Status rollout])) (\<lambda>_.
     bindE (resolveID s (adr_DeviceUpdateAssignmentID req) ''device update assignment id'') (\<lambda>assignmentID.
     let assignment = new_assignment req rollout assignmentID now in
     bindE (check (validateAssignment assignment)) (\<lambda>_.
     bindE (wrapE ''create device update assignment'' (upr_CreateDeviceAssignment repo assignment)) (\<lambda>_.
     bindE (attemptE (put \<lparr>dst_DeviceID = dua_DeviceID assignment, dst_StateKey = StateKeyUpdate,
              dst_DesiredVersion = dua_EdgeDesiredVersion assignment,
              dst_Desired = marshalUpdateDesired rollout, dst_ConvergenceDeadlineAt = None\<rparr>)) (\<lambda>published.
     case published of
       Inl e \<Rightarrow> projection_failed s repo assignment e now
     | Inr _ \<Rightarrow> projected_assignment s repo assignment now)))))))))"

definition ChangeRolloutStatus :: "'w UpdateService \<Rightarrow> ChangeRolloutStatusRequest \<Rightarrow> ('w, unit) op" where
  "ChangeRolloutStatus s req =
     bindE (required (ups_Repository s) (Errorf ''update repository is required'' [])) (\<lambda>repo.
     bindE (failIf (crs_Status req = []) (Errorf ''rollout status is required'' [])) (\<lambda>_.
     bindE (failIf (\<not> validRolloutStatus (crs_Status req))
              (Errorf ''unsupported rollout status %q'' [crs_Status req])) (\<lambda>_.
     bindE (updates_now s) (\<lambda>now.
     let rolloutID = TrimSpace (crs_RolloutID req) in
     bindE (failIf (rolloutID = []) (Errorf ''rollout_id is required'' [])) (\<lambda>_.
     bindE (wrapE ''save rollout status''
              (upr_SaveRolloutStatus repo rolloutID (crs_Status req) now (TrimSpace (crs_ReasonCode req)))) (\<lambda>_.
     rollout_audit s
       \<lparr>rae_RolloutID = rolloutID, rae_DeviceUpdateAssignmentID = [],
        rae_ActorSubjectType = TrimSpace (crs_ActorSubjectType req),
        rae_ActorSubjectID = TrimSpace (crs_ActorSubjectID req),
        rae_Action = ''rollout.status_change'', rae_Result = ''success'',
        rae_Metadata = object_text [(''reason_code'', quote (TrimSpace (crs_ReasonCode req))),
          (''status'', quote (crs_Status req))],
        rae_CreatedAt = now\<rparr>))))))"

section \<open>Reported status and update commands\<close>

definition validateDeviceUpdateStatus :: "DeviceUpdateStatus \<Rightarrow> go_error option" where
  "validateDeviceUpdateStatus d = first_error
     [(dus_AccountID d = [] \<or> dus_SiteID d = [] \<or> dus_DeviceID d = [],
       Errorf ''account_id, site_id, and device_id are required'' []),
      (dus_Status d = [], Errorf ''update status is required'' []),
      (dus_Status d \<notin> set [UpdateStatusCurrent, UpdateStatusPending, UpdateStatusBlocked,
         UpdateStatusFailed, UpdateStatusRolledBack, UpdateStatusUnknown],
       Errorf ''unsupported update status %q'' [dus_Status d]),
      (dus_CloudEnvironment d \<notin> set [[], EnvironmentProduction, EnvironmentStaging],
       Errorf ''unsupported cloud environment %q'' [dus_CloudEnvironment d]),
      (dus_ReleaseTrack d \<notin> set [[], ''stable'', ''candidate'', ''staging'', ''dev''],
       Errorf ''unsupported release track %q'' [dus_ReleaseTrack d]),
      (\<not> json_Valid (dus_Metadata d), Errorf ''update status metadata must be valid JSON'' [])]"

definition reported_status :: "UpdateStatusReport \<Rightarrow> time \<Rightarrow> DeviceUpdateStatus" where
  "reported_status r now =
     \<lparr>dus_AccountID = TrimSpace (usr_AccountID r), dus_SiteID = TrimSpace (usr_SiteID r),
      dus_DeviceID = TrimSpace (usr_DeviceID r), dus_ChannelKey = TrimSpace (usr_ChannelKey r),
      dus_HAAppSlug = TrimSpace (usr_HAAppSlug r),
      dus_HAAppRepositorySource = TrimSpace (usr_HAAppRepositorySource r),
      dus_CloudEnvironment = TrimSpace (usr_CloudEnvironment r),
      dus_ReleaseTrack = TrimSpace (usr_ReleaseTrack r),
      dus_InstalledVersion = TrimSpace (usr_InstalledVersion r),
      dus_DesiredVersion = TrimSpace (usr_DesiredVersion r),
      dus_LatestAvailableVersion = TrimSpace (usr_LatestAvailableVersion r),
      dus_UpdateAvailable = usr_UpdateAvailable r, dus_AutoUpdateEnabled = usr_AutoUpdateEnabled r,
      dus_Status = usr_Status r, dus_ReasonCode = TrimSpace (usr_ReasonCode r),
      dus_Metadata = releases_normalizeJSON (usr_Metadata r),
      dus_ReportedAt = UTC (if IsZero (usr_ReportedAt r) then now else usr_ReportedAt r),
      dus_ReceivedAt = now\<rparr>"

definition emptyToNil :: "string \<Rightarrow> string" where
  "emptyToNil v = (if TrimSpace v = [] then ''null'' else quote v)"

text \<open>\<open>Format(time.RFC3339)\<close> drops the fraction of a second.\<close>

definition marshalUpdateProjection :: "DeviceUpdateStatus \<Rightarrow> string" where
  "marshalUpdateProjection d = object_text
     [(''update'', object_text
        [(''channel'', emptyToNil (dus_ChannelKey d)),
         (''current_version'', emptyToNil (dus_InstalledVersion d)),
         (''desired_version'', emptyToNil (dus_DesiredVersion d)),
         (''latest_available_version'', emptyToNil (dus_LatestAvailableVersion d)),
         (''reason_code'', emptyToNil (dus_ReasonCode d)),
         (''reported_at'', quote (format_rfc3339 (dus_ReportedAt d - dus_ReportedAt d mod 1000000000))),
         (''status'', quote (dus_Status d))])]"

definition convergenceStatusForUpdate :: "DeviceUpdateStatus \<Rightarrow> string" where
  "convergenceStatusForUpdate d =
     (if dus_Status d = UpdateStatusCurrent then
        (if dus_DesiredVersion d = [] \<or> dus_InstalledVersion d = dus_DesiredVersion d
         then ''converged'' else ''pending'')
      else if dus_Status d = UpdateStatusPending then ''pending''
      else if dus_Status d \<in> set [UpdateStatusBlocked, UpdateStatusFailed, UpdateStatusRolledBack]
      then ''failed'' else ''unknown'')"

definition update_projection :: "DeviceUpdateStatus \<Rightarrow> EdgeProjection" where
  "update_projection d =
     \<lparr>epr_DeviceID = dus_DeviceID d, epr_ProjectionKey = StateKeyUpdate,
      epr_DesiredVersion = dus_DesiredVersion d, epr_ReportedVersion = dus_InstalledVersion d,
      epr_Projection = marshalUpdateProjection d,
      epr_ConvergenceStatus = convergenceStatusForUpdate d,
      epr_LastReportedAt = Some (dus_ReportedAt d)\<rparr>"

definition RecordReportedUpdateStatus ::
  "'w UpdateService \<Rightarrow> UpdateStatusReport \<Rightarrow> ('w, DeviceUpdateStatus) op" where
  "RecordReportedUpdateStatus s report =
     bindE (required (ups_Repository s) (Errorf ''update repository is required'' [])) (\<lambda>repo.
     bindE (updates_now s) (\<lambda>now.
     let status = reported_status report now in
     bindE (check (validateDeviceUpdateStatus status)) (\<lambda>_.
     bindE (wrapE ''upsert device update status'' (upr_UpsertDeviceUpdateStatus repo status)) (\<lambda>_.
     bindE (wrapE ''upsert update projection''
              (upr_UpsertUpdateProjection repo (update_projection status))) (\<lambda>_.
     ret status)))))"

definition validateUpdateCommandRequest :: "UpdateCommandRequest \<Rightarrow> go_error option" where
  "validateUpdateCommandRequest req =
     (if TrimSpace (ucr_AccountID req) = [] \<or> TrimSpace (ucr_SiteID req) = [] \<or>
         TrimSpace (ucr_DeviceID req) = []
      then Some (Errorf ''account_id, site_id, and device_id are required'' []) else None)"

definition createUpdateCommand ::
  "'w UpdateService \<Rightarrow> UpdateCommandRequest \<Rightarrow> CommandType \<Rightarrow> (string \<times> string) list \<Rightarrow>
   ('w, Command) op" where
  "createUpdateCommand s req commandType payload =
     bindE (required (ups_CommandCreator s) (Errorf ''update command creator is required'' [])) (\<lambda>create.
     bindE (check (validateUpdateCommandRequest req)) (\<lambda>_.
     create \<lparr>cr_CommandID = [], cr_AccountID = TrimSpace (ucr_AccountID req),
             cr_SiteID = TrimSpace (ucr_SiteID req), cr_DeviceID = TrimSpace (ucr_DeviceID req),
             cr_CommandType = commandType, cr_IdempotencyKey = TrimSpace (ucr_IdempotencyKey req),
             cr_RequestedByUserID = TrimSpace (ucr_RequestedByUserID req),
             cr_Payload = object_text (map (\<lambda>(k, v). (k, quote v)) payload)\<rparr>))"

definition RequestUpdateStatusCheck :: "'w UpdateService \<Rightarrow> UpdateCommandRequest \<Rightarrow> ('w, Command) op" where
  "RequestUpdateStatusCheck s req = createUpdateCommand s req TypeCheckUpdateStatus
     [(''operation'', ''check_update_status''), (''reason_code'', TrimSpace (ucr_ReasonCode req))]"

definition repair_members :: "UpdateCommandRequest \<Rightarrow> (string \<times> string) list" where
  "repair_members req =
     [(''channel'', TrimSpace (ucr_ChannelKey req)),
      (''desired_version'', TrimSpace (ucr_DesiredVersion req)),
      (''operation'', ''repair_update_state''),
      (''reason_code'', TrimSpace (ucr_ReasonCode req)),
      (''rollout_id'', TrimSpace (ucr_RolloutID req))]"

definition RequestUpdateRepair :: "'w UpdateService \<Rightarrow> UpdateCommandRequest \<Rightarrow> ('w, Command) op" where
  "RequestUpdateRepair s req =
     bindE (failIf (TrimSpace (ucr_DesiredVersion req) = [] \<or> TrimSpace (ucr_ChannelKey req) = [])
              (Errorf ''desired_version and channel_key are required for update repair'' [])) (\<lambda>_.
     bindE (check (validateImmutableVersion (ucr_DesiredVersion req))) (\<lambda>_.
     createUpdateCommand s req TypeRepairUpdateState (repair_members req)))"

end
