(* ===== verification/Rollout_Store.thy ===== *)
theory Rollout_Store
  imports Rollouts
begin

text \<open>
  What the update service promises over every repository that keeps \<open>update_contract\<close>, in particular
  the constraints of \<open>backend/migrations/000008_update_desired_state.sql\<close>: one open assignment per
  device. \<open>rollout_tables\<close> are tables with these constraints, calls that may fail, and the edge state
  service behind the writer; references to channels and release artifacts are left out.
\<close>

section \<open>The contract\<close>

record rollout_view =
  rv_rollouts :: "string \<Rightarrow> Rollout option"
  rv_assignments :: "string \<Rightarrow> DeviceUpdateAssignment option"
  rv_audits :: "RolloutAuditEvent list"
  rv_desired :: "DesiredState list"

definition open_status :: "AssignmentStatus \<Rightarrow> bool" where
  "open_status s \<longleftrightarrow> s \<in> set [AssignmentStatusAssigned, AssignmentStatusProjected, AssignmentStatusProjectionFailed]"

definition device_open :: "rollout_view \<Rightarrow> string \<Rightarrow> bool" where
  "device_open v d \<longleftrightarrow> (\<exists>i a. rv_assignments v i = Some a \<and> dua_DeviceID a = d \<and> open_status (dua_Status a))"

definition set_status :: "RolloutStatus \<Rightarrow> Rollout \<Rightarrow> Rollout" where
  "set_status status r = r\<lparr>rlo_Status := status\<rparr>"

definition set_projection ::
  "AssignmentStatus \<Rightarrow> time option \<Rightarrow> string \<Rightarrow> DeviceUpdateAssignment \<Rightarrow> DeviceUpdateAssignment" where
  "set_projection status projectedAt reason a =
     a\<lparr>dua_Status := status, dua_ProjectedAt := projectedAt, dua_ReasonCode := reason\<rparr>"

text \<open>The assignments the service makes.\<close>

definition assignment_ok :: "rollout_view \<Rightarrow> string \<Rightarrow> DeviceUpdateAssignment \<Rightarrow> bool" where
  "assignment_ok v i a \<longleftrightarrow> dua_DeviceUpdateAssignmentID a = i \<and> open_status (dua_Status a) \<and>
     dua_DeviceID a \<noteq> [] \<and> validateImmutableVersion (dua_DesiredVersion a) = None \<and>
     (\<exists>r. rv_rollouts v (dua_RolloutID a) = Some r \<and> rlo_TargetVersion r = dua_DesiredVersion a \<and>
        rlo_ChannelKey r = dua_ChannelKey a)"

definition rollouts_inv :: "rollout_view \<Rightarrow> bool" where
  "rollouts_inv v \<longleftrightarrow> (\<forall>i a. rv_assignments v i = Some a \<longrightarrow> assignment_ok v i a) \<and>
     (\<forall>i j a b. rv_assignments v i = Some a \<and> rv_assignments v j = Some b \<and>
        dua_DeviceID a = dua_DeviceID b \<longrightarrow> i = j)"

lemma rollouts_inv_rollout:
  assumes "rollouts_inv v" and "rv_rollouts v i = None"
  shows "rollouts_inv (v\<lparr>rv_rollouts := (rv_rollouts v)(i \<mapsto> r)\<rparr>)"
  using assms by (auto simp: rollouts_inv_def assignment_ok_def) (metis option.distinct(1))+

lemma rollouts_inv_status:
  assumes "rollouts_inv v"
  shows "rollouts_inv (v\<lparr>rv_rollouts := (rv_rollouts v)(i := map_option (set_status st) (rv_rollouts v i))\<rparr>)"
  using assms by (fastforce simp: rollouts_inv_def assignment_ok_def set_status_def)

lemma rollouts_inv_assignment:
  assumes "rollouts_inv v" and "\<not> device_open v (dua_DeviceID a)"
    and "assignment_ok v (dua_DeviceUpdateAssignmentID a) a"
  shows "rollouts_inv (v\<lparr>rv_assignments := (rv_assignments v)(dua_DeviceUpdateAssignmentID a \<mapsto> a)\<rparr>)"
proof -
  have "dua_DeviceID b \<noteq> dua_DeviceID a" if "rv_assignments v j = Some b" for j b
    using assms(1,2) that unfolding rollouts_inv_def assignment_ok_def device_open_def by metis
  note other = this
  let ?v = "v\<lparr>rv_assignments := (rv_assignments v)(dua_DeviceUpdateAssignmentID a \<mapsto> a)\<rparr>"
  have "assignment_ok ?v i b" if "rv_assignments ?v i = Some b" for i b
    using assms(1,3) that by (auto simp: rollouts_inv_def assignment_ok_def split: if_splits)
  moreover have "i = j" if "rv_assignments ?v i = Some b" "rv_assignments ?v j = Some c"
      "dua_DeviceID b = dua_DeviceID c" for i j b c
    using assms(1) other [of i b] other [of j c] that
    by (simp add: rollouts_inv_def split: if_splits)
  ultimately show ?thesis unfolding rollouts_inv_def by blast
qed

lemma rollouts_inv_projection:
  assumes "rollouts_inv v" and "open_status st"
  shows "rollouts_inv (v\<lparr>rv_assignments := (rv_assignments v)
    (i := map_option (set_projection st p reason) (rv_assignments v i))\<rparr>)"
  using assms by (fastforce simp: rollouts_inv_def assignment_ok_def set_projection_def split: if_splits)

lemma rollouts_inv_audit [simp]:
  "rollouts_inv (v\<lparr>rv_audits := es\<rparr>) = rollouts_inv v" "rollouts_inv (v\<lparr>rv_desired := ds\<rparr>) = rollouts_inv v"
  by (simp_all add: rollouts_inv_def assignment_ok_def)

lemma open_statuses [simp]:
  "open_status AssignmentStatusAssigned" "open_status AssignmentStatusProjected"
  "open_status AssignmentStatusProjectionFailed"
  by (simp_all add: open_status_def)

lemma open_kept:
  "device_open v d \<Longrightarrow> open_status st \<Longrightarrow> device_open (v\<lparr>rv_assignments := (rv_assignments v)
    (i := map_option (set_projection st p reason) (rv_assignments v i))\<rparr>) d"
  unfolding device_open_def set_projection_def
  by (elim exE, rename_tac j a, rule_tac x = j in exI) auto

lemma open_created:
  assumes "device_open v d" and "rv_assignments v i = None"
  shows "device_open (v\<lparr>rv_assignments := (rv_assignments v)(i \<mapsto> a)\<rparr>) d"
proof -
  obtain j b where "rv_assignments v j = Some b" "dua_DeviceID b = d" "open_status (dua_Status b)"
    using assms(1) by (auto simp: device_open_def)
  with assms(2) show ?thesis unfolding device_open_def by (intro exI [of _ j] exI [of _ b]) auto
qed

lemma device_open_frame [simp]:
  "device_open (v\<lparr>rv_rollouts := rs\<rparr>) d = device_open v d" "device_open (v\<lparr>rv_audits := es\<rparr>) d = device_open v d"
  "device_open (v\<lparr>rv_desired := ds\<rparr>) d = device_open v d"
  by (simp_all add: device_open_def)

lemma assignment_fields [simp]:
  "dua_DeviceUpdateAssignmentID (new_assignment req r i now) = i"
  "dua_DeviceID (new_assignment req r i now) = TrimSpace (adr_DeviceID req)"
  "dua_Status (new_assignment req r i now) = AssignmentStatusAssigned"
  by (simp_all add: new_assignment_def)

lemma new_assignment_ok:
  assumes "validateAssignment (new_assignment req r i now) = None" and "rv_rollouts v k = Some r"
    and "rlo_RolloutID r = k"
  shows "assignment_ok v i (new_assignment req r i now)"
  using assms by (auto simp: validateAssignment_def assignment_ok_def new_assignment_def
      split: if_splits option.splits)

text \<open>
  The outcome of an assignment: the returned assignment is the stored one, also beside an error.
\<close>

definition assigned_outcome ::
  "AssignDeviceRequest \<Rightarrow> rollout_view \<Rightarrow> DeviceUpdateAssignment \<Rightarrow> go_error option \<Rightarrow> rollout_view \<Rightarrow> bool" where
  "assigned_outcome req v a e v' \<longleftrightarrow>
     (\<exists>r. rv_rollouts v (TrimSpace (adr_RolloutID req)) = Some r \<and> rlo_Status r = RolloutStatusActive \<and>
        dua_DesiredVersion a = rlo_TargetVersion r \<and> dua_DeviceID a = TrimSpace (adr_DeviceID req) \<and>
        rv_assignments v (dua_DeviceUpdateAssignmentID a) = None \<and>
        rv_assignments v' = (rv_assignments v)(dua_DeviceUpdateAssignmentID a \<mapsto> a) \<and>
        open_status (dua_Status a) \<and>
        (dua_Status a = AssignmentStatusProjected \<longrightarrow> rv_desired v' = rv_desired v @
           [\<lparr>dst_DeviceID = dua_DeviceID a, dst_StateKey = StateKeyUpdate,
             dst_DesiredVersion = dua_DesiredVersion a, dst_Desired = marshalUpdateDesired r,
             dst_ConvergenceDeadlineAt = None\<rparr>]) \<and>
        (dua_Status a = AssignmentStatusProjectionFailed \<longrightarrow> e \<noteq> None \<and> dua_ProjectedAt a = None) \<and>
        (e = None \<longrightarrow> dua_Status a = AssignmentStatusProjected \<and>
           (\<exists>ev. rv_audits v' = rv_audits v @ [ev] \<and> rae_Result ev = ''success'' \<and>
              rae_DeviceUpdateAssignmentID ev = dua_DeviceUpdateAssignmentID a)))"

lemma assignment_statuses [simp]:
  "AssignmentStatusAssigned \<noteq> AssignmentStatusProjected"
  "AssignmentStatusAssigned \<noteq> AssignmentStatusProjectionFailed"
  "AssignmentStatusProjected \<noteq> AssignmentStatusProjectionFailed"
  by (simp_all add: assignment_names)

lemmas assignment_statuses' [simp] = assignment_statuses [symmetric]

section \<open>The service over it\<close>

locale update_contract =
  fixes svc :: "'w UpdateService" and repo :: "'w UpdateRepository"
    and put :: "DesiredState \<Rightarrow> ('w, unit) op" and view :: "'w \<Rightarrow> rollout_view"
  assumes wired: "ups_Repository svc = Some repo" "ups_EdgeState svc = Some put"
    and CreateRollout_law: "upr_CreateRollout repo r w = (u, w') \<Longrightarrow>
      (case u of Inl e \<Rightarrow> view w' = view w
       | Inr x \<Rightarrow> rv_rollouts (view w) (rlo_RolloutID r) = None \<and>
           view w' = (view w)\<lparr>rv_rollouts := (rv_rollouts (view w))(rlo_RolloutID r \<mapsto> r)\<rparr>)"
    and GetRollout_law: "upr_GetRollout repo i w = (g, w') \<Longrightarrow> view w' = view w \<and>
      (case g of Inl e \<Rightarrow> True | Inr r \<Rightarrow> rv_rollouts (view w) i = Some r \<and> rlo_RolloutID r = i)"
    and SaveStatus_law: "upr_SaveRolloutStatus repo i st t reason w = (u, w') \<Longrightarrow>
      (case u of Inl e \<Rightarrow> view w' = view w
       | Inr x \<Rightarrow> view w' = (view w)\<lparr>rv_rollouts := (rv_rollouts (view w))
           (i := map_option (set_status st) (rv_rollouts (view w) i))\<rparr>)"
    and CreateAssignment_law: "upr_CreateDeviceAssignment repo a w = (u, w') \<Longrightarrow>
      (case u of Inl e \<Rightarrow> view w' = view w
       | Inr x \<Rightarrow> rv_assignments (view w) (dua_DeviceUpdateAssignmentID a) = None \<and>
           \<not> device_open (view w) (dua_DeviceID a) \<and>
           view w' = (view w)\<lparr>rv_assignments :=
             (rv_assignments (view w))(dua_DeviceUpdateAssignmentID a \<mapsto> a)\<rparr>)"
    and SaveProjection_law: "upr_SaveDeviceAssignmentProjection repo i st p reason w = (u, w') \<Longrightarrow>
      (case u of Inl e \<Rightarrow> view w' = view w
       | Inr x \<Rightarrow> view w' = (view w)\<lparr>rv_assignments := (rv_assignments (view w))
           (i := map_option (set_projection st p reason) (rv_assignments (view w) i))\<rparr>)"
    and UpsertStatus_law: "upr_UpsertDeviceUpdateStatus repo d w = (u, w') \<Longrightarrow> view w' = view w"
    and UpsertProjection_law: "upr_UpsertUpdateProjection repo p' w = (u, w') \<Longrightarrow> view w' = view w"
    and Audit_law: "upr_RecordRolloutAudit repo ev w = (u, w') \<Longrightarrow>
      (case u of Inl e \<Rightarrow> view w' = view w
       | Inr x \<Rightarrow> view w' = (view w)\<lparr>rv_audits := rv_audits (view w) @ [ev]\<rparr>)"
    and put_law: "put desired w = (u, w') \<Longrightarrow>
      (case u of Inl e \<Rightarrow> \<exists>ds. view w' = (view w)\<lparr>rv_desired := ds\<rparr>
       | Inr x \<Rightarrow> view w' = (view w)\<lparr>rv_desired := rv_desired (view w) @ [desired]\<rparr>)"
    and Clock_law: "ups_Clock svc = Some f \<Longrightarrow> f w = (t, w') \<Longrightarrow> view w' = view w"
    and TimeNow_law: "ups_TimeNow svc w = (t, w') \<Longrightarrow> view w' = view w"
    and ID_law: "ups_IDGenerator svc = Some g' \<Longrightarrow> g' w = (j, w') \<Longrightarrow> view w' = view w"
begin

lemma wp_CreateRollout:
  assumes "\<And>e w'. view w' = view w \<Longrightarrow> E e w'"
    and "\<And>w'. rv_rollouts (view w) (rlo_RolloutID r) = None \<Longrightarrow>
      view w' = (view w)\<lparr>rv_rollouts := (rv_rollouts (view w))(rlo_RolloutID r \<mapsto> r)\<rparr> \<Longrightarrow> Q () w'"
  shows "wp (upr_CreateRollout repo r) Q E w"
  by (rule wpI) (auto dest!: CreateRollout_law intro: assms)

lemma wp_GetRollout:
  assumes "\<And>e w'. view w' = view w \<Longrightarrow> E e w'"
    and "\<And>r w'. view w' = view w \<Longrightarrow> rv_rollouts (view w) i = Some r \<Longrightarrow> rlo_RolloutID r = i \<Longrightarrow> Q r w'"
  shows "wp (upr_GetRollout repo i) Q E w"
  by (rule wpI) (auto dest!: GetRollout_law intro: assms)

lemma wp_SaveStatus:
  assumes "\<And>e w'. view w' = view w \<Longrightarrow> E e w'"
    and "\<And>w'. view w' = (view w)\<lparr>rv_rollouts := (rv_rollouts (view w))
      (i := map_option (set_status st) (rv_rollouts (view w) i))\<rparr> \<Longrightarrow> Q () w'"
  shows "wp (upr_SaveRolloutStatus repo i st t reason) Q E w"
  by (rule wpI) (auto dest!: SaveStatus_law intro: assms)

lemma wp_CreateAssignment:
  assumes "\<And>e w'. view w' = view w \<Longrightarrow> E e w'"
    and "\<And>w'. rv_assignments (view w) (dua_DeviceUpdateAssignmentID a) = None \<Longrightarrow>
      \<not> device_open (view w) (dua_DeviceID a) \<Longrightarrow>
      view w' = (view w)\<lparr>rv_assignments :=
        (rv_assignments (view w))(dua_DeviceUpdateAssignmentID a \<mapsto> a)\<rparr> \<Longrightarrow> Q () w'"
  shows "wp (upr_CreateDeviceAssignment repo a) Q E w"
  by (rule wpI) (auto dest!: CreateAssignment_law intro: assms)

lemma wp_SaveProjection:
  assumes "\<And>e w'. view w' = view w \<Longrightarrow> E e w'"
    and "\<And>w'. view w' = (view w)\<lparr>rv_assignments := (rv_assignments (view w))
      (i := map_option (set_projection st p reason) (rv_assignments (view w) i))\<rparr> \<Longrightarrow> Q () w'"
  shows "wp (upr_SaveDeviceAssignmentProjection repo i st p reason) Q E w"
  by (rule wpI) (auto dest!: SaveProjection_law intro: assms)

lemma wp_Upserts:
  assumes "\<And>e w'. view w' = view w \<Longrightarrow> E e w'" and "\<And>w'. view w' = view w \<Longrightarrow> Q () w'"
  shows "wp (upr_UpsertDeviceUpdateStatus repo d) Q E w" and "wp (upr_UpsertUpdateProjection repo p) Q E w"
  by (rule wpI; auto dest!: UpsertStatus_law UpsertProjection_law intro: assms)+

lemma wp_put:
  assumes "\<And>e w' ds. view w' = (view w)\<lparr>rv_desired := ds\<rparr> \<Longrightarrow> E e w'"
    and "\<And>w'. view w' = (view w)\<lparr>rv_desired := rv_desired (view w) @ [desired]\<rparr> \<Longrightarrow> Q () w'"
  shows "wp (put desired) Q E w"
  by (rule wpI) (auto dest!: put_law intro: assms)

lemma wp_Audit:
  assumes "\<And>e w'. view w' = view w \<Longrightarrow> E e w'"
    and "\<And>w'. view w' = (view w)\<lparr>rv_audits := rv_audits (view w) @ [ev]\<rparr> \<Longrightarrow> Q () w'"
  shows "wp (upr_RecordRolloutAudit repo ev) Q E w"
  by (rule wpI) (auto dest!: Audit_law intro: assms)

lemma wp_updates_now:
  assumes "\<And>t w'. view w' = view w \<Longrightarrow> Q t w'"
  shows "wp (updates_now svc) Q E w"
  by (auto simp: updates_now_def wp_simps split: prod.split option.split
      dest: Clock_law TimeNow_law intro!: assms)

lemma wp_resolveID:
  assumes "\<And>e w'. view w' = view w \<Longrightarrow> E e w'" and "\<And>i w'. view w' = view w \<Longrightarrow> i \<noteq> [] \<Longrightarrow> Q i w'"
  shows "wp (resolveID svc candidate label) Q E w"
  by (auto simp: resolveID_def wp_simps split: prod.split option.split dest: ID_law intro!: assms)

lemma wp_rollout_audit:
  assumes "\<And>e w'. view w' = view w \<Longrightarrow> E e w'"
    and "\<And>w'. view w' = (view w)\<lparr>rv_audits := rv_audits (view w) @
        [ev\<lparr>rae_Metadata := releases_normalizeJSON (rae_Metadata ev)\<rparr>]\<rparr> \<Longrightarrow>
      rae_ActorSubjectType ev \<noteq> [] \<Longrightarrow> rae_ActorSubjectID ev \<noteq> [] \<Longrightarrow> Q () w'"
  shows "wp (rollout_audit svc ev) Q E w"
  by (auto simp: rollout_audit_def wired wp_simps intro!: wp_Audit assms)

lemmas wp_calls = wp_CreateRollout wp_GetRollout wp_SaveStatus wp_CreateAssignment wp_SaveProjection
  wp_Upserts wp_put wp_updates_now wp_resolveID wp_rollout_audit

text \<open>What holds through every operation.\<close>

definition kept :: "(rollout_view \<Rightarrow> bool) \<Rightarrow> ('w, 'a) op \<Rightarrow> bool" where
  "kept P m \<longleftrightarrow> (\<forall>w. P (view w) \<longrightarrow> wp m (\<lambda>_ w'. P (view w')) (\<lambda>_ w'. P (view w')) w)"

lemma keptD: "kept P m \<Longrightarrow> P (view w) \<Longrightarrow> P (view (snd (m w)))"
  using wp_worldD [of m "\<lambda>w'. P (view w')" w] by (simp add: kept_def)

lemma inv_kept:
  "kept rollouts_inv (CreateRollout svc r1)" "kept rollouts_inv (ChangeRolloutStatus svc r2)"
  "kept rollouts_inv (RecordReportedUpdateStatus svc r3)"
  unfolding kept_def CreateRollout_def ChangeRolloutStatus_def RecordReportedUpdateStatus_def
  by (auto simp: wired wp_simps split: option.split intro!: wp_calls rollouts_inv_rollout rollouts_inv_status)

lemma open_kept_ops:
  "kept (\<lambda>v. device_open v d) (CreateRollout svc r1)" "kept (\<lambda>v. device_open v d) (ChangeRolloutStatus svc r2)"
  "kept (\<lambda>v. device_open v d) (RecordReportedUpdateStatus svc r3)"
  unfolding kept_def CreateRollout_def ChangeRolloutStatus_def RecordReportedUpdateStatus_def
  by (auto simp: wired wp_simps split: option.split intro!: wp_calls)

lemma finish_kept:
  assumes "\<And>v i st p reason. P v \<Longrightarrow> open_status st \<Longrightarrow> P (v\<lparr>rv_assignments := (rv_assignments v)
      (i := map_option (set_projection st p reason) (rv_assignments v i))\<rparr>)"
    and "\<And>v es. P (v\<lparr>rv_audits := es\<rparr>) = P v"
  shows "kept P (projection_failed svc repo a e now)" and "kept P (projected_assignment svc repo a now)"
  unfolding kept_def projection_failed_def projected_assignment_def
  by (auto simp: wp_simps assms(2) intro!: wp_calls assms(1))

lemma keptE: "kept P m \<Longrightarrow> P (view w) \<Longrightarrow> wp m (\<lambda>_ w'. P (view w')) (\<lambda>_ w'. P (view w')) w"
  by (simp add: kept_def)

lemma inv_kept_assign: "kept rollouts_inv (AssignDevice svc req)"
proof -
  note finish = finish_kept [of rollouts_inv, OF rollouts_inv_projection rollouts_inv_audit(1), THEN keptE]
  have created: "rollouts_inv (v\<lparr>rv_assignments := (rv_assignments v)(i \<mapsto> new_assignment req r i now)\<rparr>)"
    if "rollouts_inv v" "validateAssignment (new_assignment req r i now) = None"
      "rv_rollouts v (TrimSpace (adr_RolloutID req)) = Some r" "rlo_RolloutID r = TrimSpace (adr_RolloutID req)"
      "\<not> device_open v (TrimSpace (adr_DeviceID req))" for v r i now
    using rollouts_inv_assignment [OF that(1), of "new_assignment req r i now"]
      new_assignment_ok [OF that(2,3,4)] that(5) by simp
  show ?thesis
    unfolding kept_def AssignDevice_def
    by (auto simp: wired wp_simps split: option.split intro!: wp_calls finish created)
qed

lemma open_kept_assign: "kept (\<lambda>v. device_open v d) (AssignDevice svc req)"
proof -
  note finish = finish_kept [of "\<lambda>v. device_open v d", OF open_kept device_open_frame(2), THEN keptE]
  show ?thesis
    unfolding kept_def AssignDevice_def
    by (auto simp: wired wp_simps split: option.split intro!: wp_calls finish open_created)
qed

lemma AssignDevice_outcome:
  "wp (AssignDevice svc req) (\<lambda>(a, e) w'. assigned_outcome req (view w) a e (view w'))
    (\<lambda>_ w'. rv_assignments (view w') = rv_assignments (view w)) w"
  unfolding AssignDevice_def projection_failed_def projected_assignment_def
  by (auto simp: wired wp_simps assigned_outcome_def new_assignment_def assignment_audit_def set_projection_def
      split: option.split intro!: wp_calls)

text \<open>A status change whose actor is blank is stored and then reported as an error, without an audit event.\<close>

lemma ChangeRolloutStatus_unaudited:
  assumes "TrimSpace (crs_ActorSubjectType req) = [] \<or> TrimSpace (crs_ActorSubjectID req) = []"
  shows "wp (ChangeRolloutStatus svc req) (\<lambda>_ _. False) (\<lambda>_ w'. rv_audits (view w') = rv_audits (view w)) w"
  unfolding ChangeRolloutStatus_def rollout_audit_def using assms
  by (auto simp: wired wp_simps intro!: wp_SaveStatus wp_updates_now)

text \<open>A device with an open assignment is not assigned again.\<close>

lemma blocked_AssignDevice:
  assumes "device_open (view w) (TrimSpace (adr_DeviceID req))"
  shows "wp (AssignDevice svc req) (\<lambda>_ _. False) (\<lambda>_ w'. view w' = view w) w"
  unfolding AssignDevice_def using assms
  by (auto simp: wired wp_simps split: option.split intro!: wp_calls)

end

end
