(* ===== verification/Rollout_Tables.thy ===== *)
theory Rollout_Tables
  imports Rollout_Store Command_Store
begin

text \<open>
  Tables for the update service with the constraints of
  \<open>backend/migrations/000008_update_desired_state.sql\<close>, the edge state service over an in-memory
  repository and shadow adapter, sequences of update service calls, and their properties. The last
  property runs the update commands through the command service.
\<close>

section \<open>Tables\<close>

record rollout_tables = env +
  rt_rollouts :: "Rollout list"
  rt_assignments :: "DeviceUpdateAssignment list"
  rt_audits :: "RolloutAuditEvent list"
  rt_desired :: "DesiredState list"
  rt_statuses :: "DeviceUpdateStatus list"
  rt_projections :: "EdgeProjection list"

definition rollout_row :: "Rollout list \<Rightarrow> string \<Rightarrow> Rollout option" where
  "rollout_row rows i = find (\<lambda>r. rlo_RolloutID r = i) rows"

definition assignment_row :: "DeviceUpdateAssignment list \<Rightarrow> string \<Rightarrow> DeviceUpdateAssignment option" where
  "assignment_row rows i = find (\<lambda>a. dua_DeviceUpdateAssignmentID a = i) rows"

definition constraint_violation :: go_error where
  "constraint_violation = Errorf ''constraint violation'' []"

definition sql_CreateRollout :: "Rollout \<Rightarrow> (rollout_tables, unit) op" where
  "sql_CreateRollout r w =
     (if rollout_row (rt_rollouts w) (rlo_RolloutID r) \<noteq> None then (Inl constraint_violation, w)
      else (Inr (), w\<lparr>rt_rollouts := r # rt_rollouts w\<rparr>))"

definition sql_GetRollout :: "string \<Rightarrow> (rollout_tables, Rollout) op" where
  "sql_GetRollout i w =
     (case rollout_row (rt_rollouts w) i of None \<Rightarrow> (Inl ErrReleaseNotFound, w) | Some r \<Rightarrow> (Inr r, w))"

definition sql_SaveRolloutStatus :: "string \<Rightarrow> RolloutStatus \<Rightarrow> time \<Rightarrow> string \<Rightarrow> (rollout_tables, unit) op" where
  "sql_SaveRolloutStatus i status changedAt reason w =
     (Inr (), w\<lparr>rt_rollouts :=
        map (\<lambda>r. if rlo_RolloutID r = i then set_status status r else r) (rt_rollouts w)\<rparr>)"

definition open_rows :: "DeviceUpdateAssignment list \<Rightarrow> string \<Rightarrow> bool" where
  "open_rows rows d = list_ex (\<lambda>a. dua_DeviceID a = d \<and> open_status (dua_Status a)) rows"

definition sql_CreateDeviceAssignment :: "DeviceUpdateAssignment \<Rightarrow> (rollout_tables, unit) op" where
  "sql_CreateDeviceAssignment a w =
     (if assignment_row (rt_assignments w) (dua_DeviceUpdateAssignmentID a) \<noteq> None \<or>
         rollout_row (rt_rollouts w) (dua_RolloutID a) = None \<or>
         list_ex (\<lambda>b. dua_RolloutID b = dua_RolloutID a \<and> dua_DeviceID b = dua_DeviceID a) (rt_assignments w) \<or>
         open_rows (rt_assignments w) (dua_DeviceID a)
      then (Inl constraint_violation, w)
      else (Inr (), w\<lparr>rt_assignments := a # rt_assignments w\<rparr>))"

definition sql_SaveProjection ::
  "string \<Rightarrow> AssignmentStatus \<Rightarrow> time option \<Rightarrow> string \<Rightarrow> (rollout_tables, unit) op" where
  "sql_SaveProjection i status projectedAt reason w =
     (Inr (), w\<lparr>rt_assignments := map (\<lambda>a. if dua_DeviceUpdateAssignmentID a = i
        then set_projection status projectedAt reason a else a) (rt_assignments w)\<rparr>)"

definition sql_RecordRolloutAudit :: "RolloutAuditEvent \<Rightarrow> (rollout_tables, unit) op" where
  "sql_RecordRolloutAudit e w =
     (if rollout_row (rt_rollouts w) (rae_RolloutID e) = None \<or>
         rae_Result e \<notin> set [''success'', ''denied'', ''failed'']
      then (Inl constraint_violation, w) else (Inr (), w\<lparr>rt_audits := rt_audits w @ [e]\<rparr>))"

definition update_repository :: "rollout_tables UpdateRepository" where
  "update_repository =
     \<lparr>upr_CreateRollout = (\<lambda>r. with_fault (sql_CreateRollout r)),
      upr_GetRollout = (\<lambda>i. with_fault (sql_GetRollout i)),
      upr_SaveRolloutStatus = (\<lambda>i st t reason. with_fault (sql_SaveRolloutStatus i st t reason)),
      upr_CreateDeviceAssignment = (\<lambda>a. with_fault (sql_CreateDeviceAssignment a)),
      upr_SaveDeviceAssignmentProjection = (\<lambda>i st t reason. with_fault (sql_SaveProjection i st t reason)),
      upr_UpsertDeviceUpdateStatus =
        (\<lambda>d. with_fault (\<lambda>w. (Inr (), w\<lparr>rt_statuses := d # rt_statuses w\<rparr>))),
      upr_UpsertUpdateProjection =
        (\<lambda>p. with_fault (\<lambda>w. (Inr (), w\<lparr>rt_projections := p # rt_projections w\<rparr>))),
      upr_RecordRolloutAudit = (\<lambda>e. with_fault (sql_RecordRolloutAudit e))\<rparr>"

text \<open>Desired states are stored first; the adapter that publishes them may fail afterwards.\<close>

definition edge_state_service :: "rollout_tables EdgeStateService" where
  "edge_state_service =
     \<lparr>ess_UpsertDesiredState = Some (\<lambda>d. with_fault (\<lambda>w. (Inr (), w\<lparr>rt_desired := rt_desired w @ [d]\<rparr>))),
      ess_AdapterPutDesired = Some (\<lambda>d. with_fault (ret ()))\<rparr>"

definition update_service :: "rollout_tables UpdateService" where
  "update_service =
     \<lparr>ups_Repository = Some update_repository,
      ups_EdgeState = Some (edgestate_PutDesired edge_state_service), ups_CommandCreator = None,
      ups_IDGenerator = Some next_id, ups_Clock = Some read_clock, ups_TimeNow = read_clock\<rparr>"

definition tables_rollouts :: "rollout_tables \<Rightarrow> rollout_view" where
  "tables_rollouts w = \<lparr>rv_rollouts = rollout_row (rt_rollouts w),
     rv_assignments = assignment_row (rt_assignments w), rv_audits = rt_audits w, rv_desired = rt_desired w\<rparr>"

lemma rollout_row_id: "rollout_row rows i = Some r \<Longrightarrow> rlo_RolloutID r = i"
  by (auto simp: rollout_row_def find_Some_iff)

lemma assignment_row_id: "assignment_row rows i = Some a \<Longrightarrow> dua_DeviceUpdateAssignmentID a = i"
  by (auto simp: assignment_row_def find_Some_iff)

lemma row_Cons:
  "rollout_row (r # rs) = (rollout_row rs)(rlo_RolloutID r \<mapsto> r)"
  "assignment_row (a # as) = (assignment_row as)(dua_DeviceUpdateAssignmentID a \<mapsto> a)"
  by (rule ext, simp add: rollout_row_def assignment_row_def)+

lemma row_Nil [simp]: "rollout_row [] = Map.empty" "assignment_row [] = Map.empty"
  by (rule ext, simp add: rollout_row_def assignment_row_def)+

lemma rollout_row_status:
  "rollout_row (map (\<lambda>r. if rlo_RolloutID r = i then set_status st r else r) rows) =
   (rollout_row rows)(i := map_option (set_status st) (rollout_row rows i))"
  by (induction rows) (auto simp: row_Cons fun_eq_iff set_status_def)

lemma assignment_row_projection:
  "assignment_row (map (\<lambda>a. if dua_DeviceUpdateAssignmentID a = i then set_projection st p reason a else a) rows) =
   (assignment_row rows)(i := map_option (set_projection st p reason) (assignment_row rows i))"
  by (induction rows) (auto simp: row_Cons fun_eq_iff set_projection_def)

lemma not_open_rows: "\<not> open_rows rows d \<Longrightarrow> assignment_row rows i = Some a \<Longrightarrow> dua_DeviceID a = d \<Longrightarrow>
  \<not> open_status (dua_Status a)"
  by (induction rows) (auto simp: open_rows_def row_Cons split: if_splits)

lemma tables_rollouts_fields [simp]:
  "rv_rollouts (tables_rollouts w) = rollout_row (rt_rollouts w)"
  "rv_assignments (tables_rollouts w) = assignment_row (rt_assignments w)"
  "rv_audits (tables_rollouts w) = rt_audits w" "rv_desired (tables_rollouts w) = rt_desired w"
  by (simp_all add: tables_rollouts_def)

lemmas update_repository_defs = update_service_def update_repository_def edge_state_service_def
  sql_CreateRollout_def sql_GetRollout_def sql_SaveRolloutStatus_def sql_CreateDeviceAssignment_def
  sql_SaveProjection_def sql_RecordRolloutAudit_def

interpretation rollouts: update_contract update_service update_repository
  "edgestate_PutDesired edge_state_service" tables_rollouts
  by unfold_locales
    (auto simp: update_repository_defs tables_rollouts_def with_fault_def read_clock_def next_id_def
      edgestate_PutDesired_def op_defs device_open_def row_Cons rollout_row_status
      assignment_row_projection dest: rollout_row_id not_open_rows
      split: list.splits if_splits option.splits)

section \<open>Sequences of calls\<close>

datatype rollout_call =
    CallCreateRollout CreateRolloutRequest | CallAssignDevice AssignDeviceRequest
  | CallChangeStatus ChangeRolloutStatusRequest | CallReport UpdateStatusReport

fun run_rollout_call :: "rollout_call \<Rightarrow> rollout_tables \<Rightarrow> rollout_tables" where
  "run_rollout_call (CallCreateRollout r) w = snd (CreateRollout update_service r w)"
| "run_rollout_call (CallAssignDevice r) w = snd (AssignDevice update_service r w)"
| "run_rollout_call (CallChangeStatus r) w = snd (ChangeRolloutStatus update_service r w)"
| "run_rollout_call (CallReport r) w = snd (RecordReportedUpdateStatus update_service r w)"

fun run_rollout_calls :: "rollout_call list \<Rightarrow> rollout_tables \<Rightarrow> rollout_tables" where
  "run_rollout_calls [] w = w"
| "run_rollout_calls (c # cs) w = run_rollout_calls cs (run_rollout_call c w)"

lemma run_call_inv: "rollouts_inv (tables_rollouts w) \<Longrightarrow> rollouts_inv (tables_rollouts (run_rollout_call c w))"
  by (cases c) (simp_all add: rollouts.inv_kept rollouts.inv_kept_assign rollouts.keptD [of rollouts_inv])

lemma run_call_open:
  "device_open (tables_rollouts w) d \<Longrightarrow> device_open (tables_rollouts (run_rollout_call c w)) d"
  by (cases c) (simp_all add: rollouts.open_kept_ops rollouts.open_kept_assign
      rollouts.keptD [of "\<lambda>v. device_open v d"])

lemma run_calls_inv:
  "rollouts_inv (tables_rollouts w) \<Longrightarrow> rollouts_inv (tables_rollouts (run_rollout_calls cs w))"
  by (induction cs arbitrary: w) (simp_all add: run_call_inv)

lemma run_calls_open:
  "device_open (tables_rollouts w) d \<Longrightarrow> device_open (tables_rollouts (run_rollout_calls cs w)) d"
  by (induction cs arbitrary: w) (simp_all add: run_call_open)

section \<open>Properties\<close>

text \<open>C23: After any calls on empty tables, whichever fail, every assignment is of a known rollout, wants its
  immutable version, is open, and is the only one of its device.\<close>

theorem rollout_assignments_invariant:
  assumes "rt_assignments w = []" and "w' = run_rollout_calls cs w"
    and "assignment_row (rt_assignments w') i = Some a"
  shows "(\<exists>r. rollout_row (rt_rollouts w') (dua_RolloutID a) = Some r \<and>
      rlo_TargetVersion r = dua_DesiredVersion a) \<and>
    validateImmutableVersion (dua_DesiredVersion a) = None \<and>
    dua_Status a \<in> {AssignmentStatusAssigned, AssignmentStatusProjected, AssignmentStatusProjectionFailed} \<and>
    (\<forall>j b. assignment_row (rt_assignments w') j = Some b \<and> dua_DeviceID b = dua_DeviceID a \<longrightarrow> j = i)"
proof -
  have "rollouts_inv (tables_rollouts w)" using assms(1) by (simp add: rollouts_inv_def)
  then have "rollouts_inv (tables_rollouts w')" using run_calls_inv assms(2) by simp
  then show ?thesis
    using assms(3) by (simp add: rollouts_inv_def assignment_ok_def open_status_def) metis
qed

text \<open>An assignment that is returned is the one stored, of an active rollout; it is projected exactly
  if its version was published as the desired state of the device; and when no error is returned it
  is projected and audited. A failed assignment stores none.\<close>

theorem assigned_device_outcome:
  assumes "AssignDevice update_service req w = (r, w')"
  shows "case r of
      Inl e \<Rightarrow> assignment_row (rt_assignments w') = assignment_row (rt_assignments w)
    | Inr (a, e) \<Rightarrow> \<exists>rollout. rollout_row (rt_rollouts w) (TrimSpace (adr_RolloutID req)) = Some rollout \<and>
        rlo_Status rollout = RolloutStatusActive \<and> dua_DesiredVersion a = rlo_TargetVersion rollout \<and>
        assignment_row (rt_assignments w') =
          (assignment_row (rt_assignments w))(dua_DeviceUpdateAssignmentID a \<mapsto> a) \<and>
        (dua_Status a = AssignmentStatusProjected \<longrightarrow> rt_desired w' = rt_desired w @
           [\<lparr>dst_DeviceID = dua_DeviceID a, dst_StateKey = StateKeyUpdate,
             dst_DesiredVersion = dua_DesiredVersion a, dst_Desired = marshalUpdateDesired rollout,
             dst_ConvergenceDeadlineAt = None\<rparr>]) \<and>
        (e = None \<longrightarrow> dua_Status a = AssignmentStatusProjected \<and>
           (\<exists>ev. rt_audits w' = rt_audits w @ [ev] \<and>
              rae_DeviceUpdateAssignmentID ev = dua_DeviceUpdateAssignmentID a))"
proof -
  have "wp (AssignDevice update_service req)
    (\<lambda>(a, e) w'. assigned_outcome req (tables_rollouts w) a e (tables_rollouts w'))
    (\<lambda>_ w'. rv_assignments (tables_rollouts w') = rv_assignments (tables_rollouts w)) w"
    by (rule rollouts.AssignDevice_outcome)
  then show ?thesis
    using assms by (auto simp: wp_def assigned_outcome_def split: sum.splits prod.splits)
qed

text \<open>No operation of the service closes an assignment. A device that was assigned once is never
  assigned again, whatever is called in between: not after it reported that it converged, nor after
  its rollout was completed or canceled.\<close>

theorem assigned_device_blocked:
  assumes "AssignDevice update_service req w = (Inr (a, e), w')"
    and "TrimSpace (adr_DeviceID req') = dua_DeviceID a"
  shows "\<exists>e' w''. AssignDevice update_service req' (run_rollout_calls cs w') = (Inl e', w'') \<and>
    assignment_row (rt_assignments w'') = assignment_row (rt_assignments (run_rollout_calls cs w'))"
proof -
  have "wp (AssignDevice update_service req)
    (\<lambda>(a, e) w'. assigned_outcome req (tables_rollouts w) a e (tables_rollouts w'))
    (\<lambda>_ w'. rv_assignments (tables_rollouts w') = rv_assignments (tables_rollouts w)) w"
    by (rule rollouts.AssignDevice_outcome)
  then have "device_open (tables_rollouts w') (dua_DeviceID a)"
    using assms(1) by (auto simp: wp_def assigned_outcome_def device_open_def)
  then have "device_open (tables_rollouts (run_rollout_calls cs w')) (TrimSpace (adr_DeviceID req'))"
    using run_calls_open assms(2) by simp
  from rollouts.blocked_AssignDevice [OF this] show ?thesis
    by (auto simp: wp_def tables_rollouts_def split: prod.splits sum.splits)
qed

lemma wp_sql_SaveRolloutStatus:
  "wp (sql_SaveRolloutStatus i st t reason) Q E w =
   Q () (w\<lparr>rt_rollouts := map (\<lambda>r. if rlo_RolloutID r = i then set_status st r else r) (rt_rollouts w)\<rparr>)"
  by (simp add: wp_def sql_SaveRolloutStatus_def)

text \<open>A status change by a blank actor is refused only after the new status is stored: the caller gets
  an error and no audit event tells of the change.\<close>

theorem unaudited_status_change:
  assumes "env_faults w = []" and "validRolloutStatus (crs_Status req)"
    and "TrimSpace (crs_ActorSubjectID req) = []" and "TrimSpace (crs_RolloutID req) = i" and "i \<noteq> []"
    and "rollout_row (rt_rollouts w) i = Some r"
  shows "\<exists>e w'. ChangeRolloutStatus update_service req w = (Inl e, w') \<and> rt_audits w' = rt_audits w \<and>
    rollout_row (rt_rollouts w') i = Some (r\<lparr>rlo_Status := crs_Status req\<rparr>)"
proof -
  have "crs_Status req \<noteq> []" using assms(2) by (auto simp: validRolloutStatus_def rollout_names)
  then have "wp (ChangeRolloutStatus update_service req) (\<lambda>_ _. False)
      (\<lambda>e w'. rt_audits w' = rt_audits w \<and>
         rollout_row (rt_rollouts w') i = Some (r\<lparr>rlo_Status := crs_Status req\<rparr>)) w"
    using assms by (auto simp: ChangeRolloutStatus_def rollout_audit_def updates_now_def wp_simps
        update_service_def update_repository_def wp_with_fault read_clock_def wp_sql_SaveRolloutStatus
        rollout_row_status set_status_def split: list.split)
  then show ?thesis by (auto simp: wp_def split: prod.splits sum.splits)
qed

text \<open>A repair that succeeds through the command service has stored exactly one queued repair command
  for its device, with a valid payload and both deadlines in order; the desired version is immutable.\<close>

theorem repair_command_created:
  assumes "ups_CommandCreator s = Some (commands_Create (memory_service ds))"
    and "RequestUpdateRepair s req w = (Inr c, w')"
  shows "st_commands w (cmd_CommandID c) = None \<and>
    st_commands w' = (st_commands w)(cmd_CommandID c \<mapsto> c) \<and> cmd_Status c = StatusQueued \<and>
    cmd_CommandType c = TypeRepairUpdateState \<and> cmd_DeviceID c = TrimSpace (ucr_DeviceID req) \<and>
    json_Valid (cmd_Payload c) \<and> env_clock w < cmd_AckDeadlineAt c \<and>
    cmd_AckDeadlineAt c < cmd_ResultDeadlineAt c \<and>
    validateImmutableVersion (ucr_DesiredVersion req) = None"
proof -
  define creq where "creq = (\<lparr>cr_CommandID = [], cr_AccountID = TrimSpace (ucr_AccountID req),
    cr_SiteID = TrimSpace (ucr_SiteID req), cr_DeviceID = TrimSpace (ucr_DeviceID req),
    cr_CommandType = TypeRepairUpdateState, cr_IdempotencyKey = TrimSpace (ucr_IdempotencyKey req),
    cr_RequestedByUserID = TrimSpace (ucr_RequestedByUserID req),
    cr_Payload = object_text (map (\<lambda>(k, v). (k, quote v)) (repair_members req))\<rparr> :: CreateRequest)"
  have "commands_Create (memory_service ds) creq w = (Inr c, w')"
    and "validateImmutableVersion (ucr_DesiredVersion req) = None"
    using assms unfolding RequestUpdateRepair_def createUpdateCommand_def creq_def repair_members_def
    by (auto simp: op_defs split: if_splits option.splits prod.splits sum.splits)
  then show ?thesis using memory_Create_post [of ds creq w c w'] by (simp add: creq_def TrimSpace_idem)
qed

section \<open>Witnesses\<close>

definition demo_rollouts :: rollout_tables where
  "demo_rollouts = \<lparr>env_faults = [], env_clock = Second, env_ticks = [], env_ids = [], rt_rollouts = [],
     rt_assignments = [], rt_audits = [], rt_desired = [], rt_statuses = [], rt_projections = []\<rparr>"

definition demo_create_rollout :: CreateRolloutRequest where
  "demo_create_rollout = \<lparr>crr_RolloutID = ''r1'', crr_ChannelKey = ChannelStable,
     crr_TargetReleaseArtifactID = ''x'', crr_TargetVersion = ''0.2'', crr_TargetType = RolloutTargetDevice,
     crr_CohortKey = [], crr_Status = RolloutStatusActive, crr_CreatedByUserID = ''u'',
     crr_ReasonCode = [], crr_Metadata = []\<rparr>"

definition demo_assign :: "string \<Rightarrow> AssignDeviceRequest" where
  "demo_assign i = \<lparr>adr_DeviceUpdateAssignmentID = i, adr_RolloutID = ''r1'', adr_AccountID = ''acc'',
     adr_SiteID = ''s'', adr_DeviceID = ''d1'', adr_AssignedByUserID = ''u'', adr_Metadata = []\<rparr>"

definition demo_status_change :: "string \<Rightarrow> RolloutStatus \<Rightarrow> ChangeRolloutStatusRequest" where
  "demo_status_change actor status = \<lparr>crs_RolloutID = ''r1'', crs_Status = status,
     crs_ActorSubjectType = ''user'', crs_ActorSubjectID = actor, crs_ReasonCode = []\<rparr>"

definition demo_active :: rollout_tables where
  "demo_active = run_rollout_calls [CallCreateRollout demo_create_rollout] demo_rollouts"

lemma demo_rollout_eval:
  "map (\<lambda>r. (rlo_RolloutID r, rlo_Status r)) (rt_rollouts demo_active) = [(''r1'', RolloutStatusActive)]"
  "env_faults demo_active = []"
  by code_simp+

lemma demo_assign_eval:
  "map_option (\<lambda>(a, e). (dua_DeviceID a, dua_Status a, e))
     (case fst (AssignDevice update_service (demo_assign ''a1'') demo_active) of Inl _ \<Rightarrow> None | Inr x \<Rightarrow> Some x) =
   Some (''d1'', AssignmentStatusProjected, None)"
  by code_simp

lemma demo_assigned:
  obtains a w' where "AssignDevice update_service (demo_assign ''a1'') demo_active = (Inr (a, None), w')"
    "dua_DeviceID a = ''d1''" "dua_Status a = AssignmentStatusProjected"
  using demo_assign_eval by (cases "AssignDevice update_service (demo_assign ''a1'') demo_active")
    (auto split: sum.splits prod.splits)

theorem rollout_assignments_invariant_witness:
  "\<exists>i a. assignment_row (rt_assignments (run_rollout_calls [CallCreateRollout demo_create_rollout,
       CallAssignDevice (demo_assign ''a1'')] demo_rollouts)) i = Some a \<and>
     validateImmutableVersion (dua_DesiredVersion a) = None"
proof -
  let ?cs = "[CallCreateRollout demo_create_rollout, CallAssignDevice (demo_assign ''a1'')]"
  have "assignment_row (rt_assignments (run_rollout_calls ?cs demo_rollouts)) ''a1'' \<noteq> None" by code_simp
  then obtain a where a: "assignment_row (rt_assignments (run_rollout_calls ?cs demo_rollouts)) ''a1'' = Some a"
    by blast
  have "rt_assignments demo_rollouts = []" by (simp add: demo_rollouts_def)
  from rollout_assignments_invariant [OF this refl a] a show ?thesis by blast
qed

theorem assigned_device_outcome_witness:
  "\<exists>a w'. AssignDevice update_service (demo_assign ''a1'') demo_active = (Inr (a, None), w') \<and>
     length (rt_desired w') = Suc (length (rt_desired demo_active)) \<and>
     length (rt_audits w') = Suc (length (rt_audits demo_active))"
proof -
  obtain a w' where a: "AssignDevice update_service (demo_assign ''a1'') demo_active = (Inr (a, None), w')"
    "dua_Status a = AssignmentStatusProjected" by (rule demo_assigned)
  from assigned_device_outcome [OF a(1)] a show ?thesis by auto
qed

theorem assigned_device_blocked_witness:
  "isl (fst (AssignDevice update_service (demo_assign ''a2'')
     (run_rollout_calls [CallChangeStatus (demo_status_change ''u'' RolloutStatusCompleted),
        CallChangeStatus (demo_status_change ''u'' RolloutStatusActive)]
        (snd (AssignDevice update_service (demo_assign ''a1'') demo_active)))))"
proof -
  obtain a w' where a: "AssignDevice update_service (demo_assign ''a1'') demo_active = (Inr (a, None), w')"
    "dua_DeviceID a = ''d1''" by (rule demo_assigned)
  have "TrimSpace (adr_DeviceID (demo_assign ''a2'')) = ''d1''" by code_simp
  then have "TrimSpace (adr_DeviceID (demo_assign ''a2'')) = dua_DeviceID a" using a(2) by simp
  from assigned_device_blocked [OF a(1) this] a(1) show ?thesis
    by (metis fst_conv isl_def snd_conv)
qed

theorem unaudited_status_change_witness:
  "\<exists>e w'. ChangeRolloutStatus update_service (demo_status_change [] RolloutStatusCanceled) demo_active = (Inl e, w') \<and>
     map_option rlo_Status (rollout_row (rt_rollouts w') ''r1'') = Some RolloutStatusCanceled \<and>
     rt_audits w' = rt_audits demo_active"
proof -
  have "validRolloutStatus (crs_Status (demo_status_change [] RolloutStatusCanceled))"
    "TrimSpace (crs_ActorSubjectID (demo_status_change [] RolloutStatusCanceled)) = []"
    "TrimSpace (crs_RolloutID (demo_status_change [] RolloutStatusCanceled)) = ''r1''"
    "rollout_row (rt_rollouts demo_active) ''r1'' \<noteq> None"
    by code_simp+
  moreover have "crs_Status (demo_status_change [] RolloutStatusCanceled) = RolloutStatusCanceled"
    by (simp add: demo_status_change_def)
  ultimately show ?thesis
    using unaudited_status_change [OF demo_rollout_eval(2), of "demo_status_change [] RolloutStatusCanceled" "''r1''"]
    by auto
qed

definition demo_repair :: UpdateCommandRequest where
  "demo_repair = \<lparr>ucr_AccountID = ''acc'', ucr_SiteID = ''s'', ucr_DeviceID = ''d1'',
     ucr_RequestedByUserID = ''u'', ucr_IdempotencyKey = ''k'', ucr_ReasonCode = [],
     ucr_DesiredVersion = ''0.2'', ucr_ChannelKey = ChannelStable, ucr_RolloutID = ''r1''\<rparr>"

definition demo_command_updates :: "command_store UpdateService" where
  "demo_command_updates = \<lparr>ups_Repository = None, ups_EdgeState = None,
     ups_CommandCreator = Some (commands_Create (memory_service None)),
     ups_IDGenerator = None, ups_Clock = None, ups_TimeNow = read_clock\<rparr>"

theorem repair_command_created_witness:
  "\<exists>c w'. RequestUpdateRepair demo_command_updates demo_repair demo_store = (Inr c, w') \<and>
     st_commands w' (cmd_CommandID c) = Some c \<and> cmd_DeviceID c = ''d1''"
proof -
  have "\<not> isl (fst (RequestUpdateRepair demo_command_updates demo_repair demo_store))"
    and d: "TrimSpace (ucr_DeviceID demo_repair) = ''d1''" by code_simp+
  then obtain c w' where e: "RequestUpdateRepair demo_command_updates demo_repair demo_store = (Inr c, w')"
    by (metis isl_def prod.collapse sum.exhaust)
  have "ups_CommandCreator demo_command_updates = Some (commands_Create (memory_service None))"
    by (simp add: demo_command_updates_def)
  from repair_command_created [OF this e] e d show ?thesis by auto
qed

end
