(* ===== verification/Backups.thy ===== *)
theory Backups
  imports Commands Go_Json
begin

text \<open>
  Backup runs and the backup status of a device (\<open>backend/internal/domain/backups/service.go\<close>).

  An operation that returns two values returns a pair. The command creator is the service's
  \<open>CommandCreator\<close> interface, for which the command service is used.
\<close>

section \<open>Data\<close>

type_synonym BackupStatus = string

definition BackupRequested :: BackupStatus where "BackupRequested = ''requested''"
definition BackupRunning :: BackupStatus where "BackupRunning = ''running''"
definition BackupSucceeded :: BackupStatus where "BackupSucceeded = ''succeeded''"
definition BackupFailed :: BackupStatus where "BackupFailed = ''failed''"
definition BackupTimedOut :: BackupStatus where "BackupTimedOut = ''timed_out''"
definition BackupCanceled :: BackupStatus where "BackupCanceled = ''canceled''"

lemmas backup_names = BackupRequested_def BackupRunning_def BackupSucceeded_def BackupFailed_def
  BackupTimedOut_def BackupCanceled_def

record BackupRun =
  bkr_BackupID :: string
  bkr_AccountID :: string
  bkr_SiteID :: string
  bkr_DeviceID :: string
  bkr_CommandID :: string
  bkr_ArtifactUploadID :: string
  bkr_Status :: BackupStatus
  bkr_RequestedByUserID :: string
  bkr_ReasonCode :: string
  bkr_Metadata :: string
  bkr_RequestedAt :: time
  bkr_StartedAt :: "time option"
  bkr_FinishedAt :: "time option"

record DeviceBackupStatus =
  bds_AccountID :: string
  bds_SiteID :: string
  bds_DeviceID :: string
  bds_CurrentStatus :: BackupStatus
  bds_LastBackupID :: string
  bds_InProgressBackupID :: string
  bds_LastSuccessAt :: "time option"
  bds_LastFailureAt :: "time option"
  bds_OverdueAfter :: "time option"
  bds_ArtifactUploadID :: string
  bds_ReasonCode :: string
  bds_UpdatedAt :: time

record TriggerRequest =
  tbr_AccountID :: string
  tbr_SiteID :: string
  tbr_DeviceID :: string
  tbr_RequestedByUserID :: string
  tbr_IdempotencyKey :: string
  tbr_Metadata :: string

record BackupCommandResult =
  bcr_CommandID :: string
  bcr_Status :: CommandStatus
  bcr_ReasonCode :: string
  bcr_ArtifactUploadID :: string
  bcr_FinishedAt :: time

record 'w BackupRepository =
  bkp_CreateRun :: "BackupRun \<Rightarrow> ('w, unit) op"
  bkp_GetRunByCommandID :: "string \<Rightarrow> ('w, BackupRun) op"
  bkp_SaveRun :: "BackupRun \<Rightarrow> ('w, unit) op"
  bkp_UpsertDeviceStatus :: "DeviceBackupStatus \<Rightarrow> ('w, unit) op"

record 'w BackupService =
  bks_Repository :: "'w BackupRepository option"
  bks_CommandCreator :: "(CreateRequest \<Rightarrow> ('w, Command) op) option"
  bks_IDGenerator :: "('w, string) effect option"
  bks_Clock :: "('w, time) effect option"
  bks_TimeNow :: "('w, time) effect"

section \<open>Operations\<close>

definition backups_now :: "'w BackupService \<Rightarrow> ('w, time) op" where
  "backups_now s = clock_now (bks_Clock s) (bks_TimeNow s)"

definition newBackupID :: "'w BackupService \<Rightarrow> ('w, string) op" where
  "newBackupID s =
     bindE (required (bks_IDGenerator s) (Errorf ''backup id generator is required'' [])) (\<lambda>generate.
     bindE (liftE generate) (\<lambda>i.
     bindE (failIf (TrimSpace i = []) (Errorf ''backup id is required'' [])) (\<lambda>_.
     ret (TrimSpace i))))"

definition backups_normalizeJSON :: "string \<Rightarrow> string" where
  "backups_normalizeJSON v = (if v = [] then ''{}'' else v)"

definition backup_command_request :: "TriggerRequest \<Rightarrow> CreateRequest" where
  "backup_command_request req =
     \<lparr>cr_CommandID = [], cr_AccountID = TrimSpace (tbr_AccountID req), cr_SiteID = TrimSpace (tbr_SiteID req),
      cr_DeviceID = TrimSpace (tbr_DeviceID req), cr_CommandType = TypeTriggerBackup,
      cr_IdempotencyKey = TrimSpace (tbr_IdempotencyKey req),
      cr_RequestedByUserID = TrimSpace (tbr_RequestedByUserID req),
      cr_Payload = ''{'' @ [CHR 0x22] @ ''backup_scope'' @ [CHR 0x22] @ '':'' @ [CHR 0x22] @
        ''home_assistant'' @ [CHR 0x22] @ ''}''\<rparr>"

definition new_backup_run :: "TriggerRequest \<Rightarrow> string \<Rightarrow> string \<Rightarrow> time \<Rightarrow> BackupRun" where
  "new_backup_run req backupID commandID now =
     \<lparr>bkr_BackupID = backupID, bkr_AccountID = TrimSpace (tbr_AccountID req),
      bkr_SiteID = TrimSpace (tbr_SiteID req), bkr_DeviceID = TrimSpace (tbr_DeviceID req),
      bkr_CommandID = commandID, bkr_ArtifactUploadID = [], bkr_Status = BackupRequested,
      bkr_RequestedByUserID = TrimSpace (tbr_RequestedByUserID req), bkr_ReasonCode = [],
      bkr_Metadata = backups_normalizeJSON (tbr_Metadata req), bkr_RequestedAt = now,
      bkr_StartedAt = None, bkr_FinishedAt = None\<rparr>"

definition requested_status :: "BackupRun \<Rightarrow> time \<Rightarrow> DeviceBackupStatus" where
  "requested_status run now =
     \<lparr>bds_AccountID = bkr_AccountID run, bds_SiteID = bkr_SiteID run, bds_DeviceID = bkr_DeviceID run,
      bds_CurrentStatus = BackupRequested, bds_LastBackupID = bkr_BackupID run,
      bds_InProgressBackupID = bkr_BackupID run, bds_LastSuccessAt = None, bds_LastFailureAt = None,
      bds_OverdueAfter = None, bds_ArtifactUploadID = [], bds_ReasonCode = [], bds_UpdatedAt = now\<rparr>"

definition TriggerBackup :: "'w BackupService \<Rightarrow> TriggerRequest \<Rightarrow> ('w, BackupRun \<times> Command) op" where
  "TriggerBackup s req =
     bindE (required (bks_Repository s) (Errorf ''backup repository is required'' [])) (\<lambda>repo.
     bindE (required (bks_CommandCreator s) (Errorf ''command creator is required'' [])) (\<lambda>create.
     bindE (backups_now s) (\<lambda>now.
     bindE (newBackupID s) (\<lambda>backupID.
     bindE (failIf (\<not> json_Valid (backups_normalizeJSON (tbr_Metadata req)))
              (Errorf ''metadata must be valid JSON'' [])) (\<lambda>_.
     bindE (failIf (TrimSpace (tbr_AccountID req) = [] \<or> TrimSpace (tbr_SiteID req) = [] \<or>
                    TrimSpace (tbr_DeviceID req) = [])
              (Errorf ''account_id, site_id, and device_id are required'' [])) (\<lambda>_.
     bindE (wrapE ''create backup command'' (create (backup_command_request req))) (\<lambda>command.
     let run = new_backup_run req backupID (cmd_CommandID command) now in
     bindE (wrapE ''create backup run'' (bkp_CreateRun repo run)) (\<lambda>_.
     bindE (wrapE ''update backup status'' (bkp_UpsertDeviceStatus repo (requested_status run now))) (\<lambda>_.
     ret (run, command))))))))))"

fun backupStatusFromCommandStatus :: "CommandStatus \<Rightarrow> go_error + BackupStatus" where
  "backupStatusFromCommandStatus status =
     (if status = StatusSucceeded then Inr BackupSucceeded
      else if status = StatusFailed then Inr BackupFailed
      else if status = StatusTimedOut then Inr BackupTimedOut
      else if status = StatusCanceled then Inr BackupCanceled
      else Inl (Errorf ''unsupported backup command result status %q'' [status_text status]))"

declare backupStatusFromCommandStatus.simps [simp del]

definition finished_run :: "BackupRun \<Rightarrow> BackupCommandResult \<Rightarrow> BackupStatus \<Rightarrow> time \<Rightarrow> BackupRun" where
  "finished_run run result status finishedAt = run
     \<lparr>bkr_ArtifactUploadID := TrimSpace (bcr_ArtifactUploadID result), bkr_Status := status,
      bkr_ReasonCode := TrimSpace (bcr_ReasonCode result), bkr_FinishedAt := Some finishedAt\<rparr>"

definition finished_status :: "BackupRun \<Rightarrow> BackupStatus \<Rightarrow> time \<Rightarrow> time \<Rightarrow> DeviceBackupStatus" where
  "finished_status run status finishedAt now =
     \<lparr>bds_AccountID = bkr_AccountID run, bds_SiteID = bkr_SiteID run, bds_DeviceID = bkr_DeviceID run,
      bds_CurrentStatus = status, bds_LastBackupID = bkr_BackupID run, bds_InProgressBackupID = [],
      bds_LastSuccessAt = (if status = BackupSucceeded then Some finishedAt else None),
      bds_LastFailureAt = (if status \<in> set [BackupFailed, BackupTimedOut, BackupCanceled]
        then Some finishedAt else None),
      bds_OverdueAfter = None, bds_ArtifactUploadID = bkr_ArtifactUploadID run,
      bds_ReasonCode = bkr_ReasonCode run, bds_UpdatedAt = now\<rparr>"

definition backups_RecordCommandResult ::
  "'w BackupService \<Rightarrow> BackupCommandResult \<Rightarrow> ('w, BackupRun \<times> DeviceBackupStatus) op" where
  "backups_RecordCommandResult s result =
     bindE (required (bks_Repository s) (Errorf ''backup repository is required'' [])) (\<lambda>repo.
     bindE (wrapE ''load backup run'' (bkp_GetRunByCommandID repo (TrimSpace (bcr_CommandID result)))) (\<lambda>run0.
     bindE (pureE (backupStatusFromCommandStatus (bcr_Status result))) (\<lambda>status.
     bindE (backups_now s) (\<lambda>now.
     let finishedAt = (if IsZero (bcr_FinishedAt result) then now else bcr_FinishedAt result);
         run = finished_run run0 result status finishedAt in
     bindE (wrapE ''save backup run'' (bkp_SaveRun repo run)) (\<lambda>_.
     let deviceStatus = finished_status run status finishedAt now in
     bindE (wrapE ''update backup status'' (bkp_UpsertDeviceStatus repo deviceStatus)) (\<lambda>_.
     ret (run, deviceStatus)))))))"

definition IsOverdue :: "DeviceBackupStatus \<Rightarrow> time \<Rightarrow> bool" where
  "IsOverdue status now =
     (case bds_OverdueAfter status of
        None \<Rightarrow> False
      | Some overdueAfter \<Rightarrow>
          bds_CurrentStatus status \<noteq> BackupRunning \<and> bds_CurrentStatus status \<noteq> BackupRequested \<and>
          After now overdueAfter)"

end
