(* ===== verification/Command_Clients.thy ===== *)
theory Command_Clients
  imports Command_Store
begin

text \<open>
  A world with the command service in it, for the services that create commands (backups and
  diagnostics): the command store is a part of their world, and \<open>create_command\<close> is the creation
  of a command there.
\<close>

record command_world = env +
  cw_commands :: command_store

definition on_commands :: "(command_store, 'a) op \<Rightarrow> ('x command_world_scheme, 'a) op" where
  "on_commands m w = (case m (cw_commands w) of (r, cs) \<Rightarrow> (r, w\<lparr>cw_commands := cs\<rparr>))"

definition create_command :: "CreateRequest \<Rightarrow> ('x command_world_scheme, Command) op" where
  "create_command req = on_commands (commands_Create (memory_service None) req)"

lemma wp_on_commands:
  "wp (on_commands m) Q E w =
   wp m (\<lambda>a cs. Q a (w\<lparr>cw_commands := cs\<rparr>)) (\<lambda>e cs. E e (w\<lparr>cw_commands := cs\<rparr>)) (cw_commands w)"
  by (auto simp: wp_def on_commands_def split: prod.split sum.split)


text \<open>The commands of a world.\<close>

definition world_commands :: "'x command_world_scheme \<Rightarrow> string \<Rightarrow> Command option" where
  "world_commands w = st_commands (cw_commands w)"

lemma world_commands_update [simp]:
  "world_commands (w\<lparr>cw_commands := cs\<rparr>) = st_commands cs"
  "world_commands (w\<lparr>env_faults := fs\<rparr>) = world_commands w"
  "world_commands (w\<lparr>env_clock := t\<rparr>) = world_commands w"
  "world_commands (w\<lparr>env_ticks := ts\<rparr>) = world_commands w"
  "world_commands (w\<lparr>env_ids := ids\<rparr>) = world_commands w"
  by (cases w, simp add: world_commands_def)+

lemma wp_create_command:
  assumes "\<And>e cs. st_commands cs = world_commands w \<Longrightarrow> E e (w\<lparr>cw_commands := cs\<rparr>)"
    and "\<And>c cs. world_commands w (cmd_CommandID c) = None \<Longrightarrow>
      st_commands cs = (world_commands w)(cmd_CommandID c \<mapsto> c) \<Longrightarrow>
      cmd_CommandType c = cr_CommandType req \<Longrightarrow> cmd_DeviceID c = TrimSpace (cr_DeviceID req) \<Longrightarrow>
      cmd_Status c = StatusQueued \<Longrightarrow> TrimSpace (cmd_CommandID c) \<noteq> [] \<Longrightarrow> Q c (w\<lparr>cw_commands := cs\<rparr>)"
  shows "wp (create_command req) Q E w"
  unfolding create_command_def wp_on_commands
  by (rule wp_mono [OF memory_Create_wp]) (auto intro!: assms simp: world_commands_def)

end
