(* ===== verification/Backup_Store.thy ===== *)
theory Backup_Store
  imports Backups Command_Clients
begin

text \<open>
  What the backup service promises over every repository that keeps \<open>backup_contract\<close>, the tables of
  \<open>backend/migrations/000005_backup_service.sql\<close> beside the command service, sequences of calls, and
  the properties.
\<close>

section \<open>The contract\<close>

record backup_view =
  bv_runs :: "string \<Rightarrow> BackupRun option"
  bv_statuses :: "string \<Rightarrow> DeviceBackupStatus option"
  bv_commands :: "string \<Rightarrow> Command option"

text \<open>Every run is of a command of its own, for its device, and it is finished exactly when it has a
  terminal status.\<close>

definition run_ok :: "backup_view \<Rightarrow> string \<Rightarrow> BackupRun \<Rightarrow> bool" where
  "run_ok v i r \<longleftrightarrow> bkr_BackupID r = i \<and> bkr_DeviceID r \<noteq> [] \<and>
     (\<exists>c. bv_commands v (bkr_CommandID r) = Some c \<and> cmd_CommandType c = TypeTriggerBackup \<and>
        cmd_DeviceID c = bkr_DeviceID r) \<and>
     (if bkr_FinishedAt r = None then bkr_Status r = BackupRequested
      else bkr_Status r \<in> {BackupSucceeded, BackupFailed, BackupTimedOut, BackupCanceled})"

definition backups_inv :: "backup_view \<Rightarrow> bool" where
  "backups_inv v \<longleftrightarrow> (\<forall>i r. bv_runs v i = Some r \<longrightarrow> run_ok v i r) \<and>
     (\<forall>i j r q. bv_runs v i = Some r \<and> bv_runs v j = Some q \<and> bkr_CommandID r = bkr_CommandID q \<longrightarrow> i = j) \<and>
     (\<forall>d s. bv_statuses v d = Some s \<longrightarrow> bds_OverdueAfter s = None)"

text \<open>The three ways the view changes: a command, a run of a command no run has, and a finished run.\<close>

lemma run_ok_frame: "bv_commands v = bv_commands v' \<Longrightarrow> run_ok v i r = run_ok v' i r"
  by (simp add: run_ok_def)

lemma backups_inv_command:
  assumes "backups_inv v" and "bv_commands v k = None"
  shows "backups_inv (v\<lparr>bv_commands := (bv_commands v)(k \<mapsto> c)\<rparr>)"
proof -
  have "run_ok (v\<lparr>bv_commands := (bv_commands v)(k \<mapsto> c)\<rparr>) i r" if "run_ok v i r" for i r
    using that assms(2) by (fastforce simp: run_ok_def)
  then show ?thesis using assms(1) by (simp add: backups_inv_def)
qed

lemma backups_invD: "backups_inv v \<Longrightarrow> bv_statuses v d = Some s \<Longrightarrow> bds_OverdueAfter s = None"
  by (simp add: backups_inv_def)

lemma backups_inv_status:
  assumes "backups_inv v" and "\<And>d s. ss d = Some s \<Longrightarrow> bds_OverdueAfter s = None"
  shows "backups_inv (v\<lparr>bv_statuses := ss\<rparr>)"
proof -
  have "run_ok (v\<lparr>bv_statuses := ss\<rparr>) i r = run_ok v i r" for i r by (rule run_ok_frame) simp
  then show ?thesis using assms by (simp add: backups_inv_def)
qed

lemma written_statuses [simp]:
  "bds_OverdueAfter (requested_status r t) = None" "bds_OverdueAfter (finished_status r st t t') = None"
  by (simp_all add: requested_status_def finished_status_def)

lemma backups_inv_run:
  assumes "backups_inv v" and "run_ok v (bkr_BackupID r) r"
    and "\<And>i q. bv_runs v i = Some q \<Longrightarrow> bkr_CommandID q = bkr_CommandID r \<Longrightarrow> i = bkr_BackupID r"
  shows "backups_inv (v\<lparr>bv_runs := (bv_runs v)(bkr_BackupID r \<mapsto> r)\<rparr>)"
proof -
  let ?v = "v\<lparr>bv_runs := (bv_runs v)(bkr_BackupID r \<mapsto> r)\<rparr>"
  have "run_ok ?v i q" if "bv_runs ?v i = Some q" for i q
  proof -
    have "run_ok ?v i q = run_ok v i q" by (rule run_ok_frame) simp
    moreover have "\<forall>i r. bv_runs v i = Some r \<longrightarrow> run_ok v i r"
      using assms(1) unfolding backups_inv_def by blast
    ultimately show ?thesis using that assms(2) by (cases "i = bkr_BackupID r") simp_all
  qed
  moreover have "i = j" if "bv_runs ?v i = Some p" "bv_runs ?v j = Some q" "bkr_CommandID p = bkr_CommandID q" for i j p q
  proof -
    have "bv_runs v i = Some p \<Longrightarrow> bv_runs v j = Some q \<Longrightarrow> i = j"
      using assms(1) that(3) unfolding backups_inv_def by blast
    then show ?thesis using that assms(3) [of i p] assms(3) [of j q] by (auto split: if_splits)
  qed
  moreover have "\<forall>d s. bv_statuses ?v d = Some s \<longrightarrow> bds_OverdueAfter s = None"
    using assms(1) by (simp add: backups_inv_def)
  ultimately show ?thesis unfolding backups_inv_def by blast
qed

lemma new_backup_run_fields [simp]:
  "bkr_BackupID (new_backup_run req i k t) = i" "bkr_CommandID (new_backup_run req i k t) = k"
  "bkr_DeviceID (new_backup_run req i k t) = TrimSpace (tbr_DeviceID req)"
  "bkr_Status (new_backup_run req i k t) = BackupRequested" "bkr_FinishedAt (new_backup_run req i k t) = None"
  by (simp_all add: new_backup_run_def)

lemma backups_inv_new:
  assumes "backups_inv v" and "bv_commands v (cmd_CommandID c) = None"
    and "cmd_CommandType c = TypeTriggerBackup" and "cmd_DeviceID c = TrimSpace (tbr_DeviceID req)"
    and "TrimSpace (tbr_DeviceID req) \<noteq> []"
    and "\<forall>j q. bv_runs v j = Some q \<longrightarrow> bkr_CommandID q \<noteq> cmd_CommandID c"
  shows "backups_inv (v\<lparr>bv_commands := (bv_commands v)(cmd_CommandID c \<mapsto> c),
    bv_runs := (bv_runs v)(i \<mapsto> new_backup_run req i (cmd_CommandID c) t)\<rparr>)"
proof -
  let ?v = "v\<lparr>bv_commands := (bv_commands v)(cmd_CommandID c \<mapsto> c)\<rparr>"
  have "run_ok ?v i (new_backup_run req i (cmd_CommandID c) t)" using assms by (simp add: run_ok_def)
  then show ?thesis
    using backups_inv_run [OF backups_inv_command [OF assms(1,2), of c], of "new_backup_run req i (cmd_CommandID c) t"]
      assms(6) by simp
qed

lemma backup_statuses [simp]:
  "BackupSucceeded \<noteq> BackupFailed" "BackupSucceeded \<noteq> BackupTimedOut" "BackupSucceeded \<noteq> BackupCanceled"
  by (simp_all add: backup_names)

lemma command_result_status:
  "backupStatusFromCommandStatus st = Inr b \<Longrightarrow>
   b \<in> {BackupSucceeded, BackupFailed, BackupTimedOut, BackupCanceled}"
  by (auto simp: backupStatusFromCommandStatus.simps split: if_splits)

lemma finished_run_fields [simp]:
  "bkr_BackupID (finished_run r result st t) = bkr_BackupID r"
  "bkr_CommandID (finished_run r result st t) = bkr_CommandID r"
  "bkr_DeviceID (finished_run r result st t) = bkr_DeviceID r"
  "bkr_Status (finished_run r result st t) = st" "bkr_FinishedAt (finished_run r result st t) = Some t"
  by (simp_all add: finished_run_def)

lemma backups_inv_finished:
  assumes "backups_inv v" and "bv_runs v i = Some r" and "backupStatusFromCommandStatus st = Inr b"
  shows "backups_inv (v\<lparr>bv_runs := (bv_runs v)(bkr_BackupID r \<mapsto> finished_run r result b t)\<rparr>)"
proof -
  have ok: "run_ok v i r" using assms(1,2) by (simp add: backups_inv_def)
  have "run_ok v (bkr_BackupID r) (finished_run r result b t)"
    using ok command_result_status [OF assms(3)] by (auto simp: run_ok_def)
  moreover have "j = bkr_BackupID r" if "bv_runs v j = Some q" "bkr_CommandID q = bkr_CommandID r" for j q
    using assms(1,2) ok that unfolding backups_inv_def run_ok_def by metis
  ultimately show ?thesis using backups_inv_run [OF assms(1), of "finished_run r result b t"] by simp
qed

locale backup_contract =
  fixes svc :: "'w BackupService" and repo :: "'w BackupRepository"
    and create :: "CreateRequest \<Rightarrow> ('w, Command) op" and view :: "'w \<Rightarrow> backup_view"
  assumes wired: "bks_Repository svc = Some repo" "bks_CommandCreator svc = Some create"
    and create_law: "create req w = (rc, w') \<Longrightarrow>
      (case rc of Inl e \<Rightarrow> view w' = view w
       | Inr c \<Rightarrow> bv_commands (view w) (cmd_CommandID c) = None \<and>
           view w' = (view w)\<lparr>bv_commands := (bv_commands (view w))(cmd_CommandID c \<mapsto> c)\<rparr> \<and>
           cmd_CommandType c = cr_CommandType req \<and> cmd_DeviceID c = TrimSpace (cr_DeviceID req) \<and>
           cmd_Status c = StatusQueued)"
    and CreateRun_law: "bkp_CreateRun repo r w = (ru, w') \<Longrightarrow>
      (case ru of Inl e \<Rightarrow> view w' = view w
       | Inr u \<Rightarrow> bv_runs (view w) (bkr_BackupID r) = None \<and>
           (\<forall>i q. bv_runs (view w) i = Some q \<longrightarrow> bkr_CommandID q \<noteq> bkr_CommandID r) \<and>
           view w' = (view w)\<lparr>bv_runs := (bv_runs (view w))(bkr_BackupID r \<mapsto> r)\<rparr>)"
    and GetRun_law: "bkp_GetRunByCommandID repo k w = (rr, w') \<Longrightarrow> view w' = view w \<and>
      (case rr of Inl e \<Rightarrow> True | Inr r \<Rightarrow> bkr_CommandID r = k \<and> bv_runs (view w) (bkr_BackupID r) = Some r)"
    and SaveRun_law: "bkp_SaveRun repo r w = (ru, w') \<Longrightarrow>
      (case ru of Inl e \<Rightarrow> view w' = view w
       | Inr u \<Rightarrow> view w' = (view w)\<lparr>bv_runs := (bv_runs (view w))(bkr_BackupID r \<mapsto> r)\<rparr>)"
    and Upsert_law: "bkp_UpsertDeviceStatus repo d w = (ru, w') \<Longrightarrow>
      (case ru of Inl e \<Rightarrow> view w' = view w
       | Inr u \<Rightarrow> view w' = (view w)\<lparr>bv_statuses := (bv_statuses (view w))(bds_DeviceID d \<mapsto> d)\<rparr>)"
    and ID_law: "bks_IDGenerator svc = Some f \<Longrightarrow> f w = (i, w') \<Longrightarrow> view w' = view w"
    and Clock_law: "bks_Clock svc = Some g \<Longrightarrow> g w = (t, w') \<Longrightarrow> view w' = view w"
    and TimeNow_law: "bks_TimeNow svc w = (t, w') \<Longrightarrow> view w' = view w"
begin

lemma wp_create:
  assumes "\<And>e w'. view w' = view w \<Longrightarrow> E e w'"
    and "\<And>c w'. bv_commands (view w) (cmd_CommandID c) = None \<Longrightarrow>
      view w' = (view w)\<lparr>bv_commands := (bv_commands (view w))(cmd_CommandID c \<mapsto> c)\<rparr> \<Longrightarrow>
      cmd_CommandType c = cr_CommandType req \<Longrightarrow> cmd_DeviceID c = TrimSpace (cr_DeviceID req) \<Longrightarrow>
      cmd_Status c = StatusQueued \<Longrightarrow> Q c w'"
  shows "wp (create req) Q E w"
  by (rule wpI) (auto dest!: create_law intro: assms)

lemma wp_CreateRun:
  assumes "\<And>e w'. view w' = view w \<Longrightarrow> E e w'"
    and "\<And>w'. bv_runs (view w) (bkr_BackupID r) = None \<Longrightarrow>
      \<forall>i q. bv_runs (view w) i = Some q \<longrightarrow> bkr_CommandID q \<noteq> bkr_CommandID r \<Longrightarrow>
      view w' = (view w)\<lparr>bv_runs := (bv_runs (view w))(bkr_BackupID r \<mapsto> r)\<rparr> \<Longrightarrow> Q () w'"
  shows "wp (bkp_CreateRun repo r) Q E w"
  by (rule wpI) (auto dest!: CreateRun_law intro: assms)

lemma wp_GetRun:
  assumes "\<And>e w'. view w' = view w \<Longrightarrow> E e w'"
    and "\<And>r w'. view w' = view w \<Longrightarrow> bkr_CommandID r = k \<Longrightarrow> bv_runs (view w) (bkr_BackupID r) = Some r \<Longrightarrow> Q r w'"
  shows "wp (bkp_GetRunByCommandID repo k) Q E w"
  by (rule wpI) (auto dest!: GetRun_law intro: assms)

lemma wp_SaveRun:
  assumes "\<And>e w'. view w' = view w \<Longrightarrow> E e w'"
    and "\<And>w'. view w' = (view w)\<lparr>bv_runs := (bv_runs (view w))(bkr_BackupID r \<mapsto> r)\<rparr> \<Longrightarrow> Q () w'"
  shows "wp (bkp_SaveRun repo r) Q E w"
  by (rule wpI) (auto dest!: SaveRun_law intro: assms)

lemma wp_Upsert:
  assumes "\<And>e w'. view w' = view w \<Longrightarrow> E e w'"
    and "\<And>w'. view w' = (view w)\<lparr>bv_statuses := (bv_statuses (view w))(bds_DeviceID d \<mapsto> d)\<rparr> \<Longrightarrow> Q () w'"
  shows "wp (bkp_UpsertDeviceStatus repo d) Q E w"
  by (rule wpI) (auto dest!: Upsert_law intro: assms)

lemma wp_backups_now:
  assumes "\<And>t w'. view w' = view w \<Longrightarrow> Q t w'"
  shows "wp (backups_now svc) Q E w"
  by (auto simp: backups_now_def wp_simps split: prod.split option.split
      dest: Clock_law TimeNow_law intro!: assms)

lemma wp_newBackupID:
  assumes "\<And>f xs w'. view w' = view w \<Longrightarrow> E (Errorf f xs) w'"
    and "\<And>i w'. view w' = view w \<Longrightarrow> i \<noteq> [] \<Longrightarrow> Q i w'"
  shows "wp (newBackupID svc) Q E w"
  by (auto simp: newBackupID_def wp_simps split: prod.split option.split dest: ID_law intro!: assms)

lemmas wp_calls = wp_create wp_CreateRun wp_GetRun wp_SaveRun wp_Upsert wp_backups_now wp_newBackupID

lemma TriggerBackup_inv:
  assumes "backups_inv (view w)"
  shows "wp (TriggerBackup svc req) (\<lambda>_ w'. backups_inv (view w')) (\<lambda>_ w'. backups_inv (view w')) w"
  using assms unfolding TriggerBackup_def
  by (auto simp: wired wp_simps split: option.split intro!: wp_calls)
    (auto intro!: backups_inv_command backups_inv_new backups_inv_status dest: backups_invD
      simp: backup_command_request_def split: if_splits)

lemma RecordCommandResult_inv:
  assumes "backups_inv (view w)"
  shows "wp (backups_RecordCommandResult svc result)
    (\<lambda>_ w'. backups_inv (view w')) (\<lambda>_ w'. backups_inv (view w')) w"
  using assms unfolding backups_RecordCommandResult_def
  by (auto simp: wired wp_simps Let_def split: option.split sum.split intro!: wp_calls)
    (auto intro!: backups_inv_finished backups_inv_status dest: backups_invD split: if_splits)

text \<open>A run that could not be stored, and a result for a command without a run.\<close>

lemma TriggerBackup_unstored:
  "wp (TriggerBackup svc req) (\<lambda>_ _. True)
    (\<lambda>err w'. \<forall>e. err = Wrapf ''create backup run'' e \<longrightarrow>
       (\<exists>c. bv_commands (view w) (cmd_CommandID c) = None \<and> cmd_Status c = StatusQueued \<and>
          cmd_DeviceID c = TrimSpace (tbr_DeviceID req) \<and>
          view w' = (view w)\<lparr>bv_commands := (bv_commands (view w))(cmd_CommandID c \<mapsto> c)\<rparr>)) w"
  unfolding TriggerBackup_def
  by (auto simp: wired wp_simps split: option.split intro!: wp_calls)
    (auto simp: backup_command_request_def intro!: exI)

lemma RecordCommandResult_refused:
  assumes "\<And>i r. bv_runs (view w) i = Some r \<Longrightarrow> bkr_CommandID r \<noteq> TrimSpace (bcr_CommandID result)"
  shows "wp (backups_RecordCommandResult svc result) (\<lambda>_ _. False) (\<lambda>_ _. True) w"
  unfolding backups_RecordCommandResult_def
  by (auto simp: wired wp_simps dest: assms split: option.split intro!: wp_GetRun)

end

section \<open>Tables\<close>

text \<open>
  A table is the list of the rows written to it, the latest row of a key in front; \<open>current_run\<close> says
  that a row has not been replaced.
\<close>

record backup_store = command_world +
  bt_runs :: "BackupRun list"
  bt_statuses :: "string \<Rightarrow> DeviceBackupStatus option"

definition run_row :: "BackupRun list \<Rightarrow> string \<Rightarrow> BackupRun option" where
  "run_row rows i = find (\<lambda>r. bkr_BackupID r = i) rows"

definition current_run :: "BackupRun list \<Rightarrow> BackupRun \<Rightarrow> bool" where
  "current_run rows r \<longleftrightarrow> run_row rows (bkr_BackupID r) = Some r"

definition backup_constraint :: go_error where
  "backup_constraint = Errorf ''constraint violation'' []"

definition sql_CreateRun :: "BackupRun \<Rightarrow> (backup_store, unit) op" where
  "sql_CreateRun r w =
     (if run_row (bt_runs w) (bkr_BackupID r) \<noteq> None \<or> world_commands w (bkr_CommandID r) = None \<or>
         list_ex (\<lambda>q. current_run (bt_runs w) q \<and> bkr_CommandID q = bkr_CommandID r) (bt_runs w)
      then (Inl backup_constraint, w) else (Inr (), w\<lparr>bt_runs := r # bt_runs w\<rparr>))"

definition sql_GetRunByCommandID :: "string \<Rightarrow> (backup_store, BackupRun) op" where
  "sql_GetRunByCommandID k w =
     (case find (\<lambda>r. current_run (bt_runs w) r \<and> bkr_CommandID r = k) (bt_runs w) of
        None \<Rightarrow> (Inl (Errorf ''backup run not found'' []), w)
      | Some r \<Rightarrow> (Inr r, w))"

definition sql_SaveRun :: "BackupRun \<Rightarrow> (backup_store, unit) op" where
  "sql_SaveRun r w = (Inr (), w\<lparr>bt_runs := r # bt_runs w\<rparr>)"

definition sql_UpsertDeviceStatus :: "DeviceBackupStatus \<Rightarrow> (backup_store, unit) op" where
  "sql_UpsertDeviceStatus d w = (Inr (), w\<lparr>bt_statuses := (bt_statuses w)(bds_DeviceID d \<mapsto> d)\<rparr>)"

definition backup_repository :: "backup_store BackupRepository" where
  "backup_repository =
     \<lparr>bkp_CreateRun = (\<lambda>r. with_fault (sql_CreateRun r)),
      bkp_GetRunByCommandID = (\<lambda>k. with_fault (sql_GetRunByCommandID k)),
      bkp_SaveRun = (\<lambda>r. with_fault (sql_SaveRun r)),
      bkp_UpsertDeviceStatus = (\<lambda>d. with_fault (sql_UpsertDeviceStatus d))\<rparr>"

definition backup_service :: "backup_store BackupService" where
  "backup_service =
     \<lparr>bks_Repository = Some backup_repository, bks_CommandCreator = Some create_command,
      bks_IDGenerator = Some next_id, bks_Clock = Some read_clock, bks_TimeNow = read_clock\<rparr>"

definition tables_backups :: "backup_store \<Rightarrow> backup_view" where
  "tables_backups w = \<lparr>bv_runs = run_row (bt_runs w), bv_statuses = bt_statuses w, bv_commands = world_commands w\<rparr>"

lemma run_row_Cons: "run_row (r # rs) = (run_row rs)(bkr_BackupID r \<mapsto> r)"
  by (rule ext) (simp add: run_row_def)

lemma run_row_in: "run_row rows i = Some r \<Longrightarrow> r \<in> set rows \<and> bkr_BackupID r = i \<and> current_run rows r"
  by (auto simp: run_row_def current_run_def find_Some_iff)

lemma current_run_found:
  "find (\<lambda>r. current_run rows r \<and> bkr_CommandID r = k) rows = Some r \<Longrightarrow>
   bkr_CommandID r = k \<and> run_row rows (bkr_BackupID r) = Some r"
  by (auto simp: find_Some_iff current_run_def)

lemma free_command:
  "\<forall>q \<in> set rows. current_run rows q \<longrightarrow> bkr_CommandID q \<noteq> k \<Longrightarrow> run_row rows i = Some q \<Longrightarrow>
   bkr_CommandID q \<noteq> k"
  using run_row_in by blast

lemma tables_backups_fields [simp]:
  "bv_runs (tables_backups w) = run_row (bt_runs w)" "bv_statuses (tables_backups w) = bt_statuses w"
  "bv_commands (tables_backups w) = world_commands w"
  by (simp_all add: tables_backups_def)

lemma tables_backups_frame [simp]:
  "tables_backups (w\<lparr>env_faults := fs\<rparr>) = tables_backups w" "tables_backups (w\<lparr>env_ids := ids\<rparr>) = tables_backups w"
  "tables_backups (w\<lparr>env_clock := t, env_ticks := ts\<rparr>) = tables_backups w"
  "tables_backups (w\<lparr>bt_runs := rs\<rparr>) = (tables_backups w)\<lparr>bv_runs := run_row rs\<rparr>"
  "tables_backups (w\<lparr>bt_statuses := ss\<rparr>) = (tables_backups w)\<lparr>bv_statuses := ss\<rparr>"
  by (cases w, simp add: tables_backups_def world_commands_def)+

lemma tables_backups_commands:
  "tables_backups (w\<lparr>cw_commands := cs\<rparr>) = (tables_backups w)\<lparr>bv_commands := st_commands cs\<rparr>"
  by (simp add: tables_backups_def)

lemmas backup_repository_defs = backup_service_def backup_repository_def sql_CreateRun_def
  sql_GetRunByCommandID_def sql_SaveRun_def sql_UpsertDeviceStatus_def

lemma create_command_view:
  assumes "create_command req w = (rc, w')"
  shows "case rc of Inl e \<Rightarrow> tables_backups w' = tables_backups w
    | Inr c \<Rightarrow> bv_commands (tables_backups w) (cmd_CommandID c) = None \<and>
        tables_backups w' = (tables_backups w)\<lparr>bv_commands := (bv_commands (tables_backups w))(cmd_CommandID c \<mapsto> c)\<rparr> \<and>
        cmd_CommandType c = cr_CommandType req \<and> cmd_DeviceID c = TrimSpace (cr_DeviceID req) \<and>
        cmd_Status c = StatusQueued"
proof -
  have "wp (create_command req)
    (\<lambda>c w'. bv_commands (tables_backups w) (cmd_CommandID c) = None \<and>
        tables_backups w' = (tables_backups w)\<lparr>bv_commands := (bv_commands (tables_backups w))(cmd_CommandID c \<mapsto> c)\<rparr> \<and>
        cmd_CommandType c = cr_CommandType req \<and> cmd_DeviceID c = TrimSpace (cr_DeviceID req) \<and>
        cmd_Status c = StatusQueued)
    (\<lambda>_ w'. tables_backups w' = tables_backups w) w"
    by (rule wp_create_command) (simp_all add: tables_backups_commands)
  then show ?thesis using assms by (auto simp: wp_def split: sum.splits)
qed

interpretation backups: backup_contract backup_service backup_repository create_command tables_backups
proof (unfold_locales, goal_cases)
  case (3 req w rc w')
  then show ?case by (rule create_command_view)
qed (auto simp: backup_repository_defs with_fault_def read_clock_def next_id_def run_row_Cons
    list_ex_iff dest: free_command current_run_found split: list.splits if_splits option.splits)

section \<open>Sequences of calls\<close>

datatype backup_call = CallTrigger TriggerRequest | CallBackupResult BackupCommandResult

fun run_backup_call :: "backup_call \<Rightarrow> backup_store \<Rightarrow> backup_store" where
  "run_backup_call (CallTrigger r) w = snd (TriggerBackup backup_service r w)"
| "run_backup_call (CallBackupResult r) w = snd (backups_RecordCommandResult backup_service r w)"

fun run_backup_calls :: "backup_call list \<Rightarrow> backup_store \<Rightarrow> backup_store" where
  "run_backup_calls [] w = w"
| "run_backup_calls (c # cs) w = run_backup_calls cs (run_backup_call c w)"

lemma run_backup_calls_inv:
  "backups_inv (tables_backups w) \<Longrightarrow> backups_inv (tables_backups (run_backup_calls cs w))"
proof (induction cs arbitrary: w)
  case (Cons c cs)
  have "backups_inv (tables_backups (run_backup_call c w))"
    by (cases c) (simp_all add: wp_worldD [OF backups.TriggerBackup_inv [OF Cons.prems]]
        wp_worldD [OF backups.RecordCommandResult_inv [OF Cons.prems]])
  then show ?case by (simp add: Cons.IH)
qed simp

lemma empty_backups_inv: "bt_runs w = [] \<Longrightarrow> bt_statuses w = Map.empty \<Longrightarrow> backups_inv (tables_backups w)"
  by (simp add: backups_inv_def run_row_def)

section \<open>Properties\<close>

text \<open>C36: After any calls on empty tables, whichever fail, every backup run is of a stored backup command of
  its own device that no other run has, and it has a finish time exactly when its status is terminal.\<close>

theorem backup_runs_invariant:
  assumes "bt_runs w = []" and "bt_statuses w = Map.empty" and "w' = run_backup_calls cs w"
    and "run_row (bt_runs w') i = Some r"
  shows "(\<exists>c. world_commands w' (bkr_CommandID r) = Some c \<and> cmd_CommandType c = TypeTriggerBackup \<and>
      cmd_DeviceID c = bkr_DeviceID r) \<and>
    (\<forall>j q. run_row (bt_runs w') j = Some q \<and> bkr_CommandID q = bkr_CommandID r \<longrightarrow> j = i) \<and>
    (bkr_FinishedAt r = None \<longleftrightarrow> bkr_Status r = BackupRequested)"
proof -
  have inv: "backups_inv (tables_backups w')"
    using run_backup_calls_inv [OF empty_backups_inv [OF assms(1,2)]] assms(3) by simp
  then have "run_ok (tables_backups w') i r" using assms(4) by (simp add: backups_inv_def)
  moreover have "BackupRequested \<notin> {BackupSucceeded, BackupFailed, BackupTimedOut, BackupCanceled}"
    by (simp add: backup_names)
  moreover have "\<forall>j q. run_row (bt_runs w') j = Some q \<and> bkr_CommandID q = bkr_CommandID r \<longrightarrow> j = i"
    using inv assms(4) unfolding backups_inv_def tables_backups_fields by blast
  ultimately show ?thesis by (auto simp: run_ok_def split: if_splits)
qed

text \<open>When the run cannot be stored after its command was created, the command stays queued without a
  run: the device will make the backup, and every report of its result is refused.\<close>

theorem backup_command_orphaned:
  assumes "bt_runs w0 = []" and "bt_statuses w0 = Map.empty" and "w = run_backup_calls cs w0"
    and "TriggerBackup backup_service req w = (Inl (Wrapf ''create backup run'' e), w')"
  shows "\<exists>c. world_commands w' = (world_commands w)(cmd_CommandID c \<mapsto> c) \<and> cmd_Status c = StatusQueued \<and>
    cmd_DeviceID c = TrimSpace (tbr_DeviceID req) \<and>
    (\<forall>result. TrimSpace (bcr_CommandID result) = cmd_CommandID c \<longrightarrow>
       isl (fst (backups_RecordCommandResult backup_service result w')))"
proof -
  from wp_InlD [OF backups.TriggerBackup_unstored assms(4)] obtain c where
    c: "world_commands w (cmd_CommandID c) = None" "cmd_Status c = StatusQueued"
      "cmd_DeviceID c = TrimSpace (tbr_DeviceID req)"
      "tables_backups w' = (tables_backups w)\<lparr>bv_commands := (world_commands w)(cmd_CommandID c \<mapsto> c)\<rparr>"
    by auto
  have "backups_inv (tables_backups w)"
    using run_backup_calls_inv [OF empty_backups_inv [OF assms(1,2)]] assms(3) by simp
  then have "bkr_CommandID r \<noteq> cmd_CommandID c" if "bv_runs (tables_backups w') i = Some r" for i r
    using that c(1,4) by (fastforce simp: backups_inv_def run_ok_def)
  then have "isl (fst (backups_RecordCommandResult backup_service result w'))"
    if "TrimSpace (bcr_CommandID result) = cmd_CommandID c" for result
    using backups.RecordCommandResult_refused [of w' result] that
    by (auto simp: wp_def split: sum.splits prod.splits)
  moreover have "world_commands w' = (world_commands w)(cmd_CommandID c \<mapsto> c)"
    using arg_cong [OF c(4), of bv_commands] by simp
  ultimately show ?thesis using c(2,3) by blast
qed

text \<open>No call ever sets an overdue time: no device status of the service is overdue at any time.\<close>

theorem backups_never_overdue:
  assumes "bt_runs w = []" and "bt_statuses w = Map.empty"
    and "bt_statuses (run_backup_calls cs w) d = Some status"
  shows "\<not> IsOverdue status now"
proof -
  have "backups_inv (tables_backups (run_backup_calls cs w))"
    by (rule run_backup_calls_inv [OF empty_backups_inv [OF assms(1,2)]])
  then have "bds_OverdueAfter status = None" using assms(3) by (simp add: backups_inv_def)
  then show ?thesis by (simp add: IsOverdue_def)
qed

section \<open>Witnesses\<close>

definition demo_backups :: "bool list \<Rightarrow> backup_store" where
  "demo_backups faults = \<lparr>env_faults = faults, env_clock = Second, env_ticks = [], env_ids = [''b1'', ''b2''],
     cw_commands = demo_store, bt_runs = [], bt_statuses = Map.empty\<rparr>"

definition demo_trigger :: TriggerRequest where
  "demo_trigger = \<lparr>tbr_AccountID = ''acc'', tbr_SiteID = ''s'', tbr_DeviceID = ''d1'',
     tbr_RequestedByUserID = ''u'', tbr_IdempotencyKey = ''k'', tbr_Metadata = []\<rparr>"

definition demo_backup_result :: BackupCommandResult where
  "demo_backup_result = \<lparr>bcr_CommandID = ''c9'', bcr_Status = StatusSucceeded, bcr_ReasonCode = [],
     bcr_ArtifactUploadID = [], bcr_FinishedAt = 0\<rparr>"

lemma demo_backups_empty: "bt_runs (demo_backups fs) = []" "bt_statuses (demo_backups fs) = Map.empty"
  by (simp_all add: demo_backups_def)

lemma demo_backup_eval:
  "map_option (\<lambda>r. (bkr_CommandID r, bkr_Status r)) (run_row (bt_runs (run_backup_calls
     [CallTrigger demo_trigger, CallBackupResult demo_backup_result] (demo_backups []))) ''b1'') =
   Some (''c9'', BackupSucceeded)"
  "bt_statuses (run_backup_calls [CallTrigger demo_trigger, CallBackupResult demo_backup_result] (demo_backups [])) ''d1'' \<noteq> None"
  "fst (TriggerBackup backup_service demo_trigger (demo_backups [True])) =
   Inl (Wrapf ''create backup run'' injected_fault)"
  by code_simp+

theorem backup_runs_invariant_witness:
  "\<exists>(w :: backup_store) r c. run_row (bt_runs w) ''b1'' = Some r \<and> world_commands w (bkr_CommandID r) = Some c \<and>
     cmd_DeviceID c = bkr_DeviceID r"
proof -
  let ?w = "run_backup_calls [CallTrigger demo_trigger, CallBackupResult demo_backup_result] (demo_backups [])"
  from demo_backup_eval(1) obtain r where r: "run_row (bt_runs ?w) ''b1'' = Some r" by auto
  from backup_runs_invariant [OF demo_backups_empty refl r] r show ?thesis by blast
qed

theorem backup_command_orphaned_witness:
  "\<exists>w' c. TriggerBackup backup_service demo_trigger (demo_backups [True]) =
       (Inl (Wrapf ''create backup run'' injected_fault), w') \<and>
     world_commands w' (cmd_CommandID c) = Some c"
proof -
  from demo_backup_eval(3) obtain w' where w': "TriggerBackup backup_service demo_trigger (demo_backups [True]) =
      (Inl (Wrapf ''create backup run'' injected_fault), w')"
    by (cases "TriggerBackup backup_service demo_trigger (demo_backups [True])") auto
  have "demo_backups [True] = run_backup_calls [] (demo_backups [True])" by simp
  from backup_command_orphaned [OF demo_backups_empty this w'] w' show ?thesis by fastforce
qed

theorem backups_never_overdue_witness:
  "\<exists>(w :: backup_store) s. bt_statuses w ''d1'' = Some s \<and> \<not> IsOverdue s (365 * 24 * Hour)"
proof -
  let ?w = "run_backup_calls [CallTrigger demo_trigger, CallBackupResult demo_backup_result] (demo_backups [])"
  from demo_backup_eval(2) obtain s where s: "bt_statuses ?w ''d1'' = Some s" by auto
  from backups_never_overdue [OF demo_backups_empty s] s show ?thesis by blast
qed

end
