(* ===== verification/Artifact_Uploads.thy ===== *)
theory Artifact_Uploads
  imports Go_Time Go_Crypto_Url Agent_Artifacts
begin

text \<open>
  Upload slots for artifacts (\<open>backend/internal/domain/artifacts/service.go\<close>) and the signed upload URLs
  of the object store (\<open>backend/internal/platform/objectstore/s3_presign.go\<close>).

  A \<open>map[string]bool\<close> of content types is a list of pairs. The S3 presigner is a parameter.
\<close>

section \<open>Slots and purposes\<close>

type_synonym Purpose = string
type_synonym UploadStatus = string

definition PurposeErrorLogBundle :: Purpose where "PurposeErrorLogBundle = ''error_log_bundle''"
definition PurposeDiagnosticBundle :: Purpose where "PurposeDiagnosticBundle = ''diagnostic_bundle''"
definition PurposeDebugBundle :: Purpose where "PurposeDebugBundle = ''debug_bundle''"
definition PurposeBackupArtifact :: Purpose where "PurposeBackupArtifact = ''backup_artifact''"

definition StatusPendingUpload :: UploadStatus where "StatusPendingUpload = ''pending_upload''"

definition DefaultUploadMethod :: string where "DefaultUploadMethod = ''PUT''"

lemmas purpose_names = PurposeErrorLogBundle_def PurposeDiagnosticBundle_def PurposeDebugBundle_def
  PurposeBackupArtifact_def

record PurposeDefinition =
  pud_MaxSizeBytes :: int
  pud_DefaultURLTTL :: duration
  pud_AllowedContentType :: "(string \<times> bool) list"

record UploadSlot =
  slt_UploadID :: string
  slt_AccountID :: string
  slt_SiteID :: string
  slt_DeviceID :: string
  slt_CommandID :: string
  slt_Purpose :: Purpose
  slt_Status :: UploadStatus
  slt_RequestedBySubjectType :: string
  slt_RequestedBySubjectID :: string
  slt_ObjectBucket :: string
  slt_ObjectKey :: string
  slt_ContentType :: string
  slt_MaxSizeBytes :: int
  slt_ExpectedSizeBytes :: "int option"
  slt_ChecksumSHA256 :: string
  slt_LocalArtifactRef :: string
  slt_RedactionProfile :: string
  slt_Metadata :: string
  slt_ExpiresAt :: time
  slt_CreatedAt :: time
  slt_UpdatedAt :: time

record CreateUploadRequest =
  cur_AccountID :: string
  cur_SiteID :: string
  cur_DeviceID :: string
  cur_CommandID :: string
  cur_Purpose :: Purpose
  cur_RequestedBySubjectType :: string
  cur_RequestedBySubjectID :: string
  cur_ContentType :: string
  cur_ExpectedSizeBytes :: "int option"
  cur_ChecksumSHA256 :: string
  cur_LocalArtifactRef :: string
  cur_RedactionProfile :: string
  cur_Metadata :: string

record UploadURLRequest =
  uur_UploadID :: string
  uur_ObjectBucket :: string
  uur_ObjectKey :: string
  uur_Method :: string
  uur_ContentType :: string
  uur_MaxSizeBytes :: int
  uur_ExpiresAt :: time
  uur_ChecksumSHA256 :: string

record UploadCapability =
  ucp_UploadID :: string
  ucp_Method :: string
  ucp_URL :: string
  ucp_ExpiresAt :: time
  ucp_ContentType :: string
  ucp_MaxBytes :: int

record CreateUploadResponse =
  cus_Upload :: UploadSlot
  cus_Capability :: UploadCapability

record 'w ArtifactService =
  ars_Repository :: "(UploadSlot \<Rightarrow> ('w, unit) op) option"
  ars_Issuer :: "(UploadURLRequest \<Rightarrow> ('w, UploadCapability) op) option"
  ars_Purposes :: "(Purpose \<times> PurposeDefinition) list option"
  ars_Bucket :: string
  ars_IDGenerator :: "('w, string) effect option"
  ars_Clock :: "('w, time) effect option"
  ars_TimeNow :: "('w, time) effect"

definition contentTypes :: "string list \<Rightarrow> (string \<times> bool) list" where
  "contentTypes values = map (\<lambda>v. (v, True)) values"

definition DefaultPurposeRegistry :: "(Purpose \<times> PurposeDefinition) list" where
  "DefaultPurposeRegistry =
     [(PurposeErrorLogBundle,
       \<lparr>pud_MaxSizeBytes = 5 * 1024 * 1024, pud_DefaultURLTTL = 15 * Minute,
        pud_AllowedContentType = contentTypes [''application/json'', ''application/x-ndjson'', ''text/plain'',
          ''application/gzip'', ''application/zstd'']\<rparr>),
      (PurposeDiagnosticBundle,
       \<lparr>pud_MaxSizeBytes = 25 * 1024 * 1024, pud_DefaultURLTTL = 15 * Minute,
        pud_AllowedContentType = contentTypes [''application/json'', ''application/x-ndjson'', ''text/plain'',
          ''application/gzip'', ''application/zstd'', ''application/zip'']\<rparr>),
      (PurposeDebugBundle,
       \<lparr>pud_MaxSizeBytes = 25 * 1024 * 1024, pud_DefaultURLTTL = 15 * Minute,
        pud_AllowedContentType = contentTypes [''application/json'', ''application/x-ndjson'', ''text/plain'',
          ''application/gzip'', ''application/zstd'', ''application/zip'']\<rparr>),
      (PurposeBackupArtifact,
       \<lparr>pud_MaxSizeBytes = 250 * 1024 * 1024, pud_DefaultURLTTL = 15 * Minute,
        pud_AllowedContentType = contentTypes [''application/gzip'', ''application/octet-stream'',
          ''application/x-tar'', ''application/zip'']\<rparr>)]"

section \<open>Creating an upload\<close>

definition artifacts_now :: "'w ArtifactService \<Rightarrow> ('w, time) op" where
  "artifacts_now s = clock_now (ars_Clock s) (ars_TimeNow s)"

definition artifacts_definitionFor :: "'w ArtifactService \<Rightarrow> Purpose \<Rightarrow> go_error + PurposeDefinition" where
  "artifacts_definitionFor s purpose =
     (case map_of (case ars_Purposes s of None \<Rightarrow> DefaultPurposeRegistry | Some ps \<Rightarrow> ps) purpose of
        None \<Rightarrow> Inl (Errorf ''unsupported artifact purpose %q'' [purpose])
      | Some d \<Rightarrow>
          if pud_MaxSizeBytes d \<le> 0 then Inl (Errorf ''max size is required for purpose %q'' [purpose])
          else if pud_DefaultURLTTL d \<le> 0 then
            Inl (Errorf ''default URL TTL is required for purpose %q'' [purpose])
          else if pud_AllowedContentType d = [] then
            Inl (Errorf ''content type registry is required for purpose %q'' [purpose])
          else Inr d)"

definition path_separators :: string where
  "path_separators = [CHR ''/'', CHR 0x5C]"

definition newUploadID :: "'w ArtifactService \<Rightarrow> ('w, string) op" where
  "newUploadID s =
     bindE (required (ars_IDGenerator s) (Errorf ''upload id generator is required'' [])) (\<lambda>generate.
     bindE (liftE generate) (\<lambda>i.
     let uploadID = TrimSpace i in
     bindE (failIf (uploadID = []) (Errorf ''upload id is required'' [])) (\<lambda>_.
     bindE (failIf (ContainsAny uploadID path_separators)
              (Errorf ''upload id contains path separators'' [])) (\<lambda>_.
     ret uploadID))))"

definition cleanSegment :: "string \<Rightarrow> string" where
  "cleanSegment v = (if ContainsAny (TrimSpace v) path_separators then [] else TrimSpace v)"

definition artifacts_normalizeJSON :: "string \<Rightarrow> string" where
  "artifacts_normalizeJSON v = (if v = [] then ''{}'' else v)"

definition validateUploadSlot :: "UploadSlot \<Rightarrow> go_error option" where
  "validateUploadSlot slot = first_error
     [(slt_AccountID slot = [], Errorf ''account_id is required'' []),
      (slt_SiteID slot = [], Errorf ''site_id is required'' []),
      (slt_DeviceID slot = [], Errorf ''device_id is required'' []),
      (slt_ContentType slot = [], Errorf ''content_type is required'' []),
      (IsZero (slt_ExpiresAt slot) \<or> \<not> After (slt_ExpiresAt slot) (slt_CreatedAt slot),
       Errorf ''expires_at must be after created_at'' [])]"

text \<open>\<open>%04d\<close> and \<open>%02d\<close>: zeros up to the width, which counts the sign.\<close>

definition zero_padded :: "nat \<Rightarrow> int \<Rightarrow> string" where
  "zero_padded w n =
     (let sign = (if n < 0 then ''-'' else []); ds = Itoa (nat \<bar>n\<bar>) in
      sign @ replicate (w - length sign - length ds) (CHR ''0'') @ ds)"

definition buildObjectKey :: "UploadSlot \<Rightarrow> string" where
  "buildObjectKey slot =
     (case civil_of_days (UTC (slt_CreatedAt slot) div 1000000000 div 86400) of (year, month, day) \<Rightarrow>
      Join [''artifacts'', ''accounts'', slt_AccountID slot, ''sites'', slt_SiteID slot,
            ''devices'', slt_DeviceID slot, slt_Purpose slot,
            zero_padded 4 year, zero_padded 2 (int month), zero_padded 2 day, slt_UploadID slot] ''/'')"

definition expected_size_error :: "PurposeDefinition \<Rightarrow> int option \<Rightarrow> go_error option" where
  "expected_size_error d expected =
     (case expected of
        None \<Rightarrow> None
      | Some n \<Rightarrow> first_error
          [(n < 0, Errorf ''expected size cannot be negative'' []),
           (pud_MaxSizeBytes d < n, Errorf ''expected size exceeds purpose max'' [])])"

definition new_upload_slot ::
  "'w ArtifactService \<Rightarrow> CreateUploadRequest \<Rightarrow> PurposeDefinition \<Rightarrow> string \<Rightarrow> time \<Rightarrow> UploadSlot" where
  "new_upload_slot s req d uploadID now =
     \<lparr>slt_UploadID = uploadID, slt_AccountID = cleanSegment (cur_AccountID req),
      slt_SiteID = cleanSegment (cur_SiteID req), slt_DeviceID = cleanSegment (cur_DeviceID req),
      slt_CommandID = TrimSpace (cur_CommandID req), slt_Purpose = cur_Purpose req,
      slt_Status = StatusPendingUpload,
      slt_RequestedBySubjectType = TrimSpace (cur_RequestedBySubjectType req),
      slt_RequestedBySubjectID = TrimSpace (cur_RequestedBySubjectID req),
      slt_ObjectBucket = TrimSpace (ars_Bucket s), slt_ObjectKey = [],
      slt_ContentType = TrimSpace (cur_ContentType req), slt_MaxSizeBytes = pud_MaxSizeBytes d,
      slt_ExpectedSizeBytes = cur_ExpectedSizeBytes req,
      slt_ChecksumSHA256 = TrimSpace (cur_ChecksumSHA256 req),
      slt_LocalArtifactRef = TrimSpace (cur_LocalArtifactRef req),
      slt_RedactionProfile = TrimSpace (cur_RedactionProfile req),
      slt_Metadata = artifacts_normalizeJSON (cur_Metadata req),
      slt_ExpiresAt = now + pud_DefaultURLTTL d, slt_CreatedAt = now, slt_UpdatedAt = now\<rparr>"

definition upload_url_request :: "UploadSlot \<Rightarrow> UploadURLRequest" where
  "upload_url_request slot =
     \<lparr>uur_UploadID = slt_UploadID slot, uur_ObjectBucket = slt_ObjectBucket slot,
      uur_ObjectKey = slt_ObjectKey slot, uur_Method = DefaultUploadMethod,
      uur_ContentType = slt_ContentType slot, uur_MaxSizeBytes = slt_MaxSizeBytes slot,
      uur_ExpiresAt = slt_ExpiresAt slot, uur_ChecksumSHA256 = slt_ChecksumSHA256 slot\<rparr>"

definition CreateUpload :: "'w ArtifactService \<Rightarrow> CreateUploadRequest \<Rightarrow> ('w, CreateUploadResponse) op" where
  "CreateUpload s req =
     bindE (required (ars_Repository s) (Errorf ''artifact repository is required'' [])) (\<lambda>create.
     bindE (required (ars_Issuer s) (Errorf ''signed URL issuer is required'' [])) (\<lambda>issue.
     bindE (failIf (TrimSpace (ars_Bucket s) = []) (Errorf ''object bucket is required'' [])) (\<lambda>_.
     bindE (pureE (artifacts_definitionFor s (cur_Purpose req))) (\<lambda>definition.
     bindE (artifacts_now s) (\<lambda>now.
     bindE (newUploadID s) (\<lambda>uploadID.
     let contentType = TrimSpace (cur_ContentType req) in
     bindE (failIf (map_of (pud_AllowedContentType definition) contentType \<noteq> Some True)
              (Errorf ''unsupported content type %q for purpose %q'' [contentType, cur_Purpose req])) (\<lambda>_.
     bindE (check (expected_size_error definition (cur_ExpectedSizeBytes req))) (\<lambda>_.
     let metadata = artifacts_normalizeJSON (cur_Metadata req) in
     bindE (failIf (\<not> json_Valid metadata) (Errorf ''metadata must be valid JSON'' [])) (\<lambda>_.
     let slot0 = new_upload_slot s req definition uploadID now in
     bindE (check (validateUploadSlot slot0)) (\<lambda>_.
     let slot = slot0\<lparr>slt_ObjectKey := buildObjectKey slot0\<rparr> in
     bindE (wrapE ''create artifact upload slot'' (create slot)) (\<lambda>_.
     bindE (wrapE ''issue signed upload URL'' (issue (upload_url_request slot))) (\<lambda>capability.
     ret \<lparr>cus_Upload = slot, cus_Capability = capability\<rparr>))))))))))))"

section \<open>Signed URLs\<close>

definition DefaultMaxPresignTTL :: duration where
  "DefaultMaxPresignTTL = 30 * Minute"

record PutObjectPresignRequest =
  por_Bucket :: string
  por_Key :: string
  por_ContentType :: string
  por_ChecksumSHA256 :: string
  por_Expires :: duration

record PresignedRequest =
  prq_URL :: string
  prq_Method :: string

record 'w S3UploadURLIssuer =
  s3i_Presigner :: "(PutObjectPresignRequest \<Rightarrow> ('w, PresignedRequest) op) option"
  s3i_Clock :: "('w, time) effect option"
  s3i_TimeNow :: "('w, time) effect"
  s3i_MaxTTL :: duration

definition s3i_now :: "'w S3UploadURLIssuer \<Rightarrow> ('w, time) op" where
  "s3i_now i = clock_now (s3i_Clock i) (s3i_TimeNow i)"

definition s3i_maxTTL :: "'w S3UploadURLIssuer \<Rightarrow> duration" where
  "s3i_maxTTL i = (if 0 < s3i_MaxTTL i then s3i_MaxTTL i else DefaultMaxPresignTTL)"

definition validatePresignedURL :: "string \<Rightarrow> go_error option" where
  "validatePresignedURL rawURL =
     (case url_parse rawURL of
        None \<Rightarrow> Some (Errorf ''parse presigned URL: %w'' [])
      | Some (scheme, host) \<Rightarrow>
          if scheme \<noteq> ''https'' then Some (Errorf ''presigned URL must use https'' [])
          else if host = [] then Some (Errorf ''presigned URL host is required'' []) else None)"

definition IssueUploadURL :: "'w S3UploadURLIssuer \<Rightarrow> UploadURLRequest \<Rightarrow> ('w, UploadCapability) op" where
  "IssueUploadURL i req =
     bindE (required (s3i_Presigner i) (Errorf ''s3 presigner is required'' [])) (\<lambda>presign.
     bindE (failIf (TrimSpace (uur_Method req) \<noteq> DefaultUploadMethod)
              (Errorf ''unsupported object-store upload method %q'' [uur_Method req])) (\<lambda>_.
     bindE (s3i_now i) (\<lambda>now.
     bindE (failIf (IsZero (uur_ExpiresAt req) \<or> \<not> After (uur_ExpiresAt req) now)
              (Errorf ''upload URL expiry must be in the future'' [])) (\<lambda>_.
     let ttl = uur_ExpiresAt req - now in
     bindE (failIf (s3i_maxTTL i < ttl) (Errorf ''upload URL TTL exceeds %s'' [])) (\<lambda>_.
     bindE (wrapE ''presign put object''
       (presign \<lparr>por_Bucket = uur_ObjectBucket req, por_Key = uur_ObjectKey req,
                 por_ContentType = uur_ContentType req, por_ChecksumSHA256 = uur_ChecksumSHA256 req,
                 por_Expires = ttl\<rparr>)) (\<lambda>presigned.
     bindE (failIf (TrimSpace (prq_Method presigned) \<noteq> DefaultUploadMethod)
              (Errorf ''presigned method mismatch'' [])) (\<lambda>_.
     bindE (check (validatePresignedURL (prq_URL presigned))) (\<lambda>_.
     ret \<lparr>ucp_UploadID = uur_UploadID req, ucp_Method = DefaultUploadMethod, ucp_URL = prq_URL presigned,
          ucp_ExpiresAt = UTC (uur_ExpiresAt req), ucp_ContentType = uur_ContentType req,
          ucp_MaxBytes = uur_MaxSizeBytes req\<rparr>))))))))"

end
