(* ===== verification/Diagnostics.thy ===== *)
theory Diagnostics
  imports Commands Artifact_Uploads
begin

text \<open>
  Debug sessions and diagnostic bundles (\<open>backend/internal/domain/diagnostics/service.go\<close>).

  Marshalling the payload cannot fail; the members of a map are in the order of their names, and
  \<open>Format(time.RFC3339)\<close> drops the fraction of a second.
\<close>

section \<open>Data\<close>

type_synonym SessionStatus = string
type_synonym BundleStatus = string

definition DefaultDebugTTL :: duration where "DefaultDebugTTL = Hour"
definition MaxDebugTTL :: duration where "MaxDebugTTL = 24 * Hour"
definition DefaultMaxBytes :: int where "DefaultMaxBytes = 25 * 1024 * 1024"
definition DefaultRedaction :: string where "DefaultRedaction = ''default_v1''"
definition SessionStatusActive :: SessionStatus where "SessionStatusActive = ''active''"
definition BundleStatusRequested :: BundleStatus where "BundleStatusRequested = ''requested''"

record DiagnosticsActor =
  dga_Type :: string
  dga_ID :: string

record DebugSession =
  dbs_DebugSessionID :: string
  dbs_AccountID :: string
  dbs_SiteID :: string
  dbs_DeviceID :: string
  dbs_CommandID :: string
  dbs_Status :: SessionStatus
  dbs_RequestedBy :: DiagnosticsActor
  dbs_RedactionProfile :: string
  dbs_MaxBytes :: int
  dbs_Categories :: "string list"
  dbs_Metadata :: string
  dbs_StartedAt :: time
  dbs_ExpiresAt :: time
  dbs_EndedAt :: "time option"

record DiagnosticBundle =
  dgb_DiagnosticBundleID :: string
  dgb_AccountID :: string
  dgb_SiteID :: string
  dgb_DeviceID :: string
  dgb_DebugSessionID :: string
  dgb_CommandID :: string
  dgb_ArtifactUploadID :: string
  dgb_Status :: BundleStatus
  dgb_Purpose :: Purpose
  dgb_RedactionProfile :: string
  dgb_ReasonCode :: string
  dgb_Metadata :: string
  dgb_RequestedAt :: time
  dgb_CompletedAt :: "time option"

record StartDebugSessionRequest =
  sds_AccountID :: string
  sds_SiteID :: string
  sds_DeviceID :: string
  sds_RequestedBy :: DiagnosticsActor
  sds_TTL :: duration
  sds_RedactionProfile :: string
  sds_MaxBytes :: int
  sds_Categories :: "string list"
  sds_Metadata :: string

record CreateBundleRequest =
  cbu_AccountID :: string
  cbu_SiteID :: string
  cbu_DeviceID :: string
  cbu_DebugSessionID :: string
  cbu_CommandID :: string
  cbu_ArtifactUploadID :: string
  cbu_Purpose :: Purpose
  cbu_RedactionProfile :: string
  cbu_Metadata :: string

record DiagnosticsAuditEvent =
  dae_Actor :: DiagnosticsActor
  dae_Action :: string
  dae_AccountID :: string
  dae_SiteID :: string
  dae_DeviceID :: string
  dae_Metadata :: string
  dae_OccurredAt :: time

record 'w DiagnosticsRepository =
  dgr_CreateDebugSession :: "DebugSession \<Rightarrow> ('w, unit) op"
  dgr_CreateDiagnosticBundle :: "DiagnosticBundle \<Rightarrow> ('w, unit) op"

record 'w DiagnosticsService =
  dgs_Repository :: "'w DiagnosticsRepository option"
  dgs_CommandCreator :: "(CreateRequest \<Rightarrow> ('w, Command) op) option"
  dgs_AuditRecorder :: "(DiagnosticsAuditEvent \<Rightarrow> ('w, unit) op) option"
  dgs_SessionIDGenerator :: "('w, string) effect option"
  dgs_BundleIDGenerator :: "('w, string) effect option"
  dgs_Clock :: "('w, time) effect option"
  dgs_TimeNow :: "('w, time) effect"

section \<open>Operations\<close>

definition diagnostics_now :: "'w DiagnosticsService \<Rightarrow> ('w, time) op" where
  "diagnostics_now s = clock_now (dgs_Clock s) (dgs_TimeNow s)"

definition diagnostics_newID :: "('w, string) effect option \<Rightarrow> string \<Rightarrow> ('w, string) op" where
  "diagnostics_newID generator label =
     bindE (required generator (Errorf ''%s generator is required'' [label])) (\<lambda>generate.
     bindE (liftE generate) (\<lambda>i.
     bindE (failIf (TrimSpace i = []) (Errorf ''%s is required'' [label])) (\<lambda>_.
     ret (TrimSpace i))))"

definition isInternalActor :: "DiagnosticsActor \<Rightarrow> bool" where
  "isInternalActor actor =
     (TrimSpace (dga_Type actor) \<in> set [''internal'', ''support''] \<and> TrimSpace (dga_ID actor) \<noteq> [])"

fun categories_from :: "string list \<Rightarrow> string list \<Rightarrow> string list" where
  "categories_from seen [] = []"
| "categories_from seen (c # cs) =
     (let category = TrimSpace c in
      if category = [] \<or> category \<in> set seen then categories_from seen cs
      else category # categories_from (category # seen) cs)"

definition normalizeCategories :: "string list \<Rightarrow> string list" where
  "normalizeCategories categories = categories_from [] categories"

definition allowedBundlePurpose :: "Purpose \<Rightarrow> bool" where
  "allowedBundlePurpose purpose =
     (purpose \<in> set [PurposeDiagnosticBundle, PurposeDebugBundle, PurposeErrorLogBundle])"

definition diagnostics_normalizeJSON :: "string \<Rightarrow> string" where
  "diagnostics_normalizeJSON v = (if v = [] then ''{}'' else v)"

definition diagnostics_audit :: "'w DiagnosticsService \<Rightarrow> DiagnosticsAuditEvent \<Rightarrow> ('w, unit) op" where
  "diagnostics_audit s event =
     (case dgs_AuditRecorder s of
        None \<Rightarrow> ret ()
      | Some record_event \<Rightarrow> wrapE ''record diagnostics audit event'' (record_event event))"

definition array_text :: "string list \<Rightarrow> string" where
  "array_text values = ''['' @ Join values '','' @ '']''"

definition debug_payload :: "string \<Rightarrow> time \<Rightarrow> string \<Rightarrow> int \<Rightarrow> string list \<Rightarrow> string" where
  "debug_payload sessionID expiresAt profile maxBytes categories = object_text
     [(''categories'', array_text (map quote categories)),
      (''debug_session_id'', quote sessionID),
      (''expires_at'', quote (format_rfc3339 (expiresAt - expiresAt mod 1000000000))),
      (''max_bytes'', Itoa (nat maxBytes)),
      (''redaction_profile'', quote profile)]"

definition debug_categories :: "string list \<Rightarrow> string list" where
  "debug_categories categories =
     (if normalizeCategories categories = [] then [''app_runtime_status''] else normalizeCategories categories)"

text \<open>The session with the defaults filled in, or the first check that fails after the identifier.\<close>

definition new_debug_session ::
  "StartDebugSessionRequest \<Rightarrow> string \<Rightarrow> duration \<Rightarrow> time \<Rightarrow> go_error + DebugSession" where
  "new_debug_session req sessionID ttl now =
     (let redaction = (if TrimSpace (sds_RedactionProfile req) = [] then DefaultRedaction
            else TrimSpace (sds_RedactionProfile req));
          maxBytes = (if sds_MaxBytes req = 0 then DefaultMaxBytes else sds_MaxBytes req);
          categories = debug_categories (sds_Categories req);
          metadata = diagnostics_normalizeJSON (sds_Metadata req) in
      case first_error
        [(TrimSpace (sds_AccountID req) = [] \<or> TrimSpace (sds_SiteID req) = [] \<or> TrimSpace (sds_DeviceID req) = [],
          Errorf ''account_id, site_id, and device_id are required'' []),
         (maxBytes < 0 \<or> DefaultMaxBytes < maxBytes, Errorf ''debug session max bytes exceeds default limit'' []),
         (\<not> json_Valid metadata, Errorf ''metadata must be valid JSON'' [])] of
        Some e \<Rightarrow> Inl e
      | None \<Rightarrow> Inr
          \<lparr>dbs_DebugSessionID = sessionID, dbs_AccountID = TrimSpace (sds_AccountID req),
           dbs_SiteID = TrimSpace (sds_SiteID req), dbs_DeviceID = TrimSpace (sds_DeviceID req),
           dbs_CommandID = [], dbs_Status = SessionStatusActive, dbs_RequestedBy = sds_RequestedBy req,
           dbs_RedactionProfile = redaction, dbs_MaxBytes = maxBytes, dbs_Categories = categories,
           dbs_Metadata = metadata, dbs_StartedAt = now, dbs_ExpiresAt = now + ttl, dbs_EndedAt = None\<rparr>)"

definition debug_command_request :: "DebugSession \<Rightarrow> CreateRequest" where
  "debug_command_request d =
     \<lparr>cr_CommandID = [], cr_AccountID = dbs_AccountID d, cr_SiteID = dbs_SiteID d, cr_DeviceID = dbs_DeviceID d,
      cr_CommandType = TypeEnableDebugCapture, cr_IdempotencyKey = [], cr_RequestedByUserID = [],
      cr_Payload = debug_payload (dbs_DebugSessionID d) (dbs_ExpiresAt d) (dbs_RedactionProfile d)
        (dbs_MaxBytes d) (dbs_Categories d)\<rparr>"

text \<open>\<open>%q\<close>: a Go string literal. Bytes from 0x80 on are kept, as they are for printable runes.\<close>

definition go_quote_char :: "char \<Rightarrow> string" where
  "go_quote_char c =
     (if c = CHR 0x22 \<or> c = CHR 0x5C then [CHR 0x5C, c]
      else case map_of [(7, CHR ''a''), (8, CHR ''b''), (9, CHR ''t''), (10, CHR ''n''), (11, CHR ''v''),
             (12, CHR ''f''), (13, CHR ''r'')] (byte c) of
        Some e \<Rightarrow> [CHR 0x5C, e]
      | None \<Rightarrow> if byte c < 32 \<or> byte c = 127
                then [CHR 0x5C, CHR ''x'', hex_digit (byte c div 16), hex_digit (byte c mod 16)] else [c])"

definition go_quote :: "string \<Rightarrow> string" where
  "go_quote s = [CHR 0x22] @ concat (map go_quote_char s) @ [CHR 0x22]"

definition debug_audit :: "DebugSession \<Rightarrow> time \<Rightarrow> DiagnosticsAuditEvent" where
  "debug_audit d now =
     \<lparr>dae_Actor = dbs_RequestedBy d, dae_Action = ''debug_session.start'', dae_AccountID = dbs_AccountID d,
      dae_SiteID = dbs_SiteID d, dae_DeviceID = dbs_DeviceID d,
      dae_Metadata = object_text [(''debug_session_id'', go_quote (dbs_DebugSessionID d)),
        (''command_id'', go_quote (dbs_CommandID d))],
      dae_OccurredAt = now\<rparr>"

text \<open>Everything up to the created command, then the stored session and its audit event.\<close>

definition start_debug_command ::
  "'w DiagnosticsService \<Rightarrow> (CreateRequest \<Rightarrow> ('w, Command) op) \<Rightarrow> StartDebugSessionRequest \<Rightarrow>
   ('w, DebugSession \<times> Command \<times> time) op" where
  "start_debug_command s create req =
     bindE (failIf (\<not> isInternalActor (sds_RequestedBy req))
              (Errorf ''debug sessions are internal/support only'' [])) (\<lambda>_.
     bindE (diagnostics_now s) (\<lambda>now.
     let ttl = (if sds_TTL req = 0 then DefaultDebugTTL else sds_TTL req) in
     bindE (failIf (ttl < 0 \<or> MaxDebugTTL < ttl)
              (Errorf ''debug session TTL must be between 0 and %s'' [])) (\<lambda>_.
     bindE (diagnostics_newID (dgs_SessionIDGenerator s) ''debug session id'') (\<lambda>sessionID.
     bindE (pureE (new_debug_session req sessionID ttl now)) (\<lambda>session.
     bindE (wrapE ''create debug command'' (create (debug_command_request session))) (\<lambda>command.
     ret (session\<lparr>dbs_CommandID := cmd_CommandID command\<rparr>, command, now)))))))"

definition StartDebugSession ::
  "'w DiagnosticsService \<Rightarrow> StartDebugSessionRequest \<Rightarrow> ('w, DebugSession \<times> Command) op" where
  "StartDebugSession s req =
     bindE (required (dgs_Repository s) (Errorf ''diagnostics repository is required'' [])) (\<lambda>repo.
     bindE (required (dgs_CommandCreator s) (Errorf ''command creator is required'' [])) (\<lambda>create.
     bindE (start_debug_command s create req) (\<lambda>(session, command, now).
     bindE (wrapE ''create debug session'' (dgr_CreateDebugSession repo session)) (\<lambda>_.
     bindE (diagnostics_audit s (debug_audit session now)) (\<lambda>_.
     ret (session, command))))))"

definition CreateDiagnosticBundle ::
  "'w DiagnosticsService \<Rightarrow> CreateBundleRequest \<Rightarrow> ('w, DiagnosticBundle) op" where
  "CreateDiagnosticBundle s req =
     bindE (required (dgs_Repository s) (Errorf ''diagnostics repository is required'' [])) (\<lambda>repo.
     bindE (diagnostics_newID (dgs_BundleIDGenerator s) ''diagnostic bundle id'') (\<lambda>bundleID.
     let metadata = diagnostics_normalizeJSON (cbu_Metadata req) in
     bindE (check (first_error
       [(TrimSpace (cbu_AccountID req) = [] \<or> TrimSpace (cbu_SiteID req) = [] \<or> TrimSpace (cbu_DeviceID req) = [],
         Errorf ''account_id, site_id, and device_id are required'' []),
        (TrimSpace (cbu_CommandID req) = [] \<or> TrimSpace (cbu_ArtifactUploadID req) = [],
         Errorf ''command_id and artifact_upload_id are required'' []),
        (\<not> allowedBundlePurpose (cbu_Purpose req),
         Errorf ''unsupported diagnostic bundle purpose %q'' [cbu_Purpose req]),
        (\<not> json_Valid metadata, Errorf ''metadata must be valid JSON'' [])])) (\<lambda>_.
     bindE (diagnostics_now s) (\<lambda>now.
     let bundle = \<lparr>dgb_DiagnosticBundleID = bundleID, dgb_AccountID = TrimSpace (cbu_AccountID req),
           dgb_SiteID = TrimSpace (cbu_SiteID req), dgb_DeviceID = TrimSpace (cbu_DeviceID req),
           dgb_DebugSessionID = TrimSpace (cbu_DebugSessionID req),
           dgb_CommandID = TrimSpace (cbu_CommandID req),
           dgb_ArtifactUploadID = TrimSpace (cbu_ArtifactUploadID req),
           dgb_Status = BundleStatusRequested, dgb_Purpose = cbu_Purpose req,
           dgb_RedactionProfile = (if TrimSpace (cbu_RedactionProfile req) = [] then DefaultRedaction
             else TrimSpace (cbu_RedactionProfile req)),
           dgb_ReasonCode = [], dgb_Metadata = metadata, dgb_RequestedAt = now, dgb_CompletedAt = None\<rparr> in
     bindE (wrapE ''create diagnostic bundle'' (dgr_CreateDiagnosticBundle repo bundle)) (\<lambda>_.
     ret bundle)))))"

end
