(* ===== verification/Diagnostics_Store.thy ===== *)
theory Diagnostics_Store
  imports Diagnostics Command_Clients
begin

text \<open>
  What the diagnostics service promises over every repository that keeps \<open>diagnostics_contract\<close>, the
  tables of \<open>backend/migrations/000006_diagnostics_debug.sql\<close> beside the command service, and the
  properties.
\<close>

section \<open>Sessions\<close>

text \<open>A debug session is short, small, of an internal actor, and says what it collects.\<close>

definition session_bounded :: "DebugSession \<Rightarrow> bool" where
  "session_bounded d \<longleftrightarrow> isInternalActor (dbs_RequestedBy d) \<and> dbs_DeviceID d \<noteq> [] \<and>
     dbs_StartedAt d < dbs_ExpiresAt d \<and> dbs_ExpiresAt d \<le> dbs_StartedAt d + 24 * Hour \<and>
     0 < dbs_MaxBytes d \<and> dbs_MaxBytes d \<le> 25 * 1024 * 1024 \<and>
     dbs_Categories d \<noteq> [] \<and> distinct (dbs_Categories d) \<and>
     (\<forall>c \<in> set (dbs_Categories d). c \<noteq> [] \<and> TrimSpace c = c) \<and> json_Valid (dbs_Metadata d)"

lemma categories_from_props:
  "distinct (categories_from seen cs) \<and>
   (\<forall>c \<in> set (categories_from seen cs). c \<notin> set seen \<and> c \<noteq> [] \<and> TrimSpace c = c)"
proof (induction cs arbitrary: seen)
  case (Cons c cs)
  show ?case using Cons.IH [of seen] Cons.IH [of "TrimSpace c # seen"] by (simp add: Let_def) blast
qed simp

lemma debug_categories_ok:
  "debug_categories cs \<noteq> [] \<and> distinct (debug_categories cs) \<and>
   (\<forall>c \<in> set (debug_categories cs). c \<noteq> [] \<and> TrimSpace c = c)"
proof -
  have "TrimSpace ''app_runtime_status'' = ''app_runtime_status''" by code_simp
  then show ?thesis using categories_from_props [of "[]" cs]
    by (simp add: debug_categories_def normalizeCategories_def)
qed

lemma new_debug_session_fields:
  assumes "new_debug_session req i ttl now = Inr d"
  shows "dbs_RequestedBy d = sds_RequestedBy req" "dbs_DeviceID d = TrimSpace (sds_DeviceID req)"
    "dbs_StartedAt d = now" "dbs_ExpiresAt d = now + ttl" "dbs_Categories d = debug_categories (sds_Categories req)"
    "dbs_MaxBytes d = (if sds_MaxBytes req = 0 then DefaultMaxBytes else sds_MaxBytes req)"
    "dbs_Metadata d = diagnostics_normalizeJSON (sds_Metadata req)"
  using assms by (simp_all add: new_debug_session_def Let_def split: option.splits) auto

lemma new_debug_session_checks:
  assumes "new_debug_session req i ttl now = Inr d"
  shows "dbs_DeviceID d \<noteq> [] \<and> 0 \<le> dbs_MaxBytes d \<and> dbs_MaxBytes d \<le> DefaultMaxBytes \<and> json_Valid (dbs_Metadata d)"
proof -
  have "dbs_DeviceID d \<noteq> []" "\<not> (dbs_MaxBytes d < 0 \<or> DefaultMaxBytes < dbs_MaxBytes d)" "json_Valid (dbs_Metadata d)"
    unfolding new_debug_session_fields [OF assms]
    using assms by (simp_all add: new_debug_session_def Let_def split: if_splits)
  then show ?thesis by linarith
qed

lemma new_debug_session_bounded:
  assumes d: "new_debug_session req i ttl now = Inr d" and "isInternalActor (sds_RequestedBy req)"
    and "0 < ttl" and "ttl \<le> 24 * Hour"
  shows "session_bounded d"
proof -
  have "0 < dbs_MaxBytes d \<and> dbs_MaxBytes d \<le> 25 * 1024 * 1024"
    using new_debug_session_checks [OF d] new_debug_session_fields(6) [OF d]
    by (auto simp: DefaultMaxBytes_def split: if_splits)
  then show ?thesis
    using assms(2-4) new_debug_session_checks [OF d] debug_categories_ok [of "sds_Categories req"]
    by (simp add: session_bounded_def new_debug_session_fields [OF d])
qed

lemma session_bounded_command [simp]: "session_bounded (d\<lparr>dbs_CommandID := i\<rparr>) = session_bounded d"
  by (simp add: session_bounded_def)

lemma new_debug_session_request:
  assumes "new_debug_session req i ttl now = Inr d"
  shows "cr_CommandType (debug_command_request d) = TypeEnableDebugCapture"
    "TrimSpace (cr_DeviceID (debug_command_request d)) = dbs_DeviceID d"
  by (simp_all add: debug_command_request_def new_debug_session_fields [OF assms])

section \<open>The contract\<close>

locale diagnostics_contract =
  fixes svc :: "'w DiagnosticsService" and repo :: "'w DiagnosticsRepository"
    and create :: "CreateRequest \<Rightarrow> ('w, Command) op"
    and sessions :: "'w \<Rightarrow> DebugSession list" and commands :: "'w \<Rightarrow> string \<Rightarrow> Command option"
  assumes wired: "dgs_Repository svc = Some repo" "dgs_CommandCreator svc = Some create"
    and create_law: "create req w = (rc, w') \<Longrightarrow> sessions w' = sessions w \<and>
      (case rc of Inl e \<Rightarrow> commands w' = commands w
       | Inr c \<Rightarrow> commands w (cmd_CommandID c) = None \<and> cmd_Status c = StatusQueued \<and>
           commands w' = (commands w)(cmd_CommandID c \<mapsto> c) \<and>
           cmd_CommandType c = cr_CommandType req \<and> cmd_DeviceID c = TrimSpace (cr_DeviceID req))"
    and CreateDebugSession_law: "dgr_CreateDebugSession repo d w = (ru, w') \<Longrightarrow> commands w' = commands w \<and>
      (case ru of Inl e \<Rightarrow> sessions w' = sessions w | Inr u \<Rightarrow> sessions w' = sessions w @ [d])"
    and audit_law: "dgs_AuditRecorder svc = Some rec \<Longrightarrow> rec ev w = (ru, w') \<Longrightarrow>
      sessions w' = sessions w \<and> commands w' = commands w"
    and ID_law: "dgs_SessionIDGenerator svc = Some f \<Longrightarrow> f w = (i, w') \<Longrightarrow>
      sessions w' = sessions w \<and> commands w' = commands w"
    and Clock_law: "dgs_Clock svc = Some g \<Longrightarrow> g w = (t, w') \<Longrightarrow>
      sessions w' = sessions w \<and> commands w' = commands w"
    and TimeNow_law: "dgs_TimeNow svc w = (t, w') \<Longrightarrow> sessions w' = sessions w \<and> commands w' = commands w"
begin

lemma wp_create:
  assumes "\<And>e w'. sessions w' = sessions w \<Longrightarrow> commands w' = commands w \<Longrightarrow> E e w'"
    and "\<And>c w'. sessions w' = sessions w \<Longrightarrow> commands w (cmd_CommandID c) = None \<Longrightarrow>
      cmd_Status c = StatusQueued \<Longrightarrow> commands w' = (commands w)(cmd_CommandID c \<mapsto> c) \<Longrightarrow>
      cmd_CommandType c = cr_CommandType req \<Longrightarrow> cmd_DeviceID c = TrimSpace (cr_DeviceID req) \<Longrightarrow> Q c w'"
  shows "wp (create req) Q E w"
  by (rule wpI) (auto dest!: create_law intro: assms)

lemma wp_CreateDebugSession:
  assumes "\<And>e w'. sessions w' = sessions w \<Longrightarrow> commands w' = commands w \<Longrightarrow> E e w'"
    and "\<And>w'. sessions w' = sessions w @ [d] \<Longrightarrow> commands w' = commands w \<Longrightarrow> Q () w'"
  shows "wp (dgr_CreateDebugSession repo d) Q E w"
  by (rule wpI) (auto dest!: CreateDebugSession_law intro: assms)

lemma wp_audit:
  assumes "\<And>e w'. sessions w' = sessions w \<Longrightarrow> commands w' = commands w \<Longrightarrow> E e w'"
    and "\<And>w'. sessions w' = sessions w \<Longrightarrow> commands w' = commands w \<Longrightarrow> Q () w'"
  shows "wp (diagnostics_audit svc ev) Q E w"
proof (cases "dgs_AuditRecorder svc")
  case (Some rec)
  have "wp (rec ev) Q (\<lambda>e. E (Wrapf ''record diagnostics audit event'' e)) w"
    by (rule wpI) (auto dest!: audit_law [OF Some] intro: assms)
  with Some show ?thesis by (simp add: diagnostics_audit_def wp_simps)
qed (simp add: diagnostics_audit_def wp_simps assms(2))

lemma wp_diagnostics_now:
  assumes "\<And>t w'. sessions w' = sessions w \<Longrightarrow> commands w' = commands w \<Longrightarrow> Q t w'"
  shows "wp (diagnostics_now svc) Q E w"
  by (auto simp: diagnostics_now_def wp_simps split: prod.split option.split
      dest: Clock_law TimeNow_law intro!: assms)

lemma wp_session_id:
  assumes "\<And>e w'. sessions w' = sessions w \<Longrightarrow> commands w' = commands w \<Longrightarrow> E e w'"
    and "\<And>i w'. sessions w' = sessions w \<Longrightarrow> commands w' = commands w \<Longrightarrow> i \<noteq> [] \<Longrightarrow> Q i w'"
  shows "wp (diagnostics_newID (dgs_SessionIDGenerator svc) label) Q E w"
  by (auto simp: diagnostics_newID_def wp_simps split: prod.split option.split dest: ID_law intro!: assms)

lemma start_debug_command_post:
  "wp (start_debug_command svc create req)
    (\<lambda>(d, c, now) w'. sessions w' = sessions w \<and> session_bounded d \<and>
       dbs_CommandID d = cmd_CommandID c \<and> commands w (cmd_CommandID c) = None \<and>
       cmd_Status c = StatusQueued \<and> commands w' = (commands w)(cmd_CommandID c \<mapsto> c) \<and>
       cmd_CommandType c = TypeEnableDebugCapture \<and> cmd_DeviceID c = dbs_DeviceID d)
    (\<lambda>_ w'. True) w"
  unfolding start_debug_command_def
  by (auto simp: wp_simps Let_def split: option.split sum.split
      intro!: wp_create wp_diagnostics_now wp_session_id)
    (auto simp: new_debug_session_request DefaultDebugTTL_def MaxDebugTTL_def duration_defs
      intro!: new_debug_session_bounded)

lemma StartDebugSession_post:
  "wp (StartDebugSession svc req)
    (\<lambda>(d, c) w'. sessions w' = sessions w @ [d] \<and> session_bounded d \<and>
       dbs_CommandID d = cmd_CommandID c \<and> commands w (cmd_CommandID c) = None \<and>
       cmd_Status c = StatusQueued \<and> commands w' = (commands w)(cmd_CommandID c \<mapsto> c) \<and>
       cmd_CommandType c = TypeEnableDebugCapture \<and> cmd_DeviceID c = dbs_DeviceID d)
    (\<lambda>_ w'. True) w"
  unfolding StartDebugSession_def
  by (auto simp: wired wp_simps intro!: wp_mono [OF start_debug_command_post] wp_CreateDebugSession wp_audit)

end

section \<open>Tables\<close>

record diagnostics_store = command_world +
  dt_sessions :: "DebugSession list"
  dt_bundles :: "DiagnosticBundle list"
  dt_events :: "DiagnosticsAuditEvent list"

definition diagnostics_constraint :: go_error where
  "diagnostics_constraint = Errorf ''constraint violation'' []"

definition sql_CreateDebugSession :: "DebugSession \<Rightarrow> (diagnostics_store, unit) op" where
  "sql_CreateDebugSession d w =
     (if list_ex (\<lambda>e. dbs_DebugSessionID e = dbs_DebugSessionID d) (dt_sessions w) \<or>
         world_commands w (dbs_CommandID d) = None \<or>
         dga_Type (dbs_RequestedBy d) \<notin> set [''internal'', ''support''] \<or>
         dbs_MaxBytes d \<le> 0 \<or> dbs_ExpiresAt d \<le> dbs_StartedAt d
      then (Inl diagnostics_constraint, w) else (Inr (), w\<lparr>dt_sessions := dt_sessions w @ [d]\<rparr>))"

definition sql_CreateDiagnosticBundle :: "DiagnosticBundle \<Rightarrow> (diagnostics_store, unit) op" where
  "sql_CreateDiagnosticBundle b w =
     (if list_ex (\<lambda>e. dgb_DiagnosticBundleID e = dgb_DiagnosticBundleID b) (dt_bundles w) \<or>
         world_commands w (dgb_CommandID b) = None \<or> \<not> allowedBundlePurpose (dgb_Purpose b)
      then (Inl diagnostics_constraint, w) else (Inr (), w\<lparr>dt_bundles := dt_bundles w @ [b]\<rparr>))"

definition diagnostics_repository :: "diagnostics_store DiagnosticsRepository" where
  "diagnostics_repository =
     \<lparr>dgr_CreateDebugSession = (\<lambda>d. with_fault (sql_CreateDebugSession d)),
      dgr_CreateDiagnosticBundle = (\<lambda>b. with_fault (sql_CreateDiagnosticBundle b))\<rparr>"

definition diagnostics_service :: "diagnostics_store DiagnosticsService" where
  "diagnostics_service =
     \<lparr>dgs_Repository = Some diagnostics_repository, dgs_CommandCreator = Some create_command,
      dgs_AuditRecorder = Some (\<lambda>e. with_fault (\<lambda>w. (Inr (), w\<lparr>dt_events := dt_events w @ [e]\<rparr>))),
      dgs_SessionIDGenerator = Some next_id, dgs_BundleIDGenerator = Some next_id,
      dgs_Clock = Some read_clock, dgs_TimeNow = read_clock\<rparr>"

lemma diagnostics_frame [simp]:
  "world_commands (w\<lparr>dt_sessions := ss\<rparr>) = world_commands w" "world_commands (w\<lparr>dt_events := es\<rparr>) = world_commands w"
  "world_commands (w\<lparr>env_clock := t, env_ticks := ts\<rparr>) = world_commands w"
  "dt_sessions (w\<lparr>cw_commands := cs\<rparr>) = dt_sessions w"
  by (cases w, simp add: world_commands_def)+

lemma create_command_sessions:
  assumes "create_command req w = (rc, w')"
  shows "dt_sessions w' = dt_sessions w \<and>
    (case rc of Inl e \<Rightarrow> world_commands w' = world_commands w
     | Inr c \<Rightarrow> world_commands w (cmd_CommandID c) = None \<and> cmd_Status c = StatusQueued \<and>
         world_commands w' = (world_commands w)(cmd_CommandID c \<mapsto> c) \<and>
         cmd_CommandType c = cr_CommandType req \<and> cmd_DeviceID c = TrimSpace (cr_DeviceID req))"
proof -
  have "wp (create_command req)
    (\<lambda>c w'. dt_sessions w' = dt_sessions w \<and> world_commands w (cmd_CommandID c) = None \<and>
       cmd_Status c = StatusQueued \<and> world_commands w' = (world_commands w)(cmd_CommandID c \<mapsto> c) \<and>
       cmd_CommandType c = cr_CommandType req \<and> cmd_DeviceID c = TrimSpace (cr_DeviceID req))
    (\<lambda>_ w'. dt_sessions w' = dt_sessions w \<and> world_commands w' = world_commands w) w"
    by (rule wp_create_command) simp_all
  then show ?thesis using assms by (auto simp: wp_def split: sum.splits)
qed

lemmas diagnostics_repository_defs = diagnostics_service_def diagnostics_repository_def
  sql_CreateDebugSession_def sql_CreateDiagnosticBundle_def

interpretation diagnostics: diagnostics_contract diagnostics_service diagnostics_repository create_command
  dt_sessions world_commands
proof (unfold_locales, goal_cases)
  case (3 req w rc w')
  then show ?case by (rule create_command_sessions)
qed (auto simp: diagnostics_repository_defs with_fault_def read_clock_def next_id_def
    split: list.splits if_splits option.splits)

section \<open>Properties\<close>

text \<open>C37: A debug session that is started is stored with its command, is of an internal actor, ends within a
  day, collects at most 25 MB and says what; its command has an id that no command had, is queued, is
  stored under that id and is for the same device.\<close>

theorem started_debug_session:
  assumes "StartDebugSession diagnostics_service req w = (Inr (d, c), w')"
  shows "dt_sessions w' = dt_sessions w @ [d] \<and> session_bounded d \<and> dbs_CommandID d = cmd_CommandID c \<and>
    world_commands w (cmd_CommandID c) = None \<and> cmd_Status c = StatusQueued \<and>
    world_commands w' = (world_commands w)(cmd_CommandID c \<mapsto> c) \<and>
    cmd_CommandType c = TypeEnableDebugCapture \<and> cmd_DeviceID c = dbs_DeviceID d"
  using wp_InrD [OF diagnostics.StartDebugSession_post assms] by simp

text \<open>The service accepts an actor whose type has blanks around it, the table does not. A request that
  succeeds fails when its actor type is padded, after the same command was created: the device starts a
  debug capture without a session.\<close>

definition padded :: "StartDebugSessionRequest \<Rightarrow> string \<Rightarrow> StartDebugSessionRequest" where
  "padded req t = req\<lparr>sds_RequestedBy := (sds_RequestedBy req)\<lparr>dga_Type := t\<rparr>\<rparr>"

lemma padded_session:
  "new_debug_session (padded req t) i ttl now =
   map_sum id (\<lambda>d. d\<lparr>dbs_RequestedBy := sds_RequestedBy (padded req t)\<rparr>) (new_debug_session req i ttl now)"
  by (simp add: new_debug_session_def padded_def Let_def split: option.split)

lemma padded_command [simp]: "debug_command_request (d\<lparr>dbs_RequestedBy := a\<rparr>) = debug_command_request d"
  by (simp add: debug_command_request_def)

lemma padded_start:
  assumes "TrimSpace t = TrimSpace (dga_Type (sds_RequestedBy req))"
    and "start_debug_command s create req w = (Inr (d, c, now), w')"
  shows "start_debug_command s create (padded req t) w =
    (Inr (d\<lparr>dbs_RequestedBy := sds_RequestedBy (padded req t)\<rparr>, c, now), w')"
proof -
  have p: "isInternalActor (sds_RequestedBy (padded req t)) = isInternalActor (sds_RequestedBy req)"
    "sds_TTL (padded req t) = sds_TTL req"
    using assms(1) by (simp_all add: isInternalActor_def padded_def)
  show ?thesis
    using assms(2) unfolding start_debug_command_def p Let_def padded_session
    by (auto simp: op_defs split: prod.splits sum.splits if_splits)
qed

text \<open>An actor type with blanks around it passes the check, but the table refuses the session, after its command was
  created.\<close>

theorem padded_actor_orphans_command:
  assumes "StartDebugSession diagnostics_service req w = (Inr (d, c), w1)"
    and "TrimSpace t = TrimSpace (dga_Type (sds_RequestedBy req))" and "t \<notin> {''internal'', ''support''}"
  shows "\<exists>e w2. StartDebugSession diagnostics_service (padded req t) w = (Inl e, w2) \<and>
    dt_sessions w2 = dt_sessions w \<and> world_commands w2 = (world_commands w)(cmd_CommandID c \<mapsto> c)"
proof -
  from assms(1) obtain d0 now w3
    where start: "start_debug_command diagnostics_service create_command req w = (Inr (d0, c, now), w3)"
    by (auto simp: StartDebugSession_def diagnostics.wired op_defs split: prod.splits sum.splits)
  have pre: "dt_sessions w3 = dt_sessions w" "world_commands w3 = (world_commands w)(cmd_CommandID c \<mapsto> c)"
    using wp_InrD [OF diagnostics.start_debug_command_post start] by auto
  let ?d = "d0\<lparr>dbs_RequestedBy := sds_RequestedBy (padded req t)\<rparr>"
  have "wp (with_fault (sql_CreateDebugSession ?d)) (\<lambda>_ _. False)
      (\<lambda>_ w'. dt_sessions w' = dt_sessions w \<and> world_commands w' = world_commands w3) w3"
    using assms(3) pre(1)
    by (auto simp: wp_def with_fault_def sql_CreateDebugSession_def padded_def split: list.split)
  then show ?thesis
    using padded_start [OF assms(2) start] pre
    by (auto simp: StartDebugSession_def diagnostics.wired op_defs diagnostics_repository_def wp_def
        split: prod.splits sum.splits)
qed

section \<open>Witnesses\<close>

definition demo_diagnostics :: diagnostics_store where
  "demo_diagnostics = \<lparr>env_faults = [], env_clock = Second, env_ticks = [], env_ids = [''s1''],
     cw_commands = demo_store, dt_sessions = [], dt_bundles = [], dt_events = []\<rparr>"

definition demo_session :: StartDebugSessionRequest where
  "demo_session = \<lparr>sds_AccountID = ''acc'', sds_SiteID = ''s'', sds_DeviceID = ''d1'',
     sds_RequestedBy = \<lparr>dga_Type = ''support'', dga_ID = ''u''\<rparr>, sds_TTL = Minute,
     sds_RedactionProfile = [], sds_MaxBytes = 9, sds_Categories = [''logs'', '' logs'', []],
     sds_Metadata = []\<rparr>"

definition demo_debug :: DebugSession where
  "demo_debug = \<lparr>dbs_DebugSessionID = ''s1'', dbs_AccountID = ''acc'', dbs_SiteID = ''s'', dbs_DeviceID = ''d1'',
     dbs_CommandID = [], dbs_Status = SessionStatusActive, dbs_RequestedBy = \<lparr>dga_Type = ''support'', dga_ID = ''u''\<rparr>,
     dbs_RedactionProfile = ''default_v1'', dbs_MaxBytes = 9, dbs_Categories = [''logs''],
     dbs_Metadata = ''{}'', dbs_StartedAt = Second, dbs_ExpiresAt = Second + Minute, dbs_EndedAt = None\<rparr>"

lemma demo_debug_eval:
  "new_debug_session demo_session ''s1'' Minute Second = Inr demo_debug"
  "\<not> isl (fst (commands_Create (memory_service None) (debug_command_request demo_debug) demo_store))"
  "TrimSpace '' support'' = TrimSpace (dga_Type (sds_RequestedBy demo_session))"
  "isInternalActor (sds_RequestedBy demo_session)"
  "TrimSpace ''s1'' = ''s1''" "\<not> After 0 Minute" "\<not> After Minute MaxDebugTTL" "Minute \<noteq> 0" "\<not> Minute \<le> 0"
  by code_simp+

lemma demo_diagnostics_reads:
  "diagnostics_newID (dgs_SessionIDGenerator diagnostics_service) ''debug session id'' demo_diagnostics =
     (Inr ''s1'', demo_diagnostics\<lparr>env_ids := []\<rparr>)"
  "diagnostics_now diagnostics_service demo_diagnostics = (Inr Second, demo_diagnostics)"
  by (simp_all add: diagnostics_newID_def diagnostics_now_def diagnostics_service_def demo_diagnostics_def
      op_defs clock_now_def read_clock_def next_id_def demo_debug_eval(5))

lemma sds_TTL_demo: "sds_TTL demo_session = Minute"
  by (simp add: demo_session_def)

lemma demo_session_eval:
  "\<not> isl (fst (StartDebugSession diagnostics_service demo_session demo_diagnostics))"
proof -
  obtain c cs where c: "commands_Create (memory_service None) (debug_command_request demo_debug) demo_store = (Inr c, cs)"
    using demo_debug_eval(2) by (metis isl_def prod.collapse sum.exhaust)
  then have "st_commands cs (cmd_CommandID c) = Some c" using memory_Create_post by fastforce
  with c show ?thesis
    by (simp add: StartDebugSession_def start_debug_command_def diagnostics.wired op_defs sds_TTL_demo
        demo_debug_eval demo_diagnostics_reads create_command_def on_commands_def)
      (simp add: demo_debug_eval(9) demo_diagnostics_def op_defs diagnostics_repository_def with_fault_def world_commands_def
        sql_CreateDebugSession_def demo_debug_def diagnostics_audit_def diagnostics_service_def)
qed

theorem started_debug_session_witness:
  "\<exists>d c w'. StartDebugSession diagnostics_service demo_session demo_diagnostics = (Inr (d, c), w') \<and>
     dt_sessions w' = [d] \<and> session_bounded d \<and> world_commands w' (cmd_CommandID c) = Some c \<and>
     cmd_Status c = StatusQueued"
proof -
  from demo_session_eval obtain d c w' where
    e: "StartDebugSession diagnostics_service demo_session demo_diagnostics = (Inr (d, c), w')"
    by (metis isl_def prod.collapse sum.exhaust)
  have "dt_sessions demo_diagnostics = []" by (simp add: demo_diagnostics_def)
  with started_debug_session [OF e] e show ?thesis by fastforce
qed

theorem padded_actor_orphans_command_witness:
  "\<exists>e w2 c. StartDebugSession diagnostics_service (padded demo_session '' support'') demo_diagnostics = (Inl e, w2) \<and>
     world_commands w2 (cmd_CommandID c) = Some c"
proof -
  from demo_session_eval obtain d c w' where
    e: "StartDebugSession diagnostics_service demo_session demo_diagnostics = (Inr (d, c), w')"
    by (metis isl_def prod.collapse sum.exhaust)
  from padded_actor_orphans_command [OF e demo_debug_eval(3)] show ?thesis by fastforce
qed

end
