(* ===== verification/Artifact_Store.thy ===== *)
theory Artifact_Store
  imports Artifact_Uploads
begin

text \<open>
  What the upload service promises over every repository and URL issuer that keep
  \<open>artifact_contract\<close>, the table of \<open>backend/migrations/000004_artifact_uploads.sql\<close> with the S3 issuer, and
  the properties, up to what the agent's own check accepts. The presigner of the AWS SDK is a parameter;
  the references of the table to accounts, sites, devices and commands are taken to hold.
\<close>

section \<open>Slots\<close>

text \<open>A path segment holds no separator.\<close>

definition segment :: "string \<Rightarrow> bool" where
  "segment s \<longleftrightarrow> \<not> ContainsAny s path_separators"

lemma segment_no_slash: "segment s \<Longrightarrow> CHR ''/'' \<notin> set s"
  by (auto simp: segment_def ContainsAny_iff path_separators_def)

lemma segment_cleanSegment [simp]: "segment (cleanSegment v)"
  by (auto simp: segment_def cleanSegment_def ContainsAny_iff)

lemma TrimSpace_cleanSegment [simp]: "TrimSpace (cleanSegment v) = cleanSegment v"
proof -
  have "TrimSpace [] = []" by code_simp
  then show ?thesis by (simp add: cleanSegment_def TrimSpace_idem)
qed

text \<open>What the service makes sure of before a slot is stored.\<close>

definition slot_ok :: "'w ArtifactService \<Rightarrow> UploadSlot \<Rightarrow> bool" where
  "slot_ok svc slot \<longleftrightarrow>
     (\<exists>d. artifacts_definitionFor svc (slt_Purpose slot) = Inr d \<and>
        map_of (pud_AllowedContentType d) (slt_ContentType slot) = Some True \<and>
        slt_MaxSizeBytes slot = pud_MaxSizeBytes d \<and> 0 < slt_MaxSizeBytes slot \<and>
        (\<forall>n. slt_ExpectedSizeBytes slot = Some n \<longrightarrow> 0 \<le> n \<and> n \<le> slt_MaxSizeBytes slot) \<and>
        slt_ExpiresAt slot = slt_CreatedAt slot + pud_DefaultURLTTL d \<and>
        slt_CreatedAt slot < slt_ExpiresAt slot) \<and>
     slt_Status slot = StatusPendingUpload \<and> slt_ObjectKey slot = buildObjectKey slot \<and>
     slt_ObjectBucket slot = TrimSpace (ars_Bucket svc) \<and> slt_ObjectBucket slot \<noteq> [] \<and>
     (\<forall>s \<in> {slt_UploadID slot, slt_AccountID slot, slt_SiteID slot, slt_DeviceID slot}.
        segment s \<and> s \<noteq> [] \<and> TrimSpace s = s) \<and>
     json_Valid (slt_Metadata slot)"

lemma definitionFor_positive:
  "artifacts_definitionFor s p = Inr d \<Longrightarrow> 0 < pud_MaxSizeBytes d \<and> 0 < pud_DefaultURLTTL d"
  by (auto simp: artifacts_definitionFor_def split: option.splits if_splits)

lemma buildObjectKey_update [simp]: "buildObjectKey (slot\<lparr>slt_ObjectKey := k\<rparr>) = buildObjectKey slot"
  by (simp add: buildObjectKey_def)

lemma expected_size_None:
  "expected_size_error d e = None \<Longrightarrow> e = Some n \<Longrightarrow> 0 \<le> n \<and> n \<le> pud_MaxSizeBytes d"
  by (auto simp: expected_size_error_def split: if_splits)

lemma new_upload_slot_ok:
  assumes d: "artifacts_definitionFor s (cur_Purpose req) = Inr d"
    and "map_of (pud_AllowedContentType d) (TrimSpace (cur_ContentType req)) = Some True"
    and "expected_size_error d (cur_ExpectedSizeBytes req) = None"
    and "json_Valid (artifacts_normalizeJSON (cur_Metadata req))"
    and "validateUploadSlot (new_upload_slot s req d i t) = None"
    and "TrimSpace (ars_Bucket s) \<noteq> []" and "i \<noteq> []" and "TrimSpace i = i" and "segment i"
  shows "slot_ok s ((new_upload_slot s req d i t)\<lparr>slt_ObjectKey := buildObjectKey (new_upload_slot s req d i t)\<rparr>)"
  using assms definitionFor_positive [OF d] expected_size_None [OF assms(3)]
  by (auto simp: slot_ok_def new_upload_slot_def validateUploadSlot_def buildObjectKey_def split: if_splits)

section \<open>The contract\<close>

locale artifact_contract =
  fixes svc :: "'w ArtifactService" and create :: "UploadSlot \<Rightarrow> ('w, unit) op"
    and issue :: "UploadURLRequest \<Rightarrow> ('w, UploadCapability) op"
    and slots :: "'w \<Rightarrow> UploadSlot list"
    and good :: "UploadURLRequest \<Rightarrow> UploadCapability \<Rightarrow> bool"
  assumes wired: "ars_Repository svc = Some create" "ars_Issuer svc = Some issue"
    and create_law: "create slot w = (ru, w') \<Longrightarrow>
      (case ru of Inl e \<Rightarrow> slots w' = slots w
       | Inr u \<Rightarrow> slots w' = slots w @ [slot] \<and> slt_UploadID slot \<notin> slt_UploadID ` set (slots w))"
    and issue_law: "issue req w = (rc, w') \<Longrightarrow> slots w' = slots w \<and>
      (case rc of Inl e \<Rightarrow> True | Inr c \<Rightarrow> good req c)"
    and ID_law: "ars_IDGenerator svc = Some f \<Longrightarrow> f w = (i, w') \<Longrightarrow> slots w' = slots w"
    and Clock_law: "ars_Clock svc = Some g \<Longrightarrow> g w = (t, w') \<Longrightarrow> slots w' = slots w"
    and TimeNow_law: "ars_TimeNow svc w = (t, w') \<Longrightarrow> slots w' = slots w"
begin

lemma wp_create:
  assumes "\<And>e w'. slots w' = slots w \<Longrightarrow> E e w'" 
    and "\<And>w'. slots w' = slots w @ [slot] \<Longrightarrow> slt_UploadID slot \<notin> slt_UploadID ` set (slots w) \<Longrightarrow> Q () w'"
  shows "wp (create slot) Q E w"
  by (rule wpI) (auto dest!: create_law intro: assms)

lemma wp_issue:
  assumes "\<And>e w'. slots w' = slots w \<Longrightarrow> E e w'" and "\<And>c w'. slots w' = slots w \<Longrightarrow> good req c \<Longrightarrow> Q c w'"
  shows "wp (issue req) Q E w"
  by (rule wpI) (auto dest!: issue_law intro: assms)

lemma wp_artifacts_now:
  assumes "\<And>t w'. slots w' = slots w \<Longrightarrow> Q t w'"
  shows "wp (artifacts_now svc) Q E w"
  by (auto simp: artifacts_now_def wp_simps split: prod.split option.split
      dest: Clock_law TimeNow_law intro!: assms)

lemma wp_newUploadID:
  assumes "\<And>e w'. slots w' = slots w \<Longrightarrow> E e w'"
    and "\<And>i w'. slots w' = slots w \<Longrightarrow> i \<noteq> [] \<Longrightarrow> TrimSpace i = i \<Longrightarrow> segment i \<Longrightarrow> Q i w'"
  shows "wp (newUploadID svc) Q E w"
  by (auto simp: newUploadID_def wp_simps segment_def TrimSpace_idem split: prod.split option.split
      dest: ID_law intro!: assms)

text \<open>A slot that was stored is complete; when it came back, its capability is for it. The slot stays when
  no URL could be issued for it.\<close>

lemma CreateUpload_post:
  "wp (CreateUpload svc req)
    (\<lambda>r w'. slots w' = slots w @ [cus_Upload r] \<and> slot_ok svc (cus_Upload r) \<and>
       slt_UploadID (cus_Upload r) \<notin> slt_UploadID ` set (slots w) \<and>
       good (upload_url_request (cus_Upload r)) (cus_Capability r))
    (\<lambda>_ w'. slots w' = slots w \<or> (\<exists>slot. slots w' = slots w @ [slot] \<and> slot_ok svc slot \<and>
       slt_UploadID slot \<notin> slt_UploadID ` set (slots w))) w"
  unfolding CreateUpload_def
  by (auto simp: wired wp_simps Let_def split: option.split sum.split
      intro!: wp_create wp_issue wp_artifacts_now wp_newUploadID new_upload_slot_ok)

end

section \<open>Object keys\<close>

lemma digit_char_not_slash: "n < 10 \<Longrightarrow> digit_char n \<noteq> CHR ''/''"
  using digit_char [of n] by (auto simp: byte_def)

lemma Itoa_no_slash: "CHR ''/'' \<notin> set (Itoa n)"
proof (induction n rule: Itoa.induct)
  case (1 n)
  show ?case
    by (subst Itoa.simps) (use 1 digit_char_not_slash [of n] digit_char_not_slash [of "n mod 10"] in auto)
qed

lemma zero_padded_no_slash: "CHR ''/'' \<notin> set (zero_padded w n)"
  by (simp add: zero_padded_def Let_def Itoa_no_slash)

lemma Split_Join:
  assumes "ps \<noteq> []" and "\<forall>p \<in> set ps. c \<notin> set p"
  shows "Split (Join ps [c]) c = ps"
  using assms
proof (induction ps rule: list_nonempty_induct)
  case (cons p ps)
  then show ?case by (cases ps) (auto simp: Split_append)
qed (simp add: Split_single)

definition key_segments :: "UploadSlot \<Rightarrow> string list" where
  "key_segments slot =
     (case civil_of_days (UTC (slt_CreatedAt slot) div 1000000000 div 86400) of (year, month, day) \<Rightarrow>
      [''artifacts'', ''accounts'', slt_AccountID slot, ''sites'', slt_SiteID slot, ''devices'',
       slt_DeviceID slot, slt_Purpose slot, zero_padded 4 year, zero_padded 2 (int month),
       zero_padded 2 day, slt_UploadID slot])"

lemma buildObjectKey_segments:
  assumes "\<forall>s \<in> {slt_UploadID slot, slt_AccountID slot, slt_SiteID slot, slt_DeviceID slot, slt_Purpose slot}. segment s"
  shows "Split (buildObjectKey slot) (CHR ''/'') = key_segments slot"
proof -
  have "buildObjectKey slot = Join (key_segments slot) ''/''"
    by (simp add: buildObjectKey_def key_segments_def split: prod.split)
  moreover have "\<forall>p \<in> set (key_segments slot). CHR ''/'' \<notin> set p"
    using assms segment_no_slash zero_padded_no_slash
    by (cases "civil_of_days (UTC (slt_CreatedAt slot) div 1000000000 div 86400)") (simp add: key_segments_def)
  moreover have "key_segments slot \<noteq> []" by (simp add: key_segments_def split: prod.split)
  ultimately show ?thesis by (simp add: Split_Join)
qed

lemma default_purpose_segment:
  assumes "ars_Purposes svc = None" and "artifacts_definitionFor svc p = Inr d"
  shows "segment p"
proof -
  have "p \<in> {PurposeErrorLogBundle, PurposeDiagnosticBundle, PurposeDebugBundle, PurposeBackupArtifact}"
    using assms by (auto simp: artifacts_definitionFor_def DefaultPurposeRegistry_def split: option.splits if_splits)
  moreover have "segment PurposeErrorLogBundle" "segment PurposeDiagnosticBundle" "segment PurposeDebugBundle"
    "segment PurposeBackupArtifact" by code_simp+
  ultimately show ?thesis by auto
qed

lemma slot_key_segments:
  "ars_Purposes svc = None \<Longrightarrow> slot_ok svc slot \<Longrightarrow>
   Split (slt_ObjectKey slot) (CHR ''/'') = key_segments slot"
proof -
  assume a: "ars_Purposes svc = None" "slot_ok svc slot"
  then have "segment (slt_Purpose slot)" using default_purpose_segment by (force simp: slot_ok_def)
  with a(2) have "\<forall>s \<in> {slt_UploadID slot, slt_AccountID slot, slt_SiteID slot, slt_DeviceID slot, slt_Purpose slot}. segment s"
    by (simp add: slot_ok_def)
  from buildObjectKey_segments [OF this] a(2) show ?thesis by (simp add: slot_ok_def)
qed

section \<open>The table and the S3 issuer\<close>

record artifact_store = env +
  ft_slots :: "UploadSlot list"

definition artifact_constraint :: go_error where
  "artifact_constraint = Errorf ''constraint violation'' []"

definition slot_refused :: "UploadSlot \<Rightarrow> UploadSlot list \<Rightarrow> bool" where
  "slot_refused slot rows \<longleftrightarrow>
     list_ex (\<lambda>s. slt_UploadID s = slt_UploadID slot) rows \<or>
     list_ex (\<lambda>s. slt_ObjectBucket s = slt_ObjectBucket slot \<and> slt_ObjectKey s = slt_ObjectKey slot) rows \<or>
     slt_Purpose slot \<notin> set (map fst DefaultPurposeRegistry) \<or>
     slt_Status slot \<notin> set [''pending_upload'', ''uploaded'', ''validated'', ''rejected'', ''expired'', ''canceled''] \<or>
     slt_MaxSizeBytes slot \<le> 0 \<or>
     (case slt_ExpectedSizeBytes slot of None \<Rightarrow> False | Some n \<Rightarrow> n < 0 \<or> slt_MaxSizeBytes slot < n) \<or>
     slt_ExpiresAt slot \<le> slt_CreatedAt slot"

definition sql_CreateUploadSlot :: "UploadSlot \<Rightarrow> (artifact_store, unit) op" where
  "sql_CreateUploadSlot slot w =
     (if slot_refused slot (ft_slots w) then (Inl artifact_constraint, w)
      else (Inr (), w\<lparr>ft_slots := ft_slots w @ [slot]\<rparr>))"

lemma slot_refused_used: "\<not> slot_refused slot rows \<Longrightarrow> slt_UploadID slot \<notin> slt_UploadID ` set rows"
proof -
  assume "\<not> slot_refused slot rows"
  then have "\<not> list_ex (\<lambda>s. slt_UploadID s = slt_UploadID slot) rows" by (simp add: slot_refused_def)
  then show ?thesis by (force simp: list_ex_iff)
qed

type_synonym presigner = "PutObjectPresignRequest \<Rightarrow> go_error + PresignedRequest"

definition s3_issuer :: "presigner \<Rightarrow> artifact_store S3UploadURLIssuer" where
  "s3_issuer presign = \<lparr>s3i_Presigner = Some (\<lambda>r. with_fault (pureE (presign r))),
     s3i_Clock = Some read_clock, s3i_TimeNow = read_clock, s3i_MaxTTL = 0\<rparr>"

definition artifact_service :: "presigner \<Rightarrow> string \<Rightarrow> artifact_store ArtifactService" where
  "artifact_service presign bucket =
     \<lparr>ars_Repository = Some (\<lambda>slot. with_fault (sql_CreateUploadSlot slot)),
      ars_Issuer = Some (IssueUploadURL (s3_issuer presign)), ars_Purposes = None, ars_Bucket = bucket,
      ars_IDGenerator = Some next_id, ars_Clock = Some read_clock, ars_TimeNow = read_clock\<rparr>"

text \<open>What a signed URL is: an HTTPS address for the requested upload, never later than it.\<close>

definition capability_for :: "UploadURLRequest \<Rightarrow> UploadCapability \<Rightarrow> bool" where
  "capability_for req c \<longleftrightarrow> ucp_UploadID c = uur_UploadID req \<and> ucp_Method c = ''PUT'' \<and>
     url_is_https (ucp_URL c) \<and> ucp_ExpiresAt c = uur_ExpiresAt req \<and>
     ucp_ContentType c = uur_ContentType req \<and> ucp_MaxBytes c = uur_MaxSizeBytes req"

lemma validatePresignedURL_None: "validatePresignedURL u = None \<Longrightarrow> url_is_https u"
  by (auto simp: validatePresignedURL_def url_is_https_def split: option.splits if_splits)

lemma IssueUploadURL_post:
  "wp (IssueUploadURL (s3_issuer presign) req) (\<lambda>c w'. ft_slots w' = ft_slots w \<and> capability_for req c)
     (\<lambda>_ w'. ft_slots w' = ft_slots w) w"
  unfolding IssueUploadURL_def
  by (auto simp: s3_issuer_def s3i_now_def wp_simps wp_with_fault read_clock_def Let_def capability_for_def
      DefaultUploadMethod_def dest!: validatePresignedURL_None split: list.split sum.split option.split)

lemma sql_CreateUploadSlot_result:
  "with_fault (sql_CreateUploadSlot slot) w = (ru, w') \<Longrightarrow>
   (case ru of Inl e \<Rightarrow> ft_slots w' = ft_slots w
    | Inr u \<Rightarrow> ft_slots w' = ft_slots w @ [slot] \<and> slt_UploadID slot \<notin> slt_UploadID ` set (ft_slots w))"
  by (auto simp: with_fault_def sql_CreateUploadSlot_def dest: slot_refused_used split: list.splits if_splits)

interpretation artifacts: artifact_contract "artifact_service presign bucket"
  "\<lambda>slot. with_fault (sql_CreateUploadSlot slot)" "IssueUploadURL (s3_issuer presign)" ft_slots capability_for
  for presign bucket
proof (unfold_locales, goal_cases)
  case (3 slot w ru w') then show ?case by (rule sql_CreateUploadSlot_result)
next
  case (4 req w rc w')
  show ?case using wp_InrD [OF IssueUploadURL_post, of presign req w] wp_InlD [OF IssueUploadURL_post, of presign req w] 4
    by (cases rc) auto
qed (auto simp: artifact_service_def next_id_def read_clock_def split: list.splits)

section \<open>Properties\<close>

definition run_uploads :: "presigner \<Rightarrow> string \<Rightarrow> CreateUploadRequest list \<Rightarrow> artifact_store \<Rightarrow> artifact_store" where
  "run_uploads presign bucket reqs w = fold (\<lambda>r w. snd (CreateUpload (artifact_service presign bucket) r w)) reqs w"

definition uploads_inv :: "presigner \<Rightarrow> string \<Rightarrow> artifact_store \<Rightarrow> bool" where
  "uploads_inv presign bucket w \<longleftrightarrow> (\<forall>slot \<in> set (ft_slots w). slot_ok (artifact_service presign bucket) slot) \<and>
     distinct (map slt_UploadID (ft_slots w)) \<and> distinct (map slt_ObjectKey (ft_slots w))"

lemma artifact_service_purposes [simp]: "ars_Purposes (artifact_service presign bucket) = None"
  by (simp add: artifact_service_def)

text \<open>Two complete slots of one key are slots of one upload, of one purpose and of one device.\<close>

lemma same_key_same_upload:
  assumes "slot_ok (artifact_service p b) x" and "slot_ok (artifact_service p b) y"
    and "slt_ObjectKey x = slt_ObjectKey y"
  shows "slt_UploadID x = slt_UploadID y \<and> slt_DeviceID x = slt_DeviceID y \<and> slt_Purpose x = slt_Purpose y"
proof -
  have "key_segments x = key_segments y"
    using assms(3) slot_key_segments [OF artifact_service_purposes assms(1)]
      slot_key_segments [OF artifact_service_purposes assms(2)] by simp
  then show ?thesis by (simp add: key_segments_def split: prod.splits)
qed

lemma slot_ok_purpose:
  assumes "slot_ok (artifact_service p b) slot" shows "slt_Purpose slot \<in> set (map fst DefaultPurposeRegistry)"
proof -
  obtain d where "artifacts_definitionFor (artifact_service p b) (slt_Purpose slot) = Inr d"
    using assms by (auto simp: slot_ok_def)
  then have "map_of DefaultPurposeRegistry (slt_Purpose slot) \<noteq> None"
    by (simp add: artifacts_definitionFor_def split: option.splits)
  then show ?thesis by (simp only: map_of_eq_None_iff set_map not_not)
qed

text \<open>The table refuses a complete slot only for its upload id.\<close>

lemma slot_refused_only_for_used_id:
  assumes inv: "\<forall>s \<in> set rows. slot_ok (artifact_service p b) s" and ok: "slot_ok (artifact_service p b) slot"
    and "slot_refused slot rows"
  shows "slt_UploadID slot \<in> slt_UploadID ` set rows"
proof (rule ccontr)
  assume new: "slt_UploadID slot \<notin> slt_UploadID ` set rows"
  have "slt_ObjectKey s \<noteq> slt_ObjectKey slot \<and> slt_UploadID s \<noteq> slt_UploadID slot" if "s \<in> set rows" for s
    using same_key_same_upload [of p b s slot] inv ok new that by (metis imageI)
  moreover have "slt_Status slot = ''pending_upload''" using ok by (simp add: slot_ok_def StatusPendingUpload_def)
  moreover have "\<not> (case slt_ExpectedSizeBytes slot of None \<Rightarrow> False | Some n \<Rightarrow> n < 0 \<or> slt_MaxSizeBytes slot < n)"
    "\<not> slt_MaxSizeBytes slot \<le> 0" "\<not> slt_ExpiresAt slot \<le> slt_CreatedAt slot"
    using ok by (auto simp: slot_ok_def split: option.split)
  ultimately show False using slot_ok_purpose [OF ok] assms(3)
    unfolding slot_refused_def list_ex_iff by (metis list.set_intros(1))
qed

lemma uploads_inv_append:
  assumes "uploads_inv p b w" and "ft_slots w' = ft_slots w @ [slot]" and "slot_ok (artifact_service p b) slot"
    and "slt_UploadID slot \<notin> slt_UploadID ` set (ft_slots w)"
  shows "uploads_inv p b w'"
proof -
  have "slt_ObjectKey slot \<notin> slt_ObjectKey ` set (ft_slots w)"
  proof
    assume "slt_ObjectKey slot \<in> slt_ObjectKey ` set (ft_slots w)"
    then obtain x where "x \<in> set (ft_slots w)" "slt_ObjectKey slot = slt_ObjectKey x" by blast
    with same_key_same_upload [OF assms(3), of x] assms(1,4) show False by (auto simp: uploads_inv_def)
  qed
  with assms show ?thesis by (simp add: uploads_inv_def)
qed

lemma uploads_inv_step:
  assumes "uploads_inv p b w" shows "uploads_inv p b (snd (CreateUpload (artifact_service p b) req w))"
proof -
  have same: "uploads_inv p b w'" if "ft_slots w' = ft_slots w" for w'
    using assms that by (simp add: uploads_inv_def)
  have "wp (CreateUpload (artifact_service p b) req) (\<lambda>_. uploads_inv p b) (\<lambda>_. uploads_inv p b) w"
    by (rule wp_mono [OF artifacts.CreateUpload_post]) (auto intro: uploads_inv_append [OF assms] same)
  then show ?thesis by (rule wp_worldD)
qed

lemma wp_upload_id:
  assumes "\<And>e w'. (\<forall>m e'. e \<noteq> Wrapf m e') \<Longrightarrow> E e w'"
    and "\<And>i ids w'. env_ids w = i # ids \<Longrightarrow> ft_slots w' = ft_slots w \<Longrightarrow> TrimSpace i \<noteq> [] \<Longrightarrow> segment (TrimSpace i) \<Longrightarrow>
      Q (TrimSpace i) w'"
  shows "wp (newUploadID (artifact_service p b)) Q E w"
proof -
  have "TrimSpace [] = []" by code_simp
  then show ?thesis
    by (auto simp: newUploadID_def artifact_service_def wp_simps next_id_def segment_def
        intro!: assms split: list.split)
qed

lemma wp_upload_now:
  assumes "\<And>t w'. env_ids w' = env_ids w \<Longrightarrow> ft_slots w' = ft_slots w \<Longrightarrow> Q t w'"
  shows "wp (artifacts_now (artifact_service p b)) Q E w"
  by (auto simp: artifacts_now_def artifact_service_def wp_simps read_clock_def intro!: assms split: list.split)

lemma wp_store_slot:
  assumes "\<And>w'. E injected_fault w'" and "\<And>w'. slot_refused slot (ft_slots w) \<Longrightarrow> E artifact_constraint w'" and "\<And>w'. Q () w'"
  shows "wp (with_fault (sql_CreateUploadSlot slot)) Q E w"
  by (auto simp: wp_def with_fault_def sql_CreateUploadSlot_def intro: assms split: list.split)

lemma unwrapped_errors:
  "artifacts_definitionFor svc t \<noteq> Inl (Wrapf m e)" "expected_size_error d x \<noteq> Some (Wrapf m e)"
  "validateUploadSlot slot \<noteq> Some (Wrapf m e)"
  by (auto simp: artifacts_definitionFor_def expected_size_error_def validateUploadSlot_def split: option.split)

lemma upload_refused:
  assumes "\<forall>s \<in> set (ft_slots w). slot_ok (artifact_service p b) s"
  shows "wp (CreateUpload (artifact_service p b) req) (\<lambda>_ _. True)
    (\<lambda>e _. e = Wrapf ''create artifact upload slot'' artifact_constraint \<longrightarrow>
       (\<exists>i ids. env_ids w = i # ids \<and> TrimSpace i \<in> slt_UploadID ` set (ft_slots w))) w"
proof -
  have v: "slt_UploadID (new_upload_slot s req d i t) = i" for s :: "artifact_store ArtifactService" and d i t
    by (simp add: new_upload_slot_def)
  show ?thesis
    unfolding CreateUpload_def
    by (auto simp: artifacts.wired wp_simps Let_def injected_fault_def unwrapped_errors split: option.split sum.split prod.split
        intro!: wp_upload_id wp_upload_now wp_store_slot artifacts.wp_issue
        dest!: slot_refused_only_for_used_id [OF _ new_upload_slot_ok, rotated -1])
      (use assms v in \<open>auto 4 4 simp: artifact_constraint_def dest!: sym [of "_ # _"]\<close>)
qed

lemma run_uploads_inv:
  assumes "uploads_inv p b w" shows "uploads_inv p b (run_uploads p b reqs w)"
  using assms unfolding run_uploads_def by (induction reqs arbitrary: w) (auto intro: uploads_inv_step)

text \<open>C16: Whatever uploads are requested, and whichever calls to the database or the presigner fail on the
  way, every stored slot is complete (allowed purpose, content type and size, a valid expiry, a key of its own
  segments), and no two slots have one upload id or one object key.\<close>

theorem upload_slots_invariant:
  assumes "ft_slots w = []"
  shows "(\<forall>slot \<in> set (ft_slots (run_uploads presign bucket reqs w)).
      slot_ok (artifact_service presign bucket) slot \<and>
      Split (slt_ObjectKey slot) (CHR ''/'') = key_segments slot) \<and>
    distinct (map slt_UploadID (ft_slots (run_uploads presign bucket reqs w))) \<and>
    distinct (map slt_ObjectKey (ft_slots (run_uploads presign bucket reqs w)))"
proof -
  have "uploads_inv presign bucket (run_uploads presign bucket reqs w)"
    using assms by (intro run_uploads_inv) (simp add: uploads_inv_def)
  then show ?thesis using slot_key_segments [OF artifact_service_purposes, of presign bucket]
    by (auto simp: uploads_inv_def)
qed

text \<open>A request is refused by a constraint of the table only when its upload id is taken: the object key
  never is what collides, and no check of the table rejects what the service let through.\<close>

theorem upload_refused_only_for_used_id:
  assumes "ft_slots w0 = []" and "w = run_uploads presign bucket reqs w0"
    and "CreateUpload (artifact_service presign bucket) req w = (Inl (Wrapf ''create artifact upload slot'' artifact_constraint), w')"
  shows "\<exists>i ids. env_ids w = i # ids \<and> TrimSpace i \<in> slt_UploadID ` set (ft_slots w)"
proof -
  have inv: "\<forall>s \<in> set (ft_slots w). slot_ok (artifact_service presign bucket) s"
    using run_uploads_inv [of presign bucket w0 reqs] assms(1,2) by (simp add: uploads_inv_def)
  then show ?thesis using wp_InlD [OF upload_refused [OF inv] assms(3)] by simp
qed

text \<open>The upload session that a capability becomes on the agent's side.\<close>

definition session_of :: "UploadCapability \<Rightarrow> ArtifactUploadSession" where
  "session_of c = \<lparr>aus_UploadID = ucp_UploadID c, aus_Method = ucp_Method c, aus_URL = ucp_URL c,
     aus_ContentType = ucp_ContentType c, aus_MaxBytes = ucp_MaxBytes c, aus_ExpiresAt = ucp_ExpiresAt c\<rparr>"

lemma default_url_ttl:
  assumes "ars_Purposes svc = None" and "artifacts_definitionFor svc p = Inr d"
  shows "pud_DefaultURLTTL d = 15 * Minute"
  using assms by (auto simp: artifacts_definitionFor_def DefaultPurposeRegistry_def split: option.splits if_splits)

lemma slot_ok_expiry: "slot_ok (artifact_service p b) slot \<Longrightarrow> slt_ExpiresAt slot = slt_CreatedAt slot + 15 * Minute"
  using default_url_ttl [OF artifact_service_purposes] by (fastforce simp: slot_ok_def)

lemma session_of_accepted:
  assumes "capability_for (upload_url_request slot) c" and "TrimSpace (slt_UploadID slot) \<noteq> []" and "0 < slt_MaxSizeBytes slot"
  shows "validateUploadSession (session_of c) a t = None \<longleftrightarrow>
    t < slt_ExpiresAt slot \<and> ga_ContentType a = slt_ContentType slot \<and> int (length (ga_Bytes a)) \<le> slt_MaxSizeBytes slot"
proof -
  have "url_parse (ucp_URL c) \<noteq> None \<and> url_is_https (ucp_URL c)"
    using assms(1) by (auto simp: capability_for_def url_is_https_def split: option.splits)
  with assms show ?thesis
    by (auto simp: validateUploadSession_def session_of_def capability_for_def upload_url_request_def)
qed

text \<open>C38: The capability that comes back with a slot makes an upload session that the agent's own check
  accepts for the slot's fifteen minutes, and not later, for an artifact of the slot's content type and size.\<close>

theorem capability_accepted_by_agent:
  assumes "CreateUpload (artifact_service presign bucket) req w = (Inr r, w')"
  shows "slt_ExpiresAt (cus_Upload r) = slt_CreatedAt (cus_Upload r) + 15 * Minute \<and>
    (\<forall>a t. validateUploadSession (session_of (cus_Capability r)) a t = None \<longleftrightarrow>
       t < slt_ExpiresAt (cus_Upload r) \<and> ga_ContentType a = slt_ContentType (cus_Upload r) \<and>
       int (length (ga_Bytes a)) \<le> slt_MaxSizeBytes (cus_Upload r))"
proof -
  have post: "slot_ok (artifact_service presign bucket) (cus_Upload r) \<and>
      capability_for (upload_url_request (cus_Upload r)) (cus_Capability r)"
    using wp_InrD [OF artifacts.CreateUpload_post assms] by simp
  then have "TrimSpace (slt_UploadID (cus_Upload r)) \<noteq> []" "0 < slt_MaxSizeBytes (cus_Upload r)"
    by (auto simp: slot_ok_def)
  with post show ?thesis using slot_ok_expiry session_of_accepted by blast
qed

section \<open>Witnesses\<close>

definition demo_presign :: presigner where
  "demo_presign r = Inr \<lparr>prq_URL = ''https://s3/k'', prq_Method = ''PUT''\<rparr>"

definition demo_uploads :: artifact_store where
  "demo_uploads = \<lparr>env_faults = [], env_clock = Second, env_ticks = [], env_ids = [''u1'', ''u1''], ft_slots = []\<rparr>"

definition demo_upload :: CreateUploadRequest where
  "demo_upload = \<lparr>cur_AccountID = ''a'', cur_SiteID = ''s'', cur_DeviceID = ''d'', cur_CommandID = [],
     cur_Purpose = ''debug_bundle'', cur_RequestedBySubjectType = [], cur_RequestedBySubjectID = [],
     cur_ContentType = ''text/plain'', cur_ExpectedSizeBytes = Some 3, cur_ChecksumSHA256 = [],
     cur_LocalArtifactRef = [], cur_RedactionProfile = [], cur_Metadata = []\<rparr>"

lemma demo_uploads_empty: "ft_slots demo_uploads = []"
  by (simp add: demo_uploads_def)

definition demo_slot :: UploadSlot where
  "demo_slot = \<lparr>slt_UploadID = ''u1'', slt_AccountID = ''a'', slt_SiteID = ''s'', slt_DeviceID = ''d'',
     slt_CommandID = [], slt_Purpose = ''debug_bundle'', slt_Status = ''pending_upload'',
     slt_RequestedBySubjectType = [], slt_RequestedBySubjectID = [], slt_ObjectBucket = ''b'', slt_ObjectKey = [],
     slt_ContentType = ''text/plain'', slt_MaxSizeBytes = 26214400, slt_ExpectedSizeBytes = Some 3,
     slt_ChecksumSHA256 = [], slt_LocalArtifactRef = [], slt_RedactionProfile = [], slt_Metadata = ''{}'',
     slt_ExpiresAt = 901 * Second, slt_CreatedAt = Second, slt_UpdatedAt = Second\<rparr>"

definition demo_purpose :: PurposeDefinition where
  "demo_purpose = snd (DefaultPurposeRegistry ! 2)"

lemma demo_upload_parts:
  "artifacts_definitionFor (artifact_service demo_presign ''b'') (cur_Purpose demo_upload) = Inr demo_purpose"
  "map_of (pud_AllowedContentType demo_purpose) (TrimSpace (cur_ContentType demo_upload)) = Some True"
  "expected_size_error demo_purpose (cur_ExpectedSizeBytes demo_upload) = None"
  "json_Valid (artifacts_normalizeJSON (cur_Metadata demo_upload))"
  "new_upload_slot (artifact_service demo_presign ''b'') demo_upload demo_purpose ''u1'' Second = demo_slot"
  "validateUploadSlot demo_slot = None"
  "TrimSpace (ars_Bucket (artifact_service demo_presign ''b'')) \<noteq> []"
  "TrimSpace ''u1'' = ''u1''" "\<not> ContainsAny ''u1'' path_separators"
  "\<not> slot_refused (demo_slot\<lparr>slt_ObjectKey := buildObjectKey demo_slot\<rparr>) []"
  "slot_refused (demo_slot\<lparr>slt_ObjectKey := buildObjectKey demo_slot\<rparr>) [demo_slot\<lparr>slt_ObjectKey := buildObjectKey demo_slot\<rparr>]"
  "validatePresignedURL ''https://s3/k'' = None" "TrimSpace ''PUT'' = ''PUT''"
  by code_simp+

definition demo_stored :: artifact_store where
  "demo_stored = demo_uploads\<lparr>env_ids := [''u1''], ft_slots := [demo_slot\<lparr>slt_ObjectKey := buildObjectKey demo_slot\<rparr>]\<rparr>"

lemma demo_reads:
  "wp (artifacts_now (artifact_service demo_presign ''b'')) Q E demo_uploads = Q Second demo_uploads"
  "wp (newUploadID (artifact_service demo_presign ''b'')) R E demo_uploads = R ''u1'' (demo_uploads\<lparr>env_ids := [''u1'']\<rparr>)"
  "wp (artifacts_now (artifact_service demo_presign ''b'')) Q E demo_stored = Q Second demo_stored"
  "wp (newUploadID (artifact_service demo_presign ''b'')) R E demo_stored = R ''u1'' (demo_stored\<lparr>env_ids := []\<rparr>)"
  by (simp_all add: artifacts_now_def newUploadID_def artifact_service_def wp_simps read_clock_def next_id_def
      demo_uploads_def demo_stored_def demo_upload_parts)

lemma demo_writes:
  "wp (with_fault (sql_CreateUploadSlot (demo_slot\<lparr>slt_ObjectKey := buildObjectKey demo_slot\<rparr>))) Q E
     (demo_uploads\<lparr>env_ids := [''u1'']\<rparr>) = Q () demo_stored"
  "wp (with_fault (sql_CreateUploadSlot (demo_slot\<lparr>slt_ObjectKey := buildObjectKey demo_slot\<rparr>))) Q E
     (demo_stored\<lparr>env_ids := []\<rparr>) = E artifact_constraint (demo_stored\<lparr>env_ids := []\<rparr>)"
  by (simp_all add: wp_with_fault wp_def sql_CreateUploadSlot_def demo_uploads_def demo_stored_def demo_upload_parts)

lemma demo_issue:
  "wp (IssueUploadURL (s3_issuer demo_presign) (upload_url_request (demo_slot\<lparr>slt_ObjectKey := k\<rparr>)))
     (\<lambda>c w. w = demo_stored) (\<lambda>_ _. False) demo_stored"
  by (simp add: wp_def demo_uploads_def demo_stored_def demo_upload_parts
    IssueUploadURL_def upload_url_request_def s3_issuer_def s3i_now_def clock_now_def read_clock_def op_defs demo_slot_def
    s3i_maxTTL_def DefaultMaxPresignTTL_def duration_defs demo_presign_def DefaultUploadMethod_def Let_def)

lemma demo_upload_eval:
  "wp (CreateUpload (artifact_service demo_presign ''b'') demo_upload) (\<lambda>_ w. w = demo_stored) (\<lambda>_ _. False) demo_uploads"
  "wp (CreateUpload (artifact_service demo_presign ''b'') demo_upload) (\<lambda>_ _. False)
     (\<lambda>e _. e = Wrapf ''create artifact upload slot'' artifact_constraint) demo_stored"
  unfolding CreateUpload_def
  by (simp_all add: wp_simps artifacts.wired demo_upload_parts Let_def demo_reads demo_writes)
    (rule wp_mono [OF demo_issue], simp_all add: wp_simps)

lemma demo_upload_runs:
  "\<exists>r. CreateUpload (artifact_service demo_presign ''b'') demo_upload demo_uploads = (Inr r, demo_stored)"
  "run_uploads demo_presign ''b'' [demo_upload] demo_uploads = demo_stored"
  "\<exists>w. CreateUpload (artifact_service demo_presign ''b'') demo_upload demo_stored =
     (Inl (Wrapf ''create artifact upload slot'' artifact_constraint), w)"
  using demo_upload_eval by (auto simp: wp_def run_uploads_def split: prod.splits sum.splits)

theorem upload_slots_invariant_witness:
  "ft_slots demo_uploads = [] \<and> ft_slots (run_uploads demo_presign ''b'' [demo_upload] demo_uploads) \<noteq> [] \<and>
   slot_ok (artifact_service demo_presign ''b'') (hd (ft_slots (run_uploads demo_presign ''b'' [demo_upload] demo_uploads)))"
proof -
  have "ft_slots demo_stored \<noteq> []" by (simp add: demo_stored_def)
  then show ?thesis
    using upload_slots_invariant [OF demo_uploads_empty, of demo_presign "''b''" "[demo_upload]"]
      demo_uploads_empty by (simp add: demo_upload_runs(2))
qed

theorem upload_refused_only_for_used_id_witness:
  "\<exists>w'. CreateUpload (artifact_service demo_presign ''b'') demo_upload demo_stored =
     (Inl (Wrapf ''create artifact upload slot'' artifact_constraint), w') \<and>
   (\<exists>i ids. env_ids demo_stored = i # ids \<and> TrimSpace i \<in> slt_UploadID ` set (ft_slots demo_stored))"
  using demo_upload_runs(3) upload_refused_only_for_used_id [OF demo_uploads_empty demo_upload_runs(2) [symmetric]]
  by blast

theorem capability_accepted_by_agent_witness:
  "\<exists>r w'. CreateUpload (artifact_service demo_presign ''b'') demo_upload demo_uploads = (Inr r, w') \<and>
     slt_ExpiresAt (cus_Upload r) = slt_CreatedAt (cus_Upload r) + 15 * Minute"
  using demo_upload_runs(1) capability_accepted_by_agent by blast
end
