(* ===== verification/Authn.thy ===== *)
theory Authn
  imports Go_Decode "HOL-Library.Word"
begin

text \<open>
  Authentication and authorization: \<open>backend/internal/platform/authn/authn.go\<close>, \<open>service.go\<close>, \<open>cognito.go\<close>
  and \<open>postgres_repository.go\<close>, and \<open>backend/internal/domain/authorization/authorization.go\<close>.

  \<open>rsa.VerifyPKCS1v15\<close> over the SHA-256 digest is the parameter of the verifier, of type \<open>rsa_check\<close>. An HTTP
  exchange is an operation that returns a status and a body, and instants are integers, so that \<open>Time.Add\<close>
  does not saturate. The texts that \<open>%v\<close> and \<open>%s\<close> would print into an error are left out.
\<close>

section \<open>Words of a header\<close>

text \<open>\<open>strings.Fields\<close>: the words between runs of white space.\<close>

fun word_of :: "string \<Rightarrow> string" where
  "word_of [] = []"
| "word_of (c # s) = (if list_ex (\<lambda>p. take (length p) (c # s) = p) space_runes then [] else c # word_of s)"

function Fields :: "string \<Rightarrow> string list" where
  "Fields s =
     (let t = strip_front space_runes s in
      if t = [] then [] else word_of t # Fields (drop (max 1 (length (word_of t))) t))"
  by pat_completeness auto

lemma strip_front_length: "length (strip_front pats s) \<le> length s"
proof (induction pats s rule: strip_front.induct)
  case (1 pats s)
  then show ?case
    by (subst strip_front.simps) (auto split: option.split intro: le_trans)
qed

termination Fields
proof (relation "measure length", goal_cases)
  case (2 s t)
  then have t: "0 < length t" "length t \<le> length s" using strip_front_length [of space_runes s] by auto
  have "length t - max 1 (length (word_of t)) < length t" using t(1) by (intro diff_less) auto
  with t(2) show ?case by simp
qed simp

declare Fields.simps [simp del]

section \<open>Base64 of the URL alphabet without padding\<close>

definition base64url_value :: "char \<Rightarrow> nat option" where
  "base64url_value c =
     (if 65 \<le> byte c \<and> byte c \<le> 90 then Some (byte c - 65)
      else if 97 \<le> byte c \<and> byte c \<le> 122 then Some (byte c - 71)
      else if is_digit c then Some (byte c + 4)
      else if c = CHR ''-'' then Some 62
      else if c = CHR ''_'' then Some 63 else None)"

fun base64_groups :: "nat list \<Rightarrow> string option" where
  "base64_groups [] = Some []"
| "base64_groups [a] = None"
| "base64_groups [a, b] = Some [char_of (a * 4 + b div 16)]"
| "base64_groups [a, b, c] = Some [char_of (a * 4 + b div 16), char_of (b mod 16 * 16 + c div 4)]"
| "base64_groups (a # b # c # d # rest) =
     map_option (\<lambda>s. char_of (a * 4 + b div 16) # char_of (b mod 16 * 16 + c div 4) #
                     char_of (c mod 4 * 64 + d) # s) (base64_groups rest)"

text \<open>\<open>base64.RawURLEncoding.DecodeString\<close>: line breaks are skipped, trailing bits are not checked.\<close>

definition RawURL_DecodeString :: "string \<Rightarrow> string option" where
  "RawURL_DecodeString s =
     (let cs = filter (\<lambda>c. c \<noteq> CHR 0x0A \<and> c \<noteq> CHR 0x0D) s in
      if list_all (\<lambda>c. base64url_value c \<noteq> None) cs
      then base64_groups (map (\<lambda>c. the (base64url_value c)) cs) else None)"

section \<open>Tokens\<close>

record jwtHeader =
  jwh_Algorithm :: string
  jwh_KeyID :: string

record jwtBody =
  jwb_Subject :: string
  jwb_Issuer :: string
  jwb_Audience :: "string list"
  jwb_ClientID :: string
  jwb_TokenUse :: string
  jwb_Email :: string
  jwb_ExpiresAt :: int
  jwb_NotBefore :: int

text \<open>\<open>jwtAudience.UnmarshalJSON\<close>: one string or an array of them; \<open>null\<close> is the empty string.\<close>

fun dec_audience_value :: "json \<Rightarrow> string list option" where
  "dec_audience_value (JArr vs) = dec_all (\<lambda>v. dec_string [] [v]) vs"
| "dec_audience_value v = map_option (\<lambda>s. [s]) (dec_string [] [v])"

fun dec_audience :: "string list \<Rightarrow> json list \<Rightarrow> string list option" where
  "dec_audience cur [] = Some cur"
| "dec_audience cur (v # vs) =
     (case dec_audience_value v of None \<Rightarrow> None | Some a \<Rightarrow> dec_audience a vs)"

definition decodeJSONSegment :: "string list \<Rightarrow> string \<Rightarrow> (string \<Rightarrow> json list) option" where
  "decodeJSONSegment names segment =
     (case RawURL_DecodeString segment of
        None \<Rightarrow> None
      | Some data \<Rightarrow> map_option (field_values names) (struct_members data))"

definition jwt_header_of :: "(string \<Rightarrow> json list) \<Rightarrow> jwtHeader option" where
  "jwt_header_of fld =
     (case (dec_string [] (fld ''alg''), dec_string [] (fld ''kid'')) of
        (Some a, Some k) \<Rightarrow> Some \<lparr>jwh_Algorithm = a, jwh_KeyID = k\<rparr>
      | _ \<Rightarrow> None)"

definition jwt_body_of :: "(string \<Rightarrow> json list) \<Rightarrow> jwtBody option" where
  "jwt_body_of fld =
     (case (dec_string [] (fld ''sub''), dec_string [] (fld ''iss''), dec_audience [] (fld ''aud''),
            dec_string [] (fld ''client_id''), dec_string [] (fld ''token_use''), dec_string [] (fld ''email''),
            dec_int64 0 (fld ''exp''), dec_int64 0 (fld ''nbf'')) of
        (Some s, Some i, Some a, Some c, Some u, Some e, Some x, Some n) \<Rightarrow>
          Some \<lparr>jwb_Subject = s, jwb_Issuer = i, jwb_Audience = a, jwb_ClientID = c, jwb_TokenUse = u,
                jwb_Email = e, jwb_ExpiresAt = x, jwb_NotBefore = n\<rparr>
      | _ \<Rightarrow> None)"

definition parseJWT :: "string \<Rightarrow> go_error + jwtHeader \<times> jwtBody \<times> string \<times> string" where
  "parseJWT token =
     (case Split token (CHR ''.'') of
        [a, b, c] \<Rightarrow>
          (case Option.bind (decodeJSONSegment [''alg'', ''kid''] a) jwt_header_of of
             None \<Rightarrow> Inl (Errorf ''decode jwt header: %w'' [])
           | Some h \<Rightarrow>
               (case Option.bind (decodeJSONSegment
                        [''sub'', ''iss'', ''aud'', ''client_id'', ''token_use'', ''email'', ''exp'', ''nbf''] b)
                      jwt_body_of of
                  None \<Rightarrow> Inl (Errorf ''decode jwt body: %w'' [])
                | Some d \<Rightarrow>
                    (case RawURL_DecodeString c of
                       None \<Rightarrow> Inl (Errorf ''decode jwt signature: %w'' [])
                     | Some signature \<Rightarrow> Inr (h, d, a @ ''.'' @ b, signature))))
      | _ \<Rightarrow> Inl (Errorf ''jwt must have three segments'' []))"

definition matchesClientID :: "jwtBody \<Rightarrow> string \<Rightarrow> bool" where
  "matchesClientID b clientID = (jwb_ClientID b = clientID \<or> list_ex (\<lambda>a. a = clientID) (jwb_Audience b))"

definition audienceString :: "jwtBody \<Rightarrow> string" where
  "audienceString b = (if jwb_Audience b = [] then jwb_ClientID b else Join (jwb_Audience b) '','')"

section \<open>Keys\<close>

record RSAPublicKey =
  rsa_N :: nat
  rsa_E :: int

type_synonym rsa_check = "RSAPublicKey \<Rightarrow> string \<Rightarrow> string \<Rightarrow> bool"

record jwk =
  jwk_KeyType :: string
  jwk_KeyID :: string
  jwk_Use :: string
  jwk_Algorithm :: string
  jwk_Modulus :: string
  jwk_Exponent :: string

text \<open>\<open>exponent<<8 + int(b)\<close> on a 64-bit int, and \<open>big.Int.SetBytes\<close>.\<close>

definition exponent_of :: "string \<Rightarrow> int" where
  "exponent_of bs = sint (foldl (\<lambda>e b. push_bit 8 e + word_of_nat (byte b)) (0 :: 64 word) bs)"

definition SetBytes :: "string \<Rightarrow> nat" where
  "SetBytes bs = foldl (\<lambda>n b. 256 * n + byte b) 0 bs"

definition jwk_publicKey :: "jwk \<Rightarrow> go_error + RSAPublicKey" where
  "jwk_publicKey k =
     (if jwk_KeyID k = [] then Inl (Errorf ''jwks key id is required'' [])
      else if jwk_KeyType k \<noteq> ''RSA'' then Inl (Errorf ''unsupported jwks key type %q'' [jwk_KeyType k])
      else if jwk_Algorithm k \<noteq> [] \<and> jwk_Algorithm k \<noteq> ''RS256''
      then Inl (Errorf ''unsupported jwks key algorithm %q'' [jwk_Algorithm k])
      else (case RawURL_DecodeString (jwk_Modulus k) of
              None \<Rightarrow> Inl (Errorf ''decode jwks modulus: %w'' [])
            | Some n \<Rightarrow>
                (case RawURL_DecodeString (jwk_Exponent k) of
                   None \<Rightarrow> Inl (Errorf ''decode jwks exponent: %w'' [])
                 | Some e \<Rightarrow>
                     if exponent_of e = 0 then Inl (Errorf ''jwks exponent is empty'' [])
                     else Inr \<lparr>rsa_N = SetBytes n, rsa_E = exponent_of e\<rparr>)))"

definition jwk_of :: "json \<Rightarrow> jwk option" where
  "jwk_of v =
     (case dec_fields [''kty'', ''kid'', ''use'', ''alg'', ''n'', ''e''] [v] of
        None \<Rightarrow> None
      | Some fld \<Rightarrow>
          (case (dec_string [] (fld ''kty''), dec_string [] (fld ''kid''), dec_string [] (fld ''use''),
                 dec_string [] (fld ''alg''), dec_string [] (fld ''n''), dec_string [] (fld ''e'')) of
             (Some t, Some i, Some u, Some a, Some n, Some e) \<Rightarrow>
               Some \<lparr>jwk_KeyType = t, jwk_KeyID = i, jwk_Use = u, jwk_Algorithm = a, jwk_Modulus = n,
                     jwk_Exponent = e\<rparr>
           | _ \<Rightarrow> None))"

text \<open>\<open>json.NewDecoder(...).Decode\<close>: the first value of the text, whatever follows it.\<close>

definition json_first :: "string \<Rightarrow> json option" where
  "json_first s = map_option fst (parse_value (2 * length s + 1) max_depth s)"

definition jwksDocument_of :: "string \<Rightarrow> jwk list option" where
  "jwksDocument_of body =
     (case json_first body of
        None \<Rightarrow> None
      | Some v \<Rightarrow> Option.bind (dec_fields [''keys''] [v]) (\<lambda>fld. dec_slice jwk_of [] (fld ''keys'')))"

text \<open>The keys of a document, the last of one key id first; one bad key makes the whole document one.\<close>

fun jwks_keys :: "(string \<times> RSAPublicKey) list \<Rightarrow> jwk list \<Rightarrow> go_error + (string \<times> RSAPublicKey) list" where
  "jwks_keys acc [] = Inr acc"
| "jwks_keys acc (k # ks) =
     (case jwk_publicKey k of Inl e \<Rightarrow> Inl e | Inr p \<Rightarrow> jwks_keys ((jwk_KeyID k, p) # acc) ks)"

definition keys_of_document :: "string \<Rightarrow> go_error + (string \<times> RSAPublicKey) list" where
  "keys_of_document body =
     (case jwksDocument_of (take (2 ^ 20) body) of
        None \<Rightarrow> Inl (Errorf ''decode jwks: %w'' [])
      | Some ks \<Rightarrow> jwks_keys [] ks)"

section \<open>The verifier\<close>

definition jwksCacheTTL :: duration where "jwksCacheTTL = Hour"
definition jwtClockSkew :: duration where "jwtClockSkew = Minute"
definition defaultCognitoTokenUse :: string where "defaultCognitoTokenUse = ''access''"

record CognitoVerifierConfig =
  cvc_Issuer :: string
  cvc_ClientID :: string
  cvc_TokenUse :: string
  cvc_JWKSURL :: string

text \<open>\<open>os.Getenv\<close>: an unset variable is the empty string.\<close>

definition getenvDefault :: "(string \<Rightarrow> string) \<Rightarrow> string \<Rightarrow> string \<Rightarrow> string" where
  "getenvDefault env name fallback = (if env name = [] then fallback else env name)"

definition LoadCognitoConfigFromEnv :: "(string \<Rightarrow> string) \<Rightarrow> CognitoVerifierConfig" where
  "LoadCognitoConfigFromEnv env =
     \<lparr>cvc_Issuer = env ''HOMESIGNAL_COGNITO_ISSUER'', cvc_ClientID = env ''HOMESIGNAL_COGNITO_CLIENT_ID'',
      cvc_TokenUse = getenvDefault env ''HOMESIGNAL_COGNITO_TOKEN_USE'' defaultCognitoTokenUse,
      cvc_JWKSURL = env ''HOMESIGNAL_COGNITO_JWKS_URL''\<rparr>"

definition cognito_Enabled :: "CognitoVerifierConfig \<Rightarrow> bool" where
  "cognito_Enabled c = (TrimSpace (cvc_Issuer c) \<noteq> [] \<or> TrimSpace (cvc_ClientID c) \<noteq> [] \<or> TrimSpace (cvc_JWKSURL c) \<noteq> [])"

definition cognito_normalized :: "CognitoVerifierConfig \<Rightarrow> go_error + CognitoVerifierConfig" where
  "cognito_normalized c =
     (let issuer = TrimRightChar (CHR ''/'') (TrimSpace (cvc_Issuer c));
          clientID = TrimSpace (cvc_ClientID c);
          tokenUse = TrimSpace (cvc_TokenUse c);
          url = TrimSpace (cvc_JWKSURL c) in
      if issuer = [] then Inl (Errorf ''HOMESIGNAL_COGNITO_ISSUER is required'' [])
      else if clientID = [] then Inl (Errorf ''HOMESIGNAL_COGNITO_CLIENT_ID is required'' [])
      else Inr \<lparr>cvc_Issuer = issuer, cvc_ClientID = clientID,
                cvc_TokenUse = (if tokenUse = [] then defaultCognitoTokenUse else tokenUse),
                cvc_JWKSURL = (if url = [] then issuer @ ''/.well-known/jwks.json'' else url)\<rparr>)"

text \<open>The key set: its URL, its client and its clock, and the cache as a part of the world.\<close>

record jwks_cache =
  jwc_keys :: "(string \<times> RSAPublicKey) list option"
  jwc_expiresAt :: time

record 'w remoteJWKSet =
  jws_url :: string
  jws_get :: "string \<Rightarrow> ('w, nat \<times> string) op"
  jws_cache :: "'w \<Rightarrow> jwks_cache"
  jws_set_cache :: "jwks_cache \<Rightarrow> 'w \<Rightarrow> 'w"
  jws_now :: "('w, time) effect"

record 'w CognitoVerifier =
  cgv_cfg :: CognitoVerifierConfig
  cgv_jwks :: "'w remoteJWKSet"
  cgv_Now :: "('w, time) effect"

definition NewCognitoVerifier ::
  "CognitoVerifierConfig \<Rightarrow> 'w remoteJWKSet \<Rightarrow> ('w, time) effect \<Rightarrow> go_error + 'w CognitoVerifier" where
  "NewCognitoVerifier cfg keyset now =
     (case cognito_normalized cfg of
        Inl e \<Rightarrow> Inl e
      | Inr c \<Rightarrow> Inr \<lparr>cgv_cfg = c, cgv_jwks = keyset\<lparr>jws_url := cvc_JWKSURL c\<rparr>, cgv_Now = now\<rparr>)"

definition jwks_fetch :: "'w remoteJWKSet \<Rightarrow> ('w, (string \<times> RSAPublicKey) list) op" where
  "jwks_fetch s =
     bindE (wrapE ''fetch jwks'' (jws_get s (jws_url s))) (\<lambda>(status, body).
     bindE (failIf (status \<noteq> 200) (Errorf ''fetch jwks: status %d'' [])) (\<lambda>_.
     pureE (keys_of_document body)))"

definition cachedKey :: "'w remoteJWKSet \<Rightarrow> string \<Rightarrow> bool \<Rightarrow> ('w, RSAPublicKey option) op" where
  "cachedKey s keyID forceRefresh =
     bindE (liftE (jws_now s)) (\<lambda>now.
     bindE (\<lambda>w. (Inr (jws_cache s w), w)) (\<lambda>c.
     if forceRefresh \<or> jwc_keys c = None \<or> After now (jwc_expiresAt c)
     then bindE (jwks_fetch s) (\<lambda>keys.
          bindE (\<lambda>w. (Inr (), jws_set_cache s \<lparr>jwc_keys = Some keys, jwc_expiresAt = now + jwksCacheTTL\<rparr> w)) (\<lambda>_.
          ret (map_of keys keyID)))
     else ret (map_of (the (jwc_keys c)) keyID)))"

definition jwks_publicKey :: "'w remoteJWKSet \<Rightarrow> string \<Rightarrow> ('w, RSAPublicKey) op" where
  "jwks_publicKey s keyID =
     bindE (failIf (keyID = []) (Errorf ''key id is required'' [])) (\<lambda>_.
     bindE (cachedKey s keyID False) (\<lambda>found.
     case found of
       Some key \<Rightarrow> ret key
     | None \<Rightarrow>
         bindE (cachedKey s keyID True) (\<lambda>found.
         case found of
           Some key \<Rightarrow> ret key
         | None \<Rightarrow> fail (Errorf ''jwt key %q not found'' [keyID]))))"

record Claims =
  clm_Subject :: string
  clm_Email :: string
  clm_Issuer :: string
  clm_Audience :: string
  clm_TokenUse :: string

text \<open>\<open>time.Unix(sec, 0)\<close>: the seconds since year 1 wrap around in 64 bits.\<close>

definition Unix :: "int \<Rightarrow> time" where
  "Unix sec = sint (word_of_int (sec + 62135596800) :: 64 word) * 1000000000"

definition check_claims :: "CognitoVerifierConfig \<Rightarrow> jwtBody \<Rightarrow> time \<Rightarrow> go_error option" where
  "check_claims cfg body now = first_error
     [(jwb_Issuer body \<noteq> cvc_Issuer cfg, Errorf ''issuer mismatch'' []),
      (jwb_Subject body = [], Errorf ''subject is required'' []),
      (jwb_TokenUse body \<noteq> cvc_TokenUse cfg, Errorf ''token_use mismatch'' []),
      (\<not> matchesClientID body (cvc_ClientID cfg), Errorf ''client id mismatch'' []),
      (jwb_ExpiresAt body = 0 \<or> After now (Unix (jwb_ExpiresAt body) + jwtClockSkew), Errorf ''token expired'' []),
      (jwb_NotBefore body \<noteq> 0 \<and> Before (now + jwtClockSkew) (Unix (jwb_NotBefore body)),
       Errorf ''token is not valid yet'' [])]"

definition VerifyBearerToken :: "rsa_check \<Rightarrow> 'w CognitoVerifier \<Rightarrow> string \<Rightarrow> ('w, Claims) op" where
  "VerifyBearerToken rsa v token =
     bindE (pureE (parseJWT token)) (\<lambda>(header, body, signed, signature).
     bindE (failIf (jwh_Algorithm header \<noteq> ''RS256'')
              (Errorf ''unsupported jwt algorithm %q'' [jwh_Algorithm header])) (\<lambda>_.
     bindE (failIf (TrimSpace (jwh_KeyID header) = []) (Errorf ''jwt key id is required'' [])) (\<lambda>_.
     bindE (jwks_publicKey (cgv_jwks v) (jwh_KeyID header)) (\<lambda>key.
     bindE (failIf (\<not> rsa key signed signature) (Errorf ''verify jwt signature: %w'' [])) (\<lambda>_.
     bindE (liftE (cgv_Now v)) (\<lambda>now.
     bindE (check (check_claims (cgv_cfg v) body (UTC now))) (\<lambda>_.
     ret \<lparr>clm_Subject = jwb_Subject body, clm_Email = jwb_Email body, clm_Issuer = jwb_Issuer body,
          clm_Audience = audienceString body, clm_TokenUse = jwb_TokenUse body\<rparr>)))))))"

section \<open>People and services\<close>

definition ErrMissingCredential :: go_error where "ErrMissingCredential = Sentinel ''missing credential''"
definition ErrInvalidCredential :: go_error where "ErrInvalidCredential = Sentinel ''invalid credential''"
definition ErrUserNotFound :: go_error where "ErrUserNotFound = Sentinel ''user not found''"
definition ErrUserDisabled :: go_error where "ErrUserDisabled = Sentinel ''user disabled''"

lemmas auth_errors = ErrMissingCredential_def ErrInvalidCredential_def ErrUserNotFound_def ErrUserDisabled_def

record UserSubject =
  usr_ID :: string
  usr_CognitoSub :: string
  usr_Email :: string
  usr_Status :: string

record Subject =
  sub_Type :: string
  sub_ID :: string
  sub_AuthMethod :: string
  sub_Email :: string

record 'w AuthRepository =
  aup_GetUserByCognitoSub :: "string \<Rightarrow> ('w, UserSubject) op"
  aup_ListPermissionKeys :: "string \<Rightarrow> string \<Rightarrow> string \<Rightarrow> ('w, string list) op"

record 'w HumanAuthenticator =
  hau_Verifier :: "(string \<Rightarrow> ('w, Claims) op) option"
  hau_Users :: "'w AuthRepository option"

definition BearerToken :: "string \<Rightarrow> go_error + string" where
  "BearerToken authorizationHeader =
     (case Fields authorizationHeader of
        [scheme, token] \<Rightarrow>
          if \<not> EqualFold scheme ''Bearer'' \<or> TrimSpace token = [] then Inl ErrMissingCredential else Inr token
      | _ \<Rightarrow> Inl ErrMissingCredential)"

text \<open>\<open>fmt.Errorf("%w: %v", sentinel, err)\<close>: the error wraps the sentinel only.\<close>

definition markE :: "go_error \<Rightarrow> ('w, 'a) op \<Rightarrow> ('w, 'a) op" where
  "markE sentinel m w = (case m w of (Inl e, w') \<Rightarrow> (Inl (Wrapf ''%w: %v'' sentinel), w') | (Inr a, w') \<Rightarrow> (Inr a, w'))"

definition Authenticate :: "'w HumanAuthenticator \<Rightarrow> string \<Rightarrow> ('w, Subject) op" where
  "Authenticate a authorizationHeader =
     bindE (required (hau_Verifier a) (Errorf ''auth verifier is required'' [])) (\<lambda>verify.
     bindE (required (hau_Users a) (Errorf ''auth repository is required'' [])) (\<lambda>users.
     bindE (pureE (BearerToken authorizationHeader)) (\<lambda>token.
     bindE (markE ErrInvalidCredential (verify token)) (\<lambda>claims.
     bindE (failIf (TrimSpace (clm_Subject claims) = []) (Wrapf ''%w: subject is empty'' ErrInvalidCredential)) (\<lambda>_.
     bindE (markE ErrUserNotFound (aup_GetUserByCognitoSub users (clm_Subject claims))) (\<lambda>user.
     bindE (failIf (usr_Status user \<noteq> ''active'') ErrUserDisabled) (\<lambda>_.
     ret \<lparr>sub_Type = ''user'', sub_ID = usr_ID user, sub_AuthMethod = ''cognito_jwt'', sub_Email = usr_Email user\<rparr>)))))))"

record ServiceSubject =
  svs_Type :: string
  svs_ID :: string
  svs_Principal :: string
  svs_AuthMethod :: string

definition ErrMissingServiceCredential :: go_error where
  "ErrMissingServiceCredential = Sentinel ''missing service credential''"
definition ErrUnknownServicePrincipal :: go_error where
  "ErrUnknownServicePrincipal = Sentinel ''unknown service principal''"

type_synonym StaticServiceAuthenticator = "(string \<times> string) list"

definition DefaultStaticServiceAuthenticator :: StaticServiceAuthenticator where
  "DefaultStaticServiceAuthenticator = [(''service:telemetry-ingest'', ''service:telemetry-ingest'')]"

definition AuthenticateService :: "StaticServiceAuthenticator \<Rightarrow> string \<Rightarrow> go_error + ServiceSubject" where
  "AuthenticateService principals credential =
     (let principal = TrimSpace credential in
      if principal = [] then Inl ErrMissingServiceCredential
      else (case map_of principals principal of
              None \<Rightarrow> Inl (Wrapf ''%w: %s'' ErrUnknownServicePrincipal)
            | Some subjectID \<Rightarrow>
                if TrimSpace subjectID = [] then Inl (Wrapf ''%w: %s'' ErrUnknownServicePrincipal)
                else Inr \<lparr>svs_Type = ''service'', svs_ID = subjectID, svs_Principal = principal,
                          svs_AuthMethod = ''static_service_principal''\<rparr>))"

section \<open>Permissions\<close>

record Resource =
  rsc_Type :: string
  rsc_ID :: string
  rsc_AccountID :: string
  rsc_SiteID :: string

record Decision =
  dcs_Allowed :: bool
  dcs_Reason :: string

text \<open>\<open>^[a-z][a-z0-9_]*:[a-z][a-z0-9_]*$\<close>.\<close>

definition lower_letter :: "char \<Rightarrow> bool" where
  "lower_letter c = (97 \<le> byte c \<and> byte c \<le> 122)"

definition action_word :: "string \<Rightarrow> bool" where
  "action_word s =
     (case s of [] \<Rightarrow> False
      | c # r \<Rightarrow> lower_letter c \<and> list_all (\<lambda>x. lower_letter x \<or> is_digit x \<or> x = CHR ''_'') r)"

definition ValidAction :: "string \<Rightarrow> bool" where
  "ValidAction action = (case Cut action (CHR '':'') of (a, b, found) \<Rightarrow> found \<and> action_word a \<and> action_word b)"

definition Can ::
  "'w AuthRepository option \<Rightarrow> string \<Rightarrow> string \<Rightarrow> string \<Rightarrow> Resource \<Rightarrow> ('w, Decision) op" where
  "Can auth subjectType subjectID action resource =
     (if \<not> ValidAction action then ret \<lparr>dcs_Allowed = False, dcs_Reason = ''invalid_action''\<rparr>
      else if subjectType \<noteq> ''user'' \<or> subjectID = [] then
        ret \<lparr>dcs_Allowed = False, dcs_Reason = ''unsupported_subject''\<rparr>
      else
        bindE (required auth (Errorf ''auth repository is required'' [])) (\<lambda>repo.
        bindE (wrapE ''list permissions''
                 (aup_ListPermissionKeys repo subjectID (rsc_AccountID resource) (rsc_SiteID resource))) (\<lambda>permissions.
        ret (if list_ex (\<lambda>p. p = action) permissions
             then \<lparr>dcs_Allowed = True, dcs_Reason = ''permission_granted''\<rparr>
             else \<lparr>dcs_Allowed = False, dcs_Reason = ''permission_missing''\<rparr>))))"

end
