(* ===== verification/Control_Plane.thy ===== *)
theory Control_Plane
  imports Authn Go_Crypto_Url
begin

text \<open>
  The HTTP shell of the control plane: \<open>backend/internal/controlplane/app.go\<close>, \<open>routes.go\<close>,
  \<open>idempotency.go\<close> and \<open>read_models.go\<close>, with \<open>backend/internal/platform/api/context.go\<close> and \<open>response.go\<close>.

  A header map is a list of pairs in the order an iteration meets them. A handler is an operation that never
  fails; what it answers is a \<open>Response\<close>. The payload of a read model is the text \<open>json.Marshal\<close> makes of it,
  or None. Mutexes are not modelled: an idempotent call is the sequence of its two locked parts,
  \<open>idempotency_lookup\<close> and \<open>idempotency_store\<close>, around the call of the producer. The request log is left out.
\<close>

section \<open>Requests and responses\<close>

record RequestContext =
  rqc_RequestID :: string
  rqc_CorrelationID :: string
  rqc_CorrelationIDSource :: string
  rqc_ActorType :: string
  rqc_ActorID :: string
  rqc_AuthMethod :: string
  rqc_SourceIP :: string
  rqc_UserAgent :: string
  rqc_RouteTemplate :: string
  rqc_IdempotencyKey :: string

type_synonym headers = "(string \<times> string) list"

record Response =
  rsp_StatusCode :: nat
  rsp_Headers :: headers
  rsp_Body :: string

definition set_header :: "string \<Rightarrow> string \<Rightarrow> headers \<Rightarrow> headers" where
  "set_header k v hs = filter (\<lambda>p. fst p \<noteq> k) hs @ [(k, v)]"

definition with_header :: "string \<Rightarrow> string \<Rightarrow> Response \<Rightarrow> Response" where
  "with_header k v r = r\<lparr>rsp_Headers := set_header k v (rsp_Headers r)\<rparr>"

definition JSONResponse :: "nat \<Rightarrow> string option \<Rightarrow> Response" where
  "JSONResponse status marshalled =
     (let hs = [(''Content-Type'', ''application/json; charset=utf-8'')] in
      case marshalled of
        Some payload \<Rightarrow> \<lparr>rsp_StatusCode = status, rsp_Headers = hs, rsp_Body = payload\<rparr>
      | None \<Rightarrow> \<lparr>rsp_StatusCode = 500, rsp_Headers = hs,
          rsp_Body = object_text [(''error'', object_text [(''code'', quote ''INTERNAL_ERROR''),
            (''message'', quote ''Internal error.''), (''request_id'', quote ''unknown'')])]\<rparr>)"

definition NewErrorEnvelope :: "RequestContext \<Rightarrow> string \<Rightarrow> string \<Rightarrow> string" where
  "NewErrorEnvelope ctx code message =
     object_text [(''error'', object_text [(''code'', quote code), (''message'', quote message),
       (''request_id'', quote (rqc_RequestID ctx))])]"

definition errorResponse :: "RequestContext \<Rightarrow> nat \<Rightarrow> string \<Rightarrow> string \<Rightarrow> Response" where
  "errorResponse ctx status code message = JSONResponse status (Some (NewErrorEnvelope ctx code message))"

definition headerValue :: "headers \<Rightarrow> string \<Rightarrow> string" where
  "headerValue hs name = (case find (\<lambda>(k, v). EqualFold k name) hs of None \<Rightarrow> [] | Some (k, v) \<Rightarrow> v)"

section \<open>Routes\<close>

datatype publicAuthBoundary = publicAuthHuman | publicAuthEnrollment

record routeSpec =
  rte_Method :: string
  rte_Pattern :: string

record publicRouteSpec = routeSpec +
  rte_OperationID :: string
  rte_Auth :: publicAuthBoundary
  rte_RequiresIdempotency :: bool

definition get_route :: "string \<Rightarrow> string \<Rightarrow> publicRouteSpec" where
  "get_route pattern operation =
     \<lparr>rte_Method = ''GET'', rte_Pattern = pattern, rte_OperationID = operation, rte_Auth = publicAuthHuman,
      rte_RequiresIdempotency = False\<rparr>"

definition publicRouteSpecs :: "publicRouteSpec list" where
  "publicRouteSpecs =
     [get_route ''/api/v1/dashboard'' ''getDashboard'', get_route ''/api/v1/devices'' ''listDevices'',
      get_route ''/api/v1/activity'' ''listActivity'', get_route ''/api/v1/alerts'' ''listAlerts'',
      get_route ''/api/v1/alert-recipients'' ''listAlertRecipients'',
      \<lparr>rte_Method = ''POST'', rte_Pattern = ''/api/v1/sites/{site_id}/device-claim-invites'',
       rte_OperationID = ''createDeviceClaimInvite'', rte_Auth = publicAuthHuman, rte_RequiresIdempotency = True\<rparr>,
      \<lparr>rte_Method = ''POST'', rte_Pattern = ''/api/v1/device-enrollment/claim-invites/verify'',
       rte_OperationID = ''verifyClaimInvite'', rte_Auth = publicAuthEnrollment, rte_RequiresIdempotency = False\<rparr>,
      \<lparr>rte_Method = ''POST'',
       rte_Pattern = ''/api/v1/device-enrollment/claim-verifications/{claim_verification_id}/confirm'',
       rte_OperationID = ''confirmClaimVerification'', rte_Auth = publicAuthEnrollment,
       rte_RequiresIdempotency = True\<rparr>]"

definition agentRouteSpecs :: "routeSpec list" where
  "agentRouteSpecs =
     [\<lparr>rte_Method = ''GET'', rte_Pattern = ''/agent/commands/{command_id}''\<rparr>,
      \<lparr>rte_Method = ''POST'', rte_Pattern = ''/agent/commands/{command_id}/ack''\<rparr>,
      \<lparr>rte_Method = ''POST'', rte_Pattern = ''/agent/commands/{command_id}/artifact-upload''\<rparr>,
      \<lparr>rte_Method = ''POST'', rte_Pattern = ''/agent/artifact-uploads/{upload_id}/complete''\<rparr>,
      \<lparr>rte_Method = ''POST'', rte_Pattern = ''/agent/commands/{command_id}/result''\<rparr>,
      \<lparr>rte_Method = ''POST'', rte_Pattern = ''/agent/telemetry''\<rparr>,
      \<lparr>rte_Method = ''POST'', rte_Pattern = ''/agent/events''\<rparr>]"

definition internalRouteSpecs :: "routeSpec list" where
  "internalRouteSpecs = [\<lparr>rte_Method = ''POST'', rte_Pattern = ''/internal/alert-candidates''\<rparr>]"

definition splitRoute :: "string \<Rightarrow> string list" where
  "splitRoute v = (let t = TrimChar (CHR ''/'') v in if t = [] then [] else Split t (CHR ''/''))"

fun parts_match :: "string list \<Rightarrow> string list \<Rightarrow> bool" where
  "parts_match [] [] = True"
| "parts_match (p # ps) (q # qs) =
     ((if HasPrefix p ''{'' \<and> HasSuffix p ''}'' then q \<noteq> [] else p = q) \<and> parts_match ps qs)"
| "parts_match _ _ = False"

definition routePatternMatches :: "string \<Rightarrow> string \<Rightarrow> bool" where
  "routePatternMatches pattern path =
     (if length (splitRoute pattern) \<noteq> length (splitRoute path) then False
      else parts_match (splitRoute pattern) (splitRoute path))"

text \<open>The route, if one was found, and whether a route of another method matches the path.\<close>

fun find_route :: "string \<Rightarrow> string \<Rightarrow> bool \<Rightarrow> 'x routeSpec_scheme list \<Rightarrow> 'x routeSpec_scheme option \<times> bool" where
  "find_route meth path matched [] = (None, matched)"
| "find_route meth path matched (r # rs) =
     (if routePatternMatches (rte_Pattern r) path
      then (if rte_Method r = meth then (Some r, False) else find_route meth path True rs)
      else find_route meth path matched rs)"

definition findPublicRoute :: "string \<Rightarrow> string \<Rightarrow> publicRouteSpec option \<times> bool" where
  "findPublicRoute meth path = find_route meth path False publicRouteSpecs"

definition findRoute :: "string \<Rightarrow> string \<Rightarrow> routeSpec list \<Rightarrow> routeSpec option \<times> bool" where
  "findRoute meth path routes = find_route meth path False routes"

definition operationalPathExists :: "string \<Rightarrow> bool" where
  "operationalPathExists path = (path \<in> set [''/healthz'', ''/readyz'', ''/version''])"

definition operationalRoutes :: "string \<Rightarrow> string \<Rightarrow> string option" where
  "operationalRoutes meth path =
     (if meth \<noteq> ''GET'' then None else if operationalPathExists path then Some path else None)"

section \<open>Idempotency keys\<close>

record idempotencyEntry =
  ide_requestHash :: string
  ide_expiresAt :: time
  ide_response :: Response

record rateBucket =
  rbk_resetAt :: time
  rbk_count :: int

record control_world = env +
  cpw_entries :: "string \<Rightarrow> idempotencyEntry option"
  cpw_buckets :: "string \<Rightarrow> rateBucket option"
  cpw_counter :: nat

definition requestHash :: "string \<Rightarrow> string \<Rightarrow> string \<Rightarrow> string" where
  "requestHash meth path body = sha256_hex (meth @ [CHR 0x0A] @ path @ [CHR 0x0A] @ body)"

datatype lookup_result = Replay Response | Reused | Miss

definition idempotency_lookup ::
  "time \<Rightarrow> string \<Rightarrow> string \<Rightarrow> ('x control_world_scheme, lookup_result) op" where
  "idempotency_lookup now cacheKey hash w =
     (case cpw_entries w cacheKey of
        None \<Rightarrow> (Inr Miss, w)
      | Some existing \<Rightarrow>
          if After now (ide_expiresAt existing) then (Inr Miss, w\<lparr>cpw_entries := (cpw_entries w)(cacheKey := None)\<rparr>)
          else if ide_requestHash existing \<noteq> hash then (Inr Reused, w)
          else (Inr (Replay (with_header ''X-HomeSignal-Idempotency-Replayed'' ''true'' (ide_response existing))), w))"

definition idempotency_store ::
  "duration \<Rightarrow> time \<Rightarrow> string \<Rightarrow> string \<Rightarrow> Response \<Rightarrow> ('x control_world_scheme, unit) op" where
  "idempotency_store ttl now cacheKey hash response w =
     (Inr (), w\<lparr>cpw_entries := (cpw_entries w)(cacheKey \<mapsto>
        \<lparr>ide_requestHash = hash, ide_expiresAt = now + ttl, ide_response = response\<rparr>)\<rparr>)"

text \<open>What follows the lookup: the stored answer, 409, or a new answer that is stored.\<close>

definition idempotency_finish ::
  "duration \<Rightarrow> RequestContext \<Rightarrow> time \<Rightarrow> string \<Rightarrow> string \<Rightarrow> ('x control_world_scheme, Response) op \<Rightarrow> lookup_result \<Rightarrow>
   ('x control_world_scheme, Response) op" where
  "idempotency_finish ttl ctx now cacheKey hash produce found =
     (case found of
        Replay response \<Rightarrow> ret response
      | Reused \<Rightarrow> ret (errorResponse ctx 409 ''IDEMPOTENCY_KEY_REUSED''
          ''Idempotency key was reused with a different request.'')
      | Miss \<Rightarrow>
          bindE produce (\<lambda>response.
          bindE (idempotency_store ttl now cacheKey hash response) (\<lambda>_.
          ret response)))"

definition getOrStore ::
  "duration \<Rightarrow> RequestContext \<Rightarrow> string \<Rightarrow> string \<Rightarrow> string \<Rightarrow> ('x control_world_scheme, Response) op \<Rightarrow>
   ('x control_world_scheme, Response) op" where
  "getOrStore ttl ctx scope key hash produce =
     bindE (liftE read_clock) (\<lambda>now.
     let cacheKey = scope @ ''|'' @ key in
     bindE (idempotency_lookup now cacheKey hash) (\<lambda>found.
     idempotency_finish ttl ctx now cacheKey hash produce found))"

section \<open>Rate limits\<close>

text \<open>\<open>int(d.Seconds())\<close>: towards zero.\<close>

definition whole_seconds :: "duration \<Rightarrow> int" where
  "whole_seconds d = (if 0 \<le> d then d div 1000000000 else - ((- d) div 1000000000))"

definition count_request :: "duration \<Rightarrow> time \<Rightarrow> rateBucket option \<Rightarrow> rateBucket" where
  "count_request window now found =
     (let bucket = (case found of None \<Rightarrow> \<lparr>rbk_resetAt = zero_time, rbk_count = 0\<rparr> | Some b \<Rightarrow> b);
          bucket = (if IsZero (rbk_resetAt bucket) \<or> \<not> Before now (rbk_resetAt bucket)
            then \<lparr>rbk_resetAt = now + window, rbk_count = 0\<rparr> else bucket) in
      bucket\<lparr>rbk_count := rbk_count bucket + 1\<rparr>)"

definition limiter_allow :: "int \<Rightarrow> duration \<Rightarrow> string \<Rightarrow> ('x control_world_scheme, bool \<times> int) op" where
  "limiter_allow limit window scope =
     bindE (liftE read_clock) (\<lambda>now.
     bindE (\<lambda>w. let bucket = count_request window now (cpw_buckets w scope) in
       (Inr bucket, w\<lparr>cpw_buckets := (cpw_buckets w)(scope \<mapsto> bucket)\<rparr>)) (\<lambda>bucket.
     if rbk_count bucket \<le> limit then ret (True, 0)
     else bindE (liftE read_clock) (\<lambda>later.
          ret (False, max 1 (whole_seconds (rbk_resetAt bucket - later))))))"

definition rateLimitedResponse :: "RequestContext \<Rightarrow> int \<Rightarrow> Response" where
  "rateLimitedResponse ctx retryAfter =
     with_header ''Retry-After'' (Itoa (nat retryAfter)) (errorResponse ctx 429 ''RATE_LIMITED'' ''Too many requests.'')"

definition rateLimitSubject :: "RequestContext \<Rightarrow> string" where
  "rateLimitSubject ctx =
     (if rqc_ActorID ctx \<noteq> [] then rqc_ActorType ctx @ '':'' @ rqc_ActorID ctx
      else if rqc_SourceIP ctx \<noteq> [] then rqc_SourceIP ctx else ''synthetic'')"

section \<open>The application\<close>

record AppConfig =
  acf_ServiceName :: string
  acf_Environment :: string
  acf_Version :: string

record 'w PublicReadModelProvider =
  rmp_Dashboard :: "Subject \<Rightarrow> ('w, string option) op"
  rmp_Devices :: "Subject \<Rightarrow> ('w, string option) op"
  rmp_Activity :: "Subject \<Rightarrow> ('w, string option) op"

record 'w App =
  app_cfg :: AppConfig
  app_ttl :: duration
  app_rateLimiter :: "(int \<times> duration) option"
  app_services :: StaticServiceAuthenticator
  app_humanAuthenticator :: "(string \<Rightarrow> ('w, Subject) op) option"
  app_publicReadModels :: "'w PublicReadModelProvider option"

definition NewApp ::
  "AppConfig \<Rightarrow> (string \<Rightarrow> ('w, Subject) op) option \<Rightarrow> 'w PublicReadModelProvider option \<Rightarrow> 'w App" where
  "NewApp cfg human models =
     \<lparr>app_cfg = cfg, app_ttl = 10 * Minute, app_rateLimiter = Some (600, Minute),
      app_services = DefaultStaticServiceAuthenticator, app_humanAuthenticator = human,
      app_publicReadModels = models\<rparr>"

definition allowRoute ::
  "('x control_world_scheme) App \<Rightarrow> RequestContext \<Rightarrow> string \<Rightarrow> ('x control_world_scheme, bool \<times> int) op" where
  "allowRoute a ctx routePattern =
     (case app_rateLimiter a of
        None \<Rightarrow> ret (True, 0)
      | Some (limit, window) \<Rightarrow> limiter_allow limit window (routePattern @ ''|'' @ rateLimitSubject ctx))"

definition handleOperationalRoute :: "'w App \<Rightarrow> string \<Rightarrow> Response" where
  "handleOperationalRoute a path =
     (let cfg = app_cfg a;
          service = (''service'', quote (acf_ServiceName cfg));
          environment = (''environment'', quote (acf_Environment cfg));
          version = (''version'', quote (acf_Version cfg)) in
      if path = ''/healthz'' then
        JSONResponse 200 (Some (object_text [environment, service, (''status'', quote ''ok''), version]))
      else if path = ''/readyz'' then
        JSONResponse 200 (Some (object_text [(''checks'', object_text [(''process'', quote ''ok'')]), environment,
          service, (''status'', quote ''ready''), version]))
      else if path = ''/version'' then JSONResponse 200 (Some (object_text [environment, service, version]))
      else JSONResponse 500 (Some (object_text [(''error'', quote ''unregistered operational route'')])))"

definition not_found :: "RequestContext \<Rightarrow> bool \<Rightarrow> Response" where
  "not_found ctx pathMatched =
     (if pathMatched then errorResponse ctx 405 ''METHOD_NOT_ALLOWED'' ''Method not allowed.''
      else errorResponse ctx 404 ''NOT_FOUND'' ''Not found.'')"

definition handlePublicReadModelRoute ::
  "'w App \<Rightarrow> RequestContext \<Rightarrow> publicRouteSpec \<Rightarrow> Subject \<Rightarrow> ('w, Response option) op" where
  "handlePublicReadModelRoute a ctx route subject =
     (case app_publicReadModels a of
        None \<Rightarrow> ret None
      | Some models \<Rightarrow>
          if rte_Method route \<noteq> ''GET'' then ret None
          else
            (case (if rte_OperationID route = ''getDashboard'' then Some (rmp_Dashboard models subject)
                   else if rte_OperationID route = ''listDevices'' then Some (rmp_Devices models subject)
                   else if rte_OperationID route = ''listActivity'' then Some (rmp_Activity models subject)
                   else None) of
               None \<Rightarrow> ret None
             | Some call \<Rightarrow>
                 bindE (attemptE call) (\<lambda>r. ret (Some
                   (case r of
                      Inl e \<Rightarrow> errorResponse ctx 500 ''READ_MODEL_UNAVAILABLE'' ''Read model is unavailable.''
                    | Inr payload \<Rightarrow> JSONResponse 200 payload)))))"

definition authenticateHuman ::
  "'w App \<Rightarrow> RequestContext \<Rightarrow> headers \<Rightarrow> ('w, Response + Subject) op" where
  "authenticateHuman a ctx hs =
     (case app_humanAuthenticator a of
        None \<Rightarrow> ret (Inl (errorResponse ctx 503 ''AUTHENTICATION_UNCONFIGURED'' ''Human authentication is not configured.''))
      | Some authenticate \<Rightarrow>
          bindE (attemptE (authenticate (headerValue hs ''Authorization''))) (\<lambda>r. ret
            (case r of
               Inr subject \<Rightarrow> Inr subject
             | Inl e \<Rightarrow>
                 if errors_Is e ErrMissingCredential
                 then Inl (errorResponse ctx 401 ''AUTHENTICATION_REQUIRED'' ''Authentication required.'')
                 else Inl (errorResponse ctx 401 ''AUTHENTICATION_INVALID'' ''Authentication failed.''))))"

definition no_subject :: Subject where
  "no_subject = \<lparr>sub_Type = [], sub_ID = [], sub_AuthMethod = [], sub_Email = []\<rparr>"

definition not_implemented :: "RequestContext \<Rightarrow> Response" where
  "not_implemented ctx = errorResponse ctx 501 ''ROUTE_NOT_IMPLEMENTED'' ''Route is registered but not implemented yet.''"

text \<open>\<open>produce\<close>: what a public route does once the request is let through.\<close>

definition produce_public ::
  "('x control_world_scheme) App \<Rightarrow> RequestContext \<Rightarrow> publicRouteSpec \<Rightarrow> Subject \<Rightarrow> ('x control_world_scheme, Response) op" where
  "produce_public a ctx route subject =
     bindE (allowRoute a ctx (rte_Pattern route)) (\<lambda>(ok, retryAfter).
     if \<not> ok then ret (rateLimitedResponse ctx retryAfter)
     else
       bindE (handlePublicReadModelRoute a ctx route subject) (\<lambda>handled.
       case handled of
         Some response \<Rightarrow> ret response
       | None \<Rightarrow>
           let response = with_header ''X-HomeSignal-Operation-ID'' (rte_OperationID route) (not_implemented ctx) in
           ret (if rte_Auth route = publicAuthEnrollment then with_header ''Cache-Control'' ''no-store'' response
                else response)))"

definition serve_public ::
  "('x control_world_scheme) App \<Rightarrow> RequestContext \<Rightarrow> publicRouteSpec \<Rightarrow> Subject \<Rightarrow> string \<Rightarrow> string \<Rightarrow> headers \<Rightarrow> string \<Rightarrow>
   ('x control_world_scheme, Response) op" where
  "serve_public a ctx route subject meth path hs body =
     (if rte_RequiresIdempotency route then
        let key = TrimSpace (headerValue hs ''Idempotency-Key'') in
        if key = [] then
          ret (errorResponse ctx 400 ''IDEMPOTENCY_KEY_REQUIRED'' ''Idempotency-Key header is required.'')
        else getOrStore (app_ttl a) ctx (rte_Pattern route @ ''|'' @ rateLimitSubject ctx) key
               (requestHash meth path body) (produce_public a ctx route subject)
      else produce_public a ctx route subject)"

definition handlePublicAPIRoute ::
  "('x control_world_scheme) App \<Rightarrow> RequestContext \<Rightarrow> string \<Rightarrow> string \<Rightarrow> headers \<Rightarrow> string \<Rightarrow>
   ('x control_world_scheme, Response) op" where
  "handlePublicAPIRoute a ctx0 meth path hs body =
     (case findPublicRoute meth path of
        (None, pathMatched) \<Rightarrow> ret (not_found ctx0 pathMatched)
      | (Some route, _) \<Rightarrow>
          let ctx = ctx0\<lparr>rqc_RouteTemplate := rte_Pattern route\<rparr> in
          if rte_Auth route = publicAuthHuman \<and> TrimSpace (headerValue hs ''Authorization'') = [] then
            ret (errorResponse ctx 401 ''AUTHENTICATION_REQUIRED'' ''Authentication required.'')
          else if rte_Auth route = publicAuthHuman then
            bindE (authenticateHuman a ctx hs) (\<lambda>r.
            case r of
              Inl response \<Rightarrow> ret response
            | Inr subject \<Rightarrow>
                serve_public a (ctx\<lparr>rqc_ActorType := sub_Type subject, rqc_ActorID := sub_ID subject,
                  rqc_AuthMethod := sub_AuthMethod subject\<rparr>) route subject meth path hs body)
          else serve_public a ctx route no_subject meth path hs body)"

definition handleAgentRoute :: "RequestContext \<Rightarrow> string \<Rightarrow> string \<Rightarrow> headers \<Rightarrow> Response" where
  "handleAgentRoute ctx meth path hs =
     (case findRoute meth path agentRouteSpecs of
        (None, pathMatched) \<Rightarrow> not_found ctx pathMatched
      | (Some route, _) \<Rightarrow>
          if TrimSpace (headerValue hs ''X-HomeSignal-Device-Cert-Fingerprint'') = [] then
            errorResponse ctx 401 ''DEVICE_CERTIFICATE_REQUIRED'' ''Device certificate authentication is required.''
          else not_implemented ctx)"

definition handleInternalRoute ::
  "('x control_world_scheme) App \<Rightarrow> RequestContext \<Rightarrow> string \<Rightarrow> string \<Rightarrow> headers \<Rightarrow> ('x control_world_scheme, Response) op" where
  "handleInternalRoute a ctx meth path hs =
     (case findRoute meth path internalRouteSpecs of
        (None, pathMatched) \<Rightarrow> ret (not_found ctx pathMatched)
      | (Some route, _) \<Rightarrow>
          (case AuthenticateService (app_services a) (headerValue hs ''X-HomeSignal-Service-Principal'') of
             Inl e \<Rightarrow> ret (errorResponse ctx 401 ''SERVICE_AUTHENTICATION_REQUIRED'' ''Service authentication is required.'')
           | Inr subject \<Rightarrow>
               bindE (allowRoute a ctx (rte_Pattern route @ ''|'' @ svs_ID subject)) (\<lambda>(ok, retryAfter).
               if \<not> ok then ret (rateLimitedResponse ctx retryAfter)
               else ret (with_header ''X-HomeSignal-Service-Subject'' (svs_ID subject) (not_implemented ctx)))))"

definition ServeWithContext ::
  "('x control_world_scheme) App \<Rightarrow> RequestContext \<Rightarrow> string \<Rightarrow> string \<Rightarrow> headers \<Rightarrow> string \<Rightarrow>
   ('x control_world_scheme, Response) op" where
  "ServeWithContext a ctx meth path hs body =
     (case operationalRoutes meth path of
        Some route \<Rightarrow> ret (handleOperationalRoute a path)
      | None \<Rightarrow>
          if operationalPathExists path then ret (errorResponse ctx 405 ''METHOD_NOT_ALLOWED'' ''Method not allowed.'')
          else if HasPrefix path ''/api/v1'' then handlePublicAPIRoute a ctx meth path hs body
          else if HasPrefix path ''/agent'' then ret (handleAgentRoute ctx meth path hs)
          else if HasPrefix path ''/internal'' then handleInternalRoute a ctx meth path hs
          else ret (errorResponse ctx 404 ''NOT_FOUND'' ''Not found.''))"

section \<open>From an HTTP request\<close>

text \<open>What the handler reads of a request: the headers by canonical name, the address of the peer with its port,
  and the body or the error of reading it.\<close>

record HttpRequest =
  hrq_Method :: string
  hrq_Path :: string
  hrq_Header :: "(string \<times> string list) list"
  hrq_RemoteAddr :: string
  hrq_Body :: "go_error + string"

definition header_Get :: "(string \<times> string list) list \<Rightarrow> string \<Rightarrow> string" where
  "header_Get hs name = (case find (\<lambda>(k, vs). EqualFold k name) hs of Some (k, v # vs) \<Rightarrow> v | _ \<Rightarrow> [])"

definition firstHeaderValues :: "(string \<times> string list) list \<Rightarrow> headers" where
  "firstHeaderValues hs = map (\<lambda>(k, vs). (k, hd vs)) (filter (\<lambda>(k, vs). vs \<noteq> []) hs)"

text \<open>\<open>unicode.IsControl\<close>: U+0000 to U+001F and U+007F to U+009F.\<close>

fun has_control :: "string \<Rightarrow> bool" where
  "has_control [] = False"
| "has_control (c # s) =
     (byte c < 32 \<or> byte c = 127 \<or>
      (c = CHR 0xC2 \<and> s \<noteq> [] \<and> 128 \<le> byte (hd s) \<and> byte (hd s) < 160) \<or> has_control s)"

definition ValidCorrelationID :: "string \<Rightarrow> bool" where
  "ValidCorrelationID v =
     (let v = TrimSpace v in v \<noteq> [] \<and> length v \<le> 128 \<and> \<not> has_control v \<and> word_of v = v)"

definition decimal :: "int \<Rightarrow> string" where
  "decimal n = (if n < 0 then ''-'' else []) @ Itoa (nat \<bar>n\<bar>)"

definition NewID :: "string \<Rightarrow> ('x control_world_scheme, string) op" where
  "NewID pre =
     bindE (liftE read_clock) (\<lambda>t.
     bindE (\<lambda>w. (Inr (cpw_counter w + 1), w\<lparr>cpw_counter := cpw_counter w + 1\<rparr>)) (\<lambda>n.
     ret (pre @ ''_'' @ decimal (t - 62135596800 * 1000000000) @ ''_'' @ Itoa n)))"

definition NewRequestContext :: "HttpRequest \<Rightarrow> ('x control_world_scheme, RequestContext) op" where
  "NewRequestContext r =
     bindE (NewID ''req'') (\<lambda>requestID.
     bindE (NewID ''corr'') (\<lambda>generated.
     let provided = header_Get (hrq_Header r) ''X-Correlation-ID''; caller = ValidCorrelationID provided in
     ret \<lparr>rqc_RequestID = requestID, rqc_CorrelationID = (if caller then provided else generated),
          rqc_CorrelationIDSource = (if caller then ''caller'' else ''generated''),
          rqc_ActorType = [], rqc_ActorID = [], rqc_AuthMethod = [], rqc_SourceIP = hrq_RemoteAddr r,
          rqc_UserAgent = header_Get (hrq_Header r) ''User-Agent'', rqc_RouteTemplate = [],
          rqc_IdempotencyKey = header_Get (hrq_Header r) ''Idempotency-Key''\<rparr>))"

definition NewSyntheticRequestContext :: "('x control_world_scheme, RequestContext) op" where
  "NewSyntheticRequestContext =
     bindE (NewID ''req'') (\<lambda>requestID.
     bindE (NewID ''corr'') (\<lambda>generated.
     ret \<lparr>rqc_RequestID = requestID, rqc_CorrelationID = generated, rqc_CorrelationIDSource = ''generated'',
          rqc_ActorType = [], rqc_ActorID = [], rqc_AuthMethod = [], rqc_SourceIP = [], rqc_UserAgent = [],
          rqc_RouteTemplate = [], rqc_IdempotencyKey = []\<rparr>))"

definition writeResponse :: "RequestContext \<Rightarrow> Response \<Rightarrow> Response" where
  "writeResponse ctx r =
     with_header ''X-Correlation-ID'' (rqc_CorrelationID ctx)
       (with_header ''X-Request-ID'' (rqc_RequestID ctx) r)"

definition ServeHTTP ::
  "('x control_world_scheme) App \<Rightarrow> HttpRequest \<Rightarrow> ('x control_world_scheme, Response) op" where
  "ServeHTTP a r =
     bindE (NewRequestContext r) (\<lambda>ctx.
     case hrq_Body r of
       Inl e \<Rightarrow> ret (writeResponse ctx
         (errorResponse ctx 400 ''INVALID_REQUEST_BODY'' ''Request body could not be read.''))
     | Inr body \<Rightarrow>
         bindE (ServeWithContext a ctx (hrq_Method r) (hrq_Path r) (firstHeaderValues (hrq_Header r)) body)
           (\<lambda>response. ret (writeResponse ctx response)))"

definition Serve ::
  "('x control_world_scheme) App \<Rightarrow> string \<Rightarrow> string \<Rightarrow> headers \<Rightarrow> string \<Rightarrow> ('x control_world_scheme, Response) op" where
  "Serve a meth path hs body =
     bindE NewSyntheticRequestContext (\<lambda>ctx. ServeWithContext a ctx meth path hs body)"

end
