(* ===== verification/Authn_Store.thy ===== *)
theory Authn_Store
  imports Authn
begin

text \<open>
  The contract of a key set (\<open>jwks_contract\<close>: its HTTP client, its cache and its clock), the verifier and the
  authenticator over it, the tables of \<open>backend/migrations/000002_core_domain_schema.sql\<close> that hold users,
  roles, memberships, resources and grants with the two queries of
  \<open>backend/internal/platform/authn/postgres_repository.go\<close>, and the properties.
\<close>

section \<open>Keys in use are fresh\<close>

text \<open>A key that some served document holds, which is not older than an hour at the time \<open>t\<close>.\<close>

definition key_served :: "(time \<times> string) list \<Rightarrow> time \<Rightarrow> string \<Rightarrow> RSAPublicKey \<Rightarrow> bool" where
  "key_served served t keyID key \<longleftrightarrow>
     (\<exists>ts body keys. (ts, body) \<in> set served \<and> keys_of_document body = Inr keys \<and> map_of keys keyID = Some key \<and>
        t \<le> ts + Hour)"

lemma key_served_mono:
  "key_served served t k key \<Longrightarrow> set served \<subseteq> set served' \<Longrightarrow> t' \<le> t \<Longrightarrow> key_served served' t' k key"
  unfolding key_served_def by (meson order_trans subsetD)

definition cache_fresh :: "(time \<times> string) list \<Rightarrow> jwks_cache \<Rightarrow> bool" where
  "cache_fresh served c \<longleftrightarrow>
     (\<forall>keys. jwc_keys c = Some keys \<longrightarrow>
        (\<exists>ts body. (ts, body) \<in> set served \<and> keys_of_document body = Inr keys \<and> jwc_expiresAt c \<le> ts + Hour))"

lemma cache_fresh_mono: "cache_fresh served c \<Longrightarrow> set served \<subseteq> set served' \<Longrightarrow> cache_fresh served' c"
  unfolding cache_fresh_def by blast

lemma cache_fresh_key:
  "cache_fresh served c \<Longrightarrow> jwc_keys c = Some keys \<Longrightarrow> t \<le> jwc_expiresAt c \<Longrightarrow> map_of keys k = Some key \<Longrightarrow>
   key_served served t k key"
  unfolding cache_fresh_def key_served_def by (meson order_trans)

text \<open>Reading and replacing a part of the world.\<close>

lemma wp_state: "wp (\<lambda>w. (Inr (f w), g w)) Q E w = Q (f w) (g w)"
  by (simp add: wp_def)

lemma wp_query: "wp (\<lambda>w. (Inr (f w), w)) Q E w = Q (f w) w"
  by (simp add: wp_def)

lemma wp_row: "wp (\<lambda>w. case f w of None \<Rightarrow> (Inl e, w) | Some u \<Rightarrow> (Inr u, w)) Q E w =
    (case f w of None \<Rightarrow> E e w | Some u \<Rightarrow> Q u w)"
  by (simp add: wp_def split: option.split)

locale jwks_contract =
  fixes s :: "'w remoteJWKSet" and clock :: "'w \<Rightarrow> time" and served :: "'w \<Rightarrow> (time \<times> string) list"
  assumes get_law: "jws_get s url w = (r, w') \<Longrightarrow>
      jws_cache s w' = jws_cache s w \<and> clock w \<le> clock w' \<and> set (served w) \<subseteq> set (served w') \<and>
      (case r of Inl e \<Rightarrow> True | Inr (st, body) \<Rightarrow> st = 200 \<longrightarrow> (clock w, body) \<in> set (served w'))"
    and set_law: "jws_cache s (jws_set_cache s c w) = c" "clock (jws_set_cache s c w) = clock w"
      "served (jws_set_cache s c w) = served w"
    and now_law: "jws_now s w = (t, w') \<Longrightarrow>
      t = clock w \<and> clock w \<le> clock w' \<and> jws_cache s w' = jws_cache s w \<and> served w' = served w"
begin

definition ok :: "'w \<Rightarrow> bool" where
  "ok w \<longleftrightarrow> cache_fresh (served w) (jws_cache s w)"

definition later :: "'w \<Rightarrow> 'w \<Rightarrow> bool" where
  "later w w' \<longleftrightarrow> clock w \<le> clock w' \<and> set (served w) \<subseteq> set (served w')"

lemma later_refl [simp]: "later w w"
  by (simp add: later_def)

lemma later_trans: "later w w' \<Longrightarrow> later w' w'' \<Longrightarrow> later w w''"
  by (auto simp: later_def)

lemma jwks_fetch_post:
  assumes "ok w"
  shows "wp (jwks_fetch s) (\<lambda>keys w'. ok w' \<and> later w w' \<and>
      (\<exists>body. (clock w, body) \<in> set (served w') \<and> keys_of_document body = Inr keys))
    (\<lambda>_ w'. ok w' \<and> later w w') w"
proof -
  have "wp (jws_get s (jws_url s)) (\<lambda>(st, body) w'. ok w' \<and> later w w' \<and>
        (st = 200 \<longrightarrow> (clock w, body) \<in> set (served w')))
      (\<lambda>_ w'. ok w' \<and> later w w') w"
    using assms by (intro wpI) (auto dest!: get_law simp: ok_def later_def intro: cache_fresh_mono)
  then show ?thesis
    unfolding jwks_fetch_def by (auto simp: wp_simps split: sum.split elim!: wp_mono)
qed

lemma cachedKey_post:
  assumes "ok w"
  shows "wp (cachedKey s k force) (\<lambda>found w'. ok w' \<and> later w w' \<and>
      (\<forall>key. found = Some key \<longrightarrow> key_served (served w') (clock w) k key))
    (\<lambda>_ w'. ok w' \<and> later w w') w"
proof -
  obtain t w1 where now: "jws_now s w = (t, w1)" by (cases "jws_now s w")
  note n = now_law [OF now]
  have ok1: "ok w1" and l1: "later w w1" using assms n by (auto simp: ok_def later_def)
  let ?c = "\<lambda>keys. \<lparr>jwc_keys = Some keys, jwc_expiresAt = t + jwksCacheTTL\<rparr>"
  have fetched: "ok (jws_set_cache s (?c keys) w2) \<and> later w (jws_set_cache s (?c keys) w2) \<and>
      (\<forall>key. map_of keys k = Some key \<longrightarrow> key_served (served w2) (clock w) k key)"
    if "later w1 w2" "(clock w1, body) \<in> set (served w2)" "keys_of_document body = Inr keys" for keys w2 body
  proof -
    have "cache_fresh (served w2) (?c keys)"
      using that n by (fastforce simp: cache_fresh_def jwksCacheTTL_def)
    moreover have "key_served (served w2) (clock w) k key" if "map_of keys k = Some key" for key
      using cache_fresh_key [OF calculation, of keys "clock w"] that n by (simp add: jwksCacheTTL_def Hour_def Minute_def Second_def)
    ultimately show ?thesis using later_trans [OF l1 that(1)] by (auto simp: ok_def later_def set_law)
  qed
  have kept: "key_served (served w1) (clock w) k key"
    if "jwc_keys (jws_cache s w1) = Some keys" "t \<le> jwc_expiresAt (jws_cache s w1)" "map_of keys k = Some key" for keys key
    using that ok1 n by (auto simp: ok_def intro: cache_fresh_key)
  show ?thesis
    unfolding cachedKey_def
    using ok1 l1 kept
    by (auto simp: wp_simps now wp_state intro!: wp_mono [OF jwks_fetch_post] dest: later_trans)
      (use fetched in \<open>auto simp: wp_simps wp_state set_law\<close>)
qed

lemma jwks_publicKey_post:
  assumes "ok w"
  shows "wp (jwks_publicKey s k) (\<lambda>key w'. ok w' \<and> later w w' \<and> key_served (served w') (clock w) k key)
    (\<lambda>_ w'. ok w' \<and> later w w') w"
proof -
  have again: "wp (case found of Some key \<Rightarrow> ret key
       | None \<Rightarrow> bindE (cachedKey s k True) (\<lambda>found. case found of Some key \<Rightarrow> ret key
           | None \<Rightarrow> fail (Errorf ''jwt key %q not found'' [k])))
      (\<lambda>key w'. ok w' \<and> later w w' \<and> key_served (served w') (clock w) k key) (\<lambda>_ w'. ok w' \<and> later w w') w1"
    if "ok w1" "later w w1" "\<forall>key. found = Some key \<longrightarrow> key_served (served w1) (clock w) k key" for found w1
    using that by (auto simp: wp_simps split: option.split intro!: wp_mono [OF cachedKey_post] dest: later_trans)
      (auto simp: wp_simps later_def dest: key_served_mono split: option.split)
  show ?thesis
    unfolding jwks_publicKey_def using assms
    by (auto simp: wp_simps intro!: wp_mono [OF cachedKey_post] again)
qed

end

section \<open>The verifier\<close>

text \<open>What a verified token is: signed by a fresh key of the configured set, and of this issuer, client, use and
  time.\<close>

definition token_ok :: "rsa_check \<Rightarrow> CognitoVerifierConfig \<Rightarrow> (time \<times> string) list \<Rightarrow> time \<Rightarrow> time \<Rightarrow> string \<Rightarrow> Claims \<Rightarrow> bool" where
  "token_ok rsa cfg served t0 t token c \<longleftrightarrow>
     (\<exists>h b signed sig key. parseJWT token = Inr (h, b, signed, sig) \<and> jwh_Algorithm h = ''RS256'' \<and>
        key_served served t0 (jwh_KeyID h) key \<and> rsa key signed sig \<and>
        jwb_Issuer b = cvc_Issuer cfg \<and> jwb_TokenUse b = cvc_TokenUse cfg \<and> matchesClientID b (cvc_ClientID cfg) \<and>
        jwb_ExpiresAt b \<noteq> 0 \<and> t \<le> Unix (jwb_ExpiresAt b) + Minute \<and>
        (jwb_NotBefore b \<noteq> 0 \<longrightarrow> Unix (jwb_NotBefore b) \<le> t + Minute) \<and>
        clm_Subject c = jwb_Subject b \<and> clm_Subject c \<noteq> [] \<and> clm_Email c = jwb_Email b)"

context jwks_contract
begin

lemma VerifyBearerToken_post:
  assumes "ok w" and v: "cgv_jwks v = s"
    and now: "\<And>w t w'. cgv_Now v w = (t, w') \<Longrightarrow> t = clock w \<and> clock w \<le> clock w' \<and>
      jws_cache s w' = jws_cache s w \<and> served w' = served w"
  shows "wp (VerifyBearerToken rsa v token)
    (\<lambda>c w'. ok w' \<and> later w w' \<and> (\<exists>t. clock w \<le> t \<and> t \<le> clock w' \<and> token_ok rsa (cgv_cfg v) (served w') (clock w) t token c))
    (\<lambda>_ w'. ok w' \<and> later w w') w"
proof -
  have accepted: "token_ok rsa (cgv_cfg v) (served w2) (clock w) t token c"
    if "check_claims (cgv_cfg v) b t = None" "parseJWT token = Inr (h, b, signed, sig)" "jwh_Algorithm h = ''RS256''"
      "key_served (served w2) (clock w) (jwh_KeyID h) key" "rsa key signed sig"
      "clm_Subject c = jwb_Subject b" "clm_Email c = jwb_Email b" for t w2 h b signed sig key c
    unfolding token_ok_def using that
    by (intro exI [of _ h] exI [of _ b] exI [of _ signed] exI [of _ sig] exI [of _ key])
      (auto simp: check_claims_def jwtClockSkew_def split: if_splits)
  have read: "ok w2 \<and> later w w2 \<and> clock w \<le> t \<and> t \<le> clock w2 \<and> served w2 = served w1"
    if "cgv_Now v w1 = (t, w2)" "ok w1" "later w w1" for w1 t w2
    using now [OF that(1)] that(2,3) by (auto simp: ok_def later_def)
  show ?thesis
    unfolding VerifyBearerToken_def using assms(1)
    by (auto simp: wp_simps v split: sum.split intro!: wp_mono [OF jwks_publicKey_post])
      (auto simp: wp_simps dest: read split: prod.split option.split; metis accepted read Claims.select_convs(1,2))
qed

end

section \<open>Tables\<close>

record user_row =
  urw_user :: UserSubject
  urw_deleted :: bool

record role_row =
  rlw_ID :: string
  rlw_archived :: bool

record membership_row =
  mbw_AccountID :: string
  mbw_UserID :: string
  mbw_RoleID :: string
  mbw_status :: string

record resource_row =
  rsw_ID :: string
  rsw_AccountID :: "string option"
  rsw_SiteID :: "string option"
  rsw_Type :: string
  rsw_status :: string

record grant_row =
  gnw_subjectType :: string
  gnw_subjectID :: string
  gnw_ResourceID :: string
  gnw_RoleID :: string
  gnw_status :: string

record auth_tables =
  tb_users :: "user_row list"
  tb_roles :: "role_row list"
  tb_permissions :: "(string \<times> string) list"
  tb_memberships :: "membership_row list"
  tb_resources :: "resource_row list"
  tb_grants :: "grant_row list"

record authn_store = env +
  nw_replies :: "(nat \<times> string) list"
  nw_served :: "(time \<times> string) list"
  nw_cache :: jwks_cache
  nw_tables :: auth_tables

text \<open>The actions of a role that is not archived.\<close>

definition role_actions :: "auth_tables \<Rightarrow> string \<Rightarrow> string list" where
  "role_actions t role =
     (if list_ex (\<lambda>r. rlw_ID r = role \<and> \<not> rlw_archived r) (tb_roles t)
      then map snd (filter (\<lambda>(r, a). r = role) (tb_permissions t)) else [])"

text \<open>The two parts of the query; an empty account or site is no restriction, and \<open>NULL\<close> equals nothing.\<close>

definition membership_in_scope :: "string \<Rightarrow> string \<Rightarrow> membership_row \<Rightarrow> bool" where
  "membership_in_scope user account m \<longleftrightarrow>
     mbw_UserID m = user \<and> mbw_status m = ''active'' \<and> (account = [] \<or> mbw_AccountID m = account)"

definition resource_in_scope :: "string \<Rightarrow> string \<Rightarrow> resource_row \<Rightarrow> bool" where
  "resource_in_scope account site r \<longleftrightarrow>
     rsw_status r = ''active'' \<and> (account = [] \<or> rsw_AccountID r = Some account) \<and>
     (site = [] \<or> rsw_SiteID r = Some site \<or>
      (rsw_Type r = ''account'' \<and> account \<noteq> [] \<and> rsw_AccountID r = Some account))"

definition grant_in_scope :: "auth_tables \<Rightarrow> string \<Rightarrow> string \<Rightarrow> string \<Rightarrow> grant_row \<Rightarrow> bool" where
  "grant_in_scope t user account site g \<longleftrightarrow>
     gnw_subjectType g = ''user'' \<and> gnw_subjectID g = user \<and> gnw_status g = ''active'' \<and>
     list_ex (\<lambda>r. rsw_ID r = gnw_ResourceID g \<and> resource_in_scope account site r) (tb_resources t)"

definition permission_keys :: "auth_tables \<Rightarrow> string \<Rightarrow> string \<Rightarrow> string \<Rightarrow> string list" where
  "permission_keys t user account site = remdups
     (concat (map (\<lambda>m. role_actions t (mbw_RoleID m)) (filter (membership_in_scope user account) (tb_memberships t))) @
      concat (map (\<lambda>g. role_actions t (gnw_RoleID g)) (filter (grant_in_scope t user account site) (tb_grants t))))"

definition sql_ListPermissionKeys :: "string \<Rightarrow> string \<Rightarrow> string \<Rightarrow> (authn_store, string list) op" where
  "sql_ListPermissionKeys userID accountID siteID =
     bindE (failIf (TrimSpace userID = []) (Errorf ''user id is required'' [])) (\<lambda>_.
     wrapE ''query permission keys'' (with_fault (\<lambda>w. (Inr (permission_keys (nw_tables w) userID accountID siteID), w))))"

definition user_by_sub :: "auth_tables \<Rightarrow> string \<Rightarrow> UserSubject option" where
  "user_by_sub t cognitoSub =
     map_option urw_user (find (\<lambda>r. usr_CognitoSub (urw_user r) = cognitoSub \<and> \<not> urw_deleted r) (tb_users t))"

definition sql_GetUserByCognitoSub :: "string \<Rightarrow> (authn_store, UserSubject) op" where
  "sql_GetUserByCognitoSub cognitoSub =
     bindE (failIf (TrimSpace cognitoSub = []) (Errorf ''cognito subject is required'' [])) (\<lambda>_.
     wrapE ''get user by cognito subject'' (with_fault (\<lambda>w.
       (case user_by_sub (nw_tables w) (TrimSpace cognitoSub) of
          None \<Rightarrow> (Inl (Sentinel ''sql: no rows in result set''), w)
        | Some u \<Rightarrow> (Inr u, w)))))"

definition postgres_auth :: "authn_store AuthRepository" where
  "postgres_auth = \<lparr>aup_GetUserByCognitoSub = sql_GetUserByCognitoSub, aup_ListPermissionKeys = sql_ListPermissionKeys\<rparr>"

text \<open>The HTTP client answers from a list of replies; what it served with status 200 is kept with its time.\<close>

definition http_reply :: "string \<Rightarrow> (authn_store, nat \<times> string) op" where
  "http_reply url = with_fault (\<lambda>w.
     (case nw_replies w of
        [] \<Rightarrow> (Inl (Errorf ''connection refused'' []), w)
      | (st, body) # rest \<Rightarrow>
          (Inr (st, body), w\<lparr>nw_replies := rest,
             nw_served := (if st = 200 then nw_served w @ [(env_clock w, body)] else nw_served w)\<rparr>)))"

definition store_jwks :: "authn_store remoteJWKSet" where
  "store_jwks = \<lparr>jws_url = [], jws_get = http_reply, jws_cache = nw_cache,
     jws_set_cache = (\<lambda>c w. w\<lparr>nw_cache := c\<rparr>), jws_now = read_clock\<rparr>"

definition human_authenticator :: "rsa_check \<Rightarrow> authn_store CognitoVerifier \<Rightarrow> authn_store HumanAuthenticator" where
  "human_authenticator rsa v =
     \<lparr>hau_Verifier = Some (VerifyBearerToken rsa v), hau_Users = Some postgres_auth\<rparr>"

lemma read_clock_store:
  "read_clock w = (t, w') \<Longrightarrow> t = env_clock w \<and> env_clock w \<le> env_clock w' \<and>
   nw_cache w' = nw_cache (w :: authn_store) \<and> nw_served w' = nw_served w \<and> nw_tables w' = nw_tables w"
  by (auto simp: read_clock_def split: list.splits)

interpretation jwks: jwks_contract "store_jwks\<lparr>jws_url := url\<rparr>" env_clock nw_served for url
proof (unfold_locales, goal_cases)
  case (1 u w r w')
  then show ?case by (auto simp: store_jwks_def http_reply_def with_fault_def split: list.splits if_splits)
qed (auto simp: store_jwks_def dest: read_clock_store)

section \<open>Properties\<close>

definition cache_ok :: "authn_store \<Rightarrow> bool" where
  "cache_ok w \<longleftrightarrow> cache_fresh (nw_served w) (nw_cache w)"

definition run_authentications :: "rsa_check \<Rightarrow> authn_store CognitoVerifier \<Rightarrow> string list \<Rightarrow> authn_store \<Rightarrow> authn_store" where
  "run_authentications rsa v headers w = fold (\<lambda>h w. snd (Authenticate (human_authenticator rsa v) h w)) headers w"

lemma NewCognitoVerifier_parts:
  assumes "NewCognitoVerifier cfg keyset now = Inr v"
  shows "cgv_jwks v = keyset\<lparr>jws_url := cvc_JWKSURL (cgv_cfg v)\<rparr>" "cgv_Now v = now"
    "cognito_normalized cfg = Inr (cgv_cfg v)"
  using assms by (auto simp: NewCognitoVerifier_def split: sum.splits)

lemma VerifyBearerToken_store:
  assumes "NewCognitoVerifier cfg store_jwks read_clock = Inr v" and "cache_ok w"
  shows "wp (VerifyBearerToken rsa v token)
    (\<lambda>c w'. cache_ok w' \<and> (\<exists>t. env_clock w \<le> t \<and> t \<le> env_clock w' \<and>
       token_ok rsa (cgv_cfg v) (nw_served w') (env_clock w) t token c))
    (\<lambda>_ w'. cache_ok w') w"
proof -
  note parts = NewCognitoVerifier_parts [OF assms(1)]
  have ok: "jwks.ok url w = cache_ok w" for url w
    by (simp only: jwks.ok_def cache_ok_def) (simp add: store_jwks_def)
  show ?thesis
    by (rule wp_mono [OF jwks.VerifyBearerToken_post [OF _ parts(1), unfolded ok, OF assms(2)]])
      (use parts(2) in \<open>auto simp: store_jwks_def dest: read_clock_store\<close>)
qed

lemma GetUser_store:
  "wp (sql_GetUserByCognitoSub sub) (\<lambda>u w'. nw_served w' = nw_served w \<and> nw_cache w' = nw_cache w \<and>
      env_clock w' = env_clock w \<and> user_by_sub (nw_tables w') (TrimSpace sub) = Some u)
    (\<lambda>_ w'. nw_served w' = nw_served w \<and> nw_cache w' = nw_cache w) w"
  by (auto simp: sql_GetUserByCognitoSub_def wp_simps wp_with_fault wp_row split: list.split option.split)

lemma wp_markE [wp_simps]: "wp (markE x m) Q E w = wp m Q (\<lambda>_. E (Wrapf ''%w: %v'' x)) w"
  by (simp add: wp_def markE_def split: prod.split sum.split)

lemma Authenticate_store:
  assumes "NewCognitoVerifier cfg store_jwks read_clock = Inr v" and "cache_ok w"
  shows "wp (Authenticate (human_authenticator rsa v) header)
    (\<lambda>s w'. cache_ok w' \<and> (\<exists>token t c u. BearerToken header = Inr token \<and> env_clock w \<le> t \<and> t \<le> env_clock w' \<and>
       token_ok rsa (cgv_cfg v) (nw_served w') (env_clock w) t token c \<and>
       user_by_sub (nw_tables w') (TrimSpace (clm_Subject c)) = Some u \<and> usr_Status u = ''active'' \<and>
       sub_Type s = ''user'' \<and> sub_ID s = usr_ID u))
    (\<lambda>_ w'. cache_ok w') w"
proof -
  have parts: "hau_Verifier (human_authenticator rsa v) = Some (VerifyBearerToken rsa v)"
    "hau_Users (human_authenticator rsa v) = Some postgres_auth"
    "aup_GetUserByCognitoSub postgres_auth = sql_GetUserByCognitoSub"
    by (simp_all add: human_authenticator_def postgres_auth_def)
  show ?thesis
    unfolding Authenticate_def using assms(2)
    by (auto simp: wp_simps parts split: sum.split intro!: wp_mono [OF VerifyBearerToken_store [OF assms(1)]])
      (auto simp: wp_simps intro!: wp_mono [OF GetUser_store], (auto simp: wp_simps cache_ok_def)+)
qed

lemma run_authentications_ok:
  assumes "NewCognitoVerifier cfg store_jwks read_clock = Inr v" and "cache_ok w"
  shows "cache_ok (run_authentications rsa v headers w)"
proof -
  have "cache_ok (snd (Authenticate (human_authenticator rsa v) h w))" if "cache_ok w" for h w
    by (rule wp_worldD [of _ _ w]) (rule wp_mono [OF Authenticate_store [OF assms(1) that]], auto)
  then show ?thesis using assms(2) unfolding run_authentications_def by (induction headers arbitrary: w) auto
qed

text \<open>C2: Whoever is authenticated, after any earlier authentications and failures, holds a token with an RS256
  signature by a key that the configured key set served within the last hour; the token is of the configured
  issuer, client and use, has not expired (up to one minute of clock skew), and its subject is an active user.\<close>

theorem authenticated_user_holds_token:
  assumes "NewCognitoVerifier cfg store_jwks read_clock = Inr v" and "jwc_keys (nw_cache w0) = None"
    and "w = run_authentications rsa v headers w0"
    and "Authenticate (human_authenticator rsa v) header w = (Inr s, w')"
  shows "\<exists>token t c u. BearerToken header = Inr token \<and> env_clock w \<le> t \<and> t \<le> env_clock w' \<and>
    token_ok rsa (cgv_cfg v) (nw_served w') (env_clock w) t token c \<and>
    user_by_sub (nw_tables w') (TrimSpace (clm_Subject c)) = Some u \<and> usr_Status u = ''active'' \<and>
    sub_Type s = ''user'' \<and> sub_ID s = usr_ID u"
proof -
  have "cache_ok w0" using assms(2) by (simp add: cache_ok_def cache_fresh_def)
  then have "cache_ok w" using run_authentications_ok [OF assms(1)] assms(3) by simp
  from wp_InrD [OF Authenticate_store [OF assms(1) this] assms(4)] show ?thesis by blast
qed

subsection \<open>Permissions\<close>

text \<open>How a user can have an action: by a membership or by a grant, each through a role that is not archived.\<close>

definition has_role_action :: "auth_tables \<Rightarrow> string \<Rightarrow> string \<Rightarrow> bool" where
  "has_role_action t role action \<longleftrightarrow> (\<exists>r \<in> set (tb_roles t). rlw_ID r = role \<and> \<not> rlw_archived r) \<and> (role, action) \<in> set (tb_permissions t)"

lemma role_actions_iff: "a \<in> set (role_actions t role) \<longleftrightarrow> has_role_action t role a"
  by (force simp: role_actions_def has_role_action_def list_ex_iff)

lemma permission_keys_iff:
  "a \<in> set (permission_keys t user account site) \<longleftrightarrow>
   (\<exists>m \<in> set (tb_memberships t). membership_in_scope user account m \<and> has_role_action t (mbw_RoleID m) a) \<or>
   (\<exists>g \<in> set (tb_grants t). grant_in_scope t user account site g \<and> has_role_action t (gnw_RoleID g) a)"
  by (auto simp: permission_keys_def role_actions_iff)

lemma Can_store:
  "wp (Can (Some postgres_auth) st user action res)
    (\<lambda>d w'. nw_tables w' = nw_tables w \<and> (dcs_Allowed d \<longleftrightarrow> ValidAction action \<and> st = ''user'' \<and> user \<noteq> [] \<and>
       action \<in> set (permission_keys (nw_tables w) user (rsc_AccountID res) (rsc_SiteID res))))
    (\<lambda>_ w'. nw_tables w' = nw_tables w) w"
  by (auto simp: Can_def postgres_auth_def sql_ListPermissionKeys_def wp_simps wp_with_fault wp_query list_ex_iff
      split: list.split)

text \<open>C10: With an account named, an action is allowed only through an active membership of that account or an
  active grant on an active resource of that account (and of the site, when one is named, or on the account
  itself), in either case by a role that is not archived and has the action.\<close>

theorem permission_within_account:
  assumes "Can (Some postgres_auth) st user action res w = (Inr d, w')" and "dcs_Allowed d"
    and "rsc_AccountID res = account" and "account \<noteq> []"
  shows "st = ''user'' \<and> ValidAction action \<and>
    ((\<exists>m \<in> set (tb_memberships (nw_tables w)). mbw_UserID m = user \<and> mbw_AccountID m = account \<and>
        mbw_status m = ''active'' \<and> has_role_action (nw_tables w) (mbw_RoleID m) action) \<or>
     (\<exists>g \<in> set (tb_grants (nw_tables w)). gnw_subjectType g = ''user'' \<and> gnw_subjectID g = user \<and>
        gnw_status g = ''active'' \<and> has_role_action (nw_tables w) (gnw_RoleID g) action \<and>
        (\<exists>r \<in> set (tb_resources (nw_tables w)). rsw_ID r = gnw_ResourceID g \<and> rsw_AccountID r = Some account \<and>
           rsw_status r = ''active'' \<and>
           (rsc_SiteID res = [] \<or> rsw_SiteID r = Some (rsc_SiteID res) \<or> rsw_Type r = ''account''))))"
proof -
  have "st = ''user'' \<and> ValidAction action \<and> action \<in> set (permission_keys (nw_tables w) user account (rsc_SiteID res))"
    using wp_InrD [OF Can_store assms(1)] assms(2,3) by simp
  then show ?thesis using assms(4)
    unfolding permission_keys_iff membership_in_scope_def grant_in_scope_def resource_in_scope_def list_ex_iff
    by blast
qed

text \<open>A check that names a site but no account lets any membership answer: a user with the action in one
  account has it on every site of every other account, too.\<close>

theorem site_check_ignores_account:
  assumes "Can (Some postgres_auth) ''user'' user action res w = (Inr d, w')" and "rsc_AccountID res = []"
    and "m \<in> set (tb_memberships (nw_tables w))" and "mbw_UserID m = user" and "mbw_status m = ''active''"
    and "has_role_action (nw_tables w) (mbw_RoleID m) action" and "ValidAction action" and "user \<noteq> []"
  shows "dcs_Allowed d"
proof -
  have "action \<in> set (permission_keys (nw_tables w) user [] (rsc_SiteID res))"
    using assms(3-6) unfolding permission_keys_iff membership_in_scope_def by blast
  then show ?thesis using wp_InrD [OF Can_store assms(1)] assms(2,7,8) by simp
qed

text \<open>A grant on one device is a grant on its whole site: the check does not look at which resource of the
  site is asked for.\<close>

theorem device_grant_covers_site:
  assumes "Can (Some postgres_auth) ''user'' user action res w = (Inr d, w')"
    and "g \<in> set (tb_grants (nw_tables w))" and "gnw_subjectType g = ''user''" and "gnw_subjectID g = user"
    and "gnw_status g = ''active''" and "has_role_action (nw_tables w) (gnw_RoleID g) action"
    and "r \<in> set (tb_resources (nw_tables w))" and "rsw_ID r = gnw_ResourceID g" and "rsw_Type r = ''device''"
    and "rsw_status r = ''active''" and "rsw_AccountID r = Some (rsc_AccountID res)"
    and "rsw_SiteID r = Some (rsc_SiteID res)" and "rsc_Type res = ''site''"
    and "ValidAction action" and "user \<noteq> []"
  shows "dcs_Allowed d"
proof -
  have "grant_in_scope (nw_tables w) user (rsc_AccountID res) (rsc_SiteID res) g"
    using assms(3-5,7-12) unfolding grant_in_scope_def resource_in_scope_def list_ex_iff by blast
  then have "action \<in> set (permission_keys (nw_tables w) user (rsc_AccountID res) (rsc_SiteID res))"
    using assms(2,6) unfolding permission_keys_iff by blast
  then show ?thesis using wp_InrD [OF Can_store assms(1)] assms(14,15) by simp
qed

section \<open>Witnesses\<close>

definition demo_segment1 :: string where
  "demo_segment1 = ''eyJhbGciOiJSUzI1NiIsImtpZCI6ImsifQ''"

definition demo_segment2 :: string where
  "demo_segment2 = ''eyJzdWIiOiJ1IiwiaXNzIjoiaSIsImNsaWVudF9pZCI6ImMiLCJ0b2tlbl91c2UiOiJhY2Nlc3MiLCJleHAiOjV9''"

definition demo_token :: string where
  "demo_token = demo_segment1 @ ''.'' @ demo_segment2 @ ''.b2s''"

definition demo_jwks :: string where
  "demo_jwks = map (\<lambda>c. if c = CHR ''|'' then CHR 0x22 else c)
     ''{|keys|:[{|kty|:|RSA|,|kid|:|k|,|n|:|AQ|,|e|:|AQ|}]}''"

definition demo_rsa :: rsa_check where
  "demo_rsa key input signature \<longleftrightarrow> rsa_N key = 1 \<and> signature = ''ok''"

definition demo_cognito :: CognitoVerifierConfig where
  "demo_cognito = \<lparr>cvc_Issuer = '' i/'', cvc_ClientID = ''c'', cvc_TokenUse = [], cvc_JWKSURL = []\<rparr>"

definition demo_verifier :: "authn_store CognitoVerifier" where
  "demo_verifier = \<lparr>cgv_cfg = \<lparr>cvc_Issuer = ''i'', cvc_ClientID = ''c'', cvc_TokenUse = ''access'',
       cvc_JWKSURL = ''i/.well-known/jwks.json''\<rparr>,
     cgv_jwks = store_jwks\<lparr>jws_url := ''i/.well-known/jwks.json''\<rparr>, cgv_Now = read_clock\<rparr>"

definition demo_user :: UserSubject where
  "demo_user = \<lparr>usr_ID = ''u1'', usr_CognitoSub = ''u'', usr_Email = [], usr_Status = ''active''\<rparr>"

definition demo_auth_tables :: auth_tables where
  "demo_auth_tables = \<lparr>tb_users = [\<lparr>urw_user = demo_user, urw_deleted = False\<rparr>],
     tb_roles = [\<lparr>rlw_ID = ''r'', rlw_archived = False\<rparr>], tb_permissions = [(''r'', ''site:view'')],
     tb_memberships = [\<lparr>mbw_AccountID = ''a'', mbw_UserID = ''u1'', mbw_RoleID = ''r'', mbw_status = ''active''\<rparr>],
     tb_resources = [\<lparr>rsw_ID = ''d'', rsw_AccountID = Some ''a2'', rsw_SiteID = Some ''s2'', rsw_Type = ''device'', rsw_status = ''active''\<rparr>],
     tb_grants = [\<lparr>gnw_subjectType = ''user'', gnw_subjectID = ''u1'', gnw_ResourceID = ''d'', gnw_RoleID = ''r'', gnw_status = ''active''\<rparr>]\<rparr>"

definition demo_authn :: authn_store where
  "demo_authn = \<lparr>env_faults = [], env_clock = 62135596800000000000, env_ticks = [], env_ids = [],
     nw_replies = [(200, demo_jwks)], nw_served = [],
     nw_cache = \<lparr>jwc_keys = None, jwc_expiresAt = 0\<rparr>, nw_tables = demo_auth_tables\<rparr>"

lemma demo_verifier_eq: "NewCognitoVerifier demo_cognito store_jwks read_clock = Inr demo_verifier"
proof -
  have "cognito_normalized demo_cognito = Inr (cgv_cfg demo_verifier)" by code_simp
  then show ?thesis by (simp add: NewCognitoVerifier_def) (simp add: demo_verifier_def)
qed



lemma word_of_visible:
  assumes "\<forall>c \<in> set s. visible c"
  shows "word_of s = s" and "word_of (s @ CHR '' '' # t) = s"
proof -
  have no_space: "\<not> list_ex (\<lambda>p. take (length p) (c # r) = p) space_runes" if "visible c" for c r
    using visible_not_space [OF that] by (fastforce simp: list_ex_iff neq_Nil_conv)
  show "word_of s = s" using assms by (induction s) (auto simp: no_space)
  have "list_ex (\<lambda>p. take (length p) (CHR '' '' # t) = p) space_runes" by (simp add: space_runes_def)
  then show "word_of (s @ CHR '' '' # t) = s" using assms
    by (induction s) (auto simp: no_space)
qed

lemma strip_front_visible: "s \<noteq> [] \<Longrightarrow> visible (hd s) \<Longrightarrow> strip_front space_runes s = s"
  by (rule strip_front_id) (auto intro!: clean_visible dest: visible_not_space)

lemma BearerToken_visible:
  assumes "t \<noteq> []" and "\<forall>c \<in> set t. visible c"
  shows "BearerToken (''Bearer '' @ t) = Inr t"
proof -
  have b: "\<forall>c \<in> set ''Bearer''. visible c" by (simp add: visible_def)
  have nil: "strip_front space_runes [] = []" using strip_front_length [of space_runes "[]"] by simp
  have sp: "strip_front space_runes ('' '' @ t) = t"
    using strip_front_visible [OF assms(1)] assms by (subst strip_front.simps) (simp add: space_runes_def)
  have nils: "Fields [] = []" by (subst Fields.simps) (simp add: nil)
  have "Fields t = [t]"
    using strip_front_visible [OF assms(1)] assms word_of_visible(1) [OF assms(2)]
    by (subst Fields.simps) (simp add: Let_def nils)
  then have "Fields ('' '' @ t) = [t]" using sp strip_front_visible [OF assms(1)] assms
    by (subst Fields.simps) (simp add: Let_def word_of.simps(1) word_of_visible(1) nils)
  moreover have "strip_front space_runes (''Bearer'' @ '' '' @ t) = ''Bearer'' @ '' '' @ t"
    by (rule strip_front_visible) (simp_all add: visible_def)
  moreover have "word_of (''Bearer'' @ '' '' @ t) = ''Bearer''" using word_of_visible(2) [OF b, of t] by simp
  ultimately have "Fields (''Bearer '' @ t) = [''Bearer'', t]" by (subst Fields.simps) (simp add: Let_def)
  moreover have "TrimSpace t = t" using assms by (intro TrimSpace_visible) auto
  ultimately show ?thesis using assms(1) by (simp add: BearerToken_def)
qed

definition demo_header :: jwtHeader where
  "demo_header = \<lparr>jwh_Algorithm = ''RS256'', jwh_KeyID = ''k''\<rparr>"

definition demo_body :: jwtBody where
  "demo_body = \<lparr>jwb_Subject = ''u'', jwb_Issuer = ''i'', jwb_Audience = [], jwb_ClientID = ''c'',
     jwb_TokenUse = ''access'', jwb_Email = [], jwb_ExpiresAt = 5, jwb_NotBefore = 0\<rparr>"

definition demo_claims_text :: string where
  "demo_claims_text = map (\<lambda>c. if c = CHR ''|'' then CHR 0x22 else c)
     ''{|sub|:|u|,|iss|:|i|,|client_id|:|c|,|token_use|:|access|,|exp|:5}''"

definition demo_claims :: "(string \<times> json) list" where
  "demo_claims = [(''sub'', JStr ''u''), (''iss'', JStr ''i''), (''client_id'', JStr ''c''),
     (''token_use'', JStr ''access''), (''exp'', JNum ''5'')]"

lemma demo_claims_text_eval: "RawURL_DecodeString demo_segment2 = Some demo_claims_text"
  by code_simp

lemma demo_claims_members: "struct_members demo_claims_text = Some demo_claims"
  by code_simp

lemma demo_segments_eval:
  "Option.bind (decodeJSONSegment [''alg'', ''kid''] demo_segment1) jwt_header_of = Some demo_header"
  "jwt_body_of (field_values [''sub'', ''iss'', ''aud'', ''client_id'', ''token_use'', ''email'', ''exp'', ''nbf'']
     demo_claims) = Some demo_body"
  "RawURL_DecodeString ''b2s'' = Some ''ok''"
  by code_simp+

lemma demo_token_eval: "\<exists>input. parseJWT demo_token = Inr (demo_header, demo_body, input, ''ok'')"
proof -
  have "Split demo_token (CHR ''.'') = [demo_segment1, demo_segment2, ''b2s'']"
    by (simp add: demo_token_def demo_segment1_def demo_segment2_def)
  then show ?thesis by (simp add: parseJWT_def demo_segments_eval
    decodeJSONSegment_def [of _ demo_segment2] demo_claims_text_eval demo_claims_members)
qed

definition demo_authorization :: string where
  "demo_authorization = ''Bearer '' @ demo_token"

lemma demo_token_bearer: "BearerToken demo_authorization = Inr demo_token"
  unfolding demo_authorization_def by (rule BearerToken_visible) (simp_all add: demo_token_def demo_segment1_def demo_segment2_def visible_def)

lemma demo_keys: "keys_of_document demo_jwks = Inr [(''k'', \<lparr>rsa_N = 1, rsa_E = 1\<rparr>)]"
proof -
  have "case jwksDocument_of demo_jwks of None \<Rightarrow> False
    | Some ks \<Rightarrow> jwks_keys [] ks = Inr [(''k'', \<lparr>rsa_N = 1, rsa_E = 1\<rparr>)]" by code_simp
  moreover have "take (2 ^ 20) demo_jwks = demo_jwks" by (simp add: demo_jwks_def)
  ultimately show ?thesis by (simp add: keys_of_document_def split: option.splits)
qed

lemma demo_claims_ok: "check_claims (cgv_cfg demo_verifier) demo_body 62135596800000000000 = None"
  by code_simp

definition demo_fetched :: authn_store where
  "demo_fetched = demo_authn\<lparr>nw_replies := [], nw_served := [(62135596800000000000, demo_jwks)],
     nw_cache := \<lparr>jwc_keys = Some [(''k'', \<lparr>rsa_N = 1, rsa_E = 1\<rparr>)], jwc_expiresAt = 62135596800000000000 + Hour\<rparr>\<rparr>"

lemma demo_key:
  "jwks_publicKey (cgv_jwks demo_verifier) ''k'' demo_authn = (Inr \<lparr>rsa_N = 1, rsa_E = 1\<rparr>, demo_fetched)"
  by (simp add: jwks_publicKey_def cachedKey_def jwks_fetch_def op_defs demo_keys demo_verifier_def store_jwks_def
      http_reply_def with_fault_def read_clock_def demo_authn_def demo_fetched_def jwksCacheTTL_def)

lemma demo_fields:
  "jwh_Algorithm demo_header = ''RS256''" "jwh_KeyID demo_header = ''k''" "jwb_Subject demo_body = ''u''"
  "jwb_Email demo_body = []" "jwb_Issuer demo_body = ''i''" "audienceString demo_body = ''c''"
  "jwb_TokenUse demo_body = ''access''"
  by (simp_all add: demo_header_def demo_body_def audienceString_def)

lemma demo_verified:
  "VerifyBearerToken demo_rsa demo_verifier demo_token demo_authn =
     (Inr \<lparr>clm_Subject = ''u'', clm_Email = [], clm_Issuer = ''i'', clm_Audience = ''c'', clm_TokenUse = ''access''\<rparr>, demo_fetched)"
proof -
  obtain input where "parseJWT demo_token = Inr (demo_header, demo_body, input, ''ok'')" using demo_token_eval by blast
  moreover have "TrimSpace ''k'' = ''k''" by (rule TrimSpace_visible) (simp_all add: visible_def)
  moreover have "read_clock demo_fetched = (62135596800000000000, demo_fetched)"
    by (simp add: read_clock_def demo_fetched_def demo_authn_def)
  moreover have "cgv_Now demo_verifier = read_clock" by (simp add: demo_verifier_def)
  ultimately show ?thesis
    by (simp add: VerifyBearerToken_def op_defs demo_key demo_claims_ok demo_fields demo_rsa_def)
qed

lemma demo_authenticated:
  "Authenticate (human_authenticator demo_rsa demo_verifier) demo_authorization demo_authn =
     (Inr \<lparr>sub_Type = ''user'', sub_ID = ''u1'', sub_AuthMethod = ''cognito_jwt'', sub_Email = []\<rparr>, demo_fetched)"
proof -
  have "TrimSpace ''u'' = ''u''" by (rule TrimSpace_visible) (simp_all add: visible_def)
  moreover have "user_by_sub (nw_tables demo_fetched) ''u'' = Some demo_user" "env_faults demo_fetched = []"
    by (simp_all add: user_by_sub_def demo_fetched_def demo_authn_def demo_auth_tables_def demo_user_def)
  ultimately show ?thesis
    by (simp add: Authenticate_def human_authenticator_def op_defs demo_token_bearer markE_def demo_verified
        postgres_auth_def sql_GetUserByCognitoSub_def with_fault_def)
      (simp add: demo_user_def)
qed

theorem authenticated_user_holds_token_witness:
  "\<exists>token t c u. BearerToken demo_authorization = Inr token \<and>
     token_ok demo_rsa (cgv_cfg demo_verifier) (nw_served demo_fetched) (env_clock demo_authn) t token c \<and>
     user_by_sub (nw_tables demo_fetched) (TrimSpace (clm_Subject c)) = Some u \<and> usr_ID u = ''u1''"
proof -
  have "jwc_keys (nw_cache demo_authn) = None" by (simp add: demo_authn_def)
  moreover have "demo_authn = run_authentications demo_rsa demo_verifier [] demo_authn"
    by (simp add: run_authentications_def)
  ultimately obtain token t c u where "BearerToken demo_authorization = Inr token"
    "token_ok demo_rsa (cgv_cfg demo_verifier) (nw_served demo_fetched) (env_clock demo_authn) t token c"
    "user_by_sub (nw_tables demo_fetched) (TrimSpace (clm_Subject c)) = Some u" "''u1'' = usr_ID u"
    using authenticated_user_holds_token [OF demo_verifier_eq _ _ demo_authenticated] by force
  then show ?thesis by (metis (no_types))
qed

definition demo_resource :: "string \<Rightarrow> Resource" where
  "demo_resource account = \<lparr>rsc_Type = ''site'', rsc_ID = ''s2'', rsc_AccountID = account, rsc_SiteID = ''s2''\<rparr>"

lemma demo_resource_fields:
  "rsc_Type (demo_resource account) = ''site''" "rsc_AccountID (demo_resource account) = account"
  "rsc_SiteID (demo_resource account) = ''s2''"
  by (simp_all add: demo_resource_def)

lemma demo_action: "ValidAction ''site:view''"
  by code_simp

lemma demo_can:
  "Can (Some postgres_auth) ''user'' ''u1'' ''site:view'' (demo_resource account) demo_authn =
   (Inr \<lparr>dcs_Allowed = ''site:view'' \<in> set (permission_keys demo_auth_tables ''u1'' account ''s2''),
         dcs_Reason = (if ''site:view'' \<in> set (permission_keys demo_auth_tables ''u1'' account ''s2'')
           then ''permission_granted'' else ''permission_missing'')\<rparr>, demo_authn)"
proof -
  have "TrimSpace ''u1'' = ''u1''" by (rule TrimSpace_visible) (simp_all add: visible_def)
  then show ?thesis
    by (simp add: Can_def demo_action postgres_auth_def sql_ListPermissionKeys_def op_defs with_fault_def
        demo_authn_def demo_resource_def list_ex_iff)
qed

lemma demo_permission:
  "''site:view'' \<in> set (permission_keys demo_auth_tables ''u1'' ''a'' ''s2'')"
  "has_role_action demo_auth_tables ''r'' ''site:view''"
  by (simp_all add: permission_keys_def membership_in_scope_def role_actions_def has_role_action_def demo_auth_tables_def)

lemma demo_rows:
  "nw_tables demo_authn = demo_auth_tables"
  "tb_memberships demo_auth_tables = [\<lparr>mbw_AccountID = ''a'', mbw_UserID = ''u1'', mbw_RoleID = ''r'', mbw_status = ''active''\<rparr>]"
  "tb_resources demo_auth_tables =
     [\<lparr>rsw_ID = ''d'', rsw_AccountID = Some ''a2'', rsw_SiteID = Some ''s2'', rsw_Type = ''device'', rsw_status = ''active''\<rparr>]"
  "tb_grants demo_auth_tables =
     [\<lparr>gnw_subjectType = ''user'', gnw_subjectID = ''u1'', gnw_ResourceID = ''d'', gnw_RoleID = ''r'', gnw_status = ''active''\<rparr>]"
  by (simp_all add: demo_authn_def demo_auth_tables_def)

theorem permission_within_account_witness:
  "\<exists>d w'. Can (Some postgres_auth) ''user'' ''u1'' ''site:view'' (demo_resource ''a'') demo_authn = (Inr d, w') \<and>
     dcs_Allowed d \<and> ValidAction ''site:view'' \<and>
     (\<exists>m \<in> set (tb_memberships demo_auth_tables). mbw_AccountID m = ''a'')"
  using permission_within_account [OF demo_can [of "''a''"] _ refl] demo_permission(1)
  by (fastforce simp: demo_can demo_resource_fields demo_rows)

theorem site_check_ignores_account_witness:
  "\<exists>d w'. Can (Some postgres_auth) ''user'' ''u1'' ''site:view'' (demo_resource []) demo_authn = (Inr d, w') \<and>
     dcs_Allowed d"
  using site_check_ignores_account [OF demo_can [of "[]"], of "hd (tb_memberships demo_auth_tables)"]
    demo_permission(2) demo_action demo_can
  by (auto simp: demo_resource_fields demo_rows)

theorem device_grant_covers_site_witness:
  "\<exists>d w'. Can (Some postgres_auth) ''user'' ''u1'' ''site:view'' (demo_resource ''a2'') demo_authn = (Inr d, w') \<and>
     dcs_Allowed d"
  using device_grant_covers_site [OF demo_can [of "''a2''"], of "hd (tb_grants demo_auth_tables)"
      "hd (tb_resources demo_auth_tables)"]
    demo_permission(2) demo_action demo_can
  by (auto simp: demo_resource_fields demo_rows)
end
