(* ===== verification/Control_Store.thy ===== *)
theory Control_Store
  imports Control_Plane Authn_Store
begin

text \<open>
  What the control plane keeps over every authenticator and read-model provider (\<open>control_contract\<close>): its
  stored answers and its rate limits. Then the world with the authenticator's tables and a provider that
  records what it is asked for, and the properties.
\<close>

section \<open>Rate limits\<close>

text \<open>The requests of one scope at the given times, from a bucket on: which of them are allowed.\<close>

fun allowed_at :: "int \<Rightarrow> duration \<Rightarrow> rateBucket option \<Rightarrow> time list \<Rightarrow> (time \<times> bool) list" where
  "allowed_at limit window b [] = []"
| "allowed_at limit window b (t # ts) =
     (t, rbk_count (count_request window t b) \<le> limit) #
     allowed_at limit window (Some (count_request window t b)) ts"

text \<open>How many are allowed from \<open>T\<close> on for one window.\<close>

definition allowed_count :: "time \<Rightarrow> int \<Rightarrow> duration \<Rightarrow> rateBucket option \<Rightarrow> time list \<Rightarrow> int" where
  "allowed_count T limit window b ts =
     int (length (filter (\<lambda>(t, ok). T \<le> t \<and> t < T + window \<and> ok) (allowed_at limit window b ts)))"

lemma allowed_count_simps [simp]:
  "allowed_count T limit window b [] = 0"
  "allowed_count T limit window b (t # ts) =
     (if T \<le> t \<and> t < T + window \<and> rbk_count (count_request window t b) \<le> limit then 1 else 0) +
     allowed_count T limit window (Some (count_request window t b)) ts"
  by (simp_all add: allowed_count_def)

lemma allowed_count_late:
  "\<forall>t \<in> set ts. T + window \<le> t \<Longrightarrow> allowed_count T limit window b ts = 0"
  by (induction ts arbitrary: b) auto

lemma allowed_same_bucket:
  assumes "sorted ts" and "T + window \<le> rbk_resetAt b" and "rbk_resetAt b \<noteq> 0"
  shows "allowed_count T limit window (Some b) ts \<le> max 0 (limit - rbk_count b)"
  using assms
proof (induction ts arbitrary: b)
  case (Cons t ts)
  let ?b = "b\<lparr>rbk_count := rbk_count b + 1\<rparr>"
  show ?case
  proof (cases "t < T + window")
    case True
    then have "count_request window t (Some b) = ?b" using Cons.prems by (simp add: count_request_def Let_def)
    moreover have "allowed_count T limit window (Some ?b) ts \<le> max 0 (limit - rbk_count ?b)"
      using Cons.prems by (intro Cons.IH) auto
    ultimately show ?thesis by (auto simp: max_def split: if_splits)
  next
    case False
    then have "\<forall>t \<in> set (t # ts). T + window \<le> t" using Cons.prems(1) by auto
    then show ?thesis using allowed_count_late [of "t # ts"] by (simp del: allowed_count_simps)
  qed
qed simp

definition bucket_ok :: "rateBucket option \<Rightarrow> bool" where
  "bucket_ok bo \<longleftrightarrow> (\<forall>b. bo = Some b \<longrightarrow> 0 \<le> rbk_count b)"

lemma bucket_ok_count: "bucket_ok bo \<Longrightarrow> bucket_ok (Some (count_request window t bo))"
  by (auto simp: bucket_ok_def count_request_def Let_def split: option.split)

lemma allowed_from_then_on:
  assumes "sorted ts" and "\<forall>t \<in> set ts. T \<le> t" and "0 \<le> T" and "0 < window" and "0 \<le> limit" and "bucket_ok bo"
  shows "allowed_count T limit window bo ts \<le> max 0 (limit - (case bo of None \<Rightarrow> 0 | Some b \<Rightarrow> rbk_count b)) + limit"
  using assms
proof (induction ts arbitrary: bo)
  case (Cons t ts)
  let ?b = "count_request window t bo"
  show ?case
  proof (cases "\<exists>b. bo = Some b \<and> rbk_resetAt b \<noteq> 0 \<and> t < rbk_resetAt b")
    case True
    then obtain b where b: "bo = Some b" "?b = b\<lparr>rbk_count := rbk_count b + 1\<rparr>"
      by (auto simp: count_request_def Let_def)
    have "allowed_count T limit window (Some ?b) ts \<le> max 0 (limit - rbk_count ?b) + limit"
      using Cons.IH [of "Some ?b"] Cons.prems bucket_ok_count by auto
    then show ?thesis using b by (auto simp: max_def split: if_splits)
  next
    case False
    then have b: "?b = \<lparr>rbk_resetAt = t + window, rbk_count = 1\<rparr>"
      by (auto simp: count_request_def Let_def zero_time_def split: option.split)
    have "allowed_count T limit window (Some ?b) ts \<le> max 0 (limit - rbk_count ?b)"
      using Cons.prems b by (intro allowed_same_bucket) auto
    then have "allowed_count T limit window bo (t # ts) \<le> limit"
      using b Cons.prems(5) by (auto simp: max_def split: if_splits)
    then show ?thesis by linarith
  qed
qed (simp split: option.split)

lemma allowed_count_bound:
  assumes "sorted ts" and "0 \<le> T" and "0 < window" and "0 \<le> limit" and "bucket_ok bo"
  shows "allowed_count T limit window bo ts \<le> 2 * limit"
  using assms(1,5)
proof (induction ts arbitrary: bo)
  case (Cons t ts)
  show ?case
  proof (cases "T \<le> t")
    case True
    then have "\<forall>x \<in> set (t # ts). T \<le> x" using Cons.prems(1) by auto
    from allowed_from_then_on [OF Cons.prems(1) this assms(2-4) Cons.prems(2)] Cons.prems(2) assms(4)
    show ?thesis by (auto simp: bucket_ok_def simp del: allowed_count_simps split: option.splits)
  next
    case False
    then show ?thesis using Cons bucket_ok_count by simp
  qed
qed (use assms(4) in simp)

section \<open>The contract\<close>

text \<open>An operation that leaves the control plane's own state alone, and does not turn back its clock.\<close>

definition steady :: "('x control_world_scheme, 'a) op \<Rightarrow> bool" where
  "steady m \<longleftrightarrow> (\<forall>w. cpw_entries (snd (m w)) = cpw_entries w \<and> cpw_buckets (snd (m w)) = cpw_buckets w \<and>
     env_clock w \<le> env_clock (snd (m w)))"

lemma steadyI:
  assumes "\<And>w. wp m (\<lambda>_ w'. cpw_entries w' = cpw_entries w \<and> cpw_buckets w' = cpw_buckets w \<and> env_clock w \<le> env_clock w')
      (\<lambda>_ w'. cpw_entries w' = cpw_entries w \<and> cpw_buckets w' = cpw_buckets w \<and> env_clock w \<le> env_clock w') w"
  shows "steady m"
  unfolding steady_def using wp_worldD [OF assms] by blast

lemma wp_steady:
  assumes "steady m"
    and "\<And>a w'. cpw_entries w' = cpw_entries w \<Longrightarrow> cpw_buckets w' = cpw_buckets w \<Longrightarrow> env_clock w \<le> env_clock w' \<Longrightarrow> Q a w'"
    and "\<And>e w'. cpw_entries w' = cpw_entries w \<Longrightarrow> cpw_buckets w' = cpw_buckets w \<Longrightarrow> env_clock w \<le> env_clock w' \<Longrightarrow> E e w'"
  shows "wp m Q E w"
  using assms(1) unfolding steady_def
  by (intro wpI) (metis snd_conv assms(2,3))+

lemma read_clock_control:
  "read_clock w = (t, w') \<Longrightarrow> t = env_clock w \<and> env_clock w \<le> env_clock w' \<and>
     cpw_entries w' = cpw_entries w \<and> cpw_buckets w' = cpw_buckets w"
  by (auto simp: read_clock_def split: list.splits)

lemma wp_idempotency_store:
  "wp (idempotency_store ttl t k h r) Q E w = Q () (w\<lparr>cpw_entries := (cpw_entries w)(k \<mapsto>
     \<lparr>ide_requestHash = h, ide_expiresAt = t + ttl, ide_response = r\<rparr>)\<rparr>)"
  by (simp add: wp_def idempotency_store_def)

locale control_contract =
  fixes a :: "('x control_world_scheme) App"
  assumes human_law: "app_humanAuthenticator a = Some h \<Longrightarrow> steady (h header)"
    and models_law: "app_publicReadModels a = Some p \<Longrightarrow>
      steady (rmp_Dashboard p s) \<and> steady (rmp_Devices p s) \<and> steady (rmp_Activity p s)"
    and ttl_law: "0 \<le> app_ttl a"
begin

text \<open>A stored answer stays stored for as long as it is valid.\<close>

definition keeps :: "'x control_world_scheme \<Rightarrow> 'x control_world_scheme \<Rightarrow> bool" where
  "keeps w w' \<longleftrightarrow> env_clock w \<le> env_clock w' \<and>
     (\<forall>k e. cpw_entries w k = Some e \<longrightarrow> env_clock w' \<le> ide_expiresAt e \<longrightarrow> cpw_entries w' k = Some e)"

lemma keeps_refl [simp]: "keeps w w"
  by (simp add: keeps_def)

lemma keeps_trans: "keeps w w' \<Longrightarrow> keeps w' w'' \<Longrightarrow> keeps w w''"
  by (auto simp: keeps_def)

lemma keeps_same: "cpw_entries w' = cpw_entries w \<Longrightarrow> env_clock w \<le> env_clock w' \<Longrightarrow> keeps w w'"
  by (simp add: keeps_def)

lemma allowRoute_keeps:
  "wp (allowRoute a ctx pattern) (\<lambda>_ w'. cpw_entries w' = cpw_entries w \<and> env_clock w \<le> env_clock w') (\<lambda>_ _. False) w"
  unfolding allowRoute_def limiter_allow_def
  by (auto simp: wp_simps wp_state Let_def split: option.split prod.split dest!: read_clock_control)

lemma models_keep:
  "wp (handlePublicReadModelRoute a ctx route s)
     (\<lambda>_ w'. cpw_entries w' = cpw_entries w \<and> env_clock w \<le> env_clock w') (\<lambda>_ _. False) w"
proof (cases "app_publicReadModels a")
  case (Some p)
  note laws = models_law [OF Some, of s]
  show ?thesis unfolding handlePublicReadModelRoute_def using Some laws
    by (auto simp: wp_simps intro!: wp_steady [of "rmp_Dashboard p s"] wp_steady [of "rmp_Devices p s"]
        wp_steady [of "rmp_Activity p s"])
qed (simp add: handlePublicReadModelRoute_def wp_simps)

lemma produce_keeps:
  "wp (produce_public a ctx route s) (\<lambda>_ w'. cpw_entries w' = cpw_entries w \<and> env_clock w \<le> env_clock w') (\<lambda>_ _. False) w"
  unfolding produce_public_def
  by (auto simp: wp_simps Let_def intro!: wp_mono [OF allowRoute_keeps] wp_mono [OF models_keep] split: option.split)

lemma getOrStore_keeps:
  assumes produce: "\<And>w. wp produce (\<lambda>_ w'. cpw_entries w' = cpw_entries w \<and> env_clock w \<le> env_clock w') (\<lambda>_ _. False) w"
  shows "wp (getOrStore ttl ctx scope key h produce) (\<lambda>_ w'. keeps w w') (\<lambda>_ _. False) w"
proof -
  obtain t w1 where clk: "read_clock w = (t, w1)" by (cases "read_clock w")
  note c = read_clock_control [OF clk]
  let ?k = "scope @ ''|'' @ key"
  have miss: "wp produce (\<lambda>r. wp (bindE (idempotency_store ttl t ?k h r) (\<lambda>_. ret r)) (\<lambda>_ w'. keeps w w') (\<lambda>_ _. False))
      (\<lambda>_ _. False) w2"
    if "\<forall>e. cpw_entries w ?k = Some e \<longrightarrow> ide_expiresAt e < env_clock w" "\<forall>k. k \<noteq> ?k \<longrightarrow> cpw_entries w2 k = cpw_entries w k"
      "env_clock w \<le> env_clock w2" for w2
    using that by (intro wp_mono [OF produce [of w2]])
      (auto simp: wp_simps wp_idempotency_store keeps_def)
  show ?thesis
    unfolding getOrStore_def idempotency_finish_def using c miss
    by (auto simp: wp_bindE wp_liftE clk wp_let idempotency_lookup_def wp_def [of "idempotency_lookup _ _ _"]
        wp_ret keeps_def split: option.split)
qed

lemma getOrStore_replay:
  assumes "cpw_entries w (scope @ ''|'' @ key) = Some e" and "ide_requestHash e = h" and "env_clock w \<le> ide_expiresAt e"
  shows "getOrStore ttl ctx scope key h produce w =
    (Inr (with_header ''X-HomeSignal-Idempotency-Replayed'' ''true'' (ide_response e)), snd (read_clock w))"
proof -
  obtain t w1 where clk: "read_clock w = (t, w1)" by (cases "read_clock w")
  show ?thesis using assms read_clock_control [OF clk]
    by (simp add: getOrStore_def idempotency_finish_def op_defs clk idempotency_lookup_def Let_def)
qed

lemma getOrStore_stores:
  assumes "cpw_entries w (scope @ ''|'' @ key) = None" and "getOrStore ttl ctx scope key h produce w = (Inr r, w')"
  shows "cpw_entries w' (scope @ ''|'' @ key) =
    Some \<lparr>ide_requestHash = h, ide_expiresAt = env_clock w + ttl, ide_response = r\<rparr>"
proof -
  obtain t w1 where clk: "read_clock w = (t, w1)" by (cases "read_clock w")
  show ?thesis using assms read_clock_control [OF clk]
    by (auto simp: getOrStore_def idempotency_finish_def op_defs clk idempotency_lookup_def idempotency_store_def Let_def
        split: prod.splits sum.splits)
qed

lemma serve_public_keeps: "wp (serve_public a ctx route s meth path hs body) (\<lambda>_ w'. keeps w w') (\<lambda>_ _. False) w"
  unfolding serve_public_def
  by (auto simp: wp_simps Let_def intro!: getOrStore_keeps produce_keeps wp_mono [OF produce_keeps] keeps_same)

lemma authenticateHuman_keeps:
  "wp (authenticateHuman a ctx hs) (\<lambda>_ w'. keeps w w') (\<lambda>_ _. False) w"
proof (cases "app_humanAuthenticator a")
  case (Some h)
  show ?thesis unfolding authenticateHuman_def using human_law [OF Some]
    by (auto simp: wp_simps Some intro!: wp_steady [of "h _"] keeps_same)
qed (simp add: authenticateHuman_def wp_simps)

lemma ServeWithContext_keeps:
  "wp (ServeWithContext a ctx meth path hs body) (\<lambda>_ w'. keeps w w') (\<lambda>_ _. False) w"
proof -
  have public: "wp (handlePublicAPIRoute a ctx meth path hs body) (\<lambda>_ w'. keeps w w') (\<lambda>_ _. False) w"
    unfolding handlePublicAPIRoute_def
    by (auto simp: wp_simps Let_def split: prod.split option.split
        intro!: serve_public_keeps wp_mono [OF authenticateHuman_keeps])
      (auto simp: wp_simps split: sum.split intro!: wp_mono [OF serve_public_keeps] elim: keeps_trans)
  have internal: "wp (handleInternalRoute a ctx meth path hs) (\<lambda>_ w'. keeps w w') (\<lambda>_ _. False) w"
    unfolding handleInternalRoute_def
    by (auto simp: wp_simps split: prod.split option.split sum.split intro!: wp_mono [OF allowRoute_keeps] keeps_same)
  show ?thesis
    unfolding ServeWithContext_def using public internal
    by (auto simp: wp_simps split: option.split)
qed

lemma NewID_keeps: "wp (NewID p) (\<lambda>_ w'. keeps w w') (\<lambda>_ _. False) w"
  unfolding NewID_def
  by (auto simp: wp_simps wp_state keeps_def split: prod.split dest!: read_clock_control)

lemma NewRequestContext_keeps: "wp (NewRequestContext r) (\<lambda>_ w'. keeps w w') (\<lambda>_ _. False) w"
  unfolding NewRequestContext_def
  by (auto simp: wp_simps Let_def intro!: wp_mono [OF NewID_keeps])
    (blast intro: keeps_trans)+

lemma ServeHTTP_keeps: "wp (ServeHTTP a r) (\<lambda>_ w'. keeps w w') (\<lambda>_ _. False) w"
  unfolding ServeHTTP_def
  by (auto simp: wp_simps split: sum.split intro!: wp_mono [OF NewRequestContext_keeps])
    (auto simp: wp_simps intro!: wp_mono [OF ServeWithContext_keeps] elim: keeps_trans)

lemma run_keeps: "keeps w (fold (\<lambda>r w. snd (ServeHTTP a r w)) rs w)"
proof (induction rs arbitrary: w)
  case (Cons r rs)
  have "keeps w (snd (ServeHTTP a r w))"
    by (rule wp_worldD) (rule wp_mono [OF ServeHTTP_keeps], auto)
  from keeps_trans [OF this Cons.IH] show ?case by simp
qed simp

end

section \<open>The world\<close>

record control_store = control_world +
  cps_auth :: authn_store
  cps_reads :: "(string \<times> string) list"
  cps_payload :: "string \<Rightarrow> string \<Rightarrow> go_error + string option"

definition on_auth :: "(authn_store, 'a) op \<Rightarrow> (control_store, 'a) op" where
  "on_auth m w = (case m (cps_auth w) of (r, s) \<Rightarrow> (r, w\<lparr>cps_auth := s\<rparr>))"

text \<open>A read model for a user: the read is recorded, and answered from the world.\<close>

definition read_model :: "string \<Rightarrow> Subject \<Rightarrow> (control_store, string option) op" where
  "read_model operation s w =
     (cps_payload w operation (sub_ID s), w\<lparr>cps_reads := cps_reads w @ [(operation, sub_ID s)]\<rparr>)"

definition store_models :: "control_store PublicReadModelProvider" where
  "store_models = \<lparr>rmp_Dashboard = read_model ''dashboard'', rmp_Devices = read_model ''devices'',
     rmp_Activity = read_model ''activity''\<rparr>"

definition control_app :: "AppConfig \<Rightarrow> rsa_check \<Rightarrow> authn_store CognitoVerifier \<Rightarrow> control_store App" where
  "control_app cfg rsa v =
     NewApp cfg (Some (\<lambda>header. on_auth (Authenticate (human_authenticator rsa v) header))) (Some store_models)"

lemma control_frame [simp]:
  "cps_auth (w\<lparr>cpw_entries := es\<rparr>) = cps_auth w" "cps_auth (w\<lparr>cpw_buckets := bs\<rparr>) = cps_auth w"
  "cps_auth (w\<lparr>cpw_counter := n\<rparr>) = cps_auth w" "cps_auth (w\<lparr>env_clock := t, env_ticks := ts\<rparr>) = cps_auth w"
  "cps_reads (w\<lparr>cpw_entries := es\<rparr>) = cps_reads w" "cps_reads (w\<lparr>cpw_buckets := bs\<rparr>) = cps_reads w"
  "cps_reads (w\<lparr>cpw_counter := n\<rparr>) = cps_reads w" "cps_reads (w\<lparr>env_clock := t, env_ticks := ts\<rparr>) = cps_reads w"
  "cpw_entries (w\<lparr>cps_auth := s\<rparr>) = cpw_entries w" "cpw_buckets (w\<lparr>cps_auth := s\<rparr>) = cpw_buckets w"
  "env_clock (w\<lparr>cps_auth := s\<rparr>) = env_clock w"
  "cpw_entries (w\<lparr>cps_reads := rs\<rparr>) = cpw_entries w" "cpw_buckets (w\<lparr>cps_reads := rs\<rparr>) = cpw_buckets w"
  "env_clock (w\<lparr>cps_reads := rs\<rparr>) = env_clock w"
  by (cases w, simp)+

lemma on_auth_steady: "steady (on_auth m)"
  by (simp add: steady_def on_auth_def split: prod.split)

lemma read_model_steady: "steady (read_model operation s)"
  by (simp add: steady_def read_model_def)

interpretation control: control_contract "control_app cfg rsa v" for cfg rsa v
  by unfold_locales
    (auto simp: control_app_def NewApp_def store_models_def Minute_def Second_def intro: on_auth_steady read_model_steady)

section \<open>Who is served\<close>

text \<open>A step that leaves the authenticator's tables alone and reads at most once, for one user.\<close>

definition reads_for :: "string \<Rightarrow> control_store \<Rightarrow> control_store \<Rightarrow> bool" where
  "reads_for user w w' \<longleftrightarrow> cps_auth w' = cps_auth w \<and>
     (cps_reads w' = cps_reads w \<or> (\<exists>operation. cps_reads w' = cps_reads w @ [(operation, user)]))"

definition quiet :: "control_store \<Rightarrow> control_store \<Rightarrow> bool" where
  "quiet w w' \<longleftrightarrow> cps_auth w' = cps_auth w \<and> cps_reads w' = cps_reads w"

lemma quiet_reads: "quiet w w1 \<Longrightarrow> reads_for u w1 w2 \<Longrightarrow> reads_for u w w2" "reads_for u w w1 \<Longrightarrow> quiet w1 w2 \<Longrightarrow> reads_for u w w2"
  by (auto simp: quiet_def reads_for_def)

lemma read_clock_quiet: "read_clock w = (t, w') \<Longrightarrow> quiet w w'"
  by (auto simp: read_clock_def quiet_def split: list.splits)

lemma allowRoute_quiet: "wp (allowRoute a ctx pattern) (\<lambda>_ w'. quiet w w') (\<lambda>_ _. False) w"
  unfolding allowRoute_def limiter_allow_def
  by (auto simp: wp_simps wp_state Let_def quiet_def split: option.split prod.split dest!: read_clock_quiet)

lemma read_model_wp: "wp (read_model operation s) (\<lambda>_ w'. reads_for (sub_ID s) w w') (\<lambda>_ w'. reads_for (sub_ID s) w w') w"
  by (auto simp: wp_def read_model_def reads_for_def split: sum.split)

text \<open>A route for enrollment is not read.\<close>

lemma enrollment_not_read:
  assumes "findPublicRoute meth path = (Some route, b)" and "rte_Auth route = publicAuthEnrollment"
  shows "rte_Method route \<noteq> ''GET''"
proof -
  have "find_route meth path m rs = (Some route, b) \<Longrightarrow> route \<in> set rs" for m and rs :: "publicRouteSpec list"
    by (induction rs arbitrary: m) (auto split: if_splits)
  then have "route \<in> set publicRouteSpecs" using assms(1) by (simp add: findPublicRoute_def)
  then show ?thesis using assms(2) by (auto simp: publicRouteSpecs_def get_route_def)
qed

definition rd :: "publicRouteSpec \<Rightarrow> Subject \<Rightarrow> control_store \<Rightarrow> control_store \<Rightarrow> bool" where
  "rd route s w w' \<longleftrightarrow> reads_for (sub_ID s) w w' \<and> (rte_Method route \<noteq> ''GET'' \<longrightarrow> quiet w w')"

lemma rd_quiet: "quiet w w' \<Longrightarrow> rd route s w w'"
  by (simp add: rd_def quiet_def reads_for_def)

lemma rd_left: "quiet w w1 \<Longrightarrow> rd route s w1 w2 \<Longrightarrow> rd route s w w2"
  by (auto simp: rd_def quiet_def reads_for_def)

lemma rd_right: "rd route s w w1 \<Longrightarrow> quiet w1 w2 \<Longrightarrow> rd route s w w2"
  by (auto simp: rd_def quiet_def reads_for_def)

lemma quiet_refl [simp]: "quiet w w"
  by (simp add: quiet_def)

lemma models_read:
  "wp (handlePublicReadModelRoute (control_app cfg rsa v) ctx route s)
     (\<lambda>_ w'. rd route s w w') (\<lambda>_ _. False) w"
proof -
  have "app_publicReadModels (control_app cfg rsa v) = Some store_models" by (simp add: control_app_def NewApp_def)
  moreover have "rmp_Dashboard store_models = read_model ''dashboard''" "rmp_Devices store_models = read_model ''devices''"
    "rmp_Activity store_models = read_model ''activity''" by (simp_all add: store_models_def)
  ultimately show ?thesis unfolding handlePublicReadModelRoute_def
    by (auto simp: wp_simps rd_quiet intro!: wp_mono [OF read_model_wp]) (auto simp: wp_simps rd_def)
qed

lemma produce_reads:
  "wp (produce_public (control_app cfg rsa v) ctx route s)
     (\<lambda>_ w'. rd route s w w') (\<lambda>_ _. False) w"
  unfolding produce_public_def
  by (auto simp: wp_simps Let_def rd_quiet intro!: wp_mono [OF allowRoute_quiet] wp_mono [OF models_read])
    (auto simp: wp_simps Let_def intro: rd_left split: option.split)

lemma getOrStore_reads:
  assumes produce: "\<And>w. wp produce (\<lambda>_ w'. rd route s w w') (\<lambda>_ _. False) w"
  shows "wp (getOrStore ttl ctx scope key h produce) (\<lambda>_ w'. rd route s w w') (\<lambda>_ _. False) w"
proof -
  obtain t w1 where clk: "read_clock w = (t, w1)" by (cases "read_clock w")
  note q = read_clock_quiet [OF clk]
  have drop: "quiet w (w1\<lparr>cpw_entries := es\<rparr>)" for es using q by (simp add: quiet_def)
  have stored: "quiet w2 (w2\<lparr>cpw_entries := es\<rparr>)" for w2 es by (simp add: quiet_def)
  have miss: "wp produce (\<lambda>r. wp (bindE (idempotency_store ttl t k h r) (\<lambda>_. ret r)) (\<lambda>_ w'. rd route s w w') (\<lambda>_ _. False))
      (\<lambda>_ _. False) w2" if "quiet w w2" for w2 k
    using that by (intro wp_mono [OF produce [of w2]])
      (auto simp: wp_simps wp_idempotency_store intro: rd_right [OF rd_left stored])
  show ?thesis
    unfolding getOrStore_def idempotency_finish_def using q drop miss
    by (auto simp: wp_bindE wp_liftE clk wp_let idempotency_lookup_def wp_def [of "idempotency_lookup _ _ _"]
        wp_ret intro: rd_quiet split: option.split)
qed

lemma serve_public_reads:
  "wp (serve_public (control_app cfg rsa v) ctx route s meth path hs body)
     (\<lambda>_ w'. rd route s w w') (\<lambda>_ _. False) w"
  unfolding serve_public_def
  by (auto simp: wp_simps Let_def rd_quiet intro!: getOrStore_reads produce_reads)

text \<open>Who a header authenticates, between two states of the authenticator.\<close>

definition token_holder ::
  "rsa_check \<Rightarrow> CognitoVerifierConfig \<Rightarrow> string \<Rightarrow> authn_store \<Rightarrow> authn_store \<Rightarrow> string \<Rightarrow> bool" where
  "token_holder rsa cfg header s s' user \<longleftrightarrow>
     (\<exists>token t c u. BearerToken header = Inr token \<and> env_clock s \<le> t \<and> t \<le> env_clock s' \<and>
        token_ok rsa cfg (nw_served s') (env_clock s) t token c \<and>
        user_by_sub (nw_tables s') (TrimSpace (clm_Subject c)) = Some u \<and> usr_Status u = ''active'' \<and> user = usr_ID u)"

lemma wp_on_auth:
  "wp (on_auth m) Q E w = wp m (\<lambda>a s. Q a (w\<lparr>cps_auth := s\<rparr>)) (\<lambda>e s. E e (w\<lparr>cps_auth := s\<rparr>)) (cps_auth w)"
  by (simp add: wp_def on_auth_def split: prod.split sum.split)

lemma authenticateHuman_holder:
  assumes "NewCognitoVerifier ccfg store_jwks read_clock = Inr v" and "cache_ok (cps_auth w)"
  shows "wp (authenticateHuman (control_app cfg rsa v) ctx hs)
    (\<lambda>r w'. cache_ok (cps_auth w') \<and> cps_reads w' = cps_reads w \<and>
       (\<forall>s. r = Inr s \<longrightarrow> token_holder rsa (cgv_cfg v) (headerValue hs ''Authorization'') (cps_auth w) (cps_auth w') (sub_ID s)))
    (\<lambda>_ _. False) w"
proof -
  have "app_humanAuthenticator (control_app cfg rsa v) =
      Some (\<lambda>header. on_auth (Authenticate (human_authenticator rsa v) header))"
    by (simp add: control_app_def NewApp_def)
  then show ?thesis
    unfolding authenticateHuman_def
    by (auto simp: wp_simps wp_on_auth intro!: wp_mono [OF Authenticate_store [OF assms]])
      (auto simp: wp_simps token_holder_def split: if_splits)
qed

lemma ServeWithContext_reads:
  assumes "NewCognitoVerifier ccfg store_jwks read_clock = Inr v" and "cache_ok (cps_auth w)"
  shows "wp (ServeWithContext (control_app cfg rsa v) ctx meth path hs body)
    (\<lambda>_ w'. cache_ok (cps_auth w') \<and>
       (cps_reads w' = cps_reads w \<or>
        (\<exists>operation user. cps_reads w' = cps_reads w @ [(operation, user)] \<and>
           token_holder rsa (cgv_cfg v) (headerValue hs ''Authorization'') (cps_auth w) (cps_auth w') user)))
    (\<lambda>_ _. False) w"
proof -
  let ?Q = "\<lambda>w'. cache_ok (cps_auth w') \<and>
       (cps_reads w' = cps_reads w \<or>
        (\<exists>operation user. cps_reads w' = cps_reads w @ [(operation, user)] \<and>
           token_holder rsa (cgv_cfg v) (headerValue hs ''Authorization'') (cps_auth w) (cps_auth w') user))"
  have enrol: "wp (serve_public (control_app cfg rsa v) ctx route s meth path hs body) (\<lambda>_. ?Q) (\<lambda>_ _. False) w"
    if "findPublicRoute meth path = (Some route, b)" "rte_Auth route \<noteq> publicAuthHuman" for ctx route b s
    using enrollment_not_read [OF that(1)] that(2) assms(2)
    by (intro wp_mono [OF serve_public_reads]) (cases "rte_Auth route", auto simp: rd_def quiet_def)
  have human: "wp (serve_public (control_app cfg rsa v) ctx route s meth path hs body) (\<lambda>_. ?Q) (\<lambda>_ _. False) w1"
    if "cache_ok (cps_auth w1)" "cps_reads w1 = cps_reads w"
      "token_holder rsa (cgv_cfg v) (headerValue hs ''Authorization'') (cps_auth w) (cps_auth w1) (sub_ID s)" for ctx route s w1
    using that by (intro wp_mono [OF serve_public_reads]) (auto simp: rd_def reads_for_def)
  have public: "wp (handlePublicAPIRoute (control_app cfg rsa v) ctx meth path hs body) (\<lambda>_. ?Q) (\<lambda>_ _. False) w"
    unfolding handlePublicAPIRoute_def using assms(2)
    by (auto simp: wp_simps Let_def split: prod.split option.split
        intro!: enrol wp_mono [OF authenticateHuman_holder [OF assms]])
      (auto simp: wp_simps intro!: human split: sum.split)
  have internal: "wp (handleInternalRoute (control_app cfg rsa v) ctx meth path hs) (\<lambda>_. ?Q) (\<lambda>_ _. False) w"
    unfolding handleInternalRoute_def using assms(2)
    by (auto simp: wp_simps quiet_def split: prod.split option.split sum.split intro!: wp_mono [OF allowRoute_quiet])
  show ?thesis
    unfolding ServeWithContext_def using public internal assms(2)
    by (auto simp: wp_simps split: option.split)
qed

lemma ServeHTTP_reads:
  assumes "NewCognitoVerifier ccfg store_jwks read_clock = Inr v" and "cache_ok (cps_auth w)"
  shows "wp (ServeHTTP (control_app cfg rsa v) r)
    (\<lambda>_ w'. cache_ok (cps_auth w') \<and>
       (cps_reads w' = cps_reads w \<or>
        (\<exists>operation user. cps_reads w' = cps_reads w @ [(operation, user)] \<and>
           token_holder rsa (cgv_cfg v) (headerValue (firstHeaderValues (hrq_Header r)) ''Authorization'')
             (cps_auth w) (cps_auth w') user)))
    (\<lambda>_ _. False) w"
proof -
  have id: "wp (NewID p) (\<lambda>_ w'. quiet w w') (\<lambda>_ _. False) w" for p w
    unfolding NewID_def by (auto simp: wp_simps wp_state quiet_def split: prod.split dest!: read_clock_quiet)
  have ctx: "wp (NewRequestContext r) (\<lambda>_ w'. quiet w w') (\<lambda>_ _. False) w"
    unfolding NewRequestContext_def
    by (auto simp: wp_simps Let_def intro!: wp_mono [OF id]) (auto simp: quiet_def)
  show ?thesis unfolding ServeHTTP_def using assms(2)
    by (auto simp: wp_simps quiet_def split: sum.split intro!: wp_mono [OF ctx])
      (auto simp: wp_simps intro!: wp_mono [OF ServeWithContext_reads [OF assms(1)]])
qed

section \<open>Properties\<close>

definition run_http :: "('x control_world_scheme) App \<Rightarrow> HttpRequest list \<Rightarrow> 'x control_world_scheme \<Rightarrow> 'x control_world_scheme" where
  "run_http a rs w = fold (\<lambda>r w. snd (ServeHTTP a r w)) rs w"

lemma run_http_cache_ok:
  assumes "NewCognitoVerifier ccfg store_jwks read_clock = Inr v" and "cache_ok (cps_auth w)"
  shows "cache_ok (cps_auth (run_http (control_app cfg rsa v) rs w))"
proof -
  have "cache_ok (cps_auth (snd (ServeHTTP (control_app cfg rsa v) r w)))" if "cache_ok (cps_auth w)" for r w
    by (rule wp_worldD [of _ _ w]) (rule wp_mono [OF ServeHTTP_reads [OF assms(1) that]], auto)
  then show ?thesis using assms(2) unfolding run_http_def by (induction rs arbitrary: w) auto
qed

text \<open>C5: Whatever requests came before, a request reads a read model at most once, and only for the active user
  of a token in its Authorization header that the verifier has checked against a fresh key.\<close>

theorem reads_need_token:
  assumes "NewCognitoVerifier ccfg store_jwks read_clock = Inr v" and "jwc_keys (nw_cache (cps_auth w0)) = None"
    and "w = run_http (control_app cfg rsa v) rs w0"
    and "ServeHTTP (control_app cfg rsa v) r w = (Inr response, w')" and "cps_reads w' \<noteq> cps_reads w"
  shows "\<exists>operation user. cps_reads w' = cps_reads w @ [(operation, user)] \<and>
    token_holder rsa (cgv_cfg v) (headerValue (firstHeaderValues (hrq_Header r)) ''Authorization'')
      (cps_auth w) (cps_auth w') user"
proof -
  have "cache_ok (cps_auth w0)" using assms(2) by (simp add: cache_ok_def cache_fresh_def)
  then have "cache_ok (cps_auth w)" using run_http_cache_ok [OF assms(1)] assms(3) by simp
  from wp_InrD [OF ServeHTTP_reads [OF assms(1) this] assms(4)] assms(5) show ?thesis by blast
qed

text \<open>Every request is answered: whatever the body, the authenticator, the read models and the stored answers
  are, the handler returns a response, and it carries the request's identifiers.\<close>

theorem every_request_answered:
  "\<exists>response w' requestID correlationID. ServeHTTP (control_app cfg rsa v) r w = (Inr response, w') \<and>
     (''X-Request-ID'', requestID) \<in> set (rsp_Headers response) \<and>
     (''X-Correlation-ID'', correlationID) \<in> set (rsp_Headers response)"
proof -
  have written: "(''X-Request-ID'', rqc_RequestID ctx) \<in> set (rsp_Headers (writeResponse ctx x)) \<and>
      (''X-Correlation-ID'', rqc_CorrelationID ctx) \<in> set (rsp_Headers (writeResponse ctx x))" for ctx x
    by (simp add: writeResponse_def with_header_def set_header_def)
  have "wp (ServeHTTP (control_app cfg rsa v) r)
      (\<lambda>x _. \<exists>requestID correlationID. (''X-Request-ID'', requestID) \<in> set (rsp_Headers x) \<and>
         (''X-Correlation-ID'', correlationID) \<in> set (rsp_Headers x)) (\<lambda>_ _. False) w"
    unfolding ServeHTTP_def
    by (auto simp: wp_simps split: sum.split intro!: wp_mono [OF control.NewRequestContext_keeps] exI written [THEN conjunct1]
        written [THEN conjunct2])
      (auto simp: wp_simps intro!: wp_mono [OF control.ServeWithContext_keeps] exI written [THEN conjunct1]
        written [THEN conjunct2])
  then show ?thesis by (auto simp: wp_def split: prod.splits sum.splits)
qed

text \<open>C22: The answer to a request with a fresh idempotency key, whatever it was (a 429 or a 501 as well), is what
  every repetition of it gets for the next ten minutes, whatever requests come between: nothing is done again,
  and a request that differs gets 409.\<close>

theorem idempotent_replay:
  assumes "rte_RequiresIdempotency route" and "key = TrimSpace (headerValue hs ''Idempotency-Key'')" and "key \<noteq> []"
    and "cpw_entries w ((rte_Pattern route @ ''|'' @ rateLimitSubject ctx) @ ''|'' @ key) = None"
    and "serve_public (control_app cfg rsa v) ctx route s meth path hs body w = (Inr response, w1)"
    and "w2 = run_http (control_app cfg rsa v) rs w1" and "env_clock w2 \<le> env_clock w + 10 * Minute"
    and "rateLimitSubject ctx' = rateLimitSubject ctx"
  shows "serve_public (control_app cfg rsa v) ctx' route s' meth path hs body w2 =
      (Inr (with_header ''X-HomeSignal-Idempotency-Replayed'' ''true'' response), snd (read_clock w2)) \<and>
    (requestHash meth' path' body' \<noteq> requestHash meth path body \<longrightarrow>
      (\<exists>r w3. serve_public (control_app cfg rsa v) ctx' route s' meth' path' hs body' w2 = (Inr r, w3) \<and>
         rsp_StatusCode r = 409 \<and> cps_reads w3 = cps_reads w2))"
proof -
  let ?scope = "rte_Pattern route @ ''|'' @ rateLimitSubject ctx"
  have ttl: "app_ttl (control_app cfg rsa v) = 10 * Minute" by (simp add: control_app_def NewApp_def)
  have serve: "serve_public (control_app cfg rsa v) c route x m q hs b =
      getOrStore (10 * Minute) c (rte_Pattern route @ ''|'' @ rateLimitSubject c) key (requestHash m q b)
        (produce_public (control_app cfg rsa v) c route x)" for c x m q b
    using assms(1-3) by (simp add: serve_public_def Let_def ttl)
  let ?e = "\<lparr>ide_requestHash = requestHash meth path body, ide_expiresAt = env_clock w + 10 * Minute, ide_response = response\<rparr>"
  have "cpw_entries w1 (?scope @ ''|'' @ key) = Some ?e"
    using control.getOrStore_stores [OF _ assms(5) [unfolded serve]] assms(4) by simp
  moreover have "control.keeps w1 w2" using control.run_keeps assms(6) by (simp add: run_http_def)
  ultimately have e: "cpw_entries w2 (?scope @ ''|'' @ key) = Some ?e"
    using assms(7) by (simp add: control.keeps_def)
  obtain t w3 where clk: "read_clock w2 = (t, w3)" by (cases "read_clock w2")
  have "\<exists>r w4. getOrStore (10 * Minute) ctx' ?scope key h p w2 = (Inr r, w4) \<and> rsp_StatusCode r = 409 \<and>
      cps_reads w4 = cps_reads w2" if "h \<noteq> requestHash meth path body" for h p
    using e that assms(7) read_clock_control [OF clk] read_clock_quiet [OF clk]
    by (simp add: getOrStore_def idempotency_finish_def op_defs clk idempotency_lookup_def Let_def errorResponse_def JSONResponse_def quiet_def)
  then show ?thesis using control.getOrStore_replay [OF e] assms(7,8) by (simp add: serve)
qed

text \<open>The two locked parts of an idempotent request as steps, and two such requests in the order of a schedule.\<close>

datatype request_stage = Arrived | LookedUp time lookup_result | Answered Response

definition request_step ::
  "duration \<Rightarrow> RequestContext \<Rightarrow> string \<Rightarrow> string \<Rightarrow> ('x control_world_scheme, Response) op \<Rightarrow> request_stage \<Rightarrow>
   ('x control_world_scheme, request_stage) op" where
  "request_step ttl ctx key h produce stage =
     (case stage of
        Arrived \<Rightarrow>
          bindE (liftE read_clock) (\<lambda>now.
          bindE (idempotency_lookup now key h) (\<lambda>found. ret (LookedUp now found)))
      | LookedUp now found \<Rightarrow>
          bindE (idempotency_finish ttl ctx now key h produce found) (\<lambda>r. ret (Answered r))
      | Answered r \<Rightarrow> ret (Answered r))"

fun run_two ::
  "(request_stage \<Rightarrow> ('w, request_stage) op) \<Rightarrow> (request_stage \<Rightarrow> ('w, request_stage) op) \<Rightarrow> bool list \<Rightarrow>
   request_stage \<times> request_stage \<Rightarrow> ('w, request_stage \<times> request_stage) op" where
  "run_two f g [] st = ret st"
| "run_two f g (first # rest) (s, t) =
     (if first then bindE (f s) (\<lambda>s'. run_two f g rest (s', t)) else bindE (g t) (\<lambda>t'. run_two f g rest (s, t')))"

lemma getOrStore_steps:
  "getOrStore ttl ctx scope key h produce =
   bindE (bindE (request_step ttl ctx (scope @ ''|'' @ key) h produce Arrived)
     (request_step ttl ctx (scope @ ''|'' @ key) h produce))
     (\<lambda>st. case st of Answered r \<Rightarrow> ret r | _ \<Rightarrow> fail injected_fault)"
  by (rule ext) (simp add: getOrStore_def request_step_def op_defs Let_def split: prod.split sum.split)

definition replayed :: "Response \<Rightarrow> bool" where
  "replayed r \<longleftrightarrow> (''X-HomeSignal-Idempotency-Replayed'', ''true'') \<in> set (rsp_Headers r)"

lemma replayed_simps [simp]:
  "\<not> replayed (errorResponse ctx status code message)" "\<not> replayed (JSONResponse status payload)"
  "k \<noteq> ''X-HomeSignal-Idempotency-Replayed'' \<Longrightarrow> replayed (with_header k v r) = replayed r"
  by (auto simp: replayed_def errorResponse_def JSONResponse_def with_header_def set_header_def Let_def split: option.split)

lemma models_not_replayed:
  "wp (handlePublicReadModelRoute (control_app cfg rsa v) ctx route s) (\<lambda>x _. \<forall>r. x = Some r \<longrightarrow> \<not> replayed r) (\<lambda>_ _. False) w"
  unfolding handlePublicReadModelRoute_def
  by (auto simp: wp_simps wp_def [of "rmp_Dashboard _ _"] wp_def [of "rmp_Devices _ _"] wp_def [of "rmp_Activity _ _"] split: option.split prod.split sum.split)

lemma produce_not_replayed:
  "wp (produce_public (control_app cfg rsa v) ctx route s) (\<lambda>r w'. \<not> replayed r) (\<lambda>_ _. False) w"
  unfolding produce_public_def
  by (auto simp: wp_simps Let_def rateLimitedResponse_def not_implemented_def
      intro!: wp_mono [OF control.allowRoute_keeps] wp_mono [OF models_not_replayed])
    (auto simp: wp_simps Let_def not_implemented_def split: option.split)

text \<open>Two requests with one idempotency key that arrive together are both carried out: the first one's
  lookup leaves no mark, so that the second one misses, too. Neither answer is a replay, and the second is the
  one that stays stored.\<close>

theorem concurrent_requests_both_run:
  assumes "cpw_entries w key = None"
    and "step = request_step ttl ctx key h (produce_public (control_app cfg rsa v) ctx route s)"
  shows "\<exists>r1 r2 w' e. run_two step step [True, False, True, False] (Arrived, Arrived) w = (Inr (Answered r1, Answered r2), w') \<and>
    \<not> replayed r1 \<and> \<not> replayed r2 \<and> cpw_entries w' key = Some e \<and> ide_response e = r2"
proof -
  have look: "wp (step Arrived) (\<lambda>st w'. (\<exists>now. st = LookedUp now Miss) \<and> cpw_entries w' key = None) (\<lambda>_ _. False) w"
    if "cpw_entries w key = None" for w
    using that unfolding assms(2) request_step_def
    by (auto simp: wp_simps wp_def [of "idempotency_lookup _ _ _"] idempotency_lookup_def split: prod.split dest!: read_clock_control)
  have finish: "wp (step (LookedUp now Miss)) (\<lambda>st w'. \<exists>r e. st = Answered r \<and> \<not> replayed r \<and>
      cpw_entries w' key = Some e \<and> ide_response e = r) (\<lambda>_ _. False) w" for now w
    unfolding assms(2) request_step_def idempotency_finish_def
    by (auto simp: wp_simps intro!: wp_mono [OF produce_not_replayed]) (auto simp: wp_simps wp_idempotency_store)
  have "wp (run_two step step [True, False, True, False] (Arrived, Arrived))
      (\<lambda>st w'. \<exists>r1 r2 e. st = (Answered r1, Answered r2) \<and> \<not> replayed r1 \<and> \<not> replayed r2 \<and>
         cpw_entries w' key = Some e \<and> ide_response e = r2) (\<lambda>_ _. False) w"
    using assms(1)
    by (auto simp: wp_simps intro!: wp_mono [OF look])
      (auto simp: wp_simps intro!: wp_mono [OF finish])
  then show ?thesis by (auto simp: wp_def split: prod.splits sum.splits)
qed

text \<open>Calls of the limiter, with their times and answers.\<close>

fun limiter_run ::
  "int \<Rightarrow> duration \<Rightarrow> string list \<Rightarrow> 'x control_world_scheme \<Rightarrow> (string \<times> time \<times> bool) list" where
  "limiter_run limit window [] w = []"
| "limiter_run limit window (s # ss) w =
     (case limiter_allow limit window s w of
        (Inr (ok, _), w') \<Rightarrow> (s, env_clock w, ok) # limiter_run limit window ss w'
      | (Inl _, w') \<Rightarrow> limiter_run limit window ss w')"

lemma limiter_allow_result:
  "\<exists>n w'. limiter_allow limit window s w =
     (Inr (rbk_count (count_request window (env_clock w) (cpw_buckets w s)) \<le> limit, n), w') \<and>
   cpw_buckets w' = (cpw_buckets w)(s \<mapsto> count_request window (env_clock w) (cpw_buckets w s)) \<and> env_clock w \<le> env_clock w'"
proof -
  have "wp (limiter_allow limit window s)
      (\<lambda>(ok, n) w'. ok = (rbk_count (count_request window (env_clock w) (cpw_buckets w s)) \<le> limit) \<and>
         cpw_buckets w' = (cpw_buckets w)(s \<mapsto> count_request window (env_clock w) (cpw_buckets w s)) \<and>
         env_clock w \<le> env_clock w') (\<lambda>_ _. False) w"
    unfolding limiter_allow_def
    by (auto simp: wp_simps wp_state Let_def split: prod.split dest!: read_clock_control)
  then show ?thesis by (auto simp: wp_def split: prod.splits sum.splits)
qed

lemma limiter_run_scope:
  "\<exists>ts. map snd (filter (\<lambda>x. fst x = scope) (limiter_run limit window ss w)) =
     allowed_at limit window (cpw_buckets w scope) ts \<and> sorted ts \<and> (\<forall>t \<in> set ts. env_clock w \<le> t)"
proof (induction ss arbitrary: w)
  case (Cons s ss)
  obtain n w' where l: "limiter_allow limit window s w =
     (Inr (rbk_count (count_request window (env_clock w) (cpw_buckets w s)) \<le> limit, n), w')"
    and b: "cpw_buckets w' = (cpw_buckets w)(s \<mapsto> count_request window (env_clock w) (cpw_buckets w s))"
    and t: "env_clock w \<le> env_clock w'"
    using limiter_allow_result by blast
  obtain ts where ts: "map snd (filter (\<lambda>x. fst x = scope) (limiter_run limit window ss w')) =
     allowed_at limit window (cpw_buckets w' scope) ts" "sorted ts" "\<forall>t \<in> set ts. env_clock w' \<le> t"
    using Cons.IH by blast
  show ?case
  proof (cases "s = scope")
    case True
    with l b t ts show ?thesis by (intro exI [of _ "env_clock w # ts"]) auto
  next
    case False
    with l b t ts show ?thesis by (intro exI [of _ ts]) auto
  qed
qed (simp add: exI [of _ "[]"])

text \<open>C21: Of one scope's requests, whatever the other scopes do, at most twice the limit gets through in any span
  of one window (at most 1200 a minute for the limiter the application makes).\<close>

theorem rate_limit_bound:
  assumes "0 < window" and "0 \<le> limit" and "0 \<le> T" and "bucket_ok (cpw_buckets w scope)"
  shows "int (length (filter (\<lambda>(s, t, ok). s = scope \<and> T \<le> t \<and> t < T + window \<and> ok)
    (limiter_run limit window ss w))) \<le> 2 * limit"
proof -
  obtain ts where ts: "map snd (filter (\<lambda>x. fst x = scope) (limiter_run limit window ss w)) =
     allowed_at limit window (cpw_buckets w scope) ts" "sorted ts"
    using limiter_run_scope [of scope limit window ss w] by blast
  have "filter (\<lambda>(s, t, ok). s = scope \<and> T \<le> t \<and> t < T + window \<and> ok) rs =
      filter (\<lambda>x. case snd x of (t, ok) \<Rightarrow> T \<le> t \<and> t < T + window \<and> ok) (filter (\<lambda>x. fst x = scope) rs)" for rs
    by (induction rs) auto
  then have "length (filter (\<lambda>(s, t, ok). s = scope \<and> T \<le> t \<and> t < T + window \<and> ok) (limiter_run limit window ss w)) =
      length (filter (\<lambda>(t, ok). T \<le> t \<and> t < T + window \<and> ok)
        (map snd (filter (\<lambda>x. fst x = scope) (limiter_run limit window ss w))))"
    by (simp add: filter_map comp_def)
  with allowed_count_bound [OF ts(2) assms(3,1,2,4)] show ?thesis by (simp add: ts(1) allowed_count_def)
qed

section \<open>Witnesses\<close>

definition demo_app_config :: AppConfig where
  "demo_app_config = \<lparr>acf_ServiceName = ''control-plane'', acf_Environment = ''test'', acf_Version = ''1''\<rparr>"

definition demo_control :: control_store where
  "demo_control = \<lparr>env_faults = [], env_clock = Second, env_ticks = [], env_ids = [], cpw_entries = Map.empty,
     cpw_buckets = Map.empty, cpw_counter = 0, cps_auth = demo_authn, cps_reads = [],
     cps_payload = (\<lambda>operation user. Inr (Some ''{}''))\<rparr>"

abbreviation demo_app :: "control_store App" where
  "demo_app \<equiv> control_app demo_app_config demo_rsa demo_verifier"

theorem rate_limit_bound_witness:
  "int (length (filter (\<lambda>(s, t, ok). s = ''r'' \<and> 0 \<le> t \<and> t < 0 + Minute \<and> ok)
     (limiter_run 1 Minute [''r'', ''r'', ''q'', ''r''] demo_control))) \<le> 2 * 1"
  by (rule rate_limit_bound) (simp_all add: bucket_ok_def demo_control_def)

lemma demo_route:
  "find_route ''POST'' ''/api/v1/device-enrollment/claim-verifications/v/confirm'' False publicRouteSpecs =
     (Some (publicRouteSpecs ! 7), False)"
  by code_simp

definition demo_context :: RequestContext where
  "demo_context = \<lparr>rqc_RequestID = ''q'', rqc_CorrelationID = ''c'', rqc_CorrelationIDSource = ''generated'',
     rqc_ActorType = [], rqc_ActorID = [], rqc_AuthMethod = [], rqc_SourceIP = ''10.0.0.1:5'', rqc_UserAgent = [],
     rqc_RouteTemplate = [], rqc_IdempotencyKey = []\<rparr>"

theorem concurrent_requests_both_run_witness:
  "\<exists>r1 r2 w' e. run_two (request_step Minute demo_context ''k'' ''h'' (produce_public demo_app demo_context (publicRouteSpecs ! 7) no_subject))
       (request_step Minute demo_context ''k'' ''h'' (produce_public demo_app demo_context (publicRouteSpecs ! 7) no_subject))
       [True, False, True, False] (Arrived, Arrived) demo_control = (Inr (Answered r1, Answered r2), w') \<and>
     \<not> replayed r1 \<and> \<not> replayed r2 \<and> cpw_entries w' ''k'' = Some e \<and> ide_response e = r2"
  by (rule concurrent_requests_both_run [OF _ refl]) (simp add: demo_control_def)

lemma wp_returns: "wp m Q (\<lambda>_ _. False) w \<Longrightarrow> \<exists>a w'. m w = (Inr a, w') \<and> Q a w'"
  by (auto simp: wp_def split: prod.splits sum.splits)

text \<open>Without ticks the clock stands still.\<close>

definition still :: "time \<Rightarrow> control_store \<Rightarrow> bool" where
  "still t w \<longleftrightarrow> env_ticks w = [] \<and> env_clock w = t"

lemma still_read: "still t w \<Longrightarrow> read_clock w = (t, w)"
  by (cases w) (simp add: still_def read_clock_def)

lemma still_frame [simp]:
  "still t (w\<lparr>cpw_buckets := bs\<rparr>) = still t w" "still t (w\<lparr>cpw_entries := es\<rparr>) = still t w"
  by (simp_all add: still_def)

lemma allowRoute_still: "still t w \<Longrightarrow> wp (allowRoute a ctx p) (\<lambda>_ w'. still t w') (\<lambda>_ _. False) w"
  unfolding allowRoute_def limiter_allow_def
  by (auto simp: wp_simps wp_state Let_def still_read split: option.split)

lemma serve_public_still:
  assumes "still t w" and "rte_Method route = ''POST''"
  shows "wp (serve_public a ctx route s meth path hs body) (\<lambda>_ w'. still t w') (\<lambda>_ _. False) w"
proof -
  have models: "wp (handlePublicReadModelRoute a ctx route s) (\<lambda>_ w'. still t w') (\<lambda>_ _. False) w" if "still t w" for w
    using that assms(2) by (simp add: handlePublicReadModelRoute_def wp_simps split: option.split)
  have produce: "wp (produce_public a ctx route s) (\<lambda>_ w'. still t w') (\<lambda>_ _. False) w" if "still t w" for w
    unfolding produce_public_def using that
    by (auto simp: wp_simps Let_def intro!: wp_mono [OF allowRoute_still])
      (auto simp: wp_simps Let_def intro!: wp_mono [OF models] split: option.split)
  show ?thesis unfolding serve_public_def getOrStore_def idempotency_finish_def using assms(1)
    by (auto simp: wp_simps Let_def still_read wp_def [of "idempotency_lookup _ _ _"] idempotency_lookup_def
        intro!: produce split: option.split lookup_result.split)
      (auto simp: wp_simps wp_idempotency_store intro!: wp_mono [OF produce])
qed

theorem idempotent_replay_witness:
  "\<exists>response w1 w2. serve_public demo_app demo_context (publicRouteSpecs ! 7) no_subject ''POST'' ''/p'' [(''idempotency-key'', ''k'')] ''{}'' w1 =
     (Inr (with_header ''X-HomeSignal-Idempotency-Replayed'' ''true'' response), w2)"
proof -
  have pre: "rte_RequiresIdempotency (publicRouteSpecs ! 7)" and post: "rte_Method (publicRouteSpecs ! 7) = ''POST''"
    by (simp_all add: publicRouteSpecs_def)
  have key: "TrimSpace (headerValue [(''idempotency-key'', ''k'')] ''Idempotency-Key'') = ''k''" by code_simp
  have "still Second demo_control" by (simp add: still_def demo_control_def)
  from wp_returns [OF serve_public_still [OF this post]] obtain response w1
    where s: "serve_public demo_app demo_context (publicRouteSpecs ! 7) no_subject ''POST'' ''/p''
      [(''idempotency-key'', ''k'')] ''{}'' demo_control = (Inr response, w1)" and "still Second w1" by blast
  then have "env_clock (run_http demo_app [] w1) \<le> env_clock demo_control + 10 * Minute"
    by (simp add: still_def demo_control_def run_http_def Minute_def Second_def)
  from idempotent_replay [OF pre refl _ _ s refl this refl, unfolded key, THEN conjunct1] show ?thesis
    by (simp add: demo_control_def) blast
qed

section \<open>A request for the dashboard\<close>

definition demo_request :: HttpRequest where
  "demo_request = \<lparr>hrq_Method = ''GET'', hrq_Path = ''/api/v1/dashboard'',
     hrq_Header = [(''Authorization'', [demo_authorization])], hrq_RemoteAddr = ''10.0.0.1:5'', hrq_Body = Inr []\<rparr>"

lemma demo_dashboard:
  "operationalRoutes ''GET'' ''/api/v1/dashboard'' = None" "\<not> operationalPathExists ''/api/v1/dashboard''"
  "HasPrefix ''/api/v1/dashboard'' ''/api/v1''"
  "findPublicRoute ''GET'' ''/api/v1/dashboard'' =
     (Some (get_route ''/api/v1/dashboard'' ''getDashboard''), False)"
  by code_simp+

lemma demo_header_value:
  "headerValue (firstHeaderValues (hrq_Header demo_request)) ''Authorization'' = demo_authorization"
proof -
  have "EqualFold ''Authorization'' ''Authorization''" by code_simp
  then show ?thesis by (simp add: demo_request_def firstHeaderValues_def headerValue_def)
qed

lemma demo_header_there: "TrimSpace demo_authorization \<noteq> []"
proof -
  have "last ([x] @ demo_token) = CHR ''s''" for x by (simp add: demo_token_def demo_segment1_def demo_segment2_def)
  then have "TrimSpace demo_authorization = demo_authorization"
    by (intro TrimSpace_visible) (simp_all add: demo_authorization_def visible_def)
  then show ?thesis by (simp add: demo_authorization_def)
qed

definition demo_state :: "control_store \<Rightarrow> bool" where
  "demo_state w \<longleftrightarrow> cps_auth w = demo_authn \<and> cps_reads w = [] \<and> cpw_buckets w = Map.empty"

lemma read_clock_demo: "read_clock w = (t, w') \<Longrightarrow> demo_state w' = demo_state w \<and> cpw_buckets w' = cpw_buckets w \<and> cps_reads w' = cps_reads w"
  using read_clock_control [of w t w'] read_clock_quiet [of w t w'] by (simp add: demo_state_def quiet_def)

lemma demo_signed_in:
  assumes "demo_state w"
  shows "wp (authenticateHuman demo_app ctx (firstHeaderValues (hrq_Header demo_request)))
    (\<lambda>r w'. (\<exists>s. r = Inr s) \<and> cps_reads w' = [] \<and> cpw_buckets w' = Map.empty) (\<lambda>_ _. False) w"
proof -
  have "app_humanAuthenticator demo_app =
      Some (\<lambda>header. on_auth (Authenticate (human_authenticator demo_rsa demo_verifier) header))"
    by (simp add: control_app_def NewApp_def)
  then show ?thesis using assms
    by (simp add: authenticateHuman_def demo_header_value wp_simps wp_on_auth demo_state_def)
      (simp add: wp_def demo_authenticated)
qed

lemma demo_allowed:
  "cps_reads w = [] \<Longrightarrow> cpw_buckets w = Map.empty \<Longrightarrow>
   wp (allowRoute demo_app ctx p) (\<lambda>(ok, n) w'. ok \<and> cps_reads w' = []) (\<lambda>_ _. False) w"
  unfolding allowRoute_def limiter_allow_def control_app_def NewApp_def
  by (auto simp: wp_simps wp_state Let_def count_request_def zero_time_def split: prod.split dest!: read_clock_demo)

lemma demo_context_made:
  assumes "demo_state w"
  shows "wp (NewRequestContext r) (\<lambda>_ w'. demo_state w') (\<lambda>_ _. False) w"
proof -
  have id: "wp (NewID p) (\<lambda>_ w'. demo_state w') (\<lambda>_ _. False) w" if "demo_state w" for p w
    unfolding NewID_def using that
    by (auto simp: wp_simps wp_state split: prod.split dest!: read_clock_demo) (simp add: demo_state_def)
  show ?thesis unfolding NewRequestContext_def using assms
    by (auto simp: wp_simps Let_def intro!: wp_mono [OF id])
qed

lemma demo_served:
  assumes "cps_reads w = []" and "cpw_buckets w = Map.empty"
  shows "wp (serve_public demo_app ctx (get_route ''/api/v1/dashboard'' ''getDashboard'') s meth path hs body)
    (\<lambda>_ w'. cps_reads w' \<noteq> []) (\<lambda>_ _. False) w"
proof -
  have models: "wp (handlePublicReadModelRoute demo_app ctx (get_route ''/api/v1/dashboard'' ''getDashboard'') s)
      (\<lambda>x w'. cps_reads w' \<noteq> [] \<and> x \<noteq> None) (\<lambda>_ _. False) w" for ctx w
    unfolding handlePublicReadModelRoute_def get_route_def
    by (simp add: control_app_def NewApp_def store_models_def wp_simps wp_def [of "read_model _ _"] read_model_def
        split: sum.split)
  show ?thesis unfolding serve_public_def produce_public_def using assms
    by (auto simp: get_route_def wp_simps intro!: wp_mono [OF demo_allowed])
      (auto simp: get_route_def [symmetric] wp_simps intro!: wp_mono [OF models])
qed

theorem reads_need_token_witness:
  "\<exists>(w' :: control_store) operation user. cps_reads w' = [(operation, user)] \<and>
    token_holder demo_rsa (cgv_cfg demo_verifier) demo_authorization demo_authn (cps_auth w') user"
proof -
  have start: "demo_state demo_control" "cps_auth demo_control = demo_authn" "cps_reads demo_control = []"
    by (simp_all add: demo_state_def demo_control_def)
  have public: "wp (handlePublicAPIRoute demo_app ctx ''GET'' ''/api/v1/dashboard'' (firstHeaderValues (hrq_Header demo_request)) [])
      (\<lambda>_ w'. cps_reads w' \<noteq> []) (\<lambda>_ _. False) w" if "demo_state w" for ctx w
    unfolding handlePublicAPIRoute_def using that
    by (auto simp: demo_dashboard demo_header_value demo_header_there wp_simps Let_def get_route_def
        intro!: wp_mono [OF demo_signed_in])
      (auto simp: get_route_def [symmetric] wp_simps intro!: wp_mono [OF demo_served])
  have "wp (ServeHTTP demo_app demo_request) (\<lambda>_ w'. cps_reads w' \<noteq> []) (\<lambda>_ _. False) demo_control"
    unfolding ServeHTTP_def ServeWithContext_def using start(1)
    by (auto simp: wp_simps intro!: wp_mono [OF demo_context_made])
      (auto simp: demo_request_def wp_simps demo_dashboard intro!: wp_mono [OF public [unfolded demo_request_def HttpRequest.simps]])
  from wp_returns [OF this] obtain response w'
    where "ServeHTTP demo_app demo_request demo_control = (Inr response, w')" "cps_reads w' \<noteq> []" by blast
  moreover have "jwc_keys (nw_cache (cps_auth demo_control)) = None" by (simp add: start demo_authn_def)
  moreover have "demo_control = run_http demo_app [] demo_control" by (simp add: run_http_def)
  ultimately show ?thesis
    using reads_need_token [OF demo_verifier_eq, of demo_control demo_control demo_app_config demo_rsa "[]" demo_request response w']
    by (simp add: start demo_header_value) blast
qed

end
