(* ===== verification/Migrations.thy ===== *)
theory Migrations
  imports Go_Files Go_Crypto_Url "HOL-Library.Char_ord" "HOL-Library.List_Lexorder"
begin

text \<open>
  The migration runner: \<open>backend/internal/platform/migration/migration.go\<close>.

  A directory is what \<open>os.ReadDir\<close> says of it, names with a directory mark, and the files of the disk. The
  database is an interface of the calls the runner makes: statements run inside a transaction, and what a
  statement does to a schema is a parameter. Versions are compared as the byte strings they are.
\<close>

section \<open>Migrations\<close>

record Migration =
  mig_Version :: string
  mig_Filename :: string
  mig_UpSQL :: string
  mig_DownSQL :: string
  mig_Checksum :: string

record AppliedMigration =
  apm_Version :: string
  apm_Filename :: string
  apm_Checksum :: string
  apm_AppliedAt :: time

record MigrationStatus =
  mst_Migration :: Migration
  mst_Applied :: "AppliedMigration option"

text \<open>\<open>^([0-9]+)_.+\.sql$\<close> and its first group; the dot matches no line feed.\<close>

definition file_version :: "string \<Rightarrow> string option" where
  "file_version filename =
     (let digits = takeWhile is_digit filename in
      case dropWhile is_digit filename of
        [] \<Rightarrow> None
      | c # r \<Rightarrow>
          if digits \<noteq> [] \<and> c = CHR ''_'' \<and> HasSuffix r ''.sql'' \<and> 4 < length r \<and>
             CHR 0x0A \<notin> set (take (length r - 4) r)
          then Some digits else None)"

section \<open>Sections of a file\<close>

text \<open>\<open>bufio.Scanner\<close>: lines without their end, or None for a line that does not fit in its buffer of 64 KB.\<close>

definition drop_cr :: "string \<Rightarrow> string" where
  "drop_cr l = (if l \<noteq> [] \<and> last l = CHR 0x0D then butlast l else l)"

definition scan_lines :: "string \<Rightarrow> string list option" where
  "scan_lines s =
     (let ls = Split s (CHR 0x0A) in
      if list_ex (\<lambda>l. 65536 \<le> length l) ls then None
      else Some (map drop_cr (if last ls = [] then butlast ls else ls)))"

fun goose_sections :: "string \<Rightarrow> bool \<Rightarrow> string \<Rightarrow> string \<Rightarrow> string list \<Rightarrow> bool \<times> string \<times> string" where
  "goose_sections sect found up down [] = (found, up, down)"
| "goose_sections sect found up down (line # ls) =
     (let directive = TrimSpace line in
      if directive = ''-- +goose Up'' then goose_sections ''up'' True up down ls
      else if directive = ''-- +goose Down'' then goose_sections ''down'' found up down ls
      else if directive \<in> set [''-- +goose StatementBegin'', ''-- +goose StatementEnd''] then
        goose_sections sect found up down ls
      else if sect = ''up'' then goose_sections sect found (up @ line @ [CHR 0x0A]) down ls
      else if sect = ''down'' then goose_sections sect found up (down @ line @ [CHR 0x0A]) ls
      else goose_sections sect found up down ls)"

definition ParseGooseSections :: "string \<Rightarrow> go_error + string \<times> string" where
  "ParseGooseSections sqlText =
     (case scan_lines sqlText of
        None \<Rightarrow> Inl (Sentinel ''bufio.Scanner: token too long'')
      | Some ls \<Rightarrow>
          (case goose_sections [] False [] [] ls of (found, up, down) \<Rightarrow>
             if \<not> found then Inl (Errorf ''missing -- +goose Up directive'' []) else Inr (up, down)))"

definition splitSQLStatements :: "string \<Rightarrow> string list" where
  "splitSQLStatements sqlText = filter (\<lambda>s. s \<noteq> []) (map TrimSpace (Split sqlText (CHR '';'')))"

section \<open>Loading a directory\<close>

definition new_migration :: "string \<Rightarrow> string \<Rightarrow> string \<Rightarrow> string \<Rightarrow> string \<Rightarrow> Migration" where
  "new_migration version filename up down body =
     \<lparr>mig_Version = version, mig_Filename = filename, mig_UpSQL = TrimSpace up, mig_DownSQL = TrimSpace down,
      mig_Checksum = sha256_hex body\<rparr>"

fun load_entries :: "'w FileSystem \<Rightarrow> string \<Rightarrow> Migration list \<Rightarrow> (string \<times> bool) list \<Rightarrow> ('w, Migration list) op" where
  "load_entries fs dir acc [] = ret acc"
| "load_entries fs dir acc ((filename, isDir) # es) =
     (case (if isDir then None else file_version filename) of
        None \<Rightarrow> load_entries fs dir acc es
      | Some version \<Rightarrow>
          bindE (wrapE ''read migration %s'' (fsy_ReadFile fs (filepath_Join [dir, filename]))) (\<lambda>body.
          bindE (wrapE ''parse migration %s'' (pureE (ParseGooseSections body))) (\<lambda>(up, down).
          bindE (failIf (TrimSpace up = []) (Errorf ''migration %s has an empty Up section'' [filename])) (\<lambda>_.
          load_entries fs dir (acc @ [new_migration version filename up down body]) es))))"

fun first_duplicate :: "Migration list \<Rightarrow> string option" where
  "first_duplicate (a # b # ms) =
     (if mig_Version a = mig_Version b then Some (mig_Version b) else first_duplicate (b # ms))"
| "first_duplicate _ = None"

definition LoadDir ::
  "(string \<Rightarrow> ('w, (string \<times> bool) list) op) \<Rightarrow> 'w FileSystem \<Rightarrow> string \<Rightarrow> ('w, Migration list) op" where
  "LoadDir readDir fs dir =
     bindE (wrapE ''read migrations dir'' (readDir dir)) (\<lambda>entries.
     bindE (load_entries fs dir [] entries) (\<lambda>loaded.
     let migrations = sort_key mig_Version loaded in
     case first_duplicate migrations of
       Some v \<Rightarrow> fail (Errorf ''duplicate migration version %s'' [v])
     | None \<Rightarrow> ret migrations))"

section \<open>The runner\<close>

record 'w MigrationDB =
  mdb_EnsureTable :: "('w, unit) op"
  mdb_Applied :: "('w, AppliedMigration list) op"
  mdb_Begin :: "('w, unit) op"
  mdb_Exec :: "string \<Rightarrow> ('w, unit) op"
  mdb_Insert :: "string \<Rightarrow> string \<Rightarrow> string \<Rightarrow> ('w, unit) op"
  mdb_Rollback :: "('w, unit) op"
  mdb_Commit :: "('w, unit) op"

record 'w Runner =
  rnr_DB :: "'w MigrationDB option"
  rnr_Migrations :: "Migration list"

definition ensureSchemaTable :: "'w MigrationDB \<Rightarrow> ('w, unit) op" where
  "ensureSchemaTable db = wrapE ''ensure schema_migrations table'' (mdb_EnsureTable db)"

definition runner_applied :: "'w Runner \<Rightarrow> ('w, string \<Rightarrow> AppliedMigration option) op" where
  "runner_applied r =
     bindE (required (rnr_DB r) (Errorf ''migration runner requires a database'' [])) (\<lambda>db.
     bindE (ensureSchemaTable db) (\<lambda>_.
     bindE (wrapE ''read schema_migrations'' (mdb_Applied db)) (\<lambda>rows.
     ret (map_of (rev (map (\<lambda>a. (apm_Version a, a)) rows))))))"

definition runner_Status :: "'w Runner \<Rightarrow> ('w, MigrationStatus list) op" where
  "runner_Status r =
     bindE (runner_applied r) (\<lambda>applied.
     ret (map (\<lambda>m. \<lparr>mst_Migration = m, mst_Applied = applied (mig_Version m)\<rparr>) (rnr_Migrations r)))"

fun pending_from :: "Migration list \<Rightarrow> MigrationStatus list \<Rightarrow> go_error + Migration list" where
  "pending_from acc [] = Inr acc"
| "pending_from acc (s # ss) =
     (case mst_Applied s of
        None \<Rightarrow> pending_from (acc @ [mst_Migration s]) ss
      | Some a \<Rightarrow>
          if apm_Checksum a \<noteq> mig_Checksum (mst_Migration s) then
            Inl (Errorf ''migration %s checksum changed after apply'' [mig_Filename (mst_Migration s)])
          else pending_from acc ss)"

definition Pending :: "'w Runner \<Rightarrow> ('w, Migration list) op" where
  "Pending r = bindE (runner_Status r) (\<lambda>statuses. pureE (pending_from [] statuses))"

text \<open>An error inside the transaction: roll back, whatever that returns, and report it.\<close>

definition rolled_back :: "'w MigrationDB \<Rightarrow> string \<Rightarrow> ('w, unit) op \<Rightarrow> ('w, unit) op" where
  "rolled_back db msg m =
     bindE (attemptE m) (\<lambda>r.
     case r of
       Inl e \<Rightarrow> bindE (ignoreE (mdb_Rollback db)) (\<lambda>_. fail (Wrapf msg e))
     | Inr u \<Rightarrow> ret ())"

fun exec_statements :: "'w MigrationDB \<Rightarrow> string list \<Rightarrow> ('w, unit) op" where
  "exec_statements db [] = ret ()"
| "exec_statements db (s # ss) =
     (if TrimSpace s = [] then exec_statements db ss
      else bindE (rolled_back db ''apply migration %s'' (mdb_Exec db s)) (\<lambda>_. exec_statements db ss))"

definition apply_migration :: "'w MigrationDB \<Rightarrow> Migration \<Rightarrow> ('w, unit) op" where
  "apply_migration db m =
     bindE (wrapE ''begin migration %s'' (mdb_Begin db)) (\<lambda>_.
     bindE (exec_statements db (splitSQLStatements (mig_UpSQL m))) (\<lambda>_.
     bindE (rolled_back db ''record migration %s''
       (mdb_Insert db (mig_Version m) (mig_Filename m) (mig_Checksum m))) (\<lambda>_.
     wrapE ''commit migration %s'' (mdb_Commit db))))"

fun apply_all :: "'w MigrationDB \<Rightarrow> Migration list \<Rightarrow> Migration list \<Rightarrow> ('w, Migration list) op" where
  "apply_all db acc [] = ret acc"
| "apply_all db acc (m # ms) = bindE (apply_migration db m) (\<lambda>_. apply_all db (acc @ [m]) ms)"

text \<open>\<open>Pending\<close> has returned without an error only with a database.\<close>

definition Apply :: "'w Runner \<Rightarrow> ('w, Migration list) op" where
  "Apply r =
     bindE (Pending r) (\<lambda>pending.
     bindE (required (rnr_DB r) (Errorf ''migration runner requires a database'' [])) (\<lambda>db.
     apply_all db [] pending))"

end
