(* ===== verification/Migration_Store.thy ===== *)
theory Migration_Store
  imports Migrations
begin

text \<open>
  What the migration runner does to every database that keeps the contract of a transaction
  (\<open>migration_db\<close>): a migration is applied and recorded, or neither. Then a database with faults and the
  properties.
\<close>

section \<open>Executing migrations\<close>

fun run_sql :: "(string \<Rightarrow> 's \<Rightarrow> 's option) \<Rightarrow> string list \<Rightarrow> 's \<Rightarrow> 's option" where
  "run_sql sql [] sc = Some sc"
| "run_sql sql (s # ss) sc = (case sql s sc of None \<Rightarrow> None | Some sc' \<Rightarrow> run_sql sql ss sc')"

fun replay :: "(string \<Rightarrow> 's \<Rightarrow> 's option) \<Rightarrow> Migration list \<Rightarrow> 's \<Rightarrow> 's option" where
  "replay sql [] sc = Some sc"
| "replay sql (m # ms) sc =
     (case run_sql sql (splitSQLStatements (mig_UpSQL m)) sc of None \<Rightarrow> None | Some sc' \<Rightarrow> replay sql ms sc')"

lemma replay_append: "replay sql (xs @ ys) sc = Option.bind (replay sql xs sc) (replay sql ys)"
  by (induction xs arbitrary: sc) (auto split: option.split)

definition applied_as :: "AppliedMigration \<Rightarrow> Migration \<Rightarrow> bool" where
  "applied_as a m \<longleftrightarrow> apm_Version a = mig_Version m \<and> apm_Filename a = mig_Filename m \<and> apm_Checksum a = mig_Checksum m"

definition versions :: "AppliedMigration list \<Rightarrow> string list" where
  "versions rows = map apm_Version rows"

text \<open>From one committed state to another by whole migrations, each executed and recorded.\<close>

definition advanced ::
  "(string \<Rightarrow> 's \<Rightarrow> 's option) \<Rightarrow> Migration list \<Rightarrow> 's \<times> AppliedMigration list \<Rightarrow> 's \<times> AppliedMigration list \<Rightarrow> bool" where
  "advanced sql ms c c' \<longleftrightarrow> replay sql ms (fst c) = Some (fst c') \<and>
     (\<exists>new. snd c' = snd c @ new \<and> list_all2 applied_as new ms) \<and>
     (distinct (versions (snd c)) \<longrightarrow> distinct (versions (snd c')))"

lemma advanced_refl [simp]: "advanced sql [] c c"
  by (simp add: advanced_def)

lemma advanced_trans: "advanced sql xs c c1 \<Longrightarrow> advanced sql ys c1 c2 \<Longrightarrow> advanced sql (xs @ ys) c c2"
  unfolding advanced_def by (auto simp: replay_append intro!: list_all2_appendI)

lemma advanced_versions:
  "advanced sql ms c c' \<Longrightarrow> set (versions (snd c')) = set (versions (snd c)) \<union> mig_Version ` set ms"
proof -
  have same: "apm_Version ` set new = mig_Version ` set ms" if "list_all2 applied_as new ms" for new
    using that by (induction rule: list_all2_induct) (auto simp: applied_as_def)
  assume "advanced sql ms c c'"
  then obtain new where "snd c' = snd c @ new" "list_all2 applied_as new ms" by (auto simp: advanced_def)
  with same show ?thesis by (simp add: versions_def image_Un)
qed

text \<open>The migrations of a list whose version is not recorded.\<close>

definition pending_of :: "Migration list \<Rightarrow> AppliedMigration list \<Rightarrow> Migration list" where
  "pending_of ms rows = filter (\<lambda>m. mig_Version m \<notin> set (versions rows)) ms"

definition checksums_agree :: "Migration list \<Rightarrow> AppliedMigration list \<Rightarrow> bool" where
  "checksums_agree ms rows \<longleftrightarrow>
     (\<forall>m \<in> set ms. \<forall>a \<in> set rows. apm_Version a = mig_Version m \<longrightarrow> apm_Checksum a = mig_Checksum m)"

lemma pending_from_result:
  "pending_from acc (map (\<lambda>m. \<lparr>mst_Migration = m, mst_Applied = f (mig_Version m)\<rparr>) ms) =
   (case find (\<lambda>m. case f (mig_Version m) of None \<Rightarrow> False | Some a \<Rightarrow> apm_Checksum a \<noteq> mig_Checksum m) ms of
      Some m \<Rightarrow> Inl (Errorf ''migration %s checksum changed after apply'' [mig_Filename m])
    | None \<Rightarrow> Inr (acc @ filter (\<lambda>m. f (mig_Version m) = None) ms))"
  by (induction ms arbitrary: acc) (auto split: option.splits)

lemma map_of_versions:
  assumes "inj_on apm_Version (set rows)"
  shows "map_of (rev (map (\<lambda>a. (apm_Version a, a)) rows)) v = Some a \<longleftrightarrow> a \<in> set rows \<and> apm_Version a = v"
proof
  assume "map_of (rev (map (\<lambda>a. (apm_Version a, a)) rows)) v = Some a"
  from map_of_SomeD [OF this] show "a \<in> set rows \<and> apm_Version a = v" by auto
next
  assume a: "a \<in> set rows \<and> apm_Version a = v"
  then obtain b where b: "map_of (rev (map (\<lambda>a. (apm_Version a, a)) rows)) v = Some b"
    by (metis (mono_tags, lifting) image_eqI list.set_map map_of_eq_None_iff not_None_eq prod.sel(1) set_rev)
  from map_of_SomeD [OF b] have "b \<in> set rows" "apm_Version b = v" by auto
  with a assms have "b = a" by (auto dest: inj_onD)
  with b show "map_of (rev (map (\<lambda>a. (apm_Version a, a)) rows)) v = Some a" by simp
qed

section \<open>The contract\<close>

locale migration_db =
  fixes db :: "'w MigrationDB" and committed :: "'w \<Rightarrow> 's \<times> AppliedMigration list"
    and open_tx :: "'w \<Rightarrow> ('s \<times> AppliedMigration list) option" and sql :: "string \<Rightarrow> 's \<Rightarrow> 's option"
  assumes Ensure_law: "mdb_EnsureTable db w = (re, w') \<Longrightarrow> committed w' = committed w"
    and Applied_law: "mdb_Applied db w = (ra, w') \<Longrightarrow> committed w' = committed w \<and>
      (\<forall>rows. ra = Inr rows \<longrightarrow> set rows = set (snd (committed w)))"
    and Begin_law: "mdb_Begin db w = (rb, w') \<Longrightarrow> committed w' = committed w \<and>
      (rb = Inr () \<longrightarrow> open_tx w' = Some (committed w))"
    and Exec_law: "mdb_Exec db s w = (rx, w') \<Longrightarrow> open_tx w = Some (sc, rows) \<Longrightarrow> committed w' = committed w \<and>
      (rx = Inr () \<longrightarrow> (\<exists>sc'. sql s sc = Some sc' \<and> open_tx w' = Some (sc', rows)))"
    and Insert_law: "mdb_Insert db v f c w = (ri, w') \<Longrightarrow> open_tx w = Some (sc, rows) \<Longrightarrow> committed w' = committed w \<and>
      (ri = Inr () \<longrightarrow> (\<exists>t. open_tx w' = Some (sc, rows @ [\<lparr>apm_Version = v, apm_Filename = f, apm_Checksum = c,
         apm_AppliedAt = t\<rparr>]) \<and> v \<notin> set (versions rows)))"
    and Rollback_law: "mdb_Rollback db w = (rr, w') \<Longrightarrow> committed w' = committed w"
    and Commit_law: "mdb_Commit db w = (rc, w') \<Longrightarrow> open_tx w = Some x \<Longrightarrow>
      committed w' = (case rc of Inl e \<Rightarrow> committed w | Inr u \<Rightarrow> x)"
begin

lemma wp_rolled_back:
  assumes "wp m Q (\<lambda>_ w'. committed w' = c) w"
  shows "wp (rolled_back db msg m) (\<lambda>_. Q ()) (\<lambda>_ w'. committed w' = c) w"
proof -
  have undo: "wp (mdb_Rollback db) (\<lambda>_ w'. committed w' = committed w1) (\<lambda>_ w'. committed w' = committed w1) w1" for w1
    by (rule wpI) (auto dest: Rollback_law)
  show ?thesis unfolding rolled_back_def
    by (simp add: wp_simps, rule wp_mono [OF assms])
      (simp_all add: wp_simps, rule wp_mono [OF undo], simp_all add: wp_simps)
qed

lemma exec_statements_post:
  assumes "open_tx w = Some (sc, rows)" and "\<forall>s \<in> set ss. TrimSpace s \<noteq> []"
  shows "wp (exec_statements db ss)
    (\<lambda>_ w'. committed w' = committed w \<and> (\<exists>sc'. run_sql sql ss sc = Some sc' \<and> open_tx w' = Some (sc', rows)))
    (\<lambda>_ w'. committed w' = committed w) w"
  using assms
proof (induction ss arbitrary: w sc)
  case (Cons s ss)
  have "wp (mdb_Exec db s) (\<lambda>_ w'. committed w' = committed w \<and>
      (\<exists>sc'. sql s sc = Some sc' \<and> open_tx w' = Some (sc', rows))) (\<lambda>_ w'. committed w' = committed w) w"
    using Exec_law [OF _ Cons.prems(1)] by (intro wpI) fastforce+
  note exec = wp_rolled_back [OF this]
  have rest: "wp (exec_statements db ss)
      (\<lambda>_ w'. committed w' = committed w \<and> (\<exists>sc'. run_sql sql (s # ss) sc = Some sc' \<and> open_tx w' = Some (sc', rows)))
      (\<lambda>_ w'. committed w' = committed w) w1"
    if "committed w1 = committed w" "sql s sc = Some sc1" "open_tx w1 = Some (sc1, rows)" for w1 sc1
    using Cons.IH [OF that(3)] Cons.prems(2) that by simp
  show ?case using Cons.prems(2)
    by (simp add: wp_simps del: run_sql.simps, intro wp_mono [OF exec]) (auto intro!: rest simp del: run_sql.simps)
qed (simp add: wp_simps)

lemma apply_migration_post:
  "wp (apply_migration db m) (\<lambda>_ w'. advanced sql [m] (committed w) (committed w'))
     (\<lambda>_ w'. committed w' = committed w) w"
proof -
  let ?ss = "splitSQLStatements (mig_UpSQL m)"
  obtain sc rows where c: "committed w = (sc, rows)" by (cases "committed w")
  have "\<forall>s \<in> set ?ss. TrimSpace s \<noteq> []" by (auto simp: splitSQLStatements_def)
  then have exec: "wp (exec_statements db ?ss)
      (\<lambda>_ w'. committed w' = (sc, rows) \<and> (\<exists>sc'. run_sql sql ?ss sc = Some sc' \<and> open_tx w' = Some (sc', rows)))
      (\<lambda>_ w'. committed w' = (sc, rows)) w1" if "committed w1 = (sc, rows)" "open_tx w1 = Some (sc, rows)" for w1
    using exec_statements_post [OF that(2)] that(1) by simp
  have insert: "wp (rolled_back db msg (mdb_Insert db (mig_Version m) (mig_Filename m) (mig_Checksum m)))
      (\<lambda>_ w'. committed w' = (sc, rows) \<and> (\<exists>a. applied_as a m \<and> open_tx w' = Some (sc', rows @ [a]) \<and>
         apm_Version a \<notin> set (versions rows)))
      (\<lambda>_ w'. committed w' = (sc, rows)) w1"
    if "committed w1 = (sc, rows)" "open_tx w1 = Some (sc', rows)" for w1 sc' msg
    using Insert_law [OF _ that(2)] that(1)
    by (intro wp_rolled_back wpI) (fastforce simp: applied_as_def)+
  have commit: "wp (mdb_Commit db) (\<lambda>_ w'. committed w' = x) (\<lambda>_ w'. committed w' = (sc, rows)) w1"
    if "committed w1 = (sc, rows)" "open_tx w1 = Some x" for w1 x
    using Commit_law [OF _ that(2)] that(1) by (intro wpI) fastforce+
  have begun: "wp (mdb_Begin db) (\<lambda>_ w'. committed w' = (sc, rows) \<and> open_tx w' = Some (sc, rows))
      (\<lambda>_ w'. committed w' = (sc, rows)) w"
    using c by (intro wpI) (auto dest: Begin_law)
  have adv: "advanced sql [m] (sc, rows) (sc', rows @ [a])"
    if "run_sql sql ?ss sc = Some sc'" "applied_as a m" "apm_Version a \<notin> set (versions rows)" for sc' a
    using that by (auto simp: advanced_def versions_def)
  have recorded: "wp (bindE (rolled_back db msg (mdb_Insert db (mig_Version m) (mig_Filename m) (mig_Checksum m)))
        (\<lambda>_. wrapE msg' (mdb_Commit db)))
      (\<lambda>_ w'. advanced sql [m] (sc, rows) (committed w')) (\<lambda>_ w'. committed w' = (sc, rows)) w1"
    if "committed w1 = (sc, rows)" "open_tx w1 = Some (sc', rows)" "run_sql sql ?ss sc = Some sc'" for w1 sc' msg msg'
  proof -
    have done1: "wp (wrapE msg' (mdb_Commit db)) (\<lambda>_ w'. advanced sql [m] (sc, rows) (committed w'))
        (\<lambda>_ w'. committed w' = (sc, rows)) w2"
      if "committed w2 = (sc, rows)" "applied_as a m" "open_tx w2 = Some (sc', rows @ [a])" "apm_Version a \<notin> set (versions rows)" for w2 a
      using wp_mono [OF commit [OF that(1,3)]] adv [OF \<open>run_sql sql ?ss sc = Some sc'\<close> that(2,4)] by (simp add: wp_simps)
    show ?thesis
      by (subst wp_bindE, rule wp_mono [OF insert [OF that(1,2)]]) (use done1 in auto)
  qed
  show ?thesis unfolding apply_migration_def c wp_bindE [of "wrapE ''begin migration %s'' (mdb_Begin db)"] wp_wrapE
  proof (rule wp_mono [OF begun])
    fix u w1 assume "committed w1 = (sc, rows) \<and> open_tx w1 = Some (sc, rows)"
    then have w1: "committed w1 = (sc, rows)" "open_tx w1 = Some (sc, rows)" by auto
    show "wp (bindE (exec_statements db ?ss) (\<lambda>_. bindE (rolled_back db ''record migration %s''
        (mdb_Insert db (mig_Version m) (mig_Filename m) (mig_Checksum m))) (\<lambda>_. wrapE ''commit migration %s'' (mdb_Commit db))))
      (\<lambda>_ w'. advanced sql [m] (sc, rows) (committed w')) (\<lambda>_ w'. committed w' = (sc, rows)) w1"
      unfolding wp_bindE [of "exec_statements db ?ss"] by (rule wp_mono [OF exec [OF w1]]) (use recorded in auto)
  qed simp
qed

lemma apply_all_post:
  "wp (apply_all db acc ms) (\<lambda>res w'. res = acc @ ms \<and> advanced sql ms (committed w) (committed w'))
     (\<lambda>_ w'. \<exists>did. prefix did ms \<and> advanced sql did (committed w) (committed w')) w"
proof (induction ms arbitrary: acc w)
  case (Cons m ms)
  have step: "prefix (m # did) (m # ms) \<and> advanced sql (m # did) (committed w) c"
    if "prefix did ms" "advanced sql [m] (committed w) (committed w1)" "advanced sql did (committed w1) c" for did c w1
    using that advanced_trans [of sql "[m]"] by fastforce
  have rest: "wp (apply_all db (acc @ [m]) ms)
      (\<lambda>res w'. res = acc @ m # ms \<and> advanced sql (m # ms) (committed w) (committed w'))
      (\<lambda>_ w'. \<exists>did. prefix did (m # ms) \<and> advanced sql did (committed w) (committed w')) w1"
    if a: "advanced sql [m] (committed w) (committed w1)" for w1
  proof (rule wp_mono [OF Cons.IH])
    fix e w' assume "\<exists>did. prefix did ms \<and> advanced sql did (committed w1) (committed w')"
    then show "\<exists>did. prefix did (m # ms) \<and> advanced sql did (committed w) (committed w')" using step a by blast
  qed (use advanced_trans [OF a] in simp)
  have none: "\<exists>did. prefix did (m # ms) \<and> advanced sql did c c" for c :: "'s \<times> AppliedMigration list"
    by (rule exI [of _ "[]"]) simp
  show ?case
    by (simp add: wp_simps, rule wp_mono [OF apply_migration_post]) (simp_all add: rest none)
qed (simp add: wp_simps)

lemma Pending_post:
  assumes "distinct (versions (snd (committed w)))"
  shows "wp (Pending \<lparr>rnr_DB = Some db, rnr_Migrations = ms\<rparr>)
    (\<lambda>p w'. committed w' = committed w \<and> p = pending_of ms (snd (committed w)) \<and> checksums_agree ms (snd (committed w)))
    (\<lambda>_ w'. committed w' = committed w) w"
proof -
  let ?rows = "snd (committed w)"
  have inj: "inj_on apm_Version (set ?rows)" using assms by (simp add: versions_def distinct_map)
  have ensure: "wp (mdb_EnsureTable db) (\<lambda>_ w'. committed w' = committed w) (\<lambda>_ w'. committed w' = committed w) w"
    by (rule wpI) (auto dest: Ensure_law)
  have read: "wp (mdb_Applied db) (\<lambda>rows w'. committed w' = committed w \<and> set rows = set ?rows)
      (\<lambda>_ w'. committed w' = committed w) w1" if "committed w1 = committed w" for w1
    using that by (intro wpI) (auto dest: Applied_law)
  have pend: "case pending_from [] (map (\<lambda>m. \<lparr>mst_Migration = m, mst_Applied =
        map_of (rev (map (\<lambda>a. (apm_Version a, a)) rows)) (mig_Version m)\<rparr>) ms) of
      Inl e \<Rightarrow> True | Inr p \<Rightarrow> p = pending_of ms ?rows \<and> checksums_agree ms ?rows" if "set rows = set ?rows" for rows
  proof -
    let ?f = "map_of (rev (map (\<lambda>a. (apm_Version a, a)) rows))"
    have f: "?f v = Some a \<longleftrightarrow> a \<in> set ?rows \<and> apm_Version a = v" for v a
      using map_of_versions [of rows v a] inj that by simp
    have none: "?f v = None \<longleftrightarrow> v \<notin> set (versions ?rows)" for v
      by (simp add: map_of_eq_None_iff versions_def image_image that)
    have "checksums_agree ms ?rows" if "find (\<lambda>m. case ?f (mig_Version m) of None \<Rightarrow> False
        | Some a \<Rightarrow> apm_Checksum a \<noteq> mig_Checksum m) ms = None"
      unfolding checksums_agree_def
    proof (intro ballI impI)
      fix m a assume ma: "m \<in> set ms" "a \<in> set ?rows" "apm_Version a = mig_Version m"
      then have "?f (mig_Version m) = Some a" using f by simp
      then show "apm_Checksum a = mig_Checksum m" using that ma(1) by (force simp: find_None_iff)
    qed
    then show ?thesis
      by (auto simp: pending_from_result none pending_of_def split: option.split sum.split)
  qed
  have pended: "p = pending_of ms ?rows \<and> checksums_agree ms ?rows"
    if "set rows = set ?rows" and "pending_from [] (map (\<lambda>m. \<lparr>mst_Migration = m, mst_Applied =
      map_of (rev (map (\<lambda>a. (apm_Version a, a)) rows)) (mig_Version m)\<rparr>) ms) = Inr p" for rows p
    using pend [OF that(1)] that(2) by simp
  show ?thesis
    unfolding Pending_def runner_Status_def runner_applied_def ensureSchemaTable_def
    by (simp add: wp_simps del: pending_from.simps, rule wp_mono [OF ensure])
      (simp_all add: wp_simps, rule wp_mono [OF read], auto simp: wp_simps split: sum.split dest: pended [rotated])
qed

lemma Apply_post:
  assumes "distinct (versions (snd (committed w)))"
  shows "wp (Apply \<lparr>rnr_DB = Some db, rnr_Migrations = ms\<rparr>)
    (\<lambda>res w'. res = pending_of ms (snd (committed w)) \<and> checksums_agree ms (snd (committed w)) \<and>
       advanced sql res (committed w) (committed w'))
    (\<lambda>_ w'. \<exists>did. prefix did (pending_of ms (snd (committed w))) \<and> (did \<noteq> [] \<longrightarrow> checksums_agree ms (snd (committed w))) \<and>
       advanced sql did (committed w) (committed w')) w"
proof -
  have all: "wp (apply_all db [] (pending_of ms (snd (committed w))))
      (\<lambda>res w'. res = pending_of ms (snd (committed w)) \<and> advanced sql (pending_of ms (snd (committed w))) (committed w) (committed w'))
      (\<lambda>_ w'. \<exists>did. prefix did (pending_of ms (snd (committed w))) \<and> advanced sql did (committed w) (committed w')) w1"
    if "committed w1 = committed w" for w1
    using apply_all_post [of "[]" _ w1] that by simp
  have none: "\<exists>did. prefix did ms \<and> (did \<noteq> [] \<longrightarrow> b) \<and> advanced sql did c c" for ms b and c :: "'s \<times> AppliedMigration list"
    by (rule exI [of _ "[]"]) simp
  show ?thesis unfolding Apply_def
    by (simp add: wp_simps, rule wp_mono [OF Pending_post [OF assms]])
      (simp_all add: wp_simps none, elim conjE, rule wp_mono, rule all, auto)
qed

end

section \<open>A database with faults\<close>

record 's migration_world = env +
  mw_committed :: "'s \<times> AppliedMigration list"
  mw_tx :: "('s \<times> AppliedMigration list) option"

definition sql_failed :: go_error where
  "sql_failed = Errorf ''statement failed'' []"

definition tx_exec :: "(string \<Rightarrow> 's \<Rightarrow> 's option) \<Rightarrow> string \<Rightarrow> ('s migration_world, unit) op" where
  "tx_exec sql s w =
     (case mw_tx w of
        None \<Rightarrow> (Inl sql_failed, w)
      | Some (sc, rows) \<Rightarrow>
          (case sql s sc of
             None \<Rightarrow> (Inl sql_failed, w\<lparr>mw_tx := None\<rparr>)
           | Some sc' \<Rightarrow> (Inr (), w\<lparr>mw_tx := Some (sc', rows)\<rparr>)))"

definition tx_insert :: "string \<Rightarrow> string \<Rightarrow> string \<Rightarrow> ('s migration_world, unit) op" where
  "tx_insert v f c w =
     (case mw_tx w of
        None \<Rightarrow> (Inl sql_failed, w)
      | Some (sc, rows) \<Rightarrow>
          if v \<in> set (versions rows) then (Inl sql_failed, w\<lparr>mw_tx := None\<rparr>)
          else (Inr (), w\<lparr>mw_tx := Some (sc, rows @ [\<lparr>apm_Version = v, apm_Filename = f, apm_Checksum = c,
                  apm_AppliedAt = env_clock w\<rparr>])\<rparr>))"

definition tx_commit :: "('s migration_world, unit) op" where
  "tx_commit w =
     (case mw_tx w of
        None \<Rightarrow> (Inl sql_failed, w)
      | Some x \<Rightarrow> (Inr (), w\<lparr>mw_committed := x, mw_tx := None\<rparr>))"

definition sql_db :: "(string \<Rightarrow> 's \<Rightarrow> 's option) \<Rightarrow> ('s migration_world) MigrationDB" where
  "sql_db sql =
     \<lparr>mdb_EnsureTable = with_fault (ret ()),
      mdb_Applied = with_fault (\<lambda>w. (Inr (sort_key apm_Version (snd (mw_committed w))), w)),
      mdb_Begin = with_fault (\<lambda>w. (Inr (), w\<lparr>mw_tx := Some (mw_committed w)\<rparr>)),
      mdb_Exec = (\<lambda>s. with_fault (tx_exec sql s)), mdb_Insert = (\<lambda>v f c. with_fault (tx_insert v f c)),
      mdb_Rollback = with_fault (\<lambda>w. (Inr (), w\<lparr>mw_tx := None\<rparr>)), mdb_Commit = with_fault tx_commit\<rparr>"

interpretation migrations: migration_db "sql_db sql" mw_committed mw_tx sql for sql
  by unfold_locales
    (auto simp: sql_db_def with_fault_def ret_def tx_exec_def tx_insert_def tx_commit_def
      split: list.splits if_splits option.splits)

definition migration_runner :: "(string \<Rightarrow> 's \<Rightarrow> 's option) \<Rightarrow> Migration list \<Rightarrow> ('s migration_world) Runner" where
  "migration_runner sql ms = \<lparr>rnr_DB = Some (sql_db sql), rnr_Migrations = ms\<rparr>"

definition run_applies ::
  "(string \<Rightarrow> 's \<Rightarrow> 's option) \<Rightarrow> Migration list list \<Rightarrow> 's migration_world \<Rightarrow> 's migration_world" where
  "run_applies sql runs w = fold (\<lambda>ms w. snd (Apply (migration_runner sql ms) w)) runs w"

lemma Apply_advances:
  assumes "distinct (versions (snd (mw_committed w)))"
  shows "\<exists>did. prefix did (pending_of ms (snd (mw_committed w))) \<and>
    advanced sql did (mw_committed w) (mw_committed (snd (Apply (migration_runner sql ms) w)))"
  by (rule wp_worldD, rule wp_mono [OF migrations.Apply_post [OF assms, of sql ms], folded migration_runner_def]) auto

section \<open>An instance\<close>

text \<open>A schema is the list of the statements executed; the commit of the second migration fails once.\<close>

definition demo_sql :: "string \<Rightarrow> string list \<Rightarrow> string list option" where
  "demo_sql s sc = (if s = ''bad'' then None else Some (sc @ [s]))"

definition demo_migrations :: "Migration list" where
  "demo_migrations =
     [\<lparr>mig_Version = ''1'', mig_Filename = ''1_a.sql'', mig_UpSQL = ''a; b;'', mig_DownSQL = [], mig_Checksum = ''x''\<rparr>,
      \<lparr>mig_Version = ''2'', mig_Filename = ''2_c.sql'', mig_UpSQL = ''c;'', mig_DownSQL = [], mig_Checksum = ''y''\<rparr>]"

definition migration_world0 :: "bool list \<Rightarrow> string list migration_world" where
  "migration_world0 faults =
     \<lparr>env_faults = faults, env_clock = 7, env_ticks = [], env_ids = [], mw_committed = ([], []), mw_tx = None\<rparr>"

definition commit_fails :: "bool list" where
  "commit_fails = [False, False, False, False, False, False, False, False, False, False, True]"

section \<open>Properties\<close>

text \<open>C11: After any runs with any lists of migrations, whichever calls fail, the schema is what the recorded
  migrations make of the empty one, in the order they are recorded: no migration is applied in part, twice, or
  without a record.\<close>

theorem schema_is_recorded_migrations:
  assumes "snd (mw_committed w0) = []" and "w = run_applies sql runs w0"
  shows "\<exists>ms. replay sql ms (fst (mw_committed w0)) = Some (fst (mw_committed w)) \<and>
    list_all2 applied_as (snd (mw_committed w)) ms \<and> distinct (map mig_Version ms) \<and> set ms \<subseteq> set (concat runs)"
proof -
  have "\<exists>ms. advanced sql ms (mw_committed w0) (mw_committed w) \<and> set ms \<subseteq> set (concat runs)"
    using assms(1) unfolding assms(2) run_applies_def
  proof (induction runs rule: rev_induct)
    case (snoc ms runs)
    let ?w = "fold (\<lambda>ms w. snd (Apply (migration_runner sql ms) w)) runs w0"
    obtain ms1 where a: "advanced sql ms1 (mw_committed w0) (mw_committed ?w)" "set ms1 \<subseteq> set (concat runs)"
      using snoc by blast
    then have "distinct (versions (snd (mw_committed ?w)))" using snoc.prems by (simp add: advanced_def versions_def)
    from Apply_advances [OF this, of ms sql] obtain did where
      d: "prefix did (pending_of ms (snd (mw_committed ?w)))"
        "advanced sql did (mw_committed ?w) (mw_committed (snd (Apply (migration_runner sql ms) ?w)))" by blast
    have "set did \<subseteq> set ms" using set_mono_prefix [OF d(1)] by (auto simp: pending_of_def)
    with advanced_trans [OF a(1) d(2)] a(2) show ?case by (intro exI [of _ "ms1 @ did"]) auto
  qed (auto intro: exI [of _ "[]"])
  then obtain ms where ms: "advanced sql ms (mw_committed w0) (mw_committed w)" "set ms \<subseteq> set (concat runs)" by blast
  then have all: "list_all2 applied_as (snd (mw_committed w)) ms" "distinct (versions (snd (mw_committed w)))"
    using assms(1) by (auto simp: advanced_def versions_def)
  have "map mig_Version ms = versions (snd (mw_committed w))"
    using all(1) unfolding versions_def by (induction rule: list_all2_induct) (auto simp: applied_as_def)
  with ms all show ?thesis by (auto simp: advanced_def)
qed

theorem schema_is_recorded_migrations_witness:
  "\<exists>ms. replay demo_sql ms [] = Some [''a'', ''b'', ''c''] \<and> length ms = 2 \<and>
     list_all2 applied_as (snd (mw_committed (run_applies demo_sql [demo_migrations, demo_migrations]
       (migration_world0 commit_fails)))) ms"
proof -
  let ?w = "run_applies demo_sql [demo_migrations, demo_migrations] (migration_world0 commit_fails)"
  have "fst (mw_committed ?w) = [''a'', ''b'', ''c'']" "length (snd (mw_committed ?w)) = 2"
    by code_simp+
  moreover obtain ms where ms: "replay demo_sql ms [] = Some (fst (mw_committed ?w))"
    "list_all2 applied_as (snd (mw_committed ?w)) ms"
    using schema_is_recorded_migrations [of "migration_world0 commit_fails", OF _ refl, of demo_sql "[demo_migrations, demo_migrations]"]
    by (auto simp: migration_world0_def)
  ultimately show ?thesis using list_all2_lengthD [OF ms(2)] by auto
qed

text \<open>A second run after a successful one changes nothing, and returns no migration unless it fails.\<close>

theorem second_run_changes_nothing:
  assumes "distinct (versions (snd (mw_committed w)))" and "Apply (migration_runner sql ms) w = (Inr applied, w1)"
    and "Apply (migration_runner sql ms) w1 = (res, w2)"
  shows "mw_committed w2 = mw_committed w1 \<and> (res = Inr [] \<or> (\<exists>e. res = Inl e))"
proof -
  have adv: "advanced sql (pending_of ms (snd (mw_committed w))) (mw_committed w) (mw_committed w1)"
    using wp_InrD [OF migrations.Apply_post [OF assms(1), of sql ms, folded migration_runner_def] assms(2)] by blast
  then have d: "distinct (versions (snd (mw_committed w1)))" using assms(1) by (simp add: advanced_def)
  have none: "pending_of ms (snd (mw_committed w1)) = []"
    using advanced_versions [OF adv] by (auto simp: pending_of_def filter_empty_conv)
  have "advanced sql [] c c' \<Longrightarrow> c' = c" for c c' :: "'a \<times> AppliedMigration list"
    by (cases c, cases c') (auto simp: advanced_def)
  with migrations.Apply_post [OF d, of sql ms, folded migration_runner_def] none assms(3) show ?thesis
    by (cases res) (auto simp: wp_def)
qed

theorem second_run_changes_nothing_witness:
  "snd (Apply (migration_runner demo_sql demo_migrations) (snd (Apply (migration_runner demo_sql demo_migrations)
     (migration_world0 [])))) = snd (Apply (migration_runner demo_sql demo_migrations) (migration_world0 [])) \<and>
   mw_committed (snd (Apply (migration_runner demo_sql demo_migrations) (snd (Apply (migration_runner demo_sql demo_migrations)
     (migration_world0 []))))) = mw_committed (snd (Apply (migration_runner demo_sql demo_migrations) (migration_world0 [])))"
proof -
  let ?run = "Apply (migration_runner demo_sql demo_migrations)"
  have "distinct (versions (snd (mw_committed (migration_world0 []))))" "fst (?run (migration_world0 [])) = Inr demo_migrations"
    "snd (?run (snd (?run (migration_world0 [])))) = snd (?run (migration_world0 []))"
    by code_simp+
  then show ?thesis
    using second_run_changes_nothing [of "migration_world0 []" demo_sql demo_migrations demo_migrations
        "snd (?run (migration_world0 []))" "fst (?run (snd (?run (migration_world0 []))))"
        "snd (?run (snd (?run (migration_world0 []))))"]
    by (metis prod.collapse)
qed

section \<open>Directories\<close>

definition loaded_from :: "(string \<Rightarrow> string option) \<Rightarrow> string \<Rightarrow> Migration \<Rightarrow> bool" where
  "loaded_from files dir m \<longleftrightarrow> file_version (mig_Filename m) = Some (mig_Version m) \<and> mig_UpSQL m \<noteq> [] \<and>
     (\<exists>body. files (filepath_Join [dir, mig_Filename m]) = Some body \<and> mig_Checksum m = sha256_hex body)"

lemma load_entries_post:
  fixes w :: "'x disk_scheme"
  assumes "\<forall>m \<in> set acc. loaded_from (dk_files w) dir m"
  shows "wp (load_entries disk_files dir acc es) (\<lambda>ms w'. dk_files w' = dk_files w \<and> (\<forall>m \<in> set ms. loaded_from (dk_files w) dir m))
    (\<lambda>_ w'. dk_files w' = dk_files w) w"
  using assms
proof (induction es arbitrary: acc w)
  case (Cons e es)
  obtain filename isDir where e: "e = (filename, isDir)" by (cases e)
  have read: "wp (fsy_ReadFile disk_files q) (\<lambda>body w'. dk_files w' = dk_files w \<and> dk_files w q = Some body)
      (\<lambda>_ w'. dk_files w' = dk_files w) w" for q
    by (rule wpI) (auto dest: disk.Read_law)
  have new: "loaded_from (dk_files w) dir (new_migration v filename up down body)"
    if "file_version filename = Some v" "dk_files w (filepath_Join [dir, filename]) = Some body" "TrimSpace up \<noteq> []" for v up down body
    using that by (auto simp: loaded_from_def new_migration_def)
  have rest: "wp (load_entries disk_files dir acc' es)
      (\<lambda>ms w'. dk_files w' = dk_files w \<and> (\<forall>m \<in> set ms. loaded_from (dk_files w) dir m)) (\<lambda>_ w'. dk_files w' = dk_files w) w1"
    if "dk_files w1 = dk_files w" "\<forall>m \<in> set acc'. loaded_from (dk_files w) dir m" for w1 :: "'x disk_scheme" and acc'
    using Cons.IH [of acc' w1] that by simp
  show ?case unfolding e load_entries.simps using Cons.prems
    by (auto simp: wp_simps split: option.split if_splits intro!: rest wp_mono [OF read])
      (auto simp: wp_simps split: sum.split intro!: rest new)
qed (simp add: wp_simps)

lemma first_duplicate_None:
  "sorted (map mig_Version ms) \<Longrightarrow> first_duplicate ms = None \<Longrightarrow> distinct (map mig_Version ms)"
proof (induction ms rule: first_duplicate.induct)
  case (1 a b ms)
  then have "mig_Version a < mig_Version b" by (auto simp: less_le split: if_splits)
  with 1 show ?case by (force split: if_splits)
qed auto

definition list_dir :: "(string \<times> bool) list \<Rightarrow> string \<Rightarrow> ('w, (string \<times> bool) list) op" where
  "list_dir entries dir = ret entries"

lemma LoadDir_post:
  "wp (LoadDir (list_dir entries) disk_files dir)
    (\<lambda>ms w'. sorted (map mig_Version ms) \<and> distinct (map mig_Version ms) \<and> (\<forall>m \<in> set ms. loaded_from (dk_files w) dir m))
    (\<lambda>_ _. True) w"
  unfolding LoadDir_def list_dir_def
  by (auto simp: wp_simps Let_def intro!: wp_mono [OF load_entries_post [of "[]"]])
    (auto simp: wp_simps split: option.split dest: first_duplicate_None [rotated])

text \<open>C39: When a file whose version is recorded is edited, so that its hash is no longer the recorded one, the
  migrations of its directory are refused: the run fails and changes nothing.\<close>

theorem edited_migration_refused:
  assumes "LoadDir (list_dir entries) disk_files dir (disk :: disk) = (Inr ms, disk')" and "m \<in> set ms"
    and "a \<in> set (snd (mw_committed w))" and "apm_Version a = mig_Version m"
    and "dk_files disk (filepath_Join [dir, mig_Filename m]) = Some body" and "apm_Checksum a \<noteq> sha256_hex body"
    and "distinct (versions (snd (mw_committed w)))"
  shows "\<exists>e w'. Apply (migration_runner sql ms) w = (Inl e, w') \<and> mw_committed w' = mw_committed w"
proof -
  have "loaded_from (dk_files disk) dir m" using wp_InrD [OF LoadDir_post assms(1)] assms(2) by blast
  then have "mig_Checksum m = sha256_hex body" using assms(5) by (simp add: loaded_from_def)
  then have bad: "\<not> checksums_agree ms (snd (mw_committed w))"
    using assms(2-4,6) unfolding checksums_agree_def by fastforce
  have "advanced sql [] c c' \<Longrightarrow> c' = c" for c c' :: "'a \<times> AppliedMigration list"
    by (cases c, cases c') (auto simp: advanced_def)
  with migrations.Apply_post [OF assms(7), of sql ms, folded migration_runner_def] bad show ?thesis
    by (cases "Apply (migration_runner sql ms) w") (auto simp: wp_def split: sum.splits)
qed

definition demo_migration_file :: string where
  "demo_migration_file = ''-- +goose Up'' @ [CHR 0x0A] @ ''create;''"

definition demo_disk :: disk where
  "demo_disk = \<lparr>env_faults = [], env_clock = 0, env_ticks = [], env_ids = [], dk_files = [''m/1_a.sql'' \<mapsto> demo_migration_file],
     dk_faults = []\<rparr>"

definition demo_loaded :: Migration where
  "demo_loaded = new_migration ''1'' ''1_a.sql'' (''create;'' @ [CHR 0x0A]) [] demo_migration_file"

lemma demo_load: "LoadDir (list_dir [(''1_a.sql'', False)]) disk_files ''m'' demo_disk = (Inr [demo_loaded], demo_disk)"
proof -
  have ls: "scan_lines demo_migration_file = Some [''-- +goose Up'', ''create;'']"
    by (simp add: scan_lines_def demo_migration_file_def drop_cr_def)
  have "goose_sections [] False [] [] [''-- +goose Up'', ''create;''] = (True, ''create;'' @ [CHR 0x0A], [])"
    by code_simp
  then have "ParseGooseSections demo_migration_file = Inr (''create;'' @ [CHR 0x0A], [])" by (simp add: ParseGooseSections_def ls)
  moreover have "file_version ''1_a.sql'' = Some ''1''" "filepath_Join [''m'', ''1_a.sql''] = ''m/1_a.sql''"
    "TrimSpace (''create;'' @ [CHR 0x0A]) = ''create;''"
    by code_simp+
  ultimately show ?thesis
    by (simp add: LoadDir_def list_dir_def op_defs disk_defs demo_disk_def demo_loaded_def)
qed

definition edited_row :: AppliedMigration where
  "edited_row = \<lparr>apm_Version = ''1'', apm_Filename = ''1_a.sql'', apm_Checksum = CHR ''x'' # sha256_hex demo_migration_file,
     apm_AppliedAt = 0\<rparr>"

lemma edited_row_fields: "apm_Version edited_row = ''1''" "apm_Checksum edited_row = CHR ''x'' # sha256_hex demo_migration_file"
  by (simp_all add: edited_row_def)

lemma demo_loaded_fields: "mig_Version demo_loaded = ''1''" "mig_Filename demo_loaded = ''1_a.sql''"
  by (simp_all add: demo_loaded_def new_migration_def)

theorem edited_migration_refused_witness:
  "\<exists>e w'. Apply (migration_runner demo_sql [demo_loaded]) (migration_world0 []\<lparr>mw_committed := ([], [edited_row])\<rparr>) = (Inl e, w') \<and>
     mw_committed w' = ([], [edited_row])"
proof -
  have "filepath_Join [''m'', ''1_a.sql''] = ''m/1_a.sql''" by code_simp
  then show ?thesis
    using edited_migration_refused [OF demo_load, where m = demo_loaded and a = edited_row and
        w = "migration_world0 []\<lparr>mw_committed := ([], [edited_row])\<rparr>" and body = demo_migration_file and sql = demo_sql]
    by (simp add: demo_loaded_fields edited_row_fields demo_disk_def versions_def)
qed

text \<open>The text of a function is taken apart at its semicolons: the directives around a statement are dropped.\<close>

lemma function_body_split:
  "splitSQLStatements ''create function f() as $$ begin x(); end $$;'' =
     [''create function f() as $$ begin x()'', ''end $$'']"
  by code_simp

end
