(* ===== verification/Telemetry_Database.thy ===== *)
theory Telemetry_Database
  imports Telemetry_Pipeline
begin

text \<open>
  The Postgres storage of the telemetry ingest service:
  \<open>telemetry-ingest/internal/storage/postgres/writer.go\<close>, \<open>lifecycle.go\<close> and \<open>resolver.go\<close>.

  The tables are those of the migrations, with the columns that are written or read here; a statement is the
  function of the tables it is, and fails by the schedule of faults or when it breaks a foreign key. A
  transaction that does not commit leaves the tables as they were. The time stamps a statement sets to \<open>now()\<close> are
  left out, but for the last use of a credential: the read models read \<open>updated_at\<close> only of devices never seen.
\<close>

section \<open>Tables\<close>

record device_row =
  dvw_ID :: string
  dvw_AccountID :: string
  dvw_SiteID :: "string option"
  dvw_ThingName :: "string option"
  dvw_claimState :: string
  dvw_revoked :: bool
  dvw_LastSeen :: "time option"
  dvw_UpdatedAt :: time

record credential_row =
  crw_DeviceID :: string
  crw_Fingerprint :: string
  crw_Serial :: "string option"
  crw_status :: string
  crw_LastSeen :: "time option"

record presence_row =
  prw_state :: string
  prw_ClientID :: "string option"
  prw_SessionID :: "string option"
  prw_Connected :: "time option"
  prw_Disconnected :: "time option"
  prw_Seen :: "time option"

record lifecycle_row =
  lcw_DeviceID :: string
  lcw_ClientID :: string
  lcw_EventType :: string
  lcw_SessionID :: string
  lcw_ObservedAt :: time
  lcw_RawEvent :: string

record telemetry_row =
  tlw_DeviceID :: string
  tlw_MessageType :: MessageType
  tlw_SchemaType :: string
  tlw_SchemaVersion :: int
  tlw_MessageID :: string
  tlw_ObservedAt :: time
  tlw_ReceivedAt :: time
  tlw_MaterialHash :: string
  tlw_Material :: string
  tlw_Sidecar :: string
  tlw_Payload :: string

type_synonym latest_key = "string \<times> MessageType \<times> string \<times> int"

record telemetry_tables =
  tt_devices :: "device_row list"
  tt_credentials :: "credential_row list"
  tt_presence :: "string \<Rightarrow> presence_row option"
  tt_lifecycle :: "lifecycle_row list"
  tt_latest :: "latest_key \<Rightarrow> telemetry_row option"
  tt_events :: "telemetry_row list"
  tt_failures :: "IngestFailure list"

record telemetry_db = env +
  tdb_tables :: telemetry_tables

text \<open>A Go value \<open>Writer{Pool}\<close>: whether it has a pool.\<close>

record PgWriter =
  pgw_Pool :: bool

definition pool_of :: "PgWriter \<Rightarrow> ('w, unit) op" where
  "pool_of p = failIf (\<not> pgw_Pool p) (Errorf ''postgres pool is required'' [])"

definition pg_constraint :: go_error where
  "pg_constraint = Errorf ''constraint violation'' []"

text \<open>A statement on the tables, and a transaction around a body.\<close>

definition pg_exec :: "string \<Rightarrow> (telemetry_tables \<Rightarrow> telemetry_tables option) \<Rightarrow> ('x telemetry_db_scheme, unit) op" where
  "pg_exec msg f = wrapE msg (with_fault (\<lambda>w.
     case f (tdb_tables w) of None \<Rightarrow> (Inl pg_constraint, w) | Some t \<Rightarrow> (Inr (), w\<lparr>tdb_tables := t\<rparr>)))"

definition in_transaction :: "string \<Rightarrow> ('x telemetry_db_scheme, unit) op \<Rightarrow> ('x telemetry_db_scheme, unit) op" where
  "in_transaction what body =
     bindE (wrapE (''begin '' @ what) (with_fault (ret ()))) (\<lambda>_ w.
     case bindE body (\<lambda>_. wrapE (''commit '' @ what) (with_fault (ret ()))) w of
       (Inl e, w') \<Rightarrow> (Inl e, w'\<lparr>tdb_tables := tdb_tables w\<rparr>)
     | (Inr u, w') \<Rightarrow> (Inr u, w'))"

definition known_device :: "telemetry_tables \<Rightarrow> string \<Rightarrow> bool" where
  "known_device t d = list_ex (\<lambda>r. dvw_ID r = d) (tt_devices t)"

section \<open>Presence\<close>

definition greatest :: "time option \<Rightarrow> time \<Rightarrow> time" where
  "greatest old t = (case old of None \<Rightarrow> t | Some u \<Rightarrow> max u t)"

definition not_later :: "time option \<Rightarrow> time \<Rightarrow> bool" where
  "not_later seen t = (case seen of None \<Rightarrow> True | Some u \<Rightarrow> u \<le> t)"

definition seen_presence :: "time \<Rightarrow> presence_row option \<Rightarrow> presence_row" where
  "seen_presence t old =
     (case old of
        None \<Rightarrow> \<lparr>prw_state = ''unknown'', prw_ClientID = None, prw_SessionID = None, prw_Connected = None,
                 prw_Disconnected = None, prw_Seen = Some t\<rparr>
      | Some r \<Rightarrow> r\<lparr>prw_Seen := Some (greatest (prw_Seen r) t)\<rparr>)"

definition connected_presence :: "string \<Rightarrow> string \<Rightarrow> time \<Rightarrow> presence_row option \<Rightarrow> presence_row" where
  "connected_presence client session t old =
     (case old of
        None \<Rightarrow> \<lparr>prw_state = ''online'', prw_ClientID = Some client, prw_SessionID = Some session,
                 prw_Connected = Some t, prw_Disconnected = None, prw_Seen = Some t\<rparr>
      | Some r \<Rightarrow> r\<lparr>prw_state := (if not_later (prw_Seen r) t then ''online'' else prw_state r),
                    prw_ClientID := Some client, prw_SessionID := Some session,
                    prw_Connected := Some (greatest (prw_Connected r) t), prw_Seen := Some (greatest (prw_Seen r) t)\<rparr>)"

definition disconnected_presence :: "string \<Rightarrow> string \<Rightarrow> time \<Rightarrow> presence_row option \<Rightarrow> presence_row" where
  "disconnected_presence client session t old =
     (case old of
        None \<Rightarrow> \<lparr>prw_state = ''disconnected'', prw_ClientID = Some client, prw_SessionID = Some session,
                 prw_Connected = None, prw_Disconnected = Some t, prw_Seen = Some t\<rparr>
      | Some r \<Rightarrow> r\<lparr>prw_state := (if not_later (prw_Seen r) t then ''disconnected'' else prw_state r),
                    prw_ClientID := Some client, prw_SessionID := Some session,
                    prw_Disconnected := Some (greatest (prw_Disconnected r) t),
                    prw_Seen := Some (greatest (prw_Seen r) t)\<rparr>)"

definition set_presence ::
  "string \<Rightarrow> (presence_row option \<Rightarrow> presence_row) \<Rightarrow> telemetry_tables \<Rightarrow> telemetry_tables option" where
  "set_presence d f t =
     (if known_device t d then Some (t\<lparr>tt_presence := (tt_presence t)(d \<mapsto> f (tt_presence t d))\<rparr>) else None)"

section \<open>Telemetry\<close>

definition RecordFailure :: "PgWriter \<Rightarrow> IngestFailure \<Rightarrow> ('x telemetry_db_scheme, unit) op" where
  "RecordFailure p failure =
     bindE (pool_of p) (\<lambda>_.
     pg_exec ''insert telemetry failure'' (\<lambda>t. Some (t\<lparr>tt_failures := tt_failures t @ [failure]\<rparr>)))"

definition json_object_text :: "(string \<times> string) list \<Rightarrow> string" where
  "json_object_text values = object_text (map (\<lambda>(k, v). (k, quote v)) (sort_key fst values))"

definition telemetry_row_of :: "ValidatedMessage \<Rightarrow> telemetry_row" where
  "telemetry_row_of m =
     \<lparr>tlw_DeviceID = adc_DeviceID (vm_Device m), tlw_MessageType = re_MessageType (vm_Envelope m),
      tlw_SchemaType = re_SchemaType (vm_Envelope m), tlw_SchemaVersion = re_SchemaVersion (vm_Envelope m),
      tlw_MessageID = re_MessageID (vm_Envelope m), tlw_ObservedAt = re_ObservedAt (vm_Envelope m),
      tlw_ReceivedAt = vm_ReceivedAt m, tlw_MaterialHash = MaterialHash (prj_Material (vm_Projection m)),
      tlw_Material = json_object_text (prj_Material (vm_Projection m)),
      tlw_Sidecar = json_object_text (prj_Sidecar (vm_Projection m)),
      tlw_Payload = (if re_Payload (vm_Envelope m) = [] then ''{}'' else re_Payload (vm_Envelope m))\<rparr>"

definition key_of_row :: "telemetry_row \<Rightarrow> latest_key" where
  "key_of_row r = (tlw_DeviceID r, tlw_MessageType r, tlw_SchemaType r, tlw_SchemaVersion r)"

definition upsert_latest :: "telemetry_row \<Rightarrow> telemetry_tables \<Rightarrow> telemetry_tables option" where
  "upsert_latest r t =
     (if known_device t (tlw_DeviceID r) then Some (t\<lparr>tt_latest := (tt_latest t)(key_of_row r \<mapsto> r)\<rparr>) else None)"

definition insert_event :: "telemetry_row \<Rightarrow> telemetry_tables \<Rightarrow> telemetry_tables option" where
  "insert_event r t =
     (if list_ex (\<lambda>e. tlw_DeviceID e = tlw_DeviceID r \<and> tlw_MessageID e = tlw_MessageID r) (tt_events t) then Some t
      else if known_device t (tlw_DeviceID r) then Some (t\<lparr>tt_events := tt_events t @ [r]\<rparr>) else None)"

definition touch_device :: "string \<Rightarrow> time \<Rightarrow> telemetry_tables \<Rightarrow> telemetry_tables option" where
  "touch_device d at t = Some (t\<lparr>tt_devices := map (\<lambda>r. if dvw_ID r = d
     then r\<lparr>dvw_LastSeen := Some (greatest (dvw_LastSeen r) at)\<rparr> else r) (tt_devices t)\<rparr>)"

definition recordTelemetrySeen :: "string \<Rightarrow> time \<Rightarrow> ('x telemetry_db_scheme, unit) op" where
  "recordTelemetrySeen d receivedAt =
     bindE (pg_exec ''update device last seen'' (touch_device d receivedAt)) (\<lambda>_.
     pg_exec ''upsert device presence'' (set_presence d (seen_presence receivedAt)))"

definition WriteLatest :: "PgWriter \<Rightarrow> ValidatedMessage \<Rightarrow> ('x telemetry_db_scheme, unit) op" where
  "WriteLatest p m =
     bindE (pool_of p) (\<lambda>_.
     in_transaction ''telemetry transaction''
       (bindE (pg_exec ''upsert latest telemetry state'' (upsert_latest (telemetry_row_of m))) (\<lambda>_.
        bindE (pg_exec ''insert sparse telemetry event'' (insert_event (telemetry_row_of m))) (\<lambda>_.
        if re_MessageType (vm_Envelope m) = MessageTypeTelemetry
        then recordTelemetrySeen (adc_DeviceID (vm_Device m)) (vm_ReceivedAt m) else ret ()))))"

section \<open>Lifecycle events\<close>

record LifecycleEvent =
  lce_EventType :: string
  lce_ClientID :: string
  lce_PrincipalIdentifier :: string
  lce_SessionIdentifier :: string
  lce_VersionNumber :: string
  lce_ObservedAt :: time
  lce_ReceivedAt :: time

record LifecycleResult =
  lcr_Accepted :: bool
  lcr_DeviceID :: string
  lcr_EventType :: string
  lcr_ConnectionState :: string
  lcr_ObservedAt :: time

definition lifecycleConnectionState :: "string \<Rightarrow> string" where
  "lifecycleConnectionState eventType =
     (if eventType = ''connected'' then ''online''
      else if eventType \<in> set [''disconnected'', ''connect_failed''] then ''disconnected''
      else ''unknown'')"

definition claimed_device :: "string \<Rightarrow> ('x telemetry_db_scheme, string) op" where
  "claimed_device client w =
     (case find (\<lambda>r. dvw_ID r = client \<and> dvw_claimState r = ''CLAIMED'' \<and> \<not> dvw_revoked r) (tt_devices (tdb_tables w)) of
        None \<Rightarrow> (Inl (Sentinel ''no rows in result set''), w)
      | Some r \<Rightarrow> (Inr (dvw_ID r), w))"

definition lifecycle_row_of :: "LifecycleEvent \<Rightarrow> string \<Rightarrow> string \<Rightarrow> string \<Rightarrow> time \<Rightarrow> lifecycle_row" where
  "lifecycle_row_of event eventType clientID deviceID observedAt =
     \<lparr>lcw_DeviceID = deviceID, lcw_ClientID = clientID, lcw_EventType = eventType,
      lcw_SessionID = lce_SessionIdentifier event, lcw_ObservedAt = observedAt,
      lcw_RawEvent = json_object_text [(''event_type'', eventType),
        (''principal_identifier'', lce_PrincipalIdentifier event),
        (''session_identifier'', lce_SessionIdentifier event), (''version_number'', lce_VersionNumber event)]\<rparr>"

definition insert_lifecycle :: "lifecycle_row \<Rightarrow> telemetry_tables \<Rightarrow> telemetry_tables option" where
  "insert_lifecycle r t =
     (if known_device t (lcw_DeviceID r) then Some (t\<lparr>tt_lifecycle := tt_lifecycle t @ [r]\<rparr>) else None)"

definition lifecycle_failure :: "string \<Rightarrow> time \<Rightarrow> IngestFailure" where
  "lifecycle_failure clientID receivedAt =
     \<lparr>ifl_Device = \<lparr>adc_DeviceID = clientID, adc_SiteID = [], adc_OrgID = [], adc_CertificateFingerprint = [],
        adc_CertificateSerial = []\<rparr>, ifl_MessageID = [], ifl_SchemaType = [], ifl_Stage = ''lifecycle_authority'',
      ifl_Reason = ReasonCode ''unknown_or_unclaimed_device'', ifl_ReceivedAt = receivedAt\<rparr>"

text \<open>The two statements of the transaction: the event and the presence of its device.\<close>

definition lifecycle_statements :: "lifecycle_row \<Rightarrow> ('x telemetry_db_scheme, unit) op" where
  "lifecycle_statements r =
     bindE (pg_exec ''insert lifecycle event'' (insert_lifecycle r)) (\<lambda>_.
     let state = lifecycleConnectionState (lcw_EventType r) in
     if state = ''online'' then
       pg_exec ''upsert lifecycle connect presence''
         (set_presence (lcw_DeviceID r) (connected_presence (lcw_ClientID r) (lcw_SessionID r) (lcw_ObservedAt r)))
     else if state = ''disconnected'' then
       pg_exec ''upsert lifecycle disconnect presence''
         (set_presence (lcw_DeviceID r) (disconnected_presence (lcw_ClientID r) (lcw_SessionID r) (lcw_ObservedAt r)))
     else fail (Errorf ''unsupported lifecycle event_type %q'' [lcw_EventType r]))"

definition WriteLifecycle :: "PgWriter \<Rightarrow> LifecycleEvent \<Rightarrow> ('x telemetry_db_scheme, LifecycleResult) op" where
  "WriteLifecycle p event =
     bindE (pool_of p) (\<lambda>_.
     let eventType = TrimSpace (lce_EventType event); clientID = TrimSpace (lce_ClientID event) in
     bindE (failIf (eventType = [] \<or> clientID = [])
              (Errorf ''lifecycle event_type and client_id are required'' [])) (\<lambda>_.
     bindE (if IsZero (lce_ObservedAt event) then liftE read_clock else ret (lce_ObservedAt event)) (\<lambda>observedAt.
     bindE (if IsZero (lce_ReceivedAt event) then liftE read_clock else ret (lce_ReceivedAt event)) (\<lambda>receivedAt.
     bindE (attemptE (with_fault (claimed_device clientID))) (\<lambda>found.
     case found of
       Inl e \<Rightarrow>
         bindE (ignoreE (RecordFailure p (lifecycle_failure clientID receivedAt))) (\<lambda>_.
         fail (Wrapf ''%w: lifecycle client is not a claimed device'' ErrIdentityDrift))
     | Inr deviceID \<Rightarrow>
         bindE (in_transaction ''lifecycle transaction''
           (lifecycle_statements (lifecycle_row_of event eventType clientID deviceID observedAt))) (\<lambda>_.
         ret \<lparr>lcr_Accepted = True, lcr_DeviceID = deviceID, lcr_EventType = eventType,
              lcr_ConnectionState = lifecycleConnectionState eventType, lcr_ObservedAt = observedAt\<rparr>))))))"

section \<open>Credentials\<close>

text \<open>\<open>COALESCE(x, '')\<close>.\<close>

definition stringOf :: "string option \<Rightarrow> string" where
  "stringOf v = (case v of None \<Rightarrow> [] | Some s \<Rightarrow> s)"

text \<open>The row of a fingerprint with its device, or the error of the query.\<close>

definition sql_credential :: "string \<Rightarrow> ('x telemetry_db_scheme, (credential_row \<times> device_row) option) op" where
  "sql_credential fingerprint w =
     (let t = tdb_tables w;
          joined = concat (map (\<lambda>c. map (\<lambda>d. (c, d)) (filter (\<lambda>d. dvw_ID d = crw_DeviceID c) (tt_devices t)))
            (filter (\<lambda>c. crw_Fingerprint c = fingerprint) (tt_credentials t))) in
      (Inr (case joined of [] \<Rightarrow> None | r # rs \<Rightarrow> Some r), w))"

definition touch_credential :: "string \<Rightarrow> time \<Rightarrow> telemetry_tables \<Rightarrow> telemetry_tables option" where
  "touch_credential fingerprint at t = Some (t\<lparr>tt_credentials := map (\<lambda>c. if crw_Fingerprint c = fingerprint
     then c\<lparr>crw_LastSeen := Some at\<rparr> else c) (tt_credentials t)\<rparr>)"

definition ResolveDevice ::
  "PgWriter \<Rightarrow> TransportCredential \<Rightarrow> ('x telemetry_db_scheme, AuthenticatedDeviceContext) op" where
  "ResolveDevice p credential =
     bindE (pool_of p) (\<lambda>_.
     let fingerprint = TrimSpace (tcr_CertificateFingerprint credential);
         serial = TrimSpace (tcr_CertificateSerial credential) in
     bindE (failIf (fingerprint = [] \<or> serial = [])
       (Wrapf ''%w: certificate fingerprint and serial are required'' ErrMissingTransportCredential)) (\<lambda>_.
     bindE (wrapE ''lookup device credential'' (with_fault (sql_credential fingerprint))) (\<lambda>found.
     case found of
       None \<Rightarrow> fail (Wrapf ''%w: unknown certificate fingerprint'' ErrIdentityDrift)
     | Some (c, d) \<Rightarrow>
         bindE (failIf (\<not> EqualFold (crw_status c) ''active'') (Wrapf ''%w: credential is %s'' ErrIdentityDrift)) (\<lambda>_.
         bindE (failIf (stringOf (crw_Serial c) \<noteq> serial) (Wrapf ''%w: certificate serial mismatch'' ErrIdentityDrift)) (\<lambda>_.
         bindE (failIf (dvw_claimState d \<noteq> ''CLAIMED'' \<or> dvw_revoked d)
           (Wrapf ''%w: device is not claimed'' ErrIdentityDrift)) (\<lambda>_.
         bindE (liftE read_clock) (\<lambda>now.
         bindE (pg_exec ''update credential last seen'' (touch_credential fingerprint now)) (\<lambda>_.
         ret \<lparr>adc_DeviceID = dvw_ID d, adc_SiteID = stringOf (dvw_SiteID d), adc_OrgID = dvw_AccountID d,
              adc_CertificateFingerprint = crw_Fingerprint c, adc_CertificateSerial = stringOf (crw_Serial c)\<rparr>))))))))"

end
