(* ===== verification/Telemetry_Server.thy ===== *)
theory Telemetry_Server
  imports Telemetry_Database Control_Plane Release_Versions
begin

text \<open>
  The HTTP handler of the telemetry ingest service: \<open>telemetry-ingest/internal/app/server.go\<close>.

  A request is the \<open>HttpRequest\<close> of \<open>Control_Plane\<close>, with a path that \<open>ServeMux\<close> does not redirect. An answer has
  its status, the \<open>Allow\<close> header and the value that is encoded as its body; the text of an error is the error.
  \<open>strconv.ParseInt\<close> is the \<open>Atoi\<close> of \<open>Release_Versions\<close>.
\<close>

section \<open>Answers\<close>

datatype ServerPayload =
    NoBody
  | StatusText string
  | ReadyFlag
  | VersionInfo string string
  | ErrorCode string
  | ErrorValue go_error
  | IngestValue IngestResult
  | LifecycleValue LifecycleResult

record ServerAnswer =
  sva_Status :: nat
  sva_Allow :: "string option"
  sva_Payload :: ServerPayload

definition writeJSON :: "nat \<Rightarrow> ServerPayload \<Rightarrow> ServerAnswer" where
  "writeJSON status payload = \<lparr>sva_Status = status, sva_Allow = None, sva_Payload = payload\<rparr>"

definition method_not_allowed :: ServerAnswer where
  "method_not_allowed = \<lparr>sva_Status = 405, sva_Allow = Some ''POST'', sva_Payload = ErrorCode ''method_not_allowed''\<rparr>"

text \<open>\<open>io.ReadAll(http.MaxBytesReader(w, r.Body, 1<<20))\<close>.\<close>

definition read_limited :: "HttpRequest \<Rightarrow> go_error + string" where
  "read_limited r =
     (case hrq_Body r of
        Inl e \<Rightarrow> Inl e
      | Inr body \<Rightarrow> if 1048576 < length body then Inl (Sentinel ''http: request body too large'') else Inr body)"

section \<open>Runtime messages\<close>

definition deviceContextFromHeaders :: "HttpRequest \<Rightarrow> AuthenticatedDeviceContext" where
  "deviceContextFromHeaders r =
     (let get = header_Get (hrq_Header r) in
      \<lparr>adc_DeviceID = get ''X-HomeSignal-Device-ID'', adc_SiteID = get ''X-HomeSignal-Site-ID'',
       adc_OrgID = get ''X-HomeSignal-Org-ID'', adc_CertificateFingerprint = get ''X-Client-Cert-Fingerprint'',
       adc_CertificateSerial = get ''X-Client-Cert-Serial''\<rparr>)"

definition credentialFromHeaders :: "HttpRequest \<Rightarrow> TransportCredential" where
  "credentialFromHeaders r =
     (let get = header_Get (hrq_Header r) in
      \<lparr>tcr_CertificateFingerprint = get ''X-Client-Cert-Fingerprint'', tcr_CertificateSerial = get ''X-Client-Cert-Serial'',
       tcr_CertificateIssuer = get ''X-Client-Cert-Issuer''\<rparr>)"

definition runtime_request :: "RuntimeRoute \<Rightarrow> HttpRequest \<Rightarrow> string \<Rightarrow> IngestRequest" where
  "runtime_request route r body =
     \<lparr>irq_Route = route, irq_Device = deviceContextFromHeaders r, irq_Credential = credentialFromHeaders r,
      irq_Body = body, irq_ReceivedAt = zero_time\<rparr>"

definition runtimeHandler :: "'w RuntimePipeline \<Rightarrow> RuntimeRoute \<Rightarrow> HttpRequest \<Rightarrow> ('w, ServerAnswer) op" where
  "runtimeHandler p route r =
     (if hrq_Method r \<noteq> ''POST'' then ret method_not_allowed
      else
        (case read_limited r of
           Inl e \<Rightarrow> ret (writeJSON 400 (ErrorCode ''invalid_body''))
         | Inr body \<Rightarrow>
             bindE (Ingest p (runtime_request route r body)) (\<lambda>(result, err).
             ret (case err of
                    Some e \<Rightarrow> writeJSON 400 (ErrorValue e)
                  | None \<Rightarrow> writeJSON 202 (IngestValue result)))))"

section \<open>Lifecycle events\<close>

fun firstString :: "(string \<times> json) list \<Rightarrow> string list \<Rightarrow> string" where
  "firstString raw [] = []"
| "firstString raw (name # names) =
     (case map_of (last_members raw) name of
        None \<Rightarrow> firstString raw names
      | Some v \<Rightarrow>
          (case dec_string [] [v] of
             Some s \<Rightarrow> TrimSpace s
           | None \<Rightarrow> (case v of JNum n \<Rightarrow> n | _ \<Rightarrow> firstString raw names)))"

definition UnixMilli :: "int \<Rightarrow> time" where
  "UnixMilli n = Unix (n div 1000) + (n mod 1000) * 1000000"

definition firstTime :: "(string \<times> json) list \<Rightarrow> string list \<Rightarrow> go_error + time" where
  "firstTime raw names =
     (let v = firstString raw names in
      if v = [] then Inr zero_time
      else
        (case ParseRFC3339 v of
           Some t \<Rightarrow> Inr t
         | None \<Rightarrow>
             (case Atoi v of
                None \<Rightarrow> Inl (Errorf ''parse lifecycle timestamp'' [v])
              | Some n \<Rightarrow> Inr (if 9999999999 < n then UnixMilli n else Unix n))))"

definition parseLifecycleEvent :: "('w, time) effect \<Rightarrow> string \<Rightarrow> ('w, LifecycleEvent) op" where
  "parseLifecycleEvent now body =
     (case struct_members body of
        None \<Rightarrow> fail (Errorf ''decode lifecycle event'' [])
      | Some raw \<Rightarrow>
          let eventType = firstString raw [''event_type'', ''lifecycle_event'', ''eventType''];
              clientID = firstString raw [''client_id'', ''clientId'', ''clientid''] in
          bindE (failIf (eventType = []) (Errorf ''lifecycle event_type is required'' [])) (\<lambda>_.
          bindE (failIf (clientID = []) (Errorf ''lifecycle client_id is required'' [])) (\<lambda>_.
          bindE (pureE (firstTime raw [''observed_at'', ''timestamp'', ''eventTimestamp''])) (\<lambda>at.
          bindE (if IsZero at then liftE now else ret at) (\<lambda>observedAt.
          bindE (liftE now) (\<lambda>receivedAt.
          ret \<lparr>lce_EventType = TrimSpace eventType, lce_ClientID = TrimSpace clientID,
               lce_PrincipalIdentifier =
                 firstString raw [''principal_identifier'', ''principalIdentifier'', ''principal_id'', ''principal''],
               lce_SessionIdentifier = firstString raw [''session_identifier'', ''sessionIdentifier''],
               lce_VersionNumber = firstString raw [''version_number'', ''versionNumber''],
               lce_ObservedAt = UTC observedAt, lce_ReceivedAt = receivedAt\<rparr>))))))"

type_synonym 'w lifecycle_writer = "LifecycleEvent \<Rightarrow> ('w, LifecycleResult) op"

definition lifecycleHandler :: "('w, time) effect \<Rightarrow> 'w lifecycle_writer \<Rightarrow> HttpRequest \<Rightarrow> ('w, ServerAnswer) op" where
  "lifecycleHandler now writeLifecycle r =
     (if hrq_Method r \<noteq> ''POST'' then ret method_not_allowed
      else
        (case read_limited r of
           Inl e \<Rightarrow> ret (writeJSON 400 (ErrorCode ''invalid_body''))
         | Inr body \<Rightarrow>
             bindE (attemptE (bindE (parseLifecycleEvent now body) writeLifecycle)) (\<lambda>res.
             ret (case res of
                    Inl e \<Rightarrow> writeJSON 400 (ErrorValue e)
                  | Inr result \<Rightarrow> writeJSON 202 (LifecycleValue result)))))"

section \<open>The handler\<close>

text \<open>A nil pipeline or writer stands for the memory stores \<open>NewHandler\<close> creates then.\<close>

record 'w Server =
  srv_Pipeline :: "'w RuntimePipeline option"
  srv_NewPipeline :: "'w RuntimePipeline"
  srv_LifecycleWriter :: "'w lifecycle_writer option"
  srv_NewLifecycleWriter :: "'w lifecycle_writer"
  srv_Version :: string
  srv_Commit :: string
  srv_TimeNow :: "('w, time) effect"

definition NewHandler :: "'w Server \<Rightarrow> HttpRequest \<Rightarrow> ('w, ServerAnswer) op" where
  "NewHandler s r =
     (let p = (case srv_Pipeline s of Some p \<Rightarrow> p | None \<Rightarrow> srv_NewPipeline s);
          writeLifecycle = (case srv_LifecycleWriter s of Some f \<Rightarrow> f | None \<Rightarrow> srv_NewLifecycleWriter s);
          version = (if srv_Version s = [] then ''dev'' else srv_Version s);
          commit = (if srv_Commit s = [] then ''unknown'' else srv_Commit s) in
      if hrq_Path r = ''/healthz'' then ret (writeJSON 200 (StatusText ''ok''))
      else if hrq_Path r = ''/readyz'' then ret (writeJSON 200 ReadyFlag)
      else if hrq_Path r = ''/version'' then ret (writeJSON 200 (VersionInfo version commit))
      else if hrq_Path r = ''/agent/telemetry'' then runtimeHandler p RouteTelemetry r
      else if hrq_Path r = ''/agent/events'' then runtimeHandler p RouteEvents r
      else if hrq_Path r = ''/internal/iot/lifecycle'' then lifecycleHandler (srv_TimeNow s) writeLifecycle r
      else ret (writeJSON 404 NoBody))"

end
