(* ===== verification/Telemetry_Presence.thy ===== *)
theory Telemetry_Presence
  imports Telemetry_Database
begin

text \<open>
  What the Postgres storage keeps: transactions that change all of their tables or none, the presence of a
  device against the order of its lifecycle events, and who a credential stands for.
\<close>

section \<open>Statements and transactions\<close>

lemma wp_pool_of: "(pgw_Pool p \<Longrightarrow> Q () w) \<Longrightarrow> (\<And>e. E e w) \<Longrightarrow> wp (pool_of p) Q E w"
  by (simp add: pool_of_def wp_simps)

lemma wp_pg_exec:
  assumes "\<And>e w'. tdb_tables w' = tdb_tables w \<Longrightarrow> E e w'"
    and "\<And>t w'. f (tdb_tables w) = Some t \<Longrightarrow> tdb_tables w' = t \<Longrightarrow> Q () w'"
  shows "wp (pg_exec msg f) Q E w"
  unfolding pg_exec_def
  by (auto simp: wp_simps wp_with_fault wp_def [of "\<lambda>w. case f (tdb_tables w) of None \<Rightarrow> (Inl pg_constraint, w)
      | Some t \<Rightarrow> (Inr (), w\<lparr>tdb_tables := t\<rparr>)"] assms split: list.split option.split)

lemma wp_pg_exec_Some:
  assumes "\<And>e w'. tdb_tables w' = tdb_tables w \<Longrightarrow> E e w'"
    and "\<And>w'. tdb_tables w' = g (tdb_tables w) \<Longrightarrow> Q () w'"
  shows "wp (pg_exec msg (\<lambda>t. Some (g t))) Q E w"
  by (rule wp_pg_exec) (auto intro: assms)

text \<open>What holds of the tables when the body ends holds when the transaction does, or the tables are unchanged.\<close>

lemma wp_in_transaction:
  assumes "\<And>w1. tdb_tables w1 = tdb_tables w \<Longrightarrow> wp body (\<lambda>_ w'. P (tdb_tables w')) (\<lambda>_ _. True) w1"
  shows "wp (in_transaction what body) (\<lambda>_ w'. P (tdb_tables w')) (\<lambda>_ w'. tdb_tables w' = tdb_tables w) w"
proof -
  have ends: "wp (with_fault (ret ())) (\<lambda>_ w'. tdb_tables w' = tdb_tables w1) (\<lambda>_ w'. tdb_tables w' = tdb_tables w1) w1" for w1
    by (auto simp: wp_with_fault wp_simps split: list.split)
  have "wp (bindE body (\<lambda>_. wrapE msg (with_fault (ret ())))) (\<lambda>_ w'. P (tdb_tables w')) (\<lambda>_ _. True) w1"
    if "tdb_tables w1 = tdb_tables w" for w1 msg
    using assms [OF that] by (auto simp: wp_simps elim!: wp_mono) (rule wp_mono [OF ends], auto)
  then have "wp (\<lambda>w. case bindE body (\<lambda>_. wrapE msg (with_fault (ret ()))) w of
       (Inl e, w') \<Rightarrow> (Inl e, w'\<lparr>tdb_tables := tdb_tables w\<rparr>) | (Inr u, w') \<Rightarrow> (Inr u, w'))
     (\<lambda>_ w'. P (tdb_tables w')) (\<lambda>_ w'. tdb_tables w' = tdb_tables w) w1" if "tdb_tables w1 = tdb_tables w" for w1 msg
    using that by (fastforce simp: wp_def split: prod.splits sum.splits)
  then show ?thesis unfolding in_transaction_def
    by (auto simp: wp_simps intro!: wp_mono [OF ends])
qed

section \<open>Telemetry\<close>

text \<open>All that a written message changes.\<close>

definition seen_changes :: "string \<Rightarrow> time \<Rightarrow> telemetry_tables \<Rightarrow> telemetry_tables option" where
  "seen_changes d at t = Option.bind (touch_device d at t) (set_presence d (seen_presence at))"

definition write_changes :: "ValidatedMessage \<Rightarrow> telemetry_tables \<Rightarrow> telemetry_tables option" where
  "write_changes m t =
     Option.bind (upsert_latest (telemetry_row_of m) t) (\<lambda>t1.
     Option.bind (insert_event (telemetry_row_of m) t1) (\<lambda>t2.
     if re_MessageType (vm_Envelope m) = MessageTypeTelemetry
     then seen_changes (adc_DeviceID (vm_Device m)) (vm_ReceivedAt m) t2 else Some t2))"

lemma WriteLatest_post:
  "wp (WriteLatest p m) (\<lambda>_ w'. write_changes m (tdb_tables w) = Some (tdb_tables w'))
     (\<lambda>_ w'. tdb_tables w' = tdb_tables w) w"
  unfolding WriteLatest_def recordTelemetrySeen_def
  by (auto simp: wp_simps write_changes_def seen_changes_def intro!: wp_pool_of wp_in_transaction wp_pg_exec)

lemma set_presence_fields:
  "set_presence d f t = Some t' \<Longrightarrow> tt_devices t' = tt_devices t \<and> tt_lifecycle t' = tt_lifecycle t \<and>
     tt_latest t' = tt_latest t \<and> tt_events t' = tt_events t \<and> tt_credentials t' = tt_credentials t \<and>
     tt_presence t' = (tt_presence t)(d \<mapsto> f (tt_presence t d)) \<and> known_device t d"
  by (auto simp: set_presence_def split: if_splits)

lemma write_changes_fields:
  assumes "write_changes m t = Some t'"
  defines "r \<equiv> telemetry_row_of m"
  shows "tt_latest t' = (tt_latest t)(key_of_row r \<mapsto> r)"
    and "tt_events t' = (if list_ex (\<lambda>e. tlw_DeviceID e = tlw_DeviceID r \<and> tlw_MessageID e = tlw_MessageID r) (tt_events t)
           then tt_events t else tt_events t @ [r])"
    and "tt_lifecycle t' = tt_lifecycle t"
    and "tt_presence t' = (if re_MessageType (vm_Envelope m) = MessageTypeTelemetry
           then (tt_presence t)(adc_DeviceID (vm_Device m) \<mapsto>
             seen_presence (vm_ReceivedAt m) (tt_presence t (adc_DeviceID (vm_Device m)))) else tt_presence t)"
    and "known_device t (adc_DeviceID (vm_Device m))"
proof -
  have d: "tlw_DeviceID r = adc_DeviceID (vm_Device m)" by (simp add: r_def telemetry_row_of_def)
  obtain t1 t2 where t: "upsert_latest r t = Some t1" "insert_event r t1 = Some t2"
    "(if re_MessageType (vm_Envelope m) = MessageTypeTelemetry
      then seen_changes (adc_DeviceID (vm_Device m)) (vm_ReceivedAt m) t2 else Some t2) = Some t'"
    using assms by (auto simp: write_changes_def bind_eq_Some_conv)
  from t(1) have u: "t1 = t\<lparr>tt_latest := (tt_latest t)(key_of_row r \<mapsto> r)\<rparr>" "known_device t (tlw_DeviceID r)"
    by (auto simp: upsert_latest_def split: if_splits)
  from t(2) u have e: "tt_latest t2 = (tt_latest t)(key_of_row r \<mapsto> r)" "tt_lifecycle t2 = tt_lifecycle t"
    "tt_presence t2 = tt_presence t"
    "tt_events t2 = (if list_ex (\<lambda>e. tlw_DeviceID e = tlw_DeviceID r \<and> tlw_MessageID e = tlw_MessageID r) (tt_events t)
       then tt_events t else tt_events t @ [r])"
    by (auto simp: insert_event_def split: if_splits)
  from t(3) have "tt_latest t' = tt_latest t2 \<and> tt_events t' = tt_events t2 \<and> tt_lifecycle t' = tt_lifecycle t2 \<and>
      tt_presence t' = (if re_MessageType (vm_Envelope m) = MessageTypeTelemetry
        then (tt_presence t2)(adc_DeviceID (vm_Device m) \<mapsto>
          seen_presence (vm_ReceivedAt m) (tt_presence t2 (adc_DeviceID (vm_Device m)))) else tt_presence t2)"
    by (auto simp: seen_changes_def touch_device_def dest!: set_presence_fields split: if_splits)
  with e u(2) d show "tt_latest t' = (tt_latest t)(key_of_row r \<mapsto> r)"
    "tt_events t' = (if list_ex (\<lambda>e. tlw_DeviceID e = tlw_DeviceID r \<and> tlw_MessageID e = tlw_MessageID r) (tt_events t)
       then tt_events t else tt_events t @ [r])"
    "tt_lifecycle t' = tt_lifecycle t"
    "tt_presence t' = (if re_MessageType (vm_Envelope m) = MessageTypeTelemetry
       then (tt_presence t)(adc_DeviceID (vm_Device m) \<mapsto>
         seen_presence (vm_ReceivedAt m) (tt_presence t (adc_DeviceID (vm_Device m)))) else tt_presence t)"
    "known_device t (adc_DeviceID (vm_Device m))"
    by auto
qed

section \<open>Lifecycle events\<close>

definition event_presence :: "lifecycle_row \<Rightarrow> presence_row option \<Rightarrow> presence_row" where
  "event_presence r =
     (if lifecycleConnectionState (lcw_EventType r) = ''online''
      then connected_presence (lcw_ClientID r) (lcw_SessionID r) (lcw_ObservedAt r)
      else disconnected_presence (lcw_ClientID r) (lcw_SessionID r) (lcw_ObservedAt r))"

text \<open>All that a stored event changes.\<close>

definition lifecycle_change :: "telemetry_tables \<Rightarrow> lifecycle_row \<Rightarrow> telemetry_tables \<Rightarrow> bool" where
  "lifecycle_change t r t' \<longleftrightarrow> lifecycleConnectionState (lcw_EventType r) \<in> {''online'', ''disconnected''} \<and>
     tt_lifecycle t' = tt_lifecycle t @ [r] \<and>
     tt_presence t' = (tt_presence t)(lcw_DeviceID r \<mapsto> event_presence r (tt_presence t (lcw_DeviceID r))) \<and>
     tt_devices t' = tt_devices t \<and> tt_latest t' = tt_latest t \<and> tt_events t' = tt_events t"

definition same_storage :: "telemetry_tables \<Rightarrow> telemetry_tables \<Rightarrow> bool" where
  "same_storage t t' \<longleftrightarrow> tt_lifecycle t' = tt_lifecycle t \<and> tt_presence t' = tt_presence t \<and>
     tt_devices t' = tt_devices t \<and> tt_latest t' = tt_latest t \<and> tt_events t' = tt_events t"

lemma insert_lifecycle_fields:
  "insert_lifecycle r t = Some t' \<Longrightarrow> tt_devices t' = tt_devices t \<and> tt_lifecycle t' = tt_lifecycle t @ [r] \<and>
     tt_latest t' = tt_latest t \<and> tt_events t' = tt_events t \<and> tt_presence t' = tt_presence t"
  by (auto simp: insert_lifecycle_def split: if_splits)

lemma lifecycle_statements_post:
  "wp (lifecycle_statements r) (\<lambda>_ w'. lifecycle_change (tdb_tables w) r (tdb_tables w')) (\<lambda>_ _. True) w"
  unfolding lifecycle_statements_def
  by (auto simp: wp_simps Let_def lifecycle_change_def event_presence_def
      intro!: wp_pg_exec dest!: set_presence_fields insert_lifecycle_fields)

lemma wp_claimed_device:
  "wp (claimed_device c) Q E w =
    (case find (\<lambda>r. dvw_ID r = c \<and> dvw_claimState r = ''CLAIMED'' \<and> \<not> dvw_revoked r) (tt_devices (tdb_tables w)) of
       None \<Rightarrow> E (Sentinel ''no rows in result set'') w | Some r \<Rightarrow> Q (dvw_ID r) w)"
  by (simp add: wp_def claimed_device_def split: option.split)

lemma find_SomeD: "find P xs = Some x \<Longrightarrow> x \<in> set xs \<and> P x"
  by (auto simp: find_Some_iff)

lemma WriteLifecycle_post:
  "wp (WriteLifecycle p e)
    (\<lambda>res w'. \<exists>r. lifecycle_change (tdb_tables w) r (tdb_tables w') \<and> lcw_DeviceID r = TrimSpace (lce_ClientID e) \<and>
       lcw_EventType r = TrimSpace (lce_EventType e) \<and> (lce_ObservedAt e \<noteq> 0 \<longrightarrow> lcw_ObservedAt r = lce_ObservedAt e) \<and>
       lcr_ConnectionState res = lifecycleConnectionState (lcw_EventType r) \<and> lcr_DeviceID res = lcw_DeviceID r \<and>
       (\<exists>d \<in> set (tt_devices (tdb_tables w)). dvw_ID d = lcw_DeviceID r \<and> dvw_claimState d = ''CLAIMED'' \<and> \<not> dvw_revoked d))
    (\<lambda>_ w'. same_storage (tdb_tables w) (tdb_tables w')) w"
proof -
  let ?clock = "\<lambda>t. if IsZero t then liftE read_clock else ret t"
  have clock: "wp (?clock t) (\<lambda>at w'. tdb_tables w' = tdb_tables w1 \<and> (t \<noteq> 0 \<longrightarrow> at = t)) (\<lambda>_ _. False) w1" for t w1
    by (auto simp: wp_simps read_clock_def split: list.split)
  have look: "wp (with_fault (claimed_device c)) (\<lambda>d w'. tdb_tables w' = tdb_tables w1 \<and> d = c \<and>
      (\<exists>r \<in> set (tt_devices (tdb_tables w1)). dvw_ID r = c \<and> dvw_claimState r = ''CLAIMED'' \<and> \<not> dvw_revoked r))
      (\<lambda>_ w'. tdb_tables w' = tdb_tables w1) w1" for c w1
    by (auto simp: wp_with_fault wp_claimed_device split: list.split option.split dest!: find_SomeD)
  have failure: "wp (RecordFailure p f) (\<lambda>_ w'. same_storage (tdb_tables w1) (tdb_tables w'))
      (\<lambda>_ w'. same_storage (tdb_tables w1) (tdb_tables w')) w1" for f w1
    unfolding RecordFailure_def
    by (auto simp: wp_simps same_storage_def intro!: wp_pool_of wp_pg_exec_Some)
  have store: "wp (in_transaction what (lifecycle_statements r)) (\<lambda>_ w'. lifecycle_change (tdb_tables w1) r (tdb_tables w'))
      (\<lambda>_ w'. tdb_tables w' = tdb_tables w1) w1" for what r w1
    by (rule wp_in_transaction) (use lifecycle_statements_post in metis)
  let ?et = "TrimSpace (lce_EventType e)" and ?c = "TrimSpace (lce_ClientID e)"
  let ?Q = "\<lambda>res w'. \<exists>r. lifecycle_change (tdb_tables w) r (tdb_tables w') \<and> lcw_DeviceID r = ?c \<and>
       lcw_EventType r = ?et \<and> (lce_ObservedAt e \<noteq> 0 \<longrightarrow> lcw_ObservedAt r = lce_ObservedAt e) \<and>
       lcr_ConnectionState res = lifecycleConnectionState (lcw_EventType r) \<and> lcr_DeviceID res = lcw_DeviceID r \<and>
       (\<exists>d \<in> set (tt_devices (tdb_tables w)). dvw_ID d = lcw_DeviceID r \<and> dvw_claimState d = ''CLAIMED'' \<and> \<not> dvw_revoked d)"
  let ?E = "\<lambda>_ w'. same_storage (tdb_tables w) (tdb_tables w')"
  have refused: "wp (bindE (ignoreE (RecordFailure p f)) (\<lambda>_. fail err)) ?Q ?E w1" if "tdb_tables w1 = tdb_tables w" for f err w1
    using failure [of f w1] that by (auto simp: wp_simps elim!: wp_mono)
  have stored: "wp (bindE (in_transaction ''lifecycle transaction'' (lifecycle_statements (lifecycle_row_of e ?et ?c ?c at)))
      (\<lambda>_. ret \<lparr>lcr_Accepted = True, lcr_DeviceID = ?c, lcr_EventType = ?et,
        lcr_ConnectionState = lifecycleConnectionState ?et, lcr_ObservedAt = at\<rparr>)) ?Q ?E w1"
    if "tdb_tables w1 = tdb_tables w" "lce_ObservedAt e \<noteq> 0 \<longrightarrow> at = lce_ObservedAt e"
      "\<exists>r \<in> set (tt_devices (tdb_tables w)). dvw_ID r = ?c \<and> dvw_claimState r = ''CLAIMED'' \<and> \<not> dvw_revoked r" for w1 at
  proof (subst wp_bindE, rule wp_mono [OF store])
    fix u w2 assume ch: "lifecycle_change (tdb_tables w1) (lifecycle_row_of e ?et ?c ?c at) (tdb_tables w2)"
    show "wp (ret \<lparr>lcr_Accepted = True, lcr_DeviceID = ?c, lcr_EventType = ?et,
        lcr_ConnectionState = lifecycleConnectionState ?et, lcr_ObservedAt = at\<rparr>) ?Q ?E w2"
      unfolding wp_ret using ch that
      by (intro exI [of _ "lifecycle_row_of e ?et ?c ?c at"]) (simp add: lifecycle_row_of_def)
  qed (use that(1) in \<open>simp add: same_storage_def\<close>)
  have decided: "wp (bindE (attemptE (with_fault (claimed_device ?c))) (\<lambda>found. case found of
       Inl err \<Rightarrow> bindE (ignoreE (RecordFailure p (lifecycle_failure ?c rcv)))
         (\<lambda>_. fail (Wrapf ''%w: lifecycle client is not a claimed device'' ErrIdentityDrift))
     | Inr d \<Rightarrow> bindE (in_transaction ''lifecycle transaction'' (lifecycle_statements (lifecycle_row_of e ?et ?c d at)))
         (\<lambda>_. ret \<lparr>lcr_Accepted = True, lcr_DeviceID = d, lcr_EventType = ?et,
           lcr_ConnectionState = lifecycleConnectionState ?et, lcr_ObservedAt = at\<rparr>))) ?Q ?E w1"
    if "tdb_tables w1 = tdb_tables w" "lce_ObservedAt e \<noteq> 0 \<longrightarrow> at = lce_ObservedAt e" for w1 at rcv
    unfolding wp_bindE [of "attemptE _"] wp_attemptE
  proof (rule wp_mono [OF look])
    fix d w2 assume d: "tdb_tables w2 = tdb_tables w1 \<and> d = ?c \<and>
      (\<exists>r \<in> set (tt_devices (tdb_tables w1)). dvw_ID r = ?c \<and> dvw_claimState r = ''CLAIMED'' \<and> \<not> dvw_revoked r)"
    then have "tdb_tables w2 = tdb_tables w" "d = ?c" using that(1) by auto
    with stored [of w2 at] d that show "wp (case Inr d of
       Inl err \<Rightarrow> bindE (ignoreE (RecordFailure p (lifecycle_failure ?c rcv)))
         (\<lambda>_. fail (Wrapf ''%w: lifecycle client is not a claimed device'' ErrIdentityDrift))
     | Inr d \<Rightarrow> bindE (in_transaction ''lifecycle transaction'' (lifecycle_statements (lifecycle_row_of e ?et ?c d at)))
         (\<lambda>_. ret \<lparr>lcr_Accepted = True, lcr_DeviceID = d, lcr_EventType = ?et,
           lcr_ConnectionState = lifecycleConnectionState ?et, lcr_ObservedAt = at\<rparr>)) ?Q ?E w2" by simp
  qed (use refused that(1) in simp)
  have begun: "same_storage (tdb_tables w) (tdb_tables w)" by (simp add: same_storage_def)
  have timed: "wp (bindE (?clock (lce_ObservedAt e)) (\<lambda>at. bindE (?clock (lce_ReceivedAt e)) (f at))) ?Q ?E w"
    if "\<And>w1 at rcv. tdb_tables w1 = tdb_tables w \<Longrightarrow> lce_ObservedAt e \<noteq> 0 \<longrightarrow> at = lce_ObservedAt e \<Longrightarrow> wp (f at rcv) ?Q ?E w1" for f
    unfolding wp_bindE by (rule wp_mono [OF clock], rule wp_mono [OF clock]) (use that in auto)
  show ?thesis
    unfolding WriteLifecycle_def Let_def
    by (subst wp_bindE, rule wp_pool_of, subst wp_bindE, subst wp_failIf)
      (auto simp only: if_bool_eq_conj intro!: begun timed decided)
qed

section \<open>Presence and the order of events\<close>

text \<open>The latest of some events by the time they were observed, the last of them if there are several.\<close>

definition later_event :: "lifecycle_row \<Rightarrow> lifecycle_row option \<Rightarrow> lifecycle_row option" where
  "later_event r found =
     (case found of None \<Rightarrow> Some r | Some b \<Rightarrow> if lcw_ObservedAt b \<le> lcw_ObservedAt r then Some r else Some b)"

definition latest_event :: "lifecycle_row list \<Rightarrow> lifecycle_row option" where
  "latest_event rows = fold later_event rows None"

lemma latest_event_snoc [simp]: "latest_event (rows @ [r]) = later_event r (latest_event rows)"
  by (simp add: latest_event_def)

lemma latest_event_Nil [simp]: "latest_event [] = None"
  by (simp add: latest_event_def)

lemma latest_event_None: "latest_event rows = None \<longleftrightarrow> rows = []"
  by (induction rows rule: rev_induct) (auto simp: later_event_def split: option.split)

lemma latest_event_max:
  "latest_event rows = Some r \<Longrightarrow> r \<in> set rows \<and> (\<forall>x \<in> set rows. lcw_ObservedAt x \<le> lcw_ObservedAt r)"
proof (induction rows arbitrary: r rule: rev_induct)
  case (snoc x xs)
  show ?case
  proof (cases "latest_event xs")
    case None
    with snoc.prems show ?thesis by (auto simp: later_event_def latest_event_None)
  next
    case (Some b)
    with snoc.IH [OF Some] snoc.prems show ?thesis
      by (cases "lcw_ObservedAt b \<le> lcw_ObservedAt x") (force simp: later_event_def)+
  qed
qed simp

definition device_events :: "telemetry_tables \<Rightarrow> string \<Rightarrow> lifecycle_row list" where
  "device_events t d = filter (\<lambda>r. lcw_DeviceID r = d) (tt_lifecycle t)"

definition presence_view :: "telemetry_tables \<Rightarrow> string \<Rightarrow> (string \<times> time option) option" where
  "presence_view t d = map_option (\<lambda>p. (prw_state p, prw_Seen p)) (tt_presence t d)"

text \<open>What the presence of a device is without telemetry: the state of its latest event, seen at its time.\<close>

definition presence_spec :: "telemetry_tables \<Rightarrow> string \<Rightarrow> (string \<times> time option) option" where
  "presence_spec t d =
     map_option (\<lambda>r. (lifecycleConnectionState (lcw_EventType r), Some (lcw_ObservedAt r))) (latest_event (device_events t d))"

lemma event_presence_view:
  assumes "lifecycleConnectionState (lcw_EventType r) \<in> {''online'', ''disconnected''}"
  shows "(prw_state (event_presence r old), prw_Seen (event_presence r old)) =
    (case old of None \<Rightarrow> (lifecycleConnectionState (lcw_EventType r), Some (lcw_ObservedAt r))
     | Some p \<Rightarrow> (if not_later (prw_Seen p) (lcw_ObservedAt r) then lifecycleConnectionState (lcw_EventType r) else prw_state p,
         Some (greatest (prw_Seen p) (lcw_ObservedAt r))))"
  using assms by (auto simp: event_presence_def connected_presence_def disconnected_presence_def split: option.split)

lemma lifecycle_change_spec:
  assumes "lifecycle_change t r t'" and "\<forall>d. presence_view t d = presence_spec t d"
  shows "\<forall>d. presence_view t' d = presence_spec t' d"
proof
  fix d
  note c = assms(1) [unfolded lifecycle_change_def]
  show "presence_view t' d = presence_spec t' d"
  proof (cases "lcw_DeviceID r = d")
    case False
    with c assms(2) show ?thesis by (simp add: presence_view_def presence_spec_def device_events_def)
  next
    case True
    have "presence_view t d = presence_spec t d" using assms(2) by simp
    with True c event_presence_view [of r "tt_presence t d"] show ?thesis
      by (cases "latest_event (device_events t d)"; cases "tt_presence t d")
        (auto simp: presence_view_def presence_spec_def device_events_def later_event_def not_later_def greatest_def)
  qed
qed

definition run_lifecycle :: "PgWriter \<Rightarrow> LifecycleEvent list \<Rightarrow> 'x telemetry_db_scheme \<Rightarrow> 'x telemetry_db_scheme" where
  "run_lifecycle p es w = fold (\<lambda>e w. snd (WriteLifecycle p e w)) es w"

lemma run_lifecycle_induct:
  assumes "I (tdb_tables w)"
    and "\<And>t t'. I t \<Longrightarrow> same_storage t t' \<Longrightarrow> I t'"
    and "\<And>t r t' e. I t \<Longrightarrow> e \<in> set es \<Longrightarrow> lifecycle_change t r t' \<Longrightarrow>
      (lce_ObservedAt e \<noteq> 0 \<longrightarrow> lcw_ObservedAt r = lce_ObservedAt e) \<Longrightarrow> I t'"
  shows "I (tdb_tables (run_lifecycle p es w))"
  using assms(1,3) unfolding run_lifecycle_def
proof (induction es arbitrary: w)
  case (Cons e es)
  have "I (tdb_tables (snd (WriteLifecycle p e w)))"
  proof (rule wp_worldD [of _ "\<lambda>w. I (tdb_tables w)"], rule wp_mono [OF WriteLifecycle_post])
    fix err w' assume "same_storage (tdb_tables w) (tdb_tables w')"
    with Cons.prems(1) assms(2) show "I (tdb_tables w')" by blast
  qed (use Cons.prems(1) Cons.prems(2) [of _ e] in auto)
  moreover have "\<And>t r t' e. I t \<Longrightarrow> e \<in> set es \<Longrightarrow> lifecycle_change t r t' \<Longrightarrow>
      (lce_ObservedAt e \<noteq> 0 \<longrightarrow> lcw_ObservedAt r = lce_ObservedAt e) \<Longrightarrow> I t'"
    using Cons.prems(2) by (metis list.set_intros(2))
  ultimately show ?case using Cons.IH [of "snd (WriteLifecycle p e w)"] by simp
qed simp

section \<open>An instance\<close>

definition presence_device :: device_row where
  "presence_device = \<lparr>dvw_ID = ''d1'', dvw_AccountID = ''a1'', dvw_SiteID = Some ''s1'', dvw_ThingName = None,
     dvw_claimState = ''CLAIMED'', dvw_revoked = False, dvw_LastSeen = None, dvw_UpdatedAt = 1\<rparr>"

definition presence_world :: telemetry_db where
  "presence_world = \<lparr>env_faults = [], env_clock = 50, env_ticks = [], env_ids = [],
     tdb_tables = \<lparr>tt_devices = [presence_device],
       tt_credentials = [\<lparr>crw_DeviceID = ''d1'', crw_Fingerprint = ''fp'', crw_Serial = Some ''7'', crw_status = ''Active'',
         crw_LastSeen = None\<rparr>],
       tt_presence = Map.empty, tt_lifecycle = [], tt_latest = Map.empty, tt_events = [], tt_failures = []\<rparr>\<rparr>"

definition presence_event :: "string \<Rightarrow> time \<Rightarrow> LifecycleEvent" where
  "presence_event kind at = \<lparr>lce_EventType = kind, lce_ClientID = ''d1'', lce_PrincipalIdentifier = [],
     lce_SessionIdentifier = [], lce_VersionNumber = [], lce_ObservedAt = at, lce_ReceivedAt = 40\<rparr>"

text \<open>The connect event of time 20 arrives after the disconnect event of time 30.\<close>

definition late_connect :: "LifecycleEvent list" where
  "late_connect = [presence_event ''disconnected'' 30, presence_event ''connected'' 20]"

definition presence_message :: ValidatedMessage where
  "presence_message =
     \<lparr>vm_Device = \<lparr>adc_DeviceID = ''d1'', adc_SiteID = [], adc_OrgID = [], adc_CertificateFingerprint = [],
        adc_CertificateSerial = []\<rparr>,
      vm_Envelope = \<lparr>re_MessageType = MessageTypeTelemetry, re_SchemaType = ''device.health_snapshot'', re_SchemaVersion = 1,
        re_MessageID = ''m1'', re_AppliedPublishPolicyVersion = [], re_ObservedAt = 24, re_Payload = []\<rparr>,
      vm_Projection = \<lparr>prj_Material = [], prj_Sidecar = []\<rparr>, vm_ReceivedAt = 25\<rparr>"

text \<open>C17: Without telemetry, whatever the order in which the lifecycle events of any devices arrive and whichever
  statements fail, the presence of a device is the state of the stored event that was observed last. A
  disconnected event has no other rank than a connected one: it counts with the call that stores it. The
  design documents ask for more, a pending disconnect that a delayed verification applies; the code has
  no such step, so what holds is stated here, and the difference is a finding.\<close>

theorem presence_follows_events:
  assumes "tt_presence (tdb_tables w0) = Map.empty" and "tt_lifecycle (tdb_tables w0) = []"
    and "w = run_lifecycle p es w0"
  shows "presence_view (tdb_tables w) d = presence_spec (tdb_tables w) d"
proof -
  have "\<forall>d. presence_view (tdb_tables w) d = presence_spec (tdb_tables w) d"
    unfolding assms(3)
    by (rule run_lifecycle_induct [of "\<lambda>t. \<forall>d. presence_view t d = presence_spec t d"])
      (use assms(1,2) in \<open>auto simp: presence_view_def presence_spec_def device_events_def same_storage_def
        dest: lifecycle_change_spec\<close>)
  then show ?thesis by blast
qed

theorem presence_follows_events_witness:
  "presence_view (tdb_tables (run_lifecycle \<lparr>pgw_Pool = True\<rparr> late_connect presence_world)) ''d1'' =
     Some (''disconnected'', Some 30)"
proof -
  have "presence_spec (tdb_tables (run_lifecycle \<lparr>pgw_Pool = True\<rparr> late_connect presence_world)) ''d1'' =
      Some (''disconnected'', Some 30)"
    by code_simp
  then show ?thesis
    using presence_follows_events [of presence_world, OF _ _ refl] by (simp add: presence_world_def)
qed

text \<open>No disconnect waits for a verification: the call that stores a disconnect observed no earlier than what is
  known of the device makes it disconnected.\<close>

theorem disconnect_applied_at_once:
  assumes "WriteLifecycle p e w = (Inr res, w')" and "TrimSpace (lce_EventType e) = ''disconnected''"
    and "lce_ObservedAt e \<noteq> 0" and "d = TrimSpace (lce_ClientID e)"
    and "case tt_presence (tdb_tables w) d of None \<Rightarrow> True | Some r \<Rightarrow> not_later (prw_Seen r) (lce_ObservedAt e)"
  shows "presence_view (tdb_tables w') d = Some (''disconnected'', Some (lce_ObservedAt e))"
proof -
  from wp_InrD [OF WriteLifecycle_post assms(1)] assms(2-4) obtain r where
    r: "lifecycle_change (tdb_tables w) r (tdb_tables w')" "lcw_DeviceID r = d" "lcw_EventType r = ''disconnected''"
      "lcw_ObservedAt r = lce_ObservedAt e" by auto
  then show ?thesis
    using assms(5) event_presence_view [of r "tt_presence (tdb_tables w) d"]
    by (auto simp: lifecycle_change_def presence_view_def lifecycleConnectionState_def greatest_def not_later_def
        split: option.splits)
qed

text \<open>Telemetry hides lifecycle events: after telemetry of a device that was received at some time, no
  sequence of lifecycle events observed before it changes the connection state; a device that connects and
  whose first telemetry is stored before its connect event stays unknown.\<close>

theorem telemetry_hides_events:
  assumes "WriteLatest p m w0 = (Inr (), w1)" and "re_MessageType (vm_Envelope m) = MessageTypeTelemetry"
    and "adc_DeviceID (vm_Device m) = d" and "w = run_lifecycle p es w1"
    and "\<forall>e \<in> set es. lce_ObservedAt e \<noteq> 0 \<and> lce_ObservedAt e < vm_ReceivedAt m"
  shows "map_option prw_state (tt_presence (tdb_tables w) d) =
    Some (case tt_presence (tdb_tables w0) d of None \<Rightarrow> ''unknown'' | Some r \<Rightarrow> prw_state r)"
proof -
  let ?s = "case tt_presence (tdb_tables w0) d of None \<Rightarrow> ''unknown'' | Some r \<Rightarrow> prw_state r"
  let ?I = "\<lambda>t. \<exists>r s. tt_presence t d = Some r \<and> prw_state r = ?s \<and> prw_Seen r = Some s \<and> vm_ReceivedAt m \<le> s"
  have "write_changes m (tdb_tables w0) = Some (tdb_tables w1)"
    using wp_InrD [OF WriteLatest_post assms(1)] .
  from write_changes_fields(4) [OF this] assms(2,3) have "?I (tdb_tables w1)"
    by (auto simp: seen_presence_def greatest_def split: option.split)
  moreover have "?I t'" if "?I t" "lifecycle_change t r t'" "e \<in> set es" "lce_ObservedAt e \<noteq> 0 \<longrightarrow> lcw_ObservedAt r = lce_ObservedAt e"
    for t r t' e
  proof -
    have "lcw_ObservedAt r < vm_ReceivedAt m" using that(3,4) assms(5) by auto
    with that(1,2) show ?thesis
      by (auto simp: lifecycle_change_def event_presence_def connected_presence_def disconnected_presence_def
          not_later_def greatest_def)
  qed
  ultimately have "?I (tdb_tables w)"
    unfolding assms(4) by (intro run_lifecycle_induct [of ?I]) (auto simp: same_storage_def)
  then show ?thesis by auto
qed

lemma presence_fields:
  "tlw_DeviceID (telemetry_row_of presence_message) = ''d1''"
  "re_MessageType (vm_Envelope presence_message) = MessageTypeTelemetry"
  "adc_DeviceID (vm_Device presence_message) = ''d1''" "vm_ReceivedAt presence_message = 25"
  "env_faults presence_world = []" "tt_devices (tdb_tables presence_world) = [presence_device]"
  "tt_events (tdb_tables presence_world) = []" "tt_presence (tdb_tables presence_world) ''d1'' = None"
  "dvw_ID presence_device = ''d1''"
  by (simp_all add: telemetry_row_of_def presence_message_def presence_world_def presence_device_def)

lemma presence_written:
  "WriteLatest \<lparr>pgw_Pool = True\<rparr> presence_message presence_world =
     (Inr (), snd (WriteLatest \<lparr>pgw_Pool = True\<rparr> presence_message presence_world))"
  by (simp add: WriteLatest_def pool_of_def in_transaction_def pg_exec_def with_fault_def op_defs upsert_latest_def
      insert_event_def recordTelemetrySeen_def touch_device_def set_presence_def known_device_def presence_fields)

theorem telemetry_hides_events_witness:
  "map_option prw_state (tt_presence (tdb_tables (run_lifecycle \<lparr>pgw_Pool = True\<rparr> [presence_event ''connected'' 20]
     (snd (WriteLatest \<lparr>pgw_Pool = True\<rparr> presence_message presence_world)))) ''d1'') = Some ''unknown''"
proof -
  have "lce_ObservedAt (presence_event ''connected'' 20) = 20" by (simp add: presence_event_def)
  then show ?thesis
    using telemetry_hides_events [OF presence_written _ _ refl, of "''d1''" "[presence_event ''connected'' 20]"]
    by (simp add: presence_fields)
qed

section \<open>Credentials\<close>

lemma wp_sql_credential:
  "wp (sql_credential f) Q E w = Q (case concat (map (\<lambda>c. map (\<lambda>d. (c, d)) (filter (\<lambda>d. dvw_ID d = crw_DeviceID c)
     (tt_devices (tdb_tables w)))) (filter (\<lambda>c. crw_Fingerprint c = f) (tt_credentials (tdb_tables w)))) of
     [] \<Rightarrow> None | r # rs \<Rightarrow> Some r) w"
  by (simp add: wp_def sql_credential_def Let_def)

text \<open>A credential is resolved only to the claimed, not revoked device of the row with its fingerprint and
  serial number, while the credential is active; nothing but the time it was last seen changes.\<close>

theorem resolved_device_active:
  assumes "ResolveDevice p cred w = (Inr ctx, w')"
  shows "\<exists>c \<in> set (tt_credentials (tdb_tables w)). \<exists>d \<in> set (tt_devices (tdb_tables w)).
    crw_Fingerprint c = TrimSpace (tcr_CertificateFingerprint cred) \<and>
    crw_Serial c = Some (TrimSpace (tcr_CertificateSerial cred)) \<and> TrimSpace (tcr_CertificateSerial cred) \<noteq> [] \<and>
    EqualFold (crw_status c) ''active'' \<and> crw_DeviceID c = dvw_ID d \<and>
    dvw_claimState d = ''CLAIMED'' \<and> \<not> dvw_revoked d \<and> adc_DeviceID ctx = dvw_ID d \<and> adc_OrgID ctx = dvw_AccountID d \<and>
    tt_devices (tdb_tables w') = tt_devices (tdb_tables w) \<and> tt_events (tdb_tables w') = tt_events (tdb_tables w) \<and>
    tt_presence (tdb_tables w') = tt_presence (tdb_tables w)"
proof -
  have look: "wp (with_fault (sql_credential f)) (\<lambda>found w'. tdb_tables w' = tdb_tables w1 \<and> (\<forall>c d. found = Some (c, d) \<longrightarrow>
      c \<in> set (tt_credentials (tdb_tables w1)) \<and> d \<in> set (tt_devices (tdb_tables w1)) \<and> crw_Fingerprint c = f \<and>
      crw_DeviceID c = dvw_ID d)) (\<lambda>_ _. True) w1" for f w1
  proof -
    have "c \<in> set (tt_credentials t) \<and> d \<in> set (tt_devices t) \<and> crw_Fingerprint c = f \<and> crw_DeviceID c = dvw_ID d"
      if "concat (map (\<lambda>c. map (\<lambda>d. (c, d)) (filter (\<lambda>d. dvw_ID d = crw_DeviceID c) (tt_devices t)))
        (filter (\<lambda>c. crw_Fingerprint c = f) (tt_credentials t))) = (c, d) # rs" for t c d rs
    proof -
      have "(c, d) \<in> set (concat (map (\<lambda>c. map (\<lambda>d. (c, d)) (filter (\<lambda>d. dvw_ID d = crw_DeviceID c) (tt_devices t)))
        (filter (\<lambda>c. crw_Fingerprint c = f) (tt_credentials t))))" unfolding that by simp
      then show ?thesis by auto
    qed
    then show ?thesis
      by (auto simp: wp_with_fault wp_sql_credential split: list.splits)
  qed
  have serial: "stringOf s = t \<Longrightarrow> t \<noteq> [] \<Longrightarrow> s = Some t" for s t by (auto simp: stringOf_def split: option.splits)
  have "wp (ResolveDevice p cred) (\<lambda>ctx w'. \<exists>c \<in> set (tt_credentials (tdb_tables w)). \<exists>d \<in> set (tt_devices (tdb_tables w)).
    crw_Fingerprint c = TrimSpace (tcr_CertificateFingerprint cred) \<and>
    crw_Serial c = Some (TrimSpace (tcr_CertificateSerial cred)) \<and> TrimSpace (tcr_CertificateSerial cred) \<noteq> [] \<and>
    EqualFold (crw_status c) ''active'' \<and> crw_DeviceID c = dvw_ID d \<and>
    dvw_claimState d = ''CLAIMED'' \<and> \<not> dvw_revoked d \<and> adc_DeviceID ctx = dvw_ID d \<and> adc_OrgID ctx = dvw_AccountID d \<and>
    tt_devices (tdb_tables w') = tt_devices (tdb_tables w) \<and> tt_events (tdb_tables w') = tt_events (tdb_tables w) \<and>
    tt_presence (tdb_tables w') = tt_presence (tdb_tables w)) (\<lambda>_ _. True) w"
    unfolding ResolveDevice_def touch_credential_def
    by (auto simp: wp_simps Let_def split: option.split prod.split intro!: wp_pool_of wp_mono [OF look] wp_pg_exec_Some)
      (force simp: wp_simps read_clock_def intro!: wp_pg_exec_Some dest: serial split: list.split)
  from wp_InrD [OF this assms] show ?thesis .
qed

theorem resolved_device_active_witness:
  "\<exists>ctx w' d. \<exists>c :: credential_row. ResolveDevice \<lparr>pgw_Pool = True\<rparr> \<lparr>tcr_CertificateFingerprint = '' fp'', tcr_CertificateSerial = ''7'',
       tcr_CertificateIssuer = []\<rparr> presence_world = (Inr ctx, w') \<and>
     d \<in> set (tt_devices (tdb_tables presence_world)) \<and> crw_Fingerprint c = ''fp'' \<and> crw_DeviceID c = dvw_ID d \<and>
     adc_DeviceID ctx = ''d1'' \<and> dvw_ID d = ''d1'' \<and> dvw_claimState d = ''CLAIMED''"
proof -
  let ?c = "\<lparr>tcr_CertificateFingerprint = '' fp'', tcr_CertificateSerial = ''7'', tcr_CertificateIssuer = []\<rparr>"
  let ?run = "ResolveDevice \<lparr>pgw_Pool = True\<rparr> ?c presence_world"
  have "fst ?run = Inr \<lparr>adc_DeviceID = ''d1'', adc_SiteID = ''s1'', adc_OrgID = ''a1'',
      adc_CertificateFingerprint = ''fp'', adc_CertificateSerial = ''7''\<rparr>"
    by code_simp
  then obtain w' where run: "?run = (Inr \<lparr>adc_DeviceID = ''d1'', adc_SiteID = ''s1'', adc_OrgID = ''a1'',
      adc_CertificateFingerprint = ''fp'', adc_CertificateSerial = ''7''\<rparr>, w')" by (cases ?run) auto
  have trimmed: "TrimSpace '' fp'' = ''fp''" by code_simp
  from resolved_device_active [OF run] trimmed obtain c :: credential_row and d where "d \<in> set (tt_devices (tdb_tables presence_world))"
    "crw_Fingerprint c = ''fp''" "crw_DeviceID c = dvw_ID d" "dvw_claimState d = ''CLAIMED''" "dvw_ID d = ''d1''"
    by auto
  with run show ?thesis by (auto intro!: exI [of _ d] exI [of _ c])
qed

end
