(* ===== verification/Telemetry_Server_Store.thy ===== *)
theory Telemetry_Server_Store
  imports Telemetry_Server Telemetry_Presence Telemetry_Ingest
begin

text \<open>
  The telemetry ingest service as \<open>main.go\<close> starts it with a database: the pipeline with its memory dedupe store
  over the Postgres writer, failure sink and resolver, behind the HTTP handler. \<open>sdb_written\<close> is a history
  variable: the messages whose write has returned without an error. It is not in the code; the contract of the
  pipeline (\<open>ingest_contract\<close>) speaks of it, and the tables are a function of it.
\<close>

section \<open>The service\<close>

record server_db = telemetry_db +
  sdb_messages :: "MessageDedupeKey list"
  sdb_materialHashes :: "(StateDedupeKey \<times> string) list"
  sdb_written :: "ValidatedMessage list"

definition server_dedupe :: "server_db DedupeStore" where
  "server_dedupe =
     \<lparr>dds_SeenMessage = (\<lambda>k w. (Inr (k \<in> set (sdb_messages w)), w)),
      dds_RecordMessage = (\<lambda>k w. (Inr (), w\<lparr>sdb_messages := k # sdb_messages w\<rparr>)),
      dds_LastMaterialHash = (\<lambda>k w. (Inr (map_of (sdb_materialHashes w) k), w)),
      dds_RecordMaterialHash = (\<lambda>k h w. (Inr (), w\<lparr>sdb_materialHashes := (k, h) # sdb_materialHashes w\<rparr>))\<rparr>"

definition server_pool :: PgWriter where
  "server_pool = \<lparr>pgw_Pool = True\<rparr>"

definition server_write :: "ValidatedMessage \<Rightarrow> (server_db, unit) op" where
  "server_write m = bindE (WriteLatest server_pool m) (\<lambda>_ w. (Inr (), w\<lparr>sdb_written := sdb_written w @ [m]\<rparr>))"

definition server_pipeline :: "server_db RuntimePipeline" where
  "server_pipeline =
     \<lparr>rpl_Parser = Some RuntimeEnvelopeParser_Parse, rpl_Catalog = Some NewDefaultCatalog,
      rpl_AuthorityResolver = Some (ResolveDevice server_pool), rpl_DedupeStore = Some server_dedupe,
      rpl_NewDedupeStore = server_dedupe, rpl_Writer = Some server_write,
      rpl_FailureSink = Some (RecordFailure server_pool), rpl_Clock = Some read_clock, rpl_TimeNow = read_clock\<rparr>"

definition telemetry_service :: "server_db Server" where
  "telemetry_service =
     \<lparr>srv_Pipeline = Some server_pipeline, srv_NewPipeline = server_pipeline,
      srv_LifecycleWriter = Some (WriteLifecycle server_pool), srv_NewLifecycleWriter = WriteLifecycle server_pool,
      srv_Version = [], srv_Commit = [], srv_TimeNow = read_clock\<rparr>"

section \<open>Preserved predicates\<close>

definition preserves :: "('w \<Rightarrow> bool) \<Rightarrow> ('w, 'a) op \<Rightarrow> bool" where
  "preserves I m \<longleftrightarrow> (\<forall>w. I w \<longrightarrow> I (snd (m w)))"

named_theorems preserving

lemma preservesD: "preserves I m \<Longrightarrow> I w \<Longrightarrow> m w = (r, w') \<Longrightarrow> I w'"
  unfolding preserves_def by (metis snd_conv)

lemma preservesI: "(\<And>w r w'. I w \<Longrightarrow> m w = (r, w') \<Longrightarrow> I w') \<Longrightarrow> preserves I m"
  unfolding preserves_def by (metis prod.collapse)

lemma preserves_wp: "(\<And>w. I w \<Longrightarrow> wp m (\<lambda>_. I) (\<lambda>_. I) w) \<Longrightarrow> preserves I m"
  unfolding preserves_def by (blast dest: wp_worldD)

lemma preserving_ret [preserving]: "preserves I (ret a)"
  by (simp add: preserves_def ret_def)

lemma preserving_fail [preserving]: "preserves I (fail e)"
  by (simp add: preserves_def fail_def)

lemma preserving_bindE [preserving]: "preserves I m \<Longrightarrow> (\<And>a. preserves I (f a)) \<Longrightarrow> preserves I (bindE m f)"
  unfolding bindE_def by (rule preservesI) (auto split: prod.splits sum.splits dest: preservesD)

lemma preserving_wrapE [preserving]: "preserves I m \<Longrightarrow> preserves I (wrapE msg m)"
  unfolding wrapE_def by (rule preservesI) (auto split: prod.splits sum.splits dest: preservesD)

lemma preserving_ignoreE [preserving]: "preserves I m \<Longrightarrow> preserves I (ignoreE m)"
  unfolding ignoreE_def by (rule preservesI) (auto split: prod.splits sum.splits dest: preservesD)

lemma preserving_attemptE [preserving]: "preserves I m \<Longrightarrow> preserves I (attemptE m)"
  unfolding attemptE_def by (rule preservesI) (auto split: prod.splits sum.splits dest: preservesD)

lemma preserving_failIf [preserving]: "preserves I (failIf b e)"
  by (simp add: failIf_def preserving)

lemma preserving_pureE [preserving]: "preserves I (pureE r)"
  by (cases r) (simp_all add: pureE_def preserving)

lemma preserving_if [preserving]: "(b \<Longrightarrow> preserves I m) \<Longrightarrow> (\<not> b \<Longrightarrow> preserves I n) \<Longrightarrow> preserves I (if b then m else n)"
  by simp

lemma preserving_sum [preserving]:
  "(\<And>e. preserves I (f e)) \<Longrightarrow> (\<And>a. preserves I (g a)) \<Longrightarrow> preserves I (case x of Inl e \<Rightarrow> f e | Inr a \<Rightarrow> g a)"
  by (cases x) simp_all

lemma preserving_option [preserving]:
  "preserves I n \<Longrightarrow> (\<And>a. preserves I (g a)) \<Longrightarrow> preserves I (case x of None \<Rightarrow> n | Some a \<Rightarrow> g a)"
  by (cases x) simp_all

lemma preserving_prod [preserving]: "(\<And>a b. preserves I (g a b)) \<Longrightarrow> preserves I (case x of (a, b) \<Rightarrow> g a b)"
  by (cases x) simp

lemma preserving_query: "preserves I (\<lambda>w. (f w, w))"
  by (simp add: preserves_def)

text \<open>A pipeline preserves what all of its calls preserve.\<close>

definition pipeline_preserves :: "('w \<Rightarrow> bool) \<Rightarrow> 'w RuntimePipeline \<Rightarrow> bool" where
  "pipeline_preserves I p \<longleftrightarrow> (\<forall>k. preserves I (dds_SeenMessage (pipeline_dedupe p) k)) \<and>
     (\<forall>k. preserves I (dds_RecordMessage (pipeline_dedupe p) k)) \<and>
     (\<forall>k. preserves I (dds_LastMaterialHash (pipeline_dedupe p) k)) \<and>
     (\<forall>k h. preserves I (dds_RecordMaterialHash (pipeline_dedupe p) k h)) \<and>
     (\<forall>f m. rpl_Writer p = Some f \<longrightarrow> preserves I (f m)) \<and>
     (\<forall>f c. rpl_AuthorityResolver p = Some f \<longrightarrow> preserves I (f c)) \<and>
     (\<forall>f x. rpl_FailureSink p = Some f \<longrightarrow> preserves I (f x)) \<and> preserves I (pipeline_now p)"

lemma preserving_recordFailure:
  "pipeline_preserves I p \<Longrightarrow> preserves I (recordFailure p device envelope stage reason t)"
  unfolding recordFailure_def pipeline_preserves_def by (cases "rpl_FailureSink p") (auto intro!: preserving)

lemma preserving_record_message: "pipeline_preserves I p \<Longrightarrow> preserves I (record_message p m b c reason)"
  unfolding record_message_def reject_def
  by (intro preserving preserving_recordFailure) (auto simp: pipeline_preserves_def)

lemma preserving_write_message:
  "pipeline_preserves I p \<Longrightarrow> rpl_Writer p = Some f \<Longrightarrow> preserves I (write_message p m f)"
  unfolding write_message_def reject_def
  by (intro preserving preserving_recordFailure preserving_record_message) (auto simp: pipeline_preserves_def)

lemma preserving_store_message: "pipeline_preserves I p \<Longrightarrow> preserves I (store_message p m)"
  unfolding store_message_def reject_def shouldSuppressUnchangedTelemetry_def
  by (intro preserving)
    (auto simp: pipeline_preserves_def split: sum.split bool.split option.split
      intro!: preserving preserving_recordFailure preserving_record_message preserving_write_message)

lemma preserving_resolve: "pipeline_preserves I p \<Longrightarrow> preserves I (resolveAuthority p request envelope)"
  unfolding resolveAuthority_def Let_def pipeline_preserves_def
  by (cases "rpl_AuthorityResolver p") (auto intro!: preserving)

lemma preserving_Ingest: "pipeline_preserves I p \<Longrightarrow> preserves I (Ingest p request)"
  unfolding Ingest_def pipeline_received_def
  by (intro preserving preserving_recordFailure preserving_store_message preserving_resolve) (auto simp: pipeline_preserves_def)

section \<open>What the database calls leave alone\<close>

text \<open>The memory of the service and the history: all that is not the environment or a table.\<close>

definition service_memory :: "server_db \<Rightarrow> MessageDedupeKey list \<times> (StateDedupeKey \<times> string) list \<times> ValidatedMessage list" where
  "service_memory w = (sdb_messages w, sdb_materialHashes w, sdb_written w)"

abbreviation has_memory :: "MessageDedupeKey list \<times> (StateDedupeKey \<times> string) list \<times> ValidatedMessage list \<Rightarrow> server_db \<Rightarrow> bool" where
  "has_memory c \<equiv> \<lambda>w. service_memory w = c"

lemma service_memory_frame [simp]:
  "service_memory (w\<lparr>env_faults := fs\<rparr>) = service_memory w" "service_memory (w\<lparr>env_clock := t\<rparr>) = service_memory w"
  "service_memory (w\<lparr>env_ticks := ts\<rparr>) = service_memory w" "service_memory (w\<lparr>tdb_tables := tb\<rparr>) = service_memory w"
  by (simp_all add: service_memory_def)

lemma preserving_with_fault [preserving]: "preserves (has_memory c) m \<Longrightarrow> preserves (has_memory c) (with_fault m)"
  unfolding preserves_def with_fault_def by (auto split: list.split)

lemma preserving_clock [preserving]: "preserves (has_memory c) (liftE read_clock)"
  by (auto simp: preserves_def liftE_def read_clock_def split: list.split)

lemma preserving_pg_exec [preserving]: "preserves (has_memory c) (pg_exec msg f)"
  unfolding pg_exec_def by (intro preserving) (auto simp: preserves_def split: option.split)

lemma preserving_in_transaction [preserving]:
  assumes "preserves (has_memory c) body"
  shows "preserves (has_memory c) (in_transaction what body)"
proof -
  have b: "preserves (has_memory c) (bindE body (\<lambda>_. wrapE msg (with_fault (ret ()))))" for msg
    by (intro preserving assms)
  have "preserves (has_memory c) (\<lambda>w. case bindE body (\<lambda>_. wrapE msg (with_fault (ret ()))) w of
      (Inl e, w') \<Rightarrow> (Inl e, w'\<lparr>tdb_tables := tdb_tables w\<rparr>) | (Inr u, w') \<Rightarrow> (Inr u, w'))" for msg
  proof (rule preservesI)
    fix w r w'
    assume w: "service_memory w = c" and run: "(case bindE body (\<lambda>_. wrapE msg (with_fault (ret ()))) w of
      (Inl e, w') \<Rightarrow> (Inl e, w'\<lparr>tdb_tables := tdb_tables w\<rparr>) | (Inr u, w') \<Rightarrow> (Inr u, w')) = (r, w')"
    obtain x w1 where x: "bindE body (\<lambda>_. wrapE msg (with_fault (ret ()))) w = (x, w1)" by fastforce
    from preservesD [OF b w x] run x show "service_memory w' = c" by (auto split: sum.splits)
  qed
  then show ?thesis unfolding in_transaction_def by (intro preserving)
qed

lemma preserving_WriteLatest: "preserves (has_memory c) (WriteLatest p m)"
  unfolding WriteLatest_def pool_of_def recordTelemetrySeen_def by (intro preserving)

lemma preserving_RecordFailure: "preserves (has_memory c) (RecordFailure p f)"
  unfolding RecordFailure_def pool_of_def by (intro preserving)

lemma preserving_ResolveDevice: "preserves (has_memory c) (ResolveDevice p cred)"
  unfolding ResolveDevice_def pool_of_def sql_credential_def Let_def by (intro preserving preserving_query)

lemma preserving_claimed_device: "preserves I (claimed_device d)"
  unfolding claimed_device_def by (rule preservesI) (auto split: option.splits)

lemma preserving_WriteLifecycle: "preserves (has_memory c) (WriteLifecycle p e)"
  unfolding WriteLifecycle_def pool_of_def lifecycle_statements_def Let_def
  by (intro preserving preserving_claimed_device preserving_RecordFailure)

section \<open>The contract of the pipeline\<close>

definition server_view :: "server_db \<Rightarrow> ingest_view" where
  "server_view w = \<lparr>iv_seen = set (sdb_messages w), iv_hashes = map_of (sdb_materialHashes w), iv_written = sdb_written w\<rparr>"

lemma server_view_fields [simp]:
  "iv_seen (server_view w) = set (sdb_messages w)" "iv_hashes (server_view w) = map_of (sdb_materialHashes w)"
  "iv_written (server_view w) = sdb_written w"
  by (simp_all add: server_view_def)

lemma same_view: "preserves (has_memory (service_memory w)) m \<Longrightarrow> m w = (r, w') \<Longrightarrow> server_view w' = server_view w"
  using preservesD [of "has_memory (service_memory w)" m w r w'] by (simp add: service_memory_def server_view_def)

lemma read_clock_view: "read_clock w = (t, w') \<Longrightarrow> server_view w' = server_view w"
  by (auto simp: read_clock_def server_view_def split: list.splits)

lemma server_pipeline_fields [simp]:
  "rpl_Writer server_pipeline = Some server_write" "pipeline_dedupe server_pipeline = server_dedupe"
  "rpl_AuthorityResolver server_pipeline = Some (ResolveDevice server_pool)"
  "rpl_FailureSink server_pipeline = Some (RecordFailure server_pool)" "rpl_Clock server_pipeline = Some read_clock"
  "rpl_TimeNow server_pipeline = read_clock" "pipeline_catalog server_pipeline = NewDefaultCatalog"
  "pipeline_parser server_pipeline = RuntimeEnvelopeParser_Parse"
  by (simp_all add: server_pipeline_def pipeline_dedupe_def pipeline_catalog_def pipeline_parser_def)

lemma server_write_view:
  "server_write m w = (wr, w') \<Longrightarrow>
     (case wr of Inl e \<Rightarrow> server_view w' = server_view w | Inr u \<Rightarrow> server_view w' = view_write m (server_view w))"
proof -
  assume run: "server_write m w = (wr, w')"
  obtain x w1 where x: "WriteLatest server_pool m w = (x, w1)" by fastforce
  note same = same_view [OF preserving_WriteLatest x]
  show ?thesis
  proof (cases x)
    case (Inl e)
    with run x same show ?thesis by (auto simp: server_write_def bindE_def)
  next
    case (Inr u)
    with run x have "wr = Inr ()" "w' = w1\<lparr>sdb_written := sdb_written w1 @ [m]\<rparr>"
      by (auto simp: server_write_def bindE_def)
    with same show ?thesis by (simp add: view_write_def server_view_def)
  qed
qed

interpretation service: ingest_contract server_pipeline server_write server_view
proof unfold_locales
  show "server_write m w = (wr, w') \<Longrightarrow>
     (case wr of Inl e \<Rightarrow> server_view w' = server_view w | Inr u \<Rightarrow> server_view w' = view_write m (server_view w))" for m w wr w'
    by (rule server_write_view)
qed (auto simp: server_dedupe_def server_view_def service_memory_def dest!: same_view [OF preserving_ResolveDevice]
    same_view [OF preserving_RecordFailure] read_clock_view)

section \<open>The tables and the history\<close>

definition latest_of :: "ValidatedMessage list \<Rightarrow> latest_key \<Rightarrow> telemetry_row option" where
  "latest_of ms = fold (\<lambda>m L. L(key_of_row (telemetry_row_of m) \<mapsto> telemetry_row_of m)) ms (\<lambda>_. None)"

definition event_key :: "telemetry_row \<Rightarrow> string \<times> string" where
  "event_key e = (tlw_DeviceID e, tlw_MessageID e)"

definition add_event :: "ValidatedMessage \<Rightarrow> telemetry_row list \<Rightarrow> telemetry_row list" where
  "add_event m es = (if event_key (telemetry_row_of m) \<in> event_key ` set es then es else es @ [telemetry_row_of m])"

lemma has_event:
  "event_key r \<in> event_key ` set es \<longleftrightarrow> list_ex (\<lambda>e. tlw_DeviceID e = tlw_DeviceID r \<and> tlw_MessageID e = tlw_MessageID r) es"
  by (induction es) (auto simp: event_key_def)

definition events_of :: "ValidatedMessage list \<Rightarrow> telemetry_row list" where
  "events_of ms = fold add_event ms []"

lemma latest_of_snoc: "latest_of (ms @ [m]) = (latest_of ms)(key_of_row (telemetry_row_of m) \<mapsto> telemetry_row_of m)"
  by (simp add: latest_of_def)

lemma events_of_snoc: "events_of (ms @ [m]) = add_event m (events_of ms)"
  by (simp add: events_of_def)

lemma add_event_keys: "event_key ` set (add_event m es) = insert (event_key (telemetry_row_of m)) (event_key ` set es)"
  by (auto simp: add_event_def)

lemma events_of_distinct: "distinct (map event_key (events_of ms))"
  by (induction ms rule: rev_induct) (auto simp: events_of_snoc add_event_def events_of_def)

definition same_telemetry :: "telemetry_tables \<Rightarrow> telemetry_tables \<Rightarrow> bool" where
  "same_telemetry t t' \<longleftrightarrow> tt_latest t' = tt_latest t \<and> tt_events t' = tt_events t"

definition tables_match :: "server_db \<Rightarrow> bool" where
  "tables_match w \<longleftrightarrow> tt_latest (tdb_tables w) = latest_of (sdb_written w) \<and> tt_events (tdb_tables w) = events_of (sdb_written w)"

lemma tables_match_same:
  assumes "tables_match w" and "same_telemetry (tdb_tables w) (tdb_tables w')" and "sdb_written w' = sdb_written w"
  shows "tables_match w'"
  using assms by (simp add: tables_match_def same_telemetry_def)

text \<open>A call that keeps the memory and the two tables.\<close>

lemma preserving_tables:
  assumes "\<And>c. preserves (has_memory c) m"
    and "\<And>w. wp m (\<lambda>_ w'. same_telemetry (tdb_tables w) (tdb_tables w')) (\<lambda>_ w'. same_telemetry (tdb_tables w) (tdb_tables w')) w"
  shows "preserves tables_match m"
proof (rule preservesI)
  fix w r w' assume w: "tables_match w" and run: "m w = (r, w')"
  have "same_telemetry (tdb_tables w) (tdb_tables w')"
    using wp_worldD [of m "\<lambda>w'. same_telemetry (tdb_tables w) (tdb_tables w')" w] assms(2) run by simp
  moreover have "sdb_written w' = sdb_written w"
    using preservesD [OF assms(1) refl run] by (simp add: service_memory_def)
  ultimately show "tables_match w'" using tables_match_same w by blast
qed

lemma same_storage_telemetry: "same_storage t t' \<Longrightarrow> same_telemetry t t'" "lifecycle_change t r t' \<Longrightarrow> same_telemetry t t'"
  by (simp_all add: same_storage_def lifecycle_change_def same_telemetry_def)

lemma RecordFailure_telemetry:
  "wp (RecordFailure p f) (\<lambda>_ w'. same_telemetry (tdb_tables w) (tdb_tables w')) (\<lambda>_ w'. same_telemetry (tdb_tables w) (tdb_tables w')) w"
  unfolding RecordFailure_def by (auto simp: wp_simps same_telemetry_def intro!: wp_pool_of wp_pg_exec_Some)

lemma WriteLifecycle_telemetry:
  "wp (WriteLifecycle p e) (\<lambda>_ w'. same_telemetry (tdb_tables w) (tdb_tables w')) (\<lambda>_ w'. same_telemetry (tdb_tables w) (tdb_tables w')) w"
  by (rule wp_mono [OF WriteLifecycle_post]) (auto intro: same_storage_telemetry)

lemma ResolveDevice_telemetry:
  "wp (ResolveDevice p c) (\<lambda>_ w'. same_telemetry (tdb_tables w) (tdb_tables w')) (\<lambda>_ w'. same_telemetry (tdb_tables w) (tdb_tables w')) w"
  unfolding ResolveDevice_def touch_credential_def Let_def
  by (auto simp: wp_simps wp_with_fault wp_sql_credential read_clock_def same_telemetry_def split: list.split option.split
      prod.split intro!: wp_pool_of wp_pg_exec_Some)

lemma server_write_tables: "preserves tables_match (server_write m)"
proof (rule preservesI)
  fix w r w' assume w: "tables_match w" and run: "server_write m w = (r, w')"
  obtain x w1 where x: "WriteLatest server_pool m w = (x, w1)" by fastforce
  have memory: "sdb_written w1 = sdb_written w"
    using preservesD [OF preserving_WriteLatest refl x] by (simp add: service_memory_def)
  show "tables_match w'"
  proof (cases x)
    case (Inl e)
    then have "tdb_tables w1 = tdb_tables w" using wp_InlD [OF WriteLatest_post] x by simp
    with Inl run x memory w show ?thesis by (auto simp: server_write_def bindE_def tables_match_def)
  next
    case (Inr u)
    then have "write_changes m (tdb_tables w) = Some (tdb_tables w1)" using wp_InrD [OF WriteLatest_post] x by simp
    note ch = write_changes_fields(1,2) [OF this]
    have "w' = w1\<lparr>sdb_written := sdb_written w1 @ [m]\<rparr>" using Inr run x by (simp add: server_write_def bindE_def)
    with ch memory w show ?thesis
      by (simp add: tables_match_def latest_of_snoc events_of_snoc add_event_def has_event)
  qed
qed

lemma pipeline_tables: "pipeline_preserves tables_match server_pipeline"
  unfolding pipeline_preserves_def
  by (auto simp: server_dedupe_def pipeline_now_def clock_now_def intro!: server_write_tables
      preserving_tables [OF preserving_ResolveDevice ResolveDevice_telemetry] preserving_tables [OF preserving_RecordFailure RecordFailure_telemetry])
    (auto simp: preserves_def tables_match_def liftE_def read_clock_def split: list.split)

section \<open>Requests\<close>

definition all_checked :: "server_db \<Rightarrow> bool" where
  "all_checked w \<longleftrightarrow> (\<forall>m \<in> set (sdb_written w). message_checked m)"

text \<open>An ingest through the service, by its contract; the dedupe store is memory and does not fail.\<close>

lemma service_step:
  assumes "Ingest server_pipeline request w = (Inr r, w')"
  shows "server_view w' = server_view w \<and> \<not> irs_Accepted (fst r) \<and> snd r \<noteq> None \<or>
    (\<exists>m. message_checked m \<and> stored (server_view w) m r (server_view w'))"
  using wp_InrD [OF service.wp_Ingest assms] by (auto simp: service.ingest_ends_def message_checked_def)

lemma preserving_all_checked: "preserves all_checked (Ingest server_pipeline request)"
proof (rule preservesI)
  fix w r w' assume w: "all_checked w" and run: "Ingest server_pipeline request w = (r, w')"
  have "wp (Ingest server_pipeline request) (\<lambda>r w'. service.ingest_ends (server_view w) request r (server_view w')) (\<lambda>_ _. False) w"
    by (rule service.wp_Ingest)
  then obtain x where r: "r = Inr x" using run by (cases r) (auto simp: wp_def)
  consider "sdb_written w' = sdb_written w" | m where "message_checked m" "sdb_written w' = sdb_written w @ [m]"
    using service_step [OF run [unfolded r]] stored_written [of "server_view w" _ x "server_view w'"]
    by (metis server_view_fields(3))
  then show "all_checked w'" using w by cases (auto simp: all_checked_def)
qed

lemma preserving_handler:
  assumes "\<And>request. preserves I (Ingest server_pipeline request)" and "\<And>e. preserves I (WriteLifecycle server_pool e)"
    and "preserves I (liftE read_clock)"
  shows "preserves I (NewHandler telemetry_service r)"
proof -
  have runtime: "preserves I (runtimeHandler server_pipeline route r)" for route
    unfolding runtimeHandler_def by (intro preserving assms)
  have parse: "preserves I (parseLifecycleEvent read_clock body)" for body
    unfolding parseLifecycleEvent_def Let_def by (intro preserving assms)
  have "preserves I (lifecycleHandler read_clock (WriteLifecycle server_pool) r)"
    unfolding lifecycleHandler_def by (intro preserving assms parse)
  with runtime show ?thesis
    unfolding NewHandler_def telemetry_service_def Let_def by (simp add: preserving)
qed

lemma handler_tables: "preserves tables_match (NewHandler telemetry_service r)"
proof (rule preserving_handler)
  show "preserves tables_match (WriteLifecycle server_pool e)" for e
    by (rule preserving_tables [OF preserving_WriteLifecycle WriteLifecycle_telemetry])
  show "preserves tables_match (liftE read_clock)"
    by (auto simp: preserves_def tables_match_def liftE_def read_clock_def split: list.split)
qed (rule preserving_Ingest [OF pipeline_tables])

lemma handler_checked: "preserves all_checked (NewHandler telemetry_service r)"
proof (rule preserving_handler)
  show "preserves all_checked (WriteLifecycle server_pool e)" for e
    by (rule preservesI) (use preservesD [OF preserving_WriteLifecycle refl] in \<open>fastforce simp: all_checked_def service_memory_def\<close>)
  show "preserves all_checked (liftE read_clock)"
    by (auto simp: preserves_def all_checked_def liftE_def read_clock_def split: list.split)
qed (rule preserving_all_checked)

definition run_service :: "HttpRequest list \<Rightarrow> server_db \<Rightarrow> server_db" where
  "run_service requests w = fold (\<lambda>r w. snd (NewHandler telemetry_service r w)) requests w"

lemma run_service_preserves: "(\<And>r. preserves I (NewHandler telemetry_service r)) \<Longrightarrow> I w \<Longrightarrow> I (run_service requests w)"
  unfolding run_service_def by (induction requests arbitrary: w) (auto simp: preserves_def)

definition fresh_service :: "server_db \<Rightarrow> bool" where
  "fresh_service w \<longleftrightarrow> tt_latest (tdb_tables w) = (\<lambda>_. None) \<and> tt_events (tdb_tables w) = [] \<and> sdb_written w = []"

lemma reachable_service:
  assumes "fresh_service w0"
  shows "tables_match (run_service requests w0)" and "all_checked (run_service requests w0)"
  using run_service_preserves [OF handler_tables, of w0 requests] run_service_preserves [OF handler_checked, of w0 requests] assms
  by (simp_all add: fresh_service_def tables_match_def all_checked_def latest_of_def events_of_def)

section \<open>Answers\<close>

lemma wp_keep:
  assumes "preserves I m" and "I w" and "\<And>a w'. I w' \<Longrightarrow> Q a w'" and "\<And>e w'. I w' \<Longrightarrow> E e w'"
  shows "wp m Q E w"
  by (rule wpI) (use assms preservesD [OF assms(1,2)] in blast)+

lemma wp_pure_call: "wp (\<lambda>w. (Inr (f w), g w)) Q E w = Q (f w) (g w)"
  by (simp add: wp_def)

abbreviation written_is :: "ValidatedMessage list \<Rightarrow> server_db \<Rightarrow> bool" where
  "written_is c \<equiv> \<lambda>w. sdb_written w = c"

lemma preserving_written:
  assumes "\<And>c. preserves (has_memory c) m"
  shows "preserves (written_is d) m"
proof (rule preservesI)
  fix w r w' assume w: "sdb_written w = d" and run: "m w = (r, w')"
  from preservesD [OF assms refl run] w show "sdb_written w' = d" by (simp add: service_memory_def)
qed

lemma reject_unwritten: "preserves (written_is c) (reject server_pipeline m stage e h msg)"
  unfolding reject_def recordFailure_def by (auto intro!: preserving preserving_written [OF preserving_RecordFailure])

definition error_unwritten :: "ValidatedMessage list \<Rightarrow> IngestResult \<times> go_error option \<Rightarrow> server_db \<Rightarrow> bool" where
  "error_unwritten c r w \<longleftrightarrow> (snd r \<noteq> None \<longrightarrow> sdb_written w = c)"

lemma reject_answers:
  "sdb_written w = c \<Longrightarrow> wp (reject server_pipeline m stage e h msg) (error_unwritten c) (\<lambda>_ _. True) w"
  by (rule wp_keep [OF reject_unwritten]) (auto simp: error_unwritten_def)

lemma record_message_answers:
  "wp (record_message server_pipeline m b d reason) (error_unwritten c) (\<lambda>_ _. True) w"
  by (simp add: record_message_def wp_simps server_dedupe_def wp_pure_call error_unwritten_def)

lemma write_message_answers:
  assumes "sdb_written w = c"
  shows "wp (write_message server_pipeline m server_write) (error_unwritten c) (\<lambda>_ _. True) w"
proof -
  have "wp (server_write m) (\<lambda>_ _. True) (\<lambda>_. written_is c) w"
    by (rule wpI) (use server_write_view assms in \<open>force dest: arg_cong [of _ _ iv_written]\<close>)+
  note written = this
  show ?thesis unfolding write_message_def
    by (auto simp: wp_simps server_dedupe_def wp_pure_call intro!: wp_mono [OF written] record_message_answers reject_answers)
qed

lemma store_message_answers:
  "sdb_written w = c \<Longrightarrow> wp (store_message server_pipeline m) (error_unwritten c) (\<lambda>_ _. True) w"
  by (auto simp: store_message_def shouldSuppressUnchangedTelemetry_def wp_simps server_dedupe_def wp_pure_call
      error_unwritten_def intro!: record_message_answers write_message_answers split: bool.split)

lemma service_preserving_written:
  "preserves (written_is c) (recordFailure server_pipeline device envelope stage reason t)"
  "preserves (written_is c) (resolveAuthority server_pipeline request envelope)"
  "preserves (written_is c) (pipeline_received server_pipeline request)"
proof -
  show "preserves (written_is c) (recordFailure server_pipeline device envelope stage reason t)"
    unfolding recordFailure_def by (auto intro!: preserving preserving_written [OF preserving_RecordFailure])
  show "preserves (written_is c) (resolveAuthority server_pipeline request envelope)"
    unfolding resolveAuthority_def Let_def by (auto intro!: preserving preserving_written [OF preserving_ResolveDevice])
  show "preserves (written_is c) (pipeline_received server_pipeline request)"
    unfolding pipeline_received_def pipeline_now_def clock_now_def
    by (auto intro!: preserving preserving_written [OF preserving_clock])
qed

lemma failed_answers:
  "sdb_written w = c \<Longrightarrow> wp (bindE (recordFailure server_pipeline device envelope stage reason t) (\<lambda>_. ret (r, e)))
     (error_unwritten c) (\<lambda>_ _. True) w"
  by (auto simp: wp_simps error_unwritten_def intro!: wp_keep [OF service_preserving_written(1)])

lemma resolved_answers:
  assumes "sdb_written w = c" and "\<And>x w'. sdb_written w' = c \<Longrightarrow> wp (f x) (error_unwritten c) (\<lambda>_ _. True) w'"
  shows "wp (bindE (attemptE (resolveAuthority server_pipeline request envelope)) f) (error_unwritten c) (\<lambda>_ _. True) w"
  unfolding wp_bindE wp_attemptE by (rule wp_keep [OF service_preserving_written(2) assms(1)]) (rule assms(2), assumption)+

lemma Ingest_answers:
  assumes "sdb_written w = c"
  shows "wp (Ingest server_pipeline request) (error_unwritten c) (\<lambda>_ _. True) w"
  unfolding Ingest_def
  by (subst wp_bindE, rule wp_keep [OF service_preserving_written(3) assms])
    (auto intro!: failed_answers resolved_answers store_message_answers split: sum.split option.split)

text \<open>An answer that says that its message was written.\<close>

definition says_written :: "ServerAnswer \<Rightarrow> bool" where
  "says_written a = (case sva_Payload a of IngestValue r \<Rightarrow> irs_Written r | _ \<Rightarrow> False)"

lemma ingest_answer:
  assumes "Ingest server_pipeline request w = (Inr (res, err), w')"
  shows "(err = None \<and> irs_Written res \<longrightarrow> (\<exists>m. message_checked m \<and> re_MessageID (vm_Envelope m) = irs_MessageID res \<and>
      sdb_written w' = sdb_written w @ [m])) \<and>
    (err \<noteq> None \<or> \<not> irs_Written res \<longrightarrow> sdb_written w' = sdb_written w)"
proof (cases err)
  case None
  show ?thesis
    using service_step [OF assms(1)] None
    by (auto elim!: storedE simp: accepted_def) (auto dest: arg_cong [of _ _ iv_written])
next
  case (Some e)
  with wp_InrD [OF Ingest_answers [OF refl] assms(1)] show ?thesis by (simp add: error_unwritten_def)
qed

definition answered_id :: "ServerAnswer \<Rightarrow> string" where
  "answered_id a = (case sva_Payload a of IngestValue r \<Rightarrow> irs_MessageID r | _ \<Rightarrow> [])"

text \<open>What an answer says of the history.\<close>

definition told :: "server_db \<Rightarrow> ServerAnswer \<Rightarrow> server_db \<Rightarrow> bool" where
  "told w a w' \<longleftrightarrow>
     (if says_written a then sva_Status a = 202 \<and> (\<exists>m. message_checked m \<and> re_MessageID (vm_Envelope m) = answered_id a \<and>
        sdb_written w' = sdb_written w @ [m])
      else sdb_written w' = sdb_written w)"

lemma runtime_told: "runtimeHandler server_pipeline route r w = (Inr a, w') \<Longrightarrow> told w a w'"
proof -
  assume run: "runtimeHandler server_pipeline route r w = (Inr a, w')"
  show ?thesis
  proof (cases "hrq_Method r = ''POST'' \<and> (\<exists>body. read_limited r = Inr body)")
    case False
    with run show ?thesis
      by (auto simp: runtimeHandler_def ret_def told_def says_written_def method_not_allowed_def writeJSON_def split: if_splits sum.splits)
  next
    case True
    then obtain body where body: "read_limited r = Inr body" by blast
    obtain x w1 where x: "Ingest server_pipeline (runtime_request route r body) w = (x, w1)" by fastforce
    obtain res err where r: "x = Inr (res, err)" "w1 = w'"
      "a = (case err of Some e \<Rightarrow> writeJSON 400 (ErrorValue e) | None \<Rightarrow> writeJSON 202 (IngestValue res))"
      using run True body x by (auto simp: runtimeHandler_def bindE_def ret_def split: sum.splits)
    show ?thesis
      using ingest_answer [OF x [unfolded r(1)]] r(2,3)
      by (cases err) (auto simp: told_def says_written_def answered_id_def writeJSON_def)
  qed
qed

lemma lifecycle_told:
  assumes "lifecycleHandler read_clock (WriteLifecycle server_pool) r w = (Inr a, w')"
  shows "told w a w'"
proof -
  have "preserves (written_is (sdb_written w)) (lifecycleHandler read_clock (WriteLifecycle server_pool) r)"
    unfolding lifecycleHandler_def parseLifecycleEvent_def Let_def
    by (intro preserving preserving_written [OF preserving_WriteLifecycle] preserving_written [OF preserving_clock])
  from preservesD [OF this refl assms] have "sdb_written w' = sdb_written w" .
  moreover have "\<not> says_written a"
    using assms by (auto simp: lifecycleHandler_def bindE_def attemptE_def ret_def says_written_def method_not_allowed_def
        writeJSON_def split: if_splits sum.splits prod.splits)
  ultimately show ?thesis by (simp add: told_def)
qed

lemma handler_told:
  assumes "NewHandler telemetry_service r w = (Inr a, w')"
  shows "told w a w'"
  using assms unfolding NewHandler_def telemetry_service_def Let_def
  by (auto simp: ret_def told_def says_written_def writeJSON_def split: if_splits dest: runtime_told lifecycle_told)

section \<open>An instance\<close>

definition svc_request :: HttpRequest where
  "svc_request = \<lparr>hrq_Method = ''POST'', hrq_Path = ''/agent/events'',
     hrq_Header = [(''X-Client-Cert-Fingerprint'', [''fp'']), (''X-Client-Cert-Serial'', [''7''])],
     hrq_RemoteAddr = [], hrq_Body = Inr demo_event\<rparr>"

definition svc_world :: server_db where
  "svc_world = \<lparr>env_faults = [], env_clock = 50, env_ticks = [], env_ids = [], tdb_tables = tdb_tables presence_world,
     sdb_messages = [], sdb_materialHashes = [], sdb_written = []\<rparr>"

definition svc_context :: AuthenticatedDeviceContext where
  "svc_context = \<lparr>adc_DeviceID = ''d1'', adc_SiteID = ''s1'', adc_OrgID = ''a1'', adc_CertificateFingerprint = ''fp'',
     adc_CertificateSerial = ''7''\<rparr>"

definition svc_message :: ValidatedMessage where
  "svc_message = \<lparr>vm_Device = svc_context, vm_Envelope = demo_envelope, vm_Projection = vm_Projection demo_message,
     vm_ReceivedAt = 50\<rparr>"

definition svc_credential :: TransportCredential where
  "svc_credential = \<lparr>tcr_CertificateFingerprint = ''fp'', tcr_CertificateSerial = ''7'', tcr_CertificateIssuer = []\<rparr>"

definition svc_resolved :: server_db where
  "svc_resolved = svc_world\<lparr>tdb_tables := the (touch_credential ''fp'' 50 (tdb_tables svc_world))\<rparr>"

lemma svc_device: "ResolveDevice server_pool svc_credential svc_world = (Inr svc_context, svc_resolved)"
proof -
  have "TrimSpace ''fp'' = ''fp''" "TrimSpace ''7'' = ''7''" "EqualFold ''Active'' ''active''" by code_simp+
  then show ?thesis
    by (simp add: ResolveDevice_def pool_of_def sql_credential_def pg_exec_def touch_credential_def with_fault_def op_defs
        read_clock_def stringOf_def Let_def svc_credential_def svc_world_def presence_world_def presence_device_def
        server_pool_def svc_context_def svc_resolved_def)
qed

lemma svc_resolve:
  "resolveAuthority server_pipeline (runtime_request RouteEvents svc_request demo_event) demo_envelope svc_world =
     (Inr svc_context, svc_resolved)"
proof -
  have "request_credential (runtime_request RouteEvents svc_request []) = svc_credential" by code_simp
  then have c: "request_credential (runtime_request RouteEvents svc_request demo_event) = svc_credential"
    by (simp add: request_credential_def runtime_request_def)
  have "TrimSpace (tcr_CertificateFingerprint svc_credential) \<noteq> []" "TrimSpace (adc_DeviceID svc_context) \<noteq> []"
    "resolved_context svc_context svc_credential = svc_context"
    by code_simp+
  with svc_device show ?thesis by (simp add: resolveAuthority_def c op_defs)
qed

lemma svc_resolved_fields:
  "env_faults svc_resolved = []" "known_device (tdb_tables svc_resolved) ''d1''" "sdb_messages svc_resolved = []"
  by (simp_all add: known_device_def svc_resolved_def touch_credential_def svc_world_def presence_world_def presence_device_def)

lemma svc_message_fields:
  "tlw_DeviceID (telemetry_row_of svc_message) = ''d1''" "re_MessageType (vm_Envelope svc_message) = MessageTypeEvent"
  "MessageTypeEvent \<noteq> MessageTypeTelemetry"
  by (simp_all add: telemetry_row_of_def svc_message_def svc_context_def demo_envelope_def telemetry_names)

lemma svc_stored:
  "\<exists>w'. store_message server_pipeline svc_message svc_resolved = (Inr (accepted svc_message True False [], None), w')"
proof -
  have dev: "known_device (tdb_tables w) ''d1'' \<Longrightarrow> env_faults w = [] \<Longrightarrow>
      WriteLatest server_pool svc_message w = (Inr (), w\<lparr>tdb_tables :=
        the (write_changes svc_message (tdb_tables w))\<rparr>)" for w :: server_db
    by (cases "list_ex (\<lambda>e. tlw_DeviceID e = ''d1'' \<and> tlw_MessageID e = tlw_MessageID (telemetry_row_of svc_message)) (tt_events (tdb_tables w))")
      (simp_all add: WriteLatest_def server_pool_def pool_of_def in_transaction_def pg_exec_def with_fault_def op_defs
        upsert_latest_def insert_event_def known_device_def svc_message_fields write_changes_def)
  show ?thesis
    using svc_resolved_fields svc_message_fields dev [OF svc_resolved_fields(2,1)]
    by (simp add: store_message_def write_message_def record_message_def shouldSuppressUnchangedTelemetry_def op_defs
        server_dedupe_def server_write_def)
qed

lemma svc_answer:
  "\<exists>w'. NewHandler telemetry_service svc_request svc_world = (Inr (writeJSON 202 (IngestValue (accepted svc_message True False []))), w')"
proof -
  let ?req = "runtime_request RouteEvents svc_request demo_event"
  obtain w' where st: "store_message server_pipeline svc_message svc_resolved = (Inr (accepted svc_message True False [], None), w')"
    using svc_stored by blast
  have rcv: "pipeline_received server_pipeline ?req svc_world = (Inr 50, svc_world)"
    by (simp add: pipeline_received_def pipeline_now_def clock_now_def op_defs read_clock_def runtime_request_def svc_world_def
        zero_time_def)
  have req: "irq_Route ?req = RouteEvents" "irq_Body ?req = demo_event" by (simp_all add: runtime_request_def)
  have "ensurePayloadIdentityMatches (re_Payload demo_envelope) (adc_DeviceID svc_context) = None"
    using demo_identity by (simp add: demo_envelope_def svc_context_def)
  then have "Ingest server_pipeline ?req svc_world = (Inr (accepted svc_message True False [], None), w')"
    using st by (simp add: Ingest_def bindE_def attemptE_def rcv req demo_parsed demo_validated svc_resolve svc_message_def)
  moreover have "read_limited svc_request = Inr demo_event"
    by (simp add: read_limited_def svc_request_def demo_event_def demo_alarm_def)
  ultimately show ?thesis
    by (simp add: NewHandler_def telemetry_service_def svc_request_def [THEN arg_cong, of hrq_Path]
        svc_request_def [THEN arg_cong, of hrq_Method] runtimeHandler_def bindE_def ret_def)
qed

lemma svc_fresh: "fresh_service svc_world"
  by (simp add: fresh_service_def svc_world_def presence_world_def)

section \<open>Properties\<close>

text \<open>C9: Whatever HTTP requests come and whichever database statements fail, the telemetry tables are those of a
  sequence of messages that parser, catalog and identity check accepted: the latest state is the message
  written last, and there is one event for each device and message identifier.\<close>

theorem service_tables_are_messages:
  assumes "fresh_service w0" and "w = run_service requests w0"
  shows "\<exists>ms. tt_latest (tdb_tables w) = latest_of ms \<and> tt_events (tdb_tables w) = events_of ms \<and>
    (\<forall>m \<in> set ms. message_checked m) \<and> distinct (map event_key (tt_events (tdb_tables w)))"
  using reachable_service [OF assms(1), of requests] assms(2) events_of_distinct
  by (intro exI [of _ "sdb_written w"]) (simp add: tables_match_def all_checked_def)

theorem service_tables_are_messages_witness:
  "\<exists>ms. tt_latest (tdb_tables (run_service [svc_request, svc_request] svc_world)) = latest_of ms \<and>
     tt_events (tdb_tables (run_service [svc_request, svc_request] svc_world)) = events_of ms"
  using service_tables_are_messages [OF svc_fresh refl, of "[svc_request, svc_request]"] by blast

text \<open>C6: The answer tells what is stored: after any requests, an answer says that its message was written only with
  status 202, and then the latest state of its key is this message and it has an event; every other answer,
  an error, a suppressed message or a lifecycle event, leaves latest states and events as they were.\<close>

theorem answer_tells_what_is_stored:
  assumes "fresh_service w0" and "w = run_service requests w0" and "NewHandler telemetry_service r w = (Inr a, w')"
  shows "if says_written a
    then sva_Status a = 202 \<and> (\<exists>m. message_checked m \<and> re_MessageID (vm_Envelope m) = answered_id a \<and>
      tt_latest (tdb_tables w') (key_of_row (telemetry_row_of m)) = Some (telemetry_row_of m) \<and>
      event_key (telemetry_row_of m) \<in> event_key ` set (tt_events (tdb_tables w')))
    else tt_latest (tdb_tables w') = tt_latest (tdb_tables w) \<and> tt_events (tdb_tables w') = tt_events (tdb_tables w)"
proof -
  have m: "tables_match w" using reachable_service(1) [OF assms(1)] assms(2) by simp
  then have m': "tables_match w'" using preservesD [OF handler_tables _ assms(3)] by blast
  show ?thesis
    using handler_told [OF assms(3)] m m' unfolding told_def tables_match_def
    by (auto simp: latest_of_snoc events_of_snoc add_event_keys split: if_splits)
qed

theorem answer_tells_what_is_stored_witness:
  "\<exists>a w' m. NewHandler telemetry_service svc_request svc_world = (Inr a, w') \<and> sva_Status a = 202 \<and>
     re_MessageID (vm_Envelope m) = ''m1'' \<and>
     tt_latest (tdb_tables w') (key_of_row (telemetry_row_of m)) = Some (telemetry_row_of m)"
proof -
  obtain w' where run: "NewHandler telemetry_service svc_request svc_world =
      (Inr (writeJSON 202 (IngestValue (accepted svc_message True False []))), w')"
    using svc_answer by blast
  let ?a = "writeJSON 202 (IngestValue (accepted svc_message True False []))"
  have "says_written ?a" "answered_id ?a = ''m1''" "sva_Status ?a = 202"
    by (simp_all add: says_written_def answered_id_def writeJSON_def accepted_def svc_message_def demo_envelope_def)
  then show ?thesis
    using answer_tells_what_is_stored [OF svc_fresh _ run, of "[]"] run by (auto simp: run_service_def)
qed

end
