(* ===== verification/Read_Models.thy ===== *)
theory Read_Models
  imports Go_Time Authn "HOL-Library.Char_ord" "HOL-Library.List_Lexorder" "HOL-Library.Product_Lexorder"
begin

text \<open>
  The read models of the web application: \<open>backend/internal/platform/readmodels/projection.go\<close>,
  \<open>models.go\<close> and \<open>postgres.go\<close>.

  A nullable column or pointer is an option. The two queries are answered by the database, an interface
  here; \<open>Read_Model_Store\<close> has the tables and what the query for the devices selects.
\<close>

section \<open>Models\<close>

record DeviceSummary =
  dsm_DeviceID :: string
  dsm_ThingName :: string
  dsm_Presence :: string
  dsm_LastSeenAt :: time

record VersionSummary =
  vsm_InstalledVersion :: string
  vsm_LatestVersion :: "string option"
  vsm_LatestVersionSource :: string

record BasicVersionSummary =
  bvs_InstalledVersion :: string
  bvs_LatestVersion :: "string option"

record HAAppSummary =
  has_InstalledVersion :: string
  has_DesiredVersion :: "string option"
  has_ReleaseTrack :: "string option"
  has_UpdateStatus :: string

record BackupSummary =
  bsm_Status :: string
  bsm_LastSuccessAt :: "time option"
  bsm_LastFailureAt :: "time option"

record StorageSummary =
  ssm_Status :: string
  ssm_Detail :: string

record IssueProjection =
  isp_IssueCode :: string
  isp_Severity :: string
  isp_Label :: string
  isp_Detail :: string
  isp_SourceArea :: string
  isp_SortPriority :: int
  isp_PrimaryAction :: string
  isp_SiteID :: string
  isp_DeviceID :: string

record DeviceReadModel =
  drm_SiteID :: string
  drm_SiteName :: string
  drm_SiteCategory :: "string option"
  drm_CustomerDisplayName :: string
  drm_CompactLocation :: string
  drm_Device :: DeviceSummary
  drm_HomeAssistant :: VersionSummary
  drm_Supervisor :: BasicVersionSummary
  drm_HAApp :: HAAppSummary
  drm_Backup :: BackupSummary
  drm_Storage :: StorageSummary
  drm_PrimaryAction :: string
  drm_Issues :: "IssueProjection list"

record DashboardSummary =
  dbm_ManagedSites :: int
  dbm_ManagedDevices :: int
  dbm_OnlineDevices :: int
  dbm_SitesNeedingReview :: int
  dbm_OpenIssueCount :: int
  dbm_BackupIssueCount :: int
  dbm_AppUpdateAttentionCount :: int
  dbm_EmailAlertsStatus :: string

record ActivityRow =
  acr_ActivityID :: string
  acr_OccurredAt :: time
  acr_Category :: string
  acr_Action :: string
  acr_SubjectType :: string
  acr_SubjectID :: string
  acr_SubjectLabel :: string
  acr_Detail :: string
  acr_Severity :: string
  acr_ActorLabel :: string

record DashboardResponse =
  dre_SchemaVersion :: int
  dre_DashboardState :: string
  dre_Summary :: DashboardSummary
  dre_ManagedHomeAssistants :: "DeviceReadModel list"
  dre_Activity :: "ActivityRow list"

record DevicesResponse =
  dvr_SchemaVersion :: int
  dvr_Devices :: "DeviceReadModel list"

record ActivityResponse =
  avr_SchemaVersion :: int
  avr_Activity :: "ActivityRow list"

record deviceFactRow =
  dfr_AccountID :: string
  dfr_SiteID :: string
  dfr_SiteName :: string
  dfr_SiteCategory :: "string option"
  dfr_CustomerDisplayName :: string
  dfr_CompactLocation :: string
  dfr_DeviceID :: string
  dfr_ThingName :: string
  dfr_Presence :: string
  dfr_LastSeenAt :: "time option"
  dfr_HAInstalledVersion :: string
  dfr_HALatestVersion :: "string option"
  dfr_HALatestVersionSource :: string
  dfr_SupervisorInstalledVersion :: string
  dfr_SupervisorLatestVersion :: "string option"
  dfr_HAAppInstalledVersion :: string
  dfr_HAAppDesiredVersion :: "string option"
  dfr_HAAppReleaseTrack :: "string option"
  dfr_HAAppUpdateStatus :: string
  dfr_HAAppUpdateReferenceTime :: "time option"
  dfr_BackupStatus :: string
  dfr_BackupLastSuccessAt :: "time option"
  dfr_BackupLastFailureAt :: "time option"
  dfr_StorageStatus :: string
  dfr_StorageDetail :: string
  dfr_HAUpdateAdvisoryStatus :: string
  dfr_HAUpdateLatestVersion :: "string option"
  dfr_EmailAlertRecipients :: int

section \<open>Small projections\<close>

definition appUpdateGracePeriod :: duration where
  "appUpdateGracePeriod = 48 * Hour"

definition publicPresence :: "string \<Rightarrow> string" where
  "publicPresence v =
     (let v = ToLower (TrimSpace v) in if v \<in> set [''online'', ''disconnected''] then v else ''degraded'')"

definition publicBackupStatus :: "string \<Rightarrow> string" where
  "publicBackupStatus v =
     (let v = ToLower (TrimSpace v) in
      if v = ''succeeded'' then ''succeeded''
      else if v \<in> set [''failed'', ''timed_out'', ''canceled''] then ''failed''
      else if v = ''overdue'' then ''overdue''
      else if v \<in> set [''requested'', ''running''] then v
      else ''unknown'')"

definition publicStorageStatus :: "string \<Rightarrow> string" where
  "publicStorageStatus v =
     (let v = ToLower (TrimSpace v) in
      if v \<in> set [''warning'', ''critical''] then ''warning''
      else if v \<in> set [''healthy'', ''ok'', ''ready''] then ''healthy''
      else ''healthy'')"

definition storageDetail :: "string \<Rightarrow> string \<Rightarrow> string" where
  "storageDetail status detail =
     (if TrimSpace detail \<noteq> [] then detail
      else if publicStorageStatus status = ''warning'' then ''Storage pressure reported by the app''
      else ''Storage is within local policy'')"

definition readmodels_firstNonEmpty :: "string list \<Rightarrow> string" where
  "readmodels_firstNonEmpty values = (case find (\<lambda>v. TrimSpace v \<noteq> []) values of Some v \<Rightarrow> v | None \<Rightarrow> [])"

definition valueTime :: "time option \<Rightarrow> time \<Rightarrow> time" where
  "valueTime v fallback = (case v of None \<Rightarrow> fallback | Some t \<Rightarrow> if IsZero t then fallback else UTC t)"

definition appUpdateNeedsAttention :: "time \<Rightarrow> deviceFactRow \<Rightarrow> bool" where
  "appUpdateNeedsAttention now row =
     (case dfr_HAAppDesiredVersion row of
        None \<Rightarrow> False
      | Some desired \<Rightarrow>
          if desired = [] then False
          else if dfr_HAAppInstalledVersion row = [] \<or> dfr_HAAppInstalledVersion row = desired then False
          else if EqualFold (dfr_HAAppUpdateStatus row) ''current'' then False
          else \<not> After (valueTime (dfr_HAAppUpdateReferenceTime row) now) (now - appUpdateGracePeriod))"

text \<open>\<open>Format("Jan 2, 2006, 3:04 PM")\<close>.\<close>

definition month_names :: "string list" where
  "month_names = [''Jan'', ''Feb'', ''Mar'', ''Apr'', ''May'', ''Jun'', ''Jul'', ''Aug'', ''Sep'', ''Oct'', ''Nov'', ''Dec'']"

definition padded_to :: "nat \<Rightarrow> nat \<Rightarrow> string" where
  "padded_to w n = replicate (w - length (Itoa n)) (CHR ''0'') @ Itoa n"

definition formatIssueTime :: "time \<Rightarrow> string" where
  "formatIssueTime t =
     (if IsZero t then ''unknown''
      else
        let secs = UTC t div 1000000000; hour = nat (secs mod 86400 div 3600);
            hour12 = (if hour mod 12 = 0 then 12 else hour mod 12) in
        (case civil_of_days (secs div 86400) of (year, month, day) \<Rightarrow>
           month_names ! (month - 1) @ '' '' @ Itoa (nat day) @ '', '' @
           (if year < 0 then ''-'' else []) @ padded_to 4 (nat \<bar>year\<bar>) @ '', '' @
           Itoa hour12 @ '':'' @ padded_to 2 (nat (secs mod 3600 div 60)) @ '' '' @ (if 12 \<le> hour then ''PM'' else ''AM'')))"

section \<open>Devices and their issues\<close>

definition issue ::
  "deviceFactRow \<Rightarrow> string \<Rightarrow> string \<Rightarrow> string \<Rightarrow> string \<Rightarrow> string \<Rightarrow> int \<Rightarrow> string \<Rightarrow> IssueProjection" where
  "issue row code severity label detail area priority action =
     \<lparr>isp_IssueCode = code, isp_Severity = severity, isp_Label = label, isp_Detail = detail, isp_SourceArea = area,
      isp_SortPriority = priority, isp_PrimaryAction = action, isp_SiteID = dfr_SiteID row,
      isp_DeviceID = dfr_DeviceID row\<rparr>"

definition presence_issues :: "deviceFactRow \<Rightarrow> DeviceReadModel \<Rightarrow> IssueProjection list" where
  "presence_issues row device =
     (if dsm_Presence (drm_Device device) \<noteq> ''online''
      then [issue row ''device_disconnected'' ''critical'' ''Disconnected''
              (''Last seen '' @ formatIssueTime (dsm_LastSeenAt (drm_Device device))) ''presence'' 10 ''view_device'']
      else [])"

definition backup_issues :: "time \<Rightarrow> deviceFactRow \<Rightarrow> DeviceReadModel \<Rightarrow> IssueProjection list" where
  "backup_issues now row device =
     (let status = bsm_Status (drm_Backup device) in
      if status = ''failed'' then
        [issue row ''backup_failed'' ''critical'' ''Backup failed''
           (''Last backup attempt failed '' @ formatIssueTime (valueTime (dfr_BackupLastFailureAt row) now))
           ''backup'' 20 ''view_backups'']
      else if status = ''overdue'' then
        [issue row ''backup_overdue'' ''warning'' ''Backup overdue''
           (''Last successful backup '' @ formatIssueTime (valueTime (dfr_BackupLastSuccessAt row) zero_time))
           ''backup'' 30 ''view_backups'']
      else [])"

definition update_issues :: "time \<Rightarrow> deviceFactRow \<Rightarrow> DeviceReadModel \<Rightarrow> IssueProjection list" where
  "update_issues now row device =
     (if appUpdateNeedsAttention now row then
        let desired = (case dfr_HAAppDesiredVersion row of
              Some v \<Rightarrow> if v \<noteq> [] then v else ''the desired version'' | None \<Rightarrow> ''the desired version'') in
        [issue row ''app_update_attention'' ''warning'' ''App update attention''
           (''HomeSignal app '' @ desired @ '' is desired; device reports '' @ has_InstalledVersion (drm_HAApp device))
           ''updates'' 40 ''view_updates'']
      else [])"

definition advisory_issues :: "deviceFactRow \<Rightarrow> DeviceReadModel \<Rightarrow> IssueProjection list" where
  "advisory_issues row device =
     (case vsm_LatestVersion (drm_HomeAssistant device) of
        None \<Rightarrow> []
      | Some latest \<Rightarrow>
          if dfr_HAUpdateAdvisoryStatus row = ''update_available'' then
            [issue row ''ha_update_advisory'' ''info'' ''Home Assistant update available''
               (''Home Assistant '' @ latest @ '' is available; device reports '' @
                vsm_InstalledVersion (drm_HomeAssistant device)) ''updates'' 50 ''view_device'']
          else [])"

definition storage_issues :: "deviceFactRow \<Rightarrow> DeviceReadModel \<Rightarrow> IssueProjection list" where
  "storage_issues row device =
     (if ssm_Status (drm_Storage device) = ''warning'' then
        [issue row ''storage_warning'' ''warning'' ''Storage warning'' (ssm_Detail (drm_Storage device)) ''storage'' 60
           ''view_device'']
      else [])"

definition buildIssues :: "time \<Rightarrow> deviceFactRow \<Rightarrow> DeviceReadModel \<Rightarrow> IssueProjection list" where
  "buildIssues now row device =
     sort_key isp_SortPriority
       (presence_issues row device @ backup_issues now row device @ update_issues now row device @
        advisory_issues row device @ storage_issues row device)"

text \<open>The device without its issues.\<close>

definition device_facts :: "time \<Rightarrow> deviceFactRow \<Rightarrow> DeviceReadModel" where
  "device_facts now row =
     (let advised = (dfr_HAUpdateAdvisoryStatus row = ''update_available'' \<and> dfr_HAUpdateLatestVersion row \<noteq> None);
          haLatest = (if advised then dfr_HAUpdateLatestVersion row else dfr_HALatestVersion row);
          haLatestSource = (if advised then ''catalog'' else dfr_HALatestVersionSource row) in
      \<lparr>drm_SiteID = dfr_SiteID row, drm_SiteName = dfr_SiteName row, drm_SiteCategory = dfr_SiteCategory row,
       drm_CustomerDisplayName = readmodels_firstNonEmpty [dfr_CustomerDisplayName row, ''Unknown customer''],
       drm_CompactLocation = readmodels_firstNonEmpty [dfr_CompactLocation row, ''Unknown location''],
       drm_Device = \<lparr>dsm_DeviceID = dfr_DeviceID row,
         dsm_ThingName = readmodels_firstNonEmpty [dfr_ThingName row, dfr_DeviceID row],
         dsm_Presence = publicPresence (dfr_Presence row), dsm_LastSeenAt = valueTime (dfr_LastSeenAt row) now\<rparr>,
       drm_HomeAssistant = \<lparr>vsm_InstalledVersion = readmodels_firstNonEmpty [dfr_HAInstalledVersion row, ''unknown''],
         vsm_LatestVersion = haLatest,
         vsm_LatestVersionSource = (if haLatestSource = [] then ''unavailable'' else haLatestSource)\<rparr>,
       drm_Supervisor = \<lparr>bvs_InstalledVersion = readmodels_firstNonEmpty [dfr_SupervisorInstalledVersion row, ''unknown''],
         bvs_LatestVersion = dfr_SupervisorLatestVersion row\<rparr>,
       drm_HAApp = \<lparr>has_InstalledVersion = readmodels_firstNonEmpty [dfr_HAAppInstalledVersion row, ''unknown''],
         has_DesiredVersion = dfr_HAAppDesiredVersion row, has_ReleaseTrack = dfr_HAAppReleaseTrack row,
         has_UpdateStatus = readmodels_firstNonEmpty [dfr_HAAppUpdateStatus row, ''unknown'']\<rparr>,
       drm_Backup = \<lparr>bsm_Status = publicBackupStatus (dfr_BackupStatus row),
         bsm_LastSuccessAt = dfr_BackupLastSuccessAt row, bsm_LastFailureAt = dfr_BackupLastFailureAt row\<rparr>,
       drm_Storage = \<lparr>ssm_Status = publicStorageStatus (dfr_StorageStatus row),
         ssm_Detail = storageDetail (dfr_StorageStatus row) (dfr_StorageDetail row)\<rparr>,
       drm_PrimaryAction = ''view_device'', drm_Issues = []\<rparr>)"

definition buildDeviceRow :: "time \<Rightarrow> deviceFactRow \<Rightarrow> DeviceReadModel" where
  "buildDeviceRow now row =
     (let device = device_facts now row; issues = buildIssues now row device in
      device\<lparr>drm_Issues := issues,
             drm_PrimaryAction := (case issues of [] \<Rightarrow> drm_PrimaryAction device | i # rest \<Rightarrow> isp_PrimaryAction i)\<rparr>)"

text \<open>More issues first, then by the name of the site.\<close>

definition buildDeviceRows :: "time \<Rightarrow> deviceFactRow list \<Rightarrow> DeviceReadModel list" where
  "buildDeviceRows now rows =
     sort_key (\<lambda>d. (- int (length (drm_Issues d)), drm_SiteName d)) (map (buildDeviceRow now) rows)"

section \<open>The dashboard\<close>

text \<open>The counters of the loop in \<open>buildSummary\<close>; a set of sites is a list without repetitions.\<close>

record summary_counts =
  smc_sites :: "string list"
  smc_review :: "string list"
  smc_backup :: int
  smc_updates :: int
  smc_online :: int
  smc_issues :: int
  smc_recipients :: int

definition count_issue :: "IssueProjection \<Rightarrow> summary_counts \<Rightarrow> summary_counts" where
  "count_issue i c =
     (if isp_IssueCode i \<in> set [''backup_failed'', ''backup_overdue''] then c\<lparr>smc_backup := smc_backup c + 1\<rparr>
      else if isp_IssueCode i = ''app_update_attention'' then c\<lparr>smc_updates := smc_updates c + 1\<rparr>
      else c)"

definition count_device :: "DeviceReadModel \<Rightarrow> summary_counts \<Rightarrow> summary_counts" where
  "count_device d c0 =
     (let c1 = c0\<lparr>smc_sites := List.insert (drm_SiteID d) (smc_sites c0)\<rparr>;
          c2 = (if dsm_Presence (drm_Device d) = ''online'' then c1\<lparr>smc_online := smc_online c1 + 1\<rparr> else c1);
          c3 = (if drm_Issues d \<noteq> []
            then c2\<lparr>smc_review := List.insert (drm_SiteID d) (smc_review c2),
                    smc_issues := smc_issues c2 + int (length (drm_Issues d))\<rparr> else c2) in
      fold count_issue (drm_Issues d) c3)"

fun count_devices :: "DeviceReadModel list \<Rightarrow> deviceFactRow list \<Rightarrow> summary_counts \<Rightarrow> summary_counts" where
  "count_devices [] facts c = c"
| "count_devices (d # ds) [] c = count_devices ds [] (count_device d c)"
| "count_devices (d # ds) (f # fs) c =
     (let c' = count_device d c in
      count_devices ds fs (c'\<lparr>smc_recipients := smc_recipients c' + dfr_EmailAlertRecipients f\<rparr>))"

definition no_counts :: summary_counts where
  "no_counts = \<lparr>smc_sites = [], smc_review = [], smc_backup = 0, smc_updates = 0, smc_online = 0, smc_issues = 0,
     smc_recipients = 0\<rparr>"

definition buildSummary :: "DeviceReadModel list \<Rightarrow> deviceFactRow list \<Rightarrow> DashboardSummary" where
  "buildSummary devices facts =
     (let c = count_devices devices facts no_counts in
      \<lparr>dbm_ManagedSites = int (length (smc_sites c)), dbm_ManagedDevices = int (length devices),
       dbm_OnlineDevices = smc_online c, dbm_SitesNeedingReview = int (length (smc_review c)),
       dbm_OpenIssueCount = smc_issues c, dbm_BackupIssueCount = smc_backup c,
       dbm_AppUpdateAttentionCount = smc_updates c,
       dbm_EmailAlertsStatus = (if 0 < smc_recipients c then ''configured'' else ''not_configured'')\<rparr>)"

definition buildDashboard :: "time \<Rightarrow> deviceFactRow list \<Rightarrow> ActivityRow list \<Rightarrow> DashboardResponse" where
  "buildDashboard now rows activity =
     (let devices = buildDeviceRows now rows; summary = buildSummary devices rows in
      \<lparr>dre_SchemaVersion = 1, dre_DashboardState = (if 0 < dbm_OpenIssueCount summary then ''action_required'' else ''ok''),
       dre_Summary = summary, dre_ManagedHomeAssistants = devices, dre_Activity = activity\<rparr>)"

section \<open>The store\<close>

text \<open>A row of the query: a column that may be \<open>NULL\<close> is an option.\<close>

record sqlDeviceFactRow =
  sdf_AccountID :: string
  sdf_SiteID :: string
  sdf_SiteName :: string
  sdf_SiteCategory :: "string option"
  sdf_CustomerDisplayName :: "string option"
  sdf_CompactLocation :: "string option"
  sdf_DeviceID :: string
  sdf_ThingName :: "string option"
  sdf_Presence :: "string option"
  sdf_LastSeenAt :: "time option"
  sdf_HAInstalledVersion :: "string option"
  sdf_HALatestVersion :: "string option"
  sdf_HALatestVersionSource :: "string option"
  sdf_SupervisorInstalledVersion :: "string option"
  sdf_SupervisorLatestVersion :: "string option"
  sdf_HAAppInstalledVersion :: "string option"
  sdf_HAAppDesiredVersion :: "string option"
  sdf_HAAppReleaseTrack :: "string option"
  sdf_HAAppUpdateStatus :: "string option"
  sdf_HAAppUpdateReferenceTime :: "time option"
  sdf_BackupStatus :: "string option"
  sdf_BackupLastSuccessAt :: "time option"
  sdf_BackupLastFailureAt :: "time option"
  sdf_StorageStatus :: "string option"
  sdf_StorageDetail :: "string option"
  sdf_HAUpdateAdvisoryStatus :: "string option"
  sdf_HAUpdateLatestVersion :: "string option"
  sdf_EmailAlertRecipients :: int

definition nullableString :: "string option \<Rightarrow> string option" where
  "nullableString v = (case v of None \<Rightarrow> None | Some s \<Rightarrow> if s = [] then None else Some s)"

definition stringValue :: "string option \<Rightarrow> string" where
  "stringValue v = (case v of None \<Rightarrow> [] | Some s \<Rightarrow> s)"

definition nullableTime :: "time option \<Rightarrow> time option" where
  "nullableTime v = (case v of None \<Rightarrow> None | Some t \<Rightarrow> if IsZero t then None else Some (UTC t))"

definition toFact :: "sqlDeviceFactRow \<Rightarrow> deviceFactRow" where
  "toFact r =
     \<lparr>dfr_AccountID = sdf_AccountID r, dfr_SiteID = sdf_SiteID r,
      dfr_SiteName = readmodels_firstNonEmpty [sdf_SiteName r, ''Unnamed site''],
      dfr_SiteCategory = nullableString (sdf_SiteCategory r),
      dfr_CustomerDisplayName = stringValue (sdf_CustomerDisplayName r),
      dfr_CompactLocation = stringValue (sdf_CompactLocation r), dfr_DeviceID = sdf_DeviceID r,
      dfr_ThingName = stringValue (sdf_ThingName r), dfr_Presence = stringValue (sdf_Presence r),
      dfr_LastSeenAt = nullableTime (sdf_LastSeenAt r),
      dfr_HAInstalledVersion = stringValue (sdf_HAInstalledVersion r),
      dfr_HALatestVersion = nullableString (sdf_HALatestVersion r),
      dfr_HALatestVersionSource = stringValue (sdf_HALatestVersionSource r),
      dfr_SupervisorInstalledVersion = stringValue (sdf_SupervisorInstalledVersion r),
      dfr_SupervisorLatestVersion = nullableString (sdf_SupervisorLatestVersion r),
      dfr_HAAppInstalledVersion = stringValue (sdf_HAAppInstalledVersion r),
      dfr_HAAppDesiredVersion = nullableString (sdf_HAAppDesiredVersion r),
      dfr_HAAppReleaseTrack = nullableString (sdf_HAAppReleaseTrack r),
      dfr_HAAppUpdateStatus = stringValue (sdf_HAAppUpdateStatus r),
      dfr_HAAppUpdateReferenceTime = nullableTime (sdf_HAAppUpdateReferenceTime r),
      dfr_BackupStatus = stringValue (sdf_BackupStatus r),
      dfr_BackupLastSuccessAt = nullableTime (sdf_BackupLastSuccessAt r),
      dfr_BackupLastFailureAt = nullableTime (sdf_BackupLastFailureAt r),
      dfr_StorageStatus = stringValue (sdf_StorageStatus r), dfr_StorageDetail = stringValue (sdf_StorageDetail r),
      dfr_HAUpdateAdvisoryStatus = stringValue (sdf_HAUpdateAdvisoryStatus r),
      dfr_HAUpdateLatestVersion = nullableString (sdf_HAUpdateLatestVersion r),
      dfr_EmailAlertRecipients = sdf_EmailAlertRecipients r\<rparr>"

definition toActivity :: "ActivityRow \<Rightarrow> ActivityRow" where
  "toActivity r = r\<lparr>acr_OccurredAt := UTC (acr_OccurredAt r)\<rparr>"

text \<open>A query is answered by its rows, or by the error of the query, of a row or of the iteration.\<close>

record 'w ReadModelDB =
  rmd_deviceFacts :: "string \<Rightarrow> ('w, sqlDeviceFactRow list) op"
  rmd_activity :: "string \<Rightarrow> ('w, ActivityRow list) op"

record 'w ReadModelStore =
  rms_DB :: "'w ReadModelDB option"
  rms_Now :: "('w, time) effect option"
  rms_TimeNow :: "('w, time) effect"

definition readmodels_now :: "'w ReadModelStore \<Rightarrow> ('w, time) op" where
  "readmodels_now s = clock_now (rms_Now s) (rms_TimeNow s)"

definition readmodels_validate :: "'w ReadModelStore \<Rightarrow> ('w, 'w ReadModelDB) op" where
  "readmodels_validate s = required (rms_DB s) (Errorf ''read model database is required'' [])"

definition deviceFacts :: "'w ReadModelStore \<Rightarrow> Subject \<Rightarrow> ('w, deviceFactRow list) op" where
  "deviceFacts s subject =
     bindE (readmodels_validate s) (\<lambda>db.
     bindE (wrapE ''query device read models'' (rmd_deviceFacts db (sub_ID subject))) (\<lambda>rows.
     ret (map toFact rows)))"

definition activityRows :: "'w ReadModelStore \<Rightarrow> Subject \<Rightarrow> ('w, ActivityRow list) op" where
  "activityRows s subject =
     bindE (readmodels_validate s) (\<lambda>db.
     bindE (wrapE ''query activity read model'' (rmd_activity db (sub_ID subject))) (\<lambda>rows.
     ret (map toActivity rows)))"

definition readmodels_Activity :: "'w ReadModelStore \<Rightarrow> Subject \<Rightarrow> ('w, ActivityResponse) op" where
  "readmodels_Activity s subject =
     bindE (activityRows s subject) (\<lambda>activity. ret \<lparr>avr_SchemaVersion = 1, avr_Activity = activity\<rparr>)"

definition readmodels_Devices :: "'w ReadModelStore \<Rightarrow> Subject \<Rightarrow> ('w, DevicesResponse) op" where
  "readmodels_Devices s subject =
     bindE (deviceFacts s subject) (\<lambda>devices.
     bindE (readmodels_now s) (\<lambda>now.
     ret \<lparr>dvr_SchemaVersion = 1, dvr_Devices = buildDeviceRows now devices\<rparr>))"

definition readmodels_Dashboard :: "'w ReadModelStore \<Rightarrow> Subject \<Rightarrow> ('w, DashboardResponse) op" where
  "readmodels_Dashboard s subject =
     bindE (readmodels_now s) (\<lambda>now.
     bindE (deviceFacts s subject) (\<lambda>devices.
     bindE (readmodels_Activity s subject) (\<lambda>activity.
     ret (buildDashboard now devices (avr_Activity activity)))))"

end
