(* ===== verification/Read_Model_Store.thy ===== *)
theory Read_Model_Store
  imports Read_Models Telemetry_Database Authn_Store "HOL-Library.Multiset"
begin

text \<open>
  The tables behind the read models, what the query for the devices selects from them, and the properties of the
  dashboard. The text of a path in a stored payload (\<open>#>>\<close> of Postgres) is a parameter, and so are the rows of
  the activity query.
\<close>

section \<open>Issues\<close>

text \<open>The codes of the issues of a row, in the order in which they are shown.\<close>

definition row_issues :: "time \<Rightarrow> deviceFactRow \<Rightarrow> string list" where
  "row_issues now row =
     (if publicPresence (dfr_Presence row) \<noteq> ''online'' then [''device_disconnected''] else []) @
     (if publicBackupStatus (dfr_BackupStatus row) = ''failed'' then [''backup_failed'']
      else if publicBackupStatus (dfr_BackupStatus row) = ''overdue'' then [''backup_overdue''] else []) @
     (if appUpdateNeedsAttention now row then [''app_update_attention''] else []) @
     (if dfr_HAUpdateAdvisoryStatus row = ''update_available'' \<and>
         (dfr_HAUpdateLatestVersion row \<noteq> None \<or> dfr_HALatestVersion row \<noteq> None) then [''ha_update_advisory''] else []) @
     (if publicStorageStatus (dfr_StorageStatus row) = ''warning'' then [''storage_warning''] else [])"

lemma buildIssues_unsorted:
  "buildIssues now row device = presence_issues row device @ backup_issues now row device @ update_issues now row device @
     advisory_issues row device @ storage_issues row device"
  unfolding buildIssues_def
  by (rule sort_key_id_if_sorted)
    (simp add: presence_issues_def backup_issues_def update_issues_def advisory_issues_def storage_issues_def issue_def
      Let_def split: option.split)

lemma device_row_fields [simp]:
  "drm_SiteID (buildDeviceRow now row) = dfr_SiteID row"
  "drm_SiteName (buildDeviceRow now row) = dfr_SiteName row"
  "dsm_DeviceID (drm_Device (buildDeviceRow now row)) = dfr_DeviceID row"
  "dsm_Presence (drm_Device (buildDeviceRow now row)) = publicPresence (dfr_Presence row)"
  by (simp_all add: buildDeviceRow_def device_facts_def Let_def)

lemma device_row_issues: "map isp_IssueCode (drm_Issues (buildDeviceRow now row)) = row_issues now row"
  by (auto simp: buildDeviceRow_def device_facts_def Let_def buildIssues_unsorted row_issues_def presence_issues_def
      backup_issues_def update_issues_def advisory_issues_def storage_issues_def issue_def split: option.split)

lemma device_row_issue_count: "length (drm_Issues (buildDeviceRow now row)) = length (row_issues now row)"
  using arg_cong [OF device_row_issues, of length now row] by simp

section \<open>Counting\<close>

definition issue_count :: "string list \<Rightarrow> DeviceReadModel \<Rightarrow> nat" where
  "issue_count codes d = length (filter (\<lambda>i. isp_IssueCode i \<in> set codes) (drm_Issues d))"

lemma count_issues_fields:
  "smc_sites (fold count_issue evs c) = smc_sites c" "smc_review (fold count_issue evs c) = smc_review c"
  "smc_online (fold count_issue evs c) = smc_online c" "smc_issues (fold count_issue evs c) = smc_issues c"
  "smc_recipients (fold count_issue evs c) = smc_recipients c"
  "smc_backup (fold count_issue evs c) = smc_backup c +
     int (length (filter (\<lambda>i. isp_IssueCode i \<in> set [''backup_failed'', ''backup_overdue'']) evs))"
  "smc_updates (fold count_issue evs c) = smc_updates c +
     int (length (filter (\<lambda>i. isp_IssueCode i \<in> set [''app_update_attention'']) evs))"
  by (induction evs arbitrary: c) (auto simp: count_issue_def)

lemma count_device_fields:
  "smc_sites (count_device d c) = List.insert (drm_SiteID d) (smc_sites c)"
  "smc_review (count_device d c) = (if drm_Issues d = [] then smc_review c else List.insert (drm_SiteID d) (smc_review c))"
  "smc_online (count_device d c) = smc_online c + (if dsm_Presence (drm_Device d) = ''online'' then 1 else 0)"
  "smc_issues (count_device d c) = smc_issues c + int (length (drm_Issues d))"
  "smc_recipients (count_device d c) = smc_recipients c"
  "smc_backup (count_device d c) = smc_backup c + int (issue_count [''backup_failed'', ''backup_overdue''] d)"
  "smc_updates (count_device d c) = smc_updates c + int (issue_count [''app_update_attention''] d)"
  by (auto simp: count_device_def Let_def count_issues_fields issue_count_def)

lemma count_devices_fields:
  "set (smc_sites (count_devices ds fs c)) = set (smc_sites c) \<union> drm_SiteID ` set ds"
  "distinct (smc_sites c) \<Longrightarrow> distinct (smc_sites (count_devices ds fs c))"
  "set (smc_review (count_devices ds fs c)) = set (smc_review c) \<union> drm_SiteID ` set (filter (\<lambda>d. drm_Issues d \<noteq> []) ds)"
  "distinct (smc_review c) \<Longrightarrow> distinct (smc_review (count_devices ds fs c))"
  "smc_online (count_devices ds fs c) = smc_online c + int (length (filter (\<lambda>d. dsm_Presence (drm_Device d) = ''online'') ds))"
  "smc_issues (count_devices ds fs c) = smc_issues c + int (sum_list (map (\<lambda>d. length (drm_Issues d)) ds))"
  "smc_backup (count_devices ds fs c) = smc_backup c + int (sum_list (map (issue_count [''backup_failed'', ''backup_overdue'']) ds))"
  "smc_updates (count_devices ds fs c) = smc_updates c + int (sum_list (map (issue_count [''app_update_attention'']) ds))"
  "smc_recipients (count_devices ds fs c) = smc_recipients c + sum_list (map dfr_EmailAlertRecipients (take (length ds) fs))"
  by (induction ds fs c rule: count_devices.induct) (auto simp: Let_def count_device_fields)

lemma mset_sums:
  assumes "mset xs = mset ys"
  shows "length (filter P xs) = length (filter P ys)" and "sum_list (map f xs) = (sum_list (map f ys) :: nat)"
    and "set xs = set ys" and "length xs = length ys"
proof -
  show "length (filter P xs) = length (filter P ys)" using assms by (metis mset_filter size_mset)
  show "sum_list (map f xs) = sum_list (map f ys)" using assms by (metis mset_map sum_mset_sum_list)
  show "set xs = set ys" using assms by (rule mset_eq_setD)
  show "length xs = length ys" using assms by (rule mset_eq_length)
qed

lemma device_rows_mset: "mset (buildDeviceRows now rows) = mset (map (buildDeviceRow now) rows)"
  by (simp add: buildDeviceRows_def)

lemma filter_length_sum: "sum_list (map (\<lambda>x. if P x then 1 else 0) xs) = length (filter P xs)"
  by (induction xs) auto

lemma row_issue_counts:
  "issue_count [''backup_failed'', ''backup_overdue''] (buildDeviceRow now row) =
     (if publicBackupStatus (dfr_BackupStatus row) \<in> {''failed'', ''overdue''} then 1 else 0)"
  "issue_count [''app_update_attention''] (buildDeviceRow now row) = (if appUpdateNeedsAttention now row then 1 else 0)"
proof -
  have codes: "issue_count codes (buildDeviceRow now row) = length (filter (\<lambda>c. c \<in> set codes) (row_issues now row))" for codes
    unfolding issue_count_def device_row_issues [symmetric] by (simp add: filter_map comp_def)
  show "issue_count [''backup_failed'', ''backup_overdue''] (buildDeviceRow now row) =
     (if publicBackupStatus (dfr_BackupStatus row) \<in> {''failed'', ''overdue''} then 1 else 0)"
    "issue_count [''app_update_attention''] (buildDeviceRow now row) = (if appUpdateNeedsAttention now row then 1 else 0)"
    unfolding codes by (simp_all add: row_issues_def)
qed

text \<open>C26: The numbers of the dashboard are those of the facts: sites, devices, devices online, sites with an issue,
  issues, backups that failed or are overdue, and updates of the app to look after. It says that all is well
  exactly if no row has an issue.\<close>

theorem dashboard_summary_exact:
  "dre_Summary (buildDashboard now rows activity) =
    \<lparr>dbm_ManagedSites = int (card (dfr_SiteID ` set rows)), dbm_ManagedDevices = int (length rows),
     dbm_OnlineDevices = int (length (filter (\<lambda>x. publicPresence (dfr_Presence x) = ''online'') rows)),
     dbm_SitesNeedingReview = int (card (dfr_SiteID ` set (filter (\<lambda>x. row_issues now x \<noteq> []) rows))),
     dbm_OpenIssueCount = int (length (concat (map (row_issues now) rows))),
     dbm_BackupIssueCount = int (length (filter (\<lambda>x. publicBackupStatus (dfr_BackupStatus x) \<in> {''failed'', ''overdue''}) rows)),
     dbm_AppUpdateAttentionCount = int (length (filter (appUpdateNeedsAttention now) rows)),
     dbm_EmailAlertsStatus = (if 0 < sum_list (map dfr_EmailAlertRecipients rows) then ''configured'' else ''not_configured'')\<rparr> \<and>
    (dre_DashboardState (buildDashboard now rows activity) = ''ok'') = (concat (map (row_issues now) rows) = [])"
proof -
  let ?ds = "buildDeviceRows now rows"
  let ?c = "count_devices ?ds rows no_counts"
  note same = mset_sums [OF device_rows_mset [of now rows]]
  have len: "length ?ds = length rows" using same(4) by simp
  have empty: "(drm_Issues (buildDeviceRow now x) = []) = (row_issues now x = [])" for x
    using device_row_issue_count [of now x] by (metis length_0_conv)
  have sites: "int (length (smc_sites ?c)) = int (card (dfr_SiteID ` set rows))"
    using count_devices_fields(1) [of ?ds rows no_counts] count_devices_fields(2) [of no_counts ?ds rows] same(3)
    by (simp add: no_counts_def image_image distinct_card [symmetric])
  have review: "int (length (smc_review ?c)) = int (card (dfr_SiteID ` set (filter (\<lambda>x. row_issues now x \<noteq> []) rows)))"
  proof -
    have "drm_SiteID ` set (filter (\<lambda>d. drm_Issues d \<noteq> []) ?ds) = dfr_SiteID ` set (filter (\<lambda>x. row_issues now x \<noteq> []) rows)"
      unfolding set_filter same(3) using empty by (force simp: image_iff)
    then show ?thesis
      using count_devices_fields(3) [of ?ds rows no_counts] count_devices_fields(4) [of no_counts ?ds rows]
      by (simp add: no_counts_def distinct_card [symmetric])
  qed
  have issues: "smc_issues ?c = int (length (concat (map (row_issues now) rows)))"
    unfolding count_devices_fields(6) same(2) by (simp add: no_counts_def comp_def device_row_issue_count length_concat)
  have "smc_online ?c = int (length (filter (\<lambda>x. publicPresence (dfr_Presence x) = ''online'') rows))"
    unfolding count_devices_fields(5) same(1) by (simp add: no_counts_def filter_map comp_def)
  moreover have "smc_backup ?c = int (length (filter (\<lambda>x. publicBackupStatus (dfr_BackupStatus x) \<in> {''failed'', ''overdue''}) rows))"
    unfolding count_devices_fields(7) same(2) by (simp add: no_counts_def comp_def row_issue_counts filter_length_sum)
  moreover have "smc_updates ?c = int (length (filter (appUpdateNeedsAttention now) rows))"
    unfolding count_devices_fields(8) same(2) by (simp add: no_counts_def comp_def row_issue_counts filter_length_sum)
  moreover have "smc_recipients ?c = sum_list (map dfr_EmailAlertRecipients rows)"
    unfolding count_devices_fields(9) len by (simp add: no_counts_def)
  ultimately show ?thesis
    using sites review issues len by (simp add: buildDashboard_def buildSummary_def Let_def)
qed

text \<open>The device is shown as last seen at the time of the request when it was never seen.\<close>

lemma never_seen_device:
  assumes "dfr_LastSeenAt row = None" and "publicPresence (dfr_Presence row) \<noteq> ''online''"
  shows "\<exists>i \<in> set (drm_Issues (buildDeviceRow now row)). isp_Detail i = ''Last seen '' @ formatIssueTime now"
  using assms
  by (simp add: buildDeviceRow_def device_facts_def Let_def buildIssues_unsorted presence_issues_def issue_def valueTime_def)

section \<open>Tables\<close>

record site_row =
  stw_ID :: string
  stw_DisplayName :: "string option"
  stw_Category :: "string option"
  stw_CustomerID :: "string option"
  stw_City :: "string option"
  stw_State :: "string option"
  stw_deleted :: bool

record backup_status_row =
  bsw_status :: string
  bsw_LastSuccessAt :: "time option"
  bsw_LastFailureAt :: "time option"

record update_status_row =
  usw_ReleaseTrack :: "string option"
  usw_InstalledVersion :: "string option"
  usw_DesiredVersion :: "string option"
  usw_status :: string
  usw_ReportedAt :: "time option"
  usw_ReceivedAt :: time
  usw_UpdatedAt :: time

record advisory_row =
  adw_LatestVersion :: "string option"
  adw_status :: string

record recipient_fact =
  rpw_AccountID :: string
  rpw_status :: string
  rpw_deleted :: bool

record read_tables =
  rd_telemetry :: telemetry_tables
  rd_memberships :: "membership_row list"
  rd_sites :: "site_row list"
  rd_customers :: "string \<Rightarrow> string option"
  rd_backups :: "string \<Rightarrow> backup_status_row option"
  rd_updates :: "string \<Rightarrow> update_status_row option"
  rd_advisories :: "string \<Rightarrow> advisory_row option"
  rd_recipients :: "recipient_fact list"

section \<open>The query\<close>

definition coalesce :: "'a option list \<Rightarrow> 'a option" where
  "coalesce values = Option.bind (find (\<lambda>v. v \<noteq> None) values) id"

definition compact_location :: "site_row \<Rightarrow> string option" where
  "compact_location s =
     (case concat (map (\<lambda>v. case v of None \<Rightarrow> [] | Some x \<Rightarrow> [x]) [stw_City s, stw_State s]) of
        [] \<Rightarrow> None
      | parts \<Rightarrow> if Join parts '', '' = [] then None else Some (Join parts '', ''))"

text \<open>The row of a device and its site: left joins are looked up, \<open>path\<close> reads the latest health snapshot.\<close>

definition device_fact ::
  "(string \<Rightarrow> string list \<Rightarrow> string option) \<Rightarrow> read_tables \<Rightarrow> device_row \<Rightarrow> site_row \<Rightarrow> sqlDeviceFactRow" where
  "device_fact path t d s =
     (let presence = tt_presence (rd_telemetry t) (dvw_ID d);
          latest = tt_latest (rd_telemetry t) (dvw_ID d, ''telemetry'', ''device.health_snapshot'', 1);
          snapshot = (\<lambda>keys. Option.bind latest (\<lambda>l. path (tlw_Payload l) keys));
          backup = rd_backups t (dvw_ID d); update = rd_updates t (dvw_ID d); advisory = rd_advisories t (dvw_ID d) in
      \<lparr>sdf_AccountID = dvw_AccountID d, sdf_SiteID = stw_ID s,
       sdf_SiteName = (case stw_DisplayName s of None \<Rightarrow> stw_ID s | Some n \<Rightarrow> n), sdf_SiteCategory = stw_Category s,
       sdf_CustomerDisplayName = Option.bind (stw_CustomerID s) (rd_customers t),
       sdf_CompactLocation = compact_location s, sdf_DeviceID = dvw_ID d, sdf_ThingName = dvw_ThingName d,
       sdf_Presence = coalesce [map_option prw_state presence, Some ''unknown''],
       sdf_LastSeenAt = coalesce [Option.bind presence prw_Seen, dvw_LastSeen d],
       sdf_HAInstalledVersion = snapshot [''home_assistant'', ''core'', ''version''],
       sdf_HALatestVersion = Option.bind advisory adw_LatestVersion,
       sdf_HALatestVersionSource = Some (case advisory of
           Some a \<Rightarrow> if adw_status a \<in> set [''current'', ''update_available''] then ''catalog'' else ''unavailable''
         | None \<Rightarrow> ''unavailable''),
       sdf_SupervisorInstalledVersion = snapshot [''home_assistant'', ''supervisor'', ''version''],
       sdf_SupervisorLatestVersion = snapshot [''home_assistant'', ''supervisor'', ''version''],
       sdf_HAAppInstalledVersion = coalesce [Option.bind update usw_InstalledVersion,
         snapshot [''agent'', ''update'', ''current_version''], snapshot [''agent'', ''version'']],
       sdf_HAAppDesiredVersion = coalesce [Option.bind update usw_DesiredVersion,
         snapshot [''agent'', ''update'', ''desired_version'']],
       sdf_HAAppReleaseTrack = coalesce [Option.bind update usw_ReleaseTrack,
         snapshot [''agent'', ''update'', ''channel'']],
       sdf_HAAppUpdateStatus = coalesce [map_option usw_status update,
         snapshot [''agent'', ''update'', ''status''], Some ''unknown''],
       sdf_HAAppUpdateReferenceTime = Option.bind update (\<lambda>u. coalesce [usw_ReportedAt u, Some (usw_ReceivedAt u)]),
       sdf_BackupStatus = map_option bsw_status backup, sdf_BackupLastSuccessAt = Option.bind backup bsw_LastSuccessAt,
       sdf_BackupLastFailureAt = Option.bind backup bsw_LastFailureAt,
       sdf_StorageStatus = snapshot [''home_assistant'', ''storage'', ''status''],
       sdf_StorageDetail = (case snapshot [''home_assistant'', ''storage'', ''status''] of
           Some v \<Rightarrow> if v \<in> set [''warning'', ''critical''] then Some ''Storage pressure reported by the app'' else None
         | None \<Rightarrow> None),
       sdf_HAUpdateAdvisoryStatus = coalesce [map_option adw_status advisory, Some ''hidden''],
       sdf_HAUpdateLatestVersion = Option.bind advisory adw_LatestVersion,
       sdf_EmailAlertRecipients = int (length (filter (\<lambda>r. rpw_AccountID r = dvw_AccountID d \<and> rpw_status r = ''verified'' \<and>
         \<not> rpw_deleted r) (rd_recipients t)))\<rparr>)"

text \<open>The joined devices and sites of the accounts of a user, before the order and the limit.\<close>

definition authorized_accounts :: "read_tables \<Rightarrow> string \<Rightarrow> string list" where
  "authorized_accounts t user =
     map mbw_AccountID (filter (\<lambda>m. mbw_UserID m = user \<and> mbw_status m = ''active'') (rd_memberships t))"

definition shown_devices :: "read_tables \<Rightarrow> string \<Rightarrow> (device_row \<times> site_row) list" where
  "shown_devices t user =
     concat (map (\<lambda>d. concat (map (\<lambda>account. map (Pair d)
         (filter (\<lambda>s. Some (stw_ID s) = dvw_SiteID d \<and> \<not> stw_deleted s) (rd_sites t)))
       (filter (\<lambda>account. account = dvw_AccountID d) (authorized_accounts t user))))
     (filter (\<lambda>d. dvw_claimState d = ''CLAIMED'' \<and> \<not> dvw_revoked d) (tt_devices (rd_telemetry t))))"

text \<open>Last seen first, then by the name of the site, a missing name last.\<close>

definition shown_key :: "read_tables \<Rightarrow> device_row \<times> site_row \<Rightarrow> int \<times> bool \<times> string" where
  "shown_key t p = (case p of (d, s) \<Rightarrow>
     (- (case coalesce [Option.bind (tt_presence (rd_telemetry t) (dvw_ID d)) prw_Seen, dvw_LastSeen d] of
           None \<Rightarrow> dvw_UpdatedAt d | Some at \<Rightarrow> at),
      stw_DisplayName s = None, stringOf (stw_DisplayName s)))"

definition deviceFacts_query ::
  "(string \<Rightarrow> string list \<Rightarrow> string option) \<Rightarrow> read_tables \<Rightarrow> string \<Rightarrow> sqlDeviceFactRow list" where
  "deviceFacts_query path t user =
     map (\<lambda>(d, s). device_fact path t d s) (take 250 (sort_key (shown_key t) (shown_devices t user)))"

record read_store = env +
  rst_tables :: read_tables

definition postgres_readmodels ::
  "(string \<Rightarrow> string list \<Rightarrow> string option) \<Rightarrow> (read_tables \<Rightarrow> string \<Rightarrow> ActivityRow list) \<Rightarrow> read_store ReadModelStore" where
  "postgres_readmodels path activity =
     \<lparr>rms_DB = Some \<lparr>rmd_deviceFacts = (\<lambda>user. with_fault (\<lambda>w. (Inr (deviceFacts_query path (rst_tables w) user), w))),
                    rmd_activity = (\<lambda>user. with_fault (\<lambda>w. (Inr (activity (rst_tables w) user), w)))\<rparr>,
      rms_Now = Some read_clock, rms_TimeNow = read_clock\<rparr>"

text \<open>What a user may see: the claimed devices of the accounts they are an active member of, on their sites.\<close>

definition may_see :: "read_tables \<Rightarrow> string \<Rightarrow> device_row \<Rightarrow> site_row \<Rightarrow> bool" where
  "may_see t user d s \<longleftrightarrow> d \<in> set (tt_devices (rd_telemetry t)) \<and> s \<in> set (rd_sites t) \<and>
     dvw_claimState d = ''CLAIMED'' \<and> \<not> dvw_revoked d \<and> dvw_SiteID d = Some (stw_ID s) \<and> \<not> stw_deleted s \<and>
     (\<exists>m \<in> set (rd_memberships t). mbw_UserID m = user \<and> mbw_status m = ''active'' \<and> mbw_AccountID m = dvw_AccountID d)"

lemma shown_device: "(d, s) \<in> set (shown_devices t user) \<longleftrightarrow> may_see t user d s"
proof
  assume "may_see t user d s"
  note r = this [unfolded may_see_def]
  then have "dvw_AccountID d \<in> set (authorized_accounts t user)" by (force simp: authorized_accounts_def)
  with r show "(d, s) \<in> set (shown_devices t user)"
    unfolding shown_devices_def by (auto intro!: bexI [of _ d])
qed (auto simp: shown_devices_def authorized_accounts_def may_see_def)

lemma device_fact_fields [simp]:
  "dfr_DeviceID (toFact (device_fact path t d s)) = dvw_ID d" "dfr_SiteID (toFact (device_fact path t d s)) = stw_ID s"
  by (simp_all add: toFact_def device_fact_def Let_def)

lemma wp_read_query: "wp (\<lambda>w. (Inr (g w), w)) Q E w = Q (g w) w"
  by (simp add: wp_def)

lemma Dashboard_post:
  "wp (readmodels_Dashboard (postgres_readmodels path activity) subject)
    (\<lambda>r w'. rst_tables w' = rst_tables w \<and> (\<exists>now. r = buildDashboard now
       (map toFact (deviceFacts_query path (rst_tables w) (sub_ID subject)))
       (map toActivity (activity (rst_tables w) (sub_ID subject)))))
    (\<lambda>_ w'. rst_tables w' = rst_tables w) w"
  unfolding readmodels_Dashboard_def readmodels_Activity_def activityRows_def deviceFacts_def readmodels_validate_def
    readmodels_now_def postgres_readmodels_def clock_now_def
  by (auto simp: wp_simps wp_with_fault wp_read_query read_clock_def split: list.split)

text \<open>The devices and sites of a dashboard, and those of the tables that a user may see.\<close>

definition listed :: "DashboardResponse \<Rightarrow> (string \<times> string) set" where
  "listed r = (\<lambda>m. (dsm_DeviceID (drm_Device m), drm_SiteID m)) ` set (dre_ManagedHomeAssistants r)"

definition visible_ids :: "read_tables \<Rightarrow> string \<Rightarrow> (string \<times> string) set" where
  "visible_ids t user = {(dvw_ID d, stw_ID s) | d s. may_see t user d s}"

lemma visible_shown: "visible_ids t user = (\<lambda>(d, s). (dvw_ID d, stw_ID s)) ` set (shown_devices t user)"
  unfolding visible_ids_def by (force simp: shown_device)

lemma listed_taken:
  assumes "readmodels_Dashboard (postgres_readmodels path activity) subject w = (Inr r, w')"
  defines "taken \<equiv> take 250 (sort_key (shown_key (rst_tables w)) (shown_devices (rst_tables w) (sub_ID subject)))"
  shows "rst_tables w' = rst_tables w" and "listed r = (\<lambda>(d, s). (dvw_ID d, stw_ID s)) ` set taken"
    and "length (dre_ManagedHomeAssistants r) = length taken"
proof -
  let ?rows = "map toFact (deviceFacts_query path (rst_tables w) (sub_ID subject))"
  obtain now where r: "rst_tables w' = rst_tables w" "r = buildDashboard now ?rows
       (map toActivity (activity (rst_tables w) (sub_ID subject)))"
    using wp_InrD [OF Dashboard_post assms(1)] by blast
  have m: "dre_ManagedHomeAssistants r = buildDeviceRows now ?rows" by (simp add: r buildDashboard_def Let_def)
  show "length (dre_ManagedHomeAssistants r) = length taken"
    using mset_sums(4) [OF device_rows_mset [of now ?rows]] by (simp add: m taken_def deviceFacts_query_def)
  show "listed r = (\<lambda>(d, s). (dvw_ID d, stw_ID s)) ` set taken"
    unfolding listed_def m mset_sums(3) [OF device_rows_mset [of now ?rows]]
    by (simp add: taken_def deviceFacts_query_def image_image case_prod_unfold)
  show "rst_tables w' = rst_tables w" by (rule r(1))
qed

text \<open>C15: The dashboard of a user shows, of at most 250 devices, only claimed devices that are not revoked, on sites
  that are not deleted, of accounts in which the user is an active member, and reading it changes nothing. Below
  that limit it shows each of them.\<close>

theorem dashboard_shows_own_devices:
  assumes "readmodels_Dashboard (postgres_readmodels path activity) subject w = (Inr r, w')"
  shows "rst_tables w' = rst_tables w \<and> length (dre_ManagedHomeAssistants r) \<le> 250 \<and>
    listed r \<subseteq> visible_ids (rst_tables w) (sub_ID subject) \<and>
    (length (dre_ManagedHomeAssistants r) < 250 \<longrightarrow> listed r = visible_ids (rst_tables w) (sub_ID subject))"
proof -
  let ?shown = "shown_devices (rst_tables w) (sub_ID subject)"
  let ?taken = "take 250 (sort_key (shown_key (rst_tables w)) ?shown)"
  note l = listed_taken [OF assms]
  have "set ?taken \<subseteq> set ?shown"
    using set_take_subset [of 250 "sort_key (shown_key (rst_tables w)) ?shown"] by simp
  moreover have "set ?taken = set ?shown" if "length ?taken < 250" using that by simp
  moreover have "length ?taken \<le> 250" by simp
  ultimately show ?thesis unfolding l visible_shown by (auto simp del: length_take)
qed

definition read_world :: read_store where
  "read_world = \<lparr>env_faults = [], env_clock = 9, env_ticks = [], env_ids = [],
     rst_tables = \<lparr>rd_telemetry = \<lparr>tt_devices =
         map (\<lambda>(d, a). \<lparr>dvw_ID = d, dvw_AccountID = a, dvw_SiteID = Some ''s1'', dvw_ThingName = None,
           dvw_claimState = ''CLAIMED'', dvw_revoked = False, dvw_LastSeen = None, dvw_UpdatedAt = 1\<rparr>)
         [(''d1'', ''a1''), (''d2'', ''a2'')],
         tt_credentials = [], tt_presence = Map.empty, tt_lifecycle = [], tt_latest = Map.empty, tt_events = [],
         tt_failures = []\<rparr>,
       rd_memberships = [\<lparr>mbw_AccountID = ''a1'', mbw_UserID = ''u1'', mbw_RoleID = ''r'', mbw_status = ''active''\<rparr>],
       rd_sites = [\<lparr>stw_ID = ''s1'', stw_DisplayName = None, stw_Category = None, stw_CustomerID = None, stw_City = None,
         stw_State = None, stw_deleted = False\<rparr>],
       rd_customers = Map.empty, rd_backups = Map.empty, rd_updates = Map.empty, rd_advisories = Map.empty,
       rd_recipients = []\<rparr>\<rparr>"

definition read_subject :: Subject where
  "read_subject = \<lparr>sub_Type = ''user'', sub_ID = ''u1'', sub_AuthMethod = ''jwt'', sub_Email = []\<rparr>"

theorem dashboard_shows_own_devices_witness:
  "\<exists>r w'. readmodels_Dashboard (postgres_readmodels (\<lambda>_ _. None) (\<lambda>_ _. [])) read_subject read_world = (Inr r, w') \<and>
     listed r = {(''d1'', ''s1'')}"
proof -
  let ?run = "readmodels_Dashboard (postgres_readmodels (\<lambda>_ _. None) (\<lambda>_ _. [])) read_subject read_world"
  have "env_faults read_world = []" "env_ticks read_world = []" by (simp_all add: read_world_def)
  then obtain r w' where run: "?run = (Inr r, w')"
    by (simp add: readmodels_Dashboard_def readmodels_Activity_def activityRows_def deviceFacts_def readmodels_validate_def
        readmodels_now_def postgres_readmodels_def clock_now_def op_defs with_fault_def read_clock_def)
  have visible: "visible_ids (rst_tables read_world) (sub_ID read_subject) = {(''d1'', ''s1'')}"
    by (simp add: visible_shown shown_devices_def authorized_accounts_def read_world_def read_subject_def)
  have one: "length (dre_ManagedHomeAssistants r) < 250"
    unfolding listed_taken(3) [OF run]
    by (simp add: shown_devices_def authorized_accounts_def read_world_def read_subject_def)
  show ?thesis using dashboard_shows_own_devices [OF run] run one visible by auto
qed

end
