(* ===== verification/Go_Http.thy ===== *)
theory Go_Http
  imports Go_Decode Go_Crypto_Url "HOL-Library.AList"
begin

text \<open>
  The client side of \<open>net/http\<close> as the code uses it: requests, answers, \<open>http.NewRequest\<close>,
  \<open>url.PathEscape\<close>, \<open>json.Decoder\<close> on the body of an answer, and the contract of an \<open>http.Client\<close>.

  \<^item> A client is an operation from a request to an answer or an error: what it puts on the network, its
    redirects and its timeout are its own. The one law is that it is handed a request once per call.
  \<^item> The body of an answer is the bytes that arrive and the error that ends them, if one does.
  \<^item> \<open>NewRequest\<close> fails exactly if the URL does not parse; the methods the code passes are valid.
\<close>

section \<open>Requests and answers\<close>

record HttpCall =
  hcl_Method :: string
  hcl_URL :: string
  hcl_Header :: "(string \<times> string) list"
  hcl_Body :: string

record HttpAnswer =
  han_StatusCode :: int
  han_Header :: "(string \<times> string list) list"
  han_Body :: string
  han_BodyError :: "go_error option"

type_synonym 'w HttpClient = "HttpCall \<Rightarrow> ('w, HttpAnswer) op"

definition NewRequest :: "string \<Rightarrow> string \<Rightarrow> (string \<times> string) list \<Rightarrow> string \<Rightarrow> go_error + HttpCall" where
  "NewRequest meth url hs body =
     (case url_parse url of
        None \<Rightarrow> Inl (Errorf ''parse %q'' [url])
      | Some _ \<Rightarrow> Inr \<lparr>hcl_Method = meth, hcl_URL = url, hcl_Header = hs, hcl_Body = body\<rparr>)"

definition ReadAll :: "HttpAnswer \<Rightarrow> go_error + string" where
  "ReadAll a = (case han_BodyError a of None \<Rightarrow> Inr (han_Body a) | Some e \<Rightarrow> Inl e)"

definition ok_status :: "HttpAnswer \<Rightarrow> bool" where
  "ok_status a = (200 \<le> han_StatusCode a \<and> han_StatusCode a < 300)"

text \<open>
  \<open>json.NewDecoder(body).Decode\<close>: the first value of the body; what follows it is not read. A value
  that is not an array or object ends only with the next byte or the end of the body.
\<close>

definition decode_first :: "HttpAnswer \<Rightarrow> json option" where
  "decode_first a =
     (case parse_value (2 * length (han_Body a) + 1) max_depth (han_Body a) of
        None \<Rightarrow> None
      | Some (v, rest) \<Rightarrow>
          (case v of
             JArr vs \<Rightarrow> Some v
           | JObj ms \<Rightarrow> Some v
           | _ \<Rightarrow> if rest = [] \<and> han_BodyError a \<noteq> None then None else Some v))"

text \<open>A field of type \<open>map[string]string\<close>: a later member of a name replaces the earlier one.\<close>

fun dec_map_members :: "(string \<times> string) list \<Rightarrow> (string \<times> json) list \<Rightarrow> (string \<times> string) list option" where
  "dec_map_members m [] = Some m"
| "dec_map_members m ((k, v) # ms) =
     (case dec_string [] [v] of None \<Rightarrow> None | Some s \<Rightarrow> dec_map_members (AList.update k s m) ms)"

fun dec_string_map :: "(string \<times> string) list \<Rightarrow> json list \<Rightarrow> (string \<times> string) list option" where
  "dec_string_map cur [] = Some cur"
| "dec_string_map cur (JNull # vs) = dec_string_map [] vs"
| "dec_string_map cur (JObj ms # vs) =
     (case dec_map_members cur ms of None \<Rightarrow> None | Some m \<Rightarrow> dec_string_map m vs)"
| "dec_string_map cur (_ # vs) = None"

section \<open>Escaping a path segment\<close>

definition segment_char :: "char \<Rightarrow> bool" where
  "segment_char c = (is_alpha c \<or> is_digit c \<or> c \<in> set ''-_.~$&+=:@'')"

definition upper_hex :: "nat \<Rightarrow> char" where
  "upper_hex n = (if n < 10 then char_of (48 + n) else char_of (55 + n))"

fun PathEscape :: "string \<Rightarrow> string" where
  "PathEscape [] = []"
| "PathEscape (c # s) =
     (if segment_char c then [c] else [CHR ''%'', upper_hex (byte c div 16), upper_hex (byte c mod 16)]) @
     PathEscape s"

lemma PathEscape_examples:
  "PathEscape ''ab-1_2.x~'' = ''ab-1_2.x~''"
  "PathEscape ''../a b?c#d;e'' = ''..%2Fa%20b%3Fc%23d%3Be''"
  by code_simp+

lemma byte_less: "byte c < 256"
  using nat_of_char_less_256 [of c] by (simp add: byte_def)

lemma upper_hex_plain: "n < 16 \<Longrightarrow> upper_hex n \<notin> set ''/?#%''"
proof -
  assume "n < 16"
  then have "n \<in> set [0..<16]" by simp
  moreover have "list_all (\<lambda>n. upper_hex n \<notin> set ''/?#%'') [0..<16]" by code_simp
  ultimately show ?thesis by (auto simp only: list_all_iff)
qed

lemma upper_hex_inj: "m < 16 \<Longrightarrow> n < 16 \<Longrightarrow> upper_hex m = upper_hex n \<longleftrightarrow> m = n"
proof -
  assume "m < 16" "n < 16"
  then have "m \<in> set [0..<16]" "n \<in> set [0..<16]" by simp_all
  moreover have "list_all (\<lambda>m. list_all (\<lambda>n. upper_hex m = upper_hex n \<longleftrightarrow> m = n) [0..<16]) [0..<16]" by code_simp
  ultimately show ?thesis by (auto simp only: list_all_iff)
qed

lemma segment_char_plain: "segment_char c \<Longrightarrow> c \<notin> set ''/?#%''"
  by (auto simp: segment_char_def is_alpha_def is_digit_def byte_def)

text \<open>An escaped segment stays one segment, and different segments stay different.\<close>

lemma PathEscape_plain: "c \<in> set (PathEscape s) \<Longrightarrow> c \<notin> set ''/?#''"
proof (induction s)
  case (Cons d s)
  have "byte d div 16 < 16" "byte d mod 16 < 16" using byte_less [of d] by auto
  note hex = upper_hex_plain [OF this(1)] upper_hex_plain [OF this(2)]
  show ?case
  proof (cases "c \<in> set (PathEscape s)")
    case False
    with Cons.prems have "c = d \<and> segment_char d \<or> c = CHR ''%'' \<or> c = upper_hex (byte d div 16) \<or> c = upper_hex (byte d mod 16)"
      by (auto split: if_splits)
    with hex show ?thesis using segment_char_plain [of d] by auto
  qed (rule Cons.IH)
qed simp

lemma byte_inj: "byte c = byte d \<longleftrightarrow> c = d"
  by (simp add: byte_def)

lemma PathEscape_inj: "PathEscape s = PathEscape t \<longleftrightarrow> s = t"
proof (induction s arbitrary: t)
  case Nil
  show ?case by (cases t) auto
next
  case (Cons c s)
  show ?case
  proof (cases t)
    case (Cons d t')
    have b: "byte c div 16 < 16" "byte d div 16 < 16" "byte c mod 16 < 16" "byte d mod 16 < 16"
      using byte_less [of c] byte_less [of d] by auto
    have "byte c = byte d" if "byte c div 16 = byte d div 16" "byte c mod 16 = byte d mod 16"
      using that by (metis div_mult_mod_eq)
    then have same: "c = d" if "upper_hex (byte c div 16) = upper_hex (byte d div 16)"
        "upper_hex (byte c mod 16) = upper_hex (byte d mod 16)"
      using that b by (auto simp: upper_hex_inj byte_inj)
    have "\<not> segment_char (CHR ''%'')" using segment_char_plain [of "CHR ''%''"] by auto
    with Cons.IH [of t'] same Cons show ?thesis by auto
  qed auto
qed

section \<open>The contract of a client\<close>

locale http_client =
  fixes client :: "'w HttpClient" and sent :: "'w \<Rightarrow> HttpCall list"
  assumes Do_law: "client c w = (r, w') \<Longrightarrow> sent w' = sent w @ [c]"
begin

lemma wp_Do:
  assumes "\<And>e w'. sent w' = sent w @ [c] \<Longrightarrow> E e w'" and "\<And>a w'. sent w' = sent w @ [c] \<Longrightarrow> Q a w'"
  shows "wp (client c) Q E w"
  by (rule wpI) (auto dest: Do_law intro: assms)

end

text \<open>A client whose answers are a schedule of answers and failures.\<close>

record http_world = env +
  htw_answers :: "(go_error + HttpAnswer) list"
  htw_sent :: "HttpCall list"

definition scheduled_client :: "'x http_world_scheme HttpClient" where
  "scheduled_client c w =
     (case htw_answers w of
        [] \<Rightarrow> (Inl injected_fault, w\<lparr>htw_sent := htw_sent w @ [c]\<rparr>)
      | a # as \<Rightarrow> (a, w\<lparr>htw_answers := as, htw_sent := htw_sent w @ [c]\<rparr>))"

interpretation scheduled: http_client scheduled_client htw_sent
  by unfold_locales (auto simp: scheduled_client_def split: list.splits)

end
