(* ===== verification/Lambda_Proxy.thy ===== *)
theory Lambda_Proxy
  imports Control_Plane Go_Http "HOL-Library.List_Lexorder"
begin

text \<open>
  The control plane behind the AWS Lambda runtime: \<open>backend/internal/lambdaproxy/runtime.go\<close>.

  The runtime service is an \<open>http.Client\<close>, the application an operation of the type of \<open>App.Serve\<close>. The
  headers of an event are a map; its members stand in the order of the text, one of the orders an
  iteration over them may take. The duration of a request and the log are left out.
\<close>

section \<open>Base64 of the standard alphabet\<close>

definition base64std_value :: "char \<Rightarrow> nat option" where
  "base64std_value c =
     (if 65 \<le> byte c \<and> byte c \<le> 90 then Some (byte c - 65)
      else if 97 \<le> byte c \<and> byte c \<le> 122 then Some (byte c - 71)
      else if is_digit c then Some (byte c + 4)
      else if c = CHR ''+'' then Some 62
      else if c = CHR ''/'' then Some 63 else None)"

text \<open>\<open>base64.StdEncoding.DecodeString\<close>: line breaks are skipped, trailing bits are not checked.\<close>

definition Std_DecodeString :: "string \<Rightarrow> string option" where
  "Std_DecodeString s =
     (let cs = filter (\<lambda>c. c \<noteq> CHR 0x0A \<and> c \<noteq> CHR 0x0D) s;
          digits = (if HasSuffix cs ''=='' then take (length cs - 2) cs
                    else if HasSuffix cs ''='' then take (length cs - 1) cs else cs) in
      if length cs mod 4 = 0 \<and> list_all (\<lambda>c. base64std_value c \<noteq> None) digits
      then base64_groups (map (\<lambda>c. the (base64std_value c)) digits) else None)"

lemma Std_DecodeString_examples:
  "Std_DecodeString ''aGVsbG8='' = Some ''hello''" "Std_DecodeString ''aGVsbA=='' = Some ''hell''"
  "Std_DecodeString ''aGVs'' = Some ''hel''" "Std_DecodeString ''aGVsbG8'' = None"
  "Std_DecodeString ''aGVs====''  = None" "Std_DecodeString ''a=Vs'' = None" "Std_DecodeString [] = Some []"
  by code_simp+

section \<open>Events\<close>

record apiGatewayV2Event =
  agw_RawPath :: string
  agw_Headers :: headers
  agw_Body :: string
  agw_IsBase64Encoded :: bool
  agw_RequestID :: string
  agw_Method :: string
  agw_Path :: string

definition event_fields :: "string list" where
  "event_fields = [''version'', ''rawPath'', ''headers'', ''body'', ''isBase64Encoded'', ''requestContext'']"

definition dec_event :: "string \<Rightarrow> apiGatewayV2Event option" where
  "dec_event payload =
     (case struct_members payload of
        None \<Rightarrow> None
      | Some ms \<Rightarrow>
          let fld = field_values event_fields ms in
          (case (dec_string [] (fld ''version''), dec_string [] (fld ''rawPath''), dec_string_map [] (fld ''headers''),
                 dec_string [] (fld ''body''), dec_bool False (fld ''isBase64Encoded''),
                 dec_fields [''requestId'', ''http''] (fld ''requestContext'')) of
             (Some v, Some path, Some hs, Some body, Some encoded, Some ctx) \<Rightarrow>
               (case (dec_string [] (ctx ''requestId''), dec_fields [''method'', ''path''] (ctx ''http'')) of
                  (Some i, Some http) \<Rightarrow>
                    (case (dec_string [] (http ''method''), dec_string [] (http ''path'')) of
                       (Some meth, Some p) \<Rightarrow>
                         Some \<lparr>agw_RawPath = path, agw_Headers = hs, agw_Body = body, agw_IsBase64Encoded = encoded,
                           agw_RequestID = i, agw_Method = meth, agw_Path = p\<rparr>
                     | _ \<Rightarrow> None)
                | _ \<Rightarrow> None)
           | _ \<Rightarrow> None))"

record apiGatewayV2Response =
  agr_StatusCode :: nat
  agr_Headers :: headers
  agr_Body :: string
  agr_IsBase64Encoded :: bool

record requestSummary =
  rqs_Method :: string
  rqs_Path :: string
  rqs_RequestID :: string
  rqs_StatusCode :: nat

text \<open>\<open>json.Marshal\<close>: a map is written in the order of its keys.\<close>

definition headers_text :: "headers \<Rightarrow> string" where
  "headers_text hs = object_text (map (\<lambda>(k, v). (k, quote v)) (sort_key (\<lambda>p. map byte (fst p)) hs))"

definition response_text :: "apiGatewayV2Response \<Rightarrow> string" where
  "response_text r =
     object_text [(''statusCode'', Itoa (agr_StatusCode r)), (''headers'', headers_text (agr_Headers r)),
       (''body'', quote (agr_Body r)), (''isBase64Encoded'', if agr_IsBase64Encoded r then ''true'' else ''false'')]"

definition event_method :: "apiGatewayV2Event \<Rightarrow> string" where
  "event_method ev = (if agw_Method ev = [] then ''GET'' else agw_Method ev)"

definition event_path :: "apiGatewayV2Event \<Rightarrow> string" where
  "event_path ev =
     (let path = (if agw_RawPath ev = [] then agw_Path ev else agw_RawPath ev) in if path = [] then ''/'' else path)"

definition event_body :: "apiGatewayV2Event \<Rightarrow> go_error + string" where
  "event_body ev =
     (if agw_IsBase64Encoded ev then
        (case Std_DecodeString (agw_Body ev) of
           None \<Rightarrow> Inl (Errorf ''decode base64 body: %w'' [])
         | Some decoded \<Rightarrow> Inr decoded)
      else Inr (agw_Body ev))"

definition response_headers :: "apiGatewayV2Event \<Rightarrow> headers \<Rightarrow> headers" where
  "response_headers ev hs =
     (if agw_RequestID ev \<noteq> [] \<and> (case map_of hs ''X-Request-Id'' of None \<Rightarrow> True | Some v \<Rightarrow> v = [])
      then set_header ''X-Request-Id'' (agw_RequestID ev) hs else hs)"

type_synonym 'w LambdaHandler = "string \<Rightarrow> string \<Rightarrow> headers \<Rightarrow> string \<Rightarrow> ('w, Response) op"

definition handleInvocation :: "'w LambdaHandler \<Rightarrow> string \<Rightarrow> ('w, apiGatewayV2Response \<times> requestSummary) op" where
  "handleInvocation handler payload =
     (case dec_event payload of
        None \<Rightarrow> fail (Errorf ''decode API Gateway event: %w'' [])
      | Some ev \<Rightarrow>
          bindE (pureE (event_body ev)) (\<lambda>body.
          bindE (handler (event_method ev) (event_path ev) (agw_Headers ev) body) (\<lambda>response.
          ret (\<lparr>agr_StatusCode = rsp_StatusCode response, agr_Headers = response_headers ev (rsp_Headers response),
                agr_Body = rsp_Body response, agr_IsBase64Encoded = False\<rparr>,
               \<lparr>rqs_Method = event_method ev, rqs_Path = event_path ev, rqs_RequestID = agw_RequestID ev,
                rqs_StatusCode = rsp_StatusCode response\<rparr>))))"

section \<open>The loop\<close>

definition invocation_endpoint :: "string \<Rightarrow> string" where
  "invocation_endpoint runtimeAPI = ''http://'' @ TrimPrefix runtimeAPI ''http://'' @ ''/2018-06-01/runtime/invocation''"

definition runtime_id_header :: string where
  "runtime_id_header = ''Lambda-Runtime-Aws-Request-Id''"

definition nextInvocation :: "'w HttpClient \<Rightarrow> string \<Rightarrow> ('w, string \<times> string) op" where
  "nextInvocation client endpoint =
     bindE (pureE (NewRequest ''GET'' (endpoint @ ''/next'') [] [])) (\<lambda>request.
     bindE (client request) (\<lambda>response.
     bindE (pureE (ReadAll response)) (\<lambda>body.
     bindE (failIf (han_StatusCode response \<noteq> 200) (Errorf ''lambda runtime next returned %d: %s''
              [decimal (han_StatusCode response), body])) (\<lambda>_.
     let requestID = header_Get (han_Header response) runtime_id_header in
     bindE (failIf (requestID = []) (Errorf ''lambda runtime omitted request id'' [])) (\<lambda>_.
     ret (body, requestID))))))"

definition post_runtime :: "'w HttpClient \<Rightarrow> string \<Rightarrow> string \<Rightarrow> string \<Rightarrow> ('w, unit) op" where
  "post_runtime client url message payload =
     bindE (pureE (NewRequest ''POST'' url [(''Content-Type'', ''application/json'')] payload)) (\<lambda>request.
     bindE (client request) (\<lambda>response.
     bindE (pureE (ReadAll response)) (\<lambda>body.
     failIf (han_StatusCode response div 100 \<noteq> 2) (Errorf message [decimal (han_StatusCode response), body]))))"

definition postInvocationResponse ::
  "'w HttpClient \<Rightarrow> string \<Rightarrow> string \<Rightarrow> apiGatewayV2Response \<Rightarrow> ('w, unit) op" where
  "postInvocationResponse client endpoint requestID response =
     post_runtime client (endpoint @ ''/'' @ requestID @ ''/response'') ''lambda runtime response returned %d: %s''
       (response_text response)"

text \<open>The text of an error is what \<open>err.Error()\<close> makes of it: a parameter.\<close>

definition error_text :: "(go_error \<Rightarrow> string) \<Rightarrow> go_error \<Rightarrow> string" where
  "error_text message e = object_text [(''errorMessage'', quote (message e)), (''errorType'', quote ''InvocationError'')]"

definition postInvocationError ::
  "'w HttpClient \<Rightarrow> (go_error \<Rightarrow> string) \<Rightarrow> string \<Rightarrow> string \<Rightarrow> go_error \<Rightarrow> ('w, unit) op" where
  "postInvocationError client message endpoint requestID e =
     post_runtime client (endpoint @ ''/'' @ requestID @ ''/error'') ''lambda runtime error response returned %d: %s''
       (error_text message e)"

text \<open>One turn of the loop: an error is what \<open>Run\<close> returns. \<open>cancelled\<close> is \<open>ctx.Err()\<close> once the context is done.\<close>

definition answer_invocation ::
  "'w HttpClient \<Rightarrow> (go_error \<Rightarrow> string) \<Rightarrow> 'w LambdaHandler \<Rightarrow> string \<Rightarrow> string \<times> string \<Rightarrow> ('w, unit) op" where
  "answer_invocation client message handler endpoint = (\<lambda>(invocation, requestID).
     bindE (attemptE (handleInvocation handler invocation)) (\<lambda>r.
     case r of
       Inl e \<Rightarrow> postInvocationError client message endpoint requestID e
     | Inr (response, summary) \<Rightarrow> postInvocationResponse client endpoint requestID response))"

definition run_turn ::
  "'w HttpClient \<Rightarrow> (go_error \<Rightarrow> string) \<Rightarrow> ('w, go_error option) effect \<Rightarrow> 'w LambdaHandler \<Rightarrow> string \<Rightarrow> ('w, unit) op" where
  "run_turn client message cancelled handler endpoint =
     bindE (liftE cancelled) (\<lambda>c.
     case c of
       Some e \<Rightarrow> fail e
     | None \<Rightarrow>
         bindE (nextInvocation client endpoint) (\<lambda>next.
         answer_invocation client message handler endpoint next))"

text \<open>The loop ends only with an error; None is a loop that never ends.\<close>

partial_function (option) run_loop :: "('w, unit) op \<Rightarrow> 'w \<Rightarrow> (go_error \<times> 'w) option" where
  "run_loop turn w =
     (case turn w of
        (Inl e, w') \<Rightarrow> Some (e, w')
      | (Inr u, w') \<Rightarrow> run_loop turn w')"

definition Run_lambda ::
  "'w HttpClient \<Rightarrow> (go_error \<Rightarrow> string) \<Rightarrow> ('w, go_error option) effect \<Rightarrow> 'w LambdaHandler \<Rightarrow> string \<Rightarrow> 'w \<Rightarrow>
   (go_error \<times> 'w) option" where
  "Run_lambda client message cancelled handler runtimeAPI w =
     (if runtimeAPI = [] then Some (Errorf ''missing AWS Lambda runtime API'' [], w)
      else run_loop (run_turn client message cancelled handler (invocation_endpoint runtimeAPI)) w)"

end
