(* ===== verification/Lambda_Runtime.thy ===== *)
theory Lambda_Runtime
  imports Lambda_Proxy
begin

text \<open>
  What the Lambda loop owes to the runtime service: the contract \<open>lambda_runtime\<close> of a service with a queue
  of invocations, and a service that keeps it while requests and answers get lost. The application is the
  \<open>Serve\<close> of the control plane.

  The queue holds the invocations the service will ever hand out, so it is finite; the loop is proved to
  return, after it has answered every invocation that it took, the last one perhaps excepted.
\<close>

section \<open>The contract\<close>

text \<open>What was posted for an invocation: the answer of the handler in some state, or its error.\<close>

fun answer_for ::
  "'w LambdaHandler \<Rightarrow> (go_error \<Rightarrow> string) \<Rightarrow> string \<times> string \<Rightarrow> string \<times> string \<times> string \<Rightarrow> bool" where
  "answer_for handler message (i, payload) (j, kind, text) \<longleftrightarrow> j = i \<and>
     (\<exists>v. case fst (handleInvocation handler payload v) of
        Inl e \<Rightarrow> kind = ''/error'' \<and> text = error_text message e
      | Inr (response, summary) \<Rightarrow> kind = ''/response'' \<and> text = response_text response)"

definition refuses :: "go_error + HttpAnswer \<Rightarrow> bool" where
  "refuses r = (case r of Inl e \<Rightarrow> True | Inr a \<Rightarrow> han_StatusCode a div 100 \<noteq> 2)"

locale lambda_runtime =
  fixes client :: "'w HttpClient" and endpoint :: string and handler :: "'w LambdaHandler"
    and message :: "go_error \<Rightarrow> string" and cancelled :: "('w, go_error option) effect"
    and pending :: "'w \<Rightarrow> (string \<times> string) list" and answered :: "'w \<Rightarrow> (string \<times> string \<times> string) list"
  assumes Next_law: "client \<lparr>hcl_Method = ''GET'', hcl_URL = endpoint @ ''/next'', hcl_Header = [], hcl_Body = []\<rparr> w
        = (nr, w') \<Longrightarrow> answered w' = answered w \<and> (pending w' = pending w \<or> (\<exists>x. pending w = x # pending w')) \<and>
      (\<forall>a payload. nr = Inr a \<longrightarrow> ReadAll a = Inr payload \<longrightarrow> han_StatusCode a = 200 \<longrightarrow>
         pending w = (header_Get (han_Header a) runtime_id_header, payload) # pending w')"
    and Post_law: "kind = ''/response'' \<or> kind = ''/error'' \<Longrightarrow>
      client \<lparr>hcl_Method = ''POST'', hcl_URL = endpoint @ ''/'' @ i @ kind,
        hcl_Header = [(''Content-Type'', ''application/json'')], hcl_Body = body\<rparr> w = (pa, w') \<Longrightarrow>
      pending w' = pending w \<and>
      (answered w' = answered w @ [(i, kind, body)] \<or> answered w' = answered w \<and> refuses pa)"
    and handler_law: "handler m p hs b w = (hr, w') \<Longrightarrow> pending w' = pending w \<and> answered w' = answered w"
    and cancelled_law: "cancelled w = (c, w') \<Longrightarrow> pending w' = pending w \<and> answered w' = answered w"
begin

abbreviation turn :: "('w, unit) op" where
  "turn \<equiv> run_turn client message cancelled handler endpoint"

abbreviation answers :: "string \<times> string \<Rightarrow> string \<times> string \<times> string \<Rightarrow> bool" where
  "answers \<equiv> answer_for handler message"

lemma handle_keeps:
  "handleInvocation handler payload w = (r, w') \<Longrightarrow> pending w' = pending w \<and> answered w' = answered w"
  by (auto simp: handleInvocation_def op_defs split: option.splits sum.splits prod.splits dest: handler_law)

lemma wp_post:
  assumes kind: "kind = ''/response'' \<or> kind = ''/error''"
    and ok: "\<And>w'. pending w' = pending w \<Longrightarrow> answered w' = answered w @ [(i, kind, body)] \<Longrightarrow> Q () w'"
    and failed: "\<And>e w'. pending w' = pending w \<Longrightarrow>
      answered w' = answered w \<or> answered w' = answered w @ [(i, kind, body)] \<Longrightarrow> E e w'"
  shows "wp (post_runtime client (endpoint @ ''/'' @ i @ kind) m body) Q E w"
proof (cases "NewRequest ''POST'' (endpoint @ ''/'' @ i @ kind) [(''Content-Type'', ''application/json'')] body")
  case (Inr request)
  then have r: "request = \<lparr>hcl_Method = ''POST'', hcl_URL = endpoint @ ''/'' @ i @ kind,
      hcl_Header = [(''Content-Type'', ''application/json'')], hcl_Body = body\<rparr>"
    by (auto simp: NewRequest_def split: option.splits)
  have "wp (client request) (\<lambda>a w'. pending w' = pending w \<and>
      (answered w' = answered w @ [(i, kind, body)] \<or> answered w' = answered w \<and> refuses (Inr a)))
    (\<lambda>e w'. pending w' = pending w \<and> (answered w' = answered w @ [(i, kind, body)] \<or> answered w' = answered w)) w"
    unfolding r by (rule wpI) (use Post_law [OF kind, where i = i and body = body and w = w] in \<open>blast\<close>)+
  then show ?thesis
    unfolding post_runtime_def wp_bindE wp_pureE Inr sum.case
    by (rule wp_mono) (auto simp: wp_simps refuses_def intro: ok failed split: sum.split)
qed (use failed in \<open>simp add: post_runtime_def wp_simps\<close>)

lemma wp_answer:
  assumes ok: "\<And>y w'. pending w' = pending w \<Longrightarrow> answered w' = answered w @ [y] \<Longrightarrow> answers (i, payload) y \<Longrightarrow> Q () w'"
    and failed: "\<And>e w'. pending w' = pending w \<Longrightarrow>
      answered w' = answered w \<or> (\<exists>y. answered w' = answered w @ [y] \<and> answers (i, payload) y) \<Longrightarrow> E e w'"
  shows "wp (answer_invocation client message handler endpoint (payload, i)) Q E w"
proof -
  have inl: "answers (i, payload) (i, ''/error'', error_text message e)"
    if "handleInvocation handler payload w = (Inl e, w1)" for e w1
    using that by (auto intro!: exI [of _ w])
  have inr: "answers (i, payload) (i, ''/response'', response_text r)"
    if "handleInvocation handler payload w = (Inr (r, s), w1)" for r s w1
    using that by (auto intro!: exI [of _ w])
  show ?thesis
    unfolding answer_invocation_def prod.case wp_simps
  proof (rule wpI)
    fix e w1 assume h: "handleInvocation handler payload w = (Inl e, w1)"
    then show "case Inl e of Inl e \<Rightarrow> wp (postInvocationError client message endpoint i e) Q E w1
      | Inr x \<Rightarrow> case x of (response, summary) \<Rightarrow> wp (postInvocationResponse client endpoint i response) Q E w1"
      unfolding sum.case postInvocationError_def
      by (intro wp_post) (use handle_keeps [OF h] inl [OF h] in \<open>auto intro: ok failed simp del: answer_for.simps\<close>)
  next
    fix x w1 assume h: "handleInvocation handler payload w = (Inr x, w1)"
    obtain r s where x: "x = (r, s)" by (cases x)
    show "case Inr x of Inl e \<Rightarrow> wp (postInvocationError client message endpoint i e) Q E w1
      | Inr x \<Rightarrow> case x of (response, summary) \<Rightarrow> wp (postInvocationResponse client endpoint i response) Q E w1"
      unfolding sum.case x prod.case postInvocationResponse_def
      by (intro wp_post) (use handle_keeps [OF h] inr [OF h [unfolded x]] in \<open>auto intro: ok failed simp del: answer_for.simps\<close>)
  qed
qed

lemma wp_next:
  assumes ok: "\<And>payload i w'. pending w = (i, payload) # pending w' \<Longrightarrow> answered w' = answered w \<Longrightarrow> Q (payload, i) w'"
    and failed: "\<And>e w'. answered w' = answered w \<Longrightarrow>
      pending w' = pending w \<or> (\<exists>x. pending w = x # pending w') \<Longrightarrow> E e w'"
  shows "wp (nextInvocation client endpoint) Q E w"
proof (cases "NewRequest ''GET'' (endpoint @ ''/next'') [] []")
  case (Inr request)
  then have r: "request = \<lparr>hcl_Method = ''GET'', hcl_URL = endpoint @ ''/next'', hcl_Header = [], hcl_Body = []\<rparr>"
    by (auto simp: NewRequest_def split: option.splits)
  have "wp (client request) (\<lambda>a w'. answered w' = answered w \<and> (pending w' = pending w \<or> (\<exists>x. pending w = x # pending w')) \<and>
      (\<forall>payload. ReadAll a = Inr payload \<longrightarrow> han_StatusCode a = 200 \<longrightarrow>
         pending w = (header_Get (han_Header a) runtime_id_header, payload) # pending w'))
    (\<lambda>e w'. answered w' = answered w \<and> (pending w' = pending w \<or> (\<exists>x. pending w = x # pending w'))) w"
    unfolding r by (rule wpI) (use Next_law [where w = w] in \<open>blast\<close>)+
  then show ?thesis
    unfolding nextInvocation_def wp_bindE wp_pureE Inr sum.case
    by (rule wp_mono) (auto simp: wp_simps Let_def intro: ok failed split: sum.split)
qed (use failed in \<open>simp add: nextInvocation_def wp_simps\<close>)

text \<open>A turn takes one invocation and answers it; if it fails it took at most one.\<close>

lemma wp_turn:
  "wp turn (\<lambda>_ w'. \<exists>x y. pending w = x # pending w' \<and> answered w' = answered w @ [y] \<and> answers x y)
     (\<lambda>_ w'. pending w' = pending w \<and> answered w' = answered w \<or>
        (\<exists>x. pending w = x # pending w' \<and>
           (answered w' = answered w \<or> (\<exists>y. answered w' = answered w @ [y] \<and> answers x y)))) w"
proof -
  obtain c w1 where c: "cancelled w = (c, w1)" by (cases "cancelled w")
  note same = cancelled_law [OF c]
  show ?thesis
  proof (cases c)
    case None
    have "wp (nextInvocation client endpoint) (\<lambda>next. wp (answer_invocation client message handler endpoint next)
        (\<lambda>_ w'. \<exists>x y. pending w = x # pending w' \<and> answered w' = answered w @ [y] \<and> answers x y)
        (\<lambda>_ w'. pending w' = pending w \<and> answered w' = answered w \<or>
        (\<exists>x. pending w = x # pending w' \<and>
           (answered w' = answered w \<or> (\<exists>y. answered w' = answered w @ [y] \<and> answers x y)))))
      (\<lambda>_ w'. pending w' = pending w \<and> answered w' = answered w \<or>
        (\<exists>x. pending w = x # pending w' \<and>
           (answered w' = answered w \<or> (\<exists>y. answered w' = answered w @ [y] \<and> answers x y)))) w1"
      by (rule wp_next; (rule wp_answer)?) (use same in \<open>auto simp del: answer_for.simps\<close>)
    then show ?thesis unfolding run_turn_def by (simp add: wp_simps c None del: answer_for.simps)
  qed (use same in \<open>simp add: run_turn_def wp_simps c\<close>)
qed

text \<open>The loop returns: a turn that does not fail makes the queue shorter.\<close>

lemma loop_answers:
  "\<exists>e w' n as. run_loop turn w = Some (e, w') \<and> n \<le> length (pending w) \<and> pending w' = drop n (pending w) \<and>
     answered w' = answered w @ as \<and> list_all2 answers (take (length as) (pending w)) as \<and>
     length as \<le> n \<and> n \<le> length as + 1"
proof (induction "length (pending w)" arbitrary: w rule: less_induct)
  case less
  show ?case
  proof (cases "turn w")
    case (Pair r w1)
    show ?thesis
    proof (cases r)
      case (Inl e)
      with Pair have run: "run_loop turn w = Some (e, w1)" by (subst run_loop.simps) simp
      from wp_InlD [OF wp_turn Pair [unfolded Inl]]
      consider "pending w1 = pending w" "answered w1 = answered w"
        | x where "pending w = x # pending w1" "answered w1 = answered w"
        | x y where "pending w = x # pending w1" "answered w1 = answered w @ [y]" "answers x y"
        by blast
      then show ?thesis
      proof cases
        case 1
        with run show ?thesis by (intro exI [of _ e] exI [of _ w1] exI [of _ 0] exI [of _ "[]"]) simp
      next
        case 2
        with run show ?thesis by (intro exI [of _ e] exI [of _ w1] exI [of _ 1] exI [of _ "[]"]) simp
      next
        case 3
        with run show ?thesis
          by (intro exI [of _ e] exI [of _ w1] exI [of _ 1] exI [of _ "[y]"]) (simp del: answer_for.simps)
      qed
    next
      case (Inr u)
      from wp_InrD [OF wp_turn Pair [unfolded Inr]] obtain x y where
        xy: "pending w = x # pending w1" "answered w1 = answered w @ [y]" "answers x y" by blast
      from Pair Inr have run: "run_loop turn w = run_loop turn w1" by (subst run_loop.simps) simp
      have "length (pending w1) < length (pending w)" using xy by simp
      from less.hyps [OF this] obtain e w' n as where
        "run_loop turn w1 = Some (e, w')" "n \<le> length (pending w1)" "pending w' = drop n (pending w1)"
        "answered w' = answered w1 @ as" "list_all2 answers (take (length as) (pending w1)) as"
        "length as \<le> n" "n \<le> length as + 1" by blast
      with xy run show ?thesis
        by (intro exI [of _ e] exI [of _ w'] exI [of _ "Suc n"] exI [of _ "y # as"]) (simp del: answer_for.simps)
    qed
  qed
qed

end

section \<open>A runtime service with faults\<close>

datatype runtime_fault = Works | Lost | Cut

record 'a lambda_world =
  lmw_app :: 'a
  lmw_pending :: "(string \<times> string) list"
  lmw_answered :: "(string \<times> string \<times> string) list"
  lmw_faults :: "runtime_fault list"

definition next_fault :: "'a lambda_world \<Rightarrow> runtime_fault \<times> 'a lambda_world" where
  "next_fault w = (case lmw_faults w of [] \<Rightarrow> (Works, w) | f # fs \<Rightarrow> (f, w\<lparr>lmw_faults := fs\<rparr>))"

definition accepted_answer :: HttpAnswer where
  "accepted_answer = \<lparr>han_StatusCode = 202, han_Header = [], han_Body = [], han_BodyError = None\<rparr>"

definition hand_out :: "runtime_fault \<Rightarrow> ('a lambda_world, HttpAnswer) op" where
  "hand_out f w =
     (case lmw_pending w of
        [] \<Rightarrow> (Inl injected_fault, w)
      | (i, payload) # rest \<Rightarrow>
          (if f = Works then Inr \<lparr>han_StatusCode = 200, han_Header = [(runtime_id_header, [i])],
               han_Body = payload, han_BodyError = None\<rparr> else Inl injected_fault,
           w\<lparr>lmw_pending := rest\<rparr>))"

definition take_answer :: "runtime_fault \<Rightarrow> string \<Rightarrow> string \<Rightarrow> string \<Rightarrow> ('a lambda_world, HttpAnswer) op" where
  "take_answer f i kind body w =
     (if f = Works then Inr accepted_answer else Inl injected_fault,
      w\<lparr>lmw_answered := lmw_answered w @ [(i, kind, body)]\<rparr>)"

definition runtime_client :: "string \<Rightarrow> 'a lambda_world HttpClient" where
  "runtime_client endpoint call w =
     (case next_fault w of
        (f, w) \<Rightarrow>
          let rest = drop (length endpoint + 1) (hcl_URL call) in
          if f = Lost then (Inl injected_fault, w)
          else if hcl_Method call = ''GET'' then hand_out f w
          else if HasSuffix rest ''/response''
            then take_answer f (take (length rest - 9) rest) ''/response'' (hcl_Body call) w
          else if HasSuffix rest ''/error''
            then take_answer f (take (length rest - 6) rest) ''/error'' (hcl_Body call) w
          else (Inl injected_fault, w))"

definition on_lambda :: "'a LambdaHandler \<Rightarrow> 'a lambda_world LambdaHandler" where
  "on_lambda handler meth path hs body w =
     (case handler meth path hs body (lmw_app w) of (r, a) \<Rightarrow> (r, w\<lparr>lmw_app := a\<rparr>))"

definition never_cancelled :: "('w, go_error option) effect" where
  "never_cancelled w = (None, w)"

lemma header_Get_single: "header_Get [(k, [v])] k = v"
  by (simp add: header_Get_def)

interpretation runtime: lambda_runtime "runtime_client endpoint" endpoint "on_lambda handler" message never_cancelled
  lmw_pending lmw_answered for endpoint handler message
proof
  fix w nr w'
  assume "runtime_client endpoint \<lparr>hcl_Method = ''GET'', hcl_URL = endpoint @ ''/next'', hcl_Header = [], hcl_Body = []\<rparr> w = (nr, w')"
  then show "lmw_answered w' = lmw_answered w \<and> (lmw_pending w' = lmw_pending w \<or> (\<exists>x. lmw_pending w = x # lmw_pending w')) \<and>
      (\<forall>a payload. nr = Inr a \<longrightarrow> ReadAll a = Inr payload \<longrightarrow> han_StatusCode a = 200 \<longrightarrow>
         lmw_pending w = (header_Get (han_Header a) runtime_id_header, payload) # lmw_pending w')"
    by (auto simp: runtime_client_def next_fault_def hand_out_def header_Get_single ReadAll_def Let_def
        split: list.splits prod.splits if_splits)
next
  fix kind i body w pa w'
  assume "kind = ''/response'' \<or> kind = ''/error''" and "runtime_client endpoint \<lparr>hcl_Method = ''POST'',
      hcl_URL = endpoint @ ''/'' @ i @ kind, hcl_Header = [(''Content-Type'', ''application/json'')], hcl_Body = body\<rparr> w = (pa, w')"
  then show "lmw_pending w' = lmw_pending w \<and>
      (lmw_answered w' = lmw_answered w @ [(i, kind, body)] \<or> lmw_answered w' = lmw_answered w \<and> refuses pa)"
    by (auto simp: runtime_client_def next_fault_def take_answer_def refuses_def HasSuffix_def Let_def
        split: list.splits prod.splits if_splits)
qed (auto simp: on_lambda_def never_cancelled_def split: prod.splits)

text \<open>Without an authenticated actor every caller of the Lambda has the same rate limit and idempotency scope.\<close>

lemma lambda_callers_share_scope:
  "wp NewSyntheticRequestContext (\<lambda>ctx _. rateLimitSubject ctx = ''synthetic'') (\<lambda>_ _. False) w"
  by (auto simp: NewSyntheticRequestContext_def NewID_def op_defs wp_def rateLimitSubject_def split: prod.split)

section \<open>Properties\<close>

text \<open>C25: The loop returns once the runtime service hands out no more invocations or a request to it
  fails. It has then taken the first invocations of the queue and posted, in their order and under their
  own identifiers, the answer of the application or the error for each, except perhaps the last.
\<close>

theorem lambda_answers_invocations:
  fixes a :: "('x control_world_scheme) App"
  assumes "runtimeAPI \<noteq> []"
  shows "\<exists>e w' n as. Run_lambda (runtime_client (invocation_endpoint runtimeAPI)) message never_cancelled
      (on_lambda (Serve a)) runtimeAPI w = Some (e, w') \<and>
    n \<le> length (lmw_pending w) \<and> lmw_pending w' = drop n (lmw_pending w) \<and>
    lmw_answered w' = lmw_answered w @ as \<and>
    list_all2 (answer_for (on_lambda (Serve a)) message) (take (length as) (lmw_pending w)) as \<and>
    length as \<le> n \<and> n \<le> length as + 1"
  using assms runtime.loop_answers [where endpoint = "invocation_endpoint runtimeAPI" and handler = "Serve a" and message = message and w = w]
  by (simp only: Run_lambda_def if_False)

definition demo_lambda_app :: "control_world App" where
  "demo_lambda_app = NewApp \<lparr>acf_ServiceName = ''control-plane'', acf_Environment = ''test'', acf_Version = ''1''\<rparr> None None"

definition demo_lambda :: "control_world lambda_world" where
  "demo_lambda =
     \<lparr>lmw_app = \<lparr>env_faults = [], env_clock = 0, env_ticks = [], env_ids = [], cpw_entries = Map.empty, cpw_buckets = Map.empty,
        cpw_counter = 0\<rparr>,
      lmw_pending = [(''r1'', ''{\"rawPath\":\"/healthz\"}''), (''r2'', ''[]''), (''r3'', ''{}'')], lmw_answered = [],
      lmw_faults = [Works, Works, Works, Cut]\<rparr>"

theorem lambda_answers_invocations_witness:
  "\<exists>e w' n as. Run_lambda (runtime_client (invocation_endpoint ''127.0.0.1:9001'')) (\<lambda>e. ''failed'') never_cancelled
      (on_lambda (Serve demo_lambda_app)) ''127.0.0.1:9001'' demo_lambda = Some (e, w') \<and>
    n \<le> length (lmw_pending demo_lambda) \<and> lmw_pending w' = drop n (lmw_pending demo_lambda) \<and>
    lmw_answered w' = lmw_answered demo_lambda @ as \<and>
    list_all2 (answer_for (on_lambda (Serve demo_lambda_app)) (\<lambda>e. ''failed'')) (take (length as) (lmw_pending demo_lambda)) as \<and>
    length as \<le> n \<and> n \<le> length as + 1"
  by (rule lambda_answers_invocations) simp

end
