(* ===== verification/Http_Clients.thy ===== *)
theory Http_Clients
  imports Go_Http Enrollment_Types Notifications HA_Versions
begin

text \<open>
  The HTTP clients of the program: the agent's enrollment client (\<open>homesignal/cmd/agent/enrollment_clients.go\<close>),
  the e-mail provider (\<open>backend/internal/platform/email/resend.go\<close>) and the provider of the Home Assistant
  release (\<open>backend/internal/platform/hacatalog/github.go\<close>).

  A client that is nil is replaced by \<open>http.DefaultClient\<close>: the \<open>http.Client\<close> of the model is the one in use.
  A decoding error is reported without the text of its cause.
\<close>

section \<open>The enrollment client\<close>

record 'w HTTPHomeSignalClient =
  hhc_baseURL :: string
  hhc_httpClient :: "'w HttpClient"

definition NewHTTPHomeSignalClient :: "'w HttpClient \<Rightarrow> string \<Rightarrow> 'w HTTPHomeSignalClient" where
  "NewHTTPHomeSignalClient client baseURL =
     \<lparr>hhc_baseURL = TrimRightChar (CHR ''/'') baseURL, hhc_httpClient = client\<rparr>"

definition bearer_header :: "string \<Rightarrow> (string \<times> string) list" where
  "bearer_header bearer = (if bearer = [] then [] else [(''Authorization'', ''Bearer '' @ bearer)])"

definition doJSON :: "'w HTTPHomeSignalClient \<Rightarrow> HttpCall \<Rightarrow> (json \<Rightarrow> 'a option) \<Rightarrow> ('w, 'a) op" where
  "doJSON c request decode =
     bindE (wrapE ''homesignal request failed'' (hhc_httpClient c request)) (\<lambda>answer.
     bindE (failIf (han_StatusCode answer < 200 \<or> 299 < han_StatusCode answer)
              (Errorf ''homesignal request returned status %d'' [int_text (han_StatusCode answer)])) (\<lambda>_.
     required (Option.bind (decode_first answer) decode) (Errorf ''decode homesignal response: %w'' [])))"

definition postJSON ::
  "'w HTTPHomeSignalClient \<Rightarrow> string \<Rightarrow> string \<Rightarrow> string \<Rightarrow> (json \<Rightarrow> 'a option) \<Rightarrow> ('w, 'a) op" where
  "postJSON c path bearer payload decode =
     bindE (wrapE ''build request'' (pureE (NewRequest ''POST'' (hhc_baseURL c @ path)
       ([(''Content-Type'', ''application/json''), (''Accept'', ''application/json'')] @ bearer_header bearer) payload)))
     (\<lambda>request. doJSON c request decode)"

definition getJSON :: "'w HTTPHomeSignalClient \<Rightarrow> string \<Rightarrow> string \<Rightarrow> (json \<Rightarrow> 'a option) \<Rightarrow> ('w, 'a) op" where
  "getJSON c path bearer decode =
     bindE (wrapE ''build request'' (pureE (NewRequest ''GET'' (hhc_baseURL c @ path)
       ([(''Accept'', ''application/json'')] @ bearer_header bearer) [])))
     (\<lambda>request. doJSON c request decode)"

definition bool_text :: "bool \<Rightarrow> string" where
  "bool_text b = (if b then ''true'' else ''false'')"

definition session_request_text :: "CreatePairingSessionRequest \<Rightarrow> string" where
  "session_request_text r = object_text
     [(''installation_id'', quote (cpr_InstallationID r)), (''agent_version'', quote (cpr_AgentVersion r)),
      (''csr_pem'', quote (cpr_CSRPEM r)), (''aws_region'', quote (cpr_AWSRegion r)),
      (''aws_iot_endpoint'', quote (cpr_AWSIoTEndpoint r)),
      (''fleet_provisioning_template_name'', quote (cpr_FleetProvisioningTemplateName r)),
      (''requires_pre_provisioning_hook'', bool_text (cpr_RequiresPreProvisioningHook r)),
      (''requires_homesignal_finalization'', bool_text (cpr_RequiresHomeSignalFinalization r)),
      (''supports_csr_based_fleet_provisioning'', bool_text (cpr_SupportsCSRBasedFleetProvisioning r))]"

definition dec_session_response :: "json \<Rightarrow> CreatePairingSessionResponse option" where
  "dec_session_response v = do {
     fld \<leftarrow> dec_fields [''pairing_session_id'', ''pairing_code'', ''expires_at'', ''poll_interval_seconds'',
       ''poll_token'', ''poll_token_expires_at''] [v];
     session \<leftarrow> dec_string [] (fld ''pairing_session_id'');
     code \<leftarrow> dec_string [] (fld ''pairing_code'');
     expires \<leftarrow> dec_time zero_time (fld ''expires_at'');
     seconds \<leftarrow> dec_int64 0 (fld ''poll_interval_seconds'');
     token \<leftarrow> dec_string [] (fld ''poll_token'');
     token_expires \<leftarrow> dec_time zero_time (fld ''poll_token_expires_at'');
     Some \<lparr>cps_PairingSessionID = session, cps_PairingCode = code, cps_ExpiresAt = expires,
       cps_PollIntervalSeconds = seconds, cps_PollToken = token, cps_PollTokenExpiresAt = token_expires\<rparr> }"

definition dec_poll_response :: "json \<Rightarrow> PollPairingSessionResponse option" where
  "dec_poll_response v = do {
     fld \<leftarrow> dec_fields [''status'', ''pairing_code'', ''expires_at'', ''device_id'', ''iot_thing_name'',
       ''aws_claim_certificate_pem'', ''aws_claim_private_key_pem'', ''aws_claim_expires_at'',
       ''fleet_provisioning_template_name'', ''fleet_provisioning_parameters''] [v];
     status \<leftarrow> dec_string [] (fld ''status'');
     code \<leftarrow> dec_string [] (fld ''pairing_code'');
     expires \<leftarrow> dec_time zero_time (fld ''expires_at'');
     device \<leftarrow> dec_string [] (fld ''device_id'');
     thing \<leftarrow> dec_string [] (fld ''iot_thing_name'');
     certificate \<leftarrow> dec_string [] (fld ''aws_claim_certificate_pem'');
     key \<leftarrow> dec_string [] (fld ''aws_claim_private_key_pem'');
     claim_expires \<leftarrow> dec_time zero_time (fld ''aws_claim_expires_at'');
     template \<leftarrow> dec_string [] (fld ''fleet_provisioning_template_name'');
     parameters \<leftarrow> dec_string_map [] (fld ''fleet_provisioning_parameters'');
     Some \<lparr>plr_Status = status, plr_PairingCode = code, plr_ExpiresAt = expires, plr_DeviceID = device,
       plr_IoTThingName = thing, plr_AWSClaimCertificatePEM = certificate, plr_AWSClaimPrivateKeyPEM = key,
       plr_AWSClaimExpiresAt = claim_expires, plr_FleetProvisioningTemplate = template,
       plr_FleetProvisioningParameters = parameters\<rparr> }"

text \<open>The poll token is tagged \<open>json:"-"\<close>: it is no member of the body.\<close>

definition finalize_request_text :: "FinalizeClaimRequest \<Rightarrow> string" where
  "finalize_request_text r = object_text
     ([(''pairing_session_id'', quote (fcr_PairingSessionID r)), (''installation_id'', quote (fcr_InstallationID r)),
       (''device_id'', quote (fcr_DeviceID r)), (''iot_thing_name'', quote (fcr_IoTThingName r)),
       (''certificate_id'', quote (fcr_CertificateID r))] @
      string_field ''certificate_arn'' (fcr_CertificateARN r) @
      [(''certificate_path'', quote (fcr_CertificatePath r)), (''private_key_path'', quote (fcr_PrivateKeyPath r))])"

definition dec_finalize_response :: "json \<Rightarrow> FinalizeClaimResponse option" where
  "dec_finalize_response v = do {
     fld \<leftarrow> dec_fields [''status'', ''device_id'', ''iot_thing_name'', ''claimed_at'', ''reason''] [v];
     status \<leftarrow> dec_string [] (fld ''status'');
     device \<leftarrow> dec_string [] (fld ''device_id'');
     thing \<leftarrow> dec_string [] (fld ''iot_thing_name'');
     claimed \<leftarrow> dec_time zero_time (fld ''claimed_at'');
     reason \<leftarrow> dec_string [] (fld ''reason'');
     Some \<lparr>fcs_Status = status, fcs_DeviceID = device, fcs_IoTThingName = thing, fcs_ClaimedAt = claimed,
       fcs_Reason = reason\<rparr> }"

definition dec_status_response :: "json \<Rightarrow> DeviceStatusResponse option" where
  "dec_status_response v = do {
     fld \<leftarrow> dec_fields [''status'', ''reason''] [v];
     status \<leftarrow> dec_string [] (fld ''status'');
     reason \<leftarrow> dec_string [] (fld ''reason'');
     Some \<lparr>dss_Status = status, dss_Reason = reason\<rparr> }"

definition sessions_path :: string where
  "sessions_path = ''/api/device-enrollment/pairing-sessions''"

definition http_CreatePairingSession ::
  "'w HTTPHomeSignalClient \<Rightarrow> CreatePairingSessionRequest \<Rightarrow> ('w, CreatePairingSessionResponse) op" where
  "http_CreatePairingSession c r = postJSON c sessions_path [] (session_request_text r) dec_session_response"

definition http_PollPairingSession ::
  "'w HTTPHomeSignalClient \<Rightarrow> PollPairingSessionRequest \<Rightarrow> ('w, PollPairingSessionResponse) op" where
  "http_PollPairingSession c r =
     getJSON c (sessions_path @ ''/'' @ PathEscape (ppr_PairingSessionID r)) (ppr_PollToken r) dec_poll_response"

definition http_FinalizeClaim :: "'w HTTPHomeSignalClient \<Rightarrow> FinalizeClaimRequest \<Rightarrow> ('w, FinalizeClaimResponse) op" where
  "http_FinalizeClaim c r =
     postJSON c (sessions_path @ ''/'' @ PathEscape (fcr_PairingSessionID r) @ ''/finalize'') (fcr_PollToken r)
       (finalize_request_text r) dec_finalize_response"

definition http_DeviceStatus :: "'w HTTPHomeSignalClient \<Rightarrow> string \<Rightarrow> ('w, DeviceStatusResponse) op" where
  "http_DeviceStatus c deviceID =
     getJSON c (''/api/devices/'' @ PathEscape deviceID @ ''/status'') [] dec_status_response"

definition http_enrollment_client :: "'w HTTPHomeSignalClient \<Rightarrow> 'w HomeSignalEnrollmentClient" where
  "http_enrollment_client c =
     \<lparr>hec_CreatePairingSession = http_CreatePairingSession c, hec_PollPairingSession = http_PollPairingSession c,
      hec_FinalizeClaim = http_FinalizeClaim c, hec_DeviceStatus = http_DeviceStatus c\<rparr>"

section \<open>The e-mail provider\<close>

record ResendConfig =
  rsc_APIKey :: string
  rsc_FromAddress :: string
  rsc_APIURL :: string

definition NewResendProvider :: "ResendConfig \<Rightarrow> go_error + ResendConfig" where
  "NewResendProvider c =
     (if TrimSpace (rsc_APIKey c) = [] then Inl (Errorf ''RESEND_API_KEY is required'' [])
      else if TrimSpace (rsc_FromAddress c) = [] then Inl (Errorf ''EMAIL_FROM is required'' [])
      else Inr (if TrimSpace (rsc_APIURL c) = [] then c\<lparr>rsc_APIURL := ''https://api.resend.com/emails''\<rparr> else c))"

definition resend_from :: "ResendConfig \<Rightarrow> EmailMessage \<Rightarrow> string" where
  "resend_from c m = (if TrimSpace (em_From m) = [] then TrimSpace (rsc_FromAddress c) else TrimSpace (em_From m))"

definition resend_payload :: "ResendConfig \<Rightarrow> EmailMessage \<Rightarrow> string" where
  "resend_payload c m = object_text
     ([(''from'', quote (resend_from c m))] @
      (if TrimSpace (em_HTML m) = [] then [] else [(''html'', quote (em_HTML m))]) @
      [(''subject'', quote (TrimSpace (em_Subject m)))] @
      (if TrimSpace (em_Text m) = [] then [] else [(''text'', quote (em_Text m))]) @
      [(''to'', ''['' @ quote (TrimSpace (em_To m)) @ '']'')])"

definition resend_headers :: "ResendConfig \<Rightarrow> EmailMessage \<Rightarrow> (string \<times> string) list" where
  "resend_headers c m =
     [(''Authorization'', ''Bearer '' @ TrimSpace (rsc_APIKey c)), (''Content-Type'', ''application/json'')] @
     (if TrimSpace (em_IdempotencyKey m) = [] then [] else [(''Idempotency-Key'', TrimSpace (em_IdempotencyKey m))])"

definition dec_resend_id :: "json \<Rightarrow> string option" where
  "dec_resend_id v = do { fld \<leftarrow> dec_fields [''id''] [v]; dec_string [] (fld ''id'') }"

definition resend_SendEmail :: "'w HttpClient \<Rightarrow> ResendConfig \<Rightarrow> EmailMessage \<Rightarrow> ('w, ProviderResult) op" where
  "resend_SendEmail client c m =
     bindE (failIf (TrimSpace (rsc_APIKey c) = []) (Errorf ''RESEND_API_KEY is required'' [])) (\<lambda>_.
     bindE (failIf (resend_from c m = []) (Errorf ''EMAIL_FROM is required'' [])) (\<lambda>_.
     bindE (wrapE ''build Resend email request'' (pureE
              (NewRequest ''POST'' (rsc_APIURL c) (resend_headers c m) (resend_payload c m)))) (\<lambda>request.
     bindE (wrapE ''send Resend email'' (client request)) (\<lambda>answer.
     bindE (failIf (\<not> ok_status answer)
              (Errorf ''send Resend email: status %d'' [int_text (han_StatusCode answer)])) (\<lambda>_.
     bindE (required (Option.bind (decode_first answer) dec_resend_id)
              (Errorf ''decode Resend email response: %w'' [])) (\<lambda>i.
     bindE (failIf (TrimSpace i = []) (Errorf ''Resend response missing id'' [])) (\<lambda>_.
     ret \<lparr>prs_Provider = ''resend'', prs_ProviderMessageID = TrimSpace i, prs_Metadata = []\<rparr>)))))))"

section \<open>The release provider\<close>

definition github_url :: "string \<Rightarrow> string" where
  "github_url url =
     (if TrimSpace url = [] then ''https://api.github.com/repos/home-assistant/core/releases/latest'' else TrimSpace url)"

record GitHubRelease =
  ghr_TagName :: string
  ghr_HTMLURL :: string
  ghr_Draft :: bool
  ghr_Prerelease :: bool

definition dec_release :: "json \<Rightarrow> GitHubRelease option" where
  "dec_release v = do {
     fld \<leftarrow> dec_fields [''tag_name'', ''html_url'', ''draft'', ''prerelease'', ''published_at''] [v];
     tag \<leftarrow> dec_string [] (fld ''tag_name'');
     url \<leftarrow> dec_string [] (fld ''html_url'');
     draft \<leftarrow> dec_bool False (fld ''draft'');
     prerelease \<leftarrow> dec_bool False (fld ''prerelease'');
     published \<leftarrow> dec_time zero_time (fld ''published_at'');
     Some \<lparr>ghr_TagName = tag, ghr_HTMLURL = url, ghr_Draft = draft, ghr_Prerelease = prerelease\<rparr> }"

definition release_version :: "GitHubRelease \<Rightarrow> string" where
  "release_version r = TrimPrefix (TrimSpace (ghr_TagName r)) ''v''"

definition release_catalog :: "GitHubRelease \<Rightarrow> time \<Rightarrow> HACoreVersionCatalog" where
  "release_catalog r now =
     \<lparr>hvc_CatalogKey = HACatalogStable, hvc_LatestVersion = release_version r,
      hvc_SourceURL = TrimSpace (ghr_HTMLURL r), hvc_Status = HACatalogStatusActive,
      hvc_Metadata = object_text [(''provider'', quote ''github_releases_latest'')],
      hvc_FetchedAt = UTC now, hvc_ExpiresAt = zero_time\<rparr>"

definition github_request :: "string \<Rightarrow> go_error + HttpCall" where
  "github_request url = NewRequest ''GET'' (github_url url) [(''Accept'', ''application/vnd.github+json'')] []"

definition github_FetchLatestStable ::
  "'w HttpClient \<Rightarrow> ('w, time) effect \<Rightarrow> string \<Rightarrow> ('w, HACoreVersionCatalog) op" where
  "github_FetchLatestStable client clock url =
     bindE (wrapE ''build Home Assistant release request'' (pureE (github_request url))) (\<lambda>request.
     bindE (wrapE ''fetch Home Assistant latest release'' (client request)) (\<lambda>answer.
     bindE (failIf (\<not> ok_status answer)
              (Errorf ''fetch Home Assistant latest release: status %d'' [int_text (han_StatusCode answer)])) (\<lambda>_.
     bindE (required (Option.bind (decode_first answer) dec_release)
              (Errorf ''decode Home Assistant latest release: %w'' [])) (\<lambda>r.
     bindE (failIf (ghr_Draft r \<or> ghr_Prerelease r)
              (Errorf ''latest Home Assistant release is not stable'' [])) (\<lambda>_.
     bindE (failIf (release_version r = []) (Errorf ''latest Home Assistant release tag is empty'' [])) (\<lambda>_.
     bindE (liftE clock) (\<lambda>now.
     ret (release_catalog r now))))))))"

section \<open>What the clients send\<close>

context http_client
begin

text \<open>At most one request, the one that was built.\<close>

definition sends :: "(HttpCall \<Rightarrow> bool) \<Rightarrow> 'w \<Rightarrow> 'w \<Rightarrow> bool" where
  "sends P w w' \<longleftrightarrow> sent w' = sent w \<or> (\<exists>c. sent w' = sent w @ [c] \<and> P c)"

lemma doJSON_sends:
  assumes "hhc_httpClient c = client" and "P request"
  shows "wp (doJSON c request decode) (\<lambda>_. sends P w) (\<lambda>_. sends P w) w"
  using assms(2) unfolding doJSON_def assms(1)
  by (auto simp: wp_simps sends_def split: option.split intro!: wp_Do)

lemma postJSON_sends:
  assumes "hhc_httpClient c = client"
  shows "wp (postJSON c path bearer payload decode)
    (\<lambda>_. sends (\<lambda>r. hcl_Method r = ''POST'' \<and> hcl_URL r = hhc_baseURL c @ path \<and> hcl_Body r = payload) w)
    (\<lambda>_. sends (\<lambda>r. hcl_Method r = ''POST'' \<and> hcl_URL r = hhc_baseURL c @ path \<and> hcl_Body r = payload) w) w"
  unfolding postJSON_def
  by (auto simp: wp_simps NewRequest_def split: sum.split option.split intro!: doJSON_sends [OF assms])
    (simp_all add: sends_def)

lemma getJSON_sends:
  assumes "hhc_httpClient c = client"
  shows "wp (getJSON c path bearer decode)
    (\<lambda>_. sends (\<lambda>r. hcl_Method r = ''GET'' \<and> hcl_URL r = hhc_baseURL c @ path \<and> hcl_Body r = []) w)
    (\<lambda>_. sends (\<lambda>r. hcl_Method r = ''GET'' \<and> hcl_URL r = hhc_baseURL c @ path \<and> hcl_Body r = []) w) w"
  unfolding getJSON_def
  by (auto simp: wp_simps NewRequest_def split: sum.split option.split intro!: doJSON_sends [OF assms])
    (simp_all add: sends_def)

lemma resend_sends:
  "wp (resend_SendEmail client cfg m)
    (\<lambda>r w'. (\<exists>c. sent w' = sent w @ [c] \<and> hcl_URL c = rsc_APIURL cfg \<and> hcl_Body c = resend_payload cfg m \<and>
       hcl_Header c = resend_headers cfg m) \<and>
       prs_ProviderMessageID r \<noteq> [])
    (\<lambda>_. sends (\<lambda>c. hcl_URL c = rsc_APIURL cfg \<and> hcl_Body c = resend_payload cfg m \<and>
       hcl_Header c = resend_headers cfg m) w) w"
  unfolding resend_SendEmail_def
  by (auto simp: wp_simps NewRequest_def sends_def split: option.split intro!: wp_Do)

end

section \<open>Properties\<close>

text \<open>The answer of the release site that a fetched catalog comes from.\<close>

definition stable_answer :: "'w HttpClient \<Rightarrow> string \<Rightarrow> GitHubRelease \<Rightarrow> bool" where
  "stable_answer client url r \<longleftrightarrow>
     (\<exists>request w a w'. github_request url = Inr request \<and> client request w = (Inr a, w') \<and> ok_status a \<and>
        Option.bind (decode_first a) dec_release = Some r \<and> \<not> ghr_Draft r \<and> \<not> ghr_Prerelease r)"

lemma fetched_stable:
  "wp (github_FetchLatestStable client clock url)
    (\<lambda>c _. \<exists>r now. stable_answer client url r \<and> release_version r \<noteq> [] \<and> c = release_catalog r now) (\<lambda>_ _. True) w"
proof (cases "github_request url")
  case (Inr request)
  show ?thesis
    unfolding github_FetchLatestStable_def Inr
    by (simp add: wp_simps, rule wpI)
      (auto simp: wp_simps stable_answer_def Inr split: option.split prod.split)
qed (simp add: github_FetchLatestStable_def wp_simps)

text \<open>C40: A refresh of the Home Assistant catalog that reports no error has the version of a release
  that the site answered with a 2xx status, that is neither a draft nor a prerelease, and whose version parses.
\<close>

theorem refreshed_from_stable_release:
  assumes "hvs_Provider s = Some (github_FetchLatestStable client clock url)"
    and "RefreshLatestStable s w = (Inr (c, None), w')"
  shows "\<exists>r. stable_answer client url r \<and> hvc_LatestVersion c = TrimSpace (release_version r) \<and>
    \<not> isl (parseDottedVersion (hvc_LatestVersion c)) \<and> hvc_Status c = HACatalogStatusActive"
proof -
  let ?ok = "\<lambda>c. \<exists>r. stable_answer client url r \<and> hvc_LatestVersion c = TrimSpace (release_version r) \<and>
    \<not> isl (parseDottedVersion (hvc_LatestVersion c)) \<and> hvc_Status c = HACatalogStatusActive"
  have refreshed: "?ok (refreshed_catalog s now (release_catalog r t))"
    if "stable_answer client url r" "validateHACatalog (refreshed_catalog s now (release_catalog r t)) = None" for r now t
    using that by (auto simp: validateHACatalog_def refreshed_catalog_def release_catalog_def Let_def isl_def
        split: if_splits sum.splits)
  have any: "wp m (\<lambda>_ _. True) (\<lambda>_ _. True) w1" for m :: "('a, 'b) op" and w1 by (rule wpI) simp_all
  have "wp (RefreshLatestStable s) (\<lambda>(c, e) _. e = None \<longrightarrow> ?ok c) (\<lambda>_ _. True) w"
  proof (cases "hvs_Repository s")
    case (Some repo)
    have save: "wp (hvr_SaveHACoreCatalog repo c) (\<lambda>_ _. True) (\<lambda>_ _. True) w1" for c w1 by (rule wpI) simp_all
    have now: "wp (ha_now s) (\<lambda>_ _. True) (\<lambda>_ _. True) w" by (rule wpI) simp_all
    show ?thesis
      unfolding RefreshLatestStable_def Some assms(1)
      by (simp add: wp_simps, rule wp_mono [OF now])
        (simp_all add: wp_simps, rule wp_mono [OF fetched_stable],
         auto simp: wp_simps Let_def intro!: wp_mono [OF save] split: option.split dest: refreshed)
  qed (simp add: RefreshLatestStable_def wp_simps)
  from wp_InrD [OF this assms(2)] show ?thesis by simp
qed

definition demo_release_answer :: HttpAnswer where
  "demo_release_answer = \<lparr>han_StatusCode = 200, han_Header = [],
     han_Body = ''{\"tag_name\":\"2026.1.2\",\"draft\":false}'', han_BodyError = None\<rparr>"

definition demo_release_service :: "http_world HAVersionService" where
  "demo_release_service =
     \<lparr>hvs_Repository = Some \<lparr>hvr_SaveHACoreCatalog = (\<lambda>c. ret ()), hvr_GetHACoreCatalog = (\<lambda>k. fail injected_fault),
        hvr_UpsertHAUpdateAdvisory = (\<lambda>a. ret ())\<rparr>,
      hvs_Provider = Some (github_FetchLatestStable scheduled_client (Pair 5) []), hvs_Clock = None,
      hvs_TimeNow = Pair 5, hvs_TTL = 0\<rparr>"

definition demo_release_world :: http_world where
  "demo_release_world = \<lparr>env_faults = [], env_clock = 0, env_ticks = [], env_ids = [],
     htw_answers = [Inr demo_release_answer], htw_sent = []\<rparr>"

definition demo_release :: GitHubRelease where
  "demo_release = \<lparr>ghr_TagName = ''2026.1.2'', ghr_HTMLURL = [], ghr_Draft = False, ghr_Prerelease = False\<rparr>"

lemma demo_release_parts:
  "Option.bind (decode_first demo_release_answer) dec_release = Some demo_release"
  "github_request [] = Inr \<lparr>hcl_Method = ''GET'', hcl_URL = github_url [],
     hcl_Header = [(''Accept'', ''application/vnd.github+json'')], hcl_Body = []\<rparr>"
  "release_version demo_release = ''2026.1.2''" "TrimSpace ''2026.1.2'' = ''2026.1.2''"
  "validateHACatalog (refreshed_catalog demo_release_service 5 (release_catalog demo_release 5)) = None"
  by code_simp+

lemma demo_refreshed:
  "\<exists>w'. RefreshLatestStable demo_release_service demo_release_world =
     (Inr (refreshed_catalog demo_release_service 5 (release_catalog demo_release 5), None), w')"
proof -
  have "hvs_Provider demo_release_service = Some (github_FetchLatestStable scheduled_client (Pair 5) [])"
    "ha_now demo_release_service = ret 5"
    "hvs_Repository demo_release_service = Some \<lparr>hvr_SaveHACoreCatalog = (\<lambda>c. ret ()),
       hvr_GetHACoreCatalog = (\<lambda>k. fail injected_fault), hvr_UpsertHAUpdateAdvisory = (\<lambda>a. ret ())\<rparr>"
    by (simp_all add: demo_release_service_def ha_now_def clock_now_def fun_eq_iff op_defs UTC_def)
  moreover have "\<exists>w'. github_FetchLatestStable scheduled_client (Pair 5) [] demo_release_world =
      (Inr (release_catalog demo_release 5), w')"
  proof -
    have "scheduled_client c demo_release_world = (Inr demo_release_answer,
        demo_release_world\<lparr>htw_answers := [], htw_sent := [c]\<rparr>)" for c
      by (simp add: scheduled_client_def demo_release_world_def)
    moreover have "ok_status demo_release_answer" by (simp add: ok_status_def demo_release_answer_def)
    moreover have "\<not> ghr_Draft demo_release" "\<not> ghr_Prerelease demo_release" by (simp_all add: demo_release_def)
    ultimately show ?thesis
      by (simp add: github_FetchLatestStable_def demo_release_parts op_defs del: bind_split)
  qed
  ultimately show ?thesis
    by (elim exE) (simp add: RefreshLatestStable_def op_defs Let_def demo_release_parts)
qed

theorem refreshed_from_stable_release_witness:
  "\<exists>r. stable_answer (scheduled_client :: http_world HttpClient) [] r \<and> ''2026.1.2'' = TrimSpace (release_version r)"
proof -
  have provider: "hvs_Provider demo_release_service = Some (github_FetchLatestStable scheduled_client (Pair 5) [])"
    by (simp add: demo_release_service_def)
  obtain w' where w': "RefreshLatestStable demo_release_service demo_release_world =
      (Inr (refreshed_catalog demo_release_service 5 (release_catalog demo_release 5), None), w')"
    using demo_refreshed by blast
  have latest: "hvc_LatestVersion (refreshed_catalog demo_release_service 5 (release_catalog demo_release 5)) = ''2026.1.2''"
    by (simp add: refreshed_catalog_def release_catalog_def demo_release_parts Let_def)
  obtain r where "stable_answer (scheduled_client :: http_world HttpClient) [] r"
    "hvc_LatestVersion (refreshed_catalog demo_release_service 5 (release_catalog demo_release 5)) = TrimSpace (release_version r)"
    using refreshed_from_stable_release [OF provider w'] by blast
  with latest show ?thesis by (intro exI [of _ r]) simp
qed

text \<open>
  The poll token is in the Authorization header only: the address and the body of a finalization are those of the
  request without it. The session is one segment of the path, whatever its identifier is.
\<close>

theorem poll_token_only_in_header:
  fixes w :: "'x http_world_scheme"
  shows "let c = NewHTTPHomeSignalClient scheduled_client base; w' = snd (http_FinalizeClaim c r w) in
    htw_sent w' = htw_sent w \<or>
    (\<exists>call. htw_sent w' = htw_sent w @ [call] \<and>
       hcl_URL call = hhc_baseURL c @ sessions_path @ ''/'' @ PathEscape (fcr_PairingSessionID r) @ ''/finalize'' \<and>
       CHR ''/'' \<notin> set (PathEscape (fcr_PairingSessionID r)) \<and>
       hcl_Body call = finalize_request_text (r\<lparr>fcr_PollToken := []\<rparr>))"
proof -
  have "finalize_request_text (r\<lparr>fcr_PollToken := []\<rparr>) = finalize_request_text r"
    by (simp add: finalize_request_text_def)
  moreover have "CHR ''/'' \<notin> set (PathEscape (fcr_PairingSessionID r))" using PathEscape_plain by fastforce
  moreover have "hhc_httpClient (NewHTTPHomeSignalClient scheduled_client base) = scheduled_client"
    by (simp add: NewHTTPHomeSignalClient_def)
  note wp_worldD [OF scheduled.postJSON_sends [OF this]]
  ultimately show ?thesis
    by (fastforce simp: Let_def http_FinalizeClaim_def scheduled.sends_def)
qed

end
