(* ===== verification/Agent_Runtime.thy ===== *)
theory Agent_Runtime
  imports Enrollment Http_Clients
begin

text \<open>
  The agent's process around the enrollment manager: \<open>homesignal/cmd/agent/main.go\<close> (the options file, the
  start, the pages) and \<open>ui.go\<close> with its template, and \<open>newStatusResponse\<close> of \<open>enrollment_types.go\<close>.

  The file system, the HTTP client, the cryptography and the clock are parameters, and so is the text
  \<open>time.Time.String\<close> of an instant. A page is what the handler writes for a clean path: \<open>ServeMux\<close> redirects the others. The listener,
  the signals and the shutdown are left out, and so are the version numbers the linker sets: they are one record.
\<close>

section \<open>The start\<close>

definition coreAPIBaseURL :: string where
  "coreAPIBaseURL = ''http://supervisor/core/api/''"

record BuildInfo =
  bld_Version :: string
  bld_Commit :: string
  bld_BuildTime :: string

record ('w, 'k) RuntimeState =
  rts_Enrollment :: "('w, 'k) EnrollmentManagerConfig"
  rts_Options :: OptionsState
  rts_SupervisorToken :: bool
  rts_CoreAPIBaseURL :: string
  rts_CoreAPIHasToken :: bool

text \<open>\<open>json.Unmarshal\<close> into a \<open>map[string]interface{}\<close>.\<close>

definition decode_options :: "string \<Rightarrow> (string \<times> json) list option" where
  "decode_options payload =
     (case json_parse payload of
        Some (JObj ms) \<Rightarrow> Some (last_members (map (\<lambda>(k, v). (k, json_any v)) ms))
      | Some JNull \<Rightarrow> Some []
      | _ \<Rightarrow> None)"

definition loadOptions :: "'w FileSystem \<Rightarrow> string \<Rightarrow> ('w, OptionsState) op" where
  "loadOptions fs path =
     bindE (attemptE (fsy_ReadFile fs path)) (\<lambda>r.
     case r of
       Inl e \<Rightarrow>
         if errors_Is e ErrNotExist then ret \<lparr>ops_Present = False, ops_Options = []\<rparr>
         else fail (Wrapf ''read options'' e)
     | Inr payload \<Rightarrow>
         if payload = [] then ret \<lparr>ops_Present = True, ops_Options = []\<rparr>
         else (case decode_options payload of
                 None \<Rightarrow> fail (Errorf ''parse options: %w'' [])
               | Some ms \<Rightarrow> ret \<lparr>ops_Present = True, ops_Options = ms\<rparr>))"

definition enrollment_client_of ::
  "'w HttpClient \<Rightarrow> EnrollmentConfig \<Rightarrow> 'w HomeSignalEnrollmentClient option \<Rightarrow> 'w HomeSignalEnrollmentClient option" where
  "enrollment_client_of http config client =
     (if client = None \<and> enc_HomeSignalAPIBaseURL config \<noteq> []
      then Some (http_enrollment_client (NewHTTPHomeSignalClient http (enc_HomeSignalAPIBaseURL config))) else client)"

definition loadRuntimeStateWithClients ::
  "'w FileSystem \<Rightarrow> ('w, 'k) DeviceCrypto \<Rightarrow> ('w, string) effect \<Rightarrow> 'w HttpClient \<Rightarrow> BuildInfo \<Rightarrow> (string \<Rightarrow> string) \<Rightarrow>
   string \<Rightarrow> string \<Rightarrow> string \<Rightarrow> 'w HomeSignalEnrollmentClient option \<Rightarrow> 'w FleetProvisioningClient option \<Rightarrow>
   ('w, time) effect \<Rightarrow> ('w, ('w, 'k) RuntimeState \<times> DeviceRecord) op" where
  "loadRuntimeStateWithClients fs crypto newID http build env configDir dataDir supervisorToken client provisioner now =
     (let configDir = (if configDir = [] then ''/config'' else configDir);
          dataDir = (if dataDir = [] then ''/data'' else dataDir);
          path = filepath_Join [configDir, ''device.json''] in
      bindE (loadOptions fs (filepath_Join [dataDir, ''options.json''])) (\<lambda>options.
      let config = loadEnrollmentConfig options env in
      bindE (liftE now) (\<lambda>t.
      bindE (loadDeviceRecord fs newID path (UTC t)) (\<lambda>r.
      ret (\<lparr>rts_Enrollment = \<lparr>emc_ConfigDir = configDir, emc_DeviceRecordPath = path, emc_Config = config,
               emc_Client = enrollment_client_of http config client,
               emc_Provisioner = (case provisioner of None \<Rightarrow> UnsupportedFleetProvisioningClient | Some p \<Rightarrow> p),
               emc_Now = now, emc_Version = bld_Version build, emc_Files = fs, emc_Crypto = crypto\<rparr>,
             rts_Options = options, rts_SupervisorToken = (supervisorToken \<noteq> []),
             rts_CoreAPIBaseURL = coreAPIBaseURL, rts_CoreAPIHasToken = (supervisorToken \<noteq> [])\<rparr>, r)))))"

definition loadRuntimeState ::
  "'w FileSystem \<Rightarrow> ('w, 'k) DeviceCrypto \<Rightarrow> ('w, string) effect \<Rightarrow> 'w HttpClient \<Rightarrow> BuildInfo \<Rightarrow> (string \<Rightarrow> string) \<Rightarrow>
   ('w, time) effect \<Rightarrow> string \<Rightarrow> string \<Rightarrow> string \<Rightarrow> ('w, ('w, 'k) RuntimeState \<times> DeviceRecord) op" where
  "loadRuntimeState fs crypto newID http build env system configDir dataDir supervisorToken =
     loadRuntimeStateWithClients fs crypto newID http build env configDir dataDir supervisorToken None None system"

section \<open>The pages\<close>

record statusResponse =
  srs_InstallationID :: string
  srs_ClaimState :: string
  srs_PairingCodeExpiry :: "time option"
  srs_Version :: string
  srs_DeviceID :: string
  srs_IoTThingName :: string
  srs_CertificatePath :: string
  srs_PrivateKeyPath :: string
  srs_HomeSignalConfigured :: bool
  srs_AWSIoTConfigured :: bool
  srs_HomeSignalAPIBaseURL :: string
  srs_AWSIoTEndpoint :: string
  srs_AWSRegion :: string
  srs_DegradedReasons :: "string list"

definition newStatusResponse :: "BuildInfo \<Rightarrow> EnrollmentSnapshot \<Rightarrow> statusResponse" where
  "newStatusResponse build s =
     \<lparr>srs_InstallationID = ess_InstallationID s, srs_ClaimState = ess_ClaimState s,
      srs_PairingCodeExpiry = ess_PairingCodeExpiry s, srs_Version = bld_Version build, srs_DeviceID = ess_DeviceID s,
      srs_IoTThingName = ess_IoTThingName s, srs_CertificatePath = ess_CertificatePath s,
      srs_PrivateKeyPath = ess_PrivateKeyPath s, srs_HomeSignalConfigured = ess_HomeSignalConfigured s,
      srs_AWSIoTConfigured = ess_AWSIoTConfigured s,
      srs_HomeSignalAPIBaseURL = enc_HomeSignalAPIBaseURL (ess_EndpointConfig s),
      srs_AWSIoTEndpoint = enc_AWSIoTEndpoint (ess_EndpointConfig s),
      srs_AWSRegion = enc_AWSRegion (ess_EndpointConfig s), srs_DegradedReasons = ess_DegradedReasons s\<rparr>"

record readyResponse =
  rdy_Ready :: bool
  rdy_Degraded :: bool
  rdy_InstallationID :: string
  rdy_OptionsLoaded :: bool
  rdy_SupervisorToken :: bool
  rdy_CoreAPIBaseURL :: string
  rdy_Status :: string
  rdy_Version :: string
  rdy_ClaimState :: string
  rdy_EnrollmentDegradedReason :: string
  rdy_DegradedReason :: string
  rdy_DegradedReasons :: "string list"

definition readiness :: "BuildInfo \<Rightarrow> ('w, 'k) RuntimeState \<Rightarrow> EnrollmentSnapshot \<Rightarrow> readyResponse" where
  "readiness build state s =
     (let reasons = (if rts_SupervisorToken state then []
            else [''SUPERVISOR_TOKEN is not present; Supervisor and Core API calls are disabled'']) @ ess_DegradedReasons s;
          degraded = (reasons \<noteq> []) in
      \<lparr>rdy_Ready = True, rdy_Degraded = degraded, rdy_InstallationID = ess_InstallationID s,
       rdy_OptionsLoaded = ops_Present (rts_Options state), rdy_SupervisorToken = rts_SupervisorToken state,
       rdy_CoreAPIBaseURL = rts_CoreAPIBaseURL state, rdy_Status = (if degraded then ''degraded'' else ''ready''),
       rdy_Version = bld_Version build, rdy_ClaimState = ess_ClaimState s,
       rdy_EnrollmentDegradedReason = Join (ess_DegradedReasons s) ''; '',
       rdy_DegradedReason = Join reasons ''; '', rdy_DegradedReasons = reasons\<rparr>)"

text \<open>What \<open>json.Encoder\<close> writes; nothing if a time cannot be encoded.\<close>

definition strings_field :: "string \<Rightarrow> string list \<Rightarrow> (string \<times> string) list" where
  "strings_field name vs = (if vs = [] then [] else [(name, ''['' @ Join (map quote vs) '','' @ '']'')])"

definition encoded :: "(string \<times> string) list \<Rightarrow> string" where
  "encoded ms = object_text ms @ [CHR 0x0A]"

definition status_page_text :: "statusResponse \<Rightarrow> string" where
  "status_page_text r =
     (case time_field ''pairing_code_expiry'' (srs_PairingCodeExpiry r) of
        Inl e \<Rightarrow> []
      | Inr expiry \<Rightarrow> encoded
          ([(''installation_id'', quote (srs_InstallationID r)), (''claim_state'', quote (srs_ClaimState r))] @ expiry @
           [(''version'', quote (srs_Version r))] @ string_field ''device_id'' (srs_DeviceID r) @
           string_field ''iot_thing_name'' (srs_IoTThingName r) @
           string_field ''certificate_path'' (srs_CertificatePath r) @
           string_field ''private_key_path'' (srs_PrivateKeyPath r) @
           [(''homesignal_configured'', bool_text (srs_HomeSignalConfigured r)),
            (''aws_iot_configured'', bool_text (srs_AWSIoTConfigured r))] @
           string_field ''homesignal_api_base_url'' (srs_HomeSignalAPIBaseURL r) @
           string_field ''aws_iot_endpoint'' (srs_AWSIoTEndpoint r) @ string_field ''aws_region'' (srs_AWSRegion r) @
           strings_field ''degraded_reasons'' (srs_DegradedReasons r)))"

definition ready_text :: "readyResponse \<Rightarrow> string" where
  "ready_text r = encoded
     ([(''ready'', bool_text (rdy_Ready r)), (''degraded'', bool_text (rdy_Degraded r))] @
      string_field ''installation_id'' (rdy_InstallationID r) @
      [(''options_loaded'', bool_text (rdy_OptionsLoaded r)), (''supervisor_token'', bool_text (rdy_SupervisorToken r)),
       (''core_api_base_url'', quote (rdy_CoreAPIBaseURL r)), (''status'', quote (rdy_Status r)),
       (''version'', quote (rdy_Version r)), (''claim_state'', quote (rdy_ClaimState r))] @
      string_field ''enrollment_degraded_reason'' (rdy_EnrollmentDegradedReason r) @
      string_field ''degraded_reason'' (rdy_DegradedReason r) @ strings_field ''degraded_reasons'' (rdy_DegradedReasons r))"

record uiView =
  uiv_Ready :: readyResponse
  uiv_Status :: statusResponse
  uiv_PairingCode :: string
  uiv_PairingCodeVisible :: bool
  uiv_Message :: string

definition newUIView :: "BuildInfo \<Rightarrow> EnrollmentSnapshot \<Rightarrow> readyResponse \<Rightarrow> uiView" where
  "newUIView build s ready =
     \<lparr>uiv_Ready = ready, uiv_Status = newStatusResponse build s, uiv_PairingCode = ess_PairingCode s,
      uiv_PairingCodeVisible = (ess_PairingCode s \<noteq> [] \<and>
        (ess_ClaimState s = ClaimStateUnclaimed \<or> ess_ClaimState s = ClaimStatePairingPending)),
      uiv_Message = ess_EnrollmentStatusMessage s\<rparr>"

section \<open>The template\<close>

text \<open>\<open>html/template\<close> in the text of an element.\<close>

definition page_char :: "char \<Rightarrow> string" where
  "page_char c =
     (if c = CHR 0x00 then replacement
      else if c = CHR 0x22 then ''&#34;'' else if c = CHR ''&'' then ''&amp;'' else if c = CHR 0x27 then ''&#39;''
      else if c = CHR ''+'' then ''&#43;'' else if c = CHR ''<'' then ''&lt;'' else if c = CHR ''>'' then ''&gt;''
      else [c])"

definition html :: "string \<Rightarrow> string" where
  "html s = concat (map page_char s)"

definition lines_of :: "string list \<Rightarrow> string" where
  "lines_of ls = Join ls [CHR 0x0A]"

definition ui_head :: string where
  "ui_head = lines_of [''<!doctype html>'',
       ''<html lang=\"en\">'',
       ''<head>'',
       ''  <meta charset=\"utf-8\">'',
       ''  <meta name=\"viewport\" content=\"width=device-width, initial-scale=1\">'',
       ''  <title>HomeSignal</title>'',
       ''  <style>'',
       ''    :root { color-scheme: light dark; font-family: -apple-system, BlinkMacSystemFont, \"Segoe UI\", sans-serif; }'',
       ''    body { margin: 0; padding: 2rem; background: Canvas; color: CanvasText; }'',
       ''    main { max-width: 760px; margin: 0 auto; }'',
       ''    h1 { margin: 0 0 0.5rem; font-size: 1.75rem; letter-spacing: 0; }'',
       ''    h2 { margin: 1.5rem 0 0.75rem; font-size: 1.1rem; letter-spacing: 0; }'',
       ''    .status { display: inline-block; margin: 1rem 0; padding: 0.35rem 0.65rem; border-radius: 0.4rem; border: 1px solid ButtonBorder; }'',
       ''    .code { display: inline-block; margin: 0.5rem 0 1rem; padding: 0.6rem 0.8rem; border: 1px solid ButtonBorder; border-radius: 0.4rem; font-size: 1.5rem; font-weight: 700; letter-spacing: 0.08em; }'',
       ''    dl { display: grid; grid-template-columns: minmax(8rem, 15rem) 1fr; gap: 0.75rem 1rem; }'',
       ''    dt { font-weight: 650; }'',
       ''    dd { margin: 0; overflow-wrap: anywhere; }'',
       ''    code { font-family: ui-monospace, SFMono-Regular, Menlo, Consolas, monospace; }'',
       ''    .muted { color: GrayText; }'',
       ''  </style>'',
       ''</head>'',
       ''<body>'',
       ''  <main>'',
       ''    <h1>HomeSignal</h1>'',
       ''    <p>'']"

definition ui_pairing :: "(time \<Rightarrow> string) \<Rightarrow> uiView \<Rightarrow> string" where
  "ui_pairing show_time v =
     lines_of ['''',
       ''      <h2>Pairing Code</h2>'',
       ''      <div class=\"code\">''] @ html (uiv_PairingCode v) @
     lines_of [''</div>'',
       ''      ''] @
     (case srs_PairingCodeExpiry (uiv_Status v) of
        None \<Rightarrow> []
      | Some t \<Rightarrow> ''<p class=\"muted\">Expires at <code>'' @ html (show_time t) @ ''</code></p>'') @
     lines_of ['''',
       ''    '']"

definition ui_claimed :: "uiView \<Rightarrow> string" where
  "ui_claimed v =
     lines_of ['''',
       ''      <h2>Claimed Device</h2>'',
       ''      <dl>'',
       ''        <dt>Device ID</dt><dd><code>''] @ html (srs_DeviceID (uiv_Status v)) @
     lines_of [''</code></dd>'',
       ''        <dt>IoT Thing</dt><dd><code>''] @ html (srs_IoTThingName (uiv_Status v)) @
     lines_of [''</code></dd>'',
       ''      </dl>'',
       ''    '']"

definition ui_revoked :: string where
  "ui_revoked = lines_of ['''',
       ''      <h2>Revoked</h2>'',
       ''      <p class=\"muted\">This app is in a safe revoked state. Release cleanup is not implemented in this build.</p>'',
       ''    '']"

definition ui_waiting :: string where
  "ui_waiting = lines_of ['''',
       ''      <h2>Enrollment</h2>'',
       ''      <p class=\"muted\">A claimable pairing code is not currently available.</p>'',
       ''    '']"

definition ui_status :: "uiView \<Rightarrow> string" where
  "ui_status v =
     lines_of ['''',
       '''',
       ''    <h2>Status</h2>'',
       ''    <dl>'',
       ''      <dt>Installation ID</dt><dd><code>''] @ html (srs_InstallationID (uiv_Status v)) @
     lines_of [''</code></dd>'',
       ''      <dt>Version</dt><dd><code>''] @ html (srs_Version (uiv_Status v)) @
     lines_of [''</code></dd>'',
       ''      <dt>HomeSignal API</dt><dd>''] @ bool_text (srs_HomeSignalConfigured (uiv_Status v)) @
     lines_of [''</dd>'',
       ''      <dt>AWS IoT</dt><dd>''] @ bool_text (srs_AWSIoTConfigured (uiv_Status v)) @
     lines_of [''</dd>'',
       ''      <dt>Options loaded</dt><dd>''] @ bool_text (rdy_OptionsLoaded (uiv_Ready v)) @
     lines_of [''</dd>'',
       ''      <dt>Supervisor token</dt><dd>''] @ bool_text (rdy_SupervisorToken (uiv_Ready v)) @
     lines_of [''</dd>'',
       ''      <dt>Core API</dt><dd><code>''] @ html (rdy_CoreAPIBaseURL (uiv_Ready v)) @
     lines_of [''</code></dd>'',
       ''      ''] @
     (if rdy_DegradedReason (uiv_Ready v) = [] then []
      else ''<dt>Degraded reason</dt><dd>'' @ html (rdy_DegradedReason (uiv_Ready v)) @ ''</dd>'') @
     lines_of ['''',
       ''    </dl>'',
       ''  </main>'',
       ''</body>'',
       ''</html>'',
       '''']"

definition ui_page :: "(time \<Rightarrow> string) \<Rightarrow> uiView \<Rightarrow> string" where
  "ui_page show_time v =
     ui_head @ html (uiv_Message v) @
     lines_of [''</p>'',
       ''    <div class=\"status\">''] @ html (srs_ClaimState (uiv_Status v)) @
     lines_of [''</div>'',
       '''',
       ''    ''] @
     (if uiv_PairingCodeVisible v then ui_pairing show_time v
      else if srs_ClaimState (uiv_Status v) = ''CLAIMED'' then ui_claimed v
      else if srs_ClaimState (uiv_Status v) = ''REVOKED'' then ui_revoked
      else ui_waiting) @
     ui_status v"

section \<open>The router\<close>

record AgentAnswer =
  aan_Status :: nat
  aan_ContentType :: string
  aan_Body :: string

definition agent_writeJSON :: "string \<Rightarrow> AgentAnswer" where
  "agent_writeJSON body = \<lparr>aan_Status = 200, aan_ContentType = ''application/json'', aan_Body = body\<rparr>"

definition uiHandler ::
  "(time \<Rightarrow> string) \<Rightarrow> BuildInfo \<Rightarrow> ('w, 'k) RuntimeState \<Rightarrow> EnrollmentSnapshot \<Rightarrow> AgentAnswer" where
  "uiHandler show_time build state s =
     \<lparr>aan_Status = 200, aan_ContentType = ''text/html; charset=utf-8'',
      aan_Body = ui_page show_time (newUIView build s (readiness build state s))\<rparr>"

definition healthHandler :: AgentAnswer where
  "healthHandler = agent_writeJSON (encoded [(''status'', quote ''ok'')])"

definition versionHandler :: "BuildInfo \<Rightarrow> AgentAnswer" where
  "versionHandler build = agent_writeJSON (encoded [(''build_time'', quote (bld_BuildTime build)),
     (''commit'', quote (bld_Commit build)), (''version'', quote (bld_Version build))])"

definition route_request ::
  "(time \<Rightarrow> string) \<Rightarrow> BuildInfo \<Rightarrow> ('w, 'k) RuntimeState \<Rightarrow> EnrollmentSnapshot \<Rightarrow> string \<Rightarrow> AgentAnswer" where
  "route_request show_time build state s path =
     (if path = ''/healthz'' then healthHandler
      else if path = ''/readyz'' then agent_writeJSON (ready_text (readiness build state s))
      else if path = ''/status'' then agent_writeJSON (status_page_text (newStatusResponse build s))
      else if path = ''/version'' then versionHandler build
      else if path = ''/ui'' \<or> path = ''/'' \<or> HasSuffix path ''/ui'' then uiHandler show_time build state s
      else \<lparr>aan_Status = 404, aan_ContentType = ''text/plain; charset=utf-8'',
            aan_Body = ''404 page not found'' @ [CHR 0x0A]\<rparr>)"

text \<open>The answer to a request while the manager is in the state \<open>m\<close>.\<close>

definition newRouter ::
  "(time \<Rightarrow> string) \<Rightarrow> BuildInfo \<Rightarrow> ('w, 'k) RuntimeState \<Rightarrow> 'w EnrollmentManager \<Rightarrow> string \<Rightarrow> AgentAnswer" where
  "newRouter show_time build state m path =
     route_request show_time build state (Snapshot (rts_Enrollment state) m) path"

section \<open>What the pages show\<close>

text \<open>An escaped text opens no element and closes none.\<close>

lemma html_plain: "c \<in> set (html s) \<Longrightarrow> c \<noteq> CHR ''<'' \<and> c \<noteq> CHR ''>'' \<and> c \<noteq> CHR 0x22"
  by (auto simp: html_def page_char_def replacement_def split: if_splits)

lemma ui_page_hides:
  "\<not> uiv_PairingCodeVisible v \<Longrightarrow> ui_page show_time (v\<lparr>uiv_PairingCode := code\<rparr>) = ui_page show_time v"
  by (simp add: ui_page_def ui_claimed_def ui_status_def)

lemma route_request_hides:
  assumes "ess_ClaimState s \<noteq> ClaimStateUnclaimed" and "ess_ClaimState s \<noteq> ClaimStatePairingPending"
  shows "route_request show_time build state (s\<lparr>ess_PairingCode := code\<rparr>) path = route_request show_time build state s path"
proof -
  have view: "newUIView build (s\<lparr>ess_PairingCode := code\<rparr>) ready =
      (newUIView build s ready)\<lparr>uiv_PairingCode := code\<rparr>" for ready
    using assms by (simp add: newUIView_def newStatusResponse_def)
  have "\<not> uiv_PairingCodeVisible (newUIView build s ready)" for ready
    using assms by (simp add: newUIView_def)
  then have "uiHandler show_time build state (s\<lparr>ess_PairingCode := code\<rparr>) = uiHandler show_time build state s"
    by (simp add: uiHandler_def readiness_def view ui_page_hides)
  then show ?thesis by (simp add: route_request_def readiness_def newStatusResponse_def)
qed

section \<open>Properties\<close>

text \<open>The pairing code is on the page of the user interface only, and only while the device can be claimed:
  every other answer of the agent is the same whatever the code is.
\<close>

theorem pairing_code_hidden:
  assumes "dvr_ClaimState (emg_record m) \<notin> {ClaimStateUnclaimed, ClaimStatePairingPending} \<or>
    path \<in> {''/healthz'', ''/readyz'', ''/status'', ''/version''}"
  shows "newRouter show_time build state (m\<lparr>emg_pairingCode := code\<rparr>) path = newRouter show_time build state m path"
proof -
  let ?s = "Snapshot (rts_Enrollment state) m"
  have same: "Snapshot (rts_Enrollment state) (m\<lparr>emg_pairingCode := code\<rparr>) = ?s\<lparr>ess_PairingCode := code\<rparr>"
    by (simp add: Snapshot_def statusMessage_def Let_def)
  have "ess_ClaimState ?s = dvr_ClaimState (emg_record m)" by (simp add: Snapshot_def Let_def)
  then show ?thesis using assms unfolding newRouter_def same
    by (auto simp: route_request_hides) (auto simp: route_request_def readiness_def newStatusResponse_def)
qed

definition demo_runtime :: "(unit, unit) RuntimeState" where
  "demo_runtime =
     \<lparr>rts_Enrollment = \<lparr>emc_ConfigDir = ''/config'', emc_DeviceRecordPath = ''/config/device.json'',
        emc_Config = loadEnrollmentConfig \<lparr>ops_Present = False, ops_Options = []\<rparr> (\<lambda>_. []), emc_Client = None,
        emc_Provisioner = UnsupportedFleetProvisioningClient, emc_Now = Pair 0, emc_Version = ''1'',
        emc_Files = \<lparr>fsy_MkdirAll = (\<lambda>_. ret ()), fsy_WriteFile = (\<lambda>_ _. ret ()), fsy_Chmod = (\<lambda>_. ret ()),
          fsy_ReadFile = (\<lambda>_. fail ErrNotExist), fsy_Remove = (\<lambda>_. ret ()), fsy_Stat = (\<lambda>_. fail ErrNotExist)\<rparr>,
        emc_Crypto = \<lparr>dcr_ParseKey = (\<lambda>_. Inr ()), dcr_EncodeKey = (\<lambda>_. []), dcr_GenerateKey = ret (),
          dcr_CreateRequest = (\<lambda>_ _. ret [])\<rparr>\<rparr>,
      rts_Options = \<lparr>ops_Present = False, ops_Options = []\<rparr>, rts_SupervisorToken = True,
      rts_CoreAPIBaseURL = coreAPIBaseURL, rts_CoreAPIHasToken = True\<rparr>"

definition demo_claimed :: "unit EnrollmentManager" where
  "demo_claimed = \<lparr>emg_record = empty_device_record\<lparr>dvr_ClaimState := ClaimStateClaimed\<rparr>, emg_pairingCode = ''ABCD'',
     emg_degradedReasons = [], emg_world = ()\<rparr>"

theorem pairing_code_hidden_witness:
  "newRouter (\<lambda>t. []) \<lparr>bld_Version = ''1'', bld_Commit = [], bld_BuildTime = []\<rparr> demo_runtime
      (demo_claimed\<lparr>emg_pairingCode := []\<rparr>) ''/ui'' =
   newRouter (\<lambda>t. []) \<lparr>bld_Version = ''1'', bld_Commit = [], bld_BuildTime = []\<rparr> demo_runtime demo_claimed ''/ui''"
  by (rule pairing_code_hidden) (simp add: demo_claimed_def claim_states)

end
