(* ===== verification/Platform_Config.thy ===== *)
theory Platform_Config
  imports Release_Versions Migration_Store Authn
begin

text \<open>
  Configuration and small platform code of the backend: \<open>backend/internal/platform/config/config.go\<close>,
  \<open>platform/database/config.go\<close> and \<open>tx.go\<close>, and \<open>ReadString\<close> of \<open>platform/secrets/secretsmanager.go\<close>.

  The environment is a function, \<open>os.Getenv\<close>: an unset variable is the empty string. The SQL driver and the
  Secrets Manager are parameters. \<open>time.ParseDuration\<close> computes a fraction exactly; Go's floating-point product
  may differ from it in the last nanosecond if the fraction has digits below a nanosecond.
\<close>

section \<open>The service configuration\<close>

record Config =
  cfg_Environment :: string
  cfg_ServiceName :: string
  cfg_Version :: string
  cfg_HTTPAddr :: string
  cfg_AWSRegion :: string

definition validateEnvironment :: "string \<Rightarrow> go_error option" where
  "validateEnvironment environment =
     (if environment \<in> set [''local'', ''test'', ''staging'', ''production''] then None
      else if environment \<in> set [''dev'', ''development''] then
        Some (Errorf ''HOMESIGNAL_ENV=%q is not a launch environment; use local or staging'' [environment])
      else Some (Errorf ''unsupported HOMESIGNAL_ENV=%q'' [environment]))"

definition Load :: "(string \<Rightarrow> string) \<Rightarrow> string \<Rightarrow> go_error + Config" where
  "Load env defaultVersion =
     (let version = getenvDefault env ''HOMESIGNAL_VERSION'' defaultVersion;
          c = \<lparr>cfg_Environment = getenvDefault env ''HOMESIGNAL_ENV'' ''local'',
               cfg_ServiceName = getenvDefault env ''HOMESIGNAL_SERVICE_NAME'' ''control-plane'',
               cfg_Version = (if version = [] then ''dev'' else version),
               cfg_HTTPAddr = getenvDefault env ''HOMESIGNAL_HTTP_ADDR'' '':8080'',
               cfg_AWSRegion = getenvDefault env ''HOMESIGNAL_AWS_REGION'' (env ''AWS_REGION'')\<rparr> in
      case validateEnvironment (cfg_Environment c) of
        Some e \<Rightarrow> Inl e
      | None \<Rightarrow>
          (case first_error
              [(cfg_ServiceName c = [], Errorf ''HOMESIGNAL_SERVICE_NAME must not be empty'' []),
               (cfg_HTTPAddr c = [], Errorf ''HOMESIGNAL_HTTP_ADDR must not be empty'' [])] of
             Some e \<Rightarrow> Inl e
           | None \<Rightarrow> Inr c))"

section \<open>Durations\<close>

text \<open>\<open>leadingInt\<close>: None on overflow.\<close>

fun leadingInt :: "nat \<Rightarrow> string \<Rightarrow> (nat \<times> string) option" where
  "leadingInt x [] = Some (x, [])"
| "leadingInt x (c # s) =
     (if \<not> is_digit c then Some (x, c # s)
      else if x > 2 ^ 63 div 10 then None
      else let y = x * 10 + digit_value c in if y > 2 ^ 63 then None else leadingInt y s)"

text \<open>\<open>leadingFraction\<close>: digits past an overflow are skipped. The scale is \<open>10 ^ k\<close>.\<close>

fun leadingFraction :: "bool \<Rightarrow> nat \<Rightarrow> nat \<Rightarrow> string \<Rightarrow> nat \<times> nat \<times> string" where
  "leadingFraction overflow x scale [] = (x, scale, [])"
| "leadingFraction overflow x scale (c # s) =
     (if \<not> is_digit c then (x, scale, c # s)
      else if overflow \<or> x > (2 ^ 63 - 1) div 10 \<or> x * 10 + digit_value c > 2 ^ 63
        then leadingFraction True x scale s
      else leadingFraction False (x * 10 + digit_value c) (scale * 10) s)"

definition duration_unit :: "string \<Rightarrow> nat option" where
  "duration_unit u = map_of
     [(''ns'', 1), (''us'', 1000), ([CHR 0xC2, CHR 0xB5, CHR ''s''], 1000), ([CHR 0xCE, CHR 0xBC, CHR ''s''], 1000),
      (''ms'', 1000000), (''s'', 1000000000), (''m'', 60000000000), (''h'', 3600000000000)] u"

text \<open>The part of one unit: its value in nanoseconds and the rest.\<close>

definition duration_part :: "string \<Rightarrow> (nat \<times> string) option" where
  "duration_part s =
     (case leadingInt 0 s of
        None \<Rightarrow> None
      | Some (v, s1) \<Rightarrow>
          let (f, scale, s2) = (if s1 \<noteq> [] \<and> hd s1 = CHR ''.'' then leadingFraction False 0 1 (tl s1) else (0, 1, s1));
              pre = (length s1 \<noteq> length s);
              post = (s1 \<noteq> [] \<and> hd s1 = CHR ''.'' \<and> length s2 \<noteq> length (tl s1));
              u = takeWhile (\<lambda>c. c \<noteq> CHR ''.'' \<and> \<not> is_digit c) s2 in
          if \<not> pre \<and> \<not> post then None
          else
            (case duration_unit u of
               None \<Rightarrow> None
             | Some unit \<Rightarrow>
                 if v > 2 ^ 63 div unit then None
                 else let total = v * unit + f * unit div scale in
                      if f > 0 \<and> total > 2 ^ 63 then None else Some (total, drop (length u) s2)))"

lemma leadingInt_length: "leadingInt x s = Some (v, r) \<Longrightarrow> length r \<le> length s"
  by (induction x s rule: leadingInt.induct) (auto simp: Let_def split: if_splits)

lemma leadingFraction_length: "leadingFraction ov x sc s = (f, t, r) \<Longrightarrow> length r \<le> length s"
  by (induction ov x sc s rule: leadingFraction.induct) (auto split: if_splits)

lemma duration_part_length: "duration_part s = Some (v, r) \<Longrightarrow> length r < length s"
proof -
  assume part: "duration_part s = Some (v, r)"
  then obtain n s1 where lead: "leadingInt 0 s = Some (n, s1)"
    by (auto simp: duration_part_def split: option.splits)
  let ?dot = "s1 \<noteq> [] \<and> hd s1 = CHR ''.''"
  obtain f sc s2 where frac: "(if ?dot then leadingFraction False 0 1 (tl s1) else (0, 1, s1)) = (f, sc, s2)"
    by (metis prod_cases3)
  let ?u = "takeWhile (\<lambda>c. c \<noteq> CHR ''.'' \<and> \<not> is_digit c) s2"
  have "length s2 \<le> length s1"
    using frac leadingFraction_length [of False 0 1 "tl s1" f sc s2] by (auto split: if_splits)
  moreover have "length s1 \<le> length s" using leadingInt_length [OF lead] .
  moreover have u: "?u \<noteq> []" "r = drop (length ?u) s2"
    using part by (auto simp: duration_part_def lead frac Let_def duration_unit_def split: if_splits option.splits)
  moreover have "length ?u \<le> length s2" by (rule length_takeWhile_le)
  ultimately show "length r < length s" by (cases ?u) auto
qed

function duration_parts :: "nat \<Rightarrow> string \<Rightarrow> nat option" where
  "duration_parts d s =
     (if s = [] then Some d
      else if \<not> (hd s = CHR ''.'' \<or> is_digit (hd s)) then None
      else
        (case duration_part s of
           None \<Rightarrow> None
         | Some (v, rest) \<Rightarrow> if d + v > 2 ^ 63 then None else duration_parts (d + v) rest))"
  by pat_completeness auto
termination
  by (relation "measure (\<lambda>(d, s). length s)") (auto dest: duration_part_length)

declare duration_parts.simps [simp del]

definition ParseDuration :: "string \<Rightarrow> duration option" where
  "ParseDuration text =
     (let neg = HasPrefix text ''-''; s = (if neg \<or> HasPrefix text ''+'' then drop 1 text else text) in
      if s = ''0'' then Some 0
      else if s = [] then None
      else
        (case duration_parts 0 s of
           None \<Rightarrow> None
         | Some d \<Rightarrow> if neg then Some (- int d) else if d > 2 ^ 63 - 1 then None else Some (int d)))"

lemma ParseDuration_examples:
  "ParseDuration ''30m'' = Some (30 * Minute)" "ParseDuration ''1h15m30.5s'' = Some (Hour + 15 * Minute + 30500000000)"
  "ParseDuration ''-1.5h'' = Some (- (90 * Minute))" "ParseDuration ''30'' = None" "ParseDuration '''' = None"
  "ParseDuration ''0'' = Some 0" "ParseDuration ''.5s'' = Some 500000000" "ParseDuration ''.s'' = None"
  by (simp_all add: ParseDuration_def HasPrefix_def duration_parts.simps duration_part_def duration_unit_def
      is_digit_def digit_value_def byte_def Hour_def Minute_def Second_def Let_def)

section \<open>The database configuration\<close>

record DatabaseConfig =
  dbc_URL :: string
  dbc_SecretID :: string
  dbc_MaxOpenConns :: int
  dbc_MaxIdleConns :: int
  dbc_ConnMaxLifetime :: duration

definition first_set :: "string list \<Rightarrow> string" where
  "first_set values = (case find (\<lambda>v. v \<noteq> []) values of None \<Rightarrow> [] | Some v \<Rightarrow> v)"

definition envInt :: "(string \<Rightarrow> string) \<Rightarrow> string \<Rightarrow> int \<Rightarrow> int" where
  "envInt env name fallback =
     (if env name = [] then fallback else case Atoi (env name) of None \<Rightarrow> fallback | Some v \<Rightarrow> v)"

definition envDuration :: "(string \<Rightarrow> string) \<Rightarrow> string \<Rightarrow> duration \<Rightarrow> duration" where
  "envDuration env name fallback =
     (if env name = [] then fallback else case ParseDuration (env name) of None \<Rightarrow> fallback | Some v \<Rightarrow> v)"

definition LoadConfigFromEnv :: "(string \<Rightarrow> string) \<Rightarrow> DatabaseConfig" where
  "LoadConfigFromEnv env =
     \<lparr>dbc_URL = first_set [env ''HOMESIGNAL_DATABASE_URL'', env ''DATABASE_URL''],
      dbc_SecretID = env ''HOMESIGNAL_DATABASE_SECRET_ID'',
      dbc_MaxOpenConns = envInt env ''HOMESIGNAL_DATABASE_MAX_OPEN_CONNS'' 5,
      dbc_MaxIdleConns = envInt env ''HOMESIGNAL_DATABASE_MAX_IDLE_CONNS'' 2,
      dbc_ConnMaxLifetime = envDuration env ''HOMESIGNAL_DATABASE_CONN_MAX_LIFETIME'' (30 * Minute)\<rparr>"

definition validate_database :: "DatabaseConfig \<Rightarrow> go_error option" where
  "validate_database c = first_error
     [(dbc_URL c = [], Errorf ''database URL is required'' []),
      (dbc_MaxOpenConns c < 1, Errorf ''max open connections must be greater than zero'' []),
      (dbc_MaxIdleConns c < 0, Errorf ''max idle connections must not be negative'' []),
      (dbc_MaxOpenConns c < dbc_MaxIdleConns c, Errorf ''max idle connections must not exceed max open connections'' []),
      (dbc_ConnMaxLifetime c < 0, Errorf ''connection max lifetime must not be negative'' [])]"

text \<open>\<open>sql.Open\<close> and the pool settings are \<open>sql_open\<close> of the configuration, \<open>PingContext\<close> and \<open>Close\<close> operations on the handle.\<close>

definition open_database ::
  "(DatabaseConfig \<Rightarrow> ('w, 'db) op) \<Rightarrow> ('db \<Rightarrow> ('w, unit) op) \<Rightarrow> ('db \<Rightarrow> ('w, unit) op) \<Rightarrow> DatabaseConfig \<Rightarrow> ('w, 'db) op" where
  "open_database sql_open ping close c =
     bindE (check (validate_database c)) (\<lambda>_.
     bindE (wrapE ''open database'' (sql_open c)) (\<lambda>db.
     bindE (attemptE (ping db)) (\<lambda>r.
     case r of
       Inl e \<Rightarrow> bindE (ignoreE (close db)) (\<lambda>_. fail (Wrapf ''ping database'' e))
     | Inr _ \<Rightarrow> ret db)))"

section \<open>Secrets\<close>

definition ReadString :: "(string \<Rightarrow> ('w, string option) op) option \<Rightarrow> string \<Rightarrow> ('w, string) op" where
  "ReadString client secretID =
     bindE (required client (Errorf ''Secrets Manager client is required'' [])) (\<lambda>getSecretValue.
     let i = TrimSpace secretID in
     bindE (failIf (i = []) (Errorf ''secret id is required'' [])) (\<lambda>_.
     bindE (wrapE ''get secret value'' (getSecretValue i)) (\<lambda>out.
     case out of
       None \<Rightarrow> fail (Errorf ''secret value is empty'' [])
     | Some s \<Rightarrow> if TrimSpace s = [] then fail (Errorf ''secret value is empty'' []) else ret s)))"

section \<open>Transactions\<close>

text \<open>The error of a failed rollback carries the transaction's error; the text of the rollback's is left out.\<close>

definition withinTx ::
  "('w, 't) op option \<Rightarrow> ('t \<Rightarrow> ('w, unit) op) \<Rightarrow> ('t \<Rightarrow> ('w, unit) op) \<Rightarrow> ('t \<Rightarrow> ('w, unit) op) option \<Rightarrow> ('w, unit) op" where
  "withinTx start commit rollback action =
     bindE (required start (Errorf ''transaction begin function is required'' [])) (\<lambda>start.
     bindE (required action (Errorf ''transaction function is required'' [])) (\<lambda>act.
     bindE (wrapE ''begin transaction'' start) (\<lambda>tx.
     bindE (attemptE (act tx)) (\<lambda>r.
     case r of
       Inl e \<Rightarrow>
         bindE (attemptE (rollback tx)) (\<lambda>undone.
         case undone of
           Inl rollbackErr \<Rightarrow> fail (Wrapf ''transaction failed: %w; rollback failed: %v'' e)
         | Inr _ \<Rightarrow> fail e)
     | Inr _ \<Rightarrow> wrapE ''commit transaction'' (commit tx)))))"

text \<open>What a database promises of its transactions: nothing is visible before a commit that succeeds.\<close>

locale transactions =
  fixes start :: "('w, 't) op" and commit rollback :: "'t \<Rightarrow> ('w, unit) op"
    and committed :: "'w \<Rightarrow> 'd" and open_tx :: "'w \<Rightarrow> 'd option"
  assumes start_law: "start w = (sr, w') \<Longrightarrow> committed w' = committed w \<and>
      (\<forall>t. sr = Inr t \<longrightarrow> open_tx w' = Some (committed w))"
    and commit_law: "commit t w = (cr, w') \<Longrightarrow> open_tx w = Some d \<Longrightarrow>
      committed w' = (case cr of Inl e \<Rightarrow> committed w | Inr u \<Rightarrow> d)"
    and rollback_law: "rollback t w = (br, w') \<Longrightarrow> committed w' = committed w"
begin

lemma withinTx_atomic:
  assumes act: "\<And>t w1. committed w1 = committed w \<Longrightarrow> open_tx w1 = Some (committed w) \<Longrightarrow>
    wp (act t) (\<lambda>_ w'. committed w' = committed w \<and> (\<exists>d. open_tx w' = Some d \<and> P d)) (\<lambda>_ w'. committed w' = committed w) w1"
  shows "wp (withinTx (Some start) commit rollback (Some act)) (\<lambda>_ w'. P (committed w'))
    (\<lambda>_ w'. committed w' = committed w) w"
proof -
  have finish: "wp (commit t) (\<lambda>_ w'. P (committed w')) (\<lambda>_ w'. committed w' = committed w) w1"
    if "committed w1 = committed w" "open_tx w1 = Some d" "P d" for t w1 d
    using that by (intro wpI) (auto dest!: commit_law)
  have undo: "wp (rollback t) (\<lambda>_ w'. committed w' = committed w) (\<lambda>_ w'. committed w' = committed w) w1"
    if "committed w1 = committed w" for t w1
    using that by (intro wpI) (auto dest!: rollback_law)
  have body: "wp (bindE (attemptE (act t)) (\<lambda>r.
      case r of
        Inl e \<Rightarrow>
          bindE (attemptE (rollback t)) (\<lambda>undone.
          case undone of
            Inl rollbackErr \<Rightarrow> fail (Wrapf ''transaction failed: %w; rollback failed: %v'' e)
          | Inr _ \<Rightarrow> fail e)
      | Inr _ \<Rightarrow> wrapE ''commit transaction'' (commit t)))
      (\<lambda>_ w'. P (committed w')) (\<lambda>_ w'. committed w' = committed w) w1"
    if "committed w1 = committed w" "open_tx w1 = Some (committed w)" for t w1
    by (simp add: wp_simps, rule wp_mono [OF act [OF that]])
      (auto simp: wp_simps intro!: wp_mono [OF undo] intro: finish)
  show ?thesis unfolding withinTx_def
    by (simp add: wp_simps, rule wpI) (auto dest!: start_law intro: body)
qed

end

interpretation migration_tx: transactions "mdb_Begin (sql_db sql)" "\<lambda>_. mdb_Commit (sql_db sql)"
    "\<lambda>_. mdb_Rollback (sql_db sql)" mw_committed mw_tx for sql
  by unfold_locales
    (auto dest: migrations.Begin_law migrations.Commit_law migrations.Rollback_law)

end
