(* ===== verification/Startup.thy ===== *)
theory Startup
  imports Platform_Config Control_Plane
begin

text \<open>
  How the backend's programs start: the part of \<open>backend/cmd/control-plane/main.go\<close> that reads the
  configuration and assembles the application, and \<open>backend/cmd/migrate/main.go\<close>.

  The environment is \<open>os.Getenv\<close>. Opening a database, reading a secret and the constructors of the read
  models and of the verifier are parameters. What follows the assembly (listening, the Lambda loop), the
  time limits and the parsing of the command line are left out. A program that stops early returns its exit code.
\<close>

section \<open>The control plane\<close>

datatype 'a startup_outcome = Exited nat | Started 'a

record ('w, 'db) Platform =
  plf_Secrets :: "string \<Rightarrow> ('w, string \<Rightarrow> ('w, string option) op) op"
  plf_Open :: "DatabaseConfig \<Rightarrow> ('w, 'db) op"
  plf_ReadModels :: "'db \<Rightarrow> 'w PublicReadModelProvider"
  plf_Verifier :: "CognitoVerifierConfig \<Rightarrow> go_error + 'w CognitoVerifier"
  plf_Authenticate :: "'db \<Rightarrow> 'w CognitoVerifier \<Rightarrow> string \<Rightarrow> ('w, Subject) op"

text \<open>\<open>config.Config\<close> as the application takes it.\<close>

definition app_config :: "Config \<Rightarrow> AppConfig" where
  "app_config c = \<lparr>acf_ServiceName = cfg_ServiceName c, acf_Environment = cfg_Environment c, acf_Version = cfg_Version c\<rparr>"

definition resolve_url :: "('w, 'db) Platform \<Rightarrow> Config \<Rightarrow> DatabaseConfig \<Rightarrow> ('w, go_error + DatabaseConfig) op" where
  "resolve_url p c d =
     (if dbc_URL d = [] \<and> dbc_SecretID d \<noteq> [] then
        attemptE (bindE (plf_Secrets p (cfg_AWSRegion c)) (\<lambda>client.
                  bindE (ReadString (Some client) (dbc_SecretID d)) (\<lambda>url. ret (d\<lparr>dbc_URL := url\<rparr>))))
      else ret (Inr d))"

definition open_options ::
  "('w, 'db) Platform \<Rightarrow> CognitoVerifierConfig \<Rightarrow> DatabaseConfig \<Rightarrow>
   ('w, ((string \<Rightarrow> ('w, Subject) op) option \<times> 'w PublicReadModelProvider option) startup_outcome) op" where
  "open_options p cognito d =
     (if dbc_URL d \<noteq> [] then
        bindE (attemptE (plf_Open p d)) (\<lambda>opened.
        case opened of
          Inl e \<Rightarrow> ret (Exited 1)
        | Inr db \<Rightarrow>
            (if cognito_Enabled cognito then
               (case plf_Verifier p cognito of
                  Inl e \<Rightarrow> ret (Exited 1)
                | Inr v \<Rightarrow> ret (Started (Some (plf_Authenticate p db v), Some (plf_ReadModels p db))))
             else ret (Started (None, Some (plf_ReadModels p db)))))
      else if cognito_Enabled cognito then ret (Exited 1)
      else ret (Started (None, None)))"

definition start_control_plane :: "('w, 'db) Platform \<Rightarrow> (string \<Rightarrow> string) \<Rightarrow> ('w, ('w App) startup_outcome) op" where
  "start_control_plane p env =
     (case Load env ''dev'' of
        Inl e \<Rightarrow> ret (Exited 2)
      | Inr c \<Rightarrow>
          bindE (resolve_url p c (LoadConfigFromEnv env)) (\<lambda>resolved.
          case resolved of
            Inl e \<Rightarrow> ret (Exited 1)
          | Inr d \<Rightarrow>
              bindE (open_options p (LoadCognitoConfigFromEnv env) d) (\<lambda>options.
              case options of
                Exited code \<Rightarrow> ret (Exited code)
              | Started (human, models) \<Rightarrow> ret (Started (NewApp (app_config c) human models)))))"

text \<open>
  What the operator configured is what the started application has: human authentication exactly if
  Cognito is configured, read models exactly if a database is.
\<close>

lemma open_options_post:
  "wp (open_options p cognito d)
     (\<lambda>r _. \<forall>human models. r = Started (human, models) \<longrightarrow>
        (human \<noteq> None \<longleftrightarrow> cognito_Enabled cognito) \<and> (models \<noteq> None \<longleftrightarrow> dbc_URL d \<noteq> []) \<and> (human \<noteq> None \<longrightarrow> models \<noteq> None))
     (\<lambda>_ _. False) w"
proof -
  have "wp (plf_Open p d) (\<lambda>_ _. True) (\<lambda>_ _. True) w" by (rule wpI) simp_all
  then show ?thesis
    by (auto simp: open_options_def wp_simps split: sum.split elim!: wp_mono)
qed

lemma resolve_url_post:
  "wp (resolve_url p c d) (\<lambda>r _. \<forall>d'. r = Inr d' \<longrightarrow>
      (dbc_URL d' \<noteq> [] \<longleftrightarrow> dbc_URL d \<noteq> [] \<or> dbc_SecretID d \<noteq> [])) (\<lambda>_ _. False) w"
proof -
  have read: "wp (ReadString (Some client) i) (\<lambda>url _. url \<noteq> []) (\<lambda>_ _. True) w1" for client i w1
  proof -
    have "wp (client (TrimSpace i)) (\<lambda>_ _. True) (\<lambda>_ _. True) w1" by (rule wpI) simp_all
    then show ?thesis by (auto simp: ReadString_def wp_simps Let_def split: option.split elim!: wp_mono)
  qed
  have "wp (plf_Secrets p (cfg_AWSRegion c)) (\<lambda>_ _. True) (\<lambda>_ _. True) w" by (rule wpI) simp_all
  then show ?thesis
    by (auto simp: resolve_url_def wp_simps elim!: wp_mono intro!: wp_mono [OF read])
qed

lemma started_as_configured_wp:
  "wp (start_control_plane p env)
     (\<lambda>r _. \<forall>a. r = Started a \<longrightarrow>
        (app_humanAuthenticator a \<noteq> None \<longleftrightarrow> cognito_Enabled (LoadCognitoConfigFromEnv env)) \<and>
        (app_publicReadModels a \<noteq> None \<longleftrightarrow>
           dbc_URL (LoadConfigFromEnv env) \<noteq> [] \<or> dbc_SecretID (LoadConfigFromEnv env) \<noteq> []) \<and>
        (app_humanAuthenticator a \<noteq> None \<longrightarrow> app_publicReadModels a \<noteq> None) \<and>
        acf_Environment (app_cfg a) \<in> {''local'', ''test'', ''staging'', ''production''})
     (\<lambda>_ _. False) w"
proof (cases "Load env ''dev''")
  case (Inr c)
  then have environment: "cfg_Environment c \<in> {''local'', ''test'', ''staging'', ''production''}"
    by (auto simp: Load_def Let_def validateEnvironment_def split: option.splits if_splits)
  show ?thesis
    unfolding start_control_plane_def Inr sum.case
    by (simp add: wp_simps, rule wp_mono [OF resolve_url_post])
      (use environment in \<open>auto simp: wp_simps NewApp_def app_config_def split: sum.split startup_outcome.split
        intro!: wp_mono [OF open_options_post]\<close>)
qed (simp add: start_control_plane_def wp_simps)

section \<open>The migration command\<close>

text \<open>A line on the standard output, or an exit code with what was printed before.\<close>

definition shortChecksum :: "string \<Rightarrow> string" where
  "shortChecksum checksum = take 12 checksum"

definition printFilesystemPlan :: "Migration list \<Rightarrow> string list" where
  "printFilesystemPlan ms =
     (if ms = [] then [''No migrations found'']
      else map (\<lambda>m. ''Migration '' @ mig_Version m @ '' '' @ mig_Filename m @ '' checksum='' @ shortChecksum (mig_Checksum m)) ms)"

definition printStatus :: "MigrationStatus list \<Rightarrow> string list" where
  "printStatus ss = map (\<lambda>s. (if mst_Applied s = None then ''pending'' else ''applied'') @ '' '' @
     mig_Version (mst_Migration s) @ '' '' @ mig_Filename (mst_Migration s) @ '' checksum='' @
     shortChecksum (mig_Checksum (mst_Migration s))) ss"

definition printApplied :: "Migration list \<Rightarrow> string list" where
  "printApplied ms =
     (if ms = [] then [''No pending migrations'']
      else map (\<lambda>m. ''Applied '' @ mig_Version m @ '' '' @ mig_Filename m) ms)"

definition exit_with :: "nat \<Rightarrow> ('w, 'a) op \<Rightarrow> ('a \<Rightarrow> ('w, 'b startup_outcome) op) \<Rightarrow> ('w, 'b startup_outcome) op" where
  "exit_with code m f = bindE (attemptE m) (\<lambda>r. case r of Inl e \<Rightarrow> ret (Exited code) | Inr a \<Rightarrow> f a)"

definition run_database ::
  "(DatabaseConfig \<Rightarrow> ('w, 'w MigrationDB) op) \<Rightarrow> (string \<Rightarrow> string) \<Rightarrow> string \<Rightarrow> string \<Rightarrow> Migration list \<Rightarrow>
   ('w, string list startup_outcome) op" where
  "run_database opendb env mode databaseURL ms =
     (let url = (if databaseURL = [] then dbc_URL (LoadConfigFromEnv env) else databaseURL) in
      if url = [] then ret (Exited 2)
      else
        exit_with 1 (opendb ((LoadConfigFromEnv env)\<lparr>dbc_URL := url\<rparr>)) (\<lambda>db.
        let runner = \<lparr>rnr_DB = Some db, rnr_Migrations = ms\<rparr> in
        if mode = ''status'' then exit_with 1 (runner_Status runner) (\<lambda>ss. ret (Started (printStatus ss)))
        else exit_with 1 (Apply runner) (\<lambda>applied. ret (Started (printApplied applied)))))"

definition migrate_command ::
  "(string \<Rightarrow> ('w, Migration list) op) \<Rightarrow> (DatabaseConfig \<Rightarrow> ('w, 'w MigrationDB) op) \<Rightarrow> (string \<Rightarrow> string) \<Rightarrow>
   string \<Rightarrow> string \<Rightarrow> string \<Rightarrow> ('w, string list startup_outcome) op" where
  "migrate_command load opendb env mode dir databaseURL =
     exit_with 1 (load dir) (\<lambda>ms.
     if mode = ''plan'' then ret (Started (printFilesystemPlan ms))
     else if mode = ''status'' \<or> mode = ''up'' then run_database opendb env mode databaseURL ms
     else ret (Exited 2))"

text \<open>The mode \<open>status\<close> leaves the database as it is, whatever fails.\<close>

context migration_db
begin

lemma status_keeps:
  assumes opened_db: "\<And>c w r w'. opendb c w = (r, w') \<Longrightarrow> committed w' = committed w \<and> (\<forall>d. r = Inr d \<longrightarrow> d = db)"
  shows "wp (run_database opendb env ''status'' url ms) (\<lambda>_ w'. committed w' = committed w) (\<lambda>_ w'. committed w' = committed w) w"
proof -
  have ensure: "wp (mdb_EnsureTable db) (\<lambda>_ w'. committed w' = committed w) (\<lambda>_ w'. committed w' = committed w) w1"
    if "committed w1 = committed w" for w1
    using that by (intro wpI) (auto dest: Ensure_law)
  have applied: "wp (mdb_Applied db) (\<lambda>_ w'. committed w' = committed w) (\<lambda>_ w'. committed w' = committed w) w1"
    if "committed w1 = committed w" for w1
    using that by (intro wpI) (auto dest: Applied_law)
  have status: "wp (runner_Status \<lparr>rnr_DB = Some db, rnr_Migrations = ms\<rparr>)
      (\<lambda>_ w'. committed w' = committed w) (\<lambda>_ w'. committed w' = committed w) w1"
    if "committed w1 = committed w" for w1
    unfolding runner_Status_def runner_applied_def ensureSchemaTable_def
    by (simp add: wp_simps, rule wp_mono [OF ensure [OF that]])
      (simp_all add: wp_simps, rule wp_mono [OF applied], simp_all add: wp_simps)
  have opened: "wp (opendb c) (\<lambda>d w'. d = db \<and> committed w' = committed w) (\<lambda>_ w'. committed w' = committed w) w" for c
    by (rule wpI) (auto dest: opened_db)
  show ?thesis
    unfolding run_database_def exit_with_def Let_def
    by (auto simp: wp_simps intro!: wp_mono [OF opened]) (auto simp: wp_simps intro!: wp_mono [OF status])
qed

end

section \<open>Properties\<close>

text \<open>C12: The control plane that starts is the one that was configured. It authenticates users exactly
  if Cognito is configured and has read models exactly if a database is, never an authenticator without read
  models, and its environment is one of the four launch environments. Whatever fails, it does not start with less.
\<close>

theorem started_as_configured:
  assumes "start_control_plane p env w = (Inr (Started a), w')"
  shows "(app_humanAuthenticator a \<noteq> None \<longleftrightarrow> cognito_Enabled (LoadCognitoConfigFromEnv env)) \<and>
    (app_publicReadModels a \<noteq> None \<longleftrightarrow>
       dbc_URL (LoadConfigFromEnv env) \<noteq> [] \<or> dbc_SecretID (LoadConfigFromEnv env) \<noteq> []) \<and>
    \<not> (app_humanAuthenticator a \<noteq> None \<and> app_publicReadModels a = None) \<and>
    acf_Environment (app_cfg a) \<in> {''local'', ''test'', ''staging'', ''production''}"
  using wp_InrD [OF started_as_configured_wp assms] by blast

definition demo_env :: "string \<Rightarrow> string" where
  "demo_env name =
     (if name = ''HOMESIGNAL_ENV'' then ''staging'' else if name = ''HOMESIGNAL_DATABASE_SECRET_ID'' then ''db''
      else if name = ''HOMESIGNAL_COGNITO_ISSUER'' then ''https://i'' else if name = ''HOMESIGNAL_COGNITO_CLIENT_ID'' then ''c''
      else [])"

definition startup_verifier :: "unit CognitoVerifier" where
  "startup_verifier =
     \<lparr>cgv_cfg = LoadCognitoConfigFromEnv demo_env,
      cgv_jwks = \<lparr>jws_url = [], jws_get = (\<lambda>_. fail (Errorf ''no answer'' [])),
        jws_cache = (\<lambda>_. \<lparr>jwc_keys = None, jwc_expiresAt = 0\<rparr>), jws_set_cache = (\<lambda>_ w. w), jws_now = Pair 0\<rparr>,
      cgv_Now = Pair 0\<rparr>"

definition demo_platform :: "(unit, string) Platform" where
  "demo_platform =
     \<lparr>plf_Secrets = (\<lambda>region. ret (\<lambda>i. ret (Some (''postgres://'' @ i)))), plf_Open = (\<lambda>c. ret (dbc_URL c)),
      plf_ReadModels = (\<lambda>db. \<lparr>rmp_Dashboard = (\<lambda>_. ret None), rmp_Devices = (\<lambda>_. ret None), rmp_Activity = (\<lambda>_. ret None)\<rparr>),
      plf_Verifier = (\<lambda>c. Inr startup_verifier), plf_Authenticate = (\<lambda>db v header. fail (Errorf ''refused'' []))\<rparr>"

lemma demo_texts:
  "TrimSpace ''https://i'' = ''https://i''" "TrimSpace ''db'' = ''db''" "TrimSpace ''postgres://db'' = ''postgres://db''"
  by code_simp+

lemma demo_started: "\<exists>a. start_control_plane demo_platform demo_env () = (Inr (Started a), ())"
  by (simp add: start_control_plane_def resolve_url_def open_options_def Load_def LoadConfigFromEnv_def demo_env_def
      getenvDefault_def validateEnvironment_def first_set_def ReadString_def demo_platform_def op_defs Let_def
      cognito_Enabled_def LoadCognitoConfigFromEnv_def demo_texts envInt_def envDuration_def)

theorem started_as_configured_witness:
  "\<exists>a. start_control_plane demo_platform demo_env () = (Inr (Started a), ()) \<and>
     app_humanAuthenticator a \<noteq> None \<and> app_publicReadModels a \<noteq> None"
proof -
  obtain a where a: "start_control_plane demo_platform demo_env () = (Inr (Started a), ())" using demo_started by blast
  have "cognito_Enabled (LoadCognitoConfigFromEnv demo_env)" "dbc_SecretID (LoadConfigFromEnv demo_env) \<noteq> []"
    by (simp_all add: cognito_Enabled_def LoadCognitoConfigFromEnv_def LoadConfigFromEnv_def demo_env_def demo_texts)
  with started_as_configured [OF a] a show ?thesis by blast
qed

end
