(* ===== verification/Spec2Isabelle.thy ===== *)
theory Spec2Isabelle
  imports Command_Store Agent_Artifacts Alert_Tables Recipient_Store Notification_Store Telemetry_Ingest
    Enrollment_Properties Release_Properties Rollout_Tables Backup_Store Diagnostics_Store Artifact_Store Control_Store
    Migration_Store Telemetry_Server_Store Read_Model_Store Lambda_Runtime Agent_Runtime Startup
begin

text \<open>
  A verification development for HomeSignal, the remote management of Home Assistant installations: the Go
  programs under \<open>backend/\<close> (control plane), \<open>telemetry-ingest/\<close> (ingest service) and
  \<open>homesignal/cmd/agent/\<close> (the agent that runs as a Home Assistant app).

  \<^bold>\<open>The program.\<close> The control plane keeps devices, commands, alerts, releases and their read models in Postgres.
  It creates commands for devices and announces them by MQTT notices; the agent of a device fetches a
  command, decides on it, acknowledges it and returns its result, and uploads artifacts to signed URLs. The
  agent enrolls its device: it opens a pairing session, waits for the approval, provisions a certificate
  and has the claim confirmed. The ingest service takes runtime messages and lifecycle events of devices,
  checks them and writes them to the telemetry tables that the read models of the web application show.

  \<^bold>\<open>How the code is modelled.\<close> A struct is a record (its fields have a prefix of three letters), an enumeration
  the strings it is in the code, or a datatype where no text of it is read. Strings are byte strings. A
  function that can fail returns \<open>go_error + 'a\<close>. A method of a service is an operation
  \<open>'w \<Rightarrow> (go_error + 'a) \<times> 'w\<close> on the world of its interfaces, written with the combinators of
  \<open>Go_Base\<close> in the order of the code, early returns included. An interface (repository, clock, HTTP client, file
  system) is a record of operations; what the code relies on is a locale over it, the client's lemmas are
  proved in the locale, and the locale is interpreted on a store that fails by a schedule of faults. Where the code's
  store is SQL, the store has the keys and constraints of the migrations and the statements of the code.
  Durations and instants are integers of nanoseconds; 64-bit integers are checked or wrapped where the code parses or
  converts them; SHA-256 works on 32-bit words.

  \<^bold>\<open>The theories.\<close>

  \<^item> The language and its library: \<open>Go_Base\<close> (errors, operations, \<open>wp\<close>), \<open>Go_Strings\<close>, \<open>Go_Time\<close>, \<open>Go_Json\<close>,
    \<open>Go_Json_Values\<close> and \<open>Go_Decode\<close> (\<open>encoding/json\<close>), \<open>Go_Crypto_Url\<close>, \<open>Go_Files\<close>, \<open>Go_Http\<close>.
  \<^item> Commands (\<open>backend/internal/domain/commands\<close>): \<open>Commands\<close> models \<open>service.go\<close>, \<open>Command_Notice\<close> the notices.
    \<open>Command_Lifecycle\<close> is the abstract machine of a command and the proof that the service refines it over every
    repository; \<open>Command_Store\<close> is the repository of the tests, \<open>Command_Clients\<close> the service as others call it.
  \<^item> The agent (\<open>homesignal/cmd/agent\<close>): \<open>Agent_Commands\<close> (\<open>command_receiver.go\<close>), \<open>Agent_Artifacts\<close>
    (\<open>artifact_upload_handler.go\<close>), \<open>Enrollment_Types\<close> and \<open>Enrollment\<close> (\<open>enrollment_*.go\<close>), with the claim machine in
    \<open>Enrollment_Machine\<close>, the files in \<open>Enrollment_Store\<close>, sequences of runs in \<open>Enrollment_Claims\<close>, the properties in
    \<open>Enrollment_Properties\<close>; \<open>Http_Clients\<close> (\<open>enrollment_clients.go\<close>) and \<open>Agent_Runtime\<close> (\<open>main.go\<close>, \<open>ui.go\<close>).
  \<^item> Alerts (\<open>domain/alerting\<close>): \<open>Alerting\<close> with the machine in \<open>Alert_Store\<close> and the tables in \<open>Alert_Tables\<close>;
    \<open>Alert_Recipients\<close> and \<open>Recipient_Store\<close>; \<open>Notifications\<close> and \<open>Notification_Store\<close> (\<open>domain/notifications\<close>).
  \<^item> Telemetry (\<open>telemetry-ingest/internal\<close>): \<open>Telemetry_Types\<close>, \<open>Telemetry_Envelope\<close>, \<open>Health_Snapshot\<close>,
    \<open>Telemetry_Pipeline\<close> (\<open>pipeline/\<close>), \<open>Telemetry_Store\<close> and \<open>Telemetry_Ingest\<close> (its memory stores and sequences of
    ingests), \<open>Telemetry_Database\<close> (\<open>storage/postgres\<close>) with \<open>Telemetry_Presence\<close>, \<open>Telemetry_Server\<close> (\<open>app/server.go\<close>)
    and \<open>Telemetry_Server_Store\<close>, the service over its database.
  \<^item> Releases (\<open>domain/releases\<close>, \<open>domain/edgestate\<close>, \<open>domain/updates\<close>): \<open>Release_Versions\<close>, \<open>Releases\<close>,
    \<open>Release_Store\<close>, \<open>HA_Versions\<close>, \<open>HA_Store\<close>, \<open>Release_Properties\<close>, \<open>Rollouts\<close>, \<open>Rollout_Store\<close>, \<open>Rollout_Tables\<close>.
  \<^item> Backups, diagnostics and uploads: \<open>Backups\<close>, \<open>Backup_Store\<close>, \<open>Diagnostics\<close>, \<open>Diagnostics_Store\<close>,
    \<open>Artifact_Uploads\<close>, \<open>Artifact_Store\<close> (\<open>domain/backups\<close>, \<open>domain/diagnostics\<close>, \<open>domain/artifacts\<close>, \<open>platform/objectstore\<close>).
  \<^item> The control plane's shell: \<open>Authn\<close>, \<open>Authn_Store\<close> (\<open>platform/authn\<close>, \<open>domain/authorization\<close>), \<open>Control_Plane\<close>,
    \<open>Control_Store\<close> (\<open>internal/controlplane\<close>, \<open>platform/api\<close>), \<open>Lambda_Proxy\<close>, \<open>Lambda_Runtime\<close> (\<open>internal/lambdaproxy\<close>),
    \<open>Read_Models\<close>, \<open>Read_Model_Store\<close> (\<open>platform/readmodels\<close>), \<open>Migrations\<close>, \<open>Migration_Store\<close> (\<open>platform/migration\<close>),
    \<open>Platform_Config\<close> (\<open>platform/config\<close>, \<open>database\<close>, \<open>secrets\<close>), \<open>Startup\<close> (\<open>cmd/control-plane\<close>, \<open>cmd/migrate\<close>);
    \<open>Http_Clients\<close> also has \<open>platform/email\<close> and \<open>platform/hacatalog\<close>.

  \<^bold>\<open>Abstract specifications.\<close> The lifecycle of a command (\<open>lifecycle_step\<close>), the alert machine, the claim of a
  device (\<open>claim_step\<close>), the presence of a device as a fold over its lifecycle events, the telemetry tables as a fold over
  the messages that were written, the schema as the recorded migrations applied to the empty one, the
  release catalog as the last accepted registrations, and the order of versions. Each has a refinement theorem over arbitrary sequences of calls, with failing interfaces.

  \<^bold>\<open>What is shown.\<close> Invariants hold in every reachable store: of commands and their results, alerts and their
  events, recipients, artifacts and channels, rollout assignments, upload slots, backup runs, device records,
  telemetry tables and the schema. Safety: who is authenticated holds a token signed by a served key, a read
  model is read only for such a user and shows only the devices of the user's accounts, an allowed action rests on an
  active membership or grant; a terminal command and a recorded message are never written again; the agent executes only
  a command it knows, whose detail it checked; claim material is removed. Functional and round trip: what an HTTP
  answer of the ingest service says about the tables, the numbers of the dashboard, the compatibility of a
  version, the eligible recipients, the replay of an idempotent request, the topic of a command, the capability of an
  upload accepted by the agent. Bounds: the requests a rate limit lets through. Termination and liveness: the handler is
  total, the Lambda loop returns and answers what it took, an approved claim completes. Where the code does other than
  the design documents ask (a disconnect counts at once, a registered release can be replaced), the theorems state what
  the code does.

  \<^bold>\<open>Locales.\<close> \<open>command_contract\<close>, \<open>agent_contract\<close>, \<open>artifact_contract\<close> (of the agent and of the uploads, in their
  theories), \<open>alert_contract\<close>, \<open>recipient_contract\<close> and \<open>recipient_frame\<close>, \<open>notification_contract\<close>, \<open>ingest_contract\<close> and \<open>healthy_ingest\<close>,
  \<open>file_system\<close> and \<open>agent_files\<close>, \<open>release_contract\<close>, \<open>ha_contract\<close>, \<open>update_contract\<close>, \<open>backup_contract\<close>,
  \<open>diagnostics_contract\<close>, \<open>jwks_contract\<close>, \<open>control_contract\<close>, \<open>migration_db\<close>, \<open>transactions\<close>, \<open>http_client\<close>,
  \<open>lambda_runtime\<close>. Each is interpreted in the development on the stores of its theory; \<open>ingest_contract\<close> twice, on
  the memory stores and on the database, \<open>transactions\<close> on the database of the migrations.

  \<^bold>\<open>Bounds and fuel.\<close> The JSON parser spends at most two units of fuel per byte and has \<open>2 * length s + 1\<close>; nesting
  stops at 10000 as in Go. Other loops are structural, have a measure, or, for the Lambda loop, are a partial
  function that is proved to return for every finite queue of invocations.

  \<^bold>\<open>Not modelled.\<close>

  \<^item> Mutexes, goroutines, contexts and time limits: an operation runs to its end, and interleavings are sequences of
    operations (an idempotent request is two). Aliasing of slices and maps does not occur in what is modelled.
  \<^item> Texts of errors: an error keeps its format and arguments; of a decoding error only that it happened.
  \<^item> RSA, X.509, the S3 presigner, the SQL driver, the AWS clients, \<open>mail.ParseAddress\<close>, the transport of HTTP: parameters,
    with laws only where a theorem needs one. Directories and permissions of files.
  \<^item> In the SQL stores: collations, the stamps a default \<open>now()\<close> gives, the activity query and the JSON path operator
    (parameters). IPv6 zones in URLs, JSON escapes inside the text of an instant.
  \<^item> The listeners and signals of the programs, the request log, the redirects of \<open>ServeMux\<close>.
  \<^item> \<open>domain/ports\<close> (interfaces and fakes no program uses), the operators' tools \<open>cmd/staging-fixtures\<close> and
    \<open>cmd/staging-portal-user\<close>, the start of the ingest service (\<open>telemetry-ingest/cmd\<close>), which only wires modelled parts.
\<close>

end
